(* ===== verification/Prelude.thy ===== *)
theory Prelude
  imports Main "HOL-Library.Word" "HOL-Library.Monad_Syntax"
begin

unbundle bit_operations_syntax

text \<open>
  The vocabulary the component theories share: machine words, checked array access, the
  predicate \<open>yields\<close> for computations that may be undefined, and generic
  lemmas on lists and words.

  A C function of the program that can run into undefined behaviour (an array index out of
  range, \<open>__builtin_clzll(0)\<close>, a violated precondition of a buffer primitive) is modelled as a
  computation of type \<open>'a option\<close>, where \<open>None\<close> is undefined behaviour and nothing else: error
  codes of the program are ordinary values. \<open>yields m P\<close> states total correctness: the
  computation is defined and its result satisfies \<open>P\<close>.
\<close>

type_synonym u8 = "8 word"
type_synonym u16 = "16 word"
type_synonym u32 = "32 word"
type_synonym u64 = "64 word"

named_theorems wp \<open>equations that push yields through a computation\<close>
named_theorems const_simps \<open>numeric constants of the program's headers\<close>

subsection \<open>Computations that may be undefined\<close>

definition yields :: "'a option \<Rightarrow> ('a \<Rightarrow> bool) \<Rightarrow> bool" where
  "yields m P \<longleftrightarrow> (\<exists>x. m = Some x \<and> P x)"

lemma yields_None [wp, simp]: "yields None P \<longleftrightarrow> False"
  by (simp add: yields_def)

lemma yields_Some [wp, simp]: "yields (Some x) P \<longleftrightarrow> P x"
  by (simp add: yields_def)

lemma yields_bind [wp]: "yields (Option.bind m f) P \<longleftrightarrow> yields m (\<lambda>x. yields (f x) P)"
  by (cases m) (auto simp: yields_def)

lemma yields_if [wp]:
  "yields (if b then m else n) P \<longleftrightarrow> (if b then yields m P else yields n P)"
  by simp

lemma yields_mono: "yields m P \<Longrightarrow> (\<And>x. P x \<Longrightarrow> Q x) \<Longrightarrow> yields m Q"
  by (auto simp: yields_def)

lemma yields_conj: "yields m P \<Longrightarrow> yields m Q \<Longrightarrow> yields m (\<lambda>x. P x \<and> Q x)"
  by (auto simp: yields_def)

lemma yields_conjD: "yields m (\<lambda>x. P x \<and> Q x) \<Longrightarrow> yields m P \<and> yields m Q"
  by (auto simp: yields_def)

lemma yieldsE: "yields m P \<Longrightarrow> (\<And>x. m = Some x \<Longrightarrow> P x \<Longrightarrow> R) \<Longrightarrow> R"
  by (auto simp: yields_def)

lemma yields_total: "yields m P \<Longrightarrow> m \<noteq> None"
  by (auto simp: yields_def)

lemma yieldsI: "m = Some x \<Longrightarrow> P x \<Longrightarrow> yields m P"
  by (simp add: yields_def)

lemma yieldsD: "yields m P \<Longrightarrow> m = Some x \<Longrightarrow> P x"
  by (simp add: yields_def)

lemma yields_bindI: "yields m Q \<Longrightarrow> (\<And>x. Q x \<Longrightarrow> yields (f x) P) \<Longrightarrow> yields (Option.bind m f) P"
  by (auto simp: yields_def)

text \<open>\<open>ensures m P\<close> is partial: the result, when there is one, satisfies \<open>P\<close>.\<close>

named_theorems wlp \<open>equations that push ensures through a computation\<close>

definition ensures :: "'a option \<Rightarrow> ('a \<Rightarrow> bool) \<Rightarrow> bool" where
  "ensures m P \<longleftrightarrow> (\<forall>x. m = Some x \<longrightarrow> P x)"

lemma ensures_None [wlp, simp]: "ensures None P"
  by (simp add: ensures_def)

lemma ensures_Some [wlp, simp]: "ensures (Some x) P \<longleftrightarrow> P x"
  by (simp add: ensures_def)

lemma ensures_bind [wlp]: "ensures (Option.bind m f) P \<longleftrightarrow> ensures m (\<lambda>x. ensures (f x) P)"
  by (cases m) (auto simp: ensures_def)

lemma ensures_mono: "ensures m P \<Longrightarrow> (\<And>x. P x \<Longrightarrow> Q x) \<Longrightarrow> ensures m Q"
  by (auto simp: ensures_def)

lemma ensuresD: "ensures m P \<Longrightarrow> m = Some x \<Longrightarrow> P x"
  by (simp add: ensures_def)

lemma ensuresI: "(\<And>x. m = Some x \<Longrightarrow> P x) \<Longrightarrow> ensures m P"
  by (simp add: ensures_def)

lemma yields_ensures: "yields m P \<Longrightarrow> ensures m P"
  by (auto simp: yields_def ensures_def)

subsection \<open>Checked array access\<close>

definition rd :: "'a list \<Rightarrow> nat \<Rightarrow> 'a option" where
  "rd xs i = (if i < length xs then Some (xs ! i) else None)"

definition upd :: "'a list \<Rightarrow> nat \<Rightarrow> 'a \<Rightarrow> 'a list option" where
  "upd xs i v = (if i < length xs then Some (xs[i := v]) else None)"

text \<open>\<open>memcpy(dst, src + off, n)\<close> and \<open>memcpy(dst + off, src, n)\<close> on byte arrays.\<close>

definition rd_mem :: "'a list \<Rightarrow> nat \<Rightarrow> nat \<Rightarrow> 'a list option" where
  "rd_mem xs off n = (if off + n \<le> length xs then Some (take n (drop off xs)) else None)"

definition wr_mem :: "'a list \<Rightarrow> nat \<Rightarrow> 'a list \<Rightarrow> 'a list option" where
  "wr_mem xs off ys =
     (if off + length ys \<le> length xs
      then Some (take off xs @ ys @ drop (off + length ys) xs) else None)"

lemma yields_rd [wp]: "yields (rd xs i) P \<longleftrightarrow> i < length xs \<and> P (xs ! i)"
  by (simp add: rd_def)

lemma yields_upd [wp]: "yields (upd xs i v) P \<longleftrightarrow> i < length xs \<and> P (xs[i := v])"
  by (simp add: upd_def)

lemma yields_rd_mem [wp]:
  "yields (rd_mem xs off n) P \<longleftrightarrow> off + n \<le> length xs \<and> P (take n (drop off xs))"
  by (simp add: rd_mem_def)

lemma yields_wr_mem [wp]:
  "yields (wr_mem xs off ys) P \<longleftrightarrow>
     off + length ys \<le> length xs \<and> P (take off xs @ ys @ drop (off + length ys) xs)"
  by (simp add: wr_mem_def)

lemma ensures_rd [wlp]: "ensures (rd xs i) P \<longleftrightarrow> (i < length xs \<longrightarrow> P (xs ! i))"
  by (simp add: rd_def)

lemma ensures_upd [wlp]: "ensures (upd xs i v) P \<longleftrightarrow> (i < length xs \<longrightarrow> P (xs[i := v]))"
  by (simp add: upd_def)

lemma ensures_rd_mem [wlp]:
  "ensures (rd_mem xs off n) P \<longleftrightarrow> (off + n \<le> length xs \<longrightarrow> P (take n (drop off xs)))"
  by (simp add: rd_mem_def)

lemma ensures_wr_mem [wlp]:
  "ensures (wr_mem xs off ys) P \<longleftrightarrow>
     (off + length ys \<le> length xs \<longrightarrow> P (take off xs @ ys @ drop (off + length ys) xs))"
  by (simp add: wr_mem_def)

lemma rd_in [simp]: "i < length xs \<Longrightarrow> rd xs i = Some (xs ! i)"
  by (simp add: rd_def)

lemma upd_in [simp]: "i < length xs \<Longrightarrow> upd xs i v = Some (xs[i := v])"
  by (simp add: upd_def)

lemma rd_mem_in [simp]: "off + n \<le> length xs \<Longrightarrow> rd_mem xs off n = Some (take n (drop off xs))"
  by (simp add: rd_mem_def)

lemma wr_mem_in:
  "off + length ys \<le> length xs \<Longrightarrow>
     wr_mem xs off ys = Some (take off xs @ ys @ drop (off + length ys) xs)"
  by (simp add: wr_mem_def)

lemma length_wr_mem: "wr_mem xs off ys = Some zs \<Longrightarrow> length zs = length xs"
  by (auto simp: wr_mem_def split: if_splits)

subsection \<open>Counting loops\<close>

text \<open>\<open>for (j = i; j < i + k; j++)\<close> over a body that may be undefined.\<close>

fun for_loop :: "nat \<Rightarrow> nat \<Rightarrow> (nat \<Rightarrow> 's \<Rightarrow> 's option) \<Rightarrow> 's \<Rightarrow> 's option" where
  "for_loop i 0 f s = Some s"
| "for_loop i (Suc k) f s = Option.bind (f i s) (for_loop (Suc i) k f)"

lemma for_loop_inv:
  assumes "\<And>j t. i \<le> j \<Longrightarrow> j < i + k \<Longrightarrow> I j t \<Longrightarrow> yields (f j t) (I (Suc j))" and "I i s"
  shows "yields (for_loop i k f s) (I (i + k))"
  using assms
proof (induction k arbitrary: i s)
  case (Suc k)
  have "yields (f i s) (I (Suc i))" by (rule Suc.prems(1)) (simp_all add: Suc.prems(2))
  then obtain t where t: "f i s = Some t" "I (Suc i) t" by (auto elim: yieldsE)
  have "yields (for_loop (Suc i) k f t) (I (Suc i + k))"
    by (rule Suc.IH) (auto intro: Suc.prems(1) t(2))
  then show ?case by (simp add: t(1))
qed simp

lemma for_loop_pres:
  assumes "\<And>j t. j < n \<Longrightarrow> I t \<Longrightarrow> yields (f j t) I" and "I s"
  shows "yields (for_loop 0 n f s) I"
  using for_loop_inv [of 0 n "\<lambda>_. I" f s] assms by simp

lemma for_loop_ensures:
  assumes "\<And>j t. I t \<Longrightarrow> ensures (f j t) I" and "I s"
  shows "ensures (for_loop i k f s) I"
  using assms(2)
proof (induction k arbitrary: i s)
  case (Suc k)
  show ?case
    unfolding for_loop.simps ensures_bind
    by (rule ensures_mono [OF assms(1) [OF Suc.prems]]) (rule Suc.IH)
qed simp

subsection \<open>Lists whose elements all satisfy a predicate, under update\<close>

lemma list_all_nth: "list_all P xs \<Longrightarrow> i < length xs \<Longrightarrow> P (xs ! i)"
  by (simp add: list_all_length)

lemma list_all_update: "list_all P xs \<Longrightarrow> P v \<Longrightarrow> list_all P (xs[i := v])"
  by (cases "i < length xs") (auto simp: list_all_length nth_list_update)

lemma split_length:
  assumes "length xs = a + b"
  obtains ys zs where "xs = ys @ zs" "length ys = a" "length zs = b"
  using that [of "take a xs" "drop a xs"] assms by simp

subsection \<open>Little-endian bytes and other word facts\<close>

definition le16 :: "u16 \<Rightarrow> u8 list" where
  "le16 w = [ucast w, ucast (drop_bit 8 w)]"

definition le32 :: "u32 \<Rightarrow> u8 list" where
  "le32 w = [ucast w, ucast (drop_bit 8 w), ucast (drop_bit 16 w), ucast (drop_bit 24 w)]"

text \<open>The value of a word stored in memory, least significant byte first.\<close>

definition of_le16 :: "u8 list \<Rightarrow> u16" where
  "of_le16 b = ucast (b ! 0) OR push_bit 8 (ucast (b ! 1))"

definition of_le32 :: "u8 list \<Rightarrow> u32" where
  "of_le32 b = ucast (b ! 0) OR push_bit 8 (ucast (b ! 1)) OR
     push_bit 16 (ucast (b ! 2)) OR push_bit 24 (ucast (b ! 3))"

lemma length_le16 [simp]: "length (le16 w) = 2"
  by (simp add: le16_def)

lemma length_le32 [simp]: "length (le32 w) = 4"
  by (simp add: le32_def)

lemma of_le16_le16: "of_le16 (le16 w @ rest) = w"
  unfolding of_le16_def le16_def
  by (rule bit_word_eqI) (auto simp: bit_simps)

lemma of_le32_le32: "of_le32 (le32 w @ rest) = w"
  unfolding of_le32_def
  apply (rule bit_word_eqI)
  subgoal for n
    by (cases "n < 8"; cases "n < 16"; cases "n < 24")
      (auto simp: le32_def bit_simps le_add_diff_inverse)
  done

lemma unat_u8_less [simp]: "unat (w :: u8) < 256"
proof -
  have "unat w < 2 ^ LENGTH(8)" by (rule unsigned_less)
  then show ?thesis by simp
qed

lemma unat_u8_le [simp]: "unat (w :: u8) \<le> 255"
  using unat_u8_less [of w] by linarith

lemma unat_of_nat_u8: "n < 256 \<Longrightarrow> unat (of_nat n :: u8) = n"
  by (simp add: unat_of_nat)

lemma unat_of_nat_u16: "n < 65536 \<Longrightarrow> unat (of_nat n :: u16) = n"
  by (simp add: unat_of_nat)

lemma ucast_diff: "(ucast (a - b :: u64) :: u32) = ucast a - ucast b"
  by transfer (subst (2) take_bit_diff [symmetric], simp add: take_bit_diff)

lemma ucast_up_down: "(ucast (ucast (a :: u32) :: u64) :: u32) = a"
  by (rule bit_word_eqI) (simp add: bit_simps)

lemma bytes_eq_iff:
  "(\<And>n. n < LENGTH('a) \<Longrightarrow> bit a n = bit b n) \<Longrightarrow> (a :: 'a :: len word) = b"
  by (rule bit_word_eqI)

subsection \<open>Contracts of state transformers\<close>

text \<open>
  A system of steps with an invariant: the interface between the event handlers of a component,
  which each prove that they are defined and keep the invariant, and the statements about
  every reachable state.
\<close>

inductive reach :: "('s \<Rightarrow> bool) \<Rightarrow> ('s \<Rightarrow> 's \<Rightarrow> bool) \<Rightarrow> 's \<Rightarrow> bool" for ini stp where
  reach_init: "ini s \<Longrightarrow> reach ini stp s"
| reach_step: "reach ini stp s \<Longrightarrow> stp s t \<Longrightarrow> reach ini stp t"

locale transition_system =
  fixes ini :: "'s \<Rightarrow> bool" and stp :: "'s \<Rightarrow> 's \<Rightarrow> bool" and inv :: "'s \<Rightarrow> bool"
  assumes inv_init: "ini s \<Longrightarrow> inv s"
    and inv_step: "inv s \<Longrightarrow> stp s t \<Longrightarrow> inv t"
begin

lemma inv_reach: "reach ini stp s \<Longrightarrow> inv s"
  by (induction rule: reach.induct) (auto intro: inv_init inv_step)

lemma inv_steps: "stp\<^sup>*\<^sup>* s t \<Longrightarrow> inv s \<Longrightarrow> inv t"
  by (induction rule: rtranclp_induct) (auto intro: inv_step)

lemma reach_steps: "stp\<^sup>*\<^sup>* s t \<Longrightarrow> reach ini stp s \<Longrightarrow> reach ini stp t"
  by (induction rule: rtranclp_induct) (auto intro: reach_step)

end

text \<open>
  A byte codec with its domain: what an encoder and the decoder at the other end of the link
  owe each other.
\<close>

locale byte_codec =
  fixes enc :: "'v \<Rightarrow> u8 list" and dec :: "u8 list \<Rightarrow> 'v" and dom_ok :: "'v \<Rightarrow> bool" and width :: nat
  assumes enc_length: "dom_ok v \<Longrightarrow> length (enc v) = width"
    and dec_enc: "dom_ok v \<Longrightarrow> dec (enc v) = v"
begin

lemma enc_inj: "dom_ok v \<Longrightarrow> dom_ok w \<Longrightarrow> enc v = enc w \<Longrightarrow> v = w"
  by (metis dec_enc)

lemma dec_prefix: "dom_ok v \<Longrightarrow> dec (take width (enc v @ rest)) = v"
  by (simp add: enc_length dec_enc)

end

interpretation le16: byte_codec le16 of_le16 "\<lambda>_. True" 2
  by unfold_locales (simp_all add: of_le16_le16 [of _ "[]", simplified])

interpretation le32: byte_codec le32 of_le32 "\<lambda>_. True" 4
  by unfold_locales (simp_all add: of_le32_le32 [of _ "[]", simplified])

end
