(* ===== verification/Zephyr_Api.thy ===== *)
theory Zephyr_Api
  imports Prelude
begin

unbundle bit_operations_syntax

text \<open>
  The platform the firmware runs on. Zephyr, the Bluetooth host and the Nordic drivers are not in
  the repository, so every function of theirs whose result the code uses is a field of the record
  \<open>zephyr\<close>, an argument of the definitions that use it. \<open>zephyr_ok\<close> lists what their documentation
  promises and the code relies on; it is a hypothesis of the theorems that need it.
  \<open>zephyr_ref\<close> is a concrete platform, used to show that the hypothesis can hold.

  A field that returns an \<open>option\<close> is a primitive with a documented precondition (an assertion of
  Zephyr); outside the precondition its value is not constrained.
  The state machine framework calls back into the program, so the record is polymorphic in the
  program's state.
\<close>

subsection \<open>Error numbers and assigned numbers\<close>

abbreviation (input) EIO :: int where "EIO \<equiv> 5"
abbreviation (input) ENOENT :: int where "ENOENT \<equiv> 2"
abbreviation (input) ENXIO :: int where "ENXIO \<equiv> 6"
abbreviation (input) ENOMEM :: int where "ENOMEM \<equiv> 12"
abbreviation (input) EBUSY :: int where "EBUSY \<equiv> 16"
abbreviation (input) EINVAL :: int where "EINVAL \<equiv> 22"

text \<open>Assigned numbers of the Bluetooth Core specification.\<close>

abbreviation (input) BT_HCI_ERR_AUTH_FAIL :: u8 where "BT_HCI_ERR_AUTH_FAIL \<equiv> 0x05"
abbreviation (input) BT_HCI_ERR_REMOTE_USER_TERM_CONN :: u8 where "BT_HCI_ERR_REMOTE_USER_TERM_CONN \<equiv> 0x13"
abbreviation (input) BT_HCI_ERR_LOCALHOST_TERM_CONN :: u8 where "BT_HCI_ERR_LOCALHOST_TERM_CONN \<equiv> 0x16"
abbreviation (input) BT_HCI_ERR_ADV_TIMEOUT :: u8 where "BT_HCI_ERR_ADV_TIMEOUT \<equiv> 0x3c"
abbreviation (input) BT_DATA_ENCRYPTED_AD_DATA :: u8 where "BT_DATA_ENCRYPTED_AD_DATA \<equiv> 0x31"
abbreviation (input) BT_ATT_ERR_INVALID_ATTRIBUTE_LEN :: int where "BT_ATT_ERR_INVALID_ATTRIBUTE_LEN \<equiv> 0x0d"
abbreviation (input) BT_ATT_ERR_VALUE_NOT_ALLOWED :: int where "BT_ATT_ERR_VALUE_NOT_ALLOWED \<equiv> 0x13"
abbreviation (input) BT_GATT_ERR :: "int \<Rightarrow> int" where "BT_GATT_ERR x \<equiv> - x"
abbreviation (input) BT_OTS_OBJ_ID_MIN :: u64 where "BT_OTS_OBJ_ID_MIN \<equiv> 0x100"

abbreviation (input) BT_GAP_ADV_FAST_INT_MIN_2 :: u16 where "BT_GAP_ADV_FAST_INT_MIN_2 \<equiv> 0x00a0"
abbreviation (input) BT_GAP_ADV_FAST_INT_MAX_2 :: u16 where "BT_GAP_ADV_FAST_INT_MAX_2 \<equiv> 0x00f0"

subsection \<open>The interface\<close>

text \<open>
  \<open>('s, 'm) zephyr\<close>: \<open>'s\<close> is the program's state, \<open>'m\<close> the type of its state-machine states.
  The functions are, in order: \<open>atomic_test_bit\<close>, \<open>atomic_set_bit\<close>, \<open>atomic_clear_bit\<close>;
  \<open>sys_get_le16\<close>, \<open>sys_get_le32\<close> and \<open>sys_mem_swap\<close>; \<open>net_buf_simple_add_mem\<close> (with
  \<open>net_buf_simple_add_u8\<close> as the one-byte case, the capacity of the buffer its first argument),
  \<open>net_buf_simple_remove_mem\<close> and \<open>net_buf_simple_pull\<close>; \<open>smf_set_state\<close> with the exit and entry
  actions of the state table, the accessor and the update of the current state in the context;
  \<open>bt_ead_encrypt\<close> and \<open>bt_ead_decrypt\<close> (session key, initialisation vector, input; result code
  and output), \<open>BT_EAD_DECRYPTED_PAYLOAD_SIZE\<close>; \<open>bt_gatt_attr_read\<close> (length, offset, value; returned
  size and bytes); \<open>settings_save_one\<close> and \<open>settings_delete\<close> on the store of settings;
  \<open>bt_ots_obj_add\<close> with the service's object-created callback.
\<close>

type_synonym settings = "string \<Rightarrow> u8 list option"

record ('s, 'm) zephyr =
  z_test_bit :: "u32 \<Rightarrow> nat \<Rightarrow> bool"
  z_set_bit :: "u32 \<Rightarrow> nat \<Rightarrow> u32"
  z_clear_bit :: "u32 \<Rightarrow> nat \<Rightarrow> u32"
  z_get_le16 :: "u8 list \<Rightarrow> u16"
  z_get_le32 :: "u8 list \<Rightarrow> u32"
  z_mem_swap :: "u8 list \<Rightarrow> u8 list"
  z_nb_add :: "nat \<Rightarrow> u8 list \<Rightarrow> u8 list \<Rightarrow> u8 list option"
  z_nb_remove :: "u8 list \<Rightarrow> nat \<Rightarrow> u8 list option"
  z_nb_pull :: "u8 list \<Rightarrow> nat \<Rightarrow> u8 list option"
  z_smf_set_state ::
    "('m \<Rightarrow> 's \<Rightarrow> 's option) \<Rightarrow> ('m \<Rightarrow> 's \<Rightarrow> 's option) \<Rightarrow> ('s \<Rightarrow> 'm) \<Rightarrow> ('m \<Rightarrow> 's \<Rightarrow> 's) \<Rightarrow> 'm \<Rightarrow> 's \<Rightarrow> 's option"
  z_smf_set_initial ::
    "('m \<Rightarrow> 's \<Rightarrow> 's option) \<Rightarrow> ('m \<Rightarrow> 's \<Rightarrow> 's) \<Rightarrow> 'm \<Rightarrow> 's \<Rightarrow> 's option"
  z_ead_encrypt :: "u8 list \<Rightarrow> u8 list \<Rightarrow> u8 list \<Rightarrow> int \<times> u8 list"
  z_ead_decrypt :: "u8 list \<Rightarrow> u8 list \<Rightarrow> u8 list \<Rightarrow> int \<times> u8 list"
  z_ead_decrypted_size :: "nat \<Rightarrow> nat"
  z_gatt_attr_read :: "nat \<Rightarrow> nat \<Rightarrow> u8 list \<Rightarrow> int \<times> u8 list"
  z_settings_save :: "string \<Rightarrow> u8 list \<Rightarrow> settings \<Rightarrow> int \<times> settings"
  z_settings_delete :: "string \<Rightarrow> settings \<Rightarrow> int \<times> settings"
  z_ots_obj_add :: "(u64 \<Rightarrow> 's \<Rightarrow> (int \<times> 's) option) \<Rightarrow> 's \<Rightarrow> (int \<times> 's) option"

definition bits_ok :: "('s, 'm) zephyr \<Rightarrow> bool" where
  "bits_ok z \<longleftrightarrow>
     (\<forall>w n. n < 32 \<longrightarrow> z_test_bit z w n = bit w n) \<and>
     (\<forall>w n. n < 32 \<longrightarrow> z_set_bit z w n = set_bit n w) \<and>
     (\<forall>w n. n < 32 \<longrightarrow> z_clear_bit z w n = unset_bit n w)"

definition bytes_ok :: "('s, 'm) zephyr \<Rightarrow> bool" where
  "bytes_ok z \<longleftrightarrow>
     (\<forall>w rest. z_get_le16 z (le16 w @ rest) = w) \<and>
     (\<forall>w rest. z_get_le32 z (le32 w @ rest) = w) \<and>
     (\<forall>xs. z_mem_swap z xs = rev xs)"

definition net_buf_ok :: "('s, 'm) zephyr \<Rightarrow> bool" where
  "net_buf_ok z \<longleftrightarrow>
     (\<forall>cap b xs. length b + length xs \<le> cap \<longrightarrow> z_nb_add z cap b xs = Some (b @ xs)) \<and>
     (\<forall>b n. n \<le> length b \<longrightarrow> z_nb_remove z b n = Some (take (length b - n) b)) \<and>
     (\<forall>b n. n \<le> length b \<longrightarrow> z_nb_pull z b n = Some (drop n b))"

text \<open>
  \<open>smf_set_state\<close> runs the exit action of the current state, makes the target the current state
  and runs its entry action; \<open>smf_set_initial\<close> makes the initial state current and enters it.
\<close>

definition smf_ok :: "('s, 'm) zephyr \<Rightarrow> bool" where
  "smf_ok z \<longleftrightarrow>
     (\<forall>exit entry cur put tgt s.
        z_smf_set_state z exit entry cur put tgt s =
          Option.bind (exit (cur s) s) (\<lambda>s1. entry tgt (put tgt s1))) \<and>
     (\<forall>entry put tgt s. z_smf_set_initial z entry put tgt s = entry tgt (put tgt s))"

text \<open>
  Encrypted Advertising Data: 5 bytes of randomizer before and 4 bytes of message integrity
  check after the encrypted payload, and decryption inverts encryption under the same key
  material. Decryption writes the payload whether or not the check succeeds, and rejects an
  input that has no room for randomizer and check.
\<close>

definition ead_ok :: "('s, 'm) zephyr \<Rightarrow> bool" where
  "ead_ok z \<longleftrightarrow>
     (\<forall>k iv p. length k = 16 \<longrightarrow> length iv = 8 \<longrightarrow>
        fst (z_ead_encrypt z k iv p) = 0 \<and>
        length (snd (z_ead_encrypt z k iv p)) = length p + 9 \<and>
        z_ead_decrypt z k iv (snd (z_ead_encrypt z k iv p)) = (0, p)) \<and>
     (\<forall>k iv c. length (snd (z_ead_decrypt z k iv c)) = length c - 9 \<and>
        (length c < 9 \<longrightarrow> fst (z_ead_decrypt z k iv c) \<noteq> 0)) \<and>
     (\<forall>n. 9 \<le> n \<longrightarrow> z_ead_decrypted_size z n = n - 9)"

text \<open>A read of a whole attribute value from offset 0 returns its bytes.\<close>

definition gatt_ok :: "('s, 'm) zephyr \<Rightarrow> bool" where
  "gatt_ok z \<longleftrightarrow>
     (\<forall>len v. length v \<le> len \<longrightarrow> z_gatt_attr_read z len 0 v = (int (length v), v))"

text \<open>A save or delete either succeeds (result 0) or leaves the store as it was.\<close>

definition settings_ok :: "('s, 'm) zephyr \<Rightarrow> bool" where
  "settings_ok z \<longleftrightarrow>
     (\<forall>n b st. snd (z_settings_save z n b st) =
        (if fst (z_settings_save z n b st) = 0 then st(n \<mapsto> b) else st)) \<and>
     (\<forall>n st. snd (z_settings_delete z n st) =
        (if fst (z_settings_delete z n st) = 0 then st(n := None) else st))"

text \<open>
  Adding an object either fails before the service is told, or calls the object-created
  callback once with the identifier given to the object and returns its code.
\<close>

definition ots_ok :: "('s, 'm) zephyr \<Rightarrow> bool" where
  "ots_ok z \<longleftrightarrow>
     (\<forall>cb s. (\<exists>r < 0. z_ots_obj_add z cb s = Some (r, s)) \<or> (\<exists>i. z_ots_obj_add z cb s = cb i s))"

definition zephyr_ok :: "('s, 'm) zephyr \<Rightarrow> bool" where
  "zephyr_ok z \<longleftrightarrow> bits_ok z \<and> bytes_ok z \<and> net_buf_ok z \<and> smf_ok z \<and> ead_ok z \<and> gatt_ok z \<and>
     settings_ok z \<and> ots_ok z"

named_theorems platform \<open>documented behaviour of the platform as rewrite rules\<close>

lemma z_test_bit_eq [platform]: "zephyr_ok z \<Longrightarrow> n < 32 \<Longrightarrow> z_test_bit z w n = bit w n"
  by (simp add: zephyr_ok_def bits_ok_def)

lemma z_set_bit_eq [platform]: "zephyr_ok z \<Longrightarrow> n < 32 \<Longrightarrow> z_set_bit z w n = set_bit n w"
  by (simp add: zephyr_ok_def bits_ok_def)

lemma z_clear_bit_eq [platform]: "zephyr_ok z \<Longrightarrow> n < 32 \<Longrightarrow> z_clear_bit z w n = unset_bit n w"
  by (simp add: zephyr_ok_def bits_ok_def)

lemma z_get_le16_eq [platform]: "zephyr_ok z \<Longrightarrow> z_get_le16 z (le16 w @ rest) = w"
  by (simp add: zephyr_ok_def bytes_ok_def)

lemma z_get_le16_only [platform]: "zephyr_ok z \<Longrightarrow> z_get_le16 z (le16 w) = w"
  using z_get_le16_eq [of z w "[]"] by simp

lemma z_get_le32_eq [platform]: "zephyr_ok z \<Longrightarrow> z_get_le32 z (le32 w @ rest) = w"
  by (simp add: zephyr_ok_def bytes_ok_def)

lemma z_get_le32_only [platform]: "zephyr_ok z \<Longrightarrow> z_get_le32 z (le32 w) = w"
  using z_get_le32_eq [of z w "[]"] by simp

lemma z_mem_swap_eq [platform]: "zephyr_ok z \<Longrightarrow> z_mem_swap z xs = rev xs"
  by (simp add: zephyr_ok_def bytes_ok_def)

lemma z_nb_add_eq [platform]:
  "zephyr_ok z \<Longrightarrow> length b + length xs \<le> cap \<Longrightarrow> z_nb_add z cap b xs = Some (b @ xs)"
  by (simp add: zephyr_ok_def net_buf_ok_def)

lemma z_nb_remove_eq [platform]:
  "zephyr_ok z \<Longrightarrow> n \<le> length b \<Longrightarrow> z_nb_remove z b n = Some (take (length b - n) b)"
  by (simp add: zephyr_ok_def net_buf_ok_def)

lemma z_nb_pull_eq [platform]:
  "zephyr_ok z \<Longrightarrow> n \<le> length b \<Longrightarrow> z_nb_pull z b n = Some (drop n b)"
  by (simp add: zephyr_ok_def net_buf_ok_def)

lemma z_smf_set_state_eq [platform]:
  "zephyr_ok z \<Longrightarrow> z_smf_set_state z exit entry cur put tgt s =
     Option.bind (exit (cur s) s) (\<lambda>s1. entry tgt (put tgt s1))"
  by (simp add: zephyr_ok_def smf_ok_def)

lemma z_smf_set_initial_eq [platform]:
  "zephyr_ok z \<Longrightarrow> z_smf_set_initial z entry put tgt s = entry tgt (put tgt s)"
  by (simp add: zephyr_ok_def smf_ok_def)

lemma z_ead_round_trip [platform]:
  "zephyr_ok z \<Longrightarrow> length k = 16 \<Longrightarrow> length iv = 8 \<Longrightarrow>
     z_ead_decrypt z k iv (snd (z_ead_encrypt z k iv p)) = (0, p)"
  by (simp add: zephyr_ok_def ead_ok_def)

lemma z_ead_encrypt_length [platform]:
  "zephyr_ok z \<Longrightarrow> length k = 16 \<Longrightarrow> length iv = 8 \<Longrightarrow>
     length (snd (z_ead_encrypt z k iv p)) = length p + 9"
  by (simp add: zephyr_ok_def ead_ok_def)

lemma z_ead_encrypt_code [platform]:
  "zephyr_ok z \<Longrightarrow> length k = 16 \<Longrightarrow> length iv = 8 \<Longrightarrow> fst (z_ead_encrypt z k iv p) = 0"
  by (simp add: zephyr_ok_def ead_ok_def)

lemma z_ead_decrypted_size_eq [platform]:
  "zephyr_ok z \<Longrightarrow> 9 \<le> n \<Longrightarrow> z_ead_decrypted_size z n = n - 9"
  by (simp add: zephyr_ok_def ead_ok_def)

lemma z_ead_decrypt_length [platform]:
  "zephyr_ok z \<Longrightarrow> length (snd (z_ead_decrypt z k iv c)) = length c - 9"
  by (simp add: zephyr_ok_def ead_ok_def)

lemma z_ead_decrypt_short: "zephyr_ok z \<Longrightarrow> length c < 9 \<Longrightarrow> fst (z_ead_decrypt z k iv c) \<noteq> 0"
  by (simp add: zephyr_ok_def ead_ok_def)

lemma z_gatt_attr_read_eq [platform]:
  "zephyr_ok z \<Longrightarrow> length v \<le> len \<Longrightarrow> z_gatt_attr_read z len 0 v = (int (length v), v)"
  by (simp add: zephyr_ok_def gatt_ok_def)

lemma z_settings_save_eq:
  "zephyr_ok z \<Longrightarrow> snd (z_settings_save z n b st) =
     (if fst (z_settings_save z n b st) = 0 then st(n \<mapsto> b) else st)"
  by (simp add: zephyr_ok_def settings_ok_def)

text \<open>Settings whose saves never fail.\<close>

definition settings_reliable :: "('s, 'm) zephyr \<Rightarrow> bool" where
  "settings_reliable z \<longleftrightarrow> (\<forall>n b st. fst (z_settings_save z n b st) = 0)"

lemma z_settings_delete_eq:
  "zephyr_ok z \<Longrightarrow> snd (z_settings_delete z n st) =
     (if fst (z_settings_delete z n st) = 0 then st(n := None) else st)"
  by (simp add: zephyr_ok_def settings_ok_def)

lemma z_ots_obj_add_cases:
  assumes "zephyr_ok z"
  obtains r where "r < 0" "z_ots_obj_add z cb s = Some (r, s)"
    | i where "z_ots_obj_add z cb s = cb i s"
  using assms unfolding zephyr_ok_def ots_ok_def by blast

subsection \<open>A concrete platform\<close>

definition zephyr_ref :: "('s, 'm) zephyr" where
  "zephyr_ref = \<lparr>
     z_test_bit = bit,
     z_set_bit = (\<lambda>w n. set_bit n w),
     z_clear_bit = (\<lambda>w n. unset_bit n w),
     z_get_le16 = of_le16,
     z_get_le32 = of_le32,
     z_mem_swap = rev,
     z_nb_add = (\<lambda>cap b xs. if length b + length xs \<le> cap then Some (b @ xs) else None),
     z_nb_remove = (\<lambda>b n. if n \<le> length b then Some (take (length b - n) b) else None),
     z_nb_pull = (\<lambda>b n. if n \<le> length b then Some (drop n b) else None),
     z_smf_set_state = (\<lambda>exit entry cur put tgt s.
        Option.bind (exit (cur s) s) (\<lambda>s1. entry tgt (put tgt s1))),
     z_smf_set_initial = (\<lambda>entry put tgt s. entry tgt (put tgt s)),
     z_ead_encrypt = (\<lambda>k iv p. (0, replicate 5 0 @ p @ replicate 4 0)),
     z_ead_decrypt = (\<lambda>k iv c.
        if length c < 9 then (- EINVAL, []) else (0, take (length c - 9) (drop 5 c))),
     z_ead_decrypted_size = (\<lambda>n. n - 9),
     z_gatt_attr_read = (\<lambda>len off v.
        if length v < off then (- 7, []) else (int (min len (length v - off)), take len (drop off v))),
     z_settings_save = (\<lambda>n b st. (0, st(n \<mapsto> b))),
     z_settings_delete = (\<lambda>n st. (0, st(n := None))),
     z_ots_obj_add = (\<lambda>cb s. cb BT_OTS_OBJ_ID_MIN s)\<rparr>"

lemma zephyr_ref_ok: "zephyr_ok zephyr_ref"
  by (simp add: zephyr_ok_def bits_ok_def bytes_ok_def net_buf_ok_def smf_ok_def ead_ok_def
      gatt_ok_def settings_ok_def ots_ok_def zephyr_ref_def of_le16_le16 of_le32_le32)
    blast

end
