(* ===== verification/Esl_Types.thy ===== *)
theory Esl_Types
  imports Zephyr_Api
begin

unbundle bit_operations_syntax

text \<open>
  The constants, enumerations and structs of \<open>service/esl_common.h\<close>, \<open>service/esl_internal.h\<close> and
  \<open>service/esl.h\<close>. Enumerations whose values are bytes on the air are byte constants; the others
  are datatypes. The union of \<open>esl_sensor_inf\<close> shares its first two bytes between the property
  identifier and the company identifier, so these are one field; the union of \<open>esl_ecp_resp\<close> is one
  index byte; the union of \<open>bt_esl_key_material\<close> is the key followed by the vector.
\<close>

subsection \<open>Constants of esl\_common.h\<close>

abbreviation (input) ESL_ADDR_LEN :: nat where "ESL_ADDR_LEN \<equiv> 2"
abbreviation (input) ESL_ADDR_BROADCAST :: u8 where "ESL_ADDR_BROADCAST \<equiv> 0xFF"
abbreviation (input) ESL_ADDR_RFU_BIT :: nat where "ESL_ADDR_RFU_BIT \<equiv> 15"
abbreviation (input) EAD_SESSION_KEY_LEN :: nat where "EAD_SESSION_KEY_LEN \<equiv> 16"
abbreviation (input) EAD_IV_LEN :: nat where "EAD_IV_LEN \<equiv> 8"
abbreviation (input) EAD_KEY_MATERIAL_LEN :: nat where "EAD_KEY_MATERIAL_LEN \<equiv> 24"
abbreviation (input) EAD_RANDOMIZER_LEN :: nat where "EAD_RANDOMIZER_LEN \<equiv> 5"
abbreviation (input) ESL_LED_SRGB :: u8 where "ESL_LED_SRGB \<equiv> 0x00"
abbreviation (input) ESL_LED_MONO :: u8 where "ESL_LED_MONO \<equiv> 0x01"
abbreviation (input) ESL_LED_FLASH_PATTERN_LEN :: nat where "ESL_LED_FLASH_PATTERN_LEN \<equiv> 5"
abbreviation (input) ESL_LED_FLASH_PATTERN_START_BIT_IDX :: u8 where
  "ESL_LED_FLASH_PATTERN_START_BIT_IDX \<equiv> 40"
abbreviation (input) ESL_RESPONSE_SENSOR_HEADER :: nat where "ESL_RESPONSE_SENSOR_HEADER \<equiv> 2"
abbreviation (input) ESL_RESPONSE_SENSOR_LEN :: nat where "ESL_RESPONSE_SENSOR_LEN \<equiv> 15"
abbreviation (input) AD_HEADER_LEN :: nat where "AD_HEADER_LEN \<equiv> 2"
abbreviation (input) ESL_SYNC_PKT_PAYLOAD_MAX_LEN :: nat where "ESL_SYNC_PKT_PAYLOAD_MAX_LEN \<equiv> 48"
abbreviation (input) ESL_SYNC_PKT_MIC_LEN :: nat where "ESL_SYNC_PKT_MIC_LEN \<equiv> 4"
abbreviation (input) ESL_ENCRTYPTED_DATA_MAX_LEN :: nat where
  "ESL_ENCRTYPTED_DATA_MAX_LEN \<equiv> 61 \<comment> \<open>2 + 5 + 2 + 48 + 4\<close>"
abbreviation (input) ESL_EAD_PAYLOAD_MAX_LEN :: nat where "ESL_EAD_PAYLOAD_MAX_LEN \<equiv> 63"
abbreviation (input) ESL_RAMDOMIZER_DIRECTION_BIT :: nat where "ESL_RAMDOMIZER_DIRECTION_BIT \<equiv> 7"
abbreviation (input) SYNC_PKK_MIN_LEN :: nat where "SYNC_PKK_MIN_LEN \<equiv> 11 \<comment> \<open>5 + 4 + 2\<close>"
abbreviation (input) BT_DATA_ESL :: u8 where "BT_DATA_ESL \<equiv> 0x34"
abbreviation (input) ESL_TIMED_ABS_MAX :: u32 where "ESL_TIMED_ABS_MAX \<equiv> 4147200000"
abbreviation (input) REPEATS_DURATION_MAX :: u16 where "REPEATS_DURATION_MAX \<equiv> 0x7FFF"

text \<open>Offsets of the parameters in a control command.\<close>

abbreviation (input) ESL_OP_ESL_ID_IDX :: nat where "ESL_OP_ESL_ID_IDX \<equiv> 1"
abbreviation (input) ESL_OP_HEADER_LEN :: nat where "ESL_OP_HEADER_LEN \<equiv> 2"
abbreviation (input) ESL_OP_READ_SENSOR_IDX :: nat where "ESL_OP_READ_SENSOR_IDX \<equiv> 2"
abbreviation (input) ESL_OP_REFRESH_DISPLAY_IDX :: nat where "ESL_OP_REFRESH_DISPLAY_IDX \<equiv> 2"
abbreviation (input) ESL_OP_DISPLAY_IDX :: nat where "ESL_OP_DISPLAY_IDX \<equiv> 2"
abbreviation (input) ESL_OP_DISPLAY_IMAGE_IDX :: nat where "ESL_OP_DISPLAY_IMAGE_IDX \<equiv> 3"
abbreviation (input) ESL_OP_DISPLAY_TIMED_ABS_TIME_IDX :: nat where
  "ESL_OP_DISPLAY_TIMED_ABS_TIME_IDX \<equiv> 4"
abbreviation (input) ESL_OP_LED_CONTROL_LED_IDX :: nat where "ESL_OP_LED_CONTROL_LED_IDX \<equiv> 2"
abbreviation (input) ESL_OP_LED_CONTROL_LED_COLOR_IDX :: nat where
  "ESL_OP_LED_CONTROL_LED_COLOR_IDX \<equiv> 3"
abbreviation (input) ESL_OP_LED_CONTROL_FLASHING_PATTERN :: nat where
  "ESL_OP_LED_CONTROL_FLASHING_PATTERN \<equiv> 4"
abbreviation (input) ESL_OP_LED_CONTROL_BIT_OFF_PERIOD :: nat where
  "ESL_OP_LED_CONTROL_BIT_OFF_PERIOD \<equiv> 9"
abbreviation (input) ESL_OP_LED_CONTROL_BIT_ON_PERIOD :: nat where
  "ESL_OP_LED_CONTROL_BIT_ON_PERIOD \<equiv> 10"
abbreviation (input) ESL_OP_LED_CONTROL_REPEAT_TYPE :: nat where "ESL_OP_LED_CONTROL_REPEAT_TYPE \<equiv> 11"
abbreviation (input) ESL_OP_LED_TIMED_ABS_TIME_IDX :: nat where "ESL_OP_LED_TIMED_ABS_TIME_IDX \<equiv> 13"

text \<open>Function-like macros.\<close>

definition LOW_BYTE :: "u16 \<Rightarrow> u8" where
  "LOW_BYTE x = ucast (x AND 0xFF)"

definition HIGH_BYTE :: "u16 \<Rightarrow> u8" where
  "HIGH_BYTE x = ucast (drop_bit 8 x AND 0xFF)"

definition GROUPID_BYTE :: "u16 \<Rightarrow> u8" where
  "GROUPID_BYTE x = ucast (drop_bit 8 x AND 0x7F)"

definition CHECK_BIT :: "'a::len word \<Rightarrow> nat \<Rightarrow> bool" where
  "CHECK_BIT var pos \<longleftrightarrow> var AND push_bit pos 1 \<noteq> 0"

definition BIT_UNSET :: "u16 \<Rightarrow> nat \<Rightarrow> u16" where
  "BIT_UNSET reg b = reg AND NOT (push_bit b 1)"

definition ECP_LEN :: "u8 \<Rightarrow> nat" where
  "ECP_LEN x = unat (drop_bit 4 (x AND 0xf0) + 2)"

definition ECP_TAG :: "u8 \<Rightarrow> u8" where
  "ECP_TAG x = x AND 0x0f"

subsection \<open>Enumerations\<close>

datatype ESL_ACL_SOURCE = ACL_NOT_CONNECTED | ACL_FROM_SCAN | ACL_FROM_PAWR

text \<open>\<open>ESL_BASIC_STATE_BIT\<close> and \<open>esl_configuring_state_bit\<close>: bit positions.\<close>

abbreviation (input) ESL_SERVICE_NEEDED_BIT :: nat where "ESL_SERVICE_NEEDED_BIT \<equiv> 0"
abbreviation (input) ESL_SYNCHRONIZED :: nat where "ESL_SYNCHRONIZED \<equiv> 1"
abbreviation (input) ESL_ACTIVE_LED :: nat where "ESL_ACTIVE_LED \<equiv> 2"
abbreviation (input) ESL_PENDING_LED_UPDATE :: nat where "ESL_PENDING_LED_UPDATE \<equiv> 3"
abbreviation (input) ESL_PENDING_DISPLAY_UPDATE :: nat where "ESL_PENDING_DISPLAY_UPDATE \<equiv> 4"
abbreviation (input) ESL_ADDR_SET_BIT :: nat where "ESL_ADDR_SET_BIT \<equiv> 0"
abbreviation (input) ESL_AP_SYNC_KEY_SET_BIT :: nat where "ESL_AP_SYNC_KEY_SET_BIT \<equiv> 1"
abbreviation (input) ESL_RESPONSE_KEY_SET_BIT :: nat where "ESL_RESPONSE_KEY_SET_BIT \<equiv> 2"
abbreviation (input) ESL_ABS_TIME_SET_BIT :: nat where "ESL_ABS_TIME_SET_BIT \<equiv> 3"
abbreviation (input) ESL_UPDATE_COMPLETE_SET_BIT :: nat where "ESL_UPDATE_COMPLETE_SET_BIT \<equiv> 4"

datatype esl_ecp_command_src = ESL_ECP | ESL_PAWR

datatype esl_adv_mode = ESL_ADV_DEMO | ESL_ADV_DEFAULT | ESL_ADV_UNASSOCIATED | ESL_ADV_UNSYNCED

datatype esl_timeout_mode = ESL_UNSYNCED_TIMEOUT_MODE | ESL_UNASSOCIATED_TIMEOUT_MODE

datatype BT_ESL_STATE =
  SM_UNASSOCIATED | SM_CONFIGURING | SM_CONFIGURED | SM_SYNCHRONIZED | SM_UPDATING | SM_UNSYNCHRONIZED

abbreviation (input) OP_PING :: u8 where "OP_PING \<equiv> 0"
abbreviation (input) OP_UNASSOCIATE :: u8 where "OP_UNASSOCIATE \<equiv> 1"
abbreviation (input) OP_SERVICE_RESET :: u8 where "OP_SERVICE_RESET \<equiv> 2"
abbreviation (input) OP_FACTORY_RESET :: u8 where "OP_FACTORY_RESET \<equiv> 3"
abbreviation (input) OP_UPDATE_COMPLETE :: u8 where "OP_UPDATE_COMPLETE \<equiv> 4"
abbreviation (input) OP_READ_SENSOR_DATA :: u8 where "OP_READ_SENSOR_DATA \<equiv> 0x10"
abbreviation (input) OP_REFRESH_DISPLAY :: u8 where "OP_REFRESH_DISPLAY \<equiv> 0x11"
abbreviation (input) OP_DISPLAY_IMAGE :: u8 where "OP_DISPLAY_IMAGE \<equiv> 0x20"
abbreviation (input) OP_DISPLAY_TIMED_IMAGE :: u8 where "OP_DISPLAY_TIMED_IMAGE \<equiv> 0x60"
abbreviation (input) OP_LED_CONTROL :: u8 where "OP_LED_CONTROL \<equiv> 0xB0"
abbreviation (input) OP_LED_TIMED_CONTROL :: u8 where "OP_LED_TIMED_CONTROL \<equiv> 0xF0"

abbreviation (input) OP_ERR :: u8 where "OP_ERR \<equiv> 0"
abbreviation (input) OP_LED_STATE :: u8 where "OP_LED_STATE \<equiv> 1"
abbreviation (input) OP_BASIC_STATE :: u8 where "OP_BASIC_STATE \<equiv> 0x10"
abbreviation (input) OP_DISPLAY_STATE :: u8 where "OP_DISPLAY_STATE \<equiv> 0x11"
abbreviation (input) OP_SENSOR_VALUE_STATE_MASK :: u8 where "OP_SENSOR_VALUE_STATE_MASK \<equiv> 0x0E"
abbreviation (input) OP_VENDOR_SPECIFIC_STATE_MASK :: u8 where "OP_VENDOR_SPECIFIC_STATE_MASK \<equiv> 0x0F"

abbreviation (input) ERR_UNSPEC :: u8 where "ERR_UNSPEC \<equiv> 1"
abbreviation (input) ERR_INV_OPCODE :: u8 where "ERR_INV_OPCODE \<equiv> 2"
abbreviation (input) ERR_INV_STATE :: u8 where "ERR_INV_STATE \<equiv> 3"
abbreviation (input) ERR_INV_IMG_IDX :: u8 where "ERR_INV_IMG_IDX \<equiv> 4"
abbreviation (input) ERR_IMG_NOT_AVAIL :: u8 where "ERR_IMG_NOT_AVAIL \<equiv> 5"
abbreviation (input) ERR_INV_PARAMS :: u8 where "ERR_INV_PARAMS \<equiv> 6"
abbreviation (input) ERR_CAP_LIMIT :: u8 where "ERR_CAP_LIMIT \<equiv> 7"
abbreviation (input) ERR_INSUFF_BAT :: u8 where "ERR_INSUFF_BAT \<equiv> 8"
abbreviation (input) ERR_INSUFF_RES :: u8 where "ERR_INSUFF_RES \<equiv> 9"
abbreviation (input) ERR_RETRY :: u8 where "ERR_RETRY \<equiv> 10"
abbreviation (input) ERR_QUEUE_FULL :: u8 where "ERR_QUEUE_FULL \<equiv> 11"
abbreviation (input) ERR_IMPLAUSIBLE_ABS :: u8 where "ERR_IMPLAUSIBLE_ABS \<equiv> 12"

subsection \<open>Structs\<close>

record esl_disp_inf =
  disp_width :: u16
  disp_height :: u16
  disp_type :: u8

record esl_sensor_inf =
  sensor_size :: u8
  property_id :: u16 \<comment> \<open>also \<open>vendor_specific.company_id\<close>\<close>
  sensor_code :: u16

record led_obj =
  lo_led_type :: u8
  color_brightness :: u8
  flash_pattern :: "u8 list"
  bit_off_period :: u8
  bit_on_period :: u8
  repeat_type :: u8
  repeat_duration :: u16
  lo_abs_time :: u32

record bt_esl_key_material =
  session_key :: "u8 list"
  iv :: "u8 list"

definition key_v :: "bt_esl_key_material \<Rightarrow> u8 list" where
  "key_v k = session_key k @ iv k"

definition key_of_bytes :: "u8 list \<Rightarrow> bt_esl_key_material" where
  "key_of_bytes b =
     \<lparr>session_key = take EAD_SESSION_KEY_LEN b,
      iv = take EAD_IV_LEN (drop EAD_SESSION_KEY_LEN b)\<rparr>"

definition key_ok :: "bt_esl_key_material \<Rightarrow> bool" where
  "key_ok k \<longleftrightarrow> length (session_key k) = EAD_SESSION_KEY_LEN \<and> length (iv k) = EAD_IV_LEN"

lemma key_of_bytes_key_v [simp]: "key_ok k \<Longrightarrow> key_of_bytes (key_v k) = k"
  by (simp add: key_of_bytes_def key_v_def key_ok_def)

lemma key_v_key_of_bytes [simp]: "length b = EAD_KEY_MATERIAL_LEN \<Longrightarrow> key_v (key_of_bytes b) = b"
  by (simp add: key_of_bytes_def key_v_def flip: take_add)

lemma key_ok_key_of_bytes [simp]: "length b = EAD_KEY_MATERIAL_LEN \<Longrightarrow> key_ok (key_of_bytes b)"
  by (simp add: key_ok_def key_of_bytes_def)

lemma length_key_v [simp]: "key_ok k \<Longrightarrow> length (key_v k) = EAD_KEY_MATERIAL_LEN"
  by (simp add: key_ok_def key_v_def)

record esl_ecp_resp =
  resp_op :: u8
  error_code :: u8
  resp_idx :: u8 \<comment> \<open>\<open>led_idx\<close>, \<open>display_idx\<close> or \<open>sensor_idx\<close>\<close>
  resp_img_idx :: u8

record led_dwork =
  led_idx :: u8
  pattern_idx :: u8
  repeat_counts :: u8
  stop_abs_time :: u32
  start_abs_time :: u32
  work_enable :: bool
  led_active :: bool

record display_dwork =
  display_idx :: u8
  disp_img_idx :: u8
  disp_start_abs_time :: u32
  disp_active :: bool

record esl_sensor_data =
  data_available :: bool
  sd_size :: u8
  sd_data :: "u8 list"

subsection \<open>Facts about the macros\<close>

lemma bit_LOW_BYTE [bit_simps]: "bit (LOW_BYTE w) n \<longleftrightarrow> n < 8 \<and> bit w n"
proof (cases "n < 8")
  case True
  then have "n \<in> {0, 1, 2, 3, 4, 5, 6, 7}" by auto
  then show ?thesis by (auto simp: LOW_BYTE_def bit_simps)
next
  case False
  then show ?thesis by (simp add: LOW_BYTE_def bit_simps)
qed

lemma CHECK_BIT_bit: "n < LENGTH('a) \<Longrightarrow> CHECK_BIT (w :: 'a::len word) n \<longleftrightarrow> bit w n"
  by (simp add: CHECK_BIT_def bit_iff_and_push_bit_not_eq_0)

lemma bit_BIT_UNSET [bit_simps]: "bit (BIT_UNSET w b) n \<longleftrightarrow> bit w n \<and> n \<noteq> b"
  by (auto simp: BIT_UNSET_def bit_simps dest: bit_imp_le_length)

lemma drop_high_nibble: "drop_bit 4 (x AND 0xf0) = drop_bit 4 (x :: u8)"
proof (rule bit_word_eqI)
  fix n assume "n < LENGTH(8)"
  then have "n \<in> {0, 1, 2, 3, 4, 5, 6, 7}" by auto
  then show "bit (drop_bit 4 (x AND 0xf0)) n = bit (drop_bit 4 x) n"
    by (auto simp: bit_simps dest: bit_imp_le_length)
qed

lemma ECP_LEN_nibble: "ECP_LEN x = unat x div 16 + 2"
proof -
  have "unat (drop_bit 4 x) = unat x div 16"
    by (simp add: unat_drop_bit_eq drop_bit_eq_div unat_div)
  moreover have "unat x div 16 < 16"
    by (rule less_mult_imp_div_less) simp
  ultimately show ?thesis
    unfolding ECP_LEN_def drop_high_nibble by (simp add: unat_word_ariths)
qed

lemma ECP_LEN_ge: "2 \<le> ECP_LEN x"
  by (simp add: ECP_LEN_nibble)

lemma ECP_LEN_le: "ECP_LEN x \<le> 17"
proof -
  have "unat x div 16 < 16"
    by (rule less_mult_imp_div_less) simp
  then show ?thesis by (simp add: ECP_LEN_nibble)
qed

end
