(* ===== verification/Text_Format.thy ===== *)
theory Text_Format
  imports Prelude
begin

text \<open>
  What the program uses of the C library's text functions: hexadecimal numbers as \<open>snprintk\<close> writes
  them for \<open>%02X\<close> and \<open>%04x\<close>, and as \<open>strtol\<close> reads them back. File names carry addresses in this form.
\<close>

subsection \<open>Writing\<close>

definition lower_digits :: string where "lower_digits = ''0123456789abcdef''"
definition upper_digits :: string where "upper_digits = ''0123456789ABCDEF''"

fun hex_num :: "string \<Rightarrow> nat \<Rightarrow> string" where
  "hex_num ds n = (if n < 16 then [ds ! n] else hex_num ds (n div 16) @ [ds ! (n mod 16)])"

declare hex_num.simps [simp del]

definition format_hex :: "string \<Rightarrow> nat \<Rightarrow> nat \<Rightarrow> string" where
  "format_hex ds w n = replicate (w - length (hex_num ds n)) CHR ''0'' @ hex_num ds n"

subsection \<open>Reading\<close>

definition hex_value :: "char \<Rightarrow> nat option" where
  "hex_value c = map_of (zip lower_digits [0..<16] @ zip upper_digits [0..<16]) c"

text \<open>The value read so far, and the first character that is not a digit ends the number.\<close>

fun hex_from :: "nat \<Rightarrow> string \<Rightarrow> nat" where
  "hex_from acc [] = acc"
| "hex_from acc (c # cs) = (case hex_value c of None \<Rightarrow> acc | Some v \<Rightarrow> hex_from (acc * 16 + v) cs)"

definition strtol16 :: "string \<Rightarrow> nat" where
  "strtol16 cs = hex_from 0 cs"

subsection \<open>What is written is read back\<close>

definition digits_ok :: "string \<Rightarrow> bool" where
  "digits_ok ds \<longleftrightarrow> ds = lower_digits \<or> ds = upper_digits"

lemma hex_value_digit: "digits_ok ds \<Longrightarrow> n < 16 \<Longrightarrow> hex_value (ds ! n) = Some n"
proof -
  assume d: "digits_ok ds" and n: "n < 16"
  have "list_all (\<lambda>n. hex_value (lower_digits ! n) = Some n) [0..<16]"
    "list_all (\<lambda>n. hex_value (upper_digits ! n) = Some n) [0..<16]"
    by code_simp+
  then show ?thesis using n d by (auto simp: list_all_iff digits_ok_def)
qed

lemma hex_from_num: "digits_ok ds \<Longrightarrow> hex_from 0 (hex_num ds n @ cs) = hex_from n cs"
proof (induction ds n arbitrary: cs rule: hex_num.induct)
  case (1 ds n)
  show ?case
  proof (cases "n < 16")
    case True
    then show ?thesis using 1(2) by (simp add: hex_num.simps [of _ n] hex_value_digit)
  next
    case False
    then have "hex_from 0 (hex_num ds n @ cs) = hex_from (n div 16) ((ds ! (n mod 16)) # cs)"
      using 1 by (simp add: hex_num.simps [of _ n])
    also have "\<dots> = hex_from (n div 16 * 16 + n mod 16) cs"
      using 1(2) by (simp add: hex_value_digit)
    finally show ?thesis by simp
  qed
qed

lemma hex_from_zeros: "hex_from 0 (replicate k CHR ''0'' @ cs) = hex_from 0 cs"
proof (induction k)
  case (Suc k)
  have "hex_value CHR ''0'' = Some 0" by (simp add: hex_value_def lower_digits_def upt_rec)
  then show ?case using Suc by simp
qed simp

lemma strtol_format: "digits_ok ds \<Longrightarrow> strtol16 (format_hex ds w n) = n"
  using hex_from_num [of ds n "[]"] by (simp add: strtol16_def format_hex_def hex_from_zeros)

lemma format_hex_inj: "digits_ok ds \<Longrightarrow> format_hex ds w m = format_hex ds w n \<longleftrightarrow> m = n"
  by (metis strtol_format)

lemma digits_ok_cases [simp]: "digits_ok lower_digits" "digits_ok upper_digits"
  by (simp_all add: digits_ok_def)

end
