(* ===== verification/Esl_Common.thy ===== *)
theory Esl_Common
  imports Esl_Types Text_Format
begin

unbundle bit_operations_syntax

text \<open>
  \<open>service/esl_common.c\<close>, the code both roles share: packing of the LED repeat field, parsing of
  the sensor information characteristic, the names of states and error codes, and the composition
  of an Encrypted Advertising Data packet. The \<open>dump_\<close> and \<open>print_\<close> functions only write to the
  console and are not modelled.
\<close>

subsection \<open>Repeat type and duration\<close>

definition unpack_repeat_type_duration :: "u8 \<Rightarrow> u8 \<Rightarrow> u8 \<times> u16" where
  "unpack_repeat_type_duration d0 d1 =
     (d0 AND 0x1, ucast (drop_bit 1 (d0 AND 0xfe)) OR push_bit 8 (ucast d1))"

definition pack_repeat_type_duration :: "u8 \<Rightarrow> u16 \<Rightarrow> u8 list" where
  "pack_repeat_type_duration rt dur =
     le16 (ucast (rt AND 0x01) OR push_bit 1 (dur AND REPEATS_DURATION_MAX))"

subsection \<open>Sensor information\<close>

text \<open>
  The loop of \<open>parse_sensor_info_from_raw\<close>: \<open>sensors\<close> is the caller's array, \<open>raw\<close> the bytes of
  the attribute value, \<open>count\<close> the 8-bit counter. An element whose size byte is neither 0 nor 1
  does not advance \<open>idx\<close>. \<open>None\<close> is an access out of range or a loop that does not end.
\<close>

partial_function (option) parse_sensor_loop ::
  "u8 list \<Rightarrow> u16 \<Rightarrow> esl_sensor_inf list \<Rightarrow> u16 \<Rightarrow> u8 \<Rightarrow> (esl_sensor_inf list \<times> u8) option"
where
  "parse_sensor_loop raw len sensors idx count =
     (if idx < len then do {
        sz \<leftarrow> rd raw (unat idx);
        old \<leftarrow> rd sensors (unat count);
        let si = old\<lparr>sensor_size := sz\<rparr>;
        (if sz = 0 then do {
           hi \<leftarrow> rd raw (unat idx + 2);
           lo \<leftarrow> rd raw (unat idx + 1);
           parse_sensor_loop raw len
             (sensors[unat count := si\<lparr>property_id := push_bit 8 (ucast hi) OR ucast lo\<rparr>])
             (idx + 3) (count + 1)
         }
         else if sz = 1 then do {
           hi \<leftarrow> rd raw (unat idx + 2);
           lo \<leftarrow> rd raw (unat idx + 1);
           chi \<leftarrow> rd raw (unat idx + 4);
           clo \<leftarrow> rd raw (unat idx + 3);
           parse_sensor_loop raw len
             (sensors[unat count := si\<lparr>property_id := push_bit 8 (ucast hi) OR ucast lo,
                 sensor_code := push_bit 8 (ucast chi) OR ucast clo\<rparr>])
             (idx + 5) (count + 1)
         }
         else parse_sensor_loop raw len (sensors[unat count := si]) idx (count + 1))
      }
      else Some (sensors, count))"

definition parse_sensor_info_from_raw ::
  "esl_sensor_inf list \<Rightarrow> u8 list \<Rightarrow> u16 \<Rightarrow> (esl_sensor_inf list \<times> u8) option" where
  "parse_sensor_info_from_raw sensors raw len = parse_sensor_loop raw len sensors 0 0"

subsection \<open>Names\<close>

definition mono_color_to_string :: "u8 \<Rightarrow> string" where
  "mono_color_to_string color =
     (if CHECK_BIT color 5 \<or> CHECK_BIT color 4 then ''Blue''
      else if CHECK_BIT color 3 \<or> CHECK_BIT color 2 then ''Green''
      else ''Red'')"

text \<open>The line \<open>dump_led_inf\<close> prints, before the newline; the colour is printed as two hex digits.\<close>

datatype led_inf_line = Line_sRGB u8 | Line_Mono u8 string | Line_RFU

definition dump_led_inf :: "u8 \<Rightarrow> led_inf_line" where
  "dump_led_inf led_type =
     (let type = drop_bit 6 (led_type AND 0xC0); color = led_type AND 0x3f
      in if type = ESL_LED_SRGB then Line_sRGB color
         else if type = ESL_LED_MONO then Line_Mono color (mono_color_to_string color)
         else Line_RFU)"

fun esl_state_to_string :: "BT_ESL_STATE \<Rightarrow> string" where
  "esl_state_to_string SM_UNASSOCIATED = ''UNASSOCIATED''"
| "esl_state_to_string SM_CONFIGURING = ''CONFIGURING''"
| "esl_state_to_string SM_CONFIGURED = ''CONFIGURED''"
| "esl_state_to_string SM_SYNCHRONIZED = ''SYNCHRONIZED''"
| "esl_state_to_string SM_UPDATING = ''UPDATING''"
| "esl_state_to_string SM_UNSYNCHRONIZED = ''UNSYNCHRONIZED''"

definition esl_rcp_error_to_string :: "u8 \<Rightarrow> string" where
  "esl_rcp_error_to_string err_code =
     (if err_code = 0 then ''RFU''
      else if err_code = ERR_UNSPEC then ''Unspecified Error''
      else if err_code = ERR_INV_OPCODE then ''Invalid Opcode''
      else if err_code = ERR_INV_STATE then ''Invalid State''
      else if err_code = ERR_INV_IMG_IDX then ''Invalid Image_Index''
      else if err_code = ERR_IMG_NOT_AVAIL then ''Image Not Available''
      else if err_code = ERR_INV_PARAMS then ''Invalid Parameter(s)''
      else if err_code = ERR_CAP_LIMIT then ''Capacity Limit''
      else if err_code = ERR_INSUFF_BAT then ''Insufficient Battery''
      else if err_code = ERR_INSUFF_RES then ''Insufficient Resources''
      else if err_code = ERR_RETRY then ''Retry''
      else if err_code = ERR_QUEUE_FULL then ''Queue Full''
      else if err_code = ERR_IMPLAUSIBLE_ABS then ''Implausible Absolute Time''
      else if 0x0d \<le> err_code \<and> err_code \<le> 0xef then ''RFU''
      else if 0xf0 \<le> err_code \<and> err_code \<le> 0xff then ''Vendor-specific Error''
      else ''UNKNOWN'')"

text \<open>\<open>OBJECT_NAME_TEMPLETE\<close>, the name of a stored image.\<close>

definition object_name :: "nat \<Rightarrow> string" where
  "object_name i = ''esl_image_'' @ format_hex upper_digits 2 i"

definition check_ble_connection :: "int \<Rightarrow> bool \<Rightarrow> bool" where
  "check_ble_connection err connected \<longleftrightarrow> connected \<and> err = 0"

subsection \<open>Encrypted advertising data\<close>

text \<open>A null pointer is \<open>None\<close>; the result is the return code with the buffer.\<close>

definition esl_generate_ad_data_header ::
  "u8 list option \<Rightarrow> u8 list option \<Rightarrow> u8 \<Rightarrow> (int \<times> u8 list option) option" where
  "esl_generate_ad_data_header randomizer ad_data esl_payload_len =
     (case randomizer of
        None \<Rightarrow> Some (- EINVAL, ad_data)
      | Some r \<Rightarrow>
        (case ad_data of
           None \<Rightarrow> Some (- EINVAL, ad_data)
         | Some ad \<Rightarrow>
           (if esl_payload_len = 0 then Some (- EINVAL, ad_data)
            else do {
              r5 \<leftarrow> rd_mem r 0 EAD_RANDOMIZER_LEN;
              ad1 \<leftarrow> wr_mem ad 0 r5;
              ad2 \<leftarrow> upd ad1 5 (esl_payload_len + 1);
              ad3 \<leftarrow> upd ad2 6 BT_DATA_ESL;
              Some (sint (of_nat (EAD_RANDOMIZER_LEN + AD_HEADER_LEN + unat esl_payload_len) :: u8),
                    Some ad3)
            })))"

definition esl_generate_nonce :: "u8 list \<Rightarrow> u8 list \<Rightarrow> u8 list" where
  "esl_generate_nonce randomizer v = take EAD_RANDOMIZER_LEN randomizer @ take EAD_IV_LEN v"

text \<open>\<open>rnd\<close> is what \<open>bt_rand\<close> stored in the buffer.\<close>

definition esl_init_randomizer :: "u8 list \<Rightarrow> u8 list option" where
  "esl_init_randomizer rnd = do {
     b \<leftarrow> rd rnd 4;
     upd rnd 4 (b OR push_bit ESL_RAMDOMIZER_DIRECTION_BIT 1)
   }"

definition esl_update_randomizer ::
  "u8 list \<Rightarrow> bt_esl_key_material \<Rightarrow> (u8 list \<times> u8 list) option" where
  "esl_update_randomizer rnd key = do {
     r \<leftarrow> esl_init_randomizer rnd;
     Some (r, esl_generate_nonce r (iv key))
   }"

text \<open>
  \<open>esl_compose_ad_data\<close> works in place on the caller's buffer \<open>pa\<close> and returns the buffer, the new
  randomizer and the length of the packet. The LED that signals a transmission on the access point
  is not modelled.
\<close>

definition esl_compose_ad_data ::
  "('s, 'm) zephyr \<Rightarrow> u8 list \<Rightarrow> u8 list \<Rightarrow> u8 \<Rightarrow> u8 list \<Rightarrow> bt_esl_key_material
     \<Rightarrow> (u8 list \<times> u8 list \<times> u8) option" where
  "esl_compose_ad_data z pa esl_payload esl_payload_len rnd key = do {
     (randomizer, nonce) \<leftarrow> esl_update_randomizer rnd key;
     p \<leftarrow> rd_mem esl_payload 0 (unat esl_payload_len);
     pa1 \<leftarrow> wr_mem pa (AD_HEADER_LEN + EAD_RANDOMIZER_LEN + AD_HEADER_LEN) p;
     (ret, ad) \<leftarrow> esl_generate_ad_data_header (Some randomizer) (Some (drop AD_HEADER_LEN pa1))
        esl_payload_len;
     let pa2 = take AD_HEADER_LEN pa1 @ (case ad of None \<Rightarrow> drop AD_HEADER_LEN pa1 | Some b \<Rightarrow> b);
     let len1 = esl_payload_len + of_nat AD_HEADER_LEN;
     plain \<leftarrow> rd_mem pa2 (AD_HEADER_LEN + EAD_RANDOMIZER_LEN) (unat len1);
     pa3 \<leftarrow> wr_mem pa2 AD_HEADER_LEN (snd (z_ead_encrypt z (session_key key) (iv key) plain));
     let out_len = of_nat SYNC_PKK_MIN_LEN + len1;
     pa4 \<leftarrow> upd pa3 0 (out_len - 1);
     pa5 \<leftarrow> upd pa4 1 BT_DATA_ENCRYPTED_AD_DATA;
     Some (pa5, randomizer, out_len)
   }"

subsection \<open>The repeat field\<close>

lemma and_mask15: "(w :: u16) AND 0x7FFF = take_bit 15 w"
  by (simp add: take_bit_eq_mask mask_numeral)

lemma and_mask7: "(w :: u16) AND 0x7F = take_bit 7 w"
  by (simp add: take_bit_eq_mask mask_numeral)

lemma and_mask1: "(w :: u8) AND 1 = take_bit 1 w"
  by (simp add: take_bit_eq_mask)

lemma drop_lowest: "drop_bit 1 (d AND 0xfe) = drop_bit 1 (d :: u8)"
proof (rule bit_word_eqI)
  fix n assume "n < LENGTH(8)"
  then have "n \<in> {0, 1, 2, 3, 4, 5, 6, 7}" by auto
  then show "bit (drop_bit 1 (d AND 0xfe)) n = bit (drop_bit 1 d) n"
    by (auto simp: bit_simps dest: bit_imp_le_length simp del: drop_bit_Suc)
qed

lemma pack_bytes:
  "pack_repeat_type_duration rt dur =
     [(rt AND 1) OR push_bit 1 (ucast dur), ucast (drop_bit 7 (dur AND REPEATS_DURATION_MAX))]"
proof -
  have lo: "ucast (ucast (rt AND 1) OR push_bit 1 (dur AND REPEATS_DURATION_MAX) :: u16)
      = (rt AND 1) OR push_bit 1 (ucast dur :: u8)"
    unfolding and_mask15 and_mask1
    by (rule bit_word_eqI) (auto simp: bit_simps simp del: push_bit_Suc drop_bit_Suc)
  have hi: "ucast (drop_bit 8 (ucast (rt AND 1) OR push_bit 1 (dur AND REPEATS_DURATION_MAX) :: u16))
      = (ucast (drop_bit 7 (dur AND REPEATS_DURATION_MAX)) :: u8)"
    unfolding and_mask15 and_mask1
    by (rule bit_word_eqI) (auto simp: bit_simps simp del: push_bit_Suc drop_bit_Suc)
  show ?thesis
    unfolding pack_repeat_type_duration_def le16_def lo hi ..
qed

lemma length_pack [simp]: "length (pack_repeat_type_duration rt dur) = 2"
  by (simp add: pack_repeat_type_duration_def)

lemma unpack_pack_word:
  "unpack_repeat_type_duration ((rt AND 1) OR push_bit 1 (ucast dur))
       (ucast (drop_bit 7 (dur AND REPEATS_DURATION_MAX)))
     = (rt AND 1, (dur AND 0x7F) OR push_bit 8 (drop_bit 7 (dur AND REPEATS_DURATION_MAX)))"
proof -
  have t: "((rt AND 1) OR push_bit 1 (ucast dur)) AND 1 = (rt AND 1 :: u8)"
    unfolding and_mask1
    by (rule bit_word_eqI) (auto simp: bit_simps simp del: push_bit_Suc drop_bit_Suc)
  have d: "ucast (drop_bit 1 (((rt AND 1) OR push_bit 1 (ucast dur)) AND 0xfe) :: u8) OR
      push_bit 8 (ucast (ucast (drop_bit 7 (dur AND 0x7FFF)) :: u8))
    = (dur AND 0x7F) OR push_bit 8 (drop_bit 7 (dur AND 0x7FFF) :: u16)"
    unfolding drop_lowest and_mask1 and_mask15 and_mask7
    by (rule bit_word_eqI) (auto simp: bit_simps simp del: push_bit_Suc drop_bit_Suc)
  show ?thesis
    unfolding unpack_repeat_type_duration_def t d ..
qed

text \<open>The duration that arrives, as a number: the upper byte counts 256 instead of 128.\<close>

lemma unat_unpacked:
  "unat ((dur AND 0x7F) OR push_bit 8 (drop_bit 7 (dur AND REPEATS_DURATION_MAX)))
     = unat dur mod 128 + 256 * (unat dur mod 32768 div 128)"
proof -
  have disj: "(dur AND 0x7F) OR push_bit 8 (drop_bit 7 (dur AND REPEATS_DURATION_MAX))
      = take_bit 7 dur + push_bit 8 (drop_bit 7 (take_bit 15 dur))"
    unfolding and_mask15 and_mask7
    by (rule disjunctive_add [symmetric]) (auto simp: bit_simps)
  have "unat dur mod 32768 div 128 < 256"
    by (rule less_mult_imp_div_less) simp
  moreover have "unat dur mod 128 < 128" by simp
  ultimately show ?thesis
    unfolding disj
    by (simp add: unat_word_ariths unsigned_take_bit_eq unsigned_drop_bit_eq unsigned_push_bit_eq
        take_bit_eq_mod drop_bit_eq_div push_bit_eq_mult)
qed

subsection \<open>Composition\<close>

lemma unat_add_small: "unat (n :: u8) + k < 256 \<Longrightarrow> unat (n + of_nat k) = unat n + k"
  by (simp add: unat_word_ariths unat_of_nat)

text \<open>Writing the randomizer and the header of the ESL element over the first seven bytes.\<close>

lemma generate_header:
  assumes r: "length r = 5" and d: "length d = 7" and nz: "n \<noteq> 0"
  shows "esl_generate_ad_data_header (Some r) (Some (d @ q)) n =
    Some (sint (of_nat (7 + unat n) :: u8), Some (r @ [n + 1, BT_DATA_ESL] @ q))"
proof -
  have w: "wr_mem (d @ q) 0 r = Some (r @ drop 5 d @ q)"
    using r d by (simp add: wr_mem_def)
  obtain x y where xy: "drop 5 d = [x, y]"
    using d by (auto simp: numeral_eq_Suc length_Suc_conv)
  show ?thesis
    unfolding esl_generate_ad_data_header_def using nz r d
    by (simp add: w xy upd_def list_update_append)
qed

lemma compose_ok:
  assumes z: "zephyr_ok z" and key: "key_ok key" and rnd: "length rnd = 5"
    and n: "0 < unat n" "unat n \<le> 48" and pl: "unat n \<le> length payload"
    and pa: "unat n + 13 \<le> length pa"
  shows "esl_compose_ad_data z pa payload n rnd key = Some
    ([n + 12, BT_DATA_ENCRYPTED_AD_DATA] @
       snd (z_ead_encrypt z (session_key key) (iv key)
         ([n + 1, BT_DATA_ESL] @ take (unat n) payload)) @ drop (unat n + 13) pa,
     rnd[4 := rnd ! 4 OR push_bit 7 1], n + 13)"
proof -
  define p where "p = take (unat n) payload"
  have lp: "length p = unat n" using pl by (simp add: p_def)
  define c where "c = snd (z_ead_encrypt z (session_key key) (iv key) ([n + 1, BT_DATA_ESL] @ p))"
  have lc: "length c = unat n + 11"
    using z_ead_encrypt_length [OF z, of "session_key key" "iv key"] key lp
    by (simp add: c_def key_ok_def)
  define r where "r = rnd[4 := rnd ! 4 OR push_bit 7 1]"
  have lr: "length r = 5" by (simp add: r_def rnd)
  have upd_r: "esl_update_randomizer rnd key = Some (r, esl_generate_nonce r (iv key))"
    using rnd by (simp add: esl_update_randomizer_def esl_init_randomizer_def r_def)
  have n2: "unat (n + 2) = unat n + 2"
    using unat_add_small [of n 2] n by simp
  have nz: "n \<noteq> 0" using n by auto
  obtain a b d q where pa_eq: "pa = [a, b] @ d @ q" and ld: "length d = 7"
  proof
    show "pa = [pa ! 0, pa ! 1] @ take 7 (drop 2 pa) @ drop 9 pa"
      using pa by (cases pa; cases "tl pa") (auto simp: numeral_eq_Suc)
    show "length (take 7 (drop 2 pa)) = 7" using pa by simp
  qed
  have lq: "unat n + 4 \<le> length q" using pa by (simp add: pa_eq ld)
  define q1 where "q1 = drop (unat n) q"
  have wr1: "wr_mem pa 9 p = Some ([a, b] @ d @ p @ q1)"
    using lq ld by (simp add: wr_mem_def pa_eq lp q1_def numeral_eq_Suc)
  have hdr: "esl_generate_ad_data_header (Some r) (Some (d @ p @ q1)) n
    = Some (sint (of_nat (7 + unat n) :: u8), Some (r @ [n + 1, BT_DATA_ESL] @ p @ q1))"
    using generate_header [OF lr ld nz, of "p @ q1"] by simp
  have rd2: "rd_mem ([a, b] @ r @ [n + 1, BT_DATA_ESL] @ p @ q1) 7 (unat (n + 2))
    = Some ([n + 1, BT_DATA_ESL] @ p)"
    by (simp add: rd_mem_def lr lp n2)
  have wr2: "wr_mem ([a, b] @ r @ [n + 1, BT_DATA_ESL] @ p @ q1) 2 c = Some ([a, b] @ c @ drop 4 q1)"
    using lq lr lp lc by (simp add: wr_mem_def q1_def numeral_eq_Suc)
  have tail: "drop 4 q1 = drop (unat n + 13) pa"
    using ld by (simp add: pa_eq q1_def numeral_eq_Suc)
  show ?thesis
    using pl unfolding esl_compose_ad_data_def upd_r
    by (simp add: wr1 hdr rd2 [simplified] wr2 [simplified] tail upd_def p_def [symmetric]
        c_def [simplified, symmetric] r_def [simplified, symmetric])
qed

text \<open>With an empty payload the header is refused, the packet is encrypted all the same.\<close>

lemma compose_total:
  assumes z: "zephyr_ok z" and key: "key_ok key" and rnd: "length rnd = 5"
    and n: "unat n \<le> 48" and pl: "unat n \<le> length payload" and pa: "length pa = 61"
  shows "yields (esl_compose_ad_data z pa payload n rnd key) (\<lambda>(pa', r, l).
    length pa' = length pa \<and> length r = 5)"
proof (cases "n = 0")
  case True
  have "length (snd (z_ead_encrypt z (session_key key) (iv key) p)) = length p + 9" for p
    using z_ead_encrypt_length [OF z] key by (simp add: key_ok_def)
  then show ?thesis
    using True pa rnd
    by (auto simp: esl_compose_ad_data_def esl_update_randomizer_def esl_init_randomizer_def
        esl_generate_ad_data_header_def wp Let_def)
next
  case False
  then have "0 < unat n" by (simp add: unat_gt_0)
  moreover have "length (snd (z_ead_encrypt z (session_key key) (iv key)
      ([n + 1, BT_DATA_ESL] @ take (unat n) payload))) = unat n + 11"
    using z_ead_encrypt_length [OF z, of "session_key key" "iv key"] key pl by (simp add: key_ok_def)
  ultimately show ?thesis
    using compose_ok [OF z key rnd _ n pl, of pa] pa n rnd by simp
qed

end
