(* ===== verification/Esl_Tag_State.thy ===== *)
theory Esl_Tag_State
  imports Esl_Common
begin

text \<open>
  The state of the tag role: \<open>struct bt_esl_chrc_data\<close> and \<open>struct bt_esls\<close>, the static variables of
  \<open>service/esl.c\<close>, the store of settings, and the state behind the application's callbacks. A
  record extension stands for an embedded struct. What a handler asks the platform or the
  application to do, without a result the code depends on, is appended to \<open>trace\<close> in program order.

  The Kconfig values are the record \<open>config\<close>, the callbacks of \<open>struct bt_esl_cb\<close> the record
  \<open>callbacks\<close>; a callback pointer that may be null is an \<open>option\<close> or, where only its being called
  matters, a flag. What a handler reads from outside (uptime, random bytes, uninitialised stack)
  is its argument of type \<open>inp\<close>.
\<close>

subsection \<open>State\<close>

record bt_esl_chrc_data =
  esl_addr :: u16
  esl_rsp_key :: bt_esl_key_material
  esl_randomizer :: "u8 list"
  max_image_index :: u8
  displays :: "esl_disp_inf list"
  led_objs :: "led_obj list"
  esl_ap_key :: bt_esl_key_material
  sensors :: "esl_sensor_inf list"
  led_type :: "u8 list"
  connect_from :: ESL_ACL_SOURCE

datatype notify_func = Notify_null | Ecp_notify_cb | Ecp_notify_unassociated_cb

record bt_esls = bt_esl_chrc_data +
  conn :: "nat option"
  ecp_notify_func :: notify_func
  ecp_notify_len :: u16
  basic_state :: u32
  esl_state :: BT_ESL_STATE
  configuring_state :: u32
  resp :: esl_ecp_resp
  esl_ecp_resp_needed :: bool
  esl_sm_timeout_update_needed :: bool
  led_dworks :: "led_dwork list"
  display_works :: "display_dwork list"
  sensor_data :: "esl_sensor_data list"
  busy :: bool
  stored_image_size :: "u32 list"
  img_object_names :: "string list"
  img_obj_buf :: "u8 list"

text \<open>Work items the code schedules or cancels, and the other calls that leave the service.\<close>

datatype work_item = Adv_work | Ecp_work | Timeout_work | Pawr_work | Led_work nat | Display_work nat

datatype effect =
    Led_control u8 u8 bool
  | Display_control u8 u8 bool
  | Display_associated u8
  | Display_unassociated u8
  | K_work_schedule work_item nat \<comment> \<open>delay in milliseconds\<close>
  | K_work_reschedule work_item nat
  | K_work_submit work_item
  | K_work_cancel work_item
  | Bt_le_adv_start u16 u16 bool \<comment> \<open>interval bounds, directed to the bonded peer\<close>
  | Bt_le_adv_stop
  | Bt_conn_disconnect "nat option" u8
  | Bt_conn_unref
  | Bt_unpair_all
  | Bt_unpair nat
  | Past_subscribe "nat option" nat nat \<comment> \<open>connection, skip, timeout\<close>
  | Past_unsubscribe
  | Sync_delete "nat option"
  | Sync_subevent nat "u8 list"
  | Set_response_data u16 u8 u8 "u8 list" \<comment> \<open>request event, subevent, slot, data\<close>
  | Gatt_notify notify_func "u8 list"
  | Settings_commit
  | Ots_obj_delete u64
  | Temp_measure
  | Dfu_mode bool
  | Printk string
  | Printk_num string u32
  | Auth_confirm nat
  | Auth_cancel nat
  | Set_security nat u16

record 'st tag = bt_esls +
  adv_mode :: esl_adv_mode
  ecp_src :: esl_ecp_command_src
  timeout_mode :: esl_timeout_mode
  abs_time_anchor :: u64
  sync_timeout_count :: u32
  acl_timeout_count :: u32
  pawr_sync :: "nat option"
  sync_count :: u8
  response_slot_delay :: u8
  pawr_event_counter :: u16
  pawr_subevent :: u8
  pawr_buf :: "u8 list"
  sm_cur :: BT_ESL_STATE
  esl_ad_data :: "u8 list"
  pa_rsp_len :: u16
  ecp_rsp_net_buf :: "u8 list"
  ecp_net_buf :: "u8 list" \<comment> \<open>the bytes in memory at \<open>data\<close>\<close>
  ecp_net_buf_len :: u16
  ecp_rsp_last_tlv_len :: u8
  auth_conn :: "nat option"
  obj_cnt :: u32
  object_being_created :: "(string \<times> u32 \<times> u32) option" \<comment> \<open>name, current and allocated size\<close>
  settings_store :: settings
  storage :: 'st \<comment> \<open>state behind the application's callbacks\<close>
  trace :: "effect list"

definition effect :: "effect \<Rightarrow> 'st tag \<Rightarrow> 'st tag" where
  "effect x s = s\<lparr>trace := trace s @ [x]\<rparr>"

subsection \<open>Configuration, callbacks and inputs\<close>

record config =
  led_max :: nat
  display_max :: nat
  sensor_max :: nat
  image_max :: nat
  led_indication :: bool
  simulate_display :: bool
  vendor_specific_support :: bool
  forget_provision_data :: bool
  esl_pts :: bool
  ots_nvs_or_zms :: bool
  unsynchronized_immediately :: bool
  cond_service_required :: bool
  demo_security :: bool
  image_file_size :: nat
  image_buffer_size :: nat
  unsynchronized_timeout :: nat
  unassociated_timeout :: nat
  past_skip :: nat
  past_timeout :: nat

text \<open>
  \<open>sensor_control\<close>: sensor index, the bytes already in \<open>*len\<close> and \<open>*data\<close>, and the sensor data of
  the service; its results are the code, \<open>*len\<close>, \<open>*data\<close>, the new sensor data and the calls it
  makes. \<open>read_img_from_storage\<close>: image, destination buffer, length, offset.
\<close>

record 'st callbacks =
  cb_display_control :: bool
  cb_display_associated :: bool
  cb_display_unassociated :: bool
  cb_sensor_control :: "(u8 \<Rightarrow> u8 \<Rightarrow> u8 list \<Rightarrow> esl_sensor_data list
      \<Rightarrow> (int \<times> u8 \<times> u8 list \<times> esl_sensor_data list \<times> effect list) option) option"
  cb_vs_command_handler :: "(u8 list \<Rightarrow> u16 \<Rightarrow> 'st \<Rightarrow> ('st \<times> effect list) option) option"
  cb_vs_response_handler :: "(u8 list \<Rightarrow> 'st \<Rightarrow> (u8 \<times> u8 list \<times> 'st) option) option"
  cb_buffer_img :: "(u8 list \<Rightarrow> nat \<Rightarrow> int \<Rightarrow> u8 list \<Rightarrow> u8 list option) option"
  cb_open_image :: "(u8 \<Rightarrow> 'st \<Rightarrow> int \<times> 'st) option"
  cb_close_image :: "('st \<Rightarrow> int \<times> 'st) option"
  cb_write_img :: "(u8 \<Rightarrow> nat \<Rightarrow> int \<Rightarrow> u8 list \<Rightarrow> 'st \<Rightarrow> (int \<times> 'st) option) option"
  cb_read_img :: "(u8 \<Rightarrow> u8 list \<Rightarrow> nat \<Rightarrow> int \<Rightarrow> 'st \<Rightarrow> (int \<times> u8 list \<times> 'st) option) option"
  cb_read_img_size :: "u8 \<Rightarrow> 'st \<Rightarrow> u32"
  cb_delete_imgs :: "('st \<Rightarrow> int \<times> 'st) option"
  cb_display_init :: "int option"
  cb_led_init :: "int option"
  cb_sensor_init :: "int option"

record 'st env =
  cfg :: config
  cbs :: "'st callbacks"
  zep :: "('st tag, BT_ESL_STATE) zephyr"

text \<open>
  What one handler run reads from outside: \<open>k_uptime_get_32\<close> (read at most twice), the bytes of
  \<open>bt_rand\<close>, and the uninitialised locals of \<open>ecp_response_handler\<close> and \<open>esl_pawr_sync_work_fn\<close>.
\<close>

record inp =
  in_now :: u32
  in_now2 :: u32
  in_rand :: "u8 list"
  in_buf :: "u8 list"
  in_sensor_len :: u8
  in_sensor_data :: "u8 list"

definition inp_ok :: "inp \<Rightarrow> bool" where
  "inp_ok i \<longleftrightarrow> length (in_rand i) = EAD_RANDOMIZER_LEN \<and> length (in_buf i) = ESL_EAD_PAYLOAD_MAX_LEN \<and>
     length (in_sensor_data i) = ESL_RESPONSE_SENSOR_LEN"

definition INDICATION_LED_IDX :: "config \<Rightarrow> nat" where
  "INDICATION_LED_IDX c = (if led_indication c then max (led_max c - 1) 0 else 0)"

definition SIMULATE_DISPLAY_LED_IDX :: "config \<Rightarrow> nat" where
  "SIMULATE_DISPLAY_LED_IDX c = (if simulate_display c then max (led_max c - 2) 0 else 0)"

text \<open>
  The configurations the model covers: Kconfig's ranges, an LED when one is used as indication,
  at least one image (the control point handler reads \<open>stored_image_size\<close>, which exists only
  with \<open>BT_ESL_IMAGE_AVAILABLE\<close>).
\<close>

definition cfg_ok :: "config \<Rightarrow> bool" where
  "cfg_ok c \<longleftrightarrow> led_max c \<le> 255 \<and> display_max c \<le> 255 \<and> sensor_max c \<le> 255 \<and>
     1 \<le> image_max c \<and> image_max c \<le> 255 \<and> (led_indication c \<longrightarrow> 0 < led_max c)"

subsection \<open>Well-formed states\<close>

definition led_obj_ok :: "led_obj \<Rightarrow> bool" where
  "led_obj_ok l \<longleftrightarrow> length (flash_pattern l) = ESL_LED_FLASH_PATTERN_LEN"

definition sensor_data_ok :: "esl_sensor_data \<Rightarrow> bool" where
  "sensor_data_ok d \<longleftrightarrow> length (sd_data d) = ESL_RESPONSE_SENSOR_LEN \<and>
     unat (sd_size d) \<le> ESL_RESPONSE_SENSOR_LEN"

definition wf_tag :: "'st env \<Rightarrow> 'st tag \<Rightarrow> bool" where
  "wf_tag e s \<longleftrightarrow>
     key_ok (esl_ap_key s) \<and> key_ok (esl_rsp_key s) \<and>
     length (esl_randomizer s) = EAD_RANDOMIZER_LEN \<and>
     length (led_objs s) = led_max (cfg e) \<and> list_all led_obj_ok (led_objs s) \<and>
     length (led_type s) = led_max (cfg e) \<and>
     length (led_dworks s) = led_max (cfg e) \<and>
     length (displays s) = display_max (cfg e) \<and>
     length (display_works s) = display_max (cfg e) \<and>
     length (sensors s) = sensor_max (cfg e) \<and>
     length (sensor_data s) = sensor_max (cfg e) \<and> list_all sensor_data_ok (sensor_data s) \<and>
     length (stored_image_size s) = image_max (cfg e) \<and>
     length (img_object_names s) = image_max (cfg e) \<and>
     length (img_obj_buf s) = image_buffer_size (cfg e) \<and>
     max_image_index s = of_nat (image_max (cfg e) - 1) \<and>
     length (esl_ad_data s) = ESL_ENCRTYPTED_DATA_MAX_LEN \<and>
     length (ecp_rsp_net_buf s) \<le> ESL_SYNC_PKT_PAYLOAD_MAX_LEN \<and>
     (32 \<le> length (ecp_rsp_net_buf s) \<longrightarrow> 2 \<le> unat (ecp_rsp_last_tlv_len s) \<and>
        unat (ecp_rsp_last_tlv_len s) \<le> length (ecp_rsp_net_buf s)) \<and>
     list_all (\<lambda>d. unat (pattern_idx d) \<le> 40) (led_dworks s) \<and>
     (\<forall>i < led_max (cfg e). led_idx (led_dworks s ! i) = of_nat i) \<and>
     (\<forall>i < display_max (cfg e). display_idx (display_works s ! i) = of_nat i)"

text \<open>Fields the well-formedness does not depend on.\<close>

lemma wf_frame [simp]:
  "wf_tag e (s\<lparr>esl_addr := x1\<rparr>) = wf_tag e s"
  "wf_tag e (s\<lparr>connect_from := x2\<rparr>) = wf_tag e s"
  "wf_tag e (s\<lparr>conn := x3\<rparr>) = wf_tag e s"
  "wf_tag e (s\<lparr>ecp_notify_func := x4\<rparr>) = wf_tag e s"
  "wf_tag e (s\<lparr>ecp_notify_len := x5\<rparr>) = wf_tag e s"
  "wf_tag e (s\<lparr>basic_state := x6\<rparr>) = wf_tag e s"
  "wf_tag e (s\<lparr>esl_state := x7\<rparr>) = wf_tag e s"
  "wf_tag e (s\<lparr>configuring_state := x8\<rparr>) = wf_tag e s"
  "wf_tag e (s\<lparr>resp := x9\<rparr>) = wf_tag e s"
  "wf_tag e (s\<lparr>esl_ecp_resp_needed := x10\<rparr>) = wf_tag e s"
  "wf_tag e (s\<lparr>esl_sm_timeout_update_needed := x11\<rparr>) = wf_tag e s"
  "wf_tag e (s\<lparr>busy := x12\<rparr>) = wf_tag e s"
  "wf_tag e (s\<lparr>adv_mode := x13\<rparr>) = wf_tag e s"
  "wf_tag e (s\<lparr>ecp_src := x14\<rparr>) = wf_tag e s"
  "wf_tag e (s\<lparr>timeout_mode := x15\<rparr>) = wf_tag e s"
  "wf_tag e (s\<lparr>abs_time_anchor := x16\<rparr>) = wf_tag e s"
  "wf_tag e (s\<lparr>sync_timeout_count := x17\<rparr>) = wf_tag e s"
  "wf_tag e (s\<lparr>acl_timeout_count := x18\<rparr>) = wf_tag e s"
  "wf_tag e (s\<lparr>pawr_sync := x19\<rparr>) = wf_tag e s"
  "wf_tag e (s\<lparr>sync_count := x20\<rparr>) = wf_tag e s"
  "wf_tag e (s\<lparr>response_slot_delay := x21\<rparr>) = wf_tag e s"
  "wf_tag e (s\<lparr>pawr_event_counter := x22\<rparr>) = wf_tag e s"
  "wf_tag e (s\<lparr>pawr_subevent := x23\<rparr>) = wf_tag e s"
  "wf_tag e (s\<lparr>pawr_buf := x24\<rparr>) = wf_tag e s"
  "wf_tag e (s\<lparr>sm_cur := x25\<rparr>) = wf_tag e s"
  "wf_tag e (s\<lparr>pa_rsp_len := x26\<rparr>) = wf_tag e s"
  "wf_tag e (s\<lparr>ecp_net_buf := x27\<rparr>) = wf_tag e s"
  "wf_tag e (s\<lparr>ecp_net_buf_len := x28\<rparr>) = wf_tag e s"
  "wf_tag e (s\<lparr>auth_conn := x29\<rparr>) = wf_tag e s"
  "wf_tag e (s\<lparr>obj_cnt := x30\<rparr>) = wf_tag e s"
  "wf_tag e (s\<lparr>object_being_created := x31\<rparr>) = wf_tag e s"
  "wf_tag e (s\<lparr>settings_store := x32\<rparr>) = wf_tag e s"
  "wf_tag e (s\<lparr>storage := x33\<rparr>) = wf_tag e s"
  "wf_tag e (s\<lparr>trace := x34\<rparr>) = wf_tag e s"
  by (simp_all add: wf_tag_def)

lemma wf_effect [simp]: "wf_tag e (effect x s) = wf_tag e s"
  by (simp add: effect_def)

subsection \<open>Interfaces to the application\<close>

text \<open>
  What the service relies on when it calls the application, one locale per group of callbacks:
  the laws are stated for callbacks of the type the service calls.
\<close>

locale sensor_provider =
  fixes ctl :: "u8 \<Rightarrow> u8 \<Rightarrow> u8 list \<Rightarrow> esl_sensor_data list
      \<Rightarrow> (int \<times> u8 \<times> u8 list \<times> esl_sensor_data list \<times> effect list) option"
    and n :: nat
  assumes ctl_ok: "unat i < n \<Longrightarrow> length sd = n \<Longrightarrow> list_all sensor_data_ok sd \<Longrightarrow>
      length d = ESL_RESPONSE_SENSOR_LEN \<Longrightarrow>
      yields (ctl i l d sd) (\<lambda>(r, l', d', sd', fx). length sd' = n \<and> list_all sensor_data_ok sd' \<and>
        length d' = ESL_RESPONSE_SENSOR_LEN \<and>
        (r \<noteq> - EBUSY \<longrightarrow> unat l' \<le> ESL_RESPONSE_SENSOR_LEN))"

locale vs_provider =
  fixes cmd :: "u8 list \<Rightarrow> u16 \<Rightarrow> 'st \<Rightarrow> ('st \<times> effect list) option"
    and rsp :: "u8 list \<Rightarrow> 'st \<Rightarrow> (u8 \<times> u8 list \<times> 'st) option"
  assumes cmd_ok: "2 \<le> unat len \<Longrightarrow> unat len \<le> length mem \<Longrightarrow> cmd mem len st \<noteq> None"
    and rsp_ok: "length b = ESL_EAD_PAYLOAD_MAX_LEN \<Longrightarrow>
      yields (rsp b st) (\<lambda>(l, b', st'). 2 \<le> unat l \<and> unat l \<le> 17 \<and> length b' = ESL_EAD_PAYLOAD_MAX_LEN)"

locale image_io =
  fixes buffer_img :: "u8 list \<Rightarrow> nat \<Rightarrow> int \<Rightarrow> u8 list \<Rightarrow> u8 list option"
    and write_img :: "u8 \<Rightarrow> nat \<Rightarrow> int \<Rightarrow> u8 list \<Rightarrow> 'st \<Rightarrow> (int \<times> 'st) option"
    and read_img :: "u8 \<Rightarrow> u8 list \<Rightarrow> nat \<Rightarrow> int \<Rightarrow> 'st \<Rightarrow> (int \<times> u8 list \<times> 'st) option"
    and n :: nat \<comment> \<open>size of the image buffer\<close>
  assumes buffer_ok: "l \<le> length d \<Longrightarrow> length b = n \<Longrightarrow> yields (buffer_img d l off b) (\<lambda>b'. length b' = length b)"
    and write_ok: "l \<le> length b \<Longrightarrow> write_img i l off b st \<noteq> None"
    and read_ok: "l \<le> length b \<Longrightarrow>
      yields (read_img i b l off st) (\<lambda>(r, b', st'). length b' = length b)"

text \<open>A callback that is not registered imposes nothing.\<close>

definition callbacks_ok :: "config \<Rightarrow> 'st callbacks \<Rightarrow> bool" where
  "callbacks_ok c cb \<longleftrightarrow>
     (\<forall>f. cb_sensor_control cb = Some f \<longrightarrow> sensor_provider f (sensor_max c)) \<and>
     vs_provider (\<lambda>m l st. case cb_vs_command_handler cb of None \<Rightarrow> Some (st, []) | Some f \<Rightarrow> f m l st)
       (\<lambda>b st. case cb_vs_response_handler cb of None \<Rightarrow> Some (2, b, st) | Some f \<Rightarrow> f b st) \<and>
     image_io (\<lambda>d l off b. case cb_buffer_img cb of None \<Rightarrow> Some b | Some f \<Rightarrow> f d l off b)
       (\<lambda>i l off b st. case cb_write_img cb of None \<Rightarrow> Some (0, st) | Some f \<Rightarrow> f i l off b st)
       (\<lambda>i b l off st. case cb_read_img cb of None \<Rightarrow> Some (0, b, st) | Some f \<Rightarrow> f i b l off st)
       (image_buffer_size c)"

definition env_ok :: "'st env \<Rightarrow> bool" where
  "env_ok e \<longleftrightarrow> cfg_ok (cfg e) \<and> callbacks_ok (cfg e) (cbs e) \<and> zephyr_ok (zep e)"

lemma env_zep: "env_ok e \<Longrightarrow> zephyr_ok (zep e)"
  by (simp add: env_ok_def)

lemma env_sensor:
  "env_ok e \<Longrightarrow> cb_sensor_control (cbs e) = Some f \<Longrightarrow> sensor_provider f (sensor_max (cfg e))"
  by (simp add: env_ok_def callbacks_ok_def)

lemma env_vs_command:
  assumes "env_ok e" "cb_vs_command_handler (cbs e) = Some f"
    and "2 \<le> unat len" "unat len \<le> length mem"
  obtains st' fx where "f mem len st = Some (st', fx)"
proof -
  have "vs_provider f (\<lambda>b st. case cb_vs_response_handler (cbs e) of None \<Rightarrow> Some (2, b, st)
      | Some f \<Rightarrow> f b st)"
    using assms(1,2) by (simp add: env_ok_def callbacks_ok_def)
  then have "f mem len st \<noteq> None"
    using assms(3,4) by (rule vs_provider.cmd_ok)
  then show thesis using that by auto
qed

lemma env_vs_response:
  assumes "env_ok e" "cb_vs_response_handler (cbs e) = Some f" "length b = ESL_EAD_PAYLOAD_MAX_LEN"
  shows "yields (f b st) (\<lambda>(l, b', st'). 2 \<le> unat l \<and> unat l \<le> 17 \<and> length b' = ESL_EAD_PAYLOAD_MAX_LEN)"
proof -
  have "vs_provider (\<lambda>m l st. case cb_vs_command_handler (cbs e) of None \<Rightarrow> Some (st, [])
      | Some f \<Rightarrow> f m l st) f"
    using assms(1,2) by (simp add: env_ok_def callbacks_ok_def)
  then show ?thesis using assms(3) by (rule vs_provider.rsp_ok)
qed

end
