(* ===== verification/Esl_Dwork.thy ===== *)
theory Esl_Dwork
  imports Esl_Tag_State
begin

unbundle bit_operations_syntax

text \<open>
  The LED and display work items of \<open>service/esl.c\<close>: absolute time, reset and initialisation of the
  items, the two delayable workers and the update of the Basic State.

  The LED worker walks the 40-bit flashing pattern from its highest set bit down; each run shows
  one bit and schedules the next run. It is split here at the points where its source may
  return.
\<close>

subsection \<open>Absolute time and colour\<close>

definition esl_get_abs_time :: "u32 \<Rightarrow> 'st tag \<Rightarrow> u32" where
  "esl_get_abs_time now s = ucast (ucast now - abs_time_anchor s)"

definition esl_abs_time_update :: "u32 \<Rightarrow> u32 \<Rightarrow> 'st tag \<Rightarrow> 'st tag" where
  "esl_abs_time_update now new_abs_time s = s\<lparr>abs_time_anchor := ucast (now - new_abs_time)\<rparr>"

definition esl_led_check_and_set_color :: "u8 \<Rightarrow> u8 \<Rightarrow> u8" where
  "esl_led_check_and_set_color ty color_bright =
     (let type = drop_bit 6 (ty AND 0xC0); color = color_bright AND 0x3f
      in if type = ESL_LED_MONO then ty else color)"

subsection \<open>Resetting work items\<close>

definition led_dwork_upd :: "nat \<Rightarrow> (led_dwork \<Rightarrow> led_dwork) \<Rightarrow> 'st tag \<Rightarrow> 'st tag option" where
  "led_dwork_upd i f s = do {
     d \<leftarrow> rd (led_dworks s) i;
     ds \<leftarrow> upd (led_dworks s) i (f d);
     Some (s\<lparr>led_dworks := ds\<rparr>)
   }"

definition display_work_upd :: "nat \<Rightarrow> (display_dwork \<Rightarrow> display_dwork) \<Rightarrow> 'st tag \<Rightarrow> 'st tag option" where
  "display_work_upd i f s = do {
     d \<leftarrow> rd (display_works s) i;
     ds \<leftarrow> upd (display_works s) i (f d);
     Some (s\<lparr>display_works := ds\<rparr>)
   }"

definition led_dwork_reset :: "nat \<Rightarrow> 'st tag \<Rightarrow> 'st tag option" where
  "led_dwork_reset i s = do {
     s1 \<leftarrow> led_dwork_upd i (\<lambda>d. d\<lparr>work_enable := False, led_active := False, start_abs_time := 0,
        stop_abs_time := 0, pattern_idx := 0, repeat_counts := 0\<rparr>) s;
     Some (effect (Led_control (of_nat i) 0 False) (effect (K_work_cancel (Led_work i)) s1))
   }"

definition led_dwork_init :: "'st env \<Rightarrow> 'st tag \<Rightarrow> 'st tag option" where
  "led_dwork_init e s = for_loop 0 (led_max (cfg e)) (\<lambda>i t. do {
     t1 \<leftarrow> led_dwork_upd i (\<lambda>d. d\<lparr>led_idx := of_nat i\<rparr>) t;
     led_dwork_reset i t1 }) s"

definition display_dwork_reset :: "'st env \<Rightarrow> nat \<Rightarrow> 'st tag \<Rightarrow> 'st tag option" where
  "display_dwork_reset e i s = do {
     s1 \<leftarrow> display_work_upd i (\<lambda>d. d\<lparr>disp_start_abs_time := 0, disp_active := False,
        disp_img_idx := (if esl_pts (cfg e) then 0 else of_nat (image_max (cfg e)))\<rparr>) s;
     Some (effect (K_work_cancel (Display_work i)) s1)
   }"

definition display_dwork_init :: "'st env \<Rightarrow> 'st tag \<Rightarrow> 'st tag option" where
  "display_dwork_init e s = for_loop 0 (display_max (cfg e)) (\<lambda>i t. do {
     t1 \<leftarrow> display_work_upd i (\<lambda>d. d\<lparr>display_idx := of_nat i\<rparr>) t;
     display_dwork_reset e i t1 }) s"

subsection \<open>The LED worker\<close>

text \<open>\<open>__builtin_clzll\<close>, undefined on 0.\<close>

definition builtin_clzll :: "u64 \<Rightarrow> nat option" where
  "builtin_clzll p = (if p = 0 then None
     else Some (length (takeWhile (\<lambda>n. \<not> bit p n) (rev [0..<64]))))"

definition led_pattern :: "'st env \<Rightarrow> led_obj \<Rightarrow> u64" where
  "led_pattern e lo =
     push_bit 8 (ucast (z_get_le32 (zep e) (drop 1 (flash_pattern lo)))) OR ucast (flash_pattern lo ! 0)"

text \<open>Repeat duration 0: continuously on or off.\<close>

definition led_worker_continuous :: "nat \<Rightarrow> led_obj \<Rightarrow> 'st tag \<Rightarrow> 'st tag option" where
  "led_worker_continuous i lo s =
     (let on = (repeat_type lo = 1)
      in led_dwork_upd i (\<lambda>d. d\<lparr>led_active := on\<rparr>)
           (effect (Led_control (of_nat i) (color_brightness lo) on) s))"

text \<open>The first run after a command fixes the time to stop.\<close>

definition led_worker_begin :: "u32 \<Rightarrow> nat \<Rightarrow> led_obj \<Rightarrow> 'st tag \<Rightarrow> 'st tag option" where
  "led_worker_begin now i lo s = do {
     d \<leftarrow> rd (led_dworks s) i;
     (if work_enable d then Some s
      else led_dwork_upd i (\<lambda>d. d\<lparr>
             stop_abs_time := (if repeat_type lo = 1
               then esl_get_abs_time now s + ucast (repeat_duration lo) * 1000 else 0),
             work_enable := True, led_active := True\<rparr>) s)
   }"

definition led_worker_stop :: "nat \<Rightarrow> led_obj \<Rightarrow> 'st tag \<Rightarrow> 'st tag option" where
  "led_worker_stop i lo s =
     led_dwork_upd i (\<lambda>d. d\<lparr>work_enable := False, led_active := False\<rparr>)
       (effect (Led_control (of_nat i) (color_brightness lo) False) s)"

definition led_worker_timeout :: "u32 \<Rightarrow> nat \<Rightarrow> led_obj \<Rightarrow> 'st tag \<Rightarrow> 'st tag option" where
  "led_worker_timeout now i lo s = do {
     d \<leftarrow> rd (led_dworks s) i;
     (if stop_abs_time d \<noteq> 0 \<and> stop_abs_time d < esl_get_abs_time now s
      then led_worker_stop i lo s else Some s)
   }"

text \<open>End of a round or start of the first one; the flag says that the worker returns.\<close>

definition led_worker_round :: "nat \<Rightarrow> led_obj \<Rightarrow> u64 \<Rightarrow> 'st tag \<Rightarrow> ('st tag \<times> bool) option" where
  "led_worker_round i lo pattern s = do {
     d \<leftarrow> rd (led_dworks s) i;
     (if pattern_idx d = 0 then do {
        c \<leftarrow> builtin_clzll pattern;
        s1 \<leftarrow> led_dwork_upd i (\<lambda>d. d\<lparr>repeat_counts := repeat_counts d + 1, pattern_idx := of_nat (63 - c)\<rparr>) s;
        d1 \<leftarrow> rd (led_dworks s1) i;
        (if unat (repeat_duration lo) \<le> unat (repeat_counts d1) then do {
           s2 \<leftarrow> led_worker_stop i lo s1;
           Some (s2, True)
         } else Some (s1, False))
      } else if pattern_idx d = ESL_LED_FLASH_PATTERN_START_BIT_IDX then do {
        c \<leftarrow> builtin_clzll pattern;
        s1 \<leftarrow> led_dwork_upd i (\<lambda>d. d\<lparr>pattern_idx := of_nat (63 - c)\<rparr>) s;
        Some (s1, False)
      } else Some (s, False))
   }"

text \<open>Show the bit at \<open>pattern_idx\<close> and schedule work item \<open>k\<close> again.\<close>

definition led_worker_bit :: "nat \<Rightarrow> nat \<Rightarrow> led_obj \<Rightarrow> u64 \<Rightarrow> 'st tag \<Rightarrow> 'st tag option" where
  "led_worker_bit k i lo pattern s = do {
     d \<leftarrow> rd (led_dworks s) i;
     (if \<not> work_enable d then Some s
      else if 64 \<le> unat (pattern_idx d) then None
      else let on = bit pattern (unat (pattern_idx d));
               s1 = effect (Led_control (of_nat i) (color_brightness lo) on) s;
               s2 = effect (K_work_schedule (Led_work k)
                      (unat (if on then bit_on_period lo else bit_off_period lo) * 2)) s1
           in if pattern_idx d \<noteq> 0 then led_dwork_upd i (\<lambda>d. d\<lparr>pattern_idx := pattern_idx d - 1\<rparr>) s2
              else Some s2)
   }"

definition led_delay_worker_fn :: "'st env \<Rightarrow> inp \<Rightarrow> nat \<Rightarrow> 'st tag \<Rightarrow> 'st tag option" where
  "led_delay_worker_fn e x k s = do {
     ctx \<leftarrow> rd (led_dworks s) k;
     let i = unat (led_idx ctx);
     (if led_max (cfg e) \<le> i then Some s
      else do {
        s0 \<leftarrow> led_dwork_upd i (\<lambda>d. d\<lparr>start_abs_time := 0\<rparr>) s;
        lo \<leftarrow> rd (led_objs s0) i;
        (if repeat_duration lo = 0 then led_worker_continuous i lo s0
         else do {
           s1 \<leftarrow> led_worker_begin (in_now x) i lo s0;
           let pattern = led_pattern e lo;
           s2 \<leftarrow> led_worker_timeout (in_now2 x) i lo s1;
           (s3, finished) \<leftarrow> led_worker_round i lo pattern s2;
           (if finished then Some s3 else led_worker_bit k i lo pattern s3)
         })
      })
   }"

subsection \<open>The display worker\<close>

definition display_delay_worker_fn :: "'st env \<Rightarrow> nat \<Rightarrow> 'st tag \<Rightarrow> 'st tag option" where
  "display_delay_worker_fn e k s = do {
     ctx \<leftarrow> rd (display_works s) k;
     (if display_max (cfg e) \<le> unat (display_idx ctx) then Some s
      else do {
        s1 \<leftarrow> display_work_upd k (\<lambda>d. d\<lparr>disp_active := True, disp_start_abs_time := 0\<rparr>) s;
        Some (if cb_display_control (cbs e)
              then effect (Display_control (display_idx ctx) (disp_img_idx ctx) True) s1 else s1)
      })
   }"

subsection \<open>Basic State\<close>

definition basic_bit :: "'st env \<Rightarrow> (u32 \<Rightarrow> nat \<Rightarrow> u32) \<Rightarrow> nat \<Rightarrow> 'st tag \<Rightarrow> 'st tag" where
  "basic_bit e f b s = s\<lparr>basic_state := f (basic_state s) b\<rparr>"

definition bt_esl_basic_state_update :: "'st env \<Rightarrow> 'st tag \<Rightarrow> 'st tag option" where
  "bt_esl_basic_state_update e s = do {
     let set_b = basic_bit e (z_set_bit (zep e));
     let clr_b = basic_bit e (z_clear_bit (zep e));
     let s1 = clr_b ESL_PENDING_DISPLAY_UPDATE (clr_b ESL_PENDING_LED_UPDATE (clr_b ESL_ACTIVE_LED s));
     s2 \<leftarrow> for_loop 0 (led_max (cfg e)) (\<lambda>i t. do {
        d \<leftarrow> rd (led_dworks t) i;
        let t1 = (if led_active d then set_b ESL_ACTIVE_LED t else t);
        Some (if start_abs_time d \<noteq> 0 then set_b ESL_PENDING_LED_UPDATE t1 else t1) }) s1;
     for_loop 0 (display_max (cfg e)) (\<lambda>i t. do {
        d \<leftarrow> rd (display_works t) i;
        Some (if disp_start_abs_time d \<noteq> 0 then set_b ESL_PENDING_DISPLAY_UPDATE t else t) }) s2
   }"

subsection \<open>Well-formedness\<close>

lemma wf_led_dworks: "wf_tag e s \<Longrightarrow> length (led_dworks s) = led_max (cfg e)"
  by (simp add: wf_tag_def)

lemma wf_led_objs:
  "wf_tag e s \<Longrightarrow> length (led_objs s) = led_max (cfg e)"
  "wf_tag e s \<Longrightarrow> i < led_max (cfg e) \<Longrightarrow> length (flash_pattern (led_objs s ! i)) = 5"
  by (auto simp: wf_tag_def list_all_length led_obj_ok_def)

lemma wf_display_works: "wf_tag e s \<Longrightarrow> length (display_works s) = display_max (cfg e)"
  by (simp add: wf_tag_def)

lemma wf_led_idx: "wf_tag e s \<Longrightarrow> i < led_max (cfg e) \<Longrightarrow> led_idx (led_dworks s ! i) = of_nat i"
  by (simp add: wf_tag_def)

lemma wf_pattern_idx:
  "wf_tag e s \<Longrightarrow> i < led_max (cfg e) \<Longrightarrow> unat (pattern_idx (led_dworks s ! i)) \<le> 40"
  by (simp add: wf_tag_def list_all_length)

lemma wf_display_idx:
  "wf_tag e s \<Longrightarrow> i < display_max (cfg e) \<Longrightarrow> display_idx (display_works s ! i) = of_nat i"
  by (simp add: wf_tag_def)

lemma wf_led_update:
  assumes "wf_tag e s" "i < led_max (cfg e)" "led_idx d = of_nat i" "unat (pattern_idx d) \<le> 40"
  shows "wf_tag e (s\<lparr>led_dworks := (led_dworks s)[i := d]\<rparr>)"
  using assms by (auto simp: wf_tag_def list_all_update nth_list_update)

lemma wf_display_update:
  assumes "wf_tag e s" "i < display_max (cfg e)" "display_idx d = of_nat i"
  shows "wf_tag e (s\<lparr>display_works := (display_works s)[i := d]\<rparr>)"
  using assms by (auto simp: wf_tag_def nth_list_update)

lemma wf_led_obj_update:
  assumes "wf_tag e s" "led_obj_ok l"
  shows "wf_tag e (s\<lparr>led_objs := (led_objs s)[i := l]\<rparr>)"
  using assms by (simp add: wf_tag_def list_all_update)

lemma led_dwork_upd_eq:
  "i < length (led_dworks s) \<Longrightarrow>
     led_dwork_upd i f s = Some (s\<lparr>led_dworks := (led_dworks s)[i := f (led_dworks s ! i)]\<rparr>)"
  by (simp add: led_dwork_upd_def)

lemma display_work_upd_eq:
  "i < length (display_works s) \<Longrightarrow>
     display_work_upd i f s = Some (s\<lparr>display_works := (display_works s)[i := f (display_works s ! i)]\<rparr>)"
  by (simp add: display_work_upd_def)

lemma yields_led_dwork_upd [wp]:
  "yields (led_dwork_upd i f s) P \<longleftrightarrow> i < length (led_dworks s) \<and>
     P (s\<lparr>led_dworks := (led_dworks s)[i := f (led_dworks s ! i)]\<rparr>)"
  by (auto simp: led_dwork_upd_def wp)

lemma yields_display_work_upd [wp]:
  "yields (display_work_upd i f s) P \<longleftrightarrow> i < length (display_works s) \<and>
     P (s\<lparr>display_works := (display_works s)[i := f (display_works s ! i)]\<rparr>)"
  by (auto simp: display_work_upd_def wp)

lemma effect_fields [simp]:
  "led_dworks (effect x s) = led_dworks s" "led_objs (effect x s) = led_objs s"
  "display_works (effect x s) = display_works s" "trace (effect x s) = trace s @ [x]"
  "abs_time_anchor (effect x s) = abs_time_anchor s" "basic_state (effect x s) = basic_state s"
  "esl_state (effect x s) = esl_state s" "sm_cur (effect x s) = sm_cur s"
  "configuring_state (effect x s) = configuring_state s"
  "settings_store (effect x s) = settings_store s" "esl_addr (effect x s) = esl_addr s"
  "conn (effect x s) = conn s" "esl_ap_key (effect x s) = esl_ap_key s"
  "esl_rsp_key (effect x s) = esl_rsp_key s" "resp (effect x s) = resp s"
  "ecp_notify_func (effect x s) = ecp_notify_func s"
  "connect_from (effect x s) = connect_from s" "timeout_mode (effect x s) = timeout_mode s"
  "esl_sm_timeout_update_needed (effect x s) = esl_sm_timeout_update_needed s"
  "esl_randomizer (effect x s) = esl_randomizer s" "storage (effect x s) = storage s"
  "ecp_rsp_net_buf (effect x s) = ecp_rsp_net_buf s" "pawr_sync (effect x s) = pawr_sync s"
  "stored_image_size (effect x s) = stored_image_size s" "obj_cnt (effect x s) = obj_cnt s"
  by (simp_all add: effect_def)

lemma effect_update [simp]:
  "(effect x s)\<lparr>led_dworks := l\<rparr> = effect x (s\<lparr>led_dworks := l\<rparr>)"
  "(effect x s)\<lparr>led_objs := lo\<rparr> = effect x (s\<lparr>led_objs := lo\<rparr>)"
  "(effect x s)\<lparr>display_works := d\<rparr> = effect x (s\<lparr>display_works := d\<rparr>)"
  by (simp_all add: effect_def)

lemma wf_led_dwork_reset:
  "wf_tag e s \<Longrightarrow> i < led_max (cfg e) \<Longrightarrow> yields (led_dwork_reset i s) (wf_tag e)"
  by (simp add: led_dwork_reset_def wp wf_led_dworks wf_led_update wf_led_idx)

lemma wf_display_dwork_reset:
  "wf_tag e s \<Longrightarrow> i < display_max (cfg e) \<Longrightarrow> yields (display_dwork_reset e i s) (wf_tag e)"
  by (simp add: display_dwork_reset_def wp wf_display_works wf_display_update wf_display_idx)

lemma wf_basic_bit [simp]: "wf_tag e (basic_bit e' f b s) = wf_tag e s"
  by (simp add: basic_bit_def)

lemma wf_basic_state_update:
  assumes "wf_tag e s"
  shows "yields (bt_esl_basic_state_update e s) (wf_tag e)"
  unfolding bt_esl_basic_state_update_def Let_def yields_bind
  by (rule yields_mono [OF for_loop_pres [of _ "wf_tag e"]])
    (auto simp: wp assms wf_led_dworks wf_display_works intro!: for_loop_pres)

lemma wf_display_delay_worker:
  "wf_tag e s \<Longrightarrow> k < display_max (cfg e) \<Longrightarrow> yields (display_delay_worker_fn e k s) (wf_tag e)"
  by (simp add: display_delay_worker_fn_def wp wf_display_works wf_display_update wf_display_idx)

subsection \<open>The highest set bit\<close>

lemma takeWhile_not_all:
  "\<exists>x \<in> set xs. \<not> P x \<Longrightarrow> length (takeWhile P xs) < length xs"
  by (induction xs) auto

lemma word_not_zero_bit: "(p :: u64) \<noteq> 0 \<Longrightarrow> \<exists>n < 64. bit p n"
  using bit_word_eqI [of p 0] by auto

lemma builtin_clzll_top:
  assumes "p \<noteq> 0"
  obtains c where "builtin_clzll p = Some c" "c < 64" "bit p (63 - c)"
    "\<And>n. 63 - c < n \<Longrightarrow> n < 64 \<Longrightarrow> \<not> bit p n"
proof -
  define xs :: "nat list" where "xs = rev [0..<64]"
  define c where "c = length (takeWhile (\<lambda>n. \<not> bit p n) xs)"
  have xs: "length xs = 64" "set xs = {0..<64}" "\<And>j. j < 64 \<Longrightarrow> xs ! j = 63 - j"
    by (simp_all add: xs_def rev_nth del: upt_eq_Cons_conv upt_rec_numeral)
  obtain m where m: "m < 64" "bit p m" using word_not_zero_bit [OF assms] by auto
  have c: "c < 64"
  proof -
    have "\<exists>x \<in> set xs. \<not> \<not> bit p x" using m by (auto simp: xs)
    then show ?thesis unfolding c_def xs(1) [symmetric] by (rule takeWhile_not_all)
  qed
  have b: "bit p (63 - c)"
    using nth_length_takeWhile [of "\<lambda>n. \<not> bit p n" xs] c by (simp add: xs flip: c_def)
  have above: "\<not> bit p n" if "63 - c < n" "n < 64" for n
  proof -
    have lt: "63 - n < length (takeWhile (\<lambda>n. \<not> bit p n) xs)" using that c by (simp add: c_def)
    then have "takeWhile (\<lambda>n. \<not> bit p n) xs ! (63 - n) = n"
      using that by (simp add: takeWhile_nth xs)
    then have "n \<in> set (takeWhile (\<lambda>n. \<not> bit p n) xs)"
      using nth_mem [OF lt] by simp
    then show ?thesis by (auto dest: set_takeWhileD)
  qed
  have "builtin_clzll p = Some c"
    unfolding builtin_clzll_def c_def xs_def using assms by (simp only: if_False)
  then show thesis using c b above by (rule that)
qed

definition top_bit :: "u64 \<Rightarrow> nat" where
  "top_bit p = 63 - the (builtin_clzll p)"

lemma builtin_clzll_0 [simp]: "builtin_clzll 0 = None"
  by (simp add: builtin_clzll_def)

lemma top_bit:
  assumes "p \<noteq> 0"
  shows "bit p (top_bit p)" "\<And>n. top_bit p < n \<Longrightarrow> \<not> bit p n" "top_bit p < 64"
    "\<exists>c. builtin_clzll p = Some c \<and> 63 - c = top_bit p"
proof -
  obtain c where c: "builtin_clzll p = Some c" "c < 64" "bit p (63 - c)"
    "\<And>n. 63 - c < n \<Longrightarrow> n < 64 \<Longrightarrow> \<not> bit p n"
    using builtin_clzll_top [OF assms] by blast
  show "bit p (top_bit p)" "top_bit p < 64" "\<exists>c. builtin_clzll p = Some c \<and> 63 - c = top_bit p"
    using c by (simp_all add: top_bit_def)
  show "\<not> bit p n" if "top_bit p < n" for n
    using c that bit_imp_le_length [of p n] by (cases "n < 64") (auto simp: top_bit_def)
qed

lemma led_pattern_bits: "bit (led_pattern e lo) n \<Longrightarrow> n < 40"
  by (auto simp: led_pattern_def bit_simps dest!: bit_imp_le_length)

lemma top_bit_pattern: "led_pattern e lo \<noteq> 0 \<Longrightarrow> top_bit (led_pattern e lo) < 40"
  by (rule led_pattern_bits) (rule top_bit)

lemma unat_top_bit:
  "led_pattern e lo \<noteq> 0 \<Longrightarrow> unat (of_nat (top_bit (led_pattern e lo)) :: u8) = top_bit (led_pattern e lo)"
  using top_bit_pattern [of e lo] by (simp add: unat_of_nat_u8)

subsection \<open>The LED worker is defined\<close>

text \<open>
  The only undefined behaviour of the worker is counting the leading zeros of an empty pattern,
  at the start of a round.
\<close>

definition led_stuck :: "'st env \<Rightarrow> 'st tag \<Rightarrow> nat \<Rightarrow> bool" where
  "led_stuck e s i \<longleftrightarrow> repeat_duration (led_objs s ! i) \<noteq> 0 \<and> led_pattern e (led_objs s ! i) = 0 \<and>
     pattern_idx (led_dworks s ! i) \<in> {0, ESL_LED_FLASH_PATTERN_START_BIT_IDX}"

lemma wf_led_worker_begin:
  "wf_tag e s \<Longrightarrow> i < led_max (cfg e) \<Longrightarrow> yields (led_worker_begin now i lo s) (\<lambda>t. wf_tag e t \<and>
     pattern_idx (led_dworks t ! i) = pattern_idx (led_dworks s ! i))"
  by (simp add: led_worker_begin_def wp wf_led_dworks wf_led_update wf_led_idx wf_pattern_idx)

lemma wf_led_worker_stop:
  "wf_tag e s \<Longrightarrow> i < led_max (cfg e) \<Longrightarrow> yields (led_worker_stop i lo s) (\<lambda>t. wf_tag e t \<and>
     pattern_idx (led_dworks t ! i) = pattern_idx (led_dworks s ! i))"
  by (simp add: led_worker_stop_def wp wf_led_dworks wf_led_update wf_led_idx wf_pattern_idx)

lemma wf_led_worker_timeout:
  "wf_tag e s \<Longrightarrow> i < led_max (cfg e) \<Longrightarrow> yields (led_worker_timeout now i lo s) (\<lambda>t. wf_tag e t \<and>
     pattern_idx (led_dworks t ! i) = pattern_idx (led_dworks s ! i))"
  by (simp add: led_worker_timeout_def wp wf_led_dworks wf_led_worker_stop)

lemma wf_led_worker_round:
  assumes "wf_tag e s" "i < led_max (cfg e)"
    and live: "led_pattern e lo \<noteq> 0 \<or> pattern_idx (led_dworks s ! i) \<notin> {0, ESL_LED_FLASH_PATTERN_START_BIT_IDX}"
  shows "yields (led_worker_round i lo (led_pattern e lo) s) (\<lambda>(t, b). wf_tag e t)"
proof (cases "led_pattern e lo = 0")
  case True
  then show ?thesis using assms by (simp add: led_worker_round_def wp wf_led_dworks)
next
  case False
  obtain c where c: "builtin_clzll (led_pattern e lo) = Some c"
      "63 - c = top_bit (led_pattern e lo)"
    using top_bit(4) [OF False] by blast
  have le: "unat (of_nat (63 - c) :: u8) \<le> 40"
    using top_bit_pattern [OF False] unat_top_bit [OF False] by (simp add: c(2))
  have stop: "wf_tag e t \<Longrightarrow> yields (led_worker_stop i lo t) (wf_tag e)" for t
    using wf_led_worker_stop [OF _ assms(2)] by (rule yields_mono) auto
  show ?thesis
    using assms le
    by (simp add: led_worker_round_def wp c(1) wf_led_dworks wf_led_update wf_led_idx stop)
qed

lemma wf_led_worker_bit:
  assumes "wf_tag e s" "i < led_max (cfg e)"
  shows "yields (led_worker_bit k i lo p s) (wf_tag e)"
proof -
  have le: "unat (pattern_idx (led_dworks s ! i)) \<le> 40" using assms by (rule wf_pattern_idx)
  have dec: "unat (pattern_idx (led_dworks s ! i) - 1) \<le> 40" if "pattern_idx (led_dworks s ! i) \<noteq> 0"
    using le that by (simp add: unat_minus_one)
  show ?thesis
    using assms le dec
    by (auto simp: led_worker_bit_def wp Let_def wf_led_dworks wf_led_update wf_led_idx)
qed

lemma wf_led_worker_continuous:
  "wf_tag e s \<Longrightarrow> i < led_max (cfg e) \<Longrightarrow> yields (led_worker_continuous i lo s) (wf_tag e)"
  by (simp add: led_worker_continuous_def Let_def wp wf_led_dworks wf_led_update wf_led_idx
      wf_pattern_idx)

lemma wf_led_delay_worker:
  assumes wf: "wf_tag e s" and k: "k < led_max (cfg e)" and cfg: "led_max (cfg e) \<le> 255"
    and live: "\<not> led_stuck e s k"
  shows "yields (led_delay_worker_fn e x k s) (wf_tag e)"
proof -
  have i: "unat (led_idx (led_dworks s ! k)) = k"
    using wf k cfg by (simp add: wf_led_idx unat_of_nat_u8)
  define s0 where "s0 = s\<lparr>led_dworks := (led_dworks s)[k := (led_dworks s ! k)\<lparr>start_abs_time := 0\<rparr>]\<rparr>"
  have s0: "led_dwork_upd k (\<lambda>d. d\<lparr>start_abs_time := 0\<rparr>) s = Some s0"
    using wf k by (simp add: led_dwork_upd_eq wf_led_dworks s0_def)
  have wf0: "wf_tag e s0"
    unfolding s0_def using wf k by (simp add: wf_led_update wf_led_idx wf_pattern_idx)
  have lo: "led_objs s0 = led_objs s" by (simp add: s0_def)
  have run: "yields (led_worker_begin (in_now x) k l s0) (\<lambda>t. yields (led_worker_timeout (in_now2 x) k l t)
      (\<lambda>u. yields (led_worker_round k l (led_pattern e l) u) (\<lambda>p.
        (snd p \<longrightarrow> wf_tag e (fst p)) \<and>
        (\<not> snd p \<longrightarrow> yields (led_worker_bit k k l (led_pattern e l) (fst p)) (wf_tag e)))))"
    if "led_pattern e l \<noteq> 0 \<or> pattern_idx (led_dworks s0 ! k) \<notin> {0, ESL_LED_FLASH_PATTERN_START_BIT_IDX}" for l
  proof (rule yields_mono [OF wf_led_worker_begin [OF wf0 k]], elim conjE)
    fix t assume t: "pattern_idx (led_dworks t ! k) = pattern_idx (led_dworks s0 ! k)" and w: "wf_tag e t"
    from w show "yields (led_worker_timeout (in_now2 x) k l t) (\<lambda>u. yields (led_worker_round k l (led_pattern e l) u)
        (\<lambda>p. (snd p \<longrightarrow> wf_tag e (fst p)) \<and>
          (\<not> snd p \<longrightarrow> yields (led_worker_bit k k l (led_pattern e l) (fst p)) (wf_tag e))))"
      by (rule yields_mono [OF wf_led_worker_timeout [OF _ k]], elim conjE)
        (rule yields_mono [OF wf_led_worker_round [OF _ k]],
          use t that in \<open>auto intro: wf_led_worker_bit [OF _ k]\<close>)
  qed
  have idx: "pattern_idx (led_dworks s0 ! k) = pattern_idx (led_dworks s ! k)"
    using wf k by (simp add: s0_def wf_led_dworks)
  show ?thesis
    using wf wf0 k live [unfolded led_stuck_def] run [of "led_objs s ! k", unfolded idx]
    by (auto simp: led_delay_worker_fn_def wp wf_led_dworks i s0 lo wf_led_objs Let_def case_prod_unfold
        intro: wf_led_worker_continuous)
qed

text \<open>Without a pattern, the start of a round is undefined.\<close>

lemma led_worker_stuck:
  assumes wf: "wf_tag e s" and k: "k < led_max (cfg e)" and cfg: "led_max (cfg e) \<le> 255"
    and stuck: "led_stuck e s k"
  shows "led_delay_worker_fn e x k s = None"
proof -
  have i: "unat (led_idx (led_dworks s ! k)) = k"
    using wf k cfg by (simp add: wf_led_idx unat_of_nat_u8)
  have "\<not> yields (led_delay_worker_fn e x k s) (\<lambda>_. True)"
    using wf k stuck
    by (auto simp: led_delay_worker_fn_def led_stuck_def wp i Let_def wf_led_dworks wf_led_objs
        led_worker_begin_def led_worker_timeout_def led_worker_stop_def led_worker_round_def
        case_prod_unfold)
  then show ?thesis by (auto simp: yields_def)
qed

subsection \<open>Runs of the LED worker\<close>

text \<open>
  A sequence of runs of the worker of LED \<open>k\<close>, what they show on the LED, and the bits one round
  shows: from the highest set bit down to bit 1 (a pattern of bit 0 alone shows bit 0).
\<close>

fun led_runs :: "'st env \<Rightarrow> inp list \<Rightarrow> nat \<Rightarrow> 'st tag \<Rightarrow> 'st tag option" where
  "led_runs e [] k s = Some s"
| "led_runs e (x # xs) k s = Option.bind (led_delay_worker_fn e x k s) (led_runs e xs k)"

fun led_shown :: "nat \<Rightarrow> effect list \<Rightarrow> bool list" where
  "led_shown k [] = []"
| "led_shown k (Led_control i c on # fs) =
     (if i = of_nat k then on # led_shown k fs else led_shown k fs)"
| "led_shown k (f # fs) = led_shown k fs"

definition round_bits :: "nat \<Rightarrow> nat list" where
  "round_bits t = t # rev [1..<t]"

lemma led_shown_append [simp]: "led_shown k (xs @ ys) = led_shown k xs @ led_shown k ys"
  by (induction k xs rule: led_shown.induct) simp_all

lemma length_round_bits [simp]: "length (round_bits t) = max t 1"
  by (simp add: round_bits_def)

lemma led_runs_append:
  "led_runs e (xs @ ys) k s = Option.bind (led_runs e xs k s) (led_runs e ys k)"
  by (induction xs arbitrary: s) (simp_all add: Option.bind_assoc cong: Option.bind_cong)

text \<open>The part of the state the worker of a count-type command reads and changes.\<close>

definition led_at :: "'st env \<Rightarrow> nat \<Rightarrow> led_obj \<Rightarrow> bool list \<Rightarrow> nat \<Rightarrow> nat \<Rightarrow> 'st tag \<Rightarrow> bool" where
  "led_at e k lo sh j r t \<longleftrightarrow> wf_tag e t \<and> led_objs t ! k = lo \<and> led_shown k (trace t) = sh \<and>
     work_enable (led_dworks t ! k) \<and> led_active (led_dworks t ! k) \<and>
     stop_abs_time (led_dworks t ! k) = 0 \<and>
     unat (pattern_idx (led_dworks t ! k)) = j \<and> unat (repeat_counts (led_dworks t ! k)) = r"

definition count_led :: "'st env \<Rightarrow> nat \<Rightarrow> led_obj \<Rightarrow> bool" where
  "count_led e k lo \<longleftrightarrow> k < led_max (cfg e) \<and> led_max (cfg e) \<le> 255 \<and> repeat_type lo \<noteq> 1 \<and>
     repeat_duration lo \<noteq> 0 \<and> led_pattern e lo \<noteq> 0"

text \<open>The state after its LED's work item has become \<open>d\<close>; the phases of the worker on such a state.\<close>

definition set_led :: "nat \<Rightarrow> led_dwork \<Rightarrow> 'st tag \<Rightarrow> 'st tag" where
  "set_led k d s = s\<lparr>led_dworks := (led_dworks s)[k := d]\<rparr>"

lemma set_led_simps [simp]:
  "k < length (led_dworks s) \<Longrightarrow> led_dwork_upd k f (set_led k d s) = Some (set_led k (f d) s)"
  "k < length (led_dworks s) \<Longrightarrow> led_dworks (set_led k d s) ! k = d"
  "length (led_dworks (set_led k d s)) = length (led_dworks s)"
  "effect x (set_led k d s) = set_led k d (effect x s)"
  "led_objs (set_led k d s) = led_objs s" "trace (set_led k d s) = trace s"
  "esl_get_abs_time now (set_led k d s) = esl_get_abs_time now s"
  by (simp_all add: set_led_def led_dwork_upd_def effect_def esl_get_abs_time_def)

lemma led_dwork_upd_set:
  "k < length (led_dworks s) \<Longrightarrow> led_dwork_upd k f s = Some (set_led k (f (led_dworks s ! k)) s)"
  by (simp add: led_dwork_upd_eq set_led_def)

lemma begin_set_led:
  "k < length (led_dworks s) \<Longrightarrow> repeat_type lo \<noteq> 1 \<Longrightarrow>
     led_worker_begin now k lo (set_led k d s) = Some (set_led k
       (if work_enable d then d else d\<lparr>stop_abs_time := 0, work_enable := True, led_active := True\<rparr>) s)"
  by (simp add: led_worker_begin_def)

lemma timeout_set_led:
  "k < length (led_dworks s) \<Longrightarrow> stop_abs_time d = 0 \<Longrightarrow>
     led_worker_timeout now k lo (set_led k d s) = Some (set_led k d s)"
  by (simp add: led_worker_timeout_def)

lemma round_set_led:
  assumes "k < length (led_dworks s)" "p \<noteq> 0"
  shows "led_worker_round k lo p (set_led k d s) =
    (if pattern_idx d = 0 then
       let d1 = d\<lparr>repeat_counts := repeat_counts d + 1, pattern_idx := of_nat (top_bit p)\<rparr>
       in if unat (repeat_duration lo) \<le> unat (repeat_counts d + 1)
          then Some (set_led k (d1\<lparr>work_enable := False, led_active := False\<rparr>)
                      (effect (Led_control (of_nat k) (color_brightness lo) False) s), True)
          else Some (set_led k d1 s, False)
     else if pattern_idx d = 40 then Some (set_led k (d\<lparr>pattern_idx := of_nat (top_bit p)\<rparr>) s, False)
     else Some (set_led k d s, False))"
proof -
  obtain c where c: "builtin_clzll p = Some c" "top_bit p = 63 - c"
    using top_bit(4) [OF assms(2)] by auto
  show ?thesis
    using assms(1) by (simp add: led_worker_round_def led_worker_stop_def c Let_def)
qed

lemma bit_set_led:
  assumes "k < length (led_dworks s)" "work_enable d" "unat (pattern_idx d) < 64"
  shows "led_worker_bit k k lo p (set_led k d s) = Some (set_led k
      (d\<lparr>pattern_idx := of_nat (unat (pattern_idx d) - 1)\<rparr>)
      (effect (K_work_schedule (Led_work k)
          (unat (if bit p (unat (pattern_idx d)) then bit_on_period lo else bit_off_period lo) * 2))
        (effect (Led_control (of_nat k) (color_brightness lo) (bit p (unat (pattern_idx d)))) s)))"
proof (cases "pattern_idx d = 0")
  case True
  then show ?thesis
    using assms by (cases d) (simp add: led_worker_bit_def Let_def)
next
  case False
  then have "1 \<le> unat (pattern_idx d)" by (simp add: Suc_leI unat_gt_0)
  then have "(pattern_idx d - 1 :: u8) = of_nat (unat (pattern_idx d) - 1)"
    by (simp add: of_nat_diff)
  with False show ?thesis
    using assms by (simp add: led_worker_bit_def Let_def)
qed

lemma unat_of_nat_dec: "0 < j \<Longrightarrow> j < 256 \<Longrightarrow> unat (of_nat j - 1 :: u8) = j - 1"
  using unat_of_nat_u8 [of "j - 1"] by (simp add: of_nat_diff)

lemma count_led_worker:
  assumes "count_led e k lo" "wf_tag e s" "led_objs s ! k = lo"
  shows "led_delay_worker_fn e x k s = do {
    s1 \<leftarrow> led_worker_begin (in_now x) k lo (set_led k ((led_dworks s ! k)\<lparr>start_abs_time := 0\<rparr>) s);
    s2 \<leftarrow> led_worker_timeout (in_now2 x) k lo s1;
    (s3, finished) \<leftarrow> led_worker_round k lo (led_pattern e lo) s2;
    (if finished then Some s3 else led_worker_bit k k lo (led_pattern e lo) s3) }"
  using assms
  by (simp add: led_delay_worker_fn_def count_led_def wf_led_dworks wf_led_objs wf_led_idx
      unat_of_nat_u8 led_dwork_upd_set Let_def cong: if_cong)

text \<open>First run, a run inside a round, a run that begins the next round, and the last run.\<close>

lemma led_run_first:
  assumes c: "count_led e k lo" and wf: "wf_tag e s" and lo: "led_objs s ! k = lo"
    and d: "\<not> work_enable (led_dworks s ! k)" "pattern_idx (led_dworks s ! k) = 40"
      "repeat_counts (led_dworks s ! k) = 0"
  shows "yields (led_delay_worker_fn e x k s)
    (led_at e k lo (led_shown k (trace s) @ [True]) (top_bit (led_pattern e lo) - 1) 0)"
proof -
  have p: "led_pattern e lo \<noteq> 0" and k: "k < led_max (cfg e)" "led_max (cfg e) \<le> 255"
    "repeat_type lo \<noteq> 1" using c by (simp_all add: count_led_def)
  have len: "k < length (led_dworks s)" using wf k by (simp add: wf_led_dworks)
  have t: "top_bit (led_pattern e lo) < 40" by (rule top_bit_pattern [OF p])
  have "yields (led_delay_worker_fn e x k s) (wf_tag e)"
    using wf_led_delay_worker [OF wf k(1,2)] p lo by (simp add: led_stuck_def)
  then show ?thesis
    using t top_bit(1) [OF p]
    unfolding count_led_worker [OF c wf lo]
    by (simp add: begin_set_led timeout_set_led round_set_led bit_set_led len k p d unat_top_bit
        unat_of_nat_u8 led_at_def lo)
qed

text \<open>After a command without a time the index is 0 already: its first run counts as a finished round.\<close>

lemma led_run_direct:
  assumes c: "count_led e k lo" and wf: "wf_tag e s" and lo: "led_objs s ! k = lo"
    and d: "\<not> work_enable (led_dworks s ! k)" "pattern_idx (led_dworks s ! k) = 0"
      "repeat_counts (led_dworks s ! k) = 0"
  shows "yields (led_delay_worker_fn e x k s) (if 1 < unat (repeat_duration lo)
    then led_at e k lo (led_shown k (trace s) @ [True]) (top_bit (led_pattern e lo) - 1) 1
    else (\<lambda>t. wf_tag e t \<and> \<not> work_enable (led_dworks t ! k) \<and> \<not> led_active (led_dworks t ! k) \<and>
      led_shown k (trace t) = led_shown k (trace s) @ [False]))"
proof -
  have p: "led_pattern e lo \<noteq> 0" and k: "k < led_max (cfg e)" "led_max (cfg e) \<le> 255"
    "repeat_type lo \<noteq> 1" using c by (simp_all add: count_led_def)
  have len: "k < length (led_dworks s)" using wf k by (simp add: wf_led_dworks)
  have t: "top_bit (led_pattern e lo) < 40" by (rule top_bit_pattern [OF p])
  have "yields (led_delay_worker_fn e x k s) (wf_tag e)"
    using wf_led_delay_worker [OF wf k(1,2)] p lo by (simp add: led_stuck_def)
  then show ?thesis
    using t top_bit(1) [OF p]
    unfolding count_led_worker [OF c wf lo]
    by (cases "1 < unat (repeat_duration lo)")
      (simp_all add: begin_set_led timeout_set_led round_set_led bit_set_led len k p d unat_top_bit
        unat_of_nat_u8 led_at_def lo Let_def)
qed

lemma led_run_bit:
  assumes c: "count_led e k lo" and at: "led_at e k lo sh j r s" and j: "0 < j" "j < 40"
  shows "yields (led_delay_worker_fn e x k s)
    (led_at e k lo (sh @ [bit (led_pattern e lo) j]) (j - 1) r)"
proof -
  have p: "led_pattern e lo \<noteq> 0" and k: "k < led_max (cfg e)" "led_max (cfg e) \<le> 255"
    "repeat_type lo \<noteq> 1" using c by (simp_all add: count_led_def)
  have s: "wf_tag e s" "led_objs s ! k = lo" "led_shown k (trace s) = sh"
      "work_enable (led_dworks s ! k)" "led_active (led_dworks s ! k)" "stop_abs_time (led_dworks s ! k) = 0"
      "unat (pattern_idx (led_dworks s ! k)) = j" "unat (repeat_counts (led_dworks s ! k)) = r"
    using at by (simp_all add: led_at_def)
  have len: "k < length (led_dworks s)" using s(1) k by (simp add: wf_led_dworks)
  have idx: "pattern_idx (led_dworks s ! k) \<noteq> 0" "pattern_idx (led_dworks s ! k) \<noteq> 40"
    using s(7) j by auto
  have dec: "unat (of_nat j - 1 :: u8) = j - 1" using j by (simp add: unat_of_nat_dec)
  have "yields (led_delay_worker_fn e x k s) (wf_tag e)"
    using wf_led_delay_worker [OF s(1) k(1,2)] p s(2) by (simp add: led_stuck_def)
  then show ?thesis
    using j s(3-)
    unfolding count_led_worker [OF c s(1,2)]
    by (simp add: begin_set_led timeout_set_led round_set_led bit_set_led len k p idx
        dec led_at_def s(2))
qed

lemma led_run_round:
  assumes c: "count_led e k lo" and at: "led_at e k lo sh 0 r s"
    and r: "Suc r mod 256 < unat (repeat_duration lo)"
  shows "yields (led_delay_worker_fn e x k s)
    (led_at e k lo (sh @ [True]) (top_bit (led_pattern e lo) - 1) (Suc r mod 256))"
proof -
  have p: "led_pattern e lo \<noteq> 0" and k: "k < led_max (cfg e)" "led_max (cfg e) \<le> 255"
    "repeat_type lo \<noteq> 1" using c by (simp_all add: count_led_def)
  have s: "wf_tag e s" "led_objs s ! k = lo" "led_shown k (trace s) = sh"
      "work_enable (led_dworks s ! k)" "led_active (led_dworks s ! k)" "stop_abs_time (led_dworks s ! k) = 0"
      "pattern_idx (led_dworks s ! k) = 0" "unat (repeat_counts (led_dworks s ! k)) = r"
    using at by (simp_all add: led_at_def unat_eq_0)
  have len: "k < length (led_dworks s)" using s(1) k by (simp add: wf_led_dworks)
  have rep: "unat (repeat_counts (led_dworks s ! k) + 1) = Suc r mod 256"
    using s(8) by (simp add: unat_word_ariths)
  have t: "top_bit (led_pattern e lo) < 40" by (rule top_bit_pattern [OF p])
  have "yields (led_delay_worker_fn e x k s) (wf_tag e)"
    using wf_led_delay_worker [OF s(1) k(1,2)] p s(2) by (simp add: led_stuck_def)
  then show ?thesis
    using r t top_bit(1) [OF p] s(3-6)
    unfolding count_led_worker [OF c s(1,2)]
    by (simp add: begin_set_led timeout_set_led round_set_led bit_set_led len k p rep s(7) Let_def
        unat_of_nat_u8 led_at_def s(2))
qed

text \<open>Between two rounds the counter has 8 bits: below 256 a duration is reached, above it is not.\<close>

lemma led_run_last:
  assumes c: "count_led e k lo" and at: "led_at e k lo sh 0 r s"
    and r: "r < 255" "unat (repeat_duration lo) \<le> Suc r"
  shows "yields (led_delay_worker_fn e x k s) (\<lambda>t. wf_tag e t \<and>
    \<not> work_enable (led_dworks t ! k) \<and> \<not> led_active (led_dworks t ! k) \<and>
    led_shown k (trace t) = sh @ [False])"
proof -
  have p: "led_pattern e lo \<noteq> 0" and k: "k < led_max (cfg e)" "led_max (cfg e) \<le> 255"
    "repeat_type lo \<noteq> 1" using c by (simp_all add: count_led_def)
  have s: "wf_tag e s" "led_objs s ! k = lo" "led_shown k (trace s) = sh"
      "work_enable (led_dworks s ! k)" "led_active (led_dworks s ! k)" "stop_abs_time (led_dworks s ! k) = 0"
      "pattern_idx (led_dworks s ! k) = 0" "unat (repeat_counts (led_dworks s ! k)) = r"
    using at by (simp_all add: led_at_def unat_eq_0)
  have len: "k < length (led_dworks s)" using s(1) k by (simp add: wf_led_dworks)
  have rep: "unat (repeat_counts (led_dworks s ! k) + 1) = Suc r"
    using s(8) r by (simp add: unat_word_ariths)
  have "yields (led_delay_worker_fn e x k s) (wf_tag e)"
    using wf_led_delay_worker [OF s(1) k(1,2)] p s(2) by (simp add: led_stuck_def)
  then show ?thesis
    using r s(3-6)
    unfolding count_led_worker [OF c s(1,2)]
    by (simp add: begin_set_led timeout_set_led round_set_led len k p rep s(7) Let_def)
qed

text \<open>Running down to bit 1, a whole round, and all rounds.\<close>

lemma led_runs_down:
  "count_led e k lo \<Longrightarrow> led_at e k lo sh j r s \<Longrightarrow> j < 40 \<Longrightarrow> length xs = j \<Longrightarrow>
   yields (led_runs e xs k s) (led_at e k lo (sh @ map (bit (led_pattern e lo)) (rev [1..<Suc j])) 0 r)"
proof (induction j arbitrary: sh s xs)
  case (Suc j)
  then obtain x ys where xs: "xs = x # ys" "length ys = j" by (cases xs) auto
  have step: "yields (led_delay_worker_fn e x k s) (led_at e k lo (sh @ [bit (led_pattern e lo) (Suc j)]) j r)"
    using led_run_bit [OF Suc.prems(1,2)] Suc.prems(3) by simp
  show ?case
    unfolding xs led_runs.simps yields_bind
    by (rule yields_mono [OF step]) (use Suc xs in \<open>auto dest: Suc.IH\<close>)
qed simp

lemma led_runs_round:
  assumes c: "count_led e k lo" and at: "led_at e k lo sh 0 r s"
    and r: "r < 255" "Suc r < unat (repeat_duration lo)"
    and len: "length xs = length (round_bits (top_bit (led_pattern e lo)))"
  shows "yields (led_runs e xs k s)
    (led_at e k lo (sh @ map (bit (led_pattern e lo)) (round_bits (top_bit (led_pattern e lo)))) 0 (Suc r))"
proof -
  let ?t = "top_bit (led_pattern e lo)"
  obtain x ys where xs: "xs = x # ys" "length ys = ?t - 1" using len by (cases xs) auto
  have p: "led_pattern e lo \<noteq> 0" using c by (simp add: count_led_def)
  note top = top_bit(1) [OF p] top_bit_pattern [OF p]
  have "rev [1..<?t] = rev [1..<Suc (?t - 1)]" by (cases ?t) simp_all
  then have "round_bits ?t = ?t # rev [1..<Suc (?t - 1)]" by (simp add: round_bits_def)
  then have rb: "map (bit (led_pattern e lo)) (round_bits ?t) =
      True # map (bit (led_pattern e lo)) (rev [1..<Suc (?t - 1)])"
    using top(1) by simp
  have small: "Suc r mod 256 = Suc r" using r by simp
  show ?thesis
    unfolding xs led_runs.simps yields_bind
  proof (rule yields_mono)
    show "yields (led_delay_worker_fn e x k s) (led_at e k lo (sh @ [True]) (?t - 1) (Suc r))"
      using led_run_round [OF c at, of x] r small by simp
  next
    fix t assume "led_at e k lo (sh @ [True]) (?t - 1) (Suc r) t"
    from led_runs_down [OF c this _ xs(2)] top(2)
    show "yields (led_runs e ys k t)
        (led_at e k lo (sh @ map (bit (led_pattern e lo)) (round_bits ?t)) 0 (Suc r))"
      unfolding rb by (simp add: less_imp_diff_less del: upt_Suc)
  qed
qed

lemma led_runs_rounds:
  "count_led e k lo \<Longrightarrow> led_at e k lo sh 0 r s \<Longrightarrow> r + m < 256 \<Longrightarrow>
   r + m < unat (repeat_duration lo) \<Longrightarrow>
   length xs = m * length (round_bits (top_bit (led_pattern e lo))) \<Longrightarrow>
   yields (led_runs e xs k s) (led_at e k lo (sh @ map (bit (led_pattern e lo))
     (concat (replicate m (round_bits (top_bit (led_pattern e lo)))))) 0 (r + m))"
proof (induction m arbitrary: sh s r xs)
  case (Suc m)
  let ?rb = "round_bits (top_bit (led_pattern e lo))"
  define ys zs where "ys = take (length ?rb) xs" and "zs = drop (length ?rb) xs"
  have xs: "xs = ys @ zs" "length ys = length ?rb" "length zs = m * length ?rb"
    using Suc.prems(5) by (simp_all add: ys_def zs_def del: length_round_bits)
  have one: "yields (led_runs e ys k s)
      (led_at e k lo (sh @ map (bit (led_pattern e lo)) ?rb) 0 (Suc r))"
    by (rule led_runs_round [OF Suc.prems(1,2)]) (use Suc.prems xs(2) in auto)
  show ?case
    unfolding xs(1) led_runs_append yields_bind
  proof (rule yields_mono [OF one])
    fix t assume "led_at e k lo (sh @ map (bit (led_pattern e lo)) ?rb) 0 (Suc r) t"
    from Suc.IH [OF Suc.prems(1) this _ _ xs(3)] Suc.prems(3,4)
    show "yields (led_runs e zs k t) (led_at e k lo (sh @ map (bit (led_pattern e lo))
        (concat (replicate (Suc m) ?rb))) 0 (r + Suc m))"
      by simp
  qed
qed simp

text \<open>What is left after a first run that shows the highest bit with \<open>n\<close> rounds to go.\<close>

lemma led_runs_rest:
  assumes c: "count_led e k lo"
    and one: "yields (led_delay_worker_fn e x k s) (led_at e k lo (sh @ [True]) (top_bit (led_pattern e lo) - 1) r)"
    and dur: "unat (repeat_duration lo) = r + Suc n" "unat (repeat_duration lo) \<le> 255"
    and len: "length (x # xs) = Suc n * length (round_bits (top_bit (led_pattern e lo))) + 1"
  shows "yields (led_runs e (x # xs) k s) (\<lambda>t. wf_tag e t \<and>
    \<not> work_enable (led_dworks t ! k) \<and> \<not> led_active (led_dworks t ! k) \<and>
    led_shown k (trace t) = sh @ map (bit (led_pattern e lo))
      (concat (replicate (Suc n) (round_bits (top_bit (led_pattern e lo))))) @ [False])"
proof -
  let ?t = "top_bit (led_pattern e lo)" and ?rb = "round_bits (top_bit (led_pattern e lo))"
  let ?b = "map (bit (led_pattern e lo))"
  have p: "led_pattern e lo \<noteq> 0" using c by (simp add: count_led_def)
  note top = top_bit(1) [OF p] top_bit_pattern [OF p]
  have lrb: "length ?rb = Suc (?t - 1)" by (simp add: max_def)
  have "length xs = (?t - 1) + (n * length ?rb + 1)" using len by (simp only: lrb) simp
  then obtain ys vs where xs: "xs = ys @ vs" "length ys = ?t - 1" "length vs = n * length ?rb + 1"
    by (rule split_length)
  from xs(3) obtain zs ws where vs: "vs = zs @ ws" "length zs = n * length ?rb" "length ws = 1"
    by (rule split_length)
  obtain z where z: "ws = [z]" using vs(3) by (auto simp: length_Suc_conv)
  have rb: "[True] @ ?b (rev [1..<Suc (?t - 1)]) = ?b ?rb"
    using top(1) by (cases ?t) (simp_all add: round_bits_def)
  have first: "yields (led_runs e (x # ys) k s) (led_at e k lo (sh @ ?b ?rb) 0 r)"
    unfolding led_runs.simps yields_bind
  proof (rule yields_mono [OF one])
    fix t assume "led_at e k lo (sh @ [True]) (?t - 1) r t"
    from led_runs_down [OF c this _ xs(2)] top(2)
    show "yields (led_runs e ys k t) (led_at e k lo (sh @ ?b ?rb) 0 r)"
      by (simp add: less_imp_diff_less del: upt_Suc flip: rb)
  qed
  have rounds: "yields (led_runs e zs k t) (led_at e k lo ((sh @ ?b ?rb) @ ?b (concat (replicate n ?rb))) 0 (r + n))"
    if "led_at e k lo (sh @ ?b ?rb) 0 r t" for t
    using led_runs_rounds [OF c that _ _ vs(2)] dur by simp
  have split: "x # xs = (x # ys) @ zs @ [z]" by (simp add: xs(1) vs(1) z)
  show ?thesis
    unfolding split led_runs_append yields_bind
  proof (rule yields_mono [OF first], rule yields_mono [OF rounds], assumption)
    fix t assume at: "led_at e k lo ((sh @ ?b ?rb) @ ?b (concat (replicate n ?rb))) 0 (r + n) t"
    show "yields (led_runs e [z] k t) (\<lambda>t. wf_tag e t \<and>
      \<not> work_enable (led_dworks t ! k) \<and> \<not> led_active (led_dworks t ! k) \<and>
      led_shown k (trace t) = sh @ ?b (concat (replicate (Suc n) ?rb)) @ [False])"
      using led_run_last [OF c at, of z] dur by (simp add: wp)
  qed
qed

lemma led_runs_finish:
  assumes c: "count_led e k lo" and wf: "wf_tag e s" and lo: "led_objs s ! k = lo"
    and d: "\<not> work_enable (led_dworks s ! k)" "pattern_idx (led_dworks s ! k) = 40"
      "repeat_counts (led_dworks s ! k) = 0"
    and dur: "unat (repeat_duration lo) \<le> 255"
    and len: "length xs =
      unat (repeat_duration lo) * length (round_bits (top_bit (led_pattern e lo))) + 1"
  shows "yields (led_runs e xs k s) (\<lambda>t. wf_tag e t \<and>
    \<not> work_enable (led_dworks t ! k) \<and> \<not> led_active (led_dworks t ! k) \<and>
    led_shown k (trace t) = led_shown k (trace s) @ map (bit (led_pattern e lo))
      (concat (replicate (unat (repeat_duration lo)) (round_bits (top_bit (led_pattern e lo))))) @ [False])"
proof -
  obtain n where n: "unat (repeat_duration lo) = Suc n"
    using c by (cases "unat (repeat_duration lo)") (auto simp: count_led_def unat_eq_0)
  obtain x ys where xs: "xs = x # ys" using len by (cases xs) auto
  show ?thesis
    using led_runs_rest [OF c led_run_first [OF c wf lo d], of n x ys] dur len
    by (simp only: xs n)
qed

lemma led_runs_direct:
  assumes c: "count_led e k lo" and wf: "wf_tag e s" and lo: "led_objs s ! k = lo"
    and d: "\<not> work_enable (led_dworks s ! k)" "pattern_idx (led_dworks s ! k) = 0"
      "repeat_counts (led_dworks s ! k) = 0"
    and dur: "unat (repeat_duration lo) \<le> 255"
    and len: "length xs =
      (unat (repeat_duration lo) - 1) * length (round_bits (top_bit (led_pattern e lo))) + 1"
  shows "yields (led_runs e xs k s) (\<lambda>t. wf_tag e t \<and>
    \<not> work_enable (led_dworks t ! k) \<and> \<not> led_active (led_dworks t ! k) \<and>
    led_shown k (trace t) = led_shown k (trace s) @ map (bit (led_pattern e lo))
      (concat (replicate (unat (repeat_duration lo) - 1) (round_bits (top_bit (led_pattern e lo))))) @ [False])"
proof -
  obtain x ys where xs: "xs = x # ys" using len by (cases xs) auto
  note one = led_run_direct [OF c wf lo d, of x]
  have "unat (repeat_duration lo) \<noteq> 0" using c by (simp add: count_led_def unat_eq_0)
  then consider "unat (repeat_duration lo) = 1" | n where "unat (repeat_duration lo) = 1 + Suc n"
    by (cases "unat (repeat_duration lo)"; cases "unat (repeat_duration lo) - 1") auto
  then show ?thesis
  proof cases
    case 1
    then show ?thesis using one len by (simp add: xs wp)
  next
    case (2 n)
    then have "1 < unat (repeat_duration lo)" by simp
    then have "yields (led_delay_worker_fn e x k s) (led_at e k lo (led_shown k (trace s) @ [True])
        (top_bit (led_pattern e lo) - 1) 1)"
      using one by simp
    from led_runs_rest [OF c this 2 dur, of ys] show ?thesis using len by (simp add: xs 2)
  qed
qed

text \<open>With a duration above 255 the LED stays active whatever the number of runs.\<close>

lemma led_runs_endless:
  assumes c: "count_led e k lo" and dur: "255 < unat (repeat_duration lo)"
  shows "(\<exists>sh j r. led_at e k lo sh j r s \<and> j < 40) \<Longrightarrow>
    yields (led_runs e xs k s) (\<lambda>t. \<exists>sh j r. led_at e k lo sh j r t \<and> j < 40)"
proof (induction xs arbitrary: s)
  case (Cons x xs)
  have p: "led_pattern e lo \<noteq> 0" using c by (simp add: count_led_def)
  have t: "top_bit (led_pattern e lo) - 1 < 40" using top_bit_pattern [OF p] by simp
  obtain sh j r where at: "led_at e k lo sh j r s" "j < 40" using Cons.prems by blast
  have "yields (led_delay_worker_fn e x k s) (\<lambda>t. \<exists>sh j r. led_at e k lo sh j r t \<and> j < 40)"
  proof (cases "j = 0")
    case True
    have "Suc r mod 256 < 256" by (rule mod_less_divisor) simp
    then have "Suc r mod 256 < unat (repeat_duration lo)" using dur by linarith
    from led_run_round [OF c at(1) [unfolded True] this] show ?thesis
      by (rule yields_mono) (use t in blast)
  next
    case False
    then have j: "0 < j" by simp
    from led_run_bit [OF c at(1) j at(2)] show ?thesis
      by (rule yields_mono) (use at(2) less_imp_diff_less in blast)
  qed
  then show ?case
    unfolding led_runs.simps yields_bind
    by (rule yields_mono) (rule Cons.IH)
qed simp

subsection \<open>Basic State after an update\<close>

text \<open>
  What the pending and active bits must say, by LEDs and displays up to given indices; every
  other bit is kept, and nothing but the Basic State changes.
\<close>

definition basic_bits :: "'st tag \<Rightarrow> nat \<Rightarrow> nat \<Rightarrow> nat \<Rightarrow> bool" where
  "basic_bits s i j n =
     (if n = ESL_ACTIVE_LED then \<exists>k < i. led_active (led_dworks s ! k)
      else if n = ESL_PENDING_LED_UPDATE then \<exists>k < i. start_abs_time (led_dworks s ! k) \<noteq> 0
      else if n = ESL_PENDING_DISPLAY_UPDATE then \<exists>k < j. disp_start_abs_time (display_works s ! k) \<noteq> 0
      else bit (basic_state s) n)"

definition basic_at :: "'st tag \<Rightarrow> nat \<Rightarrow> nat \<Rightarrow> 'st tag \<Rightarrow> bool" where
  "basic_at s i j t \<longleftrightarrow> (\<forall>n. bit (basic_state t) n = basic_bits s i j n) \<and>
     t = s\<lparr>basic_state := basic_state t\<rparr>"

lemma basic_at_led:
  assumes "zephyr_ok (zep e)" "basic_at s i j t" "i < length (led_dworks s)"
  shows "yields (rd (led_dworks t) i) (\<lambda>d.
    basic_at s (Suc i) j (if start_abs_time d \<noteq> 0
      then basic_bit e (z_set_bit (zep e)) ESL_PENDING_LED_UPDATE
             (if led_active d then basic_bit e (z_set_bit (zep e)) ESL_ACTIVE_LED t else t)
      else if led_active d then basic_bit e (z_set_bit (zep e)) ESL_ACTIVE_LED t else t))"
proof -
  obtain w where t: "t = s\<lparr>basic_state := w\<rparr>" and w: "\<And>n. bit w n = basic_bits s i j n"
    using assms(2) unfolding basic_at_def by metis
  show ?thesis
    using assms(1,3)
    by (auto simp: t w wp basic_at_def basic_bit_def platform bit_simps basic_bits_def less_Suc_eq)
qed

lemma basic_at_display:
  assumes "zephyr_ok (zep e)" "basic_at s i j t" "j < length (display_works s)"
  shows "yields (rd (display_works t) j) (\<lambda>d.
    basic_at s i (Suc j) (if disp_start_abs_time d \<noteq> 0
      then basic_bit e (z_set_bit (zep e)) ESL_PENDING_DISPLAY_UPDATE t else t))"
proof -
  obtain w where t: "t = s\<lparr>basic_state := w\<rparr>" and w: "\<And>n. bit w n = basic_bits s i j n"
    using assms(2) unfolding basic_at_def by metis
  show ?thesis
    using assms(1,3)
    by (auto simp: t w wp basic_at_def basic_bit_def platform bit_simps basic_bits_def less_Suc_eq)
qed

lemma basic_state_update_at:
  assumes "zephyr_ok (zep e)" "wf_tag e s"
  shows "yields (bt_esl_basic_state_update e s)
    (basic_at s (led_max (cfg e)) (display_max (cfg e)))"
proof -
  let ?s1 = "basic_bit e (z_clear_bit (zep e)) ESL_PENDING_DISPLAY_UPDATE
    (basic_bit e (z_clear_bit (zep e)) ESL_PENDING_LED_UPDATE
      (basic_bit e (z_clear_bit (zep e)) ESL_ACTIVE_LED s))"
  have s1: "basic_at s 0 0 ?s1"
    using assms(1) by (auto simp: basic_at_def basic_bit_def platform bit_simps basic_bits_def
        dest: bit_imp_le_length)
  note leds = for_loop_inv [where i = 0 and I = "\<lambda>i t. basic_at s i 0 t", simplified]
  note disps = for_loop_inv [where i = 0 and I = "\<lambda>j t. basic_at s (led_max (cfg e)) j t", simplified]
  show ?thesis
    unfolding bt_esl_basic_state_update_def Let_def yields_bind
  proof (rule yields_mono [OF leds [OF _ s1]], goal_cases)
    case (1 i t)
    from basic_at_led [OF assms(1) 1(2)] 1(1) show ?case
      by (simp add: wp wf_led_dworks [OF assms(2)] cong: if_cong)
  next
    case (2 t)
    show ?case
    proof (rule disps [OF _ 2], goal_cases)
      case (1 j u)
      from basic_at_display [OF assms(1) 1(2)] 1(1) show ?case
        by (simp add: wp wf_display_works [OF assms(2)])
    qed
  qed
qed

end
