(* ===== verification/Esl_Ots.thy ===== *)
theory Esl_Ots
  imports Esl_Tag_State Esl_Dwork
begin

unbundle bit_operations_syntax

text \<open>
  Image transfer in \<open>service/esl.c\<close>: the callbacks of the Object Transfer Service, the creation and
  deletion of the image objects, and the sizes read back at start-up. The application's storage
  callbacks act on \<open>storage\<close> and on the service's image buffer; \<open>object_being_created\<close> is the
  pointer of that name.
\<close>

subsection \<open>Storage callbacks\<close>

definition open_image :: "'st env \<Rightarrow> u8 \<Rightarrow> 'st tag \<Rightarrow> 'st tag" where
  "open_image e i s = (case cb_open_image (cbs e) of
     None \<Rightarrow> s | Some f \<Rightarrow> s\<lparr>storage := snd (f i (storage s))\<rparr>)"

definition close_image :: "'st env \<Rightarrow> 'st tag \<Rightarrow> 'st tag" where
  "close_image e s = (case cb_close_image (cbs e) of
     None \<Rightarrow> s | Some f \<Rightarrow> s\<lparr>storage := snd (f (storage s))\<rparr>)"

text \<open>Clear the image buffer and read \<open>len\<close> bytes of image \<open>i\<close> at \<open>off\<close> into it.\<close>

definition read_image :: "'st env \<Rightarrow> u8 \<Rightarrow> nat \<Rightarrow> int \<Rightarrow> 'st tag \<Rightarrow> 'st tag option" where
  "read_image e i len off s = do {
     let s1 = s\<lparr>img_obj_buf := replicate (image_buffer_size (cfg e)) 0\<rparr>;
     (case cb_read_img (cbs e) of
        None \<Rightarrow> Some s1
      | Some f \<Rightarrow> do {
          (rc, b, st) \<leftarrow> f i (img_obj_buf s1) len off (storage s1);
          Some (s1\<lparr>img_obj_buf := b, storage := st\<rparr>)
        })
   }"

definition write_image :: "'st env \<Rightarrow> u8 \<Rightarrow> nat \<Rightarrow> int \<Rightarrow> 'st tag \<Rightarrow> (int \<times> 'st tag) option" where
  "write_image e i len off s =
     (case cb_write_img (cbs e) of
        None \<Rightarrow> Some (0, s)
      | Some f \<Rightarrow> do {
          (rc, st) \<leftarrow> f i len off (img_obj_buf s) (storage s);
          Some (rc, s\<lparr>storage := st\<rparr>)
        })"

subsection \<open>Callbacks of the Object Transfer Service\<close>

text \<open>
  \<open>asked\<close> is the size asked for; the result is the code with the descriptor of the object
  (name, current size, allocated size) when one is created.
\<close>

definition ots_obj_created ::
  "'st env \<Rightarrow> nat \<Rightarrow> u64 \<Rightarrow> 'st tag \<Rightarrow> (int \<times> (string \<times> u32 \<times> u32) option \<times> 'st tag) option" where
  "ots_obj_created e asked oid s =
     (if image_max (cfg e) \<le> unat (obj_cnt s) then Some (- ENOMEM, None, s)
      else if image_file_size (cfg e) < asked then Some (- ENOMEM, None, s)
      else do {
        (desc, s1) \<leftarrow> (case object_being_created s of
            Some d \<Rightarrow> Some (d, s)
          | None \<Rightarrow> do {
              names \<leftarrow> upd (img_object_names s) (unat (oid - BT_OTS_OBJ_ID_MIN)) [];
              Some (([], 0, of_nat (image_file_size (cfg e))), s\<lparr>img_object_names := names\<rparr>)
            });
        Some (0, Some desc, s1\<lparr>obj_cnt := obj_cnt s1 + 1\<rparr>)
      })"

definition ots_obj_selected :: "'st env \<Rightarrow> u64 \<Rightarrow> 'st tag \<Rightarrow> 'st tag" where
  "ots_obj_selected e oid s = open_image e (ucast (oid - BT_OTS_OBJ_ID_MIN)) s"

text \<open>
  \<open>data\<close> is the caller's pointer to a data pointer: \<open>None\<close> when it is null, \<open>Some d\<close> when the
  data pointer holds \<open>d\<close> on entry; the second result is what it holds on return.
\<close>

definition ots_obj_read ::
  "'st env \<Rightarrow> u64 \<Rightarrow> 'd option \<Rightarrow> nat \<Rightarrow> int \<Rightarrow> 'st tag \<Rightarrow> (nat \<times> 'd option \<times> 'st tag) option" where
  "ots_obj_read e oid data len off s =
     (case data of
        None \<Rightarrow> Some (0, data, s)
      | Some d \<Rightarrow> do {
          s1 \<leftarrow> read_image e (ucast (ucast (oid - BT_OTS_OBJ_ID_MIN) :: u16)) len off s;
          Some (len, data, s1)
        })"

fun write_retry :: "nat \<Rightarrow> 'st env \<Rightarrow> u8 \<Rightarrow> nat \<Rightarrow> int \<Rightarrow> 'st tag \<Rightarrow> 'st tag option" where
  "write_retry 0 e i len off s = Some s"
| "write_retry (Suc n) e i len off s = do {
     (rc, s1) \<leftarrow> write_image e i len off s;
     (if rc < 0 then write_retry n e i len off s1 else Some s1)
   }"

definition ots_write_chunk :: "'st env \<Rightarrow> u8 \<Rightarrow> u8 list \<Rightarrow> nat \<Rightarrow> int \<Rightarrow> 'st tag \<Rightarrow> 'st tag option" where
  "ots_write_chunk e i data len off s =
     (if ots_nvs_or_zms (cfg e) then
        (case cb_buffer_img (cbs e) of
           None \<Rightarrow> Some s
         | Some f \<Rightarrow> do {
             b \<leftarrow> f data len off (img_obj_buf s);
             Some (s\<lparr>img_obj_buf := b\<rparr>)
           })
      else if unsynchronized_immediately (cfg e) then Some s
      else do {
        d \<leftarrow> rd_mem data 0 len;
        b \<leftarrow> wr_mem (img_obj_buf s) 0 d;
        s1 \<leftarrow> write_retry 3 e i len off (s\<lparr>img_obj_buf := b\<rparr>);
        Some (close_image e s1)
      })"

definition ots_obj_write ::
  "'st env \<Rightarrow> u64 \<Rightarrow> u8 list \<Rightarrow> nat \<Rightarrow> int \<Rightarrow> nat \<Rightarrow> 'st tag \<Rightarrow> (nat \<times> 'st tag) option" where
  "ots_obj_write e oid data len off rem s = do {
     let i = (ucast (oid - BT_OTS_OBJ_ID_MIN) :: u8);
     s1 \<leftarrow> ots_write_chunk e i data len off s;
     (if rem = 0 then do {
        sz \<leftarrow> upd (stored_image_size s1) (unat i) (of_int (off + int len));
        let s2 = s1\<lparr>stored_image_size := sz\<rparr>;
        (if ots_nvs_or_zms (cfg e) \<and> \<not> unsynchronized_immediately (cfg e) then do {
           (rc, s3) \<leftarrow> write_image e i (unat (sz ! unat i)) 0 s2;
           Some (len, s3)
         } else Some (len, s2))
      } else Some (len, s1))
   }"

definition ots_obj_cal_checksum ::
  "'st env \<Rightarrow> u64 \<Rightarrow> int \<Rightarrow> nat \<Rightarrow> 'st tag \<Rightarrow> (int \<times> u8 list option \<times> 'st tag) option" where
  "ots_obj_cal_checksum e oid off len s = do {
     let i = (ucast (oid - BT_OTS_OBJ_ID_MIN) :: u8);
     (if image_max (cfg e) < unat i then Some (- ENOENT, None, s)
      else do {
        s1 \<leftarrow> read_image e i len off s;
        let data = img_obj_buf s1;
        Some (0, Some data, close_image e s1)
      })
   }"

subsection \<open>Creating and deleting the objects\<close>

definition obj_created_cb :: "'st env \<Rightarrow> nat \<Rightarrow> u64 \<Rightarrow> 'st tag \<Rightarrow> (int \<times> 'st tag) option" where
  "obj_created_cb e asked oid s = do {
     (r, desc, t) \<leftarrow> ots_obj_created e asked oid s;
     Some (r, t)
   }"

text \<open>The loop of \<open>ots_create_obj\<close> from index \<open>i\<close> with \<open>n\<close> objects to go.\<close>

fun ots_create_from :: "nat \<Rightarrow> nat \<Rightarrow> 'st env \<Rightarrow> 'st tag \<Rightarrow> (int \<times> 'st tag) option" where
  "ots_create_from i 0 e s = Some (0, s)"
| "ots_create_from i (Suc n) e s = do {
     cur \<leftarrow> rd (stored_image_size s) i;
     names \<leftarrow> upd (img_object_names s) i (object_name i);
     let s1 = s\<lparr>img_object_names := names,
                object_being_created := Some (object_name i, cur, of_nat (image_file_size (cfg e)))\<rparr>;
     (err, s2) \<leftarrow> z_ots_obj_add (zep e) (obj_created_cb e (image_file_size (cfg e))) s1;
     let s3 = s2\<lparr>object_being_created := None\<rparr>;
     (if err < 0 then Some (err, s3) else ots_create_from (Suc i) n e s3)
   }"

definition ots_create_obj :: "'st env \<Rightarrow> 'st tag \<Rightarrow> (int \<times> 'st tag) option" where
  "ots_create_obj e s = ots_create_from 0 (image_max (cfg e)) e s"

text \<open>\<open>got\<close> and \<open>err\<close>: whether an instance was free and the code of \<open>bt_ots_init\<close>.\<close>

definition ots_init_func :: "'st env \<Rightarrow> bool \<Rightarrow> int \<Rightarrow> 'st tag \<Rightarrow> (int \<times> 'st tag) option" where
  "ots_init_func e got err s =
     (if \<not> got then Some (- ENOMEM, s)
      else if err \<noteq> 0 then Some (err, s)
      else do { (r, s1) \<leftarrow> ots_create_obj e s; Some (0, s1) })"

definition bt_esl_delete_images :: "'st env \<Rightarrow> 'st tag \<Rightarrow> 'st tag option" where
  "bt_esl_delete_images e s =
     (case cb_delete_imgs (cbs e) of
        None \<Rightarrow> Some s
      | Some f \<Rightarrow>
          for_loop 0 (image_max (cfg e)) (\<lambda>i t. do {
            sz \<leftarrow> upd (stored_image_size t) i 0;
            Some (effect (Ots_obj_delete (of_nat i + BT_OTS_OBJ_ID_MIN))
                    (t\<lparr>stored_image_size := sz, obj_cnt := obj_cnt t - 1\<rparr>)) })
          (s\<lparr>storage := snd (f (storage s))\<rparr>))"

definition image_size_init :: "'st env \<Rightarrow> 'st tag \<Rightarrow> 'st tag option" where
  "image_size_init e s = for_loop 0 (image_max (cfg e)) (\<lambda>i t. do {
     sz \<leftarrow> upd (stored_image_size t) i (cb_read_img_size (cbs e) (of_nat i) (storage t));
     Some (t\<lparr>stored_image_size := sz\<rparr>) }) s"

subsection \<open>Well-formedness\<close>

lemma wf_open_close [simp]:
  "wf_tag e (open_image e' i s) = wf_tag e s" "wf_tag e (close_image e' s) = wf_tag e s"
  by (simp_all add: open_image_def close_image_def split: option.split)

lemma wf_img_buf:
  "wf_tag e s \<Longrightarrow> length b = image_buffer_size (cfg e) \<Longrightarrow> wf_tag e (s\<lparr>img_obj_buf := b\<rparr>)"
  by (simp add: wf_tag_def)

lemma wf_img_size:
  "wf_tag e s \<Longrightarrow> length b = image_max (cfg e) \<Longrightarrow> wf_tag e (s\<lparr>stored_image_size := b\<rparr>)"
  by (simp add: wf_tag_def)

lemma wf_img_names:
  "wf_tag e s \<Longrightarrow> length b = image_max (cfg e) \<Longrightarrow> wf_tag e (s\<lparr>img_object_names := b\<rparr>)"
  by (simp add: wf_tag_def)

lemma wf_img_lengths:
  "wf_tag e s \<Longrightarrow> length (img_obj_buf s) = image_buffer_size (cfg e)"
  "wf_tag e s \<Longrightarrow> length (stored_image_size s) = image_max (cfg e)"
  "wf_tag e s \<Longrightarrow> length (img_object_names s) = image_max (cfg e)"
  by (simp_all add: wf_tag_def)

lemma wf_obj_created_cb:
  assumes "wf_tag e s" "object_being_created s \<noteq> None"
  shows "yields (obj_created_cb e asked oid s) (\<lambda>(r, t). wf_tag e t)"
  using assms by (auto simp: obj_created_cb_def ots_obj_created_def wp)

lemma wf_ots_create_from:
  "zephyr_ok (zep e) \<Longrightarrow> wf_tag e s \<Longrightarrow> i + n \<le> image_max (cfg e) \<Longrightarrow>
     yields (ots_create_from i n e s) (\<lambda>(r, t). wf_tag e t)"
proof (induction n arbitrary: i s)
  case (Suc n)
  let ?s1 = "s\<lparr>img_object_names := (img_object_names s)[i := object_name i],
      object_being_created := Some (object_name i, stored_image_size s ! i, of_nat (image_file_size (cfg e)))\<rparr>"
  have wf1: "wf_tag e ?s1"
    using Suc.prems(2) by (simp add: wf_img_names wf_img_lengths)
  have add: "yields (z_ots_obj_add (zep e) (obj_created_cb e (image_file_size (cfg e))) ?s1)
      (\<lambda>(r, t). wf_tag e t)"
    using z_ots_obj_add_cases [OF Suc.prems(1), of "obj_created_cb e (image_file_size (cfg e))" ?s1]
  proof cases
    case 1
    then show ?thesis using wf1 by simp
  next
    case (2 oid)
    show ?thesis unfolding 2 by (rule wf_obj_created_cb [OF wf1]) simp
  qed
  show ?case
    using Suc.prems
    by (auto simp: wp wf_img_lengths Let_def intro!: yields_mono [OF add] Suc.IH [OF Suc.prems(1)])
qed simp

lemma wf_ots_create_obj:
  "zephyr_ok (zep e) \<Longrightarrow> wf_tag e s \<Longrightarrow> yields (ots_create_obj e s) (\<lambda>(r, t). wf_tag e t)"
  by (simp add: ots_create_obj_def wf_ots_create_from)

lemma wf_delete_images:
  "wf_tag e s \<Longrightarrow> yields (bt_esl_delete_images e s) (wf_tag e)"
  by (auto simp: bt_esl_delete_images_def wp wf_img_lengths wf_img_size
      split: option.split intro!: for_loop_pres)

lemma wf_image_size_init: "wf_tag e s \<Longrightarrow> yields (image_size_init e s) (wf_tag e)"
  by (auto simp: image_size_init_def wp wf_img_lengths wf_img_size intro!: for_loop_pres)

text \<open>What the storage callbacks owe, for a callback that is registered.\<close>

lemma env_image_io:
  "env_ok e \<Longrightarrow> image_io (\<lambda>d l off b. case cb_buffer_img (cbs e) of None \<Rightarrow> Some b | Some f \<Rightarrow> f d l off b)
     (\<lambda>i l off b st. case cb_write_img (cbs e) of None \<Rightarrow> Some (0, st) | Some f \<Rightarrow> f i l off b st)
     (\<lambda>i b l off st. case cb_read_img (cbs e) of None \<Rightarrow> Some (0, b, st) | Some f \<Rightarrow> f i b l off st)
     (image_buffer_size (cfg e))"
  by (simp add: env_ok_def callbacks_ok_def)

lemma env_read_img:
  assumes "env_ok e" "cb_read_img (cbs e) = Some f" "l \<le> length b"
  shows "yields (f i b l off st) (\<lambda>(r, b', st'). length b' = length b)"
  using image_io.read_ok [OF env_image_io [OF assms(1)] assms(3), where i = i and off = off and st = st] assms(2) by simp

lemma env_write_img:
  assumes "env_ok e" "cb_write_img (cbs e) = Some f" "l \<le> length b"
  shows "yields (f i l off b st) (\<lambda>_. True)"
  using image_io.write_ok [OF env_image_io [OF assms(1)] assms(3), where i = i and off = off and st = st] assms(2)
  by (auto simp: yields_def)

lemma env_buffer_img:
  assumes "env_ok e" "cb_buffer_img (cbs e) = Some f" "l \<le> length d" "length b = image_buffer_size (cfg e)"
  shows "yields (f d l off b) (\<lambda>b'. length b' = length b)"
  using image_io.buffer_ok [OF env_image_io [OF assms(1)] assms(3,4), where off = off] assms(2) by simp

lemma wf_read_image:
  assumes "env_ok e" "wf_tag e s" "len \<le> image_buffer_size (cfg e)"
  shows "yields (read_image e i len off s) (wf_tag e)"
proof -
  have upd: "wf_tag e (s\<lparr>img_obj_buf := b, storage := st\<rparr>)" if "length b = image_buffer_size (cfg e)" for b st
    using assms(2) that by (simp add: wf_tag_def)
  show ?thesis
    using assms(2,3)
    by (auto simp: read_image_def Let_def wp upd wf_img_buf case_prod_unfold split: option.split
        intro!: yields_mono [OF env_read_img [OF assms(1)]])
qed

lemma wf_write_image:
  assumes "env_ok e" "wf_tag e s" "len \<le> image_buffer_size (cfg e)"
  shows "yields (write_image e i len off s) (\<lambda>(r, t). wf_tag e t)"
  using assms(2,3)
  by (auto simp: write_image_def wp wf_img_lengths case_prod_unfold split: option.split
      intro!: yields_mono [OF env_write_img [OF assms(1)]])

lemma wf_write_retry:
  assumes "env_ok e" "len \<le> image_buffer_size (cfg e)"
  shows "wf_tag e s \<Longrightarrow> yields (write_retry n e i len off s) (wf_tag e)"
  by (induction n arbitrary: s) (auto simp: wp intro!: yields_mono [OF wf_write_image [OF assms(1) _ assms(2)]])

lemma wf_write_chunk:
  assumes "env_ok e" "wf_tag e s" "len \<le> length data" "len \<le> image_buffer_size (cfg e)"
  shows "yields (ots_write_chunk e i data len off s) (wf_tag e)"
  using assms(2-4)
  by (auto simp: ots_write_chunk_def wp wf_img_lengths wf_img_buf split: option.split
      intro!: yields_mono [OF env_buffer_img [OF assms(1)]] yields_mono [OF wf_write_retry [OF assms(1)]])

text \<open>
  A write within the object and the image buffer, which the service's allocated size grants. The
  object identifier is one the service handed out.
\<close>

definition ots_index :: "u64 \<Rightarrow> u8" where
  "ots_index oid = ucast (oid - BT_OTS_OBJ_ID_MIN)"

lemma wf_obj_write:
  assumes e: "env_ok e" and wf: "wf_tag e s" and i: "unat (ots_index oid) < image_max (cfg e)"
    and data: "len \<le> length data" and off: "0 \<le> off" "off + int len \<le> int (image_buffer_size (cfg e))"
  shows "yields (ots_obj_write e oid data len off rem s) (\<lambda>(n, t). wf_tag e t \<and> n = len)"
proof -
  have small: "len \<le> image_buffer_size (cfg e)" using off by linarith
  define n where "n = nat (off + int len)"
  have n: "n \<le> image_buffer_size (cfg e)" and on: "off + int len = int n" using off by (simp_all add: n_def)
  have sz: "unat (of_int (off + int len) :: u32) \<le> image_buffer_size (cfg e)"
    using n unfolding on by (simp add: unat_of_nat order_trans [OF mod_less_eq_dividend])
  note chunk = wf_write_chunk [OF e wf data small]
  show ?thesis
    using i sz unfolding ots_obj_write_def Let_def ots_index_def yields_bind
    by (auto simp: wp wf_img_lengths wf_img_size case_prod_unfold simp del: of_int_add
        intro!: yields_mono [OF chunk] yields_mono [OF wf_write_image [OF e]])
qed

lemma wf_obj_read:
  "env_ok e \<Longrightarrow> wf_tag e s \<Longrightarrow> len \<le> image_buffer_size (cfg e) \<Longrightarrow>
     yields (ots_obj_read e oid d len off s) (\<lambda>(n, d', t). wf_tag e t)"
  by (auto simp: ots_obj_read_def wp split: option.split intro!: yields_mono [OF wf_read_image])

lemma wf_obj_checksum:
  "env_ok e \<Longrightarrow> wf_tag e s \<Longrightarrow> len \<le> image_buffer_size (cfg e) \<Longrightarrow>
     yields (ots_obj_cal_checksum e oid off len s) (\<lambda>(r, d, t). wf_tag e t)"
  by (auto simp: ots_obj_cal_checksum_def Let_def wp intro!: yields_mono [OF wf_read_image])

end
