(* ===== verification/Esl_Settings.thy ===== *)
theory Esl_Settings
  imports Esl_Tag_State
begin

unbundle bit_operations_syntax

text \<open>
  \<open>service/esl_settings.c\<close>: what the tag keeps over a reset. The three provisioned values and a flag
  for the absolute time are stored under names of the subtree \<open>esl\<close>; at start-up the settings
  subsystem calls \<open>esl_settings_set\<close> once per stored name, in an order it chooses.
\<close>

subsection \<open>Loading\<close>

text \<open>\<open>got\<close> is the code the subsystem's read function returns, with the bytes it copied.\<close>

definition esl_settings_set ::
  "'st env \<Rightarrow> string \<Rightarrow> nat \<Rightarrow> int \<times> u8 list \<Rightarrow> 'st tag \<Rightarrow> int \<times> 'st tag" where
  "esl_settings_set e name len got s =
     (let set_bit = (\<lambda>b t. t\<lparr>configuring_state := z_set_bit (zep e) (configuring_state t) b\<rparr>)
      in if name = ''esl_addr'' then
           (if len \<noteq> 2 then (- EINVAL, s)
            else if fst got > 0
            then (0, set_bit ESL_ADDR_SET_BIT (s\<lparr>esl_addr := of_le16 (snd got)\<rparr>))
            else (- ENOENT, s))
         else if name = ''esl_ap_key'' then
           (if len \<noteq> EAD_KEY_MATERIAL_LEN then (- EINVAL, s)
            else if fst got > 0
            then (0, set_bit ESL_AP_SYNC_KEY_SET_BIT (s\<lparr>esl_ap_key := key_of_bytes (snd got)\<rparr>))
            else (- ENOENT, s))
         else if name = ''esl_rsp_key'' then
           (if len \<noteq> EAD_KEY_MATERIAL_LEN then (- EINVAL, s)
            else if fst got > 0
            then (0, set_bit ESL_RESPONSE_KEY_SET_BIT (s\<lparr>esl_rsp_key := key_of_bytes (snd got)\<rparr>))
            else (- ENOENT, s))
         else if name = ''esl_abs_time'' then
           (if len \<noteq> 1 then (- EINVAL, s) else (0, set_bit ESL_ABS_TIME_SET_BIT s))
         else (- ENOENT, s))"

text \<open>The subsystem's walk over the stored names of the subtree, in the order given.\<close>

definition load_entry :: "'st env \<Rightarrow> string \<Rightarrow> 'st tag \<Rightarrow> 'st tag" where
  "load_entry e name s =
     (case settings_store s (''esl/'' @ name) of
        None \<Rightarrow> s
      | Some v \<Rightarrow> snd (esl_settings_set e name (length v) (int (length v), v) s))"

text \<open>\<open>r1\<close>, \<open>r2\<close>, \<open>r3\<close>: the codes of initialising, registering and loading.\<close>

definition esl_settings_init ::
  "'st env \<Rightarrow> string list \<Rightarrow> int \<Rightarrow> int \<Rightarrow> int \<Rightarrow> 'st tag \<Rightarrow> int \<times> 'st tag" where
  "esl_settings_init e order r1 r2 r3 s =
     (if r1 \<noteq> 0 then (r1, s)
      else if r2 \<noteq> 0 then (r2, s)
      else (r3, fold (load_entry e) order s))"

subsection \<open>Saving and deleting\<close>

definition save_one :: "'st env \<Rightarrow> string \<Rightarrow> u8 list \<Rightarrow> 'st tag \<Rightarrow> int \<times> 'st tag" where
  "save_one e name v s =
     (let (ret, st) = z_settings_save (zep e) name v (settings_store s)
      in (ret, s\<lparr>settings_store := st\<rparr>))"

definition esl_settings_addr_save :: "'st env \<Rightarrow> 'st tag \<Rightarrow> int \<times> 'st tag" where
  "esl_settings_addr_save e s = save_one e ''esl/esl_addr'' (le16 (esl_addr s)) s"

definition esl_settings_ap_key_save :: "'st env \<Rightarrow> 'st tag \<Rightarrow> int \<times> 'st tag" where
  "esl_settings_ap_key_save e s = save_one e ''esl/esl_ap_key'' (key_v (esl_ap_key s)) s"

definition esl_settings_rsp_key_save :: "'st env \<Rightarrow> 'st tag \<Rightarrow> int \<times> 'st tag" where
  "esl_settings_rsp_key_save e s = save_one e ''esl/esl_rsp_key'' (key_v (esl_rsp_key s)) s"

definition esl_settings_abs_save :: "'st env \<Rightarrow> 'st tag \<Rightarrow> int \<times> 'st tag" where
  "esl_settings_abs_save e s = save_one e ''esl/esl_abs_time'' [1] s"

definition delete_one :: "'st env \<Rightarrow> string \<Rightarrow> nat \<Rightarrow> 'st tag \<Rightarrow> 'st tag" where
  "delete_one e name b s =
     s\<lparr>settings_store := snd (z_settings_delete (zep e) name (settings_store s)),
       configuring_state := z_clear_bit (zep e) (configuring_state s) b\<rparr>"

definition esl_settings_delete_provisioned_data :: "'st env \<Rightarrow> 'st tag \<Rightarrow> 'st tag" where
  "esl_settings_delete_provisioned_data e s =
     (let s1 = delete_one e ''esl/esl_addr'' ESL_ADDR_SET_BIT s;
          s2 = delete_one e ''esl/esl_ap_key'' ESL_AP_SYNC_KEY_SET_BIT s1;
          s3 = delete_one e ''esl/esl_rsp_key'' ESL_RESPONSE_KEY_SET_BIT s2;
          s4 = delete_one e ''esl/esl_abs_time'' ESL_ABS_TIME_SET_BIT s3;
          s5 = s4\<lparr>configuring_state :=
                 z_clear_bit (zep e) (configuring_state s4) ESL_UPDATE_COMPLETE_SET_BIT\<rparr>
      in effect Settings_commit s5)"

subsection \<open>Well-formedness\<close>

lemma wf_key_updates:
  "wf_tag e s \<Longrightarrow> key_ok k \<Longrightarrow> wf_tag e (s\<lparr>esl_ap_key := k\<rparr>)"
  "wf_tag e s \<Longrightarrow> key_ok k \<Longrightarrow> wf_tag e (s\<lparr>esl_rsp_key := k\<rparr>)"
  by (simp_all add: wf_tag_def)

text \<open>The subsystem copies as many bytes as it announced.\<close>

lemma wf_settings_set:
  "wf_tag e s \<Longrightarrow> length (snd got) = len \<Longrightarrow> wf_tag e (snd (esl_settings_set e name len got s))"
  by (simp add: esl_settings_set_def wf_key_updates)

lemma wf_load_entry: "wf_tag e s \<Longrightarrow> wf_tag e (load_entry e name s)"
  by (simp add: load_entry_def wf_settings_set split: option.split)

lemma wf_load_entries: "wf_tag e s \<Longrightarrow> wf_tag e (fold (load_entry e) order s)"
  by (induction order arbitrary: s) (simp_all add: wf_load_entry)

lemma wf_settings_init: "wf_tag e s \<Longrightarrow> wf_tag e (snd (esl_settings_init e order r1 r2 r3 s))"
  by (simp add: esl_settings_init_def wf_load_entries)

lemma wf_save_one [simp]: "wf_tag e (snd (save_one e n v s)) = wf_tag e s"
  by (simp add: save_one_def case_prod_unfold Let_def)

lemma wf_saves [simp]:
  "wf_tag e (snd (esl_settings_addr_save e s)) = wf_tag e s"
  "wf_tag e (snd (esl_settings_ap_key_save e s)) = wf_tag e s"
  "wf_tag e (snd (esl_settings_rsp_key_save e s)) = wf_tag e s"
  "wf_tag e (snd (esl_settings_abs_save e s)) = wf_tag e s"
  by (simp_all add: esl_settings_addr_save_def esl_settings_ap_key_save_def
      esl_settings_rsp_key_save_def esl_settings_abs_save_def)

lemma wf_delete_one [simp]: "wf_tag e (delete_one e n b s) = wf_tag e s"
  by (simp add: delete_one_def)

lemma wf_delete_provisioned [simp]: "wf_tag e (esl_settings_delete_provisioned_data e s) = wf_tag e s"
  by (simp add: esl_settings_delete_provisioned_data_def Let_def)

subsection \<open>What loading restores\<close>

lemma load_entry_store [simp]: "settings_store (load_entry e n s) = settings_store s"
  by (simp add: load_entry_def esl_settings_set_def Let_def split: option.split)

text \<open>One entry restores its own value and sets its own bit, whatever the others did.\<close>

lemma load_entry_addr:
  "settings_store s ''esl/esl_addr'' = Some (le16 a) \<Longrightarrow>
     esl_addr (load_entry e n s) = (if n = ''esl_addr'' then a else esl_addr s)"
  by (auto simp: load_entry_def esl_settings_set_def Let_def of_le16_le16 [of _ "[]", simplified]
      split: option.split)

lemma load_entry_ap_key:
  "settings_store s ''esl/esl_ap_key'' = Some (key_v k) \<Longrightarrow> key_ok k \<Longrightarrow>
     esl_ap_key (load_entry e n s) = (if n = ''esl_ap_key'' then k else esl_ap_key s)"
  by (auto simp: load_entry_def esl_settings_set_def Let_def split: option.split)

lemma load_entry_rsp_key:
  "settings_store s ''esl/esl_rsp_key'' = Some (key_v k) \<Longrightarrow> key_ok k \<Longrightarrow>
     esl_rsp_key (load_entry e n s) = (if n = ''esl_rsp_key'' then k else esl_rsp_key s)"
  by (auto simp: load_entry_def esl_settings_set_def Let_def split: option.split)

lemma load_entries_addr:
  "settings_store s ''esl/esl_addr'' = Some (le16 a) \<Longrightarrow>
     esl_addr (fold (load_entry e) order s) = (if ''esl_addr'' \<in> set order then a else esl_addr s)"
  by (induction order arbitrary: s) (auto simp: load_entry_addr)

lemma load_entries_ap_key:
  "settings_store s ''esl/esl_ap_key'' = Some (key_v k) \<Longrightarrow> key_ok k \<Longrightarrow>
     esl_ap_key (fold (load_entry e) order s) =
       (if ''esl_ap_key'' \<in> set order then k else esl_ap_key s)"
  by (induction order arbitrary: s) (auto simp: load_entry_ap_key)

lemma load_entries_rsp_key:
  "settings_store s ''esl/esl_rsp_key'' = Some (key_v k) \<Longrightarrow> key_ok k \<Longrightarrow>
     esl_rsp_key (fold (load_entry e) order s) =
       (if ''esl_rsp_key'' \<in> set order then k else esl_rsp_key s)"
  by (induction order arbitrary: s) (auto simp: load_entry_rsp_key)

definition stored_complete :: "settings \<Rightarrow> bool" where
  "stored_complete st \<longleftrightarrow>
     (\<exists>v. st ''esl/esl_addr'' = Some v \<and> length v = 2) \<and>
     (\<exists>v. st ''esl/esl_ap_key'' = Some v \<and> length v = EAD_KEY_MATERIAL_LEN) \<and>
     (\<exists>v. st ''esl/esl_rsp_key'' = Some v \<and> length v = EAD_KEY_MATERIAL_LEN) \<and>
     (\<exists>v. st ''esl/esl_abs_time'' = Some v \<and> length v = 1)"

text \<open>The bit of the configuring state that belongs to a stored name.\<close>

definition name_bit :: "string \<Rightarrow> nat option" where
  "name_bit n = map_of [(''esl_addr'', ESL_ADDR_SET_BIT), (''esl_ap_key'', ESL_AP_SYNC_KEY_SET_BIT),
     (''esl_rsp_key'', ESL_RESPONSE_KEY_SET_BIT), (''esl_abs_time'', ESL_ABS_TIME_SET_BIT)] n"

lemma load_entry_configuring:
  assumes "zephyr_ok (zep e)" "stored_complete (settings_store s)"
  shows "configuring_state (load_entry e n s) =
    (case name_bit n of None \<Rightarrow> configuring_state s | Some b \<Rightarrow> set_bit b (configuring_state s))"
proof -
  consider "n = ''esl_addr''" | "n = ''esl_ap_key''" | "n = ''esl_rsp_key''" | "n = ''esl_abs_time''"
    | "n \<notin> {''esl_addr'', ''esl_ap_key'', ''esl_rsp_key'', ''esl_abs_time''}" by blast
  then show ?thesis
    using assms(2)
    by cases (auto simp: load_entry_def esl_settings_set_def stored_complete_def name_bit_def
        z_set_bit_eq [OF assms(1)] split: option.split)
qed

lemma load_entry_bits:
  assumes "zephyr_ok (zep e)" "stored_complete (settings_store s)"
  shows "bit (configuring_state (load_entry e n s)) i =
    (bit (configuring_state s) i \<or> name_bit n = Some i \<and> i < 32)"
  by (auto simp: load_entry_configuring [OF assms] bit_simps split: option.split)

lemma load_entries_bits:
  "zephyr_ok (zep e) \<Longrightarrow> stored_complete (settings_store s) \<Longrightarrow>
   bit (configuring_state (fold (load_entry e) order s)) i =
    (bit (configuring_state s) i \<or> (\<exists>n \<in> set order. name_bit n = Some i) \<and> i < 32)"
  by (induction order arbitrary: s) (auto simp: load_entry_bits)

text \<open>The four saves of a provisioning, in the order of the characteristics.\<close>

definition save_all :: "'st env \<Rightarrow> 'st tag \<Rightarrow> 'st tag" where
  "save_all e s =
     snd (esl_settings_abs_save e (snd (esl_settings_rsp_key_save e
       (snd (esl_settings_ap_key_save e (snd (esl_settings_addr_save e s)))))))"

lemma save_one_reliable:
  "zephyr_ok (zep e) \<Longrightarrow> settings_reliable (zep e) \<Longrightarrow>
     snd (save_one e n v s) = s\<lparr>settings_store := (settings_store s)(n \<mapsto> v)\<rparr>"
  by (simp add: save_one_def case_prod_unfold Let_def z_settings_save_eq settings_reliable_def)

lemma save_all_store:
  assumes "zephyr_ok (zep e)" "settings_reliable (zep e)"
  shows "settings_store (save_all e s) = (settings_store s)
    (''esl/esl_addr'' \<mapsto> le16 (esl_addr s), ''esl/esl_ap_key'' \<mapsto> key_v (esl_ap_key s),
     ''esl/esl_rsp_key'' \<mapsto> key_v (esl_rsp_key s), ''esl/esl_abs_time'' \<mapsto> [1])"
  using assms
  by (simp add: save_all_def save_one_reliable esl_settings_addr_save_def
      esl_settings_ap_key_save_def esl_settings_rsp_key_save_def esl_settings_abs_save_def)

end
