(* ===== verification/Esl_Sm.thy ===== *)
theory Esl_Sm
  imports Esl_Ots Esl_Settings
begin

unbundle bit_operations_syntax

text \<open>
  The association state machine of \<open>service/esl.c\<close>: entry and exit actions, transitions through
  Zephyr's state machine framework, the test for a complete configuration, unassociation and
  factory reset, and the connection, synchronisation and timeout callbacks that drive it. The run
  actions of the state table do nothing and are never called.
\<close>

subsection \<open>Advertising and synchronisation\<close>

definition bt_esl_adv_start :: "esl_adv_mode \<Rightarrow> 'st tag \<Rightarrow> 'st tag" where
  "bt_esl_adv_start mode s = effect (K_work_reschedule Adv_work 150) (s\<lparr>adv_mode := mode\<rparr>)"

definition bt_esl_adv_stop :: "'st env \<Rightarrow> 'st tag \<Rightarrow> 'st tag option" where
  "bt_esl_adv_stop e s =
     (let s1 = effect Bt_le_adv_stop s
      in if led_indication (cfg e) then led_dwork_reset (INDICATION_LED_IDX (cfg e)) s1 else Some s1)"

definition bt_esl_disconnect :: "'st tag \<Rightarrow> 'st tag" where
  "bt_esl_disconnect s = effect (Bt_conn_disconnect (conn s) BT_HCI_ERR_REMOTE_USER_TERM_CONN) s"

definition esl_create_pawr_sync :: "'st env \<Rightarrow> 'st tag \<Rightarrow> 'st tag" where
  "esl_create_pawr_sync e s = effect (Past_subscribe (conn s) (past_skip (cfg e)) (past_timeout (cfg e))) s"

definition esl_stop_sync_pawr :: "'st tag \<Rightarrow> 'st tag" where
  "esl_stop_sync_pawr s =
     effect (Sync_delete (pawr_sync s)) (effect Past_unsubscribe (s\<lparr>sync_count := 0\<rparr>))"

definition esl_init_provisioned_data :: "'st tag \<Rightarrow> 'st tag" where
  "esl_init_provisioned_data s = s\<lparr>
     esl_addr := 0x8000,
     connect_from := ACL_NOT_CONNECTED,
     timeout_mode := ESL_UNASSOCIATED_TIMEOUT_MODE,
     esl_ap_key := key_of_bytes (replicate EAD_KEY_MATERIAL_LEN 0),
     esl_randomizer := replicate EAD_RANDOMIZER_LEN 0,
     esl_rsp_key := key_of_bytes (replicate EAD_KEY_MATERIAL_LEN 0),
     esl_sm_timeout_update_needed := True\<rparr>"

subsection \<open>Entry and exit actions\<close>

definition sm_unassociated_entry :: "'st env \<Rightarrow> 'st tag \<Rightarrow> 'st tag option" where
  "sm_unassociated_entry e s = Some (bt_esl_adv_start ESL_ADV_DEMO (s\<lparr>esl_state := SM_UNASSOCIATED\<rparr>))"

definition sm_configuring_entry :: "'st env \<Rightarrow> 'st tag \<Rightarrow> 'st tag option" where
  "sm_configuring_entry e s = Some (s\<lparr>esl_state := SM_CONFIGURING\<rparr>)"

definition sm_configured_entry :: "'st env \<Rightarrow> 'st tag \<Rightarrow> 'st tag option" where
  "sm_configured_entry e s = Some (esl_create_pawr_sync e (s\<lparr>esl_state := SM_CONFIGURED\<rparr>))"

definition sm_synchronized_entry :: "'st env \<Rightarrow> 'st tag \<Rightarrow> 'st tag option" where
  "sm_synchronized_entry e s = do {
     let s1 = effect (Printk ''#SYNC:1'') (s\<lparr>esl_state := SM_SYNCHRONIZED\<rparr>);
     let s2 = bt_esl_disconnect (basic_bit e (z_set_bit (zep e)) ESL_SYNCHRONIZED s1);
     s3 \<leftarrow> bt_esl_adv_stop e s2;
     Some (if esl_sm_timeout_update_needed s3
           then effect (K_work_reschedule Timeout_work (unsynchronized_timeout (cfg e) * 1000))
                  (s3\<lparr>timeout_mode := ESL_UNSYNCED_TIMEOUT_MODE\<rparr>)
           else s3)
   }"

definition sm_synchronized_exit :: "'st env \<Rightarrow> 'st tag \<Rightarrow> 'st tag option" where
  "sm_synchronized_exit e s = Some (s\<lparr>sync_count := 0\<rparr>)"

definition sm_updating_entry :: "'st env \<Rightarrow> 'st tag \<Rightarrow> 'st tag option" where
  "sm_updating_entry e s =
     Some (effect (K_work_cancel Timeout_work) (s\<lparr>esl_state := SM_UPDATING, sync_count := 0\<rparr>))"

definition sm_unsynchronized_entry :: "'st env \<Rightarrow> 'st tag \<Rightarrow> 'st tag option" where
  "sm_unsynchronized_entry e s =
     (let s1 = bt_esl_adv_start ESL_ADV_DEMO (s\<lparr>esl_state := SM_UNSYNCHRONIZED\<rparr>);
          s2 = basic_bit e (z_clear_bit (zep e)) ESL_SYNCHRONIZED s1
      in Some (if esl_sm_timeout_update_needed s2
               then effect (K_work_reschedule Timeout_work (unassociated_timeout (cfg e) * 1000))
                      (s2\<lparr>timeout_mode := ESL_UNASSOCIATED_TIMEOUT_MODE\<rparr>)
               else s2))"

text \<open>The state table; the exit actions not named above do nothing.\<close>

fun sm_entry :: "'st env \<Rightarrow> BT_ESL_STATE \<Rightarrow> 'st tag \<Rightarrow> 'st tag option" where
  "sm_entry e SM_UNASSOCIATED s = sm_unassociated_entry e s"
| "sm_entry e SM_CONFIGURING s = sm_configuring_entry e s"
| "sm_entry e SM_CONFIGURED s = sm_configured_entry e s"
| "sm_entry e SM_SYNCHRONIZED s = sm_synchronized_entry e s"
| "sm_entry e SM_UPDATING s = sm_updating_entry e s"
| "sm_entry e SM_UNSYNCHRONIZED s = sm_unsynchronized_entry e s"

fun sm_exit :: "'st env \<Rightarrow> BT_ESL_STATE \<Rightarrow> 'st tag \<Rightarrow> 'st tag option" where
  "sm_exit e SM_SYNCHRONIZED s = sm_synchronized_exit e s"
| "sm_exit e SM_UNASSOCIATED s = Some s"
| "sm_exit e SM_CONFIGURING s = Some s"
| "sm_exit e SM_CONFIGURED s = Some s"
| "sm_exit e SM_UPDATING s = Some s"
| "sm_exit e SM_UNSYNCHRONIZED s = Some s"

definition bt_esl_state_transition :: "'st env \<Rightarrow> BT_ESL_STATE \<Rightarrow> 'st tag \<Rightarrow> 'st tag option" where
  "bt_esl_state_transition e m s =
     z_smf_set_state (zep e) (sm_exit e) (sm_entry e) sm_cur (\<lambda>m s. s\<lparr>sm_cur := m\<rparr>) m s"

definition esl_is_configuring_state :: "'st env \<Rightarrow> 'st tag \<Rightarrow> (bool \<times> 'st tag) option" where
  "esl_is_configuring_state e s =
     (let configured =
        z_test_bit (zep e) (configuring_state s) ESL_ADDR_SET_BIT \<and>
        z_test_bit (zep e) (configuring_state s) ESL_AP_SYNC_KEY_SET_BIT \<and>
        z_test_bit (zep e) (configuring_state s) ESL_RESPONSE_KEY_SET_BIT \<and>
        z_test_bit (zep e) (configuring_state s) ESL_ABS_TIME_SET_BIT
      in if configured then do {
           t \<leftarrow> bt_esl_state_transition e SM_CONFIGURING (effect (Printk ''#CONFIGURED:1'') s);
           Some (True, t)
         } else Some (False, s))"

subsection \<open>Unassociation and factory reset\<close>

definition display_unassociated :: "'st env \<Rightarrow> 'st tag \<Rightarrow> 'st tag" where
  "display_unassociated e s =
     (if cb_display_unassociated (cbs e) then effect (Display_unassociated 0) s else s)"

definition display_associated :: "'st env \<Rightarrow> 'st tag \<Rightarrow> 'st tag" where
  "display_associated e s =
     (if cb_display_associated (cbs e) then effect (Display_associated 0) s else s)"

definition bt_esl_unassociate :: "'st env \<Rightarrow> 'st tag \<Rightarrow> 'st tag option" where
  "bt_esl_unassociate e s = do {
     let s1 = (if z_test_bit (zep e) (basic_state s) ESL_SYNCHRONIZED then esl_stop_sync_pawr s else s);
     let s2 = effect Bt_unpair_all (bt_esl_disconnect s1);
     let s3 = esl_settings_delete_provisioned_data e (esl_init_provisioned_data s2);
     s4 \<leftarrow> for_loop 0 (led_max (cfg e)) led_dwork_reset s3;
     bt_esl_state_transition e SM_UNASSOCIATED (display_unassociated e s4)
   }"

definition bt_esl_factory_reset :: "'st env \<Rightarrow> 'st tag \<Rightarrow> 'st tag option" where
  "bt_esl_factory_reset e s = do {
     s1 \<leftarrow> bt_esl_delete_images e s;
     (r, s2) \<leftarrow> ots_create_obj e s1;
     bt_esl_unassociate e s2
   }"

subsection \<open>Timeouts, connections and synchronisation events\<close>

definition esl_state_timeout_work_fn :: "'st env \<Rightarrow> 'st tag \<Rightarrow> 'st tag option" where
  "esl_state_timeout_work_fn e s =
     (case timeout_mode s of
        ESL_UNSYNCED_TIMEOUT_MODE \<Rightarrow> do {
          s1 \<leftarrow> bt_esl_state_transition e SM_UNSYNCHRONIZED (s\<lparr>esl_sm_timeout_update_needed := True\<rparr>);
          let s2 = esl_stop_sync_pawr s1;
          let s3 = s2\<lparr>sync_timeout_count := sync_timeout_count s2 + 1\<rparr>;
          Some (effect (Printk_num ''sync_timeout_count'' (sync_timeout_count s3)) s3)
        }
      | ESL_UNASSOCIATED_TIMEOUT_MODE \<Rightarrow> do {
          s1 \<leftarrow> bt_esl_unassociate e s;
          let s2 = s1\<lparr>acl_timeout_count := acl_timeout_count s1 + 1\<rparr>;
          Some (effect (Printk_num ''unasso_timeout_count'' (acl_timeout_count s2)) s2)
        })"

definition connected :: "'st env \<Rightarrow> nat \<Rightarrow> u8 \<Rightarrow> 'st tag \<Rightarrow> 'st tag option" where
  "connected e c err s =
     (if err \<noteq> 0 \<and> err \<noteq> BT_HCI_ERR_ADV_TIMEOUT then Some s
      else do {
        let s1 = (if err \<noteq> 0 then bt_esl_adv_start ESL_ADV_DEMO s else s);
        let s2 = effect (Printk ''Connected'') s1;
        let s3 = s2\<lparr>configuring_state :=
                   z_clear_bit (zep e) (configuring_state s2) ESL_UPDATE_COMPLETE_SET_BIT,
                   conn := Some c\<rparr>;
        let s4 = s3\<lparr>connect_from :=
                   (if z_test_bit (zep e) (basic_state s3) ESL_SYNCHRONIZED
                    then ACL_FROM_PAWR else ACL_FROM_SCAN)\<rparr>;
        (if led_indication (cfg e) then do {
           s5 \<leftarrow> led_dwork_reset (INDICATION_LED_IDX (cfg e)) s4;
           Some (effect (Led_control (of_nat (INDICATION_LED_IDX (cfg e))) 0 True) s5)
         } else Some s4)
      })"

text \<open>The body of \<open>do \<dots> while (0)\<close>: what a lost link does to the state machine.\<close>

definition link_lost :: "'st env \<Rightarrow> u8 \<Rightarrow> 'st tag \<Rightarrow> 'st tag option" where
  "link_lost e reason s =
     (if reason \<noteq> BT_HCI_ERR_LOCALHOST_TERM_CONN \<or> reason = BT_HCI_ERR_AUTH_FAIL then
        (if reason = BT_HCI_ERR_AUTH_FAIL \<and> z_test_bit (zep e) (basic_state s) ESL_SYNCHRONIZED
         then Some s
         else do {
           (configured, s1) \<leftarrow> esl_is_configuring_state e s;
           (if configured
            then bt_esl_state_transition e SM_UNSYNCHRONIZED (s1\<lparr>esl_sm_timeout_update_needed := False\<rparr>)
            else if esl_state s1 = SM_CONFIGURING \<or> esl_state s1 = SM_UNASSOCIATED
            then bt_esl_state_transition e SM_UNASSOCIATED s1
            else Some s1)
         })
      else Some s)"

definition disconnected :: "'st env \<Rightarrow> nat \<Rightarrow> u8 \<Rightarrow> 'st tag \<Rightarrow> 'st tag option" where
  "disconnected e c reason s = do {
     let s1 = (if demo_security (cfg e) then effect (Bt_unpair c) s else s);
     let s2 = effect (Printk_num ''#DISCONNECTED'' (ucast reason)) s1;
     let s3 = (if auth_conn s2 \<noteq> None then effect Bt_conn_unref (s2\<lparr>auth_conn := None\<rparr>) else s2);
     s4 \<leftarrow> link_lost e reason s3;
     let s5 = s4\<lparr>connect_from := ACL_NOT_CONNECTED\<rparr>;
     Some (if led_indication (cfg e)
           then effect (Led_control (of_nat (INDICATION_LED_IDX (cfg e))) 0 False) s5 else s5)
   }"

definition security_changed :: "'st env \<Rightarrow> int \<Rightarrow> 'st tag \<Rightarrow> 'st tag option" where
  "security_changed e err s =
     (if err = 0 \<and> (esl_state s = SM_UNSYNCHRONIZED \<or> esl_state s = SM_SYNCHRONIZED)
      then bt_esl_state_transition e SM_UPDATING s else Some s)"

definition sync_cb :: "'st env \<Rightarrow> nat \<Rightarrow> u8 \<Rightarrow> 'st tag \<Rightarrow> 'st tag option" where
  "sync_cb e sync rsd s = do {
     let s1 = s\<lparr>pawr_sync := Some sync, response_slot_delay := rsd\<rparr>;
     let s2 = effect (Sync_subevent sync [GROUPID_BYTE (esl_addr s)]) s1;
     (if esl_state s2 \<noteq> SM_SYNCHRONIZED then do {
        s3 \<leftarrow> bt_esl_state_transition e SM_SYNCHRONIZED (s2\<lparr>esl_sm_timeout_update_needed := True\<rparr>);
        Some (display_associated e s3)
      } else Some s2)
   }"

definition term_cb :: "'st env \<Rightarrow> 'st tag \<Rightarrow> 'st tag option" where
  "term_cb e s = do {
     let s1 = esl_stop_sync_pawr (effect (Printk ''#SYNC:0'') s);
     s2 \<leftarrow> bt_esl_state_transition e SM_UNSYNCHRONIZED (s1\<lparr>esl_sm_timeout_update_needed := True\<rparr>);
     Some (basic_bit e (z_clear_bit (zep e)) ESL_SYNCHRONIZED s2)
   }"

text \<open>Interval bounds and whether the advertising is directed, by mode.\<close>

definition adv_param :: "esl_adv_mode \<Rightarrow> u16 \<times> u16 \<times> bool" where
  "adv_param mode = (case mode of
     ESL_ADV_DEFAULT \<Rightarrow> (0x1F20, 0x1F60, False)
   | ESL_ADV_UNSYNCED \<Rightarrow> (BT_GAP_ADV_FAST_INT_MIN_2, BT_GAP_ADV_FAST_INT_MAX_2, True)
   | _ \<Rightarrow> (720, 800, False))"

text \<open>Write the first byte of the pattern and the other parameters of the indication LED.\<close>

definition indication_led ::
  "'st env \<Rightarrow> u8 \<Rightarrow> u8 \<Rightarrow> u8 \<Rightarrow> u8 \<Rightarrow> u16 \<Rightarrow> 'st tag \<Rightarrow> 'st tag option" where
  "indication_led e pat off on rt dur s = do {
     let i = INDICATION_LED_IDX (cfg e);
     lo \<leftarrow> rd (led_objs s) i;
     fp \<leftarrow> upd (flash_pattern lo) 0 pat;
     los \<leftarrow> upd (led_objs s) i (lo\<lparr>color_brightness := 0, flash_pattern := fp, bit_off_period := off,
        bit_on_period := on, repeat_type := rt, repeat_duration := dur\<rparr>);
     s1 \<leftarrow> led_dwork_upd i (\<lambda>d. d\<lparr>pattern_idx := ESL_LED_FLASH_PATTERN_START_BIT_IDX\<rparr>) (s\<lparr>led_objs := los\<rparr>);
     Some (effect (K_work_schedule (Led_work i) 0) s1)
   }"

definition esl_advertising_fn :: "'st env \<Rightarrow> 'st tag \<Rightarrow> 'st tag option" where
  "esl_advertising_fn e s = do {
     let (imin, imax, directed) = adv_param (adv_mode s);
     s1 \<leftarrow> (if led_indication (cfg e)
           then indication_led e 0x5a (max 0xff (ucast (imax AND 0xff))) 100 1 (120 * 60) s
           else Some s);
     Some (effect (Bt_le_adv_start imin imax directed) s1)
   }"

subsection \<open>Well-formedness\<close>

lemma wf_init_provisioned [simp]: "wf_tag e s \<Longrightarrow> wf_tag e (esl_init_provisioned_data s)"
  by (simp add: wf_tag_def esl_init_provisioned_data_def)

lemma wf_sm_simps [simp]:
  "wf_tag e (bt_esl_adv_start m s) = wf_tag e s" "wf_tag e (bt_esl_disconnect s) = wf_tag e s"
  "wf_tag e (esl_create_pawr_sync e' s) = wf_tag e s" "wf_tag e (esl_stop_sync_pawr s) = wf_tag e s"
  "wf_tag e (display_unassociated e' s) = wf_tag e s" "wf_tag e (display_associated e' s) = wf_tag e s"
  by (simp_all add: bt_esl_adv_start_def bt_esl_disconnect_def esl_create_pawr_sync_def
      esl_stop_sync_pawr_def display_unassociated_def display_associated_def)

lemma indication_in_range: "cfg_ok c \<Longrightarrow> led_indication c \<Longrightarrow> INDICATION_LED_IDX c < led_max c"
  by (auto simp: cfg_ok_def INDICATION_LED_IDX_def)

lemma wf_adv_stop:
  "cfg_ok (cfg e) \<Longrightarrow> wf_tag e s \<Longrightarrow> yields (bt_esl_adv_stop e s) (wf_tag e)"
  by (simp add: bt_esl_adv_stop_def Let_def wf_led_dwork_reset indication_in_range)

lemma wf_sm_entry:
  "cfg_ok (cfg e) \<Longrightarrow> wf_tag e s \<Longrightarrow> yields (sm_entry e m s) (wf_tag e)"
  by (cases m) (simp_all add: sm_unassociated_entry_def sm_configuring_entry_def sm_configured_entry_def
      sm_synchronized_entry_def sm_updating_entry_def sm_unsynchronized_entry_def wp
      yields_mono [OF wf_adv_stop] Let_def)

lemma transition_eq:
  "zephyr_ok (zep e) \<Longrightarrow>
     bt_esl_state_transition e m s = Option.bind (sm_exit e (sm_cur s) s) (\<lambda>t. sm_entry e m (t\<lparr>sm_cur := m\<rparr>))"
  by (simp add: bt_esl_state_transition_def platform)

lemma wf_transition:
  "env_ok e \<Longrightarrow> wf_tag e s \<Longrightarrow> yields (bt_esl_state_transition e m s) (wf_tag e)"
  by (cases "sm_cur s")
    (simp_all add: transition_eq env_ok_def sm_synchronized_exit_def wp wf_sm_entry)

lemma wf_is_configuring:
  "env_ok e \<Longrightarrow> wf_tag e s \<Longrightarrow> yields (esl_is_configuring_state e s) (\<lambda>(b, t). wf_tag e t)"
  by (simp add: esl_is_configuring_state_def Let_def wp wf_transition)

lemma wf_unassociate: "env_ok e \<Longrightarrow> wf_tag e s \<Longrightarrow> yields (bt_esl_unassociate e s) (wf_tag e)"
  unfolding bt_esl_unassociate_def Let_def yields_bind
  by (rule yields_mono [OF for_loop_pres [of _ "wf_tag e"]])
    (simp_all add: wf_led_dwork_reset wf_transition)

lemma wf_factory_reset: "env_ok e \<Longrightarrow> wf_tag e s \<Longrightarrow> yields (bt_esl_factory_reset e s) (wf_tag e)"
  unfolding bt_esl_factory_reset_def yields_bind
  by (rule yields_mono [OF wf_delete_images])
    (auto simp: case_prod_unfold env_zep intro!: yields_mono [OF wf_ots_create_obj] wf_unassociate)

lemma wf_timeout_work:
  "env_ok e \<Longrightarrow> wf_tag e s \<Longrightarrow> yields (esl_state_timeout_work_fn e s) (wf_tag e)"
  unfolding esl_state_timeout_work_fn_def Let_def
  by (auto simp: wp split: esl_timeout_mode.split
      intro!: yields_mono [OF wf_transition] yields_mono [OF wf_unassociate])

lemma wf_connected: "env_ok e \<Longrightarrow> wf_tag e s \<Longrightarrow> yields (connected e c err s) (wf_tag e)"
  unfolding connected_def Let_def
  by (auto simp: wp env_ok_def indication_in_range intro!: yields_mono [OF wf_led_dwork_reset])

lemma wf_link_lost: "env_ok e \<Longrightarrow> wf_tag e s \<Longrightarrow> yields (link_lost e reason s) (wf_tag e)"
  unfolding link_lost_def
  by (auto simp: wp intro!: yields_mono [OF wf_is_configuring] wf_transition)

lemma wf_disconnected: "env_ok e \<Longrightarrow> wf_tag e s \<Longrightarrow> yields (disconnected e c reason s) (wf_tag e)"
  unfolding disconnected_def Let_def
  by (auto simp: wp intro!: yields_mono [OF wf_link_lost])

lemma wf_security_changed:
  "env_ok e \<Longrightarrow> wf_tag e s \<Longrightarrow> yields (security_changed e err s) (wf_tag e)"
  by (simp add: security_changed_def wf_transition)

lemma wf_sync_cb: "env_ok e \<Longrightarrow> wf_tag e s \<Longrightarrow> yields (sync_cb e c d s) (wf_tag e)"
  unfolding sync_cb_def Let_def
  by (auto simp: wp intro!: yields_mono [OF wf_transition])

lemma wf_term_cb: "env_ok e \<Longrightarrow> wf_tag e s \<Longrightarrow> yields (term_cb e s) (wf_tag e)"
  unfolding term_cb_def Let_def
  by (auto simp: wp intro!: yields_mono [OF wf_transition])

lemma wf_indication_led:
  assumes "cfg_ok (cfg e)" "led_indication (cfg e)" "wf_tag e s"
  shows "yields (indication_led e pat off on rt dur s) (wf_tag e)"
proof -
  let ?i = "INDICATION_LED_IDX (cfg e)"
  have i: "?i < led_max (cfg e)" using assms by (simp add: indication_in_range)
  have ok: "wf_tag e (s\<lparr>led_objs := (led_objs s)[?i := l]\<rparr>)" if "length (flash_pattern l) = 5" for l
    using assms(3) that by (simp add: wf_led_obj_update led_obj_ok_def)
  show ?thesis
    using i wf_led_objs [OF assms(3)] wf_led_dworks [OF assms(3)] wf_led_idx [OF assms(3) i]
      wf_led_update [OF ok i, where d = "(led_dworks s ! ?i)\<lparr>pattern_idx := 40\<rparr>"]
    by (simp add: indication_led_def wp Let_def)
qed

lemma wf_advertising_fn: "env_ok e \<Longrightarrow> wf_tag e s \<Longrightarrow> yields (esl_advertising_fn e s) (wf_tag e)"
  by (auto simp: esl_advertising_fn_def wp case_prod_unfold Let_def env_ok_def
      intro!: yields_mono [OF wf_indication_led])

subsection \<open>What a transition leaves alone\<close>

text \<open>
  The provisioned data, and the state variables of the machine: a transition keeps the former
  and moves both copies of the latter.
\<close>

definition prov :: "'st tag \<Rightarrow> u16 \<times> bt_esl_key_material \<times> bt_esl_key_material \<times> u8 list \<times> settings \<times> u32" where
  "prov s = (esl_addr s, esl_ap_key s, esl_rsp_key s, esl_randomizer s, settings_store s, configuring_state s)"

lemma prov_simps [simp]:
  "prov (effect x s) = prov s" "prov (bt_esl_disconnect s) = prov s" "prov (esl_stop_sync_pawr s) = prov s"
  "prov (bt_esl_adv_start am s) = prov s" "prov (esl_create_pawr_sync e s) = prov s"
  "prov (basic_bit e f b s) = prov s" "prov (display_unassociated e s) = prov s"
  "prov (display_associated e s) = prov s"
  "prov (s\<lparr>led_dworks := l\<rparr>) = prov s" "prov (s\<lparr>led_objs := lo\<rparr>) = prov s"
  "prov (s\<lparr>esl_state := m\<rparr>) = prov s" "prov (s\<lparr>sm_cur := m\<rparr>) = prov s"
  "prov (s\<lparr>sync_count := c\<rparr>) = prov s" "prov (s\<lparr>timeout_mode := tm\<rparr>) = prov s"
  "prov (s\<lparr>connect_from := cf\<rparr>) = prov s" "prov (s\<lparr>esl_sm_timeout_update_needed := tn\<rparr>) = prov s"
  "prov (s\<lparr>auth_conn := ac\<rparr>) = prov s" "prov (s\<lparr>pawr_sync := ps\<rparr>) = prov s"
  "prov (s\<lparr>response_slot_delay := rsd\<rparr>) = prov s" "prov (s\<lparr>display_works := dw\<rparr>) = prov s"
  "prov (s\<lparr>basic_state := bs\<rparr>) = prov s"
  by (simp_all add: prov_def effect_def bt_esl_disconnect_def esl_stop_sync_pawr_def bt_esl_adv_start_def
      esl_create_pawr_sync_def basic_bit_def display_unassociated_def display_associated_def)

text \<open>The two copies of the state of the machine.\<close>

definition sm_state :: "'st tag \<Rightarrow> BT_ESL_STATE \<times> BT_ESL_STATE" where
  "sm_state s = (esl_state s, sm_cur s)"

lemma sm_state_simps [simp]:
  "sm_state (effect x s) = sm_state s" "sm_state (bt_esl_disconnect s) = sm_state s"
  "sm_state (esl_stop_sync_pawr s) = sm_state s" "sm_state (bt_esl_adv_start am s) = sm_state s"
  "sm_state (esl_create_pawr_sync e s) = sm_state s" "sm_state (basic_bit e f b s) = sm_state s"
  "sm_state (display_unassociated e s) = sm_state s" "sm_state (display_associated e s) = sm_state s"
  "sm_state (s\<lparr>led_dworks := l\<rparr>) = sm_state s" "sm_state (s\<lparr>timeout_mode := tm\<rparr>) = sm_state s"
  "sm_state (s\<lparr>sync_count := c\<rparr>) = sm_state s" "sm_state (s\<lparr>connect_from := cf\<rparr>) = sm_state s"
  "sm_state (s\<lparr>esl_sm_timeout_update_needed := tn\<rparr>) = sm_state s"
  "sm_state (s\<lparr>esl_state := m\<rparr>) = (m, sm_cur s)" "sm_state (s\<lparr>sm_cur := m\<rparr>) = (esl_state s, m)"
  by (simp_all add: sm_state_def effect_def bt_esl_disconnect_def esl_stop_sync_pawr_def bt_esl_adv_start_def
      esl_create_pawr_sync_def basic_bit_def display_unassociated_def display_associated_def)

lemma led_dwork_reset_frame:
  "led_dwork_reset i s = Some t \<Longrightarrow> prov t = prov s \<and> sm_state t = sm_state s \<and> basic_state t = basic_state s"
  by (auto simp: led_dwork_reset_def led_dwork_upd_def bind_eq_Some_conv)

lemma adv_stop_frame:
  "bt_esl_adv_stop e s = Some t \<Longrightarrow> prov t = prov s \<and> sm_state t = sm_state s \<and> basic_state t = basic_state s"
  by (auto simp: bt_esl_adv_stop_def Let_def dest: led_dwork_reset_frame split: if_splits)

lemma sm_entry_frame:
  assumes "sm_entry e m s = Some t"
  shows "prov t = prov s \<and> sm_state t = (m, sm_cur s)"
proof (cases m)
  case SM_SYNCHRONIZED
  with assms obtain u where u: "bt_esl_adv_stop e (bt_esl_disconnect (basic_bit e (z_set_bit (zep e))
      ESL_SYNCHRONIZED (effect (Printk ''#SYNC:1'') (s\<lparr>esl_state := SM_SYNCHRONIZED\<rparr>)))) = Some u"
    and t: "t = (if esl_sm_timeout_update_needed u
           then effect (K_work_reschedule Timeout_work (unsynchronized_timeout (cfg e) * 1000))
                  (u\<lparr>timeout_mode := ESL_UNSYNCED_TIMEOUT_MODE\<rparr>)
           else u)"
    by (auto simp: sm_synchronized_entry_def Let_def bind_eq_Some_conv)
  from adv_stop_frame [OF u] show ?thesis by (simp add: t SM_SYNCHRONIZED)
qed (use assms in \<open>auto simp: sm_unassociated_entry_def sm_configuring_entry_def sm_configured_entry_def
       sm_updating_entry_def sm_unsynchronized_entry_def Let_def split: if_splits\<close>)

lemma transition_frame:
  assumes "zephyr_ok (zep e)" "bt_esl_state_transition e m s = Some t"
  shows "prov t = prov s" "sm_state t = (m, m)" "esl_state t = m" "sm_cur t = m"
proof -
  have "prov t = prov s \<and> sm_state t = (m, m)"
    using assms(2)
    by (cases "sm_cur s")
      (auto simp: transition_eq [OF assms(1)] sm_synchronized_exit_def bind_eq_Some_conv
        dest: sm_entry_frame)
  then show "prov t = prov s" "sm_state t = (m, m)" "esl_state t = m" "sm_cur t = m"
    by (simp_all add: sm_state_def)
qed

text \<open>
  The fields of the control point and of the clock, which nothing in this theory writes: neither
  transitions nor unassociation nor factory reset.
\<close>

definition ecp_part :: "'st tag \<Rightarrow> (esl_ecp_resp \<times> esl_ecp_command_src \<times> notify_func \<times> u8 list \<times> u16) \<times>
    (u8 list \<times> u8 \<times> bool \<times> u64 \<times> esl_sensor_data list) \<times> (u16 \<times> u8 \<times> u8 list \<times> bool)" where
  "ecp_part s = ((resp s, ecp_src s, ecp_notify_func s, ecp_net_buf s, ecp_net_buf_len s),
     (ecp_rsp_net_buf s, ecp_rsp_last_tlv_len s, esl_ecp_resp_needed s, abs_time_anchor s, sensor_data s),
     (pawr_event_counter s, pawr_subevent s, pawr_buf s, busy s))"

lemma ctl_update [simp]:
  "ecp_part (effect x s) = ecp_part s" "ecp_part (basic_bit e f b s) = ecp_part s" "ecp_part (s\<lparr>led_dworks := l\<rparr>) = ecp_part s"
  "ecp_part (s\<lparr>esl_state := m\<rparr>) = ecp_part s" "ecp_part (s\<lparr>sm_cur := m\<rparr>) = ecp_part s" "ecp_part (s\<lparr>sync_count := c\<rparr>) = ecp_part s"
  "ecp_part (s\<lparr>timeout_mode := tm\<rparr>) = ecp_part s" "ecp_part (s\<lparr>esl_sm_timeout_update_needed := tn\<rparr>) = ecp_part s"
  "ecp_part (s\<lparr>storage := st\<rparr>) = ecp_part s" "ecp_part (s\<lparr>stored_image_size := sz\<rparr>) = ecp_part s"
  "ecp_part (s\<lparr>obj_cnt := oc\<rparr>) = ecp_part s" "ecp_part (s\<lparr>img_object_names := ns\<rparr>) = ecp_part s"
  "ecp_part (s\<lparr>object_being_created := ob\<rparr>) = ecp_part s" "ecp_part (s\<lparr>configuring_state := cs\<rparr>) = ecp_part s"
  "ecp_part (s\<lparr>settings_store := ss\<rparr>) = ecp_part s" "ecp_part (s\<lparr>basic_state := bs\<rparr>) = ecp_part s"
  by (simp_all add: ecp_part_def effect_def basic_bit_def)

lemma ctl_simps [simp]:
  "ecp_part (bt_esl_disconnect s) = ecp_part s" "ecp_part (esl_stop_sync_pawr s) = ecp_part s"
  "ecp_part (bt_esl_adv_start am s) = ecp_part s" "ecp_part (esl_create_pawr_sync e s) = ecp_part s"
  "ecp_part (display_unassociated e s) = ecp_part s" "ecp_part (display_associated e s) = ecp_part s"
  "ecp_part (delete_one e n b s) = ecp_part s" "ecp_part (esl_init_provisioned_data s) = ecp_part s"
  "ecp_part (esl_settings_delete_provisioned_data e s) = ecp_part s"
  by (simp_all add: ecp_part_def effect_def bt_esl_disconnect_def esl_stop_sync_pawr_def bt_esl_adv_start_def
      esl_create_pawr_sync_def display_unassociated_def display_associated_def delete_one_def
      esl_init_provisioned_data_def esl_settings_delete_provisioned_data_def Let_def)

lemma for_loop_frame:
  "(\<And>j t u. f j t = Some u \<Longrightarrow> g u = g t) \<Longrightarrow> for_loop i n f s = Some t \<Longrightarrow> g t = g s"
  by (induction n arbitrary: i s) (auto simp: bind_eq_Some_conv)

lemma led_dwork_reset_ecp_part: "led_dwork_reset i s = Some t \<Longrightarrow> ecp_part t = ecp_part s"
  by (auto simp: led_dwork_reset_def led_dwork_upd_def bind_eq_Some_conv)

lemma led_resets_ecp_part: "for_loop i n led_dwork_reset s = Some t \<Longrightarrow> ecp_part t = ecp_part s"
  by (rule for_loop_frame [where g = ecp_part]) (rule led_dwork_reset_ecp_part)

lemma adv_stop_ecp_part: "bt_esl_adv_stop e s = Some t \<Longrightarrow> ecp_part t = ecp_part s"
  by (auto simp: bt_esl_adv_stop_def Let_def dest: led_dwork_reset_ecp_part split: if_splits)

lemma sm_entry_ecp_part: "sm_entry e m s = Some t \<Longrightarrow> ecp_part t = ecp_part s"
  by (cases m) (auto simp: sm_unassociated_entry_def sm_configuring_entry_def sm_configured_entry_def
      sm_synchronized_entry_def sm_updating_entry_def sm_unsynchronized_entry_def Let_def
      bind_eq_Some_conv dest: adv_stop_ecp_part split: if_splits)

lemma transition_ecp_part:
  "zephyr_ok (zep e) \<Longrightarrow> bt_esl_state_transition e m s = Some t \<Longrightarrow> ecp_part t = ecp_part s"
  by (cases "sm_cur s")
    (auto simp: transition_eq sm_synchronized_exit_def bind_eq_Some_conv dest: sm_entry_ecp_part)

lemma is_configuring_ecp_part:
  "zephyr_ok (zep e) \<Longrightarrow> esl_is_configuring_state e s = Some (b, t) \<Longrightarrow> ecp_part t = ecp_part s"
  by (auto simp: esl_is_configuring_state_def Let_def bind_eq_Some_conv
      dest: transition_ecp_part split: if_splits)

lemma unassociate_ecp_part:
  assumes "zephyr_ok (zep e)" "bt_esl_unassociate e s = Some t"
  shows "ecp_part t = ecp_part s"
  using assms(2)
  by (auto simp: bt_esl_unassociate_def Let_def bind_eq_Some_conv
      dest!: transition_ecp_part [OF assms(1)] led_resets_ecp_part
      split: if_splits)

lemma ots_create_from_ecp_part:
  "zephyr_ok (zep e) \<Longrightarrow> ots_create_from i n e s = Some (r, t) \<Longrightarrow> ecp_part t = ecp_part s"
proof (induction n arbitrary: i s)
  case (Suc n)
  have cb: "obj_created_cb e a oid u = Some (r', v) \<Longrightarrow> ecp_part v = ecp_part u" for a oid u r' v
    by (auto simp: obj_created_cb_def ots_obj_created_def bind_eq_Some_conv
        split: if_splits option.splits)
  have add: "z_ots_obj_add (zep e) (obj_created_cb e a) u = Some (r', v) \<Longrightarrow> ecp_part v = ecp_part u" for a u r' v
    by (rule z_ots_obj_add_cases [OF Suc.prems(1), of "obj_created_cb e a" u]) (auto dest: cb)
  from Suc.prems(2) show ?case
    by (auto simp: bind_eq_Some_conv Let_def dest!: add Suc.IH [OF Suc.prems(1)] split: if_splits)
qed simp

lemma factory_reset_ecp_part:
  assumes "zephyr_ok (zep e)" "bt_esl_factory_reset e s = Some t"
  shows "ecp_part t = ecp_part s"
proof -
  have del: "bt_esl_delete_images e s = Some u \<Longrightarrow> ecp_part u = ecp_part s" for u
    by (auto simp: bt_esl_delete_images_def split: option.splits
        dest!: for_loop_frame [where g = ecp_part, rotated] simp: bind_eq_Some_conv)
  show ?thesis
    using assms(2)
    by (auto simp: bt_esl_factory_reset_def ots_create_obj_def bind_eq_Some_conv
        dest!: del ots_create_from_ecp_part [OF assms(1)] unassociate_ecp_part [OF assms(1)])
qed

end
