(* ===== verification/Esl_Ecp.thy ===== *)
theory Esl_Ecp
  imports Esl_Sm
begin

unbundle bit_operations_syntax

text \<open>
  The ESL Control Point of \<open>service/esl.c\<close>: \<open>ecp_command_handler\<close>, with one definition for every
  case of its switch, and \<open>ecp_response_handler\<close>. Commands come from GATT writes or from the TLVs of
  a PAwR packet; a response is notified in the first case and collected in \<open>ecp_rsp_net_buf\<close> in the
  second. \<open>in_now\<close> is the uptime all of one command's calls of \<open>esl_get_abs_time\<close> read.
\<close>

subsection \<open>Responses\<close>

definition resp_err :: "u8 \<Rightarrow> 'st tag \<Rightarrow> 'st tag" where
  "resp_err c s = s\<lparr>resp := (resp s)\<lparr>resp_op := OP_ERR, error_code := c\<rparr>\<rparr>"

definition resp_basic :: "'st tag \<Rightarrow> 'st tag" where
  "resp_basic s = s\<lparr>resp := (resp s)\<lparr>resp_op := OP_BASIC_STATE\<rparr>\<rparr>"

definition resp_led :: "u8 \<Rightarrow> 'st tag \<Rightarrow> 'st tag" where
  "resp_led i s = s\<lparr>resp := (resp s)\<lparr>resp_op := OP_LED_STATE, resp_idx := i\<rparr>\<rparr>"

definition resp_display :: "u8 \<Rightarrow> u8 \<Rightarrow> 'st tag \<Rightarrow> 'st tag" where
  "resp_display i img s =
     s\<lparr>resp := (resp s)\<lparr>resp_op := OP_DISPLAY_STATE, resp_idx := i, resp_img_idx := img\<rparr>\<rparr>"

definition check_ecp_esl_id :: "u8 \<Rightarrow> 'st tag \<Rightarrow> int \<times> 'st tag" where
  "check_ecp_esl_id esl_id s =
     (if esl_id \<noteq> LOW_BYTE (esl_addr s) \<and> esl_id \<noteq> ESL_ADDR_BROADCAST
      then (- EINVAL, resp_err ERR_INV_PARAMS s)
      else if busy s then (0, (resp_err ERR_RETRY s)\<lparr>busy := False\<rparr>)
      else (0, s))"

subsection \<open>The cases of the command handler\<close>

definition ecp_unassociate :: "'st env \<Rightarrow> u8 \<Rightarrow> 'st tag \<Rightarrow> 'st tag option" where
  "ecp_unassociate e esl_id s =
     (if esl_id \<noteq> ESL_ADDR_BROADCAST
      then Some ((resp_basic (basic_bit e (z_clear_bit (zep e)) ESL_SYNCHRONIZED s))
             \<lparr>ecp_notify_func := Ecp_notify_unassociated_cb\<rparr>)
      else Some (resp_err ERR_RETRY s))"

definition ecp_service_reset :: "'st env \<Rightarrow> 'st tag \<Rightarrow> 'st tag option" where
  "ecp_service_reset e s = Some (resp_basic (basic_bit e (z_clear_bit (zep e)) ESL_SERVICE_NEEDED_BIT s))"

definition ecp_factory_reset :: "'st env \<Rightarrow> u8 \<Rightarrow> 'st tag \<Rightarrow> 'st tag option" where
  "ecp_factory_reset e esl_id s =
     (if esl_state s = SM_SYNCHRONIZED then Some (resp_err ERR_INV_STATE s)
      else if esl_id = ESL_ADDR_BROADCAST then Some (resp_err ERR_RETRY s)
      else do {
        s1 \<leftarrow> bt_esl_factory_reset e s;
        Some (s1\<lparr>esl_ecp_resp_needed := False\<rparr>)
      })"

definition ecp_update_complete :: "'st env \<Rightarrow> 'st tag \<Rightarrow> 'st tag option" where
  "ecp_update_complete e s =
     (let s1 = s\<lparr>configuring_state :=
                  z_set_bit (zep e) (configuring_state s) ESL_UPDATE_COMPLETE_SET_BIT\<rparr>;
          s2 = effect (Printk ''#UPDATE_COMPLETE:1'') s1
      in if esl_state s2 = SM_UPDATING \<and> z_test_bit (zep e) (basic_state s2) ESL_SYNCHRONIZED
         then bt_esl_state_transition e SM_SYNCHRONIZED
                ((effect (Printk ''enter sync'') s2)\<lparr>esl_sm_timeout_update_needed := True\<rparr>)
         else do {
           (configured, s3) \<leftarrow> esl_is_configuring_state e s2;
           (if configured
            then bt_esl_state_transition e SM_CONFIGURED (effect (Printk ''enter configured'') s3)
            else Some s3)
         })"

definition ecp_read_sensor :: "'st env \<Rightarrow> 'st tag \<Rightarrow> 'st tag option" where
  "ecp_read_sensor e s = do {
     sensor_idx \<leftarrow> rd (ecp_net_buf s) ESL_OP_READ_SENSOR_IDX;
     Some (if sensor_max (cfg e) = 0 then resp_err ERR_INV_OPCODE s
           else if sensor_max (cfg e) \<le> unat sensor_idx then resp_err ERR_INV_PARAMS s
           else s\<lparr>resp := (resp s)\<lparr>resp_op := OP_SENSOR_VALUE_STATE_MASK, resp_idx := sensor_idx\<rparr>\<rparr>)
   }"

definition ecp_refresh_display :: "'st env \<Rightarrow> 'st tag \<Rightarrow> 'st tag option" where
  "ecp_refresh_display e s = do {
     display \<leftarrow> rd (ecp_net_buf s) ESL_OP_REFRESH_DISPLAY_IDX;
     (if display_max (cfg e) = 0 then Some (resp_err ERR_INV_OPCODE s)
      else if display_max (cfg e) \<le> unat display then Some (resp_err ERR_INV_PARAMS s)
      else do {
        d \<leftarrow> rd (display_works s) (unat display);
        Some (if unat (disp_img_idx d) = image_max (cfg e) then resp_err ERR_INV_IMG_IDX s
              else effect (K_work_reschedule (Display_work (unat display)) 0)
                     (resp_display display (disp_img_idx d) s))
      })
   }"

text \<open>The image checks of \<open>OP_DISPLAY_IMAGE\<close> and \<open>OP_DISPLAY_TIMED_IMAGE\<close>: \<open>Some c\<close> rejects with \<open>c\<close>.\<close>

definition display_checks :: "'st env \<Rightarrow> u8 \<Rightarrow> u8 \<Rightarrow> 'st tag \<Rightarrow> u8 option option" where
  "display_checks e display img s =
     (if display_max (cfg e) = 0 then Some (Some ERR_INV_OPCODE)
      else if display_max (cfg e) \<le> unat display then Some (Some ERR_INV_PARAMS)
      else if max_image_index s < img then Some (Some ERR_INV_PARAMS)
      else do {
        sz \<leftarrow> rd (stored_image_size s) (unat img);
        Some (if sz = 0 \<and> \<not> simulate_display (cfg e) then Some ERR_IMG_NOT_AVAIL else None)
      })"

definition ecp_display_image :: "'st env \<Rightarrow> 'st tag \<Rightarrow> 'st tag option" where
  "ecp_display_image e s = do {
     display \<leftarrow> rd (ecp_net_buf s) ESL_OP_DISPLAY_IDX;
     img \<leftarrow> rd (ecp_net_buf s) ESL_OP_DISPLAY_IMAGE_IDX;
     reject \<leftarrow> display_checks e display img s;
     (case reject of
        Some c \<Rightarrow> Some (resp_err c s)
      | None \<Rightarrow> do {
          s1 \<leftarrow> display_work_upd (unat display) (\<lambda>d. d\<lparr>disp_img_idx := img\<rparr>) (resp_display display img s);
          Some (effect (K_work_reschedule (Display_work (unat display)) 0) s1)
        })
   }"

definition ecp_display_timed :: "'st env \<Rightarrow> inp \<Rightarrow> 'st tag \<Rightarrow> 'st tag option" where
  "ecp_display_timed e x s = do {
     display \<leftarrow> rd (ecp_net_buf s) ESL_OP_DISPLAY_IDX;
     img \<leftarrow> rd (ecp_net_buf s) ESL_OP_DISPLAY_IMAGE_IDX;
     t \<leftarrow> rd_mem (ecp_net_buf s) ESL_OP_DISPLAY_TIMED_ABS_TIME_IDX 4;
     let new_abs_time = z_get_le32 (zep e) t;
     let offset_time = new_abs_time - esl_get_abs_time (in_now x) s;
     let i = unat display;
     reject \<leftarrow> display_checks e display img s;
     (case reject of
        Some c \<Rightarrow> Some (resp_err c s)
      | None \<Rightarrow>
        if new_abs_time = 0 then do {
          s1 \<leftarrow> display_dwork_reset e i (resp_display display img s);
          bt_esl_basic_state_update e s1
        }
        else if ESL_TIMED_ABS_MAX \<le> offset_time then Some (resp_err ERR_IMPLAUSIBLE_ABS s)
        else do {
          d \<leftarrow> rd (display_works s) i;
          (if disp_start_abs_time d = 0 \<or> disp_start_abs_time d = new_abs_time then do {
             s1 \<leftarrow> display_dwork_reset e i (resp_display display img s);
             s2 \<leftarrow> display_work_upd i
                     (\<lambda>d. d\<lparr>disp_img_idx := img, disp_start_abs_time := new_abs_time\<rparr>) s1;
             let s3 = effect (K_work_reschedule (Display_work i) (unat offset_time)) s2;
             Some (basic_bit e (z_set_bit (zep e)) ESL_PENDING_DISPLAY_UPDATE s3)
           } else Some (resp_err ERR_QUEUE_FULL s))
        })
   }"

text \<open>Store colour, pattern, periods and repeat field of an LED command.\<close>

definition ecp_store_led :: "nat \<Rightarrow> u8 \<Rightarrow> 'st tag \<Rightarrow> 'st tag option" where
  "ecp_store_led i color s = do {
     lo \<leftarrow> rd (led_objs s) i;
     fp \<leftarrow> rd_mem (ecp_net_buf s) ESL_OP_LED_CONTROL_FLASHING_PATTERN ESL_LED_FLASH_PATTERN_LEN;
     off \<leftarrow> rd (ecp_net_buf s) ESL_OP_LED_CONTROL_BIT_OFF_PERIOD;
     on \<leftarrow> rd (ecp_net_buf s) ESL_OP_LED_CONTROL_BIT_ON_PERIOD;
     r0 \<leftarrow> rd (ecp_net_buf s) ESL_OP_LED_CONTROL_REPEAT_TYPE;
     r1 \<leftarrow> rd (ecp_net_buf s) (ESL_OP_LED_CONTROL_REPEAT_TYPE + 1);
     let (rt, dur) = unpack_repeat_type_duration r0 r1;
     los \<leftarrow> upd (led_objs s) i (lo\<lparr>color_brightness := color, flash_pattern := fp, bit_off_period := off,
        bit_on_period := on, repeat_type := rt, repeat_duration := dur\<rparr>);
     ty \<leftarrow> rd (led_type s) i;
     tys \<leftarrow> upd (led_type s) i (esl_led_check_and_set_color ty color);
     Some (s\<lparr>led_objs := los, led_type := tys\<rparr>)
   }"

definition ecp_led_control :: "'st env \<Rightarrow> 'st tag \<Rightarrow> 'st tag option" where
  "ecp_led_control e s = do {
     led \<leftarrow> rd (ecp_net_buf s) ESL_OP_LED_CONTROL_LED_IDX;
     color \<leftarrow> rd (ecp_net_buf s) ESL_OP_LED_CONTROL_LED_COLOR_IDX;
     let i = unat led;
     (if led_max (cfg e) = 0 then Some (resp_err ERR_INV_OPCODE s)
      else if led_max (cfg e) \<le> i then Some (resp_err ERR_INV_PARAMS s)
      else do {
        s1 \<leftarrow> ecp_store_led i color s;
        s2 \<leftarrow> led_dwork_upd i (\<lambda>d. d\<lparr>pattern_idx := ESL_LED_FLASH_PATTERN_START_BIT_IDX\<rparr>) (resp_led led s1);
        s3 \<leftarrow> led_dwork_reset i s2;
        Some (effect (K_work_schedule (Led_work i) 0) s3)
      })
   }"

definition ecp_led_timed :: "'st env \<Rightarrow> inp \<Rightarrow> 'st tag \<Rightarrow> 'st tag option" where
  "ecp_led_timed e x s = do {
     led \<leftarrow> rd (ecp_net_buf s) ESL_OP_LED_CONTROL_LED_IDX;
     color \<leftarrow> rd (ecp_net_buf s) ESL_OP_LED_CONTROL_LED_COLOR_IDX;
     let i = unat led;
     (if led_max (cfg e) = 0 then Some (resp_err ERR_INV_OPCODE s)
      else if led_max (cfg e) \<le> i then Some (resp_err ERR_INV_PARAMS s)
      else do {
        t \<leftarrow> rd_mem (ecp_net_buf s) ESL_OP_LED_TIMED_ABS_TIME_IDX 4;
        let new_abs_time = z_get_le32 (zep e) t;
        let offset_time = new_abs_time - esl_get_abs_time (in_now x) s;
        (if new_abs_time = 0 then do {
           s1 \<leftarrow> led_dwork_reset i s;
           bt_esl_basic_state_update e (resp_led led s1)
         }
         else if ESL_TIMED_ABS_MAX \<le> offset_time then Some (resp_err ERR_IMPLAUSIBLE_ABS s)
         else do {
           d \<leftarrow> rd (led_dworks s) i;
           (if start_abs_time d = 0 \<or> start_abs_time d = new_abs_time then do {
              s1 \<leftarrow> led_dwork_reset i s;
              s2 \<leftarrow> led_dwork_upd i (\<lambda>d. d\<lparr>start_abs_time := new_abs_time,
                     pattern_idx := ESL_LED_FLASH_PATTERN_START_BIT_IDX\<rparr>) s1;
              s3 \<leftarrow> bt_esl_basic_state_update e (resp_led led s2);
              s4 \<leftarrow> ecp_store_led i color s3;
              Some (effect (K_work_schedule (Led_work i) (unat offset_time)) s4)
            } else Some (resp_err ERR_QUEUE_FULL s))
         })
      })
   }"

definition ecp_default :: "'st env \<Rightarrow> u8 \<Rightarrow> 'st tag \<Rightarrow> 'st tag option" where
  "ecp_default e op_code s =
     (if op_code AND OP_VENDOR_SPECIFIC_STATE_MASK \<noteq> 0 then
        (case cb_vs_command_handler (cbs e) of
           None \<Rightarrow> Some s
         | Some f \<Rightarrow> do {
             (st, fx) \<leftarrow> f (ecp_net_buf s) (ecp_net_buf_len s) (storage s);
             Some (s\<lparr>storage := st, trace := trace s @ fx,
                     resp := (resp s)\<lparr>resp_op := OP_VENDOR_SPECIFIC_STATE_MASK\<rparr>\<rparr>)
           })
      else Some (resp_err ERR_INV_OPCODE s))"

definition ecp_dispatch :: "'st env \<Rightarrow> inp \<Rightarrow> u8 \<Rightarrow> u8 \<Rightarrow> 'st tag \<Rightarrow> 'st tag option" where
  "ecp_dispatch e x op_code esl_id s =
     (if op_code = OP_PING then Some (resp_basic s)
      else if op_code = OP_UNASSOCIATE then ecp_unassociate e esl_id s
      else if op_code = OP_SERVICE_RESET then ecp_service_reset e s
      else if op_code = OP_FACTORY_RESET then ecp_factory_reset e esl_id s
      else if op_code = OP_UPDATE_COMPLETE then ecp_update_complete e s
      else if op_code = OP_READ_SENSOR_DATA then ecp_read_sensor e s
      else if op_code = OP_REFRESH_DISPLAY then ecp_refresh_display e s
      else if op_code = OP_DISPLAY_IMAGE then ecp_display_image e s
      else if op_code = OP_DISPLAY_TIMED_IMAGE then ecp_display_timed e x s
      else if op_code = OP_LED_CONTROL then ecp_led_control e s
      else if op_code = OP_LED_TIMED_CONTROL then ecp_led_timed e x s
      else ecp_default e op_code s)"

subsection \<open>The response handler\<close>

definition ecp_sensor_response ::
  "'st env \<Rightarrow> inp \<Rightarrow> u8 list \<Rightarrow> 'st tag \<Rightarrow> (u8 list \<times> u16 \<times> 'st tag) option" where
  "ecp_sensor_response e x b s =
     (case cb_sensor_control (cbs e) of
        None \<Rightarrow> Some (b, of_nat (ECP_LEN (resp_op (resp s))), s)
      | Some ctl \<Rightarrow> do {
          (r, len, d, sd, fx) \<leftarrow> ctl (resp_idx (resp s)) (in_sensor_len x) (in_sensor_data x) (sensor_data s);
          let s1 = s\<lparr>sensor_data := sd, trace := trace s @ fx\<rparr>;
          (if r = - EBUSY then do {
             b0 \<leftarrow> upd b 0 OP_ERR;
             b1 \<leftarrow> upd b0 1 ERR_RETRY;
             Some (b1, 2, s1)
           } else do {
             b0 \<leftarrow> upd b 0 (push_bit 4 (len AND 0x0f) OR OP_SENSOR_VALUE_STATE_MASK);
             b1 \<leftarrow> upd b0 1 (resp_idx (resp s));
             v \<leftarrow> rd_mem d 0 (unat len);
             b2 \<leftarrow> wr_mem b1 2 v;
             Some (b2, 2 + ucast len, s1)
           })
        })"

text \<open>The switch over \<open>resp_op\<close>: the bytes of the response, the length to send, the state.\<close>

definition ecp_response_bytes ::
  "'st env \<Rightarrow> inp \<Rightarrow> 'st tag \<Rightarrow> (u8 list \<times> u16 \<times> 'st tag) option" where
  "ecp_response_bytes e x s = do {
     let op = resp_op (resp s);
     let len = (of_nat (ECP_LEN op) :: u16);
     b \<leftarrow> upd (in_buf x) 0 op;
     (if op = OP_ERR then do {
        b1 \<leftarrow> upd b 1 (error_code (resp s));
        Some (b1, len, s)
      }
      else if op = OP_LED_STATE then do {
        b1 \<leftarrow> upd b 1 (resp_idx (resp s));
        Some (b1, len, s)
      }
      else if op = OP_BASIC_STATE then do {
        s1 \<leftarrow> bt_esl_basic_state_update e s;
        b1 \<leftarrow> upd b 1 (LOW_BYTE (ucast (basic_state s1)));
        b2 \<leftarrow> upd b1 2 (HIGH_BYTE (ucast (basic_state s1)));
        Some (b2, len, s1)
      }
      else if op = OP_DISPLAY_STATE then do {
        b1 \<leftarrow> upd b 1 (resp_idx (resp s));
        b2 \<leftarrow> upd b1 2 (resp_img_idx (resp s));
        Some (b2, len, s)
      }
      else if op = OP_SENSOR_VALUE_STATE_MASK then ecp_sensor_response e x b s
      else if op AND OP_VENDOR_SPECIFIC_STATE_MASK \<noteq> 0 then
        (case cb_vs_response_handler (cbs e) of
           None \<Rightarrow> Some (b, len, s)
         | Some f \<Rightarrow> do {
             (l, b1, st) \<leftarrow> f b (storage s);
             Some (b1, ucast l, s\<lparr>storage := st\<rparr>)
           })
      else do {
        b0 \<leftarrow> upd b 0 OP_ERR;
        b1 \<leftarrow> upd b0 1 ERR_UNSPEC;
        Some (b1, 2, s)
      })
   }"

definition ecp_response_append ::
  "'st env \<Rightarrow> esl_ecp_command_src \<Rightarrow> u8 list \<Rightarrow> u16 \<Rightarrow> 'st tag \<Rightarrow> 'st tag option" where
  "ecp_response_append e src b len s =
     (if src = ESL_PAWR then
        (if ESL_SYNC_PKT_PAYLOAD_MAX_LEN < length (ecp_rsp_net_buf s) + unat len then do {
           r0 \<leftarrow> z_nb_remove (zep e) (ecp_rsp_net_buf s) (unat (ecp_rsp_last_tlv_len s));
           r1 \<leftarrow> z_nb_add (zep e) ESL_ENCRTYPTED_DATA_MAX_LEN r0 [OP_ERR];
           r2 \<leftarrow> z_nb_add (zep e) ESL_ENCRTYPTED_DATA_MAX_LEN r1 [ERR_CAP_LIMIT];
           Some (s\<lparr>ecp_rsp_net_buf := r2, ecp_rsp_last_tlv_len := 2\<rparr>)
         } else do {
           v \<leftarrow> rd_mem b 0 (unat len);
           r \<leftarrow> z_nb_add (zep e) ESL_ENCRTYPTED_DATA_MAX_LEN (ecp_rsp_net_buf s) v;
           Some (s\<lparr>ecp_rsp_net_buf := r, ecp_rsp_last_tlv_len := ucast len\<rparr>)
         })
      else do {
        v \<leftarrow> rd_mem b 0 (unat len);
        r \<leftarrow> z_nb_add (zep e) ESL_ENCRTYPTED_DATA_MAX_LEN (ecp_rsp_net_buf s) v;
        Some (s\<lparr>ecp_rsp_net_buf := r\<rparr>)
      })"

definition ecp_response_handler ::
  "'st env \<Rightarrow> inp \<Rightarrow> esl_ecp_command_src \<Rightarrow> 'st tag \<Rightarrow> 'st tag option" where
  "ecp_response_handler e x src s = do {
     let s1 = (if ecp_notify_func s = Notify_null then s\<lparr>ecp_notify_func := Ecp_notify_cb\<rparr> else s);
     s2 \<leftarrow> (if src = ESL_ECP then do {
              r \<leftarrow> z_nb_remove (zep e) (ecp_rsp_net_buf s1) (length (ecp_rsp_net_buf s1));
              Some (s1\<lparr>ecp_rsp_net_buf := r\<rparr>)
            } else Some s1);
     (b, len, s3) \<leftarrow> ecp_response_bytes e x s2;
     s4 \<leftarrow> ecp_response_append e src b len (s3\<lparr>ecp_notify_len := len\<rparr>);
     Some (if src = ESL_ECP \<and> esl_ecp_resp_needed s4
           then effect (Gatt_notify (ecp_notify_func s4) (take (unat len) (ecp_rsp_net_buf s4))) s4
           else s4)
   }"

definition ecp_command_handler :: "'st env \<Rightarrow> inp \<Rightarrow> 'st tag \<Rightarrow> 'st tag option" where
  "ecp_command_handler e x s = do {
     op_code \<leftarrow> rd (ecp_net_buf s) 0;
     let s1 = resp_basic (s\<lparr>ecp_notify_func := Notify_null, esl_ecp_resp_needed := True\<rparr>);
     (if unat (ecp_net_buf_len s1) \<noteq> ECP_LEN op_code
      then ecp_response_handler e x (ecp_src s1) (resp_err ERR_INV_PARAMS s1)
      else if op_code AND OP_VENDOR_SPECIFIC_STATE_MASK = OP_VENDOR_SPECIFIC_STATE_MASK \<and>
              \<not> vendor_specific_support (cfg e)
      then ecp_response_handler e x (ecp_src s1) (resp_err ERR_INV_OPCODE s1)
      else do {
        esl_id \<leftarrow> rd (ecp_net_buf s1) ESL_OP_ESL_ID_IDX;
        let (r, s2) = check_ecp_esl_id esl_id s1;
        (if r \<noteq> 0 then Some s2
         else do {
           s3 \<leftarrow> (if resp_op (resp s2) \<noteq> OP_ERR then ecp_dispatch e x op_code esl_id s2 else Some s2);
           ecp_response_handler e x (ecp_src s3) s3
         })
      })
   }"

text \<open>The callback of a sent notification of \<open>OP_UNASSOCIATE\<close>.\<close>

definition ecp_notify_unassociated_cb :: "'st env \<Rightarrow> 'st tag \<Rightarrow> 'st tag option" where
  "ecp_notify_unassociated_cb e s = do {
     s1 \<leftarrow> bt_esl_unassociate e s;
     Some (s1\<lparr>ecp_notify_func := Notify_null\<rparr>)
   }"

subsection \<open>Well-formedness: the cases of the command handler\<close>

lemma wf_resp [simp]:
  "wf_tag e (resp_err c s) = wf_tag e s" "wf_tag e (resp_basic s) = wf_tag e s"
  "wf_tag e (resp_led i s) = wf_tag e s" "wf_tag e (resp_display i g s) = wf_tag e s"
  by (simp_all add: resp_err_def resp_basic_def resp_led_def resp_display_def)

lemma resp_fields [simp]:
  "led_dworks (resp_err c s) = led_dworks s" "led_dworks (resp_basic s) = led_dworks s"
  "led_dworks (resp_led i s) = led_dworks s" "led_dworks (resp_display i g s) = led_dworks s"
  "display_works (resp_err c s) = display_works s" "display_works (resp_display i g s) = display_works s"
  "display_works (resp_led i s) = display_works s"
  "ecp_net_buf (resp_led i s) = ecp_net_buf s" "ecp_net_buf (resp_err c s) = ecp_net_buf s"
  "ecp_net_buf (resp_basic s) = ecp_net_buf s"
  "led_objs (resp_led i s) = led_objs s" "led_type (resp_led i s) = led_type s"
  "ecp_net_buf_len (resp_basic s) = ecp_net_buf_len s" "esl_addr (resp_basic s) = esl_addr s"
  "ecp_src (resp_basic s) = ecp_src s"
  by (simp_all add: resp_err_def resp_basic_def resp_led_def resp_display_def)

lemma effect_net_buf [simp]:
  "ecp_net_buf (effect x s) = ecp_net_buf s" "ecp_net_buf_len (effect x s) = ecp_net_buf_len s"
  "led_type (effect x s) = led_type s" "ecp_src (effect x s) = ecp_src s"
  by (simp_all add: effect_def)

lemma wf_led_type: "wf_tag e s \<Longrightarrow> length (led_type s) = led_max (cfg e)"
  by (simp add: wf_tag_def)

lemma wf_led_type_update: "wf_tag e s \<Longrightarrow> wf_tag e (s\<lparr>led_type := (led_type s)[i := v]\<rparr>)"
  by (simp add: wf_tag_def)

lemma wf_max_image:
  assumes *: "wf_tag e s" "cfg_ok (cfg e)" "\<not> max_image_index s < img"
  shows "unat img < image_max (cfg e)"
proof -
  have "1 \<le> image_max (cfg e)" "image_max (cfg e) \<le> 255"
      "max_image_index s = of_nat (image_max (cfg e) - 1)"
    using * by (simp_all add: wf_tag_def cfg_ok_def)
  then have "unat (max_image_index s) = image_max (cfg e) - 1"
    using unat_of_nat_u8 [of "image_max (cfg e) - 1"] by simp
  then show ?thesis
    using *(3) \<open>1 \<le> image_max (cfg e)\<close> by (simp add: word_less_nat_alt)
qed

lemma wf_unassociate_op: "wf_tag e s \<Longrightarrow> yields (ecp_unassociate e i s) (wf_tag e)"
  by (simp add: ecp_unassociate_def)

lemma wf_service_reset: "wf_tag e s \<Longrightarrow> yields (ecp_service_reset e s) (wf_tag e)"
  by (simp add: ecp_service_reset_def)

lemma wf_factory_reset_op:
  "env_ok e \<Longrightarrow> wf_tag e s \<Longrightarrow> yields (ecp_factory_reset e i s) (wf_tag e)"
  by (auto simp: ecp_factory_reset_def wp intro!: yields_mono [OF wf_factory_reset])

lemma wf_update_complete:
  "env_ok e \<Longrightarrow> wf_tag e s \<Longrightarrow> yields (ecp_update_complete e s) (wf_tag e)"
  unfolding ecp_update_complete_def Let_def
  by (auto simp: wp intro!: wf_transition yields_mono [OF wf_is_configuring])

lemma wf_read_sensor:
  "wf_tag e s \<Longrightarrow> 3 \<le> length (ecp_net_buf s) \<Longrightarrow> yields (ecp_read_sensor e s) (wf_tag e)"
  by (simp add: ecp_read_sensor_def wp)

lemma wf_refresh_display:
  "wf_tag e s \<Longrightarrow> 3 \<le> length (ecp_net_buf s) \<Longrightarrow> yields (ecp_refresh_display e s) (wf_tag e)"
  by (simp add: ecp_refresh_display_def wp wf_display_works)

lemma display_checks_ok:
  assumes "cfg_ok (cfg e)" "wf_tag e s"
  shows "yields (display_checks e d img s) (\<lambda>r. r = None \<longrightarrow> unat d < display_max (cfg e))"
proof -
  have "unat img < image_max (cfg e)" if "\<not> max_image_index s < img"
    using wf_max_image [OF assms(2,1) that] .
  then show ?thesis
    using wf_img_lengths(2) [OF assms(2)] by (simp add: display_checks_def wp)
qed

lemma wf_display_image:
  assumes "cfg_ok (cfg e)" "wf_tag e s" "4 \<le> length (ecp_net_buf s)"
  shows "yields (ecp_display_image e s) (wf_tag e)"
proof -
  have upd: "wf_tag e (resp_display d img t\<lparr>display_works := (display_works t)
      [unat d := (display_works t ! unat d)\<lparr>disp_img_idx := img\<rparr>]\<rparr>)"
    if "wf_tag e t" "unat d < display_max (cfg e)" for t d img
    using wf_display_update [of e "resp_display d img t" "unat d"] that wf_display_idx [OF that]
    by simp
  show ?thesis
    using assms
    by (auto simp: ecp_display_image_def wp wf_display_works upd split: option.split
        intro!: yields_mono [OF display_checks_ok])
qed

lemma led_dwork_reset_eq:
  "i < length (led_dworks s) \<Longrightarrow> led_dwork_reset i s =
     Some (effect (Led_control (of_nat i) 0 False) (effect (K_work_cancel (Led_work i))
       (s\<lparr>led_dworks := (led_dworks s)[i := (led_dworks s ! i)\<lparr>work_enable := False, led_active := False,
          start_abs_time := 0, stop_abs_time := 0, pattern_idx := 0, repeat_counts := 0\<rparr>]\<rparr>)))"
  by (simp add: led_dwork_reset_def led_dwork_upd_eq)

lemma display_dwork_reset_eq:
  "i < length (display_works s) \<Longrightarrow> display_dwork_reset e i s =
     Some (effect (K_work_cancel (Display_work i))
       (s\<lparr>display_works := (display_works s)[i := (display_works s ! i)\<lparr>disp_start_abs_time := 0,
          disp_active := False,
          disp_img_idx := (if esl_pts (cfg e) then 0 else of_nat (image_max (cfg e)))\<rparr>]\<rparr>))"
  by (simp add: display_dwork_reset_def display_work_upd_eq)

lemma wf_display_timed:
  assumes "env_ok e" "wf_tag e s" "8 \<le> length (ecp_net_buf s)"
  shows "yields (ecp_display_timed e x s) (wf_tag e)"
proof -
  have c: "cfg_ok (cfg e)" using assms(1) by (simp add: env_ok_def)
  have upd: "wf_tag e (resp_display d img t\<lparr>display_works := (display_works t)[unat d := w]\<rparr>)"
    if "wf_tag e t" "unat d < display_max (cfg e)" "display_idx w = display_idx (display_works t ! unat d)"
    for t d img w
    using wf_display_update [of e "resp_display d img t" "unat d" w] that wf_display_idx [OF that(1,2)] by simp
  show ?thesis
    using assms(2,3)
    by (auto simp: ecp_display_timed_def wp Let_def wf_display_works upd display_dwork_reset_eq
        display_work_upd_eq split: option.split intro!: yields_mono [OF display_checks_ok [OF c]]
        wf_basic_state_update)
qed

lemma wf_store_led:
  assumes "wf_tag e s" "i < led_max (cfg e)" "13 \<le> length (ecp_net_buf s)"
  shows "yields (ecp_store_led i c s) (\<lambda>t. wf_tag e t \<and> led_dworks t = led_dworks s)"
proof -
  have upd: "wf_tag e (s\<lparr>led_objs := (led_objs s)[i := l], led_type := (led_type s)[i := v]\<rparr>)"
    if "length (flash_pattern l) = 5" for l v
    using wf_led_type_update [OF wf_led_obj_update [OF assms(1)], of l i i v] that
    by (simp add: led_obj_ok_def)
  show ?thesis
    using assms wf_led_objs(1) [OF assms(1)] wf_led_type [OF assms(1)]
    by (simp add: ecp_store_led_def wp Let_def case_prod_unfold upd)
qed

lemma wf_led_upd:
  "wf_tag e s \<Longrightarrow> i < led_max (cfg e) \<Longrightarrow>
   (\<And>d. led_idx (f d) = led_idx d) \<Longrightarrow> (\<And>d. unat (pattern_idx d) \<le> 40 \<Longrightarrow> unat (pattern_idx (f d)) \<le> 40) \<Longrightarrow>
     yields (led_dwork_upd i f s) (\<lambda>t. wf_tag e t \<and> ecp_net_buf t = ecp_net_buf s)"
  by (simp add: wp wf_led_dworks wf_led_update wf_led_idx wf_pattern_idx)

lemma wf_led_reset:
  "wf_tag e s \<Longrightarrow> i < led_max (cfg e) \<Longrightarrow>
     yields (led_dwork_reset i s) (\<lambda>t. wf_tag e t \<and> ecp_net_buf t = ecp_net_buf s)"
  by (simp add: led_dwork_reset_eq wf_led_dworks wf_led_update wf_led_idx)

lemma wf_basic_update:
  assumes "zephyr_ok (zep e)" "wf_tag e s"
  shows "yields (bt_esl_basic_state_update e s) (\<lambda>t. wf_tag e t \<and> ecp_net_buf t = ecp_net_buf s)"
proof (rule yields_mono [OF basic_state_update_at [OF assms]])
  fix t assume "basic_at s (led_max (cfg e)) (display_max (cfg e)) t"
  then have "t = s\<lparr>basic_state := basic_state t\<rparr>" by (simp add: basic_at_def)
  then obtain w where "t = s\<lparr>basic_state := w\<rparr>" ..
  then show "wf_tag e t \<and> ecp_net_buf t = ecp_net_buf s" using assms(2) by simp
qed

lemma wf_led_control:
  assumes "wf_tag e s" "13 \<le> length (ecp_net_buf s)"
  shows "yields (ecp_led_control e s) (wf_tag e)"
proof -
  have chain: "yields (do {
        s1 \<leftarrow> ecp_store_led i color s;
        s2 \<leftarrow> led_dwork_upd i (\<lambda>d. d\<lparr>pattern_idx := 40\<rparr>) (resp_led led s1);
        s3 \<leftarrow> led_dwork_reset i s2;
        Some (effect (K_work_schedule (Led_work i) 0) s3) }) (wf_tag e)"
    if i: "i < led_max (cfg e)" for i color led
    by (rule yields_bindI [OF wf_store_led [OF assms(1) i assms(2)]],
        rule yields_bindI [OF wf_led_upd [OF _ i]], (simp_all)[3],
        rule yields_bindI [OF wf_led_reset [OF _ i]]) simp_all
  show ?thesis
    using assms chain by (simp add: ecp_led_control_def Let_def wp)
qed

lemma wf_led_timed:
  assumes "env_ok e" "wf_tag e s" "17 \<le> length (ecp_net_buf s)"
  shows "yields (ecp_led_timed e x s) (wf_tag e)"
proof -
  have z: "zephyr_ok (zep e)" using assms(1) by (rule env_zep)
  have delete: "yields (do { s1 \<leftarrow> led_dwork_reset i s; bt_esl_basic_state_update e (resp_led led s1) })
      (wf_tag e)" if i: "i < led_max (cfg e)" for i led
    by (rule yields_bindI [OF wf_led_reset [OF assms(2) i]]) (simp add: wf_basic_state_update)
  have accept: "yields (do {
          s1 \<leftarrow> led_dwork_reset i s;
          s2 \<leftarrow> led_dwork_upd i (\<lambda>d. d\<lparr>start_abs_time := tm, pattern_idx := 40\<rparr>) s1;
          s3 \<leftarrow> bt_esl_basic_state_update e (resp_led led s2);
          s4 \<leftarrow> ecp_store_led i color s3;
          Some (effect (K_work_schedule (Led_work i) off) s4) }) (wf_tag e)"
    if i: "i < led_max (cfg e)" for i tm led color off
    using assms(3)
    by (intro yields_bindI [OF wf_led_reset [OF assms(2) i]] yields_bindI [OF wf_led_upd [OF _ i]]
        yields_bindI [OF wf_basic_update [OF z]] yields_bindI [OF wf_store_led [OF _ i]]) auto
  show ?thesis
    using assms(2,3) delete accept
    by (simp add: ecp_led_timed_def Let_def wp wf_led_dworks)
qed

lemma wf_default:
  assumes "env_ok e" "wf_tag e s" "2 \<le> unat (ecp_net_buf_len s)"
    "unat (ecp_net_buf_len s) \<le> length (ecp_net_buf s)"
  shows "yields (ecp_default e op s) (wf_tag e)"
proof (cases "cb_vs_command_handler (cbs e)")
  case (Some f)
  obtain st fx where "f (ecp_net_buf s) (ecp_net_buf_len s) (storage s) = Some (st, fx)"
    using env_vs_command [OF assms(1) Some assms(3,4)] by blast
  then show ?thesis using assms(2) by (simp add: ecp_default_def Some)
qed (use assms(2) in \<open>simp add: ecp_default_def\<close>)

text \<open>The command lies in memory, with the length its op code announces.\<close>

definition command_ok :: "u8 \<Rightarrow> 'st tag \<Rightarrow> bool" where
  "command_ok op s \<longleftrightarrow> unat (ecp_net_buf_len s) = ECP_LEN op \<and> ECP_LEN op \<le> length (ecp_net_buf s)"

lemma wf_dispatch:
  assumes "env_ok e" "wf_tag e s" "command_ok op s"
  shows "yields (ecp_dispatch e x op esl_id s) (wf_tag e)"
proof -
  have c: "cfg_ok (cfg e)" using assms(1) by (simp add: env_ok_def)
  have "2 \<le> unat (ecp_net_buf_len s)" "unat (ecp_net_buf_len s) \<le> length (ecp_net_buf s)"
    using assms(3) ECP_LEN_ge [of op] by (simp_all add: command_ok_def)
  note vs = wf_default [OF assms(1,2) this]
  show ?thesis
    unfolding ecp_dispatch_def
    using assms(2,3) vs
    by (auto simp: command_ok_def ECP_LEN_nibble wf_unassociate_op wf_service_reset
        wf_factory_reset_op [OF assms(1,2)] wf_update_complete [OF assms(1,2)] wf_read_sensor
        wf_refresh_display wf_display_image [OF c assms(2)] wf_display_timed [OF assms(1,2)]
        wf_led_control wf_led_timed [OF assms(1,2)])
qed

subsection \<open>Well-formedness: the response\<close>

text \<open>
  A sensor response names a sensor that exists: the handler starts from a basic-state response and
  only the read of a sensor whose index it has checked asks for a sensor value.
\<close>

definition resp_ok :: "'st env \<Rightarrow> 'st tag \<Rightarrow> bool" where
  "resp_ok e s \<longleftrightarrow>
     (resp_op (resp s) = OP_SENSOR_VALUE_STATE_MASK \<longrightarrow> unat (resp_idx (resp s)) < sensor_max (cfg e))"

lemma resp_ok_set [simp]:
  "resp_ok e (resp_err c s)" "resp_ok e (resp_basic s)" "resp_ok e (resp_led i s)"
  "resp_ok e (resp_display i g s)"
  by (simp_all add: resp_ok_def resp_err_def resp_basic_def resp_led_def resp_display_def)

lemma resp_ok_part: "ecp_part t = ecp_part s \<Longrightarrow> resp_ok e t = resp_ok e s"
  by (simp add: ecp_part_def resp_ok_def)

lemma resp_ok_simps [simp]:
  "resp_ok e (effect x s) = resp_ok e s" "resp_ok e (basic_bit e' f b s) = resp_ok e s"
  "resp_ok e (s\<lparr>led_dworks := l\<rparr>) = resp_ok e s" "resp_ok e (s\<lparr>display_works := d\<rparr>) = resp_ok e s"
  "resp_ok e (s\<lparr>ecp_notify_func := nf\<rparr>) = resp_ok e s" "resp_ok e (s\<lparr>esl_ecp_resp_needed := rn\<rparr>) = resp_ok e s"
  "resp_ok e (s\<lparr>basic_state := bs\<rparr>) = resp_ok e s" "resp_ok e (s\<lparr>led_objs := lo, led_type := lt\<rparr>) = resp_ok e s"
  "resp_ok e (s\<lparr>ecp_rsp_net_buf := rb\<rparr>) = resp_ok e s" "resp_ok e (s\<lparr>configuring_state := cs\<rparr>) = resp_ok e s"
  "resp_ok e (s\<lparr>esl_sm_timeout_update_needed := tn\<rparr>) = resp_ok e s"
  "resp_ok e (s\<lparr>busy := bu\<rparr>) = resp_ok e s"
  by (simp_all add: resp_ok_def effect_def basic_bit_def)

text \<open>Operations that keep the control point's fields, and those that answer.\<close>

lemma basic_update_ecp_part: "bt_esl_basic_state_update e s = Some t \<Longrightarrow> ecp_part t = ecp_part s"
  unfolding bt_esl_basic_state_update_def Let_def
  by (auto simp: bind_eq_Some_conv dest!: for_loop_frame [where g = ecp_part, rotated] split: if_splits)

lemma store_led_ecp_part: "ecp_store_led i c s = Some t \<Longrightarrow> ecp_part t = ecp_part s"
  by (auto simp: ecp_store_led_def Let_def bind_eq_Some_conv ecp_part_def case_prod_unfold)

lemma display_reset_ecp_part: "display_dwork_reset e i s = Some t \<Longrightarrow> ecp_part t = ecp_part s"
  by (auto simp: display_dwork_reset_def display_work_upd_def bind_eq_Some_conv ecp_part_def effect_def)

lemma led_upd_ecp_part: "led_dwork_upd i f s = Some t \<Longrightarrow> ecp_part t = ecp_part s"
  by (auto simp: led_dwork_upd_def bind_eq_Some_conv)

lemma display_upd_ecp_part: "display_work_upd i f s = Some t \<Longrightarrow> ecp_part t = ecp_part s"
  by (auto simp: display_work_upd_def bind_eq_Some_conv ecp_part_def)

lemmas keeps_resp_ok =
  basic_update_ecp_part [THEN resp_ok_part] store_led_ecp_part [THEN resp_ok_part]
  display_reset_ecp_part [THEN resp_ok_part] led_upd_ecp_part [THEN resp_ok_part]
  display_upd_ecp_part [THEN resp_ok_part] led_dwork_reset_ecp_part [THEN resp_ok_part]

lemma unassociate_op_resp: "ecp_unassociate e i s = Some t \<Longrightarrow> resp_ok e t"
  by (auto simp: ecp_unassociate_def split: if_splits)

lemma factory_reset_op_resp:
  assumes "zephyr_ok (zep e)" "resp_ok e s" "ecp_factory_reset e i s = Some t"
  shows "resp_ok e t"
  using assms(2,3)
  by (auto simp: ecp_factory_reset_def bind_eq_Some_conv
      dest!: factory_reset_ecp_part [OF assms(1), THEN resp_ok_part] split: if_splits)

lemma update_complete_resp:
  assumes "zephyr_ok (zep e)" "resp_ok e s" "ecp_update_complete e s = Some t"
  shows "resp_ok e t"
  using assms(2,3)
  by (auto simp: ecp_update_complete_def bind_eq_Some_conv Let_def
      dest!: transition_ecp_part [OF assms(1), THEN resp_ok_part]
        is_configuring_ecp_part [OF assms(1), THEN resp_ok_part] split: if_splits)

lemma read_sensor_resp: "ecp_read_sensor e s = Some t \<Longrightarrow> resp_ok e t"
  by (auto simp: ecp_read_sensor_def bind_eq_Some_conv resp_ok_def resp_err_def split: if_splits)

lemma refresh_display_resp: "ecp_refresh_display e s = Some t \<Longrightarrow> resp_ok e t"
  by (auto simp: ecp_refresh_display_def bind_eq_Some_conv split: if_splits)

lemma display_image_resp: "ecp_display_image e s = Some t \<Longrightarrow> resp_ok e t"
  by (auto simp: ecp_display_image_def bind_eq_Some_conv keeps_resp_ok split: option.splits)

lemma display_timed_resp: "ecp_display_timed e x s = Some t \<Longrightarrow> resp_ok e t"
  by (auto simp: ecp_display_timed_def bind_eq_Some_conv Let_def keeps_resp_ok
      split: option.splits if_splits)

lemma led_control_resp: "ecp_led_control e s = Some t \<Longrightarrow> resp_ok e t"
  by (auto simp: ecp_led_control_def bind_eq_Some_conv Let_def keeps_resp_ok split: if_splits)

lemma led_timed_resp: "ecp_led_timed e x s = Some t \<Longrightarrow> resp_ok e t"
  by (auto simp: ecp_led_timed_def bind_eq_Some_conv Let_def keeps_resp_ok split: if_splits)

lemma default_resp: "resp_ok e s \<Longrightarrow> ecp_default e op s = Some t \<Longrightarrow> resp_ok e t"
  by (auto simp: ecp_default_def bind_eq_Some_conv resp_ok_def resp_err_def split: option.splits if_splits)

lemma dispatch_resp_ok:
  assumes z: "zephyr_ok (zep e)" and r: "resp_ok e s" and d: "ecp_dispatch e x op esl_id s = Some t"
  shows "resp_ok e t"
  using d
  unfolding ecp_dispatch_def
  by (auto dest: unassociate_op_resp factory_reset_op_resp [OF z r] update_complete_resp [OF z r]
      read_sensor_resp refresh_display_resp display_image_resp display_timed_resp led_control_resp
      led_timed_resp default_resp [OF r] simp: ecp_service_reset_def split: if_splits)

lemma unat_ECP_LEN16: "unat (of_nat (ECP_LEN op) :: u16) = ECP_LEN op"
  using ECP_LEN_le [of op] by (simp add: unat_of_nat)

lemma unat_ucast16: "unat (ucast (len :: u8) :: u16) = unat len"
  using less_trans [OF unat_u8_less [of len], of 65536]
  by (simp add: unsigned_ucast_eq take_bit_eq_mod mod_less)

lemma unat_sensor_len16: "unat (2 + ucast (len :: u8) :: u16) = 2 + unat len"
proof -
  have "2 + unat len < 65536" using unat_u8_less [of len] by linarith
  then show ?thesis by (simp add: unat_word_ariths unat_ucast16 mod_less)
qed

text \<open>What the bytes of a response are worth: the buffer keeps its size, the length is in range.\<close>

definition response_ok :: "'st env \<Rightarrow> u8 list \<Rightarrow> u8 list \<times> u16 \<times> 'st tag \<Rightarrow> bool" where
  "response_ok e rsp r \<longleftrightarrow> (case r of (b, len, t) \<Rightarrow> wf_tag e t \<and> length b = ESL_EAD_PAYLOAD_MAX_LEN \<and>
     2 \<le> unat len \<and> unat len \<le> 17 \<and> ecp_rsp_net_buf t = rsp)"

lemma wf_sensor_response:
  assumes e: "env_ok e" and wf: "wf_tag e s" and r: "unat (resp_idx (resp s)) < sensor_max (cfg e)"
    and x: "inp_ok x" and b: "length b = ESL_EAD_PAYLOAD_MAX_LEN"
  shows "yields (ecp_sensor_response e x b s) (response_ok e (ecp_rsp_net_buf s))"
proof (cases "cb_sensor_control (cbs e)")
  case None
  then show ?thesis
    using wf b ECP_LEN_ge [of "resp_op (resp s)"] ECP_LEN_le [of "resp_op (resp s)"]
    by (simp add: ecp_sensor_response_def response_ok_def unat_ECP_LEN16)
next
  case (Some f)
  have sd: "length (sensor_data s) = sensor_max (cfg e)" "list_all sensor_data_ok (sensor_data s)"
    using wf by (simp_all add: wf_tag_def)
  have d: "length (in_sensor_data x) = ESL_RESPONSE_SENSOR_LEN" using x by (simp add: inp_ok_def)
  obtain rc len d' sd' fx where f: "f (resp_idx (resp s)) (in_sensor_len x) (in_sensor_data x) (sensor_data s)
      = Some (rc, len, d', sd', fx)"
    and ok: "length sd' = sensor_max (cfg e)" "list_all sensor_data_ok sd'"
      "length d' = ESL_RESPONSE_SENSOR_LEN" "rc \<noteq> - EBUSY \<Longrightarrow> unat len \<le> ESL_RESPONSE_SENSOR_LEN"
    using sensor_provider.ctl_ok [OF env_sensor [OF e Some] r sd d, of "in_sensor_len x"]
    by (auto elim!: yieldsE)
  have wf': "wf_tag e (s\<lparr>sensor_data := sd', trace := trace s @ fx\<rparr>)"
    using wf ok by (simp add: wf_tag_def)
  show ?thesis
    using b ok wf'
    by (auto simp: ecp_sensor_response_def Some f response_ok_def wp unat_sensor_len16 Let_def)
qed

lemma wf_response_bytes:
  assumes e: "env_ok e" and wf: "wf_tag e s" and r: "resp_ok e s" and x: "inp_ok x"
  shows "yields (ecp_response_bytes e x s) (response_ok e (ecp_rsp_net_buf s))"
proof -
  have b: "length (in_buf x) = ESL_EAD_PAYLOAD_MAX_LEN" using x by (simp add: inp_ok_def)
  note len = ECP_LEN_ge [of "resp_op (resp s)"] ECP_LEN_le [of "resp_op (resp s)"]
  note plain = unat_ECP_LEN16 [of "resp_op (resp s)"]
  have sensor: "yields (ecp_sensor_response e x ((in_buf x)[0 := OP_SENSOR_VALUE_STATE_MASK]) s)
      (response_ok e (ecp_rsp_net_buf s))" if "resp_op (resp s) = OP_SENSOR_VALUE_STATE_MASK"
    by (rule wf_sensor_response [OF e wf _ x]) (use r that b in \<open>simp_all add: resp_ok_def\<close>)
  have basic: "yields (bt_esl_basic_state_update e s) (\<lambda>t. wf_tag e t \<and> ecp_rsp_net_buf t = ecp_rsp_net_buf s)"
    using wf_basic_update [OF env_zep [OF e] wf] basic_update_ecp_part [of e s]
    by (auto simp: yields_def ecp_part_def)
  have vs: "yields (f ((in_buf x)[0 := op]) (storage s)) (\<lambda>(l, b', st').
      2 \<le> unat l \<and> unat l \<le> 17 \<and> length b' = ESL_EAD_PAYLOAD_MAX_LEN)"
    if "cb_vs_response_handler (cbs e) = Some f" for f op
    by (rule env_vs_response [OF e that]) (simp add: b)
  show ?thesis
    using wf b len plain sensor
    by (auto simp: ecp_response_bytes_def Let_def wp response_ok_def case_prod_unfold unat_ucast16
        split: option.split intro!: yields_mono [OF basic] yields_mono [OF vs])
qed

lemma wf_rsp_update:
  assumes "wf_tag e s" "length r \<le> ESL_SYNC_PKT_PAYLOAD_MAX_LEN"
    "32 \<le> length r \<Longrightarrow> 2 \<le> unat l \<and> unat l \<le> length r"
  shows "wf_tag e (s\<lparr>ecp_rsp_net_buf := r, ecp_rsp_last_tlv_len := l\<rparr>)"
  using assms by (simp add: wf_tag_def)

lemma wf_rsp_short:
  "wf_tag e s \<Longrightarrow> length r < 32 \<Longrightarrow> wf_tag e (s\<lparr>ecp_rsp_net_buf := r\<rparr>)"
  by (simp add: wf_tag_def)

lemma unat_ucast8_small: "unat (len :: u16) \<le> 17 \<Longrightarrow> unat (ucast len :: u8) = unat len"
  by (simp add: unsigned_ucast_eq take_bit_eq_mod mod_less)

lemma wf_response_append:
  assumes z: "zephyr_ok (zep e)" and wf: "wf_tag e s" and b: "length b = ESL_EAD_PAYLOAD_MAX_LEN"
    and len: "2 \<le> unat len" "unat len \<le> 17" and src: "src = ESL_ECP \<Longrightarrow> ecp_rsp_net_buf s = []"
  shows "yields (ecp_response_append e src b len s) (wf_tag e)"
proof (cases "src = ESL_PAWR \<and> ESL_SYNC_PKT_PAYLOAD_MAX_LEN < length (ecp_rsp_net_buf s) + unat len")
  case True
  then have "32 \<le> length (ecp_rsp_net_buf s)" using len by linarith
  moreover from this have "2 \<le> unat (ecp_rsp_last_tlv_len s)"
      "unat (ecp_rsp_last_tlv_len s) \<le> length (ecp_rsp_net_buf s)" "length (ecp_rsp_net_buf s) \<le> 48"
    using wf by (simp_all add: wf_tag_def)
  ultimately show ?thesis
    using True wf
    by (auto simp: ecp_response_append_def z_nb_remove_eq [OF z] z_nb_add_eq [OF z] wf_rsp_update)
next
  case False
  have rd: "rd_mem b 0 (unat len) = Some (take (unat len) b)" using b len by simp
  show ?thesis
  proof (cases src)
    case ESL_PAWR
    then show ?thesis
      using False wf b len
      by (auto simp: ecp_response_append_def rd z_nb_add_eq [OF z] wf_rsp_update unat_ucast8_small)
  next
    case ESL_ECP
    then show ?thesis
      using src wf b len
      by (simp add: ecp_response_append_def rd z_nb_add_eq [OF z] wf_rsp_short)
  qed
qed

lemma wf_response_handler:
  assumes e: "env_ok e" and wf: "wf_tag e s" and r: "resp_ok e s" and x: "inp_ok x"
  shows "yields (ecp_response_handler e x src s) (wf_tag e)"
proof -
  note z = env_zep [OF e]
  define s1 where "s1 = (if ecp_notify_func s = Notify_null then s\<lparr>ecp_notify_func := Ecp_notify_cb\<rparr> else s)"
  have s1: "wf_tag e s1" "resp_ok e s1" using wf r by (simp_all add: s1_def)
  define s2 where "s2 = (if src = ESL_ECP then s1\<lparr>ecp_rsp_net_buf := []\<rparr> else s1)"
  have s2: "wf_tag e s2" "resp_ok e s2" using s1 by (simp_all add: s2_def wf_rsp_short)
  have clear: "(if src = ESL_ECP then do {
        r \<leftarrow> z_nb_remove (zep e) (ecp_rsp_net_buf s1) (length (ecp_rsp_net_buf s1));
        Some (s1\<lparr>ecp_rsp_net_buf := r\<rparr>) } else Some s1) = Some s2"
    by (simp add: s2_def z_nb_remove_eq [OF z])
  have app: "yields (ecp_response_append e src b len (t\<lparr>ecp_notify_len := len\<rparr>)) (wf_tag e)"
    if "response_ok e (ecp_rsp_net_buf s2) (b, len, t)" for b len t
    using that by (intro wf_response_append [OF z]) (simp_all add: response_ok_def s2_def)
  show ?thesis
    unfolding ecp_response_handler_def Let_def s1_def [symmetric] clear
    by (auto simp: wp intro!: yields_mono [OF wf_response_bytes [OF e s2 x]] yields_mono [OF app])
qed

text \<open>The command handler never runs into undefined behaviour on a command that lies in memory.\<close>

definition command_in_memory :: "'st tag \<Rightarrow> bool" where
  "command_in_memory s \<longleftrightarrow> ecp_net_buf s \<noteq> [] \<and>
     (unat (ecp_net_buf_len s) = ECP_LEN (ecp_net_buf s ! 0) \<longrightarrow>
        ECP_LEN (ecp_net_buf s ! 0) \<le> length (ecp_net_buf s))"

lemma wf_command_handler:
  assumes e: "env_ok e" and wf: "wf_tag e s" and x: "inp_ok x" and m: "command_in_memory s"
  shows "yields (ecp_command_handler e x s) (wf_tag e)"
proof -
  let ?op = "ecp_net_buf s ! 0"
  define s1 where "s1 = resp_basic (s\<lparr>ecp_notify_func := Notify_null, esl_ecp_resp_needed := True\<rparr>)"
  have s1: "wf_tag e s1" "resp_ok e s1" "ecp_net_buf s1 = ecp_net_buf s"
      "ecp_net_buf_len s1 = ecp_net_buf_len s" using wf by (simp_all add: s1_def)
  have op: "rd (ecp_net_buf s) 0 = Some ?op" using m by (simp add: command_in_memory_def rd_def)
  have err: "yields (ecp_response_handler e x src (resp_err c s1)) (wf_tag e)" for src c
    by (rule wf_response_handler [OF e _ _ x]) (simp_all add: s1)
  have run: "yields (ecp_dispatch e x ?op i s2) (\<lambda>t. yields (ecp_response_handler e x (ecp_src t) t) (wf_tag e))"
    if ok: "wf_tag e s2" "resp_ok e s2" "command_ok ?op s2" for s2 i
    using wf_dispatch [OF e ok(1,3), of x i] dispatch_resp_ok [OF env_zep [OF e] ok(2), of x ?op i]
      wf_response_handler [OF e _ _ x]
    by (auto simp: yields_def)
  have chk: "wf_tag e (snd (check_ecp_esl_id i s1))" "resp_ok e (snd (check_ecp_esl_id i s1))" for i
    using s1 by (simp_all add: check_ecp_esl_id_def)
  have chk_ok: "command_ok ?op (snd (check_ecp_esl_id i s1))" if "unat (ecp_net_buf_len s) = ECP_LEN ?op" for i
    using m s1 that by (simp add: check_ecp_esl_id_def command_in_memory_def command_ok_def resp_err_def)
  have two: "1 < length (ecp_net_buf s)" if "unat (ecp_net_buf_len s) = ECP_LEN ?op"
    using m that ECP_LEN_ge [of ?op] by (simp add: command_in_memory_def)
  show ?thesis
    unfolding ecp_command_handler_def op Let_def s1_def [symmetric]
    using s1 err run [OF chk chk_ok] chk two wf_response_handler [OF e chk x]
    by (simp add: wp case_prod_unfold)
qed

end
