(* ===== verification/Esl_Pawr.thy ===== *)
theory Esl_Pawr
  imports Esl_Ecp
begin

unbundle bit_operations_syntax

text \<open>
  Periodic advertising with responses in \<open>service/esl.c\<close>: reception, decryption, the walk over the
  TLVs of a packet and the composition of the response. Submitting the control point's work item
  and waiting until it is no longer busy is running its handler to completion.

  A packet in memory is the array it lies in with the length of the buffer; a TLV is handed to the
  control point as the memory from its first byte on. Slot counters start at -1 and a packet has
  fewer than 128 TLVs, so they are integers.
\<close>

subsection \<open>Reception and response\<close>

definition recv_cb :: "'st env \<Rightarrow> u16 \<Rightarrow> u8 \<Rightarrow> u8 list \<Rightarrow> 'st tag \<Rightarrow> 'st tag option" where
  "recv_cb e event subevent data s =
     (if esl_state s \<noteq> SM_SYNCHRONIZED then Some s
      else do {
        s1 \<leftarrow> (if led_indication (cfg e) then do {
                 t \<leftarrow> led_dwork_reset (INDICATION_LED_IDX (cfg e)) s;
                 indication_led e 0x1 50 50 0 1 t
               } else Some s);
        Some (if data = [] then s1
              else effect (K_work_submit Pawr_work)
                (s1\<lparr>pawr_event_counter := event, pawr_subevent := subevent, pawr_buf := data\<rparr>))
      })"

definition set_pawr_response :: "'st env \<Rightarrow> inp \<Rightarrow> int \<Rightarrow> 'st tag \<Rightarrow> 'st tag option" where
  "set_pawr_response e x rsp_slot s = do {
     s1 \<leftarrow> (if rsp_slot = -1 then Some s
           else do {
             (pa, r, len) \<leftarrow> esl_compose_ad_data (zep e) (esl_ad_data s) (ecp_rsp_net_buf s)
                (of_nat (length (ecp_rsp_net_buf s))) (in_rand x) (esl_rsp_key s);
             Some (effect (Set_response_data (pawr_event_counter s) (pawr_subevent s) (of_int rsp_slot)
                      (take (unat len) pa))
                    (s\<lparr>esl_ad_data := pa, esl_randomizer := r, pa_rsp_len := ucast len\<rparr>))
           });
     r \<leftarrow> z_nb_remove (zep e) (ecp_rsp_net_buf s1) (length (ecp_rsp_net_buf s1));
     Some (s1\<lparr>ecp_rsp_net_buf := r\<rparr>)
   }"

subsection \<open>The walk over the TLVs\<close>

text \<open>Is the TLV with this ESL ID for this tag; run the control point on the command at \<open>cmd\<close>.\<close>

definition addressed :: "u8 \<Rightarrow> 'st tag \<Rightarrow> bool" where
  "addressed esl_id s \<longleftrightarrow> esl_id = LOW_BYTE (esl_addr s) \<or> esl_id = ESL_ADDR_BROADCAST"

definition run_tlv :: "'st env \<Rightarrow> inp \<Rightarrow> u8 list \<Rightarrow> nat \<Rightarrow> 'st tag \<Rightarrow> 'st tag option" where
  "run_tlv e x cmd cp_len s = ecp_command_handler e x
     (effect (K_work_submit Ecp_work)
       (s\<lparr>ecp_net_buf := cmd, ecp_net_buf_len := of_nat cp_len, ecp_src := ESL_PAWR\<rparr>))"

text \<open>The loop over \<open>cur\<close>; \<open>mem\<close> starts at the group identifier.\<close>

function parse_tlvs ::
  "'st env \<Rightarrow> (nat \<Rightarrow> inp) \<Rightarrow> u8 list \<Rightarrow> nat \<Rightarrow> nat \<Rightarrow> int \<Rightarrow> int \<Rightarrow> 'st tag \<Rightarrow> (int \<times> 'st tag) option" where
  "parse_tlvs e xs mem payload_len cur tlv_slot rsp_slot s =
     (if cur < payload_len then do {
        op_code \<leftarrow> rd mem cur;
        esl_id \<leftarrow> rd mem (cur + 1);
        let cp_len = ECP_LEN op_code;
        let slot = tlv_slot + 1;
        (rsp, s1) \<leftarrow> (if addressed esl_id s then do {
                        t \<leftarrow> run_tlv e (xs (nat slot)) (drop cur mem) cp_len s;
                        Some (if esl_id \<noteq> ESL_ADDR_BROADCAST then slot else rsp_slot, t)
                      } else Some (rsp_slot, s));
        (if cur + cp_len \<le> payload_len
         then parse_tlvs e xs mem payload_len (cur + cp_len) slot rsp s1
         else Some (rsp, s1))
      }
      else Some (rsp_slot, s))"
  by pat_completeness auto
termination
  by (relation "measure (\<lambda>(e, xs, mem, pl, cur, tlv, rsp, s). pl - cur)") (simp_all add: ECP_LEN_nibble)

declare parse_tlvs.simps [simp del]

definition esl_parse_sync_packet ::
  "'st env \<Rightarrow> (nat \<Rightarrow> inp) \<Rightarrow> inp \<Rightarrow> u8 list \<Rightarrow> u16 \<Rightarrow> 'st tag \<Rightarrow> 'st tag option" where
  "esl_parse_sync_packet e xs x mem len s = do {
     d0 \<leftarrow> rd mem 0;
     let payload_len = d0 - 1;
     (if unat len \<noteq> unat d0 + 1 then Some s
      else do {
        d1 \<leftarrow> rd mem 1;
        (if d1 \<noteq> BT_DATA_ESL then Some s
         else do {
           _ \<leftarrow> z_nb_pull (zep e) (take (unat len) mem) AD_HEADER_LEN;
           let data = drop AD_HEADER_LEN mem;
           g \<leftarrow> rd data 0;
           (if g \<noteq> GROUPID_BYTE (esl_addr s) then Some s
            else do {
              r \<leftarrow> z_nb_remove (zep e) (ecp_rsp_net_buf s) (length (ecp_rsp_net_buf s));
              (rsp_slot, s1) \<leftarrow> parse_tlvs e xs data (unat payload_len) 1 (-1) (-1) (s\<lparr>ecp_rsp_net_buf := r\<rparr>);
              set_pawr_response e x rsp_slot s1
            })
         })
      })
   }"

text \<open>\<open>stack\<close>: the uninitialised array \<open>decrypted_data\<close>.\<close>

definition esl_pawr_sync_work_fn ::
  "'st env \<Rightarrow> (nat \<Rightarrow> inp) \<Rightarrow> inp \<Rightarrow> u8 list \<Rightarrow> 'st tag \<Rightarrow> 'st tag option" where
  "esl_pawr_sync_work_fn e xs x stack s = do {
     let esl_payload_len = (of_nat (z_ead_decrypted_size (zep e) (length (pawr_buf s))) - of_nat AD_HEADER_LEN :: u16);
     data \<leftarrow> z_nb_pull (zep e) (pawr_buf s) 2;
     let (err, plain) = z_ead_decrypt (zep e) (session_key (esl_ap_key s)) (iv (esl_ap_key s)) data;
     decrypted \<leftarrow> wr_mem stack 0 plain;
     (if err \<noteq> 0 then Some s
      else if esl_payload_len \<noteq> 0 then do {
        s1 \<leftarrow> esl_parse_sync_packet e xs x decrypted esl_payload_len s;
        Some (effect (K_work_reschedule Timeout_work (unsynchronized_timeout (cfg e) * 1000))
               (s1\<lparr>timeout_mode := ESL_UNSYNCED_TIMEOUT_MODE\<rparr>))
      }
      else Some s)
   }"

subsection \<open>Well-formedness\<close>

lemma wf_recv_cb:
  assumes "env_ok e" "wf_tag e s"
  shows "yields (recv_cb e ev se d s) (wf_tag e)"
proof -
  have c: "cfg_ok (cfg e)" using assms(1) by (simp add: env_ok_def)
  show ?thesis
    using assms(2) indication_in_range [OF c]
    by (auto simp: recv_cb_def wp intro!: yields_mono [OF wf_led_dwork_reset]
        yields_mono [OF wf_indication_led [OF c]])
qed

lemma wf_rsp_clear: "wf_tag e s \<Longrightarrow> wf_tag e (s\<lparr>ecp_rsp_net_buf := []\<rparr>)"
  by (simp add: wf_rsp_short)

lemma wf_set_pawr_response:
  assumes e: "env_ok e" and wf: "wf_tag e s" and x: "inp_ok x"
  shows "yields (set_pawr_response e x slot s) (\<lambda>t. wf_tag e t \<and> ecp_rsp_net_buf t = [])"
proof -
  note z = env_zep [OF e]
  have f: "length (esl_ad_data s) = 61" "length (ecp_rsp_net_buf s) \<le> 48" "key_ok (esl_rsp_key s)"
    using wf by (simp_all add: wf_tag_def)
  have rnd: "length (in_rand x) = 5" using x by (simp add: inp_ok_def)
  have n: "unat (of_nat (length (ecp_rsp_net_buf s)) :: u8) = length (ecp_rsp_net_buf s)"
    using f(2) by (simp add: unat_of_nat_u8)
  have ok: "wf_tag e (s\<lparr>esl_ad_data := pa, esl_randomizer := r, pa_rsp_len := l, ecp_rsp_net_buf := []\<rparr>)"
    if "length pa = 61" "length r = 5" for pa r l
    using wf that by (simp add: wf_tag_def)
  have comp: "yields (esl_compose_ad_data (zep e) (esl_ad_data s) (ecp_rsp_net_buf s)
      (of_nat (length (ecp_rsp_net_buf s))) (in_rand x) (esl_rsp_key s))
      (\<lambda>(pa', r, l). length pa' = length (esl_ad_data s) \<and> length r = 5)"
    by (rule compose_total [OF z f(3) rnd]) (use n f in simp_all)
  have push: "(effect y t)\<lparr>ecp_rsp_net_buf := b\<rparr> = effect y (t\<lparr>ecp_rsp_net_buf := b\<rparr>)" for y t b
    by (simp add: effect_def)
  show ?thesis
    using wf ok f
    by (auto simp: set_pawr_response_def wp z_nb_remove_eq [OF z] push wf_rsp_clear
        intro!: yields_mono [OF comp])
qed

text \<open>Every TLV from \<open>cur\<close> on ends within the payload.\<close>

function tlvs_complete :: "u8 list \<Rightarrow> nat \<Rightarrow> nat \<Rightarrow> bool" where
  "tlvs_complete mem pl cur =
     (cur < pl \<longrightarrow> cur + ECP_LEN (mem ! cur) \<le> pl \<and> tlvs_complete mem pl (cur + ECP_LEN (mem ! cur)))"
  by pat_completeness auto
termination
  by (relation "measure (\<lambda>(mem, pl, cur). pl - cur)") (simp_all add: ECP_LEN_nibble)

declare tlvs_complete.simps [simp del]

lemma unat_cp_len: "unat (of_nat (ECP_LEN op) :: u16) = ECP_LEN op"
  by (rule unat_ECP_LEN16)

lemma wf_run_tlv:
  assumes "env_ok e" "wf_tag e s" "inp_ok x" "cmd \<noteq> []" "ECP_LEN (cmd ! 0) \<le> length cmd"
  shows "yields (run_tlv e x cmd n s) (wf_tag e)"
  unfolding run_tlv_def
  by (rule wf_command_handler [OF assms(1) _ assms(3)])
    (use assms in \<open>simp_all add: command_in_memory_def\<close>)

lemma wf_parse_tlvs:
  assumes e: "env_ok e" and x: "\<And>i. inp_ok (xs i)" and pl: "pl \<le> length mem"
  shows "tlvs_complete mem pl cur \<Longrightarrow> wf_tag e s \<Longrightarrow>
    yields (parse_tlvs e xs mem pl cur tlv rsp s) (\<lambda>(r, t). wf_tag e t)"
proof (induction "pl - cur" arbitrary: cur tlv rsp s rule: less_induct)
  case less
  show ?case
  proof (cases "cur < pl")
    case False
    then show ?thesis using less.prems by (simp add: parse_tlvs.simps [of e xs mem pl cur])
  next
    case True
    let ?n = "ECP_LEN (mem ! cur)"
    have n: "2 \<le> ?n" by (rule ECP_LEN_ge)
    have fits: "cur + ?n \<le> pl" "tlvs_complete mem pl (cur + ?n)"
      using less.prems(1) True by (simp_all add: tlvs_complete.simps [of mem pl cur])
    have run: "yields (run_tlv e (xs i) (drop cur mem) ?n s) (wf_tag e)" for i
      by (rule wf_run_tlv [OF e less.prems(2) x]) (use True pl fits in \<open>auto simp: ECP_LEN_nibble\<close>)
    have rec: "yields (parse_tlvs e xs mem pl (cur + ?n) (tlv + 1) r t) (\<lambda>(r, t). wf_tag e t)"
      if "wf_tag e t" for r t
      by (rule less.hyps) (use True n fits that in auto)
    show ?thesis
      unfolding parse_tlvs.simps [of e xs mem pl cur]
      using True pl fits n less.prems(2) rec
      by (auto simp: wp Let_def case_prod_unfold intro!: yields_mono [OF run])
  qed
qed

text \<open>A packet of the AP: the ESL element around a group identifier and TLVs.\<close>

definition tlv_ok :: "u8 list \<Rightarrow> bool" where
  "tlv_ok t \<longleftrightarrow> t \<noteq> [] \<and> length t = ECP_LEN (t ! 0)"

definition esl_payload :: "u8 \<Rightarrow> u8 list list \<Rightarrow> u8 list" where
  "esl_payload g ts = g # concat ts"

definition esl_packet :: "u8 \<Rightarrow> u8 list list \<Rightarrow> u8 list" where
  "esl_packet g ts = [of_nat (length (esl_payload g ts) + 1), BT_DATA_ESL] @ esl_payload g ts"

lemma tlv_ok_length: "tlv_ok t \<Longrightarrow> 2 \<le> length t"
  by (simp add: tlv_ok_def ECP_LEN_ge)

lemma nth_drop_append:
  assumes "drop cur mem = t @ rest" "i < length t"
  shows "cur + i < length mem" "mem ! (cur + i) = t ! i"
proof -
  have "length mem - cur = length t + length rest" using assms(1) by (metis length_append length_drop)
  then show lt: "cur + i < length mem" using assms(2) by linarith
  have "mem ! (cur + i) = drop cur mem ! i" using lt by simp
  then show "mem ! (cur + i) = t ! i" using assms by (simp add: nth_append)
qed

lemma drop_past:
  assumes "drop cur mem = t @ rest"
  shows "drop (cur + length t) mem = rest"
proof -
  have "drop (length t + cur) mem = drop (length t) (drop cur mem)" by (simp only: drop_drop)
  then show ?thesis using assms by (simp add: add.commute)
qed

lemma drop_concat_Cons:
  "drop cur mem = concat (t # ts) @ rest \<Longrightarrow> drop (cur + length t) mem = concat ts @ rest"
  using drop_past [of cur mem t "concat ts @ rest"] by simp

lemma tlvs_complete_append:
  "drop cur mem = concat ts @ rest \<Longrightarrow> list_all tlv_ok ts \<Longrightarrow> pl = cur + length (concat ts) \<Longrightarrow>
     tlvs_complete mem pl cur"
proof (induction ts arbitrary: cur)
  case Nil
  then show ?case using tlvs_complete.simps [of mem cur cur] by simp
next
  case (Cons t ts)
  have ok: "tlv_ok t" using Cons.prems(2) by simp
  have d: "drop cur mem = t @ concat ts @ rest" using Cons.prems(1) by simp
  have pos: "0 < length t" using tlv_ok_length [OF ok] by linarith
  have t: "mem ! cur = t ! 0" using nth_drop_append(2) [OF d pos] by simp
  have rec: "tlvs_complete mem pl (cur + length t)"
    by (rule Cons.IH [OF drop_concat_Cons [OF Cons.prems(1)]]) (use Cons.prems in auto)
  have len: "length t = ECP_LEN (t ! 0)" using ok by (simp add: tlv_ok_def)
  show ?case
    unfolding tlvs_complete.simps [of mem pl cur] t len [symmetric]
    using rec Cons.prems(3) by simp
qed

text \<open>One complete TLV at \<open>cur\<close>.\<close>

lemma parse_tlv:
  assumes d: "drop cur mem = t @ rest" and ok: "tlv_ok t" and fit: "cur + length t \<le> pl"
  shows "parse_tlvs e xs mem pl cur tlv rsp s =
    (if addressed (t ! 1) s then do {
       u \<leftarrow> run_tlv e (xs (nat (tlv + 1))) (t @ rest) (length t) s;
       parse_tlvs e xs mem pl (cur + length t) (tlv + 1) (if t ! 1 \<noteq> ESL_ADDR_BROADCAST then tlv + 1 else rsp) u
     } else parse_tlvs e xs mem pl (cur + length t) (tlv + 1) rsp s)"
proof -
  have l: "2 \<le> length t" "ECP_LEN (t ! 0) = length t" using ok by (simp_all add: tlv_ok_def ECP_LEN_ge)
  have "0 < length t" "1 < length t" using l(1) by linarith+
  then have "mem ! cur = t ! 0" "cur < length mem" "mem ! Suc cur = t ! 1" "Suc cur < length mem"
    using nth_drop_append [OF d, of 0] nth_drop_append [OF d, of 1] by simp_all
  then show ?thesis
    unfolding parse_tlvs.simps [of e xs mem pl cur]
    using l fit d by (simp add: Let_def)
qed

text \<open>TLVs of other tags are skipped.\<close>

lemma parse_skip:
  "drop cur mem = concat ts @ rest \<Longrightarrow> list_all (\<lambda>t. tlv_ok t \<and> \<not> addressed (t ! 1) s) ts \<Longrightarrow>
   cur + length (concat ts) \<le> pl \<Longrightarrow>
   parse_tlvs e xs mem pl cur tlv rsp s =
     parse_tlvs e xs mem pl (cur + length (concat ts)) (tlv + int (length ts)) rsp s"
proof (induction ts arbitrary: cur tlv)
  case (Cons t ts)
  have "drop cur mem = t @ concat ts @ rest" using Cons.prems(1) by simp
  from parse_tlv [OF this, of pl e xs tlv rsp s]
    Cons.IH [OF drop_concat_Cons [OF Cons.prems(1)], of "tlv + 1"] Cons.prems(2,3)
  show ?case by (simp add: algebra_simps)
qed simp

lemma parse_end: "pl \<le> cur \<Longrightarrow> parse_tlvs e xs mem pl cur tlv rsp s = Some (rsp, s)"
  by (simp add: parse_tlvs.simps [of e xs mem pl cur])

text \<open>Exactly one TLV of the packet is for this tag.\<close>

lemma parse_one:
  assumes mem: "drop cur mem = concat (pre @ t # post) @ rest"
    and ok: "list_all tlv_ok (pre @ t # post)" and pl: "pl = cur + length (concat (pre @ t # post))"
    and pre: "list_all (\<lambda>t. \<not> addressed (t ! 1) s) pre"
    and t: "t ! 1 = LOW_BYTE (esl_addr s)" "LOW_BYTE (esl_addr s) \<noteq> ESL_ADDR_BROADCAST"
    and run: "run_tlv e (xs (length pre)) (t @ concat post @ rest) (length t) s = Some u"
    and post: "list_all (\<lambda>t. \<not> addressed (t ! 1) u) post"
  shows "parse_tlvs e xs mem pl cur (-1) r s = Some (int (length pre), u)"
proof -
  let ?c1 = "cur + length (concat pre)"
  have d0: "drop cur mem = concat pre @ (t @ concat post @ rest)" using mem by simp
  have d1: "drop ?c1 mem = t @ concat post @ rest"
    by (rule drop_past [OF d0])
  have d2: "drop (?c1 + length t) mem = concat post @ rest"
    by (rule drop_past [OF d1])
  have "parse_tlvs e xs mem pl cur (-1) r s = parse_tlvs e xs mem pl ?c1 (int (length pre) - 1) r s"
    using parse_skip [OF d0, of s pl e xs "-1" r] pre ok pl by (simp add: list_all_iff)
  also have "\<dots> = parse_tlvs e xs mem pl (?c1 + length t) (int (length pre)) (int (length pre)) u"
    using parse_tlv [OF d1, of pl e xs "int (length pre) - 1" r s] ok pl t run by (simp add: addressed_def)
  also have "\<dots> = Some (int (length pre), u)"
    using parse_skip [OF d2, of u pl e xs] post ok pl by (simp add: list_all_iff parse_end)
  finally show ?thesis .
qed

subsection \<open>Whole packets\<close>

text \<open>A legitimate ESL element, in an array that goes on with stale bytes, reaches the TLV loop.\<close>

lemma parse_packet:
  assumes z: "zephyr_ok (zep e)" and n: "length (esl_payload g ts) \<le> 200"
  shows "esl_parse_sync_packet e xs x (esl_packet g ts @ stale) (of_nat (length (esl_packet g ts))) s =
    (if g \<noteq> GROUPID_BYTE (esl_addr s) then Some s
     else do {
       (slot, s1) \<leftarrow> parse_tlvs e xs (esl_payload g ts @ stale) (length (esl_payload g ts)) (Suc 0) (-1) (-1)
          (s\<lparr>ecp_rsp_net_buf := []\<rparr>);
       set_pawr_response e x slot s1
     })"
proof -
  define p where "p = esl_payload g ts"
  obtain q where p: "p = g # q" by (simp add: p_def esl_payload_def)
  have pk: "esl_packet g ts = [of_nat (length p + 1), BT_DATA_ESL] @ p" by (simp add: esl_packet_def p_def)
  have np: "length p \<le> 200" using n by (simp add: p_def)
  have u16: "unat (of_nat (length p + 2) :: u16) = length p + 2"
    using np by (intro unat_of_nat_u16) simp
  have u8: "unat (of_nat (length p + 1) :: u8) = length p + 1"
    using np by (intro unat_of_nat_u8) simp
  have pl: "(of_nat (length p + 1) :: u8) - 1 = of_nat (length p)" by simp
  have pl': "unat (of_nat (length p) :: u8) = length p" using np by (intro unat_of_nat_u8) simp
  show ?thesis
    unfolding esl_parse_sync_packet_def pk p_def [symmetric]
    using u16 u8 pl'
    by (simp add: Let_def z_nb_pull_eq [OF z] z_nb_remove_eq [OF z] p)
qed

lemma wf_parse_packet:
  assumes e: "env_ok e" and x: "\<And>i. inp_ok (xs i)" "inp_ok x" and wf: "wf_tag e s"
    and n: "length (esl_payload g ts) \<le> 200" and ok: "list_all tlv_ok ts"
  shows "yields (esl_parse_sync_packet e xs x (esl_packet g ts @ stale) (of_nat (length (esl_packet g ts))) s)
    (wf_tag e)"
proof -
  let ?p = "esl_payload g ts"
  have d: "drop (Suc 0) (?p @ stale) = concat ts @ stale" by (simp add: esl_payload_def)
  have c: "tlvs_complete (?p @ stale) (length ?p) (Suc 0)"
    by (rule tlvs_complete_append [OF d ok]) (simp add: esl_payload_def)
  have body: "yields (do {
       (slot, s1) \<leftarrow> parse_tlvs e xs (?p @ stale) (length ?p) (Suc 0) (-1) (-1) (s\<lparr>ecp_rsp_net_buf := []\<rparr>);
       set_pawr_response e x slot s1 }) (wf_tag e)"
    using wf by (auto simp: wp wf_rsp_clear intro!: yields_mono [OF wf_parse_tlvs [OF e x(1) _ c]]
        yields_mono [OF wf_set_pawr_response [OF e _ x(2)]])
  show ?thesis
    unfolding parse_packet [OF env_zep [OF e] n]
    using wf body by (cases "g \<noteq> GROUPID_BYTE (esl_addr s)") simp_all
qed

text \<open>Packets in which no TLV is for this tag: only the response buffer is cleared.\<close>

lemma packet_not_addressed:
  assumes z: "zephyr_ok (zep e)" and n: "length (esl_payload g ts) \<le> 200"
    and ts: "g = GROUPID_BYTE (esl_addr s) \<longrightarrow> list_all (\<lambda>t. tlv_ok t \<and> \<not> addressed (t ! 1) s) ts"
  shows "esl_parse_sync_packet e xs x (esl_packet g ts @ stale) (of_nat (length (esl_packet g ts))) s =
    Some (if g = GROUPID_BYTE (esl_addr s) then s\<lparr>ecp_rsp_net_buf := []\<rparr> else s)"
proof -
  let ?s = "s\<lparr>ecp_rsp_net_buf := []\<rparr>" and ?p = "esl_payload g ts"
  have d: "drop (Suc 0) (?p @ stale) = concat ts @ stale" by (simp add: esl_payload_def)
  have none: "g = GROUPID_BYTE (esl_addr s) \<Longrightarrow>
      parse_tlvs e xs (?p @ stale) (length ?p) (Suc 0) (-1) (-1) ?s = Some (-1, ?s)"
  proof -
    assume g: "g = GROUPID_BYTE (esl_addr s)"
    have "list_all (\<lambda>t. tlv_ok t \<and> \<not> addressed (t ! 1) ?s) ts" using ts g by (simp add: addressed_def)
    from parse_skip [OF d this, of "length ?p" e xs "-1" "-1"]
    show "parse_tlvs e xs (?p @ stale) (length ?p) (Suc 0) (-1) (-1) ?s = Some (-1, ?s)"
      by (simp add: esl_payload_def parse_end)
  qed
  show ?thesis
    unfolding parse_packet [OF z n] using none
    by (cases "g = GROUPID_BYTE (esl_addr s)") (simp_all add: set_pawr_response_def z_nb_remove_eq [OF z])
qed

text \<open>Packets in which exactly one TLV is for this tag.\<close>

lemma packet_one:
  assumes z: "zephyr_ok (zep e)" and n: "length (esl_payload g (pre @ t # post)) \<le> 200"
    and g: "g = GROUPID_BYTE (esl_addr s)" and ok: "list_all tlv_ok (pre @ t # post)"
    and pre: "list_all (\<lambda>t. \<not> addressed (t ! 1) s) pre"
    and t: "t ! 1 = LOW_BYTE (esl_addr s)" "LOW_BYTE (esl_addr s) \<noteq> ESL_ADDR_BROADCAST"
    and run: "run_tlv e (xs (length pre)) (t @ concat post @ stale) (length t) (s\<lparr>ecp_rsp_net_buf := []\<rparr>) = Some u"
    and post: "list_all (\<lambda>t. \<not> addressed (t ! 1) u) post"
  shows "esl_parse_sync_packet e xs x (esl_packet g (pre @ t # post) @ stale)
      (of_nat (length (esl_packet g (pre @ t # post)))) s = set_pawr_response e x (int (length pre)) u"
proof -
  let ?s = "s\<lparr>ecp_rsp_net_buf := []\<rparr>" and ?ts = "pre @ t # post"
  let ?p = "esl_payload g ?ts"
  have d: "drop (Suc 0) (?p @ stale) = concat ?ts @ stale" by (simp add: esl_payload_def)
  have "parse_tlvs e xs (?p @ stale) (length ?p) (Suc 0) (-1) (-1) ?s = Some (int (length pre), u)"
    using pre t
    by (intro parse_one [where pre = pre and t = t and post = post and rest = stale and s = ?s
          and xs = xs, OF d ok _ _ _ _ run post])
      (simp_all add: esl_payload_def addressed_def)
  then show ?thesis
    using parse_packet [OF z n, of xs x stale s] g by simp
qed

text \<open>The bytes on the air of an encrypted packet decrypt to the element it was made of.\<close>

definition air_packet :: "('s, 'm) zephyr \<Rightarrow> bt_esl_key_material \<Rightarrow> u8 list \<Rightarrow> u8 list" where
  "air_packet z key plain = [of_nat (length plain + 10), BT_DATA_ENCRYPTED_AD_DATA] @
     snd (z_ead_encrypt z (session_key key) (iv key) plain)"

lemma work_fn_decrypts:
  assumes z: "zephyr_ok (zep e)" and key: "key_ok (esl_ap_key s)"
    and buf: "pawr_buf s = air_packet (zep e) (esl_ap_key s) plain"
    and n: "plain \<noteq> []" "length plain \<le> 61" and stack: "length stack = 61"
  shows "esl_pawr_sync_work_fn e xs x stack s = do {
      s1 \<leftarrow> esl_parse_sync_packet e xs x (plain @ drop (length plain) stack) (of_nat (length plain)) s;
      Some (effect (K_work_reschedule Timeout_work (unsynchronized_timeout (cfg e) * 1000))
             (s1\<lparr>timeout_mode := ESL_UNSYNCED_TIMEOUT_MODE\<rparr>))
    }"
proof -
  let ?c = "snd (z_ead_encrypt (zep e) (session_key (esl_ap_key s)) (iv (esl_ap_key s)) plain)"
  have c: "length ?c = length plain + 9"
    "z_ead_decrypt (zep e) (session_key (esl_ap_key s)) (iv (esl_ap_key s)) ?c = (0, plain)"
    using z_ead_encrypt_length [OF z] z_ead_round_trip [OF z] key by (simp_all add: key_ok_def)
  have nz: "(of_nat (length plain) :: u16) \<noteq> 0"
  proof
    assume "(of_nat (length plain) :: u16) = 0"
    then have "unat (of_nat (length plain) :: u16) = 0" by simp
    then show False using n by (simp add: unat_of_nat)
  qed
  have w: "wr_mem stack 0 plain = Some (plain @ drop (length plain) stack)"
    using n stack by (simp add: wr_mem_def)
  have s: "of_nat (z_ead_decrypted_size (zep e) (length (pawr_buf s))) - 2 = (of_nat (length plain) :: u16)"
    by (simp add: buf air_packet_def c z_ead_decrypted_size_eq [OF z])
  have pull: "z_nb_pull (zep e) (pawr_buf s) 2 = Some ?c"
    by (simp add: buf air_packet_def z_nb_pull_eq [OF z])
  show ?thesis
    unfolding esl_pawr_sync_work_fn_def pull
    using s nz by (simp add: Let_def c w)
qed

text \<open>A longer packet overruns \<open>decrypted_data\<close>, whether or not it is authentic.\<close>

lemma work_fn_overrun:
  assumes z: "zephyr_ok (zep e)" and n: "72 < length (pawr_buf s)" and stack: "length stack = 61"
  shows "esl_pawr_sync_work_fn e xs x stack s = None"
proof -
  have pull: "z_nb_pull (zep e) (pawr_buf s) 2 = Some (drop 2 (pawr_buf s))"
    using n by (simp add: z_nb_pull_eq [OF z])
  have "length (snd (z_ead_decrypt (zep e) k v (drop 2 (pawr_buf s)))) = length (pawr_buf s) - 11" for k v
    by (simp add: z_ead_decrypt_length [OF z])
  then have "wr_mem stack 0 (snd (z_ead_decrypt (zep e) k v (drop 2 (pawr_buf s)))) = None" for k v
    using n stack by (simp add: wr_mem_def)
  then show ?thesis
    unfolding esl_pawr_sync_work_fn_def pull by (simp add: Let_def case_prod_unfold)
qed

text \<open>The response decrypts, under the response key, to the collected TLVs.\<close>

lemma response_decrypts:
  assumes e: "env_ok e" and wf: "wf_tag e s" and x: "inp_ok x" and ne: "ecp_rsp_net_buf s \<noteq> []"
  shows "yields (set_pawr_response e x (int slot) s) (\<lambda>t. \<exists>c.
    trace t = trace s @ [Set_response_data (pawr_event_counter s) (pawr_subevent s) (of_nat slot)
      ([of_nat (length (ecp_rsp_net_buf s) + 12), BT_DATA_ENCRYPTED_AD_DATA] @ c)] \<and>
    z_ead_decrypt (zep e) (session_key (esl_rsp_key s)) (iv (esl_rsp_key s)) c =
      (0, [of_nat (length (ecp_rsp_net_buf s) + 1), BT_DATA_ESL] @ ecp_rsp_net_buf s))"
proof -
  note z = env_zep [OF e]
  let ?r = "ecp_rsp_net_buf s" and ?k = "esl_rsp_key s"
  let ?n = "of_nat (length ?r) :: u8"
  define c where "c = snd (z_ead_encrypt (zep e) (session_key ?k) (iv ?k)
    ([?n + 1, BT_DATA_ESL] @ take (unat ?n) ?r))"
  have f: "length (esl_ad_data s) = 61" "length ?r \<le> 48" "key_ok ?k" using wf by (simp_all add: wf_tag_def)
  have rnd: "length (in_rand x) = 5" using x by (simp add: inp_ok_def)
  have n: "unat ?n = length ?r" using f(2) by (simp add: unat_of_nat_u8)
  have c: "length c = length ?r + 11"
    using z_ead_encrypt_length [OF z, of "session_key ?k" "iv ?k"] f(3) by (simp add: c_def key_ok_def n)
  define r where "r = (in_rand x)[4 := in_rand x ! 4 OR push_bit 7 1]"
  have comp: "esl_compose_ad_data (zep e) (esl_ad_data s) ?r ?n (in_rand x) ?k = Some
     ([?n + 12, BT_DATA_ENCRYPTED_AD_DATA] @ c @ drop (unat ?n + 13) (esl_ad_data s), r, ?n + 13)"
    using compose_ok [OF z f(3) rnd, of ?n ?r "esl_ad_data s"] ne f(1,2) n
    unfolding c_def r_def by simp
  have out: "unat (?n + 13) = length ?r + 13"
    using unat_add_small [of ?n 13] f(2) n by simp
  have dec: "z_ead_decrypt (zep e) (session_key ?k) (iv ?k) c = (0, [?n + 1, BT_DATA_ESL] @ ?r)"
    using z_ead_round_trip [OF z] f(3) n by (simp add: c_def key_ok_def)
  have len: "length ?r + 13 = length ([?n + 12, BT_DATA_ENCRYPTED_AD_DATA] @ c)"
    unfolding length_append c by simp
  have air: "take (unat (?n + 13)) ([?n + 12, BT_DATA_ENCRYPTED_AD_DATA] @ c @ d) =
      [?n + 12, BT_DATA_ENCRYPTED_AD_DATA] @ c" for d
    unfolding out len by simp
  show ?thesis
    unfolding set_pawr_response_def
    by (simp add: comp [simplified] air [simplified] wp z_nb_remove_eq [OF z])
      (use dec in auto)
qed

end
