(* ===== verification/Esl_Gatt.thy ===== *)
theory Esl_Gatt
  imports Esl_Pawr
begin

unbundle bit_operations_syntax

text \<open>
  The GATT characteristics of \<open>service/esl.c\<close>: their read and write functions and the registration
  of their values. A read returns what \<open>bt_gatt_attr_read\<close> gives for the memory behind the
  attribute; a write takes the bytes of the request and the uptime.
\<close>

subsection \<open>Memory behind the attributes\<close>

definition disp_inf_bytes :: "esl_disp_inf \<Rightarrow> u8 list" where
  "disp_inf_bytes d = le16 (disp_width d) @ le16 (disp_height d) @ [disp_type d]"

definition sensor_inf_bytes :: "esl_sensor_inf \<Rightarrow> u8 list" where
  "sensor_inf_bytes si = [sensor_size si] @ le16 (property_id si) @ le16 (sensor_code si)"

subsection \<open>Reads\<close>

definition esl_addr_read :: "'st env \<Rightarrow> nat \<Rightarrow> nat \<Rightarrow> 'st tag \<Rightarrow> int \<times> u8 list" where
  "esl_addr_read e len off s = z_gatt_attr_read (zep e) len off (le16 (esl_addr s))"

definition ap_key_read :: "'st env \<Rightarrow> nat \<Rightarrow> nat \<Rightarrow> 'st tag \<Rightarrow> int \<times> u8 list" where
  "ap_key_read e len off s = z_gatt_attr_read (zep e) len off (key_v (esl_ap_key s))"

definition esl_rsp_key_read :: "'st env \<Rightarrow> nat \<Rightarrow> nat \<Rightarrow> 'st tag \<Rightarrow> int \<times> u8 list" where
  "esl_rsp_key_read e len off s = z_gatt_attr_read (zep e) len off (key_v (esl_rsp_key s))"

text \<open>\<open>user_data\<close> is the attribute's pointer; reading through a null pointer is undefined.\<close>

definition abs_time_read ::
  "'st env \<Rightarrow> u32 option \<Rightarrow> nat \<Rightarrow> nat \<Rightarrow> (int \<times> u8 list) option" where
  "abs_time_read e user_data len off =
     (case user_data of
        None \<Rightarrow> None
      | Some v \<Rightarrow> Some (4, snd (z_gatt_attr_read (zep e) len off (le32 v))))"

text \<open>The bytes of one sensor: none when the size is neither 0 nor 1.\<close>

definition sensor_raw :: "esl_sensor_inf \<Rightarrow> u8 list" where
  "sensor_raw si =
     (if sensor_size si = 0 then take 3 (sensor_inf_bytes si)
      else if sensor_size si = 1 then take 5 (sensor_inf_bytes si)
      else [])"

fun sensors_raw :: "esl_sensor_inf list \<Rightarrow> u8 list" where
  "sensors_raw [] = []"
| "sensors_raw (si # sis) = sensor_raw si @ sensors_raw sis"

definition esl_sensor_read :: "'st env \<Rightarrow> nat \<Rightarrow> nat \<Rightarrow> 'st tag \<Rightarrow> int \<times> u8 list" where
  "esl_sensor_read e len off s = z_gatt_attr_read (zep e) len off (sensors_raw (sensors s))"

definition esl_image_read :: "'st env \<Rightarrow> nat \<Rightarrow> nat \<Rightarrow> 'st tag \<Rightarrow> int \<times> u8 list" where
  "esl_image_read e len off s = (1, snd (z_gatt_attr_read (zep e) len off [max_image_index s]))"

definition esl_disp_read :: "'st env \<Rightarrow> nat \<Rightarrow> nat \<Rightarrow> 'st tag \<Rightarrow> int \<times> u8 list" where
  "esl_disp_read e len off s = z_gatt_attr_read (zep e) len off (concat (map disp_inf_bytes (displays s)))"

definition esl_led_read :: "'st env \<Rightarrow> nat \<Rightarrow> nat \<Rightarrow> 'st tag \<Rightarrow> int \<times> u8 list" where
  "esl_led_read e len off s = z_gatt_attr_read (zep e) len off (led_type s)"

subsection \<open>Writes\<close>

definition set_configuring :: "'st env \<Rightarrow> nat \<Rightarrow> 'st tag \<Rightarrow> 'st tag" where
  "set_configuring e b s = s\<lparr>configuring_state := z_set_bit (zep e) (configuring_state s) b\<rparr>"

text \<open>The end of every write: save unless told to forget, then test for a complete configuration.\<close>

definition finish_write :: "'st env \<Rightarrow> ('st tag \<Rightarrow> int \<times> 'st tag) \<Rightarrow> int \<Rightarrow> 'st tag \<Rightarrow> (int \<times> 'st tag) option" where
  "finish_write e save ret s = do {
     let s1 = (if \<not> forget_provision_data (cfg e) then snd (save s) else s);
     (configured, s2) \<leftarrow> esl_is_configuring_state e s1;
     Some (ret, s2)
   }"

definition esl_addr_write :: "'st env \<Rightarrow> u8 list \<Rightarrow> 'st tag \<Rightarrow> (int \<times> 'st tag) option" where
  "esl_addr_write e buf s = do {
     b \<leftarrow> rd_mem buf 0 2;
     let raw = z_get_le16 (zep e) b;
     let new_esl_addr = (if CHECK_BIT raw ESL_ADDR_RFU_BIT then BIT_UNSET raw ESL_ADDR_RFU_BIT else raw);
     (if LOW_BYTE new_esl_addr = ESL_ADDR_BROADCAST
      then Some (BT_GATT_ERR BT_ATT_ERR_VALUE_NOT_ALLOWED, s)
      else finish_write e (esl_settings_addr_save e) (int ESL_ADDR_LEN)
             (set_configuring e ESL_ADDR_SET_BIT (s\<lparr>esl_addr := new_esl_addr\<rparr>)))
   }"

text \<open>The key material as stored: the session key reversed, the vector as received.\<close>

definition key_of_wire :: "'st env \<Rightarrow> u8 list \<Rightarrow> bt_esl_key_material" where
  "key_of_wire e b =
     (let k = key_of_bytes b in k\<lparr>session_key := z_mem_swap (zep e) (session_key k)\<rparr>)"

definition ap_key_write :: "'st env \<Rightarrow> u8 list \<Rightarrow> 'st tag \<Rightarrow> (int \<times> 'st tag) option" where
  "ap_key_write e buf s = do {
     b \<leftarrow> rd_mem buf 0 EAD_KEY_MATERIAL_LEN;
     finish_write e (esl_settings_ap_key_save e) (int EAD_KEY_MATERIAL_LEN)
       (set_configuring e ESL_AP_SYNC_KEY_SET_BIT (s\<lparr>esl_ap_key := key_of_wire e b\<rparr>))
   }"

definition esl_rsp_key_write :: "'st env \<Rightarrow> u8 list \<Rightarrow> 'st tag \<Rightarrow> (int \<times> 'st tag) option" where
  "esl_rsp_key_write e buf s = do {
     b \<leftarrow> rd_mem buf 0 EAD_KEY_MATERIAL_LEN;
     finish_write e (esl_settings_rsp_key_save e) (int EAD_KEY_MATERIAL_LEN)
       (set_configuring e ESL_RESPONSE_KEY_SET_BIT (s\<lparr>esl_rsp_key := key_of_wire e b\<rparr>))
   }"

definition abs_time_write :: "'st env \<Rightarrow> u32 \<Rightarrow> u8 list \<Rightarrow> 'st tag \<Rightarrow> (int \<times> 'st tag) option" where
  "abs_time_write e now buf s = do {
     b \<leftarrow> rd_mem buf 0 4;
     let new_abs_time = of_le32 b;
     let s1 = esl_abs_time_update now new_abs_time (effect (Printk_num ''#ABS_TIME'' new_abs_time) s);
     finish_write e (esl_settings_abs_save e) 4 (set_configuring e ESL_ABS_TIME_SET_BIT s1)
   }"

definition esl_control_write :: "'st env \<Rightarrow> u8 list \<Rightarrow> 'st tag \<Rightarrow> int \<times> 'st tag" where
  "esl_control_write e buf s =
     (if length buf < 2 then (BT_GATT_ERR BT_ATT_ERR_INVALID_ATTRIBUTE_LEN, s)
      else (int (length buf),
            effect (K_work_submit Ecp_work)
              (s\<lparr>ecp_net_buf := buf, ecp_net_buf_len := of_nat (length buf), ecp_src := ESL_ECP\<rparr>)))"

subsection \<open>Registration\<close>

record bt_esl_init_param =
  ip_displays :: "esl_disp_inf list"
  ip_sensors :: "esl_sensor_inf list"
  ip_sensor_data :: "esl_sensor_data list"
  ip_led_type :: "u8 list"

definition esl_display_register :: "bt_esl_init_param \<Rightarrow> 'st tag \<Rightarrow> 'st tag" where
  "esl_display_register p s = s\<lparr>displays := ip_displays p\<rparr>"

definition esl_sensor_register :: "bt_esl_init_param \<Rightarrow> 'st tag \<Rightarrow> 'st tag" where
  "esl_sensor_register p s = s\<lparr>sensors := ip_sensors p, sensor_data := ip_sensor_data p\<rparr>"

definition esl_led_register :: "'st env \<Rightarrow> bt_esl_init_param \<Rightarrow> 'st tag \<Rightarrow> 'st tag" where
  "esl_led_register e p s = s\<lparr>led_type := take (led_max (cfg e)) (ip_led_type p)\<rparr>"

subsection \<open>Well-formedness\<close>

lemma wf_set_configuring [simp]: "wf_tag e (set_configuring e' b s) = wf_tag e s"
  by (simp add: set_configuring_def)

lemma wf_finish_write:
  assumes "env_ok e" "wf_tag e s" "wf_tag e (snd (save s)) = wf_tag e s"
  shows "yields (finish_write e save ret s) (\<lambda>(r, t). wf_tag e t)"
  using assms by (auto simp: finish_write_def Let_def wp intro!: yields_mono [OF wf_is_configuring])

lemma wf_addr_write:
  "env_ok e \<Longrightarrow> wf_tag e s \<Longrightarrow> 2 \<le> length buf \<Longrightarrow> yields (esl_addr_write e buf s) (\<lambda>(r, t). wf_tag e t)"
  unfolding esl_addr_write_def Let_def by (auto simp: wp intro!: wf_finish_write)

lemma key_ok_wire:
  "zephyr_ok (zep e) \<Longrightarrow> length b = EAD_KEY_MATERIAL_LEN \<Longrightarrow> key_ok (key_of_wire e b)"
  by (simp add: key_of_wire_def key_ok_def key_of_bytes_def Let_def z_mem_swap_eq)

lemma wf_ap_key_write:
  "env_ok e \<Longrightarrow> wf_tag e s \<Longrightarrow> EAD_KEY_MATERIAL_LEN \<le> length buf \<Longrightarrow>
     yields (ap_key_write e buf s) (\<lambda>(r, t). wf_tag e t)"
  unfolding ap_key_write_def
  by (auto simp: wp wf_key_updates key_ok_wire env_zep intro!: wf_finish_write)

lemma wf_rsp_key_write:
  "env_ok e \<Longrightarrow> wf_tag e s \<Longrightarrow> EAD_KEY_MATERIAL_LEN \<le> length buf \<Longrightarrow>
     yields (esl_rsp_key_write e buf s) (\<lambda>(r, t). wf_tag e t)"
  unfolding esl_rsp_key_write_def
  by (auto simp: wp wf_key_updates key_ok_wire env_zep intro!: wf_finish_write)

lemma wf_abs_time_write:
  "env_ok e \<Longrightarrow> wf_tag e s \<Longrightarrow> 4 \<le> length buf \<Longrightarrow> yields (abs_time_write e now buf s) (\<lambda>(r, t). wf_tag e t)"
  unfolding abs_time_write_def Let_def
  by (auto simp: wp esl_abs_time_update_def intro!: wf_finish_write)

lemma wf_control_write: "wf_tag e s \<Longrightarrow> wf_tag e (snd (esl_control_write e buf s))"
  by (simp add: esl_control_write_def)

subsection \<open>The access point parses what the tag serves\<close>

lemma join_bytes: "push_bit 8 (ucast (ucast (drop_bit 8 w) :: u8)) OR ucast (ucast w :: u8) = (w :: u16)"
  by (rule bit_word_eqI) (auto simp: bit_simps simp del: push_bit_Suc drop_bit_Suc)

text \<open>What the parser leaves in an element of its array.\<close>

definition sensor_seen :: "esl_sensor_inf \<Rightarrow> esl_sensor_inf \<Rightarrow> esl_sensor_inf" where
  "sensor_seen old si = old\<lparr>sensor_size := sensor_size si, property_id := property_id si,
     sensor_code := (if sensor_size si = 1 then sensor_code si else sensor_code old)\<rparr>"

definition sensor_ok :: "esl_sensor_inf \<Rightarrow> bool" where
  "sensor_ok si \<longleftrightarrow> sensor_size si = 0 \<or> sensor_size si = 1"

lemma sensor_raw_eq:
  "sensor_size si = 0 \<Longrightarrow> sensor_raw si = [0, ucast (property_id si), ucast (drop_bit 8 (property_id si))]"
  "sensor_size si = 1 \<Longrightarrow> sensor_raw si = [1, ucast (property_id si), ucast (drop_bit 8 (property_id si)),
     ucast (sensor_code si), ucast (drop_bit 8 (sensor_code si))]"
  by (simp_all add: sensor_raw_def sensor_inf_bytes_def le16_def numeral_eq_Suc)

lemma parse_sensor_step:
  assumes raw: "raw = pre @ sensor_raw si @ post" and si: "sensor_ok si"
    and L: "unat L = length raw" and P: "unat P = length pre" and C: "unat C = length dn"
  shows "parse_sensor_loop raw L (dn @ old # rest) P C =
    parse_sensor_loop raw L (dn @ sensor_seen old si # rest) (P + of_nat (length (sensor_raw si))) (C + 1)"
proof -
  from si consider "sensor_size si = 0" | "sensor_size si = 1" by (auto simp: sensor_ok_def)
  then show ?thesis
  proof cases
    case 1
    have lt: "P < L" unfolding word_less_nat_alt L P by (simp add: raw sensor_raw_eq 1)
    have r: "raw ! length pre = 0" "raw ! (length pre + 1) = ucast (property_id si)"
        "raw ! (length pre + 2) = ucast (drop_bit 8 (property_id si))" "length pre + 2 < length raw"
      by (simp_all add: raw sensor_raw_eq 1 nth_append)
    show ?thesis
      using r lt 1 by (subst parse_sensor_loop.simps)
        (simp add: P C Let_def rd_def sensor_seen_def join_bytes sensor_raw_eq nth_append list_update_append)
  next
    case 2
    have lt: "P < L" unfolding word_less_nat_alt L P by (simp add: raw sensor_raw_eq 2)
    have r: "raw ! length pre = 1" "raw ! (length pre + 1) = ucast (property_id si)"
        "raw ! (length pre + 2) = ucast (drop_bit 8 (property_id si))"
        "raw ! (length pre + 3) = ucast (sensor_code si)"
        "raw ! (length pre + 4) = ucast (drop_bit 8 (sensor_code si))" "length pre + 4 < length raw"
      by (simp_all add: raw sensor_raw_eq 2 nth_append)
    show ?thesis
      using r lt 2 by (subst parse_sensor_loop.simps)
        (simp add: P C Let_def rd_def sensor_seen_def join_bytes sensor_raw_eq nth_append list_update_append)
  qed
qed

lemma unat_add16: "unat (P :: u16) + n < 65536 \<Longrightarrow> unat (P + of_nat n) = unat P + n"
  by (simp add: unat_word_ariths unat_of_nat)

lemma parse_sensor_loop_all:
  "list_all sensor_ok sis \<Longrightarrow> raw = pre @ sensors_raw sis \<Longrightarrow> unat L = length raw \<Longrightarrow>
   unat P = length pre \<Longrightarrow> unat C = length dn \<Longrightarrow> length dn + length sis \<le> 255 \<Longrightarrow>
   length olds = length sis \<Longrightarrow>
   parse_sensor_loop raw L (dn @ olds @ rest) P C =
     Some (dn @ map2 sensor_seen olds sis @ rest, C + of_nat (length sis))"
proof (induction sis arbitrary: pre dn olds P C)
  case Nil
  then have "\<not> P < L" by (simp add: word_less_nat_alt)
  then show ?case using Nil by (subst parse_sensor_loop.simps) simp
next
  case (Cons si sis)
  obtain old os where olds: "olds = old # os" "length os = length sis"
    using Cons.prems(7) by (cases olds) auto
  have raw: "raw = (pre @ sensor_raw si) @ sensors_raw sis" using Cons.prems(2) by simp
  have "unat L < 65536" using unsigned_less [of L] by simp
  then have bound: "length pre + length (sensor_raw si) < 65536" using Cons.prems(3) by (simp add: raw)
  have P: "unat (P + of_nat (length (sensor_raw si))) = length (pre @ sensor_raw si)"
    using bound Cons.prems(4) by (simp add: unat_add16)
  have C: "unat (C + 1) = length (dn @ [sensor_seen old si])"
    using Cons.prems(5,6) unat_add_small [of C 1] by simp
  have "parse_sensor_loop raw L (dn @ olds @ rest) P C =
      parse_sensor_loop raw L ((dn @ [sensor_seen old si]) @ os @ rest)
        (P + of_nat (length (sensor_raw si))) (C + 1)"
    using parse_sensor_step [of raw pre si "sensors_raw sis" L P C dn old "os @ rest"] Cons.prems olds by simp
  also have "\<dots> = Some ((dn @ [sensor_seen old si]) @ map2 sensor_seen os sis @ rest, (C + 1) + of_nat (length sis))"
    using Cons.prems by (intro Cons.IH [OF _ raw _ P C]) (auto simp: olds)
  finally show ?case by (simp add: olds add.assoc)
qed

text \<open>A size byte other than 0 and 1: the index stays, the count runs out of the array.\<close>

lemma parse_sensor_stuck:
  assumes "idx < len" "unat idx < length raw" "raw ! unat idx \<noteq> 0" "raw ! unat idx \<noteq> 1"
    and "length arr \<le> 255" "n = length arr - unat count"
  shows "parse_sensor_loop raw len arr idx count = None"
  using assms
proof (induction n arbitrary: arr count)
  case 0
  then show ?case by (subst parse_sensor_loop.simps) (simp add: rd_def Let_def)
next
  case (Suc n)
  then have c: "unat count < length arr" "unat count < 255" by simp_all
  have "unat (count + 1) = unat count + 1" using c by (simp add: unat_word_ariths)
  then have "parse_sensor_loop raw len (arr[unat count := x]) idx (count + 1) = None" for x
    using Suc by (intro Suc.IH) simp_all
  then show ?case
    using Suc.prems c by (subst parse_sensor_loop.simps) (simp add: rd_def Let_def)
qed

end
