(* ===== verification/Esl_Init.thy ===== *)
theory Esl_Init
  imports Esl_Gatt
begin

unbundle bit_operations_syntax

text \<open>
  \<open>bt_esl_init\<close>: the service from zero-initialised memory to a registered service, either
  unassociated or, when the settings hold a complete configuration, unsynchronised. Starting the
  work queues and registering callbacks and attributes with the host has no state here.
\<close>

subsection \<open>Memory before initialisation\<close>

definition zero_key :: bt_esl_key_material where
  "zero_key = key_of_bytes (replicate EAD_KEY_MATERIAL_LEN 0)"

definition zero_led :: led_obj where
  "zero_led = \<lparr>lo_led_type = 0, color_brightness = 0, flash_pattern = replicate ESL_LED_FLASH_PATTERN_LEN 0,
     bit_off_period = 0, bit_on_period = 0, repeat_type = 0, repeat_duration = 0, lo_abs_time = 0\<rparr>"

definition zero_led_dwork :: led_dwork where
  "zero_led_dwork = \<lparr>led_idx = 0, pattern_idx = 0, repeat_counts = 0, stop_abs_time = 0,
     start_abs_time = 0, work_enable = False, led_active = False\<rparr>"

definition zero_display_dwork :: display_dwork where
  "zero_display_dwork = \<lparr>display_idx = 0, disp_img_idx = 0, disp_start_abs_time = 0, disp_active = False\<rparr>"

definition zero_sensor_data :: esl_sensor_data where
  "zero_sensor_data = \<lparr>data_available = False, sd_size = 0, sd_data = replicate ESL_RESPONSE_SENSOR_LEN 0\<rparr>"

text \<open>Static memory, the stored settings and the state behind the callbacks.\<close>

definition static_tag :: "'st env \<Rightarrow> settings \<Rightarrow> 'st \<Rightarrow> 'st tag" where
  "static_tag e stored st = \<lparr>
     esl_addr = 0, esl_rsp_key = zero_key, esl_randomizer = replicate EAD_RANDOMIZER_LEN 0,
     max_image_index = 0,
     displays = replicate (display_max (cfg e)) \<lparr>disp_width = 0, disp_height = 0, disp_type = 0\<rparr>,
     led_objs = replicate (led_max (cfg e)) zero_led, esl_ap_key = zero_key,
     sensors = replicate (sensor_max (cfg e)) \<lparr>sensor_size = 0, property_id = 0, sensor_code = 0\<rparr>,
     led_type = replicate (led_max (cfg e)) 0, connect_from = ACL_NOT_CONNECTED,
     conn = None, ecp_notify_func = Notify_null, ecp_notify_len = 0, basic_state = 0,
     esl_state = SM_UNASSOCIATED, configuring_state = 0,
     resp = \<lparr>resp_op = 0, error_code = 0, resp_idx = 0, resp_img_idx = 0\<rparr>,
     esl_ecp_resp_needed = False, esl_sm_timeout_update_needed = False,
     led_dworks = replicate (led_max (cfg e)) zero_led_dwork,
     display_works = replicate (display_max (cfg e)) zero_display_dwork,
     sensor_data = replicate (sensor_max (cfg e)) zero_sensor_data, busy = False,
     stored_image_size = replicate (image_max (cfg e)) 0,
     img_object_names = replicate (image_max (cfg e)) [],
     img_obj_buf = replicate (image_buffer_size (cfg e)) 0,
     adv_mode = ESL_ADV_DEMO, ecp_src = ESL_ECP, timeout_mode = ESL_UNSYNCED_TIMEOUT_MODE,
     abs_time_anchor = 0, sync_timeout_count = 0, acl_timeout_count = 0, pawr_sync = None,
     sync_count = 0, response_slot_delay = 0, pawr_event_counter = 0, pawr_subevent = 0, pawr_buf = [],
     sm_cur = SM_UNASSOCIATED, esl_ad_data = replicate ESL_ENCRTYPTED_DATA_MAX_LEN 0, pa_rsp_len = 0,
     ecp_rsp_net_buf = [], ecp_net_buf = [], ecp_net_buf_len = 0, ecp_rsp_last_tlv_len = 0,
     auth_conn = None, obj_cnt = 0, object_being_created = None, settings_store = stored,
     storage = st, trace = []\<rparr>"

subsection \<open>Initialisation\<close>

text \<open>
  The loop over \<open>module_init\<close>. \<open>err\<close> starts uninitialised: testing it before an initialisation
  function has returned is undefined. The second result is the code of the loop.
\<close>

fun module_inits :: "int option list \<Rightarrow> int option \<Rightarrow> int option" where
  "module_inits [] err = Some 0"
| "module_inits (f # fs) err =
     (case (case f of None \<Rightarrow> err | Some r \<Rightarrow> Some r) of
        None \<Rightarrow> None
      | Some r \<Rightarrow> if r \<noteq> 0 then Some r else module_inits fs (Some r))"

definition worker_init :: "'st env \<Rightarrow> 'st tag \<Rightarrow> 'st tag option" where
  "worker_init e s = do {
     s1 \<leftarrow> led_dwork_init e s;
     s2 \<leftarrow> display_dwork_init e s1;
     Some (s2\<lparr>pa_rsp_len := of_nat ESL_ENCRTYPTED_DATA_MAX_LEN\<rparr>)
   }"

text \<open>Registration of the characteristics, up to \<open>woker_init\<close>.\<close>

definition init_registers :: "'st env \<Rightarrow> bt_esl_init_param \<Rightarrow> 'st tag \<Rightarrow> 'st tag" where
  "init_registers e p s =
     (let s1 = (esl_display_register p (s\<lparr>busy := False\<rparr>))\<lparr>max_image_index := of_nat (image_max (cfg e) - 1)\<rparr>;
          s2 = (if 0 < sensor_max (cfg e) then esl_sensor_register p s1 else s1);
          s3 = (if cond_service_required (cfg e)
                then basic_bit e (z_set_bit (zep e)) ESL_SERVICE_NEEDED_BIT s2 else s2)
      in if 0 < led_max (cfg e) then esl_led_register e p s3 else s3)"

text \<open>What the platform answers during initialisation.\<close>

record init_results =
  ir_order :: "string list" \<comment> \<open>order of the stored settings\<close>
  ir_subsys :: int
  ir_register :: int
  ir_load :: int
  ir_ots_free :: bool
  ir_ots_init :: int
  ir_service :: int

text \<open>The end of \<open>bt_esl_init\<close>: start unassociated, or unsynchronised when already configured.\<close>

definition init_state :: "'st env \<Rightarrow> 'st tag \<Rightarrow> 'st tag option" where
  "init_state e s = do {
     (configured, s1) \<leftarrow> esl_is_configuring_state e (s\<lparr>sync_count := 0, response_slot_delay := 0\<rparr>);
     (if \<not> configured then Some (display_unassociated e s1)
      else bt_esl_state_transition e SM_UNSYNCHRONIZED (display_associated e s1))
   }"

definition bt_esl_init ::
  "'st env \<Rightarrow> bt_esl_init_param \<Rightarrow> init_results \<Rightarrow> 'st tag \<Rightarrow> (int \<times> 'st tag) option" where
  "bt_esl_init e p r s = do {
     let s0 = s\<lparr>basic_state := 0, configuring_state := 0\<rparr>;
     err \<leftarrow> module_inits [cb_display_init (cbs e), cb_led_init (cbs e), cb_sensor_init (cbs e)] None;
     (if err \<noteq> 0 then Some (err, s0)
      else do {
        s1 \<leftarrow> worker_init e (init_registers e p s0);
        s2 \<leftarrow> z_smf_set_initial (zep e) (sm_entry e) (\<lambda>m s. s\<lparr>sm_cur := m\<rparr>) SM_UNASSOCIATED s1;
        let (err1, s3) = esl_settings_init e (ir_order r) (ir_subsys r) (ir_register r) (ir_load r)
                           (esl_init_provisioned_data s2);
        (if err1 \<noteq> 0 then Some (err1, s3)
         else do {
           s4 \<leftarrow> image_size_init e s3;
           (err2, s5) \<leftarrow> ots_init_func e (ir_ots_free r) (ir_ots_init r) s4;
           (if err2 \<noteq> 0 then Some (err2, s5)
            else do {
              s6 \<leftarrow> init_state e s5;
              Some (ir_service r, s6)
            })
         })
      })
   }"

subsection \<open>Well-formedness\<close>

definition init_param_ok :: "'st env \<Rightarrow> bt_esl_init_param \<Rightarrow> bool" where
  "init_param_ok e p \<longleftrightarrow>
     length (ip_displays p) = display_max (cfg e) \<and> length (ip_sensors p) = sensor_max (cfg e) \<and>
     length (ip_sensor_data p) = sensor_max (cfg e) \<and> list_all sensor_data_ok (ip_sensor_data p) \<and>
     length (ip_led_type p) = led_max (cfg e)"

text \<open>
  The loops over the work items write nothing but the items and the trace; they give every item
  its index.
\<close>

lemma led_dwork_init_items:
  assumes "length (led_dworks s) = led_max (cfg e)"
  shows "yields (led_dwork_init e s) (\<lambda>t. \<exists>ds tr. t = s\<lparr>led_dworks := ds, trace := tr\<rparr> \<and>
    length ds = led_max (cfg e) \<and>
    (\<forall>k < led_max (cfg e). led_idx (ds ! k) = of_nat k \<and> pattern_idx (ds ! k) = 0))"
proof -
  let ?I = "\<lambda>i t. \<exists>ds tr. t = s\<lparr>led_dworks := ds, trace := tr\<rparr> \<and> length ds = led_max (cfg e) \<and>
    (\<forall>k < i. led_idx (ds ! k) = of_nat k \<and> pattern_idx (ds ! k) = 0)"
  have "yields (led_dwork_init e s) (?I (0 + led_max (cfg e)))"
    unfolding led_dwork_init_def
  proof (rule for_loop_inv, goal_cases)
    case (1 i t)
    then obtain ds tr where t: "t = s\<lparr>led_dworks := ds, trace := tr\<rparr>" "length ds = led_max (cfg e)"
      "\<forall>k < i. led_idx (ds ! k) = of_nat k \<and> pattern_idx (ds ! k) = 0" by blast
    then show ?case
      using 1(2) by (auto simp: wp led_dwork_reset_def effect_def nth_list_update less_Suc_eq)
  next
    case 2
    have "s = s\<lparr>led_dworks := led_dworks s, trace := trace s\<rparr>" by simp
    then show ?case using assms by blast
  qed
  then show ?thesis by simp
qed

lemma display_dwork_init_items:
  assumes "length (display_works s) = display_max (cfg e)"
  shows "yields (display_dwork_init e s) (\<lambda>t. \<exists>ds tr. t = s\<lparr>display_works := ds, trace := tr\<rparr> \<and>
    length ds = display_max (cfg e) \<and>
    (\<forall>k < display_max (cfg e). display_idx (ds ! k) = of_nat k))"
proof -
  let ?I = "\<lambda>i t. \<exists>ds tr. t = s\<lparr>display_works := ds, trace := tr\<rparr> \<and> length ds = display_max (cfg e) \<and>
    (\<forall>k < i. display_idx (ds ! k) = of_nat k)"
  have "yields (display_dwork_init e s) (?I (0 + display_max (cfg e)))"
    unfolding display_dwork_init_def
  proof (rule for_loop_inv, goal_cases)
    case (1 i t)
    then obtain ds tr where t: "t = s\<lparr>display_works := ds, trace := tr\<rparr>" "length ds = display_max (cfg e)"
      "\<forall>k < i. display_idx (ds ! k) = of_nat k" by blast
    then show ?case
      using 1(2) by (auto simp: wp display_dwork_reset_def effect_def nth_list_update less_Suc_eq)
  next
    case 2
    have "s = s\<lparr>display_works := display_works s, trace := trace s\<rparr>" by simp
    then show ?case using assms by blast
  qed
  then show ?thesis by simp
qed

text \<open>What registration leaves: everything of the well-formedness that is not a work item's.\<close>

definition registered :: "'st env \<Rightarrow> 'st tag \<Rightarrow> bool" where
  "registered e s \<longleftrightarrow> (\<forall>ls ds tr. length ls = led_max (cfg e) \<longrightarrow> length ds = display_max (cfg e) \<longrightarrow>
     (\<forall>k < led_max (cfg e). led_idx (ls ! k) = of_nat k \<and> pattern_idx (ls ! k) = 0) \<longrightarrow>
     (\<forall>k < display_max (cfg e). display_idx (ds ! k) = of_nat k) \<longrightarrow>
     wf_tag e (s\<lparr>led_dworks := ls, display_works := ds, trace := tr\<rparr>))"

lemma zero_lengths [simp]: "key_ok zero_key" "led_obj_ok zero_led" "sensor_data_ok zero_sensor_data"
  by (simp_all add: zero_key_def zero_led_def led_obj_ok_def zero_sensor_data_def sensor_data_ok_def)

lemma registered_registers:
  assumes "cfg_ok (cfg e)" "init_param_ok e p"
  shows "registered e (init_registers e p ((static_tag e stored st)\<lparr>basic_state := 0, configuring_state := 0\<rparr>))"
  using assms
  by (auto simp: registered_def init_registers_def static_tag_def Let_def wf_tag_def cfg_ok_def
      init_param_ok_def esl_display_register_def esl_sensor_register_def esl_led_register_def
      basic_bit_def list_all_length)

lemma wf_worker_init:
  assumes "registered e s" "length (led_dworks s) = led_max (cfg e)"
    "length (display_works s) = display_max (cfg e)"
  shows "yields (worker_init e s) (wf_tag e)"
  unfolding worker_init_def yields_bind
proof (rule yields_mono [OF led_dwork_init_items [OF assms(2)]], goal_cases)
  case (1 t)
  then obtain ls tr where t: "t = s\<lparr>led_dworks := ls, trace := tr\<rparr>" "length ls = led_max (cfg e)"
    "\<forall>k < led_max (cfg e). led_idx (ls ! k) = of_nat k \<and> pattern_idx (ls ! k) = 0" by blast
  have "length (display_works t) = display_max (cfg e)" using assms(3) by (simp add: t(1))
  then show ?case
    by (rule yields_mono [OF display_dwork_init_items])
      (use assms(1) t(2,3) in \<open>auto simp: registered_def t(1)\<close>)
qed

lemma init_register_lengths:
  "length (led_dworks (init_registers e p s)) = length (led_dworks s)"
  "length (display_works (init_registers e p s)) = length (display_works s)"
  by (simp_all add: init_registers_def Let_def esl_display_register_def esl_sensor_register_def
      esl_led_register_def basic_bit_def)

lemma wf_static:
  assumes "cfg_ok (cfg e)" "init_param_ok e p"
  shows "yields (worker_init e (init_registers e p ((static_tag e stored st)\<lparr>basic_state := 0,
    configuring_state := 0\<rparr>))) (wf_tag e)"
  by (rule wf_worker_init [OF registered_registers [OF assms]])
    (simp_all add: init_register_lengths static_tag_def)

lemma wf_init_state:
  assumes "env_ok e" "wf_tag e s"
  shows "yields (init_state e s) (wf_tag e)"
  using assms
  by (auto simp: init_state_def wp intro!: yields_mono [OF wf_is_configuring] wf_transition)

lemma wf_ots_init:
  "zephyr_ok (zep e) \<Longrightarrow> wf_tag e s \<Longrightarrow> yields (ots_init_func e got err s) (\<lambda>(r, t). wf_tag e t)"
  by (auto simp: ots_init_func_def wp intro!: yields_mono [OF wf_ots_create_obj])

text \<open>With at least one initialisation function every start is defined.\<close>

lemma module_inits_defined: "err \<noteq> None \<Longrightarrow> module_inits fs err \<noteq> None"
  by (induction fs arbitrary: err) (auto split: option.split)

lemma wf_bt_esl_init:
  assumes e: "env_ok e" and p: "init_param_ok e p"
    and f: "module_inits [cb_display_init (cbs e), cb_led_init (cbs e), cb_sensor_init (cbs e)] None = Some 0"
  shows "yields (bt_esl_init e p r (static_tag e stored st))
    (\<lambda>(err, s). err = 0 \<longrightarrow> wf_tag e s)"
proof -
  have c: "cfg_ok (cfg e)" and z: "zephyr_ok (zep e)" using e by (simp_all add: env_ok_def)
  show ?thesis
    unfolding bt_esl_init_def Let_def f yields_bind yields_Some
    by (auto simp: wp case_prod_unfold wf_settings_init z_smf_set_initial_eq [OF z]
        sm_unassociated_entry_def
        intro!: yields_mono [OF wf_static [OF c p]]
          yields_mono [OF wf_image_size_init] yields_mono [OF wf_ots_init [OF z]] yields_mono [OF wf_init_state [OF e]])
qed

end
