(* ===== verification/Esl_Bytes.thy ===== *)
theory Esl_Bytes
  imports Esl_Pawr
begin

unbundle bit_operations_syntax

text \<open>
  Commands whose bytes may not all be there. A command that is written has the length its op code announces or is refused, but
  the control point runs the last TLV of a packet before its length is compared with what is left (\<open>esl_parse_sync_packet\<close> in
  \<open>service/esl.c\<close>), so the memory it runs on may end anywhere. This theory says how many bytes a command reads, that it is undefined
  exactly when fewer are there, and that well-formedness is kept whenever it is defined.
\<close>

subsection \<open>How far a command reads\<close>

text \<open>The op codes of the switch; any other one that is marked as vendor specific is given to the application.\<close>

definition esl_ops :: "u8 list" where
  "esl_ops = [OP_PING, OP_UNASSOCIATE, OP_SERVICE_RESET, OP_FACTORY_RESET, OP_UPDATE_COMPLETE, OP_READ_SENSOR_DATA,
     OP_REFRESH_DISPLAY, OP_DISPLAY_IMAGE, OP_DISPLAY_TIMED_IMAGE, OP_LED_CONTROL, OP_LED_TIMED_CONTROL]"

definition vendor_command :: "'st env \<Rightarrow> u8 \<Rightarrow> bool" where
  "vendor_command e op \<longleftrightarrow> op \<notin> set esl_ops \<and> op AND OP_VENDOR_SPECIFIC_STATE_MASK \<noteq> 0 \<and>
     cb_vs_command_handler (cbs e) \<noteq> None"

text \<open>The LED commands look at the index before they go on.\<close>

definition dispatch_reads :: "'st env \<Rightarrow> u8 \<Rightarrow> u8 list \<Rightarrow> nat" where
  "dispatch_reads e op mem =
     (if op \<in> {OP_READ_SENSOR_DATA, OP_REFRESH_DISPLAY} then 3
      else if op = OP_DISPLAY_IMAGE then 4
      else if op = OP_DISPLAY_TIMED_IMAGE then 8
      else if op \<in> {OP_LED_CONTROL, OP_LED_TIMED_CONTROL}
      then (if 4 \<le> length mem \<and> unat (mem ! 2) < led_max (cfg e) then ECP_LEN op else 4)
      else 2)"

text \<open>A command of a wrong length or an unsupported vendor is refused by its op code, one for another tag by its identifier.\<close>

definition command_reads :: "'st env \<Rightarrow> u8 list \<Rightarrow> nat \<Rightarrow> 'st tag \<Rightarrow> nat" where
  "command_reads e mem n s =
     (let op = mem ! 0
      in if mem = [] \<or> n \<noteq> ECP_LEN op \<or>
           op AND OP_VENDOR_SPECIFIC_STATE_MASK = OP_VENDOR_SPECIFIC_STATE_MASK \<and> \<not> vendor_specific_support (cfg e) then 1
         else if length mem < 2 \<or> \<not> addressed (mem ! 1) s \<or> busy s then 2
         else dispatch_reads e op mem)"

subsection \<open>The commands that read arguments\<close>

lemma defined_from:
  fixes k n :: nat
  assumes "k \<le> n \<Longrightarrow> yields m P" "n < k \<Longrightarrow> m = None"
  shows "ensures m P \<and> (m = None \<longleftrightarrow> n < k)"
proof (cases "k \<le> n")
  case True
  then show ?thesis using yields_total [OF assms(1)] yields_ensures [OF assms(1)] by auto
next
  case False
  then show ?thesis using assms(2) by simp
qed

lemma partial_read_sensor:
  "wf_tag e s \<Longrightarrow> ensures (ecp_read_sensor e s) (wf_tag e) \<and> (ecp_read_sensor e s = None \<longleftrightarrow> length (ecp_net_buf s) < 3)"
  by (intro defined_from wf_read_sensor) (simp_all add: ecp_read_sensor_def rd_def)

lemma partial_refresh_display:
  "wf_tag e s \<Longrightarrow> ensures (ecp_refresh_display e s) (wf_tag e) \<and> (ecp_refresh_display e s = None \<longleftrightarrow> length (ecp_net_buf s) < 3)"
  by (intro defined_from wf_refresh_display) (simp_all add: ecp_refresh_display_def rd_def)

lemma partial_display_image:
  "cfg_ok (cfg e) \<Longrightarrow> wf_tag e s \<Longrightarrow>
     ensures (ecp_display_image e s) (wf_tag e) \<and> (ecp_display_image e s = None \<longleftrightarrow> length (ecp_net_buf s) < 4)"
  by (intro defined_from wf_display_image) (simp_all add: ecp_display_image_def rd_def)

lemma partial_display_timed:
  "env_ok e \<Longrightarrow> wf_tag e s \<Longrightarrow>
     ensures (ecp_display_timed e x s) (wf_tag e) \<and> (ecp_display_timed e x s = None \<longleftrightarrow> length (ecp_net_buf s) < 8)"
  by (intro defined_from wf_display_timed) (simp_all add: ecp_display_timed_def rd_def rd_mem_def)

text \<open>An LED that exists: all the bytes are read. One that does not: the index and the colour are.\<close>

lemma short_store_led: "length (ecp_net_buf s) < 13 \<Longrightarrow> ecp_store_led i c s = None"
  by (auto simp: ecp_store_led_def rd_def rd_mem_def bind_eq_None_conv)

lemma store_led_short [simp]:
  "length (ecp_net_buf s) < 13 \<Longrightarrow> Option.bind (ecp_store_led i c s) f = None"
  by (simp add: short_store_led)

lemma partial_led_control:
  assumes "wf_tag e s"
  shows "ensures (ecp_led_control e s) (wf_tag e) \<and>
    (ecp_led_control e s = None \<longleftrightarrow> length (ecp_net_buf s) < dispatch_reads e OP_LED_CONTROL (ecp_net_buf s))"
proof -
  let ?b = "ecp_net_buf s" and ?k = "dispatch_reads e OP_LED_CONTROL (ecp_net_buf s)"
  have ok: "yields (ecp_led_control e s) (wf_tag e)" if "?k \<le> length ?b"
  proof (cases "unat (?b ! 2) < led_max (cfg e)")
    case True
    then show ?thesis using that by (intro wf_led_control [OF assms]) (auto simp: dispatch_reads_def ECP_LEN_nibble split: if_splits)
  next
    case False
    then show ?thesis using that assms by (auto simp: ecp_led_control_def dispatch_reads_def Let_def wp)
  qed
  have bad: "ecp_led_control e s = None" if "length ?b < ?k"
    using that by (auto simp: ecp_led_control_def dispatch_reads_def rd_def Let_def ECP_LEN_nibble split: if_splits)
  show ?thesis by (rule defined_from [OF ok bad])
qed

lemma partial_led_timed:
  assumes "env_ok e" "wf_tag e s"
  shows "ensures (ecp_led_timed e x s) (wf_tag e) \<and>
    (ecp_led_timed e x s = None \<longleftrightarrow> length (ecp_net_buf s) < dispatch_reads e OP_LED_TIMED_CONTROL (ecp_net_buf s))"
proof -
  let ?b = "ecp_net_buf s" and ?k = "dispatch_reads e OP_LED_TIMED_CONTROL (ecp_net_buf s)"
  have ok: "yields (ecp_led_timed e x s) (wf_tag e)" if "?k \<le> length ?b"
  proof (cases "unat (?b ! 2) < led_max (cfg e)")
    case True
    then show ?thesis using that by (intro wf_led_timed [OF assms]) (auto simp: dispatch_reads_def ECP_LEN_nibble split: if_splits)
  next
    case False
    then show ?thesis using that assms by (auto simp: ecp_led_timed_def dispatch_reads_def Let_def wp)
  qed
  have bad: "ecp_led_timed e x s = None" if "length ?b < ?k"
    using that by (auto simp: ecp_led_timed_def dispatch_reads_def rd_def rd_mem_def Let_def ECP_LEN_nibble split: if_splits)
  show ?thesis by (rule defined_from [OF ok bad])
qed

lemma partial_default:
  assumes "wf_tag e s"
  shows "ensures (ecp_default e op s) (wf_tag e)"
    "op \<notin> set esl_ops \<Longrightarrow> \<not> vendor_command e op \<Longrightarrow> ecp_default e op s \<noteq> None"
  using assms
  by (auto simp: ecp_default_def wlp case_prod_unfold vendor_command_def split: option.splits intro!: ensuresI)

text \<open>The commands without arguments.\<close>

lemma total_commands:
  assumes "env_ok e" "wf_tag e s"
  shows "ecp_unassociate e i s \<noteq> None" "ecp_service_reset e s \<noteq> None" "ecp_factory_reset e i s \<noteq> None"
    "ecp_update_complete e s \<noteq> None"
  using yields_total [OF wf_unassociate_op [OF assms(2)]] yields_total [OF wf_service_reset [OF assms(2)]]
    yields_total [OF wf_factory_reset_op [OF assms]] yields_total [OF wf_update_complete [OF assms]]
  by blast+

subsection \<open>The handler\<close>

lemma wlp_dispatch:
  assumes "env_ok e" "wf_tag e s"
  shows "ensures (ecp_dispatch e x op i s) (wf_tag e)"
proof -
  have c: "cfg_ok (cfg e)" using assms(1) by (simp add: env_ok_def)
  note wf = assms(2)
  show ?thesis
    unfolding ecp_dispatch_def
    using partial_read_sensor [OF wf] partial_refresh_display [OF wf] partial_display_image [OF c wf]
      partial_display_timed [OF assms, of x] partial_led_control [OF wf] partial_led_timed [OF assms, of x]
      partial_default(1) [OF wf, of op] yields_ensures [OF wf_unassociate_op [OF wf, of i]]
      yields_ensures [OF wf_service_reset [OF wf]] yields_ensures [OF wf_factory_reset_op [OF assms, of i]]
      yields_ensures [OF wf_update_complete [OF assms]] wf
    by simp
qed

lemma dispatch_defined:
  assumes "env_ok e" "wf_tag e s" "2 \<le> length (ecp_net_buf s)" "\<not> vendor_command e op"
  shows "ecp_dispatch e x op i s = None \<longleftrightarrow> length (ecp_net_buf s) < dispatch_reads e op (ecp_net_buf s)"
proof -
  have c: "cfg_ok (cfg e)" using assms(1) by (simp add: env_ok_def)
  note wf = assms(2)
  have 2: "\<not> length (ecp_net_buf s) < 2" using assms(3) by simp
  show ?thesis
  proof (cases "op \<in> set esl_ops")
    case True
    then consider "op \<in> {OP_READ_SENSOR_DATA, OP_REFRESH_DISPLAY}" | "op = OP_DISPLAY_IMAGE" | "op = OP_DISPLAY_TIMED_IMAGE"
      | "op = OP_LED_CONTROL" | "op = OP_LED_TIMED_CONTROL"
      | "op \<in> {OP_PING, OP_UNASSOCIATE, OP_SERVICE_RESET, OP_FACTORY_RESET, OP_UPDATE_COMPLETE}"
      by (auto simp: esl_ops_def)
    then show ?thesis
    proof cases
      case 1 then show ?thesis
        using partial_read_sensor [OF wf] partial_refresh_display [OF wf] by (auto simp: ecp_dispatch_def dispatch_reads_def)
    next
      case 2 then show ?thesis using partial_display_image [OF c wf] by (simp add: ecp_dispatch_def dispatch_reads_def)
    next
      case 3 then show ?thesis
        using partial_display_timed [OF assms(1,2), of x] by (simp add: ecp_dispatch_def dispatch_reads_def)
    next
      case 4 then show ?thesis using partial_led_control [OF wf] by (simp add: ecp_dispatch_def)
    next
      case 5 then show ?thesis using partial_led_timed [OF assms(1,2), of x] by (simp add: ecp_dispatch_def)
    next
      case 6 then show ?thesis
        using total_commands [OF assms(1,2)] 2 by (auto simp: ecp_dispatch_def dispatch_reads_def)
    qed
  next
    case False
    then show ?thesis
      using partial_default(2) [OF wf False assms(4)] 2 by (simp add: ecp_dispatch_def dispatch_reads_def esl_ops_def)
  qed
qed

text \<open>The handler does not mind where the command ends as long as what it reads is there.\<close>

lemma wlp_command_handler:
  assumes e: "env_ok e" and wf: "wf_tag e s" and x: "inp_ok x"
  shows "ensures (ecp_command_handler e x s) (wf_tag e)"
proof -
  define s1 where "s1 = resp_basic (s\<lparr>ecp_notify_func := Notify_null, esl_ecp_resp_needed := True\<rparr>)"
  have s1: "wf_tag e s1" "resp_ok e s1" using wf by (simp_all add: s1_def)
  have err: "ensures (ecp_response_handler e x src (resp_err c s1)) (wf_tag e)" for src c
    by (rule yields_ensures, rule wf_response_handler [OF e _ _ x]) (simp_all add: s1)
  have run: "ensures (ecp_dispatch e x op i s2) (\<lambda>t. ensures (ecp_response_handler e x (ecp_src t) t) (wf_tag e))"
    if "wf_tag e s2" "resp_ok e s2" for s2 i op
    using wlp_dispatch [OF e that(1), of x op i] dispatch_resp_ok [OF env_zep [OF e] that(2), of x op i]
      wf_response_handler [OF e _ _ x, THEN yields_ensures]
    by (auto simp: ensures_def [of "ecp_dispatch _ _ _ _ _"])
  have chk: "wf_tag e (snd (check_ecp_esl_id i s1))" "resp_ok e (snd (check_ecp_esl_id i s1))" for i
    using s1 by (simp_all add: check_ecp_esl_id_def)
  show ?thesis
    unfolding ecp_command_handler_def Let_def s1_def [symmetric]
    using s1 err run [OF chk] chk wf_response_handler [OF e chk x, THEN yields_ensures]
    by (simp add: wlp case_prod_unfold)
qed

lemma command_handler_reads:
  assumes e: "env_ok e" and wf: "wf_tag e s" and x: "inp_ok x" and v: "\<not> vendor_command e (ecp_net_buf s ! 0)"
  shows "ecp_command_handler e x s = None \<longleftrightarrow>
    length (ecp_net_buf s) < command_reads e (ecp_net_buf s) (unat (ecp_net_buf_len s)) s"
proof -
  let ?b = "ecp_net_buf s" and ?op = "ecp_net_buf s ! 0"
  define s1 where "s1 = resp_basic (s\<lparr>ecp_notify_func := Notify_null, esl_ecp_resp_needed := True\<rparr>)"
  have s1: "wf_tag e s1" "resp_ok e s1" "ecp_net_buf s1 = ?b" "ecp_net_buf_len s1 = ecp_net_buf_len s"
      "esl_addr s1 = esl_addr s" "busy s1 = busy s" "resp_op (resp s1) = OP_BASIC_STATE"
    using wf by (simp_all add: s1_def) (simp_all add: resp_basic_def)
  have total: "ecp_response_handler e x src t \<noteq> None" if "wf_tag e t" "resp_ok e t" for src t
    by (rule yields_total [OF wf_response_handler [OF e that x]])
  have err: "ecp_response_handler e x src (resp_err c s1) \<noteq> None" for src c
    by (rule total) (simp_all add: s1)
  have retry: "ecp_response_handler e x src ((resp_err c s1)\<lparr>busy := False\<rparr>) \<noteq> None" for src c
    by (rule total) (simp_all add: s1)
  have run: "Option.bind (ecp_dispatch e x ?op i s1) (\<lambda>t. ecp_response_handler e x (ecp_src t) t) = None \<longleftrightarrow>
      length ?b < dispatch_reads e ?op ?b" if "2 \<le> length ?b" for i
    using dispatch_defined [OF e s1(1) _ v, of x i] that s1(3) total
      ensuresD [OF wlp_dispatch [OF e s1(1)], of x ?op i] dispatch_resp_ok [OF env_zep [OF e] s1(2), of x ?op i]
    by (cases "ecp_dispatch e x ?op i s1") auto
  note unf = ecp_command_handler_def Let_def s1_def [symmetric] command_reads_def
  consider (empty) "?b = []"
    | (refused) "?b \<noteq> []" "unat (ecp_net_buf_len s) \<noteq> ECP_LEN ?op \<or>
        ?op AND OP_VENDOR_SPECIFIC_STATE_MASK = OP_VENDOR_SPECIFIC_STATE_MASK \<and> \<not> vendor_specific_support (cfg e)"
    | (read) "?b \<noteq> []" "unat (ecp_net_buf_len s) = ECP_LEN ?op"
        "\<not> (?op AND OP_VENDOR_SPECIFIC_STATE_MASK = OP_VENDOR_SPECIFIC_STATE_MASK \<and> \<not> vendor_specific_support (cfg e))"
    by blast
  then show ?thesis
  proof cases
    case empty
    then show ?thesis unfolding unf by (simp add: rd_def)
  next
    case refused
    then have "\<exists>y. ecp_command_handler e x s = Some y"
      unfolding unf using err s1(4) by (auto simp: rd_def)
    then show ?thesis using refused by (auto simp: command_reads_def Let_def Suc_le_eq not_less)
  next
    case read
    have op: "rd ?b 0 = Some ?op" using read(1) by simp
    have h: "ecp_command_handler e x s = do {
        esl_id \<leftarrow> rd ?b 1;
        let (r, s2) = check_ecp_esl_id esl_id s1;
        (if r \<noteq> 0 then Some s2
         else do {
           s3 \<leftarrow> (if resp_op (resp s2) \<noteq> OP_ERR then ecp_dispatch e x ?op esl_id s2 else Some s2);
           ecp_response_handler e x (ecp_src s3) s3 }) }"
      unfolding unf op using read(2,3) s1(3,4) by auto
    have k: "command_reads e ?b (unat (ecp_net_buf_len s)) s =
        (if length ?b < 2 \<or> \<not> addressed (?b ! 1) s \<or> busy s then 2 else dispatch_reads e ?op ?b)"
      unfolding command_reads_def Let_def using read by auto
    consider "length ?b < 2" | "2 \<le> length ?b" "\<not> addressed (?b ! 1) s" | "2 \<le> length ?b" "addressed (?b ! 1) s" "busy s"
      | "2 \<le> length ?b" "addressed (?b ! 1) s" "\<not> busy s" by fastforce
    then show ?thesis
    proof cases
      case 1 then show ?thesis unfolding h k by (simp add: rd_def)
    next
      case 2 then show ?thesis
        unfolding h k by (simp add: rd_def check_ecp_esl_id_def addressed_def s1(5))
    next
      case 3
      then have c: "check_ecp_esl_id (?b ! 1) s1 = (0, (resp_err ERR_RETRY s1)\<lparr>busy := False\<rparr>)"
        by (auto simp: check_ecp_esl_id_def addressed_def s1(5,6))
      show ?thesis
        unfolding h k using 3 retry by (simp add: rd_def c [unfolded One_nat_def]) (simp add: resp_err_def)
    next
      case 4
      then have c: "check_ecp_esl_id (?b ! 1) s1 = (0, s1)"
        by (auto simp: check_ecp_esl_id_def addressed_def s1(5,6))
      show ?thesis unfolding h k using 4 run by (simp add: rd_def c [unfolded One_nat_def] s1(7))
    qed
  qed
qed

subsection \<open>Packets of any content\<close>

lemma wlp_run_tlv:
  "env_ok e \<Longrightarrow> wf_tag e s \<Longrightarrow> inp_ok x \<Longrightarrow> ensures (run_tlv e x cmd n s) (wf_tag e)"
  unfolding run_tlv_def by (rule wlp_command_handler) simp_all

lemma run_tlv_reads:
  assumes "env_ok e" "wf_tag e s" "inp_ok x" "\<not> vendor_command e (cmd ! 0)" "n < 65536"
  shows "run_tlv e x cmd n s = None \<longleftrightarrow> length cmd < command_reads e cmd n s"
proof -
  let ?t = "effect (K_work_submit Ecp_work) (s\<lparr>ecp_net_buf := cmd, ecp_net_buf_len := of_nat n, ecp_src := ESL_PAWR\<rparr>)"
  have f: "wf_tag e ?t" "ecp_net_buf ?t = cmd" "ecp_net_buf_len ?t = of_nat n"
    using assms(2) by simp_all
  have r: "command_reads e cmd n ?t = command_reads e cmd n s"
    by (simp add: command_reads_def addressed_def effect_def Let_def cong: if_cong)
  show ?thesis
    using command_handler_reads [OF assms(1) f(1) assms(3)] assms(4)
    by (simp add: run_tlv_def f(2,3) unat_of_nat_u16 [OF assms(5)] r del: effect_net_buf)
qed

lemma parse_tlvs_ensures:
  assumes run: "\<And>i cmd n s. I s \<Longrightarrow> ensures (run_tlv e (xs i) cmd n s) I"
  shows "I s \<Longrightarrow> ensures (parse_tlvs e xs mem pl cur tlv rsp s) (\<lambda>(r, t). I t)"
proof (induction "pl - cur" arbitrary: cur tlv rsp s rule: less_induct)
  case less
  let ?n = "ECP_LEN (mem ! cur)"
  have n: "2 \<le> ?n" by (rule ECP_LEN_ge)
  have rec: "cur < pl \<Longrightarrow> I t \<Longrightarrow> ensures (parse_tlvs e xs mem pl (cur + ?n) (tlv + 1) r t) (\<lambda>(r, t). I t)" for r t
    by (rule less.hyps) (use n in auto)
  show ?case
    unfolding parse_tlvs.simps [of e xs mem pl cur]
    using less.prems rec
    by (auto simp: wlp Let_def case_prod_unfold intro!: ensures_mono [OF run])
qed

text \<open>Whatever is kept by the commands, by the buffer of the responses, by sending them and by the timeout is kept by a packet.\<close>

lemma parse_packet_ensures:
  assumes "zephyr_ok (zep e)" "\<And>i cmd n s. I s \<Longrightarrow> ensures (run_tlv e (xs i) cmd n s) I"
    "\<And>s. I s \<Longrightarrow> I (s\<lparr>ecp_rsp_net_buf := []\<rparr>)" "\<And>s slot. I s \<Longrightarrow> ensures (set_pawr_response e x slot s) I" "I s"
  shows "ensures (esl_parse_sync_packet e xs x mem len s) I"
  using assms(5)
  by (auto simp: esl_parse_sync_packet_def wlp Let_def case_prod_unfold z_nb_remove_eq [OF assms(1)] assms(3,4)
      intro!: ensuresI [of "z_nb_pull _ _ _"] ensures_mono [OF parse_tlvs_ensures [OF assms(2)]])

lemma work_fn_ensures:
  assumes "zephyr_ok (zep e)" "\<And>i cmd n s. I s \<Longrightarrow> ensures (run_tlv e (xs i) cmd n s) I"
    "\<And>s. I s \<Longrightarrow> I (s\<lparr>ecp_rsp_net_buf := []\<rparr>)" "\<And>s slot. I s \<Longrightarrow> ensures (set_pawr_response e x slot s) I"
    "\<And>s y m. I s \<Longrightarrow> I (effect y (s\<lparr>timeout_mode := m\<rparr>))" "I s"
  shows "ensures (esl_pawr_sync_work_fn e xs x stack s) I"
  using assms(6)
  by (auto simp: esl_pawr_sync_work_fn_def wlp Let_def case_prod_unfold assms(5)
      intro!: ensuresI [of "z_nb_pull _ _ _"] ensures_mono [OF parse_packet_ensures [OF assms(1-4)]])

lemma wlp_work_fn:
  assumes "env_ok e" "\<forall>i. inp_ok (xs i)" "inp_ok x" "wf_tag e s"
  shows "ensures (esl_pawr_sync_work_fn e xs x stack s) (wf_tag e)"
  by (rule work_fn_ensures [where I = "wf_tag e"])
    (use assms in \<open>auto simp: env_zep wf_rsp_clear intro!: wlp_run_tlv yields_ensures [OF yields_mono [OF wf_set_pawr_response]]\<close>)

end
