(* ===== verification/Shell_Text.thy ===== *)
theory Shell_Text
  imports Text_Format
begin

text \<open>
  The numbers on a command line of the consoles: \<open>strtol\<close>, \<open>strtoul\<close> and \<open>strtoull\<close> of the C library with no end pointer, in
  base 10 or 16, where \<open>long\<close> has 32 bits. White space, a sign and in base 16 the prefix \<open>0x\<close> are
  skipped, the number ends at the first character that is not a digit, and too large a number becomes the largest.
  The arguments of a command are a list of strings, the name of the command first.
\<close>

subsection \<open>Reading\<close>

definition is_space :: "char \<Rightarrow> bool" where
  "is_space c \<longleftrightarrow> c = CHR 0x20 \<or> of_char c \<in> {9 .. 13 :: nat}"

definition digit_value :: "nat \<Rightarrow> char \<Rightarrow> nat option" where
  "digit_value base c = (case hex_value c of Some v \<Rightarrow> (if v < base then Some v else None) | None \<Rightarrow> None)"

fun number_from :: "nat \<Rightarrow> nat \<Rightarrow> string \<Rightarrow> nat" where
  "number_from base acc [] = acc"
| "number_from base acc (c # cs) = (case digit_value base c of None \<Rightarrow> acc | Some v \<Rightarrow> number_from base (acc * base + v) cs)"

fun skip_prefix :: "nat \<Rightarrow> string \<Rightarrow> string" where
  "skip_prefix base (a # b # cs) = (if base = 16 \<and> a = CHR ''0'' \<and> (b = CHR ''x'' \<or> b = CHR ''X'') then cs else a # b # cs)"
| "skip_prefix base cs = cs"

fun split_sign :: "string \<Rightarrow> bool \<times> string" where
  "split_sign (c # cs) = (if c = CHR ''-'' then (True, cs) else if c = CHR ''+'' then (False, cs) else (False, c # cs))"
| "split_sign [] = (False, [])"

definition read_number :: "nat \<Rightarrow> string \<Rightarrow> bool \<times> nat" where
  "read_number base cs = (let (neg, ds) = split_sign (dropWhile is_space cs) in (neg, number_from base 0 (skip_prefix base ds)))"

definition c_strtol :: "nat \<Rightarrow> string \<Rightarrow> int" where
  "c_strtol base cs = (let (neg, n) = read_number base cs in if neg then max (- (2 ^ 31)) (- int n) else min (2 ^ 31 - 1) (int n))"

definition c_strtou :: "nat \<Rightarrow> nat \<Rightarrow> string \<Rightarrow> int" where
  "c_strtou width base cs =
     (let (neg, n) = read_number base cs
      in if 2 ^ width \<le> n then 2 ^ width - 1 else if neg then (- int n) mod 2 ^ width else int n)"

abbreviation (input) c_strtoul :: "nat \<Rightarrow> string \<Rightarrow> int" where "c_strtoul \<equiv> c_strtou 32"
abbreviation (input) c_strtoull :: "nat \<Rightarrow> string \<Rightarrow> int" where "c_strtoull \<equiv> c_strtou 64"

subsection \<open>Arguments\<close>

abbreviation (input) ENOEXEC :: int where "ENOEXEC \<equiv> 8"

type_synonym argv = "string list"

text \<open>Too few arguments are refused; \<open>argc\<close> counts the name of the command.\<close>

definition with_args :: "nat \<Rightarrow> argv \<Rightarrow> 'a \<Rightarrow> (int \<times> 'a) option \<Rightarrow> (int \<times> 'a) option" where
  "with_args n argv s m = (if length argv < n then Some (- ENOEXEC, s) else m)"

definition hex_arg :: "argv \<Rightarrow> nat \<Rightarrow> int option" where
  "hex_arg argv i = map_option (c_strtol 16) (rd argv i)"

definition ul_arg :: "nat \<Rightarrow> argv \<Rightarrow> nat \<Rightarrow> int option" where
  "ul_arg base argv i = map_option (c_strtoul base) (rd argv i)"

subsection \<open>What is typed is read\<close>

text \<open>Decimal numbers as \<open>%u\<close> writes them.\<close>

fun dec_num :: "nat \<Rightarrow> string" where
  "dec_num n = (if n < 10 then [lower_digits ! n] else dec_num (n div 10) @ [lower_digits ! (n mod 10)])"

declare dec_num.simps [simp del]

lemma digit_lower: "n < base \<Longrightarrow> base \<le> 16 \<Longrightarrow> digit_value base (lower_digits ! n) = Some n"
  by (simp add: digit_value_def hex_value_digit)

lemma digit_hex: "digits_ok ds \<Longrightarrow> n < 16 \<Longrightarrow> digit_value 16 (ds ! n) = Some n"
  by (simp add: digit_value_def hex_value_digit)

lemma number_dec: "number_from 10 0 (dec_num n @ cs) = number_from 10 n cs"
proof (induction n arbitrary: cs rule: dec_num.induct)
  case (1 n)
  show ?case
    by (cases "n < 10") (use 1 in \<open>simp_all add: dec_num.simps [of n] digit_lower\<close>)
qed

lemma number_hex: "digits_ok ds \<Longrightarrow> number_from 16 0 (hex_num ds n @ cs) = number_from 16 n cs"
proof (induction ds n arbitrary: cs rule: hex_num.induct)
  case (1 ds n)
  show ?case
    by (cases "n < 16") (use 1 in \<open>simp_all add: hex_num.simps [of _ n] digit_hex\<close>)
qed

lemma number_zeros: "1 < base \<Longrightarrow> number_from base 0 (replicate k CHR ''0'' @ cs) = number_from base 0 cs"
proof (induction k)
  case (Suc k)
  have "hex_value CHR ''0'' = Some 0" by (simp add: hex_value_def lower_digits_def upt_rec)
  then show ?case using Suc by (simp add: digit_value_def)
qed simp

text \<open>A number that starts with a digit has no white space, no sign and, when its second character is a digit, no prefix.\<close>

definition all_digits :: "string \<Rightarrow> bool" where
  "all_digits cs \<longleftrightarrow> list_all (\<lambda>c. hex_value c \<noteq> None) cs"

lemma digit_no_space:
  assumes "hex_value c \<noteq> None"
  shows "\<not> is_space c \<and> c \<noteq> CHR ''-'' \<and> c \<noteq> CHR ''+'' \<and> c \<noteq> CHR ''x'' \<and> c \<noteq> CHR ''X''"
proof -
  have "c \<in> set lower_digits \<union> set upper_digits"
    using assms by (auto simp: hex_value_def map_add_def dest!: map_of_SomeD set_zip_leftD split: option.splits)
  then show ?thesis by (auto simp: lower_digits_def upper_digits_def is_space_def)
qed

lemma read_digits: "all_digits cs \<Longrightarrow> read_number base cs = (False, number_from base 0 cs)"
proof -
  assume a: "all_digits cs"
  have "dropWhile is_space cs = cs" "split_sign cs = (False, cs)" "skip_prefix base cs = cs"
    using a digit_no_space by (cases cs rule: split_sign.cases; auto simp: all_digits_def)
      (use a digit_no_space in \<open>cases "(base, cs)" rule: skip_prefix.cases; auto simp: all_digits_def\<close>)+
  then show ?thesis by (simp add: read_number_def)
qed

lemma digits_nth: "digits_ok ds \<Longrightarrow> n < 16 \<Longrightarrow> hex_value (ds ! n) \<noteq> None"
  by (simp add: hex_value_digit)

lemma all_digits_simps [simp]:
  "all_digits (cs @ ds) \<longleftrightarrow> all_digits cs \<and> all_digits ds" "all_digits [c] \<longleftrightarrow> hex_value c \<noteq> None"
  by (auto simp: all_digits_def)

lemma all_digits_hex: "digits_ok ds \<Longrightarrow> all_digits (hex_num ds n)"
proof (induction ds n rule: hex_num.induct)
  case (1 ds n)
  then show ?case by (cases "n < 16") (simp_all add: hex_num.simps [of _ n] digits_nth del: not_None_eq)
qed

lemma all_digits_dec: "all_digits (dec_num n)"
proof (induction n rule: dec_num.induct)
  case (1 n)
  then show ?case by (cases "n < 10") (simp_all add: dec_num.simps [of n] digits_nth del: not_None_eq)
qed

lemma all_digits_format: "digits_ok ds \<Longrightarrow> all_digits (format_hex ds w n)"
proof -
  have "hex_value CHR ''0'' \<noteq> None" by (simp add: hex_value_def lower_digits_def upt_rec)
  then have "all_digits (replicate k CHR ''0'')" for k by (simp add: all_digits_def list_all_iff)
  then show "digits_ok ds \<Longrightarrow> all_digits (format_hex ds w n)" by (simp add: format_hex_def all_digits_hex)
qed

lemma read_format: "digits_ok ds \<Longrightarrow> read_number 16 (format_hex ds w n) = (False, n)"
  using number_hex [of ds n "[]"] by (simp add: read_digits all_digits_format) (simp add: format_hex_def number_zeros)

lemma read_dec: "read_number 10 (dec_num n) = (False, n)"
  using number_dec [of n "[]"] by (simp add: read_digits all_digits_dec)

lemma strtol_hex: "digits_ok ds \<Longrightarrow> n < 2 ^ 31 \<Longrightarrow> c_strtol 16 (format_hex ds w n) = int n"
  by (simp add: c_strtol_def read_format)

lemma strtou_hex: "digits_ok ds \<Longrightarrow> n < 2 ^ k \<Longrightarrow> c_strtou k 16 (format_hex ds w n) = int n"
  by (simp add: c_strtou_def read_format)

lemma strtou_dec: "n < 2 ^ k \<Longrightarrow> c_strtou k 10 (dec_num n) = int n"
  by (simp add: c_strtou_def read_dec)

text \<open>Words of up to 16 bits survive being typed in base 16.\<close>

abbreviation typed :: "'a :: len word \<Rightarrow> string" where
  "typed w \<equiv> format_hex lower_digits 0 (unat w)"

lemma typed_u8: "of_int (c_strtol 16 (typed (w :: u8))) = w"
proof -
  have "unat w < 2 ^ 31" by (rule less_trans [OF unsigned_less]) simp
  then have "c_strtol 16 (typed w) = int (unat w)" by (rule strtol_hex [OF digits_ok_cases(1)])
  then show ?thesis by simp
qed

lemma typed_u16: "of_int (c_strtol 16 (typed (w :: u16))) = w"
proof -
  have "unat w < 2 ^ 31" by (rule less_trans [OF unsigned_less]) simp
  then have "c_strtol 16 (typed w) = int (unat w)" by (rule strtol_hex [OF digits_ok_cases(1)])
  then show ?thesis by simp
qed

end
