(* ===== verification/Esl_Shell.thy ===== *)
theory Esl_Shell
  imports Esl_Ecp Shell_Text
begin

unbundle bit_operations_syntax

text \<open>
  The console of the tag, \<open>service/esl_shell.c\<close>. A command takes its arguments, the name first; its value is its code and the
  new state. What a command prints is left out, and with it the commands that only print. An argument that is not there is
  \<open>None\<close>, as it is a null pointer, and so is an index or a bit outside of its array or word.
\<close>

subsection \<open>State and settings\<close>

text \<open>The state table has one entry per state; the number that is typed is its index.\<close>

definition esl_states :: "BT_ESL_STATE list" where
  "esl_states = [SM_UNASSOCIATED, SM_CONFIGURING, SM_CONFIGURED, SM_SYNCHRONIZED, SM_UPDATING, SM_UNSYNCHRONIZED]"

definition cmd_esl_state :: "'st env \<Rightarrow> argv \<Rightarrow> 'st tag \<Rightarrow> (int \<times> 'st tag) option" where
  "cmd_esl_state e argv s =
     (if 2 \<le> length argv then do {
        t \<leftarrow> rd argv 1;
        m \<leftarrow> rd esl_states (unat (of_int (c_strtol 10 t) :: u8));
        map_option (Pair 0) (bt_esl_state_transition e m s)
      } else Some (0, s))"

definition cmd_esl_unbond :: "'st tag \<Rightarrow> (int \<times> 'st tag) option" where
  "cmd_esl_unbond s = Some (0, effect Bt_unpair_all s)"

definition cmd_esl_unassociated :: "'st env \<Rightarrow> 'st tag \<Rightarrow> (int \<times> 'st tag) option" where
  "cmd_esl_unassociated e s = map_option (Pair 0) (bt_esl_unassociate e s)"

definition cmd_esl_factory_reset :: "'st env \<Rightarrow> 'st tag \<Rightarrow> (int \<times> 'st tag) option" where
  "cmd_esl_factory_reset e s = map_option (Pair 0) (bt_esl_factory_reset e s)"

definition cmd_esl_disconnect :: "'st tag \<Rightarrow> (int \<times> 'st tag) option" where
  "cmd_esl_disconnect s = Some (0, bt_esl_disconnect s)"

text \<open>A bit of an atomic variable of 32 bits; a higher one is in the memory behind it.\<close>

definition write_bit :: "'st env \<Rightarrow> bool \<Rightarrow> u8 \<Rightarrow> u32 \<Rightarrow> u32 option" where
  "write_bit e on b v =
     (if 32 \<le> unat b then None
      else Some ((if on then z_set_bit (zep e) else z_clear_bit (zep e)) v (unat b)))"

definition cmd_set_esl_basic :: "'st env \<Rightarrow> argv \<Rightarrow> 'st tag \<Rightarrow> (int \<times> 'st tag) option" where
  "cmd_set_esl_basic e argv s = with_args 3 argv s (do {
     b \<leftarrow> ul_arg 10 argv 1;
     val \<leftarrow> ul_arg 10 argv 2;
     v \<leftarrow> write_bit e ((of_int val :: u8) = 1) (of_int b) (basic_state s);
     Some (0, s\<lparr>basic_state := v\<rparr>) })"

definition cmd_esl_addr :: "'st env \<Rightarrow> argv \<Rightarrow> 'st tag \<Rightarrow> (int \<times> 'st tag) option" where
  "cmd_esl_addr e argv s =
     (if 2 \<le> length argv then do {
        a \<leftarrow> ul_arg 16 argv 1;
        Some (0, snd (esl_settings_addr_save e (s\<lparr>esl_addr := of_int a\<rparr>)))
      } else Some (0, s))"

definition cmd_esl_adv :: "'st env \<Rightarrow> argv \<Rightarrow> 'st tag \<Rightarrow> (int \<times> 'st tag) option" where
  "cmd_esl_adv e argv s = with_args 2 argv s (do {
     onoff \<leftarrow> ul_arg 10 argv 1;
     (if (of_int onoff :: u8) \<noteq> 0 then Some (0, bt_esl_adv_start ESL_ADV_DEFAULT s)
      else map_option (Pair 0) (bt_esl_adv_stop e s)) })"

definition cmd_esl_busy :: "'st tag \<Rightarrow> (int \<times> 'st tag) option" where
  "cmd_esl_busy s = Some (0, s\<lparr>busy := True\<rparr>)"

definition cmd_esl_abs :: "inp \<Rightarrow> argv \<Rightarrow> 'st tag \<Rightarrow> (int \<times> 'st tag) option" where
  "cmd_esl_abs x argv s =
     (if length argv < 2 then Some (0, s)
      else do {
        t \<leftarrow> ul_arg 10 argv 1;
        let new_abs_time = (of_int t :: u32);
        Some (if new_abs_time < - 1 then (0, esl_abs_time_update (in_now x) new_abs_time s) else (- ENOEXEC, s)) })"

definition cmd_esl_configuring :: "'st env \<Rightarrow> argv \<Rightarrow> 'st tag \<Rightarrow> (int \<times> 'st tag) option" where
  "cmd_esl_configuring e argv s =
     (if 3 \<le> length argv then do {
        b \<leftarrow> hex_arg argv 1;
        on_off \<leftarrow> hex_arg argv 2;
        v \<leftarrow> write_bit e ((of_int on_off :: u8) = 1) (of_int b) (configuring_state s);
        Some (0, s\<lparr>configuring_state := v\<rparr>)
      } else Some (0, s))"

subsection \<open>LEDs, displays and sensors\<close>

text \<open>Switching an LED off also stops its work item; the index is that of the array, whatever it is.\<close>

definition cmd_esl_led :: "'st env \<Rightarrow> argv \<Rightarrow> 'st tag \<Rightarrow> (int \<times> 'st tag) option" where
  "cmd_esl_led e argv s = with_args 4 argv s (do {
     i \<leftarrow> ul_arg 16 argv 1;
     color \<leftarrow> ul_arg 16 argv 2;
     onoff \<leftarrow> ul_arg 10 argv 3;
     let led = (of_int i :: u8);
     let on = (of_int onoff :: u8) \<noteq> 0;
     let s1 = effect (Led_control led (of_int color) on) s;
     (if on then Some (0, s1)
      else do {
        s2 \<leftarrow> led_dwork_upd (unat led) (\<lambda>d. d\<lparr>work_enable := False, led_active := False\<rparr>) s1;
        map_option (Pair 0) (bt_esl_basic_state_update e s2) }) })"

definition cmd_esl_display :: "'st env \<Rightarrow> argv \<Rightarrow> 'st tag \<Rightarrow> (int \<times> 'st tag) option" where
  "cmd_esl_display e argv s = with_args 4 argv s (do {
     d \<leftarrow> ul_arg 16 argv 1;
     img \<leftarrow> ul_arg 16 argv 2;
     onoff \<leftarrow> ul_arg 10 argv 3;
     Some (0, if cb_display_control (cbs e)
       then effect (Display_control (of_int d) (of_int img) ((of_int onoff :: u8) \<noteq> 0)) s else s) })"

text \<open>The callbacks for text on a display, over the state of the displays; they may not be registered.\<close>

record 'd font_callbacks =
  font_print :: "(string \<Rightarrow> u16 \<Rightarrow> u16 \<Rightarrow> 'd \<Rightarrow> (int \<times> 'd) option) option"
  font_clear :: "('d \<Rightarrow> (int \<times> 'd) option) option"
  font_update :: "('d \<Rightarrow> (int \<times> 'd) option) option"

definition called_back :: "(int \<times> 'd) option \<Rightarrow> (int \<times> 'd) option" where
  "called_back m = map_option (\<lambda>(ret, d). (if ret \<noteq> 0 then - ENOEXEC else 0, d)) m"

definition cmd_esl_print_on_display :: "'d font_callbacks \<Rightarrow> argv \<Rightarrow> 'd \<Rightarrow> (int \<times> 'd) option" where
  "cmd_esl_print_on_display cb argv d = with_args 3 argv d (do {
     x \<leftarrow> ul_arg 16 argv 1;
     y \<leftarrow> ul_arg 16 argv 2;
     (case font_print cb of
        None \<Rightarrow> Some (- ENOEXEC, d)
      | Some f \<Rightarrow> do {
          text \<leftarrow> rd argv 3;
          called_back (f text (ucast (of_int x :: u8)) (ucast (of_int y :: u8)) d) }) })"

definition cmd_esl_clear_display :: "'d font_callbacks \<Rightarrow> 'd \<Rightarrow> (int \<times> 'd) option" where
  "cmd_esl_clear_display cb d = (case font_clear cb of None \<Rightarrow> Some (- ENOEXEC, d) | Some f \<Rightarrow> called_back (f d))"

definition cmd_esl_update_display :: "'d font_callbacks \<Rightarrow> 'd \<Rightarrow> (int \<times> 'd) option" where
  "cmd_esl_update_display cb d = (case font_update cb of None \<Rightarrow> Some (- ENOEXEC, d) | Some f \<Rightarrow> called_back (f d))"

definition cmd_esl_sensor :: "'st env \<Rightarrow> inp \<Rightarrow> argv \<Rightarrow> 'st tag \<Rightarrow> (int \<times> 'st tag) option" where
  "cmd_esl_sensor e x argv s = with_args 2 argv s (do {
     i \<leftarrow> ul_arg 16 argv 1;
     (case cb_sensor_control (cbs e) of
        None \<Rightarrow> Some (0, s)
      | Some ctl \<Rightarrow> do {
          (ret, len, data, sd, fx) \<leftarrow> ctl (of_int i) (in_sensor_len x) (in_sensor_data x) (sensor_data s);
          Some (0, s\<lparr>sensor_data := sd, trace := trace s @ fx\<rparr>) }) })"

subsection \<open>Pairing and security\<close>

definition cmd_esl_accept_pair :: "argv \<Rightarrow> 'st tag \<Rightarrow> (int \<times> 'st tag) option" where
  "cmd_esl_accept_pair argv s = with_args 2 argv s (do {
     accept \<leftarrow> ul_arg 10 argv 1;
     c \<leftarrow> auth_conn s;
     let s1 = effect (if (of_int accept :: u8) \<noteq> 0 then Auth_confirm c else Auth_cancel c) s;
     Some (0, (effect Bt_conn_unref s1)\<lparr>auth_conn := None\<rparr>) })"

abbreviation (input) BT_SECURITY_L2 :: u16 where "BT_SECURITY_L2 \<equiv> 2"
abbreviation (input) BT_SECURITY_FORCE_PAIR :: u16 where "BT_SECURITY_FORCE_PAIR \<equiv> 0x80"

text \<open>The security of the connection is read first, so there must be one. The level is the first argument of at least two.\<close>

definition cmd_esl_security :: "argv \<Rightarrow> 'st tag \<Rightarrow> (int \<times> 'st tag) option" where
  "cmd_esl_security argv s = do {
     c \<leftarrow> conn s;
     (if 2 < length argv then do {
        l \<leftarrow> hex_arg argv 1;
        let level = (of_int l :: u16);
        Some (0, effect (Set_security c (if level = BT_SECURITY_L2 then level OR BT_SECURITY_FORCE_PAIR else level)) s)
      } else Some (0, s)) }"

subsection \<open>Images\<close>

text \<open>
  Read part of an image for its checksum. The index is passed where an object identifier is expected, whose low byte is the
  same. The bytes of a checksum are those of the image buffer; when there is no such image the pointer to them is not set.
\<close>

definition checked_part :: "'st env \<Rightarrow> u16 \<Rightarrow> int \<Rightarrow> nat \<Rightarrow> 'st tag \<Rightarrow> 'st tag option" where
  "checked_part e i off len s = do {
     (r, d, s1) \<leftarrow> ots_obj_cal_checksum e (ucast i) off len s;
     bytes \<leftarrow> d;
     p \<leftarrow> rd_mem bytes 0 len;
     Some s1 }"

text \<open>The loop over the chunks of an image in a file; \<open>left\<close> may wrap in its first round.\<close>

partial_function (option) dump_chunks :: "'st env \<Rightarrow> u8 \<Rightarrow> u32 \<Rightarrow> u32 \<Rightarrow> u32 \<Rightarrow> 'st tag \<Rightarrow> 'st tag option" where
  "dump_chunks e i left chunk cur_pos s =
     (if left = 0 then Some s
      else do {
        s1 \<leftarrow> checked_part e (ucast i) (sint cur_pos) (unat chunk) s;
        let left1 = left - chunk;
        dump_chunks e i left1 (if left1 < chunk then left1 else chunk) (cur_pos + chunk) s1 })"

definition stored_size :: "'st env \<Rightarrow> u8 \<Rightarrow> 'st tag \<Rightarrow> u32" where
  "stored_size e i s = cb_read_img_size (cbs e) i (storage s)"

text \<open>\<open>nvs\<close> says that images are in the NVS. An index that is refused is used all the same.\<close>

definition cmd_esl_img_dump :: "'st env \<Rightarrow> bool \<Rightarrow> argv \<Rightarrow> 'st tag \<Rightarrow> (int \<times> 'st tag) option" where
  "cmd_esl_img_dump e nvs argv s = with_args 2 argv s (do {
     t \<leftarrow> ul_arg 10 argv 1;
     let i = (of_int t :: u8);
     let left = stored_size e i s;
     map_option (Pair 0)
       (if nvs then checked_part e (ucast i) 0 (unat left) s
        else dump_chunks e i left (of_nat (image_buffer_size (cfg e))) 0 s) })"

definition cmd_esl_obj_checksum :: "'st env \<Rightarrow> argv \<Rightarrow> 'st tag \<Rightarrow> (int \<times> 'st tag) option" where
  "cmd_esl_obj_checksum e argv s = with_args 2 argv s (do {
     t \<leftarrow> hex_arg argv 1;
     let i = (of_int t :: u16);
     map_option (Pair 0) (checked_part e i 0 (unat (stored_size e (ucast i) s)) s) })"

subsection \<open>The commands\<close>

text \<open>The table of the commands modelled, without those of the displays' text.\<close>

definition esl_commands :: "'st env \<Rightarrow> inp \<Rightarrow> bool \<Rightarrow> (string \<times> (argv \<Rightarrow> 'st tag \<Rightarrow> (int \<times> 'st tag) option)) list" where
  "esl_commands e x nvs = [
     (''state'', cmd_esl_state e), (''unassociated'', \<lambda>_. cmd_esl_unassociated e), (''factory'', \<lambda>_. cmd_esl_factory_reset e),
     (''unbond'', \<lambda>_. cmd_esl_unbond), (''disconnect'', \<lambda>_. cmd_esl_disconnect), (''adv'', cmd_esl_adv e), (''led'', cmd_esl_led e),
     (''display'', cmd_esl_display e), (''sensor'', cmd_esl_sensor e x), (''busy'', \<lambda>_. cmd_esl_busy),
     (''accept'', cmd_esl_accept_pair), (''security'', cmd_esl_security), (''configuring_bit'', cmd_esl_configuring e),
     (''abs'', cmd_esl_abs x), (''check'', cmd_esl_obj_checksum e), (''image_dump'', cmd_esl_img_dump e nvs),
     (''set_bas'', cmd_set_esl_basic e), (''addr'', cmd_esl_addr e)]"

text \<open>A line is looked up by its first word; \<open>- 1\<close> stands for what the shell returns when there is no such command.\<close>

definition run_line :: "'st env \<Rightarrow> inp \<Rightarrow> bool \<Rightarrow> argv \<Rightarrow> 'st tag \<Rightarrow> (int \<times> 'st tag) option" where
  "run_line e x nvs argv s =
     (case argv of [] \<Rightarrow> Some (- 1, s)
      | name # _ \<Rightarrow> (case map_of (esl_commands e x nvs) name of None \<Rightarrow> Some (- 1, s) | Some f \<Rightarrow> f argv s))"

subsection \<open>Lines that name what there is\<close>

text \<open>
  What a line has to name for the command to be defined: a state, a bit of the word, an LED when it is switched off, a sensor,
  an image, no larger than the buffer when it is read at once, and for pairing and security a connection.
\<close>

definition u8_arg :: "nat \<Rightarrow> argv \<Rightarrow> nat \<Rightarrow> nat" where
  "u8_arg base argv i = unat (of_int (c_strtoul base (argv ! i)) :: u8)"

definition image_fits :: "'st env \<Rightarrow> u8 \<Rightarrow> 'st tag \<Rightarrow> bool" where
  "image_fits e i s \<longleftrightarrow> unat i \<le> image_max (cfg e) \<and> unat (stored_size e i s) \<le> image_buffer_size (cfg e)"

definition line_in_range :: "'st env \<Rightarrow> bool \<Rightarrow> argv \<Rightarrow> 'st tag \<Rightarrow> bool" where
  "line_in_range e nvs argv s =
     (let name = argv ! 0; n = length argv
      in if name = ''state'' then 2 \<le> n \<longrightarrow> unat (of_int (c_strtol 10 (argv ! 1)) :: u8) < 6
         else if name = ''set_bas'' then 3 \<le> n \<longrightarrow> u8_arg 10 argv 1 < 32
         else if name = ''configuring_bit'' then 3 \<le> n \<longrightarrow> unat (of_int (c_strtol 16 (argv ! 1)) :: u8) < 32
         else if name = ''led'' then 4 \<le> n \<and> u8_arg 10 argv 3 = 0 \<longrightarrow> u8_arg 16 argv 1 < led_max (cfg e)
         else if name = ''sensor'' then 2 \<le> n \<longrightarrow> u8_arg 16 argv 1 < sensor_max (cfg e)
         else if name = ''accept'' then 2 \<le> n \<longrightarrow> auth_conn s \<noteq> None
         else if name = ''security'' then conn s \<noteq> None
         else if name = ''check'' then 2 \<le> n \<longrightarrow> image_fits e (of_int (c_strtol 16 (argv ! 1))) s
         else if name = ''image_dump'' then 2 \<le> n \<longrightarrow> (if nvs then image_fits e (of_int (c_strtoul 10 (argv ! 1))) s
           else u8_arg 10 argv 1 \<le> image_max (cfg e) \<and> 0 < image_buffer_size (cfg e) \<and> image_buffer_size (cfg e) < 2 ^ 31)
         else True)"

lemma id_index: "(ucast (ucast (i :: u16) - BT_OTS_OBJ_ID_MIN :: u64) :: u8) = ucast i"
proof -
  have d: "(ucast (a - b :: u64) :: u8) = ucast a - ucast b" for a b
    by transfer (subst (2) take_bit_diff [symmetric], simp add: take_bit_diff)
  have "(ucast (ucast i :: u64) :: u8) = ucast i" by (rule bit_word_eqI) (simp add: bit_simps)
  then show ?thesis by (simp add: d)
qed

lemma wf_checked_part:
  assumes "env_ok e" "wf_tag e s" "unat (ucast i :: u8) \<le> image_max (cfg e)" "len \<le> image_buffer_size (cfg e)"
  shows "yields (checked_part e i off len s) (wf_tag e)"
  using assms(3,4)
  by (auto simp: checked_part_def ots_obj_cal_checksum_def id_index wp wf_img_lengths
      intro!: yields_mono [OF wf_read_image [OF assms(1,2)]])

lemma index_back: "(ucast (ucast (i :: u8) :: u16) :: u8) = i"
  by (rule bit_word_eqI) (simp add: bit_simps)

lemma wf_dump_chunks:
  assumes "env_ok e" "unat i \<le> image_max (cfg e)" "unat chunk \<le> image_buffer_size (cfg e)" "0 < chunk \<or> left = 0"
    and "chunk \<le> left" "wf_tag e s"
  shows "yields (dump_chunks e i left chunk cur_pos s) (wf_tag e)"
  using assms(3-6)
proof (induction "unat left" arbitrary: left chunk cur_pos s rule: less_induct)
  case less
  show ?case
  proof (cases "left = 0")
    case False
    then have pos: "0 < chunk" using less.prems(2) by simp
    have dec: "unat (left - chunk) = unat left - unat chunk" using less.prems(3) by (simp add: unat_sub)
    have small: "unat (left - chunk) < unat left" using pos less.prems(3) unfolding dec
      by (simp add: word_less_nat_alt word_le_nat_alt)
    let ?c = "if left - chunk < chunk then left - chunk else chunk"
    have c: "unat ?c \<le> image_buffer_size (cfg e)" "0 < ?c \<or> left - chunk = 0" "?c \<le> left - chunk"
      using less.prems(1) pos by (auto simp: word_less_nat_alt word_le_nat_alt word_gt_0 not_less unat_gt_0)
    have "yields (checked_part e (ucast i) (sint cur_pos) (unat chunk) s) (wf_tag e)"
      by (rule wf_checked_part [OF assms(1) less.prems(4)]) (simp_all add: assms(2) less.prems(1) index_back)
    then show ?thesis
      using False less.hyps [OF small c] by (subst dump_chunks.simps) (auto simp: wp Let_def elim!: yields_mono)
  qed (simp add: dump_chunks.simps less.prems(4))
qed

text \<open>The first round may take more than is left; what is left wraps and the loop goes on over the whole range.\<close>

lemma wf_dump_wrapped:
  assumes "env_ok e" "unat i \<le> image_max (cfg e)" "unat chunk \<le> image_buffer_size (cfg e)" "0 < unat chunk" "unat chunk < 2 ^ 31"
    and "wf_tag e s"
  shows "yields (dump_chunks e i left chunk cur_pos s) (wf_tag e)"
proof (cases "chunk \<le> left \<or> left = 0")
  case True
  then show ?thesis
    using wf_dump_chunks [OF assms(1-3)] assms(4,6) by (auto simp: dump_chunks.simps [of _ _ 0] word_gt_0 unat_gt_0)
next
  case False
  then have lt: "unat left < unat chunk" by (simp add: word_less_nat_alt not_le)
  have "uint (left - chunk) = uint left - uint chunk + 4294967296"
    using lt by (simp add: uint_sub_if' word_le_def not_le uint_nat [symmetric] word_less_nat_alt [symmetric] word_less_def)
  moreover have "int (unat chunk) < int (2 ^ 31)" using assms(5) by (simp only: of_nat_less_iff)
  then have "uint chunk < 2147483648" by simp
  moreover have "0 \<le> uint left" by (rule unsigned_greater_eq)
  ultimately have "uint chunk \<le> uint (left - chunk)" by linarith
  then have le: "chunk \<le> left - chunk" by (simp add: word_le_def)
  then have c: "(if left - chunk < chunk then left - chunk else chunk) = chunk" by (intro if_not_P) (simp only: not_less)
  have "yields (checked_part e (ucast i) (sint cur_pos) (unat chunk) s) (wf_tag e)"
    by (rule wf_checked_part [OF assms(1,6)]) (simp_all add: assms(2,3) index_back)
  moreover have "0 < chunk" using assms(4) by (simp add: word_gt_0 unat_gt_0)
  ultimately show ?thesis
    using False wf_dump_chunks [OF assms(1-3) _ le] by (subst dump_chunks.simps) (auto simp: wp Let_def c elim!: yields_mono)
qed

subsection \<open>What a line does\<close>

lemma wf_led_off:
  assumes "wf_tag e s" "unat led < led_max (cfg e)"
  shows "yields (led_dwork_upd (unat led) (\<lambda>d. d\<lparr>work_enable := False, led_active := False\<rparr>) s) (wf_tag e)"
  using assms by (simp add: led_dwork_upd_def wp wf_led_dworks wf_led_update wf_led_idx wf_pattern_idx)

lemma yields_code: "yields (map_option (Pair c) m) (\<lambda>(r, t). P t) \<longleftrightarrow> yields m P"
  by (cases m) simp_all

lemma yields_args: "yields (with_args n argv s m) P \<longleftrightarrow> (if length argv < n then P (- ENOEXEC, s) else yields m P)"
  by (simp add: with_args_def)

lemma yields_ul_arg: "yields (ul_arg base argv i) P \<longleftrightarrow> i < length argv \<and> P (c_strtoul base (argv ! i))"
  by (simp add: ul_arg_def rd_def)

lemma yields_hex_arg: "yields (hex_arg argv i) P \<longleftrightarrow> i < length argv \<and> P (c_strtol 16 (argv ! i))"
  by (simp add: hex_arg_def rd_def)

lemma yields_write_bit: "yields (write_bit e on b v) P \<longleftrightarrow>
    unat b < 32 \<and> P ((if on then z_set_bit (zep e) else z_clear_bit (zep e)) v (unat b))"
  by (simp add: write_bit_def)

lemmas console_wp = yields_code yields_args yields_ul_arg yields_hex_arg yields_write_bit wp

lemma wf_cmd_sensor:
  assumes "env_ok e" "wf_tag e s" "inp_ok x" "2 \<le> length argv \<longrightarrow> u8_arg 16 argv 1 < sensor_max (cfg e)"
  shows "yields (cmd_esl_sensor e x argv s) (\<lambda>(r, t). wf_tag e t)"
proof (cases "cb_sensor_control (cbs e)")
  case (Some f)
  have sd: "length (sensor_data s) = sensor_max (cfg e)" "list_all sensor_data_ok (sensor_data s)" using assms(2) by (simp_all add: wf_tag_def)
  have upd: "wf_tag e (s\<lparr>sensor_data := d\<rparr>)" if "length d = sensor_max (cfg e)" "list_all sensor_data_ok d" for d
    using assms(2) that by (simp add: wf_tag_def)
  have len: "length (in_sensor_data x) = ESL_RESPONSE_SENSOR_LEN" using assms(3) by (simp add: inp_ok_def)
  show ?thesis
    using assms(2,4) Some
    by (auto simp: cmd_esl_sensor_def console_wp u8_arg_def upd
        intro!: yields_mono [OF sensor_provider.ctl_ok [OF env_sensor [OF assms(1) Some] _ sd len]])
qed (use assms(2) in \<open>simp add: cmd_esl_sensor_def console_wp\<close>)

lemma cut_index: "(ucast (of_int k :: u16) :: u8) = of_int k"
  by (rule bit_word_eqI) (simp add: bit_simps)

lemma image_commands:
  assumes "env_ok e" "wf_tag e s"
  shows "2 \<le> length argv \<longrightarrow> image_fits e (of_int (c_strtol 16 (argv ! 1))) s \<Longrightarrow>
      yields (cmd_esl_obj_checksum e argv s) (\<lambda>(r, t). wf_tag e t)"
    and "2 \<le> length argv \<longrightarrow> (if nvs then image_fits e (of_int (c_strtoul 10 (argv ! 1))) s
        else u8_arg 10 argv 1 \<le> image_max (cfg e) \<and> 0 < image_buffer_size (cfg e) \<and> image_buffer_size (cfg e) < 2 ^ 31) \<Longrightarrow>
      yields (cmd_esl_img_dump e nvs argv s) (\<lambda>(r, t). wf_tag e t)"
proof -
  show "yields (cmd_esl_obj_checksum e argv s) (\<lambda>(r, t). wf_tag e t)"
    if r: "2 \<le> length argv \<longrightarrow> image_fits e (of_int (c_strtol 16 (argv ! 1))) s"
    using r by (simp add: cmd_esl_obj_checksum_def console_wp cut_index image_fits_def wf_checked_part [OF assms] assms(2))
  show "yields (cmd_esl_img_dump e nvs argv s) (\<lambda>(r, t). wf_tag e t)"
    if "2 \<le> length argv \<longrightarrow> (if nvs then image_fits e (of_int (c_strtoul 10 (argv ! 1))) s
        else u8_arg 10 argv 1 \<le> image_max (cfg e) \<and> 0 < image_buffer_size (cfg e) \<and> image_buffer_size (cfg e) < 2 ^ 31)"
  proof -
    have dump: "yields (dump_chunks e i left (of_nat (image_buffer_size (cfg e))) 0 s) (wf_tag e)"
      if "unat i \<le> image_max (cfg e)" "0 < image_buffer_size (cfg e)" "image_buffer_size (cfg e) < 2 ^ 31" for i left
    proof -
      have "unat (of_nat (image_buffer_size (cfg e)) :: u32) = image_buffer_size (cfg e)" using that(3) by (simp add: unat_of_nat)
      then show ?thesis by (intro wf_dump_wrapped [OF assms(1) that(1) _ _ _ assms(2)]) (use that in simp_all)
    qed
    show ?thesis
      using that dump by (cases nvs)
        (simp_all add: cmd_esl_img_dump_def console_wp Let_def u8_arg_def image_fits_def index_back wf_checked_part [OF assms] assms(2))
  qed
qed

text \<open>The commands that are undefined for an argument out of range, whatever the callbacks do.\<close>

lemma wf_simple_commands:
  assumes "env_ok e" "wf_tag e s"
  shows "yields (cmd_esl_unassociated e s) (\<lambda>(r, t). wf_tag e t)" "yields (cmd_esl_factory_reset e s) (\<lambda>(r, t). wf_tag e t)"
    "yields (cmd_esl_unbond s) (\<lambda>(r, t). wf_tag e t)" "yields (cmd_esl_disconnect s) (\<lambda>(r, t). wf_tag e t)"
    "yields (cmd_esl_busy s) (\<lambda>(r, t). wf_tag e t)" "yields (cmd_esl_adv e argv s) (\<lambda>(r, t). wf_tag e t)"
    "yields (cmd_esl_display e argv s) (\<lambda>(r, t). wf_tag e t)" "yields (cmd_esl_abs x argv s) (\<lambda>(r, t). wf_tag e t)"
    "yields (cmd_esl_addr e argv s) (\<lambda>(r, t). wf_tag e t)"
proof -
  have c: "cfg_ok (cfg e)" using assms(1) by (simp add: env_ok_def)
  show "yields (cmd_esl_unassociated e s) (\<lambda>(r, t). wf_tag e t)" "yields (cmd_esl_factory_reset e s) (\<lambda>(r, t). wf_tag e t)"
    using wf_unassociate [OF assms] wf_factory_reset [OF assms]
    by (simp_all add: cmd_esl_unassociated_def cmd_esl_factory_reset_def yields_code)
  show "yields (cmd_esl_adv e argv s) (\<lambda>(r, t). wf_tag e t)"
    using wf_adv_stop [OF c assms(2)] assms(2) by (auto simp: cmd_esl_adv_def console_wp)
  show "yields (cmd_esl_abs x argv s) (\<lambda>(r, t). wf_tag e t)"
    using assms(2) by (auto simp: cmd_esl_abs_def console_wp Let_def esl_abs_time_update_def)
  show "yields (cmd_esl_addr e argv s) (\<lambda>(r, t). wf_tag e t)"
    using assms(2) by (auto simp: cmd_esl_addr_def console_wp)
qed (use assms(2) in \<open>auto simp: cmd_esl_unbond_def cmd_esl_disconnect_def cmd_esl_busy_def cmd_esl_display_def console_wp\<close>)

lemma checked_commands:
  assumes "env_ok e" "wf_tag e s"
  shows "yields (cmd_esl_state e argv s) (\<lambda>(r, t). wf_tag e t) \<longleftrightarrow>
      (2 \<le> length argv \<longrightarrow> unat (of_int (c_strtol 10 (argv ! 1)) :: u8) < 6)"
    "yields (cmd_set_esl_basic e argv s) (\<lambda>(r, t). wf_tag e t) \<longleftrightarrow> (3 \<le> length argv \<longrightarrow> u8_arg 10 argv 1 < 32)"
    "yields (cmd_esl_configuring e argv s) (\<lambda>(r, t). wf_tag e t) \<longleftrightarrow>
      (3 \<le> length argv \<longrightarrow> unat (of_int (c_strtol 16 (argv ! 1)) :: u8) < 32)"
    "yields (cmd_esl_led e argv s) (\<lambda>(r, t). wf_tag e t) \<longleftrightarrow>
      (4 \<le> length argv \<and> u8_arg 10 argv 3 = 0 \<longrightarrow> u8_arg 16 argv 1 < led_max (cfg e))"
    "yields (cmd_esl_accept_pair argv s) (\<lambda>(r, t). wf_tag e t) \<longleftrightarrow> (2 \<le> length argv \<longrightarrow> auth_conn s \<noteq> None)"
    "yields (cmd_esl_security argv s) (\<lambda>(r, t). wf_tag e t) \<longleftrightarrow> conn s \<noteq> None"
proof -
  show "yields (cmd_esl_state e argv s) (\<lambda>(r, t). wf_tag e t) \<longleftrightarrow>
      (2 \<le> length argv \<longrightarrow> unat (of_int (c_strtol 10 (argv ! 1)) :: u8) < 6)"
    using assms(2) by (auto simp: cmd_esl_state_def console_wp esl_states_def wf_transition [OF assms])
  show "yields (cmd_set_esl_basic e argv s) (\<lambda>(r, t). wf_tag e t) \<longleftrightarrow> (3 \<le> length argv \<longrightarrow> u8_arg 10 argv 1 < 32)"
    using assms(2) by (auto simp: cmd_set_esl_basic_def console_wp u8_arg_def)
  show "yields (cmd_esl_configuring e argv s) (\<lambda>(r, t). wf_tag e t) \<longleftrightarrow>
      (3 \<le> length argv \<longrightarrow> unat (of_int (c_strtol 16 (argv ! 1)) :: u8) < 32)"
    using assms(2) by (auto simp: cmd_esl_configuring_def console_wp)
  show "yields (cmd_esl_led e argv s) (\<lambda>(r, t). wf_tag e t) \<longleftrightarrow>
      (4 \<le> length argv \<and> u8_arg 10 argv 3 = 0 \<longrightarrow> u8_arg 16 argv 1 < led_max (cfg e))"
    using assms(2) by (auto simp: cmd_esl_led_def console_wp Let_def u8_arg_def led_dwork_upd_def wf_led_dworks wf_led_update
        wf_led_idx wf_pattern_idx wf_basic_state_update unat_eq_0)
  show "yields (cmd_esl_accept_pair argv s) (\<lambda>(r, t). wf_tag e t) \<longleftrightarrow> (2 \<le> length argv \<longrightarrow> auth_conn s \<noteq> None)"
    using assms(2) by (cases "auth_conn s") (auto simp: cmd_esl_accept_pair_def console_wp)
  show "yields (cmd_esl_security argv s) (\<lambda>(r, t). wf_tag e t) \<longleftrightarrow> conn s \<noteq> None"
    using assms(2) by (cases "conn s") (auto simp: cmd_esl_security_def console_wp Let_def)
qed

lemma stopped_commands:
  assumes "wf_tag e s"
  shows "2 \<le> length argv \<Longrightarrow> 6 \<le> unat (of_int (c_strtol 10 (argv ! 1)) :: u8) \<Longrightarrow> cmd_esl_state e argv s = None"
    "3 \<le> length argv \<Longrightarrow> 32 \<le> u8_arg 10 argv 1 \<Longrightarrow> cmd_set_esl_basic e argv s = None"
    "3 \<le> length argv \<Longrightarrow> 32 \<le> unat (of_int (c_strtol 16 (argv ! 1)) :: u8) \<Longrightarrow> cmd_esl_configuring e argv s = None"
    "4 \<le> length argv \<Longrightarrow> u8_arg 10 argv 3 = 0 \<Longrightarrow> led_max (cfg e) \<le> u8_arg 16 argv 1 \<Longrightarrow> cmd_esl_led e argv s = None"
    "2 \<le> length argv \<Longrightarrow> auth_conn s = None \<Longrightarrow> cmd_esl_accept_pair argv s = None"
    "conn s = None \<Longrightarrow> cmd_esl_security argv s = None"
  using assms
  by (simp_all add: cmd_esl_state_def cmd_set_esl_basic_def cmd_esl_configuring_def cmd_esl_led_def cmd_esl_accept_pair_def
      cmd_esl_security_def with_args_def ul_arg_def hex_arg_def rd_def write_bit_def u8_arg_def esl_states_def led_dwork_upd_def
      wf_led_dworks unat_eq_0 Let_def)

lemma line_yields:
  assumes "env_ok e" "wf_tag e s" "inp_ok x" "line_in_range e nvs argv s"
  shows "yields (run_line e x nvs argv s) (\<lambda>(r, t). wf_tag e t)"
proof (cases argv)
  case (Cons name rest)
  show ?thesis
  proof (cases "map_of (esl_commands e x nvs) name")
    case (Some f)
    note r = assms(4) [unfolded line_in_range_def Let_def]
    have n: "argv ! 0 = name" by (simp add: Cons)
    have "yields (f argv s) (\<lambda>(r, t). wf_tag e t)"
      using map_of_SomeD [OF Some] r unfolding n esl_commands_def
      by (auto simp: checked_commands [OF assms(1,2)] wf_simple_commands [OF assms(1,2)] image_commands [OF assms(1,2)]
          wf_cmd_sensor [OF assms(1-3)])
    then show ?thesis unfolding run_line_def Some using Some by (simp add: Cons)
  qed (use assms(2) in \<open>simp add: run_line_def Cons\<close>)
qed (use assms(2) in \<open>simp add: run_line_def\<close>)

end
