(* ===== verification/Esl_Tag_System.thy ===== *)
theory Esl_Tag_System
  imports Esl_Init Esl_Bytes Esl_Shell
begin

unbundle bit_operations_syntax

text \<open>
  The tag as a system of event handlers: one step for every callback and work item of
  \<open>service/esl.c\<close> and for every line of the console of \<open>service/esl_shell.c\<close>. Handlers run one at a
  time, in any order, on packets of any content. The invariant of the reachable states joins the
  well-formedness of memory with what the handlers keep of the address, of the stored address and of
  the two copies of the association state.
\<close>

subsection \<open>The part of the state the invariant speaks of\<close>

text \<open>
  An ESL address: never the broadcast identifier, and the reserved bit only in the value that
  stands for no address. The console stores whatever address is typed; \<open>A\<close> are the addresses typed.
\<close>

definition addr_ok :: "u16 \<Rightarrow> bool" where
  "addr_ok a \<longleftrightarrow> LOW_BYTE a \<noteq> ESL_ADDR_BROADCAST \<and> (bit a ESL_ADDR_RFU_BIT \<longrightarrow> a = 0x8000)"

definition addr_in :: "u16 set \<Rightarrow> u16 \<Rightarrow> bool" where
  "addr_in A a \<longleftrightarrow> a \<in> A \<or> addr_ok a"

definition store_ok :: "u16 set \<Rightarrow> settings \<Rightarrow> bool" where
  "store_ok A st \<longleftrightarrow> (\<forall>v. st ''esl/esl_addr'' = Some v \<longrightarrow> length v = 2 \<longrightarrow> addr_in A (of_le16 v))"

definition sys_data :: "u16 set \<Rightarrow> 'st tag \<Rightarrow> bool" where
  "sys_data A s \<longleftrightarrow> addr_in A (esl_addr s) \<and> store_ok A (settings_store s)"

definition sys_ok :: "u16 set \<Rightarrow> 'st tag \<Rightarrow> bool" where
  "sys_ok A s \<longleftrightarrow> sys_data A s \<and> esl_state s = sm_cur s"

lemma sys_data_frame [simp]:
  "sys_data A (s\<lparr>esl_rsp_key := x1\<rparr>) = sys_data A s"
  "sys_data A (s\<lparr>esl_randomizer := x2\<rparr>) = sys_data A s"
  "sys_data A (s\<lparr>max_image_index := x3\<rparr>) = sys_data A s"
  "sys_data A (s\<lparr>displays := x4\<rparr>) = sys_data A s"
  "sys_data A (s\<lparr>led_objs := x5\<rparr>) = sys_data A s"
  "sys_data A (s\<lparr>esl_ap_key := x6\<rparr>) = sys_data A s"
  "sys_data A (s\<lparr>sensors := x7\<rparr>) = sys_data A s"
  "sys_data A (s\<lparr>led_type := x8\<rparr>) = sys_data A s"
  "sys_data A (s\<lparr>connect_from := x9\<rparr>) = sys_data A s"
  "sys_data A (s\<lparr>conn := x10\<rparr>) = sys_data A s"
  "sys_data A (s\<lparr>ecp_notify_func := x11\<rparr>) = sys_data A s"
  "sys_data A (s\<lparr>ecp_notify_len := x12\<rparr>) = sys_data A s"
  "sys_data A (s\<lparr>basic_state := x13\<rparr>) = sys_data A s"
  "sys_data A (s\<lparr>esl_state := x14\<rparr>) = sys_data A s"
  "sys_data A (s\<lparr>configuring_state := x15\<rparr>) = sys_data A s"
  "sys_data A (s\<lparr>resp := x16\<rparr>) = sys_data A s"
  "sys_data A (s\<lparr>esl_ecp_resp_needed := x17\<rparr>) = sys_data A s"
  "sys_data A (s\<lparr>esl_sm_timeout_update_needed := x18\<rparr>) = sys_data A s"
  "sys_data A (s\<lparr>led_dworks := x19\<rparr>) = sys_data A s"
  "sys_data A (s\<lparr>display_works := x20\<rparr>) = sys_data A s"
  "sys_data A (s\<lparr>sensor_data := x21\<rparr>) = sys_data A s"
  "sys_data A (s\<lparr>busy := x22\<rparr>) = sys_data A s"
  "sys_data A (s\<lparr>stored_image_size := x23\<rparr>) = sys_data A s"
  "sys_data A (s\<lparr>img_object_names := x24\<rparr>) = sys_data A s"
  "sys_data A (s\<lparr>img_obj_buf := x25\<rparr>) = sys_data A s"
  "sys_data A (s\<lparr>adv_mode := x26\<rparr>) = sys_data A s"
  "sys_data A (s\<lparr>ecp_src := x27\<rparr>) = sys_data A s"
  "sys_data A (s\<lparr>timeout_mode := x28\<rparr>) = sys_data A s"
  "sys_data A (s\<lparr>abs_time_anchor := x29\<rparr>) = sys_data A s"
  "sys_data A (s\<lparr>sync_timeout_count := x30\<rparr>) = sys_data A s"
  "sys_data A (s\<lparr>acl_timeout_count := x31\<rparr>) = sys_data A s"
  "sys_data A (s\<lparr>pawr_sync := x32\<rparr>) = sys_data A s"
  "sys_data A (s\<lparr>sync_count := x33\<rparr>) = sys_data A s"
  "sys_data A (s\<lparr>response_slot_delay := x34\<rparr>) = sys_data A s"
  "sys_data A (s\<lparr>pawr_event_counter := x35\<rparr>) = sys_data A s"
  "sys_data A (s\<lparr>pawr_subevent := x36\<rparr>) = sys_data A s"
  "sys_data A (s\<lparr>pawr_buf := x37\<rparr>) = sys_data A s"
  "sys_data A (s\<lparr>sm_cur := x38\<rparr>) = sys_data A s"
  "sys_data A (s\<lparr>esl_ad_data := x39\<rparr>) = sys_data A s"
  "sys_data A (s\<lparr>pa_rsp_len := x40\<rparr>) = sys_data A s"
  "sys_data A (s\<lparr>ecp_rsp_net_buf := x41\<rparr>) = sys_data A s"
  "sys_data A (s\<lparr>ecp_rsp_last_tlv_len := x42\<rparr>) = sys_data A s"
  "sys_data A (s\<lparr>auth_conn := x43\<rparr>) = sys_data A s"
  "sys_data A (s\<lparr>obj_cnt := x44\<rparr>) = sys_data A s"
  "sys_data A (s\<lparr>object_being_created := x45\<rparr>) = sys_data A s"
  "sys_data A (s\<lparr>storage := x46\<rparr>) = sys_data A s"
  "sys_data A (s\<lparr>trace := x47\<rparr>) = sys_data A s"
  "sys_data A (s\<lparr>ecp_net_buf := x48\<rparr>) = sys_data A s"
  "sys_data A (s\<lparr>ecp_net_buf_len := x49\<rparr>) = sys_data A s"
  by (simp_all add: sys_data_def)

lemma sys_ok_frame [simp]:
  "sys_ok A (s\<lparr>esl_rsp_key := x1\<rparr>) = sys_ok A s"
  "sys_ok A (s\<lparr>esl_randomizer := x2\<rparr>) = sys_ok A s"
  "sys_ok A (s\<lparr>max_image_index := x3\<rparr>) = sys_ok A s"
  "sys_ok A (s\<lparr>displays := x4\<rparr>) = sys_ok A s"
  "sys_ok A (s\<lparr>led_objs := x5\<rparr>) = sys_ok A s"
  "sys_ok A (s\<lparr>esl_ap_key := x6\<rparr>) = sys_ok A s"
  "sys_ok A (s\<lparr>sensors := x7\<rparr>) = sys_ok A s"
  "sys_ok A (s\<lparr>led_type := x8\<rparr>) = sys_ok A s"
  "sys_ok A (s\<lparr>connect_from := x9\<rparr>) = sys_ok A s"
  "sys_ok A (s\<lparr>conn := x10\<rparr>) = sys_ok A s"
  "sys_ok A (s\<lparr>ecp_notify_func := x11\<rparr>) = sys_ok A s"
  "sys_ok A (s\<lparr>ecp_notify_len := x12\<rparr>) = sys_ok A s"
  "sys_ok A (s\<lparr>basic_state := x13\<rparr>) = sys_ok A s"
  "sys_ok A (s\<lparr>configuring_state := x14\<rparr>) = sys_ok A s"
  "sys_ok A (s\<lparr>resp := x15\<rparr>) = sys_ok A s"
  "sys_ok A (s\<lparr>esl_ecp_resp_needed := x16\<rparr>) = sys_ok A s"
  "sys_ok A (s\<lparr>esl_sm_timeout_update_needed := x17\<rparr>) = sys_ok A s"
  "sys_ok A (s\<lparr>led_dworks := x18\<rparr>) = sys_ok A s"
  "sys_ok A (s\<lparr>display_works := x19\<rparr>) = sys_ok A s"
  "sys_ok A (s\<lparr>sensor_data := x20\<rparr>) = sys_ok A s"
  "sys_ok A (s\<lparr>busy := x21\<rparr>) = sys_ok A s"
  "sys_ok A (s\<lparr>stored_image_size := x22\<rparr>) = sys_ok A s"
  "sys_ok A (s\<lparr>img_object_names := x23\<rparr>) = sys_ok A s"
  "sys_ok A (s\<lparr>img_obj_buf := x24\<rparr>) = sys_ok A s"
  "sys_ok A (s\<lparr>adv_mode := x25\<rparr>) = sys_ok A s"
  "sys_ok A (s\<lparr>ecp_src := x26\<rparr>) = sys_ok A s"
  "sys_ok A (s\<lparr>timeout_mode := x27\<rparr>) = sys_ok A s"
  "sys_ok A (s\<lparr>abs_time_anchor := x28\<rparr>) = sys_ok A s"
  "sys_ok A (s\<lparr>sync_timeout_count := x29\<rparr>) = sys_ok A s"
  "sys_ok A (s\<lparr>acl_timeout_count := x30\<rparr>) = sys_ok A s"
  "sys_ok A (s\<lparr>pawr_sync := x31\<rparr>) = sys_ok A s"
  "sys_ok A (s\<lparr>sync_count := x32\<rparr>) = sys_ok A s"
  "sys_ok A (s\<lparr>response_slot_delay := x33\<rparr>) = sys_ok A s"
  "sys_ok A (s\<lparr>pawr_event_counter := x34\<rparr>) = sys_ok A s"
  "sys_ok A (s\<lparr>pawr_subevent := x35\<rparr>) = sys_ok A s"
  "sys_ok A (s\<lparr>pawr_buf := x36\<rparr>) = sys_ok A s"
  "sys_ok A (s\<lparr>esl_ad_data := x37\<rparr>) = sys_ok A s"
  "sys_ok A (s\<lparr>pa_rsp_len := x38\<rparr>) = sys_ok A s"
  "sys_ok A (s\<lparr>ecp_rsp_net_buf := x39\<rparr>) = sys_ok A s"
  "sys_ok A (s\<lparr>ecp_rsp_last_tlv_len := x40\<rparr>) = sys_ok A s"
  "sys_ok A (s\<lparr>auth_conn := x41\<rparr>) = sys_ok A s"
  "sys_ok A (s\<lparr>obj_cnt := x42\<rparr>) = sys_ok A s"
  "sys_ok A (s\<lparr>object_being_created := x43\<rparr>) = sys_ok A s"
  "sys_ok A (s\<lparr>storage := x44\<rparr>) = sys_ok A s"
  "sys_ok A (s\<lparr>trace := x45\<rparr>) = sys_ok A s"
  "sys_ok A (s\<lparr>ecp_net_buf := x46\<rparr>) = sys_ok A s"
  "sys_ok A (s\<lparr>ecp_net_buf_len := x47\<rparr>) = sys_ok A s"
  by (simp_all add: sys_ok_def)

subsection \<open>The handlers keep it: work items and state machine\<close>

lemma sys_simps [simp]:
  "sys_ok A (effect x s) = sys_ok A s" "sys_ok A (basic_bit e f b s) = sys_ok A s"
  "sys_ok A (bt_esl_disconnect s) = sys_ok A s" "sys_ok A (esl_stop_sync_pawr s) = sys_ok A s"
  "sys_ok A (bt_esl_adv_start am s) = sys_ok A s" "sys_ok A (esl_create_pawr_sync e s) = sys_ok A s"
  "sys_ok A (display_unassociated e s) = sys_ok A s" "sys_ok A (display_associated e s) = sys_ok A s"
  "sys_ok A (open_image e i s) = sys_ok A s" "sys_ok A (close_image e s) = sys_ok A s"
  "sys_ok A (resp_err c s) = sys_ok A s" "sys_ok A (resp_basic s) = sys_ok A s"
  "sys_ok A (resp_led l s) = sys_ok A s" "sys_ok A (resp_display l g s) = sys_ok A s"
  "sys_ok A (set_configuring e cb s) = sys_ok A s"
  by (simp_all add: effect_def basic_bit_def bt_esl_disconnect_def esl_stop_sync_pawr_def
      bt_esl_adv_start_def esl_create_pawr_sync_def display_unassociated_def display_associated_def
      open_image_def close_image_def resp_err_def resp_basic_def resp_led_def resp_display_def
      set_configuring_def split: option.split)

lemma sys_data_simps [simp]:
  "sys_data A (effect x s) = sys_data A s" "sys_data A (basic_bit e f b s) = sys_data A s"
  "sys_data A (bt_esl_disconnect s) = sys_data A s" "sys_data A (esl_stop_sync_pawr s) = sys_data A s"
  "sys_data A (display_unassociated e s) = sys_data A s" "sys_data A (display_associated e s) = sys_data A s"
  by (simp_all add: effect_def basic_bit_def bt_esl_disconnect_def esl_stop_sync_pawr_def
      display_unassociated_def display_associated_def)

lemma sys_ok_data: "sys_ok A s \<Longrightarrow> sys_data A s"
  by (simp add: sys_ok_def)

lemma ensures_led_dwork_upd [wlp]:
  "ensures (led_dwork_upd i f s) P \<longleftrightarrow> (i < length (led_dworks s) \<longrightarrow>
     P (s\<lparr>led_dworks := (led_dworks s)[i := f (led_dworks s ! i)]\<rparr>))"
  by (auto simp: led_dwork_upd_def wlp)

lemma ensures_display_work_upd [wlp]:
  "ensures (display_work_upd i f s) P \<longleftrightarrow> (i < length (display_works s) \<longrightarrow>
     P (s\<lparr>display_works := (display_works s)[i := f (display_works s ! i)]\<rparr>))"
  by (auto simp: display_work_upd_def wlp)

lemma sys_led_dwork_reset: "sys_ok A s \<Longrightarrow> ensures (led_dwork_reset i s) (sys_ok A)"
  by (simp add: led_dwork_reset_def wlp)

lemma sys_led_resets: "sys_ok A s \<Longrightarrow> ensures (for_loop i n led_dwork_reset s) (sys_ok A)"
  by (rule for_loop_ensures) (rule sys_led_dwork_reset)

lemma sys_display_dwork_reset: "sys_ok A s \<Longrightarrow> ensures (display_dwork_reset e i s) (sys_ok A)"
  by (simp add: display_dwork_reset_def wlp)

lemma sys_led_worker:
  assumes "sys_ok A s"
  shows "ensures (led_delay_worker_fn e x k s) (sys_ok A)"
proof -
  have stop: "ensures (led_worker_stop i lo t) (sys_ok A)" if "sys_ok A t" for i lo and t :: "'a tag"
    using that by (simp add: led_worker_stop_def wlp)
  have start: "ensures (led_worker_begin now i lo t) (sys_ok A)" if "sys_ok A t" for now i lo and t :: "'a tag"
    using that by (simp add: led_worker_begin_def wlp)
  have timeout: "ensures (led_worker_timeout now i lo t) (sys_ok A)" if "sys_ok A t" for now i lo and t :: "'a tag"
    using that stop by (simp add: led_worker_timeout_def wlp)
  have round: "ensures (led_worker_round i lo p t) (\<lambda>(u, f). sys_ok A u)" if "sys_ok A t" for i lo p and t :: "'a tag"
    using that by (cases "builtin_clzll p") (auto simp: led_worker_round_def wlp intro!: ensures_mono [OF stop])
  have bit: "ensures (led_worker_bit k i lo p t) (sys_ok A)" if "sys_ok A t" for i lo p and t :: "'a tag"
    using that by (simp add: led_worker_bit_def wlp Let_def)
  have cont: "ensures (led_worker_continuous i lo t) (sys_ok A)" if "sys_ok A t" for i lo and t :: "'a tag"
    using that by (simp add: led_worker_continuous_def wlp Let_def)
  show ?thesis
    using assms
    by (auto simp: led_delay_worker_fn_def wlp Let_def case_prod_unfold
        intro!: cont bit ensures_mono [OF start] ensures_mono [OF timeout]
          ensures_mono [OF round, unfolded case_prod_unfold])
qed

lemma sys_display_worker: "sys_ok A s \<Longrightarrow> ensures (display_delay_worker_fn e k s) (sys_ok A)"
  by (simp add: display_delay_worker_fn_def wlp)

lemma sys_basic_update: "sys_ok A s \<Longrightarrow> ensures (bt_esl_basic_state_update e s) (sys_ok A)"
  by (auto simp: bt_esl_basic_state_update_def Let_def wlp
      intro!: ensures_mono [OF for_loop_ensures [where I = "sys_ok A"]] for_loop_ensures [where I = "sys_ok A"])

text \<open>A transition needs the data only and makes the two copies of the state equal.\<close>

lemma sys_data_parts: "prov t = prov s \<Longrightarrow> sys_data A t = sys_data A s"
  by (simp add: prov_def sys_data_def)

lemma sys_transition:
  assumes "zephyr_ok (zep e)" "sys_data A s"
  shows "ensures (bt_esl_state_transition e m s) (sys_ok A)"
proof (rule ensuresI)
  fix t assume t: "bt_esl_state_transition e m s = Some t"
  have "sys_data A t = sys_data A s"
    by (rule sys_data_parts [OF transition_frame(1) [OF assms(1) t]])
  then show "sys_ok A t"
    using assms(2) transition_frame(3,4) [OF assms(1) t] by (simp add: sys_ok_def)
qed

lemma sys_is_configuring:
  "zephyr_ok (zep e) \<Longrightarrow> sys_ok A s \<Longrightarrow> ensures (esl_is_configuring_state e s) (\<lambda>(b, t). sys_ok A t)"
  by (auto simp: esl_is_configuring_state_def Let_def wlp sys_ok_data intro!: ensures_mono [OF sys_transition])

text \<open>Unassociation erases the address, in memory and in the settings.\<close>

lemma addr_in_unset: "addr_in A 0x8000"
  by (simp add: addr_in_def addr_ok_def LOW_BYTE_def)

lemma addr_in_ok: "addr_ok a \<Longrightarrow> addr_in A a"
  by (simp add: addr_in_def)

lemma store_ok_delete:
  "zephyr_ok z \<Longrightarrow> store_ok A st \<Longrightarrow> store_ok A (snd (z_settings_delete z n st))"
  by (simp add: z_settings_delete_eq store_ok_def)

lemma sys_init_provisioned: "sys_ok A s \<Longrightarrow> sys_ok A (esl_init_provisioned_data s)"
  by (simp add: sys_ok_def sys_data_def esl_init_provisioned_data_def addr_in_unset)

lemma sys_delete_one:
  "zephyr_ok (zep e) \<Longrightarrow> sys_ok A s \<Longrightarrow> sys_ok A (delete_one e n b s)"
  by (simp add: delete_one_def sys_ok_def sys_data_def store_ok_delete)

lemma sys_delete_provisioned:
  "zephyr_ok (zep e) \<Longrightarrow> sys_ok A s \<Longrightarrow> sys_ok A (esl_settings_delete_provisioned_data e s)"
  by (simp add: esl_settings_delete_provisioned_data_def Let_def sys_delete_one)

lemma sys_unassociate:
  assumes "zephyr_ok (zep e)" "sys_ok A s"
  shows "ensures (bt_esl_unassociate e s) (sys_ok A)"
  unfolding bt_esl_unassociate_def Let_def ensures_bind ensures_Some
  by (rule ensures_mono [OF sys_led_resets [where A = A]])
    (use assms in \<open>auto simp: sys_delete_provisioned sys_init_provisioned sys_ok_data
       intro!: ensures_mono [OF sys_transition]\<close>)

lemma sys_addr_update: "sys_ok A s \<Longrightarrow> addr_in A a \<Longrightarrow> sys_ok A (s\<lparr>esl_addr := a\<rparr>)"
  by (simp add: sys_ok_def sys_data_def)

text \<open>Image objects.\<close>

lemma sys_obj_created_cb: "sys_ok A s \<Longrightarrow> ensures (obj_created_cb e a oid s) (\<lambda>(r, t). sys_ok A t)"
  by (auto simp: obj_created_cb_def ots_obj_created_def wlp split: option.split)

lemma sys_ots_create_from:
  "zephyr_ok (zep e) \<Longrightarrow> sys_ok A s \<Longrightarrow> ensures (ots_create_from i n e s) (\<lambda>(r, t). sys_ok A t)"
proof (induction n arbitrary: i s)
  case (Suc n)
  have add: "ensures (z_ots_obj_add (zep e) (obj_created_cb e a) u) (\<lambda>(r, t). sys_ok A t)" if "sys_ok A u" for a u
    by (rule z_ots_obj_add_cases [OF Suc.prems(1), of "obj_created_cb e a" u])
      (simp_all add: that sys_obj_created_cb)
  show ?case
    using Suc.prems(2)
    by (auto simp: wlp Let_def intro!: ensures_mono [OF add] Suc.IH [OF Suc.prems(1)])
qed simp

lemma sys_delete_images: "sys_ok A s \<Longrightarrow> ensures (bt_esl_delete_images e s) (sys_ok A)"
  by (auto simp: bt_esl_delete_images_def wlp split: option.split intro!: for_loop_ensures)

lemma sys_factory_reset:
  assumes "zephyr_ok (zep e)" "sys_ok A s"
  shows "ensures (bt_esl_factory_reset e s) (sys_ok A)"
  unfolding bt_esl_factory_reset_def ensures_bind ots_create_obj_def
  by (rule ensures_mono [OF sys_delete_images [OF assms(2)]])
    (auto simp: wlp intro!: ensures_mono [OF sys_ots_create_from [OF assms(1)]] sys_unassociate [OF assms(1)])

text \<open>Reading an image, and storing the chunks of a new one.\<close>

lemma sys_read_image: "sys_ok A s \<Longrightarrow> ensures (read_image e i len off s) (sys_ok A)"
  by (auto simp: read_image_def wlp case_prod_unfold Let_def split: option.split intro!: ensuresI)

lemma sys_write_image: "sys_ok A s \<Longrightarrow> ensures (write_image e i len off s) (\<lambda>(r, t). sys_ok A t)"
  by (auto simp: write_image_def wlp case_prod_unfold split: option.split intro!: ensuresI)

lemma sys_write_retry: "sys_ok A s \<Longrightarrow> ensures (write_retry n e i len off s) (sys_ok A)"
  by (induction n arbitrary: s) (auto simp: wlp intro!: ensures_mono [OF sys_write_image])

lemma sys_write_chunk: "sys_ok A s \<Longrightarrow> ensures (ots_write_chunk e i d len off s) (sys_ok A)"
  by (auto simp: ots_write_chunk_def wlp split: option.split
      intro!: ensures_mono [OF sys_write_retry]) (auto intro!: ensuresI)

lemma sys_obj_write: "sys_ok A s \<Longrightarrow> ensures (ots_obj_write e oid d len off rem s) (\<lambda>(r, t). sys_ok A t)"
  by (auto simp: ots_obj_write_def Let_def wlp intro!: ensures_mono [OF sys_write_chunk]
      ensures_mono [OF sys_write_image])

lemma sys_obj_read: "sys_ok A s \<Longrightarrow> ensures (ots_obj_read e oid d len off s) (\<lambda>(r, d', t). sys_ok A t)"
  by (auto simp: ots_obj_read_def wlp split: option.split intro!: ensures_mono [OF sys_read_image])

lemma sys_obj_checksum: "sys_ok A s \<Longrightarrow> ensures (ots_obj_cal_checksum e oid off len s) (\<lambda>(r, d, t). sys_ok A t)"
  by (auto simp: ots_obj_cal_checksum_def Let_def wlp intro!: ensures_mono [OF sys_read_image])

text \<open>Connections, synchronisation, timeouts, advertising.\<close>

lemma sys_timeout_work:
  assumes "zephyr_ok (zep e)" "sys_ok A s"
  shows "ensures (esl_state_timeout_work_fn e s) (sys_ok A)"
  using assms
  by (auto simp: esl_state_timeout_work_fn_def Let_def wlp sys_ok_data split: esl_timeout_mode.split
      intro!: ensures_mono [OF sys_transition] ensures_mono [OF sys_unassociate])

lemma sys_connected: "sys_ok A s \<Longrightarrow> ensures (connected e c err s) (sys_ok A)"
  by (auto simp: connected_def Let_def wlp intro!: ensures_mono [OF sys_led_dwork_reset])

lemma sys_link_lost:
  assumes "zephyr_ok (zep e)" "sys_ok A s"
  shows "ensures (link_lost e reason s) (sys_ok A)"
  using assms
  by (auto simp: link_lost_def wlp sys_ok_data intro!: ensures_mono [OF sys_is_configuring] sys_transition)

lemma sys_disconnected:
  "zephyr_ok (zep e) \<Longrightarrow> sys_ok A s \<Longrightarrow> ensures (disconnected e c reason s) (sys_ok A)"
  by (auto simp: disconnected_def Let_def wlp intro!: ensures_mono [OF sys_link_lost])

lemma sys_security_changed:
  "zephyr_ok (zep e) \<Longrightarrow> sys_ok A s \<Longrightarrow> ensures (security_changed e err s) (sys_ok A)"
  by (simp add: security_changed_def sys_ok_data sys_transition)

lemma sys_sync_cb: "zephyr_ok (zep e) \<Longrightarrow> sys_ok A s \<Longrightarrow> ensures (sync_cb e c d s) (sys_ok A)"
  by (auto simp: sync_cb_def Let_def wlp sys_ok_data intro!: ensures_mono [OF sys_transition])

lemma sys_term_cb: "zephyr_ok (zep e) \<Longrightarrow> sys_ok A s \<Longrightarrow> ensures (term_cb e s) (sys_ok A)"
  by (auto simp: term_cb_def Let_def wlp sys_ok_data intro!: ensures_mono [OF sys_transition])

lemma sys_indication_led: "sys_ok A s \<Longrightarrow> ensures (indication_led e pat off on rt dur s) (sys_ok A)"
  by (simp add: indication_led_def Let_def wlp)

lemma sys_advertising_fn: "sys_ok A s \<Longrightarrow> ensures (esl_advertising_fn e s) (sys_ok A)"
  by (auto simp: esl_advertising_fn_def wlp case_prod_unfold Let_def intro!: ensures_mono [OF sys_indication_led])

lemma sys_recv_cb: "sys_ok A s \<Longrightarrow> ensures (recv_cb e ev se d s) (sys_ok A)"
  by (auto simp: recv_cb_def wlp intro!: ensures_mono [OF sys_led_dwork_reset] ensures_mono [OF sys_indication_led])

subsection \<open>The handlers keep it: characteristics and control point\<close>

lemma store_ok_save:
  "zephyr_ok z \<Longrightarrow> store_ok A st \<Longrightarrow> (n = ''esl/esl_addr'' \<longrightarrow> addr_in A (of_le16 v)) \<Longrightarrow>
     store_ok A (snd (z_settings_save z n v st))"
  by (auto simp: z_settings_save_eq store_ok_def)

lemma sys_save_one:
  "zephyr_ok (zep e) \<Longrightarrow> sys_ok A s \<Longrightarrow> (n = ''esl/esl_addr'' \<longrightarrow> addr_in A (of_le16 v)) \<Longrightarrow>
     sys_ok A (snd (save_one e n v s))"
  by (simp add: save_one_def case_prod_unfold Let_def sys_ok_def sys_data_def store_ok_save
     )

lemma sys_finish_write:
  assumes "zephyr_ok (zep e)" "sys_ok A s" "sys_ok A (snd (save s))"
  shows "ensures (finish_write e save ret s) (\<lambda>(r, t). sys_ok A t)"
  using assms by (auto simp: finish_write_def Let_def wlp intro!: ensures_mono [OF sys_is_configuring])

text \<open>The address that is accepted: the reserved bit is cleared first, then the identifier is tested.\<close>

lemma addr_ok_written:
  assumes "LOW_BYTE a \<noteq> ESL_ADDR_BROADCAST" "a = (if CHECK_BIT raw 15 then BIT_UNSET raw 15 else raw)"
  shows "addr_ok a"
proof -
  have "\<not> bit a 15" using assms(2) by (auto simp: CHECK_BIT_bit bit_simps)
  then show ?thesis using assms(1) by (simp add: addr_ok_def)
qed

lemma sys_addr_write:
  assumes z: "zephyr_ok (zep e)" and s: "sys_ok A s"
  shows "ensures (esl_addr_write e buf s) (\<lambda>(r, t). sys_ok A t)"
proof -
  have set: "sys_ok A (s\<lparr>esl_addr := a\<rparr>)" if "addr_ok a" for a
    using s that by (simp add: sys_addr_update addr_in_ok)
  have fin: "ensures (finish_write e (esl_settings_addr_save e) r (set_configuring e b (s\<lparr>esl_addr := a\<rparr>)))
      (\<lambda>(r, t). sys_ok A t)" if "addr_ok a" for a r b
    by (rule sys_finish_write [OF z])
      (simp_all add: set that addr_in_ok esl_settings_addr_save_def sys_save_one z of_le16_le16 [of _ "[]", simplified]
        set_configuring_def)
  have ok: "CHECK_BIT raw 15 \<Longrightarrow> LOW_BYTE (BIT_UNSET raw 15) \<noteq> 0xFF \<Longrightarrow> addr_ok (BIT_UNSET raw 15)"
    "\<not> CHECK_BIT raw 15 \<Longrightarrow> LOW_BYTE raw \<noteq> 0xFF \<Longrightarrow> addr_ok raw" for raw
    using addr_ok_written [of "BIT_UNSET raw 15" raw] addr_ok_written [of raw raw] by simp_all
  show ?thesis
    unfolding esl_addr_write_def Let_def
    using s by (auto simp: wlp fin ok)
qed

lemma sys_ap_key_write:
  "zephyr_ok (zep e) \<Longrightarrow> sys_ok A s \<Longrightarrow> ensures (ap_key_write e buf s) (\<lambda>(r, t). sys_ok A t)"
  by (auto simp: ap_key_write_def wlp esl_settings_ap_key_save_def intro!: sys_finish_write sys_save_one)

lemma sys_rsp_key_write:
  "zephyr_ok (zep e) \<Longrightarrow> sys_ok A s \<Longrightarrow> ensures (esl_rsp_key_write e buf s) (\<lambda>(r, t). sys_ok A t)"
  by (auto simp: esl_rsp_key_write_def wlp esl_settings_rsp_key_save_def intro!: sys_finish_write sys_save_one)

lemma sys_abs_time_write:
  "zephyr_ok (zep e) \<Longrightarrow> sys_ok A s \<Longrightarrow> ensures (abs_time_write e now buf s) (\<lambda>(r, t). sys_ok A t)"
  by (auto simp: abs_time_write_def Let_def wlp esl_settings_abs_save_def esl_abs_time_update_def
      intro!: sys_finish_write sys_save_one)

lemma sys_control_write: "sys_ok A s \<Longrightarrow> sys_ok A (snd (esl_control_write e buf s))"
  by (simp add: esl_control_write_def)

lemma sys_store_led: "sys_ok A s \<Longrightarrow> ensures (ecp_store_led i c s) (sys_ok A)"
  by (simp add: ecp_store_led_def Let_def wlp case_prod_unfold)

lemma ensures_display_checks: "(\<And>r. P r) \<Longrightarrow> ensures (display_checks e d img s) P"
  by (rule ensuresI) blast

lemma sys_dispatch:
  assumes z: "zephyr_ok (zep e)" and s: "sys_ok A s"
  shows "ensures (ecp_dispatch e x op esl_id s) (sys_ok A)"
proof -
  have u: "ensures (ecp_unassociate e esl_id s) (sys_ok A)" "ensures (ecp_service_reset e s) (sys_ok A)"
    "ensures (ecp_read_sensor e s) (sys_ok A)" "ensures (ecp_refresh_display e s) (sys_ok A)"
    using s by (simp_all add: ecp_unassociate_def ecp_service_reset_def ecp_read_sensor_def
        ecp_refresh_display_def wlp)
  have f: "ensures (ecp_factory_reset e esl_id s) (sys_ok A)"
    using s by (auto simp: ecp_factory_reset_def wlp intro!: ensures_mono [OF sys_factory_reset [OF z]])
  have c: "ensures (ecp_update_complete e s) (sys_ok A)"
    using s by (auto simp: ecp_update_complete_def Let_def wlp sys_ok_data
        intro!: sys_transition [OF z] ensures_mono [OF sys_is_configuring [OF z]])
  have d: "ensures (ecp_display_image e s) (sys_ok A)"
    using s by (auto simp: ecp_display_image_def wlp split: option.split intro!: ensures_display_checks)
  have dt: "ensures (ecp_display_timed e x s) (sys_ok A)"
    using s by (auto simp: ecp_display_timed_def Let_def wlp split: option.split
        intro!: ensures_display_checks ensures_mono [OF sys_display_dwork_reset] sys_basic_update)
  have l: "ensures (ecp_led_control e s) (sys_ok A)"
    using s by (auto simp: ecp_led_control_def Let_def wlp
        intro!: ensures_mono [OF sys_store_led] ensures_mono [OF sys_led_dwork_reset])
  have lt: "ensures (ecp_led_timed e x s) (sys_ok A)"
    using s by (auto simp: ecp_led_timed_def Let_def wlp
        intro!: ensures_mono [OF sys_store_led] ensures_mono [OF sys_led_dwork_reset]
          ensures_mono [OF sys_basic_update] sys_basic_update)
  have v: "ensures (ecp_default e op s) (sys_ok A)"
    using s by (auto simp: ecp_default_def wlp case_prod_unfold split: option.split intro!: ensuresI)
  show ?thesis
    using s u f c d dt l lt v by (simp add: ecp_dispatch_def)
qed

lemma sys_sensor_response: "sys_ok A s \<Longrightarrow> ensures (ecp_sensor_response e x b s) (\<lambda>(b', l, t). sys_ok A t)"
  by (auto simp: ecp_sensor_response_def Let_def wlp case_prod_unfold split: option.split intro!: ensuresI)

text \<open>Calls of which nothing is needed.\<close>

lemma ensures_z_nb:
  "(\<And>r. P r) \<Longrightarrow> ensures (z_nb_remove z b n) P" "(\<And>r. P r) \<Longrightarrow> ensures (z_nb_add z c b xs) P"
  by (auto intro: ensuresI)

lemma sys_response_bytes: "sys_ok A s \<Longrightarrow> ensures (ecp_response_bytes e x s) (\<lambda>(b', l, t). sys_ok A t)"
  by (auto simp: ecp_response_bytes_def Let_def wlp sys_sensor_response case_prod_unfold
      sys_sensor_response [unfolded case_prod_unfold]
      split: option.split intro!: ensures_mono [OF sys_basic_update])
    (auto intro!: ensuresI)

lemma sys_response_append: "sys_ok A s \<Longrightarrow> ensures (ecp_response_append e src b len s) (sys_ok A)"
  by (auto simp: ecp_response_append_def wlp intro!: ensuresI)

lemma sys_response_handler: "sys_ok A s \<Longrightarrow> ensures (ecp_response_handler e x src s) (sys_ok A)"
  by (auto simp: ecp_response_handler_def Let_def wlp case_prod_unfold
      intro!: ensures_mono [OF sys_response_bytes] ensures_mono [OF sys_response_append] ensures_z_nb)

lemma sys_check_id: "sys_ok A s \<Longrightarrow> sys_ok A (snd (check_ecp_esl_id i s))"
  by (simp add: check_ecp_esl_id_def)

lemma sys_command_handler:
  "zephyr_ok (zep e) \<Longrightarrow> sys_ok A s \<Longrightarrow> ensures (ecp_command_handler e x s) (sys_ok A)"
  by (auto simp: ecp_command_handler_def Let_def wlp case_prod_unfold sys_check_id
      intro!: sys_response_handler ensures_mono [OF sys_dispatch])

lemma sys_notify_unassociated:
  "zephyr_ok (zep e) \<Longrightarrow> sys_ok A s \<Longrightarrow> ensures (ecp_notify_unassociated_cb e s) (sys_ok A)"
  by (auto simp: ecp_notify_unassociated_cb_def wlp intro!: ensures_mono [OF sys_unassociate])

subsection \<open>The handlers keep it: packets\<close>

lemma sys_run_tlv: "zephyr_ok (zep e) \<Longrightarrow> sys_ok A s \<Longrightarrow> ensures (run_tlv e x cmd n s) (sys_ok A)"
  unfolding run_tlv_def by (rule sys_command_handler) simp_all

lemma sys_set_pawr_response: "sys_ok A s \<Longrightarrow> ensures (set_pawr_response e x slot s) (sys_ok A)"
  by (auto simp: set_pawr_response_def wlp case_prod_unfold intro!: ensuresI)

lemma sys_work_fn:
  "zephyr_ok (zep e) \<Longrightarrow> sys_ok A s \<Longrightarrow> ensures (esl_pawr_sync_work_fn e xs x stack s) (sys_ok A)"
  by (rule work_fn_ensures [where I = "sys_ok A"]) (simp_all add: sys_run_tlv sys_set_pawr_response)

text \<open>The work item on a packet of complete TLVs, and on one that does not decrypt.\<close>

lemma work_fn_authentic:
  assumes e: "env_ok e" and wf: "wf_tag e s"
    and buf: "pawr_buf s = air_packet (zep e) (esl_ap_key s) (esl_packet g ts)"
    and ts: "list_all tlv_ok ts" "length (esl_payload g ts) \<le> ESL_SYNC_PKT_PAYLOAD_MAX_LEN"
    and stack: "length stack = ESL_ENCRTYPTED_DATA_MAX_LEN" and x: "\<And>i. inp_ok (xs i)" "inp_ok x"
  shows "yields (esl_pawr_sync_work_fn e xs x stack s) (wf_tag e)"
proof -
  have key: "key_ok (esl_ap_key s)" using wf by (simp add: wf_tag_def)
  have n: "length (esl_packet g ts) \<le> 61" "esl_packet g ts \<noteq> []" "length (esl_payload g ts) \<le> 200"
    using ts(2) by (simp_all add: esl_packet_def)
  show ?thesis
    unfolding work_fn_decrypts [OF env_zep [OF e] key buf n(2,1) stack]
    by (auto simp: wp intro!: yields_mono [OF wf_parse_packet [OF e x wf n(3) ts(1)]])
qed

lemma work_fn_rejects:
  assumes z: "zephyr_ok (zep e)" and n: "2 \<le> length (pawr_buf s)" "length (pawr_buf s) \<le> 72"
    and stack: "length stack = ESL_ENCRTYPTED_DATA_MAX_LEN"
    and bad: "fst (z_ead_decrypt (zep e) (session_key (esl_ap_key s)) (iv (esl_ap_key s)) (drop 2 (pawr_buf s))) \<noteq> 0"
  shows "esl_pawr_sync_work_fn e xs x stack s = Some s"
proof -
  have pull: "z_nb_pull (zep e) (pawr_buf s) 2 = Some (drop 2 (pawr_buf s))"
    using n by (simp add: z_nb_pull_eq [OF z])
  have "length (snd (z_ead_decrypt (zep e) k v (drop 2 (pawr_buf s)))) \<le> 61" for k v
    using n by (simp add: z_ead_decrypt_length [OF z])
  then have "\<exists>m. wr_mem stack 0 (snd (z_ead_decrypt (zep e) k v (drop 2 (pawr_buf s)))) = Some m" for k v
    using stack by (simp add: wr_mem_def)
  then obtain m where "wr_mem stack 0 (snd (z_ead_decrypt (zep e) (session_key (esl_ap_key s))
      (iv (esl_ap_key s)) (drop 2 (pawr_buf s)))) = Some m" by blast
  then show ?thesis
    unfolding esl_pawr_sync_work_fn_def pull using bad by (simp add: Let_def case_prod_unfold)
qed

subsection \<open>The handlers keep it: the console\<close>

text \<open>The addresses that are typed are in \<open>A\<close>.\<close>

definition typed_address :: "u16 set \<Rightarrow> argv \<Rightarrow> bool" where
  "typed_address A argv \<longleftrightarrow>
     (2 \<le> length argv \<and> argv ! 0 = ''addr'' \<longrightarrow> (of_int (c_strtoul 16 (argv ! 1)) :: u16) \<in> A)"

lemma sys_code: "ensures (map_option (Pair c) m) (\<lambda>(r, t). P t) \<longleftrightarrow> ensures m P"
  by (cases m) simp_all

lemma sys_args: "ensures (with_args n argv s m) P \<longleftrightarrow> (if length argv < n then P (- ENOEXEC, s) else ensures m P)"
  by (simp add: with_args_def)

lemma sys_arg: "ensures (ul_arg base argv i) P \<longleftrightarrow> (i < length argv \<longrightarrow> P (c_strtoul base (argv ! i)))"
  "ensures (hex_arg argv i) P \<longleftrightarrow> (i < length argv \<longrightarrow> P (c_strtol 16 (argv ! i)))"
  by (simp_all add: ul_arg_def hex_arg_def rd_def)

lemmas console_wlp = sys_code sys_args sys_arg wlp

lemma sys_checked_part: "sys_ok A s \<Longrightarrow> ensures (checked_part e i off len s) (sys_ok A)"
  by (auto simp: checked_part_def wlp case_prod_unfold
      intro!: ensures_mono [OF sys_obj_checksum] ensuresI [of "fst (snd _)"])

lemma sys_dump_chunks: "sys_ok A s \<Longrightarrow> ensures (dump_chunks e i left chunk pos s) (sys_ok A)"
proof (rule ensuresI)
  fix t assume s: "sys_ok A s" and t: "dump_chunks e i left chunk pos s = Some t"
  from t have "sys_ok A s \<longrightarrow> sys_ok A t"
  proof (rule dump_chunks.raw_induct [rotated])
    fix rec e i left chunk pos s t
    assume IH: "\<And>e i left chunk pos s t. rec e i left chunk pos s = Some t \<Longrightarrow> sys_ok A s \<longrightarrow> sys_ok A t"
      and t: "(if left = 0 then Some s else do {
        s1 \<leftarrow> checked_part e (ucast i) (sint pos) (unat chunk) s;
        let left1 = left - chunk;
        rec e i left1 (if left1 < chunk then left1 else chunk) (pos + chunk) s1 }) = Some t"
    show "sys_ok A s \<longrightarrow> sys_ok A t"
      using t ensuresD [OF sys_checked_part [of A s]]
      by (auto simp: bind_eq_Some_conv Let_def dest!: IH split: if_splits)
  qed
  then show "sys_ok A t" using s by blast
qed

lemma sys_addr_line:
  assumes "zephyr_ok (zep e)" "sys_ok A s" "2 \<le> length argv \<longrightarrow> of_int (c_strtoul 16 (argv ! 1)) \<in> A"
  shows "ensures (cmd_esl_addr e argv s) (\<lambda>(r, t). sys_ok A t)"
proof -
  have set: "sys_ok A (snd (esl_settings_addr_save e (s\<lparr>esl_addr := a\<rparr>)))" if "a \<in> A" for a
    using assms(1,2) that
    by (simp add: esl_settings_addr_save_def sys_save_one sys_addr_update addr_in_def of_le16_le16 [of _ "[]", simplified])
  show ?thesis using assms(2,3) by (auto simp: cmd_esl_addr_def console_wlp set)
qed

lemma sys_led_line: "sys_ok A s \<Longrightarrow> ensures (cmd_esl_led e argv s) (\<lambda>(r, t). sys_ok A t)"
  by (auto simp: cmd_esl_led_def console_wlp Let_def sys_basic_update)

lemma sys_image_lines:
  assumes "sys_ok A s"
  shows "ensures (cmd_esl_img_dump e nvs argv s) (\<lambda>(r, t). sys_ok A t)" "ensures (cmd_esl_obj_checksum e argv s) (\<lambda>(r, t). sys_ok A t)"
  using assms
  by (simp_all add: cmd_esl_img_dump_def cmd_esl_obj_checksum_def console_wlp Let_def sys_checked_part sys_dump_chunks)

lemma sys_state_lines:
  assumes "zephyr_ok (zep e)" "sys_ok A s"
  shows "ensures (cmd_esl_state e argv s) (\<lambda>(r, t). sys_ok A t)" "ensures (cmd_esl_unassociated e s) (\<lambda>(r, t). sys_ok A t)"
    "ensures (cmd_esl_factory_reset e s) (\<lambda>(r, t). sys_ok A t)"
  using assms sys_transition [OF assms(1) sys_ok_data [OF assms(2)]] sys_unassociate [OF assms] sys_factory_reset [OF assms]
  by (simp_all add: cmd_esl_state_def cmd_esl_unassociated_def cmd_esl_factory_reset_def console_wlp)

lemma sys_adv_stop: "sys_ok A s \<Longrightarrow> ensures (bt_esl_adv_stop e s) (sys_ok A)"
  by (simp add: bt_esl_adv_stop_def Let_def sys_led_dwork_reset)

lemma sys_plain_lines:
  assumes "sys_ok A s"
  shows "ensures (cmd_esl_unbond s) (\<lambda>(r, t). sys_ok A t)" "ensures (cmd_esl_disconnect s) (\<lambda>(r, t). sys_ok A t)"
    "ensures (cmd_esl_adv e argv s) (\<lambda>(r, t). sys_ok A t)" "ensures (cmd_esl_display e argv s) (\<lambda>(r, t). sys_ok A t)"
    "ensures (cmd_esl_busy s) (\<lambda>(r, t). sys_ok A t)" "ensures (cmd_esl_abs x argv s) (\<lambda>(r, t). sys_ok A t)"
    "ensures (cmd_set_esl_basic e argv s) (\<lambda>(r, t). sys_ok A t)" "ensures (cmd_esl_configuring e argv s) (\<lambda>(r, t). sys_ok A t)"
  using assms sys_adv_stop [OF assms]
  by (auto simp: cmd_esl_unbond_def cmd_esl_disconnect_def cmd_esl_adv_def cmd_esl_display_def cmd_esl_busy_def cmd_esl_abs_def
      cmd_set_esl_basic_def cmd_esl_configuring_def write_bit_def console_wlp Let_def esl_abs_time_update_def)

lemma sys_platform_lines:
  assumes "sys_ok A s"
  shows "ensures (cmd_esl_sensor e x argv s) (\<lambda>(r, t). sys_ok A t)" "ensures (cmd_esl_accept_pair argv s) (\<lambda>(r, t). sys_ok A t)"
    "ensures (cmd_esl_security argv s) (\<lambda>(r, t). sys_ok A t)"
proof -
  show "ensures (cmd_esl_sensor e x argv s) (\<lambda>(r, t). sys_ok A t)"
    using assms by (auto simp: cmd_esl_sensor_def console_wlp case_prod_unfold split: option.split intro!: ensuresI)
  show "ensures (cmd_esl_accept_pair argv s) (\<lambda>(r, t). sys_ok A t)"
    using assms by (cases "auth_conn s") (simp_all add: cmd_esl_accept_pair_def console_wlp)
  show "ensures (cmd_esl_security argv s) (\<lambda>(r, t). sys_ok A t)"
    using assms by (cases "conn s") (simp_all add: cmd_esl_security_def console_wlp Let_def)
qed

lemma sys_run_line:
  assumes "zephyr_ok (zep e)" "sys_ok A s" "typed_address A argv"
  shows "ensures (run_line e x nvs argv s) (\<lambda>(r, t). sys_ok A t)"
proof (cases argv)
  case (Cons name rest)
  have addr: "ensures (cmd_esl_addr e argv s) (\<lambda>(r, t). sys_ok A t)" if "name = ''addr''"
    by (rule sys_addr_line [OF assms(1,2)]) (use assms(3) that in \<open>simp add: typed_address_def Cons\<close>)
  show ?thesis
  proof (cases "map_of (esl_commands e x nvs) name")
    case (Some f)
    have "ensures (f argv s) (\<lambda>(r, t). sys_ok A t)"
      using map_of_SomeD [OF Some] addr unfolding esl_commands_def
      by (auto simp: sys_led_line [OF assms(2)] sys_image_lines [OF assms(2)] sys_state_lines [OF assms(1,2)]
          sys_plain_lines [OF assms(2)] sys_platform_lines [OF assms(2)])
    then show ?thesis unfolding run_line_def Cons using Some by simp
  qed (use assms(2) in \<open>simp add: run_line_def Cons\<close>)
qed (use assms(2) in \<open>simp add: run_line_def\<close>)

subsection \<open>The step relation\<close>

text \<open>
  One rule for every entry point. Writes, packets and lines are arbitrary; a handler that is undefined
  on what it is given has no step. The premises are what the platform promises of the arguments:
  lengths fit their types, arrays on the stack have their size, timers are those of the LEDs and
  displays there are, transfers stay inside the object. A line typed at the console names what
  exists (\<open>line_in_range\<close>): what the unchecked commands do otherwise is undefined (\<open>stopped_commands\<close>), and
  the callbacks promise nothing for other sensors and images. Also undefined are the work item on a packet of
  more than 72 bytes (\<open>work_fn_overrun\<close>), a command that reads past the packet (\<open>command_handler_reads\<close>)
  and the LED worker on an empty pattern (\<open>led_worker_stuck\<close>).
\<close>

inductive tag_step :: "u16 set \<Rightarrow> 'st env \<Rightarrow> 'st tag \<Rightarrow> 'st tag \<Rightarrow> bool" for A e where
  st_connected: "connected e c err s = Some t \<Longrightarrow> tag_step A e s t"
| st_disconnected: "disconnected e c reason s = Some t \<Longrightarrow> tag_step A e s t"
| st_security: "security_changed e err' s = Some t \<Longrightarrow> tag_step A e s t"
| st_sync: "sync_cb e c d s = Some t \<Longrightarrow> tag_step A e s t"
| st_term: "term_cb e s = Some t \<Longrightarrow> tag_step A e s t"
| st_timeout: "esl_state_timeout_work_fn e s = Some t \<Longrightarrow> tag_step A e s t"
| st_advertise: "esl_advertising_fn e s = Some t \<Longrightarrow> tag_step A e s t"
| st_addr: "esl_addr_write e buf s = Some (r, t) \<Longrightarrow> tag_step A e s t"
| st_ap_key: "ap_key_write e buf s = Some (r, t) \<Longrightarrow> tag_step A e s t"
| st_rsp_key: "esl_rsp_key_write e buf s = Some (r, t) \<Longrightarrow> tag_step A e s t"
| st_abs_time: "abs_time_write e now buf s = Some (r, t) \<Longrightarrow> tag_step A e s t"
| st_control: "tag_step A e s (snd (esl_control_write e buf s))"
| st_command: "inp_ok x \<Longrightarrow> ecp_command_handler e x s = Some t \<Longrightarrow> tag_step A e s t"
| st_notified: "ecp_notify_unassociated_cb e s = Some t \<Longrightarrow> tag_step A e s t"
| st_receive: "recv_cb e ev se data s = Some t \<Longrightarrow> tag_step A e s t"
| st_packet: "\<forall>i. inp_ok (xs i) \<Longrightarrow> inp_ok x \<Longrightarrow> length stack = ESL_ENCRTYPTED_DATA_MAX_LEN \<Longrightarrow>
    esl_pawr_sync_work_fn e xs x stack s = Some t \<Longrightarrow> tag_step A e s t"
| st_console: "inp_ok x \<Longrightarrow> line_in_range e nvs argv s \<Longrightarrow> typed_address A argv \<Longrightarrow>
    run_line e x nvs argv s = Some (r, t) \<Longrightarrow> tag_step A e s t"
| st_led: "k < led_max (cfg e) \<Longrightarrow> led_delay_worker_fn e x k s = Some t \<Longrightarrow> tag_step A e s t"
| st_display: "k < display_max (cfg e) \<Longrightarrow> display_delay_worker_fn e k s = Some t \<Longrightarrow> tag_step A e s t"
| st_created: "ots_obj_created e asked oid s = Some (r, desc, t) \<Longrightarrow> tag_step A e s t"
| st_selected: "tag_step A e s (ots_obj_selected e oid s)"
| st_written: "unat (ots_index oid) < image_max (cfg e) \<Longrightarrow> len \<le> length data \<Longrightarrow> 0 \<le> off \<Longrightarrow>
    off + int len \<le> int (image_buffer_size (cfg e)) \<Longrightarrow>
    ots_obj_write e oid data len off rem s = Some (n, t) \<Longrightarrow> tag_step A e s t"
| st_read: "len \<le> image_buffer_size (cfg e) \<Longrightarrow>
    ots_obj_read e oid (d :: unit option) len off s = Some (n, d', t) \<Longrightarrow> tag_step A e s t"
| st_checksum: "len \<le> image_buffer_size (cfg e) \<Longrightarrow>
    ots_obj_cal_checksum e oid off len s = Some (r, chk, t) \<Longrightarrow> tag_step A e s t"

definition tag_init :: "u16 set \<Rightarrow> 'st env \<Rightarrow> 'st tag \<Rightarrow> bool" where
  "tag_init A e s \<longleftrightarrow> env_ok e \<and> (\<exists>p r stored st. init_param_ok e p \<and> store_ok A stored \<and>
     module_inits [cb_display_init (cbs e), cb_led_init (cbs e), cb_sensor_init (cbs e)] None = Some 0 \<and>
     bt_esl_init e p r (static_tag e stored st) = Some (0, s))"

definition tag_inv :: "u16 set \<Rightarrow> 'st env \<Rightarrow> 'st tag \<Rightarrow> bool" where
  "tag_inv A e s \<longleftrightarrow> env_ok e \<and> wf_tag e s \<and> sys_ok A s"

subsection \<open>The invariant\<close>

lemma tag_inv_parts: "tag_inv A e s \<Longrightarrow> env_ok e" "tag_inv A e s \<Longrightarrow> wf_tag e s" "tag_inv A e s \<Longrightarrow> sys_ok A s"
  "tag_inv A e s \<Longrightarrow> zephyr_ok (zep e)"
  by (simp_all add: tag_inv_def env_ok_def)

lemma tag_invI:
  "tag_inv A e s \<Longrightarrow> m = Some t \<Longrightarrow> ensures m (wf_tag e) \<Longrightarrow> ensures m (sys_ok A) \<Longrightarrow> tag_inv A e t"
  by (simp add: tag_inv_def)

lemma tag_invI_pair:
  "tag_inv A e s \<Longrightarrow> m = Some (r, t) \<Longrightarrow> ensures m (\<lambda>(r, t). wf_tag e t) \<Longrightarrow> ensures m (\<lambda>(r, t). sys_ok A t) \<Longrightarrow>
     tag_inv A e t"
  by (simp add: tag_inv_def)

lemma wf_obj_created: "wf_tag e s \<Longrightarrow> ots_obj_created e asked oid s = Some (r, desc, t) \<Longrightarrow> wf_tag e t"
  by (auto simp: ots_obj_created_def upd_def bind_eq_Some_conv wf_img_lengths
      intro!: wf_img_names split: if_splits option.splits)

lemma sys_obj_created: "sys_ok A s \<Longrightarrow> ots_obj_created e asked oid s = Some (r, desc, t) \<Longrightarrow> sys_ok A t"
  by (auto simp: ots_obj_created_def upd_def bind_eq_Some_conv split: if_splits option.splits)

lemma tag_led_defined:
  assumes "tag_inv A e s" "k < led_max (cfg e)"
  shows "led_delay_worker_fn e x k s = None \<longleftrightarrow> led_stuck e s k"
proof -
  have c: "led_max (cfg e) \<le> 255" using assms(1) by (simp add: tag_inv_def env_ok_def cfg_ok_def)
  show ?thesis
    using led_worker_stuck [OF tag_inv_parts(2) [OF assms(1)] assms(2) c]
      wf_led_delay_worker [OF tag_inv_parts(2) [OF assms(1)] assms(2) c]
    by (auto dest: yields_total)
qed

lemma tag_step_led:
  assumes "tag_inv A e s" "k < led_max (cfg e)" "led_delay_worker_fn e x k s = Some t"
  shows "tag_inv A e t"
proof -
  have c: "led_max (cfg e) \<le> 255" using assms(1) by (simp add: tag_inv_def env_ok_def cfg_ok_def)
  have live: "\<not> led_stuck e s k" using tag_led_defined [OF assms(1,2), of x] assms(3) by simp
  show ?thesis
    by (rule tag_invI [OF assms(1,3) yields_ensures [OF wf_led_delay_worker [OF tag_inv_parts(2) [OF assms(1)] assms(2) c live]]
          sys_led_worker [OF tag_inv_parts(3) [OF assms(1)]]])
qed

text \<open>Commands that are written, received complete and received truncated.\<close>

lemma command_run:
  assumes inv: "tag_inv A e s" and x: "inp_ok x"
  shows "2 \<le> length buf \<Longrightarrow> yields (ecp_command_handler e x (snd (esl_control_write e buf s))) (tag_inv A e)"
    and "mem \<noteq> [] \<Longrightarrow> ECP_LEN (mem ! 0) \<le> length mem \<Longrightarrow> yields (run_tlv e x mem (ECP_LEN (mem ! 0)) s) (tag_inv A e)"
    and "ensures (run_tlv e x mem (ECP_LEN (mem ! 0)) s) (tag_inv A e)"
    and "\<not> vendor_command e (mem ! 0) \<Longrightarrow> run_tlv e x mem (ECP_LEN (mem ! 0)) s = None \<longleftrightarrow>
       length mem < command_reads e mem (ECP_LEN (mem ! 0)) s"
proof -
  note e = tag_inv_parts(1) [OF inv] and wf = tag_inv_parts(2) [OF inv]
    and sys = tag_inv_parts(3) [OF inv] and z = tag_inv_parts(4) [OF inv]
  have both: "yields m (tag_inv A e)" if "yields m (wf_tag e)" "ensures m (sys_ok A)" for m
    using that e by (auto simp: yields_def tag_inv_def)
  have small: "ECP_LEN op < 65536" for op using ECP_LEN_le [of op] by simp
  show "yields (ecp_command_handler e x (snd (esl_control_write e buf s))) (tag_inv A e)" if "2 \<le> length buf"
    by (rule both, rule wf_command_handler [OF e _ x], rule_tac [3] sys_command_handler [OF z])
      (use that wf sys in \<open>auto simp: wf_control_write [OF wf] sys_control_write [OF sys] command_in_memory_def esl_control_write_def
        unat_of_nat intro: order_trans [OF eq_refl mod_less_eq_dividend] dest!: sym [of _ "ECP_LEN _"]\<close>)
  show "yields (run_tlv e x mem (ECP_LEN (mem ! 0)) s) (tag_inv A e)"
    if "mem \<noteq> []" "ECP_LEN (mem ! 0) \<le> length mem"
    by (rule both [OF wf_run_tlv [OF e wf x that] sys_run_tlv [OF z sys]])
  show "ensures (run_tlv e x mem (ECP_LEN (mem ! 0)) s) (tag_inv A e)"
    using wlp_run_tlv [OF e wf x] sys_run_tlv [OF z sys] e by (simp add: ensures_def tag_inv_def)
  show "run_tlv e x mem (ECP_LEN (mem ! 0)) s = None \<longleftrightarrow> length mem < command_reads e mem (ECP_LEN (mem ! 0)) s"
    if "\<not> vendor_command e (mem ! 0)"
    by (rule run_tlv_reads [OF e wf x that small])
qed

lemma packet_run:
  assumes inv: "tag_inv A e s" and x: "inp_ok x" "\<forall>i. inp_ok (xs i)"
    and p: "pawr_buf s = air_packet (zep e) (esl_ap_key s) (esl_packet g ts)" "list_all tlv_ok ts"
      "length (esl_payload g ts) \<le> ESL_SYNC_PKT_PAYLOAD_MAX_LEN" "length stack = ESL_ENCRTYPTED_DATA_MAX_LEN"
  shows "yields (esl_pawr_sync_work_fn e xs x stack s) (tag_inv A e)"
  using work_fn_authentic [OF tag_inv_parts(1,2) [OF inv] p] x
    sys_work_fn [OF tag_inv_parts(4,3) [OF inv], of xs x stack] tag_inv_parts(1) [OF inv]
  by (simp add: yields_def ensures_def tag_inv_def) blast

lemma wlp_writes:
  assumes "env_ok e" "wf_tag e s"
  shows "ensures (esl_addr_write e buf s) (\<lambda>(r, t). wf_tag e t)" "ensures (ap_key_write e buf s) (\<lambda>(r, t). wf_tag e t)"
    "ensures (esl_rsp_key_write e buf s) (\<lambda>(r, t). wf_tag e t)" "ensures (abs_time_write e now buf s) (\<lambda>(r, t). wf_tag e t)"
proof -
  have by_length: "ensures m P" if "n \<le> length buf \<Longrightarrow> yields m P" "rd_mem buf 0 n = None \<Longrightarrow> m = None"
    for m :: "(int \<times> 'a tag) option" and P n
    using that by (cases "n \<le> length buf") (auto simp: rd_mem_def intro: yields_ensures)
  show "ensures (esl_addr_write e buf s) (\<lambda>(r, t). wf_tag e t)"
    by (rule by_length [OF wf_addr_write [OF assms]]) (assumption, simp only: esl_addr_write_def bind.simps)
  show "ensures (ap_key_write e buf s) (\<lambda>(r, t). wf_tag e t)"
    by (rule by_length [OF wf_ap_key_write [OF assms]]) (assumption, simp only: ap_key_write_def bind.simps)
  show "ensures (esl_rsp_key_write e buf s) (\<lambda>(r, t). wf_tag e t)"
    by (rule by_length [OF wf_rsp_key_write [OF assms]]) (assumption, simp only: esl_rsp_key_write_def bind.simps)
  show "ensures (abs_time_write e now buf s) (\<lambda>(r, t). wf_tag e t)"
    by (rule by_length [OF wf_abs_time_write [OF assms]]) (assumption, simp only: abs_time_write_def bind.simps)
qed

lemma wf_notify_unassociated: "env_ok e \<Longrightarrow> wf_tag e s \<Longrightarrow> yields (ecp_notify_unassociated_cb e s) (wf_tag e)"
  by (auto simp: ecp_notify_unassociated_cb_def wp intro!: yields_mono [OF wf_unassociate])

lemmas step_wf = wf_connected wf_disconnected wf_security_changed wf_sync_cb wf_term_cb wf_timeout_work wf_advertising_fn
  wf_recv_cb wf_display_delay_worker

lemmas step_sys = sys_connected sys_disconnected sys_security_changed sys_sync_cb sys_term_cb sys_timeout_work
  sys_advertising_fn sys_recv_cb sys_display_worker sys_addr_write sys_ap_key_write sys_rsp_key_write sys_abs_time_write
  sys_command_handler sys_notify_unassociated sys_work_fn sys_run_line

lemma tag_step_inv:
  assumes inv: "tag_inv A e s" and step: "tag_step A e s t"
  shows "tag_inv A e t"
proof -
  note e = tag_inv_parts(1) [OF inv] and wf = tag_inv_parts(2) [OF inv]
    and sys = tag_inv_parts(3) [OF inv] and z = tag_inv_parts(4) [OF inv]
  have keep: "wf_tag e u \<Longrightarrow> sys_ok A u \<Longrightarrow> tag_inv A e u" for u using e by (simp add: tag_inv_def)
  note one = tag_invI [OF inv] and two = tag_invI_pair [OF inv] and total = tag_invI [OF inv _ yields_ensures]
  from step show ?thesis
  proof cases
    case (st_connected c err) then show ?thesis by (rule total) (intro step_wf step_sys e wf sys)+
  next
    case (st_disconnected c reason) then show ?thesis by (rule total) (intro step_wf step_sys e wf sys z)+
  next
    case (st_security err') then show ?thesis by (rule total) (intro step_wf step_sys e wf sys z)+
  next
    case (st_sync c d) then show ?thesis by (rule total) (intro step_wf step_sys e wf sys z)+
  next
    case st_term then show ?thesis by (rule total) (intro step_wf step_sys e wf sys z)+
  next
    case st_timeout then show ?thesis by (rule total) (intro step_wf step_sys e wf sys z)+
  next
    case st_advertise then show ?thesis by (rule total) (intro step_wf step_sys e wf sys)+
  next
    case (st_addr buf r) then show ?thesis by (rule two) (intro wlp_writes step_sys e wf sys z)+
  next
    case (st_ap_key buf r) then show ?thesis by (rule two) (intro wlp_writes step_sys e wf sys z)+
  next
    case (st_rsp_key buf r) then show ?thesis by (rule two) (intro wlp_writes step_sys e wf sys z)+
  next
    case (st_abs_time buf now r) then show ?thesis by (rule two) (intro wlp_writes step_sys e wf sys z)+
  next
    case (st_control buf)
    then show ?thesis using keep wf_control_write [OF wf] sys_control_write [OF sys] by simp
  next
    case (st_command x)
    show ?thesis by (rule one [OF st_command(2)]) (intro wlp_command_handler step_sys e wf sys z st_command(1))+
  next
    case st_notified
    then show ?thesis by (rule total) (intro wf_notify_unassociated step_sys e wf sys z)+
  next
    case (st_receive ev se data) then show ?thesis by (rule total) (intro step_wf step_sys e wf sys)+
  next
    case (st_packet xs x stack)
    show ?thesis by (rule one [OF st_packet(4)]) (intro wlp_work_fn step_sys e wf sys z st_packet(1,2))+
  next
    case (st_console x nvs argv r)
    show ?thesis
      by (rule two [OF st_console(4)])
        (intro yields_ensures [OF line_yields] step_sys e wf sys z st_console(1-3))+
  next
    case (st_led k x) then show ?thesis by (rule tag_step_led [OF inv])
  next
    case (st_display k)
    show ?thesis by (rule total [OF st_display(2)]) (intro step_wf step_sys wf sys st_display(1))+
  next
    case (st_created asked oid r desc)
    then show ?thesis using keep wf_obj_created [OF wf] sys_obj_created [OF sys] by blast
  next
    case (st_selected oid) then show ?thesis using keep wf sys by (simp add: ots_obj_selected_def)
  next
    case (st_written oid len data off rem n)
    show ?thesis
      by (rule two [OF st_written(5)])
        (auto intro!: yields_ensures [OF yields_mono [OF wf_obj_write [OF e wf st_written(1-4)]]] sys_obj_write sys)
  next
    case (st_read len oid d off n d')
    then show ?thesis
      using keep yieldsD [OF wf_obj_read [OF e wf st_read(1)] st_read(2)] ensuresD [OF sys_obj_read [OF sys] st_read(2)]
      by simp
  next
    case (st_checksum len oid off r chk)
    then show ?thesis
      using keep yieldsD [OF wf_obj_checksum [OF e wf st_checksum(1)] st_checksum(2)]
        ensuresD [OF sys_obj_checksum [OF sys] st_checksum(2)]
      by simp
  qed
qed

text \<open>Initialisation: the settings are loaded into the unassociated tag.\<close>

lemma sys_settings_set:
  "sys_ok A s \<Longrightarrow> (n = ''esl_addr'' \<Longrightarrow> length v = 2 \<Longrightarrow> addr_in A (of_le16 v)) \<Longrightarrow>
     sys_ok A (snd (esl_settings_set e n (length v) (int (length v), v) s))"
  by (simp add: esl_settings_set_def Let_def sys_addr_update)

lemma sys_load_entry: "sys_ok A s \<Longrightarrow> sys_ok A (load_entry e n s)"
  by (auto simp: load_entry_def split: option.split intro!: sys_settings_set)
    (auto simp: sys_ok_def sys_data_def store_ok_def)

lemma sys_load_entries: "sys_ok A s \<Longrightarrow> sys_ok A (fold (load_entry e) order s)"
  by (induction order arbitrary: s) (simp_all add: sys_load_entry)

lemma sys_settings_init: "sys_ok A s \<Longrightarrow> sys_ok A (snd (esl_settings_init e order r1 r2 r3 s))"
  by (simp add: esl_settings_init_def sys_load_entries)

lemma sys_static: "store_ok A stored \<Longrightarrow> sys_ok A (static_tag e stored st)"
  by (simp add: static_tag_def sys_ok_def sys_data_def addr_in_def addr_ok_def LOW_BYTE_def)

lemma sys_init_registers: "sys_ok A s \<Longrightarrow> sys_ok A (init_registers e p s)"
  by (simp add: init_registers_def Let_def esl_display_register_def esl_sensor_register_def esl_led_register_def)

lemma sys_worker_init: "sys_ok A s \<Longrightarrow> ensures (worker_init e s) (sys_ok A)"
  by (auto simp: worker_init_def led_dwork_init_def display_dwork_init_def wlp
      intro!: ensures_mono [OF for_loop_ensures [where I = "sys_ok A"]] for_loop_ensures [where I = "sys_ok A"]
        sys_led_dwork_reset sys_display_dwork_reset)

lemma sys_image_size_init: "sys_ok A s \<Longrightarrow> ensures (image_size_init e s) (sys_ok A)"
  by (auto simp: image_size_init_def wlp intro!: for_loop_ensures)

lemma sys_ots_init: "zephyr_ok (zep e) \<Longrightarrow> sys_ok A s \<Longrightarrow> ensures (ots_init_func e got err s) (\<lambda>(r, t). sys_ok A t)"
  by (auto simp: ots_init_func_def ots_create_obj_def wlp intro!: ensures_mono [OF sys_ots_create_from])

lemma sys_init_state: "zephyr_ok (zep e) \<Longrightarrow> sys_ok A s \<Longrightarrow> ensures (init_state e s) (sys_ok A)"
  by (auto simp: init_state_def wlp sys_ok_data intro!: ensures_mono [OF sys_is_configuring] sys_transition)

lemma sys_enter_initial: "sys_ok A s \<Longrightarrow> ensures (sm_unassociated_entry e (s\<lparr>sm_cur := SM_UNASSOCIATED\<rparr>)) (sys_ok A)"
  by (simp add: sm_unassociated_entry_def sys_ok_def bt_esl_adv_start_def effect_def)

lemma sys_bt_esl_init:
  assumes z: "zephyr_ok (zep e)" and "store_ok A stored"
  shows "ensures (bt_esl_init e p r (static_tag e stored st)) (\<lambda>(err, s). err = 0 \<longrightarrow> sys_ok A s)"
proof -
  have s0: "sys_ok A (init_registers e p ((static_tag e stored st)\<lparr>basic_state := 0, configuring_state := 0\<rparr>))"
    by (intro sys_init_registers) (simp add: sys_static assms(2))
  show ?thesis
    unfolding bt_esl_init_def Let_def ensures_bind
    by (rule ensuresI) (auto simp: wlp case_prod_unfold sys_settings_init z_smf_set_initial_eq [OF z]
        sys_init_provisioned
        intro!: ensures_mono [OF sys_worker_init [OF s0]] ensures_mono [OF sys_enter_initial]
          ensures_mono [OF sys_image_size_init] ensures_mono [OF sys_ots_init [OF z]]
          ensures_mono [OF sys_init_state [OF z]])
qed

lemma tag_init_inv: "tag_init A e s \<Longrightarrow> tag_inv A e s"
proof -
  assume init: "tag_init A e s"
  then have e: "env_ok e" by (simp add: tag_init_def)
  from init obtain p r stored st where i: "init_param_ok e p" "store_ok A stored"
      "module_inits [cb_display_init (cbs e), cb_led_init (cbs e), cb_sensor_init (cbs e)] None = Some 0"
    and s: "bt_esl_init e p r (static_tag e stored st) = Some (0, s)"
    unfolding tag_init_def by blast
  show "tag_inv A e s"
    using e yieldsD [OF wf_bt_esl_init [OF e i(1,3)] s] ensuresD [OF sys_bt_esl_init [OF env_zep [OF e] i(2)] s]
    by (simp add: tag_inv_def)
qed

interpretation tag_sys: transition_system "tag_init A e" "tag_step A e" "tag_inv A e" for A and e :: "'st env"
  by unfold_locales (rule tag_init_inv, assumption, rule tag_step_inv)

end
