(* ===== verification/Hw_Sensor.thy ===== *)
theory Hw_Sensor
  imports Esl_Tag_State
begin

unbundle bit_operations_syntax

text \<open>
  The sensors of the sample application, \<open>samples/peripheral_esl/hw/sensor/sensor.c\<close>: sensor 0 is
  the temperature sensor of the chip, measured on demand and reported by \<open>temp_handler\<close>; the others
  return mock values. The provider's contract with the service is the locale \<open>sensor_provider\<close>.
\<close>

subsection \<open>The callbacks\<close>

text \<open>\<open>celsius\<close> is what \<open>nrfx_temp_calculate\<close> makes of the raw value, in hundredths of a degree.\<close>

definition temp_handler :: "'st env \<Rightarrow> u32 \<Rightarrow> 'st tag \<Rightarrow> 'st tag option" where
  "temp_handler e celsius s = do {
     let s1 = s\<lparr>basic_state := z_set_bit (zep e) (basic_state s) ESL_SERVICE_NEEDED_BIT\<rparr>;
     d \<leftarrow> rd (sensor_data s1) 0;
     b \<leftarrow> wr_mem (sd_data d) 0 (le16 (ucast celsius));
     ds \<leftarrow> upd (sensor_data s1) 0 (d\<lparr>data_available := True, sd_data := b\<rparr>);
     Some (s1\<lparr>sensor_data := ds\<rparr>)
   }"

text \<open>\<open>memcpy(data, sensor_data[i].data, len)\<close>.\<close>

definition copy_sensor :: "nat \<Rightarrow> u8 \<Rightarrow> u8 list \<Rightarrow> esl_sensor_data list \<Rightarrow> u8 list option" where
  "copy_sensor i len data sd = do {
     d \<leftarrow> rd sd i;
     v \<leftarrow> rd_mem (sd_data d) 0 (unat len);
     wr_mem data 0 v
   }"

text \<open>The mock-up values of the other sensors.\<close>

definition mock_sensor :: "nat \<Rightarrow> u8 \<Rightarrow> esl_sensor_data list \<Rightarrow> esl_sensor_data list option" where
  "mock_sensor i len sd = for_loop 0 (unat len) (\<lambda>idx sd. do {
     d \<leftarrow> rd sd i;
     b \<leftarrow> upd (sd_data d) idx (0x12 + of_nat idx);
     upd sd i (d\<lparr>sd_data := b\<rparr>) }) sd"

text \<open>\<open>n\<close> is \<open>CONFIG_BT_ESL_SENSOR_MAX\<close>, \<open>pts\<close> whether \<open>CONFIG_BT_ESL_PTS\<close> is set.\<close>

definition sensor_control :: "nat \<Rightarrow> bool \<Rightarrow> u8 \<Rightarrow> u8 \<Rightarrow> u8 list \<Rightarrow> esl_sensor_data list
    \<Rightarrow> (int \<times> u8 \<times> u8 list \<times> esl_sensor_data list \<times> effect list) option" where
  "sensor_control n pts sensor_idx len0 data0 sd =
     (if n = 0 then Some (0, len0, data0, sd, [])
      else if n \<le> unat sensor_idx then Some (- EIO, len0, data0, sd, [])
      else do {
        let i = unat sensor_idx;
        d \<leftarrow> rd sd i;
        let len = sd_size d;
        (if sensor_idx = 0 then
           (if pts then do {
              data \<leftarrow> copy_sensor 0 len data0 sd;
              data1 \<leftarrow> copy_sensor i len data sd;
              Some (0, len, data1, sd, [Temp_measure])
            }
            else if data_available d then do {
              data \<leftarrow> copy_sensor 0 len data0 sd;
              sd1 \<leftarrow> upd sd 0 (d\<lparr>data_available := False\<rparr>);
              data1 \<leftarrow> copy_sensor i len data sd1;
              Some (0, len, data1, sd1, [])
            }
            else Some (- EBUSY, len, data0, sd, [Temp_measure]))
         else do {
           sd1 \<leftarrow> mock_sensor i len sd;
           data1 \<leftarrow> copy_sensor i len data0 sd1;
           Some (0, len, data1, sd1, [])
         })
      })"

subsection \<open>The contract\<close>

lemma yields_copy_sensor [wp]:
  "yields (copy_sensor i len data sd) P \<longleftrightarrow> i < length sd \<and> unat len \<le> length (sd_data (sd ! i)) \<and>
     unat len \<le> length data \<and> P (take (unat len) (sd_data (sd ! i)) @ drop (unat len) data)"
  by (auto simp: copy_sensor_def wp)

text \<open>The mock loop writes the first bytes of its own sensor and nothing else.\<close>

lemma mock_sensor_values:
  assumes "i < length sd" "unat len \<le> length (sd_data (sd ! i))"
  shows "mock_sensor i len sd = Some (sd[i := (sd ! i)\<lparr>sd_data :=
    map (\<lambda>k. 0x12 + of_nat k) [0..<unat len] @ drop (unat len) (sd_data (sd ! i))\<rparr>])"
proof -
  let ?b = "\<lambda>k. map (\<lambda>k. 0x12 + of_nat k) [0..<k] @ drop k (sd_data (sd ! i))"
  let ?I = "\<lambda>k t. t = sd[i := (sd ! i)\<lparr>sd_data := ?b k\<rparr>]"
  have "yields (mock_sensor i len sd) (?I (0 + unat len))"
    unfolding mock_sensor_def
  proof (rule for_loop_inv, goal_cases)
    case (1 k t)
    have k: "k < length (sd_data (sd ! i))" using 1(2) assms(2) by simp
    then have "drop k (sd_data (sd ! i)) = sd_data (sd ! i) ! k # drop (Suc k) (sd_data (sd ! i))"
      by (rule Cons_nth_drop_Suc [symmetric])
    then show ?case using 1 assms k by (simp add: wp list_update_append)
  qed (use assms in simp)
  then show ?thesis by (auto simp: yields_def)
qed

interpretation sensors: sensor_provider "sensor_control n pts" n for n pts
proof unfold_locales
  fix i l :: u8 and sd :: "esl_sensor_data list" and d :: "u8 list"
  assume *: "unat i < n" "length sd = n" "list_all sensor_data_ok sd" "length d = ESL_RESPONSE_SENSOR_LEN"
  have n: "n \<noteq> 0" "0 < n" using *(1) by auto
  have ok: "length (sd_data (sd ! j)) = 15" "unat (sd_size (sd ! j)) \<le> 15" if "j < n" for j
    using *(2,3) that by (auto simp: list_all_length sensor_data_ok_def)
  have keep: "list_all sensor_data_ok (sd[j := x])" if "sensor_data_ok x" for j x
    using *(3) that by (rule list_all_update)
  show "yields (sensor_control n pts i l d sd) (\<lambda>(r, l', d', sd', fx). length sd' = n \<and>
      list_all sensor_data_ok sd' \<and> length d' = ESL_RESPONSE_SENSOR_LEN \<and>
      (r \<noteq> - EBUSY \<longrightarrow> unat l' \<le> ESL_RESPONSE_SENSOR_LEN))"
  proof (cases "i = 0")
    case True
    then show ?thesis
      using * n ok [OF n(2)] by (auto simp: sensor_control_def wp Let_def keep sensor_data_ok_def)
  next
    case False
    then show ?thesis
      using * n ok [OF *(1)]
      by (auto simp: sensor_control_def wp Let_def keep sensor_data_ok_def mock_sensor_values)
  qed
qed

subsection \<open>Measuring and reading\<close>

text \<open>A measured temperature is what the next read of sensor 0 returns, once.\<close>

lemma measure_then_read:
  assumes "wf_tag e s" "0 < sensor_max (cfg e)" "sd_size (sensor_data s ! 0) = 2" "length d = 15"
  shows "yields (temp_handler e c s) (\<lambda>t. yields (sensor_control (sensor_max (cfg e)) False 0 l d (sensor_data t))
    (\<lambda>(r, l', d', sd', fx). r = 0 \<and> l' = 2 \<and> d' = le16 (ucast c) @ drop 2 d \<and> fx = [] \<and>
       \<not> data_available (sd' ! 0)))"
proof -
  have "length (sensor_data s) = sensor_max (cfg e)" "length (sd_data (sensor_data s ! 0)) = 15"
    using assms(1,2) by (auto simp: wf_tag_def list_all_length sensor_data_ok_def)
  then show ?thesis
    using assms(2-4) by (auto simp: temp_handler_def sensor_control_def wp Let_def numeral_2_eq_2 [symmetric] simp del: One_nat_def)
qed

lemma wf_temp_handler:
  assumes "wf_tag e s" "0 < sensor_max (cfg e)"
  shows "yields (temp_handler e c s) (wf_tag e)"
proof -
  have f: "length (sensor_data s) = sensor_max (cfg e)" "sensor_data_ok (sensor_data s ! 0)"
    using assms by (auto simp: wf_tag_def list_all_length)
  have upd: "wf_tag e (s\<lparr>basic_state := b, sensor_data := (sensor_data s)[0 := x]\<rparr>)" if "sensor_data_ok x" for b x
    using assms(1) that by (simp add: wf_tag_def list_all_update)
  show ?thesis
    using assms(2) f upd by (simp add: temp_handler_def wp Let_def sensor_data_ok_def)
qed

end
