(* ===== verification/Hw_Vs.thy ===== *)
theory Hw_Vs
  imports Esl_Tag_State
begin

unbundle bit_operations_syntax

text \<open>
  The vendor-specific commands of the sample application,
  \<open>samples/peripheral_esl/hw/esl_vs_impl.c\<close>: one request, which switches the firmware-update mode,
  and the response to the last request. The contract with the service is the locale
  \<open>vs_provider\<close>.
\<close>

abbreviation (input) VS_DFU_REQ :: u8 where "VS_DFU_REQ \<equiv> 0x1F"
abbreviation (input) ESL_VS_DFU :: u8 where "ESL_VS_DFU \<equiv> 0x1F"
abbreviation (input) VS_ECP_NOT_SUPP :: u8 where "VS_ECP_NOT_SUPP \<equiv> 0xf0"

record esl_vs_ecp_resp =
  vs_resp_op :: u8
  vs_error_code :: u8
  dfu_enabled :: u8

definition esl_enter_dfu :: "bool \<Rightarrow> effect" where
  "esl_enter_dfu enable = Dfu_mode enable"

definition vs_command_handler ::
  "u8 list \<Rightarrow> u16 \<Rightarrow> esl_vs_ecp_resp \<Rightarrow> (esl_vs_ecp_resp \<times> effect list) option" where
  "vs_command_handler mem len st = do {
     command \<leftarrow> rd mem 0;
     (if unat len \<noteq> ECP_LEN command
      then Some (st\<lparr>vs_resp_op := OP_ERR, vs_error_code := ERR_INV_PARAMS\<rparr>, [])
      else if command = VS_DFU_REQ then do {
        enable \<leftarrow> rd mem 2;
        Some (st\<lparr>vs_resp_op := ESL_VS_DFU, dfu_enabled := enable\<rparr>, [esl_enter_dfu (enable \<noteq> 0)])
      }
      else Some (st\<lparr>vs_resp_op := OP_ERR, vs_error_code := VS_ECP_NOT_SUPP\<rparr>, []))
   }"

definition vs_response_handler ::
  "u8 list \<Rightarrow> esl_vs_ecp_resp \<Rightarrow> (u8 \<times> u8 list \<times> esl_vs_ecp_resp) option" where
  "vs_response_handler buf st = do {
     buf1 \<leftarrow> upd buf 0 (vs_resp_op st);
     let ret = of_nat (ECP_LEN (vs_resp_op st));
     (if vs_resp_op st = ESL_VS_DFU then do {
        let st1 = st\<lparr>vs_resp_op := ESL_VS_DFU\<rparr>;
        buf2 \<leftarrow> upd buf1 1 (dfu_enabled st1);
        Some (ret, buf2, st1)
      } else do {
        buf2 \<leftarrow> upd buf1 1 (vs_error_code st);
        Some (ret, buf2, st)
      })
   }"

subsection \<open>The contract\<close>

lemma unat_ECP_LEN: "unat (of_nat (ECP_LEN op) :: u8) = ECP_LEN op"
  using ECP_LEN_le [of op] by (intro unat_of_nat_u8) simp

lemma ECP_LEN_dfu: "ECP_LEN 0x1F = 3"
  by (simp add: ECP_LEN_nibble)

interpretation vs: vs_provider vs_command_handler vs_response_handler
proof unfold_locales
  fix len :: u16 and mem :: "u8 list" and st
  assume "2 \<le> unat len" "unat len \<le> length mem"
  then have "yields (vs_command_handler mem len st) (\<lambda>_. True)"
    by (auto simp: vs_command_handler_def wp ECP_LEN_dfu)
  then show "vs_command_handler mem len st \<noteq> None" by (rule yields_total)
next
  fix b :: "u8 list" and st
  assume "length b = ESL_EAD_PAYLOAD_MAX_LEN"
  then show "yields (vs_response_handler b st)
      (\<lambda>(l, b', st'). 2 \<le> unat l \<and> unat l \<le> 17 \<and> length b' = ESL_EAD_PAYLOAD_MAX_LEN)"
    using ECP_LEN_le [of "vs_resp_op st"] ECP_LEN_ge [of "vs_resp_op st"]
    by (auto simp: vs_response_handler_def wp Let_def unat_ECP_LEN)
qed

text \<open>A request, and the response that follows it.\<close>

lemma dfu_round_trip:
  assumes "length mem = 3" "mem ! 0 = VS_DFU_REQ" "unat len = 3" "length b = ESL_EAD_PAYLOAD_MAX_LEN"
  shows "yields (vs_command_handler mem len st) (\<lambda>(st', fx). fx = [Dfu_mode (mem ! 2 \<noteq> 0)] \<and>
    yields (vs_response_handler b st') (\<lambda>(l, b', st''). l = 3 \<and>
      take 2 b' = [ESL_VS_DFU, mem ! 2] \<and> b' ! 2 = b ! 2))"
proof -
  have "mem \<noteq> []" "b \<noteq> []" using assms(1,4) by auto
  obtain x y z w where "b = x # y # z # w"
    using assms(4) by (cases b; cases "tl b"; cases "tl (tl b)") auto
  then show ?thesis
    using assms \<open>mem \<noteq> []\<close>
    by (simp add: vs_command_handler_def vs_response_handler_def wp Let_def ECP_LEN_dfu esl_enter_dfu_def)
qed

lemma vs_rejects:
  assumes "mem \<noteq> []" "mem ! 0 \<noteq> VS_DFU_REQ \<or> unat len \<noteq> 3" "2 \<le> length b"
  shows "yields (vs_command_handler mem len st) (\<lambda>(st', fx). fx = [] \<and>
    yields (vs_response_handler b st') (\<lambda>(l, b', st''). l = 2 \<and> b' ! 0 = OP_ERR \<and>
      b' ! 1 = (if unat len \<noteq> ECP_LEN (mem ! 0) then ERR_INV_PARAMS else VS_ECP_NOT_SUPP)))"
proof -
  have e: "ECP_LEN 0 = 2" by (simp add: ECP_LEN_nibble)
  have b: "b \<noteq> []" using assms(3) by auto
  have "mem ! 0 = 0x1F \<Longrightarrow> unat len \<noteq> ECP_LEN 0x1F" using assms(2) by (simp add: ECP_LEN_dfu)
  then show ?thesis
    using assms(1,3) b
    by (auto simp: vs_command_handler_def vs_response_handler_def wp Let_def e)
qed

end
