(* ===== verification/Hw_Storage.thy ===== *)
theory Hw_Storage
  imports Esl_Tag_State
begin

unbundle bit_operations_syntax

text \<open>
  The image storage of the sample application: \<open>samples/peripheral_esl/hw/storage/nvs.c\<close> on Zephyr's
  ZMS, and \<open>buffer_img\<close> of \<open>hw/esl_hw_impl.c\<close>. The flash file system is a parameter with its documented
  behaviour. \<open>image_store\<close> is the contract of an image storage: what was written completely is read back,
  and no other image changes.
\<close>

subsection \<open>The contract\<close>

text \<open>
  \<open>view\<close> is the content the store holds for an image, \<open>ready\<close> says that operations naming the image
  reach it, \<open>complete\<close> that the code of a write of so many bytes reports success.
\<close>

locale image_store =
  fixes wr :: "u8 \<Rightarrow> nat \<Rightarrow> int \<Rightarrow> u8 list \<Rightarrow> 'fs \<Rightarrow> (int \<times> 'fs) option"
    and rd_img :: "u8 \<Rightarrow> u8 list \<Rightarrow> nat \<Rightarrow> int \<Rightarrow> 'fs \<Rightarrow> (int \<times> u8 list \<times> 'fs) option"
    and view :: "'fs \<Rightarrow> u8 \<Rightarrow> u8 list option" and ready :: "'fs \<Rightarrow> u8 \<Rightarrow> bool"
    and complete :: "nat \<Rightarrow> int \<Rightarrow> bool"
  assumes wr_complete: "ready s i \<Longrightarrow> l \<le> length b \<Longrightarrow> wr i l 0 b s = Some (r, s') \<Longrightarrow> complete l r \<Longrightarrow>
      ready s' i \<and> (\<exists>v. view s' i = Some v \<and> l \<le> length v \<and> take l v = take l b)"
    and wr_other: "ready s i \<Longrightarrow> l \<le> length b \<Longrightarrow> wr i l 0 b s = Some (r, s') \<Longrightarrow> j \<noteq> i \<Longrightarrow> view s' j = view s j"
    and rd_view: "ready s i \<Longrightarrow> view s i = Some v \<Longrightarrow> l \<le> length v \<Longrightarrow> l \<le> length b \<Longrightarrow>
      yields (rd_img i b l 0 s) (\<lambda>(r, b', s'). 0 \<le> r \<and> take l b' = take l v \<and> length b' = length b \<and>
        view s' = view s)"
begin

lemma written_then_read:
  assumes "ready s i" "l \<le> length b" "wr i l 0 b s = Some (r, s')" "complete l r" "l \<le> length c"
  shows "yields (rd_img i c l 0 s') (\<lambda>(r, c', s''). 0 \<le> r \<and> take l c' = take l b)"
proof -
  obtain v where v: "ready s' i" "view s' i = Some v" "l \<le> length v" "take l v = take l b"
    using wr_complete [OF assms(1-4)] by blast
  show ?thesis
    by (rule yields_mono [OF rd_view [OF v(1-3) assms(5)]]) (auto simp: v(4))
qed

lemma other_image_kept:
  assumes "ready s i" "l \<le> length b" "wr i l 0 b s = Some (r, s')" "j \<noteq> i" "ready s' j"
    and "view s j = Some v" "length v \<le> length c"
  shows "yields (rd_img j c (length v) 0 s') (\<lambda>(r, c', s''). 0 \<le> r \<and> take (length v) c' = v)"
proof -
  have "view s' j = Some v" using wr_other [OF assms(1-4)] assms(6) by simp
  from rd_view [OF assms(5) this order_refl assms(7)] show ?thesis
    by (rule yields_mono) auto
qed

end

subsection \<open>ZMS\<close>

record 'fs zms =
  zms_write :: "nat \<Rightarrow> u8 list \<Rightarrow> 'fs \<Rightarrow> int \<times> 'fs"
  zms_read :: "nat \<Rightarrow> u8 list \<Rightarrow> nat \<Rightarrow> 'fs \<Rightarrow> int \<times> u8 list"
  zms_delete :: "nat \<Rightarrow> 'fs \<Rightarrow> int \<times> 'fs"
  zms_entry :: "'fs \<Rightarrow> nat \<Rightarrow> u8 list option"

text \<open>
  A write stores the entry or fails with a negative code; a read copies what fits of an existing
  entry and fails on a missing one; a delete removes the entry or fails.
\<close>

definition zms_ok :: "'fs zms \<Rightarrow> bool" where
  "zms_ok z \<longleftrightarrow>
     (\<forall>k d fs. zms_entry z (snd (zms_write z k d fs)) =
        (if 0 \<le> fst (zms_write z k d fs) then (zms_entry z fs)(k \<mapsto> d) else zms_entry z fs)) \<and>
     (\<forall>k b l fs. l \<le> length b \<longrightarrow> (case zms_entry z fs k of
        None \<Rightarrow> fst (zms_read z k b l fs) < 0 \<and> snd (zms_read z k b l fs) = b
      | Some v \<Rightarrow> 0 \<le> fst (zms_read z k b l fs) \<and>
          snd (zms_read z k b l fs) = take l v @ drop (min l (length v)) b)) \<and>
     (\<forall>k fs. zms_entry z (snd (zms_delete z k fs)) =
        (if fst (zms_delete z k fs) = 0 then (zms_entry z fs)(k := None) else zms_entry z fs))"

abbreviation (input) IMG_SIZE_OFFSET :: nat where "IMG_SIZE_OFFSET \<equiv> 0x100"

text \<open>\<open>size_t\<close> has 32 bits and is stored in little-endian order.\<close>

definition nvs_write_img :: "'fs zms \<Rightarrow> u8 \<Rightarrow> nat \<Rightarrow> int \<Rightarrow> u8 list \<Rightarrow> 'fs \<Rightarrow> (int \<times> 'fs) option" where
  "nvs_write_img z img_idx len offset buf fs = do {
     d \<leftarrow> rd_mem buf 0 len;
     let (rc, fs1) = zms_write z (unat img_idx) d fs;
     Some (if rc < 0 then (rc, fs1)
           else zms_write z (unat img_idx + IMG_SIZE_OFFSET) (le32 (of_nat len)) fs1)
   }"

text \<open>The comparison of a signed offset with the unsigned length is one of unsigned words.\<close>

definition nvs_read_img ::
  "'fs zms \<Rightarrow> u8 \<Rightarrow> u8 list \<Rightarrow> nat \<Rightarrow> int \<Rightarrow> 'fs \<Rightarrow> (int \<times> u8 list \<times> 'fs) option" where
  "nvs_read_img z img_idx data len offset fs =
     (if (of_nat len :: u32) < of_int offset then Some (- EINVAL, data, fs)
      else if length data < len then None
      else let (rc, d) = zms_read z (unat img_idx) data len fs in Some (rc, d, fs))"

text \<open>\<open>junk\<close>: the uninitialised local \<open>size\<close>.\<close>

definition nvs_read_img_size :: "'fs zms \<Rightarrow> u8 list \<Rightarrow> u8 \<Rightarrow> 'fs \<Rightarrow> u32" where
  "nvs_read_img_size z junk img_idx fs =
     (let (rc, d) = zms_read z (unat img_idx + IMG_SIZE_OFFSET) junk 4 fs
      in if rc < 0 then 0 else of_le32 d)"

text \<open>The loop of \<open>delete_imgs_from_storage\<close> from image \<open>i\<close> on, with \<open>n\<close> images to go.\<close>

fun nvs_delete_from :: "'fs zms \<Rightarrow> nat \<Rightarrow> nat \<Rightarrow> 'fs \<Rightarrow> int \<times> 'fs" where
  "nvs_delete_from z i 0 fs = (0, fs)"
| "nvs_delete_from z i (Suc n) fs =
     (let (rc, fs1) = zms_delete z i fs
      in if rc \<noteq> 0 then (rc, fs1)
         else let (rc2, fs2) = zms_delete z (i + IMG_SIZE_OFFSET) fs1
              in if rc2 \<noteq> 0 then (rc2, fs2) else nvs_delete_from z (Suc i) n fs2)"

definition nvs_delete_imgs :: "'fs zms \<Rightarrow> nat \<Rightarrow> 'fs \<Rightarrow> int \<times> 'fs" where
  "nvs_delete_imgs z n fs = nvs_delete_from z 0 n fs"

definition nvs_open_image :: "u8 \<Rightarrow> 'fs \<Rightarrow> int \<times> 'fs" where
  "nvs_open_image img_idx fs = (0, fs)"

definition nvs_close_image :: "'fs \<Rightarrow> int \<times> 'fs" where
  "nvs_close_image fs = (0, fs)"

subsection \<open>The image buffer\<close>

text \<open>\<open>len\<close> and the buffer's size are \<open>size_t\<close>; an offset is compared as such once it is not negative.\<close>

definition buffer_img :: "nat \<Rightarrow> u8 list \<Rightarrow> nat \<Rightarrow> int \<Rightarrow> u8 list \<Rightarrow> u8 list option" where
  "buffer_img buffer_size data len offset buf =
     (if offset < 0 \<or> buffer_size < nat offset \<or> buffer_size - nat offset < len then Some buf
      else do {
        d \<leftarrow> rd_mem data 0 len;
        wr_mem buf (nat offset) d
      })"

subsection \<open>ZMS keeps the contract\<close>

lemma zms_write_entry:
  "zms_ok z \<Longrightarrow> zms_write z k d fs = (r, fs') \<Longrightarrow>
     zms_entry z fs' = (if 0 \<le> r then (zms_entry z fs)(k \<mapsto> d) else zms_entry z fs)"
  unfolding zms_ok_def by (metis fst_conv snd_conv)

lemma zms_read_entry:
  "zms_ok z \<Longrightarrow> l \<le> length b \<Longrightarrow> (case zms_entry z fs k of
     None \<Rightarrow> fst (zms_read z k b l fs) < 0 \<and> snd (zms_read z k b l fs) = b
   | Some v \<Rightarrow> 0 \<le> fst (zms_read z k b l fs) \<and>
       snd (zms_read z k b l fs) = take l v @ drop (min l (length v)) b)"
  unfolding zms_ok_def by blast

lemma zms_read_some:
  assumes "zms_ok z" "zms_entry z fs k = Some v" "l \<le> length b"
  shows "0 \<le> fst (zms_read z k b l fs)"
    "snd (zms_read z k b l fs) = take l v @ drop (min l (length v)) b"
  using zms_read_entry [OF assms(1,3), where fs = fs and k = k] by (simp_all add: assms(2))

lemma zms_read_none:
  assumes "zms_ok z" "zms_entry z fs k = None" "l \<le> length b"
  shows "fst (zms_read z k b l fs) < 0" "snd (zms_read z k b l fs) = b"
  using zms_read_entry [OF assms(1,3), where fs = fs and k = k] by (simp_all add: assms(2))

lemma zms_read_length:
  "zms_ok z \<Longrightarrow> l \<le> length b \<Longrightarrow> length (snd (zms_read z k b l fs)) = length b"
  by (cases "zms_entry z fs k") (simp_all add: zms_read_none zms_read_some min_def)

lemma unat_image_inj: "unat (i :: u8) = unat j \<longleftrightarrow> i = j"
  by (simp add: word_unat_eq_iff)

lemma nvs_write_entry:
  assumes "zms_ok z" "l \<le> length b" "nvs_write_img z i l off b fs = Some (r, fs')"
  shows "k \<noteq> unat i \<Longrightarrow> k \<noteq> unat i + 0x100 \<Longrightarrow> zms_entry z fs' k = zms_entry z fs k"
    and "0 \<le> r \<Longrightarrow> zms_entry z fs' (unat i) = Some (take l b)"
    and "0 \<le> r \<Longrightarrow> zms_entry z fs' (unat i + 0x100) = Some (le32 (of_nat l))"
proof -
  obtain rc fs1 where w1: "zms_write z (unat i) (take l b) fs = (rc, fs1)" by fastforce
  show "k \<noteq> unat i \<Longrightarrow> k \<noteq> unat i + 0x100 \<Longrightarrow> zms_entry z fs' k = zms_entry z fs k"
    "0 \<le> r \<Longrightarrow> zms_entry z fs' (unat i) = Some (take l b)"
    "0 \<le> r \<Longrightarrow> zms_entry z fs' (unat i + 0x100) = Some (le32 (of_nat l))"
    using assms(2,3) w1 zms_write_entry [OF assms(1) w1]
      zms_write_entry [OF assms(1), of "unat i + 0x100" "le32 (of_nat l)" fs1 r fs']
    by (auto simp: nvs_write_img_def split: if_splits)
qed

interpretation nvs: image_store "nvs_write_img z" "nvs_read_img z" "\<lambda>fs i. zms_entry z fs (unat i)"
    "\<lambda>fs i. zms_ok z" "\<lambda>l r. 0 \<le> r" for z
proof unfold_locales
  fix s i l b r s'
  assume *: "zms_ok z" "l \<le> length b" "nvs_write_img z i l 0 b s = Some (r, s')"
  show "zms_ok z \<and> (\<exists>v. zms_entry z s' (unat i) = Some v \<and> l \<le> length v \<and> take l v = take l b)" if "0 \<le> r"
    using *(1,2) nvs_write_entry(2) [OF * that] by simp
  show "zms_entry z s' (unat j) = zms_entry z s (unat j)" if "j \<noteq> i" for j :: u8
  proof (rule nvs_write_entry(1) [OF *])
    show "unat j \<noteq> unat i" using that by (simp add: unat_image_inj)
    have "unat j < 256" by simp
    then show "unat j \<noteq> unat i + 0x100" by linarith
  qed
next
  fix s v l and i :: u8 and b :: "u8 list"
  assume *: "zms_ok z" "zms_entry z s (unat i) = Some v" "l \<le> length v" "l \<le> length b"
  show "yields (nvs_read_img z i b l 0 s) (\<lambda>(r, b', s'). 0 \<le> r \<and> take l b' = take l v \<and>
      length b' = length b \<and> (\<lambda>i. zms_entry z s' (unat i)) = (\<lambda>i. zms_entry z s (unat i)))"
    using *(3,4) zms_read_some [OF *(1,2,4)] by (simp add: nvs_read_img_def case_prod_unfold Let_def)
qed

lemma buffer_img_length:
  assumes "len \<le> length data" "length buf = n"
  shows "yields (buffer_img n data len off buf) (\<lambda>b'. length b' = length buf)"
  using assms by (auto simp: buffer_img_def wp)

text \<open>A file system that keeps ZMS's documentation makes the callbacks an \<open>image_io\<close>.\<close>

locale zms_fs =
  fixes z :: "'fs zms"
  assumes zms: "zms_ok z"

sublocale zms_fs \<subseteq> image_io "buffer_img n" "nvs_write_img z" "nvs_read_img z" n for n
  using zms by unfold_locales
    (auto simp: buffer_img_length nvs_write_img_def nvs_read_img_def zms_read_length case_prod_unfold Let_def)

context zms_fs
begin

lemma io: "image_io (buffer_img n) (nvs_write_img z) (nvs_read_img z) n"
  by unfold_locales

end

text \<open>A concrete file system: a map from identifiers to entries.\<close>

definition zms_map :: "(nat \<Rightarrow> u8 list option) zms" where
  "zms_map = \<lparr>
     zms_write = (\<lambda>k d m. (int (length d), m(k \<mapsto> d))),
     zms_read = (\<lambda>k b l m. case m k of None \<Rightarrow> (- ENOENT, b)
       | Some v \<Rightarrow> (int (length v), take l v @ drop (min l (length v)) b)),
     zms_delete = (\<lambda>k m. (0, m(k := None))),
     zms_entry = id\<rparr>"

interpretation zms_map: zms_fs zms_map
  by unfold_locales (auto simp: zms_ok_def zms_map_def split: option.split)

end
