(* ===== verification/Tag_Sample.thy ===== *)
theory Tag_Sample
  imports Esl_Init Hw_Sensor Hw_Vs Hw_Storage
begin

unbundle bit_operations_syntax

text \<open>
  The sample application of the tag role, \<open>samples/peripheral_esl\<close>: the hardware description it
  registers (\<open>hw/esl_hw_impl.c\<close>), the callbacks it hands to the service and its start
  (\<open>src/main.c\<close>), here with the ZMS image storage. The state behind the callbacks is the response of
  the vendor commands and the file system. The callbacks keep every contract of the service.
\<close>

subsection \<open>Hardware description\<close>

datatype board = Papyr | Thingy52 | Devkit

record hw_config =
  hw_board :: board
  hw_width :: u16
  hw_height :: u16
  hw_type :: u8
  hw_vid :: u16 \<comment> \<open>\<open>CONFIG_BT_DIS_PNP_VID\<close>\<close>

abbreviation (input) ESL_LED_TYPE_BIT :: nat where "ESL_LED_TYPE_BIT \<equiv> 6"
abbreviation (input) BT_MESH_PROP_ID_PRESENT_DEV_OP_TEMP :: u16 where
  "BT_MESH_PROP_ID_PRESENT_DEV_OP_TEMP \<equiv> 0x0054"
abbreviation (input) DUMMY_SENSOR_CODE :: u16 where "DUMMY_SENSOR_CODE \<equiv> 0x9487"

definition hw_sensor_inf :: "hw_config \<Rightarrow> nat \<Rightarrow> esl_sensor_inf \<Rightarrow> esl_sensor_inf" where
  "hw_sensor_inf h idx si =
     (if idx = 0 then si\<lparr>sensor_size := 0, property_id := BT_MESH_PROP_ID_PRESENT_DEV_OP_TEMP\<rparr>
      else si\<lparr>sensor_size := 1, property_id := hw_vid h, sensor_code := DUMMY_SENSOR_CODE\<rparr>)"

definition hw_sensor_data :: "nat \<Rightarrow> esl_sensor_data \<Rightarrow> esl_sensor_data" where
  "hw_sensor_data idx d = d\<lparr>sd_size := (if idx = 0 then 2 else of_nat ((idx + 2) mod ESL_RESPONSE_SENSOR_LEN)),
     data_available := False\<rparr>"

definition mono_led :: "nat \<Rightarrow> nat \<Rightarrow> u8" where
  "mono_led hi lo = push_bit ESL_LED_TYPE_BIT ESL_LED_MONO OR push_bit hi 1 OR push_bit lo 1"

text \<open>The LED types by board: bits 5 and 4 are blue, 3 and 2 green, 1 and 0 red.\<close>

definition hw_led_types :: "config \<Rightarrow> hw_config \<Rightarrow> u8 list \<Rightarrow> u8 list option" where
  "hw_led_types c h tys =
     (case hw_board h of
        Papyr \<Rightarrow> do {
          t0 \<leftarrow> upd tys 0 (mono_led 3 2); t1 \<leftarrow> upd t0 1 (mono_led 5 4); upd t1 2 (mono_led 1 0) }
      | Thingy52 \<Rightarrow> do {
          t0 \<leftarrow> upd tys 0 (mono_led 1 1); t1 \<leftarrow> upd t0 1 (mono_led 3 3); upd t1 2 (mono_led 5 5) }
      | Devkit \<Rightarrow> do {
          ts \<leftarrow> for_loop 0 (led_max c) (\<lambda>i ts. upd ts i (mono_led 3 2)) tys;
          (if esl_pts c then upd ts 0 (push_bit ESL_LED_TYPE_BIT ESL_LED_SRGB OR push_bit 3 1 OR push_bit 2 1)
           else Some ts) })"

definition hw_chrc_init :: "config \<Rightarrow> hw_config \<Rightarrow> bt_esl_init_param \<Rightarrow> bt_esl_init_param option" where
  "hw_chrc_init c h p = do {
     ds \<leftarrow> for_loop 0 (display_max c) (\<lambda>i ds. do {
             d \<leftarrow> rd ds i;
             upd ds i (d\<lparr>disp_width := hw_width h, disp_height := hw_height h, disp_type := hw_type h\<rparr>) })
             (ip_displays p);
     (sis, sds) \<leftarrow> for_loop 0 (sensor_max c) (\<lambda>i (sis, sds). do {
             si \<leftarrow> rd sis i;
             sis1 \<leftarrow> upd sis i (hw_sensor_inf h i si);
             sd \<leftarrow> rd sds i;
             sds1 \<leftarrow> upd sds i (hw_sensor_data i sd);
             Some (sis1, sds1) }) (ip_sensors p, ip_sensor_data p);
     tys \<leftarrow> hw_led_types c h (ip_led_type p);
     Some (p\<lparr>ip_displays := ds, ip_sensors := sis, ip_sensor_data := sds, ip_led_type := tys\<rparr>)
   }"

subsection \<open>The callbacks\<close>

record 'fs hw_state =
  vs_ecp_resp :: esl_vs_ecp_resp
  image_fs :: 'fs

definition lift_vs_command :: "u8 list \<Rightarrow> u16 \<Rightarrow> 'fs hw_state \<Rightarrow> ('fs hw_state \<times> effect list) option" where
  "lift_vs_command mem len h = do {
     (st, fx) \<leftarrow> vs_command_handler mem len (vs_ecp_resp h);
     Some (h\<lparr>vs_ecp_resp := st\<rparr>, fx)
   }"

definition lift_vs_response :: "u8 list \<Rightarrow> 'fs hw_state \<Rightarrow> (u8 \<times> u8 list \<times> 'fs hw_state) option" where
  "lift_vs_response buf h = do {
     (l, b, st) \<leftarrow> vs_response_handler buf (vs_ecp_resp h);
     Some (l, b, h\<lparr>vs_ecp_resp := st\<rparr>)
   }"

definition lift_write :: "'fs zms \<Rightarrow> u8 \<Rightarrow> nat \<Rightarrow> int \<Rightarrow> u8 list \<Rightarrow> 'fs hw_state \<Rightarrow> (int \<times> 'fs hw_state) option" where
  "lift_write z i l off b h = do {
     (r, fs) \<leftarrow> nvs_write_img z i l off b (image_fs h);
     Some (r, h\<lparr>image_fs := fs\<rparr>)
   }"

definition lift_read :: "'fs zms \<Rightarrow> u8 \<Rightarrow> u8 list \<Rightarrow> nat \<Rightarrow> int \<Rightarrow> 'fs hw_state
    \<Rightarrow> (int \<times> u8 list \<times> 'fs hw_state) option" where
  "lift_read z i b l off h = do {
     (r, b', fs) \<leftarrow> nvs_read_img z i b l off (image_fs h);
     Some (r, b', h\<lparr>image_fs := fs\<rparr>)
   }"

text \<open>What \<open>display_init\<close> and \<open>led_init\<close> answer depends on the devices found.\<close>

definition sample_callbacks :: "config \<Rightarrow> 'fs zms \<Rightarrow> int \<Rightarrow> int \<Rightarrow> 'fs hw_state callbacks" where
  "sample_callbacks c z display_init led_init = \<lparr>
     cb_display_control = True, cb_display_associated = True, cb_display_unassociated = True,
     cb_sensor_control = Some (sensor_control (sensor_max c) (esl_pts c)),
     cb_vs_command_handler = (if vendor_specific_support c then Some lift_vs_command else None),
     cb_vs_response_handler = (if vendor_specific_support c then Some lift_vs_response else None),
     cb_buffer_img = Some (buffer_img (image_buffer_size c)),
     cb_open_image = Some (\<lambda>i h. (fst (nvs_open_image i (image_fs h)), h)),
     cb_close_image = Some (\<lambda>h. (fst (nvs_close_image (image_fs h)), h)),
     cb_write_img = Some (lift_write z),
     cb_read_img = Some (lift_read z),
     cb_read_img_size = (\<lambda>i h. nvs_read_img_size z (replicate 4 0) i (image_fs h)),
     cb_delete_imgs = Some (\<lambda>h. (fst (nvs_delete_imgs z (image_max c) (image_fs h)),
        h\<lparr>image_fs := snd (nvs_delete_imgs z (image_max c) (image_fs h))\<rparr>)),
     cb_display_init = Some display_init,
     cb_led_init = Some led_init,
     cb_sensor_init = Some 0\<rparr>"

text \<open>
  \<open>start_execute\<close>, from the enabled Bluetooth host on: \<open>r_enable\<close> and \<open>r_storage\<close> are the codes of
  \<open>bt_enable\<close> and \<open>ots_storage_init\<close>, \<open>r_auth\<close> those of the two registrations of security callbacks;
  the loop that sleeps forever is the code 0.
\<close>

definition start_execute ::
  "'fs hw_state env \<Rightarrow> hw_config \<Rightarrow> bt_esl_init_param \<Rightarrow> init_results \<Rightarrow> int \<Rightarrow> int \<Rightarrow> int \<times> int \<Rightarrow> bool
     \<Rightarrow> 'fs hw_state tag \<Rightarrow> (int \<times> 'fs hw_state tag) option" where
  "start_execute e h p ir r_enable r_storage r_auth security s =
     (if r_enable \<noteq> 0 then Some (r_enable, s)
      else do {
        p1 \<leftarrow> hw_chrc_init (cfg e) h p;
        (if r_storage \<noteq> 0 then Some (r_storage, s)
         else do {
           (err, s1) \<leftarrow> bt_esl_init e p1 ir s;
           Some (if err \<noteq> 0 then err
                 else if security \<and> fst r_auth \<noteq> 0 then fst r_auth
                 else if security \<and> snd r_auth \<noteq> 0 then snd r_auth
                 else 0, s1)
         })
      })"

subsection \<open>The contracts hold\<close>

interpretation sample_vs: vs_provider lift_vs_command lift_vs_response
proof unfold_locales
  fix len :: u16 and mem :: "u8 list" and st :: "'a hw_state"
  assume "2 \<le> unat len" "unat len \<le> length mem"
  then show "lift_vs_command mem len st \<noteq> None"
    using vs.cmd_ok [of len mem "vs_ecp_resp st"] by (auto simp: lift_vs_command_def)
next
  fix b :: "u8 list" and st :: "'a hw_state"
  assume "length b = ESL_EAD_PAYLOAD_MAX_LEN"
  from vs.rsp_ok [OF this, of "vs_ecp_resp st"]
  show "yields (lift_vs_response b st)
      (\<lambda>(l, b', st'). 2 \<le> unat l \<and> unat l \<le> 17 \<and> length b' = ESL_EAD_PAYLOAD_MAX_LEN)"
    by (auto simp: lift_vs_response_def wp elim!: yields_mono)
qed

lemma sample_image_io:
  assumes "zms_ok z"
  shows "image_io (buffer_img n) (lift_write z) (lift_read z) n"
proof -
  note io = zms_fs.io [OF zms_fs.intro [OF assms], of n]
  show ?thesis
  proof unfold_locales
    fix l :: nat and d b :: "u8 list" and off :: int
    assume "l \<le> length d" "length b = n"
    then show "yields (buffer_img n d l off b) (\<lambda>b'. length b' = length b)"
      by (rule image_io.buffer_ok [OF io])
  next
    fix l :: nat and b :: "u8 list" and i :: u8 and off :: int and st :: "'a hw_state"
    assume l: "l \<le> length b"
    show "lift_write z i l off b st \<noteq> None"
      using image_io.write_ok [OF io l, where i = i and off = off and st = "image_fs st"] by (auto simp: lift_write_def)
    show "yields (lift_read z i b l off st) (\<lambda>(r, b', st'). length b' = length b)"
      using image_io.read_ok [OF io l, where i = i and off = off and st = "image_fs st"]
      by (auto simp: lift_read_def wp elim!: yields_mono)
  qed
qed

lemma no_vs_provider: "vs_provider (\<lambda>m l st. Some (st, [])) (\<lambda>b st. Some (2, b, st))"
  by unfold_locales simp_all

lemma sample_callbacks_ok:
  "zms_ok z \<Longrightarrow> callbacks_ok c (sample_callbacks c z dr lr)"
  using sample_image_io [of z "image_buffer_size c"]
    sensors.sensor_provider_axioms [of "sensor_max c" "esl_pts c"]
  by (auto simp: callbacks_ok_def sample_callbacks_def intro: sample_vs.vs_provider_axioms no_vs_provider)

definition sample_env ::
  "config \<Rightarrow> 'fs zms \<Rightarrow> int \<Rightarrow> int \<Rightarrow> ('fs hw_state tag, BT_ESL_STATE) zephyr \<Rightarrow> 'fs hw_state env" where
  "sample_env c z dr lr zp = \<lparr>cfg = c, cbs = sample_callbacks c z dr lr, zep = zp\<rparr>"

lemma sample_env_ok: "cfg_ok c \<Longrightarrow> zms_ok z \<Longrightarrow> zephyr_ok zp \<Longrightarrow> env_ok (sample_env c z dr lr zp)"
  by (simp add: env_ok_def sample_env_def sample_callbacks_ok)

text \<open>The description of the hardware fits the arrays of the service.\<close>

lemma hw_sensor_data_ok: "sensor_data_ok d \<Longrightarrow> sensor_data_ok (hw_sensor_data i d)"
  by (simp add: sensor_data_ok_def hw_sensor_data_def unat_of_nat)

lemma hw_led_types_length:
  assumes "length tys = led_max c" "hw_board h \<noteq> Devkit \<Longrightarrow> 3 \<le> led_max c" "esl_pts c \<Longrightarrow> 0 < led_max c"
  shows "yields (hw_led_types c h tys) (\<lambda>ts. length ts = led_max c)"
  using assms
  by (auto simp: hw_led_types_def wp split: board.split
      intro!: yields_mono [OF for_loop_pres [where I = "\<lambda>ts. length ts = led_max c"]])

lemma hw_chrc_init_ok:
  assumes p: "init_param_ok e p"
    and leds: "hw_board h \<noteq> Devkit \<Longrightarrow> 3 \<le> led_max (cfg e)" "esl_pts (cfg e) \<Longrightarrow> 0 < led_max (cfg e)"
  shows "yields (hw_chrc_init (cfg e) h p) (init_param_ok e)"
proof -
  let ?c = "cfg e"
  have f: "length (ip_displays p) = display_max ?c" "length (ip_sensors p) = sensor_max ?c"
    "length (ip_sensor_data p) = sensor_max ?c" "list_all sensor_data_ok (ip_sensor_data p)"
    "length (ip_led_type p) = led_max ?c" using p by (simp_all add: init_param_ok_def)
  let ?I = "\<lambda>(sis :: esl_sensor_inf list, sds). length sis = sensor_max ?c \<and> length sds = sensor_max ?c \<and>
    list_all sensor_data_ok sds"
  show ?thesis
    unfolding hw_chrc_init_def yields_bind
  proof (rule yields_mono [OF for_loop_pres [where I = "\<lambda>ds. length ds = display_max ?c"]], goal_cases)
    case (3 ds)
    show ?case
      by (rule yields_mono [OF for_loop_pres [where I = ?I]])
        (use f 3 in \<open>auto simp: wp case_prod_unfold list_all_update hw_sensor_data_ok list_all_nth init_param_ok_def
          intro!: yields_mono [OF hw_led_types_length [OF _ leds]]\<close>)
  qed (use f in \<open>simp_all add: wp\<close>)
qed

end
