(* ===== verification/Tag_Example.thy ===== *)
theory Tag_Example
  imports Esl_Tag_System Tag_Sample
begin

unbundle bit_operations_syntax

text \<open>
  A concrete tag on which the hypotheses of the properties hold: the sample application on the
  reference platform, with two LEDs, one display, two sensors and two images.
\<close>

definition ex_cfg :: config where
  "ex_cfg = \<lparr>led_max = 2, display_max = 1, sensor_max = 2, image_max = 2, led_indication = False,
     simulate_display = False, vendor_specific_support = True, forget_provision_data = False,
     esl_pts = False, ots_nvs_or_zms = True, unsynchronized_immediately = False,
     cond_service_required = False, demo_security = False, image_file_size = 16,
     image_buffer_size = 16, unsynchronized_timeout = 3600, unassociated_timeout = 3600,
     past_skip = 0, past_timeout = 1000\<rparr>"

definition ex_env :: "(nat \<Rightarrow> u8 list option) hw_state env" where
  "ex_env = sample_env ex_cfg zms_map 0 0 zephyr_ref"

definition ex_hw :: "(nat \<Rightarrow> u8 list option) hw_state" where
  "ex_hw = \<lparr>vs_ecp_resp = \<lparr>vs_resp_op = 0, vs_error_code = 0, dfu_enabled = 0\<rparr>, image_fs = (\<lambda>_. None)\<rparr>"

definition ex_tag :: "(nat \<Rightarrow> u8 list option) hw_state tag" where
  "ex_tag = (static_tag ex_env (\<lambda>_. None) ex_hw)\<lparr>max_image_index := 1,
     led_dworks := [zero_led_dwork\<lparr>led_idx := 0\<rparr>, zero_led_dwork\<lparr>led_idx := 1\<rparr>]\<rparr>"

definition ex_inp :: inp where
  "ex_inp = \<lparr>in_now = 7, in_now2 = 8, in_rand = [1, 2, 3, 4, 5], in_buf = replicate 63 0,
     in_sensor_len = 0, in_sensor_data = replicate 15 0\<rparr>"

definition ex_param :: bt_esl_init_param where
  "ex_param = \<lparr>ip_displays = [\<lparr>disp_width = 0, disp_height = 0, disp_type = 0\<rparr>],
     ip_sensors = replicate 2 \<lparr>sensor_size = 0, property_id = 0, sensor_code = 0\<rparr>,
     ip_sensor_data = replicate 2 zero_sensor_data, ip_led_type = [0, 0]\<rparr>"

definition ex_results :: init_results where
  "ex_results = \<lparr>ir_order = [], ir_subsys = 0, ir_register = 0, ir_load = 0, ir_ots_free = True,
     ir_ots_init = 0, ir_service = 0\<rparr>"

lemma ex_cfg_ok: "cfg_ok ex_cfg"
  by (simp add: cfg_ok_def ex_cfg_def)

lemma ex_env_ok: "env_ok ex_env"
  unfolding ex_env_def by (intro sample_env_ok ex_cfg_ok zms_map.zms zephyr_ref_ok)

lemma ex_env_fields [simp]: "cfg ex_env = ex_cfg" "zep ex_env = zephyr_ref"
  by (simp_all add: ex_env_def sample_env_def)

lemma ex_zephyr_ok: "zephyr_ok (zep ex_env)"
  by (simp add: zephyr_ref_ok)

lemma ex_inp_ok: "inp_ok ex_inp"
  by (simp add: inp_ok_def ex_inp_def)

lemma ex_wf: "wf_tag ex_env ex_tag"
  by (simp add: wf_tag_def ex_tag_def static_tag_def ex_cfg_def numeral_2_eq_2 zero_led_dwork_def
      zero_display_dwork_def less_Suc_eq)

lemma ex_sys: "sys_ok A ex_tag"
  by (simp add: ex_tag_def sys_static store_ok_def)

lemma ex_inv: "tag_inv A ex_env ex_tag"
  by (simp add: tag_inv_def ex_env_ok ex_wf ex_sys)

lemma ex_param_ok: "init_param_ok ex_env ex_param"
  by (simp add: init_param_ok_def ex_param_def ex_cfg_def numeral_2_eq_2)

text \<open>Initialisation succeeds, so reachable states exist.\<close>

lemma ex_init: "\<exists>s. tag_init A ex_env s"
proof -
  have f: "module_inits [cb_display_init (cbs ex_env), cb_led_init (cbs ex_env), cb_sensor_init (cbs ex_env)] None = Some 0"
    by (simp add: ex_env_def sample_env_def sample_callbacks_def)
  have "yields (bt_esl_init ex_env ex_param ex_results (static_tag ex_env (\<lambda>_. None) ex_hw)) (\<lambda>(err, s). err = 0 \<longrightarrow> wf_tag ex_env s)"
    by (rule wf_bt_esl_init [OF ex_env_ok ex_param_ok f])
  then obtain err s where s: "bt_esl_init ex_env ex_param ex_results (static_tag ex_env (\<lambda>_. None) ex_hw) = Some (err, s)"
    by (auto elim: yieldsE)
  have "err = 0"
    using s f by (auto simp: bt_esl_init_def bind_eq_Some_conv Let_def ex_results_def esl_settings_init_def
        ots_init_func_def split: if_splits)
  moreover have "store_ok A (\<lambda>_. None)" by (simp add: store_ok_def)
  ultimately show ?thesis using s f ex_env_ok ex_param_ok unfolding tag_init_def by blast
qed

end
