(* ===== verification/Tag_Behaviour.thy ===== *)
theory Tag_Behaviour
  imports Esl_Tag_System
begin

unbundle bit_operations_syntax

text \<open>
  What the handlers of the tag do on whole commands and writes: error answers, commands for others,
  the queues of timed commands, provisioning, unassociation. These lemmas carry the properties.
\<close>

subsection \<open>Answers over GATT\<close>

text \<open>A command as it was written: its bytes, their number, and the source.\<close>

definition written_command :: "u8 list \<Rightarrow> 'st tag \<Rightarrow> bool" where
  "written_command c s \<longleftrightarrow> ecp_net_buf s = c \<and> unat (ecp_net_buf_len s) = length c \<and> ecp_src s = ESL_ECP"

text \<open>The state a handler run starts its dispatch in.\<close>

definition begin_command :: "'st tag \<Rightarrow> 'st tag" where
  "begin_command s = resp_basic (s\<lparr>ecp_notify_func := Notify_null, esl_ecp_resp_needed := True\<rparr>)"

definition notified :: "u8 list \<Rightarrow> 'st tag \<Rightarrow> 'st tag" where
  "notified b s = effect (Gatt_notify Ecp_notify_cb b)
     (s\<lparr>ecp_notify_func := Ecp_notify_cb, ecp_notify_len := of_nat (length b), ecp_rsp_net_buf := b\<rparr>)"

lemma error_answer:
  assumes "zephyr_ok (zep e)" "inp_ok x" "resp_op (resp s) = OP_ERR" "ecp_notify_func s = Notify_null"
    "esl_ecp_resp_needed s"
  shows "ecp_response_handler e x ESL_ECP s = Some (notified [OP_ERR, error_code (resp s)] s)"
proof -
  have e: "ECP_LEN 0 = 2" by (simp add: ECP_LEN_nibble)
  obtain a b c where b: "in_buf x = a # b # c"
    using assms(2) by (cases "in_buf x"; cases "tl (in_buf x)") (auto simp: inp_ok_def)
  have t: "take 2 (OP_ERR # error_code (resp s) # c) = [OP_ERR, error_code (resp s)]"
    by (simp add: numeral_2_eq_2)
  show ?thesis
    using assms
    by (simp add: ecp_response_handler_def ecp_response_bytes_def ecp_response_append_def
        z_nb_remove_eq z_nb_add_eq upd_def rd_mem_def b e notified_def effect_def Let_def t)
qed

lemma begin_command_simps [simp]:
  "resp_op (resp (begin_command s)) = OP_BASIC_STATE" "esl_addr (begin_command s) = esl_addr s"
  "ecp_net_buf (begin_command s) = ecp_net_buf s" "ecp_net_buf_len (begin_command s) = ecp_net_buf_len s"
  "ecp_src (begin_command s) = ecp_src s" "busy (begin_command s) = busy s"
  "esl_state (begin_command s) = esl_state s" "ecp_notify_func (begin_command s) = Notify_null"
  "esl_ecp_resp_needed (begin_command s)" "prov (begin_command s) = prov s"
  by (simp_all add: begin_command_def resp_basic_def prov_def)

text \<open>A command of the right length that this firmware may know.\<close>

definition known_format :: "'st env \<Rightarrow> u8 list \<Rightarrow> bool" where
  "known_format e c \<longleftrightarrow> c \<noteq> [] \<and> length c = ECP_LEN (c ! 0) \<and>
     \<not> (c ! 0 AND OP_VENDOR_SPECIFIC_STATE_MASK = OP_VENDOR_SPECIFIC_STATE_MASK \<and> \<not> vendor_specific_support (cfg e))"

lemma command_handler_dispatch:
  assumes "written_command c s" "known_format e c"
  shows "ecp_command_handler e x s =
    (let (r, s2) = check_ecp_esl_id (c ! 1) (begin_command s)
     in if r \<noteq> 0 then Some s2
        else do {
          s3 \<leftarrow> (if resp_op (resp s2) \<noteq> OP_ERR then ecp_dispatch e x (c ! 0) (c ! 1) s2 else Some s2);
          ecp_response_handler e x (ecp_src s3) s3
        })"
proof -
  have l: "2 \<le> length c" using assms(2) ECP_LEN_ge [of "c ! 0"] by (simp add: known_format_def)
  then have "c \<noteq> []" by auto
  with l have rd: "rd c 0 = Some (c ! 0)" "rd c (Suc 0) = Some (c ! 1)" by (simp_all add: rd_def)
  have len: "unat (ecp_net_buf_len s) = ECP_LEN (c ! 0)" "ecp_net_buf s = c"
    "\<not> (c ! 0 AND OP_VENDOR_SPECIFIC_STATE_MASK = OP_VENDOR_SPECIFIC_STATE_MASK \<and> \<not> vendor_specific_support (cfg e))"
    using assms by (simp_all add: written_command_def known_format_def)
  show ?thesis
    unfolding ecp_command_handler_def len(2) rd begin_command_def
    using len by (auto simp: Let_def rd [simplified] cong: if_cong)
qed

text \<open>A command for another tag: no answer, and only the response fields change.\<close>

lemma foreign_command:
  assumes "written_command c s" "known_format e c" "c ! 1 \<noteq> LOW_BYTE (esl_addr s)" "c ! 1 \<noteq> ESL_ADDR_BROADCAST"
  shows "ecp_command_handler e x s = Some (resp_err ERR_INV_PARAMS (begin_command s))"
  using assms(3,4) by (simp add: command_handler_dispatch [OF assms(1,2)] check_ecp_esl_id_def)

text \<open>Commands that are refused before they are dispatched.\<close>

lemma bad_length_command:
  assumes e: "zephyr_ok (zep e)" and x: "inp_ok x" and c: "written_command c s" "c \<noteq> []" "length c \<noteq> ECP_LEN (c ! 0)"
  shows "ecp_command_handler e x s = Some (notified [OP_ERR, ERR_INV_PARAMS] (resp_err ERR_INV_PARAMS (begin_command s)))"
proof -
  have "ecp_command_handler e x s = ecp_response_handler e x ESL_ECP (resp_err ERR_INV_PARAMS (begin_command s))"
    using c unfolding ecp_command_handler_def begin_command_def [symmetric]
    by (simp add: written_command_def rd_def Let_def begin_command_def [symmetric])
  then show ?thesis
    by (simp add: error_answer [OF e x] resp_err_def begin_command_def resp_basic_def)
qed

lemma vendor_unsupported_command:
  assumes e: "zephyr_ok (zep e)" and x: "inp_ok x" and c: "written_command c s" "c \<noteq> []" "length c = ECP_LEN (c ! 0)"
    and v: "c ! 0 AND 0x0F = 0x0F" "\<not> vendor_specific_support (cfg e)"
  shows "ecp_command_handler e x s = Some (notified [OP_ERR, ERR_INV_OPCODE] (resp_err ERR_INV_OPCODE (begin_command s)))"
proof -
  have "0 < ECP_LEN (c ! 0)" using ECP_LEN_ge [of "c ! 0"] by simp
  then have "ecp_command_handler e x s = ecp_response_handler e x ESL_ECP (resp_err ERR_INV_OPCODE (begin_command s))"
    using c v unfolding ecp_command_handler_def begin_command_def [symmetric]
    by (simp add: written_command_def rd_def Let_def begin_command_def [symmetric])
  then show ?thesis
    by (simp add: error_answer [OF e x] resp_err_def begin_command_def resp_basic_def)
qed

text \<open>A command whose case answers with an error and changes nothing else.\<close>

lemma refused_command:
  assumes e: "zephyr_ok (zep e)" and x: "inp_ok x" and c: "written_command c s" "known_format e c"
    and id: "c ! 1 = LOW_BYTE (esl_addr s) \<or> c ! 1 = ESL_ADDR_BROADCAST" and b: "\<not> busy s"
    and d: "ecp_dispatch e x (c ! 0) (c ! 1) (begin_command s) = Some (resp_err code (begin_command s))"
  shows "ecp_command_handler e x s = Some (notified [OP_ERR, code] (resp_err code (begin_command s)))"
proof -
  have "ecp_command_handler e x s = ecp_response_handler e x ESL_ECP (resp_err code (begin_command s))"
    unfolding command_handler_dispatch [OF c]
    using id b c(1) d by (auto simp: check_ecp_esl_id_def written_command_def resp_err_def)
  then show ?thesis
    by (simp add: error_answer [OF e x] resp_err_def begin_command_def resp_basic_def)
qed

lemma broadcast_reset_refused:
  assumes e: "zephyr_ok (zep e)" and x: "inp_ok x" and c: "written_command c s"
    and op: "c = [OP_UNASSOCIATE, ESL_ADDR_BROADCAST] \<or> c = [OP_FACTORY_RESET, ESL_ADDR_BROADCAST]" and b: "\<not> busy s"
  shows "\<exists>code :: u8. ecp_command_handler e x s = Some (notified [OP_ERR, code] (resp_err code (begin_command s))) \<and>
    code = (if c ! 0 = OP_FACTORY_RESET \<and> esl_state s = SM_SYNCHRONIZED then ERR_INV_STATE else ERR_RETRY)"
proof -
  have f: "known_format e c" using op by (auto simp: known_format_def ECP_LEN_nibble)
  show ?thesis
  proof (rule exI, rule conjI [OF _ refl], rule refused_command [OF e x c f _ b])
    show "c ! 1 = LOW_BYTE (esl_addr s) \<or> c ! 1 = 0xFF" using op by auto
    show "ecp_dispatch e x (c ! 0) (c ! 1) (begin_command s) = Some (resp_err
        (if c ! 0 = OP_FACTORY_RESET \<and> esl_state s = SM_SYNCHRONIZED then ERR_INV_STATE else ERR_RETRY) (begin_command s))"
      using op by (auto simp: ecp_dispatch_def ecp_unassociate_def ecp_factory_reset_def)
  qed
qed

subsection \<open>Timed commands\<close>

text \<open>
  The contract of the two timed commands: a queue with one place per display or LED. Time 0 empties
  the place, a time that is too far away is refused, and so is a second time for an occupied place.
\<close>

datatype queue_answer = Accepted | Deleted | Implausible | Full

definition queue_spec :: "u32 \<Rightarrow> u32 \<Rightarrow> nat \<Rightarrow> 'v \<Rightarrow> (nat \<Rightarrow> ('v \<times> u32) option) \<Rightarrow>
    queue_answer \<times> (nat \<Rightarrow> ('v \<times> u32) option)" where
  "queue_spec now t i v q =
     (if t = 0 then (Deleted, q(i := None))
      else if ESL_TIMED_ABS_MAX \<le> t - now then (Implausible, q)
      else if q i = None \<or> snd (the (q i)) = t then (Accepted, q(i \<mapsto> (v, t)))
      else (Full, q))"

definition display_queue :: "'st tag \<Rightarrow> nat \<Rightarrow> (u8 \<times> u32) option" where
  "display_queue s i = (if i < length (display_works s) \<and> disp_start_abs_time (display_works s ! i) \<noteq> 0
     then Some (disp_img_idx (display_works s ! i), disp_start_abs_time (display_works s ! i)) else None)"

definition led_queue :: "'st tag \<Rightarrow> nat \<Rightarrow> (led_obj \<times> u32) option" where
  "led_queue s i = (if i < length (led_dworks s) \<and> start_abs_time (led_dworks s ! i) \<noteq> 0
     then Some (led_objs s ! i, start_abs_time (led_dworks s ! i)) else None)"

text \<open>The answer a queue gives becomes the response of the command.\<close>

definition queue_response :: "('st tag \<Rightarrow> 'st tag) \<Rightarrow> queue_answer \<Rightarrow> 'st tag \<Rightarrow> esl_ecp_resp" where
  "queue_response ok a s = resp (case a of Accepted \<Rightarrow> ok s | Deleted \<Rightarrow> ok s
     | Implausible \<Rightarrow> resp_err ERR_IMPLAUSIBLE_ABS s | Full \<Rightarrow> resp_err ERR_QUEUE_FULL s)"

lemma basic_update_only:
  assumes "zephyr_ok (zep e)" "wf_tag e s"
  obtains w where "bt_esl_basic_state_update e s = Some (s\<lparr>basic_state := w\<rparr>)"
  using basic_state_update_at [OF assms] by (auto simp: yields_def basic_at_def)

lemma display_queue_update:
  "i < length (display_works s) \<Longrightarrow> display_queue (s\<lparr>display_works := (display_works s)[i := d]\<rparr>) =
     (display_queue s)(i := (if disp_start_abs_time d \<noteq> 0 then Some (disp_img_idx d, disp_start_abs_time d) else None))"
  by (rule ext) (auto simp: display_queue_def nth_list_update)

lemma display_queue_frame [simp]:
  "display_queue (resp_display d g s) = display_queue s" "display_queue (resp_err c s) = display_queue s"
  "display_queue (effect x s) = display_queue s" "display_queue (basic_bit e f b s) = display_queue s"
  "display_queue (s\<lparr>basic_state := w\<rparr>) = display_queue s"
  by (auto simp: display_queue_def resp_display_def resp_err_def basic_bit_def)

lemma resp_display_works [simp]: "display_works (resp_display d g s) = display_works s"
  by (simp add: resp_display_def)

lemma wf_resp_set [simp]:
  "wf_tag e (resp_display d g s) = wf_tag e s" "wf_tag e (resp_err c s) = wf_tag e s" "wf_tag e (resp_led i s) = wf_tag e s"
  by (simp_all add: resp_display_def resp_err_def resp_led_def)

text \<open>An image that can be shown.\<close>

definition image_shown :: "'st env \<Rightarrow> 'st tag \<Rightarrow> u8 \<Rightarrow> bool" where
  "image_shown e s img \<longleftrightarrow> unat img < image_max (cfg e) \<and> (stored_image_size s ! unat img \<noteq> 0 \<or> simulate_display (cfg e))"

lemma display_checks_pass:
  assumes "wf_tag e s" "cfg_ok (cfg e)" "unat d < display_max (cfg e)" "image_shown e s img"
  shows "display_checks e d img s = Some None"
proof -
  have m: "max_image_index s = of_nat (image_max (cfg e) - 1)" "image_max (cfg e) - 1 < 256"
    using assms(1,2) by (auto simp: wf_tag_def cfg_ok_def)
  have "unat (max_image_index s) = image_max (cfg e) - 1" unfolding m(1) by (rule unat_of_nat_u8 [OF m(2)])
  then have "\<not> max_image_index s < img"
    using assms(4) by (auto simp: word_less_nat_alt image_shown_def)
  then show ?thesis
    using assms by (auto simp: display_checks_def image_shown_def wf_tag_def rd_def)
qed

lemma timed_display_refines:
  assumes e: "env_ok e" and wf: "wf_tag e s"
    and c: "ecp_net_buf s = [OP_DISPLAY_TIMED_IMAGE, esl_id, d, img] @ le32 t @ rest"
    and d: "unat d < display_max (cfg e)" and img: "image_shown e s img"
  shows "yields (ecp_display_timed e x s) (\<lambda>u.
    let (a, q) = queue_spec (esl_get_abs_time (in_now x) s) t (unat d) img (display_queue s)
    in display_queue u = q \<and> resp u = queue_response (resp_display d img) a s)"
proof -
  note z = env_zep [OF e]
  have cfg: "cfg_ok (cfg e)" using e by (simp add: env_ok_def)
  have rd: "rd (ecp_net_buf s) 2 = Some d" "rd (ecp_net_buf s) 3 = Some img"
    "rd_mem (ecp_net_buf s) 4 4 = Some (le32 t)"
    by (simp_all add: c rd_def rd_mem_def numeral_eq_Suc)
  have n: "unat d < length (display_works s)" using d wf by (simp add: wf_display_works)
  define cl where "cl = (display_works s ! unat d)\<lparr>disp_start_abs_time := 0, disp_active := False,
    disp_img_idx := (if esl_pts (cfg e) then 0 else of_nat (image_max (cfg e)))\<rparr>"
  have reset: "display_dwork_reset e (unat d) (resp_display d img s) = Some (effect (K_work_cancel (Display_work (unat d)))
      ((resp_display d img s)\<lparr>display_works := (display_works s)[unat d := cl]\<rparr>))"
    using n by (simp add: display_dwork_reset_def display_work_upd_def cl_def)
  let ?now = "esl_get_abs_time (in_now x) s"
  have run: "ecp_display_timed e x s =
    (if t = 0 then do {
       s1 \<leftarrow> display_dwork_reset e (unat d) (resp_display d img s);
       bt_esl_basic_state_update e s1 }
     else if ESL_TIMED_ABS_MAX \<le> t - ?now then Some (resp_err ERR_IMPLAUSIBLE_ABS s)
     else if disp_start_abs_time (display_works s ! unat d) = 0 \<or> disp_start_abs_time (display_works s ! unat d) = t
     then do {
       s1 \<leftarrow> display_dwork_reset e (unat d) (resp_display d img s);
       s2 \<leftarrow> display_work_upd (unat d) (\<lambda>d. d\<lparr>disp_img_idx := img, disp_start_abs_time := t\<rparr>) s1;
       Some (basic_bit e (z_set_bit (zep e)) ESL_PENDING_DISPLAY_UPDATE
         (effect (K_work_reschedule (Display_work (unat d)) (unat (t - ?now))) s2)) }
     else Some (resp_err ERR_QUEUE_FULL s))"
    using n by (simp add: ecp_display_timed_def rd [simplified] rd z_get_le32_only [OF z]
        display_checks_pass [OF wf cfg d img] Let_def cong: if_cong)
  have old: "display_queue s (unat d) = (if disp_start_abs_time (display_works s ! unat d) \<noteq> 0
      then Some (disp_img_idx (display_works s ! unat d), disp_start_abs_time (display_works s ! unat d)) else None)"
    using n by (simp add: display_queue_def)
  have cl0: "disp_start_abs_time cl = 0" by (simp add: cl_def)
  have set0: "display_queue ((resp_display d img s)\<lparr>display_works := (display_works s)[unat d := cl]\<rparr>) = (display_queue s)(unat d := None)"
    using display_queue_update [of "unat d" "resp_display d img s" cl] n cl0 by simp
  show ?thesis
  proof (cases "t = 0")
    case True
    let ?s1 = "effect (K_work_cancel (Display_work (unat d))) ((resp_display d img s)\<lparr>display_works := (display_works s)[unat d := cl]\<rparr>)"
    have "wf_tag e ?s1"
      using wf_display_update [of e "resp_display d img s" "unat d" cl] wf d wf_display_idx [OF wf d]
      by (simp add: cl_def)
    from basic_update_only [OF z this] obtain w where "bt_esl_basic_state_update e ?s1 = Some (?s1\<lparr>basic_state := w\<rparr>)" .
    then show ?thesis
      using True by (simp add: run reset set0 queue_spec_def queue_response_def)
  next
    case False
    let ?d = "cl\<lparr>disp_img_idx := img, disp_start_abs_time := t\<rparr>"
    have set1: "display_queue ((resp_display d img s)\<lparr>display_works := (display_works s)[unat d := ?d]\<rparr>) =
        (display_queue s)(unat d \<mapsto> (img, t))"
      using display_queue_update [of "unat d" "resp_display d img s" ?d] n False by simp
    show ?thesis
      using n old False
      by (auto simp: run reset wp queue_spec_def queue_response_def Let_def set1 basic_bit_def)
  qed
qed

text \<open>The LED object a command describes.\<close>

definition led_command :: "led_obj \<Rightarrow> u8 \<Rightarrow> u8 list \<Rightarrow> u8 \<Rightarrow> u8 \<Rightarrow> u8 \<Rightarrow> u8 \<Rightarrow> led_obj" where
  "led_command lo color fp off on r0 r1 = lo\<lparr>color_brightness := color, flash_pattern := fp, bit_off_period := off,
     bit_on_period := on, repeat_type := fst (unpack_repeat_type_duration r0 r1),
     repeat_duration := snd (unpack_repeat_type_duration r0 r1)\<rparr>"

lemma led_queue_frame [simp]:
  "led_queue (resp_led i s) = led_queue s" "led_queue (resp_err c s) = led_queue s"
  "led_queue (effect x s) = led_queue s" "led_queue (s\<lparr>basic_state := w\<rparr>) = led_queue s"
  "led_queue (s\<lparr>led_type := tys\<rparr>) = led_queue s"
  by (auto simp: led_queue_def resp_led_def resp_err_def)

lemma resp_led_works [simp]:
  "led_dworks (resp_led g s) = led_dworks s" "led_objs (resp_led g s) = led_objs s" "led_type (resp_led g s) = led_type s"
  "ecp_net_buf (resp_led g s) = ecp_net_buf s" "ecp_net_buf (effect x s) = ecp_net_buf s" "led_type (effect x s) = led_type s"
  by (simp_all add: resp_led_def effect_def)

lemma led_queue_update:
  "i < length (led_dworks s) \<Longrightarrow> led_queue (s\<lparr>led_dworks := (led_dworks s)[i := d]\<rparr>) =
     (led_queue s)(i := (if start_abs_time d \<noteq> 0 then Some (led_objs s ! i, start_abs_time d) else None))"
  by (rule ext) (auto simp: led_queue_def nth_list_update)

lemma led_queue_store:
  assumes "i < length (led_dworks s)" "length (led_objs s) = length (led_dworks s)" "start_abs_time (led_dworks s ! i) \<noteq> 0"
  shows "led_queue (s\<lparr>led_objs := (led_objs s)[i := v], led_type := tys\<rparr>) =
     (led_queue s)(i \<mapsto> (v, start_abs_time (led_dworks s ! i)))"
  using assms by (intro ext) (auto simp: led_queue_def nth_list_update)

lemma store_led_eq:
  assumes "ecp_net_buf s = [op, esl_id, led, color] @ fp @ [off, on, r0, r1] @ rest" "length fp = 5"
    and "i < length (led_objs s)" "i < length (led_type s)"
  shows "ecp_store_led i color s = Some (s\<lparr>led_objs := (led_objs s)[i := led_command (led_objs s ! i) color fp off on r0 r1],
    led_type := (led_type s)[i := esl_led_check_and_set_color (led_type s ! i) color]\<rparr>)"
proof -
  obtain a b c d f where "fp = [a, b, c, d, f]"
    using assms(2) by (auto simp: numeral_eq_Suc length_Suc_conv)
  then show ?thesis
    using assms(1,3,4)
    by (simp add: ecp_store_led_def rd_def rd_mem_def led_command_def case_prod_unfold Let_def)
qed

text \<open>The LED's work item as a command leaves it for the worker.\<close>

definition led_ready :: "nat \<Rightarrow> u8 \<Rightarrow> led_obj \<Rightarrow> 'st tag \<Rightarrow> bool" where
  "led_ready i p v u \<longleftrightarrow> led_objs u ! i = v \<and> \<not> work_enable (led_dworks u ! i) \<and>
     pattern_idx (led_dworks u ! i) = p \<and> repeat_counts (led_dworks u ! i) = 0"

lemma timed_led_refines:
  assumes e: "env_ok e" and wf: "wf_tag e s"
    and c: "ecp_net_buf s = [OP_LED_TIMED_CONTROL, esl_id, led, color] @ fp @ [off, on, r0, r1] @ le32 t @ rest"
    and fp: "length fp = 5" and i: "unat led < led_max (cfg e)"
  shows "yields (ecp_led_timed e x s) (\<lambda>u.
    let (a, q) = queue_spec (esl_get_abs_time (in_now x) s) t (unat led)
                   (led_command (led_objs s ! unat led) color fp off on r0 r1) (led_queue s)
    in led_queue u = q \<and> resp u = queue_response (resp_led led) a s \<and> (a = Accepted \<longrightarrow>
         led_ready (unat led) ESL_LED_FLASH_PATTERN_START_BIT_IDX
           (led_command (led_objs s ! unat led) color fp off on r0 r1) u \<and> led_shown (unat led) (trace u) =
             led_shown (unat led) (trace s) @ [False]))"
proof -
  note z = env_zep [OF e]
  define v where "v = led_command (led_objs s ! unat led) color fp off on r0 r1"
  obtain f0 f1 f2 f3 f4 where f: "fp = [f0, f1, f2, f3, f4]"
    using fp by (auto simp: numeral_eq_Suc length_Suc_conv)
  have rd: "rd (ecp_net_buf s) 2 = Some led" "rd (ecp_net_buf s) 3 = Some color"
    "rd_mem (ecp_net_buf s) 13 4 = Some (le32 t)"
    by (simp_all add: c f rd_def rd_mem_def numeral_eq_Suc)
  have n: "unat led < length (led_dworks s)" "unat led < length (led_objs s)" "unat led < length (led_type s)"
    "length (led_objs s) = length (led_dworks s)"
    using i wf by (simp_all add: wf_tag_def)
  let ?now = "esl_get_abs_time (in_now x) s" and ?i = "unat led"
  define cl where "cl = (led_dworks s ! ?i)\<lparr>work_enable := False, led_active := False, start_abs_time := 0,
        stop_abs_time := 0, pattern_idx := 0, repeat_counts := 0\<rparr>"
  define s1 where "s1 = effect (Led_control (of_nat ?i) 0 False) (effect (K_work_cancel (Led_work ?i))
     (s\<lparr>led_dworks := (led_dworks s)[?i := cl]\<rparr>))"
  have reset: "led_dwork_reset ?i s = Some s1"
    using n by (simp add: led_dwork_reset_def led_dwork_upd_def cl_def s1_def)
  have run: "ecp_led_timed e x s =
    (if t = 0 then do {
       s1 \<leftarrow> led_dwork_reset ?i s;
       bt_esl_basic_state_update e (resp_led led s1) }
     else if ESL_TIMED_ABS_MAX \<le> t - ?now then Some (resp_err ERR_IMPLAUSIBLE_ABS s)
     else if start_abs_time (led_dworks s ! ?i) = 0 \<or> start_abs_time (led_dworks s ! ?i) = t
     then do {
       s1 \<leftarrow> led_dwork_reset ?i s;
       s2 \<leftarrow> led_dwork_upd ?i (\<lambda>d. d\<lparr>start_abs_time := t, pattern_idx := ESL_LED_FLASH_PATTERN_START_BIT_IDX\<rparr>) s1;
       s3 \<leftarrow> bt_esl_basic_state_update e (resp_led led s2);
       s4 \<leftarrow> ecp_store_led ?i color s3;
       Some (effect (K_work_schedule (Led_work ?i) (unat (t - ?now))) s4) }
     else Some (resp_err ERR_QUEUE_FULL s))"
    using n i by (simp add: ecp_led_timed_def rd [simplified] rd z_get_le32_only [OF z] Let_def cong: if_cong)
  have old: "led_queue s ?i = (if start_abs_time (led_dworks s ! ?i) \<noteq> 0
      then Some (led_objs s ! ?i, start_abs_time (led_dworks s ! ?i)) else None)"
    using n by (simp add: led_queue_def)
  have wf1: "wf_tag e (resp_led led s1)"
    using wf_led_update [OF wf i, of cl] wf_led_idx [OF wf i] by (simp add: s1_def cl_def)
  have set0: "led_queue s1 = (led_queue s)(?i := None)"
    using n by (simp add: s1_def led_queue_update) (simp add: cl_def)
  show ?thesis
  proof (cases "t = 0")
    case True
    obtain w where "bt_esl_basic_state_update e (resp_led led s1) = Some ((resp_led led s1)\<lparr>basic_state := w\<rparr>)"
      using basic_update_only [OF z wf1] .
    then show ?thesis
      using True set0 by (simp add: run reset queue_spec_def queue_response_def) (simp add: s1_def resp_led_def)
  next
    case False
    let ?d = "cl\<lparr>start_abs_time := t, pattern_idx := 40\<rparr>"
    define s2 where "s2 = resp_led led (s1\<lparr>led_dworks := (led_dworks s)[?i := ?d]\<rparr>)"
    have upd: "led_dwork_upd ?i (\<lambda>d. d\<lparr>start_abs_time := t, pattern_idx := 40\<rparr>) s1 =
        Some (s1\<lparr>led_dworks := (led_dworks s)[?i := ?d]\<rparr>)"
      using n by (simp add: led_dwork_upd_def s1_def)
    have wf2: "wf_tag e s2"
      using wf_led_update [OF wf i, of ?d] wf_led_idx [OF wf i] by (simp add: s2_def s1_def cl_def)
    obtain w where w: "bt_esl_basic_state_update e s2 = Some (s2\<lparr>basic_state := w\<rparr>)"
      using basic_update_only [OF z wf2] .
    have s2: "led_dworks s2 = (led_dworks s)[?i := ?d]" "led_objs s2 = led_objs s" "led_type s2 = led_type s"
      "ecp_net_buf s2 = ecp_net_buf s"
      by (simp_all add: s2_def s1_def)
    have store: "ecp_store_led ?i color (s2\<lparr>basic_state := w\<rparr>) = Some (s2\<lparr>basic_state := w,
        led_objs := (led_objs s)[?i := v], led_type := (led_type s)[?i := esl_led_check_and_set_color (led_type s ! ?i) color]\<rparr>)"
      using store_led_eq [of "s2\<lparr>basic_state := w\<rparr>" OP_LED_TIMED_CONTROL esl_id led color fp off on r0 r1 "le32 t @ rest" ?i]
        n fp by (simp add: s2 c v_def)
    let ?u = "s2\<lparr>basic_state := w, led_objs := (led_objs s)[?i := v],
      led_type := (led_type s)[?i := esl_led_check_and_set_color (led_type s ! ?i) color]\<rparr>"
    have q2: "led_queue s2 = (led_queue s)(?i \<mapsto> (led_objs s ! ?i, t))"
      using n False set0 led_queue_update [of ?i s ?d] by (simp add: s2_def s1_def)
    have "led_queue ?u = (led_queue (s2\<lparr>basic_state := w\<rparr>))(?i \<mapsto> (v, t))"
      using led_queue_store [of ?i "s2\<lparr>basic_state := w\<rparr>", where v = v] n False by (simp add: s2)
    then have q: "led_queue ?u = (led_queue s)(?i \<mapsto> (v, t))" by (simp add: q2)
    have r: "resp ?u = resp (resp_led led s)" by (simp add: s2_def s1_def resp_led_def)
    have ready: "led_ready ?i 40 v ?u" using n by (simp add: led_ready_def s2 cl_def)
    have tr: "led_shown ?i (trace s2) = led_shown ?i (trace s) @ [False]"
      by (simp add: s2_def s1_def resp_led_def)
    show ?thesis
      using n old False q r ready tr
      by (auto simp: led_ready_def run reset upd s2_def [symmetric] w store queue_spec_def queue_response_def v_def [symmetric])
  qed
qed

text \<open>Direct LED control: the start index is set and then cleared again by the reset of the item.\<close>

lemma led_control_ready:
  assumes wf: "wf_tag e s"
    and c: "ecp_net_buf s = [OP_LED_CONTROL, esl_id, led, color] @ fp @ [off, on, r0, r1] @ rest"
    and fp: "length fp = 5" and i: "unat led < led_max (cfg e)"
  shows "yields (ecp_led_control e s) (\<lambda>u. resp u = resp (resp_led led s) \<and>
    led_ready (unat led) 0 (led_command (led_objs s ! unat led) color fp off on r0 r1) u \<and>
    led_shown (unat led) (trace u) = led_shown (unat led) (trace s) @ [False])"
proof -
  obtain f0 f1 f2 f3 f4 where f: "fp = [f0, f1, f2, f3, f4]"
    using fp by (auto simp: numeral_eq_Suc length_Suc_conv)
  have rd: "rd (ecp_net_buf s) 2 = Some led" "rd (ecp_net_buf s) 3 = Some color"
    by (simp_all add: c f rd_def)
  have n: "unat led < length (led_dworks s)" "unat led < length (led_objs s)" "unat led < length (led_type s)"
    using i wf by (simp_all add: wf_tag_def)
  note store = store_led_eq [OF c fp n(2,3)]
  show ?thesis
    using n i
    by (simp add: ecp_led_control_def rd [simplified] rd store led_dwork_reset_def wp led_ready_def Let_def resp_led_def)
qed

end
