(* ===== verification/Tag_Provisioning.thy ===== *)
theory Tag_Provisioning
  imports Esl_Tag_System
begin

unbundle bit_operations_syntax

text \<open>
  The life of an association: the four writes that provision a tag, in whatever order; what the
  settings restore when the tag starts again; what unassociation and factory reset remove; and
  the absolute time.
\<close>

subsection \<open>The four writes\<close>

datatype prov_kind = Prov_addr | Prov_ap_key | Prov_rsp_key | Prov_abs_time

text \<open>A write: its kind, the bytes written, and the uptime at which it arrives.\<close>

type_synonym prov_write = "prov_kind \<times> u8 list \<times> u32"

fun prov_handler :: "'st env \<Rightarrow> prov_write \<Rightarrow> 'st tag \<Rightarrow> (int \<times> 'st tag) option" where
  "prov_handler e (Prov_addr, b, now) s = esl_addr_write e b s"
| "prov_handler e (Prov_ap_key, b, now) s = ap_key_write e b s"
| "prov_handler e (Prov_rsp_key, b, now) s = esl_rsp_key_write e b s"
| "prov_handler e (Prov_abs_time, b, now) s = abs_time_write e now b s"

fun prov_runs :: "'st env \<Rightarrow> prov_write list \<Rightarrow> 'st tag \<Rightarrow> 'st tag option" where
  "prov_runs e [] s = Some s"
| "prov_runs e (w # ws) s = do { (r, t) \<leftarrow> prov_handler e w s; prov_runs e ws t }"

fun kind_bit :: "prov_kind \<Rightarrow> nat" where
  "kind_bit Prov_addr = ESL_ADDR_SET_BIT"
| "kind_bit Prov_ap_key = ESL_AP_SYNC_KEY_SET_BIT"
| "kind_bit Prov_rsp_key = ESL_RESPONSE_KEY_SET_BIT"
| "kind_bit Prov_abs_time = ESL_ABS_TIME_SET_BIT"

text \<open>What a write leaves in the tag: address, keys and clock.\<close>

record provisioned =
  pv_addr :: u16
  pv_ap :: bt_esl_key_material
  pv_rsp :: bt_esl_key_material
  pv_anchor :: u64

definition provisioned_of :: "'st tag \<Rightarrow> provisioned" where
  "provisioned_of s = \<lparr>pv_addr = esl_addr s, pv_ap = esl_ap_key s, pv_rsp = esl_rsp_key s, pv_anchor = abs_time_anchor s\<rparr>"

definition wire_key :: "u8 list \<Rightarrow> bt_esl_key_material" where
  "wire_key b = \<lparr>session_key = rev (take 16 b), iv = take 8 (drop 16 b)\<rparr>"

fun prov_store :: "prov_write \<Rightarrow> provisioned \<Rightarrow> provisioned" where
  "prov_store (Prov_addr, b, now) p = p\<lparr>pv_addr := unset_bit ESL_ADDR_RFU_BIT (of_le16 b)\<rparr>"
| "prov_store (Prov_ap_key, b, now) p = p\<lparr>pv_ap := wire_key b\<rparr>"
| "prov_store (Prov_rsp_key, b, now) p = p\<lparr>pv_rsp := wire_key b\<rparr>"
| "prov_store (Prov_abs_time, b, now) p = p\<lparr>pv_anchor := ucast (now - of_le32 b)\<rparr>"

fun prov_ok :: "prov_write \<Rightarrow> bool" where
  "prov_ok (Prov_addr, b, now) \<longleftrightarrow> length b = 2 \<and> LOW_BYTE (of_le16 b) \<noteq> ESL_ADDR_BROADCAST"
| "prov_ok (Prov_ap_key, b, now) \<longleftrightarrow> length b = EAD_KEY_MATERIAL_LEN"
| "prov_ok (Prov_rsp_key, b, now) \<longleftrightarrow> length b = EAD_KEY_MATERIAL_LEN"
| "prov_ok (Prov_abs_time, b, now) \<longleftrightarrow> length b = 4"

definition complete :: "'st tag \<Rightarrow> bool" where
  "complete s \<longleftrightarrow> (\<forall>k. bit (configuring_state s) (kind_bit k))"

lemma all_kinds: "(\<forall>k. P k) \<longleftrightarrow> P Prov_addr \<and> P Prov_ap_key \<and> P Prov_rsp_key \<and> P Prov_abs_time"
  by (metis prov_kind.exhaust)

lemma kind_bit_inj [simp]: "kind_bit j = kind_bit k \<longleftrightarrow> j = k"
  by (cases j; cases k) simp_all

lemma kind_bit_less [simp]: "kind_bit k < 32"
  by (cases k) simp_all

text \<open>The test for a complete configuration enters Configuring, and changes no provisioned data.\<close>

lemma is_configuring_eq:
  assumes z: "zephyr_ok (zep e)"
  shows "yields (esl_is_configuring_state e s) (\<lambda>(b, t). b = complete s \<and> prov t = prov s \<and> ecp_part t = ecp_part s \<and>
    esl_state t = (if complete s then SM_CONFIGURING else esl_state s))"
proof (cases "complete s")
  case False
  then show ?thesis
    by (auto simp: esl_is_configuring_state_def complete_def all_kinds z_test_bit_eq [OF z])
next
  case True
  have "bt_esl_state_transition e SM_CONFIGURING u \<noteq> None" for u
    by (cases "sm_cur u") (simp_all add: transition_eq [OF z] sm_synchronized_exit_def sm_configuring_entry_def)
  then obtain t where t: "bt_esl_state_transition e SM_CONFIGURING (effect (Printk ''#CONFIGURED:1'') s) = Some t"
    by blast
  then show ?thesis
    using True transition_frame [OF z t] transition_ecp_part [OF z t]
    by (simp add: esl_is_configuring_state_def complete_def all_kinds z_test_bit_eq [OF z])
qed

text \<open>What the end of a write does, given that the save writes the store only.\<close>

definition store_only :: "('st tag \<Rightarrow> int \<times> 'st tag) \<Rightarrow> bool" where
  "store_only save \<longleftrightarrow> (\<forall>s. \<exists>st. snd (save s) = s\<lparr>settings_store := st\<rparr>)"

lemma store_only_saves:
  "store_only (esl_settings_addr_save e)" "store_only (esl_settings_ap_key_save e)"
  "store_only (esl_settings_rsp_key_save e)" "store_only (esl_settings_abs_save e)"
  by (auto simp: store_only_def esl_settings_addr_save_def esl_settings_ap_key_save_def
      esl_settings_rsp_key_save_def esl_settings_abs_save_def save_one_def case_prod_unfold Let_def)

definition written :: "'st env \<Rightarrow> ('st tag \<Rightarrow> int \<times> 'st tag) \<Rightarrow> int \<Rightarrow> 'st tag \<Rightarrow> int \<times> 'st tag \<Rightarrow> bool" where
  "written e save ret s r \<longleftrightarrow> (case r of (c, t) \<Rightarrow> c = ret \<and> provisioned_of t = provisioned_of s \<and>
     configuring_state t = configuring_state s \<and>
     esl_state t = (if complete s then SM_CONFIGURING else esl_state s) \<and>
     settings_store t = settings_store (if forget_provision_data (cfg e) then s else snd (save s)))"

lemma finish_write_eq:
  assumes z: "zephyr_ok (zep e)" and save: "store_only save"
  shows "yields (finish_write e save ret s) (written e save ret s)"
proof -
  define s1 where "s1 = (if forget_provision_data (cfg e) then s else snd (save s))"
  obtain st where st: "snd (save s) = s\<lparr>settings_store := st\<rparr>" using save unfolding store_only_def by blast
  have s1: "provisioned_of s1 = provisioned_of s" "configuring_state s1 = configuring_state s"
    "esl_state s1 = esl_state s" "complete s1 = complete s"
    by (simp_all add: s1_def st provisioned_of_def complete_def)
  have "finish_write e save ret s = do { (c, t) \<leftarrow> esl_is_configuring_state e s1; Some (ret, t) }"
    by (simp add: finish_write_def s1_def Let_def)
  then show ?thesis
    using s1 by (auto simp: wp written_def s1_def [symmetric] prov_def ecp_part_def provisioned_of_def
        intro!: yields_mono [OF is_configuring_eq [OF z]])
qed

lemma le16_of_le16: "length b = 2 \<Longrightarrow> le16 (of_le16 b) = b"
proof -
  assume "length b = 2"
  then obtain x y where b: "b = [x, y]" by (auto simp: numeral_2_eq_2 length_Suc_conv)
  have "ucast (ucast x OR push_bit 8 (ucast y) :: u16) = x"
    "ucast (drop_bit 8 (ucast x OR push_bit 8 (ucast y) :: u16)) = y"
    by (rule bit_word_eqI; auto simp: bit_simps simp del: push_bit_Suc drop_bit_Suc dest: bit_imp_le_length)+
  then show ?thesis by (simp add: le16_def of_le16_def b)
qed

lemma get_le16_bytes: "zephyr_ok z \<Longrightarrow> length b = 2 \<Longrightarrow> z_get_le16 z b = of_le16 b"
  using z_get_le16_only [of z "of_le16 b"] by (simp add: le16_of_le16)

lemma addr_masked: "(if CHECK_BIT raw 15 then BIT_UNSET raw 15 else raw) = unset_bit 15 (raw :: u16)"
  by (rule bit_word_eqI) (auto simp: CHECK_BIT_bit bit_simps)

lemma low_byte_unset [simp]: "LOW_BYTE (unset_bit 15 raw) = LOW_BYTE raw"
  by (rule bit_word_eqI) (auto simp: bit_simps)

lemma key_of_wire_eq: "zephyr_ok (zep e) \<Longrightarrow> key_of_wire e b = wire_key b"
  by (simp add: key_of_wire_def wire_key_def key_of_bytes_def Let_def z_mem_swap_eq)

text \<open>Under which name, and as which bytes, the settings keep a value.\<close>

fun sname :: "prov_kind \<Rightarrow> string" where
  "sname Prov_addr = ''esl/esl_addr''"
| "sname Prov_ap_key = ''esl/esl_ap_key''"
| "sname Prov_rsp_key = ''esl/esl_rsp_key''"
| "sname Prov_abs_time = ''esl/esl_abs_time''"

fun sbytes :: "prov_kind \<Rightarrow> provisioned \<Rightarrow> u8 list" where
  "sbytes Prov_addr p = le16 (pv_addr p)"
| "sbytes Prov_ap_key p = key_v (pv_ap p)"
| "sbytes Prov_rsp_key p = key_v (pv_rsp p)"
| "sbytes Prov_abs_time p = [1]"

lemma sname_inj [simp]: "sname j = sname k \<longleftrightarrow> j = k"
  by (cases j; cases k) simp_all

fun prov_save :: "prov_kind \<Rightarrow> 'st env \<Rightarrow> 'st tag \<Rightarrow> int \<times> 'st tag" where
  "prov_save Prov_addr e = esl_settings_addr_save e"
| "prov_save Prov_ap_key e = esl_settings_ap_key_save e"
| "prov_save Prov_rsp_key e = esl_settings_rsp_key_save e"
| "prov_save Prov_abs_time e = esl_settings_abs_save e"

lemma store_only_prov_save: "store_only (prov_save k e)"
  by (cases k) (simp_all add: store_only_saves)

lemma prov_save_store:
  "zephyr_ok (zep e) \<Longrightarrow> settings_reliable (zep e) \<Longrightarrow>
     settings_store (snd (prov_save k e s)) = (settings_store s)(sname k \<mapsto> sbytes k (provisioned_of s))"
  by (cases k) (simp_all add: save_one_reliable esl_settings_addr_save_def esl_settings_ap_key_save_def
      esl_settings_rsp_key_save_def esl_settings_abs_save_def provisioned_of_def)

text \<open>Every handler ends in the same way; \<open>u\<close> is the tag with the value stored.\<close>

lemma prov_handler_finish:
  assumes z: "zephyr_ok (zep e)" and w: "prov_ok (k, b, now)"
  obtains u ret where "prov_handler e (k, b, now) s = finish_write e (prov_save k e) ret (set_configuring e (kind_bit k) u)"
    "provisioned_of u = prov_store (k, b, now) (provisioned_of s)" "configuring_state u = configuring_state s"
    "esl_state u = esl_state s" "settings_store u = settings_store s"
proof (cases k)
  case Prov_addr
  show thesis
    by (rule that [of "int ESL_ADDR_LEN" "s\<lparr>esl_addr := unset_bit 15 (of_le16 b)\<rparr>"])
      (use w in \<open>simp_all add: Prov_addr esl_addr_write_def get_le16_bytes [OF z] Let_def addr_masked provisioned_of_def\<close>)
next
  case Prov_ap_key
  show thesis
    by (rule that [of "int EAD_KEY_MATERIAL_LEN" "s\<lparr>esl_ap_key := wire_key b\<rparr>"])
      (use w in \<open>simp_all add: Prov_ap_key ap_key_write_def key_of_wire_eq [OF z] provisioned_of_def\<close>)
next
  case Prov_rsp_key
  show thesis
    by (rule that [of "int EAD_KEY_MATERIAL_LEN" "s\<lparr>esl_rsp_key := wire_key b\<rparr>"])
      (use w in \<open>simp_all add: Prov_rsp_key esl_rsp_key_write_def key_of_wire_eq [OF z] provisioned_of_def\<close>)
next
  case Prov_abs_time
  show thesis
    by (rule that [of 4 "esl_abs_time_update now (of_le32 b) (effect (Printk_num ''#ABS_TIME'' (of_le32 b)) s)"])
      (use w in \<open>simp_all add: Prov_abs_time abs_time_write_def Let_def esl_abs_time_update_def provisioned_of_def\<close>)
qed

text \<open>
  One write: its value is stored, its bit set, the settings follow unless told to forget, and the
  last of the four enters Configuring.
\<close>

definition after_write :: "'st env \<Rightarrow> prov_write \<Rightarrow> 'st tag \<Rightarrow> 'st tag \<Rightarrow> bool" where
  "after_write e w s t \<longleftrightarrow> provisioned_of t = prov_store w (provisioned_of s) \<and>
     configuring_state t = set_bit (kind_bit (fst w)) (configuring_state s) \<and>
     esl_state t = (if complete t then SM_CONFIGURING else esl_state s) \<and>
     (\<not> forget_provision_data (cfg e) \<longrightarrow> settings_reliable (zep e) \<longrightarrow>
        settings_store t = (settings_store s)(sname (fst w) \<mapsto> sbytes (fst w) (provisioned_of t)))"

lemma prov_handler_after:
  assumes z: "zephyr_ok (zep e)" and w: "prov_ok (k, b, now)"
  shows "yields (prov_handler e (k, b, now) s) (\<lambda>(c, t). after_write e (k, b, now) s t)"
proof -
  obtain u ret where u: "prov_handler e (k, b, now) s = finish_write e (prov_save k e) ret (set_configuring e (kind_bit k) u)"
    "provisioned_of u = prov_store (k, b, now) (provisioned_of s)" "configuring_state u = configuring_state s"
    "esl_state u = esl_state s" "settings_store u = settings_store s"
    by (rule prov_handler_finish [OF z w])
  have fields: "provisioned_of (set_configuring e (kind_bit k) u) = provisioned_of u"
    "configuring_state (set_configuring e (kind_bit k) u) = set_bit (kind_bit k) (configuring_state u)"
    "esl_state (set_configuring e (kind_bit k) u) = esl_state u"
    "settings_store (set_configuring e (kind_bit k) u) = settings_store u"
    by (simp_all add: set_configuring_def provisioned_of_def z_set_bit_eq [OF z])
  show ?thesis
    unfolding u(1)
    by (rule yields_mono [OF finish_write_eq [OF z store_only_prov_save]])
      (use u fields in \<open>auto simp: written_def after_write_def complete_def prov_save_store [OF z]\<close>)
qed

text \<open>A sequence of writes.\<close>

lemma prov_runs_after:
  assumes z: "zephyr_ok (zep e)"
  shows "list_all prov_ok ws \<Longrightarrow> yields (prov_runs e ws s) (\<lambda>t.
    provisioned_of t = fold prov_store ws (provisioned_of s) \<and>
    (\<forall>k. bit (configuring_state t) (kind_bit k) \<longleftrightarrow> bit (configuring_state s) (kind_bit k) \<or> k \<in> fst ` set ws) \<and>
    esl_state t = (if ws \<noteq> [] \<and> complete t then SM_CONFIGURING else esl_state s))"
proof (induction ws arbitrary: s)
  case (Cons w ws)
  obtain k b now where w: "w = (k, b, now)" by (cases w)
  have "yields (prov_handler e w s) (\<lambda>(c, t). after_write e w s t)"
    using prov_handler_after [OF z] Cons.prems by (simp add: w)
  then obtain c t where t: "prov_handler e w s = Some (c, t)" "after_write e w s t" by (auto elim: yieldsE)
  have bits: "bit (configuring_state t) (kind_bit j) \<longleftrightarrow> bit (configuring_state s) (kind_bit j) \<or> j = k" for j
    using t(2) by (auto simp: after_write_def w bit_simps)
  have "yields (prov_runs e ws t) (\<lambda>u.
    provisioned_of u = fold prov_store ws (provisioned_of t) \<and>
    (\<forall>k. bit (configuring_state u) (kind_bit k) \<longleftrightarrow> bit (configuring_state t) (kind_bit k) \<or> k \<in> fst ` set ws) \<and>
    esl_state u = (if ws \<noteq> [] \<and> complete u then SM_CONFIGURING else esl_state t))"
    using Cons by simp
  then show ?case
    using t(2) bits
    by (auto simp: t(1) [unfolded w] w after_write_def elim!: yields_mono) (auto simp: complete_def)
qed simp

subsection \<open>Starting again\<close>

lemma image_size_init_prov: "image_size_init e s = Some t \<Longrightarrow> prov t = prov s"
  unfolding image_size_init_def
  by (rule for_loop_frame [where g = prov]) (auto simp: bind_eq_Some_conv prov_def)

lemma ots_create_from_prov:
  "zephyr_ok (zep e) \<Longrightarrow> ots_create_from i n e s = Some (r, t) \<Longrightarrow> prov t = prov s"
proof (induction n arbitrary: i s)
  case (Suc n)
  have cb: "obj_created_cb e a oid u = Some (r', v) \<Longrightarrow> prov v = prov u" for a oid u r' v
    by (auto simp: obj_created_cb_def ots_obj_created_def bind_eq_Some_conv prov_def
        split: if_splits option.splits)
  have add: "z_ots_obj_add (zep e) (obj_created_cb e a) u = Some (r', v) \<Longrightarrow> prov v = prov u" for a u r' v
    by (rule z_ots_obj_add_cases [OF Suc.prems(1), of "obj_created_cb e a" u]) (auto dest: cb)
  have frame: "prov (u\<lparr>img_object_names := ns, object_being_created := ob\<rparr>) = prov u"
    "prov (u\<lparr>object_being_created := ob\<rparr>) = prov u" "prov (u\<lparr>img_object_names := ns\<rparr>) = prov u" for u :: "'a tag" and ns ob
    by (simp_all add: prov_def)
  from Suc.prems(2) show ?case
    by (auto simp: bind_eq_Some_conv Let_def frame dest!: add Suc.IH [OF Suc.prems(1)] split: if_splits)
qed simp

lemma ots_init_prov:
  "zephyr_ok (zep e) \<Longrightarrow> ots_init_func e got err s = Some (r, t) \<Longrightarrow> prov t = prov s"
  by (auto simp: ots_init_func_def ots_create_obj_def bind_eq_Some_conv dest: ots_create_from_prov split: if_splits)

lemma worker_init_prov: "worker_init e s = Some t \<Longrightarrow> prov t = prov s"
proof -
  have upd: "led_dwork_upd i f u = Some v \<Longrightarrow> prov v = prov u" "display_work_upd i h u = Some v \<Longrightarrow> prov v = prov u"
    for i f h and u v :: "'a tag"
    by (auto simp: led_dwork_upd_def display_work_upd_def bind_eq_Some_conv)
  have l: "led_dwork_init e u = Some v \<Longrightarrow> prov v = prov u" for u v
    unfolding led_dwork_init_def
    by (rule for_loop_frame [where g = prov])
      (auto simp: bind_eq_Some_conv dest!: upd led_dwork_reset_frame)
  have d: "display_dwork_init e u = Some v \<Longrightarrow> prov v = prov u" for u v
    unfolding display_dwork_init_def
    by (rule for_loop_frame [where g = prov])
      (auto simp: bind_eq_Some_conv display_dwork_reset_def dest!: upd)
  show "worker_init e s = Some t \<Longrightarrow> prov t = prov s"
    by (auto simp: worker_init_def bind_eq_Some_conv dest!: l d) (simp add: prov_def)
qed

text \<open>The settings of a completed provisioning.\<close>

definition stored_prov :: "settings \<Rightarrow> u16 \<Rightarrow> bt_esl_key_material \<Rightarrow> bt_esl_key_material \<Rightarrow> bool" where
  "stored_prov st a k1 k2 \<longleftrightarrow> st ''esl/esl_addr'' = Some (le16 a) \<and> st ''esl/esl_ap_key'' = Some (key_v k1) \<and>
     st ''esl/esl_rsp_key'' = Some (key_v k2) \<and> st ''esl/esl_abs_time'' = Some [1] \<and> key_ok k1 \<and> key_ok k2"

definition settings_names :: "string set" where
  "settings_names = {''esl_addr'', ''esl_ap_key'', ''esl_rsp_key'', ''esl_abs_time''}"

lemma loaded_complete:
  assumes z: "zephyr_ok (zep e)" and st: "stored_prov (settings_store s) a k1 k2" and o: "settings_names \<subseteq> set order"
  shows "complete (fold (load_entry e) order s)" "esl_addr (fold (load_entry e) order s) = a"
    "esl_ap_key (fold (load_entry e) order s) = k1" "esl_rsp_key (fold (load_entry e) order s) = k2"
proof -
  have c: "stored_complete (settings_store s)" using st by (simp add: stored_prov_def stored_complete_def)
  have b: "name_bit ''esl_addr'' = Some (kind_bit Prov_addr)" "name_bit ''esl_ap_key'' = Some (kind_bit Prov_ap_key)"
    "name_bit ''esl_rsp_key'' = Some (kind_bit Prov_rsp_key)" "name_bit ''esl_abs_time'' = Some (kind_bit Prov_abs_time)"
    by (simp_all add: name_bit_def)
  have m: "''esl_addr'' \<in> set order" "''esl_ap_key'' \<in> set order" "''esl_rsp_key'' \<in> set order" "''esl_abs_time'' \<in> set order"
    using o by (simp_all add: settings_names_def)
  have n: "\<exists>n \<in> set order. name_bit n = Some (kind_bit k)" for k
    by (cases k) (use b m in \<open>blast+\<close>)
  show "complete (fold (load_entry e) order s)"
    using n by (simp add: complete_def load_entries_bits [OF z c])
  show "esl_addr (fold (load_entry e) order s) = a" "esl_ap_key (fold (load_entry e) order s) = k1"
    "esl_rsp_key (fold (load_entry e) order s) = k2"
    using st o by (simp_all add: stored_prov_def settings_names_def load_entries_addr load_entries_ap_key load_entries_rsp_key)
qed

lemma load_entries_store [simp]: "settings_store (fold (load_entry e) order s) = settings_store s"
  by (induction order arbitrary: s) simp_all

lemma complete_prov: "prov t = prov s \<Longrightarrow> complete t = complete s"
  by (simp add: prov_def complete_def)

lemma init_state_restored:
  assumes e: "env_ok e" and wf: "wf_tag e s" and c: "complete s"
  shows "yields (init_state e s) (\<lambda>t. esl_state t = SM_UNSYNCHRONIZED \<and> prov t = prov s)"
proof -
  note z = env_zep [OF e]
  let ?s = "s\<lparr>sync_count := 0, response_slot_delay := 0\<rparr>"
  have cs: "complete ?s" "prov ?s = prov s" "wf_tag e ?s" using c wf by (simp_all add: complete_def prov_def)
  obtain u where u: "esl_is_configuring_state e ?s = Some (True, u)" "prov u = prov s"
    using is_configuring_eq [OF z, of ?s] cs by (auto elim!: yieldsE)
  have wfu: "wf_tag e u" using wf_is_configuring [OF e cs(3)] u by simp
  then obtain t where t: "bt_esl_state_transition e SM_UNSYNCHRONIZED (display_associated e u) = Some t"
    using wf_transition [OF e, of "display_associated e u" SM_UNSYNCHRONIZED] by (auto elim: yieldsE)
  show ?thesis
    using transition_frame [OF z t] u by (simp add: init_state_def t)
qed

lemma init_restores:
  assumes e: "env_ok e" and p: "init_param_ok e p"
    and f: "module_inits [cb_display_init (cbs e), cb_led_init (cbs e), cb_sensor_init (cbs e)] None = Some 0"
    and st: "stored_prov stored a k1 k2" and o: "settings_names \<subseteq> set (ir_order r)"
    and r: "ir_subsys r = 0" "ir_register r = 0" "ir_load r = 0" "ir_ots_free r" "ir_ots_init r = 0"
  shows "yields (bt_esl_init e p r (static_tag e stored sto)) (\<lambda>(err, t). err = ir_service r \<and>
    esl_state t = SM_UNSYNCHRONIZED \<and> esl_addr t = a \<and> esl_ap_key t = k1 \<and> esl_rsp_key t = k2 \<and>
    settings_store t = stored)"
proof -
  note z = env_zep [OF e]
  have c: "cfg_ok (cfg e)" using e by (simp add: env_ok_def)
  let ?s0 = "(static_tag e stored sto)\<lparr>basic_state := 0, configuring_state := 0\<rparr>"
  obtain s1 where s1: "worker_init e (init_registers e p ?s0) = Some s1" "wf_tag e s1"
    using wf_static [OF c p] by (auto elim!: yieldsE)
  have store1: "settings_store s1 = stored"
    using worker_init_prov [OF s1(1)]
    by (simp add: prov_def init_registers_def Let_def esl_display_register_def esl_sensor_register_def
        esl_led_register_def basic_bit_def static_tag_def)
  let ?s2 = "bt_esl_adv_start ESL_ADV_DEMO (s1\<lparr>sm_cur := SM_UNASSOCIATED, esl_state := SM_UNASSOCIATED\<rparr>)"
  define s3 where "s3 = fold (load_entry e) (ir_order r) (esl_init_provisioned_data ?s2)"
  have st2: "settings_store (esl_init_provisioned_data ?s2) = stored"
    by (simp add: esl_init_provisioned_data_def bt_esl_adv_start_def store1)
  have s3: "complete s3" "esl_addr s3 = a" "esl_ap_key s3 = k1" "esl_rsp_key s3 = k2" "settings_store s3 = stored"
    using loaded_complete [OF z _ o, of "esl_init_provisioned_data ?s2" a k1 k2] st st2 by (simp_all add: s3_def)
  have wf3: "wf_tag e s3"
    unfolding s3_def by (rule wf_load_entries) (use s1(2) in simp)
  obtain s4 where s4: "image_size_init e s3 = Some s4" "wf_tag e s4"
    using wf_image_size_init [OF wf3] by (auto elim: yieldsE)
  obtain r5 s5 where s5: "ots_init_func e True 0 s4 = Some (r5, s5)" "wf_tag e s5"
    using wf_ots_init [OF z s4(2), of True 0] by (auto elim!: yieldsE)
  have r5: "r5 = 0" using s5(1) by (auto simp: ots_init_func_def bind_eq_Some_conv)
  have p5: "prov s5 = prov s3" using image_size_init_prov [OF s4(1)] ots_init_prov [OF z s5(1)] by simp
  have "complete s5" using complete_prov [OF p5] s3 by simp
  then have "yields (init_state e s5) (\<lambda>t. esl_state t = SM_UNSYNCHRONIZED \<and> prov t = prov s5)"
    by (rule init_state_restored [OF e s5(2)])
  then obtain t where t: "init_state e s5 = Some t" "esl_state t = SM_UNSYNCHRONIZED" "prov t = prov s3"
    using p5 by (auto elim!: yieldsE)
  show ?thesis
    unfolding bt_esl_init_def Let_def f
    using t s3
    by (simp add: s1(1) z_smf_set_initial_eq [OF z] sm_unassociated_entry_def esl_settings_init_def r
        s3_def [symmetric] s4(1) s5(1) r5 prov_def)
qed

subsection \<open>What a provisioning leaves in the settings\<close>

text \<open>Every value written so far is in the settings, as it is in memory.\<close>

definition saved :: "'st tag \<Rightarrow> bool" where
  "saved s \<longleftrightarrow> (\<forall>k. bit (configuring_state s) (kind_bit k) \<longrightarrow>
     settings_store s (sname k) = Some (sbytes k (provisioned_of s)))"

lemma saved_after:
  assumes "after_write e w s t" "saved s" "\<not> forget_provision_data (cfg e)" "settings_reliable (zep e)"
  shows "saved t"
proof -
  obtain k b now where w: "w = (k, b, now)" by (cases w)
  have "sbytes j (prov_store (k, b, now) p) = sbytes j p" if "j \<noteq> k" for j p
    using that by (cases j; cases k) simp_all
  then show ?thesis
    using assms by (auto simp: saved_def after_write_def w bit_simps)
qed

lemma prov_runs_saved:
  assumes z: "zephyr_ok (zep e)" and "\<not> forget_provision_data (cfg e)" "settings_reliable (zep e)"
  shows "list_all prov_ok ws \<Longrightarrow> saved s \<Longrightarrow> yields (prov_runs e ws s) saved"
proof (induction ws arbitrary: s)
  case (Cons w ws)
  obtain k b now where w: "w = (k, b, now)" by (cases w)
  show ?case
    using Cons prov_handler_after [OF z, of k b now s] saved_after [OF _ Cons.prems(2) assms(2,3)]
    by (auto simp: w wp elim!: yields_mono)
qed simp

lemma key_ok_wire_key: "length b = EAD_KEY_MATERIAL_LEN \<Longrightarrow> key_ok (wire_key b)"
  by (simp add: wire_key_def key_ok_def)

lemma prov_store_keys:
  "list_all prov_ok ws \<Longrightarrow> key_ok (pv_ap p) \<Longrightarrow> key_ok (pv_rsp p) \<Longrightarrow>
     key_ok (pv_ap (fold prov_store ws p)) \<and> key_ok (pv_rsp (fold prov_store ws p))"
proof (induction ws arbitrary: p)
  case (Cons w ws)
  obtain k b now where w: "w = (k, b, now)" by (cases w)
  show ?case
    using Cons by (cases k) (simp_all add: w key_ok_wire_key)
qed simp

lemma saved_stored:
  assumes "saved s" "complete s" "key_ok (esl_ap_key s)" "key_ok (esl_rsp_key s)"
  shows "stored_prov (settings_store s) (esl_addr s) (esl_ap_key s) (esl_rsp_key s)"
  using assms unfolding saved_def complete_def all_kinds
  by (simp add: stored_prov_def provisioned_of_def)

subsection \<open>Unassociation and factory reset\<close>

definition led_idle :: "led_dwork \<Rightarrow> bool" where
  "led_idle d \<longleftrightarrow> \<not> work_enable d \<and> \<not> led_active d \<and> start_abs_time d = 0 \<and> stop_abs_time d = 0 \<and>
     pattern_idx d = 0 \<and> repeat_counts d = 0"

text \<open>What neither the LED resets nor the entry of Unassociated touch.\<close>

definition images_part :: "'st tag \<Rightarrow> u32 list \<times> 'st" where
  "images_part s = (stored_image_size s, storage s)"

lemma led_resets_idle:
  assumes "length (led_dworks s) = n"
  shows "yields (for_loop 0 n led_dwork_reset s) (\<lambda>t. length (led_dworks t) = n \<and> (\<forall>i < n. led_idle (led_dworks t ! i)) \<and>
    prov t = prov s \<and> images_part t = images_part s \<and> sm_state t = sm_state s)"
proof -
  let ?I = "\<lambda>i t. length (led_dworks t) = n \<and> (\<forall>j < i. led_idle (led_dworks t ! j)) \<and> prov t = prov s \<and>
    images_part t = images_part s \<and> sm_state t = sm_state s"
  have "yields (for_loop 0 n led_dwork_reset s) (?I (0 + n))"
    by (rule for_loop_inv)
      (use assms in \<open>auto simp: led_dwork_reset_def wp led_idle_def images_part_def nth_list_update less_Suc_eq\<close>)
  then show ?thesis by simp
qed

lemma unassociated_entered:
  assumes "zephyr_ok (zep e)"
  shows "yields (bt_esl_state_transition e SM_UNASSOCIATED s) (\<lambda>t. esl_state t = SM_UNASSOCIATED \<and> sm_cur t = SM_UNASSOCIATED \<and>
    prov t = prov s \<and> images_part t = images_part s \<and> led_dworks t = led_dworks s)"
  by (cases "sm_cur s") (simp_all add: transition_eq [OF assms] sm_synchronized_exit_def sm_unassociated_entry_def
      bt_esl_adv_start_def images_part_def effect_def prov_def)

definition deletes_reliable :: "('s, 'm) zephyr \<Rightarrow> bool" where
  "deletes_reliable z \<longleftrightarrow> (\<forall>n st. fst (z_settings_delete z n st) = 0)"

lemma delete_provisioned:
  fixes s :: "'st tag"
  assumes z: "zephyr_ok (zep e)"
  defines "t \<equiv> esl_settings_delete_provisioned_data e s"
  shows "provisioned_of t = provisioned_of s" "\<not> bit (configuring_state t) (kind_bit k)"
    "\<not> bit (configuring_state t) ESL_UPDATE_COMPLETE_SET_BIT"
    "deletes_reliable (zep e) \<Longrightarrow> settings_store t (sname k) = None" "images_part t = images_part s"
    "led_dworks t = led_dworks s"
  unfolding t_def
  by (simp_all add: esl_settings_delete_provisioned_data_def Let_def delete_one_def provisioned_of_def images_part_def
      z_clear_bit_eq [OF z] z_settings_delete_eq [OF z] deletes_reliable_def effect_def bit_simps)
    (cases k; simp add: bit_simps)+

text \<open>What is left of an association.\<close>

definition forgotten :: "'st env \<Rightarrow> 'st tag \<Rightarrow> bool" where
  "forgotten e t \<longleftrightarrow> esl_state t = SM_UNASSOCIATED \<and> sm_cur t = SM_UNASSOCIATED \<and>
     esl_addr t = 0x8000 \<and> esl_ap_key t = zero_key \<and> esl_rsp_key t = zero_key \<and>
     (\<forall>k. \<not> bit (configuring_state t) (kind_bit k)) \<and> \<not> bit (configuring_state t) ESL_UPDATE_COMPLETE_SET_BIT \<and>
     (\<forall>i < led_max (cfg e). led_idle (led_dworks t ! i)) \<and>
     (deletes_reliable (zep e) \<longrightarrow> (\<forall>k. settings_store t (sname k) = None))"

lemma unassociate_forgets:
  assumes z: "zephyr_ok (zep e)" and n: "length (led_dworks s) = led_max (cfg e)"
  shows "yields (bt_esl_unassociate e s) (\<lambda>t. forgotten e t \<and> images_part t = images_part s)"
proof -
  define s2 where "s2 = effect Bt_unpair_all (bt_esl_disconnect
    (if z_test_bit (zep e) (basic_state s) ESL_SYNCHRONIZED then esl_stop_sync_pawr s else s))"
  define s3 where "s3 = esl_settings_delete_provisioned_data e (esl_init_provisioned_data s2)"
  have run: "bt_esl_unassociate e s = do {
      s4 \<leftarrow> for_loop 0 (led_max (cfg e)) led_dwork_reset s3;
      bt_esl_state_transition e SM_UNASSOCIATED (display_unassociated e s4) }"
    by (simp add: bt_esl_unassociate_def Let_def s2_def s3_def)
  have s2: "led_dworks s2 = led_dworks s" "images_part s2 = images_part s"
    by (simp_all add: s2_def images_part_def effect_def bt_esl_disconnect_def esl_stop_sync_pawr_def)
  have init: "led_dworks (esl_init_provisioned_data u) = led_dworks u" "images_part (esl_init_provisioned_data u) = images_part u"
    "esl_addr (esl_init_provisioned_data u) = 0x8000" "esl_ap_key (esl_init_provisioned_data u) = zero_key"
    "esl_rsp_key (esl_init_provisioned_data u) = zero_key" for u :: "'a tag"
    by (simp_all add: esl_init_provisioned_data_def images_part_def zero_key_def)
  note del = delete_provisioned [OF z, of "esl_init_provisioned_data s2", folded s3_def]
  have s3: "length (led_dworks s3) = led_max (cfg e)" "images_part s3 = images_part s"
    "esl_addr s3 = 0x8000" "esl_ap_key s3 = zero_key" "esl_rsp_key s3 = zero_key"
    using del(1,5,6) n s2 init by (simp_all add: provisioned_of_def)
  obtain s4 where s4: "for_loop 0 (led_max (cfg e)) led_dwork_reset s3 = Some s4"
    "\<forall>i < led_max (cfg e). led_idle (led_dworks s4 ! i)" "prov s4 = prov s3" "images_part s4 = images_part s3"
    using led_resets_idle [OF s3(1)] by (auto elim!: yieldsE)
  have d: "led_dworks (display_unassociated e s4) = led_dworks s4" "images_part (display_unassociated e s4) = images_part s4"
    by (simp_all add: display_unassociated_def images_part_def)
  have p: "prov (display_unassociated e s4) = prov s4" by simp
  show ?thesis
    unfolding run s4(1) bind.bind_lunit
    by (rule yields_mono [OF unassociated_entered [OF z]])
      (use s3 s4 d del p [unfolded prov_def] in \<open>auto simp: forgotten_def prov_def\<close>)
qed

text \<open>A factory reset also removes the images.\<close>

lemma delete_images_zero:
  assumes n: "length (stored_image_size s) = image_max (cfg e)" and f: "cb_delete_imgs (cbs e) = Some f"
  shows "yields (bt_esl_delete_images e s) (\<lambda>t. length (stored_image_size t) = image_max (cfg e) \<and>
    (\<forall>i < image_max (cfg e). stored_image_size t ! i = 0) \<and> storage t = snd (f (storage s)) \<and>
    led_dworks t = led_dworks s)"
proof -
  let ?s = "s\<lparr>storage := snd (f (storage s))\<rparr>"
  let ?I = "\<lambda>i t. length (stored_image_size t) = image_max (cfg e) \<and> (\<forall>j < i. stored_image_size t ! j = 0) \<and>
    storage t = storage ?s \<and> led_dworks t = led_dworks s"
  have "yields (bt_esl_delete_images e s) (?I (0 + image_max (cfg e)))"
    unfolding bt_esl_delete_images_def f option.case
    by (rule for_loop_inv) (use n in \<open>auto simp: wp effect_def nth_list_update less_Suc_eq\<close>)
  then show ?thesis by simp
qed

lemma ots_create_from_images:
  "zephyr_ok (zep e) \<Longrightarrow> ots_create_from i n e s = Some (r, t) \<Longrightarrow> images_part t = images_part s \<and> led_dworks t = led_dworks s"
proof (induction n arbitrary: i s)
  case (Suc n)
  have cb: "obj_created_cb e a oid u = Some (r', v) \<Longrightarrow> images_part v = images_part u \<and> led_dworks v = led_dworks u" for a oid u r' v
    by (auto simp: obj_created_cb_def ots_obj_created_def bind_eq_Some_conv images_part_def
        split: if_splits option.splits)
  have add: "z_ots_obj_add (zep e) (obj_created_cb e a) u = Some (r', v) \<Longrightarrow>
      images_part v = images_part u \<and> led_dworks v = led_dworks u" for a u r' v
    by (rule z_ots_obj_add_cases [OF Suc.prems(1), of "obj_created_cb e a" u]) (auto dest: cb)
  from Suc.prems(2) show ?case
    by (auto simp: bind_eq_Some_conv Let_def images_part_def dest!: add Suc.IH [OF Suc.prems(1)] split: if_splits)
qed simp

lemma factory_reset_forgets:
  assumes e: "env_ok e" and wf: "wf_tag e s" and f: "cb_delete_imgs (cbs e) = Some f"
  shows "yields (bt_esl_factory_reset e s) (\<lambda>t. forgotten e t \<and> storage t = snd (f (storage s)) \<and>
    (\<forall>i < image_max (cfg e). stored_image_size t ! i = 0))"
proof -
  note z = env_zep [OF e]
  have n: "length (stored_image_size s) = image_max (cfg e)" "length (led_dworks s) = led_max (cfg e)"
    using wf by (simp_all add: wf_tag_def)
  obtain s1 where s1: "bt_esl_delete_images e s = Some s1" "wf_tag e s1"
    "\<forall>i < image_max (cfg e). stored_image_size s1 ! i = 0" "storage s1 = snd (f (storage s))" "led_dworks s1 = led_dworks s"
    using delete_images_zero [OF n(1) f] wf_delete_images [OF wf] by (auto simp: yields_def)
  obtain r s2 where s2: "ots_create_obj e s1 = Some (r, s2)"
    using wf_ots_create_obj [OF z s1(2)] by (auto elim!: yieldsE)
  have part: "images_part s2 = images_part s1" "led_dworks s2 = led_dworks s1"
    using ots_create_from_images [OF z s2 [unfolded ots_create_obj_def]] by simp_all
  have "yields (bt_esl_unassociate e s2) (\<lambda>t. forgotten e t \<and> images_part t = images_part s2)"
    by (rule unassociate_forgets [OF z]) (use part s1(5) n in simp)
  then show ?thesis
    using s1 part by (auto simp: bt_esl_factory_reset_def s2 images_part_def elim!: yields_mono)
qed

end
