(* ===== verification/Tag_Upload.thy ===== *)
theory Tag_Upload
  imports Tag_Sample Esl_Tag_System
begin

unbundle bit_operations_syntax

text \<open>
  The transfer of an image to a tag that keeps its images in ZMS: the object transfer service hands
  the image over in chunks, the service collects them in its buffer, writes the image with the last
  one and remembers its size; a later read returns what was transferred.
\<close>

subsection \<open>The chunks of a transfer\<close>

fun upload :: "'st env \<Rightarrow> u64 \<Rightarrow> u8 list list \<Rightarrow> nat \<Rightarrow> 'st tag \<Rightarrow> 'st tag option" where
  "upload e oid [] off s = Some s"
| "upload e oid (c # cs) off s = do {
     (n, t) \<leftarrow> ots_obj_write e oid c (length c) (int off) (length (concat cs)) s;
     upload e oid cs (off + length c) t
   }"

definition image_oid :: "u8 \<Rightarrow> u64" where
  "image_oid i = BT_OTS_OBJ_ID_MIN + ucast i"

lemma image_oid_index [simp]: "ucast (image_oid i - BT_OTS_OBJ_ID_MIN) = i"
  by (simp add: image_oid_def) (rule bit_word_eqI, simp add: bit_simps)

text \<open>Writes to the file system do not fail.\<close>

definition zms_reliable :: "'fs zms \<Rightarrow> bool" where
  "zms_reliable z \<longleftrightarrow> (\<forall>k d fs. 0 \<le> fst (zms_write z k d fs))"

text \<open>The configuration the sample uses with ZMS.\<close>

definition upload_env :: "'fs hw_state env \<Rightarrow> 'fs zms \<Rightarrow> bool" where
  "upload_env e z \<longleftrightarrow> zms_ok z \<and> zms_reliable z \<and> (\<exists>c dr lr zp. e = sample_env c z dr lr zp \<and>
     ots_nvs_or_zms c \<and> \<not> unsynchronized_immediately c \<and> image_buffer_size c < 2 ^ 32)"

lemma chunk_buffered:
  assumes e: "upload_env e z" and buf: "length (img_obj_buf s) = image_buffer_size (cfg e)"
    and fit: "off + length c \<le> image_buffer_size (cfg e)"
  shows "ots_write_chunk e i c (length c) (int off) s =
    Some (s\<lparr>img_obj_buf := take off (img_obj_buf s) @ c @ drop (off + length c) (img_obj_buf s)\<rparr>)"
proof -
  have w: "wr_mem (img_obj_buf s) off c = Some (take off (img_obj_buf s) @ c @ drop (off + length c) (img_obj_buf s))"
    using buf fit by (simp add: wr_mem_def)
  show ?thesis
    using e fit by (auto simp: ots_write_chunk_def upload_env_def sample_env_def sample_callbacks_def buffer_img_def w)
qed

lemma last_write:
  assumes e: "upload_env e z" and l: "l \<le> length (img_obj_buf s)"
  shows "yields (write_image e i l 0 s) (\<lambda>(rc, t). zms_entry z (image_fs (storage t)) (unat i) = Some (take l (img_obj_buf s)) \<and>
    zms_entry z (image_fs (storage t)) (unat i + IMG_SIZE_OFFSET) = Some (le32 (of_nat l)) \<and> t = s\<lparr>storage := storage t\<rparr>)"
proof -
  have z: "zms_ok z" "zms_reliable z" using e by (simp_all add: upload_env_def)
  obtain rf where "nvs_write_img z i l 0 (img_obj_buf s) (image_fs (storage s)) = Some rf"
    using l by (simp add: nvs_write_img_def case_prod_unfold Let_def)
  then obtain rc fs where w: "nvs_write_img z i l 0 (img_obj_buf s) (image_fs (storage s)) = Some (rc, fs)"
    by (cases rf) simp
  have ok: "\<And>k d fs. 0 \<le> fst (zms_write z k d fs)" using z(2) by (simp add: zms_reliable_def)
  have "\<And>k d fs. \<not> fst (zms_write z k d fs) < 0" using ok by (simp add: not_less)
  then have "(rc, fs) = zms_write z (unat i + 0x100) (le32 (of_nat l))
      (snd (zms_write z (unat i) (take l (img_obj_buf s)) (image_fs (storage s))))"
    using w l by (simp add: nvs_write_img_def case_prod_unfold Let_def)
  then have "0 \<le> rc" by (metis ok fst_conv)
  then have "zms_entry z fs (unat i) = Some (take l (img_obj_buf s))" "zms_entry z fs (unat i + 0x100) = Some (le32 (of_nat l))"
    using nvs_write_entry(2,3) [OF z(1) l w] by simp_all
  then show ?thesis
    using e by (auto simp: write_image_def upload_env_def sample_env_def sample_callbacks_def lift_write_def w)
qed

text \<open>What a transfer leaves behind.\<close>

definition uploaded :: "'fs zms \<Rightarrow> u8 \<Rightarrow> u8 list \<Rightarrow> 'fs hw_state tag \<Rightarrow> bool" where
  "uploaded z i d t \<longleftrightarrow> unat (stored_image_size t ! unat i) = length d \<and>
     zms_entry z (image_fs (storage t)) (unat i) = Some d \<and>
     zms_entry z (image_fs (storage t)) (unat i + IMG_SIZE_OFFSET) = Some (le32 (of_nat (length d)))"

lemma upload_stores:
  assumes e: "upload_env e z" and i: "unat i < image_max (cfg e)"
  shows "list_all (\<lambda>c. c \<noteq> []) cs \<Longrightarrow> cs \<noteq> [] \<Longrightarrow> length (img_obj_buf s) = image_buffer_size (cfg e) \<Longrightarrow>
    length (stored_image_size s) = image_max (cfg e) \<Longrightarrow> take off (img_obj_buf s) = d \<Longrightarrow> length d = off \<Longrightarrow>
    off + length (concat cs) \<le> image_buffer_size (cfg e) \<Longrightarrow>
    yields (upload e (image_oid i) cs off s) (\<lambda>t. uploaded z i (d @ concat cs) t \<and>
      (\<forall>j. j \<noteq> unat i \<longrightarrow> stored_image_size t ! j = stored_image_size s ! j))"
proof (induction cs arbitrary: off d s)
  case (Cons c cs)
  let ?b = "take off (img_obj_buf s) @ c @ drop (off + length c) (img_obj_buf s)"
  have chunk: "ots_write_chunk e i c (length c) (int off) s = Some (s\<lparr>img_obj_buf := ?b\<rparr>)"
    by (rule chunk_buffered [OF e]) (use Cons.prems in simp_all)
  show ?case
  proof (cases "cs = []")
    case False
    then have rem: "length (concat cs) \<noteq> 0" using Cons.prems(1) by (cases cs) auto
    have "ots_obj_write e (image_oid i) c (length c) (int off) (length (concat cs)) s =
        Some (length c, s\<lparr>img_obj_buf := ?b\<rparr>)"
      using rem by (auto simp: ots_obj_write_def chunk Let_def)
    moreover have "yields (upload e (image_oid i) cs (off + length c) (s\<lparr>img_obj_buf := ?b\<rparr>))
      (\<lambda>t. uploaded z i ((d @ c) @ concat cs) t \<and>
        (\<forall>j. j \<noteq> unat i \<longrightarrow> stored_image_size t ! j = stored_image_size (s\<lparr>img_obj_buf := ?b\<rparr>) ! j))"
      using Cons.prems False by (intro Cons.IH) simp_all
    ultimately show ?thesis by simp
  next
    case True
    define sz where "sz = (stored_image_size s)[unat i := of_int (int off + int (length c))]"
    let ?s = "s\<lparr>img_obj_buf := ?b, stored_image_size := sz\<rparr>"
    have b32: "image_buffer_size (cfg e) < 4294967296" using e by (auto simp: upload_env_def sample_env_def)
    have n: "off + length c \<le> image_buffer_size (cfg e)" using Cons.prems(7) by simp
    have u: "unat (sz ! unat i) = off + length c"
    proof -
      have "sz ! unat i = of_nat (off + length c)" using i Cons.prems(4) by (simp add: sz_def)
      then show ?thesis using n b32 by (simp add: unat_of_nat del: of_nat_add)
    qed
    have "yields (write_image e i (unat (sz ! unat i)) 0 ?s) (\<lambda>(rc, t).
        zms_entry z (image_fs (storage t)) (unat i) = Some (take (unat (sz ! unat i)) (img_obj_buf ?s)) \<and>
        zms_entry z (image_fs (storage t)) (unat i + IMG_SIZE_OFFSET) = Some (le32 (of_nat (unat (sz ! unat i)))) \<and>
        t = ?s\<lparr>storage := storage t\<rparr>)"
      by (rule last_write [OF e]) (use u n Cons.prems(3) in simp)
    then obtain rc t where w: "write_image e i (unat (sz ! unat i)) 0 ?s = Some (rc, t)"
      "zms_entry z (image_fs (storage t)) (unat i) = Some (take (off + length c) ?b)"
      "zms_entry z (image_fs (storage t)) (unat i + IMG_SIZE_OFFSET) = Some (le32 (of_nat (off + length c)))" "t = ?s\<lparr>storage := storage t\<rparr>"
      by (auto elim!: yieldsE simp: u)
    have d: "take (off + length c) ?b = d @ c" using Cons.prems(5,6) by simp
    have run: "ots_obj_write e (image_oid i) c (length c) (int off) 0 s = Some (length c, t)"
      using i Cons.prems(4) e w(1)
      by (auto simp: ots_obj_write_def chunk Let_def sz_def upload_env_def sample_env_def)
    have t: "stored_image_size t = sz" by (subst w(4)) simp
    show ?thesis
      using w(2,3) d u Cons.prems(4-6) t run
      by (simp add: True uploaded_def) (simp add: sz_def)
  qed
qed simp

subsection \<open>Reading it back\<close>

lemma uploaded_read:
  assumes e: "upload_env e z" and i: "unat i < image_max (cfg e)" and u: "uploaded z i d t"
    and d: "length d \<le> image_buffer_size (cfg e)"
  shows "yields (ots_obj_cal_checksum e (image_oid i) 0 (length d) t) (\<lambda>(r, data, v). r = 0 \<and>
    (\<exists>b. data = Some b \<and> take (length d) b = d))"
proof -
  have z: "zms_ok z" using e by (simp add: upload_env_def)
  have v: "zms_entry z (image_fs (storage t)) (unat i) = Some d" using u by (simp add: uploaded_def)
  let ?b0 = "replicate (image_buffer_size (cfg e)) (0 :: u8)"
  have rd: "lift_read z i ?b0 (length d) 0 (storage t) = Some (fst (zms_read z (unat i) ?b0 (length d) (image_fs (storage t))),
      snd (zms_read z (unat i) ?b0 (length d) (image_fs (storage t))), storage t)"
    using d by (simp add: lift_read_def nvs_read_img_def case_prod_unfold Let_def)
  have b: "snd (zms_read z (unat i) ?b0 (length d) (image_fs (storage t))) = d @ drop (length d) ?b0"
    using zms_read_some(2) [OF z v, of "length d" ?b0] d by simp
  have cb: "cb_read_img (cbs e) = Some (lift_read z)"
    using e by (auto simp: upload_env_def sample_env_def sample_callbacks_def)
  have "\<not> image_max (cfg e) < unat i" using i by simp
  then show ?thesis
    using rd b cb by (simp add: ots_obj_cal_checksum_def read_image_def Let_def close_image_def split: option.split)
qed

text \<open>The sizes the service reads at its next start.\<close>

lemma uploaded_size:
  assumes z: "zms_ok z" and u: "uploaded z i d t" and d: "length d < 2 ^ 32"
  shows "unat (nvs_read_img_size z (replicate 4 0) i (image_fs (storage t))) = length d"
proof -
  have v: "zms_entry z (image_fs (storage t)) (unat i + 0x100) = Some (le32 (of_nat (length d)))"
    using u by (simp add: uploaded_def)
  have "0 \<le> fst (zms_read z (unat i + 0x100) (replicate 4 0) 4 (image_fs (storage t)))"
    "snd (zms_read z (unat i + 0x100) (replicate 4 0) 4 (image_fs (storage t))) = le32 (of_nat (length d))"
    using zms_read_some [OF z v, of 4 "replicate 4 0"] by simp_all
  then show ?thesis
    using d by (simp add: nvs_read_img_size_def case_prod_unfold Let_def le32.dec_enc unat_of_nat)
qed

end
