(* ===== verification/Tag_Properties.thy ===== *)
theory Tag_Properties
  imports Tag_Example Tag_Behaviour Tag_Provisioning Tag_Upload
begin

unbundle bit_operations_syntax

text \<open>
  The properties of the tag role, each with a witness on the concrete tag where it has
  hypotheses. The lemmas they rest on are in the component theories.
\<close>

subsection \<open>The whole tag\<close>

text \<open>C1: in every reachable state of the tag, after callbacks, packets and console lines in any order,
  the address is one that was typed at the console or it is not the broadcast identifier and has no
  reserved bit (except as the value for no address); both copies of the association state agree, and
  a response that is being collected fits a packet. \<open>A\<close> are the addresses typed at the console: the
  command \<open>addr\<close> stores and saves them without a check.\<close>
theorem reachable_tag:
  assumes "reach (tag_init A e) (tag_step A e) s"
  shows "(esl_addr s \<in> A \<or> LOW_BYTE (esl_addr s) \<noteq> ESL_ADDR_BROADCAST \<and>
      (bit (esl_addr s) ESL_ADDR_RFU_BIT \<longrightarrow> esl_addr s = 0x8000)) \<and> esl_state s = sm_cur s \<and>
    length (ecp_rsp_net_buf s) \<le> ESL_SYNC_PKT_PAYLOAD_MAX_LEN"
  using tag_sys.inv_reach [OF assms]
  by (simp_all add: tag_inv_def sys_ok_def sys_data_def addr_in_def addr_ok_def wf_tag_def)

text \<open>Nothing was typed; and the typed broadcast address is stored as it is.\<close>
theorem reachable_tag_witness:
  "(\<exists>s. reach (tag_init {} ex_env) (tag_step {} ex_env) s \<and> LOW_BYTE (esl_addr s) \<noteq> 0xFF \<and> esl_state s = sm_cur s) \<and>
   (\<exists>s. reach (tag_init {0xFF} ex_env) (tag_step {0xFF} ex_env) s \<and> esl_addr s = 0xFF \<and> esl_state s = sm_cur s)"
proof (rule conjI)
  obtain s where "tag_init {} ex_env s" using ex_init by blast
  then have r: "reach (tag_init {} ex_env) (tag_step {} ex_env) s" by (rule reach_init)
  show "\<exists>s. reach (tag_init {} ex_env) (tag_step {} ex_env) s \<and> LOW_BYTE (esl_addr s) \<noteq> 0xFF \<and> esl_state s = sm_cur s"
    using reachable_tag [OF r] r by blast
next
  obtain s where "tag_init {0xFF} ex_env s" using ex_init by blast
  then have r: "reach (tag_init {0xFF} ex_env) (tag_step {0xFF} ex_env) s" by (rule reach_init)
  let ?l = "[''addr'', ''00ff'']"
  have n: "c_strtoul 16 ''00ff'' = 255"
    by (simp add: c_strtou_def read_number_def is_space_def digit_value_def hex_value_def lower_digits_def upper_digits_def upt_rec)
  have m: "map_of (esl_commands ex_env ex_inp False) ''addr'' = Some (cmd_esl_addr ex_env)"
    by (simp add: esl_commands_def)
  define t where "t = snd (esl_settings_addr_save ex_env (s\<lparr>esl_addr := 255\<rparr>))"
  have run: "run_line ex_env ex_inp False ?l s = Some (0, t)"
    by (simp add: run_line_def m cmd_esl_addr_def ul_arg_def rd_def n t_def)
  have "tag_step {0xFF} ex_env s t"
    by (rule st_console [OF ex_inp_ok _ _ run]) (simp_all add: line_in_range_def typed_address_def n)
  with r have t: "reach (tag_init {0xFF} ex_env) (tag_step {0xFF} ex_env) t" by (rule reach_step)
  have "esl_addr t = 0xFF" by (simp add: t_def esl_settings_addr_save_def save_one_def case_prod_unfold Let_def)
  then show "\<exists>s. reach (tag_init {0xFF} ex_env) (tag_step {0xFF} ex_env) s \<and> esl_addr s = 0xFF \<and> esl_state s = sm_cur s"
    using reachable_tag [OF t] t by blast
qed

text \<open>C2: the control point in every reachable state. A write is refused without a change when it has
  less than two bytes; on any other the handler is defined and keeps the invariant. A command of a packet
  that lies in memory with the length its op code announces is executed, and so is a packet of
  complete TLVs. The last TLV of a packet is executed before its length is checked: it keeps the
  invariant whenever it is defined, and, vendor commands aside, it is undefined exactly when
  the memory ends before the bytes that its execution reads.\<close>
theorem command_handler_defined:
  assumes "reach (tag_init A e) (tag_step A e) s" "inp_ok x"
  shows "(if length buf < 2 then esl_control_write e buf s = (BT_GATT_ERR BT_ATT_ERR_INVALID_ATTRIBUTE_LEN, s)
      else yields (ecp_command_handler e x (snd (esl_control_write e buf s))) (tag_inv A e)) \<and>
    (mem \<noteq> [] \<and> ECP_LEN (mem ! 0) \<le> length mem \<longrightarrow> yields (run_tlv e x mem (ECP_LEN (mem ! 0)) s) (tag_inv A e)) \<and>
    (pawr_buf s = air_packet (zep e) (esl_ap_key s) (esl_packet g ts) \<and> list_all tlv_ok ts \<and>
       length (esl_payload g ts) \<le> ESL_SYNC_PKT_PAYLOAD_MAX_LEN \<and> length stack = ESL_ENCRTYPTED_DATA_MAX_LEN \<and>
       (\<forall>i. inp_ok (xs i)) \<longrightarrow> yields (esl_pawr_sync_work_fn e xs x stack s) (tag_inv A e)) \<and>
    ensures (run_tlv e x mem (ECP_LEN (mem ! 0)) s) (tag_inv A e) \<and>
    (\<not> vendor_command e (mem ! 0) \<longrightarrow> (run_tlv e x mem (ECP_LEN (mem ! 0)) s = None \<longleftrightarrow>
       length mem < command_reads e mem (ECP_LEN (mem ! 0)) s))"
proof -
  have inv: "tag_inv A e s" by (rule tag_sys.inv_reach [OF assms(1)])
  note run = command_run [OF inv assms(2)]
  have refused: "esl_control_write e buf s = (BT_GATT_ERR BT_ATT_ERR_INVALID_ATTRIBUTE_LEN, s)" if "length buf < 2"
    using that by (simp add: esl_control_write_def)
  have written: "if length buf < 2 then esl_control_write e buf s = (BT_GATT_ERR BT_ATT_ERR_INVALID_ATTRIBUTE_LEN, s)
      else yields (ecp_command_handler e x (snd (esl_control_write e buf s))) (tag_inv A e)"
    using refused run(1) by (cases "length buf < 2") simp_all
  show ?thesis
    by (intro conjI impI written run(3); (elim conjE)?; (rule run(2,4) packet_run [OF inv assms(2)]; assumption)?)
qed

theorem command_handler_defined_witness:
  "\<exists>s. esl_control_write ex_env [0xFF] s = (BT_GATT_ERR BT_ATT_ERR_INVALID_ATTRIBUTE_LEN, s) \<and>
     ecp_command_handler ex_env ex_inp (snd (esl_control_write ex_env [0xFF, 1] s)) \<noteq> None \<and>
     run_tlv ex_env ex_inp [0x20, 0xFF, 0, 1] 4 s \<noteq> None \<and>
     (run_tlv ex_env ex_inp [0x20, 0xFF, 0] 4 s = None \<longleftrightarrow> \<not> busy s)"
proof -
  obtain s where "tag_init {} ex_env s" using ex_init by blast
  then have r: "reach (tag_init {} ex_env) (tag_step {} ex_env) s" by (rule reach_init)
  note c = command_handler_defined [OF r ex_inp_ok]
  have n: "ECP_LEN 0x20 = 4" by (simp add: ECP_LEN_nibble)
  have v: "\<not> vendor_command ex_env 0x20" by (simp add: vendor_command_def esl_ops_def)
  have k: "command_reads ex_env [0x20, 0xFF, 0] 4 s = (if busy s then 2 else 4)"
    by (simp add: command_reads_def n addressed_def dispatch_reads_def)
  have "esl_control_write ex_env [0xFF] s = (BT_GATT_ERR BT_ATT_ERR_INVALID_ATTRIBUTE_LEN, s)"
    using c [of "[0xFF]"] by simp
  moreover have "ecp_command_handler ex_env ex_inp (snd (esl_control_write ex_env [0xFF, 1] s)) \<noteq> None"
    using c [of "[0xFF, 1]", THEN conjunct1] yields_total by fastforce
  moreover have "run_tlv ex_env ex_inp [0x20, 0xFF, 0, 1] 4 s \<noteq> None"
    using c [where mem = "[0x20, 0xFF, 0, 1]", THEN conjunct2, THEN conjunct1] by (auto simp: yields_def n)
  moreover have "run_tlv ex_env ex_inp [0x20, 0xFF, 0] 4 s = None \<longleftrightarrow> \<not> busy s"
    using c [where mem = "[0x20, 0xFF, 0]", THEN conjunct2, THEN conjunct2, THEN conjunct2, THEN conjunct2] v by (simp add: n k)
  ultimately show ?thesis by (intro exI [of _ s] conjI)
qed

text \<open>C33: in every reachable state the worker of an LED is undefined exactly when a round starts on
  an empty flashing pattern with a repeat duration (leading zeros of 0).\<close>
theorem led_worker_undefined_iff:
  assumes "reach (tag_init A e) (tag_step A e) s" "k < led_max (cfg e)"
  shows "led_delay_worker_fn e x k s = None \<longleftrightarrow>
    repeat_duration (led_objs s ! k) \<noteq> 0 \<and> led_pattern e (led_objs s ! k) = 0 \<and>
    pattern_idx (led_dworks s ! k) \<in> {0, ESL_LED_FLASH_PATTERN_START_BIT_IDX}"
  using tag_led_defined [OF tag_sys.inv_reach [OF assms(1)] assms(2)] by (simp add: led_stuck_def)

theorem led_worker_undefined_iff_witness:
  "\<exists>s. reach (tag_init {} ex_env) (tag_step {} ex_env) s \<and>
    (led_delay_worker_fn ex_env ex_inp 1 s = None \<longleftrightarrow>
      repeat_duration (led_objs s ! 1) \<noteq> 0 \<and> led_pattern ex_env (led_objs s ! 1) = 0 \<and>
      pattern_idx (led_dworks s ! 1) \<in> {0, 40})"
proof -
  obtain s where "tag_init {} ex_env s" using ex_init by blast
  then have r: "reach (tag_init {} ex_env) (tag_step {} ex_env) s" by (rule reach_init)
  have k: "1 < led_max (cfg ex_env)" by (simp add: ex_cfg_def)
  show ?thesis by (intro exI conjI) (rule r, rule led_worker_undefined_iff [OF r k])
qed

subsection \<open>Commands\<close>

text \<open>C7: the timed display command refines a queue with one place per display: time 0 empties the
  place, a time too far away and a second time for an occupied place are refused, and the response
  says which.\<close>
theorem timed_display_queue:
  assumes "env_ok e" "wf_tag e s"
    and "ecp_net_buf s = [OP_DISPLAY_TIMED_IMAGE, esl_id, d, img] @ le32 t @ rest"
    and "unat d < display_max (cfg e)" "image_shown e s img"
  shows "yields (ecp_display_timed e x s) (\<lambda>u.
    let (a, q) = queue_spec (esl_get_abs_time (in_now x) s) t (unat d) img (display_queue s)
    in display_queue u = q \<and> resp u = queue_response (resp_display d img) a s)"
  by (rule timed_display_refines [OF assms])

definition ex_timed :: "(nat \<Rightarrow> u8 list option) hw_state tag" where
  "ex_timed = ex_tag\<lparr>ecp_net_buf := [0x60, 5, 0, 1] @ le32 1000, stored_image_size := [0, 16]\<rparr>"

lemma ex_timed_ok: "wf_tag ex_env ex_timed" "image_shown ex_env ex_timed 1"
  using ex_wf by (simp_all add: ex_timed_def wf_tag_def image_shown_def ex_cfg_def)

theorem timed_display_queue_witness:
  "yields (ecp_display_timed ex_env ex_inp ex_timed) (\<lambda>u. display_queue u 0 = Some (1, 1000) \<and>
     resp_op (resp u) = OP_DISPLAY_STATE)"
proof -
  have q: "queue_spec (esl_get_abs_time (in_now ex_inp) ex_timed) 1000 0 1 (display_queue ex_timed) =
      (Accepted, (display_queue ex_timed)(0 \<mapsto> (1, 1000)))"
    by (simp add: queue_spec_def esl_get_abs_time_def ex_inp_def display_queue_def ex_timed_def ex_tag_def static_tag_def
        ex_cfg_def zero_display_dwork_def)
  have b: "ecp_net_buf ex_timed = [0x60, 5, 0, 1] @ le32 1000 @ []" by (simp add: ex_timed_def)
  show ?thesis
    by (rule yields_mono [OF timed_display_queue [OF ex_env_ok ex_timed_ok(1) b _ ex_timed_ok(2), of ex_inp]])
      (simp_all add: ex_cfg_def q queue_response_def resp_display_def)
qed

text \<open>C8: the timed LED command refines the same queue, a place holding the LED object the command
  describes: colour, pattern, periods and repeat field.\<close>
theorem timed_led_queue:
  assumes "env_ok e" "wf_tag e s"
    and "ecp_net_buf s = [OP_LED_TIMED_CONTROL, esl_id, led, color] @ fp @ [off, on, r0, r1] @ le32 t @ rest"
    and "length fp = 5" "unat led < led_max (cfg e)"
  shows "yields (ecp_led_timed e x s) (\<lambda>u.
    let (a, q) = queue_spec (esl_get_abs_time (in_now x) s) t (unat led)
                   (led_command (led_objs s ! unat led) color fp off on r0 r1) (led_queue s)
    in led_queue u = q \<and> resp u = queue_response (resp_led led) a s)"
  by (rule yields_mono [OF timed_led_refines [OF assms]]) (auto simp: case_prod_unfold Let_def)

definition ex_timed_led :: "(nat \<Rightarrow> u8 list option) hw_state tag" where
  "ex_timed_led = ex_tag\<lparr>ecp_net_buf := [0xF0, 5, 1, 0x0C] @ [1, 2, 3, 4, 5] @ [10, 20, 4, 0] @ le32 0xFFFFFFFF\<rparr>"

theorem timed_led_queue_witness:
  "yields (ecp_led_timed ex_env ex_inp ex_timed_led) (\<lambda>u. led_queue u = led_queue ex_timed_led \<and>
     resp_op (resp u) = OP_ERR \<and> error_code (resp u) = ERR_IMPLAUSIBLE_ABS)"
proof -
  have q: "queue_spec (esl_get_abs_time (in_now ex_inp) ex_timed_led) 0xFFFFFFFF i v (led_queue ex_timed_led) =
      (Implausible, led_queue ex_timed_led)" for i v
    by (simp add: queue_spec_def esl_get_abs_time_def ex_inp_def ex_timed_led_def ex_tag_def static_tag_def)
  have b: "ecp_net_buf ex_timed_led = [0xF0, 5, 1, 0x0C] @ [1, 2, 3, 4, 5] @ [10, 20, 4, 0] @ le32 0xFFFFFFFF @ []"
    by (simp add: ex_timed_led_def)
  have wf: "wf_tag ex_env ex_timed_led" using ex_wf by (simp add: ex_timed_led_def wf_tag_def)
  show ?thesis
    by (rule yields_mono [OF timed_led_queue [OF ex_env_ok wf b, of ex_inp]])
      (simp_all add: ex_cfg_def q queue_response_def resp_err_def)
qed

text \<open>C13: a command with a wrong length, an op code of a vendor the firmware does not support or a reset
  for all tags over GATT is answered with its error code, and nothing else of the tag changes.\<close>
theorem refused_commands:
  assumes "zephyr_ok (zep e)" "inp_ok x" "written_command c s" "c \<noteq> []" "\<not> busy s"
    and "length c \<noteq> ECP_LEN (c ! 0) \<and> code = ERR_INV_PARAMS \<or>
      length c = ECP_LEN (c ! 0) \<and> c ! 0 AND 0x0F = 0x0F \<and> \<not> vendor_specific_support (cfg e) \<and> code = ERR_INV_OPCODE \<or>
      c = [OP_UNASSOCIATE, ESL_ADDR_BROADCAST] \<and> code = ERR_RETRY \<or>
      c = [OP_FACTORY_RESET, ESL_ADDR_BROADCAST] \<and>
        code = (if esl_state s = SM_SYNCHRONIZED then ERR_INV_STATE else ERR_RETRY)"
  shows "ecp_command_handler e x s = Some (notified [OP_ERR, code] (resp_err code (begin_command s)))"
  using assms(6)
proof (elim disjE conjE)
  assume "length c \<noteq> ECP_LEN (c ! 0)" "code = ERR_INV_PARAMS"
  then show ?thesis using bad_length_command [OF assms(1-4)] by simp
next
  assume "length c = ECP_LEN (c ! 0)" "c ! 0 AND 0x0F = 0x0F" "\<not> vendor_specific_support (cfg e)" "code = ERR_INV_OPCODE"
  then show ?thesis using vendor_unsupported_command [OF assms(1-4)] by simp
next
  assume "c = [OP_UNASSOCIATE, ESL_ADDR_BROADCAST]" "code = ERR_RETRY"
  then show ?thesis using broadcast_reset_refused [OF assms(1-3) _ assms(5)] by simp
next
  assume "c = [OP_FACTORY_RESET, ESL_ADDR_BROADCAST]"
    "code = (if esl_state s = SM_SYNCHRONIZED then ERR_INV_STATE else ERR_RETRY)"
  then show ?thesis using broadcast_reset_refused [OF assms(1-3) _ assms(5)] by simp
qed

theorem refused_commands_witness:
  "ecp_command_handler ex_env ex_inp (ex_tag\<lparr>ecp_net_buf := [3, 0xFF], ecp_net_buf_len := 2\<rparr>) =
     Some (notified [0, 10] (resp_err 10 (begin_command (ex_tag\<lparr>ecp_net_buf := [3, 0xFF], ecp_net_buf_len := 2\<rparr>))))"
  by (rule refused_commands [OF ex_zephyr_ok ex_inp_ok, of "[3, 0xFF]"])
    (simp_all add: written_command_def ex_tag_def static_tag_def)

text \<open>A written command with the identifier of another tag gets no answer and changes nothing but
  the response fields.\<close>
theorem command_for_another:
  assumes "written_command c s" "known_format e c" "c ! 1 \<noteq> LOW_BYTE (esl_addr s)" "c ! 1 \<noteq> ESL_ADDR_BROADCAST"
  shows "ecp_command_handler e x s = Some (resp_err ERR_INV_PARAMS (begin_command s))"
  by (rule foreign_command [OF assms])

theorem command_for_another_witness:
  "ecp_command_handler ex_env ex_inp (ex_tag\<lparr>ecp_net_buf := [0, 9], ecp_net_buf_len := 2\<rparr>) =
     Some (resp_err ERR_INV_PARAMS (begin_command (ex_tag\<lparr>ecp_net_buf := [0, 9], ecp_net_buf_len := 2\<rparr>)))"
  by (rule command_for_another [of "[0, 9]"])
    (simp_all add: written_command_def known_format_def ex_tag_def static_tag_def ECP_LEN_nibble LOW_BYTE_def)

text \<open>C24: the Basic State the tag reports: the active and pending bits say whether some LED is active,
  some LED or some display has a timed command waiting, every other bit is kept, and the update
  changes nothing else.\<close>
theorem basic_state_report:
  assumes "zephyr_ok (zep e)" "wf_tag e s"
  shows "yields (bt_esl_basic_state_update e s) (\<lambda>t. t = s\<lparr>basic_state := basic_state t\<rparr> \<and>
    (bit (basic_state t) ESL_ACTIVE_LED \<longleftrightarrow> (\<exists>d \<in> set (led_dworks s). led_active d)) \<and>
    (bit (basic_state t) ESL_PENDING_LED_UPDATE \<longleftrightarrow> (\<exists>i. led_queue s i \<noteq> None)) \<and>
    (bit (basic_state t) ESL_PENDING_DISPLAY_UPDATE \<longleftrightarrow> (\<exists>i. display_queue s i \<noteq> None)) \<and>
    (\<forall>n. n \<notin> {ESL_ACTIVE_LED, ESL_PENDING_LED_UPDATE, ESL_PENDING_DISPLAY_UPDATE} \<longrightarrow>
       bit (basic_state t) n = bit (basic_state s) n))"
proof -
  have active: "(\<exists>d \<in> set (led_dworks s). led_active d) \<longleftrightarrow> (\<exists>k < led_max (cfg e). led_active (led_dworks s ! k))"
    unfolding wf_led_dworks [OF assms(2), symmetric] by (metis in_set_conv_nth)
  show ?thesis
    unfolding active using wf_led_dworks [OF assms(2)] wf_display_works [OF assms(2)]
    by (auto simp: basic_at_def basic_bits_def led_queue_def display_queue_def
        intro!: yields_mono [OF basic_state_update_at [OF assms]])
qed

theorem basic_state_report_witness:
  "\<exists>t. bt_esl_basic_state_update ex_env ex_tag = Some t \<and> \<not> bit (basic_state t) ESL_PENDING_DISPLAY_UPDATE \<and>
     display_queue ex_tag = (\<lambda>_. None)"
proof -
  have q: "display_queue ex_tag = (\<lambda>_. None)"
    by (rule ext) (auto simp: display_queue_def ex_tag_def static_tag_def zero_display_dwork_def ex_cfg_def nth_Cons
        split: nat.splits)
  show ?thesis using basic_state_report [OF ex_zephyr_ok ex_wf] q by (auto elim!: yieldsE)
qed

subsection \<open>Flashing\<close>

text \<open>C9: an accepted timed command of the count type flashes the LED as many rounds as its duration
  says, provided that is at most 255: each round shows the pattern from its highest set bit down to
  bit 1, then the LED is off, its work item is disabled and no further run is needed.\<close>
theorem timed_led_flashes:
  assumes e: "env_ok e" and wf: "wf_tag e s"
    and c: "ecp_net_buf s = [OP_LED_TIMED_CONTROL, esl_id, led, color] @ fp @ [off, on, r0, r1] @ le32 t @ rest"
    and fp: "length fp = 5" and led: "unat led < led_max (cfg e)"
    and lo: "lo = led_command (led_objs s ! unat led) color fp off on r0 r1"
    and count: "repeat_type lo \<noteq> 1" "repeat_duration lo \<noteq> 0" "unat (repeat_duration lo) \<le> 255"
      "led_pattern e lo \<noteq> 0"
    and free: "t \<noteq> 0" "t - esl_get_abs_time (in_now x) s < ESL_TIMED_ABS_MAX" "led_queue s (unat led) = None"
    and runs: "length xs = unat (repeat_duration lo) * length (round_bits (top_bit (led_pattern e lo))) + 1"
  shows "yields (do { u \<leftarrow> ecp_led_timed e x s; led_runs e xs (unat led) u }) (\<lambda>v.
    \<not> work_enable (led_dworks v ! unat led) \<and> \<not> led_active (led_dworks v ! unat led) \<and>
    led_shown (unat led) (trace v) = led_shown (unat led) (trace s) @ [False] @ map (bit (led_pattern e lo))
      (concat (replicate (unat (repeat_duration lo)) (round_bits (top_bit (led_pattern e lo))))) @ [False])"
proof -
  have q: "queue_spec (esl_get_abs_time (in_now x) s) t (unat led) lo (led_queue s) =
      (Accepted, (led_queue s)(unat led \<mapsto> (lo, t)))"
    using free by (simp add: queue_spec_def)
  have len: "17 \<le> length (ecp_net_buf s)" using c fp by simp
  have cl: "count_led e (unat led) lo"
    using count led e by (simp add: count_led_def env_ok_def cfg_ok_def)
  obtain u where u: "ecp_led_timed e x s = Some u" "wf_tag e u" "led_ready (unat led) 40 lo u"
    "led_shown (unat led) (trace u) = led_shown (unat led) (trace s) @ [False]"
    using timed_led_refines [OF e wf c fp led, of x] wf_led_timed [OF e wf len, of x] q
    by (auto simp: yields_def lo)
  have r: "led_objs u ! unat led = lo" "\<not> work_enable (led_dworks u ! unat led)"
    "pattern_idx (led_dworks u ! unat led) = 40" "repeat_counts (led_dworks u ! unat led) = 0"
    using u(3) by (simp_all add: led_ready_def)
  from led_runs_finish [OF cl u(2) r count(3) runs] show ?thesis
    using u by (auto elim!: yields_mono)
qed

text \<open>A pattern of one bit, three times: three rounds of one run each, and the last run.\<close>

definition ex_count_led :: "u8 \<Rightarrow> (nat \<Rightarrow> u8 list option) hw_state tag" where
  "ex_count_led op = ex_tag\<lparr>ecp_net_buf := [op, 5, 1, 0x0C] @ [3, 0, 0, 0, 0] @ [10, 20, 6, 0] @ le32 1000\<rparr>"

definition ex_count_obj :: led_obj where
  "ex_count_obj = led_command zero_led 0x0C [3, 0, 0, 0, 0] 10 20 6 0"

lemma ex_count_pattern: "led_pattern ex_env ex_count_obj = 3"
  by (simp add: led_pattern_def ex_count_obj_def led_command_def zephyr_ref_def of_le32_def)

lemma ex_count_repeat: "repeat_type ex_count_obj = 0" "repeat_duration ex_count_obj = 3"
  by (simp_all add: ex_count_obj_def led_command_def unpack_repeat_type_duration_def)

lemma ex_count_top: "top_bit (3 :: u64) = 1"
proof -
  have m: "(3 :: u64) = mask 2" by (simp add: mask_numeral)
  have b: "bit (3 :: u64) n \<longleftrightarrow> n = 0 \<or> n = 1" for n
    unfolding m by (auto simp: bit_simps)
  have "(3 :: u64) \<noteq> 0" by simp
  note t = top_bit(1,2) [OF this]
  have "\<not> top_bit (3 :: u64) < 1" using t(2) [of 1] b [of 1] by blast
  moreover have "top_bit (3 :: u64) = 0 \<or> top_bit (3 :: u64) = 1" using t(1) b by blast
  ultimately show ?thesis by linarith
qed

theorem timed_led_flashes_witness:
  "yields (do { u \<leftarrow> ecp_led_timed ex_env ex_inp (ex_count_led 0xF0); led_runs ex_env (replicate 4 ex_inp) 1 u })
     (\<lambda>v. led_shown 1 (trace v) = [False, True, True, True, False])"
proof -
  have b: "ecp_net_buf (ex_count_led 0xF0) = [0xF0, 5, 1, 0x0C] @ [3, 0, 0, 0, 0] @ [10, 20, 6, 0] @ le32 1000 @ []"
    by (simp add: ex_count_led_def)
  have wf: "wf_tag ex_env (ex_count_led 0xF0)" using ex_wf by (simp add: ex_count_led_def)
  have lo: "ex_count_obj = led_command (led_objs (ex_count_led 0xF0) ! unat 1) 0x0C [3, 0, 0, 0, 0] 10 20 6 0"
    by (simp add: ex_count_obj_def ex_count_led_def ex_tag_def static_tag_def ex_cfg_def numeral_2_eq_2)
  have three: "replicate 3 True = [True, True, True]" by (simp add: numeral_3_eq_3)
  show ?thesis
    by (rule yields_mono [OF timed_led_flashes [OF ex_env_ok wf b _ _ lo, of ex_inp "replicate 4 ex_inp", unfolded unat_1]])
      (simp_all add: ex_count_repeat ex_count_pattern ex_count_top round_bits_def ex_cfg_def ex_count_led_def esl_get_abs_time_def
        led_queue_def ex_tag_def static_tag_def zero_led_dwork_def ex_inp_def three)
qed

text \<open>C34: direct LED control of the count type shows one round less than its duration says: the reset
  of the work item, after the command has chosen where the pattern starts, makes the first run
  count as the end of a round. A count of 1 never lights the LED.\<close>
theorem direct_led_flashes:
  assumes e: "env_ok e" and wf: "wf_tag e s"
    and c: "ecp_net_buf s = [OP_LED_CONTROL, esl_id, led, color] @ fp @ [off, on, r0, r1] @ rest"
    and fp: "length fp = 5" and led: "unat led < led_max (cfg e)"
    and lo: "lo = led_command (led_objs s ! unat led) color fp off on r0 r1"
    and count: "repeat_type lo \<noteq> 1" "repeat_duration lo \<noteq> 0" "unat (repeat_duration lo) \<le> 255"
      "led_pattern e lo \<noteq> 0"
    and runs: "length xs = (unat (repeat_duration lo) - 1) * length (round_bits (top_bit (led_pattern e lo))) + 1"
  shows "yields (do { u \<leftarrow> ecp_led_control e s; led_runs e xs (unat led) u }) (\<lambda>v.
    \<not> work_enable (led_dworks v ! unat led) \<and> \<not> led_active (led_dworks v ! unat led) \<and>
    led_shown (unat led) (trace v) = led_shown (unat led) (trace s) @ [False] @ map (bit (led_pattern e lo))
      (concat (replicate (unat (repeat_duration lo) - 1) (round_bits (top_bit (led_pattern e lo))))) @ [False])"
proof -
  have len: "13 \<le> length (ecp_net_buf s)" using c fp by simp
  have cl: "count_led e (unat led) lo"
    using count led e by (simp add: count_led_def env_ok_def cfg_ok_def)
  obtain u where u: "ecp_led_control e s = Some u" "wf_tag e u" "led_ready (unat led) 0 lo u"
    "led_shown (unat led) (trace u) = led_shown (unat led) (trace s) @ [False]"
    using led_control_ready [OF wf c fp led] wf_led_control [OF wf len]
    by (auto simp: yields_def lo)
  have r: "led_objs u ! unat led = lo" "\<not> work_enable (led_dworks u ! unat led)"
    "pattern_idx (led_dworks u ! unat led) = 0" "repeat_counts (led_dworks u ! unat led) = 0"
    using u(3) by (simp_all add: led_ready_def)
  from led_runs_direct [OF cl u(2) r count(3) runs] show ?thesis
    using u by (auto elim!: yields_mono)
qed

theorem direct_led_flashes_witness:
  "yields (do { u \<leftarrow> ecp_led_control ex_env (ex_count_led 0xB0); led_runs ex_env (replicate 3 ex_inp) 1 u })
     (\<lambda>v. led_shown 1 (trace v) = [False, True, True, False])"
proof -
  have b: "ecp_net_buf (ex_count_led 0xB0) = [0xB0, 5, 1, 0x0C] @ [3, 0, 0, 0, 0] @ [10, 20, 6, 0] @ le32 1000"
    by (simp add: ex_count_led_def)
  have wf: "wf_tag ex_env (ex_count_led 0xB0)" using ex_wf by (simp add: ex_count_led_def)
  have lo: "ex_count_obj = led_command (led_objs (ex_count_led 0xB0) ! unat 1) 0x0C [3, 0, 0, 0, 0] 10 20 6 0"
    by (simp add: ex_count_obj_def ex_count_led_def ex_tag_def static_tag_def ex_cfg_def numeral_2_eq_2)
  have two: "replicate 2 True = [True, True]" by (simp add: numeral_2_eq_2)
  show ?thesis
    by (rule yields_mono [OF direct_led_flashes [OF ex_env_ok wf b _ _ lo, of "replicate 3 ex_inp", unfolded unat_1]])
      (simp_all add: ex_count_repeat ex_count_pattern ex_count_top round_bits_def ex_cfg_def ex_count_led_def
        ex_tag_def static_tag_def two)
qed

text \<open>C35: a count above 255 never ends: the 8-bit counter of the rounds cannot reach it, so the LED
  is active after any number of runs.\<close>
theorem long_flashing_never_ends:
  assumes e: "env_ok e" and wf: "wf_tag e s"
    and c: "ecp_net_buf s = [OP_LED_TIMED_CONTROL, esl_id, led, color] @ fp @ [off, on, r0, r1] @ le32 t @ rest"
    and fp: "length fp = 5" and led: "unat led < led_max (cfg e)"
    and lo: "lo = led_command (led_objs s ! unat led) color fp off on r0 r1"
    and count: "repeat_type lo \<noteq> 1" "255 < unat (repeat_duration lo)" "led_pattern e lo \<noteq> 0"
    and free: "t \<noteq> 0" "t - esl_get_abs_time (in_now x) s < ESL_TIMED_ABS_MAX" "led_queue s (unat led) = None"
  shows "yields (do { u \<leftarrow> ecp_led_timed e x s; led_runs e (y # xs) (unat led) u }) (\<lambda>v.
    work_enable (led_dworks v ! unat led) \<and> led_active (led_dworks v ! unat led))"
proof -
  have q: "queue_spec (esl_get_abs_time (in_now x) s) t (unat led) lo (led_queue s) =
      (Accepted, (led_queue s)(unat led \<mapsto> (lo, t)))"
    using free by (simp add: queue_spec_def)
  have len: "17 \<le> length (ecp_net_buf s)" using c fp by simp
  have "repeat_duration lo \<noteq> 0" using count(2) by auto
  then have cl: "count_led e (unat led) lo"
    using count led e by (simp add: count_led_def env_ok_def cfg_ok_def)
  obtain u where u: "ecp_led_timed e x s = Some u" "wf_tag e u" "led_ready (unat led) 40 lo u"
    using timed_led_refines [OF e wf c fp led, of x] wf_led_timed [OF e wf len, of x] q
    by (auto simp: yields_def lo)
  have r: "led_objs u ! unat led = lo" "\<not> work_enable (led_dworks u ! unat led)"
    "pattern_idx (led_dworks u ! unat led) = 40" "repeat_counts (led_dworks u ! unat led) = 0"
    using u(3) by (simp_all add: led_ready_def)
  obtain v where v: "led_delay_worker_fn e y (unat led) u = Some v"
    "led_at e (unat led) lo (led_shown (unat led) (trace u) @ [True]) (top_bit (led_pattern e lo) - 1) 0 v"
    using led_run_first [OF cl u(2) r, of y] by (auto elim: yieldsE)
  have "top_bit (led_pattern e lo) - 1 < 40" using top_bit_pattern [OF count(3)] by simp
  with v(2) have "\<exists>sh j r. led_at e (unat led) lo sh j r v \<and> j < 40" by blast
  from led_runs_endless [OF cl count(2) this, of xs] show ?thesis
    by (auto simp: u(1) v(1) led_at_def elim!: yields_mono)
qed

definition ex_long_led :: "(nat \<Rightarrow> u8 list option) hw_state tag" where
  "ex_long_led = ex_tag\<lparr>ecp_net_buf := [0xF0, 5, 1, 0x0C] @ [3, 0, 0, 0, 0] @ [10, 20, 0, 1] @ le32 1000\<rparr>"

theorem long_flashing_never_ends_witness:
  "yields (do { u \<leftarrow> ecp_led_timed ex_env ex_inp ex_long_led; led_runs ex_env (replicate 1000 ex_inp) 1 u }) (\<lambda>v.
    led_active (led_dworks v ! 1))"
proof -
  define lo where "lo = led_command zero_led 0x0C [3, 0, 0, 0, 0] 10 20 0 1"
  have b: "ecp_net_buf ex_long_led = [0xF0, 5, 1, 0x0C] @ [3, 0, 0, 0, 0] @ [10, 20, 0, 1] @ le32 1000 @ []"
    by (simp add: ex_long_led_def)
  have wf: "wf_tag ex_env ex_long_led" using ex_wf by (simp add: ex_long_led_def)
  have l: "lo = led_command (led_objs ex_long_led ! unat 1) 0x0C [3, 0, 0, 0, 0] 10 20 0 1"
    by (simp add: lo_def ex_long_led_def ex_tag_def static_tag_def ex_cfg_def numeral_2_eq_2)
  have p: "led_pattern ex_env lo = 3"
    by (simp add: led_pattern_def lo_def led_command_def zephyr_ref_def of_le32_def)
  have d: "repeat_type lo = 0" "repeat_duration lo = 256"
    by (simp_all add: lo_def led_command_def unpack_repeat_type_duration_def)
  have n: "replicate 1000 ex_inp = ex_inp # replicate 999 ex_inp" by (simp add: replicate_Suc [symmetric] del: replicate_Suc)
  show ?thesis
    unfolding n
    by (rule yields_mono [OF long_flashing_never_ends [OF ex_env_ok wf b _ _ l, unfolded unat_1]])
      (simp_all add: p d ex_cfg_def esl_get_abs_time_def led_queue_def ex_long_led_def ex_tag_def static_tag_def
        zero_led_dwork_def ex_inp_def)
qed

subsection \<open>Association\<close>

text \<open>C5: the four writes of a provisioning may come in any order, repeated and interleaved: each
  stores its value, and the tag enters Configuring exactly when the last of the four kinds has
  been written, not before.\<close>
theorem provisioning_any_order:
  assumes "zephyr_ok (zep e)" "list_all prov_ok ws" "\<forall>k. \<not> bit (configuring_state s) (kind_bit k)"
  shows "yields (prov_runs e ws s) (\<lambda>t. provisioned_of t = fold prov_store ws (provisioned_of s) \<and>
    esl_state t = (if \<forall>k. k \<in> fst ` set ws then SM_CONFIGURING else esl_state s))"
proof (rule yields_mono [OF prov_runs_after [OF assms(1,2)]])
  fix t
  assume t: "provisioned_of t = fold prov_store ws (provisioned_of s) \<and>
    (\<forall>k. bit (configuring_state t) (kind_bit k) \<longleftrightarrow> bit (configuring_state s) (kind_bit k) \<or> k \<in> fst ` set ws) \<and>
    esl_state t = (if ws \<noteq> [] \<and> complete t then SM_CONFIGURING else esl_state s)"
  then have "complete t \<longleftrightarrow> (\<forall>k. k \<in> fst ` set ws)" using assms(3) by (simp add: complete_def)
  then show "provisioned_of t = fold prov_store ws (provisioned_of s) \<and>
    esl_state t = (if \<forall>k. k \<in> fst ` set ws then SM_CONFIGURING else esl_state s)"
    using t by auto
qed

definition ex_writes :: "prov_write list" where
  "ex_writes = [(Prov_rsp_key, replicate 24 7, 0), (Prov_abs_time, le32 100, 40), (Prov_addr, le16 0x8105, 0),
     (Prov_ap_key, replicate 24 9, 0)]"

lemma ex_writes_ok: "list_all prov_ok ex_writes" "\<forall>k. k \<in> fst ` set ex_writes"
  "\<forall>k. \<not> bit (configuring_state ex_tag) (kind_bit k)"
  by (simp_all add: ex_writes_def all_kinds le16.dec_enc LOW_BYTE_def ex_tag_def static_tag_def)

theorem provisioning_any_order_witness:
  "yields (prov_runs ex_env ex_writes ex_tag) (\<lambda>t. esl_state t = SM_CONFIGURING \<and> esl_addr t = 0x105)"
  by (rule yields_mono [OF provisioning_any_order [OF ex_zephyr_ok ex_writes_ok(1,3)]])
    (use ex_writes_ok(2) in \<open>auto simp: ex_writes_def provisioned_of_def le16.dec_enc\<close>)

text \<open>C6: a provisioned tag that starts again is unsynchronised, with the address and the keys it was
  given, whatever the order in which the settings are loaded.\<close>
theorem association_survives_reset:
  assumes e: "env_ok e" and p: "init_param_ok e p"
    and f: "module_inits [cb_display_init (cbs e), cb_led_init (cbs e), cb_sensor_init (cbs e)] None = Some 0"
    and st: "\<not> forget_provision_data (cfg e)" "settings_reliable (zep e)"
    and ws: "list_all prov_ok ws" "\<forall>k. k \<in> fst ` set ws"
    and s: "\<forall>k. \<not> bit (configuring_state s) (kind_bit k)" "key_ok (esl_ap_key s)" "key_ok (esl_rsp_key s)"
    and o: "settings_names \<subseteq> set (ir_order r)"
    and r: "ir_subsys r = 0" "ir_register r = 0" "ir_load r = 0" "ir_ots_free r" "ir_ots_init r = 0" "ir_service r = 0"
  shows "yields (do { t \<leftarrow> prov_runs e ws s;
      (err, u) \<leftarrow> bt_esl_init e p r (static_tag e (settings_store t) (storage t)); Some (err, t, u) })
    (\<lambda>(err, t, u). err = 0 \<and> esl_state u = SM_UNSYNCHRONIZED \<and> esl_addr u = esl_addr t \<and>
      esl_ap_key u = esl_ap_key t \<and> esl_rsp_key u = esl_rsp_key t)"
proof -
  note z = env_zep [OF e]
  have "saved s" using s(1) by (simp add: saved_def)
  then obtain t where t: "prov_runs e ws s = Some t" "saved t" "provisioned_of t = fold prov_store ws (provisioned_of s)"
    "complete t"
    using prov_runs_after [OF z ws(1), of s] prov_runs_saved [OF z st ws(1), of s] ws(2)
    by (auto simp: yields_def complete_def)
  have "key_ok (esl_ap_key t)" "key_ok (esl_rsp_key t)"
    using prov_store_keys [OF ws(1), of "provisioned_of s"] s(2,3) unfolding t(3) [symmetric]
    by (simp_all add: provisioned_of_def)
  from init_restores [OF e p f saved_stored [OF t(2,4) this] o r(1-5), of "storage t"]
  show ?thesis using r(6) by (auto simp: t(1) wp elim!: yields_mono)
qed

theorem association_survives_reset_witness:
  "yields (do { t \<leftarrow> prov_runs ex_env ex_writes ex_tag;
      (err, u) \<leftarrow> bt_esl_init ex_env ex_param (ex_results\<lparr>ir_order :=
        [''esl_ap_key'', ''esl_abs_time'', ''esl_addr'', ''esl_rsp_key'']\<rparr>)
        (static_tag ex_env (settings_store t) (storage t));
      Some (err, t, u) }) (\<lambda>(err, t, u). esl_state u = SM_UNSYNCHRONIZED \<and> esl_ap_key u = esl_ap_key t)"
proof -
  have f: "module_inits [cb_display_init (cbs ex_env), cb_led_init (cbs ex_env), cb_sensor_init (cbs ex_env)] None = Some 0"
    by (simp add: ex_env_def sample_env_def sample_callbacks_def)
  have k: "key_ok (esl_ap_key ex_tag)" "key_ok (esl_rsp_key ex_tag)" using ex_wf by (simp_all add: wf_tag_def)
  have c: "\<not> forget_provision_data (cfg ex_env)" "settings_reliable (zep ex_env)"
    by (simp_all add: ex_cfg_def settings_reliable_def zephyr_ref_def)
  show ?thesis
    by (rule yields_mono [OF association_survives_reset [OF ex_env_ok ex_param_ok f c ex_writes_ok(1,2) ex_writes_ok(3) k]])
      (auto simp: settings_names_def ex_results_def)
qed

text \<open>C19: unassociation forgets everything: address, keys, the stored settings, every LED and its
  timed command, and the tag advertises as unassociated. The images stay.\<close>
theorem unassociation_forgets:
  assumes "zephyr_ok (zep e)" "wf_tag e s"
  shows "yields (bt_esl_unassociate e s) (\<lambda>t. forgotten e t \<and> stored_image_size t = stored_image_size s \<and>
    storage t = storage s)"
  using unassociate_forgets [OF assms(1) wf_led_dworks [OF assms(2)]]
  by (auto simp: images_part_def elim!: yields_mono)

theorem unassociation_forgets_witness:
  "yields (bt_esl_unassociate ex_env (ex_tag\<lparr>esl_addr := 5, configuring_state := 0xF\<rparr>))
     (\<lambda>t. esl_addr t = 0x8000 \<and> forgotten ex_env t)"
  by (rule yields_mono [OF unassociation_forgets [OF ex_zephyr_ok]])
    (use ex_wf in \<open>auto simp: forgotten_def\<close>)

text \<open>C20: a factory reset forgets the association and deletes every image.\<close>
theorem factory_reset_deletes:
  assumes "env_ok e" "wf_tag e s" "cb_delete_imgs (cbs e) = Some f"
  shows "yields (bt_esl_factory_reset e s) (\<lambda>t. forgotten e t \<and> storage t = snd (f (storage s)) \<and>
    (\<forall>i < image_max (cfg e). stored_image_size t ! i = 0))"
  by (rule factory_reset_forgets [OF assms])

theorem factory_reset_deletes_witness:
  "yields (bt_esl_factory_reset ex_env (ex_tag\<lparr>stored_image_size := [16, 3]\<rparr>)) (\<lambda>t. stored_image_size t ! 1 = 0)"
proof -
  obtain f where f: "cb_delete_imgs (cbs ex_env) = Some f"
    by (simp add: ex_env_def sample_env_def sample_callbacks_def)
  have wf: "wf_tag ex_env (ex_tag\<lparr>stored_image_size := [16, 3]\<rparr>)" using ex_wf by (simp add: wf_tag_def ex_cfg_def)
  show ?thesis
    by (rule yields_mono [OF factory_reset_deletes [OF ex_env_ok wf f]]) (simp add: ex_cfg_def)
qed

text \<open>The absolute time written at one moment, read at another, has advanced by the milliseconds
  between, modulo 2^32, whatever happens to the uptime counter.\<close>
theorem absolute_time:
  assumes "zephyr_ok (zep e)"
  shows "yields (abs_time_write e t0 (le32 v) s) (\<lambda>(r, t). \<forall>t1. esl_get_abs_time t1 t = v + (t1 - t0))"
proof -
  have w: "ucast (ucast t1 - (ucast (t0 - v) :: u64)) = v + (t1 - t0)" for t1 :: u32
    by (simp add: ucast_diff) (simp add: ucast_up_down)
  have "prov_ok (Prov_abs_time, le32 v, t0)" by simp
  from prov_handler_after [OF assms this, of s] show ?thesis
    by (auto simp: after_write_def provisioned_of_def esl_get_abs_time_def le32.dec_enc w elim!: yields_mono)
qed

theorem absolute_time_witness:
  "yields (abs_time_write ex_env 0xFFFFFFFF (le32 10) ex_tag) (\<lambda>(r, t). esl_get_abs_time 4 t = 15)"
  by (rule yields_mono [OF absolute_time [OF ex_zephyr_ok]]) auto

subsection \<open>Packets\<close>

text \<open>C10: an authentic packet that carries no command for the tag changes exactly two things: the timeout
  is renewed, and the response buffer is emptied if the packet is for the tag's group (and only for
  other identifiers in it). A packet that does not decrypt under the access point's key changes nothing.\<close>
theorem foreign_packets:
  assumes e: "zephyr_ok (zep e)" and key: "key_ok (esl_ap_key s)" and stack: "length stack = ESL_ENCRTYPTED_DATA_MAX_LEN"
  shows "(pawr_buf s = air_packet (zep e) (esl_ap_key s) (esl_packet g ts) \<and>
      length (esl_payload g ts) \<le> ESL_SYNC_PKT_PAYLOAD_MAX_LEN \<and>
      (g \<noteq> GROUPID_BYTE (esl_addr s) \<or> (\<forall>t \<in> set ts. tlv_ok t \<and> \<not> addressed (t ! 1) s)) \<longrightarrow>
    esl_pawr_sync_work_fn e xs x stack s = Some (effect
      (K_work_reschedule Timeout_work (unsynchronized_timeout (cfg e) * 1000))
      ((if g = GROUPID_BYTE (esl_addr s) then s\<lparr>ecp_rsp_net_buf := []\<rparr> else s)
         \<lparr>timeout_mode := ESL_UNSYNCED_TIMEOUT_MODE\<rparr>))) \<and>
    (2 \<le> length (pawr_buf s) \<and> length (pawr_buf s) \<le> 72 \<and>
      fst (z_ead_decrypt (zep e) (session_key (esl_ap_key s)) (iv (esl_ap_key s)) (drop 2 (pawr_buf s))) \<noteq> 0 \<longrightarrow>
    esl_pawr_sync_work_fn e xs x stack s = Some s)"
proof (intro conjI impI; elim conjE)
  assume buf: "pawr_buf s = air_packet (zep e) (esl_ap_key s) (esl_packet g ts)"
    and n: "length (esl_payload g ts) \<le> ESL_SYNC_PKT_PAYLOAD_MAX_LEN"
    and ts: "g \<noteq> GROUPID_BYTE (esl_addr s) \<or> (\<forall>t \<in> set ts. tlv_ok t \<and> \<not> addressed (t ! 1) s)"
  have len: "esl_packet g ts \<noteq> []" "length (esl_packet g ts) \<le> 61" "length (esl_payload g ts) \<le> 200"
    using n by (simp_all add: esl_packet_def)
  have all: "g = GROUPID_BYTE (esl_addr s) \<longrightarrow> list_all (\<lambda>t. tlv_ok t \<and> \<not> addressed (t ! 1) s) ts"
    using ts by (auto simp: list_all_iff)
  show "esl_pawr_sync_work_fn e xs x stack s = Some (effect
      (K_work_reschedule Timeout_work (unsynchronized_timeout (cfg e) * 1000))
      ((if g = GROUPID_BYTE (esl_addr s) then s\<lparr>ecp_rsp_net_buf := []\<rparr> else s)
         \<lparr>timeout_mode := ESL_UNSYNCED_TIMEOUT_MODE\<rparr>))"
    unfolding work_fn_decrypts [OF e key buf len(1,2) stack] packet_not_addressed [OF e len(3) all] by simp
qed (rule work_fn_rejects [OF e _ _ stack])

text \<open>For group 3 of a tag of group 2: its own identifier, but not its group. And three bytes that are no packet.\<close>

definition ex_foreign :: "(nat \<Rightarrow> u8 list option) hw_state tag" where
  "ex_foreign = ex_tag\<lparr>esl_addr := 0x0205, pawr_buf := air_packet (zep ex_env) zero_key (esl_packet 3 [[0, 5], [0x20, 5, 0, 0]])\<rparr>"

theorem foreign_packets_witness:
  "esl_pawr_sync_work_fn ex_env (\<lambda>_. ex_inp) ex_inp (replicate 61 0) ex_foreign =
     Some (effect (K_work_reschedule Timeout_work 3600000) (ex_foreign\<lparr>timeout_mode := ESL_UNSYNCED_TIMEOUT_MODE\<rparr>)) \<and>
   esl_pawr_sync_work_fn ex_env (\<lambda>_. ex_inp) ex_inp (replicate 61 0) (ex_foreign\<lparr>pawr_buf := [9, 9, 9]\<rparr>) =
     Some (ex_foreign\<lparr>pawr_buf := [9, 9, 9]\<rparr>)"
proof -
  have k: "key_ok (esl_ap_key ex_foreign)" using ex_wf by (simp add: ex_foreign_def wf_tag_def)
  have st: "length (replicate 61 (0 :: u8)) = ESL_ENCRTYPTED_DATA_MAX_LEN" by simp
  note f = foreign_packets [OF ex_zephyr_ok _ st]
  have g: "(3 :: u8) \<noteq> GROUPID_BYTE (esl_addr ex_foreign)"
    by (simp add: ex_foreign_def GROUPID_BYTE_def)
  have b: "pawr_buf ex_foreign = air_packet (zep ex_env) (esl_ap_key ex_foreign) (esl_packet 3 [[0, 5], [0x20, 5, 0, 0]])"
    by (simp add: ex_foreign_def ex_tag_def static_tag_def)
  have "esl_pawr_sync_work_fn ex_env (\<lambda>_. ex_inp) ex_inp (replicate 61 0) ex_foreign =
     Some (effect (K_work_reschedule Timeout_work 3600000) (ex_foreign\<lparr>timeout_mode := ESL_UNSYNCED_TIMEOUT_MODE\<rparr>))"
    using f [OF k, of 3 "[[0, 5], [0x20, 5, 0, 0]]", THEN conjunct1] b g by (simp add: esl_payload_def ex_cfg_def)
  moreover have "fst (z_ead_decrypt (zep ex_env) q v [9]) \<noteq> 0" for q v
    by (rule z_ead_decrypt_short [OF ex_zephyr_ok]) simp
  then have "esl_pawr_sync_work_fn ex_env (\<lambda>_. ex_inp) ex_inp (replicate 61 0) (ex_foreign\<lparr>pawr_buf := [9, 9, 9]\<rparr>) =
     Some (ex_foreign\<lparr>pawr_buf := [9, 9, 9]\<rparr>)"
    using k by (intro f [THEN conjunct2, rule_format]) (simp_all del: ex_env_fields)
  ultimately show ?thesis ..
qed

text \<open>C14: a response that no longer fits the packet replaces the previous one by the error Capacity
  Limit; one that fits is appended whole, and the collected responses never exceed 48 bytes.\<close>
theorem response_capacity:
  assumes z: "zephyr_ok (zep e)" and s: "ecp_rsp_net_buf s = pre @ prev" "length prev = unat (ecp_rsp_last_tlv_len s)"
    and b: "unat len \<le> length b" "unat len \<le> 17" and n: "length (pre @ prev) \<le> ESL_SYNC_PKT_PAYLOAD_MAX_LEN"
      "2 \<le> length prev"
  shows "yields (ecp_response_append e ESL_PAWR b len s) (\<lambda>t.
    ecp_rsp_net_buf t = (if length (pre @ prev) + unat len \<le> ESL_SYNC_PKT_PAYLOAD_MAX_LEN
      then pre @ prev @ take (unat len) b else pre @ [OP_ERR, ERR_CAP_LIMIT]) \<and>
    length (ecp_rsp_net_buf t) \<le> ESL_SYNC_PKT_PAYLOAD_MAX_LEN)"
  using assms by (auto simp: ecp_response_append_def z_nb_remove_eq z_nb_add_eq not_le)

theorem response_capacity_witness:
  "yields (ecp_response_append ex_env ESL_PAWR (replicate 63 9) 17
      (ex_tag\<lparr>ecp_rsp_net_buf := replicate 30 1 @ replicate 10 2, ecp_rsp_last_tlv_len := 10\<rparr>))
    (\<lambda>t. ecp_rsp_net_buf t = replicate 30 1 @ [0, 7])"
  by (rule yields_mono [OF response_capacity [OF ex_zephyr_ok, where pre = "replicate 30 1" and prev = "replicate 10 2"]])
    simp_all

text \<open>C39: an encrypted packet of more than 72 bytes overruns the array it is decrypted into, whether or
  not it is authentic: the length is not checked before the decryption.\<close>
theorem long_packet_overruns:
  assumes "zephyr_ok (zep e)" "72 < length (pawr_buf s)" "length stack = ESL_ENCRTYPTED_DATA_MAX_LEN"
  shows "esl_pawr_sync_work_fn e xs x stack s = None"
  by (rule work_fn_overrun [OF assms])

theorem long_packet_overruns_witness:
  "esl_pawr_sync_work_fn ex_env (\<lambda>_. ex_inp) ex_inp (replicate 61 0) (ex_tag\<lparr>pawr_buf := replicate 73 0\<rparr>) = None"
  by (rule long_packet_overruns [OF ex_zephyr_ok]) simp_all

subsection \<open>Codecs\<close>

text \<open>The repeat field as one side packs it and the other unpacks it: the type arrives, a duration
  below 128 arrives, and of a longer one the upper byte counts 256 instead of 128.\<close>
theorem repeat_field:
  "let b = pack_repeat_type_duration rt dur; (rt', dur') = unpack_repeat_type_duration (b ! 0) (b ! 1)
   in rt' = rt AND 1 \<and> unat dur' = unat dur mod 128 + 256 * (unat dur mod 32768 div 128) \<and>
      (unat dur < 128 \<longrightarrow> dur' = dur)"
proof -
  have small: "(dur AND 0x7F) OR push_bit 8 (drop_bit 7 (dur AND REPEATS_DURATION_MAX)) = dur" if "unat dur < 128"
    using unat_unpacked [of dur] that by (simp add: word_unat_eq_iff)
  have second: "[a, b] ! 1 = b" for a b :: u8 by simp
  have u: "unpack_repeat_type_duration (pack_repeat_type_duration rt dur ! 0) (pack_repeat_type_duration rt dur ! 1) =
      (rt AND 1, (dur AND 0x7F) OR push_bit 8 (drop_bit 7 (dur AND REPEATS_DURATION_MAX)))"
    unfolding pack_bytes nth_Cons_0 second by (rule unpack_pack_word)
  show ?thesis
    unfolding Let_def u prod.case unat_unpacked using small by blast
qed

theorem repeat_field_witness:
  "snd (unpack_repeat_type_duration (pack_repeat_type_duration 1 100 ! 0) (pack_repeat_type_duration 1 100 ! 1)) = 100"
  using repeat_field [of 1 100] by (simp add: case_prod_unfold Let_def)

text \<open>C26: what the access point parses from the sensor characteristic of a tag is, sensor by sensor,
  what the tag describes.\<close>
theorem sensor_information:
  assumes z: "zephyr_ok (zep e)" and ok: "list_all sensor_ok (sensors s)" and n: "length (sensors s) \<le> length arr"
      "length (sensors s) \<le> 255"
    and len: "length (sensors_raw (sensors s)) \<le> len" "len < 65536"
  shows "(case esl_sensor_read e len 0 s of (n, raw) \<Rightarrow> parse_sensor_info_from_raw arr raw (of_int n)) =
    Some (map2 sensor_seen (take (length (sensors s)) arr) (sensors s) @ drop (length (sensors s)) arr,
      of_nat (length (sensors s)))"
proof -
  let ?r = "sensors_raw (sensors s)"
  have read: "esl_sensor_read e len 0 s = (int (length ?r), ?r)"
    using len by (simp add: esl_sensor_read_def z_gatt_attr_read_eq [OF z])
  have l: "unat (of_nat (length ?r) :: u16) = length ?r" using len by (intro unat_of_nat_u16) simp
  show ?thesis
    using parse_sensor_loop_all [OF ok, of ?r "[]" "of_nat (length ?r)" 0 0 "[]" "take (length (sensors s)) arr"
        "drop (length (sensors s)) arr"] l n
    by (simp add: read parse_sensor_info_from_raw_def)
qed

theorem sensor_information_witness:
  "(case esl_sensor_read ex_env 20 0 ex_tag of (n, raw) \<Rightarrow>
      parse_sensor_info_from_raw (replicate 3 \<lparr>sensor_size = 9, property_id = 9, sensor_code = 9\<rparr>) raw (of_int n)) =
    Some (replicate 2 \<lparr>sensor_size = 0, property_id = 0, sensor_code = 9\<rparr> @ [\<lparr>sensor_size = 9, property_id = 9, sensor_code = 9\<rparr>], 2)"
proof -
  have s: "sensors ex_tag = replicate 2 \<lparr>sensor_size = 0, property_id = 0, sensor_code = 0\<rparr>"
    by (simp add: ex_tag_def static_tag_def ex_cfg_def)
  show ?thesis
    by (subst sensor_information [OF ex_zephyr_ok])
      (simp_all add: s sensor_ok_def sensor_raw_def numeral_2_eq_2 numeral_3_eq_3 sensor_seen_def)
qed

text \<open>A sensor size other than 0 and 1 in the first byte a tag serves makes the parser run out of
  the caller's array.\<close>
theorem sensor_information_overrun:
  assumes "raw \<noteq> []" "raw ! 0 \<noteq> 0" "raw ! 0 \<noteq> 1" "length arr \<le> 255" "length raw < 65536"
  shows "parse_sensor_info_from_raw arr raw (of_nat (length raw)) = None"
proof -
  have "0 < (of_nat (length raw) :: u16)"
    using assms(1,5) by (simp add: word_less_nat_alt unat_of_nat)
  then show ?thesis
    using parse_sensor_stuck [of 0 "of_nat (length raw)" raw arr "length arr" 0] assms
    by (simp add: parse_sensor_info_from_raw_def)
qed

theorem sensor_information_overrun_witness:
  "parse_sensor_info_from_raw (replicate 3 \<lparr>sensor_size = 0, property_id = 0, sensor_code = 0\<rparr>) [2, 0x54, 0] 3 = None"
  using sensor_information_overrun [of "[2, 0x54, 0]" "replicate 3 \<lparr>sensor_size = 0, property_id = 0, sensor_code = 0\<rparr>"]
  by simp

subsection \<open>The sample application\<close>

text \<open>C15: an image transferred in chunks is stored with its size, is what a later read returns, and the
  size is found again at the next start; the other images keep their sizes.\<close>
theorem image_transfer:
  assumes e: "upload_env e z" and i: "unat i < image_max (cfg e)" and wf: "wf_tag e s"
    and cs: "list_all (\<lambda>c. c \<noteq> []) cs" "cs \<noteq> []" "length (concat cs) \<le> image_buffer_size (cfg e)"
  shows "yields (do { t \<leftarrow> upload e (image_oid i) cs 0 s;
      (r, data, u) \<leftarrow> ots_obj_cal_checksum e (image_oid i) 0 (length (concat cs)) t; Some (t, r, data) })
    (\<lambda>(t, r, data). r = 0 \<and> (\<exists>b. data = Some b \<and> take (length (concat cs)) b = concat cs) \<and>
      unat (nvs_read_img_size z (replicate 4 0) i (image_fs (storage t))) = length (concat cs) \<and>
      (\<forall>j. j \<noteq> unat i \<longrightarrow> stored_image_size t ! j = stored_image_size s ! j))"
proof -
  have n: "length (img_obj_buf s) = image_buffer_size (cfg e)" "length (stored_image_size s) = image_max (cfg e)"
    using wf by (simp_all add: wf_tag_def)
  obtain t where t: "upload e (image_oid i) cs 0 s = Some t" "uploaded z i (concat cs) t"
    "\<forall>j. j \<noteq> unat i \<longrightarrow> stored_image_size t ! j = stored_image_size s ! j"
    using upload_stores [OF e i cs(1,2) n, of 0 "[]"] cs(3) by (auto elim!: yieldsE)
  have z: "zms_ok z" and b: "image_buffer_size (cfg e) < 2 ^ 32"
    using e by (auto simp: upload_env_def sample_env_def)
  have "length (concat cs) < 2 ^ 32" using cs(3) b by linarith
  from uploaded_size [OF z t(2) this] show ?thesis
    using uploaded_read [OF e i t(2) cs(3)] t(3) by (auto simp: t(1) wp elim!: yields_mono)
qed

theorem image_transfer_witness:
  "yields (do { t \<leftarrow> upload ex_env (image_oid 1) [[1, 2, 3], [4, 5]] 0 ex_tag;
      (r, data, u) \<leftarrow> ots_obj_cal_checksum ex_env (image_oid 1) 0 5 t; Some (t, r, data) })
    (\<lambda>(t, r, data). \<exists>b. data = Some b \<and> take 5 b = [1, 2, 3, 4, 5])"
proof -
  have e: "upload_env ex_env zms_map"
    using zms_map.zms by (auto simp: upload_env_def ex_env_def ex_cfg_def zms_reliable_def zms_map_def
        intro!: exI [of _ ex_cfg] exI [of _ "0 :: int"] exI [of _ zephyr_ref])
  have c: "concat [[1, 2, 3], [4, 5]] = [1, 2, 3, 4, 5 :: u8]" "length [1, 2, 3, 4, 5 :: u8] = 5" by simp_all
  show ?thesis
    by (rule yields_mono [OF image_transfer [OF e _ ex_wf, of 1 "[[1, 2, 3], [4, 5]]", unfolded c]])
      (auto simp: ex_cfg_def)
qed

text \<open>A vendor request sets the update mode, the response that follows reports it; its announced
  length is 3, of which the last byte is whatever the response buffer held.\<close>
theorem dfu_request:
  assumes "length mem = 3" "mem ! 0 = VS_DFU_REQ" "unat len = 3" "length b = ESL_EAD_PAYLOAD_MAX_LEN"
  shows "yields (do { (st', fx) \<leftarrow> vs_command_handler mem len st; r \<leftarrow> vs_response_handler b st'; Some (fx, r) })
    (\<lambda>(fx, l, b', st''). fx = [Dfu_mode (mem ! 2 \<noteq> 0)] \<and> l = 3 \<and> take 2 b' = [ESL_VS_DFU, mem ! 2] \<and> b' ! 2 = b ! 2)"
  using dfu_round_trip [OF assms, of st] by (auto simp: wp elim!: yields_mono)

theorem dfu_request_witness:
  "yields (do { (st', fx) \<leftarrow> vs_command_handler [0x1F, 5, 1] 3 \<lparr>vs_resp_op = 0, vs_error_code = 0, dfu_enabled = 0\<rparr>;
      r \<leftarrow> vs_response_handler (replicate 63 0xAA) st'; Some (fx, r) })
    (\<lambda>(fx, l, b', st''). fx = [Dfu_mode True] \<and> take 2 b' = [0x1F, 1] \<and> b' ! 2 = 0xAA)"
  by (rule yields_mono [OF dfu_request [of "[0x1F, 5, 1]" 3 "replicate 63 0xAA"]])
    auto

text \<open>A temperature that has been measured is what the next read of sensor 0 returns, once.\<close>
theorem temperature_reading:
  assumes "wf_tag e s" "0 < sensor_max (cfg e)" "sd_size (sensor_data s ! 0) = 2" "length d = ESL_RESPONSE_SENSOR_LEN"
  shows "yields (do { t \<leftarrow> temp_handler e c s; sensor_control (sensor_max (cfg e)) False 0 l d (sensor_data t) })
    (\<lambda>(r, l', d', sd', fx). r = 0 \<and> l' = 2 \<and> d' = le16 (ucast c) @ drop 2 d \<and> fx = [] \<and> \<not> data_available (sd' ! 0))"
  using measure_then_read [OF assms, of c l] by (auto simp: wp elim!: yields_mono)

theorem temperature_reading_witness:
  "yields (do { t \<leftarrow> temp_handler ex_env 2150 (ex_tag\<lparr>sensor_data := replicate 2 (zero_sensor_data\<lparr>sd_size := 2\<rparr>)\<rparr>);
      sensor_control 2 False 0 0 (replicate 15 0) (sensor_data t) }) (\<lambda>(r, l', d', sd', fx). take 2 d' = le16 2150)"
proof -
  have wf: "wf_tag ex_env (ex_tag\<lparr>sensor_data := replicate 2 (zero_sensor_data\<lparr>sd_size := 2\<rparr>)\<rparr>)"
    using ex_wf by (simp add: wf_tag_def ex_cfg_def sensor_data_ok_def zero_sensor_data_def list_all_iff)
  have c: "sensor_max (cfg ex_env) = 2" by (simp add: ex_cfg_def)
  show ?thesis
    by (rule yields_mono [OF temperature_reading [OF wf, of "replicate 15 0" 2150 0, unfolded c]])
      auto
qed

end
