(* ===== verification/Fs_Api.thy ===== *)
theory Fs_Api
  imports Zephyr_Api Text_Format
begin

text \<open>
  Zephyr's file system interface as the storage code of both samples uses it. The file system is a
  parameter: \<open>'f\<close> is its state, the record \<open>fs_api\<close> its calls, and \<open>fs_ok\<close> says what their documentation
  promises of the contents of files. \<open>struct fs_file_t\<close> is an optional handle, the program's own variable:
  \<open>None\<close> after \<open>fs_file_t_init\<close>, after a failed \<open>fs_open\<close> and after a successful \<open>fs_close\<close>.
  \<open>file_map\<close> is a concrete file system, a map from names to contents.
\<close>

subsection \<open>The interface\<close>

record fs_handle =
  fh_name :: string
  fh_pos :: nat

record fs_dirent =
  de_name :: string
  de_is_file :: bool
  de_size :: nat

text \<open>
  \<open>fa_open name create\<close> stands for the flags \<open>FS_O_CREATE | FS_O_RDWR\<close> or \<open>FS_O_READ\<close>; \<open>fa_readdir d k\<close> is what
  the call returns on a directory of which \<open>k\<close> entries were read; \<open>fa_file\<close> is not a call: the content of a file.
\<close>

record 'f fs_api =
  fa_open :: "string \<Rightarrow> bool \<Rightarrow> 'f \<Rightarrow> int \<times> 'f"
  fa_close :: "fs_handle option \<Rightarrow> 'f \<Rightarrow> int \<times> 'f"
  fa_sync :: "fs_handle option \<Rightarrow> 'f \<Rightarrow> int \<times> 'f"
  fa_seek :: "fs_handle option \<Rightarrow> int \<Rightarrow> 'f \<Rightarrow> int"
  fa_read :: "fs_handle option \<Rightarrow> nat \<Rightarrow> 'f \<Rightarrow> int \<times> u8 list"
  fa_write :: "fs_handle option \<Rightarrow> u8 list \<Rightarrow> 'f \<Rightarrow> int \<times> 'f"
  fa_stat :: "string \<Rightarrow> 'f \<Rightarrow> int \<times> fs_dirent"
  fa_unlink :: "string \<Rightarrow> 'f \<Rightarrow> int \<times> 'f"
  fa_mkdir :: "string \<Rightarrow> 'f \<Rightarrow> int \<times> 'f"
  fa_opendir :: "string \<Rightarrow> 'f \<Rightarrow> int"
  fa_readdir :: "string \<Rightarrow> nat \<Rightarrow> 'f \<Rightarrow> int \<times> fs_dirent"
  fa_mount :: "'f \<Rightarrow> int \<times> 'f"
  fa_file :: "'f \<Rightarrow> string \<Rightarrow> u8 list option"

text \<open>The calls with the handle they leave; a transfer moves the position by what it transferred.\<close>

definition file_open :: "'f fs_api \<Rightarrow> string \<Rightarrow> bool \<Rightarrow> 'f \<Rightarrow> int \<times> fs_handle option \<times> 'f" where
  "file_open A name create fs =
     (let (rc, fs1) = fa_open A name create fs
      in (rc, if rc < 0 then None else Some \<lparr>fh_name = name, fh_pos = 0\<rparr>, fs1))"

definition file_close :: "'f fs_api \<Rightarrow> fs_handle option \<Rightarrow> 'f \<Rightarrow> int \<times> fs_handle option \<times> 'f" where
  "file_close A h fs = (let (rc, fs1) = fa_close A h fs in (rc, if rc < 0 then h else None, fs1))"

definition file_seek :: "'f fs_api \<Rightarrow> fs_handle option \<Rightarrow> int \<Rightarrow> 'f \<Rightarrow> int \<times> fs_handle option" where
  "file_seek A h off fs =
     (let rc = fa_seek A h off fs
      in (rc, if rc < 0 then h else map_option (\<lambda>x. x\<lparr>fh_pos := nat off\<rparr>) h))"

definition moved :: "int \<Rightarrow> fs_handle option \<Rightarrow> fs_handle option" where
  "moved rc h = (if rc < 0 then h else map_option (\<lambda>x. x\<lparr>fh_pos := fh_pos x + nat rc\<rparr>) h)"

definition file_write :: "'f fs_api \<Rightarrow> fs_handle option \<Rightarrow> u8 list \<Rightarrow> 'f \<Rightarrow> int \<times> fs_handle option \<times> 'f" where
  "file_write A h d fs = (let (rc, fs1) = fa_write A h d fs in (rc, moved rc h, fs1))"

text \<open>Reading at most \<open>n\<close> bytes into a buffer, which has to have the room.\<close>

definition file_read ::
  "'f fs_api \<Rightarrow> fs_handle option \<Rightarrow> u8 list \<Rightarrow> nat \<Rightarrow> 'f \<Rightarrow> (int \<times> u8 list \<times> fs_handle option) option" where
  "file_read A h b n fs =
     (if length b < n then None
      else let (rc, d) = fa_read A h n fs in Some (rc, d @ drop (length d) b, moved rc h))"

subsection \<open>What the documentation promises\<close>

text \<open>The bytes \<open>d\<close> written over \<open>c\<close> from position \<open>p\<close> on.\<close>

definition overwrite :: "u8 list \<Rightarrow> nat \<Rightarrow> u8 list \<Rightarrow> u8 list" where
  "overwrite c p d = take p c @ d @ drop (p + length d) c"

definition open_ok :: "'f fs_api \<Rightarrow> bool" where
  "open_ok A \<longleftrightarrow> (\<forall>n c fs. fa_file A (snd (fa_open A n c fs)) =
     (if 0 \<le> fst (fa_open A n c fs) \<and> c \<and> fa_file A fs n = None then (fa_file A fs)(n \<mapsto> []) else fa_file A fs) \<and>
     (0 \<le> fst (fa_open A n c fs) \<and> \<not> c \<longrightarrow> fa_file A fs n \<noteq> None))"

text \<open>A write stores a prefix of its data, whose length it returns, or fails and leaves the other files alone.\<close>

definition write_ok :: "'f fs_api \<Rightarrow> bool" where
  "write_ok A \<longleftrightarrow> (\<forall>h c d fs. fa_file A fs (fh_name h) = Some c \<and> fh_pos h \<le> length c \<longrightarrow>
     (let (rc, fs1) = fa_write A (Some h) d fs in
       rc \<le> int (length d) \<and> (\<forall>n. n \<noteq> fh_name h \<longrightarrow> fa_file A fs1 n = fa_file A fs n) \<and>
       (0 \<le> rc \<longrightarrow> fa_file A fs1 (fh_name h) = Some (overwrite c (fh_pos h) (take (nat rc) d)))))"

text \<open>A read returns what the file has from the position on, as far as asked for.\<close>

definition read_ok :: "'f fs_api \<Rightarrow> bool" where
  "read_ok A \<longleftrightarrow> (\<forall>h n fs. length (snd (fa_read A h n fs)) \<le> n) \<and>
     (\<forall>h c n fs. fa_file A fs (fh_name h) = Some c \<and> fh_pos h \<le> length c \<longrightarrow>
       fa_read A (Some h) n fs = (int (min n (length c - fh_pos h)), take n (drop (fh_pos h) c)))"

definition seek_ok :: "'f fs_api \<Rightarrow> bool" where
  "seek_ok A \<longleftrightarrow> (\<forall>h c off fs. fa_file A fs (fh_name h) = Some c \<and> 0 \<le> off \<and> off \<le> int (length c) \<longrightarrow>
     0 \<le> fa_seek A (Some h) off fs)"

definition close_ok :: "'f fs_api \<Rightarrow> bool" where
  "close_ok A \<longleftrightarrow> (\<forall>h fs. fa_file A (snd (fa_close A h fs)) = fa_file A fs \<and> fa_file A (snd (fa_sync A h fs)) = fa_file A fs)"

definition stat_ok :: "'f fs_api \<Rightarrow> bool" where
  "stat_ok A \<longleftrightarrow> (\<forall>n c fs. fa_file A fs n = Some c \<longrightarrow>
     fst (fa_stat A n fs) = 0 \<and> de_is_file (snd (fa_stat A n fs)) \<and> de_size (snd (fa_stat A n fs)) = length c)"

definition unlink_ok :: "'f fs_api \<Rightarrow> bool" where
  "unlink_ok A \<longleftrightarrow> (\<forall>n fs. fa_file A (snd (fa_unlink A n fs)) =
     (if fst (fa_unlink A n fs) = 0 then (fa_file A fs)(n := None) else fa_file A fs))"

definition fs_ok :: "'f fs_api \<Rightarrow> bool" where
  "fs_ok A \<longleftrightarrow> open_ok A \<and> write_ok A \<and> read_ok A \<and> seek_ok A \<and> close_ok A \<and> stat_ok A \<and> unlink_ok A"

text \<open>Nothing fails: a file that exists or may be created opens, a write is complete, a close succeeds.\<close>

definition fs_reliable :: "'f fs_api \<Rightarrow> bool" where
  "fs_reliable A \<longleftrightarrow>
     (\<forall>n c fs. c \<or> fa_file A fs n \<noteq> None \<longrightarrow> 0 \<le> fst (fa_open A n c fs)) \<and>
     (\<forall>h c d fs. fa_file A fs (fh_name h) = Some c \<and> fh_pos h \<le> length c \<longrightarrow> fst (fa_write A (Some h) d fs) = int (length d)) \<and>
     (\<forall>h fs. fst (fa_close A h fs) = 0) \<and>
     (\<forall>n fs. fa_file A fs n \<noteq> None \<longrightarrow> fst (fa_unlink A n fs) = 0)"

lemma length_overwrite: "p \<le> length c \<Longrightarrow> length (overwrite c p d) = max (length c) (p + length d)"
  by (simp add: overwrite_def)

lemma overwrite_append: "p \<le> length c \<Longrightarrow> overwrite (overwrite c p d) (p + length d) d' = overwrite c p (d @ d')"
  by (simp add: overwrite_def min_absorb2 add.commute add.left_commute)

lemma overwrite_at: "p \<le> length c \<Longrightarrow> take (length d) (drop p (overwrite c p d)) = d"
  by (simp add: overwrite_def min_absorb2)

subsection \<open>The calls on an open file\<close>

text \<open>\<open>opened A fs h n p c\<close>: \<open>h\<close> is a handle on the file \<open>n\<close> with content \<open>c\<close>, at position \<open>p\<close> of it.\<close>

definition opened :: "'f fs_api \<Rightarrow> 'f \<Rightarrow> fs_handle option \<Rightarrow> string \<Rightarrow> nat \<Rightarrow> u8 list \<Rightarrow> bool" where
  "opened A fs h n p c \<longleftrightarrow> h = Some \<lparr>fh_name = n, fh_pos = p\<rparr> \<and> fa_file A fs n = Some c \<and> p \<le> length c"

lemma open_create:
  assumes "fs_ok A" "file_open A n True fs = (rc, h, fs1)" "0 \<le> rc"
  shows "opened A fs1 h n 0 (case fa_file A fs n of None \<Rightarrow> [] | Some c \<Rightarrow> c)"
    and "m \<noteq> n \<Longrightarrow> fa_file A fs1 m = fa_file A fs m"
proof -
  obtain o1: "fa_open A n True fs = (rc, fs1)" "h = Some \<lparr>fh_name = n, fh_pos = 0\<rparr>"
    using assms(2,3) by (auto simp: file_open_def case_prod_unfold Let_def prod_eq_iff)
  have "fa_file A fs1 = (if fa_file A fs n = None then (fa_file A fs)(n \<mapsto> []) else fa_file A fs)"
    using assms(1,3) o1 unfolding fs_ok_def open_ok_def by (metis fst_conv snd_conv)
  then show "opened A fs1 h n 0 (case fa_file A fs n of None \<Rightarrow> [] | Some c \<Rightarrow> c)"
    "m \<noteq> n \<Longrightarrow> fa_file A fs1 m = fa_file A fs m"
    using o1(2) by (auto simp: opened_def split: option.split)
qed

lemma open_read:
  assumes "fs_ok A" "fs_reliable A" "fa_file A fs n = Some c" "file_open A n False fs = (rc, h, fs1)"
  shows "0 \<le> rc" "opened A fs1 h n 0 c" "fa_file A fs1 = fa_file A fs"
proof -
  have o: "fa_open A n False fs = (rc, fs1)" "h = (if rc < 0 then None else Some \<lparr>fh_name = n, fh_pos = 0\<rparr>)"
    using assms(4) by (auto simp: file_open_def case_prod_unfold Let_def prod_eq_iff)
  show rc: "0 \<le> rc" using assms(2,3) o(1) unfolding fs_reliable_def by (metis fst_conv option.distinct(1))
  show f: "fa_file A fs1 = fa_file A fs" using assms(1) o(1) unfolding fs_ok_def open_ok_def by (metis fst_conv snd_conv)
  show "opened A fs1 h n 0 c" using rc f o(2) assms(3) by (simp add: opened_def)
qed

lemma write_okD:
  assumes "write_ok A" "fa_file A fs (fh_name h) = Some c \<and> fh_pos h \<le> length c" "fa_write A (Some h) d fs = (rc, fs1)"
  shows "rc \<le> int (length d) \<and> (\<forall>n. n \<noteq> fh_name h \<longrightarrow> fa_file A fs1 n = fa_file A fs n) \<and>
    (0 \<le> rc \<longrightarrow> fa_file A fs1 (fh_name h) = Some (overwrite c (fh_pos h) (take (nat rc) d)))"
  using assms(1) [unfolded write_ok_def, rule_format, OF assms(2), of d] by (simp add: assms(3))

lemma write_opened:
  assumes "fs_ok A" "opened A fs h n p c" "file_write A h d fs = (rc, h1, fs1)"
  shows "m \<noteq> n \<Longrightarrow> fa_file A fs1 m = fa_file A fs m" "rc \<le> int (length d)"
    and "rc = int (length d) \<Longrightarrow> opened A fs1 h1 n (p + length d) (overwrite c p d)"
    and "fs_reliable A \<Longrightarrow> rc = int (length d)"
proof -
  let ?h = "\<lparr>fh_name = n, fh_pos = p\<rparr>"
  have h: "h = Some ?h" "fa_file A fs (fh_name ?h) = Some c \<and> fh_pos ?h \<le> length c"
    using assms(2) by (simp_all add: opened_def)
  have w: "fa_write A (Some ?h) d fs = (rc, fs1)" "h1 = moved rc h"
    using assms(3) h(1) by (auto simp: file_write_def case_prod_unfold Let_def prod_eq_iff)
  have k: "rc \<le> int (length d)" "\<forall>m. m \<noteq> n \<longrightarrow> fa_file A fs1 m = fa_file A fs m"
    "0 \<le> rc \<longrightarrow> fa_file A fs1 n = Some (overwrite c p (take (nat rc) d))"
    using write_okD [OF _ h(2) w(1)] assms(1) by (simp_all add: fs_ok_def)
  show "m \<noteq> n \<Longrightarrow> fa_file A fs1 m = fa_file A fs m" "rc \<le> int (length d)" using k by auto
  show "opened A fs1 h1 n (p + length d) (overwrite c p d)" if "rc = int (length d)"
    using that k(3) w(2) h by (simp add: opened_def moved_def length_overwrite)
  show "rc = int (length d)" if "fs_reliable A"
    using that h(2) w(1) unfolding fs_reliable_def by (metis fst_conv)
qed

lemma read_opened:
  assumes "fs_ok A" "opened A fs h n p c" "l \<le> length b"
  shows "file_read A h b l fs = Some (int (min l (length c - p)), take l (drop p c) @ drop (min l (length c - p)) b,
    Some \<lparr>fh_name = n, fh_pos = p + min l (length c - p)\<rparr>)"
proof -
  have "fa_read A h l fs = (int (min l (length c - p)), take l (drop p c))"
    using assms(1,2) unfolding fs_ok_def read_ok_def opened_def by (metis fs_handle.select_convs)
  then show ?thesis using assms(2,3) by (auto simp: file_read_def moved_def opened_def min_def)
qed

lemma file_read_length: "fs_ok A \<Longrightarrow> l \<le> length b \<Longrightarrow> yields (file_read A h b l fs) (\<lambda>(rc, b', h'). length b' = length b)"
proof -
  assume a: "fs_ok A" "l \<le> length b"
  have "length (snd (fa_read A h l fs)) \<le> l" using a(1) by (simp add: fs_ok_def read_ok_def)
  then show ?thesis using a(2) by (simp add: file_read_def case_prod_unfold Let_def)
qed

lemma seek_opened:
  assumes "fs_ok A" "opened A fs h n p c" "q \<le> length c"
  shows "\<exists>rc. 0 \<le> rc \<and> file_seek A h (int q) fs = (rc, Some \<lparr>fh_name = n, fh_pos = q\<rparr>)"
proof -
  have "0 \<le> fa_seek A h (int q) fs"
    using assms unfolding fs_ok_def seek_ok_def opened_def by (metis fs_handle.select_convs(1) of_nat_0_le_iff of_nat_le_iff)
  then show ?thesis using assms(2) by (simp add: file_seek_def opened_def)
qed

lemma opened_seek: "opened A fs h n p c \<Longrightarrow> q \<le> length c \<Longrightarrow> opened A fs (Some \<lparr>fh_name = n, fh_pos = q\<rparr>) n q c"
  by (simp add: opened_def)

lemma close_keeps:
  assumes "fs_ok A" "file_close A h fs = (rc, h1, fs1)"
  shows "fa_file A fs1 = fa_file A fs" "fs_reliable A \<Longrightarrow> rc = 0"
proof -
  have c: "fa_close A h fs = (rc, fs1)"
    using assms(2) by (auto simp: file_close_def case_prod_unfold Let_def prod_eq_iff)
  show "fa_file A fs1 = fa_file A fs" using assms(1) c unfolding fs_ok_def close_ok_def by (metis snd_conv)
  show "rc = 0" if "fs_reliable A" using that c unfolding fs_reliable_def by (metis fst_conv)
qed

lemma stat_file:
  assumes "fs_ok A" "fa_file A fs n = Some c"
  obtains d where "fa_stat A n fs = (0, d)" "de_is_file d" "de_size d = length c"
  using assms unfolding fs_ok_def stat_ok_def by (metis prod.collapse)

subsection \<open>A file system in memory\<close>

text \<open>Directories are not kept apart: an entry of one is a file whose name starts with the directory's and a slash.\<close>

definition file_map :: "(string \<Rightarrow> u8 list option) fs_api" where
  "file_map = \<lparr>
     fa_open = (\<lambda>n c m. if m n = None then (if c then (0, m(n \<mapsto> [])) else (- ENOENT, m)) else (0, m)),
     fa_close = (\<lambda>h m. (0, m)),
     fa_sync = (\<lambda>h m. (0, m)),
     fa_seek = (\<lambda>h off m. case h of None \<Rightarrow> - 9 | Some x \<Rightarrow>
       if 0 \<le> off \<and> off \<le> int (length (the (m (fh_name x)))) then 0 else - EINVAL),
     fa_read = (\<lambda>h n m. case h of None \<Rightarrow> (- 9, []) | Some x \<Rightarrow> (case m (fh_name x) of None \<Rightarrow> (- 9, [])
       | Some c \<Rightarrow> (int (min n (length c - fh_pos x)), take n (drop (fh_pos x) c)))),
     fa_write = (\<lambda>h d m. case h of None \<Rightarrow> (- 9, m) | Some x \<Rightarrow> (case m (fh_name x) of None \<Rightarrow> (- 9, m)
       | Some c \<Rightarrow> (int (length d), m(fh_name x \<mapsto> overwrite c (fh_pos x) d)))),
     fa_stat = (\<lambda>n m. case m n of None \<Rightarrow> (- ENOENT, \<lparr>de_name = [], de_is_file = False, de_size = 0\<rparr>)
       | Some c \<Rightarrow> (0, \<lparr>de_name = n, de_is_file = True, de_size = length c\<rparr>)),
     fa_unlink = (\<lambda>n m. if m n = None then (- ENOENT, m) else (0, m(n := None))),
     fa_mkdir = (\<lambda>n m. (0, m)),
     fa_opendir = (\<lambda>n m. 0),
     fa_readdir = (\<lambda>n k m. (0, \<lparr>de_name = [], de_is_file = False, de_size = 0\<rparr>)),
     fa_mount = (\<lambda>m. (0, m)),
     fa_file = id\<rparr>"

lemma file_map_ok [simp]: "fs_ok file_map"
  by (auto simp: fs_ok_def open_ok_def write_ok_def read_ok_def seek_ok_def close_ok_def stat_ok_def unlink_ok_def
    file_map_def split: option.split)

lemma file_map_reliable [simp]: "fs_reliable file_map"
  by (auto simp: fs_reliable_def file_map_def split: option.split)

end
