(* ===== verification/Hw_Files.thy ===== *)
theory Hw_Files
  imports Hw_Storage Fs_Api Esl_Common
begin

text \<open>
  Two more implementations of the image callbacks of the sample application: \<open>samples/peripheral_esl/hw/storage/lfs.c\<close>,
  one file per image on a LittleFS volume, and \<open>dummy.c\<close>, which stores nothing. The first keeps the contract
  \<open>image_store\<close> of the first implementation for the image whose file is open.
\<close>

subsection \<open>Images as files\<close>

text \<open>The static \<open>file\<close> is part of the state; \<open>mnt\<close> is the mount point.\<close>

type_synonym 'f lfs = "'f \<times> fs_handle option"

definition lfs_path :: "string \<Rightarrow> nat \<Rightarrow> string" where
  "lfs_path mnt i = take 254 (mnt @ ''/'' @ object_name i)"

definition lfs_open_image :: "'f fs_api \<Rightarrow> string \<Rightarrow> u8 \<Rightarrow> 'f lfs \<Rightarrow> int \<times> 'f lfs" where
  "lfs_open_image A mnt img_idx st =
     (let (fs, h) = st;
          fs1 = (if h \<noteq> None then snd (snd (file_close A h fs)) else fs);
          (rc, h1, fs2) = file_open A (lfs_path mnt (unat img_idx)) True fs1
      in (rc, fs2, h1))"

definition lfs_close_image :: "'f fs_api \<Rightarrow> 'f lfs \<Rightarrow> int \<times> 'f lfs" where
  "lfs_close_image A st =
     (let (fs, h) = st
      in if h = None then (0, st)
         else let (rc, fs1) = fa_sync A h fs; (rc2, h1, fs2) = file_close A h fs1 in (rc2, fs2, h1))"

text \<open>A file that is open is used whatever image it belongs to.\<close>

definition lfs_ensure_open :: "'f fs_api \<Rightarrow> string \<Rightarrow> u8 \<Rightarrow> 'f lfs \<Rightarrow> 'f lfs" where
  "lfs_ensure_open A mnt img_idx st = (if snd st = None then snd (lfs_open_image A mnt img_idx st) else st)"

definition lfs_write_img :: "'f fs_api \<Rightarrow> string \<Rightarrow> u8 \<Rightarrow> nat \<Rightarrow> int \<Rightarrow> u8 list \<Rightarrow> 'f lfs \<Rightarrow> (int \<times> 'f lfs) option" where
  "lfs_write_img A mnt img_idx len offset buf st =
     (let (fs, h) = lfs_ensure_open A mnt img_idx st; (rc, h1) = file_seek A h offset fs
      in if rc < 0 then Some (rc, fs, h1)
         else do {
           d \<leftarrow> rd_mem buf 0 len;
           let (rc2, h2, fs2) = file_write A h1 d fs;
           Some (rc2, fs2, h2)
         })"

definition lfs_read_img ::
  "'f fs_api \<Rightarrow> string \<Rightarrow> u8 \<Rightarrow> u8 list \<Rightarrow> nat \<Rightarrow> int \<Rightarrow> 'f lfs \<Rightarrow> (int \<times> u8 list \<times> 'f lfs) option" where
  "lfs_read_img A mnt img_idx data len offset st =
     (let (fs, h) = lfs_ensure_open A mnt img_idx st; (rc, h1) = file_seek A h offset fs
      in if rc < 0 then Some (rc, data, fs, h1)
         else do {
           (rc2, b, h2) \<leftarrow> file_read A h1 data len fs;
           Some (rc2, b, fs, h2)
         })"

definition lfs_read_img_size :: "'f fs_api \<Rightarrow> string \<Rightarrow> u8 \<Rightarrow> 'f lfs \<Rightarrow> u32" where
  "lfs_read_img_size A mnt img_idx st =
     (let (rc, d) = fa_stat A (lfs_path mnt (unat img_idx)) (fst st) in if rc = 0 then of_nat (de_size d) else 0)"

fun lfs_delete_from :: "'f fs_api \<Rightarrow> string \<Rightarrow> nat \<Rightarrow> nat \<Rightarrow> 'f \<Rightarrow> 'f" where
  "lfs_delete_from A mnt i 0 fs = fs"
| "lfs_delete_from A mnt i (Suc n) fs = lfs_delete_from A mnt (Suc i) n (snd (fa_unlink A (lfs_path mnt i) fs))"

definition lfs_delete_imgs :: "'f fs_api \<Rightarrow> string \<Rightarrow> nat \<Rightarrow> 'f lfs \<Rightarrow> int \<times> 'f lfs" where
  "lfs_delete_imgs A mnt n st = (0, lfs_delete_from A mnt 0 n (fst st), snd st)"

text \<open>Creating the missing files: \<open>rc\<close> and the local handle before image \<open>i\<close>, with \<open>n\<close> images to go.\<close>

fun lfs_create_from :: "'f fs_api \<Rightarrow> string \<Rightarrow> nat \<Rightarrow> nat \<Rightarrow> int \<Rightarrow> fs_handle option \<Rightarrow> 'f \<Rightarrow> int \<times> 'f" where
  "lfs_create_from A mnt i 0 rc h fs = (rc, fs)"
| "lfs_create_from A mnt i (Suc n) rc h fs =
     (let (r1, h1, fs1) = (if fst (fa_stat A (lfs_path mnt i) fs) = - ENOENT
            then file_open A (lfs_path mnt i) True fs else (0, h, fs));
          (r2, h2, fs2) = file_close A h1 fs1
      in lfs_create_from A mnt (Suc i) n r2 h2 fs2)"

definition lfs_storage_init :: "'f fs_api \<Rightarrow> string \<Rightarrow> bool \<Rightarrow> nat \<Rightarrow> 'f \<Rightarrow> int \<times> 'f" where
  "lfs_storage_init A mnt automount n fs =
     (let (rc, fs1) = (if automount then (0, fs) else fa_mount A fs)
      in if rc < 0 then (rc, fs1) else lfs_create_from A mnt 0 n rc None fs1)"

subsection \<open>No storage\<close>

definition dummy_write_img :: "u8 \<Rightarrow> nat \<Rightarrow> int \<Rightarrow> u8 list \<Rightarrow> 'f \<Rightarrow> (int \<times> 'f) option" where
  "dummy_write_img img_idx len offset buf st = Some (0, st)"

definition dummy_read_img :: "u8 \<Rightarrow> u8 list \<Rightarrow> nat \<Rightarrow> int \<Rightarrow> 'f \<Rightarrow> (int \<times> u8 list \<times> 'f) option" where
  "dummy_read_img img_idx data len offset st = Some (0, data, st)"

definition dummy_read_img_size :: "u8 \<Rightarrow> 'f \<Rightarrow> u32" where
  "dummy_read_img_size img_idx st = 0"

definition dummy_delete_imgs :: "'f \<Rightarrow> int \<times> 'f" where "dummy_delete_imgs st = (0, st)"
definition dummy_storage_init :: "'f \<Rightarrow> int \<times> 'f" where "dummy_storage_init st = (0, st)"
definition dummy_open_image :: "u8 \<Rightarrow> 'f \<Rightarrow> int \<times> 'f" where "dummy_open_image img_idx st = (0, st)"
definition dummy_close_image :: "'f \<Rightarrow> int \<times> 'f" where "dummy_close_image st = (0, st)"

subsection \<open>The contract\<close>

lemma lfs_path_inj:
  "length mnt \<le> 200 \<Longrightarrow> i < 256 \<Longrightarrow> j < 256 \<Longrightarrow> lfs_path mnt i = lfs_path mnt j \<longleftrightarrow> i = j"
proof -
  assume m: "length mnt \<le> 200" and ij: "i < 256" "j < 256"
  have l: "length (format_hex upper_digits 2 k) = 2" if "k < 256" for k
    using that less_mult_imp_div_less [of k 16 16] by (simp add: format_hex_def hex_num.simps)
  show ?thesis using m ij by (simp add: lfs_path_def object_name_def l format_hex_inj)
qed

definition lfs_ready :: "'f fs_api \<Rightarrow> string \<Rightarrow> 'f lfs \<Rightarrow> u8 \<Rightarrow> bool" where
  "lfs_ready A mnt st i \<longleftrightarrow> fs_ok A \<and> length mnt \<le> 200 \<and>
     (\<exists>p c. opened A (fst st) (snd st) (lfs_path mnt (unat i)) p c)"

lemma lfs_opens:
  assumes "fs_ok A" "length mnt \<le> 200" "lfs_open_image A mnt i st = (rc, st')" "0 \<le> rc"
  shows "lfs_ready A mnt st' i"
proof -
  obtain fs h where st: "st = (fs, h)" by fastforce
  obtain fs1 where "file_open A (lfs_path mnt (unat i)) True fs1 = (rc, snd st', fst st')"
    using assms(3) st by (auto simp: lfs_open_image_def Let_def case_prod_unfold)
  from open_create(1) [OF assms(1) this assms(4)] show ?thesis using assms(1,2) by (auto simp: lfs_ready_def)
qed

lemma lfs_is_open: "snd st \<noteq> None \<Longrightarrow> lfs_ensure_open A mnt i st = (fst st, snd st)"
  by (auto simp: lfs_ensure_open_def)

lemma lfs_write_ready:
  assumes "lfs_ready A mnt st i" "l \<le> length b" "lfs_write_img A mnt i l 0 b st = Some (r, st')"
  shows "r = int l \<Longrightarrow> lfs_ready A mnt st' i"
    and "r = int l \<Longrightarrow> \<exists>v. fa_file A (fst st') (lfs_path mnt (unat i)) = Some v \<and> l \<le> length v \<and> take l v = take l b"
    and "j \<noteq> i \<Longrightarrow> fa_file A (fst st') (lfs_path mnt (unat j)) = fa_file A (fst st) (lfs_path mnt (unat j))"
proof -
  let ?n = "lfs_path mnt (unat i)"
  obtain p c where A: "fs_ok A" "length mnt \<le> 200" and o: "opened A (fst st) (snd st) ?n p c"
    using assms(1) by (auto simp: lfs_ready_def)
  obtain rc where s: "0 \<le> rc" "file_seek A (snd st) 0 (fst st) = (rc, Some \<lparr>fh_name = ?n, fh_pos = 0\<rparr>)"
    using seek_opened [OF A(1) o, of 0] by auto
  have e: "lfs_ensure_open A mnt i st = (fst st, snd st)"
    by (rule lfs_is_open) (use o in \<open>simp add: opened_def\<close>)
  have w: "file_write A (Some \<lparr>fh_name = ?n, fh_pos = 0\<rparr>) (take l b) (fst st) = (r, snd st', fst st')"
    using assms(2,3) s by (auto simp: lfs_write_img_def e case_prod_unfold Let_def prod_eq_iff)
  note wo = write_opened [OF A(1) opened_seek [OF o, of 0, simplified] w]
  have l: "length (take l b) = l" using assms(2) by simp
  show "lfs_ready A mnt st' i" if "r = int l"
    using wo(3) that A l by (auto simp: lfs_ready_def)
  show "\<exists>v. fa_file A (fst st') ?n = Some v \<and> l \<le> length v \<and> take l v = take l b" if "r = int l"
    using wo(3) that l by (auto simp: opened_def overwrite_def)
  show "fa_file A (fst st') (lfs_path mnt (unat j)) = fa_file A (fst st) (lfs_path mnt (unat j))" if "j \<noteq> i"
  proof (rule wo(1))
    have "unat j < 256" "unat i < 256" by simp_all
    then show "lfs_path mnt (unat j) \<noteq> ?n" using that A(2) by (simp add: lfs_path_inj unat_image_inj)
  qed
qed

lemma lfs_read_ready:
  assumes "lfs_ready A mnt st i" "fa_file A (fst st) (lfs_path mnt (unat i)) = Some v" "l \<le> length v" "l \<le> length b"
  shows "\<exists>h. lfs_read_img A mnt i b l 0 st = Some (int l, take l v @ drop l b, fst st, h)"
proof -
  let ?n = "lfs_path mnt (unat i)"
  obtain p c where A: "fs_ok A" and o: "opened A (fst st) (snd st) ?n p c"
    using assms(1) by (auto simp: lfs_ready_def)
  have c: "c = v" using o assms(2) by (simp add: opened_def)
  obtain rc where s: "0 \<le> rc" "file_seek A (snd st) 0 (fst st) = (rc, Some \<lparr>fh_name = ?n, fh_pos = 0\<rparr>)"
    using seek_opened [OF A o, of 0] by auto
  have e: "lfs_ensure_open A mnt i st = (fst st, snd st)"
    by (rule lfs_is_open) (use o in \<open>simp add: opened_def\<close>)
  show ?thesis
    using s read_opened [OF A opened_seek [OF o, of 0, simplified] assms(4)] assms(3)
    by (auto simp: lfs_read_img_def e c min_def case_prod_unfold)
qed

interpretation lfs: image_store "lfs_write_img A mnt" "lfs_read_img A mnt"
    "\<lambda>st i. fa_file A (fst st) (lfs_path mnt (unat i))" "lfs_ready A mnt" "\<lambda>l r. r = int l" for A mnt
  by unfold_locales (auto dest: lfs_write_ready lfs_read_ready)

text \<open>The callbacks never leave the caller's buffers.\<close>

locale lfs_files =
  fixes A :: "'f fs_api"
  assumes files: "fs_ok A"

sublocale lfs_files \<subseteq> image_io "buffer_img n" "lfs_write_img A mnt" "lfs_read_img A mnt" n for n mnt
proof unfold_locales
  show "yields (lfs_read_img A mnt i b l off st) (\<lambda>(r, b', st'). length b' = length b)" if "l \<le> length b" for l i b off st
    using file_read_length [OF files that]
    by (auto simp: lfs_read_img_def case_prod_unfold Let_def wp)
qed (auto simp: buffer_img_length lfs_write_img_def case_prod_unfold Let_def)

interpretation lfs_map: lfs_files file_map
  by unfold_locales simp

interpretation no_storage: image_io "buffer_img n" dummy_write_img dummy_read_img n for n
  by unfold_locales (auto simp: buffer_img_length dummy_write_img_def dummy_read_img_def)

text \<open>With a file open the image named by the caller plays no role.\<close>

lemma lfs_open_file_wins:
  "snd st \<noteq> None \<Longrightarrow> lfs_write_img A mnt i l off b st = lfs_write_img A mnt j l off b st"
  by (simp only: lfs_write_img_def lfs_ensure_open_def if_False)

end
