(* ===== verification/Hw_Paint.thy ===== *)
theory Hw_Paint
  imports Prelude
begin

unbundle bit_operations_syntax

text \<open>
  The drawing library of the peripheral sample, \<open>samples/peripheral_esl/hw/display/paint_lib/paint.c\<close>: points, rectangles
  and text on a frame of one bit per pixel, or two in three colours, that may hold a band of the picture only.
  The frame is given to every function where the code has the static \<open>p_Paint\<close>; \<open>None\<close> is an access outside
  a frame or a font.
\<close>

subsection \<open>Data\<close>

datatype paint_direction_t = PAINT_DIRECTION_0 | PAINT_DIRECTION_90 | PAINT_DIRECTION_180 | PAINT_DIRECTION_270
datatype paint_scan_mode_t = PAINT_SCAN_MODE_1 | PAINT_SCAN_MODE_2
datatype paint_color_t = WHITE | BLACK | RED

record paint_obj_t =
  scanmode :: paint_scan_mode_t
  direction :: paint_direction_t
  p_width :: u32
  p_height :: u32
  x_end :: u32
  y_end :: u32
  wb_buffer :: "u8 list"
  rw_buffer :: "u8 list"
  p_buffer_size :: u32
  band_height :: u32
  band_y_start :: u32

record paint_rect_t =
  rect_x :: u32
  rect_y :: u32
  rect_width :: u32
  rect_height :: u32

record sFONT =
  font_table :: "u8 list"
  Width :: u16
  Height :: u16

text \<open>Kconfig: which bit value is black and red, whether there is red, the order of the bits.\<close>

record paint_config =
  wb_on :: bool
  rw_on :: bool
  three_colors :: bool
  msb_first :: bool

subsection \<open>The frame\<close>

definition paint_SetDirection :: "paint_direction_t \<Rightarrow> paint_obj_t \<Rightarrow> paint_obj_t" where
  "paint_SetDirection d p =
     (if d = PAINT_DIRECTION_90 \<or> d = PAINT_DIRECTION_270
      then p\<lparr>direction := d, x_end := p_height p, y_end := p_width p\<rparr>
      else p\<lparr>direction := d, x_end := p_width p, y_end := p_height p\<rparr>)"

definition paint_Init :: "paint_obj_t \<Rightarrow> paint_obj_t" where
  "paint_Init p = (paint_SetDirection (direction p) p)\<lparr>band_y_start := 0,
     p_buffer_size := (if band_height p \<noteq> 0 then band_height p else p_height p) * (p_width p div 8)\<rparr>"

definition paint_SetBand :: "u32 \<Rightarrow> paint_obj_t \<Rightarrow> paint_obj_t" where
  "paint_SetBand y p = p\<lparr>band_y_start := y\<rparr>"

definition fill_mem :: "u8 list \<Rightarrow> u8 \<Rightarrow> nat \<Rightarrow> u8 list option" where
  "fill_mem m b n = wr_mem m 0 (replicate n b)"

definition all_bits :: "bool \<Rightarrow> u8" where
  "all_bits v = (if v then 0xff else 0x00)"

definition paint_Fill :: "paint_config \<Rightarrow> paint_color_t \<Rightarrow> paint_obj_t \<Rightarrow> paint_obj_t option" where
  "paint_Fill cfg color p = (let n = unat (p_buffer_size p) in
     if three_colors cfg then do {
       wb \<leftarrow> fill_mem (wb_buffer p) (all_bits (if color = BLACK then wb_on cfg else \<not> wb_on cfg)) n;
       rw \<leftarrow> fill_mem (rw_buffer p) (all_bits (if color = RED then rw_on cfg else \<not> rw_on cfg)) n;
       Some (p\<lparr>wb_buffer := wb, rw_buffer := rw\<rparr>)
     } else do {
       wb \<leftarrow> fill_mem (wb_buffer p) (all_bits (if color = BLACK then wb_on cfg else \<not> wb_on cfg)) n;
       Some (p\<lparr>wb_buffer := wb\<rparr>)
     })"

subsection \<open>Points\<close>

definition mask_to :: "bool \<Rightarrow> u8 \<Rightarrow> u8 \<Rightarrow> u8" where
  "mask_to v b m = (if v then b OR m else b AND NOT m)"

definition wb_mask :: "bool \<Rightarrow> nat \<Rightarrow> u8 \<Rightarrow> paint_obj_t \<Rightarrow> paint_obj_t option" where
  "wb_mask v i m p = do {
     b \<leftarrow> rd (wb_buffer p) i;
     wb \<leftarrow> upd (wb_buffer p) i (mask_to v b m);
     Some (p\<lparr>wb_buffer := wb\<rparr>) }"

definition rw_mask :: "bool \<Rightarrow> nat \<Rightarrow> u8 \<Rightarrow> paint_obj_t \<Rightarrow> paint_obj_t option" where
  "rw_mask v i m p = do {
     b \<leftarrow> rd (rw_buffer p) i;
     rw \<leftarrow> upd (rw_buffer p) i (mask_to v b m);
     Some (p\<lparr>rw_buffer := rw\<rparr>) }"

definition setcolor :: "paint_config \<Rightarrow> u32 \<Rightarrow> paint_color_t \<Rightarrow> u8 \<Rightarrow> paint_obj_t \<Rightarrow> paint_obj_t option" where
  "setcolor cfg index color m p = (let i = unat index; black = wb_on cfg; red = rw_on cfg in
     if three_colors cfg then
       (case color of
          BLACK \<Rightarrow> Option.bind (wb_mask black i m p) (rw_mask (\<not> red) i m)
        | RED \<Rightarrow> Option.bind (wb_mask (\<not> black) i m p) (rw_mask red i m)
        | WHITE \<Rightarrow> Option.bind (wb_mask (\<not> black) i m p) (rw_mask (\<not> red) i m))
     else (case color of
          BLACK \<Rightarrow> wb_mask black i m p
        | _ \<Rightarrow> wb_mask (\<not> black) i m p))"

text \<open>The coordinates of a point in the frame of the display.\<close>

definition place_point :: "paint_obj_t \<Rightarrow> u32 \<Rightarrow> u32 \<Rightarrow> u32 \<times> u32" where
  "place_point p x y =
     (let (x, y) = (case direction p of
          PAINT_DIRECTION_90 \<Rightarrow> (p_width p - y - 1, x)
        | PAINT_DIRECTION_180 \<Rightarrow> (p_width p - x - 1, p_height p - y - 1)
        | PAINT_DIRECTION_270 \<Rightarrow> (y, p_height p - x - 1)
        | PAINT_DIRECTION_0 \<Rightarrow> (x, y))
      in (x, if scanmode p = PAINT_SCAN_MODE_2 then p_height p - y - 1 else y))"

definition outside_band :: "paint_obj_t \<Rightarrow> u32 \<Rightarrow> bool" where
  "outside_band p y \<longleftrightarrow> band_height p \<noteq> 0 \<and> (y < band_y_start p \<or> band_y_start p + band_height p \<le> y)"

definition row_in_band :: "paint_obj_t \<Rightarrow> u32 \<Rightarrow> u32" where
  "row_in_band p y = (if band_height p \<noteq> 0 then y - band_y_start p else y)"

definition point_mask :: "paint_config \<Rightarrow> u32 \<Rightarrow> u8" where
  "point_mask cfg x = push_bit (unat (if msb_first cfg then 7 - x mod 8 else x mod 8)) 1"

definition paint_DrawPoint :: "paint_config \<Rightarrow> paint_color_t \<Rightarrow> u32 \<Rightarrow> u32 \<Rightarrow> paint_obj_t \<Rightarrow> paint_obj_t option" where
  "paint_DrawPoint cfg color x y p =
     (if x_end p \<le> x \<or> y_end p \<le> y then Some p
      else let (x, y) = place_point p x y in
        if outside_band p y then Some p
        else setcolor cfg (row_in_band p y * (p_width p div 8) + x div 8) color (point_mask cfg x) p)"

subsection \<open>Rectangles\<close>

text \<open>
  The three loops of \<open>drawHline\<close> over \<open>i\<close>: the bits up to the end of the first byte, whole bytes, and the rest. The
  first one says whether it returned from the function.
\<close>

partial_function (option) hline_head ::
  "paint_config \<Rightarrow> paint_color_t \<Rightarrow> u32 \<Rightarrow> u32 \<Rightarrow> u32 \<Rightarrow> u32 \<Rightarrow> paint_obj_t \<Rightarrow> (bool \<times> u32 \<times> paint_obj_t) option" where
  "hline_head cfg color index lim e i p =
     (if lim \<le> i then Some (False, i, p)
      else if e \<le> i then Some (True, i, p)
      else Option.bind (setcolor cfg index color (point_mask cfg i) p) (hline_head cfg color index lim e (i + 1)))"

partial_function (option) hline_bytes ::
  "paint_config \<Rightarrow> paint_color_t \<Rightarrow> u32 \<Rightarrow> u32 \<Rightarrow> u32 \<Rightarrow> paint_obj_t \<Rightarrow> (u32 \<times> paint_obj_t) option" where
  "hline_bytes cfg color row e i p =
     (if i + 8 < e then Option.bind (setcolor cfg (row + i div 8) color 0xff p) (hline_bytes cfg color row e (i + 8))
      else Some (i, p))"

partial_function (option) hline_tail ::
  "paint_config \<Rightarrow> paint_color_t \<Rightarrow> u32 \<Rightarrow> u32 \<Rightarrow> u32 \<Rightarrow> paint_obj_t \<Rightarrow> paint_obj_t option" where
  "hline_tail cfg color row e i p =
     (if i < e then Option.bind (setcolor cfg (row + i div 8) color (point_mask cfg i) p) (hline_tail cfg color row e (i + 1))
      else Some p)"

definition drawHline :: "paint_config \<Rightarrow> paint_color_t \<Rightarrow> u32 \<Rightarrow> u32 \<Rightarrow> u32 \<Rightarrow> paint_obj_t \<Rightarrow> paint_obj_t option" where
  "drawHline cfg color x y w p =
     (let y = (if scanmode p = PAINT_SCAN_MODE_2 then p_height p - y - 1 else y) in
      if outside_band p y then Some p
      else do {
        let row = row_in_band p y * (p_width p div 8);
        (returned, i, p1) \<leftarrow> hline_head cfg color (row + x div 8) (8 + (x AND NOT 7)) (x + w) x p;
        (if returned then Some p1
         else do {
           (i, p2) \<leftarrow> hline_bytes cfg color row (x + w) i p1;
           hline_tail cfg color row (x + w) i p2
         })
      })"

partial_function (option) fill_rows ::
  "paint_config \<Rightarrow> paint_color_t \<Rightarrow> u32 \<Rightarrow> u32 \<Rightarrow> u32 \<Rightarrow> u32 \<Rightarrow> paint_obj_t \<Rightarrow> paint_obj_t option" where
  "fill_rows cfg color x w e i p =
     (if i < e then Option.bind (drawHline cfg color x i w p) (fill_rows cfg color x w e (i + 1)) else Some p)"

text \<open>In direction 90 the rectangle's width is taken for its height.\<close>

definition place_rect :: "paint_obj_t \<Rightarrow> paint_rect_t \<Rightarrow> u32 \<times> u32 \<times> u32 \<times> u32" where
  "place_rect p r = (case direction p of
       PAINT_DIRECTION_90 \<Rightarrow> (p_width p - (rect_y r + rect_width r), rect_x r, rect_height r, rect_width r)
     | PAINT_DIRECTION_180 \<Rightarrow> (p_width p - (rect_x r + rect_width r), p_height p - (rect_y r + rect_height r), rect_width r, rect_height r)
     | PAINT_DIRECTION_270 \<Rightarrow> (rect_y r, p_height p - (rect_x r + rect_width r), rect_height r, rect_width r)
     | PAINT_DIRECTION_0 \<Rightarrow> (rect_x r, rect_y r, rect_width r, rect_height r))"

definition paint_FillRect :: "paint_config \<Rightarrow> paint_color_t \<Rightarrow> paint_rect_t \<Rightarrow> paint_obj_t \<Rightarrow> paint_obj_t option" where
  "paint_FillRect cfg color r p =
     (if x_end p < rect_x r + rect_width r \<or> y_end p < rect_y r + rect_height r then Some p
      else let (x, y, w, h) = place_rect p r in fill_rows cfg color x w (y + h) y p)"

subsection \<open>Text\<close>

text \<open>
  \<open>char\<close> is unsigned on the processors of the boards. \<open>k\<close> is the position of \<open>ptr\<close> in the font's table. The position
  on the display is an \<open>int\<close> and compared as unsigned.
\<close>

definition font_row :: "paint_config \<Rightarrow> sFONT \<Rightarrow> paint_color_t \<Rightarrow> int \<Rightarrow> int \<Rightarrow> nat \<times> paint_obj_t \<Rightarrow> (nat \<times> paint_obj_t) option" where
  "font_row cfg font color x y = (\<lambda>(k, p). do {
     (k, p) \<leftarrow> for_loop 0 (unat (Width font)) (\<lambda>i (k, p). do {
        b \<leftarrow> rd (font_table font) k;
        p1 \<leftarrow> (if bit b (7 - i mod 8) then paint_DrawPoint cfg color (of_int (x + int i)) (of_int y) p else Some p);
        Some (if i mod 8 = 7 then k + 1 else k, p1) }) (k, p);
     Some (if unat (Width font) mod 8 \<noteq> 0 then k + 1 else k, p) })"

definition paint_DrawFont :: "paint_config \<Rightarrow> u8 \<Rightarrow> sFONT \<Rightarrow> paint_color_t \<Rightarrow> int \<Rightarrow> int \<Rightarrow> paint_obj_t \<Rightarrow> paint_obj_t option" where
  "paint_DrawFont cfg c font color x y p =
     (if x_end p < of_int (x + int (unat (Width font))) \<or> y_end p < of_int (y + int (unat (Height font))) then Some p
      else do {
        let char_offset = unat (c - 32) * unat (Height font) * ((unat (Width font) + 7) div 8);
        (k, p1) \<leftarrow> for_loop 0 (unat (Height font)) (\<lambda>j. font_row cfg font color x (y + int j)) (char_offset, p);
        Some p1
      })"

text \<open>The body runs once for the empty string, on its terminating zero.\<close>

fun draw_chars :: "paint_config \<Rightarrow> sFONT \<Rightarrow> paint_color_t \<Rightarrow> int \<Rightarrow> u8 list \<Rightarrow> int \<Rightarrow> paint_obj_t \<Rightarrow> paint_obj_t option" where
  "draw_chars cfg font color y [] x p = Some p"
| "draw_chars cfg font color y (c # cs) x p =
     (if of_int (x + int (unat (Width font))) \<le> x_end p
      then Option.bind (paint_DrawFont cfg c font color x y p) (draw_chars cfg font color y cs (x + int (unat (Width font))))
      else Some p)"

definition paint_DrawString :: "paint_config \<Rightarrow> u8 list \<Rightarrow> sFONT \<Rightarrow> paint_color_t \<Rightarrow> int \<Rightarrow> int \<Rightarrow> paint_obj_t \<Rightarrow> paint_obj_t option" where
  "paint_DrawString cfg s font color x y p = draw_chars cfg font color y (if s = [] then [0] else s) x p"

end
