(* ===== verification/Hw_Picture.thy ===== *)
theory Hw_Picture
  imports Hw_Paint
begin

unbundle bit_operations_syntax

text \<open>
  What the drawing library draws: the bits of the frame as the colours of a picture. Every operation of
  Hw_Paint paints a set of points in one colour and leaves the others, in a band as in the whole picture.
\<close>

subsection \<open>The picture in a frame\<close>

abbreviation (input) wd :: "paint_obj_t \<Rightarrow> nat" where "wd p \<equiv> unat (p_width p)"
abbreviation (input) ht :: "paint_obj_t \<Rightarrow> nat" where "ht p \<equiv> unat (p_height p)"

definition pixel_bit :: "paint_config \<Rightarrow> nat \<Rightarrow> nat" where
  "pixel_bit cfg x = (if msb_first cfg then 7 - x mod 8 else x mod 8)"

definition byte_color :: "paint_config \<Rightarrow> u8 \<Rightarrow> u8 \<Rightarrow> nat \<Rightarrow> paint_color_t" where
  "byte_color cfg wb rw n = (if bit wb n = wb_on cfg then BLACK else if three_colors cfg \<and> bit rw n = rw_on cfg then RED else WHITE)"

definition pixel_at :: "paint_config \<Rightarrow> paint_obj_t \<Rightarrow> nat \<Rightarrow> nat \<Rightarrow> paint_color_t" where
  "pixel_at cfg p x y = byte_color cfg (wb_buffer p ! (y * (wd p div 8) + x div 8))
     (rw_buffer p ! (y * (wd p div 8) + x div 8)) (pixel_bit cfg x)"

text \<open>The rows of the picture that the frame holds.\<close>

definition first_row :: "paint_obj_t \<Rightarrow> nat" where
  "first_row p = (if band_height p = 0 then 0 else unat (band_y_start p))"

definition rows :: "paint_obj_t \<Rightarrow> nat" where
  "rows p = (if band_height p = 0 then ht p else unat (band_height p))"

definition in_frame :: "paint_obj_t \<Rightarrow> nat \<Rightarrow> bool" where
  "in_frame p y \<longleftrightarrow> first_row p \<le> y \<and> y < first_row p + rows p"

definition picture :: "paint_config \<Rightarrow> paint_obj_t \<Rightarrow> nat \<Rightarrow> nat \<Rightarrow> paint_color_t" where
  "picture cfg p x y = pixel_at cfg p x (y - first_row p)"

text \<open>A frame as \<open>paint_Init\<close> leaves it, of whole bytes per row, with its buffers.\<close>

definition turned :: "paint_obj_t \<Rightarrow> bool" where
  "turned p \<longleftrightarrow> direction p = PAINT_DIRECTION_90 \<or> direction p = PAINT_DIRECTION_270"

definition frame_ok :: "paint_config \<Rightarrow> paint_obj_t \<Rightarrow> bool" where
  "frame_ok cfg p \<longleftrightarrow> wd p mod 8 = 0 \<and> wd p < 2 ^ 15 \<and> ht p < 2 ^ 15 \<and> unat (band_height p) < 2 ^ 15 \<and>
     unat (band_y_start p) < 2 ^ 16 \<and> x_end p = (if turned p then p_height p else p_width p) \<and> y_end p = (if turned p then p_width p else p_height p) \<and>
     p_buffer_size p = of_nat (rows p * (wd p div 8)) \<and> length (wb_buffer p) = rows p * (wd p div 8) \<and>
     (three_colors cfg \<longrightarrow> length (rw_buffer p) = rows p * (wd p div 8))"

definition shown_color :: "paint_config \<Rightarrow> paint_color_t \<Rightarrow> paint_color_t" where
  "shown_color cfg c = (if c = RED \<and> \<not> three_colors cfg then WHITE else c)"

definition same_frame :: "paint_obj_t \<Rightarrow> paint_obj_t \<Rightarrow> bool" where
  "same_frame p q \<longleftrightarrow> q = p\<lparr>wb_buffer := wb_buffer q, rw_buffer := rw_buffer q\<rparr>"

text \<open>The frame \<open>q\<close> is \<open>p\<close> with the points of \<open>S\<close> painted.\<close>

definition paints :: "paint_config \<Rightarrow> (nat \<times> nat) set \<Rightarrow> paint_color_t \<Rightarrow> paint_obj_t \<Rightarrow> paint_obj_t \<Rightarrow> bool" where
  "paints cfg S c p q \<longleftrightarrow> same_frame p q \<and> frame_ok cfg q \<and>
     (\<forall>x y. x < wd p \<longrightarrow> in_frame p y \<longrightarrow> picture cfg q x y = (if (x, y) \<in> S then shown_color cfg c else picture cfg p x y))"

lemma same_frame_simps:
  assumes "same_frame p q"
  shows "p_width q = p_width p" "p_height q = p_height p" "direction q = direction p" "scanmode q = scanmode p"
    "x_end q = x_end p" "y_end q = y_end p" "band_height q = band_height p" "band_y_start q = band_y_start p"
    "p_buffer_size q = p_buffer_size p" "first_row q = first_row p" "rows q = rows p" "in_frame q = in_frame p"
    "place_point q = place_point p" "place_rect q = place_rect p" "outside_band q = outside_band p" "row_in_band q = row_in_band p"
proof -
  have q: "q = p\<lparr>wb_buffer := wb_buffer q, rw_buffer := rw_buffer q\<rparr>" using assms by (simp add: same_frame_def)
  show f: "p_width q = p_width p" "p_height q = p_height p" "direction q = direction p" "scanmode q = scanmode p"
    "x_end q = x_end p" "y_end q = y_end p" "band_height q = band_height p" "band_y_start q = band_y_start p"
    "p_buffer_size q = p_buffer_size p"
    by (subst q, simp)+
  show "first_row q = first_row p" "rows q = rows p" "in_frame q = in_frame p" "place_point q = place_point p"
    "place_rect q = place_rect p" "outside_band q = outside_band p" "row_in_band q = row_in_band p"
    by (auto simp: fun_eq_iff f first_row_def rows_def in_frame_def place_point_def place_rect_def outside_band_def row_in_band_def
      split: paint_direction_t.splits)
qed

lemma same_frame_trans: "same_frame p q \<Longrightarrow> same_frame q r \<Longrightarrow> same_frame p r"
  unfolding same_frame_def by (metis (no_types, lifting) paint_obj_t.surjective paint_obj_t.update_convs(7,8))

lemma paints_nothing: "frame_ok cfg p \<Longrightarrow> paints cfg {} c p p"
  by (simp add: paints_def same_frame_def)

lemma paints_more: "paints cfg S c p q \<Longrightarrow> paints cfg T c q r \<Longrightarrow> paints cfg (S \<union> T) c p r"
  by (auto simp: paints_def same_frame_simps(1,12) intro: same_frame_trans)

lemma paints_same: "paints cfg S c p q \<Longrightarrow> (\<And>x y. x < wd p \<Longrightarrow> in_frame p y \<Longrightarrow> (x, y) \<in> S \<longleftrightarrow> (x, y) \<in> T) \<Longrightarrow> paints cfg T c p q"
  by (auto simp: paints_def)

subsection \<open>One byte\<close>

lemma bit_mask_to: "n < 8 \<Longrightarrow> bit (mask_to v b m) n = (if bit m n then v else bit b n)"
  by (auto simp: mask_to_def bit_simps)

lemma pixel_bit_less [simp]: "pixel_bit cfg x < 8"
  unfolding pixel_bit_def by (cases "msb_first cfg") simp_all

lemma byte_index:
  assumes "x div 8 < n" "k < n"
  shows "y * n + x div 8 = y' * n + k \<longleftrightarrow> y = y' \<and> x div 8 = (k :: nat)"
proof
  assume e: "y * n + x div 8 = y' * n + k"
  have "y = (y * n + x div 8) div n" "y' = (y' * n + k) div n" using assms by simp_all
  then show "y = y' \<and> x div 8 = k" using e by simp
qed simp

lemma width_bytes:
  assumes "frame_ok cfg p" "x < wd p"
  shows "x div 8 < wd p div 8"
proof -
  have "wd p mod 8 = 0" using assms(1) by (simp add: frame_ok_def)
  then have "wd p = 8 * (wd p div 8)" by presburger
  then show ?thesis using assms(2) by linarith
qed

text \<open>Setting the bits \<open>m\<close> of the byte \<open>k\<close> of a row.\<close>

lemma byte_color_set:
  "n < 8 \<Longrightarrow> byte_color cfg (mask_to ((c = BLACK) = wb_on cfg) wb m) (if three_colors cfg then mask_to ((c = RED) = rw_on cfg) rw m else rw) n =
    (if bit m n then shown_color cfg c else byte_color cfg wb rw n)"
  by (cases c) (simp_all add: byte_color_def bit_mask_to shown_color_def)

lemma rw_mask_in: "i < length (rw_buffer p) \<Longrightarrow> rw_mask v i m p = Some (p\<lparr>rw_buffer := (rw_buffer p)[i := mask_to v (rw_buffer p ! i) m]\<rparr>)"
  by (simp add: rw_mask_def)

lemma wb_mask_in: "i < length (wb_buffer p) \<Longrightarrow> wb_mask v i m p = Some (p\<lparr>wb_buffer := (wb_buffer p)[i := mask_to v (wb_buffer p ! i) m]\<rparr>)"
  by (simp add: wb_mask_def)

lemma setcolor_in:
  assumes "unat i < length (wb_buffer p)" "three_colors cfg \<longrightarrow> unat i < length (rw_buffer p)"
  shows "setcolor cfg i c m p = Some (let q = p\<lparr>wb_buffer := (wb_buffer p)[unat i := mask_to ((c = BLACK) = wb_on cfg) (wb_buffer p ! unat i) m]\<rparr> in
    if three_colors cfg then q\<lparr>rw_buffer := (rw_buffer p)[unat i := mask_to ((c = RED) = rw_on cfg) (rw_buffer p ! unat i) m]\<rparr> else q)"
  using assms by (cases c) (simp_all add: setcolor_def wb_mask_in rw_mask_in Let_def)

lemma frame_ok_buffers:
  "frame_ok cfg p \<Longrightarrow> length wb = length (wb_buffer p) \<Longrightarrow> length rw = length (rw_buffer p) \<Longrightarrow>
    frame_ok cfg (p\<lparr>wb_buffer := wb, rw_buffer := rw\<rparr>)"
  by (simp add: frame_ok_def rows_def turned_def)

lemma setcolor_paints:
  assumes ok: "frame_ok cfg p" and y: "in_frame p y" and k: "k < wd p div 8"
    and i: "unat i = (y - first_row p) * (wd p div 8) + k"
  shows "yields (setcolor cfg i c m p) (paints cfg {(x, y'). y' = y \<and> x div 8 = k \<and> bit m (pixel_bit cfg x)} c p)"
proof -
  let ?n = "wd p div 8"
  have r: "y - first_row p < rows p" using y by (auto simp: in_frame_def)
  then have "(y - first_row p) * ?n + ?n \<le> rows p * ?n" by (metis Suc_leI add.commute mult_Suc mult_le_mono1)
  then have l: "unat i < rows p * ?n" using i k by simp
  then have b: "unat i < length (wb_buffer p)" "three_colors cfg \<longrightarrow> unat i < length (rw_buffer p)"
    using ok by (simp_all add: frame_ok_def)
  define wb where "wb = (wb_buffer p)[unat i := mask_to ((c = BLACK) = wb_on cfg) (wb_buffer p ! unat i) m]"
  define rw where "rw = (if three_colors cfg then (rw_buffer p)[unat i := mask_to ((c = RED) = rw_on cfg) (rw_buffer p ! unat i) m] else rw_buffer p)"
  have set: "setcolor cfg i c m p = Some (p\<lparr>wb_buffer := wb, rw_buffer := rw\<rparr>)"
    by (simp add: setcolor_in [OF b] wb_def rw_def Let_def)
  have ok2: "frame_ok cfg (p\<lparr>wb_buffer := wb, rw_buffer := rw\<rparr>)"
    by (rule frame_ok_buffers [OF ok]) (simp_all add: wb_def rw_def)
  have at: "(y' - first_row p) * ?n + x div 8 = unat i \<longleftrightarrow> y' = y \<and> x div 8 = k" if "x < wd p" "in_frame p y'" for x y'
    unfolding i byte_index [OF width_bytes [OF ok that(1)] k] using that(2) y by (auto simp: in_frame_def)
  have "picture cfg (p\<lparr>wb_buffer := wb, rw_buffer := rw\<rparr>) x y' =
      (if y' = y \<and> x div 8 = k \<and> bit m (pixel_bit cfg x) then shown_color cfg c else picture cfg p x y')"
    if "x < wd p" "in_frame p y'" for x y'
  proof -
    let ?I = "(y' - first_row p) * ?n + x div 8"
    have pic: "picture cfg (p\<lparr>wb_buffer := wb, rw_buffer := rw\<rparr>) x y' = byte_color cfg (wb ! ?I) (rw ! ?I) (pixel_bit cfg x)"
      by (simp add: picture_def pixel_at_def first_row_def)
    show ?thesis
    proof (cases "y' = y \<and> x div 8 = k")
      case True
      then have I: "?I = unat i" using at [OF that] by blast
      have w: "wb ! unat i = mask_to ((c = BLACK) = wb_on cfg) (wb_buffer p ! unat i) m" using b by (simp add: wb_def)
      have rr: "rw ! unat i = (if three_colors cfg then mask_to ((c = RED) = rw_on cfg) (rw_buffer p ! unat i) m else rw_buffer p ! unat i)"
        using b by (simp add: rw_def)
      show ?thesis unfolding pic I w rr byte_color_set [OF pixel_bit_less] using True I by (simp add: picture_def pixel_at_def)
    next
      case False
      then have "?I \<noteq> unat i" using at [OF that] by blast
      then have "wb ! ?I = wb_buffer p ! ?I" "rw ! ?I = rw_buffer p ! ?I" by (simp_all add: wb_def rw_def)
      then show ?thesis unfolding pic using False by (auto simp: picture_def pixel_at_def)
    qed
  qed
  then show ?thesis using ok2 by (auto simp: set paints_def same_frame_def)
qed

subsection \<open>Points\<close>

lemma unat_minus_1:
  fixes a b :: "'a :: len word"
  assumes "unat b < unat a"
  shows "unat (a - b - 1) = unat a - unat b - 1"
proof -
  have "b < a" using assms by (simp add: word_less_nat_alt)
  then have d: "unat (a - b) = unat a - unat b" by (simp add: unat_sub)
  then have "1 \<le> a - b" using assms by (simp add: word_le_nat_alt Suc_le_eq)
  then show ?thesis by (simp add: unat_sub d)
qed

lemma unat_add_u32: "unat a + unat b < 2 ^ 32 \<Longrightarrow> unat (a + b :: u32) = unat a + unat b"
  by (simp add: unat_add_lem [THEN iffD1])

lemma unat_mult_u32: "unat a * unat b < 2 ^ 32 \<Longrightarrow> unat (a * b :: u32) = unat a * unat b"
  by (simp add: unat_mult_lem [THEN iffD1])

lemma unat_div_u32: "unat (a div b :: u32) = unat a div unat b"
  by (simp add: unat_div)

lemma unat_mod_u32: "unat (a mod b :: u32) = unat a mod unat b"
  by (simp add: unat_mod)

text \<open>Where a point of the turned picture lies.\<close>

definition flipped :: "paint_obj_t \<Rightarrow> nat \<Rightarrow> nat" where
  "flipped p y = (if scanmode p = PAINT_SCAN_MODE_2 then ht p - y - 1 else y)"

lemma flipped_less: "y < ht p \<Longrightarrow> flipped p y < ht p"
  by (simp add: flipped_def)

lemma flipped_flipped: "y < ht p \<Longrightarrow> flipped p (flipped p y) = y"
  by (simp add: flipped_def)

definition spot :: "paint_obj_t \<Rightarrow> nat \<Rightarrow> nat \<Rightarrow> nat \<times> nat" where
  "spot p x y = (case direction p of
       PAINT_DIRECTION_90 \<Rightarrow> (wd p - y - 1, flipped p x)
     | PAINT_DIRECTION_180 \<Rightarrow> (wd p - x - 1, flipped p (ht p - y - 1))
     | PAINT_DIRECTION_270 \<Rightarrow> (y, flipped p (ht p - x - 1))
     | PAINT_DIRECTION_0 \<Rightarrow> (x, flipped p y))"

definition on_display :: "paint_obj_t \<Rightarrow> nat \<Rightarrow> nat \<Rightarrow> bool" where
  "on_display p x y \<longleftrightarrow> x < unat (x_end p) \<and> y < unat (y_end p)"

lemma spot_in: "frame_ok cfg p \<Longrightarrow> on_display p x y \<Longrightarrow> fst (spot p x y) < wd p \<and> snd (spot p x y) < ht p"
  by (cases "direction p") (auto simp: spot_def on_display_def frame_ok_def turned_def intro!: flipped_less)

lemma place_spot:
  assumes "frame_ok cfg p" "on_display p (unat x) (unat y)" "place_point p x y = (X, Y)"
  shows "spot p (unat x) (unat y) = (unat X, unat Y)" "unat X < wd p" "unat Y < ht p"
proof -
  show s: "spot p (unat x) (unat y) = (unat X, unat Y)"
    using assms
    by (cases "direction p"; cases "scanmode p")
      (auto simp: spot_def flipped_def place_point_def on_display_def frame_ok_def turned_def unat_minus_1)
  show "unat X < wd p" "unat Y < ht p" using spot_in [OF assms(1,2)] by (simp_all add: s)
qed

lemma band_row:
  assumes "frame_ok cfg p" "unat Y < ht p"
  shows "outside_band p Y \<longleftrightarrow> \<not> in_frame p (unat Y)" "in_frame p (unat Y) \<Longrightarrow> unat (row_in_band p Y) = unat Y - first_row p"
proof -
  have s: "unat (band_y_start p + band_height p) = unat (band_y_start p) + unat (band_height p)"
    using assms(1) by (intro unat_add_u32) (simp add: frame_ok_def)
  show "outside_band p Y \<longleftrightarrow> \<not> in_frame p (unat Y)"
    using assms(2) by (auto simp: outside_band_def in_frame_def first_row_def rows_def word_less_nat_alt word_le_nat_alt s)
  show "unat (row_in_band p Y) = unat Y - first_row p" if "in_frame p (unat Y)"
    using that by (auto simp: row_in_band_def in_frame_def first_row_def unat_sub word_le_nat_alt)
qed

lemma byte_in_row:
  assumes ok: "frame_ok cfg p" and y: "unat Y < ht p" "in_frame p (unat Y)" and x: "unat X < wd p"
  shows "unat (row_in_band p Y * (p_width p div 8) + X div 8) = (unat Y - first_row p) * (wd p div 8) + unat X div 8"
proof -
  have r: "unat Y - first_row p < 2 ^ 15" "wd p div 8 < 2 ^ 12" "unat X div 8 < 2 ^ 12"
    using ok y x by (auto simp: frame_ok_def)
  then have m: "(unat Y - first_row p) * (wd p div 8) \<le> 2 ^ 15 * 2 ^ 12" by (intro mult_le_mono) simp_all
  have "unat (row_in_band p Y * (p_width p div 8)) = (unat Y - first_row p) * (wd p div 8)"
    using m by (subst unat_mult_u32) (simp_all add: band_row(2) [OF ok y] unat_div_u32)
  then show ?thesis using m r(3) by (subst unat_add_u32) (simp_all add: unat_div_u32)
qed

lemma point_mask_bit: "bit (point_mask cfg X) (pixel_bit cfg x) \<longleftrightarrow> x mod 8 = unat X mod 8"
proof -
  have m: "unat (X mod 8) = unat X mod 8" by (simp add: unat_mod_u32)
  have l: "unat X mod 8 < 8" "x mod 8 < 8" by simp_all
  have "unat (7 - X mod 8) = 7 - unat X mod 8"
    using l by (subst unat_sub) (simp_all add: word_le_nat_alt m del: l)
  then have "unat (if msb_first cfg then 7 - X mod 8 else X mod 8) = pixel_bit cfg (unat X)"
    by (simp add: pixel_bit_def m)
  then have "bit (point_mask cfg X) (pixel_bit cfg x) \<longleftrightarrow> pixel_bit cfg x = pixel_bit cfg (unat X)"
    using pixel_bit_less [of cfg x] pixel_bit_less [of cfg "unat X"]
    by (auto simp: point_mask_def bit_simps bit_1_iff)
  also have "\<dots> \<longleftrightarrow> x mod 8 = unat X mod 8" using l by (auto simp: pixel_bit_def)
  finally show ?thesis .
qed

lemma same_byte_bit: "x div 8 = k div 8 \<and> x mod 8 = k mod 8 \<longleftrightarrow> x = (k :: nat)"
  by (metis div_mult_mod_eq)

text \<open>The bit of one point, where its row is in the frame.\<close>

lemma set_point:
  assumes ok: "frame_ok cfg p" and y: "unat Y < ht p" "in_frame p (unat Y)" and x: "unat X < wd p"
  shows "yields (setcolor cfg (row_in_band p Y * (p_width p div 8) + X div 8) c (point_mask cfg X) p) (paints cfg {(unat X, unat Y)} c p)"
proof (rule yields_mono [OF setcolor_paints [OF ok y(2) width_bytes [OF ok x] byte_in_row [OF ok y x]]])
  fix q assume "paints cfg {(x, y'). y' = unat Y \<and> x div 8 = unat X div 8 \<and> bit (point_mask cfg X) (pixel_bit cfg x)} c p q"
  then show "paints cfg {(unat X, unat Y)} c p q"
    by (rule paints_same) (use same_byte_bit point_mask_bit in auto)
qed

lemma point_paints:
  assumes ok: "frame_ok cfg p"
  shows "yields (paint_DrawPoint cfg c x y p)
    (paints cfg (if on_display p (unat x) (unat y) then {spot p (unat x) (unat y)} else {}) c p)"
proof (cases "on_display p (unat x) (unat y)")
  case True
  obtain X Y where XY: "place_point p x y = (X, Y)" by (cases "place_point p x y")
  note s = place_spot [OF ok True XY]
  have in_d: "\<not> (x_end p \<le> x \<or> y_end p \<le> y)" using True by (auto simp: on_display_def word_le_nat_alt)
  show ?thesis
  proof (cases "in_frame p (unat Y)")
    case True': True
    then show ?thesis
      using set_point [OF ok s(3) True' s(2)] band_row(1) [OF ok s(3)] in_d True
      by (simp add: paint_DrawPoint_def XY s(1))
  next
    case False
    have "paints cfg {(unat X, unat Y)} c p p"
      by (rule paints_same [OF paints_nothing [OF ok]]) (use False in auto)
    then show ?thesis
      using False band_row(1) [OF ok s(3)] in_d True by (simp add: paint_DrawPoint_def XY s(1))
  qed
next
  case False
  then have "x_end p \<le> x \<or> y_end p \<le> y" by (auto simp: on_display_def word_le_nat_alt)
  then show ?thesis using False paints_nothing [OF ok] by (simp add: paint_DrawPoint_def)
qed

subsection \<open>Lines and rectangles\<close>

definition segment :: "nat \<Rightarrow> nat \<Rightarrow> nat \<Rightarrow> (nat \<times> nat) set" where
  "segment a b y = {(x, y'). y' = y \<and> a \<le> x \<and> x < b}"

lemma segment_empty: "b \<le> a \<Longrightarrow> segment a b y = {}"
  by (auto simp: segment_def)

lemma segment_Cons: "a < b \<Longrightarrow> segment a b y = {(a, y)} \<union> segment (Suc a) b y"
  by (auto simp: segment_def)

lemma segment_join: "a \<le> b \<Longrightarrow> b \<le> c \<Longrightarrow> segment a b y \<union> segment b c y = segment a c y"
  by (auto simp: segment_def)

lemma unat_Suc_u32: "i < (e :: u32) \<Longrightarrow> unat (i + 1) = Suc (unat i)"
  using unsigned_less [of e, where 'a = nat] by (subst unat_add_u32) (simp_all add: word_less_nat_alt)

lemma unat_to_byte: "unat (x AND NOT 7 :: u32) = 8 * (unat x div 8)"
proof -
  have "x AND NOT 7 = push_bit 3 (drop_bit 3 x)"
  proof (rule bit_word_eqI)
    fix n assume "n < LENGTH(32)"
    have "bit (7 :: u32) n \<longleftrightarrow> n < 3"
      using bit_mask_iff [of 3 n, where 'a = u32] \<open>n < LENGTH(32)\<close> by (auto simp: mask_eq_exp_minus_1)
    then show "bit (x AND NOT 7) n = bit (push_bit 3 (drop_bit 3 x)) n"
      using \<open>n < LENGTH(32)\<close> by (auto simp: bit_simps simp del: push_bit_Suc drop_bit_Suc)
  qed
  also have "\<dots> = 8 * drop_bit 3 x" by (simp add: push_bit_eq_mult)
  also have "unat \<dots> = 8 * unat (drop_bit 3 x)"
  proof (subst unat_mult_u32)
    show "unat (8 :: u32) * unat (drop_bit 3 x) < 2 ^ 32"
      using unsigned_less [of x, where 'a = nat] by (simp add: unsigned_drop_bit_eq drop_bit_eq_div unat_div_u32)
  qed simp
  finally show ?thesis by (simp add: unsigned_drop_bit_eq drop_bit_eq_div unat_div_u32)
qed

lemma paints_join:
  "paints cfg (segment a b y) c p q \<Longrightarrow> paints cfg (segment b d y) c q r \<Longrightarrow> a \<le> b \<Longrightarrow> b \<le> d \<Longrightarrow> paints cfg (segment a d y) c p r"
  using paints_more segment_join by metis

text \<open>A line is drawn in a row that is in the frame.\<close>

definition row_ok :: "paint_config \<Rightarrow> u32 \<Rightarrow> u32 \<Rightarrow> u32 \<Rightarrow> paint_obj_t \<Rightarrow> bool" where
  "row_ok cfg row Y e p \<longleftrightarrow> frame_ok cfg p \<and> unat Y < ht p \<and> in_frame p (unat Y) \<and> unat e \<le> wd p \<and>
     row = row_in_band p Y * (p_width p div 8)"

lemma row_ok_paints: "row_ok cfg row Y e p \<Longrightarrow> paints cfg S c p q \<Longrightarrow> row_ok cfg row Y e q"
  by (auto simp: row_ok_def paints_def same_frame_simps)

lemma row_point:
  assumes "row_ok cfg row Y e p" "i < e"
  shows "yields (setcolor cfg (row + i div 8) c (point_mask cfg i) p) (paints cfg {(unat i, unat Y)} c p)"
  using set_point [of cfg p Y i c] assms by (simp add: row_ok_def word_less_nat_alt)

lemma tail_paints:
  "row_ok cfg row Y e p \<Longrightarrow> yields (hline_tail cfg c row e i p) (paints cfg (segment (unat i) (unat e) (unat Y)) c p)"
proof (induction "unat e - unat i" arbitrary: i p)
  case 0
  then have "frame_ok cfg p" "\<not> i < e" by (simp_all add: row_ok_def word_less_nat_alt)
  then show ?case
    unfolding hline_tail.simps [of cfg c row e i p] by (simp add: segment_empty paints_nothing word_less_nat_alt)
next
  case (Suc n)
  then have i: "i < e" by (simp add: word_less_nat_alt)
  note s = unat_Suc_u32 [OF i]
  have "yields (hline_tail cfg c row e (i + 1) q) (paints cfg (segment (unat i) (unat e) (unat Y)) c p)"
    if q: "paints cfg {(unat i, unat Y)} c p q" for q
  proof (rule yields_mono [OF Suc.hyps(1) [OF _ row_ok_paints [OF Suc.prems q]]])
    show "n = unat e - unat (i + 1)" using Suc.hyps(2) s by simp
    fix r assume "paints cfg (segment (unat (i + 1)) (unat e) (unat Y)) c q r"
    then show "paints cfg (segment (unat i) (unat e) (unat Y)) c p r"
      using paints_more [OF q] i by (simp add: segment_Cons [of "unat i"] s word_less_nat_alt)
  qed
  then show ?case
    unfolding hline_tail.simps [of cfg c row e i p] if_P [OF i]
    by (rule yields_bindI [OF row_point [OF Suc.prems i]])
qed

lemma head_paints:
  assumes "row_ok cfg row Y e p" "unat lim = 8 * (unat x div 8) + 8" "unat x \<le> unat i" "unat i \<le> unat lim"
  shows "yields (hline_head cfg c (row + x div 8) lim e i p) (\<lambda>(returned, i', q).
    paints cfg (segment (unat i) (min (unat lim) (unat e)) (unat Y)) c p q \<and>
    (if returned then unat e < unat lim else i' = lim \<and> (unat lim \<le> unat e \<or> i = lim)))"
  using assms
proof (induction "unat lim - unat i" arbitrary: i p)
  case 0
  then have "unat i = unat lim" by simp
  then have "i = lim" by (simp add: word_unat_eq_iff)
  moreover have "frame_ok cfg p" using 0(2) by (simp add: row_ok_def)
  ultimately show ?case
    unfolding hline_head.simps [of cfg c "row + x div 8" lim e i p] by (simp add: segment_empty paints_nothing)
next
  case (Suc n)
  then have i: "\<not> lim \<le> i" "i < lim" by (simp_all add: word_le_nat_alt word_less_nat_alt)
  note s = unat_Suc_u32 [OF i(2)]
  show ?case
  proof (cases "e \<le> i")
    case True
    moreover have "frame_ok cfg p" using Suc.prems(1) by (simp add: row_ok_def)
    ultimately show ?thesis
      unfolding hline_head.simps [of cfg c "row + x div 8" lim e i p]
      using i by (simp add: segment_empty paints_nothing word_le_nat_alt word_less_nat_alt)
  next
    case False
    then have e: "i < e" by simp
    have "unat x div 8 = unat i div 8" using Suc.prems(2,3) i(2) by (simp add: word_less_nat_alt)
    then have b: "x div 8 = i div 8" by (simp add: word_unat_eq_iff unat_div_u32)
    have "yields (hline_head cfg c (row + x div 8) lim e (i + 1) q) (\<lambda>(returned, i', r).
        paints cfg (segment (unat i) (min (unat lim) (unat e)) (unat Y)) c p r \<and>
        (if returned then unat e < unat lim else i' = lim \<and> (unat lim \<le> unat e \<or> i = lim)))"
      if q: "paints cfg {(unat i, unat Y)} c p q" for q
    proof (rule yields_mono [OF Suc.hyps(1) [OF _ row_ok_paints [OF Suc.prems(1) q] Suc.prems(2)]])
      show "n = unat lim - unat (i + 1)" "unat x \<le> unat (i + 1)" "unat (i + 1) \<le> unat lim"
        using Suc.hyps(2) Suc.prems(3) s i(2) by (simp_all add: word_less_nat_alt)
      have j: "segment (unat i) (min (unat lim) (unat e)) (unat Y) =
          {(unat i, unat Y)} \<union> segment (unat (i + 1)) (min (unat lim) (unat e)) (unat Y)"
        using i(2) e by (subst segment_Cons) (simp_all add: s word_less_nat_alt)
      have "unat lim \<le> unat e" if "i + 1 = lim" using that e s by (simp add: word_less_nat_alt)
      then show "case t of (returned, i', r) \<Rightarrow> paints cfg (segment (unat (i + 1)) (min (unat lim) (unat e)) (unat Y)) c q r \<and>
            (if returned then unat e < unat lim else i' = lim \<and> (unat lim \<le> unat e \<or> i + 1 = lim)) \<Longrightarrow>
          case t of (returned, i', r) \<Rightarrow> paints cfg (segment (unat i) (min (unat lim) (unat e)) (unat Y)) c p r \<and>
            (if returned then unat e < unat lim else i' = lim \<and> (unat lim \<le> unat e \<or> i = lim))" for t
        unfolding j using paints_more [OF q] by (auto split: if_splits)
    qed
    then show ?thesis
      unfolding hline_head.simps [of cfg c "row + x div 8" lim e i p] if_not_P [OF i(1)] if_not_P [OF False]
      by (rule yields_bindI [OF row_point [OF Suc.prems(1) e, of c, folded b]])
  qed
qed

lemma byte_range:
  assumes "a mod 8 = 0"
  shows "x div 8 = a div 8 \<longleftrightarrow> a \<le> x \<and> x < a + (8 :: nat)"
proof -
  obtain k where "a = 8 * k" using assms by (auto simp: mod_eq_0_iff_dvd)
  then show ?thesis by auto
qed

lemma row_byte:
  assumes "row_ok cfg row Y e p" "unat i + 8 \<le> unat e" "unat i mod 8 = 0"
  shows "yields (setcolor cfg (row + i div 8) c 0xff p) (paints cfg (segment (unat i) (unat i + 8) (unat Y)) c p)"
proof -
  have ok: "frame_ok cfg p" "unat Y < ht p" "in_frame p (unat Y)" "unat i < wd p" "row = row_in_band p Y * (p_width p div 8)"
    using assms(1,2) by (auto simp: row_ok_def)
  have all: "bit (0xff :: u8) (pixel_bit cfg x)" for x
  proof -
    have m: "(0xff :: u8) = mask 8" by (simp add: mask_eq_exp_minus_1)
    show ?thesis unfolding m using pixel_bit_less [of cfg x] by (simp add: bit_mask_iff)
  qed
  have k: "x div 8 = unat i div 8 \<longleftrightarrow> unat i \<le> x \<and> x < unat i + 8" for x
    by (rule byte_range [OF assms(3)])
  have seg: "{(x, y'). y' = unat Y \<and> x div 8 = unat i div 8 \<and> bit (0xff :: u8) (pixel_bit cfg x)} = segment (unat i) (unat i + 8) (unat Y)"
    unfolding segment_def k using all by blast
  show ?thesis
    using setcolor_paints [OF ok(1,3) width_bytes [OF ok(1,4)] byte_in_row [OF ok(1-4)], of c "0xff"]
    unfolding seg ok(5) .
qed

lemma bytes_paint:
  "row_ok cfg row Y e p \<Longrightarrow> unat i mod 8 = 0 \<Longrightarrow> unat i \<le> unat e \<Longrightarrow> unat e < 2 ^ 15 \<Longrightarrow>
    yields (hline_bytes cfg c row e i p) (\<lambda>(i', q). unat i \<le> unat i' \<and> unat i' \<le> unat e \<and>
      paints cfg (segment (unat i) (unat i') (unat Y)) c p q)"
proof (induction "unat e - unat i" arbitrary: i p rule: less_induct)
  case less
  have s: "unat (i + 8) = unat i + 8" using less.prems(3,4) by (subst unat_add_u32) simp_all
  have ok: "frame_ok cfg p" using less.prems(1) by (simp add: row_ok_def)
  show ?case
  proof (cases "i + 8 < e")
    case False
    then show ?thesis
      unfolding hline_bytes.simps [of cfg c row e i p] using less.prems(3) paints_nothing [OF ok] by (simp add: segment_empty)
  next
    case True
    then have e: "unat i + 8 < unat e" by (simp add: word_less_nat_alt s)
    have "yields (hline_bytes cfg c row e (i + 8) q) (\<lambda>(i', r). unat i \<le> unat i' \<and> unat i' \<le> unat e \<and>
        paints cfg (segment (unat i) (unat i') (unat Y)) c p r)"
      if q: "paints cfg (segment (unat i) (unat i + 8) (unat Y)) c p q" for q
    proof (rule yields_mono [OF less.hyps [OF _ row_ok_paints [OF less.prems(1) q] _ _ less.prems(4)]])
      show "unat e - unat (i + 8) < unat e - unat i" "unat (i + 8) mod 8 = 0" "unat (i + 8) \<le> unat e"
        using e less.prems(2) by (simp_all add: s)
      show "case t of (i', r) \<Rightarrow> unat (i + 8) \<le> unat i' \<and> unat i' \<le> unat e \<and> paints cfg (segment (unat (i + 8)) (unat i') (unat Y)) c q r \<Longrightarrow>
          case t of (i', r) \<Rightarrow> unat i \<le> unat i' \<and> unat i' \<le> unat e \<and> paints cfg (segment (unat i) (unat i') (unat Y)) c p r" for t
        using paints_join [OF q] by (auto simp: s)
    qed
    moreover have "yields (setcolor cfg (row + i div 8) c 0xff p) (paints cfg (segment (unat i) (unat i + 8) (unat Y)) c p)"
      by (rule row_byte [OF less.prems(1) _ less.prems(2)]) (use e in simp)
    ultimately show ?thesis
      unfolding hline_bytes.simps [of cfg c row e i p] if_P [OF True] by (rule yields_bindI [rotated])
  qed
qed

lemma line_in_frame:
  assumes ok: "row_ok cfg row Y (x + w) p" and w: "unat x + unat w \<le> wd p" and l: "unat lim = 8 * (unat x div 8) + 8"
  shows "yields (do {
      (returned, i, p1) \<leftarrow> hline_head cfg c (row + x div 8) lim (x + w) x p;
      (if returned then Some p1
       else do { (i, p2) \<leftarrow> hline_bytes cfg c row (x + w) i p1; hline_tail cfg c row (x + w) i p2 }) })
    (paints cfg (segment (unat x) (unat x + unat w) (unat Y)) c p)"
proof -
  have small: "wd p < 2 ^ 15" using ok by (simp add: row_ok_def frame_ok_def)
  then have e: "unat (x + w) = unat x + unat w" using w by (subst unat_add_u32) simp_all
  have "unat x \<le> unat lim" unfolding l by linarith
  note h = head_paints [OF ok l order_refl this, of c]
  show ?thesis
  proof (rule yields_bindI [OF h], unfold case_prod_unfold, cases rule: case_split)
    fix t
    assume "paints cfg (segment (unat x) (min (unat lim) (unat (x + w))) (unat Y)) c p (snd (snd t)) \<and>
        (if fst t then unat (x + w) < unat lim else fst (snd t) = lim \<and> (unat lim \<le> unat (x + w) \<or> x = lim))"
      and "fst t"
    then show "yields (if fst t then Some (snd (snd t)) else do {
        z \<leftarrow> hline_bytes cfg c row (x + w) (fst (snd t)) (snd (snd t)); hline_tail cfg c row (x + w) (fst z) (snd z) })
      (paints cfg (segment (unat x) (unat x + unat w) (unat Y)) c p)"
      by (auto simp: e min_absorb2)
  next
    fix t :: "bool \<times> u32 \<times> paint_obj_t"
    define i where "i = fst (snd t)"
    define q where "q = snd (snd t)"
    assume t: "paints cfg (segment (unat x) (min (unat lim) (unat (x + w))) (unat Y)) c p (snd (snd t)) \<and>
        (if fst t then unat (x + w) < unat lim else fst (snd t) = lim \<and> (unat lim \<le> unat (x + w) \<or> x = lim))"
      and f: "\<not> fst t"
    have q: "paints cfg (segment (unat x) (min (unat lim) (unat (x + w))) (unat Y)) c p q"
      and i: "i = lim \<and> (unat lim \<le> unat (x + w) \<or> x = lim)" using t f by (simp_all add: i_def q_def)
    have "unat x \<noteq> unat lim" unfolding l by presburger
    then have i': "i = lim" "unat lim \<le> unat (x + w)" using i by auto
    then have q': "paints cfg (segment (unat x) (unat i) (unat Y)) c p q" using q by simp
    have m: "unat i mod 8 = 0" "unat i \<le> unat (x + w)" using i' l by simp_all
    have s: "unat (x + w) < 2 ^ 15" using small w e by simp
    note okq = row_ok_paints [OF ok q']
    have tl: "yields (hline_tail cfg c row (x + w) j r) (paints cfg (segment (unat x) (unat x + unat w) (unat Y)) c p)"
      if "unat i \<le> unat j" "unat j \<le> unat (x + w)" and r: "paints cfg (segment (unat i) (unat j) (unat Y)) c q r" for j r
    proof -
      have xi: "unat x \<le> unat i" unfolding i'(1) l by linarith
      have pr: "paints cfg (segment (unat x) (unat j) (unat Y)) c p r"
        by (rule paints_join [OF q' r xi that(1)])
      show ?thesis
        by (rule yields_mono [OF tail_paints [OF row_ok_paints [OF ok pr]]])
          (use paints_join [OF pr] xi that e in auto)
    qed
    have "yields (do { z \<leftarrow> hline_bytes cfg c row (x + w) i q; hline_tail cfg c row (x + w) (fst z) (snd z) })
        (paints cfg (segment (unat x) (unat x + unat w) (unat Y)) c p)"
      by (rule yields_bindI [OF bytes_paint [OF okq m s]]) (use tl in auto)
    then show "yields (if fst t then Some (snd (snd t)) else do {
        z \<leftarrow> hline_bytes cfg c row (x + w) (fst (snd t)) (snd (snd t)); hline_tail cfg c row (x + w) (fst z) (snd z) })
      (paints cfg (segment (unat x) (unat x + unat w) (unat Y)) c p)"
      using f by (simp add: i_def q_def)
  qed
qed

lemma next_byte:
  assumes "unat x \<le> 2 ^ 15"
  shows "unat (8 + (x AND NOT 7) :: u32) = 8 * (unat x div 8) + 8"
proof (subst unat_add_u32)
  show "unat (8 :: u32) + unat (x AND NOT 7) < 2 ^ 32" unfolding unat_to_byte using assms by simp
  show "unat (8 :: u32) + unat (x AND NOT 7) = 8 * (unat x div 8) + 8" unfolding unat_to_byte by simp
qed

lemma line_paints:
  assumes ok: "frame_ok cfg p" and y: "unat y < ht p" and w: "unat x + unat w \<le> wd p"
  shows "yields (drawHline cfg c x y w p) (paints cfg (segment (unat x) (unat x + unat w) (flipped p (unat y))) c p)"
proof -
  define Y where "Y = (if scanmode p = PAINT_SCAN_MODE_2 then p_height p - y - 1 else y)"
  have Y: "unat Y = flipped p (unat y)" "unat Y < ht p" using y by (auto simp: Y_def flipped_def unat_minus_1)
  have draw: "drawHline cfg c x y w p = (if outside_band p Y then Some p else do {
      (returned, i, p1) \<leftarrow> hline_head cfg c (row_in_band p Y * (p_width p div 8) + x div 8) (8 + (x AND NOT 7)) (x + w) x p;
      (if returned then Some p1
       else do { (i, p2) \<leftarrow> hline_bytes cfg c (row_in_band p Y * (p_width p div 8)) (x + w) i p1;
         hline_tail cfg c (row_in_band p Y * (p_width p div 8)) (x + w) i p2 }) })"
    by (simp add: drawHline_def Y_def [symmetric] Let_def)
  show ?thesis
  proof (cases "in_frame p (unat Y)")
    case True
    have "unat (x + w) = unat x + unat w" using w ok by (subst unat_add_u32) (simp_all add: frame_ok_def)
    then have "row_ok cfg (row_in_band p Y * (p_width p div 8)) Y (x + w) p" using ok Y True w by (simp add: row_ok_def)
    moreover have "unat x \<le> 2 ^ 15" using ok w by (simp add: frame_ok_def)
    note line_in_frame [OF calculation w next_byte [OF this], of c]
    then show ?thesis
      using band_row(1) [OF ok Y(2)] True by (simp add: draw Y(1))
  next
    case False
    then have "paints cfg (segment (unat x) (unat x + unat w) (unat Y)) c p p"
      by (intro paints_same [OF paints_nothing [OF ok]]) (auto simp: segment_def)
    then show ?thesis using band_row(1) [OF ok Y(2)] False by (simp add: draw Y(1))
  qed
qed

text \<open>The rows of a rectangle.\<close>

definition block :: "paint_obj_t \<Rightarrow> nat \<Rightarrow> nat \<Rightarrow> nat \<Rightarrow> nat \<Rightarrow> (nat \<times> nat) set" where
  "block p a b y z = {a..<b} \<times> flipped p ` {y..<z}"

lemma block_Suc: "y < z \<Longrightarrow> block p a b y z = segment a b (flipped p y) \<union> block p a b (Suc y) z"
proof -
  assume "y < z"
  then have "{y..<z} = insert y {Suc y..<z}" by auto
  then show ?thesis by (auto simp: block_def segment_def)
qed

lemma rows_paint:
  "frame_ok cfg p \<Longrightarrow> unat x + unat w \<le> wd p \<Longrightarrow> unat e \<le> ht p \<Longrightarrow>
    yields (fill_rows cfg c x w e i p) (paints cfg (block p (unat x) (unat x + unat w) (unat i) (unat e)) c p)"
proof (induction "unat e - unat i" arbitrary: i p)
  case 0
  then have "\<not> i < e" "block p (unat x) (unat x + unat w) (unat i) (unat e) = {}"
    by (auto simp: word_less_nat_alt block_def)
  then show ?case
    unfolding fill_rows.simps [of cfg c x w e i p] by (simp add: paints_nothing [OF 0(2)])
next
  case (Suc n)
  then have i: "i < e" "unat i < unat e" by (simp_all add: word_less_nat_alt)
  note s = unat_Suc_u32 [OF i(1)]
  have y: "unat i < ht p" using i(2) Suc.prems(3) by simp
  have "yields (fill_rows cfg c x w e (i + 1) q) (paints cfg (block p (unat x) (unat x + unat w) (unat i) (unat e)) c p)"
    if q: "paints cfg (segment (unat x) (unat x + unat w) (flipped p (unat i))) c p q" for q
  proof -
    have f: "same_frame p q" "frame_ok cfg q" using q by (simp_all add: paints_def)
    have fl: "flipped q = flipped p" by (auto simp: fun_eq_iff flipped_def same_frame_simps [OF f(1)])
    then have b: "block q = block p" by (auto simp: fun_eq_iff block_def)
    show ?thesis
    proof (rule yields_mono [OF Suc.hyps(1) [OF _ f(2)]])
      show "n = unat e - unat (i + 1)" "unat x + unat w \<le> wd q" "unat e \<le> ht q"
        using Suc.hyps(2) Suc.prems(2,3) by (simp_all add: s same_frame_simps [OF f(1)])
      fix r assume "paints cfg (block q (unat x) (unat x + unat w) (unat (i + 1)) (unat e)) c q r"
      then show "paints cfg (block p (unat x) (unat x + unat w) (unat i) (unat e)) c p r"
        unfolding block_Suc [OF i(2)] by (intro paints_more [OF q]) (simp add: b s)
    qed
  qed
  then show ?case
    unfolding fill_rows.simps [of cfg c x w e i p] if_P [OF i(1)]
    by (rule yields_bindI [OF line_paints [OF Suc.prems(1) y Suc.prems(2)]])
qed

text \<open>The points of a rectangle on the turned display, and where they lie.\<close>

definition rect_points :: "paint_rect_t \<Rightarrow> (nat \<times> nat) set" where
  "rect_points r = {(x, y). unat (rect_x r) \<le> x \<and> x < unat (rect_x r) + unat (rect_width r) \<and>
     unat (rect_y r) \<le> y \<and> y < unat (rect_y r) + unat (rect_height r)}"

definition rect_fits :: "paint_obj_t \<Rightarrow> paint_rect_t \<Rightarrow> bool" where
  "rect_fits p r \<longleftrightarrow> unat (rect_x r) + unat (rect_width r) \<le> unat (x_end p) \<and>
     unat (rect_y r) + unat (rect_height r) \<le> unat (y_end p)"

definition unspot :: "paint_obj_t \<Rightarrow> nat \<times> nat \<Rightarrow> nat \<times> nat" where
  "unspot p = (\<lambda>(x, y). let y = flipped p y in case direction p of
       PAINT_DIRECTION_90 \<Rightarrow> (y, wd p - x - 1)
     | PAINT_DIRECTION_180 \<Rightarrow> (wd p - x - 1, ht p - y - 1)
     | PAINT_DIRECTION_270 \<Rightarrow> (ht p - y - 1, x)
     | PAINT_DIRECTION_0 \<Rightarrow> (x, y))"

lemma display_bounds:
  "frame_ok cfg p \<Longrightarrow> on_display p x y \<Longrightarrow> if turned p then x < ht p \<and> y < wd p else x < wd p \<and> y < ht p"
  by (simp add: on_display_def frame_ok_def split: if_splits)

lemma minus_minus_1: "b < a \<Longrightarrow> a - (a - b - 1) - 1 = (b :: nat)"
  by simp

lemma minus_minus_Suc: "b < a \<Longrightarrow> a - Suc (a - Suc b) = (b :: nat)"
  by simp

lemma unspot_spot:
  assumes "frame_ok cfg p" "on_display p x y"
  shows "unspot p (spot p x y) = (x, y)"
  using display_bounds [OF assms]
  by (cases "direction p") (simp_all add: spot_def unspot_def turned_def flipped_flipped minus_minus_Suc)

lemma spot_unspot:
  assumes "x < wd p" "y < ht p"
  shows "(case unspot p (x, y) of (a, b) \<Rightarrow> spot p a b) = (x, y)"
proof -
  have "flipped p (flipped p y) = y" "flipped p y < ht p" by (rule flipped_flipped [OF assms(2)], rule flipped_less [OF assms(2)])
  then show ?thesis using assms by (cases "direction p") (simp_all add: spot_def unspot_def)
qed

lemma spot_inj:
  "frame_ok cfg p \<Longrightarrow> on_display p x y \<Longrightarrow> on_display p x' y' \<Longrightarrow> spot p x y = spot p x' y' \<Longrightarrow> x = x' \<and> y = y'"
  by (metis unspot_spot prod.inject)

subsection \<open>Filling\<close>

lemma image_backwards: "a + n \<le> k \<Longrightarrow> (\<lambda>i. k - Suc i) ` {a..<a + n} = {k - (a + n)..<k - (a + n) + (n :: nat)}"
proof (rule equalityI)
  assume "a + n \<le> k"
  show "{k - (a + n)..<k - (a + n) + n} \<subseteq> (\<lambda>i. k - Suc i) ` {a..<a + n}"
  proof
    fix j assume "j \<in> {k - (a + n)..<k - (a + n) + n}"
    with \<open>a + n \<le> k\<close> have "j = k - Suc (k - Suc j)" "k - Suc j \<in> {a..<a + n}" by auto
    then show "j \<in> (\<lambda>i. k - Suc i) ` {a..<a + n}" by blast
  qed
qed auto

lemma image_flipped:
  assumes "a + n \<le> k"
  shows "(\<lambda>i. k - i - 1) ` {a..<a + n} = {k - (a + n)..<k - (a + n) + (n :: nat)}"
    "(\<lambda>i. f (k - i - 1)) ` {a..<a + n} = f ` {k - (a + n)..<k - (a + n) + n}"
proof -
  show "(\<lambda>i. k - i - 1) ` {a..<a + n} = {k - (a + n)..<k - (a + n) + n}" using image_backwards [OF assms] by simp
  then show "(\<lambda>i. f (k - i - 1)) ` {a..<a + n} = f ` {k - (a + n)..<k - (a + n) + n}"
    by (metis (no_types, lifting) image_cong image_image)
qed

lemma image_straight: "(\<lambda>(a, b). (f a, g b)) ` (A \<times> B) = f ` A \<times> g ` B"
  by auto

lemma image_turned: "(\<lambda>(a, b). (f b, g a)) ` (A \<times> B) = f ` B \<times> g ` A"
  by auto

lemma place_rect_fits:
  assumes ok: "frame_ok cfg p" and r: "rect_fits p r" and d: "direction p = PAINT_DIRECTION_90 \<longrightarrow> rect_width r = rect_height r"
    and pl: "place_rect p r = (x, y, w, h)"
  shows "unat x + unat w \<le> wd p" "unat (y + h) \<le> ht p"
    "block p (unat x) (unat x + unat w) (unat y) (unat (y + h)) = (\<lambda>(a, b). spot p a b) ` rect_points r"
proof -
  have small: "wd p < 2 ^ 15" "ht p < 2 ^ 15" using ok by (simp_all add: frame_ok_def)
  have sub: "unat (a - (b + c)) = unat a - (unat b + unat c)" if "unat b + unat c \<le> unat a" "unat a < 2 ^ 15" for a b c :: u32
    using that by (subst unat_sub) (simp_all add: word_le_nat_alt unat_add_u32)
  have fits: "if turned p then unat (rect_x r) + unat (rect_width r) \<le> ht p \<and> unat (rect_y r) + unat (rect_height r) \<le> wd p
      else unat (rect_x r) + unat (rect_width r) \<le> wd p \<and> unat (rect_y r) + unat (rect_height r) \<le> ht p"
    using ok r by (simp add: frame_ok_def rect_fits_def split: if_splits)
  have pos: "(unat x, unat y, unat w, unat h) = (case direction p of
      PAINT_DIRECTION_90 \<Rightarrow> (wd p - (unat (rect_y r) + unat (rect_height r)), unat (rect_x r), unat (rect_height r), unat (rect_width r))
    | PAINT_DIRECTION_180 \<Rightarrow> (wd p - (unat (rect_x r) + unat (rect_width r)), ht p - (unat (rect_y r) + unat (rect_height r)), unat (rect_width r), unat (rect_height r))
    | PAINT_DIRECTION_270 \<Rightarrow> (unat (rect_y r), ht p - (unat (rect_x r) + unat (rect_width r)), unat (rect_height r), unat (rect_width r))
    | PAINT_DIRECTION_0 \<Rightarrow> (unat (rect_x r), unat (rect_y r), unat (rect_width r), unat (rect_height r)))"
    using pl d fits small by (cases "direction p") (auto simp: place_rect_def turned_def sub)
  have le: "unat x + unat w \<le> wd p" "unat y + unat h \<le> ht p"
    using pos fits by (cases "direction p"; auto simp: turned_def)+
  then have yh: "unat (y + h) = unat y + unat h" using small by (intro unat_add_u32) simp
  show "unat x + unat w \<le> wd p" "unat (y + h) \<le> ht p" using le yh by simp_all
  let ?R = "{unat (rect_x r)..<unat (rect_x r) + unat (rect_width r)} \<times> {unat (rect_y r)..<unat (rect_y r) + unat (rect_height r)}"
  have pts: "rect_points r = ?R" by (auto simp: rect_points_def)
  have "(\<lambda>(a, b). spot p a b) ` ?R = {unat x..<unat x + unat w} \<times> flipped p ` {unat y..<unat y + unat h}"
  proof (cases "direction p")
    case PAINT_DIRECTION_0
    then have "(\<lambda>(a, b). spot p a b) = (\<lambda>(a, b). (a, flipped p b))" by (simp add: spot_def fun_eq_iff)
    then show ?thesis using pos PAINT_DIRECTION_0 image_straight [of "\<lambda>a. a" "flipped p"] by simp
  next
    case PAINT_DIRECTION_90
    then have s: "(\<lambda>(a, b). spot p a b) = (\<lambda>(a, b). (wd p - b - 1, flipped p a))" by (simp add: spot_def fun_eq_iff)
    have "unat (rect_y r) + unat (rect_height r) \<le> wd p" "rect_width r = rect_height r" using fits d PAINT_DIRECTION_90 by (simp_all add: turned_def)
    then show ?thesis unfolding s image_turned image_flipped(1) [OF \<open>unat (rect_y r) + unat (rect_height r) \<le> wd p\<close>]
      using pos PAINT_DIRECTION_90 by simp
  next
    case PAINT_DIRECTION_180
    then have s: "(\<lambda>(a, b). spot p a b) = (\<lambda>(a, b). (wd p - a - 1, flipped p (ht p - b - 1)))" by (simp add: spot_def fun_eq_iff)
    have l: "unat (rect_x r) + unat (rect_width r) \<le> wd p" "unat (rect_y r) + unat (rect_height r) \<le> ht p"
      using fits PAINT_DIRECTION_180 by (simp_all add: turned_def)
    show ?thesis unfolding s image_straight image_flipped(1) [OF l(1)] image_flipped(2) [OF l(2)]
      using pos PAINT_DIRECTION_180 by simp
  next
    case PAINT_DIRECTION_270
    then have s: "(\<lambda>(a, b). spot p a b) = (\<lambda>(a, b). (b, flipped p (ht p - a - 1)))" by (simp add: spot_def fun_eq_iff)
    have l: "unat (rect_x r) + unat (rect_width r) \<le> ht p" using fits PAINT_DIRECTION_270 by (simp add: turned_def)
    show ?thesis unfolding s image_turned image_flipped(2) [OF l]
      using pos PAINT_DIRECTION_270 by simp
  qed
  then show "block p (unat x) (unat x + unat w) (unat y) (unat (y + h)) = (\<lambda>(a, b). spot p a b) ` rect_points r"
    by (simp add: block_def pts yh)
qed

text \<open>A rectangle paints its points, and one that does not fit nothing.\<close>

lemma rect_paints:
  assumes ok: "frame_ok cfg p" and d: "direction p = PAINT_DIRECTION_90 \<longrightarrow> rect_width r = rect_height r"
    and no_wrap: "unat (rect_x r) + unat (rect_width r) < 2 ^ 32" "unat (rect_y r) + unat (rect_height r) < 2 ^ 32"
  shows "yields (paint_FillRect cfg c r p)
    (paints cfg (if rect_fits p r then (\<lambda>(a, b). spot p a b) ` rect_points r else {}) c p)"
proof -
  have "rect_fits p r \<longleftrightarrow> \<not> (x_end p < rect_x r + rect_width r \<or> y_end p < rect_y r + rect_height r)"
    using no_wrap by (simp add: rect_fits_def word_less_nat_alt unat_add_u32 not_less)
  moreover obtain x y w h where pl: "place_rect p r = (x, y, w, h)" by (cases "place_rect p r")
  ultimately show ?thesis
    using place_rect_fits [OF ok _ d pl] rows_paint [OF ok, of x w "y + h" c y] paints_nothing [OF ok]
    by (auto simp: paint_FillRect_def)
qed

subsection \<open>Text\<close>

text \<open>The points of a character whose bits are set in the font.\<close>

definition row_bytes :: "sFONT \<Rightarrow> nat" where
  "row_bytes font = (unat (Width font) + 7) div 8"

definition glyph :: "sFONT \<Rightarrow> u8 \<Rightarrow> (nat \<times> nat) set" where
  "glyph font c = {(i, j). i < unat (Width font) \<and> j < unat (Height font) \<and>
     bit (font_table font ! ((unat (c - 32) * unat (Height font) + j) * row_bytes font + i div 8)) (7 - i mod 8)}"

definition has_char :: "sFONT \<Rightarrow> u8 \<Rightarrow> bool" where
  "has_char font c \<longleftrightarrow> (unat (c - 32) + 1) * unat (Height font) * row_bytes font \<le> length (font_table font)"

definition ink :: "paint_obj_t \<Rightarrow> nat \<Rightarrow> nat \<Rightarrow> (nat \<times> nat) set \<Rightarrow> (nat \<times> nat) set" where
  "ink p x y S = (\<lambda>(i, j). spot p (x + i) (y + j)) ` S"

lemma ink_Un: "ink p x y (S \<union> T) = ink p x y S \<union> ink p x y T"
  by (simp add: ink_def image_Un)

lemma ink_empty [simp]: "ink p x y {} = {}"
  by (simp add: ink_def)

lemma same_spot: "same_frame p q \<Longrightarrow> spot q = spot p \<and> on_display q = on_display p"
  by (auto simp: fun_eq_iff spot_def on_display_def flipped_def same_frame_simps split: paint_direction_t.splits)

lemma draw_int:
  assumes ok: "frame_ok cfg q" and f: "same_frame p q" and xy: "x + i < unat (x_end p)" "y + j < unat (y_end p)"
  shows "yields (paint_DrawPoint cfg c (of_int (int x + int i)) (of_int (int y + int j)) q) (paints cfg {spot p (x + i) (y + j)} c q)"
proof -
  have u: "unat (of_int (int a + int b) :: u32) = a + b" if "a + b < unat (e :: u32)" for a b e
  proof -
    have "(of_int (int a + int b) :: u32) = of_nat (a + b)" by simp
    moreover have "a + b < 2 ^ 32" using that unsigned_less [of e, where 'a = nat] by simp
    ultimately show ?thesis by (simp add: unat_of_nat del: of_nat_add)
  qed
  define X Y where "X = (of_int (int x + int i) :: u32)" and "Y = (of_int (int y + int j) :: u32)"
  have XY: "unat X = x + i" "unat Y = y + j" unfolding X_def Y_def by (rule u [OF xy(1)], rule u [OF xy(2)])
  have "on_display q (unat X) (unat Y)" using xy same_spot [OF f] by (simp add: XY on_display_def)
  then show ?thesis
    using point_paints [OF ok, of c X Y] same_spot [OF f] unfolding X_def [symmetric] Y_def [symmetric] by (simp add: XY)
qed

lemma div_8_Suc: "(if i mod 8 = 7 then k + i div 8 + 1 else k + i div 8) = k + Suc i div (8 :: nat)"
  by (auto simp: div_Suc mod_Suc)

lemma font_row_paints:
  assumes ok: "frame_ok cfg q" and f: "same_frame p q" and j: "j < unat (Height font)"
    and fit: "x + unat (Width font) \<le> unat (x_end p)" "y + unat (Height font) \<le> unat (y_end p)"
    and k: "k = (unat (ch - 32) * unat (Height font) + j) * row_bytes font" and has: "has_char font ch"
  shows "yields (font_row cfg font c (int x) (int y + int j) (k, q)) (\<lambda>(k', r). k' = k + row_bytes font \<and>
    paints cfg (ink p x y {(i, l). (i, l) \<in> glyph font ch \<and> l = j}) c q r)"
proof -
  let ?W = "unat (Width font)"
  let ?G = "\<lambda>n. {(i, l). (i, l) \<in> glyph font ch \<and> l = j \<and> i < n}"
  have last: "(unat (ch - 32) * unat (Height font) + j + 1) * row_bytes font \<le> (unat (ch - 32) + 1) * unat (Height font) * row_bytes font"
    using j by (intro mult_le_mono1) simp
  then have mem: "k + i div 8 < length (font_table font)" if "i < ?W" for i
  proof -
    have "i div 8 < row_bytes font" using that by (simp add: row_bytes_def)
    then show ?thesis using has last unfolding has_char_def k by simp
  qed
  have step: "yields (do {
      b \<leftarrow> rd (font_table font) k';
      p1 \<leftarrow> (if bit b (7 - i mod 8) then paint_DrawPoint cfg c (of_int (int x + int i)) (of_int (int y + int j)) r else Some r);
      Some (if i mod 8 = 7 then k' + 1 else k', p1) })
    (\<lambda>(k', r). k' = k + Suc i div 8 \<and> paints cfg (ink p x y (?G (Suc i))) c q r)"
    if i: "i < ?W" and k': "k' = k + i div 8" and r: "paints cfg (ink p x y (?G i)) c q r" for i k' r
  proof -
    have fr: "same_frame p r" "frame_ok cfg r" using r f same_frame_trans by (auto simp: paints_def)
    have bit: "bit (font_table font ! k') (7 - i mod 8) \<longleftrightarrow> (i, j) \<in> glyph font ch"
      using i j by (simp add: glyph_def k' k)
    have G: "?G (Suc i) = (if (i, j) \<in> glyph font ch then ?G i \<union> {(i, j)} else ?G i)" by (auto simp: less_Suc_eq)
    have "yields (if (i, j) \<in> glyph font ch then paint_DrawPoint cfg c (of_int (int x + int i)) (of_int (int y + int j)) r else Some r)
        (paints cfg (ink p x y (?G (Suc i))) c q)"
    proof (cases "(i, j) \<in> glyph font ch")
      case True
      have ink: "ink p x y (?G (Suc i)) = ink p x y (?G i) \<union> {spot p (x + i) (y + j)}"
        using True by (simp only: G if_True ink_Un) (simp add: ink_def)
      have "yields (paint_DrawPoint cfg c (of_int (int x + int i)) (of_int (int y + int j)) r) (paints cfg (ink p x y (?G (Suc i))) c q)"
        unfolding ink by (rule yields_mono [OF draw_int [OF fr(2,1)] paints_more [OF r]]) (use i j fit in simp_all)
      then show ?thesis using True by simp
    next
      case False
      then show ?thesis using r G by simp
    qed
    then show ?thesis
      using mem [OF i]
      by (cases "(i, j) \<in> glyph font ch") (simp_all add: k' bit [unfolded k'] wp div_8_Suc [symmetric] del: of_int_add)
  qed
  have "yields (for_loop 0 ?W (\<lambda>i (k, p). do {
        b \<leftarrow> rd (font_table font) k;
        p1 \<leftarrow> (if bit b (7 - i mod 8) then paint_DrawPoint cfg c (of_int (int x + int i)) (of_int (int y + int j)) p else Some p);
        Some (if i mod 8 = 7 then k + 1 else k, p1) }) (k, q))
      ((\<lambda>n (k', r). k' = k + n div 8 \<and> paints cfg (ink p x y (?G n)) c q r) (0 + ?W))"
    by (rule for_loop_inv) (use step paints_nothing [OF ok] in auto)
  moreover have "?G ?W = {(i, l). (i, l) \<in> glyph font ch \<and> l = j}" by (auto simp: glyph_def)
  moreover have "row_bytes font = (if ?W mod 8 \<noteq> 0 then ?W div 8 + 1 else ?W div 8)"
    unfolding row_bytes_def by presburger
  ultimately show ?thesis
    unfolding font_row_def by (auto simp: wp elim!: yields_mono)
qed

lemma font_paints:
  assumes ok: "frame_ok cfg q" and f: "same_frame p q" and has: "has_char font ch"
    and fit: "x + unat (Width font) \<le> unat (x_end p)" "y + unat (Height font) \<le> unat (y_end p)"
  shows "yields (for_loop 0 (unat (Height font)) (\<lambda>j. font_row cfg font c (int x) (int y + int j))
      (unat (ch - 32) * unat (Height font) * row_bytes font, q)) (\<lambda>(k, r). paints cfg (ink p x y (glyph font ch)) c q r)"
proof -
  let ?H = "unat (Height font)" and ?b = "unat (ch - 32) * unat (Height font)"
  let ?G = "\<lambda>n. {(i, l). (i, l) \<in> glyph font ch \<and> l < n}"
  have step: "yields (font_row cfg font c (int x) (int y + int j) (k, r)) (\<lambda>(k', t). k' = (?b + Suc j) * row_bytes font \<and>
      paints cfg (ink p x y (?G (Suc j))) c q t)"
    if j: "j < ?H" and k: "k = (?b + j) * row_bytes font" and r: "paints cfg (ink p x y (?G j)) c q r" for j k r
  proof -
    have fr: "same_frame p r" "frame_ok cfg r" using r f same_frame_trans by (auto simp: paints_def)
    have G: "?G (Suc j) = ?G j \<union> {(i, l). (i, l) \<in> glyph font ch \<and> l = j}" by (auto simp: less_Suc_eq)
    show ?thesis
      unfolding G ink_Un
      by (rule yields_mono [OF font_row_paints [OF fr(2,1) j fit k has]])
        (auto simp: k algebra_simps intro: paints_more [OF r])
  qed
  have "yields (for_loop 0 ?H (\<lambda>j. font_row cfg font c (int x) (int y + int j)) (?b * row_bytes font, q))
      ((\<lambda>n (k, r). k = (?b + n) * row_bytes font \<and> paints cfg (ink p x y (?G n)) c q r) (0 + ?H))"
    by (rule for_loop_inv) (use step paints_nothing [OF ok] in auto)
  moreover have "?G ?H = glyph font ch" by (auto simp: glyph_def)
  ultimately show ?thesis by (auto elim!: yields_mono)
qed

text \<open>A character that does not fit is not drawn, one that does is drawn completely.\<close>

definition char_points :: "paint_obj_t \<Rightarrow> sFONT \<Rightarrow> u8 \<Rightarrow> nat \<Rightarrow> nat \<Rightarrow> (nat \<times> nat) set" where
  "char_points p font c x y =
     (if x + unat (Width font) \<le> unat (x_end p) \<and> y + unat (Height font) \<le> unat (y_end p) then ink p x y (glyph font c) else {})"

lemma int_compare:
  assumes "x < 2 ^ 31" "n < 2 ^ 16"
  shows "(e :: u32) < of_int (int x + int n) \<longleftrightarrow> unat e < x + n"
proof -
  have "(of_int (int x + int n) :: u32) = of_nat (x + n)" by simp
  moreover have "x + n < 2 ^ 32" using assms by simp
  ultimately show ?thesis by (simp add: word_less_nat_alt unat_of_nat del: of_nat_add)
qed

lemma unat_u16_small: "unat (w :: u16) < 2 ^ 16"
  using unsigned_less [of w, where 'a = nat] by simp

lemma char_paints:
  assumes ok: "frame_ok cfg q" and f: "same_frame p q" and has: "has_char font ch" and xy: "x < 2 ^ 31" "y < 2 ^ 31"
  shows "yields (paint_DrawFont cfg ch font c (int x) (int y) q) (paints cfg (char_points p font ch x y) c q)"
proof (cases "x + unat (Width font) \<le> unat (x_end p) \<and> y + unat (Height font) \<le> unat (y_end p)")
  case True
  then have "\<not> (x_end q < of_int (int x + int (unat (Width font))) \<or> y_end q < of_int (int y + int (unat (Height font))))"
    using int_compare [OF xy(1) unat_u16_small] int_compare [OF xy(2) unat_u16_small] by (simp add: same_frame_simps [OF f] not_less)
  moreover note font_paints [OF ok f has, of x y c] True
  ultimately show ?thesis
    by (simp add: paint_DrawFont_def char_points_def row_bytes_def wp case_prod_unfold Let_def del: of_int_add)
next
  case False
  then have "x_end q < of_int (int x + int (unat (Width font))) \<or> y_end q < of_int (int y + int (unat (Height font)))"
    using int_compare [OF xy(1) unat_u16_small] int_compare [OF xy(2) unat_u16_small] by (simp add: same_frame_simps [OF f] not_le)
  moreover have "paints cfg (char_points p font ch x y) c q q" unfolding char_points_def if_not_P [OF False] by (rule paints_nothing [OF ok])
  ultimately show ?thesis by (simp add: paint_DrawFont_def del: of_int_add)
qed

fun text_points :: "paint_obj_t \<Rightarrow> sFONT \<Rightarrow> u8 list \<Rightarrow> nat \<Rightarrow> nat \<Rightarrow> (nat \<times> nat) set" where
  "text_points p font [] x y = {}"
| "text_points p font (c # cs) x y =
     (if x + unat (Width font) \<le> unat (x_end p)
      then char_points p font c x y \<union> text_points p font cs (x + unat (Width font)) y else {})"

lemma chars_paint:
  assumes "frame_ok cfg q" "same_frame p q" "\<forall>ch \<in> set s. has_char font ch" "x < 2 ^ 31" "y < 2 ^ 31"
  shows "yields (draw_chars cfg font c (int y) s (int x) q) (paints cfg (text_points p font s x y) c q)"
  using assms
proof (induction s arbitrary: q x)
  case Nil
  then show ?case by (simp add: paints_nothing)
next
  case (Cons ch s)
  let ?W = "unat (Width font)"
  have le: "of_int (int x + int ?W) \<le> x_end q \<longleftrightarrow> x + ?W \<le> unat (x_end p)"
    using int_compare [OF Cons.prems(4) unat_u16_small, of "x_end q" "Width font"] by (simp add: same_frame_simps [OF Cons.prems(2)] not_less [symmetric])
  show ?case
  proof (cases "x + ?W \<le> unat (x_end p)")
    case True
    have small: "x + ?W < 2 ^ 31"
      using True Cons.prems(1) by (auto simp: frame_ok_def same_frame_simps [OF Cons.prems(2)] split: if_splits)
    have "yields (draw_chars cfg font c (int y) s (int (x + ?W)) r) (paints cfg (text_points p font (ch # s) x y) c q)"
      if r: "paints cfg (char_points p font ch x y) c q r" for r
    proof -
      have "same_frame p r" "frame_ok cfg r" using r Cons.prems(2) same_frame_trans by (auto simp: paints_def)
      from Cons.IH [OF this(2,1) _ small Cons.prems(5)] show ?thesis
        using Cons.prems(3) True paints_more [OF r] by (auto elim!: yields_mono)
    qed
    then show ?thesis
      using le True by (simp add: yields_bindI [OF char_paints [OF Cons.prems(1,2) _ Cons.prems(4,5)]] Cons.prems(3) del: of_int_add)
  next
    case False
    then show ?thesis using le by (simp add: paints_nothing [OF Cons.prems(1)] del: of_int_add)
  qed
qed

lemma text_paints:
  assumes "frame_ok cfg p" "s \<noteq> []" "\<forall>ch \<in> set s. has_char font ch" "x < 2 ^ 31" "y < 2 ^ 31"
  shows "yields (paint_DrawString cfg s font c (int x) (int y) p) (paints cfg (text_points p font s x y) c p)"
  using chars_paint [OF assms(1) _ assms(3-5), of p] assms(2) by (simp add: paint_DrawString_def same_frame_def)

subsection \<open>The frame at the start\<close>

lemma init_frame:
  assumes "wd p mod 8 = 0" "wd p < 2 ^ 15" "ht p < 2 ^ 15" "unat (band_height p) < 2 ^ 15"
    and "length (wb_buffer p) = rows p * (wd p div 8)" "three_colors cfg \<longrightarrow> length (rw_buffer p) = rows p * (wd p div 8)"
  shows "frame_ok cfg (paint_Init p)"
proof -
  have "of_nat (wd p div 8) = p_width p div 8"
    using assms(2) by (simp add: word_unat_eq_iff unat_of_nat unat_div_u32)
  then have "p_buffer_size (paint_Init p) = of_nat (rows p * (wd p div 8))"
    by (simp add: paint_Init_def rows_def)
  then show ?thesis
    using assms by (auto simp: frame_ok_def paint_Init_def paint_SetDirection_def turned_def rows_def)
qed

lemma direction_frame: "frame_ok cfg p \<Longrightarrow> frame_ok cfg (paint_SetDirection d p)"
  by (auto simp: frame_ok_def paint_SetDirection_def turned_def rows_def)

lemma band_frame: "frame_ok cfg p \<Longrightarrow> unat y < 2 ^ 16 \<Longrightarrow> frame_ok cfg (paint_SetBand y p)"
  by (simp add: frame_ok_def paint_SetBand_def turned_def rows_def)

lemma all_bits_bit: "n < 8 \<Longrightarrow> bit (all_bits v) n = v"
proof -
  assume "n < 8"
  moreover have m: "(0xff :: u8) = mask 8" by (simp add: mask_eq_exp_minus_1)
  ultimately show ?thesis unfolding all_bits_def m by (simp add: bit_mask_iff)
qed

lemma fill_paints:
  assumes ok: "frame_ok cfg p"
  shows "yields (paint_Fill cfg c p) (paints cfg UNIV c p)"
proof -
  let ?N = "rows p * (wd p div 8)"
  have "rows p < 2 ^ 15" "wd p div 8 < 2 ^ 12" using ok by (auto simp: frame_ok_def rows_def)
  then have "?N \<le> 2 ^ 15 * 2 ^ 12" by (intro mult_le_mono) simp_all
  then have n: "unat (p_buffer_size p) = ?N" using ok by (simp add: frame_ok_def unat_of_nat del: of_nat_mult)
  have l: "length (wb_buffer p) = ?N" "three_colors cfg \<longrightarrow> length (rw_buffer p) = ?N" using ok by (simp_all add: frame_ok_def)
  let ?wb = "replicate ?N (all_bits (if c = BLACK then wb_on cfg else \<not> wb_on cfg))"
  let ?rw = "if three_colors cfg then replicate ?N (all_bits (if c = RED then rw_on cfg else \<not> rw_on cfg)) else rw_buffer p"
  have f: "paint_Fill cfg c p = Some (p\<lparr>wb_buffer := ?wb, rw_buffer := ?rw\<rparr>)"
    using l by (simp add: paint_Fill_def n fill_mem_def wr_mem_in Let_def)
  have "picture cfg (p\<lparr>wb_buffer := ?wb, rw_buffer := ?rw\<rparr>) x y = shown_color cfg c" if x: "x < wd p" "in_frame p y" for x y
  proof -
    have "y - first_row p < rows p" using x(2) by (auto simp: in_frame_def)
    then have "(y - first_row p) * (wd p div 8) + (wd p div 8) \<le> ?N" by (metis Suc_leI add.commute mult_Suc mult_le_mono1)
    then have I: "(y - first_row p) * (wd p div 8) + x div 8 < ?N" using width_bytes [OF ok x(1)] by simp
    have "picture cfg (p\<lparr>wb_buffer := ?wb, rw_buffer := ?rw\<rparr>) x y =
        byte_color cfg (?wb ! ((y - first_row p) * (wd p div 8) + x div 8)) (?rw ! ((y - first_row p) * (wd p div 8) + x div 8)) (pixel_bit cfg x)"
      unfolding picture_def pixel_at_def by (simp add: first_row_def)
    then show ?thesis
      using I by (cases c) (simp_all add: byte_color_def all_bits_bit shown_color_def)
  qed
  moreover have "frame_ok cfg (p\<lparr>wb_buffer := ?wb, rw_buffer := ?rw\<rparr>)" by (rule frame_ok_buffers [OF ok]) (use l in simp_all)
  ultimately show ?thesis by (simp add: f paints_def same_frame_def)
qed

subsection \<open>Pictures compared\<close>

text \<open>Two frames of the same display, that may hold different bands of it.\<close>

definition same_display :: "paint_obj_t \<Rightarrow> paint_obj_t \<Rightarrow> bool" where
  "same_display p q \<longleftrightarrow> p_width q = p_width p \<and> p_height q = p_height p \<and> direction q = direction p \<and> scanmode q = scanmode p"

lemma same_display_spot:
  assumes "frame_ok cfg p" "frame_ok cfg q" "same_display p q"
  shows "spot q = spot p" "x_end q = x_end p" "y_end q = y_end p"
  using assms
  by (auto simp: fun_eq_iff same_display_def spot_def flipped_def frame_ok_def turned_def split: paint_direction_t.splits)

lemma text_points_display:
  assumes "frame_ok cfg p" "frame_ok cfg q" "same_display p q"
  shows "text_points q font s x y = text_points p font s x y"
  using same_display_spot [OF assms] by (induction s arbitrary: x) (simp_all add: char_points_def ink_def)

text \<open>Painted alike, they show the same where both hold a row.\<close>

lemma same_paint:
  assumes "paints cfg S c p p'" "paints cfg S c q q'" "same_display p q"
    and "x < wd p" "in_frame p y" "in_frame q y" "picture cfg p x y = picture cfg q x y"
  shows "picture cfg p' x y = picture cfg q' x y"
  using assms by (simp add: paints_def same_display_def)

fun draw_points :: "paint_config \<Rightarrow> paint_color_t \<Rightarrow> (u32 \<times> u32) list \<Rightarrow> paint_obj_t \<Rightarrow> paint_obj_t option" where
  "draw_points cfg c [] p = Some p"
| "draw_points cfg c ((x, y) # ps) p = Option.bind (paint_DrawPoint cfg c x y p) (draw_points cfg c ps)"

lemma points_paint:
  assumes "frame_ok cfg q" "same_frame p q" "\<forall>(x, y) \<in> set ps. on_display p (unat x) (unat y)"
  shows "yields (draw_points cfg c ps q) (paints cfg ((\<lambda>(x, y). spot p (unat x) (unat y)) ` set ps) c q)"
  using assms
proof (induction ps arbitrary: q)
  case (Cons xy ps)
  obtain x y where xy: "xy = (x, y)" by (cases xy)
  have d: "on_display q (unat x) (unat y)" using Cons.prems(2,3) same_spot by (simp add: xy)
  have "yields (draw_points cfg c ps r) (paints cfg ((\<lambda>(x, y). spot p (unat x) (unat y)) ` set (xy # ps)) c q)"
    if r: "paints cfg {spot p (unat x) (unat y)} c q r" for r
  proof -
    have "same_frame p r" "frame_ok cfg r" using r Cons.prems(2) same_frame_trans by (auto simp: paints_def)
    from Cons.IH [OF this(2,1)] show ?thesis using Cons.prems(3) paints_more [OF r] by (auto simp: xy elim!: yields_mono)
  qed
  then show ?case
    using point_paints [OF Cons.prems(1), of c x y] d same_spot [OF Cons.prems(2)] by (auto simp: xy intro: yields_bindI)
qed (simp add: paints_nothing)

end
