(* ===== verification/Hw_Display.thy ===== *)
theory Hw_Display
  imports Hw_Paint Hw_Storage Text_Format
begin

unbundle bit_operations_syntax

text \<open>
  The display drivers of the peripheral sample, \<open>samples/peripheral_esl/hw/display\<close>: \<open>epd_shield_display.c\<close> and
  \<open>epd_shield_uc81xx_display.c\<close> on Zephyr's display interface, \<open>epd_display.c\<close> on the functions of a panel, the
  simulated displays \<open>led_display.c\<close> and \<open>dummy_display.c\<close>, and the LEDs of \<open>hw/led\<close>. Calls of the hardware are
  recorded; what they return is a function of the calls so far, the last one included. \<open>None\<close> is undefined behaviour.
\<close>

subsection \<open>Hardware and configuration\<close>

datatype gpio_pin = Reset_gpio | Dc_gpio | Busy_gpio
datatype gpio_mode = GPIO_OUTPUT_INACTIVE | GPIO_INPUT | GPIO_DISCONNECTED

record display_buffer_descriptor =
  bd_buf_size :: u32
  bd_width :: u16
  bd_height :: u16
  bd_pitch :: u16

datatype hw_call =
    Gpio_pin_configure gpio_pin gpio_mode | Gpio_pin_set gpio_pin bool
  | Pinctrl_sleep | Pinctrl_default | Pm_suspend | Pm_resume | Spi_reset | K_msleep nat
  | Controller_init \<comment> \<open>\<open>ssd16xx_init\<close>, \<open>uc81xx_init\<close>, \<open>DEV_Module_Init\<close>\<close>
  | Set_pixel_format | Blanking_on | Blanking_off
  | Display_write u16 u16 display_buffer_descriptor "u8 list"
  | Cfb_init | Cfb_invert | Cfb_set_font | Cfb_clear | Cfb_print "u8 list" u16 u16 | Cfb_finalize
  | Epd_init | Epd_clear | Epd_full "u8 list" "u8 list option" | Epd_write u16 u32 u16 "u8 list" | Epd_turn_on
  | Dk_leds_init | Dk_set_led u8 bool | Led_set_brightness u8 u8 | Led_off u8

type_synonym hw_results = "hw_call list \<Rightarrow> int"

datatype image_storage = OTS_NVS | OTS_LFS | OTS_NONE

record disp_config =
  power_profile :: bool
  controller_compat :: bool \<comment> \<open>a \<open>ssd16xx\<close>, or a \<open>uc8176\<close> or \<open>uc8179\<close>\<close>
  image_storage :: image_storage
  character_framebuffer :: bool
  jf_paint_lib :: bool
  display_type_6 :: bool
  esl_display_width :: u32
  esl_display_height :: u32
  esl_image_buffer_size :: nat
  bt_dis_model :: string

text \<open>\<open>img_buf\<close> is \<open>img_obj_buf\<close> of the service, \<open>storage\<close> the state behind its callbacks, the rest are static variables.\<close>

record 'st disp =
  img_buf :: "u8 list"
  storage :: 'st
  x_resolution :: u16
  y_resolution :: u16
  buf_desc :: display_buffer_descriptor
  hw_calls :: "hw_call list"

abbreviation (input) ENODEV :: int where "ENODEV \<equiv> 19"

definition hw :: "hw_results \<Rightarrow> hw_call \<Rightarrow> ('st, 'm) disp_scheme \<Rightarrow> int \<times> ('st, 'm) disp_scheme" where
  "hw rc x d = (rc (hw_calls d @ [x]), d\<lparr>hw_calls := hw_calls d @ [x]\<rparr>)"

definition hw_do :: "hw_call list \<Rightarrow> ('st, 'm) disp_scheme \<Rightarrow> ('st, 'm) disp_scheme" where
  "hw_do xs d = d\<lparr>hw_calls := hw_calls d @ xs\<rparr>"

text \<open>Calls of which each returns from the function when it fails.\<close>

fun hw_try :: "hw_results \<Rightarrow> hw_call list \<Rightarrow> ('st, 'm) disp_scheme \<Rightarrow> int \<times> ('st, 'm) disp_scheme" where
  "hw_try rc [] d = (0, d)"
| "hw_try rc (x # xs) d = (let (err, d1) = hw rc x d in if err < 0 then (err, d1) else hw_try rc xs d1)"

subsection \<open>Power\<close>

abbreviation (input) EPD_POWER_ON :: u8 where "EPD_POWER_ON \<equiv> 0"
abbreviation (input) EPD_POWER_OFF :: u8 where "EPD_POWER_OFF \<equiv> 1"
abbreviation (input) EPD_POWER_OFF_IMMEDIATELY :: u8 where "EPD_POWER_OFF_IMMEDIATELY \<equiv> 2"

definition ssd_epd_onoff :: "hw_results \<Rightarrow> u8 \<Rightarrow> ('st, 'm) disp_scheme \<Rightarrow> int \<times> ('st, 'm) disp_scheme" where
  "ssd_epd_onoff rc mode d =
     (if mode = EPD_POWER_ON then
        (let (err, d1) = hw_try rc [Gpio_pin_configure Reset_gpio GPIO_OUTPUT_INACTIVE, Gpio_pin_configure Dc_gpio GPIO_OUTPUT_INACTIVE,
            Gpio_pin_configure Busy_gpio GPIO_INPUT] d
         in if err < 0 then (err, d1) else (0, hw_do [Pm_resume] d1))
      else if mode = EPD_POWER_OFF \<or> mode = EPD_POWER_OFF_IMMEDIATELY then
        hw_try rc [Gpio_pin_set Reset_gpio True, Gpio_pin_configure Dc_gpio GPIO_DISCONNECTED,
            Gpio_pin_configure Busy_gpio GPIO_DISCONNECTED, Pinctrl_sleep]
          (hw_do ([Pm_suspend, Spi_reset] @ (if mode = EPD_POWER_OFF then [K_msleep 3500] else [])) d)
      else (0, d))"

definition uc_epd_onoff :: "hw_results \<Rightarrow> u8 \<Rightarrow> ('st, 'm) disp_scheme \<Rightarrow> int \<times> ('st, 'm) disp_scheme" where
  "uc_epd_onoff rc mode d =
     (if mode = EPD_POWER_ON then
        (let (err, d1) = hw_try rc [Gpio_pin_configure Reset_gpio GPIO_OUTPUT_INACTIVE, Gpio_pin_configure Dc_gpio GPIO_OUTPUT_INACTIVE,
            Pinctrl_default] d
         in if err < 0 then (err, d1) else (0, hw_do [Pm_resume] d1))
      else if mode = EPD_POWER_OFF \<or> mode = EPD_POWER_OFF_IMMEDIATELY then
        hw_try rc [Gpio_pin_set Reset_gpio True, Gpio_pin_configure Dc_gpio GPIO_DISCONNECTED,
            Gpio_pin_configure Busy_gpio GPIO_DISCONNECTED, Pinctrl_sleep]
          (hw_do ([Pm_suspend, Spi_reset] @ (if mode = EPD_POWER_OFF then [K_msleep 8000] else [])) d)
      else (0, d))"

definition epd_onoff :: "hw_results \<Rightarrow> u8 \<Rightarrow> ('st, 'm) disp_scheme \<Rightarrow> int \<times> ('st, 'm) disp_scheme" where
  "epd_onoff rc mode d =
     (if mode = EPD_POWER_ON then (0, hw_do [Pm_resume] d)
      else if mode = EPD_POWER_OFF \<or> mode = EPD_POWER_OFF_IMMEDIATELY then
        hw_try rc [Gpio_pin_set Reset_gpio False, Gpio_pin_configure Dc_gpio GPIO_DISCONNECTED,
            Gpio_pin_configure Busy_gpio GPIO_DISCONNECTED, Pinctrl_sleep]
          (hw_do ([Pm_suspend, Spi_reset] @ (if mode = EPD_POWER_OFF then [K_msleep 3500] else [])) d)
      else (0, d))"

text \<open>The callers do not look at what it returns.\<close>

definition ssd_power_on :: "disp_config \<Rightarrow> hw_results \<Rightarrow> ('st, 'm) disp_scheme \<Rightarrow> ('st, 'm) disp_scheme" where
  "ssd_power_on c rc d = (if power_profile c
     then hw_do (if controller_compat c then [Controller_init] else []) (snd (ssd_epd_onoff rc EPD_POWER_ON d)) else d)"

definition ssd_power_off :: "disp_config \<Rightarrow> hw_results \<Rightarrow> ('st, 'm) disp_scheme \<Rightarrow> ('st, 'm) disp_scheme" where
  "ssd_power_off c rc d = (if power_profile c then snd (ssd_epd_onoff rc EPD_POWER_OFF d) else d)"

definition uc_power_on :: "disp_config \<Rightarrow> hw_results \<Rightarrow> ('st, 'm) disp_scheme \<Rightarrow> ('st, 'm) disp_scheme" where
  "uc_power_on c rc d = (if power_profile c
     then hw_do (if controller_compat c then [Controller_init] else []) (snd (uc_epd_onoff rc EPD_POWER_ON d)) else d)"

definition uc_power_off :: "disp_config \<Rightarrow> hw_results \<Rightarrow> ('st, 'm) disp_scheme \<Rightarrow> ('st, 'm) disp_scheme" where
  "uc_power_off c rc d = (if power_profile c then snd (uc_epd_onoff rc EPD_POWER_OFF d) else d)"

definition epd_power_on :: "disp_config \<Rightarrow> hw_results \<Rightarrow> hw_call list \<Rightarrow> ('st, 'm) disp_scheme \<Rightarrow> ('st, 'm) disp_scheme" where
  "epd_power_on c rc xs d = (if power_profile c then hw_do xs (snd (epd_onoff rc EPD_POWER_ON d)) else d)"

definition epd_power_off :: "disp_config \<Rightarrow> hw_results \<Rightarrow> ('st, 'm) disp_scheme \<Rightarrow> ('st, 'm) disp_scheme" where
  "epd_power_off c rc d = (if power_profile c then snd (epd_onoff rc EPD_POWER_OFF d) else d)"

subsection \<open>Images\<close>

definition disp_read_image :: "'st callbacks \<Rightarrow> u8 \<Rightarrow> nat \<Rightarrow> int \<Rightarrow> ('st, 'm) disp_scheme \<Rightarrow> (int \<times> ('st, 'm) disp_scheme) option" where
  "disp_read_image cb img_idx len offset d = do {
     f \<leftarrow> cb_read_img cb;
     (err, b, st) \<leftarrow> f img_idx (img_buf d) len offset (storage d);
     Some (err, d\<lparr>img_buf := b, storage := st\<rparr>) }"

definition disp_close_image :: "'st callbacks \<Rightarrow> ('st, 'm) disp_scheme \<Rightarrow> ('st, 'm) disp_scheme" where
  "disp_close_image cb d = (case cb_close_image cb of None \<Rightarrow> d | Some f \<Rightarrow> d\<lparr>storage := snd (f (storage d))\<rparr>)"

text \<open>The header in the buffer: \<open>struct waveshare_gray_head\<close>, six bytes, packed.\<close>

abbreviation (input) head_size :: nat where "head_size \<equiv> 6"

definition head_w :: "('st, 'm) disp_scheme \<Rightarrow> u16" where "head_w d = of_le16 (drop 2 (img_buf d))"
definition head_h :: "('st, 'm) disp_scheme \<Rightarrow> u16" where "head_h d = of_le16 (drop 4 (img_buf d))"

text \<open>The product of the sizes is an \<open>int\<close>.\<close>

definition describe_image :: "('st, 'm) disp_scheme \<Rightarrow> ('st, 'm) disp_scheme option" where
  "describe_image d =
     (if length (img_buf d) < head_size \<or> 2 ^ 31 \<le> unat (head_w d) * unat (head_h d) then None
      else Some (d\<lparr>buf_desc := \<lparr>bd_buf_size = of_nat (unat (head_w d) * unat (head_h d) div 8),
        bd_width = head_w d, bd_height = head_h d, bd_pitch = head_w d\<rparr>\<rparr>))"

definition check_image :: "u32 \<Rightarrow> ('st, 'm) disp_scheme \<Rightarrow> int" where
  "check_image img_size d =
     (if img_size < bd_buf_size (buf_desc d) then - EINVAL
      else if head_w d = 0 \<or> head_h d = 0 then - EINVAL
      else if x_resolution d < head_w d \<or> y_resolution d < head_h d then - EINVAL
      else 0)"

text \<open>The size of the image, what reading its header returned and what checking the header found; \<open>opens\<close>: the file is opened first.\<close>

definition load_image ::
  "disp_config \<Rightarrow> 'st callbacks \<Rightarrow> bool \<Rightarrow> u8 \<Rightarrow> ('st, 'm) disp_scheme \<Rightarrow> (u32 \<times> int \<times> int \<times> ('st, 'm) disp_scheme) option" where
  "load_image c cb opens img_idx d = do {
     b \<leftarrow> wr_mem (img_buf d) 0 (replicate (esl_image_buffer_size c) 0);
     let img_size = cb_read_img_size cb img_idx (storage d);
     let st = (case cb_open_image cb of Some f \<Rightarrow> if opens then snd (f img_idx (storage d)) else storage d | None \<Rightarrow> storage d);
     (err, d1) \<leftarrow> disp_read_image cb img_idx head_size 0 (d\<lparr>img_buf := b, storage := st\<rparr>);
     d2 \<leftarrow> describe_image d1;
     Some (img_size, err, check_image img_size d2, d2) }"

text \<open>A write takes as many bytes from \<open>buf\<close> as the descriptor says.\<close>

definition display_write ::
  "hw_results \<Rightarrow> u16 \<Rightarrow> u8 list \<Rightarrow> ('st, 'm) disp_scheme \<Rightarrow> (int \<times> ('st, 'm) disp_scheme) option" where
  "display_write rc y buf d = do {
     b \<leftarrow> rd_mem buf 0 (unat (bd_buf_size (buf_desc d)));
     Some (hw rc (Display_write 0 y (buf_desc d) b) d) }"

subsection \<open>Images in chunks\<close>

text \<open>
  The loop over a file with \<open>left\<close> bytes left: \<open>emit\<close> shows the chunk in the buffer. It says whether a failure
  left the loop, and the last code. The chunk that remains after one of \<open>chunk\<close> bytes is \<open>next_chunk\<close>.
\<close>

definition draw_chunk ::
  "'st callbacks \<Rightarrow> u8 \<Rightarrow> (u16 \<Rightarrow> u32 \<Rightarrow> ('st, 'm) disp_scheme \<Rightarrow> (int \<times> ('st, 'm) disp_scheme) option) \<Rightarrow>
    u32 \<Rightarrow> u32 \<Rightarrow> u16 \<Rightarrow> ('st, 'm) disp_scheme \<Rightarrow> (int \<times> ('st, 'm) disp_scheme) option" where
  "draw_chunk cb img_idx emit chunk cur_pos cur_y d = do {
     (err, d1) \<leftarrow> disp_read_image cb img_idx (unat chunk) (sint (cur_pos + 6)) d;
     emit cur_y chunk (d1\<lparr>buf_desc := (buf_desc d1)\<lparr>bd_buf_size := chunk\<rparr>\<rparr>) }"

definition next_chunk :: "u32 \<Rightarrow> u32 \<Rightarrow> ('st, 'm) disp_scheme \<Rightarrow> u32 \<times> ('st, 'm) disp_scheme" where
  "next_chunk left chunk d =
     (if left < chunk then (left, d\<lparr>buf_desc := (buf_desc d)\<lparr>bd_height := ucast (left * 8 div ucast (bd_width (buf_desc d)))\<rparr>\<rparr>)
      else (chunk, d))"

definition row_of :: "u32 \<Rightarrow> ('st, 'm) disp_scheme \<Rightarrow> u16" where
  "row_of cur_pos d = ucast (cur_pos * 8 div ucast (bd_width (buf_desc d)))"

partial_function (option) draw_chunks ::
  "'st callbacks \<Rightarrow> u8 \<Rightarrow> (u16 \<Rightarrow> u32 \<Rightarrow> ('st, 'm) disp_scheme \<Rightarrow> (int \<times> ('st, 'm) disp_scheme) option) \<Rightarrow>
    u32 \<Rightarrow> u32 \<Rightarrow> u32 \<Rightarrow> u16 \<Rightarrow> int \<Rightarrow> ('st, 'm) disp_scheme \<Rightarrow> (bool \<times> int \<times> ('st, 'm) disp_scheme) option" where
  "draw_chunks cb img_idx emit left chunk cur_pos cur_y err d =
     (if left = 0 then Some (False, err, d)
      else Option.bind (draw_chunk cb img_idx emit chunk cur_pos cur_y d) (\<lambda>(err, d1).
        if err \<noteq> 0 then Some (True, err, d1)
        else (case next_chunk (left - chunk) chunk d1 of (chunk2, d2) \<Rightarrow>
          draw_chunks cb img_idx emit (left - chunk) chunk2 (cur_pos + chunk) (row_of (cur_pos + chunk) d2) err d2)))"

definition draw_file ::
  "'st callbacks \<Rightarrow> u8 \<Rightarrow> (u16 \<Rightarrow> u32 \<Rightarrow> ('st, 'm) disp_scheme \<Rightarrow> (int \<times> ('st, 'm) disp_scheme) option) \<Rightarrow>
    u32 \<Rightarrow> int \<Rightarrow> ('st, 'm) disp_scheme \<Rightarrow> (bool \<times> int \<times> ('st, 'm) disp_scheme) option" where
  "draw_file cb img_idx emit img_size err d =
     draw_chunks cb img_idx emit (img_size - 6) (ucast (bd_width (buf_desc d))) 0 0 err (d\<lparr>buf_desc := (buf_desc d)\<lparr>bd_height := 8\<rparr>\<rparr>)"

subsection \<open>The shield with an SSD16xx\<close>

definition write_nvs_image ::
  "'st callbacks \<Rightarrow> hw_results \<Rightarrow> u8 \<Rightarrow> u32 \<Rightarrow> ('st, 'm) disp_scheme \<Rightarrow> (int \<times> ('st, 'm) disp_scheme) option" where
  "write_nvs_image cb rc img_idx img_size d = do {
     (err, d1) \<leftarrow> disp_read_image cb img_idx (unat img_size) 0 d;
     display_write rc 0 (drop head_size (img_buf d1)) d1 }"

definition write_chunk :: "hw_results \<Rightarrow> u16 \<Rightarrow> u32 \<Rightarrow> ('st, 'm) disp_scheme \<Rightarrow> (int \<times> ('st, 'm) disp_scheme) option" where
  "write_chunk rc cur_y chunk d = display_write rc cur_y (img_buf d) d"

definition ssd_display_control ::
  "disp_config \<Rightarrow> 'st callbacks \<Rightarrow> hw_results \<Rightarrow> u8 \<Rightarrow> ('st, 'm) disp_scheme \<Rightarrow> (int \<times> ('st, 'm) disp_scheme) option" where
  "ssd_display_control c cb rc img_idx d = do {
     (img_size, err, bad, d1) \<leftarrow> load_image c cb True img_idx (ssd_power_on c rc d);
     (if bad \<noteq> 0 then Some (bad, disp_close_image cb d1)
      else do {
        (stopped, err, d2) \<leftarrow> (case image_storage c of
            OTS_NVS \<Rightarrow> do { (err, d2) \<leftarrow> write_nvs_image cb rc img_idx img_size (hw_do [Blanking_on] d1); Some (False, err, d2) }
          | OTS_LFS \<Rightarrow> draw_file cb img_idx (write_chunk rc) img_size err (hw_do [Blanking_on] d1)
          | OTS_NONE \<Rightarrow> Some (False, err, hw_do [Blanking_on] d1));
        let d3 = hw_do [Blanking_off] d2;
        Some (err, disp_close_image cb (if stopped then d3 else ssd_power_off c rc d3)) }) }"

definition ascii :: "string \<Rightarrow> u8 list" where
  "ascii s = map of_char s"

definition tag_label :: "u16 \<Rightarrow> u8 list" where
  "tag_label addr = ascii (''ESL TAG 0x'' @ format_hex lower_digits 4 (unat addr))"

definition ssd_display_init :: "disp_config \<Rightarrow> hw_results \<Rightarrow> bool \<Rightarrow> u16 \<Rightarrow> u16 \<Rightarrow> bool \<Rightarrow> ('st, 'm) disp_scheme \<Rightarrow> int \<times> ('st, 'm) disp_scheme" where
  "ssd_display_init c rc is_ready x_res y_res display d =
     (if display \<and> \<not> is_ready then (- ENODEV, d)
      else (let d0 = (if display then d\<lparr>x_resolution := x_res, y_resolution := y_res\<rparr> else d)
        in if character_framebuffer c then
          (let (err, d1) = hw rc Set_pixel_format d0
           in if err \<noteq> 0 then (0, d1)
              else (let (err2, d2) = hw rc Cfb_init d1
                in if err2 \<noteq> 0 then (0, d2)
                   else (0, hw_do (Cfb_invert # (if controller_compat c then [Cfb_set_font] else [])) d2)))
        else (0, d0)))"

text \<open>The character frame buffer: the lines of text, one below the other.\<close>

definition cfb_lines :: "u8 \<Rightarrow> u8 list list \<Rightarrow> hw_call list" where
  "cfb_lines font_height ls = map (\<lambda>(s, i). Cfb_print s 0 (of_nat i * ucast font_height)) (zip ls [0..<length ls])"

definition ssd_show_text ::
  "disp_config \<Rightarrow> hw_results \<Rightarrow> u8 \<Rightarrow> u8 list list \<Rightarrow> ('st, 'm) disp_scheme \<Rightarrow> ('st, 'm) disp_scheme" where
  "ssd_show_text c rc font_height ls d =
     ssd_power_off c rc ((if character_framebuffer c
        then hw_do ([Blanking_on, Cfb_clear] @ cfb_lines font_height ls @ [Cfb_finalize, Blanking_off]) else (\<lambda>d. d))
       (ssd_power_on c rc d))"

definition ssd_display_unassociated ::
  "disp_config \<Rightarrow> hw_results \<Rightarrow> u8 \<Rightarrow> u8 list \<Rightarrow> ('st, 'm) disp_scheme \<Rightarrow> ('st, 'm) disp_scheme" where
  "ssd_display_unassociated c rc font_height tag_str =
     ssd_show_text c rc font_height [ascii ''Hello Nordic!'', ascii ''UNAssociated'', ascii ''ESL TAG'', tag_str, ascii ''APAC'']"

definition ssd_display_associated ::
  "disp_config \<Rightarrow> hw_results \<Rightarrow> u8 \<Rightarrow> u16 \<Rightarrow> ('st, 'm) disp_scheme \<Rightarrow> ('st, 'm) disp_scheme" where
  "ssd_display_associated c rc font_height addr =
     ssd_show_text c rc font_height [ascii ''Hello Nordic!'', ascii ''Associated'', tag_label addr, ascii ''APAC'']"

definition display_clear_cfb :: "disp_config \<Rightarrow> hw_results \<Rightarrow> ('st, 'm) disp_scheme \<Rightarrow> int \<times> ('st, 'm) disp_scheme" where
  "display_clear_cfb c rc d =
     (let (err, d1) = hw rc Cfb_finalize (hw_do [Blanking_on, Cfb_clear] (ssd_power_on c rc d))
      in (err, ssd_power_off c rc (hw_do [Blanking_off] d1)))"

definition display_print_cfb :: "hw_results \<Rightarrow> u8 list \<Rightarrow> u16 \<Rightarrow> u16 \<Rightarrow> ('st, 'm) disp_scheme \<Rightarrow> int \<times> ('st, 'm) disp_scheme" where
  "display_print_cfb rc text x y = hw rc (Cfb_print text x y)"

definition display_update_cfb :: "disp_config \<Rightarrow> hw_results \<Rightarrow> ('st, 'm) disp_scheme \<Rightarrow> int \<times> ('st, 'm) disp_scheme" where
  "display_update_cfb c rc d =
     (let (err, d1) = hw rc Cfb_finalize (hw_do [Blanking_on] (ssd_power_on c rc d))
      in (err, ssd_power_off c rc (hw_do [Blanking_off] d1)))"

end
