(* ===== verification/Hw_Panel.thy ===== *)
theory Hw_Panel
  imports Hw_Display
begin

unbundle bit_operations_syntax

text \<open>
  The display drivers that draw text with the drawing library: \<open>epd_shield_uc81xx_display.c\<close>, which has a frame of 16 rows
  and draws the picture once per band, and \<open>epd_display.c\<close>, which has a frame for the whole picture. Then the
  simulated displays and the LEDs. Images are shown as in Hw_Display.
\<close>

subsection \<open>Text in a frame\<close>

record 'st paint_disp = "'st disp" +
  paint_obj :: paint_obj_t

text \<open>The font is \<open>Font16\<close>, whose table is data.\<close>

fun draw_texts :: "paint_config \<Rightarrow> sFONT \<Rightarrow> (u8 list \<times> paint_color_t \<times> u16 \<times> u16) list \<Rightarrow> paint_obj_t \<Rightarrow> paint_obj_t option" where
  "draw_texts pc font [] p = Some p"
| "draw_texts pc font ((s, color, x, y) # ts) p =
     Option.bind (paint_DrawString pc s font color (int (unat x)) (int (unat y)) p) (draw_texts pc font ts)"

definition unassociated_texts :: "disp_config \<Rightarrow> paint_color_t \<Rightarrow> u8 list \<Rightarrow> (u8 list \<times> paint_color_t \<times> u16 \<times> u16) list" where
  "unassociated_texts c apac tag_str =
     [(ascii ''Hello Nordic'', BLACK, 10, 10), (ascii ''UNAssociated'', BLACK, 10, 30), (ascii ''ESL TAG'', BLACK, 10, 50),
      (tag_str, BLACK, 10, 70), (ascii ''APAC'', apac, 10, 90), (ascii (bt_dis_model c), BLACK, 10, 110)]"

definition associated_texts :: "disp_config \<Rightarrow> u16 \<Rightarrow> (u8 list \<times> paint_color_t \<times> u16 \<times> u16) list" where
  "associated_texts c addr =
     [(ascii ''Hello Nordic'', BLACK, 10, 10), (ascii ''Associated'', BLACK, 10, 30), (tag_label addr, BLACK, 10, 50),
      (ascii ''APAC'', BLACK, 10, 70), (ascii (bt_dis_model c), BLACK, 10, 90)]"

text \<open>Static variables start at zero.\<close>

definition zero_paint_obj :: paint_obj_t where
  "zero_paint_obj = \<lparr>scanmode = PAINT_SCAN_MODE_1, direction = PAINT_DIRECTION_0, p_width = 0, p_height = 0, x_end = 0, y_end = 0,
     wb_buffer = [], rw_buffer = [], p_buffer_size = 0, band_height = 0, band_y_start = 0\<rparr>"

subsection \<open>The shield with a UC81xx\<close>

abbreviation (input) PAINT_BAND_ROWS :: nat where "PAINT_BAND_ROWS \<equiv> 16"
abbreviation (input) PAINT_CMD_MAX :: nat where "PAINT_CMD_MAX \<equiv> 8"

record paint_cmd =
  cmd_text :: "u8 list"
  cmd_x :: u16
  cmd_y :: u16

record 'st uc_disp = "'st paint_disp" +
  paint_cmds :: "paint_cmd list"
  paint_cmd_count :: nat

text \<open>\<open>wb_data\<close> is given as the static array of the driver. There is no second one, whatever the number of colours.\<close>

definition uc_display_init ::
  "disp_config \<Rightarrow> hw_results \<Rightarrow> bool \<Rightarrow> u16 \<Rightarrow> u16 \<Rightarrow> u8 list \<Rightarrow> ('st, 'm) paint_disp_scheme \<Rightarrow> int \<times> ('st, 'm) paint_disp_scheme" where
  "uc_display_init c rc is_ready x_res y_res wb_data d =
     (if \<not> is_ready then (- ENODEV, d)
      else (let d1 = (if jf_paint_lib c then d\<lparr>paint_obj := paint_Init ((paint_obj d)\<lparr>p_width := esl_display_width c,
              p_height := esl_display_height c, wb_buffer := wb_data, scanmode := PAINT_SCAN_MODE_1, band_height := 16\<rparr>)\<rparr> else d);
            (err, d2) = hw rc Set_pixel_format (d1\<lparr>x_resolution := x_res, y_resolution := y_res\<rparr>)
        in (0, d2)))"

text \<open>A failed write of a chunk returns at once, with the display blank and the file open; everything else returns 0.\<close>

definition uc_display_control ::
  "disp_config \<Rightarrow> 'st callbacks \<Rightarrow> hw_results \<Rightarrow> u8 \<Rightarrow> ('st, 'm) disp_scheme \<Rightarrow> (int \<times> ('st, 'm) disp_scheme) option" where
  "uc_display_control c cb rc img_idx d = do {
     (img_size, err, bad, d1) \<leftarrow> load_image c cb True img_idx (uc_power_on c rc d);
     (if bad \<noteq> 0 then Some (0, disp_close_image cb d1)
      else do {
        (stopped, err, d2) \<leftarrow> (case image_storage c of
            OTS_NVS \<Rightarrow> do { (err, d2) \<leftarrow> write_nvs_image cb rc img_idx img_size (hw_do [Blanking_on] d1); Some (False, err, d2) }
          | OTS_LFS \<Rightarrow> draw_file cb img_idx (write_chunk rc) img_size err (hw_do [Blanking_on] d1)
          | OTS_NONE \<Rightarrow> Some (False, err, hw_do [Blanking_on] d1));
        (if stopped then Some (err, d2)
         else Some (0, disp_close_image cb (uc_power_off c rc (hw_do [Blanking_off] d2)))) }) }"

text \<open>One band: its rows are cleared, drawn and written.\<close>

definition band_rows :: "u16 \<Rightarrow> u16 \<Rightarrow> u16" where
  "band_rows band_y height = (if unat band_y + PAINT_BAND_ROWS \<le> unat height then 16 else height - band_y)"

definition paint_band ::
  "paint_config \<Rightarrow> hw_results \<Rightarrow> (paint_obj_t \<Rightarrow> paint_obj_t option) \<Rightarrow> u16 \<Rightarrow> ('st, 'm) paint_disp_scheme \<Rightarrow>
    (int \<times> ('st, 'm) paint_disp_scheme) option" where
  "paint_band pc rc draw band_y d = do {
     p1 \<leftarrow> paint_Fill pc WHITE (paint_SetBand (ucast band_y) (paint_obj d));
     p2 \<leftarrow> draw p1;
     let rows = band_rows band_y (y_resolution d);
     display_write rc band_y (wb_buffer p2) (d\<lparr>paint_obj := p2, buf_desc := (buf_desc d)\<lparr>bd_height := rows,
       bd_buf_size := of_nat (unat (x_resolution d) * unat rows div 8)\<rparr>\<rparr>) }"

text \<open>The loop over the bands from \<open>band_y\<close> on, with the last code. It ends at the first failed write.\<close>

partial_function (option) paint_bands ::
  "paint_config \<Rightarrow> hw_results \<Rightarrow> (paint_obj_t \<Rightarrow> paint_obj_t option) \<Rightarrow> u16 \<Rightarrow> int \<Rightarrow> ('st, 'm) paint_disp_scheme \<Rightarrow>
    (int \<times> ('st, 'm) paint_disp_scheme) option" where
  "paint_bands pc rc draw band_y err d =
     (if band_y < y_resolution d
      then Option.bind (paint_band pc rc draw band_y d) (\<lambda>(err, d1).
        if err \<noteq> 0 then Some (err, d1) else paint_bands pc rc draw (band_y + 16) err d1)
      else Some (err, d))"

definition show_bands ::
  "disp_config \<Rightarrow> paint_config \<Rightarrow> hw_results \<Rightarrow> (paint_obj_t \<Rightarrow> paint_obj_t option) \<Rightarrow> ('st, 'm) paint_disp_scheme \<Rightarrow>
    (int \<times> ('st, 'm) paint_disp_scheme) option" where
  "show_bands c pc rc draw d = do {
     (err, d1) \<leftarrow> paint_bands pc rc draw 0 0 (hw_do [Blanking_on]
       (d\<lparr>buf_desc := (buf_desc d)\<lparr>bd_width := x_resolution d, bd_pitch := x_resolution d\<rparr>\<rparr>));
     Some (err, hw_do [Blanking_off] d1) }"

definition uc_show_texts ::
  "disp_config \<Rightarrow> paint_config \<Rightarrow> hw_results \<Rightarrow> sFONT \<Rightarrow> (u8 list \<times> paint_color_t \<times> u16 \<times> u16) list \<Rightarrow>
    ('st, 'm) paint_disp_scheme \<Rightarrow> ('st, 'm) paint_disp_scheme option" where
  "uc_show_texts c pc rc font ts d = do {
     (err, d1) \<leftarrow> (if jf_paint_lib c then show_bands c pc rc (draw_texts pc font ts) (uc_power_on c rc d)
       else Some (0, uc_power_on c rc d));
     Some (uc_power_off c rc d1) }"

definition uc_display_unassociated ::
  "disp_config \<Rightarrow> paint_config \<Rightarrow> hw_results \<Rightarrow> sFONT \<Rightarrow> u8 list \<Rightarrow> ('st, 'm) paint_disp_scheme \<Rightarrow> ('st, 'm) paint_disp_scheme option" where
  "uc_display_unassociated c pc rc font tag_str = uc_show_texts c pc rc font (unassociated_texts c BLACK tag_str)"

definition uc_display_associated ::
  "disp_config \<Rightarrow> paint_config \<Rightarrow> hw_results \<Rightarrow> sFONT \<Rightarrow> u16 \<Rightarrow> ('st, 'm) paint_disp_scheme \<Rightarrow> ('st, 'm) paint_disp_scheme option" where
  "uc_display_associated c pc rc font addr = uc_show_texts c pc rc font (associated_texts c addr)"

definition uc_display_clear_paint ::
  "disp_config \<Rightarrow> paint_config \<Rightarrow> hw_results \<Rightarrow> ('st, 'm) uc_disp_scheme \<Rightarrow> (int \<times> ('st, 'm) uc_disp_scheme) option" where
  "uc_display_clear_paint c pc rc d = do {
     (err, d1) \<leftarrow> show_bands c pc rc Some ((uc_power_on c rc d)\<lparr>paint_cmd_count := 0\<rparr>);
     Some (err, uc_power_off c rc d1) }"

text \<open>\<open>strncpy\<close> into an array of 64, the last byte zero.\<close>

definition text_array :: "u8 list \<Rightarrow> u8 list" where
  "text_array s = take 63 (s @ replicate 63 0) @ [0]"

definition c_string :: "u8 list \<Rightarrow> u8 list" where
  "c_string b = takeWhile (\<lambda>x. x \<noteq> 0) b"

definition uc_display_print_paint ::
  "u8 list \<Rightarrow> u16 \<Rightarrow> u16 \<Rightarrow> ('st, 'm) uc_disp_scheme \<Rightarrow> (int \<times> ('st, 'm) uc_disp_scheme) option" where
  "uc_display_print_paint text x y d =
     (if PAINT_CMD_MAX \<le> paint_cmd_count d then Some (- ENOMEM, d)
      else do {
        cmds \<leftarrow> upd (paint_cmds d) (paint_cmd_count d) \<lparr>cmd_text = text_array text, cmd_x = x, cmd_y = y\<rparr>;
        Some (0, d\<lparr>paint_cmds := cmds, paint_cmd_count := paint_cmd_count d + 1\<rparr>) })"

definition queued_texts :: "('st, 'm) uc_disp_scheme \<Rightarrow> (u8 list \<times> paint_color_t \<times> u16 \<times> u16) list" where
  "queued_texts d = map (\<lambda>k. (c_string (cmd_text k), BLACK, cmd_x k, cmd_y k)) (take (paint_cmd_count d) (paint_cmds d))"

definition uc_display_update_paint ::
  "disp_config \<Rightarrow> paint_config \<Rightarrow> hw_results \<Rightarrow> sFONT \<Rightarrow> ('st, 'm) uc_disp_scheme \<Rightarrow> (int \<times> ('st, 'm) uc_disp_scheme) option" where
  "uc_display_update_paint c pc rc font d = do {
     (err, d1) \<leftarrow> show_bands c pc rc (draw_texts pc font (queued_texts d)) (uc_power_on c rc d);
     Some (err, uc_power_off c rc d1) }"

subsection \<open>Panels driven directly\<close>

datatype epd_panel = EPD_4IN2_V1 | EPD_4IN2_V2 | EPD_1IN54B_V2 | EPD_5IN83B_V2 | EPD_5IN83_V2 | EPD_2IN9B_V3 | EPD_2IN13B_V3

text \<open>Whether there is \<open>epd_write_display\<close> and \<open>epd_turn_on_display\<close>; the other functions always are.\<close>

definition has_epd_write :: "epd_panel \<Rightarrow> bool" where
  "has_epd_write e \<longleftrightarrow> e = EPD_4IN2_V1 \<or> e = EPD_4IN2_V2"

definition epd_display_init ::
  "disp_config \<Rightarrow> epd_panel option \<Rightarrow> u8 list \<Rightarrow> u8 list \<Rightarrow> ('st, 'm) paint_disp_scheme \<Rightarrow> int \<times> ('st, 'm) paint_disp_scheme" where
  "epd_display_init c panel wb_data rw_data d =
     (let d1 = d\<lparr>x_resolution := ucast (esl_display_width c), y_resolution := ucast (esl_display_height c)\<rparr>;
          d2 = (if jf_paint_lib c then d1\<lparr>paint_obj := paint_Init ((paint_obj d)\<lparr>p_width := esl_display_width c,
            p_height := esl_display_height c, wb_buffer := wb_data, rw_buffer := (if display_type_6 c then rw_data else rw_buffer (paint_obj d)),
            scanmode := PAINT_SCAN_MODE_1\<rparr>)\<rparr> else d1);
          d3 = hw_do [Controller_init] d2
      in case panel of None \<Rightarrow> (- ENODEV, d3)
         | Some e \<Rightarrow> (0, hw_do [Epd_init] (if e = EPD_2IN9B_V3 \<or> e = EPD_2IN13B_V3
             then d3\<lparr>paint_obj := paint_SetDirection PAINT_DIRECTION_90 (paint_obj d3)\<rparr> else d3)))"

text \<open>The second argument of \<open>epd_display_full\<close> is there for three colours.\<close>

definition epd_full :: "disp_config \<Rightarrow> u8 list \<Rightarrow> ('st, 'm) paint_disp_scheme \<Rightarrow> ('st, 'm) paint_disp_scheme" where
  "epd_full c img d = hw_do [Epd_full img (if display_type_6 c then Some (rw_buffer (paint_obj d)) else None)] d"

definition epd_show_nvs ::
  "disp_config \<Rightarrow> paint_config \<Rightarrow> 'st callbacks \<Rightarrow> u8 \<Rightarrow> u32 \<Rightarrow> ('st, 'm) paint_disp_scheme \<Rightarrow> ('st, 'm) paint_disp_scheme option" where
  "epd_show_nvs c pc cb img_idx img_size d = do {
     (err, d1) \<leftarrow> disp_read_image cb img_idx (unat img_size) 0 d;
     (if display_type_6 c then do {
        p \<leftarrow> paint_Fill pc WHITE (paint_obj d1);
        Some (epd_full c (drop head_size (img_buf d1)) (d1\<lparr>paint_obj := p\<rparr>)) }
      else Some (epd_full c (drop head_size (img_buf d1)) (hw_do [Epd_clear] d1))) }"

definition epd_chunk :: "disp_config \<Rightarrow> epd_panel \<Rightarrow> u16 \<Rightarrow> u32 \<Rightarrow> ('st, 'm) paint_disp_scheme \<Rightarrow> (int \<times> ('st, 'm) paint_disp_scheme) option" where
  "epd_chunk c panel cur_y chunk d =
     Some (0, if has_epd_write panel then hw_do [Epd_write cur_y chunk (bd_height (buf_desc d)) (img_buf d)] d else epd_full c (img_buf d) d)"

text \<open>
  For another display than the first the chunks are copied from an array of one byte, beyond its end. The file of an image
  that is refused stays open.
\<close>

definition epd_display_control ::
  "disp_config \<Rightarrow> paint_config \<Rightarrow> 'st callbacks \<Rightarrow> hw_results \<Rightarrow> epd_panel \<Rightarrow> u8 \<Rightarrow> u8 \<Rightarrow> ('st, 'm) paint_disp_scheme \<Rightarrow>
    (int \<times> ('st, 'm) paint_disp_scheme) option" where
  "epd_display_control c pc cb rc panel disp_idx img_idx d = do {
     (img_size, err, bad, d1) \<leftarrow> load_image c cb False img_idx (epd_power_on c rc [Controller_init, Epd_init] d);
     (if bad \<noteq> 0 then Some (bad, d1)
      else do {
        d2 \<leftarrow> (case image_storage c of
            OTS_NVS \<Rightarrow> epd_show_nvs c pc cb img_idx img_size d1
          | OTS_LFS \<Rightarrow> (if disp_idx \<noteq> 0 \<and> img_size \<noteq> 6 then None else do {
              (stopped, err, d2) \<leftarrow> draw_file cb img_idx (epd_chunk c panel) img_size err d1;
              Some (if has_epd_write panel then hw_do [Epd_turn_on] d2 else d2) })
          | OTS_NONE \<Rightarrow> Some d1);
        Some (0, epd_power_off c rc (disp_close_image cb d2)) }) }"

definition epd_show_texts ::
  "disp_config \<Rightarrow> paint_config \<Rightarrow> hw_results \<Rightarrow> sFONT \<Rightarrow> (u8 list \<times> paint_color_t \<times> u16 \<times> u16) list \<Rightarrow>
    ('st, 'm) paint_disp_scheme \<Rightarrow> ('st, 'm) paint_disp_scheme option" where
  "epd_show_texts c pc rc font ts d = do {
     let d1 = epd_power_on c rc [Controller_init, Epd_init] d;
     d2 \<leftarrow> (if jf_paint_lib c then do {
        p1 \<leftarrow> paint_Fill pc WHITE (paint_obj d1);
        p2 \<leftarrow> draw_texts pc font ts p1;
        Some (epd_full c (wb_buffer p2) (d1\<lparr>paint_obj := p2\<rparr>)) } else Some d1);
     Some (epd_power_off c rc d2) }"

definition epd_display_unassociated ::
  "disp_config \<Rightarrow> paint_config \<Rightarrow> hw_results \<Rightarrow> sFONT \<Rightarrow> u8 list \<Rightarrow> ('st, 'm) paint_disp_scheme \<Rightarrow> ('st, 'm) paint_disp_scheme option" where
  "epd_display_unassociated c pc rc font tag_str =
     epd_show_texts c pc rc font (unassociated_texts c (if display_type_6 c then RED else BLACK) tag_str)"

definition epd_display_associated ::
  "disp_config \<Rightarrow> paint_config \<Rightarrow> hw_results \<Rightarrow> sFONT \<Rightarrow> u16 \<Rightarrow> ('st, 'm) paint_disp_scheme \<Rightarrow> ('st, 'm) paint_disp_scheme option" where
  "epd_display_associated c pc rc font addr = epd_show_texts c pc rc font (associated_texts c addr)"

definition epd_display_clear_paint ::
  "disp_config \<Rightarrow> paint_config \<Rightarrow> hw_results \<Rightarrow> ('st, 'm) paint_disp_scheme \<Rightarrow> (int \<times> ('st, 'm) paint_disp_scheme) option" where
  "epd_display_clear_paint c pc rc d = do {
     let d1 = hw_do [Epd_clear] (epd_power_on c rc [Epd_init] d);
     p \<leftarrow> paint_Fill pc WHITE (paint_obj d1);
     Some (0, epd_power_off c rc (d1\<lparr>paint_obj := p\<rparr>)) }"

definition epd_display_print_paint ::
  "paint_config \<Rightarrow> sFONT \<Rightarrow> u8 list \<Rightarrow> u16 \<Rightarrow> u16 \<Rightarrow> ('st, 'm) paint_disp_scheme \<Rightarrow> (int \<times> ('st, 'm) paint_disp_scheme) option" where
  "epd_display_print_paint pc font text x y d = do {
     p \<leftarrow> paint_DrawString pc text font BLACK (int (unat x)) (int (unat y)) (paint_obj d);
     Some (0, d\<lparr>paint_obj := p\<rparr>) }"

definition epd_display_update_paint ::
  "disp_config \<Rightarrow> hw_results \<Rightarrow> ('st, 'm) paint_disp_scheme \<Rightarrow> int \<times> ('st, 'm) paint_disp_scheme" where
  "epd_display_update_paint c rc d =
     (let d1 = epd_power_on c rc [] d;
          d2 = d1\<lparr>buf_desc := \<lparr>bd_buf_size = of_nat (unat (x_resolution d) * unat (y_resolution d) div 8), bd_width = x_resolution d,
            bd_height = y_resolution d, bd_pitch = x_resolution d\<rparr>\<rparr>
      in (0, epd_power_off c rc (epd_full c (wb_buffer (paint_obj d2)) d2)))"

subsection \<open>Simulated displays and LEDs\<close>

definition blink :: "u8 \<Rightarrow> hw_call list" where
  "blink led = [Dk_set_led led True, K_msleep 100, Dk_set_led led False, K_msleep 100]"

text \<open>The image index is kept in its byte.\<close>

definition led_display_control :: "u8 \<Rightarrow> nat \<Rightarrow> u8 \<Rightarrow> ('st, 'm) disp_scheme \<Rightarrow> int \<times> ('st, 'm) disp_scheme" where
  "led_display_control led blink_times img_idx d =
     (0, hw_do (concat (replicate (Suc (unat (img_idx + 1 + of_nat blink_times))) (blink led))) d)"

definition led_display_unassociated :: "u8 \<Rightarrow> nat \<Rightarrow> ('st, 'm) disp_scheme \<Rightarrow> ('st, 'm) disp_scheme" where
  "led_display_unassociated led blink_times = hw_do (concat (replicate (Suc blink_times) (blink led)))"

definition led_display_associated :: "u8 \<Rightarrow> nat \<Rightarrow> ('st, 'm) disp_scheme \<Rightarrow> ('st, 'm) disp_scheme" where
  "led_display_associated led blink_times = led_display_unassociated led blink_times"

text \<open>The two upper bits of the colour are the brightness, in percent.\<close>

definition led_level :: "u8 \<Rightarrow> u8" where
  "led_level colour = (drop_bit 6 (colour AND 0xC0) + 1) * 25"

definition pwm_led_control :: "u8 \<Rightarrow> u8 \<Rightarrow> bool \<Rightarrow> ('st, 'm) disp_scheme \<Rightarrow> ('st, 'm) disp_scheme" where
  "pwm_led_control led_no colour onoff =
     hw_do [if onoff then Led_set_brightness led_no (led_level colour) else Led_off led_no]"

text \<open>The LEDs of a development kit are switched only; there are four.\<close>

definition dk_led_control :: "u8 list \<Rightarrow> u8 \<Rightarrow> u8 \<Rightarrow> bool \<Rightarrow> ('st, 'm) disp_scheme \<Rightarrow> ('st, 'm) disp_scheme option" where
  "dk_led_control esl_leds led_no colour onoff d = do {
     led \<leftarrow> rd esl_leds (unat led_no);
     Some (hw_do [Dk_set_led led onoff] d) }"

definition dk_led_init :: "hw_results \<Rightarrow> ('st, 'm) disp_scheme \<Rightarrow> int \<times> ('st, 'm) disp_scheme" where
  "dk_led_init rc d = (let (err, d1) = hw rc Dk_leds_init d in if err \<noteq> 0 then (err, d1) else (0, d1))"

end
