(* ===== verification/Hw_Shown.thy ===== *)
theory Hw_Shown
  imports Hw_Picture Hw_Panel Hw_Files
begin

unbundle bit_operations_syntax

text \<open>
  What the display drivers show. A picture drawn band by band is the picture drawn at once; the chunks of an image
  file are its content, row after row, and how many there are.
\<close>

subsection \<open>What a panel shows\<close>

text \<open>The colour a write gives a point, and that of the last write that covers the point.\<close>

definition written :: "paint_config \<Rightarrow> hw_call \<Rightarrow> nat \<Rightarrow> nat \<Rightarrow> paint_color_t option" where
  "written pc k x y = (case k of
       Display_write X Y b v \<Rightarrow>
         if unat X \<le> x \<and> x < unat X + unat (bd_width b) \<and> unat Y \<le> y \<and> y < unat Y + unat (bd_height b)
         then Some (byte_color pc (v ! ((y - unat Y) * (unat (bd_pitch b) div 8) + (x - unat X) div 8)) 0 (pixel_bit pc (x - unat X)))
         else None
     | _ \<Rightarrow> None)"

fun shown :: "paint_config \<Rightarrow> hw_call list \<Rightarrow> nat \<Rightarrow> nat \<Rightarrow> paint_color_t option" where
  "shown pc [] x y = None"
| "shown pc (k # ks) x y = (case shown pc ks x y of None \<Rightarrow> written pc k x y | Some v \<Rightarrow> Some v)"

lemma shown_append:
  "shown pc (ks @ ls) x y = (case shown pc ls x y of None \<Rightarrow> shown pc ks x y | Some v \<Rightarrow> Some v)"
  by (induction ks) (simp_all split: option.splits)

definition is_write :: "hw_call \<Rightarrow> bool" where
  "is_write k \<longleftrightarrow> (case k of Display_write X Y b v \<Rightarrow> True | _ \<Rightarrow> False)"

lemma shown_no_write: "\<forall>k \<in> set ks. \<not> is_write k \<Longrightarrow> shown pc ks x y = None"
  by (induction ks) (auto simp: is_write_def written_def split: hw_call.splits)

text \<open>Calls of the hardware that write nothing change nothing else.\<close>

definition only_calls :: "('st, 'm) disp_scheme \<Rightarrow> ('st, 'm) disp_scheme \<Rightarrow> bool" where
  "only_calls d d' \<longleftrightarrow> (\<exists>ks. d' = d\<lparr>hw_calls := hw_calls d @ ks\<rparr> \<and> (\<forall>k \<in> set ks. \<not> is_write k))"

lemma only_calls_refl: "only_calls d d"
  unfolding only_calls_def by (rule exI [of _ "[]"]) simp

lemma only_calls_trans: "only_calls d d' \<Longrightarrow> only_calls d' d'' \<Longrightarrow> only_calls d d''"
  unfolding only_calls_def by (force intro: exI [of _ "ks @ ks'" for ks ks'])

lemma only_calls_do: "only_calls d e \<Longrightarrow> \<forall>k \<in> set ks. \<not> is_write k \<Longrightarrow> only_calls d (hw_do ks e)"
  unfolding hw_do_def by (rule only_calls_trans) (auto simp: only_calls_def intro!: exI [of _ ks])

lemma only_calls_hw: "only_calls d e \<Longrightarrow> \<not> is_write k \<Longrightarrow> only_calls d (snd (hw rc k e))"
  using only_calls_do [of d e "[k]"] by (simp add: hw_def hw_do_def)

lemma only_calls_try: "only_calls d e \<Longrightarrow> \<forall>k \<in> set ks. \<not> is_write k \<Longrightarrow> only_calls d (snd (hw_try rc ks e))"
proof (induction ks arbitrary: e)
  case (Cons k ks)
  then show ?case using only_calls_hw [OF Cons.prems(1), of k rc] by (simp add: case_prod_unfold Let_def)
qed simp

lemma no_writes [simp]:
  "\<not> is_write (Gpio_pin_configure p m)" "\<not> is_write (Gpio_pin_set p v)" "\<not> is_write Pinctrl_sleep" "\<not> is_write Pinctrl_default"
  "\<not> is_write Pm_suspend" "\<not> is_write Pm_resume" "\<not> is_write Spi_reset" "\<not> is_write (K_msleep n)" "\<not> is_write Controller_init"
  "\<not> is_write Blanking_on" "\<not> is_write Blanking_off"
  by (simp_all add: is_write_def)

lemma only_calls_onoff: "only_calls d e \<Longrightarrow> only_calls d (snd (uc_epd_onoff rc mode e))" "only_calls d e \<Longrightarrow> only_calls d (snd (ssd_epd_onoff rc mode e))"
  by (auto simp: uc_epd_onoff_def ssd_epd_onoff_def Let_def case_prod_unfold simp del: hw_try.simps intro!: only_calls_do only_calls_try)

lemma only_calls_power:
  "only_calls d e \<Longrightarrow> only_calls d (uc_power_on c rc e)" "only_calls d e \<Longrightarrow> only_calls d (uc_power_off c rc e)"
  "only_calls d e \<Longrightarrow> only_calls d (ssd_power_on c rc e)" "only_calls d e \<Longrightarrow> only_calls d (ssd_power_off c rc e)"
  by (auto simp: uc_power_on_def uc_power_off_def ssd_power_on_def ssd_power_off_def intro!: only_calls_do only_calls_onoff)

subsection \<open>Texts in a frame\<close>

text \<open>What the texts make of the colour of a point, from any frame \<open>p\<close> of the display.\<close>

fun texts_color ::
  "paint_config \<Rightarrow> paint_obj_t \<Rightarrow> sFONT \<Rightarrow> (u8 list \<times> paint_color_t \<times> u16 \<times> u16) list \<Rightarrow> nat \<Rightarrow> nat \<Rightarrow> paint_color_t \<Rightarrow> paint_color_t" where
  "texts_color pc p font [] x y v = v"
| "texts_color pc p font ((s, c, a, b) # ts) x y v =
     texts_color pc p font ts x y (if (x, y) \<in> text_points p font s (unat a) (unat b) then shown_color pc c else v)"

definition good_texts :: "sFONT \<Rightarrow> (u8 list \<times> paint_color_t \<times> u16 \<times> u16) list \<Rightarrow> bool" where
  "good_texts font ts \<longleftrightarrow> (\<forall>(s, c, a, b) \<in> set ts. s \<noteq> [] \<and> (\<forall>ch \<in> set s. has_char font ch))"

lemma texts_color_display:
  assumes "frame_ok pc p" "frame_ok pc q" "same_display p q"
  shows "texts_color pc q font ts x y v = texts_color pc p font ts x y v"
  using text_points_display [OF assms] by (induction ts arbitrary: v) auto

lemma same_frame_display: "same_frame p q \<Longrightarrow> same_display p q"
  by (simp add: same_display_def same_frame_simps)

text \<open>The frame \<open>q\<close> is \<open>p\<close> with every colour changed by \<open>F\<close>.\<close>

definition recolors :: "paint_config \<Rightarrow> (nat \<Rightarrow> nat \<Rightarrow> paint_color_t \<Rightarrow> paint_color_t) \<Rightarrow> paint_obj_t \<Rightarrow> paint_obj_t \<Rightarrow> bool" where
  "recolors pc F p q \<longleftrightarrow> same_frame p q \<and> frame_ok pc q \<and>
     (\<forall>x y. x < wd p \<longrightarrow> in_frame p y \<longrightarrow> picture pc q x y = F x y (picture pc p x y))"

lemma recolors_more: "recolors pc F p q \<Longrightarrow> recolors pc G q r \<Longrightarrow> recolors pc (\<lambda>x y v. G x y (F x y v)) p r"
  by (auto simp: recolors_def same_frame_simps(1,12) intro: same_frame_trans)

lemma paints_recolors: "paints pc S c p q \<Longrightarrow> recolors pc (\<lambda>x y v. if (x, y) \<in> S then shown_color pc c else v) p q"
  by (simp add: paints_def recolors_def)

lemma recolors_nothing: "frame_ok pc p \<Longrightarrow> recolors pc (\<lambda>x y v. v) p p"
  by (simp add: recolors_def same_frame_def)

lemma texts_recolor:
  assumes "frame_ok pc p" "good_texts font ts"
  shows "yields (draw_texts pc font ts p) (recolors pc (texts_color pc p font ts) p)"
  using assms
proof (induction ts arbitrary: p)
  case Nil
  then show ?case using recolors_nothing [of pc p] by (simp add: fun_eq_iff cong: if_cong)
next
  case (Cons t ts)
  obtain s c a b where t: "t = (s, c, a, b)" by (cases t)
  have small: "unat (z :: u16) < 2 ^ 31" for z using unat_u16_small [of z] by simp
  have "yields (draw_texts pc font ts q) (recolors pc (texts_color pc p font (t # ts)) p)"
    if q: "paints pc (text_points p font s (unat a) (unat b)) c p q" for q
  proof -
    have f: "frame_ok pc q" "same_display p q" using q by (auto simp: paints_def intro: same_frame_display)
    have g: "good_texts font ts" using Cons.prems(2) by (simp add: good_texts_def)
    have e: "texts_color pc p font (t # ts) =
        (\<lambda>x y v. texts_color pc q font ts x y (if (x, y) \<in> text_points p font s (unat a) (unat b) then shown_color pc c else v))"
      by (simp add: t fun_eq_iff texts_color_display [OF Cons.prems(1) f])
    show ?thesis
      unfolding e by (rule yields_mono [OF Cons.IH [OF f(1) g] recolors_more [OF paints_recolors [OF q]]])
  qed
  then show ?case
    unfolding t draw_texts.simps
    by (rule yields_bindI [OF text_paints [OF Cons.prems(1) _ _ small small], rotated 2]) (use Cons.prems(2) in \<open>simp_all add: good_texts_def t\<close>)
qed

text \<open>A drawing changes the colours of every frame of a display in the same way.\<close>

definition draws ::
  "paint_config \<Rightarrow> (nat \<Rightarrow> nat \<Rightarrow> paint_color_t \<Rightarrow> paint_color_t) \<Rightarrow> paint_obj_t \<Rightarrow> (paint_obj_t \<Rightarrow> paint_obj_t option) \<Rightarrow> bool" where
  "draws pc F p draw \<longleftrightarrow> (\<forall>q. frame_ok pc q \<and> same_display p q \<longrightarrow> yields (draw q) (recolors pc F q))"

lemma draws_texts:
  assumes "frame_ok pc p" "good_texts font ts"
  shows "draws pc (texts_color pc p font ts) p (draw_texts pc font ts)"
  unfolding draws_def
proof (intro allI impI, elim conjE)
  fix q assume q: "frame_ok pc q" "same_display p q"
  have "texts_color pc p font ts = texts_color pc q font ts"
    using texts_color_display [OF assms(1) q] by (simp add: fun_eq_iff)
  then show "yields (draw_texts pc font ts q) (recolors pc (texts_color pc p font ts) q)"
    using texts_recolor [OF q(1) assms(2)] by (simp only:)
qed

lemma draws_nothing: "draws pc (\<lambda>x y v. v) p Some"
  by (simp add: draws_def recolors_nothing)

lemma draws_filled:
  assumes "draws pc F p draw" "frame_ok pc q" "same_display p q"
  shows "yields (Option.bind (paint_Fill pc c q) draw) (recolors pc (\<lambda>x y v. F x y (shown_color pc c)) q)"
proof (rule yields_bindI [OF fill_paints [OF assms(2)]])
  fix r assume r: "paints pc UNIV c q r"
  then have "frame_ok pc r" "same_display p r"
    using assms(3) by (auto simp: paints_def same_display_def same_frame_simps)
  then show "yields (draw r) (recolors pc (\<lambda>x y v. F x y (shown_color pc c)) q)"
    using assms(1) recolors_more [OF paints_recolors [OF r]] by (auto simp: draws_def elim!: yields_mono)
qed

subsection \<open>One band\<close>

lemma unat_ucast_u16: "unat (ucast (y :: u16) :: u32) = unat y"
  using unat_u16_small [of y] by (simp add: unsigned_ucast_eq take_bit_nat_eq_self)

definition panel_ok :: "paint_config \<Rightarrow> ('st, 'm) paint_disp_scheme \<Rightarrow> bool" where
  "panel_ok pc d \<longleftrightarrow> frame_ok pc (paint_obj d) \<and> \<not> three_colors pc \<and> band_height (paint_obj d) = 16 \<and>
     unat (x_resolution d) = wd (paint_obj d) \<and> unat (y_resolution d) = ht (paint_obj d)"

definition desc_ok :: "('st, 'm) paint_disp_scheme \<Rightarrow> bool" where
  "desc_ok d \<longleftrightarrow> bd_width (buf_desc d) = x_resolution d \<and> bd_pitch (buf_desc d) = x_resolution d"

lemma band_rows_unat:
  "unat Y < unat H \<Longrightarrow> unat (band_rows Y H) = min 16 (unat H - unat Y)"
  by (auto simp: band_rows_def unat_sub word_le_nat_alt)

lemma band_bytes: "w mod 8 = 0 \<Longrightarrow> r \<le> 16 \<Longrightarrow> w * r div 8 \<le> 16 * (w div (8 :: nat))"
proof -
  assume "w mod 8 = 0" "r \<le> 16"
  then obtain k where "w = 8 * k" "k * r \<le> 16 * k" by auto
  then show ?thesis by (simp add: mult.assoc)
qed

lemma band_byte:
  assumes "w mod 8 = 0" "y < r" "x < w"
  shows "y * (w div 8) + x div 8 < w * r div (8 :: nat)"
proof -
  obtain k where w: "w = 8 * k" using assms(1) by auto
  have "x div 8 < k" using assms(3) w by simp
  moreover have "Suc y * k \<le> r * k" using assms(2) by (intro mult_le_mono1) simp
  ultimately show ?thesis using w by (simp add: mult.commute)
qed

definition band_written :: "paint_config \<Rightarrow> (nat \<Rightarrow> nat \<Rightarrow> paint_color_t) \<Rightarrow> nat \<Rightarrow> nat \<Rightarrow> nat \<Rightarrow> hw_call \<Rightarrow> bool" where
  "band_written pc G w a b k \<longleftrightarrow> (\<forall>x y. x < w \<longrightarrow> a \<le> y \<longrightarrow> y < b \<longrightarrow> written pc k x y = Some (G x y))"

lemma paint_band_shows:
  assumes ok: "panel_ok pc d" "desc_ok d" and draw: "draws pc F (paint_obj d) draw" and Y: "unat Y < ht (paint_obj d)"
  shows "yields (paint_band pc rc draw Y d) (\<lambda>(err, d'). panel_ok pc d' \<and> desc_ok d' \<and> same_display (paint_obj d) (paint_obj d') \<and>
     y_resolution d' = y_resolution d \<and> paint_disp.more d' = paint_disp.more d \<and>
     (\<exists>b v. hw_calls d' = hw_calls d @ [Display_write 0 Y b v] \<and> err = rc (hw_calls d') \<and>
       band_written pc (\<lambda>x y. F x y WHITE) (wd (paint_obj d)) (unat Y) (min (unat Y + 16) (ht (paint_obj d))) (Display_write 0 Y b v)))"
proof -
  let ?p = "paint_obj d" and ?q = "paint_SetBand (ucast Y) (paint_obj d)"
  have Y16: "unat (ucast Y :: u32) = unat Y" by (rule unat_ucast_u16)
  have q: "frame_ok pc ?q" "same_display ?p ?q"
    using ok band_frame [of pc ?p "ucast Y"] Y16 unat_u16_small [of Y] by (simp_all add: panel_ok_def same_display_def paint_SetBand_def)
  have rows: "unat (band_rows Y (y_resolution d)) = min 16 (ht ?p - unat Y)"
    using band_rows_unat [of Y "y_resolution d"] ok(1) Y by (simp add: panel_ok_def)
  have w8: "wd ?p mod 8 = 0" "unat (x_resolution d) = wd ?p" "wd ?p < 2 ^ 15" using ok(1) by (simp_all add: panel_ok_def frame_ok_def)
  let ?n = "wd ?p * min 16 (ht ?p - unat Y) div 8"
  have "?n \<le> wd ?p * 16 div 8" by (intro div_le_mono mult_le_mono2) simp
  then have n: "unat (of_nat ?n :: u32) = ?n" using w8(3) by (simp add: unat_of_nat)
  have main: "yields (display_write rc Y (wb_buffer r) (d\<lparr>paint_obj := r, buf_desc := (buf_desc d)\<lparr>bd_height := band_rows Y (y_resolution d),
       bd_buf_size := of_nat (unat (x_resolution d) * unat (band_rows Y (y_resolution d)) div 8)\<rparr>\<rparr>))
     (\<lambda>(err, d'). panel_ok pc d' \<and> desc_ok d' \<and> same_display (paint_obj d) (paint_obj d') \<and> y_resolution d' = y_resolution d \<and> paint_disp.more d' = paint_disp.more d \<and>
     (\<exists>b v. hw_calls d' = hw_calls d @ [Display_write 0 Y b v] \<and> err = rc (hw_calls d') \<and>
       band_written pc (\<lambda>x y. F x y WHITE) (wd ?p) (unat Y) (min (unat Y + 16) (ht ?p)) (Display_write 0 Y b v)))"
    if r: "recolors pc (\<lambda>x y v. F x y (shown_color pc WHITE)) ?q r" for r
  proof -
    have f: "frame_ok pc r" "same_frame ?q r" using r by (simp_all add: recolors_def)
    have s: "p_width r = p_width ?p" "p_height r = p_height ?p" "direction r = direction ?p" "scanmode r = scanmode ?p"
      "band_height r = 16" "first_row r = unat Y" "rows r = 16"
      using ok(1) Y16 by (simp_all add: same_frame_simps [OF f(2)] paint_SetBand_def first_row_def rows_def panel_ok_def)
    have q_rows: "first_row ?q = unat Y" "rows ?q = 16" using s(6,7) same_frame_simps(10,11) [OF f(2)] by simp_all
    have len: "length (wb_buffer r) = 16 * (wd ?p div 8)" using f(1) by (simp add: frame_ok_def s)
    let ?b = "(buf_desc d)\<lparr>bd_height := band_rows Y (y_resolution d), bd_buf_size := of_nat ?n\<rparr>"
    have n_le: "?n \<le> length (wb_buffer r)"
      using band_bytes [OF w8(1), of "min 16 (ht ?p - unat Y)"] len by simp
    have "band_written pc (\<lambda>x y. F x y WHITE) (wd ?p) (unat Y) (min (unat Y + 16) (ht ?p)) (Display_write 0 Y ?b (take ?n (wb_buffer r)))"
      unfolding band_written_def
    proof (intro allI impI)
      fix x y assume x: "x < wd ?p" and y: "unat Y \<le> y" "y < min (unat Y + 16) (ht ?p)"
      have i: "(y - unat Y) * (wd ?p div 8) + x div 8 < ?n" by (rule band_byte [OF w8(1)]) (use x y in auto)
      have "picture pc r x y = F x y WHITE"
        using r x y by (simp add: recolors_def shown_color_def in_frame_def q_rows) (simp add: paint_SetBand_def)
      moreover have "picture pc r x y = byte_color pc (wb_buffer r ! ((y - unat Y) * (wd ?p div 8) + x div 8)) 0 (pixel_bit pc x)"
        using ok(1) by (simp add: picture_def pixel_at_def s byte_color_def panel_ok_def)
      moreover have "y < unat Y + min 16 (ht ?p - unat Y)" using y by (auto simp: min_def split: if_splits)
      ultimately show "written pc (Display_write 0 Y ?b (take ?n (wb_buffer r))) x y = Some (F x y WHITE)"
        using x y i ok w8(2) by (simp add: written_def rows desc_ok_def)
    qed
    then show ?thesis
      using ok f(1) n_le by (simp add: display_write_def hw_def w8(2) rows n panel_ok_def desc_ok_def s same_display_def wp)
  qed
  show ?thesis
    unfolding paint_band_def Let_def bind_assoc [symmetric]
    by (rule yields_bindI [OF draws_filled [OF draw q]]) (rule main)
qed

subsection \<open>All bands\<close>

definition writes_succeed :: "hw_results \<Rightarrow> bool" where
  "writes_succeed rc \<longleftrightarrow> (\<forall>ks y b v. rc (ks @ [Display_write 0 y b v]) = 0)"

definition panel_shows :: "paint_config \<Rightarrow> (nat \<Rightarrow> nat \<Rightarrow> paint_color_t) \<Rightarrow> nat \<Rightarrow> nat \<Rightarrow> nat \<Rightarrow> hw_call list \<Rightarrow> bool" where
  "panel_shows pc G w a b ks \<longleftrightarrow> (\<forall>x y. x < w \<longrightarrow> a \<le> y \<longrightarrow> y < b \<longrightarrow> shown pc ks x y = Some (G x y))"

lemma panel_shows_Cons:
  assumes "band_written pc G w a (min (a + 16) b) k" "panel_shows pc G w (a + 16) b ks"
    and "\<forall>x y. y < a + 16 \<longrightarrow> shown pc ks x y = None"
  shows "panel_shows pc G w a b (k # ks)"
  unfolding panel_shows_def
proof (intro allI impI)
  fix x y assume "x < w" "a \<le> y" "y < b"
  then show "shown pc (k # ks) x y = Some (G x y)"
    using assms by (cases "y < a + 16") (auto simp: panel_shows_def band_written_def)
qed

lemma draws_display: "draws pc F p draw \<Longrightarrow> same_display p q \<Longrightarrow> draws pc F q draw"
  by (simp add: draws_def same_display_def)

definition bands_shown ::
  "paint_config \<Rightarrow> (nat \<Rightarrow> nat \<Rightarrow> paint_color_t) \<Rightarrow> nat \<Rightarrow> ('st, 'm) paint_disp_scheme \<Rightarrow> ('st, 'm) paint_disp_scheme \<Rightarrow> bool" where
  "bands_shown pc G a d d' \<longleftrightarrow> panel_ok pc d' \<and> same_display (paint_obj d) (paint_obj d') \<and> paint_disp.more d' = paint_disp.more d \<and>
     (\<exists>ks. hw_calls d' = hw_calls d @ ks \<and> panel_shows pc G (wd (paint_obj d)) a (ht (paint_obj d)) ks \<and>
       (\<forall>x y. y < a \<longrightarrow> shown pc ks x y = None))"

lemma bands_shown_step:
  assumes d1: "same_display (paint_obj d) (paint_obj d1)" "paint_disp.more d1 = paint_disp.more d" "hw_calls d1 = hw_calls d @ [Display_write 0 Y b v]"
    and w: "band_written pc G (wd (paint_obj d)) (unat Y) (min (unat Y + 16) (ht (paint_obj d))) (Display_write 0 Y b v)"
    and r: "bands_shown pc G (unat Y + 16) d1 d'"
  shows "bands_shown pc G (unat Y) d d'"
proof -
  have s: "wd (paint_obj d1) = wd (paint_obj d)" "ht (paint_obj d1) = ht (paint_obj d)" using d1(1) by (simp_all add: same_display_def)
  obtain ks where ks: "hw_calls d' = hw_calls d1 @ ks" "panel_shows pc G (wd (paint_obj d)) (unat Y + 16) (ht (paint_obj d)) ks"
      "\<forall>x y. y < unat Y + 16 \<longrightarrow> shown pc ks x y = None"
    using r by (auto simp: bands_shown_def s)
  have "panel_shows pc G (wd (paint_obj d)) (unat Y) (ht (paint_obj d)) (Display_write 0 Y b v # ks)"
    by (rule panel_shows_Cons [OF w ks(2,3)])
  moreover have "shown pc (Display_write 0 Y b v # ks) x y = None" if "y < unat Y" for x y
    using that ks(3) by (simp add: written_def)
  ultimately show ?thesis
    using r d1 ks(1) unfolding bands_shown_def same_display_def by (intro conjI exI [of _ "Display_write 0 Y b v # ks"]) simp_all
qed

lemma paint_bands_show:
  fixes d :: "('st, 'm) paint_disp_scheme"
  assumes "panel_ok pc d" "desc_ok d" "draws pc F (paint_obj d) draw" "writes_succeed rc"
  shows "yields (paint_bands pc rc draw Y 0 d) (\<lambda>(err, d'). err = 0 \<and> bands_shown pc (\<lambda>x y. F x y WHITE) (unat Y) d d')"
  using assms
proof (induction "ht (paint_obj d) - unat Y" arbitrary: Y d rule: less_induct)
  case less
  note ok = less.prems(1)
  have H: "unat (y_resolution d) = ht (paint_obj d)" "ht (paint_obj d) < 2 ^ 15" using ok by (simp_all add: panel_ok_def frame_ok_def)
  show ?case
  proof (cases "Y < y_resolution d")
    case True
    then have Y: "unat Y < ht (paint_obj d)" using H by (simp add: word_less_nat_alt)
    then have Y16: "unat (Y + 16) = unat Y + 16" using H by (subst unat_add_lem [THEN iffD1]) simp_all
    have "yields (paint_bands pc rc draw (Y + 16) 0 d1) (\<lambda>(err, d'). err = 0 \<and> bands_shown pc (\<lambda>x y. F x y WHITE) (unat Y) d d')"
      if d1: "panel_ok pc d1" "desc_ok d1" "same_display (paint_obj d) (paint_obj d1)" "paint_disp.more d1 = paint_disp.more d"
        and k: "hw_calls d1 = hw_calls d @ [Display_write 0 Y b v]"
          "band_written pc (\<lambda>x y. F x y WHITE) (wd (paint_obj d)) (unat Y) (min (unat Y + 16) (ht (paint_obj d))) (Display_write 0 Y b v)"
      for b v and d1 :: "('st, 'm) paint_disp_scheme"
    proof -
      have "ht (paint_obj d1) - unat (Y + 16) < ht (paint_obj d) - unat Y" using Y Y16 d1(3) by (simp add: same_display_def)
      note IH = less.hyps [OF this d1(1,2) draws_display [OF less.prems(3) d1(3)] less.prems(4), unfolded Y16]
      show ?thesis by (rule yields_mono [OF IH]) (use bands_shown_step [OF d1(3,4) k] in auto)
    qed
    then show ?thesis
      unfolding paint_bands.simps [of pc rc draw Y 0 d] if_P [OF True]
      by (intro yields_bindI [OF paint_band_shows [OF less.prems(1,2,3) Y, of rc]])
        (use less.prems(4) in \<open>auto simp: writes_succeed_def\<close>)
  next
    case False
    then have "ht (paint_obj d) \<le> unat Y" using H by (simp add: word_less_nat_alt)
    then have "bands_shown pc (\<lambda>x y. F x y WHITE) (unat Y) d d"
      using ok by (auto simp: bands_shown_def panel_shows_def same_display_def intro!: exI [of _ "[]"])
    then show ?thesis
      unfolding paint_bands.simps [of pc rc draw Y 0 d] if_not_P [OF False] by simp
  qed
qed

subsection \<open>Drawing through the driver\<close>

text \<open>A frame for the whole picture, drawn on after it was cleared.\<close>

definition whole_picture ::
  "paint_config \<Rightarrow> sFONT \<Rightarrow> (u8 list \<times> paint_color_t \<times> u16 \<times> u16) list \<Rightarrow> paint_obj_t \<Rightarrow> paint_obj_t option" where
  "whole_picture pc font ts p = Option.bind (paint_Fill pc WHITE p) (draw_texts pc font ts)"

lemma whole_picture_color:
  assumes "frame_ok pc p" "band_height p = 0" "good_texts font ts"
  shows "yields (whole_picture pc font ts p) (\<lambda>q. \<forall>x y. x < wd p \<longrightarrow> y < ht p \<longrightarrow> picture pc q x y = texts_color pc p font ts x y WHITE)"
  unfolding whole_picture_def
  by (rule yields_mono [OF draws_filled [OF draws_texts [OF assms(1,3)] assms(1)]])
    (use assms(2) in \<open>auto simp: recolors_def shown_color_def in_frame_def first_row_def rows_def same_display_def\<close>)

lemma only_calls_panel:
  assumes "only_calls d e"
  shows "panel_ok pc e = panel_ok pc d" "desc_ok e = desc_ok d" "paint_obj e = paint_obj d" "x_resolution e = x_resolution d"
    "y_resolution e = y_resolution d" "paint_disp.more e = paint_disp.more d"
  using assms by (auto simp: only_calls_def panel_ok_def desc_ok_def)

lemma only_calls_shown: "only_calls d e \<Longrightarrow> shown pc (hw_calls e) x y = shown pc (hw_calls d) x y"
  by (auto simp: only_calls_def shown_append shown_no_write)

lemma show_bands_shows:
  fixes d :: "('st, 'm) paint_disp_scheme"
  assumes ok: "panel_ok pc d" and draw: "draws pc F (paint_obj d) draw" and rc: "writes_succeed rc"
  shows "yields (show_bands c pc rc draw d) (\<lambda>(err, d'). err = 0 \<and> panel_ok pc d' \<and> same_display (paint_obj d) (paint_obj d') \<and>
    paint_disp.more d' = paint_disp.more d \<and> panel_shows pc (\<lambda>x y. F x y WHITE) (wd (paint_obj d)) 0 (ht (paint_obj d)) (hw_calls d'))"
proof -
  let ?e = "hw_do [Blanking_on] (d\<lparr>buf_desc := (buf_desc d)\<lparr>bd_width := x_resolution d, bd_pitch := x_resolution d\<rparr>\<rparr>)"
  have e: "panel_ok pc ?e" "desc_ok ?e" "paint_obj ?e = paint_obj d" using ok by (simp_all add: panel_ok_def desc_ok_def hw_do_def)
  have "panel_ok pc (hw_do [Blanking_off] d1) \<and> paint_disp.more (hw_do [Blanking_off] d1) = paint_disp.more d \<and> same_display (paint_obj d) (paint_obj (hw_do [Blanking_off] d1)) \<and>
      panel_shows pc (\<lambda>x y. F x y WHITE) (wd (paint_obj d)) 0 (ht (paint_obj d)) (hw_calls (hw_do [Blanking_off] d1))"
    if "bands_shown pc (\<lambda>x y. F x y WHITE) 0 ?e d1" for d1 :: "('st, 'm) paint_disp_scheme"
    using that by (auto simp: bands_shown_def panel_ok_def e(3) hw_do_def panel_shows_def shown_append written_def)
  then show ?thesis
    unfolding show_bands_def
    by (intro yields_bindI [OF paint_bands_show [OF e(1,2) _ rc, unfolded e(3), OF draw, of 0]]) auto
qed

text \<open>The queue of texts.\<close>

fun print_texts :: "(u8 list \<times> u16 \<times> u16) list \<Rightarrow> ('st, 'm) uc_disp_scheme \<Rightarrow> (int list \<times> ('st, 'm) uc_disp_scheme) option" where
  "print_texts [] d = Some ([], d)"
| "print_texts ((s, x, y) # ts) d = do {
     (e, d1) \<leftarrow> uc_display_print_paint s x y d;
     (es, d2) \<leftarrow> print_texts ts d1;
     Some (e # es, d2) }"

definition black_texts :: "(u8 list \<times> u16 \<times> u16) list \<Rightarrow> (u8 list \<times> paint_color_t \<times> u16 \<times> u16) list" where
  "black_texts ts = map (\<lambda>(s, x, y). (take 63 s, BLACK, x, y)) ts"

lemma c_string_text_array: "0 \<notin> set s \<Longrightarrow> c_string (text_array s) = take 63 s"
proof -
  assume s: "0 \<notin> set s"
  have "text_array s = take 63 s @ replicate (63 - length s) 0 @ [0]" by (simp add: text_array_def)
  moreover have "\<forall>x \<in> set (take 63 s). x \<noteq> 0" using s by (auto dest: in_set_takeD)
  ultimately show ?thesis
    unfolding c_string_def by (cases "63 - length s") (auto simp: takeWhile_append2)
qed

lemma print_texts_queue:
  assumes "length (paint_cmds d) = 8" "paint_cmd_count d + length ts \<le> 8" "\<forall>(s, x, y) \<in> set ts. 0 \<notin> set s"
  shows "yields (print_texts ts d) (\<lambda>(es, d'). es = replicate (length ts) 0 \<and> queued_texts d' = queued_texts d @ black_texts ts \<and>
    length (paint_cmds d') = 8 \<and> paint_cmd_count d' = paint_cmd_count d + length ts \<and>
    d' = d\<lparr>paint_cmds := paint_cmds d', paint_cmd_count := paint_cmd_count d'\<rparr>)"
  using assms
proof (induction ts arbitrary: d)
  case (Cons t ts)
  obtain s x y where t: "t = (s, x, y)" by (cases t)
  let ?n = "paint_cmd_count d"
  let ?d = "d\<lparr>paint_cmds := (paint_cmds d)[?n := \<lparr>cmd_text = text_array s, cmd_x = x, cmd_y = y\<rparr>], paint_cmd_count := Suc ?n\<rparr>"
  have n: "?n < 8" using Cons.prems(2) by simp
  have p: "uc_display_print_paint s x y d = Some (0, ?d)"
    using n Cons.prems(1) by (simp add: uc_display_print_paint_def)
  have "take (Suc ?n) ((paint_cmds d)[?n := c]) = take ?n (paint_cmds d) @ [c]" for c
    using n Cons.prems(1) by (simp add: take_Suc_conv_app_nth)
  then have q: "queued_texts ?d = queued_texts d @ [(take 63 s, BLACK, x, y)]"
    using Cons.prems(3) by (simp add: queued_texts_def t c_string_text_array)
  have "yields (print_texts ts ?d) (\<lambda>(es, d'). es = replicate (length ts) 0 \<and> queued_texts d' = queued_texts ?d @ black_texts ts \<and>
      length (paint_cmds d') = 8 \<and> paint_cmd_count d' = paint_cmd_count ?d + length ts \<and>
      d' = ?d\<lparr>paint_cmds := paint_cmds d', paint_cmd_count := paint_cmd_count d'\<rparr>)"
    by (rule Cons.IH) (use Cons.prems in simp_all)
  then show ?case
    by (auto simp: t p q wp black_texts_def elim!: yields_mono)
qed (simp add: black_texts_def)

lemma print_texts_full: "8 \<le> paint_cmd_count d \<Longrightarrow> uc_display_print_paint s x y d = Some (- ENOMEM, d)"
  by (simp add: uc_display_print_paint_def)

lemma power_shows: "only_calls d e \<Longrightarrow> panel_shows pc G w a h (hw_calls e) = panel_shows pc G w a h (hw_calls d)"
  by (simp add: panel_shows_def only_calls_shown)

lemmas powered_on = only_calls_panel [OF only_calls_power(1) [OF only_calls_refl]]
lemmas powered_off = only_calls_panel [OF only_calls_power(2) [OF only_calls_refl]]
lemmas powered_off_shows = power_shows [OF only_calls_power(2) [OF only_calls_refl]]

lemma same_commands:
  fixes d d' :: "('st, 'm) uc_disp_scheme"
  assumes "paint_disp.more d' = paint_disp.more d"
  shows "paint_cmds d' = paint_cmds d" "paint_cmd_count d' = paint_cmd_count d"
  using assms by (cases d, cases d', simp)+

lemma clear_clears:
  fixes d :: "('st, 'm) uc_disp_scheme"
  assumes "panel_ok pc d" "writes_succeed rc"
  shows "yields (uc_display_clear_paint c pc rc d) (\<lambda>(err, d'). err = 0 \<and> panel_ok pc d' \<and> same_display (paint_obj d) (paint_obj d') \<and>
    paint_cmds d' = paint_cmds d \<and> paint_cmd_count d' = 0 \<and> panel_shows pc (\<lambda>x y. WHITE) (wd (paint_obj d)) 0 (ht (paint_obj d)) (hw_calls d'))"
proof -
  let ?e = "(uc_power_on c rc d)\<lparr>paint_cmd_count := 0\<rparr>"
  have "panel_ok pc ?e = panel_ok pc (uc_power_on c rc d)" "paint_obj ?e = paint_obj (uc_power_on c rc d)"
    by (simp_all add: panel_ok_def)
  then have e: "panel_ok pc ?e" "paint_obj ?e = paint_obj d" using assms(1) by (simp_all add: powered_on)
  have cmds: "paint_cmds (uc_power_on c rc d) = paint_cmds d" by (rule same_commands(1)) (simp add: powered_on)
  have off: "paint_cmds (uc_power_off c rc d') = paint_cmds d'" "paint_cmd_count (uc_power_off c rc d') = paint_cmd_count d'"
    for d' :: "('st, 'm) uc_disp_scheme"
    by (rule same_commands, simp add: powered_off)+
  have m: "paint_cmds d' = paint_cmds d \<and> paint_cmd_count d' = 0" if "paint_disp.more d' = paint_disp.more ?e" for d' :: "('st, 'm) uc_disp_scheme"
    using same_commands [OF that] cmds by simp
  show ?thesis
    unfolding uc_display_clear_paint_def
    by (intro yields_bindI [OF show_bands_shows [OF e(1) draws_nothing assms(2)]])
      (auto simp: e(2) cmds off powered_off powered_off_shows dest: m)
qed

lemma update_shows:
  fixes d :: "('st, 'm) uc_disp_scheme"
  assumes "panel_ok pc d" "writes_succeed rc" "good_texts font (queued_texts d)"
  shows "yields (uc_display_update_paint c pc rc font d) (\<lambda>(err, d'). err = 0 \<and> panel_ok pc d' \<and> same_display (paint_obj d) (paint_obj d') \<and>
    panel_shows pc (\<lambda>x y. texts_color pc (paint_obj d) font (queued_texts d) x y WHITE) (wd (paint_obj d)) 0 (ht (paint_obj d)) (hw_calls d'))"
proof -
  have "frame_ok pc (paint_obj d)" using assms(1) by (simp add: panel_ok_def)
  from draws_texts [OF this assms(3)] assms(1)
  have e: "panel_ok pc (uc_power_on c rc d)"
      "draws pc (texts_color pc (paint_obj d) font (queued_texts d)) (paint_obj (uc_power_on c rc d)) (draw_texts pc font (queued_texts d))"
    by (simp_all add: powered_on)
  show ?thesis
    unfolding uc_display_update_paint_def
    by (intro yields_bindI [OF show_bands_shows [OF e assms(2)]]) (auto simp: powered_on powered_off powered_off_shows)
qed

end
