(* ===== verification/Hw_Chunks.thy ===== *)
theory Hw_Chunks
  imports Hw_Shown
begin

unbundle bit_operations_syntax

text \<open>
  The loop that shows an image file in chunks of eight rows: what it writes for a file in the LittleFS storage, and how
  often it writes whatever the file holds.
\<close>

subsection \<open>Reading a file at any position\<close>

lemma lfs_read_at:
  assumes "fs_ok A" "opened A (fst st) (snd st) n p v" "q + l \<le> length v" "l \<le> length b"
  shows "lfs_read_img A mnt i b l (int q) st =
    Some (int l, take l (drop q v) @ drop l b, fst st, Some \<lparr>fh_name = n, fh_pos = q + l\<rparr>)"
proof -
  obtain r where s: "0 \<le> r" "file_seek A (snd st) (int q) (fst st) = (r, Some \<lparr>fh_name = n, fh_pos = q\<rparr>)"
    using seek_opened [OF assms(1,2), of q] assms(3) by auto
  have e: "lfs_ensure_open A mnt i st = (fst st, snd st)"
    by (rule lfs_is_open) (use assms(2) in \<open>simp add: opened_def\<close>)
  have "min l (length v - q) = l" using assms(3) by simp
  then show ?thesis
    using s read_opened [OF assms(1) opened_seek [OF assms(2), of q] assms(4)] assms(3)
    by (simp add: lfs_read_img_def e case_prod_unfold)
qed

subsection \<open>The chunks of a picture\<close>

text \<open>The writes of the data \<open>v\<close> from the rows \<open>8 k\<close> on, \<open>w\<close> bytes at a time: a byte is a column of eight points.\<close>

function piece_writes :: "nat \<Rightarrow> display_buffer_descriptor \<Rightarrow> nat \<Rightarrow> u8 list \<Rightarrow> hw_call list" where
  "piece_writes w b k v =
     (if v = [] \<or> w = 0 then []
      else Display_write 0 (of_nat (8 * k)) (b\<lparr>bd_buf_size := of_nat (min w (length v)), bd_height := of_nat (min w (length v) * 8 div w)\<rparr>)
          (take w v) # piece_writes w b (Suc k) (drop w v))"
  by pat_completeness auto
termination by (relation "measure (\<lambda>(w, b, k, v). length v)") auto

declare piece_writes.simps [simp del]

fun write_bytes :: "hw_call \<Rightarrow> u8 list" where
  "write_bytes (Display_write x y b v) = v"
| "write_bytes _ = []"

lemma piece_writes_bytes: "0 < w \<Longrightarrow> concat (map write_bytes (piece_writes w b k v)) = v"
  by (induction w b k v rule: piece_writes.induct) (simp add: piece_writes.simps)

lemma piece_writes_desc:
  "piece_writes w (b\<lparr>bd_buf_size := n\<rparr>) k v = piece_writes w b k v" "piece_writes w (b\<lparr>bd_height := h\<rparr>) k v = piece_writes w b k v"
  by (induction w b k v rule: piece_writes.induct) (simp_all add: piece_writes.simps)

lemma piece_writes_count: "0 < w \<Longrightarrow> length (piece_writes w b k v) = (length v + w - 1) div w"
proof (induction w b k v rule: piece_writes.induct)
  case (1 w b k v)
  show ?case
  proof (cases "v = []")
    case False
    have "(length v + w - 1) div w = Suc ((length v - w + w - 1) div w)"
    proof (cases "w \<le> length v")
      case True
      then have "length v + w - 1 = (length v - w + w - 1) + w" using 1(2) by simp
      then show ?thesis using 1(2) by (metis add.commute div_add_self1 less_numeral_extra(3) plus_1_eq_Suc)
    next
      case f: False
      have "(n + w - 1) div w = 1" if "0 < n" "n < w" for n using that by (intro div_nat_eqI) auto
      moreover have "0 < length v" "length v < w" using f False by simp_all
      ultimately have "(length v + w - 1) div w = 1" by blast
      then show ?thesis using f 1(2) by simp
    qed
    then show ?thesis using 1 False by (simp add: piece_writes.simps [of w b k v])
  qed (use 1(2) in \<open>simp add: piece_writes.simps\<close>)
qed

subsection \<open>The loop on a file\<close>

lemma unat_min_u32: "n < 2 ^ 32 \<Longrightarrow> unat (of_nat n :: u32) = n"
  by (simp add: unat_of_nat)

lemma sint_small: "n < 2 ^ 31 \<Longrightarrow> sint (of_nat n :: u32) = int n"
  by (simp add: sint_uint signed_take_bit_int_eq_self take_bit_int_eq_self uint_nat unat_of_nat)

definition showing :: "'f fs_api \<Rightarrow> string \<Rightarrow> u8 list \<Rightarrow> nat \<Rightarrow> ('f lfs, 'm) disp_scheme \<Rightarrow> bool" where
  "showing A n v w d \<longleftrightarrow> (\<exists>p. opened A (fst (storage d)) (snd (storage d)) n p v) \<and> w \<le> length (img_buf d) \<and> unat (bd_width (buf_desc d)) = w"

lemma draw_chunk_writes:
  fixes d :: "('f lfs, 'm) disp_scheme"
  assumes A: "fs_ok A" and cb: "cb_read_img cb = Some (lfs_read_img A mnt)" and rc: "writes_succeed rc"
    and s: "showing A n v w d" and l: "l \<le> w" "6 + q + l \<le> length v" "length v < 2 ^ 28"
  shows "yields (draw_chunk cb i (write_chunk rc) (of_nat l) (of_nat q) y d) (\<lambda>(err, d'). err = 0 \<and> showing A n v w d' \<and>
    buf_desc d' = (buf_desc d)\<lparr>bd_buf_size := of_nat l\<rparr> \<and> fst (storage d') = fst (storage d) \<and>
    hw_calls d' = hw_calls d @ [Display_write 0 y (buf_desc d') (take l (drop (6 + q) v))])"
proof -
  obtain p where o: "opened A (fst (storage d)) (snd (storage d)) n p v" and b: "w \<le> length (img_buf d)" "unat (bd_width (buf_desc d)) = w"
    using s by (auto simp: showing_def)
  have "sint (of_nat q + 6 :: u32) = sint (of_nat (6 + q) :: u32)" by (simp add: add.commute)
  also have "\<dots> = int (6 + q)" by (rule sint_small) (use l in simp)
  finally have q: "sint (of_nat q + 6 :: u32) = int (6 + q)" .
  have u: "unat (of_nat l :: u32) = l" by (rule unat_min_u32) (use l in simp)
  have lb: "l \<le> length (img_buf d)" using l(1) b(1) by simp
  have r: "disp_read_image cb i l (int (6 + q)) d = Some (int l, d\<lparr>img_buf := take l (drop (6 + q) v) @ drop l (img_buf d),
      storage := (fst (storage d), Some \<lparr>fh_name = n, fh_pos = 6 + q + l\<rparr>)\<rparr>)"
    using lfs_read_at [OF A o l(2) lb] cb by (simp add: disp_read_image_def)
  have len: "length (take l (drop (6 + q) v)) = l" using l(2) by simp
  have "opened A (fst (storage d)) (Some \<lparr>fh_name = n, fh_pos = 6 + q + l\<rparr>) n (6 + q + l) v"
    using o l(2) by (simp add: opened_def)
  then show ?thesis
    using r rc b lb len
    by (auto simp: draw_chunk_def q u write_chunk_def display_write_def hw_def wp showing_def writes_succeed_def)
qed

text \<open>The row and the next chunk, in numbers.\<close>

lemma ucast_nat_u16: "ucast (of_nat n :: u32) = (of_nat n :: u16)"
  by (simp add: word_unat_eq_iff unsigned_ucast_eq unat_of_nat take_bit_eq_mod mod_mod_cancel)

lemma row_of_nat:
  assumes "unat (bd_width (buf_desc d)) = w" "0 < w" "k * w < 2 ^ 28"
  shows "row_of (of_nat (k * w)) d = of_nat (8 * k)"
proof -
  have w: "unat (ucast (bd_width (buf_desc d)) :: u32) = w" using assms(1) by (simp add: unat_ucast_u16)
  have "k \<le> k * w" using assms(2) by simp
  then have "k < 2 ^ 28" using assms(3) by (rule le_less_trans)
  then have small: "8 * k < 2 ^ 32" by simp
  have "unat (of_nat (k * w) * 8 :: u32) = k * w * 8"
    using assms(3) by (subst unat_mult_u32) (simp_all add: unat_min_u32 del: of_nat_mult)
  then have "unat (of_nat (k * w) * 8 div ucast (bd_width (buf_desc d)) :: u32) = 8 * k"
    using assms(2) by (simp add: unat_div_u32 w del: of_nat_mult)
  then have "of_nat (k * w) * 8 div ucast (bd_width (buf_desc d)) = (of_nat (8 * k) :: u32)"
    using assms(2,3) small by (simp add: word_unat_eq_iff unat_min_u32 del: of_nat_mult)
  then show ?thesis by (simp add: row_of_def ucast_nat_u16 del: of_nat_mult)
qed

lemma next_chunk_nat:
  assumes "unat (bd_width (buf_desc d)) = w" "0 < w" "m < 2 ^ 28" "l < 2 ^ 28"
  shows "next_chunk (of_nat m) (of_nat l) d =
    (of_nat (min m l), if m < l then d\<lparr>buf_desc := (buf_desc d)\<lparr>bd_height := of_nat (m * 8 div w)\<rparr>\<rparr> else d)"
proof -
  have w: "unat (ucast (bd_width (buf_desc d)) :: u32) = w" using assms(1) by (simp add: unat_ucast_u16)
  have u: "unat (of_nat m :: u32) = m" "unat (of_nat l :: u32) = l" using assms(3,4) by (simp_all add: unat_min_u32)
  have m8: "m * 8 < 2 ^ 32" using assms(3) by simp
  have small: "m * 8 div w < 2 ^ 32" by (rule le_less_trans [OF div_le_dividend m8])
  have "unat (of_nat m * 8 :: u32) = m * 8" using u assms(3) by (subst unat_mult_u32) simp_all
  then have "unat (of_nat m * 8 div ucast (bd_width (buf_desc d)) :: u32) = m * 8 div w" by (simp add: unat_div_u32 w)
  then have "of_nat m * 8 div ucast (bd_width (buf_desc d)) = (of_nat (m * 8 div w) :: u32)"
    using small by (simp add: word_unat_eq_iff unat_min_u32)
  then have "(ucast (of_nat m * 8 div ucast (bd_width (buf_desc d)) :: u32) :: u16) = of_nat (m * 8 div w)" by (simp add: ucast_nat_u16)
  then show ?thesis by (auto simp: next_chunk_def word_less_nat_alt u)
qed

lemma desc_for_next:
  "piece_writes w (if c then b\<lparr>bd_buf_size := n, bd_height := h\<rparr> else b\<lparr>bd_buf_size := n\<rparr>) k v = piece_writes w b k v"
  by (cases c) (simp_all add: piece_writes_desc)

lemma draw_chunks_write:
  fixes d :: "('f lfs, 'm) disp_scheme"
  assumes A: "fs_ok A" and cb: "cb_read_img cb = Some (lfs_read_img A mnt)" and rc: "writes_succeed rc" and w: "0 < w" and v: "length v < 2 ^ 28"
    and m: "6 + k * w + m = length v" and s: "showing A n v w d" and h: "bd_height (buf_desc d) = of_nat (min w m * 8 div w)"
  shows "yields (draw_chunks cb i (write_chunk rc) (of_nat m) (of_nat (min w m)) (of_nat (k * w)) (of_nat (8 * k)) err d)
    (\<lambda>(stopped, err', d'). \<not> stopped \<and> (0 < m \<or> err = 0 \<longrightarrow> err' = 0) \<and> showing A n v w d' \<and> fst (storage d') = fst (storage d) \<and>
      hw_calls d' = hw_calls d @ piece_writes w (buf_desc d) k (drop (6 + k * w) v))"
  using m s h
proof (induction m arbitrary: k err d rule: less_induct)
  case (less m)
  note unf = draw_chunks.simps [of cb i "write_chunk rc" "of_nat m" "of_nat (min w m)" "of_nat (k * w)" "of_nat (8 * k)" err d]
  have um: "unat (of_nat m :: u32) = m" using less.prems(1) v by (intro unat_min_u32) simp
  show ?case
  proof (cases "m = 0")
    case True
    then show ?thesis
      using less.prems(1,2) unfolding unf by (simp add: piece_writes.simps)
  next
    case False
    then have pos: "0 < m" by simp
    let ?l = "min w m" and ?b = "(buf_desc d)\<lparr>bd_buf_size := of_nat (min w m)\<rparr>"
    have m0: "of_nat m \<noteq> (0 :: u32)" using False um by auto
    have small: "m < 2 ^ 28" "?l < 2 ^ 28" "k * w < 2 ^ 28" using less.prems(1) v by simp_all
    have nm: "of_nat m - of_nat ?l = (of_nat (m - ?l) :: u32)" by (simp add: of_nat_diff)
    have np: "of_nat (k * w) + of_nat ?l = (of_nat (k * w + ?l) :: u32)" by simp
    have "yields (case next_chunk (of_nat m - of_nat ?l) (of_nat ?l) d1 of (c2, d2) \<Rightarrow>
        draw_chunks cb i (write_chunk rc) (of_nat m - of_nat ?l) c2 (of_nat (k * w) + of_nat ?l) (row_of (of_nat (k * w) + of_nat ?l) d2) 0 d2)
      (\<lambda>(stopped, err', d'). \<not> stopped \<and> (0 < m \<or> err = 0 \<longrightarrow> err' = 0) \<and> showing A n v w d' \<and> fst (storage d') = fst (storage d) \<and>
        hw_calls d' = hw_calls d @ piece_writes w (buf_desc d) k (drop (6 + k * w) v))"
      if d1: "showing A n v w d1" "buf_desc d1 = ?b" "fst (storage d1) = fst (storage d)"
          "hw_calls d1 = hw_calls d @ [Display_write 0 (of_nat (8 * k)) ?b (take ?l (drop (6 + k * w) v))]"
        for d1 :: "('f lfs, 'm) disp_scheme"
    proof -
      have bw: "unat (bd_width (buf_desc d1)) = w" using d1(1) by (simp add: showing_def)
      let ?d2 = "if m - ?l < ?l then d1\<lparr>buf_desc := (buf_desc d1)\<lparr>bd_height := of_nat ((m - ?l) * 8 div w)\<rparr>\<rparr> else d1"
      have nx: "next_chunk (of_nat (m - ?l)) (of_nat ?l) d1 = (of_nat (min (m - ?l) ?l), ?d2)"
        using next_chunk_nat [OF bw w, of "m - ?l" ?l] small by (simp del: of_nat_diff)
      have d2: "showing A n v w ?d2" "storage ?d2 = storage d1" "hw_calls ?d2 = hw_calls d1"
        "buf_desc ?d2 = (if m - ?l < ?l then ?b\<lparr>bd_height := of_nat ((m - ?l) * 8 div w)\<rparr> else ?b)"
        using d1(1,2) by (auto simp: showing_def)
      have dr: "take ?l (drop (6 + k * w) v) = take w (drop (6 + k * w) v)" using less.prems(1) by (simp add: min_def)
      have ps: "piece_writes w (buf_desc d) k (drop (6 + k * w) v) =
          Display_write 0 (of_nat (8 * k)) ?b (take ?l (drop (6 + k * w) v)) # piece_writes w (buf_desc d) (Suc k) (drop (6 + Suc k * w) v)"
      proof -
        have "length (drop (6 + k * w) v) = m" using less.prems(1) by simp
        moreover have "drop w (drop (6 + k * w) v) = drop (6 + Suc k * w) v" by (simp add: add.commute add.left_commute)
        moreover have "(buf_desc d)\<lparr>bd_buf_size := of_nat ?l, bd_height := of_nat (?l * 8 div w)\<rparr> = ?b"
          using less.prems(3) by simp
        ultimately show ?thesis
          using False w less.prems(1) dr by (subst piece_writes.simps) auto
      qed
      show ?thesis
      proof (cases "w \<le> m")
        case True
        then have l: "?l = w" by simp
        have hd: "bd_height (buf_desc ?d2) = of_nat (min w (m - w) * 8 div w)"
          using d2(4) less.prems(3) l w by (auto simp: min_def)
        have e: "6 + Suc k * w + (m - w) = length v" "m - w < m" using less.prems(1) True w by simp_all
        note IH = less.IH [OF e(2,1) d2(1) hd, of 0]
        have row: "row_of (of_nat (Suc k * w)) ?d2 = of_nat (8 * Suc k)"
          by (rule row_of_nat) (use bw w e(1) v in auto)
        have np': "k * w + w = Suc k * w" "min (m - w) w = min w (m - w)" by simp_all
        have fin: "piece_writes w (buf_desc ?d2) (Suc k) v' = piece_writes w (buf_desc d) (Suc k) v'" for v'
          unfolding d2(4) by (simp add: piece_writes_desc)
        show ?thesis
          unfolding l nm [unfolded l] np [unfolded l] nx [unfolded l] np' case_prod_conv row [unfolded l]
          by (rule yields_mono [OF IH [unfolded l]]) (use d1(3,4) d2(2,3) ps fin l in \<open>auto\<close>)
      next
        case False
        then have l: "?l = m" by simp
        let ?d3 = "d1\<lparr>buf_desc := (buf_desc d1)\<lparr>bd_height := 0\<rparr>\<rparr>"
        have e: "draw_chunks cb i (write_chunk rc) 0 c x y 0 d3 = Some (False, 0, d3)" for c x y and d3 :: "('f lfs, 'm) disp_scheme"
          by (simp add: draw_chunks.simps)
        have pw: "piece_writes w (buf_desc d) (Suc k) (drop (6 + Suc k * w) v) = []"
          using less.prems(1) False by (simp add: piece_writes.simps)
        have d3: "?d2 = ?d3" "showing A n v w ?d3" using pos d1(1) l by (simp_all add: showing_def)
        have z: "of_nat (m - m) = (0 :: u32)" by simp
        have nx3: "next_chunk 0 (of_nat m) d1 = (0, ?d3)" using nx [unfolded d3(1), unfolded l] by simp
        show ?thesis
          unfolding l nm [unfolded l] np [unfolded l] z nx3 case_prod_conv e yields_Some
          using d1(3) d1(4) [unfolded l] d3(2) ps [unfolded l pw] by simp
      qed
    qed
    then show ?thesis
      unfolding unf if_not_P [OF m0]
      by (intro yields_bindI [OF draw_chunk_writes [OF A cb rc less.prems(2) _ _ v]]) (use less.prems(1) in \<open>auto\<close>)
  qed
qed

subsection \<open>An image on the display\<close>

text \<open>The callbacks of the LittleFS storage.\<close>

definition lfs_callbacks :: "'f fs_api \<Rightarrow> string \<Rightarrow> 'f lfs callbacks \<Rightarrow> bool" where
  "lfs_callbacks A mnt cb \<longleftrightarrow> cb_read_img cb = Some (lfs_read_img A mnt) \<and> cb_read_img_size cb = lfs_read_img_size A mnt \<and>
     cb_open_image cb = Some (lfs_open_image A mnt) \<and> cb_close_image cb = Some (lfs_close_image A)"

lemma lfs_open_view:
  assumes A: "fs_ok A" "fs_reliable A" and f: "fa_file A (fst st) (lfs_path mnt (unat i)) = Some v"
  shows "opened A (fst (snd (lfs_open_image A mnt i st))) (snd (snd (lfs_open_image A mnt i st))) (lfs_path mnt (unat i)) 0 v"
proof -
  let ?n = "lfs_path mnt (unat i)"
  let ?fs = "if snd st \<noteq> None then snd (snd (file_close A (snd st) (fst st))) else fst st"
  have fs: "fa_file A ?fs ?n = Some v"
    using close_keeps(1) [OF A(1), of "snd st" "fst st"] f by (cases "file_close A (snd st) (fst st)") auto
  obtain r h fs1 where o: "file_open A ?n True ?fs = (r, h, fs1)" using prod_cases3 by blast
  have "0 \<le> fst (fa_open A ?n True ?fs)" using A(2) fs by (simp add: fs_reliable_def)
  then have "0 \<le> r" using o by (auto simp: file_open_def case_prod_unfold Let_def)
  from open_create(1) [OF A(1) o this] have "opened A fs1 h ?n 0 v" using fs by simp
  then show ?thesis using o by (simp add: lfs_open_image_def case_prod_unfold Let_def)
qed

lemma lfs_close_view: "fs_ok A \<Longrightarrow> fa_file A (fst (snd (lfs_close_image A st))) = fa_file A (fst st)"
proof -
  assume A: "fs_ok A"
  have "fa_file A (snd (fa_sync A h fs)) = fa_file A fs" for h fs using A by (simp add: fs_ok_def close_ok_def)
  moreover have "fa_file A (snd (snd (file_close A h fs))) = fa_file A fs" for h fs
    using close_keeps(1) [OF A] by (cases "file_close A h fs") auto
  ultimately show ?thesis by (simp add: lfs_close_image_def case_prod_unfold Let_def)
qed

text \<open>What an image file holds: two bytes, the sizes, and a byte for every eight points.\<close>

definition image_file :: "u8 list \<Rightarrow> u16 \<Rightarrow> u16 \<Rightarrow> u8 list \<Rightarrow> bool" where
  "image_file v w h pic \<longleftrightarrow> (\<exists>a b. v = [a, b] @ le16 w @ le16 h @ pic) \<and> length pic = unat w * unat h div 8 \<and>
     0 < unat w \<and> 8 \<le> unat h \<and> length v < 2 ^ 28"

lemma image_file_parts:
  assumes "image_file v w h pic"
  shows "drop 6 v = pic" "6 \<le> length v" "of_le16 (drop 2 (take 6 v @ b)) = w" "of_le16 (drop 4 (take 6 v @ b)) = h" "unat w \<le> length v - 6"
proof -
  obtain x y where v: "v = [x, y] @ le16 w @ le16 h @ pic" using assms by (auto simp: image_file_def)
  obtain p q r s where l: "le16 w = [p, q]" "le16 h = [r, s]" by (simp add: le16_def)
  show "drop 6 v = pic" "6 \<le> length v" by (simp_all add: v l)
  have "drop 2 (take 6 v @ b) = le16 w @ le16 h @ b" "drop 4 (take 6 v @ b) = le16 h @ b" by (simp_all add: v l)
  then show "of_le16 (drop 2 (take 6 v @ b)) = w" "of_le16 (drop 4 (take 6 v @ b)) = h" by (simp_all add: of_le16_le16)
  have "unat w * 8 div 8 \<le> unat w * unat h div 8" using assms by (intro div_le_mono mult_le_mono2) (simp add: image_file_def)
  then show "unat w \<le> length v - 6" using assms v by (simp add: image_file_def)
qed

lemma load_image_file:
  fixes d :: "('f lfs, 'm) disp_scheme"
  assumes A: "fs_ok A" "fs_reliable A" and cb: "lfs_callbacks A mnt cb"
    and f: "fa_file A (fst (storage d)) (lfs_path mnt (unat i)) = Some v" and v: "image_file v w h pic"
    and fit: "w \<le> x_resolution d" "h \<le> y_resolution d" "unat w * unat h < 2 ^ 31"
    and buf: "length (img_buf d) = esl_image_buffer_size c" "6 \<le> esl_image_buffer_size c"
  shows "yields (load_image c cb True i d) (\<lambda>(img_size, err, bad, d'). img_size = of_nat (length v) \<and> bad = 0 \<and>
    (\<exists>p. opened A (fst (storage d')) (snd (storage d')) (lfs_path mnt (unat i)) p v) \<and> length (img_buf d') = esl_image_buffer_size c \<and>
    bd_width (buf_desc d') = w \<and> hw_calls d' = hw_calls d)"
proof -
  let ?st = "snd (lfs_open_image A mnt i (storage d))" and ?z = "replicate (esl_image_buffer_size c) (0 :: u8)"
  note p = image_file_parts [OF v]
  have o: "opened A (fst ?st) (snd ?st) (lfs_path mnt (unat i)) 0 v" by (rule lfs_open_view [OF A f])
  obtain e where "fa_stat A (lfs_path mnt (unat i)) (fst (storage d)) = (0, e)" "de_size e = length v"
    by (rule stat_file [OF A(1) f])
  then have size: "lfs_read_img_size A mnt i (storage d) = of_nat (length v)" by (simp add: lfs_read_img_size_def)
  have z: "0 + 6 \<le> length v" "6 \<le> length ?z" using buf(2) p(2) by simp_all
  have r: "lfs_read_img A mnt i ?z 6 0 ?st = Some (6, take 6 v @ replicate (esl_image_buffer_size c - 6) 0,
      fst ?st, Some \<lparr>fh_name = lfs_path mnt (unat i), fh_pos = 6\<rparr>)"
    using lfs_read_at [OF A(1) o z] by simp
  have o': "opened A (fst ?st) (Some \<lparr>fh_name = lfs_path mnt (unat i), fh_pos = 6\<rparr>) (lfs_path mnt (unat i)) 6 v"
    using o p(2) by (simp add: opened_def)
  have head: "0 < unat w" "0 < unat h" "unat w * unat h div 8 \<le> length v" "length v < 2 ^ 28" using v by (auto simp: image_file_def)
  then have "unat (of_nat (length v) :: u32) = length v" "unat (of_nat (unat w * unat h div 8) :: u32) = unat w * unat h div 8"
    by (simp_all add: unat_min_u32 del: of_nat_mult)
  then have le: "\<not> (of_nat (length v) :: u32) < of_nat (unat w * unat h div 8)" using head(3) by (simp add: word_less_nat_alt del: of_nat_mult)
  let ?b = "take 6 v @ replicate (esl_image_buffer_size c - 6) 0"
  let ?d1 = "d\<lparr>img_buf := ?b, storage := (fst ?st, Some \<lparr>fh_name = lfs_path mnt (unat i), fh_pos = 6\<rparr>)\<rparr>"
  let ?d2 = "?d1\<lparr>buf_desc := \<lparr>bd_buf_size = of_nat (unat w * unat h div 8), bd_width = w, bd_height = h, bd_pitch = w\<rparr>\<rparr>"
  have rd: "disp_read_image cb i 6 0 (d\<lparr>img_buf := ?z, storage := ?st\<rparr>) = Some (6, ?d1)"
    using cb r by (simp add: disp_read_image_def lfs_callbacks_def)
  have hd: "head_w ?d1 = w" "head_h ?d1 = h" "6 \<le> length (img_buf ?d1)" "length (img_buf ?d1) = esl_image_buffer_size c"
    using p(2-4) buf(2) by (simp_all add: head_w_def head_h_def)
  have ds: "describe_image ?d1 = Some ?d2" using fit(3) hd by (simp add: describe_image_def not_le)
  have "head_w ?d2 = w" "head_h ?d2 = h" using hd by (simp_all add: head_w_def head_h_def)
  then have ck: "check_image (of_nat (length v)) ?d2 = 0"
    using le fit head by (auto simp: check_image_def not_less)
  have wr: "wr_mem (img_buf d) 0 ?z = Some ?z" using buf by (simp add: wr_mem_def)
  have "load_image c cb True i d = Some (of_nat (length v), 6, check_image (of_nat (length v)) ?d2, ?d2)"
    using cb by (simp only: load_image_def wr bind.bind_lunit Let_def rd ds lfs_callbacks_def size option.case if_True case_prod_conv)
  then show ?thesis using ck o' hd(4) by auto
qed

lemmas ssd_powered_on = only_calls_power(3) [OF only_calls_refl]
lemmas ssd_powered_off = only_calls_power(4) [OF only_calls_refl]

lemma draw_file_writes:
  fixes d :: "('f lfs, 'm) disp_scheme"
  assumes A: "fs_ok A" and cb: "cb_read_img cb = Some (lfs_read_img A mnt)" and rc: "writes_succeed rc" and v: "image_file v w h pic"
    and s: "showing A n v (unat w) d" and bw: "bd_width (buf_desc d) = w"
  shows "yields (draw_file cb i (write_chunk rc) (of_nat (length v)) err d) (\<lambda>(stopped, err', d'). \<not> stopped \<and> err' = 0 \<and>
    showing A n v (unat w) d' \<and> fst (storage d') = fst (storage d) \<and> hw_calls d' = hw_calls d @ piece_writes (unat w) (buf_desc d) 0 pic)"
proof -
  let ?d = "d\<lparr>buf_desc := (buf_desc d)\<lparr>bd_height := 8\<rparr>\<rparr>" and ?m = "length v - 6"
  note p = image_file_parts [OF v]
  have w: "0 < unat w" "length v < 2 ^ 28" using v by (simp_all add: image_file_def)
  have d: "showing A n v (unat w) ?d" using s by (simp add: showing_def)
  have h8: "bd_height (buf_desc ?d) = of_nat (min (unat w) ?m * 8 div unat w)" using p(5) w(1) by (simp add: min_absorb1)
  have "unat (of_nat (unat w) :: u32) = unat w" by (rule unat_min_u32) (use unat_u16_small [of w] in simp)
  then have "ucast w = (of_nat (unat w) :: u32)" unfolding word_unat_eq_iff unat_ucast_u16 by (rule sym)
  then have m: "ucast w = (of_nat (min (unat w) ?m) :: u32)" unfolding min_absorb1 [OF p(5)] .
  have m6: "of_nat (length v) - 6 = (of_nat ?m :: u32)" unfolding of_nat_diff [OF p(2)] by simp
  have len: "6 + 0 * unat w + ?m = length v" using p(2) by simp
  have pos: "0 < ?m" using p(5) w(1) by simp
  have ps: "piece_writes (unat w) (buf_desc ?d) 0 (drop (6 + 0 * unat w) v) = piece_writes (unat w) (buf_desc d) 0 pic"
    using p(1) by (simp add: piece_writes_desc)
  have eq: "draw_file cb i (write_chunk rc) (of_nat (length v)) err d =
      draw_chunks cb i (write_chunk rc) (of_nat ?m) (of_nat (min (unat w) ?m)) (of_nat (0 * unat w)) (of_nat (8 * 0)) err ?d"
    unfolding draw_file_def bw m m6 by simp
  show ?thesis
    unfolding eq by (rule yields_mono [OF draw_chunks_write [OF A cb rc w(1,2) len d h8]]) (use pos ps in auto)
qed

lemma ssd_shows_file:
  fixes d :: "('f lfs, 'm) disp_scheme"
  assumes A: "fs_ok A" "fs_reliable A" and cb: "lfs_callbacks A mnt cb" and rc: "writes_succeed rc" and c: "image_storage c = OTS_LFS"
    and f: "fa_file A (fst (storage d)) (lfs_path mnt (unat i)) = Some v" and v: "image_file v w h pic"
    and fit: "w \<le> x_resolution d" "h \<le> y_resolution d" "unat w * unat h < 2 ^ 31"
    and buf: "length (img_buf d) = esl_image_buffer_size c" "6 \<le> esl_image_buffer_size c" "unat w \<le> esl_image_buffer_size c"
  shows "yields (ssd_display_control c cb rc i d) (\<lambda>(err, d'). err = 0 \<and>
    fa_file A (fst (storage d')) (lfs_path mnt (unat i)) = Some v \<and>
    (\<exists>on off b. hw_calls d' = hw_calls d @ on @ [Blanking_on] @ piece_writes (unat w) b 0 pic @ [Blanking_off] @ off \<and>
       bd_width b = w \<and> (\<forall>k \<in> set (on @ off). \<not> is_write k)))"
proof -
  let ?n = "lfs_path mnt (unat i)"
  let ?d0 = "ssd_power_on c rc d"
  define R where "R = (\<lambda>d' :: ('f lfs, 'm) disp_scheme. fa_file A (fst (storage d')) ?n = Some v \<and>
    (\<exists>on off b. hw_calls d' = hw_calls d @ on @ [Blanking_on] @ piece_writes (unat w) b 0 pic @ [Blanking_off] @ off \<and>
       bd_width b = w \<and> (\<forall>k \<in> set (on @ off). \<not> is_write k)))"
  obtain on where on: "?d0 = d\<lparr>hw_calls := hw_calls d @ on\<rparr>" "\<forall>k \<in> set on. \<not> is_write k"
    using ssd_powered_on [of d c rc] by (auto simp: only_calls_def)
  have load: "yields (load_image c cb True i ?d0) (\<lambda>(img_size, err, bad, d'). img_size = of_nat (length v) \<and> bad = 0 \<and>
    (\<exists>p. opened A (fst (storage d')) (snd (storage d')) ?n p v) \<and> length (img_buf d') = esl_image_buffer_size c \<and>
    bd_width (buf_desc d') = w \<and> hw_calls d' = hw_calls ?d0)"
    by (rule load_image_file [OF A cb _ v]) (use f fit buf in \<open>simp_all add: on(1)\<close>)
  have draw: "yields (draw_file cb i (write_chunk rc) (of_nat (length v)) err (hw_do [Blanking_on] d1)) (\<lambda>(stopped, err', d'). \<not> stopped \<and> err' = 0 \<and>
      fa_file A (fst (storage d')) ?n = Some v \<and> hw_calls d' = hw_calls d @ on @ [Blanking_on] @ piece_writes (unat w) (buf_desc d1) 0 pic)"
    if d1: "opened A (fst (storage d1)) (snd (storage d1)) ?n p v" "length (img_buf d1) = esl_image_buffer_size c" "bd_width (buf_desc d1) = w"
      "hw_calls d1 = hw_calls ?d0" for err p and d1 :: "('f lfs, 'm) disp_scheme"
  proof -
    have "showing A ?n v (unat w) (hw_do [Blanking_on] d1)" using d1(1-3) buf(3) by (auto simp: showing_def hw_do_def)
    from draw_file_writes [OF A(1) _ rc v this, of cb mnt i err] show ?thesis
      using cb d1(3,4) on(1) by (auto simp: lfs_callbacks_def hw_do_def showing_def opened_def elim!: yields_mono)
  qed
  have fin: "R (disp_close_image cb (ssd_power_off c rc (hw_do [Blanking_off] d2)))"
    if "fa_file A (fst (storage d2)) ?n = Some v" "hw_calls d2 = hw_calls d @ on @ [Blanking_on] @ piece_writes (unat w) b 0 pic" "bd_width b = w"
    for b and d2 :: "('f lfs, 'm) disp_scheme"
  proof -
    obtain off where off: "ssd_power_off c rc (hw_do [Blanking_off] d2) = (hw_do [Blanking_off] d2)\<lparr>hw_calls := hw_calls (hw_do [Blanking_off] d2) @ off\<rparr>"
        "\<forall>k \<in> set off. \<not> is_write k"
      using ssd_powered_off [of "hw_do [Blanking_off] d2" c rc] by (auto simp: only_calls_def)
    let ?x = "ssd_power_off c rc (hw_do [Blanking_off] d2)"
    have x: "storage ?x = storage d2" "hw_calls ?x = hw_calls d2 @ [Blanking_off] @ off"
      by (subst off(1), simp add: hw_do_def)+
    have y: "hw_calls (disp_close_image cb ?x) = hw_calls ?x" "fa_file A (fst (storage (disp_close_image cb ?x))) = fa_file A (fst (storage ?x))"
      using cb lfs_close_view [OF A(1)] by (simp_all add: disp_close_image_def lfs_callbacks_def)
    have "hw_calls (disp_close_image cb ?x) = hw_calls d @ on @ [Blanking_on] @ piece_writes (unat w) b 0 pic @ [Blanking_off] @ off"
      unfolding y(1) x(2) that(2) by simp
    moreover have "\<forall>k \<in> set (on @ off). \<not> is_write k" using on(2) off(2) by auto
    ultimately show ?thesis using that(1,3) y(2) x(1) unfolding R_def by metis
  qed
  have z: "(if (0 :: int) \<noteq> 0 then x else y) = y" for x y :: "(int \<times> ('f lfs, 'm) disp_scheme) option" by simp
  have "yields (ssd_display_control c cb rc i d) (\<lambda>(err, d'). err = 0 \<and> R d')"
    unfolding ssd_display_control_def c image_storage.case
  proof (rule yields_bindI [OF load])
    fix r :: "u32 \<times> int \<times> int \<times> ('f lfs, 'm) disp_scheme"
    obtain sz err bad d1 where r: "r = (sz, err, bad, d1)" by (cases r)
    assume "case r of (img_size, err, bad, d') \<Rightarrow> img_size = of_nat (length v) \<and> bad = 0 \<and>
      (\<exists>p. opened A (fst (storage d')) (snd (storage d')) ?n p v) \<and> length (img_buf d') = esl_image_buffer_size c \<and>
      bd_width (buf_desc d') = w \<and> hw_calls d' = hw_calls ?d0"
    then obtain p where l: "sz = of_nat (length v)" "bad = 0" and d1: "opened A (fst (storage d1)) (snd (storage d1)) ?n p v"
        "length (img_buf d1) = esl_image_buffer_size c" "bd_width (buf_desc d1) = w" "hw_calls d1 = hw_calls ?d0"
      by (auto simp: r)
    show "yields (case r of (img_size, err, bad, d1) \<Rightarrow> if bad \<noteq> 0 then Some (bad, disp_close_image cb d1)
         else Option.bind (draw_file cb i (write_chunk rc) img_size err (hw_do [Blanking_on] d1)) (\<lambda>(stopped, err, d2).
           let d3 = hw_do [Blanking_off] d2 in Some (err, disp_close_image cb (if stopped then d3 else ssd_power_off c rc d3))))
       (\<lambda>(err, d'). err = 0 \<and> R d')"
      unfolding r l case_prod_conv z Let_def
      by (rule yields_bindI [OF draw [OF d1]]) (use fin [OF _ _ d1(3)] in \<open>simp split: prod.splits\<close>)
  qed
  then show ?thesis unfolding R_def .
qed

subsection \<open>How often the loop writes\<close>

text \<open>Whatever the storage answers, as long as it stays in the buffer.\<close>

definition reads_in_buffer :: "'st callbacks \<Rightarrow> bool" where
  "reads_in_buffer cb \<longleftrightarrow> (case cb_read_img cb of None \<Rightarrow> False | Some f \<Rightarrow>
     (\<forall>i b l off st. l \<le> length b \<longrightarrow> yields (f i b l off st) (\<lambda>(r, b', st'). length b' = length b)))"

definition wrote :: "nat \<Rightarrow> ('st, 'm) disp_scheme \<Rightarrow> ('st, 'm) disp_scheme \<Rightarrow> bool" where
  "wrote n d d' \<longleftrightarrow> (\<exists>ks. hw_calls d' = hw_calls d @ ks \<and> (\<forall>k \<in> set ks. is_write k) \<and> length ks = n)"

lemma wrote_more: "wrote m d d' \<Longrightarrow> wrote n d' d'' \<Longrightarrow> wrote (m + n) d d''"
  unfolding wrote_def by (force intro: exI [of _ "ks @ ls" for ks ls])

lemma draw_chunk_wrote:
  fixes d :: "('st, 'm) disp_scheme"
  assumes "reads_in_buffer cb" "writes_succeed rc" "unat chunk \<le> length (img_buf d)"
  shows "yields (draw_chunk cb i (write_chunk rc) chunk pos y d) (\<lambda>(err, d'). err = 0 \<and> wrote 1 d d' \<and> length (img_buf d') = length (img_buf d))"
proof -
  obtain f where f: "cb_read_img cb = Some f" "\<And>i b l off st. l \<le> length b \<Longrightarrow> yields (f i b l off st) (\<lambda>(r, b', st'). length b' = length b)"
    using assms(1) by (auto simp: reads_in_buffer_def split: option.splits)
  have "writes_succeed rc \<Longrightarrow> rc (ks @ [Display_write 0 y b v]) = 0" for ks b v by (simp add: writes_succeed_def)
  then show ?thesis
    using f(2) [OF assms(3), of i "sint (pos + 6)" "storage d"] assms(2,3)
    by (auto simp: draw_chunk_def disp_read_image_def f(1) write_chunk_def display_write_def hw_def wp wrote_def is_write_def elim!: yields_mono)
qed

lemma next_chunk_wrote:
  "wrote n d (snd (next_chunk m c d1)) = wrote n d d1" "img_buf (snd (next_chunk m c d1)) = img_buf d1"
  by (simp_all add: next_chunk_def wrote_def)

lemma ceiling_div: "0 < c \<Longrightarrow> c \<le> m \<Longrightarrow> (m + c - 1) div c = Suc ((m - c + c - 1) div (c :: nat))"
proof -
  assume c: "0 < c" "c \<le> m"
  then have "m + c - 1 = (m - c + c - 1) + c" by simp
  then show ?thesis using c(1) by (metis add.commute div_add_self1 less_numeral_extra(3) plus_1_eq_Suc)
qed

lemma ceiling_div_one: "0 < m \<Longrightarrow> m \<le> c \<Longrightarrow> (m + c - 1) div c = (1 :: nat)"
  by (intro div_nat_eqI) auto

lemma draw_chunks_count:
  fixes d :: "('st, 'm) disp_scheme"
  assumes cb: "reads_in_buffer cb" and rc: "writes_succeed rc"
  shows "0 < unat c \<Longrightarrow> unat c \<le> unat m \<Longrightarrow> unat c \<le> length (img_buf d) \<Longrightarrow>
    yields (draw_chunks cb i (write_chunk rc) m c pos y err d) (\<lambda>(stopped, err', d'). \<not> stopped \<and> wrote ((unat m + unat c - 1) div unat c) d d')"
proof (induction "unat m" arbitrary: m c pos y err d rule: less_induct)
  case less
  note unf = draw_chunks.simps [of cb i "write_chunk rc" m c pos y err d]
  have m0: "m \<noteq> 0" using less.prems by auto
  have sub: "unat (m - c) = unat m - unat c" using less.prems(2) by (simp add: unat_sub word_le_nat_alt)
  have "yields (case next_chunk (m - c) c d1 of (c2, d2) \<Rightarrow> draw_chunks cb i (write_chunk rc) (m - c) c2 (pos + c) (row_of (pos + c) d2) 0 d2)
      (\<lambda>(stopped, err', d'). \<not> stopped \<and> wrote ((unat m + unat c - 1) div unat c) d d')"
    if d1: "wrote 1 d d1" "length (img_buf d1) = length (img_buf d)" for d1 :: "('st, 'm) disp_scheme"
  proof -
    obtain c2 d2 where n: "next_chunk (m - c) c d1 = (c2, d2)" by fastforce
    then have c2: "c2 = (if m - c < c then m - c else c)" by (auto simp: next_chunk_def split: if_splits)
    have d2: "wrote 1 d d2" "length (img_buf d2) = length (img_buf d)" 
      using d1 next_chunk_wrote(1) [of 1 d "m - c" c d1] next_chunk_wrote(2) [of "m - c" c d1] by (simp_all add: n)
    have count: "(unat m + unat c - 1) div unat c = 1 + (unat (m - c) + unat c - 1) div unat c"
      using ceiling_div [OF less.prems(1,2)] by (simp add: sub)
    show ?thesis
    proof (cases "m - c = 0")
      case True
      have "draw_chunks cb i (write_chunk rc) 0 c2 (pos + c) y' 0 d2 = Some (False, 0, d2)" for y'
        by (simp add: draw_chunks.simps)
      then show ?thesis unfolding count True n [unfolded True] case_prod_conv using d2(1) less.prems(1) by simp
    next
      case False
      then have pos: "0 < unat (m - c)" using unat_eq_zero [of "m - c"] by linarith
      have le: "0 < unat c2" "unat c2 \<le> unat (m - c)" "unat c2 \<le> length (img_buf d2)"
        using pos less.prems(1,3) d2(2) by (auto simp: c2 word_less_nat_alt)
      have same: "(unat (m - c) + unat c2 - 1) div unat c2 = (unat (m - c) + unat c - 1) div unat c"
        using ceiling_div_one [OF pos, of "unat c"] ceiling_div_one [OF pos order_refl] by (simp add: c2 word_less_nat_alt)
      have "unat (m - c) < unat m" using sub less.prems(1,2) by simp
      note IH = less.hyps [OF this le]
      show ?thesis
        unfolding n case_prod_conv count same [symmetric]
        by (rule yields_mono [OF IH]) (use wrote_more [OF d2(1)] in auto)
    qed
  qed
  then show ?case
    unfolding unf if_not_P [OF m0]
    by (intro yields_bindI [OF draw_chunk_wrote [OF cb rc less.prems(3)]]) auto
qed

text \<open>The number of writes for \<open>n\<close> bytes of picture in rows of \<open>w\<close> bytes.\<close>

definition loop_writes :: "nat \<Rightarrow> nat \<Rightarrow> nat" where
  "loop_writes n w = (if n = 0 then 0 else if w \<le> n then (n + w - 1) div w else 1 + (2 ^ 32 + n - 1) div w)"

lemma draw_file_count:
  fixes d :: "('st, 'm) disp_scheme"
  assumes cb: "reads_in_buffer cb" and rc: "writes_succeed rc" and w: "0 < unat (bd_width (buf_desc d))"
    and b: "unat (bd_width (buf_desc d)) \<le> length (img_buf d)"
  shows "yields (draw_file cb i (write_chunk rc) img_size err d) (\<lambda>(stopped, err', d'). \<not> stopped \<and>
    wrote (loop_writes (unat (img_size - 6)) (unat (bd_width (buf_desc d)))) d d')"
proof -
  let ?d = "d\<lparr>buf_desc := (buf_desc d)\<lparr>bd_height := 8\<rparr>\<rparr>" and ?c = "ucast (bd_width (buf_desc d)) :: u32" and ?m = "img_size - 6"
  have c: "unat ?c = unat (bd_width (buf_desc d))" "unat ?c < 2 ^ 16" "0 < unat ?c" "unat ?c \<le> length (img_buf ?d)"
    using unat_u16_small w b by (simp_all add: unat_ucast_u16)
  have wd: "wrote n ?d d' = wrote n d d'" for n d' by (simp add: wrote_def)
  note df = draw_file_def [of cb i "write_chunk rc" img_size err d]
  consider "?m = 0" | "0 < unat ?m" "unat ?c \<le> unat ?m" | "0 < unat ?m" "unat ?m < unat ?c" using unat_eq_zero by fastforce
  then show ?thesis
  proof cases
    case 1
    then show ?thesis unfolding df by (simp add: draw_chunks.simps loop_writes_def wrote_def)
  next
    case 2
    then show ?thesis
      using draw_chunks_count [OF cb rc c(3) 2(2) c(4), of i 0 0 err] by (simp add: df loop_writes_def c(1) wd)
  next
    case 3
    have wrap: "unat (?m - ?c) = 2 ^ 32 + unat ?m - unat ?c" using 3(2) by (simp add: unat_sub_if_size word_size)
    then have le: "unat ?c \<le> unat (?m - ?c)" using c(2) by simp
    then have nx: "next_chunk (?m - ?c) ?c d1 = (?c, d1)" for d1 :: "('st, 'm) disp_scheme" by (simp add: next_chunk_def word_less_nat_alt)
    have "?m \<noteq> 0" using 3(1) by auto
    note unf = draw_chunks.simps [of cb i "write_chunk rc" ?m ?c 0 0 err ?d, unfolded if_not_P [OF this]]
    have count: "loop_writes (unat ?m) (unat (bd_width (buf_desc d))) = 1 + (unat (?m - ?c) + unat ?c - 1) div unat ?c"
      using 3 c by (simp add: loop_writes_def wrap)
    have "yields (draw_chunks cb i (write_chunk rc) (?m - ?c) ?c (0 + ?c) (row_of (0 + ?c) d1) 0 d1) (\<lambda>(stopped, err', d'). \<not> stopped \<and>
        wrote (loop_writes (unat ?m) (unat (bd_width (buf_desc d)))) d d')"
      if d1: "wrote 1 ?d d1" "length (img_buf d1) = length (img_buf ?d)" for d1 :: "('st, 'm) disp_scheme"
    proof -
      have "unat ?c \<le> length (img_buf d1)" using c(4) d1(2) by simp
      from draw_chunks_count [OF cb rc c(3) le this] show ?thesis
        unfolding count by (rule yields_mono) (use wrote_more [OF d1(1)] wd in auto)
    qed
    then show ?thesis
      unfolding df unf
      by (intro yields_bindI [OF draw_chunk_wrote [OF cb rc c(4)]]) (auto simp: nx)
  qed
qed

end
