(* ===== verification/Hw_Fonts.thy ===== *)
theory Hw_Fonts
  imports Hw_Paint
begin

text \<open>
  The fonts of the drawing library, \<open>hw/display/paint_lib/font8.c\<close> to \<open>font24.c\<close>: the tables of the source, octet by octet, in
  parts of several characters each. A row of a character is as many octets as its width needs.
\<close>

lemma length_4: "length (a # b # c # d # xs) = 4 + length xs" "length [a, b] = 2"
  by simp_all

subsection \<open>Font8: 7 by 8 points\<close>

definition Font8_part_0 :: "u8 list" where
  "Font8_part_0 = [
    0, 0, 0, 0, 0, 0, 0, 0, 0, 0x10, 0x30, 0x10, 0x10, 0, 0x10, 0, 0, 0, 0x30, 0x30, 0, 0, 0, 0, 0, 0, 0x08, 0x28, 0x38, 0x38,
    0x30, 0x30, 0, 0x30, 0x28, 0x20, 0x18, 0x28, 0x38, 0x10, 0, 0x40, 0xA0, 0x70, 0x28, 0x34, 0x18, 0, 0, 0x60, 0x70, 0x60, 0x68,
    0xF8, 0x78, 0, 0, 0, 0x20, 0x20, 0, 0, 0, 0, 0, 0x10, 0x10, 0x10, 0x10, 0x10, 0x10, 0x10, 0, 0x20, 0x10, 0x10, 0x10, 0x10,
    0x10, 0x10, 0, 0, 0, 0x70, 0x30, 0, 0, 0, 0, 0, 0, 0x10, 0x30, 0x78, 0x10, 0, 0, 0, 0, 0, 0, 0, 0x10, 0x20, 0, 0, 0, 0, 0,
    0x30, 0, 0, 0, 0, 0, 0, 0, 0, 0x10, 0]"

definition Font8_part_1 :: "u8 list" where
  "Font8_part_1 = [
    0, 0, 0x20, 0x20, 0x20, 0, 0x40, 0, 0, 0x30, 0x28, 0x68, 0x68, 0x68, 0x38, 0, 0, 0, 0, 0x30, 0x10, 0x10, 0x10, 0x10, 0, 0,
    0x30, 0x68, 0x08, 0x10, 0x30, 0x78, 0, 0x30, 0x28, 0x18, 0x18, 0x08, 0x38, 0, 0, 0, 0x08, 0x18, 0x38, 0x38, 0x78, 0x08, 0,
    0x38, 0x20, 0x30, 0x08, 0x08, 0x38, 0, 0, 0x10, 0x30, 0x78, 0x68, 0x68, 0x38, 0, 0, 0, 0x78, 0x08, 0x18, 0x10, 0x30, 0x20, 0,
    0x30, 0x28, 0x38, 0x38, 0x68, 0x38, 0, 0, 0x30, 0x28, 0x68, 0x38, 0x18, 0x30, 0, 0, 0, 0, 0x10, 0, 0, 0x10, 0, 0, 0, 0, 0x10,
    0, 0, 0x10, 0x10, 0, 0, 0, 0, 0x18, 0x60, 0x30, 0, 0, 0, 0, 0, 0x38, 0, 0x38, 0]"

definition Font8_part_2 :: "u8 list" where
  "Font8_part_2 = [
    0, 0, 0, 0, 0x60, 0x18, 0x30, 0, 0, 0x30, 0x78, 0x18, 0x30, 0, 0x30, 0, 0, 0, 0x64, 0x5A, 0xAA, 0xAA, 0xBC, 0x40, 0, 0, 0x20,
    0x30, 0x70, 0x58, 0x78, 0xC8, 0, 0, 0x38, 0x6C, 0x68, 0x78, 0x6C, 0x78, 0, 0x30, 0x58, 0xC0, 0xC0, 0xC8, 0x70, 0, 0, 0, 0x30,
    0x68, 0x6C, 0x6C, 0x6C, 0x78, 0, 0, 0x38, 0x60, 0x60, 0x78, 0x60, 0x78, 0, 0, 0x38, 0x60, 0x60, 0x78, 0x60, 0x60, 0, 0x30,
    0x58, 0xC0, 0xD8, 0x48, 0x78, 0, 0, 0, 0x48, 0xC8, 0xD8, 0xF8, 0xC8, 0xC8, 0, 0, 0x10, 0x10, 0x10, 0x10, 0x10, 0x10, 0, 0x08,
    0x08, 0x08, 0x08, 0x48, 0x30, 0, 0, 0, 0x58, 0xD0, 0xF0, 0xF0, 0xD0, 0xD8, 0, 0, 0x20, 0x60, 0x60, 0x60, 0x60, 0x78]"

definition Font8_part_3 :: "u8 list" where
  "Font8_part_3 = [
    0, 0, 0x44, 0xEE, 0xEE, 0xFE, 0xD6, 0xD6, 0, 0, 0x48, 0xC8, 0xE8, 0xF8, 0xD8, 0xC8, 0, 0x30, 0x58, 0xC8, 0xC8, 0x48, 0x70, 0,
    0, 0, 0x38, 0x6C, 0x6C, 0x78, 0x60, 0x60, 0, 0x30, 0x58, 0xC8, 0xC8, 0x48, 0x70, 0x08, 0, 0, 0x70, 0xD8, 0xD8, 0xF0, 0xD0,
    0xD8, 0, 0x38, 0x2C, 0x30, 0x18, 0x6C, 0x38, 0, 0, 0, 0x7C, 0x10, 0x10, 0x10, 0x10, 0x10, 0, 0x24, 0x64, 0x64, 0x64, 0x6C,
    0x38, 0, 0, 0, 0x88, 0xD8, 0x58, 0x50, 0x70, 0x30, 0, 0, 0x92, 0xD6, 0x7C, 0x7C, 0x6C, 0x6C, 0, 0, 0xC8, 0x50, 0x70, 0x70,
    0x70, 0xD8, 0, 0, 0x88, 0x50, 0x70, 0x20, 0x20, 0x20, 0, 0, 0x78, 0x18, 0x18, 0x30, 0x20, 0x7C, 0x10, 0x30, 0x30, 0x30, 0x30,
    0x30, 0x30, 0x30]"

definition Font8_part_4 :: "u8 list" where
  "Font8_part_4 = [
    0, 0x40, 0x60, 0x20, 0x30, 0x10, 0x10, 0, 0x30, 0x30, 0x10, 0x10, 0x10, 0x10, 0x10, 0x30, 0, 0, 0x20, 0x30, 0x50, 0, 0, 0, 0,
    0, 0, 0, 0, 0, 0, 0x78, 0, 0, 0x10, 0, 0, 0, 0, 0, 0, 0, 0, 0x38, 0x38, 0x78, 0x78, 0, 0, 0x60, 0x60, 0x78, 0x68, 0x68, 0x78,
    0, 0, 0, 0, 0x38, 0x60, 0x60, 0x38, 0, 0, 0x08, 0x08, 0x38, 0x68, 0x68, 0x38, 0, 0, 0, 0, 0x38, 0x78, 0x60, 0x38, 0, 0, 0,
    0x18, 0x10, 0x38, 0x10, 0x10, 0x10, 0, 0, 0, 0x38, 0x68, 0x68, 0x38, 0x18, 0, 0, 0x60, 0x60, 0x78, 0x68, 0x68, 0x68, 0, 0,
    0x10, 0, 0x30, 0x30, 0x30, 0x30, 0, 0x10, 0, 0x30, 0x30, 0x30, 0x30, 0x30]"

definition Font8_part_5 :: "u8 list" where
  "Font8_part_5 = [
    0, 0, 0x60, 0x60, 0x78, 0x70, 0x78, 0x68, 0, 0, 0x30, 0x30, 0x30, 0x30, 0x30, 0x30, 0, 0, 0, 0, 0xFC, 0xD6, 0xD6, 0xD6, 0, 0,
    0, 0, 0x78, 0x68, 0x68, 0x68, 0, 0, 0, 0x38, 0x68, 0x68, 0x38, 0, 0, 0, 0, 0x78, 0x68, 0x68, 0x78, 0x60, 0, 0, 0, 0x38, 0x68,
    0x68, 0x38, 0x08, 0, 0, 0, 0, 0x38, 0x30, 0x30, 0x30, 0, 0, 0, 0x78, 0x70, 0x18, 0x30, 0, 0, 0, 0x30, 0x30, 0x10, 0x10, 0x18,
    0, 0, 0, 0, 0x68, 0x68, 0x68, 0x38, 0, 0, 0, 0, 0, 0x68, 0x38, 0x30, 0x30, 0, 0, 0, 0, 0xBC, 0xF8, 0x78, 0x58, 0, 0, 0, 0,
    0x38, 0x30, 0x30, 0x78, 0, 0, 0, 0xD0, 0x70, 0x60, 0x60, 0x60]"

definition Font8_part_6 :: "u8 list" where
  "Font8_part_6 = [
    0, 0, 0, 0, 0x78, 0x10, 0x20, 0x78, 0, 0x10, 0x10, 0x10, 0x20, 0x10, 0x10, 0x10, 0, 0, 0, 0, 0, 0, 0, 0, 0, 0x20, 0x10, 0x10,
    0x10, 0x10, 0x10, 0x30, 0, 0, 0, 0, 0, 0x3C, 0x08, 0]"

definition Font8_Table :: "u8 list" where
  "Font8_Table =
    Font8_part_0 @ Font8_part_1 @ Font8_part_2 @ Font8_part_3 @ Font8_part_4 @ Font8_part_5 @ Font8_part_6"

definition Font8 :: sFONT where
  "Font8 = \<lparr>font_table = Font8_Table, Width = 7, Height = 8\<rparr>"

lemma Font8_length: "length Font8_Table = 760"
  by (simp add: Font8_Table_def Font8_part_0_def Font8_part_1_def Font8_part_2_def Font8_part_3_def Font8_part_4_def Font8_part_5_def Font8_part_6_def length_4 del: list.size(4))

subsection \<open>Font12: 11 by 12 points\<close>

definition Font12_part_0 :: "u8 list" where
  "Font12_part_0 = [
    0, 0, 0, 0, 0, 0, 0, 0, 0, 0, 0, 0, 0, 0, 0, 0, 0, 0, 0, 0, 0, 0, 0, 0, 0, 0, 0, 0, 0, 0, 0x06, 0, 0x06, 0, 0x06, 0, 0x06, 0,
    0x06, 0, 0x06, 0, 0, 0, 0x06, 0, 0x06, 0, 0, 0, 0, 0, 0, 0, 0x16, 0, 0x14, 0, 0x14, 0, 0, 0, 0, 0, 0, 0, 0, 0, 0, 0, 0, 0, 0,
    0, 0, 0, 0, 0, 0x0F, 0, 0x0A, 0, 0x1F, 0x80, 0x0A, 0, 0x0A, 0, 0x3F, 0, 0x1E, 0, 0x16, 0, 0x14, 0, 0, 0, 0x04, 0, 0x0E, 0,
    0x1F, 0, 0x19, 0, 0x18, 0, 0x0E, 0, 0x03, 0, 0x13, 0, 0x1F, 0, 0x0E, 0, 0x04, 0, 0, 0, 0, 0, 0, 0, 0x38, 0, 0x29, 0, 0x2A, 0,
    0x3E, 0, 0x04, 0, 0x0B, 0x80, 0x0A, 0x80, 0x12, 0x80, 0x03, 0x80, 0, 0, 0, 0, 0, 0, 0x1C, 0, 0x3E, 0, 0x36, 0, 0x3C, 0, 0x38,
    0, 0x3F, 0, 0x67, 0, 0x3F, 0, 0x3F, 0, 0, 0, 0, 0, 0, 0, 0x0C, 0, 0x0C, 0, 0x0C, 0, 0, 0, 0, 0, 0, 0, 0, 0, 0, 0, 0, 0, 0, 0,
    0x02, 0, 0x06, 0, 0x0C, 0, 0x0C, 0, 0x08, 0, 0x08, 0, 0x08, 0, 0x08, 0, 0x0C, 0, 0x0C, 0, 0x06, 0, 0, 0, 0x10, 0, 0x08, 0,
    0x0C, 0, 0x04, 0, 0x06, 0, 0x06, 0, 0x06, 0, 0x06, 0, 0x04, 0, 0x0C, 0, 0x08, 0]"

definition Font12_part_1 :: "u8 list" where
  "Font12_part_1 = [
    0, 0, 0, 0, 0, 0, 0x08, 0, 0x3E, 0, 0x0C, 0, 0x1C, 0, 0, 0, 0, 0, 0, 0, 0, 0, 0, 0, 0, 0, 0, 0, 0, 0, 0, 0, 0, 0, 0x0C, 0,
    0x0C, 0, 0x3F, 0, 0x3F, 0, 0x0C, 0, 0x0C, 0, 0, 0, 0, 0, 0, 0, 0, 0, 0, 0, 0, 0, 0, 0, 0, 0, 0, 0, 0, 0, 0, 0, 0x04, 0, 0x04,
    0, 0, 0, 0, 0, 0, 0, 0, 0, 0, 0, 0, 0, 0, 0, 0, 0, 0x0E, 0, 0x0E, 0, 0, 0, 0, 0, 0, 0, 0, 0, 0, 0, 0, 0, 0, 0, 0, 0, 0, 0, 0,
    0, 0, 0, 0, 0, 0x0C, 0, 0x0C, 0, 0, 0, 0, 0, 0x04, 0, 0x0C, 0, 0x08, 0, 0x08, 0, 0x18, 0, 0x18, 0, 0x10, 0, 0x10, 0, 0x30, 0,
    0x20, 0, 0, 0, 0, 0, 0, 0, 0x0E, 0, 0x1F, 0, 0x1B, 0, 0x13, 0, 0x13, 0, 0x13, 0, 0x1B, 0, 0x1F, 0, 0x0E, 0, 0, 0, 0, 0, 0, 0,
    0x06, 0, 0x1E, 0, 0x06, 0, 0x06, 0, 0x06, 0, 0x06, 0, 0x06, 0, 0x06, 0, 0x06, 0, 0, 0, 0, 0, 0, 0, 0x0E, 0, 0x1F, 0, 0x33, 0,
    0x03, 0, 0x07, 0, 0x06, 0, 0x0C, 0, 0x1F, 0, 0x1F, 0, 0, 0, 0, 0, 0, 0, 0x1E, 0, 0x1F, 0, 0x03, 0, 0x0E, 0, 0x07, 0, 0x03, 0,
    0x33, 0, 0x1F, 0, 0x0E, 0]"

definition Font12_part_2 :: "u8 list" where
  "Font12_part_2 = [
    0, 0, 0, 0, 0, 0, 0x07, 0, 0x07, 0, 0x0F, 0, 0x0B, 0, 0x1B, 0, 0x3F, 0x80, 0x1F, 0, 0x03, 0, 0x03, 0, 0, 0, 0, 0, 0, 0, 0x1F,
    0, 0x1F, 0, 0x18, 0, 0x1E, 0, 0x1B, 0, 0x03, 0, 0x13, 0, 0x1F, 0, 0x0E, 0, 0, 0, 0, 0, 0, 0, 0x06, 0, 0x0E, 0, 0x18, 0, 0x1F,
    0, 0x1F, 0, 0x31, 0x80, 0x19, 0x80, 0x1F, 0, 0x0E, 0, 0, 0, 0, 0, 0, 0, 0x3F, 0, 0x1F, 0, 0x03, 0, 0x02, 0, 0x06, 0, 0x06, 0,
    0x0C, 0, 0x0C, 0, 0x18, 0, 0, 0, 0, 0, 0, 0, 0x0E, 0, 0x1F, 0, 0x1B, 0, 0x1F, 0, 0x1F, 0, 0x1B, 0, 0x1B, 0, 0x1F, 0, 0x0E, 0,
    0, 0, 0, 0, 0, 0, 0x0E, 0, 0x1F, 0, 0x1B, 0, 0x13, 0, 0x1B, 0, 0x0F, 0, 0x03, 0, 0x0E, 0, 0x0C, 0, 0, 0, 0, 0, 0, 0, 0, 0, 0,
    0, 0x0C, 0, 0x0C, 0, 0, 0, 0, 0, 0, 0, 0x0C, 0, 0x0C, 0, 0, 0, 0, 0, 0, 0, 0, 0, 0x06, 0, 0x06, 0, 0, 0, 0, 0, 0, 0, 0, 0,
    0x06, 0, 0x04, 0, 0, 0, 0, 0, 0, 0, 0, 0, 0, 0, 0x02, 0, 0x0E, 0, 0x3C, 0, 0x3C, 0, 0x0E, 0, 0x02, 0, 0, 0, 0, 0, 0, 0, 0, 0,
    0, 0, 0, 0, 0, 0, 0x1F, 0, 0x1F, 0, 0, 0, 0x1F, 0, 0x1F, 0, 0, 0]"

definition Font12_part_3 :: "u8 list" where
  "Font12_part_3 = [
    0, 0, 0, 0, 0, 0, 0, 0, 0, 0, 0x10, 0, 0x1C, 0, 0x0F, 0, 0x0F, 0, 0x1C, 0, 0x10, 0, 0, 0, 0, 0, 0, 0, 0, 0, 0x1E, 0, 0x3F, 0,
    0x03, 0, 0x06, 0, 0x0C, 0, 0x0C, 0, 0, 0, 0x0C, 0, 0x0C, 0, 0, 0, 0, 0, 0x1F, 0, 0x30, 0x80, 0x6E, 0x40, 0x4B, 0x40, 0x5A,
    0x40, 0xD2, 0x40, 0xDA, 0x40, 0x4F, 0x80, 0x40, 0, 0x20, 0, 0, 0, 0, 0, 0, 0, 0x18, 0, 0x1C, 0, 0x3C, 0, 0x3C, 0, 0x36, 0,
    0x66, 0, 0x7E, 0, 0x7F, 0, 0xC3, 0, 0, 0, 0, 0, 0, 0, 0x3E, 0, 0x3F, 0, 0x33, 0, 0x33, 0, 0x3E, 0, 0x33, 0, 0x33, 0, 0x3F, 0,
    0x3E, 0, 0, 0, 0, 0, 0, 0, 0x1E, 0, 0x3F, 0, 0x33, 0, 0x70, 0, 0x60, 0, 0x30, 0, 0x33, 0, 0x3F, 0, 0x1E, 0, 0, 0, 0, 0, 0, 0,
    0x3C, 0, 0x3E, 0, 0x33, 0, 0x33, 0, 0x33, 0, 0x33, 0, 0x33, 0, 0x3E, 0, 0x3C, 0, 0, 0, 0, 0, 0, 0, 0x1F, 0x80, 0x1F, 0, 0x18,
    0, 0x18, 0, 0x1F, 0, 0x1E, 0, 0x18, 0, 0x1F, 0, 0x1F, 0x80, 0, 0, 0, 0, 0, 0, 0x1F, 0, 0x1F, 0, 0x18, 0, 0x18, 0, 0x1F, 0,
    0x1F, 0, 0x18, 0, 0x18, 0, 0x18, 0, 0, 0, 0, 0, 0, 0, 0x1E, 0, 0x3F, 0, 0x33, 0, 0x30, 0, 0x77, 0x80, 0x33, 0x80, 0x31, 0x80,
    0x3F, 0x80, 0x1F, 0]"

definition Font12_part_4 :: "u8 list" where
  "Font12_part_4 = [
    0, 0, 0, 0, 0, 0, 0x31, 0x80, 0x31, 0x80, 0x31, 0x80, 0x31, 0x80, 0x3F, 0x80, 0x3F, 0x80, 0x31, 0x80, 0x31, 0x80, 0x31, 0x80,
    0, 0, 0, 0, 0, 0, 0x0C, 0, 0x0C, 0, 0x0C, 0, 0x0C, 0, 0x0C, 0, 0x0C, 0, 0x0C, 0, 0x0C, 0, 0x0C, 0, 0, 0, 0, 0, 0, 0, 0x03, 0,
    0x03, 0, 0x03, 0, 0x03, 0, 0x03, 0, 0x03, 0, 0x13, 0, 0x3F, 0, 0x1E, 0, 0, 0, 0, 0, 0, 0, 0x33, 0, 0x37, 0, 0x36, 0, 0x3C, 0,
    0x3C, 0, 0x3E, 0, 0x36, 0, 0x33, 0, 0x33, 0x80, 0, 0, 0, 0, 0, 0, 0x18, 0, 0x18, 0, 0x18, 0, 0x18, 0, 0x18, 0, 0x18, 0, 0x18,
    0, 0x1F, 0, 0x1F, 0, 0, 0, 0, 0, 0, 0, 0x61, 0xC0, 0x71, 0xC0, 0x73, 0xC0, 0x73, 0xC0, 0x7A, 0xC0, 0x7E, 0xC0, 0x6E, 0xC0,
    0x6C, 0xC0, 0x6C, 0xC0, 0, 0, 0, 0, 0, 0, 0x31, 0x80, 0x39, 0x80, 0x39, 0x80, 0x3D, 0x80, 0x3D, 0x80, 0x37, 0x80, 0x37, 0x80,
    0x33, 0x80, 0x33, 0x80, 0, 0, 0, 0, 0, 0, 0x1E, 0, 0x3F, 0, 0x33, 0x80, 0x71, 0x80, 0x71, 0x80, 0x71, 0x80, 0x33, 0x80, 0x3F,
    0, 0x1E, 0, 0, 0, 0, 0, 0, 0, 0x3E, 0, 0x3F, 0, 0x33, 0, 0x33, 0, 0x3F, 0, 0x3C, 0, 0x30, 0, 0x30, 0, 0x30, 0, 0, 0, 0, 0,
    0x1E, 0, 0x3F, 0, 0x33, 0x80, 0x31, 0x80, 0x71, 0x80, 0x31, 0x80, 0x33, 0x80, 0x3F, 0, 0x1F, 0, 0x03, 0]"

definition Font12_part_5 :: "u8 list" where
  "Font12_part_5 = [
    0, 0, 0, 0, 0, 0, 0x3E, 0, 0x3F, 0, 0x33, 0, 0x33, 0, 0x3E, 0, 0x3E, 0, 0x36, 0, 0x33, 0, 0x33, 0, 0, 0, 0, 0, 0, 0, 0x1E, 0,
    0x3F, 0, 0x33, 0, 0x38, 0, 0x1E, 0, 0x07, 0, 0x73, 0, 0x3F, 0, 0x1E, 0, 0, 0, 0, 0, 0, 0, 0x7F, 0, 0x3F, 0, 0x0C, 0, 0x0C, 0,
    0x0C, 0, 0x0C, 0, 0x0C, 0, 0x0C, 0, 0x0C, 0, 0, 0, 0, 0, 0, 0, 0x33, 0, 0x33, 0, 0x33, 0, 0x33, 0, 0x33, 0, 0x33, 0, 0x33, 0,
    0x3F, 0, 0x1E, 0, 0, 0, 0, 0, 0, 0, 0x61, 0x80, 0x73, 0, 0x33, 0, 0x33, 0, 0x37, 0, 0x1E, 0, 0x1E, 0, 0x1E, 0, 0x0C, 0, 0, 0,
    0, 0, 0, 0, 0xCC, 0xC0, 0xCC, 0xC0, 0x6E, 0xC0, 0x6E, 0xC0, 0x7F, 0x80, 0x7B, 0x80, 0x7B, 0x80, 0x33, 0x80, 0x33, 0x80, 0, 0,
    0, 0, 0, 0, 0x73, 0, 0x33, 0, 0x3E, 0, 0x1E, 0, 0x1C, 0, 0x1E, 0, 0x3E, 0, 0x33, 0, 0x73, 0, 0, 0, 0, 0, 0, 0, 0x63, 0, 0x33,
    0, 0x36, 0, 0x1E, 0, 0x1C, 0, 0x0C, 0, 0x0C, 0, 0x0C, 0, 0x0C, 0, 0, 0, 0, 0, 0, 0, 0x7F, 0, 0x3F, 0, 0x06, 0, 0x0C, 0, 0x0C,
    0, 0x18, 0, 0x38, 0, 0x3F, 0, 0x7F, 0, 0, 0, 0x0C, 0, 0x0C, 0, 0x0C, 0, 0x0C, 0, 0x0C, 0, 0x0C, 0, 0x0C, 0, 0x0C, 0, 0x0C, 0,
    0x0C, 0, 0x0C, 0]"

definition Font12_part_6 :: "u8 list" where
  "Font12_part_6 = [
    0, 0, 0, 0, 0x30, 0, 0x30, 0, 0x18, 0, 0x18, 0, 0x1C, 0, 0x0C, 0, 0x0C, 0, 0x06, 0, 0x06, 0, 0x06, 0, 0, 0, 0x0E, 0, 0x0E, 0,
    0x06, 0, 0x06, 0, 0x06, 0, 0x06, 0, 0x06, 0, 0x06, 0, 0x06, 0, 0x06, 0, 0x0E, 0, 0, 0, 0, 0, 0, 0, 0x0C, 0, 0x1C, 0, 0x16, 0,
    0x36, 0, 0, 0, 0, 0, 0, 0, 0, 0, 0, 0, 0, 0, 0, 0, 0, 0, 0, 0, 0, 0, 0, 0, 0, 0, 0, 0, 0, 0, 0, 0, 0, 0, 0x3E, 0, 0, 0, 0, 0,
    0, 0, 0x0C, 0, 0x04, 0, 0, 0, 0, 0, 0, 0, 0, 0, 0, 0, 0, 0, 0, 0, 0, 0, 0, 0, 0, 0, 0, 0, 0, 0, 0x1E, 0, 0x1F, 0, 0x03, 0,
    0x1F, 0, 0x33, 0, 0x3F, 0, 0x1F, 0, 0, 0, 0, 0, 0, 0, 0x18, 0, 0x18, 0, 0x1E, 0, 0x1F, 0, 0x1B, 0, 0x1B, 0, 0x1B, 0, 0x1F, 0,
    0x1E, 0, 0, 0, 0, 0, 0, 0, 0, 0, 0, 0, 0x0E, 0, 0x1F, 0, 0x33, 0, 0x30, 0, 0x32, 0, 0x1F, 0, 0x0E, 0, 0, 0, 0, 0, 0, 0, 0x03,
    0, 0x03, 0, 0x1F, 0, 0x1F, 0, 0x33, 0, 0x33, 0, 0x33, 0, 0x1F, 0, 0x1F, 0, 0, 0, 0, 0, 0, 0, 0, 0, 0, 0, 0x0E, 0, 0x1F, 0,
    0x33, 0, 0x3F, 0, 0x38, 0, 0x1F, 0, 0x0E, 0]"

definition Font12_part_7 :: "u8 list" where
  "Font12_part_7 = [
    0, 0, 0, 0, 0, 0, 0x06, 0, 0x0E, 0, 0x1E, 0, 0x0C, 0, 0x0C, 0, 0x0C, 0, 0x0C, 0, 0x0C, 0, 0x0C, 0, 0, 0, 0, 0, 0, 0, 0, 0,
    0x0F, 0, 0x1F, 0, 0x33, 0, 0x33, 0, 0x33, 0, 0x1F, 0, 0x0F, 0, 0x1F, 0, 0, 0, 0, 0, 0, 0, 0x10, 0, 0x10, 0, 0x1E, 0, 0x1F, 0,
    0x13, 0, 0x13, 0, 0x13, 0, 0x13, 0, 0x13, 0, 0, 0, 0, 0, 0x04, 0, 0x06, 0, 0, 0, 0x06, 0, 0x06, 0, 0x06, 0, 0x06, 0, 0x06, 0,
    0x06, 0, 0x06, 0, 0, 0, 0x08, 0, 0x0C, 0, 0, 0, 0x0C, 0, 0x0C, 0, 0x0C, 0, 0x0C, 0, 0x0C, 0, 0x0C, 0, 0x0C, 0, 0x18, 0, 0, 0,
    0, 0, 0, 0, 0x18, 0, 0x18, 0, 0x1B, 0, 0x1E, 0, 0x1E, 0, 0x1E, 0, 0x1E, 0, 0x1B, 0, 0x1B, 0, 0, 0, 0, 0, 0, 0, 0x06, 0, 0x06,
    0, 0x06, 0, 0x06, 0, 0x06, 0, 0x06, 0, 0x06, 0, 0x06, 0, 0x06, 0, 0, 0, 0, 0, 0, 0, 0, 0, 0, 0, 0x7B, 0x80, 0x7F, 0xC0, 0x6C,
    0xC0, 0x6C, 0xC0, 0x6C, 0xC0, 0x6C, 0xC0, 0x6C, 0xC0, 0, 0, 0, 0, 0, 0, 0, 0, 0, 0, 0x1E, 0, 0x1F, 0, 0x13, 0, 0x13, 0, 0x13,
    0, 0x13, 0, 0x13, 0, 0, 0, 0, 0, 0, 0, 0, 0, 0, 0, 0x0E, 0, 0x1F, 0, 0x33, 0, 0x33, 0, 0x33, 0, 0x1F, 0, 0x0E, 0]"

definition Font12_part_8 :: "u8 list" where
  "Font12_part_8 = [
    0, 0, 0, 0, 0, 0, 0, 0, 0x1E, 0, 0x1F, 0, 0x1B, 0, 0x1B, 0, 0x1B, 0, 0x1F, 0, 0x1E, 0, 0x18, 0, 0, 0, 0, 0, 0, 0, 0, 0, 0x1F,
    0, 0x1F, 0, 0x33, 0, 0x33, 0, 0x33, 0, 0x1F, 0, 0x1F, 0, 0x03, 0, 0, 0, 0, 0, 0, 0, 0, 0, 0, 0, 0x0E, 0, 0x0C, 0, 0x0C, 0,
    0x0C, 0, 0x0C, 0, 0x0C, 0, 0x0C, 0, 0, 0, 0, 0, 0, 0, 0, 0, 0, 0, 0x1E, 0, 0x1A, 0, 0x18, 0, 0x1E, 0, 0x07, 0, 0x37, 0, 0x1E,
    0, 0, 0, 0, 0, 0, 0, 0x0C, 0, 0x0C, 0, 0x1E, 0, 0x0C, 0, 0x0C, 0, 0x0C, 0, 0x0C, 0, 0x0E, 0, 0x06, 0, 0, 0, 0, 0, 0, 0, 0, 0,
    0, 0, 0x13, 0, 0x13, 0, 0x13, 0, 0x13, 0, 0x1B, 0, 0x1F, 0, 0x1F, 0, 0, 0, 0, 0, 0, 0, 0, 0, 0, 0, 0x33, 0, 0x33, 0, 0x1A, 0,
    0x1E, 0, 0x1E, 0, 0x0E, 0, 0x0C, 0, 0, 0, 0, 0, 0, 0, 0, 0, 0, 0, 0x64, 0x80, 0x6D, 0x80, 0x2F, 0x80, 0x3F, 0x80, 0x3B, 0x80,
    0x3B, 0, 0x13, 0, 0, 0, 0, 0, 0, 0, 0, 0, 0, 0, 0x33, 0, 0x1E, 0, 0x1E, 0, 0x0E, 0, 0x1E, 0, 0x1E, 0, 0x33, 0, 0, 0, 0, 0, 0,
    0, 0, 0, 0x66, 0, 0x76, 0, 0x3C, 0, 0x3C, 0, 0x1C, 0, 0x18, 0, 0x18, 0, 0x38, 0]"

definition Font12_part_9 :: "u8 list" where
  "Font12_part_9 = [
    0, 0, 0, 0, 0, 0, 0, 0, 0, 0, 0x1F, 0, 0x1E, 0, 0x06, 0, 0x0C, 0, 0x1C, 0, 0x1E, 0, 0x3F, 0, 0, 0, 0, 0, 0x04, 0, 0x0C, 0,
    0x0C, 0, 0x0C, 0, 0x0C, 0, 0x18, 0, 0x0C, 0, 0x0C, 0, 0x0C, 0, 0x0C, 0, 0, 0, 0, 0, 0x04, 0, 0x04, 0, 0x04, 0, 0x04, 0, 0x04,
    0, 0x04, 0, 0x04, 0, 0x04, 0, 0x04, 0, 0x04, 0, 0, 0, 0, 0, 0x18, 0, 0x08, 0, 0x0C, 0, 0x0C, 0, 0x0C, 0, 0x06, 0, 0x0C, 0,
    0x0C, 0, 0x0C, 0, 0x08, 0, 0, 0, 0, 0, 0, 0, 0, 0, 0, 0, 0, 0, 0, 0, 0x39, 0, 0x3F, 0, 0x26, 0, 0, 0]"

definition Font12_Table :: "u8 list" where
  "Font12_Table =
    Font12_part_0 @ Font12_part_1 @ Font12_part_2 @ Font12_part_3 @ Font12_part_4 @ Font12_part_5 @ Font12_part_6 @
    Font12_part_7 @ Font12_part_8 @ Font12_part_9"

definition Font12 :: sFONT where
  "Font12 = \<lparr>font_table = Font12_Table, Width = 11, Height = 12\<rparr>"

lemma Font12_length: "length Font12_Table = 2278"
  by (simp add: Font12_Table_def Font12_part_0_def Font12_part_1_def Font12_part_2_def Font12_part_3_def Font12_part_4_def Font12_part_5_def Font12_part_6_def Font12_part_7_def Font12_part_8_def Font12_part_9_def length_4 del: list.size(4))

subsection \<open>Font16: 14 by 16 points\<close>

definition Font16_part_0 :: "u8 list" where
  "Font16_part_0 = [
    0, 0, 0, 0, 0, 0, 0, 0, 0, 0, 0, 0, 0, 0, 0, 0, 0, 0, 0, 0, 0, 0, 0, 0, 0, 0, 0, 0, 0, 0, 0, 0, 0, 0, 0, 0, 0, 0, 0x03, 0x80,
    0x03, 0x80, 0x03, 0x80, 0x03, 0x80, 0x03, 0, 0x03, 0, 0x03, 0, 0x03, 0, 0, 0, 0x01, 0, 0x03, 0x80, 0x03, 0, 0, 0, 0, 0, 0, 0,
    0, 0, 0x0D, 0x80, 0x0D, 0x80, 0x0D, 0x80, 0x0D, 0, 0, 0, 0, 0, 0, 0, 0, 0, 0, 0, 0, 0, 0, 0, 0, 0, 0, 0, 0, 0, 0, 0, 0, 0,
    0x06, 0xC0, 0x06, 0x80, 0x04, 0x80, 0x1F, 0xE0, 0x0D, 0x80, 0x0D, 0x80, 0x0D, 0x80, 0x3F, 0xC0, 0x0F, 0x80, 0x09, 0, 0x0B, 0,
    0x0B, 0, 0, 0, 0, 0, 0x03, 0, 0x07, 0x80, 0x0F, 0xC0, 0x1C, 0xC0, 0x1C, 0xC0, 0x1C, 0, 0x0F, 0, 0x07, 0xC0, 0x01, 0xC0, 0x18,
    0xE0, 0x1C, 0xC0, 0x1F, 0xC0, 0x07, 0x80, 0x02, 0, 0, 0, 0, 0, 0, 0, 0, 0, 0x1C, 0, 0x3E, 0, 0x26, 0x40, 0x3E, 0xC0, 0x1D,
    0x80, 0x01, 0, 0x03, 0, 0x06, 0xE0, 0x05, 0xF0, 0x0D, 0xB0, 0x09, 0xF0, 0, 0xE0, 0, 0, 0, 0, 0, 0, 0, 0, 0x0E, 0, 0x1F, 0,
    0x1B, 0x80, 0x1B, 0x80, 0x1F, 0, 0x1E, 0, 0x1E, 0x60, 0x3F, 0xE0, 0x73, 0xC0, 0x33, 0xC0, 0x3F, 0xC0, 0x1E, 0xE0, 0, 0, 0, 0,
    0, 0, 0, 0, 0x06, 0, 0x06, 0, 0x06, 0, 0x06, 0, 0, 0, 0, 0, 0, 0, 0, 0, 0, 0, 0, 0, 0, 0, 0, 0, 0, 0]"

definition Font16_part_1 :: "u8 list" where
  "Font16_part_1 = [
    0, 0x80, 0x01, 0x80, 0x03, 0, 0x03, 0, 0x07, 0, 0x06, 0, 0x06, 0, 0x06, 0, 0x06, 0, 0x06, 0, 0x06, 0, 0x06, 0, 0x07, 0, 0x03,
    0, 0x03, 0, 0x01, 0x80, 0x04, 0, 0x06, 0, 0x06, 0, 0x03, 0, 0x03, 0, 0x03, 0x80, 0x03, 0x80, 0x01, 0x80, 0x01, 0x80, 0x01,
    0x80, 0x03, 0x80, 0x03, 0x80, 0x03, 0, 0x03, 0, 0x06, 0, 0x06, 0, 0, 0, 0, 0, 0, 0, 0x03, 0, 0x03, 0, 0x1F, 0xC0, 0x07, 0,
    0x07, 0x80, 0x0C, 0x80, 0, 0, 0, 0, 0, 0, 0, 0, 0, 0, 0, 0, 0, 0, 0, 0, 0, 0, 0, 0, 0, 0, 0, 0, 0, 0, 0x06, 0, 0x06, 0, 0x06,
    0, 0x3F, 0xC0, 0x3F, 0xC0, 0x07, 0, 0x06, 0, 0x06, 0, 0, 0, 0, 0, 0, 0, 0, 0, 0, 0, 0, 0, 0, 0, 0, 0, 0, 0, 0, 0, 0, 0, 0, 0,
    0, 0, 0, 0, 0x03, 0, 0x03, 0, 0x03, 0, 0x03, 0, 0, 0, 0, 0, 0, 0, 0, 0, 0, 0, 0, 0, 0, 0, 0, 0, 0, 0, 0x0F, 0x80, 0x0F, 0x80,
    0, 0, 0, 0, 0, 0, 0, 0, 0, 0, 0, 0, 0, 0, 0, 0, 0, 0, 0, 0, 0, 0, 0, 0, 0, 0, 0, 0, 0, 0, 0, 0, 0, 0, 0x02, 0, 0x07, 0, 0x06,
    0, 0, 0, 0, 0, 0, 0, 0, 0, 0x01, 0, 0x03, 0, 0x03, 0, 0x02, 0, 0x06, 0, 0x06, 0, 0x06, 0, 0x0C, 0, 0x0C, 0, 0x0C, 0, 0x08, 0,
    0x18, 0, 0x18, 0]"

definition Font16_part_2 :: "u8 list" where
  "Font16_part_2 = [
    0, 0, 0, 0, 0, 0, 0x07, 0x80, 0x0F, 0xC0, 0x1D, 0xC0, 0x18, 0xC0, 0x18, 0xE0, 0x18, 0xE0, 0x18, 0xE0, 0x18, 0xE0, 0x18, 0xC0,
    0x1D, 0xC0, 0x0F, 0xC0, 0x07, 0x80, 0, 0, 0, 0, 0, 0, 0, 0, 0x01, 0x80, 0x07, 0x80, 0x1F, 0x80, 0x1B, 0x80, 0x03, 0x80, 0x03,
    0x80, 0x03, 0x80, 0x03, 0x80, 0x03, 0x80, 0x03, 0x80, 0x03, 0x80, 0x03, 0x80, 0, 0, 0, 0, 0, 0, 0, 0, 0x07, 0x80, 0x1F, 0xC0,
    0x1D, 0xC0, 0x18, 0xC0, 0x01, 0xC0, 0x01, 0xC0, 0x03, 0x80, 0x07, 0, 0x0E, 0, 0x1E, 0, 0x1F, 0xE0, 0x1F, 0xE0, 0, 0, 0, 0, 0,
    0, 0, 0, 0x0F, 0x80, 0x1F, 0xC0, 0x18, 0xC0, 0, 0xC0, 0x07, 0x80, 0x07, 0xC0, 0x01, 0xC0, 0, 0xE0, 0x18, 0xE0, 0x1D, 0xC0,
    0x1F, 0xC0, 0x0F, 0x80, 0, 0, 0, 0, 0, 0, 0, 0, 0x01, 0xC0, 0x03, 0xC0, 0x07, 0xC0, 0x07, 0xC0, 0x0D, 0xC0, 0x0D, 0xC0, 0x19,
    0xC0, 0x1F, 0xE0, 0x1F, 0xE0, 0x01, 0xC0, 0x01, 0xC0, 0x01, 0xC0, 0, 0, 0, 0, 0, 0, 0, 0, 0x1F, 0xC0, 0x1F, 0xC0, 0x1C, 0,
    0x1C, 0, 0x1F, 0x80, 0x1F, 0xC0, 0, 0xC0, 0, 0xE0, 0x18, 0xE0, 0x1D, 0xC0, 0x1F, 0xC0, 0x07, 0x80, 0, 0, 0, 0, 0, 0, 0, 0,
    0x03, 0x80, 0x07, 0x80, 0x0E, 0, 0x1C, 0, 0x1F, 0x80, 0x1F, 0xC0, 0x1C, 0xE0, 0x18, 0xE0, 0x18, 0xE0, 0x1C, 0xE0, 0x0F, 0xC0,
    0x07, 0x80, 0, 0, 0, 0, 0, 0, 0, 0, 0x3F, 0xE0, 0x3F, 0xE0, 0, 0xC0, 0x01, 0xC0, 0x01, 0x80, 0x03, 0x80, 0x03, 0x80, 0x07, 0,
    0x07, 0, 0x06, 0, 0x0E, 0, 0x0E, 0, 0, 0]"

definition Font16_part_3 :: "u8 list" where
  "Font16_part_3 = [
    0, 0, 0, 0, 0, 0, 0x0F, 0x80, 0x1F, 0xC0, 0x1C, 0xC0, 0x1C, 0xC0, 0x0F, 0xC0, 0x0F, 0x80, 0x1D, 0xC0, 0x18, 0xE0, 0x18, 0xE0,
    0x1D, 0xC0, 0x1F, 0xC0, 0x07, 0x80, 0, 0, 0, 0, 0, 0, 0, 0, 0x07, 0, 0x0F, 0xC0, 0x1D, 0xC0, 0x18, 0xC0, 0x18, 0xE0, 0x1C,
    0xE0, 0x1F, 0xC0, 0x0F, 0xC0, 0x01, 0xC0, 0x03, 0x80, 0x0F, 0x80, 0x0E, 0, 0, 0, 0, 0, 0, 0, 0, 0, 0, 0, 0, 0, 0, 0, 0x02, 0,
    0x07, 0, 0x06, 0, 0, 0, 0, 0, 0, 0, 0x06, 0, 0x07, 0, 0x02, 0, 0, 0, 0, 0, 0, 0, 0, 0, 0, 0, 0, 0, 0x02, 0, 0x07, 0, 0x06, 0,
    0, 0, 0, 0, 0, 0, 0, 0, 0x06, 0, 0x06, 0, 0x06, 0, 0x06, 0, 0, 0, 0, 0, 0, 0, 0, 0, 0, 0, 0, 0, 0, 0x40, 0x01, 0xC0, 0x0F,
    0xC0, 0x1E, 0, 0x1E, 0, 0x0F, 0xC0, 0x01, 0xC0, 0, 0x40, 0, 0, 0, 0, 0, 0, 0, 0, 0, 0, 0, 0, 0, 0, 0, 0, 0, 0, 0, 0, 0x1F,
    0xC0, 0x1F, 0xC0, 0, 0, 0x1F, 0xC0, 0x1F, 0xC0, 0, 0, 0, 0, 0, 0, 0, 0, 0, 0, 0, 0, 0, 0, 0, 0, 0, 0, 0x08, 0, 0x0E, 0, 0x0F,
    0xC0, 0x01, 0xE0, 0x01, 0xE0, 0x0F, 0xC0, 0x0E, 0, 0x08, 0, 0, 0, 0, 0, 0, 0, 0, 0, 0, 0, 0x07, 0x80, 0x0F, 0xC0, 0x1C, 0xC0,
    0, 0xE0, 0x01, 0xC0, 0x03, 0x80, 0x03, 0, 0x03, 0, 0, 0, 0x02, 0, 0x07, 0, 0x03, 0, 0, 0]"

definition Font16_part_4 :: "u8 list" where
  "Font16_part_4 = [
    0, 0, 0, 0, 0x07, 0xC0, 0x1C, 0x70, 0x30, 0x18, 0x33, 0xC8, 0x67, 0xCC, 0x6C, 0xCC, 0x4C, 0xCC, 0x4C, 0xCC, 0x4C, 0xC8, 0x4F,
    0xD8, 0x67, 0x70, 0x60, 0, 0x30, 0, 0x1F, 0xC0, 0, 0, 0, 0, 0, 0, 0x07, 0, 0x07, 0, 0x0F, 0x80, 0x0F, 0x80, 0x0D, 0x80, 0x1D,
    0xC0, 0x1D, 0xC0, 0x18, 0xC0, 0x3F, 0xE0, 0x3F, 0xE0, 0x70, 0xE0, 0x70, 0x70, 0, 0, 0, 0, 0, 0, 0, 0, 0x1F, 0xC0, 0x1F, 0xE0,
    0x1C, 0xE0, 0x1C, 0xE0, 0x1F, 0xC0, 0x1F, 0xE0, 0x1C, 0x60, 0x1C, 0x70, 0x1C, 0x70, 0x1C, 0xE0, 0x1F, 0xE0, 0x1F, 0xC0, 0, 0,
    0, 0, 0, 0, 0, 0, 0x0F, 0x80, 0x1F, 0xC0, 0x38, 0xE0, 0x38, 0xE0, 0x30, 0, 0x30, 0, 0x30, 0, 0x30, 0, 0x38, 0xE0, 0x38, 0xE0,
    0x1F, 0xC0, 0x0F, 0x80, 0, 0, 0, 0, 0, 0, 0, 0, 0x1F, 0x80, 0x1F, 0xC0, 0x1C, 0xE0, 0x1C, 0x60, 0x1C, 0x70, 0x1C, 0x70, 0x1C,
    0x70, 0x1C, 0x70, 0x1C, 0x60, 0x1C, 0xE0, 0x1F, 0xC0, 0x1F, 0x80, 0, 0, 0, 0, 0, 0, 0, 0, 0x1F, 0xE0, 0x1F, 0xE0, 0x1C, 0,
    0x1C, 0, 0x1C, 0, 0x1F, 0xC0, 0x1F, 0xC0, 0x1C, 0, 0x1C, 0, 0x1C, 0, 0x1F, 0xE0, 0x1F, 0xE0, 0, 0, 0, 0, 0, 0, 0, 0, 0x1F,
    0xC0, 0x1F, 0xC0, 0x1C, 0, 0x1C, 0, 0x1C, 0, 0x1F, 0xC0, 0x1F, 0xC0, 0x1C, 0, 0x1C, 0, 0x1C, 0, 0x1C, 0, 0x1C, 0, 0, 0, 0, 0,
    0, 0, 0, 0, 0x0F, 0x80, 0x1F, 0xC0, 0x3C, 0xE0, 0x38, 0xE0, 0x38, 0, 0x30, 0, 0x31, 0xE0, 0x39, 0xE0, 0x38, 0xE0, 0x3C, 0xE0,
    0x1F, 0xE0, 0x0F, 0xC0, 0, 0]"

definition Font16_part_5 :: "u8 list" where
  "Font16_part_5 = [
    0, 0, 0, 0, 0, 0, 0x38, 0x60, 0x38, 0x60, 0x38, 0x60, 0x38, 0x60, 0x38, 0x60, 0x3F, 0xE0, 0x3F, 0xE0, 0x38, 0x60, 0x38, 0x60,
    0x38, 0x60, 0x38, 0x60, 0x38, 0x60, 0, 0, 0, 0, 0, 0, 0, 0, 0x07, 0, 0x07, 0, 0x07, 0, 0x07, 0, 0x07, 0, 0x07, 0, 0x07, 0,
    0x07, 0, 0x07, 0, 0x07, 0, 0x07, 0, 0x07, 0, 0, 0, 0, 0, 0, 0, 0, 0, 0x01, 0xC0, 0x01, 0xC0, 0x01, 0xC0, 0x01, 0xC0, 0x01,
    0xC0, 0x01, 0xC0, 0x01, 0xC0, 0x01, 0xC0, 0x19, 0xC0, 0x39, 0xC0, 0x1F, 0x80, 0x0F, 0, 0, 0, 0, 0, 0, 0, 0, 0, 0x38, 0xE0,
    0x39, 0xC0, 0x3B, 0xC0, 0x3B, 0x80, 0x3F, 0, 0x3F, 0, 0x3F, 0, 0x3F, 0x80, 0x3B, 0x80, 0x39, 0xC0, 0x39, 0xE0, 0x38, 0xE0, 0,
    0, 0, 0, 0, 0, 0, 0, 0x1C, 0, 0x1C, 0, 0x1C, 0, 0x1C, 0, 0x1C, 0, 0x1C, 0, 0x1C, 0, 0x1C, 0, 0x1C, 0, 0x1C, 0, 0x1F, 0xC0,
    0x1F, 0xC0, 0, 0, 0, 0, 0, 0, 0, 0, 0x78, 0x78, 0x78, 0x78, 0x78, 0x78, 0x7C, 0xF8, 0x7C, 0xF8, 0x6C, 0xD8, 0x6C, 0xD8, 0x77,
    0xB8, 0x77, 0xB8, 0x77, 0xB8, 0x73, 0x38, 0x73, 0x38, 0, 0, 0, 0, 0, 0, 0, 0, 0x38, 0x60, 0x38, 0x60, 0x3C, 0x60, 0x3C, 0x60,
    0x3E, 0x60, 0x3F, 0x60, 0x3B, 0x60, 0x3B, 0xE0, 0x39, 0xE0, 0x39, 0xE0, 0x38, 0xE0, 0x38, 0xE0, 0, 0, 0, 0, 0, 0, 0, 0, 0x0F,
    0x80, 0x1F, 0xC0, 0x3D, 0xE0, 0x38, 0xE0, 0x30, 0x60, 0x30, 0x60, 0x30, 0x60, 0x30, 0x60, 0x38, 0xE0, 0x3C, 0xE0, 0x1F, 0xC0,
    0x0F, 0x80, 0, 0]"

definition Font16_part_6 :: "u8 list" where
  "Font16_part_6 = [
    0, 0, 0, 0, 0, 0, 0x1F, 0xC0, 0x1F, 0xE0, 0x1C, 0xE0, 0x1C, 0x70, 0x1C, 0x70, 0x1C, 0x70, 0x1F, 0xE0, 0x1F, 0xC0, 0x1C, 0,
    0x1C, 0, 0x1C, 0, 0x1C, 0, 0, 0, 0, 0, 0, 0, 0x0F, 0x80, 0x1F, 0xC0, 0x3C, 0xE0, 0x38, 0xE0, 0x30, 0x60, 0x30, 0x60, 0x30,
    0x60, 0x30, 0x60, 0x38, 0xE0, 0x3C, 0xE0, 0x1F, 0xC0, 0x0F, 0xC0, 0, 0xE0, 0, 0x40, 0, 0, 0, 0, 0, 0, 0x3F, 0x80, 0x3F, 0xC0,
    0x39, 0xC0, 0x38, 0xE0, 0x38, 0xE0, 0x39, 0xC0, 0x3F, 0xC0, 0x3F, 0x80, 0x3B, 0x80, 0x39, 0xC0, 0x39, 0xC0, 0x38, 0xE0, 0, 0,
    0, 0, 0, 0, 0, 0, 0x07, 0x80, 0x0F, 0xE0, 0x1C, 0xE0, 0x1C, 0x60, 0x1E, 0, 0x0F, 0x80, 0x07, 0xE0, 0, 0xE0, 0x18, 0x60, 0x1C,
    0xE0, 0x1F, 0xE0, 0x07, 0xC0, 0, 0, 0, 0, 0, 0, 0, 0, 0x3F, 0xF0, 0x3F, 0xF0, 0x03, 0, 0x03, 0, 0x03, 0, 0x03, 0, 0x03, 0,
    0x03, 0, 0x03, 0, 0x03, 0, 0x03, 0, 0x03, 0, 0, 0, 0, 0, 0, 0, 0, 0, 0x38, 0xE0, 0x38, 0xE0, 0x38, 0xE0, 0x38, 0xE0, 0x38,
    0xE0, 0x38, 0xE0, 0x38, 0xE0, 0x38, 0xE0, 0x38, 0xE0, 0x39, 0xC0, 0x1F, 0xC0, 0x0F, 0x80, 0, 0, 0, 0, 0, 0, 0, 0, 0x70, 0xE0,
    0x70, 0xE0, 0x38, 0xE0, 0x38, 0xC0, 0x39, 0xC0, 0x19, 0xC0, 0x1D, 0xC0, 0x1D, 0x80, 0x0F, 0x80, 0x0F, 0x80, 0x0F, 0, 0x07, 0,
    0, 0, 0, 0, 0, 0, 0, 0, 0xE3, 0x1C, 0xE7, 0x18, 0x67, 0x98, 0x67, 0xB8, 0x77, 0xB8, 0x77, 0xB8, 0x7F, 0xF0, 0x3D, 0xF0, 0x3C,
    0xF0, 0x3C, 0xF0, 0x3C, 0xF0, 0x3C, 0xE0, 0, 0]"

definition Font16_part_7 :: "u8 list" where
  "Font16_part_7 = [
    0, 0, 0, 0, 0, 0, 0x70, 0xE0, 0x39, 0xC0, 0x39, 0xC0, 0x1F, 0x80, 0x0F, 0x80, 0x0F, 0, 0x0F, 0, 0x1F, 0x80, 0x1F, 0x80, 0x39,
    0xC0, 0x39, 0xC0, 0x70, 0xE0, 0, 0, 0, 0, 0, 0, 0, 0, 0x70, 0xE0, 0x38, 0xC0, 0x39, 0xC0, 0x19, 0x80, 0x1F, 0x80, 0x0F, 0,
    0x0F, 0, 0x07, 0, 0x06, 0, 0x06, 0, 0x06, 0, 0x06, 0, 0, 0, 0, 0, 0, 0, 0, 0, 0x3F, 0xE0, 0x3F, 0xE0, 0, 0xE0, 0x01, 0xC0,
    0x03, 0x80, 0x03, 0x80, 0x07, 0, 0x0E, 0, 0x0E, 0, 0x1C, 0, 0x1F, 0xE0, 0x1F, 0xE0, 0, 0, 0, 0, 0x07, 0, 0x07, 0, 0x06, 0,
    0x06, 0, 0x06, 0, 0x06, 0, 0x06, 0, 0x06, 0, 0x06, 0, 0x06, 0, 0x06, 0, 0x06, 0, 0x06, 0, 0x06, 0, 0x07, 0, 0, 0, 0, 0, 0, 0,
    0x38, 0, 0x38, 0, 0x1C, 0, 0x1C, 0, 0x1C, 0, 0x0E, 0, 0x0E, 0, 0x06, 0, 0x07, 0, 0x07, 0, 0x03, 0, 0x03, 0x80, 0x03, 0x80, 0,
    0, 0x0F, 0, 0x0F, 0, 0x07, 0, 0x07, 0, 0x07, 0, 0x07, 0, 0x07, 0, 0x07, 0, 0x07, 0, 0x07, 0, 0x07, 0, 0x07, 0, 0x07, 0, 0x07,
    0, 0x0F, 0, 0, 0, 0, 0, 0, 0, 0x07, 0, 0x07, 0, 0x07, 0x80, 0x0D, 0x80, 0x0D, 0x80, 0x18, 0xC0, 0, 0, 0, 0, 0, 0, 0, 0, 0, 0,
    0, 0, 0, 0, 0, 0, 0, 0, 0, 0, 0, 0, 0, 0, 0, 0, 0, 0, 0, 0, 0, 0, 0, 0, 0, 0, 0, 0, 0, 0, 0, 0, 0x1F, 0xC0, 0x1F, 0xC0]"

definition Font16_part_8 :: "u8 list" where
  "Font16_part_8 = [
    0, 0, 0, 0, 0, 0, 0x07, 0, 0x03, 0, 0, 0, 0, 0, 0, 0, 0, 0, 0, 0, 0, 0, 0, 0, 0, 0, 0, 0, 0, 0, 0, 0, 0, 0, 0, 0, 0, 0, 0, 0,
    0, 0, 0, 0, 0x0F, 0, 0x1F, 0x80, 0x01, 0xC0, 0x01, 0xC0, 0x0F, 0xC0, 0x1D, 0xC0, 0x39, 0xC0, 0x1F, 0xC0, 0x0F, 0xC0, 0, 0, 0,
    0, 0, 0, 0, 0, 0x18, 0, 0x18, 0, 0x18, 0, 0x1F, 0x80, 0x1F, 0xC0, 0x1D, 0xC0, 0x18, 0xC0, 0x18, 0xE0, 0x18, 0xC0, 0x1D, 0xC0,
    0x1F, 0xC0, 0x1B, 0x80, 0, 0, 0, 0, 0, 0, 0, 0, 0, 0, 0, 0, 0, 0, 0x07, 0x80, 0x0F, 0xC0, 0x0C, 0xE0, 0x1C, 0, 0x1C, 0, 0x1C,
    0, 0x0C, 0xE0, 0x0F, 0xC0, 0x07, 0x80, 0, 0, 0, 0, 0, 0, 0, 0, 0, 0xC0, 0, 0xC0, 0, 0xC0, 0x0F, 0xC0, 0x1F, 0xC0, 0x1D, 0xC0,
    0x18, 0xC0, 0x38, 0xC0, 0x18, 0xC0, 0x1D, 0xC0, 0x1F, 0xC0, 0x0E, 0xC0, 0, 0, 0, 0, 0, 0, 0, 0, 0, 0, 0, 0, 0, 0, 0x07, 0,
    0x1F, 0xC0, 0x1D, 0xC0, 0x18, 0xC0, 0x1F, 0xC0, 0x1F, 0xC0, 0x1C, 0, 0x1F, 0xC0, 0x07, 0x80, 0, 0, 0, 0, 0, 0, 0, 0, 0x01,
    0xC0, 0x03, 0xC0, 0x07, 0, 0x0F, 0xC0, 0x0F, 0xC0, 0x07, 0, 0x07, 0, 0x07, 0, 0x07, 0, 0x07, 0, 0x07, 0, 0x07, 0, 0, 0, 0, 0,
    0, 0, 0, 0, 0, 0, 0, 0, 0x0F, 0xC0, 0x1F, 0xC0, 0x1C, 0xC0, 0x18, 0xC0, 0x38, 0xC0, 0x18, 0xC0, 0x1C, 0xC0, 0x1F, 0xC0, 0x0F,
    0xC0, 0x01, 0xC0, 0x1F, 0xC0]"

definition Font16_part_9 :: "u8 list" where
  "Font16_part_9 = [
    0, 0, 0, 0, 0, 0, 0x18, 0, 0x18, 0, 0x18, 0, 0x1B, 0x80, 0x1F, 0xC0, 0x1D, 0xC0, 0x18, 0xC0, 0x18, 0xC0, 0x18, 0xC0, 0x18,
    0xC0, 0x18, 0xC0, 0x18, 0xC0, 0, 0, 0, 0, 0, 0, 0, 0, 0x03, 0x80, 0x03, 0, 0, 0, 0x03, 0x80, 0x03, 0x80, 0x03, 0x80, 0x03,
    0x80, 0x03, 0x80, 0x03, 0x80, 0x03, 0x80, 0x03, 0x80, 0x03, 0x80, 0, 0, 0, 0, 0, 0, 0x07, 0, 0x06, 0, 0, 0, 0x07, 0, 0x07, 0,
    0x07, 0, 0x07, 0, 0x07, 0, 0x07, 0, 0x07, 0, 0x07, 0, 0x07, 0, 0x06, 0, 0x1E, 0, 0, 0, 0, 0, 0, 0, 0x18, 0, 0x18, 0, 0x18, 0,
    0x19, 0xC0, 0x19, 0xC0, 0x1F, 0x80, 0x1F, 0, 0x1F, 0, 0x1F, 0x80, 0x19, 0xC0, 0x19, 0xC0, 0x18, 0xE0, 0, 0, 0, 0, 0, 0, 0, 0,
    0x03, 0x80, 0x03, 0x80, 0x03, 0x80, 0x03, 0x80, 0x03, 0x80, 0x03, 0x80, 0x03, 0x80, 0x03, 0x80, 0x03, 0x80, 0x03, 0x80, 0x03,
    0x80, 0x03, 0x80, 0, 0, 0, 0, 0, 0, 0, 0, 0, 0, 0, 0, 0, 0, 0x6E, 0x70, 0x7F, 0xF8, 0x77, 0x38, 0x63, 0x38, 0x63, 0x38, 0x63,
    0x38, 0x63, 0x38, 0x63, 0x38, 0x63, 0x38, 0, 0, 0, 0, 0, 0, 0, 0, 0, 0, 0, 0, 0, 0, 0x1B, 0x80, 0x1F, 0xC0, 0x1D, 0xC0, 0x18,
    0xC0, 0x18, 0xC0, 0x18, 0xC0, 0x18, 0xC0, 0x18, 0xC0, 0x18, 0xC0, 0, 0, 0, 0, 0, 0, 0, 0, 0, 0, 0, 0, 0, 0, 0x0F, 0x80, 0x1F,
    0xC0, 0x1D, 0xC0, 0x18, 0xC0, 0x38, 0xE0, 0x38, 0xC0, 0x1D, 0xC0, 0x1F, 0xC0, 0x0F, 0x80, 0, 0]"

definition Font16_part_10 :: "u8 list" where
  "Font16_part_10 = [
    0, 0, 0, 0, 0, 0, 0, 0, 0, 0, 0x1B, 0x80, 0x1F, 0xC0, 0x1D, 0xC0, 0x18, 0xC0, 0x18, 0xE0, 0x18, 0xC0, 0x1D, 0xC0, 0x1F, 0xC0,
    0x1F, 0x80, 0x18, 0, 0x18, 0, 0, 0, 0, 0, 0, 0, 0, 0, 0, 0, 0x0E, 0xC0, 0x1F, 0xC0, 0x1D, 0xC0, 0x18, 0xC0, 0x38, 0xC0, 0x38,
    0xC0, 0x1D, 0xC0, 0x1F, 0xC0, 0x0F, 0xC0, 0, 0xC0, 0, 0xC0, 0, 0, 0, 0, 0, 0, 0, 0, 0, 0, 0, 0, 0x06, 0xC0, 0x07, 0xC0, 0x07,
    0x80, 0x06, 0, 0x06, 0, 0x06, 0, 0x06, 0, 0x06, 0, 0x06, 0, 0, 0, 0, 0, 0, 0, 0, 0, 0, 0, 0, 0, 0, 0, 0x07, 0x80, 0x0F, 0xE0,
    0x0C, 0, 0x0E, 0, 0x0F, 0xC0, 0x01, 0xE0, 0, 0xE0, 0x0F, 0xC0, 0x07, 0x80, 0, 0, 0, 0, 0, 0, 0, 0, 0, 0, 0x07, 0, 0x07, 0,
    0x0F, 0x80, 0x0F, 0x80, 0x07, 0, 0x07, 0, 0x07, 0, 0x07, 0, 0x07, 0, 0x07, 0x80, 0x03, 0x80, 0, 0, 0, 0, 0, 0, 0, 0, 0, 0, 0,
    0, 0, 0, 0x18, 0xC0, 0x18, 0xC0, 0x18, 0xC0, 0x18, 0xC0, 0x18, 0xC0, 0x18, 0xC0, 0x1D, 0xC0, 0x1F, 0xC0, 0x0E, 0xC0, 0, 0, 0,
    0, 0, 0, 0, 0, 0, 0, 0, 0, 0, 0, 0x39, 0xC0, 0x39, 0xC0, 0x19, 0x80, 0x1D, 0x80, 0x1F, 0x80, 0x0F, 0x80, 0x0F, 0, 0x0F, 0,
    0x07, 0, 0, 0, 0, 0, 0, 0, 0, 0, 0, 0, 0, 0, 0, 0, 0x73, 0x30, 0x33, 0x30, 0x37, 0x70, 0x37, 0xF0, 0x3F, 0xE0, 0x3D, 0xE0,
    0x1C, 0xE0, 0x1C, 0xE0, 0x1C, 0xE0, 0, 0]"

definition Font16_part_11 :: "u8 list" where
  "Font16_part_11 = [
    0, 0, 0, 0, 0, 0, 0, 0, 0, 0, 0, 0, 0x39, 0xC0, 0x1D, 0x80, 0x1F, 0x80, 0x0F, 0, 0x0F, 0, 0x0F, 0, 0x1F, 0x80, 0x1D, 0x80,
    0x39, 0xC0, 0, 0, 0, 0, 0, 0, 0, 0, 0, 0, 0, 0, 0x39, 0xC0, 0x39, 0xC0, 0x19, 0x80, 0x1D, 0x80, 0x0F, 0x80, 0x0F, 0, 0x0F, 0,
    0x07, 0, 0x06, 0, 0x0E, 0, 0x1E, 0, 0, 0, 0, 0, 0, 0, 0, 0, 0, 0, 0, 0, 0x0F, 0xE0, 0x0F, 0xC0, 0x01, 0xC0, 0x03, 0x80, 0x03,
    0x80, 0x07, 0, 0x0E, 0, 0x0F, 0xE0, 0x0F, 0xE0, 0, 0, 0, 0, 0, 0, 0x01, 0x80, 0x03, 0x80, 0x03, 0, 0x03, 0, 0x03, 0, 0x03, 0,
    0x07, 0, 0x0E, 0, 0x0E, 0, 0x07, 0, 0x03, 0, 0x03, 0, 0x03, 0, 0x03, 0x80, 0, 0, 0, 0, 0x03, 0, 0x03, 0, 0x03, 0, 0x03, 0,
    0x03, 0, 0x03, 0, 0x03, 0, 0x03, 0, 0x03, 0, 0x03, 0, 0x03, 0, 0x03, 0, 0x03, 0, 0x03, 0, 0, 0, 0, 0, 0x04, 0, 0x06, 0, 0x06,
    0, 0x07, 0, 0x07, 0, 0x07, 0, 0x03, 0, 0x03, 0x80, 0x03, 0x80, 0x07, 0, 0x07, 0, 0x07, 0, 0x06, 0, 0x06, 0, 0, 0, 0, 0, 0, 0,
    0, 0, 0, 0, 0, 0, 0, 0, 0, 0, 0x0E, 0x20, 0x1F, 0x60, 0x1B, 0xE0, 0x11, 0xC0, 0, 0, 0, 0, 0, 0, 0, 0]"

definition Font16_Table :: "u8 list" where
  "Font16_Table =
    Font16_part_0 @ Font16_part_1 @ Font16_part_2 @ Font16_part_3 @ Font16_part_4 @ Font16_part_5 @ Font16_part_6 @
    Font16_part_7 @ Font16_part_8 @ Font16_part_9 @ Font16_part_10 @ Font16_part_11"

definition Font16 :: sFONT where
  "Font16 = \<lparr>font_table = Font16_Table, Width = 14, Height = 16\<rparr>"

lemma Font16_length: "length Font16_Table = 3040"
  by (simp add: Font16_Table_def Font16_part_0_def Font16_part_1_def Font16_part_2_def Font16_part_3_def Font16_part_4_def Font16_part_5_def Font16_part_6_def Font16_part_7_def Font16_part_8_def Font16_part_9_def Font16_part_10_def Font16_part_11_def length_4 del: list.size(4))

subsection \<open>Font20: 18 by 20 points\<close>

definition Font20_part_0 :: "u8 list" where
  "Font20_part_0 = [
    0, 0, 0, 0, 0, 0, 0, 0, 0, 0, 0, 0, 0, 0, 0, 0, 0, 0, 0, 0, 0, 0, 0, 0, 0, 0, 0, 0, 0, 0, 0, 0, 0, 0, 0, 0, 0, 0, 0, 0, 0, 0,
    0, 0, 0, 0, 0, 0, 0, 0, 0, 0, 0, 0, 0, 0, 0, 0, 0, 0, 0, 0, 0, 0, 0, 0, 0, 0, 0, 0, 0, 0, 0, 0, 0, 0x01, 0xE0, 0, 0x01, 0xE0,
    0, 0x01, 0xC0, 0, 0x01, 0xC0, 0, 0x01, 0xC0, 0, 0x01, 0xC0, 0, 0x01, 0xC0, 0, 0x01, 0xC0, 0, 0, 0xC0, 0, 0, 0, 0, 0, 0, 0,
    0x01, 0xC0, 0, 0x01, 0xE0, 0, 0, 0xC0, 0, 0, 0, 0, 0, 0, 0, 0, 0, 0, 0, 0, 0, 0, 0, 0, 0x03, 0x30, 0, 0x03, 0x30, 0, 0x03,
    0x30, 0, 0x03, 0x30, 0, 0x03, 0x30, 0, 0x03, 0x30, 0, 0, 0, 0, 0, 0, 0, 0, 0, 0, 0, 0, 0, 0, 0, 0, 0, 0, 0, 0, 0, 0, 0, 0, 0,
    0, 0, 0, 0, 0, 0, 0, 0, 0, 0, 0, 0, 0, 0, 0, 0, 0, 0, 0, 0, 0, 0x01, 0x98, 0, 0x01, 0xB0, 0, 0x01, 0xB0, 0, 0x01, 0x30, 0,
    0x0F, 0xFC, 0, 0x0F, 0xFC, 0, 0x03, 0x20, 0, 0x03, 0x60, 0, 0x1F, 0xF8, 0, 0x1F, 0xF8, 0, 0x06, 0x60, 0, 0x06, 0x60, 0, 0x06,
    0x40, 0, 0x06, 0xC0, 0, 0, 0, 0, 0, 0, 0, 0, 0, 0, 0, 0xC0, 0, 0, 0xC0, 0, 0x01, 0xE0, 0, 0x07, 0xF8, 0, 0x07, 0xF8, 0, 0x0F,
    0x3C, 0, 0x0F, 0, 0, 0x07, 0x80, 0, 0x07, 0xE0, 0, 0x01, 0xF8, 0, 0, 0x78, 0, 0x0E, 0x3C, 0, 0x0E, 0x3C, 0, 0x0F, 0xF8, 0,
    0x07, 0xF8, 0, 0x03, 0xF0, 0, 0, 0xC0, 0, 0, 0xC0, 0, 0, 0, 0, 0, 0, 0, 0, 0, 0, 0, 0, 0, 0, 0, 0, 0x1E, 0, 0, 0x3F, 0x10, 0,
    0x33, 0x30, 0, 0x33, 0x30, 0, 0x33, 0x60, 0, 0x3F, 0xC0, 0, 0x1E, 0xC0, 0, 0x01, 0xBC, 0, 0x03, 0xFE, 0, 0x03, 0x66, 0, 0x06,
    0x66, 0, 0x06, 0x66, 0, 0x04, 0x7E, 0, 0, 0x3C, 0, 0, 0, 0]"

definition Font20_part_1 :: "u8 list" where
  "Font20_part_1 = [
    0, 0, 0, 0, 0, 0, 0, 0, 0, 0, 0, 0, 0, 0, 0, 0x03, 0xC0, 0, 0x07, 0xE0, 0, 0x0F, 0xE0, 0, 0x0E, 0x60, 0, 0x0E, 0xE0, 0, 0x0F,
    0xE0, 0, 0x07, 0x80, 0, 0x0F, 0x9C, 0, 0x1F, 0xDC, 0, 0x1C, 0xFC, 0, 0x1C, 0xFC, 0, 0x1F, 0xF8, 0, 0x1F, 0xFC, 0, 0x07, 0xDE,
    0, 0, 0, 0, 0, 0, 0, 0, 0, 0, 0, 0, 0, 0, 0, 0, 0x01, 0xC0, 0, 0x01, 0xC0, 0, 0x01, 0xC0, 0, 0x01, 0xC0, 0, 0x01, 0xC0, 0,
    0x01, 0x80, 0, 0, 0, 0, 0, 0, 0, 0, 0, 0, 0, 0, 0, 0, 0, 0, 0, 0, 0, 0, 0, 0, 0, 0, 0, 0, 0, 0, 0, 0, 0, 0, 0, 0, 0, 0x20, 0,
    0, 0x70, 0, 0, 0xE0, 0, 0, 0xC0, 0, 0x01, 0xC0, 0, 0x01, 0x80, 0, 0x01, 0x80, 0, 0x03, 0x80, 0, 0x03, 0x80, 0, 0x03, 0x80, 0,
    0x03, 0x80, 0, 0x03, 0x80, 0, 0x03, 0x80, 0, 0x01, 0x80, 0, 0x01, 0x80, 0, 0x01, 0xC0, 0, 0, 0xC0, 0, 0, 0xE0, 0, 0, 0x70, 0,
    0, 0, 0, 0x02, 0, 0, 0x03, 0, 0, 0x03, 0x80, 0, 0x01, 0xC0, 0, 0x01, 0xC0, 0, 0, 0xC0, 0, 0, 0xE0, 0, 0, 0xE0, 0, 0, 0xE0, 0,
    0, 0xE0, 0, 0, 0xE0, 0, 0, 0xE0, 0, 0, 0xE0, 0, 0, 0xE0, 0, 0, 0xC0, 0, 0x01, 0xC0, 0, 0x01, 0xC0, 0, 0x03, 0x80, 0, 0x03, 0,
    0, 0, 0, 0, 0, 0, 0, 0, 0, 0, 0, 0, 0, 0, 0, 0, 0, 0xC0, 0, 0, 0xC0, 0, 0x04, 0xD8, 0, 0x07, 0xF8, 0, 0x01, 0xC0, 0, 0x01,
    0xE0, 0, 0x03, 0x70, 0, 0x02, 0x30, 0, 0, 0, 0, 0, 0, 0, 0, 0, 0, 0, 0, 0, 0, 0, 0, 0, 0, 0, 0, 0, 0, 0, 0, 0, 0, 0, 0, 0, 0,
    0, 0, 0, 0, 0, 0, 0, 0, 0, 0, 0, 0, 0, 0x01, 0xC0, 0, 0x01, 0xC0, 0, 0x01, 0xC0, 0, 0x01, 0xC0, 0, 0x1F, 0xF8, 0, 0x1F, 0xF8,
    0, 0x0F, 0xF8, 0, 0x01, 0xC0, 0, 0x01, 0xC0, 0, 0x01, 0xC0, 0, 0x01, 0xC0, 0, 0, 0, 0, 0, 0, 0]"

definition Font20_part_2 :: "u8 list" where
  "Font20_part_2 = [
    0, 0, 0, 0, 0, 0, 0, 0, 0, 0, 0, 0, 0, 0, 0, 0, 0, 0, 0, 0, 0, 0, 0, 0, 0, 0, 0, 0, 0, 0, 0, 0, 0, 0, 0, 0, 0, 0, 0, 0, 0, 0,
    0, 0, 0, 0x01, 0xC0, 0, 0x01, 0xC0, 0, 0x01, 0xC0, 0, 0x01, 0xC0, 0, 0x01, 0x80, 0, 0, 0, 0, 0, 0, 0, 0, 0, 0, 0, 0, 0, 0, 0,
    0, 0, 0, 0, 0, 0, 0, 0, 0, 0, 0, 0, 0, 0, 0, 0, 0, 0, 0, 0, 0, 0, 0x07, 0xE0, 0, 0x07, 0xE0, 0, 0x03, 0xE0, 0, 0, 0, 0, 0, 0,
    0, 0, 0, 0, 0, 0, 0, 0, 0, 0, 0, 0, 0, 0, 0, 0, 0, 0, 0, 0, 0, 0, 0, 0, 0, 0, 0, 0, 0, 0, 0, 0, 0, 0, 0, 0, 0, 0, 0, 0, 0, 0,
    0, 0, 0, 0, 0, 0, 0, 0, 0, 0, 0, 0, 0, 0, 0, 0, 0x01, 0xC0, 0, 0x01, 0xE0, 0, 0, 0xC0, 0, 0, 0, 0, 0, 0, 0, 0, 0, 0, 0, 0, 0,
    0, 0, 0, 0, 0, 0, 0, 0x70, 0, 0, 0x60, 0, 0, 0x60, 0, 0, 0xE0, 0, 0, 0xC0, 0, 0, 0xC0, 0, 0x01, 0xC0, 0, 0x01, 0x80, 0, 0x01,
    0x80, 0, 0x01, 0x80, 0, 0x03, 0x80, 0, 0x03, 0, 0, 0x03, 0, 0, 0x07, 0, 0, 0x06, 0, 0, 0, 0, 0, 0, 0, 0, 0, 0, 0, 0, 0, 0, 0,
    0, 0, 0x03, 0xE0, 0, 0x07, 0xF0, 0, 0x07, 0xF8, 0, 0x0E, 0x38, 0, 0x0E, 0x3C, 0, 0x0E, 0x3C, 0, 0x0E, 0x3C, 0, 0x0E, 0x3C, 0,
    0x0E, 0x3C, 0, 0x0E, 0x3C, 0, 0x0E, 0x38, 0, 0x07, 0xF8, 0, 0x07, 0xF0, 0, 0x03, 0xE0, 0, 0, 0, 0, 0, 0, 0, 0, 0, 0, 0, 0, 0,
    0, 0, 0, 0, 0, 0, 0, 0x60, 0, 0x03, 0xE0, 0, 0x07, 0xE0, 0, 0x07, 0xE0, 0, 0, 0xE0, 0, 0, 0xE0, 0, 0, 0xE0, 0, 0, 0xE0, 0, 0,
    0xE0, 0, 0, 0xE0, 0, 0, 0xE0, 0, 0, 0xE0, 0, 0, 0xE0, 0, 0, 0xE0, 0, 0, 0, 0]"

definition Font20_part_3 :: "u8 list" where
  "Font20_part_3 = [
    0, 0, 0, 0, 0, 0, 0, 0, 0, 0, 0, 0, 0, 0, 0, 0x03, 0xE0, 0, 0x07, 0xF8, 0, 0x0F, 0xF8, 0, 0x0E, 0x38, 0, 0x0E, 0x38, 0, 0,
    0x38, 0, 0, 0x78, 0, 0, 0xF0, 0, 0x01, 0xE0, 0, 0x03, 0xC0, 0, 0x07, 0x80, 0, 0x0F, 0xF8, 0, 0x0F, 0xFC, 0, 0x0F, 0xFC, 0, 0,
    0, 0, 0, 0, 0, 0, 0, 0, 0, 0, 0, 0, 0, 0, 0, 0, 0, 0x03, 0xE0, 0, 0x07, 0xF8, 0, 0x0F, 0xF8, 0, 0, 0x3C, 0, 0, 0x38, 0, 0x01,
    0xF0, 0, 0x01, 0xF0, 0, 0, 0x78, 0, 0, 0x3C, 0, 0, 0x3C, 0, 0x0E, 0x3C, 0, 0x0F, 0xF8, 0, 0x07, 0xF8, 0, 0x03, 0xE0, 0, 0, 0,
    0, 0, 0, 0, 0, 0, 0, 0, 0, 0, 0, 0, 0, 0, 0, 0, 0, 0x78, 0, 0, 0xF8, 0, 0, 0xF8, 0, 0x01, 0xF8, 0, 0x01, 0xF8, 0, 0x03, 0xF8,
    0, 0x07, 0x78, 0, 0x07, 0x78, 0, 0x0E, 0x78, 0, 0x0F, 0xFC, 0, 0x0F, 0xFC, 0, 0x0F, 0xFC, 0, 0, 0x78, 0, 0, 0x78, 0, 0, 0, 0,
    0, 0, 0, 0, 0, 0, 0, 0, 0, 0, 0, 0, 0, 0, 0, 0x07, 0xF8, 0, 0x07, 0xF8, 0, 0x07, 0xF8, 0, 0x07, 0, 0, 0x0E, 0, 0, 0x0F, 0xF0,
    0, 0x0F, 0xF8, 0, 0x06, 0x78, 0, 0, 0x3C, 0, 0, 0x3C, 0, 0x0E, 0x3C, 0, 0x0F, 0xF8, 0, 0x07, 0xF8, 0, 0x03, 0xE0, 0, 0, 0, 0,
    0, 0, 0, 0, 0, 0, 0, 0, 0, 0, 0, 0, 0, 0, 0, 0, 0x70, 0, 0x01, 0xF0, 0, 0x03, 0xF0, 0, 0x07, 0x80, 0, 0x0F, 0, 0, 0x0F, 0xF0,
    0, 0x0F, 0xF8, 0, 0x0F, 0xFC, 0, 0x0E, 0x3C, 0, 0x0E, 0x1C, 0, 0x0E, 0x3C, 0, 0x07, 0xF8, 0, 0x07, 0xF8, 0, 0x01, 0xE0, 0, 0,
    0, 0, 0, 0, 0, 0, 0, 0, 0, 0, 0, 0, 0, 0, 0, 0, 0, 0x0F, 0xFC, 0, 0x0F, 0xFC, 0, 0x0F, 0xF8, 0, 0, 0x38, 0, 0, 0x78, 0, 0,
    0x70, 0, 0, 0xF0, 0, 0, 0xE0, 0, 0, 0xE0, 0, 0x01, 0xC0, 0, 0x01, 0xC0, 0, 0x03, 0xC0, 0, 0x03, 0x80, 0, 0x07, 0x80, 0, 0, 0,
    0]"

definition Font20_part_4 :: "u8 list" where
  "Font20_part_4 = [
    0, 0, 0, 0, 0, 0, 0, 0, 0, 0, 0, 0, 0, 0, 0, 0x03, 0xE0, 0, 0x07, 0xF8, 0, 0x0F, 0xF8, 0, 0x0E, 0x38, 0, 0x0F, 0x38, 0, 0x07,
    0xF8, 0, 0x03, 0xF0, 0, 0x07, 0xF8, 0, 0x0E, 0x3C, 0, 0x0E, 0x3C, 0, 0x0E, 0x3C, 0, 0x0F, 0xF8, 0, 0x07, 0xF8, 0, 0x03, 0xE0,
    0, 0, 0, 0, 0, 0, 0, 0, 0, 0, 0, 0, 0, 0, 0, 0, 0, 0, 0, 0x01, 0xE0, 0, 0x07, 0xF0, 0, 0x0F, 0xF8, 0, 0x0E, 0x38, 0, 0x0E,
    0x3C, 0, 0x0E, 0x3C, 0, 0x0F, 0x7C, 0, 0x07, 0xFC, 0, 0x03, 0xF8, 0, 0, 0x38, 0, 0, 0x78, 0, 0x03, 0xF0, 0, 0x03, 0xE0, 0,
    0x03, 0x80, 0, 0, 0, 0, 0, 0, 0, 0, 0, 0, 0, 0, 0, 0, 0, 0, 0, 0, 0, 0, 0, 0, 0, 0, 0, 0, 0, 0, 0x01, 0xC0, 0, 0x01, 0xE0, 0,
    0, 0xC0, 0, 0, 0, 0, 0, 0, 0, 0, 0, 0, 0, 0, 0, 0, 0, 0, 0, 0xC0, 0, 0x01, 0xE0, 0, 0x01, 0xC0, 0, 0, 0, 0, 0, 0, 0, 0, 0, 0,
    0, 0, 0, 0, 0, 0, 0, 0, 0, 0, 0, 0, 0x01, 0xC0, 0, 0x01, 0xE0, 0, 0, 0xC0, 0, 0, 0, 0, 0, 0, 0, 0, 0, 0, 0, 0, 0, 0, 0, 0, 0,
    0, 0, 0, 0xC0, 0, 0, 0xC0, 0, 0, 0xC0, 0, 0x01, 0xC0, 0, 0x01, 0x80, 0, 0, 0, 0, 0, 0, 0, 0, 0, 0, 0, 0, 0, 0, 0, 0, 0, 0, 0,
    0, 0, 0, 0, 0, 0, 0, 0x08, 0, 0, 0x38, 0, 0x01, 0xF8, 0, 0x07, 0xF0, 0, 0x0F, 0x80, 0, 0x0F, 0x80, 0, 0x07, 0xF0, 0, 0x01,
    0xF8, 0, 0, 0x38, 0, 0, 0x08, 0, 0, 0, 0, 0, 0, 0, 0, 0, 0, 0, 0, 0, 0, 0, 0, 0, 0, 0, 0, 0, 0, 0, 0, 0, 0, 0, 0, 0, 0, 0, 0,
    0, 0, 0, 0, 0, 0x0F, 0xF8, 0, 0x0F, 0xF8, 0, 0x07, 0xF8, 0, 0, 0, 0, 0x0F, 0xF8, 0, 0x0F, 0xF8, 0, 0x07, 0xF8, 0, 0, 0, 0, 0,
    0, 0, 0, 0, 0]"

definition Font20_part_5 :: "u8 list" where
  "Font20_part_5 = [
    0, 0, 0, 0, 0, 0, 0, 0, 0, 0, 0, 0, 0, 0, 0, 0, 0, 0, 0, 0, 0, 0, 0, 0, 0x04, 0, 0, 0x07, 0x80, 0, 0x07, 0xE0, 0, 0x03, 0xF8,
    0, 0, 0x7C, 0, 0, 0x7C, 0, 0x03, 0xF8, 0, 0x07, 0xE0, 0, 0x07, 0x80, 0, 0x04, 0, 0, 0, 0, 0, 0, 0, 0, 0, 0, 0, 0, 0, 0, 0, 0,
    0, 0, 0, 0, 0, 0, 0, 0x01, 0xE0, 0, 0x07, 0xF8, 0, 0x07, 0xF8, 0, 0x07, 0x38, 0, 0, 0x38, 0, 0, 0x78, 0, 0, 0xF0, 0, 0, 0xE0,
    0, 0x01, 0xC0, 0, 0, 0, 0, 0, 0, 0, 0x01, 0xC0, 0, 0x01, 0xE0, 0, 0, 0xC0, 0, 0, 0, 0, 0, 0, 0, 0, 0, 0, 0, 0, 0, 0x03, 0xF0,
    0, 0x07, 0xFC, 0, 0x1C, 0x06, 0, 0x18, 0x03, 0, 0x30, 0xF3, 0x80, 0x31, 0xF9, 0x80, 0x63, 0x39, 0x80, 0x67, 0x39, 0x80, 0x67,
    0x31, 0x80, 0x66, 0x31, 0x80, 0x66, 0x31, 0x80, 0x67, 0x33, 0, 0x67, 0xFF, 0, 0x73, 0x9E, 0, 0x30, 0, 0, 0x3C, 0, 0, 0x0F,
    0xF0, 0, 0, 0, 0, 0, 0, 0, 0, 0, 0, 0, 0, 0, 0, 0, 0, 0x03, 0xC0, 0, 0x03, 0xC0, 0, 0x07, 0xC0, 0, 0x07, 0xE0, 0, 0x07, 0xE0,
    0, 0x0E, 0xE0, 0, 0x0E, 0x70, 0, 0x1E, 0x70, 0, 0x1C, 0x78, 0, 0x1F, 0xF8, 0, 0x3F, 0xF8, 0, 0x3F, 0xFC, 0, 0x38, 0x3C, 0,
    0x78, 0x1C, 0, 0, 0, 0, 0, 0, 0, 0, 0, 0, 0, 0, 0, 0, 0, 0, 0, 0, 0, 0x1F, 0xE0, 0, 0x1F, 0xF8, 0, 0x1F, 0xFC, 0, 0x1C, 0x3C,
    0, 0x1C, 0x3C, 0, 0x1F, 0xF8, 0, 0x1F, 0xF0, 0, 0x1F, 0xF8, 0, 0x1C, 0x3C, 0, 0x1C, 0x1C, 0, 0x1C, 0x3C, 0, 0x1F, 0xFC, 0,
    0x1F, 0xF8, 0, 0x1F, 0xF0, 0, 0, 0, 0, 0, 0, 0, 0, 0, 0, 0, 0, 0, 0, 0, 0, 0, 0, 0, 0x03, 0xE0, 0, 0x07, 0xF8, 0, 0x0F, 0xFC,
    0, 0x1E, 0x1C, 0, 0x1C, 0x1C, 0, 0x1C, 0, 0, 0x1C, 0, 0, 0x1C, 0, 0, 0x1C, 0, 0, 0x1C, 0x1C, 0, 0x1E, 0x1C, 0, 0x0F, 0xFC, 0,
    0x07, 0xF8, 0, 0x03, 0xE0, 0, 0, 0, 0]"

definition Font20_part_6 :: "u8 list" where
  "Font20_part_6 = [
    0, 0, 0, 0, 0, 0, 0, 0, 0, 0, 0, 0, 0, 0, 0, 0x1F, 0xC0, 0, 0x1F, 0xF0, 0, 0x1F, 0xF8, 0, 0x1C, 0x38, 0, 0x1C, 0x3C, 0, 0x1C,
    0x1C, 0, 0x1C, 0x1C, 0, 0x1C, 0x1C, 0, 0x1C, 0x1C, 0, 0x1C, 0x3C, 0, 0x1C, 0x3C, 0, 0x1F, 0xF8, 0, 0x1F, 0xF0, 0, 0x1F, 0xC0,
    0, 0, 0, 0, 0, 0, 0, 0, 0, 0, 0, 0, 0, 0, 0, 0, 0, 0, 0, 0x0F, 0xFC, 0, 0x0F, 0xFC, 0, 0x0F, 0xFC, 0, 0x0E, 0, 0, 0x0E, 0, 0,
    0x0F, 0xF8, 0, 0x0F, 0xF8, 0, 0x0F, 0xF0, 0, 0x0E, 0, 0, 0x0E, 0, 0, 0x0E, 0, 0, 0x0F, 0xFC, 0, 0x0F, 0xFC, 0, 0x0F, 0xFC, 0,
    0, 0, 0, 0, 0, 0, 0, 0, 0, 0, 0, 0, 0, 0, 0, 0, 0, 0, 0x0F, 0xFC, 0, 0x0F, 0xFC, 0, 0x0F, 0xF8, 0, 0x0E, 0, 0, 0x0E, 0, 0,
    0x0E, 0, 0, 0x0F, 0xF8, 0, 0x0F, 0xF8, 0, 0x0F, 0xF8, 0, 0x0E, 0, 0, 0x0E, 0, 0, 0x0E, 0, 0, 0x0E, 0, 0, 0x0E, 0, 0, 0, 0, 0,
    0, 0, 0, 0, 0, 0, 0, 0, 0, 0, 0, 0, 0, 0, 0, 0x03, 0xF0, 0, 0x07, 0xF8, 0, 0x0F, 0xFC, 0, 0x1E, 0x1C, 0, 0x1E, 0x0C, 0, 0x1C,
    0, 0, 0x1C, 0x7E, 0, 0x1C, 0x7E, 0, 0x1C, 0x1E, 0, 0x1E, 0x1E, 0, 0x1E, 0x1E, 0, 0x0F, 0xFE, 0, 0x07, 0xFC, 0, 0x03, 0xF0, 0,
    0, 0, 0, 0, 0, 0, 0, 0, 0, 0, 0, 0, 0, 0, 0, 0, 0, 0, 0x1C, 0x0E, 0, 0x1C, 0x0E, 0, 0x1C, 0x0E, 0, 0x1C, 0x0E, 0, 0x1C, 0x0E,
    0, 0x1F, 0xFE, 0, 0x1F, 0xFE, 0, 0x1F, 0xFE, 0, 0x1C, 0x0E, 0, 0x1C, 0x0E, 0, 0x1C, 0x0E, 0, 0x1C, 0x0E, 0, 0x1C, 0x0E, 0,
    0x1C, 0x0E, 0, 0, 0, 0, 0, 0, 0, 0, 0, 0, 0, 0, 0, 0, 0, 0, 0, 0, 0, 0x01, 0xE0, 0, 0x01, 0xE0, 0, 0x01, 0xE0, 0, 0x01, 0xE0,
    0, 0x01, 0xE0, 0, 0x01, 0xE0, 0, 0x01, 0xE0, 0, 0x01, 0xE0, 0, 0x01, 0xE0, 0, 0x01, 0xE0, 0, 0x01, 0xE0, 0, 0x01, 0xE0, 0,
    0x01, 0xE0, 0, 0x01, 0xE0, 0, 0, 0, 0]"

definition Font20_part_7 :: "u8 list" where
  "Font20_part_7 = [
    0, 0, 0, 0, 0, 0, 0, 0, 0, 0, 0, 0, 0, 0, 0, 0, 0x38, 0, 0, 0x38, 0, 0, 0x38, 0, 0, 0x38, 0, 0, 0x38, 0, 0, 0x38, 0, 0, 0x38,
    0, 0, 0x38, 0, 0, 0x38, 0, 0, 0x38, 0, 0x1E, 0x78, 0, 0x0F, 0xF8, 0, 0x0F, 0xF0, 0, 0x03, 0xE0, 0, 0, 0, 0, 0, 0, 0, 0, 0, 0,
    0, 0, 0, 0, 0, 0, 0, 0, 0, 0x1C, 0x3E, 0, 0x1C, 0x3C, 0, 0x1C, 0x78, 0, 0x1C, 0xF0, 0, 0x1C, 0xE0, 0, 0x1F, 0xE0, 0, 0x1F,
    0xC0, 0, 0x1F, 0xE0, 0, 0x1F, 0xF0, 0, 0x1E, 0xF0, 0, 0x1E, 0x78, 0, 0x1C, 0x78, 0, 0x1C, 0x3C, 0, 0x1C, 0x1E, 0, 0, 0, 0, 0,
    0, 0, 0, 0, 0, 0, 0, 0, 0, 0, 0, 0, 0, 0, 0x0E, 0, 0, 0x0E, 0, 0, 0x0E, 0, 0, 0x0E, 0, 0, 0x0E, 0, 0, 0x0E, 0, 0, 0x0E, 0, 0,
    0x0E, 0, 0, 0x0E, 0, 0, 0x0E, 0, 0, 0x0E, 0, 0, 0x0F, 0xF8, 0, 0x0F, 0xF8, 0, 0x0F, 0xF8, 0, 0, 0, 0, 0, 0, 0, 0, 0, 0, 0, 0,
    0, 0, 0, 0, 0, 0, 0, 0x7C, 0x0F, 0, 0x7C, 0x1F, 0, 0x7C, 0x1F, 0, 0x7E, 0x1F, 0, 0x7E, 0x3F, 0, 0x7E, 0x3F, 0, 0x77, 0x37, 0,
    0x77, 0x77, 0, 0x73, 0x77, 0, 0x73, 0xE7, 0, 0x73, 0xE7, 0, 0x71, 0xE7, 0, 0x71, 0xC7, 0, 0x71, 0xC7, 0, 0, 0, 0, 0, 0, 0, 0,
    0, 0, 0, 0, 0, 0, 0, 0, 0, 0, 0, 0x1E, 0x0E, 0, 0x1E, 0x0E, 0, 0x1F, 0x0E, 0, 0x1F, 0x8E, 0, 0x1F, 0x8E, 0, 0x1F, 0xCE, 0,
    0x1F, 0xCE, 0, 0x1C, 0xEE, 0, 0x1C, 0xFE, 0, 0x1C, 0x7E, 0, 0x1C, 0x3E, 0, 0x1C, 0x3E, 0, 0x1C, 0x1E, 0, 0x1C, 0x1E, 0, 0, 0,
    0, 0, 0, 0, 0, 0, 0, 0, 0, 0, 0, 0, 0, 0, 0, 0, 0x03, 0xE0, 0, 0x07, 0xF8, 0, 0x0F, 0xFC, 0, 0x1E, 0x1C, 0, 0x1E, 0x1E, 0,
    0x1C, 0x0E, 0, 0x1C, 0x0E, 0, 0x1C, 0x0E, 0, 0x1C, 0x0E, 0, 0x1E, 0x1E, 0, 0x1E, 0x1C, 0, 0x0F, 0xFC, 0, 0x07, 0xF8, 0, 0x03,
    0xE0, 0, 0, 0, 0]"

definition Font20_part_8 :: "u8 list" where
  "Font20_part_8 = [
    0, 0, 0, 0, 0, 0, 0, 0, 0, 0, 0, 0, 0, 0, 0, 0x1F, 0xE0, 0, 0x1F, 0xF8, 0, 0x1F, 0xFC, 0, 0x1C, 0x3C, 0, 0x1C, 0x1C, 0, 0x1C,
    0x1C, 0, 0x1C, 0x3C, 0, 0x1F, 0xF8, 0, 0x1F, 0xF8, 0, 0x1F, 0xC0, 0, 0x1C, 0, 0, 0x1C, 0, 0, 0x1C, 0, 0, 0x1C, 0, 0, 0, 0, 0,
    0, 0, 0, 0, 0, 0, 0, 0, 0, 0, 0, 0, 0x03, 0xE0, 0, 0x07, 0xF8, 0, 0x0F, 0xFC, 0, 0x1E, 0x1C, 0, 0x1E, 0x1E, 0, 0x1C, 0x0E, 0,
    0x1C, 0x0E, 0, 0x1C, 0x0E, 0, 0x1C, 0x0E, 0, 0x1E, 0x1E, 0, 0x1E, 0x1C, 0, 0x0F, 0xFC, 0, 0x07, 0xF8, 0, 0x03, 0xFC, 0, 0,
    0x3E, 0, 0, 0x0C, 0, 0, 0, 0, 0, 0, 0, 0, 0, 0, 0, 0, 0, 0, 0, 0, 0x1F, 0xF0, 0, 0x1F, 0xF8, 0, 0x1F, 0xFC, 0, 0x1C, 0x3C, 0,
    0x1C, 0x1C, 0, 0x1C, 0x3C, 0, 0x1F, 0xF8, 0, 0x1F, 0xF0, 0, 0x1F, 0xF0, 0, 0x1C, 0x70, 0, 0x1C, 0x78, 0, 0x1C, 0x38, 0, 0x1C,
    0x3C, 0, 0x1C, 0x1C, 0, 0, 0, 0, 0, 0, 0, 0, 0, 0, 0, 0, 0, 0, 0, 0, 0, 0, 0, 0x03, 0xE0, 0, 0x0F, 0xF8, 0, 0x1F, 0xF8, 0,
    0x1E, 0x3C, 0, 0x1E, 0, 0, 0x0F, 0x80, 0, 0x0F, 0xE0, 0, 0x03, 0xF8, 0, 0, 0x78, 0, 0x1C, 0x3C, 0, 0x1C, 0x3C, 0, 0x1F, 0xFC,
    0, 0x0F, 0xF8, 0, 0x03, 0xE0, 0, 0, 0, 0, 0, 0, 0, 0, 0, 0, 0, 0, 0, 0, 0, 0, 0, 0, 0, 0x3F, 0xFC, 0, 0x3F, 0xFC, 0, 0x1F,
    0xFC, 0, 0x01, 0xC0, 0, 0x01, 0xC0, 0, 0x01, 0xC0, 0, 0x01, 0xC0, 0, 0x01, 0xC0, 0, 0x01, 0xC0, 0, 0x01, 0xC0, 0, 0x01, 0xC0,
    0, 0x01, 0xC0, 0, 0x01, 0xC0, 0, 0x01, 0xC0, 0, 0, 0, 0, 0, 0, 0, 0, 0, 0, 0, 0, 0, 0, 0, 0, 0, 0, 0, 0x1C, 0x1C, 0, 0x1C,
    0x1C, 0, 0x1C, 0x1C, 0, 0x1C, 0x1C, 0, 0x1C, 0x1C, 0, 0x1C, 0x1C, 0, 0x1C, 0x1C, 0, 0x1C, 0x1C, 0, 0x1C, 0x1C, 0, 0x1E, 0x1C,
    0, 0x1E, 0x3C, 0, 0x0F, 0xFC, 0, 0x0F, 0xF8, 0, 0x03, 0xE0, 0, 0, 0, 0]"

definition Font20_part_9 :: "u8 list" where
  "Font20_part_9 = [
    0, 0, 0, 0, 0, 0, 0, 0, 0, 0, 0, 0, 0, 0, 0, 0x78, 0x3C, 0, 0x78, 0x3C, 0, 0x38, 0x38, 0, 0x3C, 0x78, 0, 0x3C, 0x78, 0, 0x1C,
    0x70, 0, 0x1E, 0x70, 0, 0x0E, 0xF0, 0, 0x0E, 0xE0, 0, 0x0F, 0xE0, 0, 0x07, 0xE0, 0, 0x07, 0xC0, 0, 0x07, 0xC0, 0, 0x03, 0xC0,
    0, 0, 0, 0, 0, 0, 0, 0, 0, 0, 0, 0, 0, 0, 0, 0, 0, 0, 0, 0xF1, 0xC3, 0x80, 0x71, 0xC7, 0x80, 0x71, 0xE7, 0x80, 0x73, 0xE7, 0,
    0x73, 0xE7, 0, 0x7B, 0xE7, 0, 0x3B, 0xF7, 0, 0x3B, 0x7F, 0, 0x3F, 0x7E, 0, 0x3F, 0x7E, 0, 0x3F, 0x3E, 0, 0x1E, 0x3E, 0, 0x1E,
    0x3C, 0, 0x1E, 0x3C, 0, 0, 0, 0, 0, 0, 0, 0, 0, 0, 0, 0, 0, 0, 0, 0, 0, 0, 0, 0x3C, 0x3C, 0, 0x1E, 0x3C, 0, 0x0E, 0x78, 0,
    0x0F, 0x78, 0, 0x07, 0xF0, 0, 0x07, 0xE0, 0, 0x03, 0xE0, 0, 0x03, 0xE0, 0, 0x07, 0xF0, 0, 0x07, 0xF0, 0, 0x0F, 0x78, 0, 0x1E,
    0x38, 0, 0x1E, 0x3C, 0, 0x3C, 0x1C, 0, 0, 0, 0, 0, 0, 0, 0, 0, 0, 0, 0, 0, 0, 0, 0, 0, 0, 0, 0x3C, 0x1C, 0, 0x1C, 0x3C, 0,
    0x1E, 0x38, 0, 0x0E, 0x78, 0, 0x0F, 0x70, 0, 0x07, 0xF0, 0, 0x07, 0xE0, 0, 0x03, 0xE0, 0, 0x03, 0xC0, 0, 0x01, 0xC0, 0, 0x01,
    0xC0, 0, 0x01, 0xC0, 0, 0x01, 0xC0, 0, 0x01, 0xC0, 0, 0, 0, 0, 0, 0, 0, 0, 0, 0, 0, 0, 0, 0, 0, 0, 0, 0, 0, 0x0F, 0xFE, 0,
    0x0F, 0xFE, 0, 0x0F, 0xFC, 0, 0, 0x38, 0, 0, 0x78, 0, 0, 0xF0, 0, 0, 0xE0, 0, 0x01, 0xE0, 0, 0x03, 0xC0, 0, 0x03, 0x80, 0,
    0x07, 0x80, 0, 0x0F, 0xFC, 0, 0x0F, 0xFE, 0, 0x0F, 0xFE, 0, 0, 0, 0, 0, 0, 0, 0x01, 0xF0, 0, 0x01, 0xF0, 0, 0x01, 0xE0, 0,
    0x01, 0xC0, 0, 0x01, 0xC0, 0, 0x01, 0xC0, 0, 0x01, 0xC0, 0, 0x01, 0xC0, 0, 0x01, 0xC0, 0, 0x01, 0xC0, 0, 0x01, 0xC0, 0, 0x01,
    0xC0, 0, 0x01, 0xC0, 0, 0x01, 0xC0, 0, 0x01, 0xC0, 0, 0x01, 0xC0, 0, 0x01, 0xC0, 0, 0x01, 0xE0, 0, 0x01, 0xF0, 0]"

definition Font20_part_10 :: "u8 list" where
  "Font20_part_10 = [
    0, 0, 0, 0, 0, 0, 0, 0, 0, 0, 0, 0, 0, 0, 0, 0x1C, 0, 0, 0x1E, 0, 0, 0x0E, 0, 0, 0x0F, 0, 0, 0x07, 0, 0, 0x07, 0, 0, 0x07,
    0x80, 0, 0x03, 0x80, 0, 0x03, 0xC0, 0, 0x01, 0xC0, 0, 0x01, 0xC0, 0, 0x01, 0xE0, 0, 0, 0xE0, 0, 0, 0xF0, 0, 0, 0x70, 0, 0, 0,
    0, 0x03, 0xE0, 0, 0x03, 0xE0, 0, 0x01, 0xE0, 0, 0x01, 0xE0, 0, 0x01, 0xE0, 0, 0x01, 0xE0, 0, 0x01, 0xE0, 0, 0x01, 0xE0, 0,
    0x01, 0xE0, 0, 0x01, 0xE0, 0, 0x01, 0xE0, 0, 0x01, 0xE0, 0, 0x01, 0xE0, 0, 0x01, 0xE0, 0, 0x01, 0xE0, 0, 0x01, 0xE0, 0, 0x01,
    0xE0, 0, 0x01, 0xE0, 0, 0x03, 0xE0, 0, 0, 0, 0, 0, 0, 0, 0, 0, 0, 0, 0, 0, 0, 0, 0, 0x01, 0xC0, 0, 0x01, 0xC0, 0, 0x03, 0xE0,
    0, 0x03, 0x60, 0, 0x07, 0x70, 0, 0x06, 0x30, 0, 0x06, 0x30, 0, 0, 0, 0, 0, 0, 0, 0, 0, 0, 0, 0, 0, 0, 0, 0, 0, 0, 0, 0, 0, 0,
    0, 0, 0, 0, 0, 0, 0, 0, 0, 0, 0, 0, 0, 0, 0, 0, 0, 0, 0, 0, 0, 0, 0, 0, 0, 0, 0, 0, 0, 0, 0, 0, 0, 0, 0, 0, 0, 0, 0, 0, 0, 0,
    0, 0, 0, 0, 0, 0, 0, 0, 0, 0, 0, 0, 0, 0, 0, 0x0F, 0xF8, 0, 0x0F, 0xF8, 0, 0, 0, 0, 0, 0, 0, 0, 0, 0, 0, 0, 0, 0x03, 0x80, 0,
    0x01, 0xC0, 0, 0, 0xC0, 0, 0, 0, 0, 0, 0, 0, 0, 0, 0, 0, 0, 0, 0, 0, 0, 0, 0, 0, 0, 0, 0, 0, 0, 0, 0, 0, 0, 0, 0, 0, 0, 0, 0,
    0, 0, 0, 0, 0, 0, 0, 0, 0, 0, 0, 0, 0, 0, 0, 0, 0, 0, 0, 0, 0, 0, 0, 0, 0, 0, 0, 0, 0, 0, 0x03, 0xE0, 0, 0x0F, 0xF0, 0, 0x0E,
    0x70, 0, 0, 0x78, 0, 0x03, 0xF8, 0, 0x0F, 0xF8, 0, 0x0E, 0x78, 0, 0x1E, 0x78, 0, 0x0E, 0xF8, 0, 0x0F, 0xF8, 0, 0x07, 0xB8, 0,
    0, 0, 0]"

definition Font20_part_11 :: "u8 list" where
  "Font20_part_11 = [
    0, 0, 0, 0, 0, 0, 0, 0, 0, 0, 0, 0, 0x0E, 0, 0, 0x0E, 0, 0, 0x0E, 0, 0, 0x0E, 0, 0, 0x0E, 0xF0, 0, 0x0F, 0xF8, 0, 0x0F, 0xF8,
    0, 0x0E, 0x3C, 0, 0x0E, 0x3C, 0, 0x0E, 0x3C, 0, 0x0E, 0x3C, 0, 0x0E, 0x3C, 0, 0x0F, 0xF8, 0, 0x0F, 0xF8, 0, 0x0E, 0xF0, 0, 0,
    0, 0, 0, 0, 0, 0, 0, 0, 0, 0, 0, 0, 0, 0, 0, 0, 0, 0, 0, 0, 0, 0, 0, 0, 0, 0, 0x01, 0xF0, 0, 0x03, 0xF8, 0, 0x07, 0xFC, 0,
    0x07, 0x1C, 0, 0x07, 0, 0, 0x07, 0, 0, 0x07, 0, 0, 0x07, 0x1C, 0, 0x07, 0xFC, 0, 0x03, 0xF8, 0, 0x01, 0xF0, 0, 0, 0, 0, 0, 0,
    0, 0, 0, 0, 0, 0, 0, 0, 0, 0, 0, 0x38, 0, 0, 0x38, 0, 0, 0x38, 0, 0, 0x38, 0, 0x03, 0xB8, 0, 0x07, 0xF8, 0, 0x0F, 0xF8, 0,
    0x0E, 0x38, 0, 0x0E, 0x38, 0, 0x0E, 0x38, 0, 0x0E, 0x38, 0, 0x0E, 0x38, 0, 0x0F, 0xF8, 0, 0x07, 0xF8, 0, 0x03, 0xB8, 0, 0, 0,
    0, 0, 0, 0, 0, 0, 0, 0, 0, 0, 0, 0, 0, 0, 0, 0, 0, 0, 0, 0, 0, 0, 0, 0, 0, 0x03, 0xE0, 0, 0x07, 0xF0, 0, 0x0F, 0xF8, 0, 0x0E,
    0x38, 0, 0x0F, 0xF8, 0, 0x0F, 0xF8, 0, 0x0E, 0, 0, 0x0F, 0x10, 0, 0x0F, 0xF8, 0, 0x07, 0xF8, 0, 0x01, 0xE0, 0, 0, 0, 0, 0, 0,
    0, 0, 0, 0, 0, 0, 0, 0, 0, 0, 0, 0xF0, 0, 0x01, 0xF0, 0, 0x01, 0xF0, 0, 0x01, 0xC0, 0, 0x07, 0xF0, 0, 0x07, 0xF0, 0, 0x03,
    0xC0, 0, 0x01, 0xC0, 0, 0x01, 0xC0, 0, 0x01, 0xC0, 0, 0x01, 0xC0, 0, 0x01, 0xC0, 0, 0x01, 0xC0, 0, 0x01, 0xC0, 0, 0x01, 0xC0,
    0, 0, 0, 0, 0, 0, 0, 0, 0, 0, 0, 0, 0, 0, 0, 0, 0, 0, 0, 0, 0, 0, 0x03, 0xFC, 0, 0x07, 0xFC, 0, 0x0F, 0xFC, 0, 0x0E, 0x3C, 0,
    0x0E, 0x3C, 0, 0x0E, 0x3C, 0, 0x0E, 0x3C, 0, 0x0E, 0x3C, 0, 0x0F, 0xFC, 0, 0x07, 0xFC, 0, 0x03, 0xFC, 0, 0, 0x38, 0, 0x06,
    0x78, 0, 0x07, 0xF0, 0]"

definition Font20_part_12 :: "u8 list" where
  "Font20_part_12 = [
    0, 0, 0, 0, 0, 0, 0, 0, 0, 0, 0, 0, 0x0E, 0, 0, 0x0E, 0, 0, 0x0E, 0, 0, 0x0E, 0, 0, 0x0E, 0xF0, 0, 0x0F, 0xF8, 0, 0x0F, 0xF8,
    0, 0x0E, 0x38, 0, 0x0E, 0x38, 0, 0x0E, 0x38, 0, 0x0E, 0x38, 0, 0x0E, 0x38, 0, 0x0E, 0x38, 0, 0x0E, 0x38, 0, 0x0E, 0x38, 0, 0,
    0, 0, 0, 0, 0, 0, 0, 0, 0, 0, 0, 0, 0, 0, 0x01, 0xC0, 0, 0x01, 0xC0, 0, 0x01, 0xC0, 0, 0, 0, 0, 0x01, 0xC0, 0, 0x01, 0xC0, 0,
    0x01, 0xC0, 0, 0x01, 0xC0, 0, 0x01, 0xC0, 0, 0x01, 0xC0, 0, 0x01, 0xC0, 0, 0x01, 0xC0, 0, 0x01, 0xC0, 0, 0x01, 0xC0, 0, 0x01,
    0xC0, 0, 0, 0, 0, 0, 0, 0, 0, 0, 0, 0x03, 0x80, 0, 0x03, 0xC0, 0, 0x03, 0x80, 0, 0, 0, 0, 0x03, 0x80, 0, 0x03, 0x80, 0, 0x03,
    0x80, 0, 0x03, 0x80, 0, 0x03, 0x80, 0, 0x03, 0x80, 0, 0x03, 0x80, 0, 0x03, 0x80, 0, 0x03, 0x80, 0, 0x03, 0x80, 0, 0x03, 0x80,
    0, 0x03, 0x80, 0, 0x0F, 0x80, 0, 0x0F, 0x80, 0, 0, 0, 0, 0, 0, 0, 0, 0, 0, 0, 0, 0, 0x0E, 0, 0, 0x0E, 0, 0, 0x0E, 0, 0, 0x0E,
    0, 0, 0x0E, 0x3C, 0, 0x0E, 0x78, 0, 0x0E, 0xF0, 0, 0x0F, 0xE0, 0, 0x0F, 0xC0, 0, 0x0F, 0xE0, 0, 0x0F, 0xE0, 0, 0x0F, 0x70, 0,
    0x0E, 0x78, 0, 0x0E, 0x38, 0, 0x0E, 0x3C, 0, 0, 0, 0, 0, 0, 0, 0, 0, 0, 0, 0, 0, 0, 0, 0, 0x01, 0xC0, 0, 0x01, 0xC0, 0, 0x01,
    0xC0, 0, 0x01, 0xC0, 0, 0x01, 0xC0, 0, 0x01, 0xC0, 0, 0x01, 0xC0, 0, 0x01, 0xC0, 0, 0x01, 0xC0, 0, 0x01, 0xC0, 0, 0x01, 0xC0,
    0, 0x01, 0xC0, 0, 0x01, 0xC0, 0, 0x01, 0xC0, 0, 0x01, 0xC0, 0, 0, 0, 0, 0, 0, 0, 0, 0, 0, 0, 0, 0, 0, 0, 0, 0, 0, 0, 0, 0, 0,
    0, 0, 0, 0, 0, 0, 0x77, 0x9E, 0, 0x7F, 0xFF, 0, 0x7F, 0xFF, 0, 0x71, 0xC7, 0, 0x71, 0xC7, 0, 0x71, 0xC7, 0, 0x71, 0xC7, 0,
    0x71, 0xC7, 0, 0x71, 0xC7, 0, 0x71, 0xC7, 0, 0x71, 0xC7, 0, 0, 0, 0]"

definition Font20_part_13 :: "u8 list" where
  "Font20_part_13 = [
    0, 0, 0, 0, 0, 0, 0, 0, 0, 0, 0, 0, 0, 0, 0, 0, 0, 0, 0, 0, 0, 0, 0, 0, 0x0E, 0xF0, 0, 0x0F, 0xF8, 0, 0x0F, 0xF8, 0, 0x0E,
    0x38, 0, 0x0E, 0x38, 0, 0x0E, 0x38, 0, 0x0E, 0x38, 0, 0x0E, 0x38, 0, 0x0E, 0x38, 0, 0x0E, 0x38, 0, 0x0E, 0x38, 0, 0, 0, 0, 0,
    0, 0, 0, 0, 0, 0, 0, 0, 0, 0, 0, 0, 0, 0, 0, 0, 0, 0, 0, 0, 0, 0, 0, 0x03, 0xE0, 0, 0x07, 0xF0, 0, 0x0F, 0xF8, 0, 0x0E, 0x38,
    0, 0x0E, 0x3C, 0, 0x0E, 0x3C, 0, 0x0E, 0x3C, 0, 0x0E, 0x38, 0, 0x0F, 0xF8, 0, 0x07, 0xF0, 0, 0x03, 0xE0, 0, 0, 0, 0, 0, 0, 0,
    0, 0, 0, 0, 0, 0, 0, 0, 0, 0, 0, 0, 0, 0, 0, 0x0E, 0xF0, 0, 0x0F, 0xF8, 0, 0x0F, 0xF8, 0, 0x0E, 0x3C, 0, 0x0E, 0x3C, 0, 0x0E,
    0x3C, 0, 0x0E, 0x3C, 0, 0x0E, 0x3C, 0, 0x0F, 0xF8, 0, 0x0F, 0xF8, 0, 0x0E, 0xE0, 0, 0x0E, 0, 0, 0x0E, 0, 0, 0x0E, 0, 0, 0, 0,
    0, 0, 0, 0, 0, 0, 0, 0, 0, 0, 0, 0, 0, 0, 0, 0, 0x03, 0xB8, 0, 0x07, 0xF8, 0, 0x0F, 0xF8, 0, 0x0E, 0x38, 0, 0x0E, 0x38, 0,
    0x0E, 0x38, 0, 0x0E, 0x38, 0, 0x0E, 0x38, 0, 0x0F, 0xF8, 0, 0x07, 0xF8, 0, 0x03, 0xB8, 0, 0, 0x38, 0, 0, 0x38, 0, 0, 0x38, 0,
    0, 0, 0, 0, 0, 0, 0, 0, 0, 0, 0, 0, 0, 0, 0, 0, 0, 0, 0, 0, 0, 0, 0, 0, 0x03, 0xB0, 0, 0x03, 0xF0, 0, 0x03, 0xF0, 0, 0x03,
    0xC0, 0, 0x03, 0x80, 0, 0x03, 0x80, 0, 0x03, 0x80, 0, 0x03, 0x80, 0, 0x03, 0x80, 0, 0x03, 0x80, 0, 0x03, 0x80, 0, 0, 0, 0, 0,
    0, 0, 0, 0, 0, 0, 0, 0, 0, 0, 0, 0, 0, 0, 0, 0, 0, 0, 0, 0, 0, 0, 0, 0x01, 0xE0, 0, 0x07, 0xF8, 0, 0x07, 0x38, 0, 0x07, 0, 0,
    0x07, 0xC0, 0, 0x03, 0xF8, 0, 0, 0x78, 0, 0x06, 0x3C, 0, 0x07, 0x38, 0, 0x07, 0xF8, 0, 0x01, 0xE0, 0, 0, 0, 0]"

definition Font20_part_14 :: "u8 list" where
  "Font20_part_14 = [
    0, 0, 0, 0, 0, 0, 0, 0, 0, 0, 0, 0, 0, 0, 0, 0x03, 0xC0, 0, 0x03, 0xC0, 0, 0x03, 0xC0, 0, 0x07, 0xE0, 0, 0x07, 0xE0, 0, 0x03,
    0xC0, 0, 0x03, 0xC0, 0, 0x03, 0xC0, 0, 0x03, 0xC0, 0, 0x03, 0xC0, 0, 0x03, 0xC0, 0, 0x01, 0xE0, 0, 0x01, 0xF0, 0, 0, 0xF0, 0,
    0, 0, 0, 0, 0, 0, 0, 0, 0, 0, 0, 0, 0, 0, 0, 0, 0, 0, 0, 0, 0, 0, 0, 0, 0, 0, 0, 0x0E, 0x38, 0, 0x0E, 0x38, 0, 0x0E, 0x38, 0,
    0x0E, 0x38, 0, 0x0E, 0x38, 0, 0x0E, 0x38, 0, 0x0E, 0x38, 0, 0x0E, 0x38, 0, 0x0F, 0xF8, 0, 0x07, 0xF8, 0, 0x07, 0xB8, 0, 0, 0,
    0, 0, 0, 0, 0, 0, 0, 0, 0, 0, 0, 0, 0, 0, 0, 0, 0, 0, 0, 0, 0, 0, 0, 0, 0, 0x1E, 0x38, 0, 0x1E, 0x78, 0, 0x0E, 0x70, 0, 0x0E,
    0x70, 0, 0x0F, 0x70, 0, 0x07, 0xF0, 0, 0x07, 0xE0, 0, 0x07, 0xE0, 0, 0x03, 0xE0, 0, 0x03, 0xC0, 0, 0x03, 0xC0, 0, 0, 0, 0, 0,
    0, 0, 0, 0, 0, 0, 0, 0, 0, 0, 0, 0, 0, 0, 0, 0, 0, 0, 0, 0, 0, 0, 0, 0x71, 0xCE, 0, 0x39, 0xCE, 0, 0x3B, 0xCE, 0, 0x3B, 0xCC,
    0, 0x3B, 0xFC, 0, 0x3F, 0x7C, 0, 0x1F, 0x7C, 0, 0x1E, 0x7C, 0, 0x1E, 0x78, 0, 0x1E, 0x38, 0, 0x0E, 0x38, 0, 0, 0, 0, 0, 0, 0,
    0, 0, 0, 0, 0, 0, 0, 0, 0, 0, 0, 0, 0, 0, 0, 0, 0, 0, 0, 0, 0, 0x0E, 0x78, 0, 0x0E, 0x70, 0, 0x07, 0xF0, 0, 0x07, 0xE0, 0,
    0x03, 0xE0, 0, 0x03, 0xE0, 0, 0x07, 0xE0, 0, 0x07, 0xE0, 0, 0x0F, 0x70, 0, 0x0E, 0x78, 0, 0x1E, 0x38, 0, 0, 0, 0, 0, 0, 0, 0,
    0, 0, 0, 0, 0, 0, 0, 0, 0, 0, 0, 0, 0, 0, 0x1E, 0x38, 0, 0x1E, 0x78, 0, 0x0E, 0x78, 0, 0x0E, 0x70, 0, 0x0F, 0x70, 0, 0x07,
    0xF0, 0, 0x07, 0xE0, 0, 0x03, 0xE0, 0, 0x03, 0xC0, 0, 0x03, 0xC0, 0, 0x01, 0xC0, 0, 0x03, 0x80, 0, 0x07, 0x80, 0, 0x0F, 0x80,
    0]"

definition Font20_part_15 :: "u8 list" where
  "Font20_part_15 = [
    0, 0, 0, 0, 0, 0, 0, 0, 0, 0, 0, 0, 0, 0, 0, 0, 0, 0, 0, 0, 0, 0, 0, 0, 0x07, 0xFC, 0, 0x07, 0xF8, 0, 0x07, 0xF8, 0, 0, 0x70,
    0, 0, 0xF0, 0, 0x01, 0xE0, 0, 0x01, 0xC0, 0, 0x03, 0x80, 0, 0x07, 0xF8, 0, 0x07, 0xFC, 0, 0x07, 0xFC, 0, 0, 0, 0, 0, 0, 0, 0,
    0x60, 0, 0, 0xE0, 0, 0x01, 0xC0, 0, 0x01, 0xC0, 0, 0x01, 0xC0, 0, 0x01, 0xC0, 0, 0x01, 0xC0, 0, 0x01, 0xC0, 0, 0x03, 0x80, 0,
    0x07, 0x80, 0, 0x07, 0x80, 0, 0x03, 0x80, 0, 0x01, 0xC0, 0, 0x01, 0xC0, 0, 0x01, 0xC0, 0, 0x01, 0xC0, 0, 0x01, 0xC0, 0, 0x01,
    0xC0, 0, 0, 0xE0, 0, 0, 0, 0, 0, 0, 0, 0, 0, 0, 0, 0, 0, 0, 0x80, 0, 0, 0x80, 0, 0, 0x80, 0, 0, 0x80, 0, 0, 0x80, 0, 0, 0x80,
    0, 0, 0x80, 0, 0, 0x80, 0, 0, 0x80, 0, 0, 0x80, 0, 0, 0x80, 0, 0, 0x80, 0, 0, 0x80, 0, 0, 0x80, 0, 0, 0x80, 0, 0, 0x80, 0, 0,
    0, 0, 0x02, 0, 0, 0x03, 0, 0, 0x03, 0x80, 0, 0x01, 0x80, 0, 0x01, 0x80, 0, 0x01, 0xC0, 0, 0x01, 0xC0, 0, 0x01, 0xC0, 0, 0x01,
    0xC0, 0, 0, 0xE0, 0, 0, 0xE0, 0, 0x01, 0xC0, 0, 0x01, 0xC0, 0, 0x01, 0xC0, 0, 0x01, 0xC0, 0, 0x01, 0xC0, 0, 0x01, 0x80, 0,
    0x03, 0x80, 0, 0x03, 0, 0, 0, 0, 0, 0, 0, 0, 0, 0, 0, 0, 0, 0, 0, 0, 0, 0, 0, 0, 0, 0, 0, 0, 0, 0, 0, 0, 0, 0, 0, 0, 0, 0, 0,
    0x0F, 0x08, 0, 0x1F, 0xFC, 0, 0x1F, 0xF8, 0, 0x18, 0xF0, 0, 0, 0, 0, 0, 0, 0, 0, 0, 0, 0, 0, 0, 0, 0, 0]"

definition Font20_Table :: "u8 list" where
  "Font20_Table =
    Font20_part_0 @ Font20_part_1 @ Font20_part_2 @ Font20_part_3 @ Font20_part_4 @ Font20_part_5 @ Font20_part_6 @
    Font20_part_7 @ Font20_part_8 @ Font20_part_9 @ Font20_part_10 @ Font20_part_11 @ Font20_part_12 @ Font20_part_13 @
    Font20_part_14 @ Font20_part_15"

definition Font20 :: sFONT where
  "Font20 = \<lparr>font_table = Font20_Table, Width = 18, Height = 20\<rparr>"

lemma Font20_length: "length Font20_Table = 5700"
  by (simp add: Font20_Table_def Font20_part_0_def Font20_part_1_def Font20_part_2_def Font20_part_3_def Font20_part_4_def Font20_part_5_def Font20_part_6_def Font20_part_7_def Font20_part_8_def Font20_part_9_def Font20_part_10_def Font20_part_11_def Font20_part_12_def Font20_part_13_def Font20_part_14_def Font20_part_15_def length_4 del: list.size(4))

subsection \<open>Font24: 22 by 24 points\<close>

definition Font24_part_0 :: "u8 list" where
  "Font24_part_0 = [
    0, 0, 0, 0, 0, 0, 0, 0, 0, 0, 0, 0, 0, 0, 0, 0, 0, 0, 0, 0, 0, 0, 0, 0, 0, 0, 0, 0, 0, 0, 0, 0, 0, 0, 0, 0, 0, 0, 0, 0, 0, 0,
    0, 0, 0, 0, 0, 0, 0, 0, 0, 0, 0, 0, 0, 0, 0, 0, 0, 0, 0, 0, 0, 0, 0, 0, 0, 0, 0, 0, 0, 0, 0, 0, 0, 0, 0, 0, 0, 0, 0, 0, 0, 0,
    0, 0, 0, 0, 0, 0, 0, 0xF8, 0, 0, 0xF0, 0, 0, 0xF0, 0, 0, 0xF0, 0, 0, 0x70, 0, 0, 0x70, 0, 0, 0x70, 0, 0, 0x70, 0, 0, 0x70, 0,
    0, 0x70, 0, 0, 0x70, 0, 0, 0, 0, 0, 0, 0, 0, 0x70, 0, 0, 0xF0, 0, 0, 0xF0, 0, 0, 0x70, 0, 0, 0, 0, 0, 0, 0, 0, 0, 0, 0, 0, 0,
    0, 0, 0, 0, 0, 0, 0x01, 0xDC, 0, 0x01, 0xDC, 0, 0x01, 0xDC, 0, 0x01, 0xDC, 0, 0x01, 0xDC, 0, 0x01, 0xDC, 0, 0x01, 0xDC, 0, 0,
    0, 0, 0, 0, 0, 0, 0, 0, 0, 0, 0, 0, 0, 0, 0, 0, 0, 0, 0, 0, 0, 0, 0, 0, 0, 0, 0, 0, 0, 0, 0, 0, 0, 0, 0, 0, 0, 0, 0, 0, 0, 0,
    0, 0, 0, 0, 0, 0, 0, 0, 0, 0, 0, 0, 0x66, 0, 0, 0x66, 0, 0, 0x66, 0, 0, 0xE6, 0, 0, 0xEE, 0, 0x07, 0xFF, 0x80, 0x07, 0xFF,
    0x80, 0, 0xCC, 0, 0, 0xCC, 0, 0x01, 0xCC, 0, 0x0F, 0xFF, 0x80, 0x0F, 0xFF, 0x80, 0x01, 0x9C, 0, 0x01, 0x98, 0, 0x01, 0x98, 0,
    0x03, 0x98, 0, 0x03, 0xB8, 0, 0, 0, 0, 0, 0, 0, 0, 0, 0, 0, 0, 0, 0, 0x10, 0, 0, 0x10, 0, 0, 0xFC, 0, 0x01, 0xFE, 0, 0x03,
    0xFF, 0, 0x03, 0xCF, 0x80, 0x03, 0xC7, 0x80, 0x03, 0xC0, 0, 0x03, 0xE0, 0, 0x01, 0xF8, 0, 0, 0xFE, 0, 0, 0x3F, 0, 0, 0x0F, 0,
    0x07, 0x07, 0x80, 0x07, 0x87, 0x80, 0x07, 0xCF, 0x80, 0x03, 0xFF, 0, 0x01, 0xFF, 0, 0, 0xFC, 0, 0, 0x30, 0, 0, 0x30, 0]"

definition Font24_part_1 :: "u8 list" where
  "Font24_part_1 = [
    0, 0, 0, 0, 0, 0, 0, 0, 0, 0, 0, 0, 0, 0, 0, 0, 0, 0, 0x07, 0x80, 0, 0x0F, 0xC2, 0, 0x1C, 0xC7, 0, 0x1C, 0xE6, 0, 0x1C, 0xEC,
    0, 0x1C, 0xFC, 0, 0x0F, 0xD8, 0, 0x07, 0xB8, 0, 0, 0x30, 0, 0, 0x67, 0x80, 0, 0xEF, 0xC0, 0, 0xDC, 0xE0, 0x01, 0xDC, 0xE0,
    0x01, 0x9C, 0xE0, 0x03, 0x9C, 0xE0, 0x01, 0x0F, 0xC0, 0, 0x07, 0x80, 0, 0, 0, 0, 0, 0, 0, 0, 0, 0, 0, 0, 0, 0, 0, 0, 0, 0, 0,
    0, 0, 0, 0xF0, 0, 0x03, 0xFC, 0, 0x03, 0xFC, 0, 0x07, 0x9C, 0, 0x07, 0x9C, 0, 0x07, 0x9C, 0, 0x03, 0xF8, 0, 0x03, 0xF0, 0,
    0x03, 0xE0, 0, 0x07, 0xF3, 0xC0, 0x0F, 0x7B, 0xC0, 0x0F, 0x3F, 0x80, 0x0F, 0x1F, 0x80, 0x0F, 0x1F, 0, 0x0F, 0xFF, 0x80, 0x07,
    0xFF, 0x80, 0x01, 0xF3, 0xC0, 0, 0, 0, 0, 0, 0, 0, 0, 0, 0, 0, 0, 0, 0, 0, 0, 0, 0, 0, 0x30, 0, 0, 0x30, 0, 0, 0x30, 0, 0,
    0x30, 0, 0, 0x30, 0, 0, 0x30, 0, 0, 0x30, 0, 0, 0, 0, 0, 0, 0, 0, 0, 0, 0, 0, 0, 0, 0, 0, 0, 0, 0, 0, 0, 0, 0, 0, 0, 0, 0, 0,
    0, 0, 0, 0, 0, 0, 0, 0, 0, 0, 0, 0, 0, 0, 0, 0, 0x04, 0, 0, 0x0E, 0, 0, 0x1C, 0, 0, 0x1C, 0, 0, 0x38, 0, 0, 0x38, 0, 0, 0x70,
    0, 0, 0x70, 0, 0, 0x70, 0, 0, 0x70, 0, 0, 0xF0, 0, 0, 0xF0, 0, 0, 0xF0, 0, 0, 0xF0, 0, 0, 0x70, 0, 0, 0x70, 0, 0, 0x70, 0, 0,
    0x70, 0, 0, 0x38, 0, 0, 0x38, 0, 0, 0x1C, 0, 0, 0x1C, 0, 0, 0, 0, 0, 0, 0, 0, 0x80, 0, 0, 0xC0, 0, 0, 0xE0, 0, 0, 0x70, 0, 0,
    0x78, 0, 0, 0x38, 0, 0, 0x38, 0, 0, 0x3C, 0, 0, 0x1C, 0, 0, 0x1C, 0, 0, 0x1C, 0, 0, 0x1C, 0, 0, 0x1C, 0, 0, 0x1C, 0, 0, 0x1C,
    0, 0, 0x1C, 0, 0, 0x3C, 0, 0, 0x38, 0, 0, 0x38, 0, 0, 0x78, 0, 0, 0x70, 0, 0, 0xE0, 0]"

definition Font24_part_2 :: "u8 list" where
  "Font24_part_2 = [
    0, 0, 0, 0, 0, 0, 0, 0, 0, 0, 0, 0, 0, 0, 0, 0, 0, 0, 0, 0x30, 0, 0, 0x30, 0, 0, 0x30, 0, 0x03, 0xB7, 0, 0x03, 0xFF, 0, 0,
    0x78, 0, 0, 0xF8, 0, 0x01, 0xDC, 0, 0x01, 0x8E, 0, 0, 0x80, 0, 0, 0, 0, 0, 0, 0, 0, 0, 0, 0, 0, 0, 0, 0, 0, 0, 0, 0, 0, 0, 0,
    0, 0, 0, 0, 0, 0, 0, 0, 0, 0, 0, 0, 0, 0, 0, 0, 0, 0, 0, 0, 0, 0, 0, 0, 0, 0, 0, 0, 0, 0, 0, 0x70, 0, 0, 0x70, 0, 0, 0x70, 0,
    0, 0x70, 0, 0x07, 0xFF, 0, 0x07, 0xFF, 0, 0x07, 0xFF, 0, 0, 0xF8, 0, 0, 0x70, 0, 0, 0x70, 0, 0, 0x70, 0, 0, 0x70, 0, 0, 0, 0,
    0, 0, 0, 0, 0, 0, 0, 0, 0, 0, 0, 0, 0, 0, 0, 0, 0, 0, 0, 0, 0, 0, 0, 0, 0, 0, 0, 0, 0, 0, 0, 0, 0, 0, 0, 0, 0, 0, 0, 0, 0, 0,
    0, 0, 0, 0, 0, 0, 0, 0, 0, 0, 0, 0, 0, 0, 0, 0, 0, 0, 0, 0x38, 0, 0, 0x38, 0, 0, 0x38, 0, 0, 0x38, 0, 0, 0x38, 0, 0, 0x70, 0,
    0, 0, 0, 0, 0, 0, 0, 0, 0, 0, 0, 0, 0, 0, 0, 0, 0, 0, 0, 0, 0, 0, 0, 0, 0, 0, 0, 0, 0, 0, 0, 0, 0, 0, 0, 0, 0, 0, 0, 0, 0, 0,
    0x01, 0xFC, 0, 0x01, 0xFC, 0, 0x01, 0xFC, 0, 0, 0, 0, 0, 0, 0, 0, 0, 0, 0, 0, 0, 0, 0, 0, 0, 0, 0, 0, 0, 0, 0, 0, 0, 0, 0, 0,
    0, 0, 0, 0, 0, 0, 0, 0, 0, 0, 0, 0, 0, 0, 0, 0, 0, 0, 0, 0, 0, 0, 0, 0, 0, 0, 0, 0, 0, 0, 0, 0, 0, 0, 0, 0, 0, 0, 0, 0, 0, 0,
    0, 0, 0, 0, 0, 0, 0, 0, 0, 0, 0x70, 0, 0, 0xF8, 0, 0, 0xF8, 0, 0, 0x70, 0, 0, 0, 0]"

definition Font24_part_3 :: "u8 list" where
  "Font24_part_3 = [
    0, 0, 0, 0, 0, 0, 0, 0, 0, 0, 0, 0, 0, 0, 0, 0, 0, 0, 0, 0x1C, 0, 0, 0x1C, 0, 0, 0x18, 0, 0, 0x38, 0, 0, 0x38, 0, 0, 0x38, 0,
    0, 0x70, 0, 0, 0x70, 0, 0, 0x70, 0, 0, 0xE0, 0, 0, 0xE0, 0, 0, 0xE0, 0, 0x01, 0xC0, 0, 0x01, 0xC0, 0, 0x01, 0xC0, 0, 0x03,
    0x80, 0, 0x03, 0x80, 0, 0x03, 0x80, 0, 0, 0, 0, 0, 0, 0, 0, 0, 0, 0, 0, 0, 0, 0, 0, 0, 0, 0, 0, 0xF8, 0, 0x01, 0xFE, 0, 0x03,
    0xFF, 0, 0x03, 0xCF, 0, 0x07, 0x87, 0x80, 0x07, 0x87, 0x80, 0x07, 0x87, 0x80, 0x07, 0x87, 0x80, 0x07, 0x87, 0x80, 0x07, 0x87,
    0x80, 0x07, 0x87, 0x80, 0x07, 0x87, 0x80, 0x07, 0x87, 0x80, 0x03, 0xCF, 0, 0x03, 0xFF, 0, 0x01, 0xFE, 0, 0, 0xF8, 0, 0, 0, 0,
    0, 0, 0, 0, 0, 0, 0, 0, 0, 0, 0, 0, 0, 0, 0, 0, 0, 0, 0, 0x0C, 0, 0, 0x3C, 0, 0x01, 0xFC, 0, 0x03, 0xFC, 0, 0x03, 0xFC, 0,
    0x03, 0x3C, 0, 0, 0x3C, 0, 0, 0x3C, 0, 0, 0x3C, 0, 0, 0x3C, 0, 0, 0x3C, 0, 0, 0x3C, 0, 0, 0x3C, 0, 0, 0x3C, 0, 0, 0x3C, 0, 0,
    0x3C, 0, 0, 0x3C, 0, 0, 0, 0, 0, 0, 0, 0, 0, 0, 0, 0, 0, 0, 0, 0, 0, 0, 0, 0, 0, 0, 0, 0xFC, 0, 0x01, 0xFE, 0, 0x03, 0xFF, 0,
    0x07, 0xCF, 0, 0x07, 0x8F, 0, 0x07, 0x07, 0, 0, 0x0F, 0, 0, 0x0F, 0, 0, 0x1E, 0, 0, 0x3C, 0, 0, 0x78, 0, 0, 0xF0, 0, 0x01,
    0xF0, 0, 0x03, 0xE0, 0, 0x07, 0xFF, 0x80, 0x07, 0xFF, 0x80, 0x07, 0xFF, 0x80, 0, 0, 0, 0, 0, 0, 0, 0, 0, 0, 0, 0, 0, 0, 0, 0,
    0, 0, 0, 0, 0, 0, 0xFC, 0, 0x03, 0xFE, 0, 0x07, 0xFF, 0, 0x07, 0x8F, 0x80, 0, 0x07, 0x80, 0, 0x0F, 0, 0, 0x7F, 0, 0, 0x7E, 0,
    0, 0x7F, 0, 0, 0x0F, 0, 0, 0x07, 0x80, 0, 0x07, 0x80, 0x07, 0x87, 0x80, 0x07, 0x8F, 0x80, 0x07, 0xFF, 0, 0x03, 0xFE, 0, 0,
    0xF8, 0, 0, 0, 0]"

definition Font24_part_4 :: "u8 list" where
  "Font24_part_4 = [
    0, 0, 0, 0, 0, 0, 0, 0, 0, 0, 0, 0, 0, 0, 0, 0, 0, 0, 0, 0x1E, 0, 0, 0x1E, 0, 0, 0x3E, 0, 0, 0x7E, 0, 0, 0x7E, 0, 0, 0xFE, 0,
    0x01, 0xEE, 0, 0x01, 0xCE, 0, 0x03, 0x8E, 0, 0x07, 0x8E, 0, 0x07, 0xFF, 0x80, 0x07, 0xFF, 0x80, 0x07, 0xFF, 0x80, 0, 0x0E, 0,
    0, 0x0E, 0, 0, 0x0E, 0, 0, 0x0E, 0, 0, 0, 0, 0, 0, 0, 0, 0, 0, 0, 0, 0, 0, 0, 0, 0, 0, 0, 0, 0, 0, 0x03, 0xFF, 0, 0x03, 0xFF,
    0, 0x03, 0xFF, 0, 0x03, 0xC0, 0, 0x03, 0x80, 0, 0x03, 0x80, 0, 0x03, 0xFC, 0, 0x07, 0xFE, 0, 0x07, 0xFF, 0, 0, 0x0F, 0x80, 0,
    0x07, 0x80, 0, 0x07, 0x80, 0x07, 0x87, 0x80, 0x07, 0xCF, 0, 0x03, 0xFF, 0, 0x01, 0xFE, 0, 0, 0xFC, 0, 0, 0, 0, 0, 0, 0, 0, 0,
    0, 0, 0, 0, 0, 0, 0, 0, 0, 0, 0, 0, 0, 0, 0x1E, 0, 0, 0x7E, 0, 0, 0xFE, 0, 0x01, 0xF0, 0, 0x03, 0xC0, 0, 0x03, 0xC0, 0, 0x07,
    0xBE, 0, 0x07, 0xFF, 0, 0x07, 0xFF, 0x80, 0x07, 0xCF, 0x80, 0x07, 0x87, 0x80, 0x07, 0x87, 0x80, 0x07, 0x87, 0x80, 0x03, 0xCF,
    0x80, 0x03, 0xFF, 0, 0x01, 0xFE, 0, 0, 0x7C, 0, 0, 0, 0, 0, 0, 0, 0, 0, 0, 0, 0, 0, 0, 0, 0, 0, 0, 0, 0, 0, 0, 0x07, 0xFF,
    0x80, 0x07, 0xFF, 0x80, 0x07, 0xFF, 0x80, 0, 0x07, 0, 0, 0x0F, 0, 0, 0x0E, 0, 0, 0x1E, 0, 0, 0x1E, 0, 0, 0x3C, 0, 0, 0x3C, 0,
    0, 0x78, 0, 0, 0x78, 0, 0, 0xF0, 0, 0, 0xF0, 0, 0, 0xF0, 0, 0x01, 0xE0, 0, 0x01, 0xE0, 0, 0, 0, 0, 0, 0, 0, 0, 0, 0, 0, 0, 0,
    0, 0, 0, 0, 0, 0, 0, 0, 0, 0, 0xFC, 0, 0x03, 0xFE, 0, 0x03, 0xFF, 0, 0x07, 0xCF, 0, 0x07, 0x87, 0, 0x03, 0xCF, 0, 0x03, 0xFF,
    0, 0x01, 0xFE, 0, 0x03, 0xFF, 0, 0x03, 0xCF, 0, 0x07, 0x87, 0x80, 0x07, 0x87, 0x80, 0x07, 0x87, 0x80, 0x07, 0xCF, 0x80, 0x03,
    0xFF, 0, 0x01, 0xFE, 0, 0, 0xFC, 0, 0, 0, 0]"

definition Font24_part_5 :: "u8 list" where
  "Font24_part_5 = [
    0, 0, 0, 0, 0, 0, 0, 0, 0, 0, 0, 0, 0, 0, 0, 0, 0, 0, 0, 0x78, 0, 0x01, 0xFE, 0, 0x03, 0xFF, 0, 0x07, 0xCF, 0, 0x07, 0x87,
    0x80, 0x07, 0x87, 0x80, 0x07, 0x87, 0x80, 0x07, 0xC7, 0x80, 0x03, 0xFF, 0x80, 0x03, 0xFF, 0x80, 0, 0xFF, 0x80, 0, 0x0F, 0, 0,
    0x0F, 0, 0, 0x3E, 0, 0, 0xFC, 0, 0, 0xF8, 0, 0, 0xE0, 0, 0, 0, 0, 0, 0, 0, 0, 0, 0, 0, 0, 0, 0, 0, 0, 0, 0, 0, 0, 0, 0, 0, 0,
    0, 0, 0, 0, 0, 0, 0, 0, 0, 0, 0, 0x70, 0, 0, 0x78, 0, 0, 0xF8, 0, 0, 0x70, 0, 0, 0, 0, 0, 0, 0, 0, 0, 0, 0, 0, 0, 0, 0, 0, 0,
    0x70, 0, 0, 0xF8, 0, 0, 0x78, 0, 0, 0x70, 0, 0, 0, 0, 0, 0, 0, 0, 0, 0, 0, 0, 0, 0, 0, 0, 0, 0, 0, 0, 0, 0, 0, 0, 0, 0, 0, 0,
    0, 0x70, 0, 0, 0xF8, 0, 0, 0xF8, 0, 0, 0x70, 0, 0, 0, 0, 0, 0, 0, 0, 0, 0, 0, 0, 0, 0, 0, 0, 0, 0, 0, 0, 0x70, 0, 0, 0x70, 0,
    0, 0x70, 0, 0, 0x70, 0, 0, 0x70, 0, 0, 0xF0, 0, 0, 0, 0, 0, 0, 0, 0, 0, 0, 0, 0, 0, 0, 0, 0, 0, 0, 0, 0, 0, 0, 0, 0, 0, 0, 0,
    0, 0, 0, 0, 0, 0x01, 0, 0, 0x0F, 0, 0, 0x3F, 0, 0, 0xFF, 0, 0x03, 0xFC, 0, 0x03, 0xE0, 0, 0x03, 0xE0, 0, 0x03, 0xFC, 0, 0,
    0xFF, 0, 0, 0x3F, 0, 0, 0x0F, 0, 0, 0x01, 0, 0, 0, 0, 0, 0, 0, 0, 0, 0, 0, 0, 0, 0, 0, 0, 0, 0, 0, 0, 0, 0, 0, 0, 0, 0, 0, 0,
    0, 0, 0, 0, 0, 0, 0, 0, 0, 0, 0, 0, 0, 0, 0, 0x03, 0xFF, 0, 0x03, 0xFF, 0, 0x03, 0xFF, 0, 0, 0, 0, 0, 0, 0, 0x03, 0xFF, 0,
    0x03, 0xFF, 0, 0x03, 0xFF, 0, 0, 0, 0, 0, 0, 0, 0, 0, 0, 0, 0, 0]"

definition Font24_part_6 :: "u8 list" where
  "Font24_part_6 = [
    0, 0, 0, 0, 0, 0, 0, 0, 0, 0, 0, 0, 0, 0, 0, 0, 0, 0, 0, 0, 0, 0, 0, 0, 0, 0, 0, 0, 0, 0, 0x02, 0, 0, 0x03, 0xC0, 0, 0x03,
    0xF0, 0, 0x03, 0xFE, 0, 0, 0x7F, 0, 0, 0x1F, 0x80, 0, 0x1F, 0x80, 0, 0xFF, 0, 0x03, 0xFE, 0, 0x03, 0xF0, 0, 0x03, 0xC0, 0,
    0x02, 0, 0, 0, 0, 0, 0, 0, 0, 0, 0, 0, 0, 0, 0, 0, 0, 0, 0, 0, 0, 0, 0, 0, 0, 0, 0, 0, 0xFC, 0, 0x01, 0xFE, 0, 0x03, 0xFF, 0,
    0x03, 0xCF, 0, 0x03, 0x8F, 0, 0, 0x0F, 0, 0, 0x1F, 0, 0, 0x3E, 0, 0, 0x7C, 0, 0, 0x78, 0, 0, 0x70, 0, 0, 0, 0, 0, 0, 0, 0,
    0x70, 0, 0, 0x78, 0, 0, 0x78, 0, 0, 0x70, 0, 0, 0, 0, 0, 0, 0, 0, 0, 0, 0, 0, 0, 0, 0, 0, 0, 0xFE, 0, 0x03, 0xFF, 0x80, 0x07,
    0x83, 0xC0, 0x0E, 0, 0xE0, 0x1C, 0, 0x60, 0x38, 0x3C, 0x70, 0x38, 0xFE, 0x30, 0x71, 0xEE, 0x30, 0x71, 0xCE, 0x38, 0x73, 0x8E,
    0x38, 0x63, 0x8E, 0x38, 0x63, 0x8E, 0x30, 0x63, 0x8E, 0x30, 0x63, 0x8E, 0x30, 0x73, 0xDE, 0x60, 0x71, 0xFF, 0xE0, 0x30, 0xE7,
    0xC0, 0x38, 0, 0, 0x1C, 0, 0, 0x1F, 0x04, 0, 0, 0, 0, 0, 0, 0, 0, 0, 0, 0, 0, 0, 0, 0, 0, 0, 0, 0, 0, 0xF0, 0, 0, 0xF8, 0,
    0x01, 0xF8, 0, 0x01, 0xF8, 0, 0x01, 0xFC, 0, 0x03, 0xFC, 0, 0x03, 0xDC, 0, 0x07, 0x9E, 0, 0x07, 0x9E, 0, 0x07, 0x8F, 0, 0x0F,
    0x0F, 0, 0x0F, 0xFF, 0, 0x0F, 0xFF, 0x80, 0x1F, 0xFF, 0x80, 0x1E, 0x07, 0x80, 0x1E, 0x07, 0xC0, 0x3E, 0x03, 0xC0, 0, 0, 0, 0,
    0, 0, 0, 0, 0, 0, 0, 0, 0, 0, 0, 0, 0, 0, 0, 0, 0, 0x0F, 0xFC, 0, 0x0F, 0xFF, 0, 0x0F, 0xFF, 0x80, 0x0F, 0x8F, 0x80, 0x0F,
    0x07, 0x80, 0x0F, 0x07, 0x80, 0x0F, 0x0F, 0x80, 0x0F, 0xFF, 0, 0x0F, 0xFE, 0, 0x0F, 0xFF, 0x80, 0x0F, 0x07, 0x80, 0x0F, 0x07,
    0x80, 0x0F, 0x07, 0x80, 0x0F, 0x8F, 0x80, 0x0F, 0xFF, 0x80, 0x0F, 0xFF, 0, 0x0F, 0xFC, 0, 0, 0, 0]"

definition Font24_part_7 :: "u8 list" where
  "Font24_part_7 = [
    0, 0, 0, 0, 0, 0, 0, 0, 0, 0, 0, 0, 0, 0, 0, 0, 0, 0, 0, 0xFC, 0, 0x01, 0xFF, 0, 0x03, 0xFF, 0x80, 0x07, 0xC7, 0x80, 0x0F,
    0x83, 0xC0, 0x0F, 0x03, 0xC0, 0x0F, 0, 0, 0x0F, 0, 0, 0x0F, 0, 0, 0x0F, 0, 0, 0x0F, 0, 0, 0x0F, 0x03, 0xC0, 0x0F, 0x83, 0xC0,
    0x07, 0xC7, 0x80, 0x07, 0xFF, 0x80, 0x03, 0xFF, 0, 0, 0xFC, 0, 0, 0, 0, 0, 0, 0, 0, 0, 0, 0, 0, 0, 0, 0, 0, 0, 0, 0, 0, 0, 0,
    0x0F, 0xF8, 0, 0x0F, 0xFC, 0, 0x0F, 0xFF, 0, 0x0F, 0x9F, 0, 0x0F, 0x07, 0x80, 0x0F, 0x07, 0x80, 0x0F, 0x07, 0xC0, 0x0F, 0x07,
    0xC0, 0x0F, 0x03, 0xC0, 0x0F, 0x07, 0xC0, 0x0F, 0x07, 0xC0, 0x0F, 0x07, 0x80, 0x0F, 0x07, 0x80, 0x0F, 0x9F, 0, 0x0F, 0xFF, 0,
    0x0F, 0xFC, 0, 0x0F, 0xF8, 0, 0, 0, 0, 0, 0, 0, 0, 0, 0, 0, 0, 0, 0, 0, 0, 0, 0, 0, 0, 0, 0, 0x07, 0xFF, 0x80, 0x07, 0xFF,
    0x80, 0x07, 0xFF, 0x80, 0x07, 0xC0, 0, 0x07, 0x80, 0, 0x07, 0x80, 0, 0x07, 0x80, 0, 0x07, 0xFF, 0, 0x07, 0xFF, 0, 0x07, 0xFF,
    0, 0x07, 0x80, 0, 0x07, 0x80, 0, 0x07, 0x80, 0, 0x07, 0xC0, 0, 0x07, 0xFF, 0x80, 0x07, 0xFF, 0x80, 0x07, 0xFF, 0x80, 0, 0, 0,
    0, 0, 0, 0, 0, 0, 0, 0, 0, 0, 0, 0, 0, 0, 0, 0, 0, 0, 0x07, 0xFF, 0x80, 0x07, 0xFF, 0x80, 0x07, 0xFF, 0x80, 0x07, 0xC0, 0,
    0x07, 0x80, 0, 0x07, 0x80, 0, 0x07, 0x80, 0, 0x07, 0xFF, 0, 0x07, 0xFF, 0, 0x07, 0xFF, 0, 0x07, 0xC0, 0, 0x07, 0x80, 0, 0x07,
    0x80, 0, 0x07, 0x80, 0, 0x07, 0x80, 0, 0x07, 0x80, 0, 0x07, 0x80, 0, 0, 0, 0, 0, 0, 0, 0, 0, 0, 0, 0, 0, 0, 0, 0, 0, 0, 0, 0,
    0, 0, 0, 0x7C, 0, 0x01, 0xFF, 0, 0x03, 0xFF, 0x80, 0x07, 0xC7, 0xC0, 0x07, 0x83, 0xC0, 0x0F, 0x03, 0xC0, 0x0F, 0, 0, 0x0F, 0,
    0, 0x0F, 0x1F, 0xC0, 0x0F, 0x1F, 0xC0, 0x0F, 0x1F, 0xC0, 0x0F, 0x03, 0xC0, 0x07, 0x83, 0xC0, 0x07, 0xC7, 0xC0, 0x03, 0xFF,
    0xC0, 0x01, 0xFF, 0x80, 0, 0x7E, 0, 0, 0, 0]"

definition Font24_part_8 :: "u8 list" where
  "Font24_part_8 = [
    0, 0, 0, 0, 0, 0, 0, 0, 0, 0, 0, 0, 0, 0, 0, 0, 0, 0, 0x1E, 0x07, 0xC0, 0x1E, 0x07, 0xC0, 0x1E, 0x07, 0xC0, 0x1E, 0x07, 0xC0,
    0x1E, 0x07, 0xC0, 0x1E, 0x07, 0xC0, 0x1E, 0x07, 0xC0, 0x1F, 0xFF, 0xC0, 0x1F, 0xFF, 0xC0, 0x1F, 0xFF, 0xC0, 0x1F, 0x07, 0xC0,
    0x1E, 0x07, 0xC0, 0x1E, 0x07, 0xC0, 0x1E, 0x07, 0xC0, 0x1E, 0x07, 0xC0, 0x1E, 0x07, 0xC0, 0x1E, 0x07, 0xC0, 0, 0, 0, 0, 0, 0,
    0, 0, 0, 0, 0, 0, 0, 0, 0, 0, 0, 0, 0, 0, 0, 0, 0x78, 0, 0, 0x78, 0, 0, 0x78, 0, 0, 0x78, 0, 0, 0x78, 0, 0, 0x78, 0, 0, 0x78,
    0, 0, 0x78, 0, 0, 0x78, 0, 0, 0x78, 0, 0, 0x78, 0, 0, 0x78, 0, 0, 0x78, 0, 0, 0x78, 0, 0, 0x78, 0, 0, 0x78, 0, 0, 0x78, 0, 0,
    0, 0, 0, 0, 0, 0, 0, 0, 0, 0, 0, 0, 0, 0, 0, 0, 0, 0, 0, 0, 0, 0x0F, 0, 0, 0x0F, 0, 0, 0x0F, 0, 0, 0x0F, 0, 0, 0x0F, 0, 0,
    0x0F, 0, 0, 0x0F, 0, 0, 0x0F, 0, 0, 0x0F, 0, 0, 0x0F, 0, 0, 0x0F, 0, 0, 0x0F, 0, 0x0F, 0x8F, 0, 0x07, 0x9F, 0, 0x07, 0xFE, 0,
    0x03, 0xFC, 0, 0, 0xF8, 0, 0, 0, 0, 0, 0, 0, 0, 0, 0, 0, 0, 0, 0, 0, 0, 0, 0, 0, 0, 0, 0, 0x0F, 0x07, 0xC0, 0x0F, 0x0F, 0x80,
    0x0F, 0x0F, 0x80, 0x0F, 0x1F, 0, 0x0F, 0x3E, 0, 0x0F, 0x3C, 0, 0x0F, 0x7C, 0, 0x0F, 0xF8, 0, 0x0F, 0xF8, 0, 0x0F, 0xFC, 0,
    0x0F, 0xFE, 0, 0x0F, 0x9E, 0, 0x0F, 0x9F, 0, 0x0F, 0x0F, 0, 0x0F, 0x0F, 0x80, 0x0F, 0x07, 0xC0, 0x0F, 0x07, 0xC0, 0, 0, 0, 0,
    0, 0, 0, 0, 0, 0, 0, 0, 0, 0, 0, 0, 0, 0, 0, 0, 0, 0x07, 0x80, 0, 0x07, 0x80, 0, 0x07, 0x80, 0, 0x07, 0x80, 0, 0x07, 0x80, 0,
    0x07, 0x80, 0, 0x07, 0x80, 0, 0x07, 0x80, 0, 0x07, 0x80, 0, 0x07, 0x80, 0, 0x07, 0x80, 0, 0x07, 0x80, 0, 0x07, 0x80, 0, 0x07,
    0xC0, 0, 0x07, 0xFF, 0x80, 0x07, 0xFF, 0x80, 0x07, 0xFF, 0x80, 0, 0, 0]"

definition Font24_part_9 :: "u8 list" where
  "Font24_part_9 = [
    0, 0, 0, 0, 0, 0, 0, 0, 0, 0, 0, 0, 0, 0, 0, 0, 0, 0, 0x7E, 0x03, 0xF0, 0x7E, 0x03, 0xF0, 0x7E, 0x07, 0xF0, 0x7F, 0x07, 0xF0,
    0x7F, 0x07, 0xF0, 0x7F, 0x07, 0xF0, 0x7F, 0x8F, 0xF0, 0x7B, 0x8E, 0xF0, 0x7B, 0x8E, 0xF0, 0x79, 0xDC, 0xF0, 0x79, 0xDC, 0xF0,
    0x79, 0xFC, 0xF0, 0x78, 0xF8, 0xF0, 0x78, 0xF8, 0xF0, 0x78, 0xF8, 0xF0, 0x78, 0x70, 0xF0, 0x78, 0x70, 0xF0, 0, 0, 0, 0, 0, 0,
    0, 0, 0, 0, 0, 0, 0, 0, 0, 0, 0, 0, 0, 0, 0, 0x1F, 0x07, 0xC0, 0x1F, 0x07, 0xC0, 0x1F, 0x87, 0xC0, 0x1F, 0x87, 0xC0, 0x1F,
    0xC7, 0xC0, 0x1F, 0xE7, 0xC0, 0x1F, 0xE7, 0xC0, 0x1E, 0xF7, 0xC0, 0x1E, 0x77, 0xC0, 0x1E, 0x7F, 0xC0, 0x1E, 0x3F, 0xC0, 0x1E,
    0x3F, 0xC0, 0x1E, 0x1F, 0xC0, 0x1E, 0x1F, 0xC0, 0x1E, 0x0F, 0xC0, 0x1E, 0x07, 0xC0, 0x1E, 0x07, 0xC0, 0, 0, 0, 0, 0, 0, 0, 0,
    0, 0, 0, 0, 0, 0, 0, 0, 0, 0, 0, 0, 0, 0x01, 0xF8, 0, 0x03, 0xFE, 0, 0x07, 0xFF, 0, 0x0F, 0x8F, 0x80, 0x0F, 0x07, 0x80, 0x1E,
    0x07, 0x80, 0x1E, 0x07, 0xC0, 0x1E, 0x03, 0xC0, 0x1E, 0x03, 0xC0, 0x1E, 0x03, 0xC0, 0x1E, 0x07, 0xC0, 0x1E, 0x07, 0x80, 0x0F,
    0x07, 0x80, 0x0F, 0x8F, 0x80, 0x07, 0xFF, 0, 0x03, 0xFE, 0, 0, 0xF8, 0, 0, 0, 0, 0, 0, 0, 0, 0, 0, 0, 0, 0, 0, 0, 0, 0, 0, 0,
    0, 0, 0, 0x0F, 0xFC, 0, 0x0F, 0xFF, 0, 0x0F, 0xFF, 0x80, 0x0F, 0x8F, 0x80, 0x0F, 0x07, 0xC0, 0x0F, 0x03, 0xC0, 0x0F, 0x07,
    0xC0, 0x0F, 0x07, 0x80, 0x0F, 0xFF, 0x80, 0x0F, 0xFF, 0, 0x0F, 0xFE, 0, 0x0F, 0x80, 0, 0x0F, 0, 0, 0x0F, 0, 0, 0x0F, 0, 0,
    0x0F, 0, 0, 0x0F, 0, 0, 0, 0, 0, 0, 0, 0, 0, 0, 0, 0, 0, 0, 0, 0, 0, 0, 0, 0, 0, 0xF8, 0, 0x03, 0xFE, 0, 0x07, 0xFF, 0, 0x0F,
    0x8F, 0x80, 0x0F, 0x07, 0x80, 0x1E, 0x07, 0x80, 0x1E, 0x07, 0xC0, 0x1E, 0x03, 0xC0, 0x1E, 0x03, 0xC0, 0x1E, 0x03, 0xC0, 0x1E,
    0x07, 0xC0, 0x1E, 0x07, 0x80, 0x0F, 0x07, 0x80, 0x0F, 0x8F, 0x80, 0x07, 0xFF, 0, 0x03, 0xFE, 0, 0, 0xFF, 0, 0, 0x0F, 0x80, 0,
    0x07, 0x80]"

definition Font24_part_10 :: "u8 list" where
  "Font24_part_10 = [
    0, 0, 0, 0, 0, 0, 0, 0, 0, 0, 0, 0, 0, 0, 0, 0, 0, 0, 0x0F, 0xFC, 0, 0x0F, 0xFF, 0, 0x0F, 0xFF, 0x80, 0x0F, 0x8F, 0x80, 0x0F,
    0x07, 0x80, 0x0F, 0x07, 0x80, 0x0F, 0x07, 0x80, 0x0F, 0x07, 0x80, 0x0F, 0xFF, 0, 0x0F, 0xFE, 0, 0x0F, 0xFE, 0, 0x0F, 0x9E, 0,
    0x0F, 0x1F, 0, 0x0F, 0x0F, 0, 0x0F, 0x0F, 0x80, 0x0F, 0x07, 0x80, 0x0F, 0x07, 0xC0, 0, 0, 0, 0, 0, 0, 0, 0, 0, 0, 0, 0, 0, 0,
    0, 0, 0, 0, 0, 0, 0, 0, 0xFC, 0, 0x03, 0xFE, 0, 0x07, 0xFF, 0, 0x0F, 0x8F, 0x80, 0x0F, 0x07, 0x80, 0x0F, 0x80, 0, 0x07, 0xE0,
    0, 0x07, 0xF8, 0, 0x01, 0xFE, 0, 0, 0x7F, 0, 0, 0x0F, 0x80, 0x0F, 0x07, 0x80, 0x0F, 0x07, 0x80, 0x0F, 0x8F, 0x80, 0x07, 0xFF,
    0x80, 0x03, 0xFF, 0, 0, 0xFC, 0, 0, 0, 0, 0, 0, 0, 0, 0, 0, 0, 0, 0, 0, 0, 0, 0, 0, 0, 0, 0, 0, 0x1F, 0xFF, 0xC0, 0x1F, 0xFF,
    0xC0, 0x1F, 0xFF, 0xC0, 0, 0xF8, 0, 0, 0xF8, 0, 0, 0xF8, 0, 0, 0xF8, 0, 0, 0xF8, 0, 0, 0xF8, 0, 0, 0xF8, 0, 0, 0xF8, 0, 0,
    0xF8, 0, 0, 0xF8, 0, 0, 0xF8, 0, 0, 0xF8, 0, 0, 0xF8, 0, 0, 0xF8, 0, 0, 0, 0, 0, 0, 0, 0, 0, 0, 0, 0, 0, 0, 0, 0, 0, 0, 0, 0,
    0, 0, 0x0F, 0x03, 0xC0, 0x0F, 0x03, 0xC0, 0x0F, 0x03, 0xC0, 0x0F, 0x03, 0xC0, 0x0F, 0x03, 0xC0, 0x0F, 0x03, 0xC0, 0x0F, 0x03,
    0xC0, 0x0F, 0x03, 0xC0, 0x0F, 0x03, 0xC0, 0x0F, 0x03, 0xC0, 0x0F, 0x03, 0xC0, 0x0F, 0x07, 0xC0, 0x0F, 0x87, 0x80, 0x07, 0xCF,
    0x80, 0x07, 0xFF, 0x80, 0x03, 0xFF, 0, 0, 0xFC, 0, 0, 0, 0, 0, 0, 0, 0, 0, 0, 0, 0, 0, 0, 0, 0, 0, 0, 0, 0, 0, 0, 0x3E, 0x07,
    0xC0, 0x3E, 0x07, 0x80, 0x1E, 0x07, 0x80, 0x1E, 0x0F, 0x80, 0x1F, 0x0F, 0, 0x0F, 0x0F, 0, 0x0F, 0x0F, 0, 0x0F, 0x9E, 0, 0x07,
    0x9E, 0, 0x07, 0x9E, 0, 0x07, 0xBC, 0, 0x03, 0xFC, 0, 0x03, 0xFC, 0, 0x03, 0xF8, 0, 0x01, 0xF8, 0, 0x01, 0xF8, 0, 0x01, 0xF0,
    0, 0, 0, 0]"

definition Font24_part_11 :: "u8 list" where
  "Font24_part_11 = [
    0, 0, 0, 0, 0, 0, 0, 0, 0, 0, 0, 0, 0, 0, 0, 0, 0, 0, 0xF0, 0x70, 0xF0, 0x78, 0xF0, 0xF0, 0x78, 0xF8, 0xF0, 0x78, 0xF8, 0xF0,
    0x78, 0xF8, 0xF0, 0x79, 0xF9, 0xE0, 0x3D, 0xFD, 0xE0, 0x3D, 0xFD, 0xE0, 0x3D, 0xDD, 0xE0, 0x3F, 0xDF, 0xE0, 0x3F, 0xDF, 0xC0,
    0x1F, 0x9F, 0xC0, 0x1F, 0x8F, 0xC0, 0x1F, 0x8F, 0xC0, 0x1F, 0x8F, 0x80, 0x0F, 0x0F, 0x80, 0x0F, 0x07, 0x80, 0, 0, 0, 0, 0, 0,
    0, 0, 0, 0, 0, 0, 0, 0, 0, 0, 0, 0, 0, 0, 0, 0x1F, 0x07, 0xC0, 0x0F, 0x87, 0x80, 0x07, 0x8F, 0x80, 0x07, 0xCF, 0, 0x03, 0xDF,
    0, 0x03, 0xFE, 0, 0x01, 0xFC, 0, 0x01, 0xFC, 0, 0, 0xFC, 0, 0x01, 0xFC, 0, 0x01, 0xFE, 0, 0x03, 0xFE, 0, 0x03, 0xDF, 0, 0x07,
    0xCF, 0, 0x0F, 0x8F, 0x80, 0x0F, 0x87, 0x80, 0x1F, 0x07, 0xC0, 0, 0, 0, 0, 0, 0, 0, 0, 0, 0, 0, 0, 0, 0, 0, 0, 0, 0, 0, 0, 0,
    0x3E, 0x0F, 0x80, 0x1E, 0x0F, 0, 0x1E, 0x0F, 0, 0x0F, 0x1E, 0, 0x0F, 0x1E, 0, 0x07, 0xBC, 0, 0x07, 0xBC, 0, 0x03, 0xF8, 0,
    0x03, 0xF8, 0, 0x01, 0xF0, 0, 0x01, 0xF0, 0, 0x01, 0xF0, 0, 0x01, 0xF0, 0, 0x01, 0xF0, 0, 0x01, 0xF0, 0, 0x01, 0xF0, 0, 0x01,
    0xF0, 0, 0, 0, 0, 0, 0, 0, 0, 0, 0, 0, 0, 0, 0, 0, 0, 0, 0, 0, 0, 0, 0, 0x0F, 0xFF, 0x80, 0x0F, 0xFF, 0x80, 0x0F, 0xFF, 0x80,
    0, 0x0F, 0, 0, 0x1E, 0, 0, 0x3E, 0, 0, 0x3C, 0, 0, 0x78, 0, 0, 0xF8, 0, 0x01, 0xF0, 0, 0x01, 0xE0, 0, 0x03, 0xE0, 0, 0x07,
    0xC0, 0, 0x07, 0x80, 0, 0x0F, 0xFF, 0x80, 0x0F, 0xFF, 0x80, 0x0F, 0xFF, 0x80, 0, 0, 0, 0, 0, 0, 0, 0xFC, 0, 0, 0xFC, 0, 0,
    0xFC, 0, 0, 0xF0, 0, 0, 0xF0, 0, 0, 0xF0, 0, 0, 0xF0, 0, 0, 0xF0, 0, 0, 0xF0, 0, 0, 0xF0, 0, 0, 0xF0, 0, 0, 0xF0, 0, 0, 0xF0,
    0, 0, 0xF0, 0, 0, 0xF0, 0, 0, 0xF0, 0, 0, 0xF0, 0, 0, 0xF0, 0, 0, 0xF0, 0, 0, 0xF0, 0, 0, 0xF0, 0, 0, 0xFC, 0, 0, 0xFC, 0]"

definition Font24_part_12 :: "u8 list" where
  "Font24_part_12 = [
    0, 0, 0, 0, 0, 0, 0, 0, 0, 0, 0, 0, 0, 0, 0, 0, 0, 0, 0x07, 0x80, 0, 0x07, 0x80, 0, 0x03, 0xC0, 0, 0x03, 0xC0, 0, 0x01, 0xE0,
    0, 0x01, 0xE0, 0, 0x01, 0xE0, 0, 0, 0xF0, 0, 0, 0xF0, 0, 0, 0x78, 0, 0, 0x78, 0, 0, 0x78, 0, 0, 0x3C, 0, 0, 0x3C, 0, 0, 0x3E,
    0, 0, 0x1E, 0, 0, 0x1E, 0, 0, 0x0F, 0, 0, 0, 0, 0x01, 0xF8, 0, 0x01, 0xF8, 0, 0x01, 0xF8, 0, 0, 0x78, 0, 0, 0x78, 0, 0, 0x78,
    0, 0, 0x78, 0, 0, 0x78, 0, 0, 0x78, 0, 0, 0x78, 0, 0, 0x78, 0, 0, 0x78, 0, 0, 0x78, 0, 0, 0x78, 0, 0, 0x78, 0, 0, 0x78, 0, 0,
    0x78, 0, 0, 0x78, 0, 0, 0x78, 0, 0, 0x78, 0, 0, 0x78, 0, 0x01, 0xF8, 0, 0x01, 0xF8, 0, 0, 0, 0, 0, 0, 0, 0, 0, 0, 0, 0, 0, 0,
    0, 0, 0, 0, 0, 0, 0x70, 0, 0, 0xF0, 0, 0, 0xF8, 0, 0x01, 0xF8, 0, 0x01, 0xDC, 0, 0x01, 0x9C, 0, 0x03, 0x8E, 0, 0x03, 0x8E, 0,
    0, 0, 0, 0, 0, 0, 0, 0, 0, 0, 0, 0, 0, 0, 0, 0, 0, 0, 0, 0, 0, 0, 0, 0, 0, 0, 0, 0, 0, 0, 0, 0, 0, 0, 0, 0, 0, 0, 0, 0, 0, 0,
    0, 0, 0, 0, 0, 0, 0, 0, 0, 0, 0, 0, 0, 0, 0, 0, 0, 0, 0, 0, 0, 0, 0, 0, 0, 0, 0, 0, 0, 0, 0, 0, 0, 0, 0, 0, 0, 0, 0, 0, 0, 0,
    0, 0, 0, 0, 0, 0, 0, 0, 0, 0, 0, 0, 0x07, 0xFF, 0, 0x07, 0xFF, 0, 0, 0, 0, 0, 0, 0, 0, 0, 0, 0, 0, 0, 0, 0, 0, 0, 0xF0, 0, 0,
    0x78, 0, 0, 0x38, 0, 0, 0x1C, 0, 0, 0, 0, 0, 0, 0, 0, 0, 0, 0, 0, 0, 0, 0, 0, 0, 0, 0, 0, 0, 0, 0, 0, 0, 0, 0, 0, 0, 0, 0, 0,
    0, 0, 0, 0, 0, 0, 0, 0, 0, 0, 0, 0, 0, 0]"

definition Font24_part_13 :: "u8 list" where
  "Font24_part_13 = [
    0, 0, 0, 0, 0, 0, 0, 0, 0, 0, 0, 0, 0, 0, 0, 0, 0, 0, 0, 0, 0, 0, 0, 0, 0, 0, 0, 0, 0, 0, 0, 0xF8, 0, 0x03, 0xFC, 0, 0x07,
    0xFE, 0, 0x07, 0x9F, 0, 0, 0x0F, 0, 0x01, 0xFF, 0, 0x03, 0xFF, 0, 0x07, 0x8F, 0, 0x07, 0x8F, 0, 0x07, 0x9F, 0, 0x07, 0xFF, 0,
    0x07, 0xFF, 0, 0x01, 0xEF, 0, 0, 0, 0, 0, 0, 0, 0, 0, 0, 0, 0, 0, 0, 0, 0, 0, 0, 0, 0x07, 0x80, 0, 0x07, 0x80, 0, 0x07, 0x80,
    0, 0x07, 0x80, 0, 0x07, 0x80, 0, 0x07, 0xBC, 0, 0x07, 0xFE, 0, 0x07, 0xFF, 0, 0x07, 0xCF, 0, 0x07, 0x87, 0x80, 0x07, 0x87,
    0x80, 0x07, 0x87, 0x80, 0x07, 0x87, 0x80, 0x07, 0x87, 0x80, 0x07, 0xCF, 0, 0x07, 0xFF, 0, 0x07, 0xFE, 0, 0x07, 0xBC, 0, 0, 0,
    0, 0, 0, 0, 0, 0, 0, 0, 0, 0, 0, 0, 0, 0, 0, 0, 0, 0, 0, 0, 0, 0, 0, 0, 0, 0, 0, 0, 0, 0, 0, 0, 0x7C, 0, 0x01, 0xFF, 0, 0x01,
    0xFF, 0, 0x03, 0xC7, 0x80, 0x03, 0xC7, 0x80, 0x03, 0xC0, 0, 0x03, 0xC0, 0, 0x03, 0xC0, 0, 0x03, 0xC7, 0x80, 0x03, 0xC7, 0x80,
    0x01, 0xFF, 0, 0x01, 0xFF, 0, 0, 0x7C, 0, 0, 0, 0, 0, 0, 0, 0, 0, 0, 0, 0, 0, 0, 0, 0, 0, 0, 0, 0, 0x0F, 0, 0, 0x0F, 0, 0,
    0x0F, 0, 0, 0x0F, 0, 0, 0x0F, 0, 0x01, 0xEF, 0, 0x03, 0xFF, 0, 0x07, 0xFF, 0, 0x07, 0x8F, 0, 0x07, 0x8F, 0, 0x07, 0x8F, 0,
    0x07, 0x8F, 0, 0x07, 0x8F, 0, 0x07, 0x8F, 0, 0x07, 0x8F, 0, 0x07, 0xFF, 0, 0x03, 0xFF, 0, 0x01, 0xE7, 0, 0, 0, 0, 0, 0, 0, 0,
    0, 0, 0, 0, 0, 0, 0, 0, 0, 0, 0, 0, 0, 0, 0, 0, 0, 0, 0, 0, 0, 0, 0, 0, 0, 0, 0, 0xF8, 0, 0x01, 0xFE, 0, 0x03, 0xFF, 0, 0x07,
    0xCF, 0, 0x07, 0x87, 0, 0x07, 0xFF, 0x80, 0x07, 0xFF, 0x80, 0x07, 0x80, 0, 0x07, 0x80, 0, 0x07, 0xC6, 0, 0x03, 0xFF, 0, 0x01,
    0xFE, 0, 0, 0x7C, 0, 0, 0, 0]"

definition Font24_part_14 :: "u8 list" where
  "Font24_part_14 = [
    0, 0, 0, 0, 0, 0, 0, 0, 0, 0, 0, 0, 0, 0, 0, 0, 0x3E, 0, 0, 0x7E, 0, 0, 0xFE, 0, 0, 0xF0, 0, 0, 0xF0, 0, 0x03, 0xFC, 0, 0x03,
    0xFC, 0, 0x03, 0xFC, 0, 0, 0xF0, 0, 0, 0xF0, 0, 0, 0xF0, 0, 0, 0xF0, 0, 0, 0xF0, 0, 0, 0xF0, 0, 0, 0xF0, 0, 0, 0xF0, 0, 0,
    0xF0, 0, 0, 0xF0, 0, 0, 0, 0, 0, 0, 0, 0, 0, 0, 0, 0, 0, 0, 0, 0, 0, 0, 0, 0, 0, 0, 0, 0, 0, 0, 0, 0, 0, 0xF7, 0x80, 0x03,
    0xFF, 0x80, 0x03, 0xFF, 0x80, 0x07, 0xCF, 0x80, 0x07, 0x87, 0x80, 0x07, 0x87, 0x80, 0x07, 0x87, 0x80, 0x07, 0x87, 0x80, 0x07,
    0x87, 0x80, 0x07, 0xCF, 0x80, 0x03, 0xFF, 0x80, 0x03, 0xFF, 0x80, 0, 0xF7, 0x80, 0, 0x0F, 0x80, 0x01, 0x0F, 0, 0x03, 0xFF, 0,
    0, 0, 0, 0, 0, 0, 0, 0, 0, 0, 0, 0, 0, 0, 0, 0x07, 0x80, 0, 0x07, 0x80, 0, 0x07, 0x80, 0, 0x07, 0x80, 0, 0x07, 0x80, 0, 0x07,
    0xBC, 0, 0x07, 0xFF, 0, 0x07, 0xFF, 0, 0x07, 0x8F, 0, 0x07, 0x8F, 0, 0x07, 0x87, 0, 0x07, 0x87, 0, 0x07, 0x87, 0, 0x07, 0x87,
    0, 0x07, 0x87, 0, 0x07, 0x87, 0, 0x07, 0x87, 0, 0x07, 0x87, 0, 0, 0, 0, 0, 0, 0, 0, 0, 0, 0, 0, 0, 0, 0, 0, 0, 0, 0, 0, 0x60,
    0, 0, 0xF0, 0, 0, 0xF0, 0, 0, 0x70, 0, 0, 0, 0, 0, 0xF0, 0, 0, 0xF0, 0, 0, 0xF0, 0, 0, 0xF0, 0, 0, 0xF0, 0, 0, 0xF0, 0, 0,
    0xF0, 0, 0, 0xF0, 0, 0, 0xF0, 0, 0, 0xF0, 0, 0, 0xF0, 0, 0, 0xF0, 0, 0, 0xF0, 0, 0, 0, 0, 0, 0, 0, 0, 0, 0, 0, 0, 0, 0, 0x70,
    0, 0, 0xF0, 0, 0, 0xF0, 0, 0, 0x70, 0, 0, 0, 0, 0, 0xF0, 0, 0, 0xF0, 0, 0, 0xF0, 0, 0, 0xF0, 0, 0, 0xF0, 0, 0, 0xF0, 0, 0,
    0xF0, 0, 0, 0xF0, 0, 0, 0xF0, 0, 0, 0xF0, 0, 0, 0xF0, 0, 0, 0xF0, 0, 0, 0xF0, 0, 0, 0xF0, 0, 0, 0xF0, 0, 0x03, 0xF0, 0]"

definition Font24_part_15 :: "u8 list" where
  "Font24_part_15 = [
    0, 0, 0, 0, 0, 0, 0, 0, 0, 0, 0, 0, 0, 0, 0, 0x07, 0x80, 0, 0x07, 0x80, 0, 0x07, 0x80, 0, 0x07, 0x80, 0, 0x07, 0x80, 0, 0x07,
    0x8F, 0x80, 0x07, 0x9F, 0, 0x07, 0x9E, 0, 0x07, 0xBC, 0, 0x07, 0xF8, 0, 0x07, 0xF8, 0, 0x07, 0xF8, 0, 0x07, 0xFC, 0, 0x07,
    0xFE, 0, 0x07, 0x9E, 0, 0x07, 0x8F, 0, 0x07, 0x8F, 0x80, 0x07, 0x87, 0x80, 0, 0, 0, 0, 0, 0, 0, 0, 0, 0, 0, 0, 0, 0, 0, 0, 0,
    0, 0, 0xF0, 0, 0, 0xF0, 0, 0, 0xF0, 0, 0, 0xF0, 0, 0, 0xF0, 0, 0, 0xF0, 0, 0, 0xF0, 0, 0, 0xF0, 0, 0, 0xF0, 0, 0, 0xF0, 0, 0,
    0xF0, 0, 0, 0xF0, 0, 0, 0xF0, 0, 0, 0xF0, 0, 0, 0xF0, 0, 0, 0xF0, 0, 0, 0xF0, 0, 0, 0xF0, 0, 0, 0, 0, 0, 0, 0, 0, 0, 0, 0, 0,
    0, 0, 0, 0, 0, 0, 0, 0, 0, 0, 0, 0, 0, 0, 0, 0, 0, 0, 0, 0, 0, 0, 0x7B, 0xE7, 0xC0, 0x7F, 0xFF, 0xE0, 0x7F, 0xFF, 0xE0, 0x7C,
    0xF9, 0xE0, 0x78, 0xF0, 0xF0, 0x78, 0xF0, 0xF0, 0x78, 0xF0, 0xF0, 0x78, 0xF0, 0xF0, 0x78, 0xF0, 0xF0, 0x78, 0xF0, 0xF0, 0x78,
    0xF0, 0xF0, 0x78, 0xF0, 0xF0, 0x78, 0xF0, 0xF0, 0, 0, 0, 0, 0, 0, 0, 0, 0, 0, 0, 0, 0, 0, 0, 0, 0, 0, 0, 0, 0, 0, 0, 0, 0, 0,
    0, 0, 0, 0, 0, 0, 0, 0x07, 0xBE, 0, 0x07, 0xFF, 0, 0x07, 0xFF, 0, 0x07, 0x8F, 0, 0x07, 0x8F, 0, 0x07, 0x87, 0, 0x07, 0x87, 0,
    0x07, 0x87, 0, 0x07, 0x87, 0, 0x07, 0x87, 0, 0x07, 0x87, 0, 0x07, 0x87, 0, 0x07, 0x87, 0, 0, 0, 0, 0, 0, 0, 0, 0, 0, 0, 0, 0,
    0, 0, 0, 0, 0, 0, 0, 0, 0, 0, 0, 0, 0, 0, 0, 0, 0, 0, 0, 0, 0, 0, 0xF8, 0, 0x01, 0xFE, 0, 0x03, 0xFF, 0, 0x07, 0xCF, 0, 0x07,
    0x87, 0x80, 0x07, 0x87, 0x80, 0x07, 0x87, 0x80, 0x07, 0x87, 0x80, 0x07, 0x87, 0x80, 0x07, 0xCF, 0, 0x03, 0xFF, 0, 0x01, 0xFE,
    0, 0, 0xF8, 0, 0, 0, 0]"

definition Font24_part_16 :: "u8 list" where
  "Font24_part_16 = [
    0, 0, 0, 0, 0, 0, 0, 0, 0, 0, 0, 0, 0, 0, 0, 0, 0, 0, 0, 0, 0, 0, 0, 0, 0x07, 0xBC, 0, 0x07, 0xFE, 0, 0x07, 0xFF, 0, 0x07,
    0xCF, 0, 0x07, 0x87, 0x80, 0x07, 0x87, 0x80, 0x07, 0x87, 0x80, 0x07, 0x87, 0x80, 0x07, 0x87, 0x80, 0x07, 0xCF, 0, 0x07, 0xFF,
    0, 0x07, 0xFE, 0, 0x07, 0xBC, 0, 0x07, 0x80, 0, 0x07, 0x80, 0, 0x07, 0x80, 0, 0, 0, 0, 0, 0, 0, 0, 0, 0, 0, 0, 0, 0, 0, 0, 0,
    0, 0, 0, 0, 0, 0, 0, 0, 0x01, 0xF7, 0, 0x03, 0xFF, 0, 0x07, 0xFF, 0, 0x07, 0x8F, 0, 0x07, 0x8F, 0, 0x07, 0x8F, 0, 0x07, 0x8F,
    0, 0x07, 0x8F, 0, 0x07, 0x8F, 0, 0x07, 0x8F, 0, 0x07, 0xFF, 0, 0x03, 0xFF, 0, 0x01, 0xEF, 0, 0, 0x0F, 0, 0, 0x0F, 0, 0, 0x0F,
    0, 0, 0, 0, 0, 0, 0, 0, 0, 0, 0, 0, 0, 0, 0, 0, 0, 0, 0, 0, 0, 0, 0, 0, 0, 0, 0, 0, 0, 0, 0, 0x01, 0xEE, 0, 0x01, 0xFE, 0,
    0x01, 0xFE, 0, 0x01, 0xFE, 0, 0x01, 0xE0, 0, 0x01, 0xE0, 0, 0x01, 0xE0, 0, 0x01, 0xE0, 0, 0x01, 0xE0, 0, 0x01, 0xE0, 0, 0x01,
    0xE0, 0, 0x01, 0xE0, 0, 0x01, 0xE0, 0, 0, 0, 0, 0, 0, 0, 0, 0, 0, 0, 0, 0, 0, 0, 0, 0, 0, 0, 0, 0, 0, 0, 0, 0, 0, 0, 0, 0, 0,
    0, 0, 0, 0, 0, 0xFC, 0, 0x01, 0xFE, 0, 0x03, 0xFF, 0, 0x03, 0xCF, 0, 0x03, 0xC0, 0, 0x03, 0xF8, 0, 0x01, 0xFE, 0, 0, 0x7F, 0,
    0, 0x0F, 0, 0x03, 0x87, 0x80, 0x03, 0xFF, 0, 0x01, 0xFE, 0, 0, 0xFC, 0, 0, 0, 0, 0, 0, 0, 0, 0, 0, 0, 0, 0, 0, 0, 0, 0, 0, 0,
    0, 0, 0, 0, 0, 0, 0, 0x78, 0, 0, 0x78, 0, 0, 0x78, 0, 0x01, 0xFE, 0, 0x01, 0xFE, 0, 0x01, 0xFE, 0, 0, 0x78, 0, 0, 0x78, 0, 0,
    0x78, 0, 0, 0x78, 0, 0, 0x78, 0, 0, 0x78, 0, 0, 0x78, 0, 0, 0x7E, 0, 0, 0x7E, 0, 0, 0x3E, 0, 0, 0, 0]"

definition Font24_part_17 :: "u8 list" where
  "Font24_part_17 = [
    0, 0, 0, 0, 0, 0, 0, 0, 0, 0, 0, 0, 0, 0, 0, 0, 0, 0, 0, 0, 0, 0, 0, 0, 0, 0, 0, 0, 0, 0, 0x07, 0x87, 0, 0x07, 0x87, 0, 0x07,
    0x87, 0, 0x07, 0x87, 0, 0x07, 0x87, 0, 0x07, 0x87, 0, 0x07, 0x87, 0, 0x07, 0x87, 0, 0x07, 0x87, 0, 0x07, 0x8F, 0, 0x07, 0xFF,
    0, 0x03, 0xFF, 0, 0x01, 0xE7, 0, 0, 0, 0, 0, 0, 0, 0, 0, 0, 0, 0, 0, 0, 0, 0, 0, 0, 0, 0, 0, 0, 0, 0, 0, 0, 0, 0, 0, 0, 0, 0,
    0, 0, 0x0F, 0x0F, 0, 0x07, 0x8F, 0, 0x07, 0x8F, 0, 0x07, 0x9E, 0, 0x07, 0x9E, 0, 0x03, 0xDE, 0, 0x03, 0xDC, 0, 0x03, 0xFC, 0,
    0x01, 0xFC, 0, 0x01, 0xF8, 0, 0x01, 0xF8, 0, 0, 0xF8, 0, 0, 0xF0, 0, 0, 0, 0, 0, 0, 0, 0, 0, 0, 0, 0, 0, 0, 0, 0, 0, 0, 0, 0,
    0, 0, 0, 0, 0, 0, 0, 0, 0, 0, 0, 0, 0, 0, 0x3C, 0x71, 0xE0, 0x1C, 0x71, 0xE0, 0x1C, 0x79, 0xE0, 0x1E, 0xF9, 0xC0, 0x1E, 0xF9,
    0xC0, 0x0E, 0xFB, 0xC0, 0x0E, 0xDF, 0xC0, 0x0F, 0xDF, 0x80, 0x0F, 0xCF, 0x80, 0x0F, 0xCF, 0x80, 0x07, 0x8F, 0x80, 0x07, 0x8F,
    0, 0x07, 0x87, 0, 0, 0, 0, 0, 0, 0, 0, 0, 0, 0, 0, 0, 0, 0, 0, 0, 0, 0, 0, 0, 0, 0, 0, 0, 0, 0, 0, 0, 0, 0, 0, 0, 0, 0x07,
    0x8F, 0, 0x07, 0x9E, 0, 0x03, 0xDE, 0, 0x03, 0xFC, 0, 0x01, 0xFC, 0, 0x01, 0xF8, 0, 0x01, 0xF8, 0, 0x01, 0xF8, 0, 0x03, 0xFC,
    0, 0x03, 0xFE, 0, 0x07, 0xDE, 0, 0x07, 0x9F, 0, 0x0F, 0x8F, 0, 0, 0, 0, 0, 0, 0, 0, 0, 0, 0, 0, 0, 0, 0, 0, 0, 0, 0, 0, 0, 0,
    0, 0, 0, 0, 0, 0, 0x0F, 0x0F, 0, 0x0F, 0x8F, 0, 0x07, 0x8F, 0, 0x07, 0x9E, 0, 0x07, 0x9E, 0, 0x03, 0xDE, 0, 0x03, 0xFC, 0,
    0x01, 0xFC, 0, 0x01, 0xFC, 0, 0x01, 0xF8, 0, 0, 0xF8, 0, 0, 0xF8, 0, 0, 0xF0, 0, 0, 0xF0, 0, 0, 0xF0, 0, 0x03, 0xE0, 0]"

definition Font24_part_18 :: "u8 list" where
  "Font24_part_18 = [
    0, 0, 0, 0, 0, 0, 0, 0, 0, 0, 0, 0, 0, 0, 0, 0, 0, 0, 0, 0, 0, 0, 0, 0, 0, 0, 0, 0, 0, 0, 0x03, 0xFF, 0, 0x03, 0xFF, 0, 0x03,
    0xFF, 0, 0, 0x1E, 0, 0, 0x3E, 0, 0, 0x3C, 0, 0, 0x78, 0, 0, 0xF8, 0, 0x01, 0xF0, 0, 0x01, 0xE0, 0, 0x03, 0xFF, 0x80, 0x03,
    0xFF, 0x80, 0x03, 0xFF, 0x80, 0, 0, 0, 0, 0, 0, 0, 0, 0, 0, 0x0C, 0, 0, 0x1C, 0, 0, 0x3C, 0, 0, 0x38, 0, 0, 0x78, 0, 0, 0x78,
    0, 0, 0x78, 0, 0, 0x78, 0, 0, 0x78, 0, 0, 0x70, 0, 0x01, 0xF0, 0, 0x01, 0xE0, 0, 0, 0xF0, 0, 0, 0x78, 0, 0, 0x78, 0, 0, 0x78,
    0, 0, 0x78, 0, 0, 0x78, 0, 0, 0x78, 0, 0, 0x38, 0, 0, 0x3C, 0, 0, 0x1C, 0, 0, 0, 0, 0, 0, 0, 0, 0, 0, 0, 0, 0, 0, 0, 0, 0,
    0x30, 0, 0, 0x30, 0, 0, 0x30, 0, 0, 0x30, 0, 0, 0x30, 0, 0, 0x30, 0, 0, 0x30, 0, 0, 0x30, 0, 0, 0x30, 0, 0, 0x30, 0, 0, 0x30,
    0, 0, 0x30, 0, 0, 0x30, 0, 0, 0x30, 0, 0, 0x30, 0, 0, 0x30, 0, 0, 0x30, 0, 0, 0x30, 0, 0, 0x30, 0, 0, 0, 0, 0, 0, 0, 0, 0xC0,
    0, 0, 0xE0, 0, 0, 0xF0, 0, 0, 0x70, 0, 0, 0x70, 0, 0, 0x70, 0, 0, 0x70, 0, 0, 0x70, 0, 0, 0x78, 0, 0, 0x78, 0, 0, 0x3C, 0, 0,
    0x1C, 0, 0, 0x3C, 0, 0, 0x78, 0, 0, 0x70, 0, 0, 0x70, 0, 0, 0x70, 0, 0, 0x70, 0, 0, 0x70, 0, 0, 0x70, 0, 0, 0xF0, 0, 0, 0xE0,
    0, 0, 0, 0, 0, 0, 0, 0, 0, 0, 0, 0, 0, 0, 0, 0, 0, 0, 0, 0, 0, 0, 0, 0, 0, 0, 0, 0, 0, 0, 0, 0, 0, 0, 0, 0, 0, 0, 0, 0, 0x03,
    0xC1, 0x80, 0x07, 0xE3, 0x80, 0x07, 0xF3, 0x80, 0x0F, 0x7F, 0, 0x0E, 0x3F, 0, 0x04, 0x1E, 0, 0, 0, 0, 0, 0, 0, 0, 0, 0, 0, 0,
    0, 0, 0, 0]"

definition Font24_Table :: "u8 list" where
  "Font24_Table =
    Font24_part_0 @ Font24_part_1 @ Font24_part_2 @ Font24_part_3 @ Font24_part_4 @ Font24_part_5 @ Font24_part_6 @
    Font24_part_7 @ Font24_part_8 @ Font24_part_9 @ Font24_part_10 @ Font24_part_11 @ Font24_part_12 @ Font24_part_13 @
    Font24_part_14 @ Font24_part_15 @ Font24_part_16 @ Font24_part_17 @ Font24_part_18"

definition Font24 :: sFONT where
  "Font24 = \<lparr>font_table = Font24_Table, Width = 22, Height = 24\<rparr>"

lemma Font24_length: "length Font24_Table = 6840"
  by (simp add: Font24_Table_def Font24_part_0_def Font24_part_1_def Font24_part_2_def Font24_part_3_def Font24_part_4_def Font24_part_5_def Font24_part_6_def Font24_part_7_def Font24_part_8_def Font24_part_9_def Font24_part_10_def Font24_part_11_def Font24_part_12_def Font24_part_13_def Font24_part_14_def Font24_part_15_def Font24_part_16_def Font24_part_17_def Font24_part_18_def length_4 del: list.size(4))

end
