(* ===== verification/Hw_Glyphs.thy ===== *)
theory Hw_Glyphs
  imports Hw_Fonts Hw_Picture
begin

unbundle bit_operations_syntax

text \<open>Which characters the fonts have: the printable ones from space to tilde, and what happens for one that is cut off.\<close>

subsection \<open>Characters that are there\<close>

definition printable :: "u8 \<Rightarrow> bool" where
  "printable c \<longleftrightarrow> 32 \<le> c \<and> c \<le> 126"

definition fonts :: "sFONT list" where
  "fonts = [Font8, Font12, Font16, Font20, Font24]"

lemma unat_printable: "printable c \<Longrightarrow> unat (c - 32) = unat c - 32 \<and> 32 \<le> unat c \<and> unat c \<le> 126"
  by (simp add: printable_def word_le_nat_alt unat_sub)

lemma full_font:
  assumes "95 * unat (Height font) * row_bytes font \<le> length (font_table font)" "printable c"
  shows "has_char font c"
proof -
  have "unat (c - 32) + 1 \<le> 95" using unat_printable [OF assms(2)] by linarith
  then have "(unat (c - 32) + 1) * (unat (Height font) * row_bytes font) \<le> 95 * (unat (Height font) * row_bytes font)"
    by (rule mult_le_mono1)
  then show ?thesis using assms(1) unfolding has_char_def mult.assoc by (rule order_trans)
qed

lemma Font12_has: "printable c \<Longrightarrow> has_char Font12 c \<longleftrightarrow> c \<noteq> 126"
  using unat_printable [of c]
  by (auto simp: has_char_def row_bytes_def Font12_def Font12_length word_unat_eq_iff)

lemma fonts_have:
  assumes "font \<in> set fonts" "printable c"
  shows "has_char font c \<longleftrightarrow> font = Font12 \<longrightarrow> c \<noteq> 126"
proof -
  have "has_char Font8 c" "has_char Font16 c" "has_char Font20 c" "has_char Font24 c"
    by (rule full_font [OF _ assms(2)], simp add: row_bytes_def Font8_def Font16_def Font20_def Font24_def
        Font8_length Font16_length Font20_length Font24_length)+
  then show ?thesis using assms(1) Font12_has [OF assms(2)] by (auto simp: fonts_def)
qed

subsection \<open>A character that is cut off\<close>

lemma for_loop_ensures_inv:
  assumes "\<And>j t. I j t \<Longrightarrow> ensures (f j t) (I (Suc j))" and "I i s"
  shows "ensures (for_loop i k f s) (I (i + k))"
  using assms(2)
proof (induction k arbitrary: i s)
  case (Suc k)
  have "ensures (for_loop (Suc i) k f t) (I (i + Suc k))" if "I (Suc i) t" for t using Suc.IH [OF that] by simp
  then show ?case
    unfolding for_loop.simps ensures_bind by (rule ensures_mono [OF assms(1) [OF Suc.prems]])
qed simp

lemma for_loop_append: "for_loop i (m + n) f s = Option.bind (for_loop i m f s) (for_loop (i + m) n f)"
proof (induction m arbitrary: i s)
  case (Suc m)
  show ?case by (cases "f i s") (simp_all add: Suc.IH)
qed simp

text \<open>Whether or not a row can be drawn, the pointer advances by its octets.\<close>

lemma row_advances: "ensures (font_row cfg font c x y (k, q)) (\<lambda>(k', r). k' = k + row_bytes font)"
proof -
  let ?W = "unat (Width font)"
  let ?body = "\<lambda>i (k, p). do {
        b \<leftarrow> rd (font_table font) k;
        p1 \<leftarrow> (if bit b (7 - i mod 8) then paint_DrawPoint cfg c (of_int (x + int i)) (of_int y) p else Some p);
        Some (if i mod 8 = 7 then k + 1 else k, p1) }"
  have any: "ensures m P" if "\<And>r. P r" for m :: "paint_obj_t option" and P using that by (rule ensuresI)
  have loop: "ensures (for_loop 0 ?W ?body (k, q)) ((\<lambda>n (k', r). k' = k + n div 8) (0 + ?W))"
    by (rule for_loop_ensures_inv) (auto simp: wlp div_8_Suc [symmetric] intro!: any)
  have "row_bytes font = (if ?W mod 8 \<noteq> 0 then ?W div 8 + 1 else ?W div 8)"
    unfolding row_bytes_def by presburger
  then show ?thesis
    unfolding font_row_def prod.case ensures_bind by (intro ensures_mono [OF loop]) auto
qed

lemma row_outside:
  assumes "length (font_table font) \<le> k" "0 < unat (Width font)"
  shows "font_row cfg font c x y (k, q) = None"
proof -
  obtain n where "unat (Width font) = Suc n" using assms(2) by (cases "unat (Width font)") auto
  then show ?thesis using assms(1) by (simp add: font_row_def rd_def)
qed

lemma cut_off:
  assumes "j < unat (Height font)" "0 < unat (Width font)"
    and "length (font_table font) \<le> (unat (ch - 32) * unat (Height font) + j) * row_bytes font"
    and fit: "x + unat (Width font) \<le> unat (x_end p)" "y + unat (Height font) \<le> unat (y_end p)" "x < 2 ^ 31" "y < 2 ^ 31"
  shows "paint_DrawFont cfg ch font c (int x) (int y) p = None"
proof -
  let ?k = "\<lambda>n. (unat (ch - 32) * unat (Height font) + n) * row_bytes font"
  let ?row = "\<lambda>j. font_row cfg font c (int x) (int y + int j)"
  obtain m where n: "unat (Height font) = j + Suc m" using assms(1) less_iff_Suc_add [of j "unat (Height font)"] by auto
  have step: "ensures (?row i kr) (\<lambda>(k', r). k' = ?k (Suc i))" if "(\<lambda>(k', r). k' = ?k i) kr" for i kr
    using row_advances [of cfg font c "int x" "int y + int i" "fst kr" "snd kr"] that by (auto simp: algebra_simps elim!: ensures_mono)
  have "ensures (for_loop 0 j ?row (?k 0, p)) ((\<lambda>n (k', r). k' = ?k n) (0 + j))"
    by (rule for_loop_ensures_inv) (use step in auto)
  then have "for_loop 0 (j + Suc m) ?row (?k 0, p) = None"
    unfolding for_loop_append using row_outside [OF assms(3,2)]
    by (cases "for_loop 0 j ?row (?k 0, p)") (auto simp: ensures_def)
  then have none: "for_loop 0 (unat (Height font)) ?row (?k 0, p) = None" by (simp only: n)
  have "\<not> (x_end p < of_int (int x + int (unat (Width font))) \<or> y_end p < of_int (int y + int (unat (Height font))))"
    using int_compare [OF fit(3) unat_u16_small] int_compare [OF fit(4) unat_u16_small] fit(1,2) by (simp add: not_less)
  then show ?thesis
    using none by (simp add: paint_DrawFont_def row_bytes_def del: of_int_add)
qed

lemma tilde_stops:
  assumes "frame_ok cfg q" "same_frame p q" "\<forall>ch \<in> set s. printable ch" "126 \<in> set s"
    and "x + length s * 11 \<le> unat (x_end p)" "y + 12 \<le> unat (y_end p)" "unat (x_end p) < 2 ^ 31" "y < 2 ^ 31"
  shows "draw_chars cfg Font12 c (int y) s (int x) q = None"
  using assms(1-5)
proof (induction s arbitrary: x q)
  case (Cons ch cs)
  have w: "unat (Width Font12) = 11" "unat (Height Font12) = 12" by (simp_all add: Font12_def)
  have x: "x < 2 ^ 31" "x + 11 \<le> unat (x_end q)" using Cons.prems(2,5) assms(7) by (simp_all add: same_frame_simps)
  then have fits: "of_int (int x + int (unat (Width Font12))) \<le> x_end q"
    using int_compare [OF x(1) unat_u16_small, of "x_end q" "Width Font12"] by (simp add: w not_less del: of_int_add)
  have y: "y + 12 \<le> unat (y_end q)" using Cons.prems(2) assms(6) by (simp add: same_frame_simps)
  show ?case
  proof (cases "ch = 126")
    case True
    have "paint_DrawFont cfg ch Font12 c (int x) (int y) q = None"
      by (rule cut_off [of 11]) (use x y assms(8) in \<open>simp_all add: w True Font12_length row_bytes_def, simp add: Font12_def Font12_length\<close>)
    then show ?thesis using fits by simp
  next
    case False
    then have "has_char Font12 ch" using Font12_has Cons.prems(3) by simp
    from char_paints [OF Cons.prems(1,2) this x(1) assms(8), of c]
    obtain r where r: "paint_DrawFont cfg ch Font12 c (int x) (int y) q = Some r" "frame_ok cfg r" "same_frame q r"
      by (auto simp: paints_def elim: yieldsE)
    have "draw_chars cfg Font12 c (int y) cs (int (x + 11)) r = None"
      by (rule Cons.IH) (use r same_frame_trans [OF Cons.prems(2) r(3)] Cons.prems False in auto)
    then show ?thesis using fits r(1) by (simp add: w)
  qed
qed simp

end
