(* ===== verification/Display_Properties.thy ===== *)
theory Display_Properties
  imports Hw_Chunks Hw_Glyphs
begin

unbundle bit_operations_syntax

text \<open>The properties of the drawing library and of the display drivers, each with a concrete instance.\<close>

subsection \<open>Bands\<close>

lemma good_black_texts:
  assumes "\<forall>(s, x, y) \<in> set ts. s \<noteq> [] \<and> 0 \<notin> set s \<and> (\<forall>ch \<in> set s. has_char font ch)"
  shows "good_texts font (black_texts ts)"
  using assms by (fastforce simp: good_texts_def black_texts_def dest: in_set_takeD)

lemma panel_ok_commands:
  fixes d d' :: "('st, 'm) uc_disp_scheme"
  assumes "d' = d\<lparr>paint_cmds := k, paint_cmd_count := n\<rparr>"
  shows "panel_ok pc d' = panel_ok pc d" "paint_obj d' = paint_obj d"
  by (simp_all add: assms panel_ok_def)

lemma same_display_color:
  assumes "frame_ok pc p" "frame_ok pc q" "same_display p q"
  shows "texts_color pc p font ts = texts_color pc q font ts"
  using texts_color_display [OF assms] by (simp add: fun_eq_iff)

definition display_texts ::
  "disp_config \<Rightarrow> paint_config \<Rightarrow> hw_results \<Rightarrow> sFONT \<Rightarrow> (u8 list \<times> u16 \<times> u16) list \<Rightarrow> ('st, 'm) uc_disp_scheme \<Rightarrow>
    (int \<times> int list \<times> int \<times> ('st, 'm) uc_disp_scheme) option" where
  "display_texts c pc rc font ts d = do {
     (e1, d1) \<leftarrow> uc_display_clear_paint c pc rc d;
     (es, d2) \<leftarrow> print_texts ts d1;
     (e2, d3) \<leftarrow> uc_display_update_paint c pc rc font d2;
     Some (e1, es, e2, d3) }"

lemma display_texts_show:
  fixes d :: "('st, 'm) uc_disp_scheme"
  assumes ok: "panel_ok pc d" and rc: "writes_succeed rc" and q: "length (paint_cmds d) = 8" "length ts \<le> 8"
    and ts: "\<forall>(s, x, y) \<in> set ts. s \<noteq> [] \<and> 0 \<notin> set s \<and> (\<forall>ch \<in> set s. has_char font ch)"
  shows "yields (display_texts c pc rc font ts d) (\<lambda>(e1, es, e2, d3). e1 = 0 \<and> es = replicate (length ts) 0 \<and> e2 = 0 \<and>
    panel_shows pc (\<lambda>x y. texts_color pc (paint_obj d) font (black_texts ts) x y WHITE) (wd (paint_obj d)) 0 (ht (paint_obj d)) (hw_calls d3))"
  unfolding display_texts_def
proof (rule yields_bindI [OF clear_clears [OF ok rc]], clarify)
  fix d1 :: "('st, 'm) uc_disp_scheme"
  assume d1: "panel_ok pc d1" "same_display (paint_obj d) (paint_obj d1)" "paint_cmds d1 = paint_cmds d" "paint_cmd_count d1 = 0"
  have f: "frame_ok pc (paint_obj d)" "frame_ok pc (paint_obj d1)" using ok d1(1) by (simp_all add: panel_ok_def)
  note color = same_display_color [OF f d1(2)]
  have s: "wd (paint_obj d1) = wd (paint_obj d)" "ht (paint_obj d1) = ht (paint_obj d)" using d1(2) by (simp_all add: same_display_def)
  have pq: "length (paint_cmds d1) = 8" "paint_cmd_count d1 + length ts \<le> 8" "\<forall>(s, x, y) \<in> set ts. 0 \<notin> set s"
    using d1(3,4) q ts by auto
  show "yields (do { (es, d2) \<leftarrow> print_texts ts d1; (e2, d3) \<leftarrow> uc_display_update_paint c pc rc font d2; Some (0, es, e2, d3) })
    (\<lambda>(e1, es, e2, d3). e1 = 0 \<and> es = replicate (length ts) 0 \<and> e2 = 0 \<and>
    panel_shows pc (\<lambda>x y. texts_color pc (paint_obj d) font (black_texts ts) x y WHITE) (wd (paint_obj d)) 0 (ht (paint_obj d)) (hw_calls d3))"
  proof (rule yields_bindI [OF print_texts_queue [OF pq]])
    fix r :: "int list \<times> ('st, 'm) uc_disp_scheme"
    assume r: "case r of (es, d') \<Rightarrow> es = replicate (length ts) 0 \<and> queued_texts d' = queued_texts d1 @ black_texts ts \<and>
      length (paint_cmds d') = 8 \<and> paint_cmd_count d' = paint_cmd_count d1 + length ts \<and>
      d' = d1\<lparr>paint_cmds := paint_cmds d', paint_cmd_count := paint_cmd_count d'\<rparr>"
    obtain es d2 where r2: "r = (es, d2)" by (cases r)
    have "queued_texts d1 = []" by (simp add: queued_texts_def d1(4))
    then have d2: "es = replicate (length ts) 0" "queued_texts d2 = black_texts ts"
      and u: "d2 = d1\<lparr>paint_cmds := paint_cmds d2, paint_cmd_count := paint_cmd_count d2\<rparr>" using r by (auto simp: r2)
    have p2: "panel_ok pc d2" "paint_obj d2 = paint_obj d1" using panel_ok_commands [OF u] d1(1) by blast+
    have "good_texts font (queued_texts d2)" using good_black_texts [OF ts] d2(2) by simp
    note up = update_shows [OF p2(1) rc this, of c, unfolded d2(2) p2(2) s color [symmetric]]
    show "yields (case r of (es, d2) \<Rightarrow> do { (e2, d3) \<leftarrow> uc_display_update_paint c pc rc font d2; Some (0, es, e2, d3) })
      (\<lambda>(e1, es, e2, d3). e1 = 0 \<and> es = replicate (length ts) 0 \<and> e2 = 0 \<and>
      panel_shows pc (\<lambda>x y. texts_color pc (paint_obj d) font (black_texts ts) x y WHITE) (wd (paint_obj d)) 0 (ht (paint_obj d)) (hw_calls d3))"
      unfolding r2 case_prod_conv by (rule yields_bindI [OF up]) (auto simp: d2(1))
  qed
qed

text \<open>C17: the display driver with a frame of 16 rows clears its panel, takes up to eight texts and then draws them band
  by band. When every write to the panel succeeds, each point of the panel then has the colour it has in a frame of
  the whole display that is cleared and drawn on directly, with the texts cut at 63 characters.\<close>
theorem banded_display:
  fixes d :: "('st, 'm) uc_disp_scheme"
  assumes "panel_ok pc d" "writes_succeed rc" "length (paint_cmds d) = 8" "length ts \<le> 8"
    and "\<forall>(s, x, y) \<in> set ts. s \<noteq> [] \<and> 0 \<notin> set s \<and> (\<forall>ch \<in> set s. has_char font ch)"
    and "frame_ok pc p" "band_height p = 0" "same_display (paint_obj d) p"
  shows "yields (do { (e1, es, e2, d') \<leftarrow> display_texts c pc rc font ts d; q \<leftarrow> whole_picture pc font (black_texts ts) p; Some (e1, es, e2, d', q) })
    (\<lambda>(e1, es, e2, d', q). e1 = 0 \<and> es = replicate (length ts) 0 \<and> e2 = 0 \<and>
      (\<forall>x y. x < unat (p_width p) \<longrightarrow> y < unat (p_height p) \<longrightarrow> shown pc (hw_calls d') x y = Some (picture pc q x y)))"
proof -
  have s: "unat (p_width p) = wd (paint_obj d)" "unat (p_height p) = ht (paint_obj d)" using assms(8) by (simp_all add: same_display_def)
  have "frame_ok pc (paint_obj d)" using assms(1) by (simp add: panel_ok_def)
  note color = same_display_color [OF this assms(6,8)]
  note whole = whole_picture_color [OF assms(6,7) good_black_texts [OF assms(5)]]
  show ?thesis
    by (rule yields_bindI [OF display_texts_show [OF assms(1-5)]], clarify, rule yields_bindI [OF whole])
      (auto simp: panel_shows_def s color)
qed

subsection \<open>A small display\<close>

text \<open>16 by 20 points of one bit, and a font of 8 by 2 points that has the first three characters.\<close>

definition ex_paint :: paint_config where
  "ex_paint = \<lparr>wb_on = True, rw_on = False, three_colors = False, msb_first = True\<rparr>"

definition ex_frame :: paint_obj_t where
  "ex_frame = \<lparr>scanmode = PAINT_SCAN_MODE_1, direction = PAINT_DIRECTION_0, p_width = 16, p_height = 20, x_end = 16, y_end = 20,
     wb_buffer = replicate 40 0, rw_buffer = [], p_buffer_size = 40, band_height = 0, band_y_start = 0\<rparr>"

definition ex_band :: paint_obj_t where
  "ex_band = ex_frame\<lparr>wb_buffer := replicate 32 0, p_buffer_size := 32, band_height := 16\<rparr>"

definition ex_font :: sFONT where
  "ex_font = \<lparr>font_table = [0, 0, 0xFF, 0x81, 0x18, 0x7E], Width = 8, Height = 2\<rparr>"

definition ex_uc :: "unit uc_disp" where
  "ex_uc = \<lparr>img_buf = [], storage = (), x_resolution = 16, y_resolution = 20,
     buf_desc = \<lparr>bd_buf_size = 0, bd_width = 0, bd_height = 0, bd_pitch = 0\<rparr>, hw_calls = [], paint_obj = ex_band,
     paint_cmds = replicate 8 \<lparr>cmd_text = [], cmd_x = 0, cmd_y = 0\<rparr>, paint_cmd_count = 5\<rparr>"

definition ex_disp_config :: disp_config where
  "ex_disp_config = \<lparr>power_profile = True, controller_compat = True, image_storage = OTS_LFS, character_framebuffer = False,
     jf_paint_lib = True, display_type_6 = False, esl_display_width = 16, esl_display_height = 20, esl_image_buffer_size = 32,
     bt_dis_model = ''nRF''\<rparr>"

lemma ex_frame_ok: "frame_ok ex_paint ex_frame" "frame_ok ex_paint ex_band" "band_height ex_frame = 0" "same_display ex_band ex_frame"
  by (simp_all add: frame_ok_def ex_frame_def ex_band_def ex_paint_def turned_def rows_def same_display_def)

lemma ex_uc_ok: "panel_ok ex_paint ex_uc" "paint_obj ex_uc = ex_band" "length (paint_cmds ex_uc) = 8"
proof -
  show "paint_obj ex_uc = ex_band" "length (paint_cmds ex_uc) = 8" by (simp_all add: ex_uc_def)
  then show "panel_ok ex_paint ex_uc"
    using ex_frame_ok(2) by (simp add: panel_ok_def) (simp add: ex_uc_def ex_band_def ex_frame_def ex_paint_def)
qed

lemma all_succeed: "writes_succeed (\<lambda>ks. 0)"
  by (simp add: writes_succeed_def)

theorem banded_display_witness:
  "yields (do { (e1, es, e2, d') \<leftarrow> display_texts ex_disp_config ex_paint (\<lambda>ks. 0) ex_font [([33, 34], 0, 15)] ex_uc;
       q \<leftarrow> whole_picture ex_paint ex_font (black_texts [([33, 34], 0, 15)]) ex_frame; Some (e1, es, e2, d', q) })
     (\<lambda>(e1, es, e2, d', q). es = [0] \<and> shown ex_paint (hw_calls d') 3 15 = Some (picture ex_paint q 3 15) \<and>
       shown ex_paint (hw_calls d') 7 16 = Some (picture ex_paint q 7 16))"
proof -
  have ts: "\<forall>(s, x, y) \<in> set [([33, 34] :: u8 list, 0 :: u16, 15 :: u16)]. s \<noteq> [] \<and> 0 \<notin> set s \<and> (\<forall>ch \<in> set s. has_char ex_font ch)"
    by (simp add: has_char_def ex_font_def row_bytes_def)
  have s: "p_width ex_frame = 16" "p_height ex_frame = 20" by (simp_all add: ex_frame_def)
  show ?thesis
    by (rule yields_mono [OF banded_display [OF ex_uc_ok(1) all_succeed ex_uc_ok(3) _ ts ex_frame_ok(1,3), of ex_disp_config]])
      (auto simp: ex_uc_ok(2) ex_frame_ok(4) s)
qed

subsection \<open>The fonts\<close>

text \<open>C28: a text of printable characters that fits on the display can be drawn with each of the five fonts and colours exactly
  the points of its characters, with one exception: the table of \<open>Font12\<close> lacks the last row of its last
  character, so a tilde is read from outside of the table.\<close>
theorem printable_text:
  assumes "frame_ok pc p" "font \<in> set fonts" "s \<noteq> []" "\<forall>ch \<in> set s. printable ch"
    and "x + length s * unat (Width font) \<le> unat (x_end p)" "y + unat (Height font) \<le> unat (y_end p)"
  shows "if font = Font12 \<and> 126 \<in> set s then paint_DrawString pc s font c (int x) (int y) p = None
    else yields (paint_DrawString pc s font c (int x) (int y) p) (paints pc (text_points p font s x y) c p)"
proof -
  have small: "unat (x_end p) < 2 ^ 31" "unat (y_end p) < 2 ^ 31"
    using assms(1) by (auto simp: frame_ok_def)
  have xy: "x < 2 ^ 31" "y < 2 ^ 31" using small assms(5,6) by simp_all
  show ?thesis
  proof (cases "font = Font12 \<and> 126 \<in> set s")
    case True
    have "unat (Width Font12) = 11" "unat (Height Font12) = 12" by (simp_all add: Font12_def)
    with True have "draw_chars pc Font12 c (int y) s (int x) p = None"
      by (intro tilde_stops [OF assms(1) _ assms(4)]) (use assms(5,6) small xy in \<open>simp_all add: same_frame_def\<close>)
    with True show ?thesis using assms(3) by (simp add: paint_DrawString_def)
  next
    case False
    have "\<forall>ch \<in> set s. has_char font ch" using False assms(4) fonts_have [OF assms(2)] by auto
    from text_paints [OF assms(1,3) this xy] show ?thesis by (simp only: if_not_P [OF False])
  qed
qed

theorem printable_text_witness:
  "paint_DrawString ex_paint [126] Font12 BLACK 0 0 ex_frame = None \<and>
   yields (paint_DrawString ex_paint [72, 105] Font8 BLACK 1 2 ex_frame) (\<lambda>q. same_frame ex_frame q)"
proof -
  have f: "Font12 \<in> set fonts" "Font8 \<in> set fonts" "Font8 \<noteq> Font12" by (simp_all add: fonts_def Font8_def Font12_def)
  have a: "[126 :: u8] \<noteq> []" "\<forall>ch \<in> set [126]. printable ch" "0 + length [126 :: u8] * unat (Width Font12) \<le> unat (x_end ex_frame)"
    "0 + unat (Height Font12) \<le> unat (y_end ex_frame)"
    by (simp_all add: printable_def Font12_def ex_frame_def)
  have b: "[72, 105 :: u8] \<noteq> []" "\<forall>ch \<in> set [72, 105]. printable ch" "1 + length [72, 105 :: u8] * unat (Width Font8) \<le> unat (x_end ex_frame)"
    "2 + unat (Height Font8) \<le> unat (y_end ex_frame)"
    by (simp_all add: printable_def Font8_def ex_frame_def)
  have "Font8 = Font12 \<and> 126 \<in> set [72, 105 :: u8] \<longleftrightarrow> False" using f(3) by simp
  then have "yields (paint_DrawString ex_paint [72, 105] Font8 BLACK 1 2 ex_frame) (paints ex_paint (text_points ex_frame Font8 [72, 105] 1 2) BLACK ex_frame)"
    using printable_text [OF ex_frame_ok(1) f(2) b, of BLACK] by (simp only: if_False) simp
  then show ?thesis
    using printable_text [OF ex_frame_ok(1) f(1) a, of BLACK] by (auto simp: paints_def elim: yields_mono)
qed

subsection \<open>Rectangles\<close>

lemma fits_no_wrap:
  "rect_fits p r \<Longrightarrow> unat (rect_x r) + unat (rect_width r) < 2 ^ 32 \<and> unat (rect_y r) + unat (rect_height r) < 2 ^ 32"
  using unsigned_less [of "x_end p", where 'a = nat] unsigned_less [of "y_end p", where 'a = nat] by (auto simp: rect_fits_def)

text \<open>C27: filling a rectangle that fits on the display is the same as drawing its points one by one, in any order, on a
  whole picture as in a band and in every direction and scan mode, except for direction 90 and a rectangle that is no
  square. Exactly the points of the rectangle change.\<close>
theorem fill_rect_is_points:
  assumes "frame_ok pc p" "rect_fits p r" "direction p = PAINT_DIRECTION_90 \<longrightarrow> rect_width r = rect_height r"
    and "(\<lambda>(x, y). (unat x, unat y)) ` set ps = rect_points r"
  shows "yields (do { a \<leftarrow> paint_FillRect pc c r p; b \<leftarrow> draw_points pc c ps p; Some (a, b) })
    (\<lambda>(a, b). \<forall>x y. x < unat (p_width p) \<longrightarrow> in_frame p y \<longrightarrow> picture pc a x y = picture pc b x y \<and>
      picture pc a x y = (if (x, y) \<in> (\<lambda>(i, j). spot p i j) ` rect_points r then shown_color pc c else picture pc p x y))"
proof -
  let ?S = "(\<lambda>(i, j). spot p i j) ` rect_points r"
  have S: "(\<lambda>(x, y). spot p (unat x) (unat y)) ` set ps = ?S"
    unfolding assms(4) [symmetric] by (simp add: image_image case_prod_unfold)
  have "\<forall>(x, y) \<in> set ps. (unat x, unat y) \<in> rect_points r" using assms(4) by auto
  then have on: "\<forall>(x, y) \<in> set ps. on_display p (unat x) (unat y)"
    using assms(2) by (fastforce simp: rect_points_def rect_fits_def on_display_def)
  have a: "yields (paint_FillRect pc c r p) (paints pc ?S c p)"
    using rect_paints [OF assms(1,3), of c] fits_no_wrap [OF assms(2)] assms(2) by simp
  have b: "yields (draw_points pc c ps p) (paints pc ?S c p)"
    using points_paint [OF assms(1) _ on, of c] by (simp add: S same_frame_def)
  show ?thesis
    by (rule yields_bindI [OF a], rule yields_bindI [OF b]) (auto simp: paints_def)
qed

theorem fill_rect_is_points_witness:
  "yields (do { a \<leftarrow> paint_FillRect ex_paint BLACK \<lparr>rect_x = 3, rect_y = 4, rect_width = 2, rect_height = 1\<rparr> ex_frame;
       b \<leftarrow> draw_points ex_paint BLACK [(4, 4), (3, 4)] ex_frame; Some (a, b) })
     (\<lambda>(a, b). picture ex_paint a 3 4 = picture ex_paint b 3 4 \<and> picture ex_paint a 5 4 = picture ex_paint ex_frame 5 4)"
proof -
  let ?r = "\<lparr>rect_x = 3, rect_y = 4, rect_width = 2, rect_height = 1\<rparr> :: paint_rect_t"
  have pts: "rect_points ?r = {(3, 4), (4, 4)}" by (auto simp: rect_points_def)
  have "rect_fits ex_frame ?r" "direction ex_frame = PAINT_DIRECTION_90 \<longrightarrow> rect_width ?r = rect_height ?r"
    "(\<lambda>(x, y). (unat x, unat y)) ` set [(4 :: u32, 4 :: u32), (3, 4)] = rect_points ?r"
    unfolding pts by (auto simp: rect_fits_def ex_frame_def)
  note fill = fill_rect_is_points [OF ex_frame_ok(1) this, of BLACK]
  have s: "spot ex_frame i j = (i, j)" "in_frame ex_frame j \<longleftrightarrow> j < 20" "p_width ex_frame = 16" for i j
    by (simp_all add: in_frame_def first_row_def rows_def spot_def flipped_def ex_frame_def)
  show ?thesis
    by (rule yields_mono [OF fill [unfolded pts s]], clarify, frule spec [of _ 3], drule spec [of _ 5], drule spec [of _ 4], drule spec [of _ 4])
      (simp add: s, metis)
qed

text \<open>In direction 90 a rectangle is drawn with its width in the place of its height: the columns that are filled
  end where those of the rectangle would end if it were as high as it is wide.\<close>
theorem turned_rectangle:
  assumes "frame_ok pc p" "rect_fits p r" "direction p = PAINT_DIRECTION_90"
    and "unat (rect_height r) \<le> unat (rect_y r) + unat (rect_width r)" "unat (rect_y r) + unat (rect_width r) \<le> unat (p_width p)"
  shows "yields (paint_FillRect pc c r p) (paints pc ((\<lambda>(i, j). spot p i j) `
    {(i, j). unat (rect_x r) \<le> i \<and> i < unat (rect_x r) + unat (rect_width r) \<and>
       unat (rect_y r) + unat (rect_width r) - unat (rect_height r) \<le> j \<and> j < unat (rect_y r) + unat (rect_width r)}) c p)"
proof -
  let ?x = "unat (rect_x r)" and ?y = "unat (rect_y r)" and ?w = "unat (rect_width r)" and ?h = "unat (rect_height r)"
  have small: "wd p < 2 ^ 15" "ht p < 2 ^ 15" "turned p" using assms(1,3) by (simp_all add: frame_ok_def turned_def)
  have fit: "?x + ?w \<le> ht p" "?y + ?h \<le> wd p" using assms(1,2) small(3) by (simp_all add: frame_ok_def rect_fits_def)
  have yw: "unat (rect_y r + rect_width r) = ?y + ?w" by (rule unat_add_u32) (use assms(5) small in simp)
  have X: "unat (p_width p - (rect_y r + rect_width r)) = wd p - (?y + ?w)"
    using assms(5) by (simp add: unat_sub word_le_nat_alt yw)
  have Y: "unat (rect_x r + rect_width r) = ?x + ?w" by (rule unat_add_u32) (use fit small in simp)
  have in_w: "wd p - (?y + ?w) + ?h \<le> wd p" using assms(4,5) by simp
  have "\<not> (x_end p < rect_x r + rect_width r \<or> y_end p < rect_y r + rect_height r)"
    using assms(2) fits_no_wrap [OF assms(2)] by (simp add: rect_fits_def word_less_nat_alt unat_add_u32 not_less)
  then have fill: "paint_FillRect pc c r p = fill_rows pc c (p_width p - (rect_y r + rect_width r)) (rect_height r) (rect_x r + rect_width r) (rect_x r) p"
    by (simp add: paint_FillRect_def place_rect_def assms(3))
  have s: "(\<lambda>(a, b). spot p a b) = (\<lambda>(a, b). (wd p - b - 1, flipped p a))" using assms(3) by (simp add: spot_def fun_eq_iff)
  have cols: "(\<lambda>i. wd p - i - 1) ` {?y + ?w - ?h..<?y + ?w} = {wd p - (?y + ?w)..<wd p - (?y + ?w) + ?h}"
    using image_flipped(1) [of "?y + ?w - ?h" ?h "wd p"] assms(4,5) by simp
  have "{(i, j). ?x \<le> i \<and> i < ?x + ?w \<and> ?y + ?w - ?h \<le> j \<and> j < ?y + ?w} = {?x..<?x + ?w} \<times> {?y + ?w - ?h..<?y + ?w}" by auto
  then have "(\<lambda>(i, j). spot p i j) ` {(i, j). ?x \<le> i \<and> i < ?x + ?w \<and> ?y + ?w - ?h \<le> j \<and> j < ?y + ?w} =
      block p (wd p - (?y + ?w)) (wd p - (?y + ?w) + ?h) ?x (?x + ?w)"
    by (simp only: s image_turned cols block_def)
  then show ?thesis
    using rows_paint [OF assms(1), of "p_width p - (rect_y r + rect_width r)" "rect_height r" "rect_x r + rect_width r" c "rect_x r"] in_w fit
    by (simp add: fill X Y)
qed

theorem turned_rectangle_witness:
  "yields (paint_FillRect ex_paint BLACK \<lparr>rect_x = 3, rect_y = 4, rect_width = 3, rect_height = 1\<rparr> (paint_SetDirection PAINT_DIRECTION_90 ex_frame))
     (\<lambda>q. picture ex_paint q 11 3 = WHITE \<and> picture ex_paint q 9 3 = BLACK)"
proof -
  let ?p = "paint_SetDirection PAINT_DIRECTION_90 ex_frame" and ?r = "\<lparr>rect_x = 3, rect_y = 4, rect_width = 3, rect_height = 1\<rparr> :: paint_rect_t"
  have h: "frame_ok ex_paint ?p" by (rule direction_frame [OF ex_frame_ok(1)])
  have "rect_fits ?p ?r" "direction ?p = PAINT_DIRECTION_90" "unat (rect_height ?r) \<le> unat (rect_y ?r) + unat (rect_width ?r)"
    "unat (rect_y ?r) + unat (rect_width ?r) \<le> unat (p_width ?p)"
    by (simp_all add: rect_fits_def paint_SetDirection_def ex_frame_def)
  note fill = turned_rectangle [OF h this, of BLACK]
  have s: "spot ?p i j = (16 - j - 1, i)" "in_frame ?p j \<longleftrightarrow> j < 20" "p_width ?p = 16" for i j
    by (simp_all add: in_frame_def first_row_def rows_def spot_def flipped_def paint_SetDirection_def ex_frame_def)
  have S: "{(i, j). unat (rect_x ?r) \<le> i \<and> i < unat (rect_x ?r) + unat (rect_width ?r) \<and> unat (rect_y ?r) + unat (rect_width ?r) - unat (rect_height ?r) \<le> j \<and>
      j < unat (rect_y ?r) + unat (rect_width ?r)} = {(3, 6), (4, 6), (5, 6)}" by auto
  have w: "picture ex_paint ?p 11 3 = WHITE" by code_simp
  have c: "shown_color ex_paint BLACK = BLACK" by code_simp
  show ?thesis
    by (rule yields_mono [OF fill [unfolded S]]) (simp add: paints_def s w c)
qed

subsection \<open>Images\<close>

text \<open>C16: with the LittleFS storage, displaying an image whose file has a well-formed header shows the picture in the
  file completely: the panel is blanked, every eight rows are written to their place, in order and without gaps, the
  panel is switched on again, the code is 0 and the file keeps its content.\<close>
theorem image_on_display:
  fixes d :: "('f lfs, 'm) disp_scheme"
  assumes "fs_ok A" "fs_reliable A" "lfs_callbacks A mnt cb" "writes_succeed rc" "image_storage c = OTS_LFS"
    and "fa_file A (fst (storage d)) (lfs_path mnt (unat i)) = Some v" "image_file v w h pic"
    and "w \<le> x_resolution d" "h \<le> y_resolution d" "unat w * unat h < 2 ^ 31"
    and "length (img_buf d) = esl_image_buffer_size c" "6 \<le> esl_image_buffer_size c" "unat w \<le> esl_image_buffer_size c"
  shows "yields (ssd_display_control c cb rc i d) (\<lambda>(err, d'). err = 0 \<and> fa_file A (fst (storage d')) (lfs_path mnt (unat i)) = Some v \<and>
    (\<exists>on off b. hw_calls d' = hw_calls d @ on @ [Blanking_on] @ piece_writes (unat w) b 0 pic @ [Blanking_off] @ off \<and>
       bd_width b = w \<and> (\<forall>k \<in> set (on @ off). \<not> is_write k) \<and> concat (map write_bytes (piece_writes (unat w) b 0 pic)) = pic))"
proof -
  have "0 < unat w" using assms(7) by (simp add: image_file_def)
  then have "concat (map write_bytes (piece_writes (unat w) b 0 pic)) = pic" for b by (rule piece_writes_bytes)
  then show ?thesis using ssd_shows_file [OF assms] by simp
qed

definition ex_image :: "u8 list" where
  "ex_image = [0, 0, 4, 0, 16, 0, 1, 2, 3, 4, 5, 6, 7, 8]"

definition ex_lfs_callbacks :: "(string \<Rightarrow> u8 list option) lfs callbacks" where
  "ex_lfs_callbacks = \<lparr>cb_display_control = True, cb_display_associated = True, cb_display_unassociated = True, cb_sensor_control = None,
     cb_vs_command_handler = None, cb_vs_response_handler = None, cb_buffer_img = None, cb_open_image = Some (lfs_open_image file_map ''/ots''),
     cb_close_image = Some (lfs_close_image file_map), cb_write_img = Some (lfs_write_img file_map ''/ots''),
     cb_read_img = Some (lfs_read_img file_map ''/ots''), cb_read_img_size = lfs_read_img_size file_map ''/ots'', cb_delete_imgs = None,
     cb_display_init = None, cb_led_init = None, cb_sensor_init = None\<rparr>"

definition ex_disp :: "(string \<Rightarrow> u8 list option) lfs disp" where
  "ex_disp = \<lparr>img_buf = replicate 32 0, storage = ([lfs_path ''/ots'' 1 \<mapsto> ex_image], None), x_resolution = 16, y_resolution = 20,
     buf_desc = \<lparr>bd_buf_size = 0, bd_width = 0, bd_height = 0, bd_pitch = 0\<rparr>, hw_calls = []\<rparr>"

theorem image_on_display_witness:
  "yields (ssd_display_control ex_disp_config ex_lfs_callbacks (\<lambda>ks. 0) 1 ex_disp) (\<lambda>(err, d'). err = 0 \<and>
     concat (map write_bytes (hw_calls d')) = [1, 2, 3, 4, 5, 6, 7, 8])"
proof -
  have cb: "lfs_callbacks file_map ''/ots'' ex_lfs_callbacks" by (simp add: lfs_callbacks_def ex_lfs_callbacks_def)
  have img: "fa_file file_map (fst (storage ex_disp)) (lfs_path ''/ots'' (unat (1 :: u8))) = Some ex_image"
    by (simp add: ex_disp_def file_map_def)
  have wf: "image_file ex_image 4 16 [1, 2, 3, 4, 5, 6, 7, 8]"
    by (simp add: image_file_def ex_image_def le16_def)
  have fields: "image_storage ex_disp_config = OTS_LFS" "(4 :: u16) \<le> x_resolution ex_disp" "(16 :: u16) \<le> y_resolution ex_disp"
    "unat (4 :: u16) * unat (16 :: u16) < 2 ^ 31" "length (img_buf ex_disp) = esl_image_buffer_size ex_disp_config"
    "6 \<le> esl_image_buffer_size ex_disp_config" "unat (4 :: u16) \<le> esl_image_buffer_size ex_disp_config"
    by (simp_all add: ex_disp_config_def ex_disp_def)
  have no: "concat (map write_bytes ks) = []" if "\<forall>k \<in> set ks. \<not> is_write k" for ks
  proof -
    have "write_bytes k = []" if "\<not> is_write k" for k using that by (cases k) (simp_all add: is_write_def)
    then show ?thesis using that by simp
  qed
  have "hw_calls ex_disp = []" by (simp add: ex_disp_def)
  then show ?thesis
    using image_on_display [OF file_map_ok file_map_reliable cb all_succeed fields(1) img wf fields(2-7)]
    by (auto simp: no elim!: yields_mono)
qed

text \<open>C31: the loop that shows an image file always ends, if the panel takes the writes, and writes as often as there
  are rows of \<open>w\<close> bytes in the \<open>n\<close> bytes after the header, but when there is less than one such row, as for a
  picture of less than eight rows of points, it goes around all of \<open>size_t\<close>: more than \<open>2^32 / w\<close> writes.\<close>
theorem image_loop_writes:
  fixes d :: "('st, 'm) disp_scheme"
  assumes "reads_in_buffer cb" "writes_succeed rc" "0 < unat (bd_width (buf_desc d))"
    and "unat (bd_width (buf_desc d)) \<le> length (img_buf d)"
  shows "yields (draw_file cb i (write_chunk rc) img_size err d) (\<lambda>(stopped, err', d'). \<not> stopped \<and>
    (let n = unat (img_size - 6); w = unat (bd_width (buf_desc d)) in
      \<exists>ks. hw_calls d' = hw_calls d @ ks \<and> (\<forall>k \<in> set ks. is_write k) \<and>
        length ks = (if n = 0 then 0 else if w \<le> n then (n + w - 1) div w else 1 + (2 ^ 32 + n - 1) div w)))"
  using draw_file_count [OF assms, of i img_size err] by (simp add: wrote_def loop_writes_def Let_def)

theorem image_loop_writes_witness:
  "yields (draw_file ex_lfs_callbacks 1 (write_chunk (\<lambda>ks. 0)) 14 6
       (ex_disp\<lparr>buf_desc := \<lparr>bd_buf_size = 8, bd_width = 16, bd_height = 4, bd_pitch = 16\<rparr>\<rparr>))
     (\<lambda>(stopped, err', d'). length (hw_calls d') = 268435457)"
proof -
  have r: "reads_in_buffer ex_lfs_callbacks"
    unfolding reads_in_buffer_def ex_lfs_callbacks_def callbacks.simps option.case
    using lfs_map.read_ok by blast
  let ?d = "ex_disp\<lparr>buf_desc := \<lparr>bd_buf_size = 8, bd_width = 16, bd_height = 4, bd_pitch = 16\<rparr>\<rparr>"
  have "0 < unat (bd_width (buf_desc ?d))" "unat (bd_width (buf_desc ?d)) \<le> length (img_buf ?d)" by (simp_all add: ex_disp_def)
  from image_loop_writes [OF r all_succeed this, of 1 14 6] show ?thesis
    by (rule yields_mono) (auto simp: ex_disp_def)
qed

end
