(* ===== verification/Ap_State.thy ===== *)
theory Ap_State
  imports Esl_Common
begin

unbundle bit_operations_syntax

text \<open>
  The state of the access point role: \<open>struct bt_esl_client\<close>, the structs of \<open>service/esl_client.h\<close> it
  consists of, and the static variables of \<open>service/esl_client.c\<close>. As on the tag's side, what the code
  asks the platform to do is appended to \<open>c_trace\<close>, what it reads from the platform is an input, and
  \<open>None\<close> is undefined behaviour; a function that waits for a flag no callback is going to set does
  not return, which is \<open>None\<close> too. The development kit's LEDs, logging and the work queues' threads
  are not modelled; a submitted work item is an entry of the trace, its handler a definition of its own.
\<close>

subsection \<open>Constants\<close>

abbreviation (input) DEFAULT_RESPONSE_START :: u8 where "DEFAULT_RESPONSE_START \<equiv> 0"
abbreviation (input) ESL_ECP_COMMAND_MAX_LEN :: nat where "ESL_ECP_COMMAND_MAX_LEN \<equiv> 17"
abbreviation (input) DISP_INF_SIZE :: nat where "DISP_INF_SIZE \<equiv> 5"
abbreviation (input) ESL_GROUPID_RFU_BIT :: nat where "ESL_GROUPID_RFU_BIT \<equiv> 7"
abbreviation (input) BT_ATT_INVALID_HANDLE :: u16 where "BT_ATT_INVALID_HANDLE \<equiv> 0"
abbreviation (input) BT_ATT_MAX_ATTRIBUTE_LEN :: nat where "BT_ATT_MAX_ATTRIBUTE_LEN \<equiv> 512"

abbreviation (input) EAGAIN :: int where "EAGAIN \<equiv> 11"
abbreviation (input) EACCES :: int where "EACCES \<equiv> 13"
abbreviation (input) ENOBUFS :: int where "ENOBUFS \<equiv> 105"
abbreviation (input) EALREADY :: int where "EALREADY \<equiv> 120"
abbreviation (input) ENOTSUP :: int where "ENOTSUP \<equiv> 134"

text \<open>\<open>enum ESL_CLIENT_HANDLES\<close>: indices into the table of handles.\<close>

abbreviation (input) HANDLE_ESL_ADDR :: nat where "HANDLE_ESL_ADDR \<equiv> 0"
abbreviation (input) HANDLE_AP_SYNC_KEY :: nat where "HANDLE_AP_SYNC_KEY \<equiv> 1"
abbreviation (input) HANDLE_ESL_RESP_KEY :: nat where "HANDLE_ESL_RESP_KEY \<equiv> 2"
abbreviation (input) HANDLE_ESL_ABS_TIME :: nat where "HANDLE_ESL_ABS_TIME \<equiv> 3"
abbreviation (input) HANDLE_DISP_INF :: nat where "HANDLE_DISP_INF \<equiv> 4"
abbreviation (input) HANDLE_IMAGE_INF :: nat where "HANDLE_IMAGE_INF \<equiv> 5"
abbreviation (input) HANDLE_SENSOR_INF :: nat where "HANDLE_SENSOR_INF \<equiv> 6"
abbreviation (input) HANDLE_LED_INF :: nat where "HANDLE_LED_INF \<equiv> 7"
abbreviation (input) HANDLE_ECP :: nat where "HANDLE_ECP \<equiv> 8"
abbreviation (input) HANDLE_ECP_CCC :: nat where "HANDLE_ECP_CCC \<equiv> 9"
abbreviation (input) HANDLE_DIS_PNPID :: nat where "HANDLE_DIS_PNPID \<equiv> 10"
abbreviation (input) NUMBERS_OF_HANDLE :: nat where "NUMBERS_OF_HANDLE \<equiv> 11"

subsection \<open>Structs\<close>

datatype AP_SYNC_BUFFER_STATUS = SYNC_EMPTY | SYNC_READY_TO_PUSH | SYNC_PUSHED | SYNC_RESP_FULL

record bt_esl_rsp_buffer =
  rb_key :: bt_esl_key_material
  rb_data :: "u8 list"
  rb_len :: u8
  rb_slot :: u8
  expect_esl_addr :: u8
  rb_status :: AP_SYNC_BUFFER_STATUS

record bt_esl_sync_buffer =
  sb_data :: "u8 list"
  sb_len :: u8
  sb_status :: AP_SYNC_BUFFER_STATUS
  sb_rsp :: "bt_esl_rsp_buffer list"

record bt_addr_le =
  ba_type :: u8
  ba_val :: "u8 list"

text \<open>A connection object: its peer, and what \<open>bt_conn_get_info\<close> says of it.\<close>

record bt_conn =
  conn_peer :: bt_addr_le
  conn_info_err :: int
  conn_connected :: bool

text \<open>\<open>struct bt_esl_chrc_data\<close> as the access point compiles it; \<open>dev_displays\<close> is the array's memory.\<close>

record ap_device =
  dev_esl_addr :: u16
  dev_ble_addr :: bt_addr_le
  dev_rsp_key :: bt_esl_key_material
  dev_max_image :: u8
  dev_displays :: "u8 list"
  dev_past_needed :: bool
  dev_display_count :: u16
  dev_sensor_count :: u16
  dev_led_count :: u16
  dev_sensors :: "esl_sensor_inf list"
  dev_led_type :: "u8 list"
  dev_pnp_vid :: u16
  dev_pnp_pid :: u16
  dev_connect_from :: ESL_ACL_SOURCE

text \<open>
  \<open>struct bt_esl_client_internal\<close>: of \<open>notify_state\<close> one bit is used; \<open>ecp_write_params.data\<close> is null
  until the first command and the static \<open>ecp_buf\<close> afterwards.
\<close>

record bt_esl_client_internal =
  g_notif_enabled :: bool
  g_basic_state :: u32
  g_handles :: "u16 list"
  g_ecp_written :: bool
  g_ecp_length :: u16
  g_device :: ap_device
  g_otc_handles :: "u16 list"
  g_image_crc :: u32
  g_cur_object :: u64

record tag_addr_node =
  node_addr :: bt_addr_le
  node_connected :: bool

datatype discovery_state = DISCOVERY_STATE_START | DISCOVERY_STATE_ESL | DISCOVERY_STATE_OTS
  | DISCOVERY_STATE_DIS | DISCOVERY_STATE_COUNT

text \<open>One entry of the parameters of \<open>bt_le_per_adv_set_subevent_data\<close>.\<close>

record subevent_data =
  sd_subevent :: u8
  sd_slot_start :: u8
  sd_slot_count :: u8
  sd_bytes :: "u8 list"

text \<open>What the code prints of a received response, a line the host on the serial port parses.\<close>

datatype report =
    Rep_err u8
  | Rep_led u8
  | Rep_basic u16 u32
  | Rep_display u8 u8
  | Rep_sensor u8 "u8 list"
  | Rep_vendor "u8 list"
  | Rep_written u8 u8 u32 u32 \<comment> \<open>connection, image of the tag, length, checksum\<close>
  | Rep_image_valid bool
  | Rep_response u8 u8 "u8 list" \<comment> \<open>group, slot, bytes\<close>
  | Rep_dump u8 u8 u8 "u8 list" \<comment> \<open>group, the number after SLOT, the one after ESL_ADDR, bytes\<close>

datatype ap_work = Sync_fill_work | Resp_fill_work | Config_work | Disc_work | Img_work | Tag_load_work
  | List_tag_work | Ap_pawr_work

datatype ap_effect =
    Ap_work ap_work
  | Ap_work_cancel ap_work
  | Ap_set_subevents "subevent_data list"
  | Ap_gatt_write nat u16 "u8 list" bool \<comment> \<open>connection, handle, value, with response\<close>
  | Ap_gatt_read nat "u16 list"
  | Ap_subscribe nat u16 u16
  | Ap_gatt_discover nat discovery_state
  | Ap_exchange_mtu nat
  | Ap_set_security nat
  | Ap_unpair "bt_addr_le option"
  | Ap_past nat
  | Ap_disconnect nat
  | Ap_connect nat bt_addr_le "u8 option" \<comment> \<open>index, peer, subevent of a synchronised tag\<close>
  | Ap_scan_start
  | Ap_scan_stop
  | Ap_ots_select nat u64
  | Ap_ots_write nat "u8 list"
  | Ap_report report
  | Ap_sem_give
  | Ap_ots_unregister
  | Ap_advertise bool
  | Ap_configured bool u8 u16 \<comment> \<open>the line the host gets: success, connection, address\<close>
  | Ap_store_tag ap_device
  | Ap_ots_metadata nat
  | Ap_ots_checksum nat u32
  | Ap_security_level nat u16
  | Ap_store_key bt_addr_le "u8 list"

subsection \<open>State\<close>

text \<open>The three bits of \<open>acl_state\<close> are separate; flags are modelled by the functions that wait.\<close>

record ap =
  c_scanning :: bool
  c_scan_pending :: bool
  c_connecting :: bool
  c_conn :: "bt_conn option list"
  c_gatt :: "bt_esl_client_internal list"
  c_scanned :: "tag_addr_node list"
  c_scan_one_shot :: bool
  c_ap_key :: bt_esl_key_material
  c_randomizer :: "u8 list"
  c_esl_count :: int
  c_scanned_count :: u16
  c_pending_unassociated :: int
  c_sync_buf :: "bt_esl_sync_buffer list"
  c_img_buf :: "u8 list"
  c_addr_start :: u16
  c_ecp_buf :: "u8 list"
  c_anchor :: int
  c_sensor_temp :: "u8 list"
  c_read_offset :: u16
  c_auto_mode :: bool
  c_tags_per_group :: u16
  c_groups_per_button :: u8
  c_write_wo_rsp :: bool
  c_disc_state :: discovery_state
  c_disc_conn :: u8
  c_fill_start :: u8
  c_fill_count :: u8
  c_resp_subevent :: u8
  c_resp_slot :: u8
  c_config_conn :: u8
  c_config_addr :: u16
  c_img_queue :: "(u8 \<times> u8 \<times> u16) list" \<comment> \<open>connection, image of the tag, stored image\<close>
  c_ots_written :: bool \<comment> \<open>\<open>esl_ots_write_flag\<close>\<close>
  c_settings :: settings
  c_security :: u8 \<comment> \<open>\<open>esl_ap_security_level\<close>\<close>
  c_tag_load :: "bt_addr_le \<times> u8" \<comment> \<open>of \<open>esl_tag_load_work\<close>\<close>
  c_pawr_onoff :: bool
  c_trace :: "ap_effect list"

definition ap_effect :: "ap_effect \<Rightarrow> ap \<Rightarrow> ap" where
  "ap_effect x s = s\<lparr>c_trace := c_trace s @ [x]\<rparr>"

subsection \<open>Configuration and inputs\<close>

record ap_config =
  peripheral_max :: nat
  max_conn :: nat
  max_group :: nat
  rsp_buffers :: nat \<comment> \<open>\<open>ESL_CLIENT_MAX_RESPONSE_SLOT_BUFFER\<close>\<close>
  num_response_slots :: u8
  tx_buffers :: nat
  default_esl_id :: u8
  default_group_id :: u8
  ap_auto_mode :: bool
  ap_auto_past :: bool
  ap_security :: bool
  ap_pts :: bool
  ap_tag_storage :: bool
  past_retry :: nat
  ap_display_max :: nat
  ap_sensor_max :: nat
  ap_led_max :: nat
  img_queue_max :: nat
  fs_path_len :: nat
  ap_demo_security :: bool


record ('s, 'm) ap_env =
  acfg :: ap_config
  ap_crc :: "u8 list \<Rightarrow> u32" \<comment> \<open>\<open>crc32_ieee\<close>\<close>
  azep :: "('s, 'm) zephyr"
  null_conn :: "int \<times> bool" \<comment> \<open>what \<open>bt_conn_get_info\<close> returns and stores for a null pointer\<close>
  null_peer :: "bt_addr_le option" \<comment> \<open>the address read through a null pointer; \<open>None\<close> when that faults\<close>

text \<open>
  What one run of a function reads from the platform: uptime, random bytes, the results of the calls.
  \<open>ai_write c h v\<close> is the code of writing \<open>v\<close> to handle \<open>h\<close> over connection \<open>c\<close>.
\<close>

record ap_inp =
  ai_now :: u32
  ai_rand :: "u8 list" \<comment> \<open>for a randomizer\<close>
  ai_rand_key :: "u8 list"
  ai_set_data :: int
  ai_write :: "nat \<Rightarrow> u16 \<Rightarrow> u8 list \<Rightarrow> int"
  ai_read :: int

text \<open>Kconfig's ranges.\<close>

definition ap_cfg_ok :: "ap_config \<Rightarrow> bool" where
  "ap_cfg_ok c \<longleftrightarrow> 1 \<le> max_group c \<and> max_group c \<le> 128 \<and> 1 \<le> rsp_buffers c \<and> rsp_buffers c \<le> 23 \<and>
     peripheral_max c \<le> max_conn c \<and> max_conn c \<le> 255 \<and> default_esl_id c \<noteq> ESL_ADDR_BROADCAST \<and>
     unat (default_group_id c) < 128"

subsection \<open>Well-formed states\<close>

definition rsp_buffer_ok :: "bt_esl_rsp_buffer \<Rightarrow> bool" where
  "rsp_buffer_ok r \<longleftrightarrow> key_ok (rb_key r) \<and> length (rb_data r) = ESL_ENCRTYPTED_DATA_MAX_LEN \<and>
     unat (rb_len r) \<le> ESL_ENCRTYPTED_DATA_MAX_LEN"

definition sync_buffer_ok :: "nat \<Rightarrow> bt_esl_sync_buffer \<Rightarrow> bool" where
  "sync_buffer_ok n b \<longleftrightarrow> length (sb_data b) = ESL_ENCRTYPTED_DATA_MAX_LEN \<and>
     unat (sb_len b) \<le> ESL_ENCRTYPTED_DATA_MAX_LEN \<and> length (sb_rsp b) = n \<and> list_all rsp_buffer_ok (sb_rsp b)"

definition wf_sync :: "('s, 'm) ap_env \<Rightarrow> ap \<Rightarrow> bool" where
  "wf_sync e s \<longleftrightarrow> key_ok (c_ap_key s) \<and> length (c_randomizer s) = EAD_RANDOMIZER_LEN \<and>
     length (c_sync_buf s) = max_group (acfg e) \<and>
     list_all (sync_buffer_ok (rsp_buffers (acfg e))) (c_sync_buf s)"

lemma wf_sync_effect [simp]: "wf_sync e (ap_effect x s) = wf_sync e s"
  by (simp add: wf_sync_def ap_effect_def)

lemma ap_effect_fields [simp]:
  "c_sync_buf (ap_effect x s) = c_sync_buf s" "c_gatt (ap_effect x s) = c_gatt s" "c_conn (ap_effect x s) = c_conn s"
  "c_ap_key (ap_effect x s) = c_ap_key s" "c_randomizer (ap_effect x s) = c_randomizer s"
  "c_trace (ap_effect x s) = c_trace s @ [x]" "c_anchor (ap_effect x s) = c_anchor s"
  "c_ecp_buf (ap_effect x s) = c_ecp_buf s" "c_write_wo_rsp (ap_effect x s) = c_write_wo_rsp s"
  "c_scanned (ap_effect x s) = c_scanned s" "c_addr_start (ap_effect x s) = c_addr_start s"
  by (simp_all add: ap_effect_def)

end
