(* ===== verification/Ap_Sync.thy ===== *)
theory Ap_Sync
  imports Ap_State
begin

unbundle bit_operations_syntax

text \<open>
  The buffers between the host and the periodic advertising with responses of \<open>service/esl_client.c\<close>:
  one command packet per group with its state, and one response per response slot. A packet is
  queued with \<open>esl_c_push_sync_buf\<close>, handed to the controller when it asks for the data of the
  coming subevents, answered, and released when the host has dumped the responses.
\<close>

subsection \<open>To the controller\<close>

text \<open>The body of the loop over the requested subevents; \<open>ps\<close> are the parameters collected so far.\<close>

definition push_subevent ::
  "('s, 'm) ap_env \<Rightarrow> u8 \<Rightarrow> nat \<Rightarrow> ap \<times> subevent_data list \<Rightarrow> (ap \<times> subevent_data list) option" where
  "push_subevent e group_id i = (\<lambda>(s, ps). do {
     let cur = (unat group_id + i) mod max_group (acfg e);
     b \<leftarrow> rd (c_sync_buf s) cur;
     (if sb_status b \<noteq> SYNC_READY_TO_PUSH then Some (s, ps)
      else if tx_buffers (acfg e) \<le> length ps then None
      else do {
        d \<leftarrow> rd_mem (sb_data b) 0 (unat (sb_len b));
        nb \<leftarrow> z_nb_add (azep e) ESL_ENCRTYPTED_DATA_MAX_LEN [] d;
        bs \<leftarrow> upd (c_sync_buf s) cur (b\<lparr>sb_status := SYNC_PUSHED\<rparr>);
        Some (s\<lparr>c_sync_buf := bs\<rparr>,
          ps @ [\<lparr>sd_subevent = of_nat cur, sd_slot_start = DEFAULT_RESPONSE_START,
                 sd_slot_count = num_response_slots (acfg e), sd_bytes = nb\<rparr>])
      })
   })"

text \<open>After a failed call the buffers of all parameters are ready to be pushed again.\<close>

fun push_failed :: "subevent_data list \<Rightarrow> ap \<Rightarrow> ap option" where
  "push_failed [] s = Some s"
| "push_failed (p # ps) s = do {
     b \<leftarrow> rd (c_sync_buf s) (unat (sd_subevent p));
     push_failed ps (s\<lparr>c_sync_buf := (c_sync_buf s)[unat (sd_subevent p) := b\<lparr>sb_status := SYNC_READY_TO_PUSH\<rparr>]\<rparr>)
   }"

definition esl_c_push_sync_to_controller ::
  "('s, 'm) ap_env \<Rightarrow> ap_inp \<Rightarrow> u8 \<Rightarrow> u8 \<Rightarrow> ap \<Rightarrow> (int \<times> ap) option" where
  "esl_c_push_sync_to_controller e x group_id count s = do {
     (s1, ps) \<leftarrow> for_loop 0 (unat count) (push_subevent e group_id) (s, []);
     (if ps = [] then Some (0, s1)
      else do {
        let s2 = ap_effect (Ap_set_subevents ps) s1;
        s3 \<leftarrow> (if ai_set_data x \<noteq> 0 then push_failed ps s2 else Some s2);
        Some (ai_set_data x, s3)
      })
   }"

definition esl_ap_sync_fill_buf_work_fn :: "('s, 'm) ap_env \<Rightarrow> ap_inp \<Rightarrow> ap \<Rightarrow> ap option" where
  "esl_ap_sync_fill_buf_work_fn e x s =
     map_option snd (esl_c_push_sync_to_controller e x (c_fill_start s) (c_fill_count s) s)"

definition pawr_request :: "u8 \<Rightarrow> u8 \<Rightarrow> ap \<Rightarrow> ap" where
  "pawr_request start count s = ap_effect (Ap_work Sync_fill_work) (s\<lparr>c_fill_start := start, c_fill_count := count\<rparr>)"

subsection \<open>From the host\<close>

definition esl_c_push_sync_buf ::
  "('s, 'm) ap_env \<Rightarrow> ap_inp \<Rightarrow> u8 list \<Rightarrow> u8 \<Rightarrow> u8 \<Rightarrow> ap \<Rightarrow> (int \<times> ap) option" where
  "esl_c_push_sync_buf e x data data_len group_id s = do {
     let g = unat group_id;
     b \<leftarrow> rd (c_sync_buf s) g;
     (if sb_status b = SYNC_EMPTY \<or> sb_status b = SYNC_PUSHED then do {
        (pa, r, len) \<leftarrow> esl_compose_ad_data (azep e) (sb_data b) data data_len (ai_rand x) (c_ap_key s);
        Some (0, ap_effect (Ap_work Sync_fill_work)
          (s\<lparr>c_sync_buf := (c_sync_buf s)[g := b\<lparr>sb_status := SYNC_READY_TO_PUSH, sb_data := pa, sb_len := len\<rparr>],
             c_randomizer := r\<rparr>))
      } else Some (- EBUSY, s))
   }"

text \<open>The response keys the host gives for the slots of a group.\<close>

definition esl_c_push_rsp_key :: "('s, 'm) ap_env \<Rightarrow> bt_esl_key_material list \<Rightarrow> u8 \<Rightarrow> ap \<Rightarrow> (int \<times> ap) option" where
  "esl_c_push_rsp_key e keys group_id s = do {
     s1 \<leftarrow> for_loop 0 (rsp_buffers (acfg e)) (\<lambda>i t. do {
        k \<leftarrow> rd keys i;
        b \<leftarrow> rd (c_sync_buf t) (unat group_id);
        r \<leftarrow> rd (sb_rsp b) i;
        rs \<leftarrow> upd (sb_rsp b) i (r\<lparr>rb_key := k\<rparr>);
        Some (t\<lparr>c_sync_buf := (c_sync_buf t)[unat group_id := b\<lparr>sb_rsp := rs\<rparr>]\<rparr>) }) s;
     Some (0, s1)
   }"

subsection \<open>Responses\<close>

definition upd_rsp ::
  "nat \<Rightarrow> nat \<Rightarrow> (bt_esl_rsp_buffer \<Rightarrow> bt_esl_rsp_buffer option) \<Rightarrow> ap \<Rightarrow> ap option" where
  "upd_rsp g i f s = do {
     b \<leftarrow> rd (c_sync_buf s) g;
     r \<leftarrow> rd (sb_rsp b) i;
     r1 \<leftarrow> f r;
     Some (s\<lparr>c_sync_buf := (c_sync_buf s)[g := b\<lparr>sb_rsp := (sb_rsp b)[i := r1]\<rparr>]\<rparr>)
   }"

definition set_sync_status :: "nat \<Rightarrow> AP_SYNC_BUFFER_STATUS \<Rightarrow> ap \<Rightarrow> ap option" where
  "set_sync_status g st s = do {
     b \<leftarrow> rd (c_sync_buf s) g;
     Some (s\<lparr>c_sync_buf := (c_sync_buf s)[g := b\<lparr>sb_status := st\<rparr>]\<rparr>)
   }"

definition pawr_response :: "u8 \<Rightarrow> u8 \<Rightarrow> u8 list \<Rightarrow> ap \<Rightarrow> ap option" where
  "pawr_response subevent slot buf s =
     (if buf = [] then Some s
      else do {
        s1 \<leftarrow> upd_rsp (unat subevent) (unat slot) (\<lambda>r. do {
           d \<leftarrow> wr_mem (rb_data r) 0 buf;
           Some (r\<lparr>rb_data := d, rb_len := of_nat (length buf)\<rparr>) }) s;
        Some (ap_effect (Ap_work Resp_fill_work) (s1\<lparr>c_resp_subevent := subevent, c_resp_slot := slot\<rparr>))
      })"

text \<open>\<open>decrypted_data\<close> holds 61 bytes.\<close>

definition esl_ap_resp_fill_buf_work_fn :: "('s, 'm) ap_env \<Rightarrow> ap \<Rightarrow> ap option" where
  "esl_ap_resp_fill_buf_work_fn e s = do {
     let g = unat (c_resp_subevent s);
     let i = unat (c_resp_slot s);
     s1 \<leftarrow> set_sync_status g SYNC_RESP_FULL s;
     s2 \<leftarrow> upd_rsp g i (\<lambda>r. Some (r\<lparr>rb_slot := c_resp_slot s\<rparr>)) s1;
     b \<leftarrow> rd (c_sync_buf s2) g;
     r \<leftarrow> rd (sb_rsp b) i;
     d0 \<leftarrow> rd (rb_data r) 0;
     d1 \<leftarrow> rd (rb_data r) 1;
     (if unat (rb_len r) \<noteq> unat d0 + 1 \<or> d1 \<noteq> BT_DATA_ENCRYPTED_AD_DATA then Some s2
      else do {
        s3 \<leftarrow> upd_rsp g i (\<lambda>r. Some (r\<lparr>rb_status := SYNC_RESP_FULL\<rparr>)) s2;
        buf \<leftarrow> rd_mem (rb_data r) 0 (unat (rb_len r));
        let n = z_ead_decrypted_size (azep e) (length buf) - AD_HEADER_LEN;
        data \<leftarrow> z_nb_pull (azep e) buf AD_HEADER_LEN;
        let (err, plain) = z_ead_decrypt (azep e) (session_key (rb_key r)) (iv (rb_key r)) data;
        (if ESL_ENCRTYPTED_DATA_MAX_LEN < length plain then None
         else if err = 0 then do {
           p \<leftarrow> rd_mem plain 0 n;
           s4 \<leftarrow> upd_rsp g i (\<lambda>r. do {
              d \<leftarrow> wr_mem (rb_data r) 0 p;
              Some (r\<lparr>rb_data := d, rb_len := of_nat n\<rparr>) }) s3;
           Some (ap_effect (Ap_report (Rep_response (c_resp_subevent s) (c_resp_slot s) p)) s4)
         }
         else Some s3)
      })
   }"

text \<open>
  The host takes the responses of a group and releases its buffers. The line printed has the expected
  address where it says slot and the slot where it says address, as the arguments are in that order.
\<close>

definition esl_c_dump_resp_buf :: "('s, 'm) ap_env \<Rightarrow> u8 \<Rightarrow> ap \<Rightarrow> ap option" where
  "esl_c_dump_resp_buf e group_id s = do {
     let g = unat group_id;
     s1 \<leftarrow> for_loop 0 (rsp_buffers (acfg e)) (\<lambda>i t. do {
        b \<leftarrow> rd (c_sync_buf t) g;
        r \<leftarrow> rd (sb_rsp b) i;
        (if rb_len r \<noteq> 0 then do {
           d \<leftarrow> rd_mem (rb_data r) 0 (unat (rb_len r));
           upd_rsp g i (\<lambda>r. Some (r\<lparr>rb_len := 0, rb_status := SYNC_EMPTY\<rparr>))
             (ap_effect (Ap_report (Rep_dump group_id (expect_esl_addr r) (of_nat i) d)) t)
         } else Some t) }) s;
     set_sync_status g SYNC_EMPTY s1
   }"

definition esl_c_dump_sync_buf :: "('s, 'm) ap_env \<Rightarrow> u8 \<Rightarrow> ap \<Rightarrow> ap option" where
  "esl_c_dump_sync_buf e group_id s = do {
     b \<leftarrow> rd (c_sync_buf s) (unat group_id);
     d \<leftarrow> rd_mem (sb_data b) 0 (unat (sb_len b));
     esl_c_dump_resp_buf e group_id s
   }"

fun sync_status_to_str :: "AP_SYNC_BUFFER_STATUS \<Rightarrow> string" where
  "sync_status_to_str SYNC_EMPTY = ''EMPTY''"
| "sync_status_to_str SYNC_READY_TO_PUSH = ''SYNC_READY_TO_PUSH''"
| "sync_status_to_str SYNC_PUSHED = ''SYNC_PUSHED''"
| "sync_status_to_str SYNC_RESP_FULL = ''SYNC_RESP_FULL''"

text \<open>Everything zero: no data, all buffers empty.\<close>

definition zero_rsp_buffer :: bt_esl_rsp_buffer where
  "zero_rsp_buffer = \<lparr>rb_key = \<lparr>session_key = replicate 16 0, iv = replicate 8 0\<rparr>,
     rb_data = replicate ESL_ENCRTYPTED_DATA_MAX_LEN 0, rb_len = 0, rb_slot = 0, expect_esl_addr = 0,
     rb_status = SYNC_EMPTY\<rparr>"

definition zero_sync_buf :: "('s, 'm) ap_env \<Rightarrow> bt_esl_sync_buffer list" where
  "zero_sync_buf e = replicate (max_group (acfg e))
     \<lparr>sb_data = replicate ESL_ENCRTYPTED_DATA_MAX_LEN 0, sb_len = 0, sb_status = SYNC_EMPTY,
      sb_rsp = replicate (rsp_buffers (acfg e)) zero_rsp_buffer\<rparr>"

definition esl_c_sync_buffer_init :: "('s, 'm) ap_env \<Rightarrow> ap \<Rightarrow> ap" where
  "esl_c_sync_buffer_init e s = s\<lparr>c_sync_buf := zero_sync_buf e\<rparr>"

subsection \<open>Well-formedness\<close>

lemma wf_sync_buf:
  "wf_sync e s \<Longrightarrow> g < max_group (acfg e) \<Longrightarrow> sync_buffer_ok (rsp_buffers (acfg e)) (c_sync_buf s ! g)"
  "wf_sync e s \<Longrightarrow> length (c_sync_buf s) = max_group (acfg e)"
  by (auto simp: wf_sync_def list_all_length)

lemma wf_sync_update:
  "wf_sync e s \<Longrightarrow> sync_buffer_ok (rsp_buffers (acfg e)) b \<Longrightarrow> wf_sync e (s\<lparr>c_sync_buf := (c_sync_buf s)[g := b]\<rparr>)"
  by (simp add: wf_sync_def list_all_update)

lemma wf_set_sync_status:
  assumes "wf_sync e s" "g < max_group (acfg e)"
  shows "yields (set_sync_status g st s) (wf_sync e)"
proof -
  have "sync_buffer_ok (rsp_buffers (acfg e)) ((c_sync_buf s ! g)\<lparr>sb_status := st\<rparr>)"
    using wf_sync_buf(1) [OF assms] by (simp add: sync_buffer_ok_def)
  then show ?thesis
    using assms wf_sync_buf(2) [OF assms(1)] by (simp add: set_sync_status_def wp wf_sync_update)
qed

lemma wf_upd_rsp:
  assumes "wf_sync e s" "g < max_group (acfg e)" "i < rsp_buffers (acfg e)"
    and f: "\<And>r. rsp_buffer_ok r \<Longrightarrow> yields (f r) rsp_buffer_ok"
  shows "yields (upd_rsp g i f s) (wf_sync e)"
proof -
  let ?b = "c_sync_buf s ! g"
  have b: "sync_buffer_ok (rsp_buffers (acfg e)) ?b" by (rule wf_sync_buf(1) [OF assms(1,2)])
  then have r: "i < length (sb_rsp ?b)" "rsp_buffer_ok (sb_rsp ?b ! i)"
    using assms(3) by (auto simp: sync_buffer_ok_def list_all_length)
  have "sync_buffer_ok (rsp_buffers (acfg e)) (?b\<lparr>sb_rsp := (sb_rsp ?b)[i := r1]\<rparr>)" if "rsp_buffer_ok r1" for r1
    using b that by (simp add: sync_buffer_ok_def list_all_update)
  then show ?thesis
    using assms(1,2) wf_sync_buf(2) [OF assms(1)] r
    by (auto simp: upd_rsp_def wp wf_sync_update intro!: yields_mono [OF f])
qed

lemma wf_sync_init: "key_ok (c_ap_key s) \<Longrightarrow> length (c_randomizer s) = EAD_RANDOMIZER_LEN \<Longrightarrow>
    wf_sync e (esl_c_sync_buffer_init e s)"
  by (simp add: wf_sync_def esl_c_sync_buffer_init_def zero_sync_buf_def sync_buffer_ok_def rsp_buffer_ok_def zero_rsp_buffer_def
      key_ok_def list_all_length)

lemma wf_pawr_request [simp]: "wf_sync e (pawr_request st n s) = wf_sync e s"
  by (simp add: wf_sync_def pawr_request_def ap_effect_def)

lemma wf_pawr_response:
  assumes "wf_sync e s" "unat g < max_group (acfg e)" "unat i < rsp_buffers (acfg e)" "length b \<le> 61"
  shows "yields (pawr_response g i b s) (wf_sync e)"
proof (cases "b = []")
  case False
  have "yields (upd_rsp (unat g) (unat i) (\<lambda>r. do {
           d \<leftarrow> wr_mem (rb_data r) 0 b;
           Some (r\<lparr>rb_data := d, rb_len := of_nat (length b)\<rparr>) }) s) (wf_sync e)"
    by (rule wf_upd_rsp [OF assms(1-3)]) (use assms(4) in \<open>auto simp: wp rsp_buffer_ok_def unat_of_nat_u8\<close>)
  then show ?thesis
    using False by (auto simp: pawr_response_def wp wf_sync_def ap_effect_def elim!: yields_mono)
qed (simp add: pawr_response_def assms(1))

text \<open>A composed packet fits its buffer.\<close>

lemma compose_length:
  assumes z: "zephyr_ok z" and k: "key_ok key" and r: "length rnd = 5" and n: "unat n \<le> 48"
    and p: "unat n \<le> length payload" and pa: "length pa = 61"
  shows "yields (esl_compose_ad_data z pa payload n rnd key) (\<lambda>(pa', r', l).
    length pa' = 61 \<and> length r' = 5 \<and> unat l \<le> 61)"
proof -
  have l: "ensures (esl_compose_ad_data z pa payload n rnd key) (\<lambda>(pa', r', l). l = n + 13)"
    by (auto simp: esl_compose_ad_data_def wlp ensures_def Let_def split: Option.bind_splits prod.splits)
  have "unat (n + 13) \<le> 61" using unat_add_small [of n 13] n by simp
  then show ?thesis
    using compose_total [OF z k r n p pa] l pa by (auto simp: yields_def ensures_def)
qed

lemma wf_push_sync_buf:
  assumes z: "zephyr_ok (azep e)" and wf: "wf_sync e s" and g: "unat g < max_group (acfg e)"
    and n: "unat n \<le> 48" "unat n \<le> length data" and x: "length (ai_rand x) = 5"
  shows "yields (esl_c_push_sync_buf e x data n g s) (\<lambda>(r, t). wf_sync e t)"
proof -
  let ?b = "c_sync_buf s ! unat g"
  have b: "sync_buffer_ok (rsp_buffers (acfg e)) ?b" by (rule wf_sync_buf(1) [OF wf g])
  have k: "key_ok (c_ap_key s)" "length (sb_data ?b) = 61"
    using wf b by (simp_all add: wf_sync_def sync_buffer_ok_def)
  have up: "wf_sync e (s\<lparr>c_sync_buf := (c_sync_buf s)[unat g := ?b\<lparr>sb_status := SYNC_READY_TO_PUSH, sb_data := pa, sb_len := l\<rparr>],
      c_randomizer := r\<rparr>)" if "length pa = 61" "length r = 5" "unat l \<le> 61" for pa r l
    using wf b that by (simp add: wf_sync_def sync_buffer_ok_def list_all_update)
  have len: "unat g < length (c_sync_buf s)" using g wf_sync_buf(2) [OF wf] by simp
  show ?thesis
    unfolding esl_c_push_sync_buf_def rd_in [OF len] Let_def
    using wf up by (auto simp: wp intro!: yields_mono [OF compose_length [OF z k(1) x n k(2)]])
qed

subsection \<open>What a request of the controller pushes\<close>

definition set_status :: "nat list \<Rightarrow> AP_SYNC_BUFFER_STATUS \<Rightarrow> bt_esl_sync_buffer list \<Rightarrow> bt_esl_sync_buffer list" where
  "set_status cs st bs = fold (\<lambda>c bs. bs[c := (bs ! c)\<lparr>sb_status := st\<rparr>]) cs bs"

lemma set_status_simps [simp]:
  "set_status [] st bs = bs"
  "set_status (c # cs) st bs = set_status cs st (bs[c := (bs ! c)\<lparr>sb_status := st\<rparr>])"
  by (simp_all add: set_status_def)

lemma length_set_status [simp]: "length (set_status cs st bs) = length bs"
  by (induction cs arbitrary: bs) simp_all

lemma nth_set_status:
  "i < length bs \<Longrightarrow> set_status cs st bs ! i = (if i \<in> set cs then (bs ! i)\<lparr>sb_status := st\<rparr> else bs ! i)"
proof (induction cs arbitrary: bs)
  case (Cons c cs)
  then show ?case by (cases "c = i") auto
qed simp

lemma set_status_back:
  assumes "\<forall>c \<in> set cs. c < length bs \<and> sb_status (bs ! c) = st"
  shows "set_status cs st (set_status cs st' bs) = bs"
  by (rule nth_equalityI) (use assms in \<open>auto simp: nth_set_status\<close>)

text \<open>The subevents of a request whose buffers are ready, and their parameters.\<close>

definition window :: "('s, 'm) ap_env \<Rightarrow> u8 \<Rightarrow> nat \<Rightarrow> nat \<Rightarrow> nat list" where
  "window e g i n = map (\<lambda>j. (unat g + j) mod max_group (acfg e)) [i..<i + n]"

definition ready_subevents :: "('s, 'm) ap_env \<Rightarrow> u8 \<Rightarrow> nat \<Rightarrow> nat \<Rightarrow> ap \<Rightarrow> nat list" where
  "ready_subevents e g i n s = filter (\<lambda>c. sb_status (c_sync_buf s ! c) = SYNC_READY_TO_PUSH) (window e g i n)"

definition subevent_of :: "('s, 'm) ap_env \<Rightarrow> ap \<Rightarrow> nat \<Rightarrow> subevent_data" where
  "subevent_of e s c = \<lparr>sd_subevent = of_nat c, sd_slot_start = DEFAULT_RESPONSE_START,
     sd_slot_count = num_response_slots (acfg e),
     sd_bytes = take (unat (sb_len (c_sync_buf s ! c))) (sb_data (c_sync_buf s ! c))\<rparr>"

lemma window_Suc: "window e g i (Suc n) = (unat g + i) mod max_group (acfg e) # window e g (Suc i) n"
  by (simp add: window_def upt_rec)

lemma mod_add_inj:
  assumes "((a :: nat) + i) mod n = (a + j) mod n" "i < j" "j < i + n"
  shows False
proof -
  have "n dvd (a + j) - (a + i)" using assms(1,2) by (metis mod_eq_dvd_iff_nat add_le_cancel_left less_imp_le)
  then have "n dvd j - i" by simp
  moreover have "0 < j - i" "j - i < n" using assms(2,3) by linarith+
  ultimately show False using nat_dvd_not_less by blast
qed

lemma window_fresh: "Suc n \<le> max_group (acfg e) \<Longrightarrow>
    (unat g + i) mod max_group (acfg e) \<notin> set (window e g (Suc i) n)"
  by (auto simp: window_def dest: mod_add_inj)

lemma window_less: "1 \<le> max_group (acfg e) \<Longrightarrow> c \<in> set (window e g i n) \<Longrightarrow> c < max_group (acfg e)"
  by (auto simp: window_def)

lemma ready_subevents_less:
  "1 \<le> max_group (acfg e) \<Longrightarrow> \<forall>c \<in> set (ready_subevents e g i n s). c < max_group (acfg e) \<and>
     sb_status (c_sync_buf s ! c) = SYNC_READY_TO_PUSH"
  by (auto simp: ready_subevents_def window_less)

lemma push_loop:
  assumes z: "zephyr_ok (azep e)" and c: "1 \<le> max_group (acfg e)"
  shows "wf_sync e s \<Longrightarrow> n \<le> max_group (acfg e) \<Longrightarrow> length ps \<le> tx_buffers (acfg e) \<Longrightarrow>
    for_loop i n (push_subevent e g) (s, ps) =
      (let cs = ready_subevents e g i n s
       in if length ps + length cs \<le> tx_buffers (acfg e)
          then Some (s\<lparr>c_sync_buf := set_status cs SYNC_PUSHED (c_sync_buf s)\<rparr>, ps @ map (subevent_of e s) cs)
          else None)"
proof (induction n arbitrary: i s ps)
  case 0
  then show ?case by (simp add: ready_subevents_def window_def)
next
  case (Suc n)
  define cur where "cur = (unat g + i) mod max_group (acfg e)"
  define b where "b = c_sync_buf s ! cur"
  have cur: "cur < max_group (acfg e)" using c by (simp add: cur_def)
  then have len: "cur < length (c_sync_buf s)" using wf_sync_buf(2) [OF Suc.prems(1)] by simp
  have ok: "sync_buffer_ok (rsp_buffers (acfg e)) b" using wf_sync_buf(1) [OF Suc.prems(1) cur] by (simp add: b_def)
  then have d: "unat (sb_len b) \<le> length (sb_data b)" "length (take (unat (sb_len b)) (sb_data b)) \<le> 61"
    by (simp_all add: sync_buffer_ok_def)
  have nb: "z_nb_add (azep e) 61 [] (take (unat (sb_len b)) (sb_data b)) = Some (take (unat (sb_len b)) (sb_data b))"
    using d(2) z_nb_add_eq [OF z, of "[]"] by simp
  show ?case
  proof (cases "sb_status b = SYNC_READY_TO_PUSH")
    case False
    then have r: "ready_subevents e g i (Suc n) s = ready_subevents e g (Suc i) n s"
      by (simp add: ready_subevents_def window_Suc cur_def b_def)
    have "push_subevent e g i (s, ps) = Some (s, ps)"
      using False len by (simp add: push_subevent_def cur_def b_def)
    then show ?thesis using Suc.IH [OF Suc.prems(1) _ Suc.prems(3), of "Suc i"] Suc.prems(2) by (simp add: r)
  next
    case True
    let ?s = "s\<lparr>c_sync_buf := (c_sync_buf s)[cur := b\<lparr>sb_status := SYNC_PUSHED\<rparr>]\<rparr>"
    let ?rest = "ready_subevents e g (Suc i) n"
    have fresh: "cur \<notin> set (window e g (Suc i) n)" unfolding cur_def by (rule window_fresh) (rule Suc.prems(2))
    have same: "?rest ?s = ?rest s" "\<forall>c \<in> set (?rest s). cur \<noteq> c"
      using fresh by (auto simp: ready_subevents_def intro!: filter_cong) (metis nth_list_update_neq)+
    have r: "ready_subevents e g i (Suc n) s = cur # ?rest s"
      using True by (simp add: ready_subevents_def window_Suc cur_def b_def)
    have params: "map (subevent_of e ?s) (?rest s) = map (subevent_of e s) (?rest s)"
      using same(2) by (simp add: subevent_of_def)
    have one: "subevent_of e s cur = \<lparr>sd_subevent = of_nat cur, sd_slot_start = DEFAULT_RESPONSE_START,
        sd_slot_count = num_response_slots (acfg e), sd_bytes = take (unat (sb_len b)) (sb_data b)\<rparr>"
      by (simp add: subevent_of_def b_def)
    have wf: "wf_sync e ?s" using ok by (intro wf_sync_update [OF Suc.prems(1)]) (simp add: sync_buffer_ok_def)
    show ?thesis
    proof (cases "length ps < tx_buffers (acfg e)")
      case False
      then show ?thesis
        using True len r Suc.prems(3) by (simp add: push_subevent_def cur_def [symmetric] b_def Let_def)
    next
      case room: True
      then have step: "push_subevent e g i (s, ps) = Some (?s, ps @ [subevent_of e s cur])"
        using True len d nb one by (simp add: push_subevent_def cur_def [symmetric] b_def Let_def)
      have "for_loop (Suc i) n (push_subevent e g) (?s, ps @ [subevent_of e s cur]) =
        (let cs = ?rest ?s in if length (ps @ [subevent_of e s cur]) + length cs \<le> tx_buffers (acfg e)
          then Some (?s\<lparr>c_sync_buf := set_status cs SYNC_PUSHED (c_sync_buf ?s)\<rparr>,
            (ps @ [subevent_of e s cur]) @ map (subevent_of e ?s) cs) else None)"
        by (rule Suc.IH [OF wf]) (use Suc.prems(2) room in simp_all)
      then show ?thesis
        using params unfolding for_loop.simps step same(1) by (simp add: r b_def Let_def)
    qed
  qed
qed

lemma push_failed_eq:
  "\<forall>c \<in> set cs. c < length (c_sync_buf s) \<and> c < 256 \<Longrightarrow>
   push_failed (map (subevent_of e t) cs) s =
     Some (s\<lparr>c_sync_buf := set_status cs SYNC_READY_TO_PUSH (c_sync_buf s)\<rparr>)"
proof (induction cs arbitrary: s)
  case (Cons c cs)
  have "unat (of_nat c :: u8) = c" using Cons.prems by (simp add: unat_of_nat_u8)
  then show ?case using Cons.prems Cons.IH by (simp add: subevent_of_def)
qed simp

text \<open>
  A request of at most all subevents: it is undefined when more buffers are ready than the
  controller has; otherwise the ready buffers and nothing else are handed over, and they count as
  pushed exactly when the call succeeds.
\<close>

lemma push_to_controller:
  assumes z: "zephyr_ok (azep e)" and c: "ap_cfg_ok (acfg e)" and wf: "wf_sync e s"
    and n: "unat count \<le> max_group (acfg e)"
    and cs_def: "cs = ready_subevents e g 0 (unat count) s"
  shows "esl_c_push_sync_to_controller e x g count s =
    (if tx_buffers (acfg e) < length cs then None
     else if cs = [] then Some (0, s)
     else let t = ap_effect (Ap_set_subevents (map (subevent_of e s) cs)) s
          in Some (ai_set_data x, if ai_set_data x = 0 then t\<lparr>c_sync_buf := set_status cs SYNC_PUSHED (c_sync_buf s)\<rparr> else t))"
proof -
  have m: "1 \<le> max_group (acfg e)" "max_group (acfg e) \<le> 128" using c by (simp_all add: ap_cfg_ok_def)
  have less: "\<forall>c \<in> set cs. c < max_group (acfg e) \<and> sb_status (c_sync_buf s ! c) = SYNC_READY_TO_PUSH"
    unfolding cs_def by (rule ready_subevents_less [OF m(1)])
  have len: "length (c_sync_buf s) = max_group (acfg e)" by (rule wf_sync_buf(2) [OF wf])
  have loop: "for_loop 0 (unat count) (push_subevent e g) (s, []) =
      (if length cs \<le> tx_buffers (acfg e)
       then Some (s\<lparr>c_sync_buf := set_status cs SYNC_PUSHED (c_sync_buf s)\<rparr>, map (subevent_of e s) cs) else None)"
    unfolding push_loop [OF z m(1) wf n, of "[]" 0 g, simplified] by (simp add: cs_def Let_def)
  let ?t = "s\<lparr>c_sync_buf := set_status cs SYNC_PUSHED (c_sync_buf s)\<rparr>"
  let ?f = "ap_effect (Ap_set_subevents (map (subevent_of e s) cs)) ?t"
  have undo: "push_failed (map (subevent_of e s) cs) ?f =
      Some (ap_effect (Ap_set_subevents (map (subevent_of e s) cs)) s)"
    using less m len set_status_back [of cs "c_sync_buf s" SYNC_READY_TO_PUSH SYNC_PUSHED]
    by (subst push_failed_eq) (auto simp: ap_effect_def)
  show ?thesis
    unfolding esl_c_push_sync_to_controller_def loop using undo
    by (auto simp: Let_def ap_effect_def)
qed

subsection \<open>What is queued, and what a response is decrypted to\<close>

text \<open>A packet that waits in its buffer: a header, and the payload encrypted under a key.\<close>

definition queued :: "('s, 'm) ap_env \<Rightarrow> bt_esl_key_material \<Rightarrow> u8 list \<Rightarrow> bt_esl_sync_buffer \<Rightarrow> bool" where
  "queued e k data b \<longleftrightarrow> sb_status b = SYNC_READY_TO_PUSH \<and>
     take (unat (sb_len b)) (sb_data b) = [of_nat (length data + 12), BT_DATA_ENCRYPTED_AD_DATA] @
       snd (z_ead_encrypt (azep e) (session_key k) (iv k) ([of_nat (length data + 1), BT_DATA_ESL] @ data))"

lemma compose_queued:
  assumes z: "zephyr_ok (azep e)" and k: "key_ok k" and pa: "length pa = 61"
    and n: "data \<noteq> []" "length data \<le> 48" and x: "length rnd = 5"
  shows "yields (esl_compose_ad_data (azep e) pa data (of_nat (length data)) rnd k) (\<lambda>(pa', r, len).
    length pa' = 61 \<and> length r = 5 \<and> unat len \<le> 61 \<and>
    (\<forall>b. queued e k data (b\<lparr>sb_status := SYNC_READY_TO_PUSH, sb_data := pa', sb_len := len\<rparr>)))"
proof -
  let ?n = "of_nat (length data) :: u8"
  have u: "unat ?n = length data" using n(2) by (simp add: unat_of_nat_u8)
  have out: "unat (?n + 13) = length data + 13" using unat_add_small [of ?n 13] n(2) u by simp
  define c where "c = snd (z_ead_encrypt (azep e) (session_key k) (iv k) ([?n + 1, BT_DATA_ESL] @ data))"
  have c: "length c = length data + 11"
    using z_ead_encrypt_length [OF z, of "session_key k" "iv k"] k by (simp add: c_def key_ok_def)
  have comp: "esl_compose_ad_data (azep e) pa data ?n rnd k = Some
     ([?n + 12, BT_DATA_ENCRYPTED_AD_DATA] @ c @ drop (length data + 13) pa, rnd[4 := rnd ! 4 OR push_bit 7 1], ?n + 13)"
    using compose_ok [OF z k x, of ?n data pa] n u pa by (simp add: c_def)
  have whole: "length data + 13 = length ([?n + 12, BT_DATA_ENCRYPTED_AD_DATA] @ c)" using c by simp
  have air: "take (length data + 13) ([?n + 12, BT_DATA_ENCRYPTED_AD_DATA] @ c @ d) =
      [?n + 12, BT_DATA_ENCRYPTED_AD_DATA] @ c" for d
    unfolding whole by simp
  have n2: "?n + 12 = of_nat (length data + 12)" "?n + 1 = of_nat (length data + 1)" by simp_all
  show ?thesis
    unfolding comp queued_def using air c n(2) x pa out by (simp add: c_def [unfolded n2] n2 [symmetric] add.commute [of 1])
qed

lemma push_sync_buf_queues:
  assumes z: "zephyr_ok (azep e)" and wf: "wf_sync e s" and g: "unat g < max_group (acfg e)"
    and free: "sb_status (c_sync_buf s ! unat g) \<in> {SYNC_EMPTY, SYNC_PUSHED}"
    and n: "data \<noteq> []" "length data \<le> 48" and x: "length (ai_rand x) = 5"
  shows "yields (esl_c_push_sync_buf e x data (of_nat (length data)) g s) (\<lambda>(r, t). r = 0 \<and> wf_sync e t \<and>
    c_ap_key t = c_ap_key s \<and> c_trace t = c_trace s @ [Ap_work Sync_fill_work] \<and>
    (\<forall>j. j \<noteq> unat g \<longrightarrow> c_sync_buf t ! j = c_sync_buf s ! j) \<and>
    queued e (c_ap_key s) data (c_sync_buf t ! unat g) \<and> sb_rsp (c_sync_buf t ! unat g) = sb_rsp (c_sync_buf s ! unat g))"
proof -
  let ?b = "c_sync_buf s ! unat g"
  have b: "sync_buffer_ok (rsp_buffers (acfg e)) ?b" by (rule wf_sync_buf(1) [OF wf g])
  have k: "key_ok (c_ap_key s)" "length (sb_data ?b) = 61" using wf b by (simp_all add: wf_sync_def sync_buffer_ok_def)
  have len: "unat g < length (c_sync_buf s)" using g wf_sync_buf(2) [OF wf] by simp
  have up: "wf_sync e (s\<lparr>c_sync_buf := (c_sync_buf s)[unat g := ?b\<lparr>sb_status := SYNC_READY_TO_PUSH, sb_data := pa, sb_len := l\<rparr>],
      c_randomizer := r\<rparr>)" if "length pa = 61" "length r = 5" "unat l \<le> 61" for pa r l
    using wf b that by (simp add: wf_sync_def sync_buffer_ok_def list_all_update)
  show ?thesis
    unfolding esl_c_push_sync_buf_def rd_in [OF len] Let_def
    using free len up by (auto simp: wp intro!: yields_mono [OF compose_queued [OF z k n x]])
qed

text \<open>The buffers of one slot.\<close>

abbreviation rsp_at :: "u8 \<Rightarrow> u8 \<Rightarrow> ap \<Rightarrow> bt_esl_rsp_buffer" where
  "rsp_at g i s \<equiv> sb_rsp (c_sync_buf s ! unat g) ! unat i"

lemma yields_upd_rsp:
  assumes "wf_sync e s" "unat g < max_group (acfg e)" "unat i < rsp_buffers (acfg e)"
  shows "yields (upd_rsp (unat g) (unat i) f s) P \<longleftrightarrow> yields (f (rsp_at g i s)) (\<lambda>r.
    P (s\<lparr>c_sync_buf := (c_sync_buf s)[unat g := (c_sync_buf s ! unat g)
      \<lparr>sb_rsp := (sb_rsp (c_sync_buf s ! unat g))[unat i := r]\<rparr>]\<rparr>))"
proof -
  have "unat g < length (c_sync_buf s)" "unat i < length (sb_rsp (c_sync_buf s ! unat g))"
    using wf_sync_buf [OF assms(1)] assms(2,3) by (auto simp: sync_buffer_ok_def)
  then show ?thesis by (simp add: upd_rsp_def wp)
qed

lemma wf_rsp_at:
  assumes "wf_sync e s" "unat g < max_group (acfg e)" "unat i < rsp_buffers (acfg e)"
  shows "rsp_buffer_ok (rsp_at g i s)" "unat g < length (c_sync_buf s)"
    "unat i < length (sb_rsp (c_sync_buf s ! unat g))"
  using wf_sync_buf [OF assms(1)] assms(2,3) by (auto simp: sync_buffer_ok_def list_all_length)

lemma pawr_response_stores:
  assumes "wf_sync e s" "unat g < max_group (acfg e)" "unat i < rsp_buffers (acfg e)" "b \<noteq> []" "length b \<le> 61"
  shows "yields (pawr_response g i b s) (\<lambda>t. c_resp_subevent t = g \<and> c_resp_slot t = i \<and>
    take (length b) (rb_data (rsp_at g i t)) = b \<and> rb_len (rsp_at g i t) = of_nat (length b) \<and>
    rb_key (rsp_at g i t) = rb_key (rsp_at g i s) \<and> c_trace t = c_trace s @ [Ap_work Resp_fill_work])"
  using assms(4,5) wf_rsp_at [OF assms(1-3)]
  by (simp add: pawr_response_def wp yields_upd_rsp [OF assms(1-3)] rsp_buffer_ok_def ap_effect_def)

text \<open>
  A response in its slot, encrypted under the key of that slot, is replaced by its plain text and
  reported.
\<close>

lemma resp_fill:
  assumes z: "zephyr_ok (azep e)" and wf: "wf_sync e s"
    and g: "unat (c_resp_subevent s) < max_group (acfg e)" and i: "unat (c_resp_slot s) < rsp_buffers (acfg e)"
    and r: "r = rsp_at (c_resp_subevent s) (c_resp_slot s) s"
    and c: "take (unat (rb_len r)) (rb_data r) = [of_nat (length c + 1), BT_DATA_ENCRYPTED_AD_DATA] @ c"
      "unat (rb_len r) = length c + 2" "length c \<le> 59"
    and dec: "z_ead_decrypt (azep e) (session_key (rb_key r)) (iv (rb_key r)) c = (0, plain)"
  shows "yields (esl_ap_resp_fill_buf_work_fn e s) (\<lambda>t.
    c_trace t = c_trace s @ [Ap_report (Rep_response (c_resp_subevent s) (c_resp_slot s) plain)] \<and>
    sb_status (c_sync_buf t ! unat (c_resp_subevent s)) = SYNC_RESP_FULL \<and>
    (let r' = rsp_at (c_resp_subevent s) (c_resp_slot s) t
     in take (unat (rb_len r')) (rb_data r') = plain \<and> rb_status r' = SYNC_RESP_FULL))"
proof -
  let ?g = "c_resp_subevent s" and ?i = "c_resp_slot s"
  note l = wf_rsp_at [OF wf g i]
  have r61: "length (rb_data r) = 61" using l(1) by (simp add: r rsp_buffer_ok_def)
  have nc: "9 \<le> length c" using z_ead_decrypt_short [OF z, of c] dec by (metis fst_conv not_le)
  have np: "length plain = length c - 9" using z_ead_decrypt_length [OF z, of _ _ c] dec by (metis snd_conv)
  have size: "z_ead_decrypted_size (azep e) (length c + 2) - 2 = length plain"
    using z_ead_decrypted_size_eq [OF z, of "length c + 2"] np nc by simp
  have h: "rb_data r ! 0 = of_nat (length c + 1)" "rb_data r ! 1 = BT_DATA_ENCRYPTED_AD_DATA"
    using c(1,2) by (metis (no_types) append_Cons nth_Cons_0 nth_take zero_less_Suc add_2_eq_Suc')
      (metis (no_types, lifting) One_nat_def Suc_less_eq add_2_eq_Suc' append_Cons nth_Cons_0 nth_Cons_Suc nth_take zero_less_Suc c(1,2))
  have u: "unat (of_nat (length c + 1) :: u8) = length c + 1" using c(3) by (intro unat_of_nat_u8) simp
  have pull: "z_nb_pull (azep e) ([of_nat (length c + 1), 0x31] @ c) 2 = Some c"
    by (simp add: z_nb_pull_eq [OF z])
  have lc: "length c = length plain + 9" using np nc by simp
  have out: "unat (of_nat (length plain) :: u8) = length plain" using c(3) lc by (intro unat_of_nat_u8) simp
  have "length plain \<le> 50" using c(3) lc by simp
  then show ?thesis
    using l r61 h u size pull c dec out
    by (simp add: esl_ap_resp_fill_buf_work_fn_def set_sync_status_def upd_rsp_def wp Let_def r [symmetric])
qed

end
