(* ===== verification/Ap_Link.thy ===== *)
theory Ap_Link
  imports Ap_Sync Tag_Behaviour
begin

unbundle bit_operations_syntax

text \<open>
  The two roles on the air: what the access point hands to its controller reaches the tag's reception callback, and
  what the tag hands to its controller reaches the access point's response callback. Both sides use the
  same encryption.
\<close>

subsection \<open>What is on the air\<close>

definition crypto_agrees :: "('s, 'm) ap_env \<Rightarrow> 'st env \<Rightarrow> bool" where
  "crypto_agrees ea et \<longleftrightarrow> z_ead_encrypt (azep ea) = z_ead_encrypt (zep et) \<and> z_ead_decrypt (azep ea) = z_ead_decrypt (zep et)"

text \<open>The packet for a group in the access point's last request, and the tag's last response.\<close>

fun subevent_bytes :: "u8 \<Rightarrow> ap_effect \<Rightarrow> u8 list" where
  "subevent_bytes g (Ap_set_subevents ps) = (case find (\<lambda>p. sd_subevent p = g) ps of Some p \<Rightarrow> sd_bytes p | None \<Rightarrow> [])"
| "subevent_bytes g _ = []"

definition packet_for :: "u8 \<Rightarrow> ap \<Rightarrow> u8 list" where
  "packet_for g s = subevent_bytes g (last (c_trace s))"

fun response_of :: "effect \<Rightarrow> (u8 \<times> u8 list) list" where
  "response_of (Set_response_data event subevent slot bytes) = [(slot, bytes)]"
| "response_of _ = []"

definition last_response :: "'st tag \<Rightarrow> (u8 \<times> u8 list) option" where
  "last_response t = (let rs = concat (map response_of (trace t)) in if rs = [] then None else Some (List.last rs))"

text \<open>The tag's state when a packet was received and its collected response was cleared.\<close>

definition received :: "u16 \<Rightarrow> u8 \<Rightarrow> u8 list \<Rightarrow> 'st tag \<Rightarrow> 'st tag" where
  "received event g bytes t = effect (K_work_submit Pawr_work)
     (t\<lparr>pawr_event_counter := event, pawr_subevent := g, pawr_buf := bytes\<rparr>)"

lemma received_simps [simp]:
  "esl_ap_key (received ev g b t) = esl_ap_key t" "esl_rsp_key (received ev g b t) = esl_rsp_key t"
  "esl_addr (received ev g b t) = esl_addr t" "pawr_buf (received ev g b t) = b"
  "wf_tag e (received ev g b t) = wf_tag e t"
  by (simp_all add: received_def effect_def wf_tag_def)

subsection \<open>From the host to the tag\<close>

lemma ready_subevents_one:
  "unat g < max_group (acfg e) \<Longrightarrow> ready_subevents e g 0 1 s =
    (if sb_status (c_sync_buf s ! unat g) = SYNC_READY_TO_PUSH then [unat g] else [])"
  by (simp add: ready_subevents_def window_def)

lemma ap_sends:
  assumes z: "zephyr_ok (azep e)" and c: "ap_cfg_ok (acfg e)" "1 \<le> tx_buffers (acfg e)"
    and wf: "wf_sync e s" and g: "unat g < max_group (acfg e)"
    and free: "sb_status (c_sync_buf s ! unat g) \<in> {SYNC_EMPTY, SYNC_PUSHED}"
    and n: "data \<noteq> []" "length data \<le> 48" and x: "length (ai_rand x) = 5" and y: "ai_set_data y = 0"
  shows "yields (do {
      (r, s1) \<leftarrow> esl_c_push_sync_buf e x data (of_nat (length data)) g s;
      esl_ap_sync_fill_buf_work_fn e y (pawr_request g 1 s1)
    }) (\<lambda>t. wf_sync e t \<and> packet_for g t = air_packet (azep e) (c_ap_key s) ([of_nat (length data + 1), BT_DATA_ESL] @ data) \<and>
      sb_rsp (c_sync_buf t ! unat g) = sb_rsp (c_sync_buf s ! unat g) \<and> sb_status (c_sync_buf t ! unat g) = SYNC_PUSHED)"
  unfolding yields_bind
proof (rule yields_mono [OF push_sync_buf_queues [OF z wf g free n x]], clarify)
  fix r t assume t: "wf_sync e t" "c_ap_key t = c_ap_key s" "queued e (c_ap_key s) data (c_sync_buf t ! unat g)"
    "sb_rsp (c_sync_buf t ! unat g) = sb_rsp (c_sync_buf s ! unat g)"
  let ?t = "pawr_request g 1 t"
  have wft: "wf_sync e ?t" using t(1) by simp
  have len: "unat g < length (c_sync_buf t)" using g wf_sync_buf(2) [OF t(1)] by simp
  have st: "c_sync_buf ?t = c_sync_buf t" "c_fill_start ?t = g" "c_fill_count ?t = 1"
    by (simp_all add: pawr_request_def ap_effect_def)
  have q: "sb_status (c_sync_buf t ! unat g) = SYNC_READY_TO_PUSH"
    "sd_bytes (subevent_of e ?t (unat g)) = air_packet (azep e) (c_ap_key s) ([of_nat (length data + 1), BT_DATA_ESL] @ data)"
    using t(3) by (simp_all add: queued_def subevent_of_def st air_packet_def)
  have cs: "[unat g] = ready_subevents e g 0 (unat (1 :: u8)) ?t"
    using q(1) ready_subevents_one [OF g, of ?t] by (simp add: st)
  have n1: "unat (1 :: u8) \<le> max_group (acfg e)" using c by (simp add: ap_cfg_ok_def)
  have p: "esl_ap_sync_fill_buf_work_fn e y ?t = Some ((ap_effect (Ap_set_subevents [subevent_of e ?t (unat g)]) ?t)
      \<lparr>c_sync_buf := set_status [unat g] SYNC_PUSHED (c_sync_buf t)\<rparr>)"
    using push_to_controller [OF z c(1) wft n1 cs, of y] y c(2)
    by (simp add: esl_ap_sync_fill_buf_work_fn_def st)
  have sd: "sd_subevent (subevent_of e ?t (unat g)) = g" by (simp add: subevent_of_def)
  have b: "sync_buffer_ok (rsp_buffers (acfg e)) (c_sync_buf t ! unat g)" by (rule wf_sync_buf(1) [OF t(1) g])
  have w: "wf_sync e (?t\<lparr>c_sync_buf := (c_sync_buf ?t)[unat g := (c_sync_buf t ! unat g)\<lparr>sb_status := SYNC_PUSHED\<rparr>]\<rparr>)"
    using b by (intro wf_sync_update [OF wft]) (simp add: sync_buffer_ok_def)
  show "yields (esl_ap_sync_fill_buf_work_fn e y ?t) (\<lambda>t. wf_sync e t \<and>
      packet_for g t = air_packet (azep e) (c_ap_key s) ([of_nat (length data + 1), BT_DATA_ESL] @ data) \<and>
      sb_rsp (c_sync_buf t ! unat g) = sb_rsp (c_sync_buf s ! unat g) \<and> sb_status (c_sync_buf t ! unat g) = SYNC_PUSHED)"
    unfolding p using q sd t(4) len w by (simp add: packet_for_def ap_effect_def st wf_sync_def)
qed

subsection \<open>From the tag to the host\<close>

lemma last_response_append:
  "trace t = tr @ [Set_response_data ev g slot b] @ rest \<Longrightarrow> concat (map response_of rest) = [] \<Longrightarrow> last_response t = Some (slot, b)"
  by (simp add: last_response_def)

text \<open>One command of the packet is for this tag; its response leaves in the slot with the command's position.\<close>

lemma tag_answers:
  assumes e: "env_ok et" and wf: "wf_tag et t" and x: "\<And>i. inp_ok (xs i)" "inp_ok x" and stack: "length stack = 61"
    and on: "esl_state t = SM_SYNCHRONIZED" "\<not> led_indication (cfg et)"
    and g: "g = GROUPID_BYTE (esl_addr t)" and ok: "list_all tlv_ok (pre @ cmd # post)"
    and n: "length (esl_payload g (pre @ cmd # post)) \<le> 48"
    and cmd: "cmd ! 1 = LOW_BYTE (esl_addr t)" "LOW_BYTE (esl_addr t) \<noteq> ESL_ADDR_BROADCAST"
    and pre: "list_all (\<lambda>c. \<not> addressed (c ! 1) t) pre"
    and packet: "packet = air_packet (zep et) (esl_ap_key t) (esl_packet g (pre @ cmd # post))"
    and run: "run_tlv et (xs (length pre)) (cmd @ concat post @ drop (length (esl_packet g (pre @ cmd # post))) stack) (length cmd)
      ((received ev g packet t)\<lparr>ecp_rsp_net_buf := []\<rparr>) = Some u"
    and post: "list_all (\<lambda>c. \<not> addressed (c ! 1) u) post" and ne: "ecp_rsp_net_buf u \<noteq> []"
  shows "yields (do { t1 \<leftarrow> recv_cb et ev g packet t; esl_pawr_sync_work_fn et xs x stack t1 })
    (\<lambda>t2. \<exists>c. last_response t2 = Some (of_nat (length pre), [of_nat (length (ecp_rsp_net_buf u) + 12), BT_DATA_ENCRYPTED_AD_DATA] @ c) \<and>
      z_ead_decrypt (zep et) (session_key (esl_rsp_key u)) (iv (esl_rsp_key u)) c =
        (0, [of_nat (length (ecp_rsp_net_buf u) + 1), BT_DATA_ESL] @ ecp_rsp_net_buf u))"
proof -
  note z = env_zep [OF e]
  let ?ts = "pre @ cmd # post" and ?t = "received ev g packet t"
  have ne_packet: "packet \<noteq> []" by (simp add: packet air_packet_def)
  have recv: "recv_cb et ev g packet t = Some ?t"
    using on ne_packet by (simp add: recv_cb_def received_def)
  have lp: "length (esl_packet g ?ts) = length (esl_payload g ?ts) + 2" by (simp add: esl_packet_def)
  have key: "key_ok (esl_ap_key ?t)" using wf by (simp add: wf_tag_def)
  have work: "esl_pawr_sync_work_fn et xs x stack ?t = do {
      s1 \<leftarrow> esl_parse_sync_packet et xs x (esl_packet g ?ts @ drop (length (esl_packet g ?ts)) stack) (of_nat (length (esl_packet g ?ts))) ?t;
      Some (effect (K_work_reschedule Timeout_work (unsynchronized_timeout (cfg et) * 1000)) (s1\<lparr>timeout_mode := ESL_UNSYNCED_TIMEOUT_MODE\<rparr>)) }"
    by (rule work_fn_decrypts [OF z key _ _ _ stack]) (use n lp in \<open>auto simp: packet esl_packet_def\<close>)
  have parse: "esl_parse_sync_packet et xs x (esl_packet g ?ts @ drop (length (esl_packet g ?ts)) stack) (of_nat (length (esl_packet g ?ts))) ?t =
      set_pawr_response et x (int (length pre)) u"
    by (rule packet_one [where s = ?t and xs = xs and pre = pre and t = cmd and post = post and u = u, OF z _ _ ok _ _ _ run post])
      (use n g pre cmd in \<open>auto simp: addressed_def list_all_iff\<close>)
  have "cmd \<noteq> []" "ECP_LEN (cmd ! 0) = length cmd" using ok by (auto simp: tlv_ok_def)
  then have "yields (run_tlv et (xs (length pre)) (cmd @ concat post @ drop (length (esl_packet g ?ts)) stack) (length cmd)
      (?t\<lparr>ecp_rsp_net_buf := []\<rparr>)) (wf_tag et)"
    by (intro wf_run_tlv [OF e _ x(1)]) (use wf in \<open>simp_all add: wf_rsp_clear nth_append\<close>)
  then have wfu: "wf_tag et u" using run by (auto elim: yieldsE)
  show ?thesis
    unfolding recv bind.bind_lunit work parse yields_bind
    by (rule yields_mono [OF response_decrypts [OF e wfu x(2) ne]])
      (auto simp: effect_def intro!: last_response_append)
qed

text \<open>A response to the access point is decrypted with the key of its slot and reported.\<close>

lemma ap_reports:
  assumes z: "zephyr_ok (azep e)" and wf: "wf_sync e s" and g: "unat g < max_group (acfg e)" and i: "unat i < rsp_buffers (acfg e)"
    and dec: "z_ead_decrypt (azep e) (session_key (rb_key (rsp_at g i s))) (iv (rb_key (rsp_at g i s))) c = (0, plain)"
    and n: "length plain \<le> 50"
  shows "yields (do {
      t \<leftarrow> pawr_response g i ([of_nat (length c + 1), BT_DATA_ENCRYPTED_AD_DATA] @ c) s;
      esl_ap_resp_fill_buf_work_fn e t
    }) (\<lambda>t. last (c_trace t) = Ap_report (Rep_response g i plain) \<and> sb_status (c_sync_buf t ! unat g) = SYNC_RESP_FULL \<and>
      take (unat (rb_len (rsp_at g i t))) (rb_data (rsp_at g i t)) = plain)"
proof -
  let ?b = "[of_nat (length c + 1), BT_DATA_ENCRYPTED_AD_DATA] @ c"
  have nc: "length c = length plain + 9"
    using z_ead_decrypt_length [OF z, of _ _ c] z_ead_decrypt_short [OF z, of c] dec by (metis fst_conv le_add_diff_inverse2 not_le snd_conv)
  have lb: "?b \<noteq> []" "length ?b \<le> 61" using nc n by simp_all
  have ll: "unat (of_nat (length ?b) :: u8) = length c + 2" using nc n by (subst unat_of_nat_u8) simp_all
  have "yields (pawr_response g i ?b s) (\<lambda>t. wf_sync e t \<and> c_resp_subevent t = g \<and> c_resp_slot t = i \<and>
      take (length ?b) (rb_data (rsp_at g i t)) = ?b \<and> rb_len (rsp_at g i t) = of_nat (length ?b) \<and>
      rb_key (rsp_at g i t) = rb_key (rsp_at g i s))"
    using yields_conj [OF wf_pawr_response [OF wf g i lb(2)] pawr_response_stores [OF wf g i lb]]
    by (rule yields_mono) blast
  then obtain t where t: "pawr_response g i ?b s = Some t" "wf_sync e t" "c_resp_subevent t = g" "c_resp_slot t = i"
      "take (length ?b) (rb_data (rsp_at g i t)) = ?b" "rb_len (rsp_at g i t) = of_nat (length ?b)"
      "rb_key (rsp_at g i t) = rb_key (rsp_at g i s)"
    by (auto elim!: yieldsE)
  have "yields (esl_ap_resp_fill_buf_work_fn e t) (\<lambda>u. c_trace u = c_trace t @ [Ap_report (Rep_response g i plain)] \<and>
      sb_status (c_sync_buf u ! unat g) = SYNC_RESP_FULL \<and>
      (let r' = rsp_at g i u in take (unat (rb_len r')) (rb_data r') = plain \<and> rb_status r' = SYNC_RESP_FULL))"
    using resp_fill [OF z t(2), of "rsp_at g i t" c plain, unfolded t(3,4)] g i t(5-7) ll dec nc n by (simp add: t(3,4))
  then show ?thesis
    unfolding t(1) bind.bind_lunit by (rule yields_mono) (simp add: Let_def)
qed

subsection \<open>A command and its answer\<close>

text \<open>The tag's part: it is synchronised, the packet is for its group and carries one command for it.\<close>

definition for_tag :: "'st env \<Rightarrow> 'st tag \<Rightarrow> u8 \<Rightarrow> u8 list list \<Rightarrow> u8 list \<Rightarrow> u8 list list \<Rightarrow> bool" where
  "for_tag e t g pre cmd post \<longleftrightarrow> wf_tag e t \<and> esl_state t = SM_SYNCHRONIZED \<and> \<not> led_indication (cfg e) \<and>
     g = GROUPID_BYTE (esl_addr t) \<and> list_all tlv_ok (pre @ cmd # post) \<and> length (esl_payload g (pre @ cmd # post)) \<le> 48 \<and>
     cmd ! 1 = LOW_BYTE (esl_addr t) \<and> LOW_BYTE (esl_addr t) \<noteq> ESL_ADDR_BROADCAST \<and>
     list_all (\<lambda>c. \<not> addressed (c ! 1) t) pre"

text \<open>Running that command, as the tag does once it has the packet.\<close>

definition run_command ::
  "'st env \<Rightarrow> inp \<Rightarrow> u16 \<Rightarrow> u8 list \<Rightarrow> u8 \<Rightarrow> u8 list list \<Rightarrow> u8 list \<Rightarrow> u8 list list \<Rightarrow> 'st tag \<Rightarrow> 'st tag option" where
  "run_command e x ev stack g pre cmd post t =
     run_tlv e x (cmd @ concat post @ drop (length (esl_packet g (pre @ cmd # post))) stack) (length cmd)
       ((received ev g (air_packet (zep e) (esl_ap_key t) (esl_packet g (pre @ cmd # post))) t)\<lparr>ecp_rsp_net_buf := []\<rparr>)"

lemma wf_run_command:
  assumes "env_ok e" "for_tag e t g pre cmd post" "inp_ok x"
  shows "yields (run_command e x ev stack g pre cmd post t) (wf_tag e)"
proof -
  have "cmd \<noteq> []" "ECP_LEN (cmd ! 0) = length cmd" "wf_tag e t"
    using assms(2) by (auto simp: for_tag_def tlv_ok_def)
  then show ?thesis
    unfolding run_command_def
    by (intro wf_run_tlv [OF assms(1) _ assms(3)]) (simp_all add: wf_rsp_clear nth_append)
qed

lemma command_answered:
  assumes e: "env_ok et" and x: "\<And>i. inp_ok (xs i)" "inp_ok x" and stack: "length stack = 61"
    and t: "for_tag et t g pre cmd post"
    and run: "run_command et (xs (length pre)) ev stack g pre cmd post t = Some u"
    and post: "list_all (\<lambda>c. \<not> addressed (c ! 1) u) post" and ne: "ecp_rsp_net_buf u \<noteq> []"
  shows "yields (do { t1 \<leftarrow> recv_cb et ev g (air_packet (zep et) (esl_ap_key t) (esl_packet g (pre @ cmd # post))) t;
      esl_pawr_sync_work_fn et xs x stack t1 })
    (\<lambda>t2. \<exists>c. last_response t2 = Some (of_nat (length pre), [of_nat (length (ecp_rsp_net_buf u) + 12), BT_DATA_ENCRYPTED_AD_DATA] @ c) \<and>
      z_ead_decrypt (zep et) (session_key (esl_rsp_key u)) (iv (esl_rsp_key u)) c =
        (0, [of_nat (length (ecp_rsp_net_buf u) + 1), BT_DATA_ESL] @ ecp_rsp_net_buf u))"
  using t unfolding for_tag_def
  by (elim conjE) (rule tag_answers [where xs = xs and ev = ev and t = t and pre = pre and cmd = cmd and post = post and u = u,
      OF e _ x stack _ _ _ _ _ _ _ _ refl run [unfolded run_command_def] post ne])

lemma answer_reported:
  assumes z: "zephyr_ok (azep ea)" and same: "crypto_agrees ea et"
    and e: "env_ok et" and x: "\<And>i. inp_ok (xs i)" "inp_ok x" and stack: "length stack = 61"
    and t: "for_tag et t g pre cmd post"
    and run: "run_command et (xs (length pre)) ev stack g pre cmd post t = Some u"
    and post: "list_all (\<lambda>c. \<not> addressed (c ! 1) u) post" and ne: "ecp_rsp_net_buf u \<noteq> []"
    and s: "wf_sync ea s" "unat g < max_group (acfg ea)" "unat i < rsp_buffers (acfg ea)" "i = of_nat (length pre)"
    and key: "rb_key (rsp_at g i s) = esl_rsp_key u"
    and packet: "packet_for g s = air_packet (zep et) (esl_ap_key t) (esl_packet g (pre @ cmd # post))"
  shows "yields (do {
      t1 \<leftarrow> recv_cb et ev g (packet_for g s) t;
      t2 \<leftarrow> esl_pawr_sync_work_fn et xs x stack t1;
      (slot, bytes) \<leftarrow> last_response t2;
      s1 \<leftarrow> pawr_response g slot bytes s;
      esl_ap_resp_fill_buf_work_fn ea s1
    }) (\<lambda>s2. last (c_trace s2) = Ap_report (Rep_response g i
      ([of_nat (length (ecp_rsp_net_buf u) + 1), BT_DATA_ESL] @ ecp_rsp_net_buf u)))"
proof -
  let ?r = "ecp_rsp_net_buf u"
  let ?plain = "[of_nat (length ?r + 1), BT_DATA_ESL] @ ?r"
  have r48: "length ?r \<le> 48"
    using yieldsD [OF wf_run_command [OF e t x(1)] run] by (simp add: wf_tag_def)
  obtain t1 t2 c where t: "recv_cb et ev g (packet_for g s) t = Some t1" "esl_pawr_sync_work_fn et xs x stack t1 = Some t2"
    "last_response t2 = Some (i, [of_nat (length ?r + 12), BT_DATA_ENCRYPTED_AD_DATA] @ c)"
    "z_ead_decrypt (zep et) (session_key (esl_rsp_key u)) (iv (esl_rsp_key u)) c = (0, ?plain)"
    using command_answered [where xs = xs, OF e x stack t run post ne] unfolding packet s(4)
    by (auto simp: yields_def split: option.splits bind_splits)
  have dec: "z_ead_decrypt (azep ea) (session_key (rb_key (rsp_at g i s))) (iv (rb_key (rsp_at g i s))) c = (0, ?plain)"
    using t(4) same unfolding key by (simp add: crypto_agrees_def)
  have "9 \<le> length c" "length ?plain = length c - 9"
    using z_ead_decrypt_length [OF z, of _ _ c] z_ead_decrypt_short [OF z, of c] dec by (metis fst_conv not_le, metis snd_conv)
  then have lc: "length ?r + 12 = length c + 1" by simp
  show ?thesis
    unfolding t(1,2) t(3) [unfolded lc] bind.bind_lunit prod.case
    by (rule yields_mono [OF ap_reports [OF z s(1-3) dec]]) (use r48 in simp_all)
qed

end
