(* ===== verification/Ap_Ecp.thy ===== *)
theory Ap_Ecp
  imports Ap_State
begin

unbundle bit_operations_syntax

text \<open>
  Commands and responses over a connection in \<open>service/esl_client.c\<close>: writes to the tag's
  characteristics, the composition of control point commands, and the handling of notified responses.

  A write with response sets the flag the caller waits for when the stack has accepted it; when the
  call fails no callback comes and the caller waits until the link is lost: \<open>None\<close>.
\<close>

subsection \<open>Connections and their data\<close>

definition link_up :: "('s, 'm) ap_env \<Rightarrow> bt_conn option \<Rightarrow> bool" where
  "link_up e c = (case c of
         None \<Rightarrow> check_ble_connection (fst (null_conn e)) (snd (null_conn e))
       | Some l \<Rightarrow> check_ble_connection (conn_info_err l) (conn_connected l))"

definition ap_connected :: "('s, 'm) ap_env \<Rightarrow> nat \<Rightarrow> ap \<Rightarrow> bool option" where
  "ap_connected e i s = do {
     c \<leftarrow> rd (c_conn s) i;
     Some (link_up e c)
   }"

definition upd_gatt :: "nat \<Rightarrow> (bt_esl_client_internal \<Rightarrow> bt_esl_client_internal) \<Rightarrow> ap \<Rightarrow> ap option" where
  "upd_gatt i f s = do {
     g \<leftarrow> rd (c_gatt s) i;
     Some (s\<lparr>c_gatt := (c_gatt s)[i := f g]\<rparr>)
   }"

definition upd_device :: "nat \<Rightarrow> (ap_device \<Rightarrow> ap_device) \<Rightarrow> ap \<Rightarrow> ap option" where
  "upd_device i f s = upd_gatt i (\<lambda>g. g\<lparr>g_device := f (g_device g)\<rparr>) s"

subsection \<open>Writes\<close>

text \<open>Write with response and wait for \<open>write_chrc\<close>, which \<open>esl_c_write_attr\<close> sets.\<close>

definition gatt_write_wait :: "ap_inp \<Rightarrow> nat \<Rightarrow> nat \<Rightarrow> u8 list \<Rightarrow> ap \<Rightarrow> (int \<times> ap) option" where
  "gatt_write_wait x i h v s = do {
     g \<leftarrow> rd (c_gatt s) i;
     handle \<leftarrow> rd (g_handles g) h;
     (if ai_write x i handle v \<noteq> 0 then None
      else Some (0, ap_effect (Ap_gatt_write i handle v True) s))
   }"

definition gatt_write_wo_rsp :: "ap_inp \<Rightarrow> nat \<Rightarrow> nat \<Rightarrow> u8 list \<Rightarrow> ap \<Rightarrow> (int \<times> ap) option" where
  "gatt_write_wo_rsp x i h v s = do {
     g \<leftarrow> rd (c_gatt s) i;
     handle \<leftarrow> rd (g_handles g) h;
     Some (ai_write x i handle v, if ai_write x i handle v = 0 then ap_effect (Ap_gatt_write i handle v False) s else s)
   }"

definition bt_esl_c_write_esl_addr ::
  "('s, 'm) ap_env \<Rightarrow> ap_inp \<Rightarrow> u8 \<Rightarrow> u16 \<Rightarrow> ap \<Rightarrow> (int \<times> ap) option" where
  "bt_esl_c_write_esl_addr e x conn_idx addr s =
     (if max_conn (acfg e) \<le> unat conn_idx then Some (- EINVAL, s)
      else if c_write_wo_rsp s then gatt_write_wo_rsp x (unat conn_idx) HANDLE_ESL_ADDR (le16 addr) s
      else gatt_write_wait x (unat conn_idx) HANDLE_ESL_ADDR (le16 addr) s)"

text \<open>The session key is sent in the other byte order, the vector as it is.\<close>

definition sent_key :: "('s, 'm) zephyr \<Rightarrow> bt_esl_key_material \<Rightarrow> u8 list" where
  "sent_key z k = z_mem_swap z (session_key k) @ iv k"

definition esl_c_ap_key_update :: "('s, 'm) ap_env \<Rightarrow> ap_inp \<Rightarrow> u8 \<Rightarrow> ap \<Rightarrow> ap option" where
  "esl_c_ap_key_update e x conn_idx s =
     (if max_conn (acfg e) \<le> unat conn_idx then Some s
      else map_option snd (gatt_write_wait x (unat conn_idx) HANDLE_AP_SYNC_KEY (sent_key (azep e) (c_ap_key s)) s))"

text \<open>
  A tag without a response key gets a random one. In auto mode the key is also entered into the
  slot of the tag's group, if the identifier is within the tags of one group.
\<close>

definition store_slot_key :: "('s, 'm) ap_env \<Rightarrow> u16 \<Rightarrow> bt_esl_key_material \<Rightarrow> ap \<Rightarrow> ap option" where
  "store_slot_key e addr key s =
     (let off = LOW_BYTE addr - default_esl_id (acfg e); g = unat (GROUPID_BYTE addr)
      in if unat off \<le> unat (c_tags_per_group s) then do {
           b \<leftarrow> rd (c_sync_buf s) g;
           r \<leftarrow> rd (sb_rsp b) (unat off);
           Some (s\<lparr>c_sync_buf := (c_sync_buf s)[g := b\<lparr>sb_rsp := (sb_rsp b)[unat off := r\<lparr>rb_key := key\<rparr>]\<rparr>]\<rparr>)
         } else Some s)"

definition esl_c_rsp_key_update :: "('s, 'm) ap_env \<Rightarrow> ap_inp \<Rightarrow> u8 \<Rightarrow> ap \<Rightarrow> ap option" where
  "esl_c_rsp_key_update e x conn_idx s =
     (if max_conn (acfg e) \<le> unat conn_idx then Some s
      else do {
        let i = unat conn_idx;
        g \<leftarrow> rd (c_gatt s) i;
        let old = dev_rsp_key (g_device g);
        let key = (if key_v old = replicate EAD_KEY_MATERIAL_LEN 0 then key_of_bytes (ai_rand_key x) else old);
        s1 \<leftarrow> upd_device i (\<lambda>d. d\<lparr>dev_rsp_key := key\<rparr>) s;
        (r, s2) \<leftarrow> gatt_write_wait x i HANDLE_ESL_RESP_KEY (sent_key (azep e) key) s1;
        (if ap_auto_mode (acfg e) then store_slot_key e (dev_esl_addr (g_device g)) key s2 else Some s2)
      })"

subsection \<open>Absolute time\<close>

text \<open>
  The anchor is a signed 64-bit value holding a 32-bit difference; C's remainder takes the sign of the
  dividend, and the result is converted to 32 bits.
\<close>

definition c_rem :: "int \<Rightarrow> int \<Rightarrow> int" where
  "c_rem a b = sgn a * (\<bar>a\<bar> mod \<bar>b\<bar>)"

definition esl_c_get_abs_time :: "u32 \<Rightarrow> ap \<Rightarrow> u32" where
  "esl_c_get_abs_time now s = of_int (c_rem (int (unat now) - c_anchor s) 4294967295)"

definition esl_c_abs_timer_update :: "u32 \<Rightarrow> u32 \<Rightarrow> ap \<Rightarrow> ap" where
  "esl_c_abs_timer_update now new_abs_time s = s\<lparr>c_anchor := int (unat (now - new_abs_time))\<rparr>"

definition esl_c_tag_abs_timer_update :: "('s, 'm) ap_env \<Rightarrow> ap_inp \<Rightarrow> u8 \<Rightarrow> ap \<Rightarrow> ap option" where
  "esl_c_tag_abs_timer_update e x conn_idx s =
     (if max_conn (acfg e) \<le> unat conn_idx then Some s
      else map_option snd (gatt_write_wait x (unat conn_idx) HANDLE_ESL_ABS_TIME
             (le32 (esl_c_get_abs_time (ai_now x) s)) s))"

subsection \<open>Control point commands\<close>

text \<open>
  The parameters of a command after op code and identifier, and the length of the write; \<open>None\<close> for
  an op code reserved for future use, \<open>Some None\<close> for a vendor's, which leaves buffer and length as they are.
\<close>

definition ecp_params :: "u8 \<Rightarrow> u8 list \<Rightarrow> (u8 list \<times> u16) option option" where
  "ecp_params op command =
     (if op = OP_PING \<or> op = OP_UNASSOCIATE \<or> op = OP_SERVICE_RESET \<or> op = OP_FACTORY_RESET \<or> op = OP_UPDATE_COMPLETE
      then Some (Some ([], 2))
      else if op = OP_READ_SENSOR_DATA \<or> op = OP_REFRESH_DISPLAY then Some (Some (take 1 command, 3))
      else if op = OP_DISPLAY_IMAGE then Some (Some (take 2 command, 4))
      else if op = OP_DISPLAY_TIMED_IMAGE then Some (Some (take 6 command, 8))
      else if op = OP_LED_CONTROL then Some (Some (take 11 command, 13))
      else if op = OP_LED_TIMED_CONTROL then Some (Some (take 15 command, 17))
      else if op AND OP_VENDOR_SPECIFIC_STATE_MASK \<noteq> 0 then Some None
      else None)"

text \<open>\<open>command\<close> is the caller's array of 17 bytes.\<close>

definition bt_esl_c_ecp_command_send ::
  "('s, 'm) ap_env \<Rightarrow> ap_inp \<Rightarrow> u8 list \<Rightarrow> u8 \<Rightarrow> u8 \<Rightarrow> ap \<Rightarrow> (int \<times> ap) option" where
  "bt_esl_c_ecp_command_send e x command op conn_idx s =
     (if max_conn (acfg e) \<le> unat conn_idx then Some (- EINVAL, s)
      else do {
        let i = unat conn_idx;
        connected \<leftarrow> ap_connected e i s;
        (if \<not> connected then Some (0, s)
         else do {
           g \<leftarrow> rd (c_gatt s) i;
           b \<leftarrow> wr_mem (c_ecp_buf s) 0 [op, LOW_BYTE (dev_esl_addr (g_device g))];
           s1 \<leftarrow> upd_gatt i (\<lambda>g. g\<lparr>g_ecp_written := True\<rparr>) (s\<lparr>c_ecp_buf := b\<rparr>);
           (case ecp_params op command of
              None \<Rightarrow> Some (-1, s1)
            | Some params \<Rightarrow> do {
                s2 \<leftarrow> (case params of
                        None \<Rightarrow> Some s1
                      | Some (p, len) \<Rightarrow> do {
                          b1 \<leftarrow> wr_mem b ESL_OP_HEADER_LEN p;
                          upd_gatt i (\<lambda>g. g\<lparr>g_ecp_length := len,
                              g_basic_state := (if op = OP_UNASSOCIATE then z_clear_bit (azep e) (g_basic_state g) ESL_SYNCHRONIZED
                                                else g_basic_state g)\<rparr>) (s1\<lparr>c_ecp_buf := b1\<rparr>)
                        });
                g2 \<leftarrow> rd (c_gatt s2) i;
                v \<leftarrow> rd_mem (c_ecp_buf s2) 0 (unat (g_ecp_length g2));
                (if c_write_wo_rsp s2 then gatt_write_wo_rsp x i HANDLE_ECP v s2
                 else gatt_write_wait x i HANDLE_ECP v s2)
              })
         })
      })"

text \<open>An array of 17 zeros with bytes stored from an offset on.\<close>

definition command_bytes :: "u8 list \<Rightarrow> u8 list" where
  "command_bytes b = b @ replicate (ESL_ECP_COMMAND_MAX_LEN - length b) 0"

definition bt_esl_c_led_control ::
  "('s, 'm) ap_env \<Rightarrow> ap_inp \<Rightarrow> u8 \<Rightarrow> u8 \<Rightarrow> led_obj \<Rightarrow> bool \<Rightarrow> u32 \<Rightarrow> ap \<Rightarrow> (int \<times> ap) option" where
  "bt_esl_c_led_control e x conn_idx idx led timed abs_time s = do {
     fp \<leftarrow> rd_mem (flash_pattern led) 0 ESL_LED_FLASH_PATTERN_LEN;
     let c = [idx, color_brightness led] @ fp @ [bit_off_period led, bit_on_period led] @
               pack_repeat_type_duration (repeat_type led) (repeat_duration led);
     (if timed
      then bt_esl_c_ecp_command_send e x (command_bytes (c @ le32 abs_time)) OP_LED_TIMED_CONTROL conn_idx s
      else bt_esl_c_ecp_command_send e x (command_bytes c) OP_LED_CONTROL conn_idx s)
   }"

definition bt_esl_c_display_control ::
  "('s, 'm) ap_env \<Rightarrow> ap_inp \<Rightarrow> u8 \<Rightarrow> u8 \<Rightarrow> u8 \<Rightarrow> bool \<Rightarrow> u32 \<Rightarrow> ap \<Rightarrow> (int \<times> ap) option" where
  "bt_esl_c_display_control e x conn_idx d img timed abs_time s =
     (if timed
      then bt_esl_c_ecp_command_send e x (command_bytes ([d, img] @ le32 abs_time)) OP_DISPLAY_TIMED_IMAGE conn_idx s
      else bt_esl_c_ecp_command_send e x (command_bytes [d, img]) OP_DISPLAY_IMAGE conn_idx s)"

definition bt_esl_c_refresh_display :: "('s, 'm) ap_env \<Rightarrow> ap_inp \<Rightarrow> u8 \<Rightarrow> u8 \<Rightarrow> ap \<Rightarrow> (int \<times> ap) option" where
  "bt_esl_c_refresh_display e x conn_idx disp_idx s =
     bt_esl_c_ecp_command_send e x (command_bytes [disp_idx]) OP_REFRESH_DISPLAY conn_idx s"

definition bt_esl_c_ping_op :: "('s, 'm) ap_env \<Rightarrow> ap_inp \<Rightarrow> u8 \<Rightarrow> ap \<Rightarrow> (int \<times> ap) option" where
  "bt_esl_c_ping_op e x conn_idx s = bt_esl_c_ecp_command_send e x (command_bytes []) OP_PING conn_idx s"

definition bt_esl_c_service_reset :: "('s, 'm) ap_env \<Rightarrow> ap_inp \<Rightarrow> u8 \<Rightarrow> ap \<Rightarrow> (int \<times> ap) option" where
  "bt_esl_c_service_reset e x conn_idx s =
     bt_esl_c_ecp_command_send e x (command_bytes []) OP_SERVICE_RESET conn_idx s"

definition bt_esl_c_read_sensor :: "('s, 'm) ap_env \<Rightarrow> ap_inp \<Rightarrow> u8 \<Rightarrow> u8 \<Rightarrow> ap \<Rightarrow> (int \<times> ap) option" where
  "bt_esl_c_read_sensor e x conn_idx sensor_idx s =
     bt_esl_c_ecp_command_send e x (command_bytes [sensor_idx]) OP_READ_SENSOR_DATA conn_idx s"

definition bt_esl_c_update_complete :: "('s, 'm) ap_env \<Rightarrow> ap_inp \<Rightarrow> u8 \<Rightarrow> ap \<Rightarrow> (int \<times> ap) option" where
  "bt_esl_c_update_complete e x conn_idx s =
     bt_esl_c_ecp_command_send e x (command_bytes []) OP_UPDATE_COMPLETE conn_idx s"

definition bt_c_esl_unassociate :: "('s, 'm) ap_env \<Rightarrow> ap_inp \<Rightarrow> u8 \<Rightarrow> ap \<Rightarrow> (int \<times> ap) option" where
  "bt_c_esl_unassociate e x conn_idx s =
     bt_esl_c_ecp_command_send e x (command_bytes []) OP_UNASSOCIATE conn_idx
       (s\<lparr>c_pending_unassociated := int (unat conn_idx)\<rparr>)"

text \<open>The argument of type \<open>uint8_t\<close> is the pending index, a 16-bit integer that may be -1.\<close>

definition bt_c_esl_post_unassociate :: "('s, 'm) ap_env \<Rightarrow> int \<Rightarrow> int \<Rightarrow> ap \<Rightarrow> (int \<times> ap) option" where
  "bt_c_esl_post_unassociate e unpair_code idx s =
     (let i = unat (of_int idx :: u8)
      in if max_conn (acfg e) \<le> i then Some (- EINVAL, s)
         else do {
           g \<leftarrow> rd (c_gatt s) i;
           let f = ap_effect (Ap_unpair (Some (dev_ble_addr (g_device g))));
           let s1 = (if ap_pts (acfg e) then f s else f (f s));
           Some (unpair_code, s1\<lparr>c_pending_unassociated := -1,
             c_esl_count := (if c_esl_count s > 0 then c_esl_count s - 1 else c_esl_count s)\<rparr>)
         })"

definition bt_esl_c_factory_reset :: "('s, 'm) ap_env \<Rightarrow> ap_inp \<Rightarrow> int \<Rightarrow> u8 \<Rightarrow> ap \<Rightarrow> (int \<times> ap) option" where
  "bt_esl_c_factory_reset e x unpair_code conn_idx s = do {
     (err, s1) \<leftarrow> bt_esl_c_ecp_command_send e x (command_bytes []) OP_FACTORY_RESET conn_idx s;
     (r, s2) \<leftarrow> bt_c_esl_post_unassociate e unpair_code (int (unat conn_idx)) s1;
     Some (err, s2)
   }"

subsection \<open>Responses\<close>

text \<open>\<open>dump_sensor_data\<close> prints as many bytes as the upper half of the first byte says.\<close>

definition sensor_report :: "u8 list \<Rightarrow> report option" where
  "sensor_report raw = do {
     b0 \<leftarrow> rd raw 0;
     b1 \<leftarrow> rd raw 1;
     d \<leftarrow> rd_mem raw 2 (unat (drop_bit 4 (b0 AND 0xf0)));
     Some (Rep_sensor b1 d)
   }"

text \<open>
  \<open>mem\<close> is the memory from the notified value on, \<open>len\<close> the value's length. The sensor mask 0x0E
  shares bits with the vendor mask 0x0F, so the test for a sensor value comes out true for most
  vendor responses.
\<close>

definition ecp_rsp_handler :: "('s, 'm) ap_env \<Rightarrow> int \<Rightarrow> nat \<Rightarrow> u8 list \<Rightarrow> u16 \<Rightarrow> ap \<Rightarrow> ap option" where
  "ecp_rsp_handler e unpair_code i mem len s = do {
     op \<leftarrow> rd mem 0;
     (if op = OP_ERR then do {
        c \<leftarrow> rd mem 1;
        Some (ap_effect (Ap_report (Rep_err c)) s)
      }
      else if op = OP_LED_STATE then do {
        c \<leftarrow> rd mem 1;
        Some (ap_effect (Ap_report (Rep_led c)) s)
      }
      else if op = OP_BASIC_STATE then do {
        b \<leftarrow> rd_mem mem 1 2;
        s1 \<leftarrow> upd_gatt i (\<lambda>g. g\<lparr>g_basic_state := ucast (z_get_le16 (azep e) b)\<rparr>) s;
        g \<leftarrow> rd (c_gatt s1) i;
        let s2 = ap_effect (Ap_report (Rep_basic (dev_esl_addr (g_device g)) (g_basic_state g))) s1;
        (if \<not> g_ecp_written g then None
         else do {
           op0 \<leftarrow> rd (c_ecp_buf s2) 0;
           (if op0 = OP_UNASSOCIATE
            then map_option snd (bt_c_esl_post_unassociate e unpair_code (c_pending_unassociated s2) s2)
            else Some s2)
         })
      }
      else if op = OP_DISPLAY_STATE then do {
        d \<leftarrow> rd mem 1;
        img \<leftarrow> rd mem 2;
        Some (ap_effect (Ap_report (Rep_display d img)) s)
      }
      else if op AND OP_SENSOR_VALUE_STATE_MASK \<noteq> 0 then do {
        r \<leftarrow> sensor_report mem;
        Some (ap_effect (Ap_report r) s)
      }
      else if op AND OP_VENDOR_SPECIFIC_STATE_MASK \<noteq> 0 then do {
        v \<leftarrow> (if len < 2 then None else rd_mem mem 0 (unat len - 2));
        Some (ap_effect (Ap_report (Rep_vendor v)) s)
      }
      else do {
        c \<leftarrow> rd mem 1;
        Some (ap_effect (Ap_report (Rep_err c)) s)
      })
   }"

definition on_ecp_received ::
  "('s, 'm) ap_env \<Rightarrow> int \<Rightarrow> nat \<Rightarrow> (u8 list \<times> u16) option \<Rightarrow> ap \<Rightarrow> ap option" where
  "on_ecp_received e unpair_code i data s =
     (case data of
        None \<Rightarrow> Some s
      | Some (mem, len) \<Rightarrow> ecp_rsp_handler e unpair_code i mem len s)"

subsection \<open>What a command puts on the link\<close>

definition wf_link :: "('s, 'm) ap_env \<Rightarrow> ap \<Rightarrow> bool" where
  "wf_link e s \<longleftrightarrow> length (c_gatt s) = peripheral_max (acfg e) \<and> length (c_conn s) = peripheral_max (acfg e) \<and>
     list_all (\<lambda>g. length (g_handles g) = NUMBERS_OF_HANDLE \<and> key_ok (dev_rsp_key (g_device g))) (c_gatt s) \<and>
     length (c_ecp_buf s) = ESL_ECP_COMMAND_MAX_LEN"

lemma wf_link_gatt:
  "wf_link e s \<Longrightarrow> i < peripheral_max (acfg e) \<Longrightarrow>
     i < length (c_gatt s) \<and> length (g_handles (c_gatt s ! i)) = 11 \<and> key_ok (dev_rsp_key (g_device (c_gatt s ! i)))"
  by (auto simp: wf_link_def list_all_length)

lemma wf_link_effect [simp]: "wf_link e (ap_effect x s) = wf_link e s"
  by (simp add: wf_link_def ap_effect_def)

text \<open>A tag that can be commanded: its connection is up and the stack accepts the write.\<close>

definition reachable_tag_link :: "('s, 'm) ap_env \<Rightarrow> ap_inp \<Rightarrow> u8 \<Rightarrow> ap \<Rightarrow> bool" where
  "reachable_tag_link e x c s \<longleftrightarrow> unat c < peripheral_max (acfg e) \<and> unat c < max_conn (acfg e) \<and>
     ap_connected e (unat c) s = Some True \<and> (\<forall>h v. ai_write x (unat c) h v = 0)"

definition tag_id :: "u8 \<Rightarrow> ap \<Rightarrow> u8" where
  "tag_id c s = LOW_BYTE (dev_esl_addr (g_device (c_gatt s ! unat c)))"

definition ecp_handle :: "u8 \<Rightarrow> ap \<Rightarrow> u16" where
  "ecp_handle c s = g_handles (c_gatt s ! unat c) ! HANDLE_ECP"

lemma command_sent:
  assumes wf: "wf_link e s" and ok: "reachable_tag_link e x c s"
    and p: "ecp_params op command = Some (Some (p, len))" "unat len = length p + 2" "length p \<le> 15"
  shows "yields (bt_esl_c_ecp_command_send e x command op c s) (\<lambda>(r, t). r = 0 \<and> wf_link e t \<and>
    c_trace t = c_trace s @ [Ap_gatt_write (unat c) (ecp_handle c s) ([op, tag_id c s] @ p) (\<not> c_write_wo_rsp s)] \<and>
    c_conn t = c_conn s \<and> c_scanned t = c_scanned s \<and> c_esl_count t = c_esl_count s \<and>
    map g_device (c_gatt t) = map g_device (c_gatt s))"
proof -
  have c: "unat c < peripheral_max (acfg e)" "unat c < max_conn (acfg e)" "ap_connected e (unat c) s = Some True"
    and w: "\<And>h v. ai_write x (unat c) h v = 0"
    using ok by (simp_all add: reachable_tag_link_def)
  note g = wf_link_gatt [OF wf c(1)]
  have b: "length (c_ecp_buf s) = 17" using wf by (simp add: wf_link_def)
  have all: "list_all (\<lambda>g. length (g_handles g) = 11 \<and> key_ok (dev_rsp_key (g_device g))) (c_gatt s)"
    using wf by (simp add: wf_link_def)
  have two: "take 2 [a, b'] = [a, b']" for a b' :: u8 by simp
  show ?thesis
    using c g b w p wf
    by (simp add: bt_esl_c_ecp_command_send_def wp upd_gatt_def gatt_write_wait_def gatt_write_wo_rsp_def Let_def
        ecp_handle_def tag_id_def wf_link_def list_all_update ap_effect_def map_update list_update_same_conv)
qed

lemma params_prefix:
  "length c \<le> 17 \<Longrightarrow> n \<le> length c \<Longrightarrow> take n (command_bytes c) = take n c"
  by (simp add: command_bytes_def)

lemma command_params:
  "op \<in> {OP_PING, OP_UNASSOCIATE, OP_SERVICE_RESET, OP_FACTORY_RESET, OP_UPDATE_COMPLETE} \<Longrightarrow>
     ecp_params op command = Some (Some ([], 2))"
  "op \<in> {OP_READ_SENSOR_DATA, OP_REFRESH_DISPLAY} \<Longrightarrow> ecp_params op (command_bytes [a]) = Some (Some ([a], 3))"
  "ecp_params OP_DISPLAY_IMAGE (command_bytes [a, b]) = Some (Some ([a, b], 4))"
  "ecp_params OP_DISPLAY_TIMED_IMAGE (command_bytes ([a, b] @ le32 t)) = Some (Some ([a, b] @ le32 t, 8))"
  by (auto simp: ecp_params_def command_bytes_def)

lemma led_params:
  assumes "length fp = 5" "length rep = 2"
  shows "ecp_params OP_LED_CONTROL (command_bytes ([i, c] @ fp @ [off, on] @ rep)) =
      Some (Some ([i, c] @ fp @ [off, on] @ rep, 13))"
    "ecp_params OP_LED_TIMED_CONTROL (command_bytes (([i, c] @ fp @ [off, on] @ rep) @ le32 t)) =
      Some (Some (([i, c] @ fp @ [off, on] @ rep) @ le32 t, 17))"
  using assms by (auto simp: ecp_params_def command_bytes_def)

text \<open>The LED command as bytes.\<close>

definition led_bytes :: "u8 \<Rightarrow> led_obj \<Rightarrow> u8 list" where
  "led_bytes i lo = [i, color_brightness lo] @ flash_pattern lo @ [bit_off_period lo, bit_on_period lo] @
     pack_repeat_type_duration (repeat_type lo) (repeat_duration lo)"

lemma led_control_sent:
  assumes wf: "wf_link e s" and ok: "reachable_tag_link e x c s" and fp: "length (flash_pattern lo) = 5"
  shows "yields (bt_esl_c_led_control e x c i lo timed t s) (\<lambda>(r, u). r = 0 \<and> wf_link e u \<and>
    c_trace u = c_trace s @ [Ap_gatt_write (unat c) (ecp_handle c s)
      (if timed then [OP_LED_TIMED_CONTROL, tag_id c s] @ led_bytes i lo @ le32 t
       else [OP_LED_CONTROL, tag_id c s] @ led_bytes i lo) (\<not> c_write_wo_rsp s)])"
proof -
  have l: "length (led_bytes i lo) = 11" using fp by (simp add: led_bytes_def)
  have p: "ecp_params OP_LED_CONTROL (command_bytes (led_bytes i lo)) = Some (Some (led_bytes i lo, 13))"
    "ecp_params OP_LED_TIMED_CONTROL (command_bytes (led_bytes i lo @ le32 t)) = Some (Some (led_bytes i lo @ le32 t, 17))"
    using led_params [OF fp length_pack] unfolding led_bytes_def by simp_all
  have d: "bt_esl_c_led_control e x c i lo timed t s =
      (if timed then bt_esl_c_ecp_command_send e x (command_bytes (led_bytes i lo @ le32 t)) OP_LED_TIMED_CONTROL c s
       else bt_esl_c_ecp_command_send e x (command_bytes (led_bytes i lo)) OP_LED_CONTROL c s)"
    using fp by (simp add: bt_esl_c_led_control_def led_bytes_def)
  have n: "unat (13 :: u16) = length (led_bytes i lo) + 2" "unat (17 :: u16) = length (led_bytes i lo @ le32 t) + 2"
    "length (led_bytes i lo) \<le> 15" "length (led_bytes i lo @ le32 t) \<le> 15"
    by (simp_all add: l)
  show ?thesis
    unfolding d using command_sent [OF wf ok p(2) n(2,4)] command_sent [OF wf ok p(1) n(1,3)]
    by (cases timed) (auto elim!: yields_mono)
qed

subsection \<open>The access point's clock\<close>

lemma c_rem_small: "\<bar>a\<bar> < b \<Longrightarrow> c_rem a b = a"
  by (auto simp: c_rem_def sgn_mult_abs)

text \<open>The clock shows the difference to the anchor, but skips the value UINT32_MAX.\<close>

lemma ap_clock:
  assumes "c_anchor s = int (unat (a :: u32))"
  shows "esl_c_get_abs_time now s =
    (if \<bar>int (unat now) - int (unat a)\<bar> = 4294967295 then 0 else now - a)"
proof -
  let ?d = "int (unat now) - int (unat a)"
  have "uint now < 4294967296" "uint a < 4294967296" "0 \<le> uint now" "0 \<le> uint a"
    using unsigned_less [of now, where 'a = int] unsigned_less [of a, where 'a = int] by simp_all
  then have "\<bar>uint now - uint a\<bar> \<le> 4294967295" by linarith
  then have b: "\<bar>?d\<bar> \<le> 4294967295" by simp
  show ?thesis
  proof (cases "\<bar>?d\<bar> = 4294967295")
    case True
    then show ?thesis by (simp add: esl_c_get_abs_time_def assms c_rem_def)
  next
    case False
    then have "c_rem ?d 4294967295 = ?d" using b by (intro c_rem_small) simp
    then show ?thesis using False by (simp add: esl_c_get_abs_time_def assms)
  qed
qed

lemma ap_clock_updated:
  "esl_c_get_abs_time now (esl_c_abs_timer_update t0 v s) =
     (if \<bar>int (unat now) - int (unat (t0 - v))\<bar> = 4294967295 then 0 else v + (now - t0))"
  by (subst ap_clock [of _ "t0 - v"]) (simp_all add: esl_c_abs_timer_update_def)

subsection \<open>Which responses are taken for sensor values\<close>

lemma vendor_nibble:
  "(op :: u8) AND 0x0F = 0x0F \<Longrightarrow> op AND 0x0E \<noteq> 0"
proof
  assume a: "op AND 0x0F = 0x0F" "op AND 0x0E = 0"
  have "bit (op AND 0x0F) 1" unfolding a(1) by simp
  then have "bit op 1" by (simp add: bit_and_iff)
  then have "bit (op AND 0x0E) 1" by (simp add: bit_and_iff)
  then show False using a(2) by simp
qed

lemma vendor_as_sensor:
  assumes "mem \<noteq> []" "mem ! 0 AND 0x0F = 0x0F"
  shows "ecp_rsp_handler e k i mem len s =
    map_option (\<lambda>r. ap_effect (Ap_report r) s) (sensor_report mem)"
proof -
  have "mem ! 0 \<noteq> OP_ERR" "mem ! 0 \<noteq> OP_LED_STATE" "mem ! 0 \<noteq> OP_BASIC_STATE" "mem ! 0 \<noteq> OP_DISPLAY_STATE"
    using assms(2) by auto
  then show ?thesis
    using vendor_nibble [OF assms(2)] assms(1)
    by (cases "sensor_report mem") (simp_all add: ecp_rsp_handler_def)
qed

end
