(* ===== verification/Ap_Reads.thy ===== *)
theory Ap_Reads
  imports Ap_Ecp
begin

unbundle bit_operations_syntax

text \<open>
  Reading a tag's information characteristics in \<open>service/esl_client.c\<close>: the requests, and the callbacks
  that store the values. \<open>data\<close> is \<open>None\<close> for the null pointer that ends a read. No callback checks the
  length of a value against the array it is copied to.
\<close>

datatype gatt_iter = BT_GATT_ITER_STOP | BT_GATT_ITER_CONTINUE

subsection \<open>One characteristic at a time\<close>

definition esl_c_read_disp_inf :: "nat \<Rightarrow> u8 \<Rightarrow> u8 list option \<Rightarrow> ap \<Rightarrow> (gatt_iter \<times> ap) option" where
  "esl_c_read_disp_inf i err data s =
     (if err \<noteq> 0 then Some (BT_GATT_ITER_STOP, s)
      else case data of
        Some v \<Rightarrow> do {
          g \<leftarrow> rd (c_gatt s) i;
          m \<leftarrow> wr_mem (dev_displays (g_device g)) (unat (c_read_offset s)) v;
          s1 \<leftarrow> upd_device i (\<lambda>d. d\<lparr>dev_displays := m\<rparr>) s;
          Some (BT_GATT_ITER_CONTINUE, s1\<lparr>c_read_offset := c_read_offset s + of_nat (length v)\<rparr>)
        }
      | None \<Rightarrow> do {
          s1 \<leftarrow> upd_device i (\<lambda>d. d\<lparr>dev_display_count := of_nat (unat (c_read_offset s) div DISP_INF_SIZE)\<rparr>) s;
          Some (BT_GATT_ITER_STOP, s1\<lparr>c_read_offset := 0\<rparr>)
        })"

text \<open>The value is copied over \<open>max_image_index\<close>, an object of one byte.\<close>

definition esl_c_read_img_inf :: "nat \<Rightarrow> u8 \<Rightarrow> u8 list option \<Rightarrow> ap \<Rightarrow> (gatt_iter \<times> ap) option" where
  "esl_c_read_img_inf i err data s =
     (if err \<noteq> 0 then Some (BT_GATT_ITER_STOP, s)
      else case data of
        None \<Rightarrow> None
      | Some v \<Rightarrow> do {
          g \<leftarrow> rd (c_gatt s) i;
          m \<leftarrow> wr_mem [dev_max_image (g_device g)] 0 v;
          s1 \<leftarrow> upd_device i (\<lambda>d. d\<lparr>dev_max_image := m ! 0\<rparr>) s;
          Some (BT_GATT_ITER_STOP, s1)
        })"

definition esl_c_read_sensor_inf :: "nat \<Rightarrow> u8 \<Rightarrow> u8 list option \<Rightarrow> ap \<Rightarrow> (gatt_iter \<times> ap) option" where
  "esl_c_read_sensor_inf i err data s =
     (if err \<noteq> 0 then Some (BT_GATT_ITER_STOP, s)
      else case data of
        Some v \<Rightarrow> do {
          m \<leftarrow> wr_mem (c_sensor_temp s) (unat (c_read_offset s)) v;
          Some (BT_GATT_ITER_CONTINUE, s\<lparr>c_sensor_temp := m, c_read_offset := c_read_offset s + of_nat (length v)\<rparr>)
        }
      | None \<Rightarrow> do {
          g \<leftarrow> rd (c_gatt s) i;
          (sis, n) \<leftarrow> parse_sensor_info_from_raw (dev_sensors (g_device g)) (c_sensor_temp s) (c_read_offset s);
          s1 \<leftarrow> upd_device i (\<lambda>d. d\<lparr>dev_sensors := sis, dev_sensor_count := ucast n\<rparr>) s;
          Some (BT_GATT_ITER_STOP, s1\<lparr>c_read_offset := 0\<rparr>)
        })"

definition esl_c_read_led_inf :: "nat \<Rightarrow> u8 \<Rightarrow> u8 list option \<Rightarrow> ap \<Rightarrow> (gatt_iter \<times> ap) option" where
  "esl_c_read_led_inf i err data s =
     (if err \<noteq> 0 then Some (BT_GATT_ITER_STOP, s)
      else case data of
        Some v \<Rightarrow> do {
          g \<leftarrow> rd (c_gatt s) i;
          m \<leftarrow> wr_mem (dev_led_type (g_device g)) (unat (c_read_offset s)) v;
          s1 \<leftarrow> upd_device i (\<lambda>d. d\<lparr>dev_led_type := m\<rparr>) s;
          Some (BT_GATT_ITER_CONTINUE, s1\<lparr>c_read_offset := c_read_offset s + of_nat (length v)\<rparr>)
        }
      | None \<Rightarrow> do {
          s1 \<leftarrow> upd_device i (\<lambda>d. d\<lparr>dev_led_count := c_read_offset s\<rparr>) s;
          Some (BT_GATT_ITER_STOP, s1\<lparr>c_read_offset := 0\<rparr>)
        })"

text \<open>
  A read that waits for its flag: \<open>answers\<close> are the callbacks of the stack, an error code and the value.
  The flag is set where a callback ends the read, so without such a callback the caller waits forever.
\<close>

fun run_reads ::
  "(u8 \<Rightarrow> u8 list option \<Rightarrow> ap \<Rightarrow> (gatt_iter \<times> ap) option) \<Rightarrow> (u8 \<times> u8 list option) list \<Rightarrow> ap \<Rightarrow> ap option" where
  "run_reads cb [] s = None"
| "run_reads cb ((err, v) # as) s = do {
     (r, s1) \<leftarrow> cb err v s;
     (if r = BT_GATT_ITER_STOP then Some s1 else run_reads cb as s1)
   }"

definition read_and_wait ::
  "ap_inp \<Rightarrow> nat \<Rightarrow> nat \<Rightarrow> (u8 \<Rightarrow> u8 list option \<Rightarrow> ap \<Rightarrow> (gatt_iter \<times> ap) option) \<Rightarrow>
   (u8 \<times> u8 list option) list \<Rightarrow> ap \<Rightarrow> ap option" where
  "read_and_wait x i h cb answers s = do {
     g \<leftarrow> rd (c_gatt s) i;
     handle \<leftarrow> rd (g_handles g) h;
     (if handle = BT_ATT_INVALID_HANDLE then Some s
      else if ai_read x \<noteq> 0 then None
      else run_reads cb answers (ap_effect (Ap_gatt_read i [handle]) (s\<lparr>c_read_offset := 0\<rparr>)))
   }"

definition bt_esl_c_read_chrc ::
  "('s, 'm) ap_env \<Rightarrow> ap_inp \<Rightarrow> (nat \<Rightarrow> (u8 \<times> u8 list option) list) \<Rightarrow> nat \<Rightarrow> ap \<Rightarrow> (int \<times> ap) option" where
  "bt_esl_c_read_chrc e x answers i s = do {
     connected \<leftarrow> ap_connected e i s;
     (if \<not> connected then Some (- EACCES, s)
      else do {
        s1 \<leftarrow> read_and_wait x i HANDLE_DISP_INF (esl_c_read_disp_inf i) (answers HANDLE_DISP_INF) s;
        s2 \<leftarrow> read_and_wait x i HANDLE_IMAGE_INF (esl_c_read_img_inf i) (answers HANDLE_IMAGE_INF) s1;
        g \<leftarrow> rd (c_gatt s2) i;
        h \<leftarrow> rd (g_handles g) HANDLE_SENSOR_INF;
        s3 \<leftarrow> read_and_wait x i HANDLE_SENSOR_INF (esl_c_read_sensor_inf i) (answers HANDLE_SENSOR_INF)
          (if h = BT_ATT_INVALID_HANDLE then s2 else s2\<lparr>c_sensor_temp := replicate BT_ATT_MAX_ATTRIBUTE_LEN 0\<rparr>);
        s4 \<leftarrow> read_and_wait x i HANDLE_LED_INF (esl_c_read_led_inf i) (answers HANDLE_LED_INF) s3;
        Some (0, s4)
      })
   }"

subsection \<open>All characteristics in one request\<close>

text \<open>The case of the value at position \<open>chrc_read_offset\<close>.\<close>

definition store_value :: "('s, 'm) ap_env \<Rightarrow> nat \<Rightarrow> u16 \<Rightarrow> u8 list \<Rightarrow> ap \<Rightarrow> ap option option" where
  "store_value e i pos v s =
     (if pos = 0 then Some (do {
        g \<leftarrow> rd (c_gatt s) i;
        m \<leftarrow> wr_mem (dev_displays (g_device g)) 0 v;
        upd_device i (\<lambda>d. d\<lparr>dev_displays := m, dev_display_count := of_nat (length v div DISP_INF_SIZE)\<rparr>) s })
      else if pos = 1 then Some (do {
        g \<leftarrow> rd (c_gatt s) i;
        m \<leftarrow> wr_mem [dev_max_image (g_device g)] 0 v;
        upd_device i (\<lambda>d. d\<lparr>dev_max_image := m ! 0\<rparr>) s })
      else if pos = 2 then Some (do {
        m \<leftarrow> wr_mem (c_sensor_temp s) 0 v;
        g \<leftarrow> rd (c_gatt s) i;
        (sis, n) \<leftarrow> parse_sensor_info_from_raw (dev_sensors (g_device g)) m (of_nat (length v));
        upd_device i (\<lambda>d. d\<lparr>dev_sensors := sis, dev_sensor_count := ucast n\<rparr>) (s\<lparr>c_sensor_temp := m\<rparr>) })
      else if pos = 3 then Some (do {
        g \<leftarrow> rd (c_gatt s) i;
        m \<leftarrow> wr_mem (dev_led_type (g_device g)) 0 v;
        upd_device i (\<lambda>d. d\<lparr>dev_led_type := m, dev_led_count := of_nat (length v)\<rparr>) s })
      else if pos = 4 then Some (do {
        vid \<leftarrow> rd_mem v 1 2;
        pid \<leftarrow> rd_mem v 3 2;
        upd_device i (\<lambda>d. d\<lparr>dev_pnp_vid := z_get_le16 (azep e) vid, dev_pnp_pid := z_get_le16 (azep e) pid\<rparr>) s })
      else None)"

text \<open>An empty value ends the transfer just as the null pointer does.\<close>

definition esl_c_read_multi ::
  "('s, 'm) ap_env \<Rightarrow> nat \<Rightarrow> u8 \<Rightarrow> u8 list \<Rightarrow> ap \<Rightarrow> (gatt_iter \<times> ap) option" where
  "esl_c_read_multi e i err v s =
     (if err \<noteq> 0 then Some (BT_GATT_ITER_STOP, s)
      else if v \<noteq> [] then
        (case store_value e i (c_read_offset s) v s of
           None \<Rightarrow> Some (BT_GATT_ITER_STOP, s)
         | Some m \<Rightarrow> do {
             s1 \<leftarrow> m;
             Some (BT_GATT_ITER_CONTINUE, s1\<lparr>c_read_offset := c_read_offset s + 1\<rparr>)
           })
      else Some (BT_GATT_ITER_STOP, s\<lparr>c_read_offset := 0\<rparr>))"

definition bt_esl_c_read_chrc_multi :: "('s, 'm) ap_env \<Rightarrow> ap_inp \<Rightarrow> nat \<Rightarrow> ap \<Rightarrow> (int \<times> ap) option" where
  "bt_esl_c_read_chrc_multi e x i s = do {
     g \<leftarrow> rd (c_gatt s) i;
     hs \<leftarrow> those (map (rd (g_handles g)) [HANDLE_DISP_INF, HANDLE_IMAGE_INF, HANDLE_SENSOR_INF, HANDLE_LED_INF, HANDLE_DIS_PNPID]);
     connected \<leftarrow> ap_connected e i s;
     (if \<not> connected then Some (- EACCES, s)
      else let s1 = s\<lparr>c_sensor_temp := replicate BT_ATT_MAX_ATTRIBUTE_LEN 0\<rparr>
           in Some (ai_read x, if ai_read x = 0 then ap_effect (Ap_gatt_read i hs) s1 else s1))
   }"

text \<open>The answer to the request: one callback per value, then the one that ends it.\<close>

fun read_values :: "('s, 'm) ap_env \<Rightarrow> nat \<Rightarrow> u8 list list \<Rightarrow> ap \<Rightarrow> ap option" where
  "read_values e i [] s = map_option snd (esl_c_read_multi e i 0 [] s)"
| "read_values e i (v # vs) s = do {
     (r, s1) \<leftarrow> esl_c_read_multi e i 0 v s;
     (if r = BT_GATT_ITER_STOP then Some s1 else read_values e i vs s1)
   }"

subsection \<open>What a complete answer stores\<close>

text \<open>The values a tag serves, within the arrays of the access point.\<close>

definition values_fit :: "ap_device \<Rightarrow> u8 list \<Rightarrow> u8 list \<Rightarrow> u8 list \<Rightarrow> bool" where
  "values_fit d disp sens leds \<longleftrightarrow> disp \<noteq> [] \<and> length disp \<le> length (dev_displays d) \<and> sens \<noteq> [] \<and>
     length sens \<le> BT_ATT_MAX_ATTRIBUTE_LEN \<and> leds \<noteq> [] \<and> length leds \<le> length (dev_led_type d)"

lemma read_all:
  assumes z: "zephyr_ok (azep e)" and wf: "wf_link e s" and i: "i < peripheral_max (acfg e)"
    and d: "d = g_device (c_gatt s ! i)" and fit: "values_fit d disp sens leds"
    and start: "c_read_offset s = 0" "length (c_sensor_temp s) = BT_ATT_MAX_ATTRIBUTE_LEN"
    and parsed: "parse_sensor_info_from_raw (dev_sensors d) (sens @ drop (length sens) (c_sensor_temp s)) (of_nat (length sens)) = Some (sis, n)"
  shows "yields (read_values e i [disp, [img], sens, leds, [src] @ le16 vid @ le16 pid @ le16 ver] s) (\<lambda>t.
    c_read_offset t = 0 \<and> g_device (c_gatt t ! i) =
      d\<lparr>dev_displays := disp @ drop (length disp) (dev_displays d), dev_display_count := of_nat (length disp div DISP_INF_SIZE),
        dev_max_image := img, dev_sensors := sis, dev_sensor_count := ucast n,
        dev_led_type := leds @ drop (length leds) (dev_led_type d), dev_led_count := of_nat (length leds),
        dev_pnp_vid := vid, dev_pnp_pid := pid\<rparr>)"
proof -
  have l: "i < length (c_gatt s)" using wf_link_gatt [OF wf i] by simp
  have ids: "take 2 (drop 1 ([src] @ le16 vid @ le16 pid @ le16 ver)) = le16 vid"
    "take 2 (drop 3 ([src] @ le16 vid @ le16 pid @ le16 ver)) = le16 pid"
    by (simp_all add: le16_def)
  show ?thesis
    using l fit start parsed ids
    by (simp add: esl_c_read_multi_def store_value_def upd_device_def upd_gatt_def wr_mem_in values_fit_def
        d [symmetric] z_get_le16_only [OF z] rd_mem_in Let_def)
qed

subsection \<open>Reading piece by piece\<close>

text \<open>The callbacks of a long read: the pieces of the value, then the end.\<close>

definition pieces :: "u8 list list \<Rightarrow> (u8 \<times> u8 list option) list" where
  "pieces ps = map (\<lambda>p. (0, Some p)) ps @ [(0, None)]"

lemma pieces_simps [simp]: "pieces [] = [(0, None)]" "pieces (p # ps) = (0, Some p) # pieces ps"
  by (simp_all add: pieces_def)

lemma take_drop_piece:
  assumes "off + length p \<le> length m"
  shows "take off (take off m @ p @ drop (off + length p) m) = take off m"
    "take (off + length p) (take off m @ p @ drop (off + length p) m) = take off m @ p"
  using assms by simp_all

lemma offset_add: "off + length p < 65536 \<Longrightarrow> unat o' = off \<Longrightarrow> unat (o' + of_nat (length p) :: u16) = off + length p"
  by (subst unat_add_lem [THEN iffD1]) (simp_all add: unat_of_nat_u16)

lemma read_disp_pieces:
  assumes "i < length (c_gatt s)" "unat (c_read_offset s) = off" "off + length (concat ps) < 65536"
    and "off + length (concat ps) \<le> length (dev_displays (g_device (c_gatt s ! i)))"
  shows "yields (run_reads (esl_c_read_disp_inf i) (pieces ps) s) (\<lambda>t.
    t = s\<lparr>c_read_offset := 0, c_gatt := (c_gatt s)[i := (c_gatt s ! i)\<lparr>g_device := (g_device (c_gatt s ! i))
      \<lparr>dev_displays := take off (dev_displays (g_device (c_gatt s ! i))) @ concat ps @
         drop (off + length (concat ps)) (dev_displays (g_device (c_gatt s ! i))),
       dev_display_count := of_nat ((off + length (concat ps)) div DISP_INF_SIZE)\<rparr>\<rparr>]\<rparr>)"
  using assms
proof (induction ps arbitrary: s off)
  case Nil
  then show ?case by (simp add: esl_c_read_disp_inf_def upd_device_def upd_gatt_def)
next
  case (Cons p ps)
  let ?d = "g_device (c_gatt s ! i)"
  let ?m = "take off (dev_displays ?d) @ p @ drop (off + length p) (dev_displays ?d)"
  let ?s = "s\<lparr>c_gatt := (c_gatt s)[i := (c_gatt s ! i)\<lparr>g_device := ?d\<lparr>dev_displays := ?m\<rparr>\<rparr>],
     c_read_offset := c_read_offset s + of_nat (length p)\<rparr>"
  have step: "esl_c_read_disp_inf i 0 (Some p) s = Some (BT_GATT_ITER_CONTINUE, ?s)"
    using Cons.prems by (simp add: esl_c_read_disp_inf_def upd_device_def upd_gatt_def wr_mem_in)
  have off: "unat (c_read_offset ?s) = off + length p"
    using Cons.prems(2,3) by (simp add: offset_add)
  have ih: "yields (run_reads (esl_c_read_disp_inf i) (pieces ps) ?s) (\<lambda>t.
    t = ?s\<lparr>c_read_offset := 0, c_gatt := (c_gatt ?s)[i := (c_gatt ?s ! i)\<lparr>g_device := (g_device (c_gatt ?s ! i))
      \<lparr>dev_displays := take (off + length p) (dev_displays (g_device (c_gatt ?s ! i))) @ concat ps @
         drop (off + length p + length (concat ps)) (dev_displays (g_device (c_gatt ?s ! i))),
       dev_display_count := of_nat ((off + length p + length (concat ps)) div DISP_INF_SIZE)\<rparr>\<rparr>]\<rparr>)"
    by (rule Cons.IH [OF _ off]) (use Cons.prems in simp_all)
  have "run_reads (esl_c_read_disp_inf i) (pieces (p # ps)) s = run_reads (esl_c_read_disp_inf i) (pieces ps) ?s"
    by (simp add: step)
  then show ?case using ih Cons.prems(1,4) by (simp add: ac_simps take_drop_piece)
qed

end
