(* ===== verification/Ap_Config.thy ===== *)
theory Ap_Config
  imports Ap_Reads Ap_Sync
begin

unbundle bit_operations_syntax

text \<open>
  Configuring a tag in \<open>service/esl_client.c\<close>: the writes that provision it, the transfer of the periodic
  advertising synchronisation (PAST) with its retries, and the automatic onboarding that hands out
  addresses and images. Work items run on queues of their own, so what other threads change meanwhile
  (the connection during a PAST) is an argument.
\<close>

subsection \<open>Configuration\<close>

definition bt_esl_configure :: "('s, 'm) ap_env \<Rightarrow> u8 \<Rightarrow> u16 \<Rightarrow> ap \<Rightarrow> ap" where
  "bt_esl_configure e conn_idx addr s =
     (if max_conn (acfg e) \<le> unat conn_idx then s
      else ap_effect (Ap_work Config_work) (s\<lparr>c_config_conn := conn_idx, c_config_addr := addr\<rparr>))"

text \<open>The answers to the read request arrive after the tag has been stored: nothing waits for them.\<close>

definition esl_ap_config_work_fn :: "('s, 'm) ap_env \<Rightarrow> ap_inp \<Rightarrow> ap \<Rightarrow> ap option" where
  "esl_ap_config_work_fn e x s = do {
     let c = c_config_conn s;
     let addr = c_config_addr s;
     connected \<leftarrow> ap_connected e (unat c) s;
     (if \<not> connected then Some (ap_effect (Ap_configured False c addr) s)
      else do {
        s1 \<leftarrow> upd_device (unat c) (\<lambda>d. d\<lparr>dev_esl_addr := addr\<rparr>) s;
        (r1, s2) \<leftarrow> bt_esl_c_write_esl_addr e x c addr s1;
        s3 \<leftarrow> esl_c_ap_key_update e x c s2;
        s4 \<leftarrow> esl_c_rsp_key_update e x c s3;
        s5 \<leftarrow> esl_c_tag_abs_timer_update e x c s4;
        (r2, s6) \<leftarrow> bt_esl_c_read_chrc_multi e x (unat c) s5;
        s7 \<leftarrow> upd_device (unat c) (\<lambda>d. d\<lparr>dev_past_needed := True\<rparr>) s6;
        g \<leftarrow> rd (c_gatt s7) (unat c);
        let s8 = (if ap_tag_storage (acfg e) then ap_effect (Ap_store_tag (g_device g)) s7 else s7);
        (r3, s9) \<leftarrow> bt_esl_c_ecp_command_send e x (command_bytes []) OP_UPDATE_COMPLETE c s8;
        Some (ap_effect (Ap_configured True c addr) s9)
      })
   }"

subsection \<open>Handing over the synchronisation\<close>

definition link_peer :: "('s, 'm) ap_env \<Rightarrow> bt_conn option \<Rightarrow> bt_addr_le option" where
  "link_peer e c = (case c of Some l \<Rightarrow> Some (conn_peer l) | None \<Rightarrow> null_peer e)"

text \<open>
  The loop from round \<open>i\<close> on, \<open>n\<close> rounds to go: \<open>links i\<close> is the connection as round \<open>i\<close> finds it,
  \<open>code i\<close> what the transfer returns there.
\<close>

fun past_loop ::
  "('s, 'm) ap_env \<Rightarrow> (nat \<Rightarrow> bt_conn option) \<Rightarrow> (nat \<Rightarrow> int) \<Rightarrow> nat \<Rightarrow> bt_addr_le \<Rightarrow> nat \<Rightarrow> nat \<Rightarrow> ap \<Rightarrow> (int \<times> ap) option" where
  "past_loop e links code c peer i 0 s = Some (0, s)"
| "past_loop e links code c peer i (Suc n) s = do {
     cur \<leftarrow> link_peer e (links i);
     (if link_up e (links i) \<and> peer = cur then
        (if i = past_retry (acfg e) \<and> \<not> ap_pts (acfg e) then Some (- EAGAIN, ap_effect (Ap_disconnect c) s)
         else if code i = 0 then past_loop e links code c peer (Suc i) n (ap_effect (Ap_past c) s)
         else Some (code i, s))
      else Some (0, s))
   }"

definition esl_c_past ::
  "('s, 'm) ap_env \<Rightarrow> (nat \<Rightarrow> bt_conn option) \<Rightarrow> (nat \<Rightarrow> int) \<Rightarrow> u8 \<Rightarrow> ap \<Rightarrow> (int \<times> ap) option" where
  "esl_c_past e links code conn_idx s =
     (if max_conn (acfg e) \<le> unat conn_idx then Some (- EINVAL, s)
      else do {
        l \<leftarrow> rd (c_conn s) (unat conn_idx);
        peer \<leftarrow> link_peer e l;
        past_loop e (links(0 := l)) code (unat conn_idx) peer 0 (past_retry (acfg e) + 1) s
      })"

definition esl_c_past_unsynced_tag ::
  "('s, 'm) ap_env \<Rightarrow> ap_inp \<Rightarrow> (nat \<Rightarrow> bt_conn option) \<Rightarrow> (nat \<Rightarrow> int) \<Rightarrow> u8 \<Rightarrow> ap \<Rightarrow> (int \<times> ap) option" where
  "esl_c_past_unsynced_tag e x links code conn_idx s = do {
     g \<leftarrow> rd (c_gatt s) (unat conn_idx);
     (if \<not> dev_past_needed (g_device g) then Some (1, s)
      else do {
        (r1, s1) \<leftarrow> bt_esl_c_write_esl_addr e x conn_idx (dev_esl_addr (g_device g)) s;
        s2 \<leftarrow> esl_c_tag_abs_timer_update e x conn_idx s1;
        s3 \<leftarrow> esl_c_ap_key_update e x conn_idx s2;
        s4 \<leftarrow> esl_c_rsp_key_update e x conn_idx s3;
        (r2, s5) \<leftarrow> bt_esl_c_ecp_command_send e x (command_bytes []) OP_UPDATE_COMPLETE conn_idx s4;
        (if r2 \<noteq> 0 then Some (r2, s5) else esl_c_past e links code conn_idx s5)
      })
   }"

subsection \<open>Automatic onboarding\<close>

text \<open>The images for the products the access point knows: place on the tag, number of the stored image.\<close>

definition pnp_images :: "u16 \<Rightarrow> (u8 \<times> u16) list" where
  "pnp_images pid =
     (if pid = 0x5480 then [(0, 4), (1, 5), (2, 6)]
      else if pid = 0x5481 then [(0, 2), (1, 3)]
      else if pid = 0x5482 then [(0, 0), (1, 1)]
      else if pid = 0x5483 then [(0, 7), (1, 8)]
      else if pid = 0x5485 then [(0, 0), (1, 1)]
      else if pid = 0x5486 then [(0, 0)]
      else if pid = 0x5488 then [(0, 9), (1, 0xA)]
      else if pid = 0x548A then [(0, 0), (1, 1)]
      else if pid = 0x548C then [(0, 0), (1, 1)]
      else [])"

text \<open>\<open>k_msgq_put\<close> without waiting: what does not fit is dropped.\<close>

fun queue_images :: "nat \<Rightarrow> u8 \<Rightarrow> (u8 \<times> u16) list \<Rightarrow> (u8 \<times> u8 \<times> u16) list \<Rightarrow> (u8 \<times> u8 \<times> u16) list" where
  "queue_images cap c [] q = q"
| "queue_images cap c ((t, img) # xs) q =
     queue_images cap c xs (if length q < cap then q @ [(c, t, img)] else q)"

text \<open>The address for the next tag.\<close>

definition next_esl_addr :: "('s, 'm) ap_env \<Rightarrow> ap \<Rightarrow> u16" where
  "next_esl_addr e s =
     (let a = c_addr_start s + 1
      in if unat (default_esl_id (acfg e)) + unat (c_tags_per_group s) \<le> unat (LOW_BYTE a)
         then push_bit 8 (ucast ((GROUPID_BYTE a + 1) AND 0x7f)) OR ucast (default_esl_id (acfg e))
         else a)"

definition esl_c_auto_configuring_tag :: "('s, 'm) ap_env \<Rightarrow> u8 \<Rightarrow> ap \<Rightarrow> ap option" where
  "esl_c_auto_configuring_tag e conn_idx s = do {
     let s1 = bt_esl_configure e conn_idx (c_addr_start s) s;
     g \<leftarrow> rd (c_gatt s1) (unat conn_idx);
     let s2 = s1\<lparr>c_img_queue := queue_images (img_queue_max (acfg e)) conn_idx (pnp_images (dev_pnp_pid (g_device g))) (c_img_queue s1)\<rparr>;
     let s3 = ap_effect (Ap_work Img_work) s2;
     Some (s3\<lparr>c_addr_start := next_esl_addr e s3\<rparr>)
   }"

subsection \<open>Images over the object transfer service\<close>

text \<open>
  The callbacks of the object transfer client, and what the functions that wait for them get:
  \<open>oi_selected\<close> and \<open>oi_written\<close> say whether the flag they wait for is set eventually, by a callback or by
  the loss of the link; \<open>oi_image\<close> is the image store, with the size it reports, the code and the bytes of a read.
\<close>

record ots_inp =
  oi_select :: int
  oi_selected :: bool
  oi_write :: int
  oi_written :: bool
  oi_image :: "string \<Rightarrow> nat \<times> int \<times> u8 list"
  oi_random :: "u8 list"

definition on_obj_data_written :: "nat \<Rightarrow> u32 \<Rightarrow> ap \<Rightarrow> ap option" where
  "on_obj_data_written i len s = do {
     g \<leftarrow> rd (c_gatt s) i;
     Some (ap_effect (Ap_report (Rep_written (of_nat i) (ucast (g_cur_object g - BT_OTS_OBJ_ID_MIN)) len (g_image_crc g)))
       (s\<lparr>c_ots_written := True\<rparr>))
   }"

definition obj_checksum_calculated :: "nat \<Rightarrow> u32 \<Rightarrow> ap \<Rightarrow> ap option" where
  "obj_checksum_calculated i crc s = do {
     g \<leftarrow> rd (c_gatt s) i;
     Some (ap_effect (Ap_report (Rep_image_valid (crc = g_image_crc g))) s)
   }"

definition MNT_POINT :: string where "MNT_POINT = ''/ots_image''"

definition esl_c_obj_write_by_name ::
  "('s, 'm) ap_env \<Rightarrow> ots_inp \<Rightarrow> u8 \<Rightarrow> u8 \<Rightarrow> string \<Rightarrow> ap \<Rightarrow> (int \<times> ap) option" where
  "esl_c_obj_write_by_name e w conn_idx tag_img_idx img_name s =
     (if max_conn (acfg e) \<le> unat conn_idx then Some (- EINVAL, s)
      else do {
        let i = unat conn_idx;
        let oid = BT_OTS_OBJ_ID_MIN + ucast tag_img_idx;
        g \<leftarrow> rd (c_gatt s) i;
        (if oi_select w \<noteq> 0 then Some (- ENOENT, s)
         else if \<not> oi_selected w then None
         else do {
           let s1 = ap_effect (Ap_ots_select i oid) (s\<lparr>c_gatt := (c_gatt s)[i := g\<lparr>g_cur_object := oid\<rparr>]\<rparr>);
           let pts = (ap_pts (acfg e) \<and> img_name = ''PTS'');
           let (size, err, bytes) = (if pts then (100, 0, take 100 (oi_random w))
             else oi_image w (take (fs_path_len (acfg e) - 1) (MNT_POINT @ ''/'' @ img_name)));
           b0 \<leftarrow> (if pts then Some (c_img_buf s1) else wr_mem (c_img_buf s1) 0 (replicate size 0));
           b1 \<leftarrow> wr_mem b0 0 bytes;
           let s2 = s1\<lparr>c_img_buf := b1\<rparr>;
           (if err \<noteq> 0 then Some (- ENXIO, s2)
            else do {
              data \<leftarrow> rd_mem b1 0 (length bytes);
              s3 \<leftarrow> upd_gatt i (\<lambda>g. g\<lparr>g_image_crc := ap_crc e data\<rparr>) (s2\<lparr>c_ots_written := False\<rparr>);
              (if oi_write w \<noteq> 0 then Some (oi_write w, s3\<lparr>c_ots_written := True\<rparr>)
               else Some (0, ap_effect (Ap_ots_write i data) s3))
            })
         })
      })"

definition esl_c_obj_write :: "('s, 'm) ap_env \<Rightarrow> ots_inp \<Rightarrow> u8 \<Rightarrow> u8 \<Rightarrow> u16 \<Rightarrow> ap \<Rightarrow> ap option" where
  "esl_c_obj_write e w conn_idx tag_img_idx img_idx s =
     map_option snd (esl_c_obj_write_by_name e w conn_idx tag_img_idx
       (take (fs_path_len (acfg e) - 1) (object_name (unat img_idx))) s)"

text \<open>The connection the queue was filled for is not remembered: the transfer of the synchronisation goes to connection 0.\<close>

definition esl_ots_write_img_work_fn ::
  "('s, 'm) ap_env \<Rightarrow> ots_inp \<Rightarrow> (nat \<Rightarrow> bt_conn option) \<Rightarrow> (nat \<Rightarrow> int) \<Rightarrow> ap \<Rightarrow> ap option" where
  "esl_ots_write_img_work_fn e w links code s =
     (case c_img_queue s of
        [] \<Rightarrow> map_option snd (esl_c_past e links code 0 s)
      | (c, t, img) # q \<Rightarrow> do {
          s1 \<leftarrow> esl_c_obj_write e w c t img (s\<lparr>c_img_queue := q\<rparr>);
          (if \<not> (c_ots_written s1 \<or> oi_written w) then None
           else let s2 = s1\<lparr>c_ots_written := True\<rparr>
                in if q \<noteq> [] then Some (ap_effect (Ap_work Img_work) s2)
                   else map_option snd (esl_c_past e links code 0 s2))
        })"

subsection \<open>How often the synchronisation is offered\<close>

definition still_there :: "('s, 'm) ap_env \<Rightarrow> (nat \<Rightarrow> bt_conn option) \<Rightarrow> bt_addr_le \<Rightarrow> nat \<Rightarrow> bool" where
  "still_there e links peer i \<longleftrightarrow> link_up e (links i) \<and> link_peer e (links i) = Some peer"

text \<open>The rounds in which a transfer is accepted.\<close>

definition past_rounds ::
  "('s, 'm) ap_env \<Rightarrow> (nat \<Rightarrow> bt_conn option) \<Rightarrow> (nat \<Rightarrow> int) \<Rightarrow> bt_addr_le \<Rightarrow> nat \<Rightarrow> nat \<Rightarrow> nat" where
  "past_rounds e links code peer i n =
     length (takeWhile (\<lambda>j. still_there e links peer j \<and> code j = 0 \<and> (j \<noteq> past_retry (acfg e) \<or> ap_pts (acfg e))) [i..<i + n])"

lemma past_rounds_Suc:
  "past_rounds e links code peer i (Suc n) =
    (if still_there e links peer i \<and> code i = 0 \<and> (i \<noteq> past_retry (acfg e) \<or> ap_pts (acfg e))
     then Suc (past_rounds e links code peer (Suc i) n) else 0)"
  by (simp add: past_rounds_def upt_conv_Cons del: upt_Suc)

definition past_result ::
  "('s, 'm) ap_env \<Rightarrow> (nat \<Rightarrow> bt_conn option) \<Rightarrow> (nat \<Rightarrow> int) \<Rightarrow> nat \<Rightarrow> bt_addr_le \<Rightarrow> nat \<Rightarrow> nat \<Rightarrow> int \<times> ap_effect list" where
  "past_result e links code c peer k n =
     (if k = n \<or> \<not> still_there e links peer k then (0, [])
      else if k = past_retry (acfg e) \<and> \<not> ap_pts (acfg e) then (- EAGAIN, [Ap_disconnect c])
      else (code k, []))"

lemma past_loop_eq:
  assumes "\<And>j. link_peer e (links j) \<noteq> None"
  shows "past_loop e links code c peer i n s = (let k = past_rounds e links code peer i n;
      (r, fin) = past_result e links code c peer (i + k) (i + n)
    in Some (r, s\<lparr>c_trace := c_trace s @ replicate k (Ap_past c) @ fin\<rparr>))"
proof (induction n arbitrary: i s)
  case 0
  then show ?case by (simp add: past_rounds_def past_result_def)
next
  case (Suc n)
  obtain cur where cur: "link_peer e (links i) = Some cur" using assms by auto
  have eq: "link_up e (links i) \<and> peer = cur \<longleftrightarrow> still_there e links peer i"
    by (auto simp: still_there_def cur)
  have loop: "past_loop e links code c peer i (Suc n) s =
     (if still_there e links peer i then
        (if i = past_retry (acfg e) \<and> \<not> ap_pts (acfg e) then Some (- EAGAIN, ap_effect (Ap_disconnect c) s)
         else if code i = 0 then past_loop e links code c peer (Suc i) n (ap_effect (Ap_past c) s)
         else Some (code i, s))
      else Some (0, s))"
    by (simp add: cur eq)
  show ?case
  proof (cases "still_there e links peer i \<and> code i = 0 \<and> (i \<noteq> past_retry (acfg e) \<or> ap_pts (acfg e))")
    case True
    then have "past_loop e links code c peer i (Suc n) s = past_loop e links code c peer (Suc i) n (ap_effect (Ap_past c) s)"
      unfolding loop by auto
    then show ?thesis
      using True unfolding Suc by (simp add: past_rounds_Suc Let_def ap_effect_def case_prod_unfold)
  next
    case False
    then show ?thesis
      unfolding loop past_rounds_Suc if_not_P [OF False] past_result_def
      by (cases "still_there e links peer i"; cases "code i = 0"; cases "i = past_retry (acfg e)"; cases "ap_pts (acfg e)")
        (simp_all add: Let_def ap_effect_def)
  qed
qed

text \<open>
  The transfer is offered while the link to the tag stays up, at most as often as the retry count
  says; a tag that is still connected then is disconnected, unless the configuration is the tester's.
\<close>

lemma past_eq:
  assumes c: "unat conn_idx < max_conn (acfg e)" "unat conn_idx < length (c_conn s)"
    and l: "c_conn s ! unat conn_idx = Some l" "links 0 = Some l" and null: "null_peer e \<noteq> None"
    and k: "k = past_rounds e links code (conn_peer l) 0 (past_retry (acfg e) + 1)"
  shows "esl_c_past e links code conn_idx s =
    (let (r, fin) = past_result e links code (unat conn_idx) (conn_peer l) k (past_retry (acfg e) + 1)
     in Some (r, s\<lparr>c_trace := c_trace s @ replicate k (Ap_past (unat conn_idx)) @ fin\<rparr>))"
proof -
  have "links(0 := Some l) = links" using l(2) by auto
  moreover have "link_peer e (links j) \<noteq> None" for j using null by (auto simp: link_peer_def split: option.splits)
  ultimately show ?thesis
    using c l(1) by (simp add: esl_c_past_def past_loop_eq k link_peer_def Let_def del: past_loop.simps)
qed

lemma past_rounds_le: "past_rounds e links code peer 0 (past_retry (acfg e) + 1) \<le> past_retry (acfg e) + (if ap_pts (acfg e) then 1 else 0)"
proof -
  let ?P = "\<lambda>j. still_there e links peer j \<and> code j = 0 \<and> (j \<noteq> past_retry (acfg e) \<or> ap_pts (acfg e))"
  have "length (takeWhile ?P ([0..<past_retry (acfg e)] @ [past_retry (acfg e)])) \<le>
    past_retry (acfg e) + (if ap_pts (acfg e) then 1 else 0)"
    using length_takeWhile_le [of ?P "[0..<past_retry (acfg e)]"]
    by (cases "\<forall>j \<in> set [0..<past_retry (acfg e)]. ?P j") (auto simp: takeWhile_append takeWhile_append1)
  then show ?thesis by (simp add: past_rounds_def)
qed

subsection \<open>The addresses handed out\<close>

text \<open>The \<open>n\<close>-th address after the first of group \<open>g\<close>.\<close>

definition nth_addr :: "('s, 'm) ap_env \<Rightarrow> nat \<Rightarrow> nat \<Rightarrow> nat \<Rightarrow> u16" where
  "nth_addr e tags g n = of_nat ((g + n div tags) mod 128 * 256 + unat (default_esl_id (acfg e)) + n mod tags)"

lemma unat_LOW_BYTE: "unat (LOW_BYTE x) = unat x mod 256"
proof -
  have "LOW_BYTE x = ucast x" by (rule bit_word_eqI) (simp add: bit_simps)
  then show ?thesis by (simp add: unsigned_ucast_eq take_bit_eq_mod)
qed

lemma unat_u16_less: "unat (x :: u16) < 2 ^ 16"
  using unsigned_less [of x, where 'a = nat] by simp

lemma unat_GROUPID_BYTE: "unat (GROUPID_BYTE x) = unat x div 256 mod 128"
proof -
  have "drop_bit 8 x AND 0x7F = take_bit 7 (drop_bit 8 x)"
    unfolding take_bit_eq_mask by (simp add: mask_eq_exp_minus_1)
  then have "unat (GROUPID_BYTE x) = take_bit 8 (take_bit 7 (drop_bit 8 (unat x)))"
    by (simp add: GROUPID_BYTE_def unsigned_ucast_eq unsigned_take_bit_eq unsigned_drop_bit_eq
        take_bit_nat_eq_self [OF unat_u16_less])
  then show ?thesis by (simp add: take_bit_eq_mod drop_bit_eq_div)
qed

lemma group_addr:
  fixes G id8 :: u8
  shows "push_bit 8 (ucast (G AND 0x7f)) OR (ucast id8 :: u16) = of_nat (unat G mod 128 * 256 + unat id8)"
proof -
  have m: "G AND 0x7f = take_bit 7 G"
    unfolding take_bit_eq_mask by (simp add: mask_eq_exp_minus_1)
  have "push_bit 8 (ucast (G AND 0x7f)) OR (ucast id8 :: u16) = push_bit 8 (ucast (G AND 0x7f)) + ucast id8"
    by (rule disjunctive_add [symmetric]) (auto simp: bit_simps simp del: push_bit_Suc dest: bit_imp_le_length)
  also have "\<dots> = of_nat (unat (G AND 0x7f)) * 256 + of_nat (unat id8)"
    by (simp add: push_bit_eq_mult)
  also have "unat (G AND 0x7f) = unat G mod 128"
    unfolding m unsigned_take_bit_eq by (simp add: take_bit_eq_mod)
  finally show ?thesis by simp
qed

lemma next_addr:
  assumes t: "tags = unat (c_tags_per_group s)" "1 \<le> tags" "unat (default_esl_id (acfg e)) + tags \<le> 255"
    and a: "c_addr_start s = nth_addr e tags g n"
  shows "next_esl_addr e s = nth_addr e tags g (Suc n)"
proof -
  define G where "G = (g + n div tags) mod 128"
  define l where "l = unat (default_esl_id (acfg e)) + n mod tags"
  have m: "n mod tags < tags" using t(2) by simp
  have b: "G < 128" "l + 1 \<le> 255" using m t(3) by (simp_all add: G_def l_def)
  then have u: "unat (of_nat (G * 256 + (l + 1)) :: u16) = G * 256 + (l + 1)" by (intro unat_of_nat_u16) simp
  have next_a: "c_addr_start s + 1 = of_nat (G * 256 + (l + 1))"
    unfolding a nth_addr_def by (simp add: G_def l_def)
  have low: "unat (LOW_BYTE (c_addr_start s + 1)) = l + 1"
    unfolding unat_LOW_BYTE next_a u using b by simp
  have grp: "unat (GROUPID_BYTE (c_addr_start s + 1)) = G"
    unfolding unat_GROUPID_BYTE next_a u using b by simp
  have g1: "unat (GROUPID_BYTE (c_addr_start s + 1) + 1) = G + 1"
    using grp b(1) unat_add_small [of "GROUPID_BYTE (c_addr_start s + 1)" 1] by simp
  show ?thesis
  proof (cases "n mod tags + 1 = tags")
    case True
    then have "Suc n div tags = Suc (n div tags)" "Suc n mod tags = 0" by (simp_all add: div_Suc mod_Suc)
    moreover have "(G + 1) mod 128 = (g + Suc (n div tags)) mod 128" by (simp add: G_def mod_simps)
    ultimately show ?thesis
      using True t(1) by (simp add: next_esl_addr_def Let_def low l_def group_addr g1 nth_addr_def)
  next
    case False
    then have "Suc n div tags = n div tags" "Suc n mod tags = Suc (n mod tags)"
      using m by (simp_all add: div_Suc mod_Suc)
    moreover have "\<not> tags \<le> n mod tags + 1" using False m by simp
    moreover from calculation have "next_esl_addr e s = c_addr_start s + 1"
      using t(1) by (simp add: next_esl_addr_def Let_def low l_def)
    ultimately show ?thesis
      unfolding next_a by (simp add: nth_addr_def G_def l_def)
  qed
qed

text \<open>None of the addresses is a broadcast, and they are different until every group is full.\<close>

lemma nth_addr_ok:
  assumes "1 \<le> tags" "unat (default_esl_id (acfg e)) + tags \<le> 255"
  shows "LOW_BYTE (nth_addr e tags g n) \<noteq> ESL_ADDR_BROADCAST"
    "unat (GROUPID_BYTE (nth_addr e tags g n)) = (g + n div tags) mod 128"
    "unat (nth_addr e tags g n) = (g + n div tags) mod 128 * 256 + unat (default_esl_id (acfg e)) + n mod tags"
proof -
  have m: "n mod tags < tags" using assms(1) by simp
  have G: "(g + n div tags) mod 128 < 128" by simp
  have u: "unat (nth_addr e tags g n) = (g + n div tags) mod 128 * 256 + (unat (default_esl_id (acfg e)) + n mod tags)"
    unfolding nth_addr_def add.assoc by (rule unat_of_nat_u16) (use m G assms(2) in linarith)
  then show "unat (nth_addr e tags g n) = (g + n div tags) mod 128 * 256 + unat (default_esl_id (acfg e)) + n mod tags"
    by simp
  show "unat (GROUPID_BYTE (nth_addr e tags g n)) = (g + n div tags) mod 128"
    unfolding unat_GROUPID_BYTE u using m assms(2) by simp
  have "unat (LOW_BYTE (nth_addr e tags g n)) = unat (default_esl_id (acfg e)) + n mod tags"
    unfolding unat_LOW_BYTE u using m assms(2) by simp
  then show "LOW_BYTE (nth_addr e tags g n) \<noteq> ESL_ADDR_BROADCAST" using m assms(2) by auto
qed

lemma add_mod_inj: "((g :: nat) + a) mod k = (g + b) mod k \<Longrightarrow> a < k \<Longrightarrow> b < k \<Longrightarrow> a = b"
  by (metis mod_add_inj add.commute less_add_same_cancel1 linorder_neqE_nat trans_less_add2)

lemma nth_addr_inj:
  assumes t: "1 \<le> tags" "unat (default_esl_id (acfg e)) + tags \<le> 255" and mn: "m < 128 * tags" "n < 128 * tags"
    and eq: "nth_addr e tags g m = nth_addr e tags g n"
  shows "m = n"
proof -
  have l: "m mod tags < tags" "n mod tags < tags" using t(1) by simp_all
  let ?x = "\<lambda>k. unat (default_esl_id (acfg e)) + k mod tags"
  have eq2: "(g + m div tags) mod 128 * 256 + ?x m = (g + n div tags) mod 128 * 256 + ?x n"
    using eq nth_addr_ok(3) [OF t, of g m] nth_addr_ok(3) [OF t, of g n] by (simp add: add.assoc)
  have x: "?x m < 256" "?x n < 256" using l t(2) by linarith+
  have parts: "(a * 256 + x) div 256 = a \<and> (a * 256 + x) mod 256 = x" if "x < 256" for a x :: nat
    using that by simp
  have "a * 256 + x = b * 256 + y \<Longrightarrow> x < 256 \<Longrightarrow> y < 256 \<Longrightarrow> a = b \<and> x = y" for a b x y :: nat
    by (metis parts)
  from this [OF eq2 x] have q: "(g + m div tags) mod 128 = (g + n div tags) mod 128" "m mod tags = n mod tags"
    by simp_all
  have "m div tags < 128" "n div tags < 128" using mn t(1) by (simp_all add: less_mult_imp_div_less)
  then have "m div tags = n div tags" using q(1) add_mod_inj by blast
  then show ?thesis using q(2) by (metis div_mult_mod_eq)
qed

subsection \<open>What a configuration sends\<close>

lemma write_wait_eq:
  assumes "wf_link e s" "i < peripheral_max (acfg e)" "h < NUMBERS_OF_HANDLE" "\<And>h v. ai_write x i h v = 0"
  shows "gatt_write_wait x i h v s = Some (0, ap_effect (Ap_gatt_write i (g_handles (c_gatt s ! i) ! h) v True) s)"
  using wf_link_gatt [OF assms(1,2)] assms(3,4) by (simp add: gatt_write_wait_def)

lemma wf_link_device:
  assumes "wf_link e s" "i < peripheral_max (acfg e)" "key_ok (dev_rsp_key d)"
  shows "wf_link e (s\<lparr>c_gatt := (c_gatt s)[i := (c_gatt s ! i)\<lparr>g_device := d\<rparr>]\<rparr>)"
  using assms wf_link_gatt [OF assms(1,2)] by (auto simp: wf_link_def intro!: list_all_update)

lemma upd_device_eq: "i < length (c_gatt s) \<Longrightarrow> upd_device i f s =
    Some (s\<lparr>c_gatt := (c_gatt s)[i := (c_gatt s ! i)\<lparr>g_device := f (g_device (c_gatt s ! i))\<rparr>]\<rparr>)"
  by (simp add: upd_device_def upd_gatt_def)

text \<open>The response key the tag gets: the one it has, or a new one.\<close>

definition given_key :: "ap_inp \<Rightarrow> ap_device \<Rightarrow> bt_esl_key_material" where
  "given_key x d = (if key_v (dev_rsp_key d) = replicate EAD_KEY_MATERIAL_LEN 0 then key_of_bytes (ai_rand_key x) else dev_rsp_key d)"

text \<open>The slot of a tag whose address the access point handed out.\<close>

definition slot_ok :: "('s, 'm) ap_env \<Rightarrow> u16 \<Rightarrow> ap \<Rightarrow> bool" where
  "slot_ok e addr s \<longleftrightarrow> wf_sync e s \<and> unat (GROUPID_BYTE addr) < max_group (acfg e) \<and>
     unat (LOW_BYTE addr - default_esl_id (acfg e)) < rsp_buffers (acfg e)"

lemma store_slot_key_ok:
  assumes "slot_ok e addr s" "key_ok k"
  shows "yields (store_slot_key e addr k s) (\<lambda>t. wf_sync e t \<and> c_gatt t = c_gatt s \<and> c_conn t = c_conn s \<and>
    c_trace t = c_trace s \<and> c_write_wo_rsp t = c_write_wo_rsp s \<and> c_anchor t = c_anchor s \<and> c_ecp_buf t = c_ecp_buf s \<and>
    (unat (LOW_BYTE addr - default_esl_id (acfg e)) \<le> unat (c_tags_per_group s) \<longrightarrow>
       rb_key (sb_rsp (c_sync_buf t ! unat (GROUPID_BYTE addr)) ! unat (LOW_BYTE addr - default_esl_id (acfg e))) = k))"
proof -
  let ?g = "unat (GROUPID_BYTE addr)" and ?i = "unat (LOW_BYTE addr - default_esl_id (acfg e))"
  have wf: "wf_sync e s" "?g < max_group (acfg e)" "?i < rsp_buffers (acfg e)"
    using assms(1) by (simp_all add: slot_ok_def)
  note l = wf_rsp_at [OF wf]
  let ?b = "c_sync_buf s ! ?g"
  have b: "sync_buffer_ok (rsp_buffers (acfg e)) ?b" by (rule wf_sync_buf(1) [OF wf(1,2)])
  have "wf_sync e (s\<lparr>c_sync_buf := (c_sync_buf s)[?g := ?b\<lparr>sb_rsp := (sb_rsp ?b)[?i := (sb_rsp ?b ! ?i)\<lparr>rb_key := k\<rparr>]\<rparr>]\<rparr>)"
    using b l(1) assms(2) by (intro wf_sync_update [OF wf(1)]) (auto simp: sync_buffer_ok_def rsp_buffer_ok_def intro!: list_all_update)
  then show ?thesis using l wf(1) by (simp add: store_slot_key_def Let_def wp)
qed

text \<open>What a configuration leaves of the link: the connections, the handles, the clock, the access point's key.\<close>

definition link_frame :: "ap \<Rightarrow> ap \<Rightarrow> bool" where
  "link_frame s t \<longleftrightarrow> c_conn t = c_conn s \<and> map g_handles (c_gatt t) = map g_handles (c_gatt s) \<and>
     c_write_wo_rsp t = c_write_wo_rsp s \<and> c_anchor t = c_anchor s \<and> c_ap_key t = c_ap_key s"

lemma link_frame_handles: "link_frame s t \<Longrightarrow> i < length (c_gatt s) \<Longrightarrow> g_handles (c_gatt t ! i) = g_handles (c_gatt s ! i)"
  unfolding link_frame_def by (metis length_map nth_map)

lemma link_frame_trans: "link_frame s t \<Longrightarrow> link_frame t u \<Longrightarrow> link_frame s u"
  by (simp add: link_frame_def)

lemma link_frame_device:
  "i < length (c_gatt s) \<Longrightarrow> link_frame s (s\<lparr>c_gatt := (c_gatt s)[i := (c_gatt s ! i)\<lparr>g_device := d\<rparr>]\<rparr>)"
  by (auto simp: link_frame_def map_update intro!: list_update_same_conv [THEN iffD2])

lemma store_slot_key_frame:
  "ensures (store_slot_key e addr k s) (\<lambda>t. c_ap_key t = c_ap_key s \<and> (wf_link e s \<longrightarrow> wf_link e t))"
  by (auto simp: store_slot_key_def wlp Let_def wf_link_def)

lemma rsp_key_sent:
  assumes wf: "wf_link e s" and c: "unat c < peripheral_max (acfg e)" "unat c < max_conn (acfg e)"
    and w: "\<And>h v. ai_write x (unat c) h v = 0" and k: "length (ai_rand_key x) = EAD_KEY_MATERIAL_LEN"
    and slot: "ap_auto_mode (acfg e) \<longrightarrow> slot_ok e (dev_esl_addr (g_device (c_gatt s ! unat c))) s"
    and key: "key = given_key x (g_device (c_gatt s ! unat c))"
  shows "yields (esl_c_rsp_key_update e x c s) (\<lambda>t. wf_link e t \<and> link_frame s t \<and> key_ok key \<and>
    c_trace t = c_trace s @ [Ap_gatt_write (unat c) (g_handles (c_gatt s ! unat c) ! HANDLE_ESL_RESP_KEY) (sent_key (azep e) key) True] \<and>
    g_device (c_gatt t ! unat c) = (g_device (c_gatt s ! unat c))\<lparr>dev_rsp_key := key\<rparr>)"
proof -
  let ?i = "unat c" and ?d = "g_device (c_gatt s ! unat c)"
  note g = wf_link_gatt [OF wf c(1)]
  have key_ok: "key_ok key" using g k by (auto simp: key given_key_def key_of_bytes_def key_ok_def)
  let ?s = "s\<lparr>c_gatt := (c_gatt s)[?i := (c_gatt s ! ?i)\<lparr>g_device := ?d\<lparr>dev_rsp_key := key\<rparr>\<rparr>]\<rparr>"
  have s1: "wf_link e ?s" using key_ok by (intro wf_link_device [OF wf c(1)]) simp
  let ?t = "ap_effect (Ap_gatt_write ?i (g_handles (c_gatt s ! ?i) ! HANDLE_ESL_RESP_KEY) (sent_key (azep e) key) True) ?s"
  have upto: "esl_c_rsp_key_update e x c s =
      (if ap_auto_mode (acfg e) then store_slot_key e (dev_esl_addr ?d) key ?t else Some ?t)"
    using c g w write_wait_eq [OF s1 c(1) _ w, of HANDLE_ESL_RESP_KEY "sent_key (azep e) key"]
    by (simp add: esl_c_rsp_key_update_def upd_device_eq key given_key_def Let_def)
  have t: "wf_link e ?t" "link_frame s ?t"
    using s1 link_frame_device [of ?i s] g by (simp_all add: link_frame_def)
  show ?thesis
  proof (cases "ap_auto_mode (acfg e)")
    case False
    then show ?thesis using t g key_ok unfolding upto by simp
  next
    case True
    then have "slot_ok e (dev_esl_addr ?d) ?t" using slot by (simp add: slot_ok_def wf_sync_def ap_effect_def)
    from store_slot_key_ok [OF this key_ok] show ?thesis
      unfolding upto using True t g key_ok store_slot_key_frame [of e "dev_esl_addr ?d" key ?t]
      by (auto simp: link_frame_def yields_def ensures_def)
  qed
qed

text \<open>
  The configuration of a connected tag whose link accepts every write: address, the two keys, the
  time, the request for its information, and the command that ends it; and what the access point
  remembers of the tag is what it sent.
\<close>

definition config_trace :: "('s, 'm) ap_env \<Rightarrow> ap_inp \<Rightarrow> nat \<Rightarrow> u16 list \<Rightarrow> ap_device \<Rightarrow> ap \<Rightarrow> ap_effect list" where
  "config_trace e x i hs d s =
     [Ap_gatt_write i (hs ! HANDLE_ESL_ADDR) (le16 (dev_esl_addr d)) True,
      Ap_gatt_write i (hs ! HANDLE_AP_SYNC_KEY) (sent_key (azep e) (c_ap_key s)) True,
      Ap_gatt_write i (hs ! HANDLE_ESL_RESP_KEY) (sent_key (azep e) (dev_rsp_key d)) True,
      Ap_gatt_write i (hs ! HANDLE_ESL_ABS_TIME) (le32 (esl_c_get_abs_time (ai_now x) s)) True,
      Ap_gatt_read i (map ((!) hs) [HANDLE_DISP_INF, HANDLE_IMAGE_INF, HANDLE_SENSOR_INF, HANDLE_LED_INF, HANDLE_DIS_PNPID])] @
     (if ap_tag_storage (acfg e) then [Ap_store_tag d] else []) @
     [Ap_gatt_write i (hs ! HANDLE_ECP) [OP_UPDATE_COMPLETE, LOW_BYTE (dev_esl_addr d)] True,
      Ap_configured True (c_config_conn s) (dev_esl_addr d)]"

lemma config_sends:
  assumes wf: "wf_link e s" and ok: "reachable_tag_link e x c s" and c: "c = c_config_conn s" and i: "i = unat c"
    and wr: "\<not> c_write_wo_rsp s" and rd_ok: "ai_read x = 0" and k: "length (ai_rand_key x) = EAD_KEY_MATERIAL_LEN"
    and slot: "ap_auto_mode (acfg e) \<longrightarrow> slot_ok e (c_config_addr s) s"
    and d: "d = (g_device (c_gatt s ! i))\<lparr>dev_esl_addr := c_config_addr s,
       dev_rsp_key := given_key x (g_device (c_gatt s ! i)), dev_past_needed := True\<rparr>"
  shows "yields (esl_ap_config_work_fn e x s) (\<lambda>t. g_device (c_gatt t ! i) = d \<and>
    c_trace t = c_trace s @ config_trace e x i (g_handles (c_gatt s ! i)) d s)"
proof -
  have cc: "unat c < peripheral_max (acfg e)" "unat c < max_conn (acfg e)" "ap_connected e (unat c) s = Some True"
    and w: "\<And>h v. ai_write x (unat c) h v = 0"
    using ok by (simp_all add: reachable_tag_link_def)
  note g = wf_link_gatt [OF wf cc(1)]
  let ?g = "c_gatt s ! i" and ?addr = "c_config_addr s"
  let ?hs = "g_handles ?g" and ?d1 = "(g_device ?g)\<lparr>dev_esl_addr := ?addr\<rparr>" and ?key = "given_key x (g_device ?g)"
  let ?s1 = "s\<lparr>c_gatt := (c_gatt s)[i := ?g\<lparr>g_device := ?d1\<rparr>]\<rparr>"
  let ?s3 = "ap_effect (Ap_gatt_write i (?hs ! HANDLE_AP_SYNC_KEY) (sent_key (azep e) (c_ap_key s)) True)
    (ap_effect (Ap_gatt_write i (?hs ! HANDLE_ESL_ADDR) (le16 ?addr) True) ?s1)"
  have s1: "wf_link e ?s1" unfolding i by (rule wf_link_device [OF wf cc(1)]) (use g in simp)
  have f3: "link_frame s ?s3" "given_key x (g_device (c_gatt ?s3 ! i)) = ?key"
    using link_frame_device [of i s ?d1] g by (simp_all add: i link_frame_def given_key_def)
  have slot3: "ap_auto_mode (acfg e) \<longrightarrow> slot_ok e (dev_esl_addr (g_device (c_gatt ?s3 ! unat c))) ?s3"
    using slot g by (simp add: slot_ok_def wf_sync_def ap_effect_def i)
  have "yields (esl_c_rsp_key_update e x c ?s3) (\<lambda>t. wf_link e t \<and> link_frame ?s3 t \<and> key_ok ?key \<and>
    c_trace t = c_trace ?s3 @ [Ap_gatt_write i (?hs ! HANDLE_ESL_RESP_KEY) (sent_key (azep e) ?key) True] \<and>
    g_device (c_gatt t ! i) = ?d1\<lparr>dev_rsp_key := ?key\<rparr>)"
    using rsp_key_sent [OF _ cc(1,2) w k slot3 refl, folded i, unfolded f3(2)] s1 g by (simp add: i)
  then obtain t where t: "esl_c_rsp_key_update e x c ?s3 = Some t" "wf_link e t" "link_frame s t"
    "c_trace t = c_trace ?s3 @ [Ap_gatt_write i (?hs ! HANDLE_ESL_RESP_KEY) (sent_key (azep e) ?key) True]"
    "g_device (c_gatt t ! i) = ?d1\<lparr>dev_rsp_key := ?key\<rparr>" "key_ok ?key"
    using link_frame_trans [OF f3(1)] by (auto elim!: yieldsE)
  have ht: "g_handles (c_gatt t ! i) = ?hs" using link_frame_handles [OF t(3)] g by (simp add: i)
  note gt = wf_link_gatt [OF t(2) cc(1)]
  have ft: "c_anchor t = c_anchor s" "c_conn t = c_conn s" "c_write_wo_rsp t = c_write_wo_rsp s"
    using t(3) by (simp_all add: link_frame_def)
  then have time: "esl_c_get_abs_time n t = esl_c_get_abs_time n s" for n by (simp add: esl_c_get_abs_time_def)
  have con: "ap_connected e i u = Some True" if "c_conn u = c_conn s" for u
    using cc(3) that by (simp add: ap_connected_def i)
  let ?s5 = "ap_effect (Ap_gatt_write i (?hs ! HANDLE_ESL_ABS_TIME) (le32 (esl_c_get_abs_time (ai_now x) s)) True) t"
  let ?s6 = "ap_effect (Ap_gatt_read i [?hs ! HANDLE_DISP_INF, ?hs ! HANDLE_IMAGE_INF, ?hs ! HANDLE_SENSOR_INF, ?hs ! HANDLE_LED_INF, ?hs ! HANDLE_DIS_PNPID])
    (?s5\<lparr>c_sensor_temp := replicate BT_ATT_MAX_ATTRIBUTE_LEN 0\<rparr>)"
  let ?s7 = "?s6\<lparr>c_gatt := (c_gatt t)[i := (c_gatt t ! i)\<lparr>g_device := d\<rparr>]\<rparr>"
  let ?s8 = "if ap_tag_storage (acfg e) then ap_effect (Ap_store_tag d) ?s7 else ?s7"
  have "wf_link e (t\<lparr>c_gatt := (c_gatt t)[i := (c_gatt t ! i)\<lparr>g_device := d\<rparr>]\<rparr>)"
    unfolding i by (rule wf_link_device [OF t(2) cc(1)]) (use t(6) in \<open>simp add: d\<close>)
  then have w8: "wf_link e ?s8" by (simp add: wf_link_def ap_effect_def)
  have ok8: "reachable_tag_link e x c ?s8"
    using cc w ft con by (auto simp: reachable_tag_link_def i ap_effect_def)
  let ?s2 = "ap_effect (Ap_gatt_write i (?hs ! HANDLE_ESL_ADDR) (le16 ?addr) True) ?s1"
  have st1: "upd_device i (\<lambda>d. d\<lparr>dev_esl_addr := ?addr\<rparr>) s = Some ?s1" using g by (simp add: upd_device_eq i)
  have w1: "gatt_write_wait x i h v ?s1 = Some (0, ap_effect (Ap_gatt_write i (?hs ! h) v True) ?s1)" if "h < 11" for h v
    using write_wait_eq [OF s1 cc(1) that w] g by (simp add: i)
  have w2: "gatt_write_wait x i h v ?s2 = Some (0, ap_effect (Ap_gatt_write i (?hs ! h) v True) ?s2)" if "h < 11" for h v
    using write_wait_eq [OF _ cc(1) that w, of ?s2] s1 g by (simp add: i)
  have wt: "gatt_write_wait x i h v t = Some (0, ap_effect (Ap_gatt_write i (?hs ! h) v True) t)" if "h < 11" for h v
    using write_wait_eq [OF t(2) cc(1) that w] ht by (simp add: i)
  have st2: "bt_esl_c_write_esl_addr e x c ?addr ?s1 = Some (0, ?s2)"
    using cc(2) wr w1 [of HANDLE_ESL_ADDR] by (simp add: bt_esl_c_write_esl_addr_def i [symmetric])
  have st3: "esl_c_ap_key_update e x c ?s2 = Some ?s3"
    using cc(2) w2 [of HANDLE_AP_SYNC_KEY] by (simp add: esl_c_ap_key_update_def i [symmetric])
  have st5: "esl_c_tag_abs_timer_update e x c t = Some ?s5"
    using cc(2) wt [of HANDLE_ESL_ABS_TIME] by (simp add: esl_c_tag_abs_timer_update_def i [symmetric] time)
  have st6: "bt_esl_c_read_chrc_multi e x i ?s5 = Some (0, ?s6)"
    using gt ht rd_ok con [of ?s5] ft by (simp add: bt_esl_c_read_chrc_multi_def i [symmetric])
  have st7: "upd_device i (\<lambda>d. d\<lparr>dev_past_needed := True\<rparr>) ?s6 = Some ?s7"
    using gt t(5) by (simp add: upd_device_eq i [symmetric] d)
  have part: "esl_ap_config_work_fn e x s = do {
      (r3, s9) \<leftarrow> bt_esl_c_ecp_command_send e x (command_bytes []) OP_UPDATE_COMPLETE c ?s8;
      Some (ap_effect (Ap_configured True c ?addr) s9) }"
    using con [of s] gt
    unfolding esl_ap_config_work_fn_def Let_def c [symmetric] i [symmetric]
    by (simp add: st1 st2 st3 t(1) st5 st6 st7 del: One_nat_def)
  show ?thesis
    unfolding part yields_bind
  proof (rule yields_mono [OF command_sent [OF w8 ok8 command_params(1)]])
    fix r
    assume r: "case r of (c', u) \<Rightarrow> c' = 0 \<and> wf_link e u \<and>
      c_trace u = c_trace ?s8 @ [Ap_gatt_write (unat c) (ecp_handle c ?s8) ([OP_UPDATE_COMPLETE, tag_id c ?s8] @ []) (\<not> c_write_wo_rsp ?s8)] \<and>
      c_conn u = c_conn ?s8 \<and> c_scanned u = c_scanned ?s8 \<and> c_esl_count u = c_esl_count ?s8 \<and>
      map g_device (c_gatt u) = map g_device (c_gatt ?s8)"
    obtain u where u: "r = (0, u)" using r by (cases r) auto
    have e8: "ecp_handle c ?s8 = ?hs ! HANDLE_ECP" "tag_id c ?s8 = LOW_BYTE ?addr" "\<not> c_write_wo_rsp ?s8" "i < length (c_gatt ?s8)"
      using gt ht ft wr by (simp_all add: ecp_handle_def tag_id_def i [symmetric] d)
    have m: "map g_device (c_gatt u) = map g_device (c_gatt ?s8)" using r by (simp add: u)
    have "i < length (c_gatt u)" using e8(4) map_eq_imp_length_eq [OF m] by simp
    then have "g_device (c_gatt u ! i) = map g_device (c_gatt u) ! i" by simp
    also have "\<dots> = d" unfolding m using gt by (simp add: i [symmetric])
    finally have "g_device (c_gatt u ! i) = d" .
    then show "yields (case r of (r3, s9) \<Rightarrow> Some (ap_effect (Ap_configured True c ?addr) s9)) (\<lambda>t. g_device (c_gatt t ! i) = d \<and>
      c_trace t = c_trace s @ config_trace e x i ?hs d s)"
      using r e8(1-3) t(4) by (simp add: u config_trace_def c [symmetric] i [symmetric] d)
  qed simp_all
qed

end
