(* ===== verification/Ap_Conn.thy ===== *)
theory Ap_Conn
  imports Ap_Config
begin

unbundle bit_operations_syntax

text \<open>
  Scanning and connections in \<open>service/esl_client.c\<close>: the list of scanned tags, the table of connections,
  and the callbacks of the Bluetooth stack. Two addresses are compared by type and value; comparing with
  a null pointer is \<open>None\<close>.
\<close>

subsection \<open>Scanning\<close>

text \<open>\<open>code\<close> is what starting or stopping the scan returns.\<close>

definition esl_c_scan :: "int \<Rightarrow> bool \<Rightarrow> bool \<Rightarrow> ap \<Rightarrow> ap" where
  "esl_c_scan code onoff oneshot s =
     (if onoff then
        (if c_connecting s then s
         else if code \<noteq> 0 then s
         else ap_effect (Ap_work List_tag_work) (ap_effect Ap_scan_start (s\<lparr>c_scanning := True, c_scan_one_shot := oneshot\<rparr>)))
      else ap_effect (Ap_work_cancel List_tag_work) (ap_effect Ap_scan_stop (s\<lparr>c_scanning := False, c_scan_one_shot := oneshot\<rparr>)))"

definition esl_c_auto_ap_toggle :: "int \<Rightarrow> bool \<Rightarrow> ap \<Rightarrow> ap" where
  "esl_c_auto_ap_toggle code onoff s = esl_c_scan code onoff False (s\<lparr>c_auto_mode := onoff\<rparr>)"

definition esl_list_tag_work_fn :: "ap \<Rightarrow> ap" where
  "esl_list_tag_work_fn s = (if c_scanning s \<or> c_scan_pending s then ap_effect (Ap_work List_tag_work) s else s)"

subsection \<open>The list of scanned tags\<close>

text \<open>\<open>room\<close>: whether \<open>k_malloc\<close> finds memory.\<close>

definition esl_c_scanned_tag_add :: "bool \<Rightarrow> bt_addr_le \<Rightarrow> ap \<Rightarrow> int \<times> ap" where
  "esl_c_scanned_tag_add room addr s =
     (if addr \<in> node_addr ` set (c_scanned s) then (0, s)
      else if \<not> room then (- ENOBUFS, s)
      else (1, s\<lparr>c_scanned := c_scanned s @ [\<lparr>node_addr = addr, node_connected = False\<rparr>],
                 c_scanned_count := c_scanned_count s + 1\<rparr>))"

text \<open>
  The position of the node with the index or the address. Every node before the one with the index
  is compared with the address, even when none was given.
\<close>

fun find_node :: "int \<Rightarrow> bt_addr_le option \<Rightarrow> nat \<Rightarrow> tag_addr_node list \<Rightarrow> nat option option" where
  "find_node i peer k [] = Some None"
| "find_node i peer k (n # ns) =
     (if int k = i then Some (Some k)
      else case peer of
        None \<Rightarrow> None
      | Some a \<Rightarrow> if a = node_addr n then Some (Some k) else find_node i peer (Suc k) ns)"

definition esl_c_get_tag_addr :: "int \<Rightarrow> bt_addr_le option \<Rightarrow> ap \<Rightarrow> nat option option" where
  "esl_c_get_tag_addr tag_idx peer s =
     (if tag_idx > int (unat (c_scanned_count s)) then Some None else find_node tag_idx peer 0 (c_scanned s))"

definition remove_nth :: "nat \<Rightarrow> 'a list \<Rightarrow> 'a list" where
  "remove_nth k xs = take k xs @ drop (Suc k) xs"

text \<open>Removing by address does not change the count.\<close>

definition esl_c_scanned_tag_remove_with_ble_addr :: "bt_addr_le \<Rightarrow> ap \<Rightarrow> (int \<times> ap) option" where
  "esl_c_scanned_tag_remove_with_ble_addr peer s = do {
     r \<leftarrow> esl_c_get_tag_addr (-1) (Some peer) s;
     (case r of
        None \<Rightarrow> Some (- ENOENT, s)
      | Some k \<Rightarrow> Some (0, s\<lparr>c_scanned := remove_nth k (c_scanned s)\<rparr>))
   }"

definition esl_c_scanned_tag_remove :: "int \<Rightarrow> ap \<Rightarrow> (bool \<times> ap) option" where
  "esl_c_scanned_tag_remove tag_idx s =
     (if tag_idx = -1 then Some (True, s\<lparr>c_scanned := [], c_scanned_count := 0\<rparr>)
      else do {
        r \<leftarrow> esl_c_get_tag_addr tag_idx None s;
        (case r of
           None \<Rightarrow> Some (False, s)
         | Some k \<Rightarrow> Some (True, s\<lparr>c_scanned := remove_nth k (c_scanned s), c_scanned_count := c_scanned_count s - 1\<rparr>))
      })"

text \<open>A device that advertises the service is found. \<open>scan_filter_match\<close>.\<close>

definition scan_filter_match :: "int \<Rightarrow> bool \<Rightarrow> bt_addr_le \<Rightarrow> ap \<Rightarrow> ap" where
  "scan_filter_match code room addr s =
     snd (esl_c_scanned_tag_add room addr (if c_scan_one_shot s then esl_c_scan code False False s else s))"

subsection \<open>Connections by index, address and tag\<close>

fun first_free :: "('s, 'm) ap_env \<Rightarrow> nat \<Rightarrow> bt_conn option list \<Rightarrow> int" where
  "first_free e i [] = -1"
| "first_free e i (c # cs) = (if link_up e c then first_free e (Suc i) cs else int i)"

definition esl_c_get_free_conn_idx :: "('s, 'm) ap_env \<Rightarrow> ap \<Rightarrow> int" where
  "esl_c_get_free_conn_idx e s = first_free e 0 (take (peripheral_max (acfg e)) (c_conn s))"

definition conn_idx_to_esl_addr :: "('s, 'm) ap_env \<Rightarrow> u8 \<Rightarrow> ap \<Rightarrow> u16 option" where
  "conn_idx_to_esl_addr e conn_idx s =
     (if unat conn_idx < peripheral_max (acfg e)
      then map_option (\<lambda>g. dev_esl_addr (g_device g)) (rd (c_gatt s) (unat conn_idx)) else Some 0x8000)"

text \<open>\<open>BIT_UNSET\<close> assigns: the addresses compared lose their highest bit in the table as well.\<close>

fun find_esl_addr :: "u16 \<Rightarrow> nat \<Rightarrow> bt_esl_client_internal list \<Rightarrow> int \<times> bt_esl_client_internal list" where
  "find_esl_addr a i [] = (-1, [])"
| "find_esl_addr a i (g # gs) =
     (let d = (g_device g)\<lparr>dev_esl_addr := BIT_UNSET (dev_esl_addr (g_device g)) ESL_ADDR_RFU_BIT\<rparr>;
          g' = g\<lparr>g_device := d\<rparr>
      in if dev_esl_addr d = a then (int i, g' # gs)
         else let (r, gs') = find_esl_addr a (Suc i) gs in (r, g' # gs'))"

definition esl_addr_to_conn_idx :: "u16 \<Rightarrow> ap \<Rightarrow> int \<times> ap" where
  "esl_addr_to_conn_idx addr s =
     (let (r, gs) = find_esl_addr (BIT_UNSET addr ESL_ADDR_RFU_BIT) 0 (c_gatt s) in (r, s\<lparr>c_gatt := gs\<rparr>))"

fun find_peer :: "('s, 'm) ap_env \<Rightarrow> bt_addr_le \<Rightarrow> nat \<Rightarrow> bt_conn option list \<Rightarrow> int option" where
  "find_peer e a i [] = Some (-1)"
| "find_peer e a i (c # cs) = do {
     p \<leftarrow> link_peer e c;
     (if p = a then Some (int i) else find_peer e a (Suc i) cs)
   }"

text \<open>Without a free connection the index is -1 and the copy writes before the table.\<close>

definition ble_addr_to_conn_idx :: "('s, 'm) ap_env \<Rightarrow> bt_addr_le \<Rightarrow> ap \<Rightarrow> (int \<times> ap) option" where
  "ble_addr_to_conn_idx e addr s = do {
     found \<leftarrow> find_peer e addr 0 (take (peripheral_max (acfg e)) (c_conn s));
     let r = (if found = -1 then esl_c_get_free_conn_idx e s else found);
     (if r = -1 then None
      else map_option (Pair r) (upd_device (nat r) (\<lambda>d. d\<lparr>dev_ble_addr := addr\<rparr>) s))
   }"

subsection \<open>Connecting\<close>

text \<open>
  \<open>code\<close> is what the stack returns, \<open>new\<close> the connection object it stores. A broadcast identifier stands for
  a tag found by scanning, any other for one that is synchronised: its group is the subevent.
\<close>

definition esl_c_connect ::
  "('s, 'm) ap_env \<Rightarrow> int \<Rightarrow> int \<Rightarrow> bt_conn \<Rightarrow> bt_addr_le \<Rightarrow> u16 \<Rightarrow> ap \<Rightarrow> (int \<times> ap) option" where
  "esl_c_connect e stop_code code new peer addr s =
     (let idx = esl_c_get_free_conn_idx e s
      in if idx = -1 then Some (- ENOMEM, s)
         else do {
           let i = nat idx;
           let s1 = (if c_scanning s
             then esl_c_scan stop_code False (c_scan_one_shot s) (if c_scan_one_shot s then s else s\<lparr>c_scan_pending := True\<rparr>)
             else s);
           let scanned = (LOW_BYTE addr = ESL_ADDR_BROADCAST);
           cs \<leftarrow> (if code = 0 then upd (c_conn s1) i (Some new) else Some (c_conn s1));
           s2 \<leftarrow> upd_device i (\<lambda>d. d\<lparr>dev_connect_from := (if scanned then ACL_FROM_SCAN else ACL_FROM_PAWR)\<rparr>)
             (ap_effect (Ap_connect i peer (if scanned then None else Some (GROUPID_BYTE addr))) (s1\<lparr>c_conn := cs\<rparr>));
           (if code \<noteq> 0 then Some (code, if scanned \<and> ap_auto_mode (acfg e) then ap_effect Ap_sem_give s2 else s2)
            else Some (idx, s2))
         })"

text \<open>Resuming a scan that a connection interrupted.\<close>

definition resume_scan :: "int \<Rightarrow> ap \<Rightarrow> ap" where
  "resume_scan code s =
     (if c_scan_pending s then esl_c_scan code True (c_scan_one_shot s) (s\<lparr>c_scan_pending := False\<rparr>) else s)"

definition ap_conn_up :: "('s, 'm) ap_env \<Rightarrow> int \<Rightarrow> nat \<Rightarrow> bt_addr_le \<Rightarrow> u8 \<Rightarrow> ap \<Rightarrow> ap option" where
  "ap_conn_up e scan_code i peer conn_err s = do {
     let s1 = s\<lparr>c_connecting := False\<rparr>;
     s2 \<leftarrow> (if conn_err \<noteq> 0 then Some (if ap_auto_mode (acfg e) then ap_effect Ap_sem_give s1 else s1)
       else do {
         let s3 = (if ap_tag_storage (acfg e) then ap_effect (Ap_work Tag_load_work) (s1\<lparr>c_tag_load := (peer, of_nat i)\<rparr>) else s1);
         r \<leftarrow> esl_c_get_tag_addr (-1) (Some peer) s3;
         let s4 = (case r of None \<Rightarrow> s3
           | Some k \<Rightarrow> s3\<lparr>c_scanned := (c_scanned s3)[k := (c_scanned s3 ! k)\<lparr>node_connected := True\<rparr>]\<rparr>);
         Some (ap_effect (if ap_security (acfg e) then Ap_set_security i else Ap_exchange_mtu i) s4)
       });
     Some (resume_scan scan_code s2)
   }"

definition ap_conn_down :: "('s, 'm) ap_env \<Rightarrow> int \<Rightarrow> nat \<Rightarrow> bt_addr_le \<Rightarrow> ap \<Rightarrow> ap option" where
  "ap_conn_down e scan_code i peer s = do {
     let s0 = s\<lparr>c_connecting := False, c_ots_written := True\<rparr>;
     s1 \<leftarrow> upd_device i (\<lambda>d. d\<lparr>dev_rsp_key := key_of_bytes (replicate EAD_KEY_MATERIAL_LEN 0)\<rparr>) s0;
     let s2 = (if ap_demo_security (acfg e) then ap_effect (Ap_unpair (Some peer)) s1 else s1);
     (r, s3) \<leftarrow> esl_c_scanned_tag_remove_with_ble_addr peer s2;
     let s4 = (if ap_auto_mode (acfg e) then resume_scan scan_code (ap_effect Ap_sem_give s3) else s3);
     s5 \<leftarrow> upd_device i (\<lambda>d. d\<lparr>dev_past_needed := False, dev_connect_from := ACL_NOT_CONNECTED\<rparr>) s4;
     cs \<leftarrow> upd (c_conn s5) i None;
     upd_gatt i (\<lambda>g. g\<lparr>g_notif_enabled := False\<rparr>) (ap_effect Ap_ots_unregister (s5\<lparr>c_conn := cs\<rparr>))
   }"

definition ap_security_changed :: "nat \<Rightarrow> u8 \<Rightarrow> ap \<Rightarrow> ap" where
  "ap_security_changed i err s =
     (if c_security s = 1 then s
      else if err \<noteq> 0 then ap_effect (Ap_set_security i) s
      else ap_effect (Ap_exchange_mtu i) s)"

text \<open>The data of a tag, zeroed.\<close>

definition zero_device :: "('s, 'm) ap_env \<Rightarrow> ap_device" where
  "zero_device e = \<lparr>dev_esl_addr = 0, dev_ble_addr = \<lparr>ba_type = 0, ba_val = replicate 6 0\<rparr>,
     dev_rsp_key = key_of_bytes (replicate EAD_KEY_MATERIAL_LEN 0), dev_max_image = 0,
     dev_displays = replicate (ap_display_max (acfg e) * DISP_INF_SIZE) 0, dev_past_needed = False,
     dev_display_count = 0, dev_sensor_count = 0, dev_led_count = 0,
     dev_sensors = replicate (ap_sensor_max (acfg e)) \<lparr>sensor_size = 0, property_id = 0, sensor_code = 0\<rparr>,
     dev_led_type = replicate (ap_led_max (acfg e)) 0, dev_pnp_vid = 0, dev_pnp_pid = 0, dev_connect_from = ACL_NOT_CONNECTED\<rparr>"

end
