(* ===== verification/Ap_Storage.thy ===== *)
theory Ap_Storage
  imports Ap_Conn Fs_Api
begin

unbundle bit_operations_syntax

text \<open>
  The access point's database of tags, \<open>service/esl_client_tag_storage.c\<close>: one file per tag named after its
  Bluetooth address, \<open>/ots_image/ble/<address>\<close> with the ESL address, the response key and the address type,
  and one named after its ESL address, \<open>/ots_image/esl/<address>\<close> with the Bluetooth address, its type, the
  response key and the product identifiers. The result of every \<open>fs_write\<close>, \<open>fs_read\<close> and \<open>fs_seek\<close> is ignored.
\<close>

subsection \<open>Names\<close>

text \<open>
  \<open>st_addr\<close> is \<open>bt_addr_to_str\<close>, \<open>st_path_len\<close> and \<open>st_bt_keys\<close> are Kconfig's, \<open>st_key_len\<close> is
  \<open>BT_KEYS_STORAGE_LEN\<close> of the Bluetooth host.
\<close>

record 'f storage_env =
  st_fs :: "'f fs_api"
  st_addr :: "u8 list \<Rightarrow> string"
  st_path_len :: nat
  st_bt_keys :: bool
  st_key_len :: nat

definition TAG_BLE_ADDR_ROOT :: string where "TAG_BLE_ADDR_ROOT = ''/ots_image/ble''"
definition TAG_ESL_ADDR_ROOT :: string where "TAG_ESL_ADDR_ROOT = ''/ots_image/esl''"

definition entry_path :: "'f storage_env \<Rightarrow> string \<Rightarrow> string \<Rightarrow> string" where
  "entry_path v root name = take (st_path_len v - 1) (root @ ''/'' @ name)"

definition ble_path :: "'f storage_env \<Rightarrow> bt_addr_le \<Rightarrow> string" where
  "ble_path v a = entry_path v TAG_BLE_ADDR_ROOT (st_addr v (ba_val a))"

definition esl_path :: "'f storage_env \<Rightarrow> u16 \<Rightarrow> string" where
  "esl_path v a = entry_path v TAG_ESL_ADDR_ROOT (format_hex lower_digits 4 (unat a))"

subsection \<open>Saving a tag\<close>

fun write_all :: "'f fs_api \<Rightarrow> u8 list list \<Rightarrow> fs_handle option \<Rightarrow> 'f \<Rightarrow> fs_handle option \<times> 'f" where
  "write_all A [] h fs = (h, fs)"
| "write_all A (d # ds) h fs = (let (rc, h1, fs1) = file_write A h d fs in write_all A ds h1 fs1)"

text \<open>Opening a file for writing and asking for its size: whether that worked, the handle, the file system.\<close>

definition open_for_save :: "'f storage_env \<Rightarrow> string \<Rightarrow> 'f \<Rightarrow> bool \<times> fs_handle option \<times> 'f" where
  "open_for_save v name fs =
     (let (rc, h, fs1) = file_open (st_fs v) name True fs
      in (0 \<le> rc \<and> 0 \<le> fst (fa_stat (st_fs v) name fs1), h, fs1))"

text \<open>\<open>bond\<close>: the stored bytes of the bond \<open>bt_keys_find_addr\<close> finds; without a bond a null pointer is read.\<close>

definition save_tag_in_storage ::
  "'f storage_env \<Rightarrow> u8 list option \<Rightarrow> ap_device \<Rightarrow> 'f \<Rightarrow> (int \<times> 'f) option" where
  "save_tag_in_storage v bond tag fs = do {
     let A = st_fs v;
     let (ok, h, fs1) = open_for_save v (ble_path v (dev_ble_addr tag)) fs;
     (if \<not> ok then let (rc, h1, fs2) = file_close A h fs1 in Some (rc, fs2)
      else do {
        key \<leftarrow> (if st_bt_keys v then map_option (\<lambda>b. [b]) bond else Some []);
        let (h1, fs2) = write_all A ([le16 (dev_esl_addr tag), key_v (dev_rsp_key tag), [ba_type (dev_ble_addr tag)]] @ key) h fs1;
        let (rc, h2, fs3) = file_close A h1 fs2;
        let (ok2, h3, fs4) = open_for_save v (esl_path v (dev_esl_addr tag)) fs3;
        let (h4, fs5) = (if ok2
          then write_all A [ba_val (dev_ble_addr tag), [ba_type (dev_ble_addr tag)], key_v (dev_rsp_key tag),
            le16 (dev_pnp_vid tag), le16 (dev_pnp_pid tag)] h3 fs4
          else (h3, fs4));
        let (rc2, h5, fs6) = file_close A h4 fs5;
        Some (rc2, fs6)
      })
   }"

subsection \<open>Loading and finding a tag\<close>

text \<open>Opening a file that is to be read: the code, which is negative for a missing or an empty file.\<close>

definition open_for_load :: "'f storage_env \<Rightarrow> string \<Rightarrow> 'f \<Rightarrow> int \<times> fs_handle option \<times> 'f" where
  "open_for_load v name fs =
     (let (rc, h, fs1) = file_open (st_fs v) name False fs;
          (rc2, d) = fa_stat (st_fs v) name fs1
      in if rc < 0 then (rc, h, fs1)
         else if rc2 = 0 \<and> de_is_file d \<and> de_size d = 0 then (- ENOENT, h, fs1) else (rc2, h, fs1))"

text \<open>The code is the one of closing the file: a tag that is not stored is not reported.\<close>

definition load_tag_in_storage ::
  "'f storage_env \<Rightarrow> bt_addr_le \<Rightarrow> ap_device \<Rightarrow> 'f \<Rightarrow> (int \<times> ap_device \<times> 'f) option" where
  "load_tag_in_storage v ble_addr tag fs = do {
     let A = st_fs v;
     let (rc, h, fs1) = open_for_load v (ble_path v ble_addr) fs;
     (h2, tag1) \<leftarrow> (if rc < 0 then Some (h, tag)
       else do {
         (r1, a, h1) \<leftarrow> file_read A h (le16 (dev_esl_addr tag)) ESL_ADDR_LEN fs1;
         (r2, k, h2) \<leftarrow> file_read A h1 (key_v (dev_rsp_key tag)) EAD_KEY_MATERIAL_LEN fs1;
         let tag1 = tag\<lparr>dev_esl_addr := of_le16 a, dev_rsp_key := key_of_bytes k\<rparr>;
         Some (h2, if dev_connect_from tag = ACL_FROM_SCAN then tag1\<lparr>dev_past_needed := True\<rparr> else tag1)
       });
     let (rc2, h3, fs2) = file_close A h2 fs1;
     Some (rc2, tag1, fs2)
   }"

definition find_tag_in_storage_with_esl_addr ::
  "'f storage_env \<Rightarrow> u16 \<Rightarrow> bt_addr_le \<Rightarrow> 'f \<Rightarrow> (int \<times> bt_addr_le \<times> 'f) option" where
  "find_tag_in_storage_with_esl_addr v addr ble fs = do {
     let A = st_fs v;
     let (rc, h, fs1) = open_for_load v (esl_path v addr) fs;
     (h2, ble1) \<leftarrow> (if rc < 0 then Some (h, ble)
       else do {
         (r1, a, h1) \<leftarrow> file_read A h (ba_val ble) 6 fs1;
         (r2, t, h2) \<leftarrow> file_read A h1 [ba_type ble] 1 fs1;
         Some (h2, \<lparr>ba_type = t ! 0, ba_val = a\<rparr>)
       });
     let (rc2, h3, fs2) = file_close A h2 fs1;
     Some (rc, ble1, fs2)
   }"

definition find_tag_in_storage_with_ble_addr ::
  "'f storage_env \<Rightarrow> u16 \<Rightarrow> bt_addr_le \<Rightarrow> 'f \<Rightarrow> (int \<times> u16 \<times> 'f) option" where
  "find_tag_in_storage_with_ble_addr v addr ble fs = do {
     let A = st_fs v;
     let (rc, h, fs1) = open_for_load v (ble_path v ble) fs;
     (h2, addr1) \<leftarrow> (if rc < 0 then Some (h, addr)
       else do {
         (r1, a, h1) \<leftarrow> file_read A h (le16 addr) ESL_ADDR_LEN fs1;
         Some (h1, of_le16 a)
       });
     let (rc2, h3, fs2) = file_close A h2 fs1;
     Some (rc, addr1, fs2)
   }"

text \<open>\<open>mem\<close> is what the key's stored part holds before it is read.\<close>

definition load_bt_key_in_storage ::
  "'f storage_env \<Rightarrow> bt_addr_le \<Rightarrow> u8 list \<Rightarrow> 'f \<Rightarrow> (int \<times> u8 list \<times> 'f) option" where
  "load_bt_key_in_storage v ble mem fs = do {
     let A = st_fs v;
     let (rc, h, fs1) = open_for_load v (ble_path v ble) fs;
     (h2, mem1) \<leftarrow> (if rc < 0 then Some (h, mem)
       else do {
         let (r1, h1) = file_seek A h (int (ESL_ADDR_LEN + EAD_KEY_MATERIAL_LEN + 1)) fs1;
         (r2, m, h2) \<leftarrow> file_read A h1 mem (st_key_len v) fs1;
         Some (h2, m)
       });
     let (rc2, h3, fs2) = file_close A h2 fs1;
     Some (rc2, mem1, fs2)
   }"

subsection \<open>Removing\<close>

text \<open>
  \<open>junk\<close> is the uninitialised local address. The code returned is the one of removing the second file; what
  \<open>bt_unpair\<close> returns is only logged.
\<close>

definition remove_tag_in_storage ::
  "'f storage_env \<Rightarrow> bt_addr_le \<Rightarrow> u16 \<Rightarrow> bt_addr_le option \<Rightarrow> ap \<Rightarrow> 'f \<Rightarrow> (int \<times> ap \<times> 'f) option" where
  "remove_tag_in_storage v junk addr peer s fs = do {
     let A = st_fs v;
     (rc, ble, addr1, fs1) \<leftarrow> (case peer of
         None \<Rightarrow> do {
           (rc, b, f) \<leftarrow> find_tag_in_storage_with_esl_addr v addr junk fs;
           Some (rc, b, addr, f)
         }
       | Some p \<Rightarrow> if addr = 0xffff
           then do {
             (rc, a, f) \<leftarrow> find_tag_in_storage_with_ble_addr v addr p fs;
             Some (0, p, a, f)
           }
           else Some (0, p, addr, fs));
     (if rc \<noteq> 0 then Some (rc, s, fs1)
      else let (rc1, fs2) = fa_unlink A (ble_path v ble) fs1;
               (rc2, fs3) = fa_unlink A (esl_path v addr1) fs2
           in Some (rc2, ap_effect (Ap_unpair (Some ble)) s, fs3))
   }"

text \<open>The loop over a directory of which \<open>k\<close> entries were read; an empty name ends it.\<close>

partial_function (option) remove_dir :: "'f storage_env \<Rightarrow> string \<Rightarrow> nat \<Rightarrow> 'f \<Rightarrow> (int \<times> 'f) option" where
  "remove_dir v root k fs =
     (let (rc, d) = fa_readdir (st_fs v) root k fs
      in if rc \<noteq> 0 \<or> de_name d = [] then Some (if rc < 0 then fa_unlink (st_fs v) root fs else (rc, fs))
         else remove_dir v root (Suc k)
           (if de_is_file d then snd (fa_unlink (st_fs v) (entry_path v root (de_name d)) fs) else fs))"

definition remove_all_tags_in_storage ::
  "('s, 'm) ap_env \<Rightarrow> 'f storage_env \<Rightarrow> ap \<Rightarrow> 'f \<Rightarrow> (int \<times> ap \<times> 'f) option" where
  "remove_all_tags_in_storage e v s fs = do {
     let A = st_fs v;
     (rc, fs1) \<leftarrow> (if fa_opendir A TAG_BLE_ADDR_ROOT fs \<noteq> 0 then Some (fa_opendir A TAG_BLE_ADDR_ROOT fs, fs)
       else remove_dir v TAG_BLE_ADDR_ROOT 0 fs);
     let rc1 = fa_opendir A TAG_ESL_ADDR_ROOT fs1;
     (if rc1 \<noteq> 0 then Some (rc1, s, fs1)
      else do {
        (rc2, fs2) \<leftarrow> remove_dir v TAG_ESL_ADDR_ROOT 0 fs1;
        Some (rc2, s\<lparr>c_addr_start := push_bit 8 (ucast (default_group_id (acfg e))) OR ucast (default_esl_id (acfg e))\<rparr>, fs2)
      })
   }"

subsection \<open>Loading all tags\<close>

text \<open>\<open>MAX(esl_addr_start, esl_addr + 1)\<close> is computed as an \<open>int\<close> and stored in 16 bits.\<close>

definition raise_addr_start :: "u16 \<Rightarrow> ap \<Rightarrow> ap" where
  "raise_addr_start a s = s\<lparr>c_addr_start := of_int (max (uint (c_addr_start s)) (uint a + 1))\<rparr>"

text \<open>One file of the directory. The slot index is \<open>MIN(\<dots>, 0)\<close> as an octet.\<close>

definition load_tag_file :: "('s, 'm) ap_env \<Rightarrow> 'f storage_env \<Rightarrow> u8 \<Rightarrow> string \<Rightarrow> ap \<Rightarrow> 'f \<Rightarrow> (ap \<times> 'f) option" where
  "load_tag_file e v group_id name s fs = do {
     let A = st_fs v;
     let fname = entry_path v TAG_ESL_ADDR_ROOT name;
     let esl_addr = (of_nat (strtol16 name) :: u16);
     let s1 = raise_addr_start esl_addr s;
     let offset = (of_int (min (uint (LOW_BYTE esl_addr) - uint (default_esl_id (acfg e))) 0) :: u8);
     let g = unat (GROUPID_BYTE esl_addr);
     (if \<not> bit group_id ESL_GROUPID_RFU_BIT \<or> GROUPID_BYTE esl_addr \<noteq> group_id then Some (s1, fs)
      else do {
        let (rc, h, fs1) = file_open A fname False fs;
        let (rc2, h1) = file_seek A h 7 fs1;
        b \<leftarrow> rd (c_sync_buf s1) g;
        r \<leftarrow> rd (sb_rsp b) (unat offset);
        (rc3, k, h2) \<leftarrow> file_read A h1 (key_v (rb_key r)) EAD_KEY_MATERIAL_LEN fs1;
        let b1 = b\<lparr>sb_rsp := (sb_rsp b)[unat offset := r\<lparr>rb_key := key_of_bytes k\<rparr>]\<rparr>;
        let s2 = raise_addr_start esl_addr (s1\<lparr>c_sync_buf := (c_sync_buf s1)[g := b1]\<rparr>);
        let (rc4, h3, fs2) = file_close A h2 fs1;
        Some (s2, fs2)
      })
   }"

partial_function (option) load_dir :: "('s, 'm) ap_env \<Rightarrow> 'f storage_env \<Rightarrow> u8 \<Rightarrow> nat \<Rightarrow> ap \<Rightarrow> 'f \<Rightarrow> (int \<times> ap \<times> 'f) option" where
  "load_dir e v group_id k s fs =
     (let (rc, d) = fa_readdir (st_fs v) TAG_ESL_ADDR_ROOT k fs
      in if rc \<noteq> 0 \<or> de_name d = [] then Some (rc, s, fs)
         else if de_is_file d
         then Option.bind (load_tag_file e v group_id (de_name d) s fs) (\<lambda>(s1, fs1). load_dir e v group_id (Suc k) s1 fs1)
         else load_dir e v group_id (Suc k) s fs)"

definition load_all_tags_in_storage ::
  "('s, 'm) ap_env \<Rightarrow> 'f storage_env \<Rightarrow> u8 \<Rightarrow> ap \<Rightarrow> 'f \<Rightarrow> (int \<times> ap \<times> 'f) option" where
  "load_all_tags_in_storage e v group_id s fs =
     (let rc = fa_opendir (st_fs v) TAG_ESL_ADDR_ROOT fs
      in if rc \<noteq> 0 then Some (rc, s, fs) else load_dir e v group_id 0 s fs)"

subsection \<open>Listing\<close>

text \<open>The names printed, and for the second command the address found for each.\<close>

partial_function (option) list_dir :: "'f storage_env \<Rightarrow> string \<Rightarrow> nat \<Rightarrow> string list \<Rightarrow> 'f \<Rightarrow> (int \<times> string list) option" where
  "list_dir v root k out fs =
     (let (rc, d) = fa_readdir (st_fs v) root k fs
      in if rc \<noteq> 0 \<or> de_name d = [] then Some (rc, out)
         else list_dir v root (Suc k) (if de_is_file d then out @ [de_name d] else out) fs)"

definition list_tags_in_storage_type :: "'f storage_env \<Rightarrow> u8 \<Rightarrow> 'f \<Rightarrow> (int \<times> string list) option" where
  "list_tags_in_storage_type v type fs =
     (let root = take (st_path_len v - 1) (if type = 0 then TAG_ESL_ADDR_ROOT else TAG_BLE_ADDR_ROOT);
          rc = fa_opendir (st_fs v) root fs
      in if rc \<noteq> 0 then Some (rc, []) else list_dir v root 0 [] fs)"

partial_function (option) list_addresses ::
  "'f storage_env \<Rightarrow> bt_addr_le \<Rightarrow> string \<Rightarrow> nat \<Rightarrow> (string \<times> bt_addr_le) list \<Rightarrow> 'f \<Rightarrow>
    (int \<times> (string \<times> bt_addr_le) list \<times> 'f) option" where
  "list_addresses v junk root k out fs =
     (let (rc, d) = fa_readdir (st_fs v) root k fs
      in if rc \<noteq> 0 \<or> de_name d = [] then Some (rc, out, fs)
         else if de_is_file d
         then Option.bind (find_tag_in_storage_with_esl_addr v (of_nat (strtol16 (de_name d))) junk fs)
           (\<lambda>(r, b, fs1). list_addresses v junk root (Suc k) (out @ [(de_name d, b)]) fs1)
         else list_addresses v junk root (Suc k) out fs)"

definition list_tags_in_storage ::
  "'f storage_env \<Rightarrow> bt_addr_le \<Rightarrow> 'f \<Rightarrow> (int \<times> (string \<times> bt_addr_le) list \<times> 'f) option" where
  "list_tags_in_storage v junk fs =
     (let root = take (st_path_len v - 1) TAG_ESL_ADDR_ROOT; rc = fa_opendir (st_fs v) root fs
      in if rc \<noteq> 0 then Some (rc, [], fs) else list_addresses v junk root 0 [] fs)"

subsection \<open>The client's use of the storage\<close>

definition esl_tag_load_work_fn :: "'f storage_env \<Rightarrow> ap \<Rightarrow> 'f \<Rightarrow> (ap \<times> 'f) option" where
  "esl_tag_load_work_fn v s fs = do {
     let (peer, c) = c_tag_load s;
     g \<leftarrow> rd (c_gatt s) (unat c);
     (rc, d, fs1) \<leftarrow> load_tag_in_storage v peer (g_device g) fs;
     Some (s\<lparr>c_gatt := (c_gatt s)[unat c := g\<lparr>g_device := d\<rparr>]\<rparr>, fs1)
   }"

definition bt_c_esl_unbond_by_esl_addr ::
  "'f storage_env \<Rightarrow> bt_addr_le \<Rightarrow> int \<Rightarrow> u16 \<Rightarrow> ap \<Rightarrow> 'f \<Rightarrow> (int \<times> ap \<times> 'f) option" where
  "bt_c_esl_unbond_by_esl_addr v junk code addr s fs = do {
     (rc, b, fs1) \<leftarrow> find_tag_in_storage_with_esl_addr v addr junk fs;
     Some (if rc \<noteq> 0 then (rc, s, fs1) else (code, ap_effect (Ap_unpair (Some b)) s, fs1))
   }"

definition bt_c_esl_unbond :: "int \<Rightarrow> bt_addr_le \<Rightarrow> ap \<Rightarrow> int \<times> ap" where
  "bt_c_esl_unbond code addr s = (code, ap_effect (Ap_unpair (Some addr)) s)"

definition bt_c_esl_unbond_all :: "int \<Rightarrow> ap \<Rightarrow> int \<times> ap" where
  "bt_c_esl_unbond_all code s = (code, ap_effect (Ap_unpair None) s)"

text \<open>Forgetting everything: the flags are released, every tag's data is zeroed and the stored tags are removed.\<close>

definition bt_esl_c_reset_ap ::
  "('s, 'm) ap_env \<Rightarrow> 'f storage_env \<Rightarrow> int \<Rightarrow> ap \<Rightarrow> 'f \<Rightarrow> (int \<times> ap \<times> 'f) option" where
  "bt_esl_c_reset_ap e v code s fs =
     (let s1 = ap_effect Ap_ots_unregister (s\<lparr>c_esl_count := 0, c_ots_written := True\<rparr>);
          s2 = s1\<lparr>c_gatt := map (\<lambda>g. g\<lparr>g_device := zero_device e\<rparr>) (c_gatt s1)\<rparr>;
          s3 = snd (bt_c_esl_unbond_all code s2)
      in if ap_tag_storage (acfg e) then remove_all_tags_in_storage e v s3 fs else Some (0, s3, fs))"

subsection \<open>A saved tag is found again\<close>

text \<open>The host writes an address in a fixed number of characters, different for different addresses, and a path has room for it.\<close>

definition names_ok :: "'f storage_env \<Rightarrow> bool" where
  "names_ok v \<longleftrightarrow> inj_on (st_addr v) {a. length a = 6} \<and> (\<forall>a. length a = 6 \<longrightarrow> length (st_addr v a) = 17) \<and> 33 \<le> st_path_len v"

definition storage_ok :: "'f storage_env \<Rightarrow> bool" where
  "storage_ok v \<longleftrightarrow> fs_ok (st_fs v) \<and> fs_reliable (st_fs v) \<and> names_ok v"

lemma hex_num_short: "n < 16 ^ Suc k \<Longrightarrow> length (hex_num ds n) \<le> Suc k"
proof (induction k arbitrary: n)
  case 0
  then show ?case by (simp add: hex_num.simps)
next
  case (Suc k)
  have "n div 16 < 16 ^ Suc k" using Suc.prems by (simp add: less_mult_imp_div_less)
  then show ?case using Suc.IH [of "n div 16"] by (subst hex_num.simps) simp
qed

lemma length_hex4: "length (format_hex ds 4 (unat (a :: u16))) = 4"
proof -
  have "unat a < 16 ^ Suc 3" using unsigned_less [where 'a = nat and w = a] by simp
  then show ?thesis using hex_num_short [of "unat a" 3 ds] by (simp add: format_hex_def)
qed

lemma esl_path_eq: "names_ok v \<Longrightarrow> esl_path v a = TAG_ESL_ADDR_ROOT @ ''/'' @ format_hex lower_digits 4 (unat a)"
  by (auto simp: esl_path_def entry_path_def names_ok_def TAG_ESL_ADDR_ROOT_def length_hex4)

lemma ble_path_eq: "names_ok v \<Longrightarrow> length (ba_val a) = 6 \<Longrightarrow> ble_path v a = TAG_BLE_ADDR_ROOT @ ''/'' @ st_addr v (ba_val a)"
  by (auto simp: ble_path_def entry_path_def names_ok_def TAG_BLE_ADDR_ROOT_def)

lemma esl_path_inj: "names_ok v \<Longrightarrow> esl_path v a = esl_path v b \<longleftrightarrow> a = b"
  by (simp add: esl_path_eq format_hex_inj word_unat_eq_iff)

lemma ble_path_inj:
  "names_ok v \<Longrightarrow> length (ba_val a) = 6 \<Longrightarrow> length (ba_val b) = 6 \<Longrightarrow> ble_path v a = ble_path v b \<longleftrightarrow> ba_val a = ba_val b"
  by (auto simp: ble_path_eq names_ok_def inj_on_def)

lemma paths_apart: "names_ok v \<Longrightarrow> length (ba_val a) = 6 \<Longrightarrow> ble_path v a \<noteq> esl_path v b"
  by (simp add: ble_path_eq esl_path_eq TAG_BLE_ADDR_ROOT_def TAG_ESL_ADDR_ROOT_def)

lemma write_all_opened:
  assumes "fs_ok A" "fs_reliable A" "opened A fs h n p c" "write_all A ds h fs = (h1, fs1)"
  shows "opened A fs1 h1 n (p + length (concat ds)) (overwrite c p (concat ds)) \<and>
    (\<forall>m. m \<noteq> n \<longrightarrow> fa_file A fs1 m = fa_file A fs m)"
  using assms(3,4)
proof (induction ds arbitrary: h fs p c)
  case Nil
  then show ?case by (simp add: opened_def overwrite_def)
next
  case (Cons d ds)
  obtain rc h2 fs2 where w: "file_write A h d fs = (rc, h2, fs2)" by (cases "file_write A h d fs")
  note wo = write_opened [OF assms(1) Cons.prems(1) w]
  have o: "opened A fs2 h2 n (p + length d) (overwrite c p d)" using wo(3,4) assms(2) by blast
  have "write_all A ds h2 fs2 = (h1, fs1)" using Cons.prems(2) w by simp
  note ih = Cons.IH [OF o this]
  have "p \<le> length c" using Cons.prems(1) by (simp add: opened_def)
  then show ?case using ih wo(1) by (simp add: overwrite_append add.assoc)
qed

definition content :: "'f fs_api \<Rightarrow> 'f \<Rightarrow> string \<Rightarrow> u8 list" where
  "content A fs n = (case fa_file A fs n of None \<Rightarrow> [] | Some c \<Rightarrow> c)"

text \<open>One file of a save: opened, written and closed.\<close>

lemma stored_file:
  assumes "fs_ok (st_fs v)" "fs_reliable (st_fs v)" "open_for_save v n fs = (ok, h, fs1)"
    and "write_all (st_fs v) ds h fs1 = (h1, fs2)" "file_close (st_fs v) h1 fs2 = (rc, h2, fs3)"
  shows "ok" "rc = 0" "fa_file (st_fs v) fs3 = (fa_file (st_fs v) fs)(n \<mapsto> overwrite (content (st_fs v) fs n) 0 (concat ds))"
proof -
  let ?A = "st_fs v"
  obtain r where o: "file_open ?A n True fs = (r, h, fs1)" "ok = (0 \<le> r \<and> 0 \<le> fst (fa_stat ?A n fs1))"
    using assms(3) by (auto simp: open_for_save_def case_prod_unfold Let_def prod_eq_iff)
  have r: "0 \<le> r"
    using assms(2) o(1) unfolding fs_reliable_def file_open_def by (metis (no_types, lifting) case_prod_unfold fst_conv)
  have op: "opened ?A fs1 h n 0 (content ?A fs n)" "\<And>m. m \<noteq> n \<Longrightarrow> fa_file ?A fs1 m = fa_file ?A fs m"
    using open_create [OF assms(1) o(1) r] by (simp_all add: content_def)
  obtain d where "fa_stat ?A n fs1 = (0, d)"
    using stat_file [OF assms(1)] op(1) unfolding opened_def by blast
  then show "ok" using o(2) r by simp
  have w: "opened ?A fs2 h1 n (length (concat ds)) (overwrite (content ?A fs n) 0 (concat ds))"
    "\<forall>m. m \<noteq> n \<longrightarrow> fa_file ?A fs2 m = fa_file ?A fs1 m"
    using write_all_opened [OF assms(1,2) op(1) assms(4)] by simp_all
  show "rc = 0" using close_keeps [OF assms(1,5)] assms(2) by simp
  show "fa_file ?A fs3 = (fa_file ?A fs)(n \<mapsto> overwrite (content ?A fs n) 0 (concat ds))"
    using close_keeps(1) [OF assms(1,5)] w op(2) by (auto simp: opened_def)
qed

definition ble_record :: "'f storage_env \<Rightarrow> u8 list option \<Rightarrow> ap_device \<Rightarrow> u8 list" where
  "ble_record v bond tag = le16 (dev_esl_addr tag) @ key_v (dev_rsp_key tag) @ [ba_type (dev_ble_addr tag)] @
     (if st_bt_keys v then the bond else [])"

definition esl_record :: "ap_device \<Rightarrow> u8 list" where
  "esl_record tag = ba_val (dev_ble_addr tag) @ [ba_type (dev_ble_addr tag)] @ key_v (dev_rsp_key tag) @
     le16 (dev_pnp_vid tag) @ le16 (dev_pnp_pid tag)"

definition tag_stored :: "'f storage_env \<Rightarrow> u8 list option \<Rightarrow> ap_device \<Rightarrow> 'f \<Rightarrow> 'f \<Rightarrow> bool" where
  "tag_stored v bond tag fs fs1 \<longleftrightarrow> fa_file (st_fs v) fs1 = (fa_file (st_fs v) fs)
     (ble_path v (dev_ble_addr tag) \<mapsto> overwrite (content (st_fs v) fs (ble_path v (dev_ble_addr tag))) 0 (ble_record v bond tag),
      esl_path v (dev_esl_addr tag) \<mapsto> overwrite (content (st_fs v) fs (esl_path v (dev_esl_addr tag))) 0 (esl_record tag))"

lemma save_saves:
  assumes "storage_ok v" "length (ba_val (dev_ble_addr tag)) = 6" "st_bt_keys v \<longrightarrow> bond \<noteq> None"
  shows "\<exists>fs1. save_tag_in_storage v bond tag fs = Some (0, fs1) \<and> tag_stored v bond tag fs fs1"
proof -
  let ?A = "st_fs v"
  let ?b = "ble_path v (dev_ble_addr tag)" and ?e = "esl_path v (dev_esl_addr tag)"
  have A: "fs_ok ?A" "fs_reliable ?A" "names_ok v" using assms(1) by (simp_all add: storage_ok_def)
  define key where "key = (if st_bt_keys v then [the bond] else [])"
  have key: "(if st_bt_keys v then map_option (\<lambda>b. [b]) bond else Some []) = Some key"
    using assms(3) by (auto simp: key_def)
  let ?d1 = "[le16 (dev_esl_addr tag), key_v (dev_rsp_key tag), [ba_type (dev_ble_addr tag)]] @ key"
  let ?d2 = "[ba_val (dev_ble_addr tag), [ba_type (dev_ble_addr tag)], key_v (dev_rsp_key tag),
    le16 (dev_pnp_vid tag), le16 (dev_pnp_pid tag)]"
  obtain ok h fs1 where 1: "open_for_save v ?b fs = (ok, h, fs1)" by (metis prod_cases3)
  obtain h1 fs2 where 2: "write_all ?A ?d1 h fs1 = (h1, fs2)" by fastforce
  obtain rc h2 fs3 where 3: "file_close ?A h1 fs2 = (rc, h2, fs3)" by (metis prod_cases3)
  obtain ok2 h3 fs4 where 4: "open_for_save v ?e fs3 = (ok2, h3, fs4)" by (metis prod_cases3)
  obtain h4 fs5 where 5: "write_all ?A ?d2 h3 fs4 = (h4, fs5)" by fastforce
  obtain rc2 h5 fs6 where 6: "file_close ?A h4 fs5 = (rc2, h5, fs6)" by (metis prod_cases3)
  note f1 = stored_file [OF A(1,2) 1 2 3]
  note f2 = stored_file [OF A(1,2) 4 5 6]
  have s: "save_tag_in_storage v bond tag fs = Some (0, fs6)"
    unfolding save_tag_in_storage_def Let_def key
    using f1(1) f2(1,2) by (simp only: 1 2 3 4 5 6 case_prod_conv bind.bind_lunit if_True if_False not_True_eq_False)
  have "concat ?d1 = ble_record v bond tag" "concat ?d2 = esl_record tag"
    by (simp_all add: ble_record_def esl_record_def key_def)
  moreover have "content ?A fs3 ?e = content ?A fs ?e"
    using paths_apart [OF A(3) assms(2)] by (simp add: content_def f1(3) eq_commute [of ?e])
  ultimately have "tag_stored v bond tag fs fs6" using f1(3) f2(3) by (simp add: tag_stored_def)
  then show ?thesis using s by blast
qed

text \<open>Loading reads the address and the key at the start of the tag's file, whatever follows them.\<close>

lemma opened_for_load:
  assumes "fs_ok (st_fs v)" "fs_reliable (st_fs v)" "fa_file (st_fs v) fs n = Some c" "c \<noteq> []"
  shows "\<exists>h fs1. open_for_load v n fs = (0, h, fs1) \<and> opened (st_fs v) fs1 h n 0 c \<and> fa_file (st_fs v) fs1 = fa_file (st_fs v) fs"
proof -
  obtain rc h fs1 where o: "file_open (st_fs v) n False fs = (rc, h, fs1)" by (metis prod_cases3)
  note or = open_read [OF assms(1-3) o]
  obtain d where "fa_stat (st_fs v) n fs1 = (0, d)" "de_size d = length c"
    using stat_file [OF assms(1), of fs1 n c] or(3) assms(3) by metis
  then show ?thesis using or o assms(4) by (simp add: open_for_load_def)
qed

lemma closes: "fs_ok A \<Longrightarrow> fs_reliable A \<Longrightarrow> \<exists>h1 fs1. file_close A h fs = (0, h1, fs1) \<and> fa_file A fs1 = fa_file A fs"
  by (metis close_keeps prod_cases3)

lemma read_at:
  assumes "fs_ok A" "opened A fs h n p (c1 @ d @ c2)" "p = length c1" "length b = length d" "l = length d"
  shows "\<exists>h1. file_read A h b l fs = Some (int l, d, h1) \<and> opened A fs h1 n (p + l) (c1 @ d @ c2)"
  using read_opened [OF assms(1,2), of l b] assms(2-) by (simp add: opened_def)

lemma read_first:
  assumes "fs_ok A" "opened A fs h n 0 (d @ c)" "length b = length d" "l = length d"
  shows "\<exists>h1. file_read A h b l fs = Some (int l, d, h1) \<and> opened A fs h1 n l (d @ c)"
  using read_at [of A fs h n 0 "[]" d c b l] assms by simp

lemma load_loads:
  assumes "fs_ok (st_fs v)" "fs_reliable (st_fs v)" and key: "key_ok k" "key_ok (dev_rsp_key d)"
    and stored: "fa_file (st_fs v) fs (ble_path v a) = Some (le16 addr @ key_v k @ rest)"
  shows "\<exists>fs1. load_tag_in_storage v a d fs = Some (0,
      d\<lparr>dev_esl_addr := addr, dev_rsp_key := k, dev_past_needed := (dev_past_needed d \<or> dev_connect_from d = ACL_FROM_SCAN)\<rparr>, fs1) \<and>
    fa_file (st_fs v) fs1 = fa_file (st_fs v) fs"
proof -
  let ?A = "st_fs v" and ?n = "ble_path v a" and ?c = "le16 addr @ key_v k @ rest"
  have "?c \<noteq> []" using length_key_v [OF key(1)] by auto
  then obtain h fs1 where o: "open_for_load v ?n fs = (0, h, fs1)" "opened ?A fs1 h ?n 0 ?c" "fa_file ?A fs1 = fa_file ?A fs"
    using opened_for_load [OF assms(1,2) stored] by blast
  obtain h1 where 1: "file_read ?A h (le16 (dev_esl_addr d)) ESL_ADDR_LEN fs1 = Some (int 2, le16 addr, h1)"
      "opened ?A fs1 h1 ?n 2 (le16 addr @ key_v k @ rest)"
    using read_first [OF assms(1) o(2), of "le16 (dev_esl_addr d)" 2] unfolding length_le16 by blast
  obtain h2 where 2: "file_read ?A h1 (key_v (dev_rsp_key d)) EAD_KEY_MATERIAL_LEN fs1 = Some (int 24, key_v k, h2)"
    using read_at [OF assms(1) 1(2), of "key_v (dev_rsp_key d)" EAD_KEY_MATERIAL_LEN]
    unfolding length_le16 length_key_v [OF key(1)] length_key_v [OF key(2)] by blast
  obtain h3 fs2 where 3: "file_close ?A h2 fs1 = (0, h3, fs2)" "fa_file ?A fs2 = fa_file ?A fs1"
    using closes [OF assms(1,2)] by blast
  show ?thesis
    unfolding load_tag_in_storage_def Let_def
    using o(3) 1(1) 2 3 key of_le16_le16 [of addr "[]"] by (simp add: o(1))
qed

lemma find_by_esl_addr:
  assumes "fs_ok (st_fs v)" "fs_reliable (st_fs v)" "length (ba_val a) = 6" "length (ba_val junk) = 6"
    and stored: "fa_file (st_fs v) fs (esl_path v addr) = Some (ba_val a @ [ba_type a] @ rest)"
  shows "\<exists>fs1. find_tag_in_storage_with_esl_addr v addr junk fs = Some (0, a, fs1) \<and> fa_file (st_fs v) fs1 = fa_file (st_fs v) fs"
proof -
  let ?A = "st_fs v" and ?n = "esl_path v addr" and ?c = "ba_val a @ [ba_type a] @ rest"
  have "?c \<noteq> []" by simp
  then obtain h fs1 where o: "open_for_load v ?n fs = (0, h, fs1)" "opened ?A fs1 h ?n 0 ?c" "fa_file ?A fs1 = fa_file ?A fs"
    using opened_for_load [OF assms(1,2) stored] by blast
  obtain h1 where 1: "file_read ?A h (ba_val junk) 6 fs1 = Some (int 6, ba_val a, h1)" "opened ?A fs1 h1 ?n 6 ?c"
    using read_first [OF assms(1) o(2), of "ba_val junk" 6] unfolding assms(3,4) by blast
  obtain h2 where 2: "file_read ?A h1 [ba_type junk] 1 fs1 = Some (int 1, [ba_type a], h2)"
    using read_at [OF assms(1) 1(2), of "[ba_type junk]" 1] assms(3) by auto
  obtain h3 fs2 where 3: "file_close ?A h2 fs1 = (0, h3, fs2)" "fa_file ?A fs2 = fa_file ?A fs1"
    using closes [OF assms(1,2)] by blast
  show ?thesis
    unfolding find_tag_in_storage_with_esl_addr_def Let_def
    using o(3) 1(1) 2 3 by (simp add: o(1))
qed

lemma find_by_ble_addr:
  assumes "fs_ok (st_fs v)" "fs_reliable (st_fs v)"
    and stored: "fa_file (st_fs v) fs (ble_path v a) = Some (le16 addr @ rest)"
  shows "\<exists>fs1. find_tag_in_storage_with_ble_addr v any a fs = Some (0, addr, fs1) \<and> fa_file (st_fs v) fs1 = fa_file (st_fs v) fs"
proof -
  let ?A = "st_fs v" and ?n = "ble_path v a" and ?c = "le16 addr @ rest"
  have "?c \<noteq> []" by (metis append_is_Nil_conv length_0_conv length_le16 zero_neq_numeral)
  then obtain h fs1 where o: "open_for_load v ?n fs = (0, h, fs1)" "opened ?A fs1 h ?n 0 ?c" "fa_file ?A fs1 = fa_file ?A fs"
    using opened_for_load [OF assms(1,2) stored] by blast
  obtain h1 where 1: "file_read ?A h (le16 any) ESL_ADDR_LEN fs1 = Some (int 2, le16 addr, h1)"
    using read_first [OF assms(1) o(2), of "le16 any" 2] unfolding length_le16 by blast
  obtain h3 fs2 where 3: "file_close ?A h1 fs1 = (0, h3, fs2)" "fa_file ?A fs2 = fa_file ?A fs1"
    using closes [OF assms(1,2)] by blast
  show ?thesis
    unfolding find_tag_in_storage_with_ble_addr_def Let_def
    using o(3) 1 3 of_le16_le16 [of addr "[]"] by (simp add: o(1))
qed

text \<open>What \<open>load_loads\<close> and the two searches say of a tag that was saved, for any later state that keeps its two files.\<close>

lemma overwrite_start: "overwrite c 0 d = d @ drop (length d) c"
  by (simp add: overwrite_def)

definition kept_files :: "'f storage_env \<Rightarrow> ap_device \<Rightarrow> 'f \<Rightarrow> 'f \<Rightarrow> bool" where
  "kept_files v tag fs1 fs2 \<longleftrightarrow>
     fa_file (st_fs v) fs2 (ble_path v (dev_ble_addr tag)) = fa_file (st_fs v) fs1 (ble_path v (dev_ble_addr tag)) \<and>
     fa_file (st_fs v) fs2 (esl_path v (dev_esl_addr tag)) = fa_file (st_fs v) fs1 (esl_path v (dev_esl_addr tag))"

lemma saved_contents:
  assumes "storage_ok v" "length (ba_val (dev_ble_addr tag)) = 6" "tag_stored v bond tag fs fs1" "kept_files v tag fs1 fs2"
  shows "\<exists>r. fa_file (st_fs v) fs2 (ble_path v (dev_ble_addr tag)) =
      Some (le16 (dev_esl_addr tag) @ key_v (dev_rsp_key tag) @ r)"
    and "\<exists>r. fa_file (st_fs v) fs2 (esl_path v (dev_esl_addr tag)) =
      Some (ba_val (dev_ble_addr tag) @ [ba_type (dev_ble_addr tag)] @ r)"
proof -
  have n: "ble_path v (dev_ble_addr tag) \<noteq> esl_path v (dev_esl_addr tag)"
    using paths_apart [of v "dev_ble_addr tag"] assms(1,2) by (auto simp: storage_ok_def)
  show "\<exists>r. fa_file (st_fs v) fs2 (ble_path v (dev_ble_addr tag)) =
      Some (le16 (dev_esl_addr tag) @ key_v (dev_rsp_key tag) @ r)"
    "\<exists>r. fa_file (st_fs v) fs2 (esl_path v (dev_esl_addr tag)) =
      Some (ba_val (dev_ble_addr tag) @ [ba_type (dev_ble_addr tag)] @ r)"
    using n assms(3,4) by (simp_all add: tag_stored_def kept_files_def overwrite_start ble_record_def esl_record_def)
qed

lemma saved_loads:
  assumes v: "storage_ok v" and t: "length (ba_val (dev_ble_addr tag)) = 6" "key_ok (dev_rsp_key tag)"
    and s: "tag_stored v bond tag fs fs1" "kept_files v tag fs1 fs2" and d: "key_ok (dev_rsp_key d)"
  shows "\<exists>fs3. load_tag_in_storage v (dev_ble_addr tag) d fs2 = Some (0, d\<lparr>dev_esl_addr := dev_esl_addr tag,
      dev_rsp_key := dev_rsp_key tag, dev_past_needed := (dev_past_needed d \<or> dev_connect_from d = ACL_FROM_SCAN)\<rparr>, fs3)"
proof -
  have A: "fs_ok (st_fs v)" "fs_reliable (st_fs v)" using v by (simp_all add: storage_ok_def)
  show ?thesis using saved_contents(1) [OF v t(1) s] load_loads [OF A t(2) d] by metis
qed

lemma saved_found:
  assumes v: "storage_ok v" and t: "length (ba_val (dev_ble_addr tag)) = 6"
    and s: "tag_stored v bond tag fs fs1" "kept_files v tag fs1 fs2" and j: "length (ba_val junk) = 6"
  shows "\<exists>fs3. find_tag_in_storage_with_esl_addr v (dev_esl_addr tag) junk fs2 = Some (0, dev_ble_addr tag, fs3)"
    and "\<exists>fs3. find_tag_in_storage_with_ble_addr v any (dev_ble_addr tag) fs2 = Some (0, dev_esl_addr tag, fs3)"
proof -
  have A: "fs_ok (st_fs v)" "fs_reliable (st_fs v)" using v by (simp_all add: storage_ok_def)
  show "\<exists>fs3. find_tag_in_storage_with_esl_addr v (dev_esl_addr tag) junk fs2 = Some (0, dev_ble_addr tag, fs3)"
    using saved_contents(2) [OF v t(1) s] find_by_esl_addr [OF A t(1) j] by metis
  show "\<exists>fs3. find_tag_in_storage_with_ble_addr v any (dev_ble_addr tag) fs2 = Some (0, dev_esl_addr tag, fs3)"
    using saved_contents(1) [OF v t(1) s] find_by_ble_addr [OF A] by metis
qed

text \<open>Saving another tag keeps the files of this one.\<close>

lemma save_keeps_other:
  assumes "names_ok v" "length (ba_val (dev_ble_addr tag)) = 6" "length (ba_val (dev_ble_addr other)) = 6"
    and "ba_val (dev_ble_addr other) \<noteq> ba_val (dev_ble_addr tag)" "dev_esl_addr other \<noteq> dev_esl_addr tag"
    and "tag_stored v bond other fs1 fs2"
  shows "kept_files v tag fs1 fs2"
proof -
  have "ble_path v (dev_ble_addr other) \<noteq> ble_path v (dev_ble_addr tag)"
    "esl_path v (dev_esl_addr other) \<noteq> esl_path v (dev_esl_addr tag)"
    using assms(1-5) ble_path_inj [of v "dev_ble_addr other" "dev_ble_addr tag"]
      esl_path_inj [of v "dev_esl_addr other" "dev_esl_addr tag"] by simp_all
  moreover have "ble_path v (dev_ble_addr tag) \<noteq> esl_path v (dev_esl_addr other)"
    "esl_path v (dev_esl_addr tag) \<noteq> ble_path v (dev_ble_addr other)"
    using paths_apart [OF assms(1)] assms(2,3) by (blast, metis)
  ultimately show ?thesis using assms(6) by (simp add: kept_files_def tag_stored_def)
qed

subsection \<open>Directories\<close>

text \<open>The loops end when the directory does.\<close>

definition dir_ends :: "'f storage_env \<Rightarrow> string \<Rightarrow> nat \<Rightarrow> 'f \<Rightarrow> bool" where
  "dir_ends v root n fs \<longleftrightarrow> fst (fa_readdir (st_fs v) root n fs) \<noteq> 0 \<or> de_name (snd (fa_readdir (st_fs v) root n fs)) = []"

lemma remove_dir_ends:
  assumes "\<And>fs. dir_ends v root (k + n) fs"
  shows "remove_dir v root k fs \<noteq> None"
  using assms
proof (induction n arbitrary: k fs)
  case 0
  then show ?case using 0 [of fs]
    by (subst remove_dir.simps) (auto simp: dir_ends_def case_prod_unfold Let_def)
next
  case (Suc n)
  then show ?case
    by (subst remove_dir.simps) (simp add: case_prod_unfold Let_def)
qed

text \<open>
  A listing of the directory. Every file's address counts towards the next free one; no group identifier passes
  the filter, so no file is opened and no key is loaded.
\<close>

definition listing :: "'f storage_env \<Rightarrow> string \<Rightarrow> fs_dirent list \<Rightarrow> 'f \<Rightarrow> bool" where
  "listing v root ds fs \<longleftrightarrow> (\<forall>d \<in> set ds. de_name d \<noteq> []) \<and>
     (\<forall>k < length ds. fa_readdir (st_fs v) root k fs = (0, ds ! k)) \<and>
     fst (fa_readdir (st_fs v) root (length ds) fs) = 0 \<and> de_name (snd (fa_readdir (st_fs v) root (length ds) fs)) = []"

definition entry_addr :: "fs_dirent \<Rightarrow> u16" where
  "entry_addr d = of_nat (strtol16 (de_name d))"

lemma groupid_no_rfu: "\<not> bit (GROUPID_BYTE a) 7"
  by (simp add: GROUPID_BYTE_def bit_simps)

lemma load_tag_file_skips: "load_tag_file e v g name s fs = Some (raise_addr_start (of_nat (strtol16 name)) s, fs)"
  using groupid_no_rfu by (auto simp: load_tag_file_def Let_def)

lemma load_dir_listing:
  assumes "listing v TAG_ESL_ADDR_ROOT ds fs" "k \<le> length ds"
  shows "load_dir e v g k s fs = Some (0, fold (raise_addr_start \<circ> entry_addr) (filter de_is_file (drop k ds)) s, fs)"
  using assms(2)
proof (induction "length ds - k" arbitrary: k s)
  case 0
  then show ?case using assms(1)
    by (subst load_dir.simps) (simp add: listing_def case_prod_unfold Let_def)
next
  case (Suc n)
  then have k: "k < length ds" by simp
  have ih: "load_dir e v g (Suc k) s' fs =
      Some (0, fold (raise_addr_start \<circ> entry_addr) (filter de_is_file (drop (Suc k) ds)) s', fs)" for s'
    using Suc.hyps(1) [of "Suc k"] Suc.hyps(2) k by simp
  have r: "fa_readdir (st_fs v) TAG_ESL_ADDR_ROOT k fs = (0, ds ! k)" "de_name (ds ! k) \<noteq> []"
    using assms(1) k by (simp_all add: listing_def)
  have d: "drop k ds = ds ! k # drop (Suc k) ds" using k by (simp add: Cons_nth_drop_Suc)
  show ?case
    by (subst load_dir.simps) (simp add: r load_tag_file_skips ih d entry_addr_def)
qed

lemma load_all_listing:
  assumes "listing v TAG_ESL_ADDR_ROOT ds fs" "fa_opendir (st_fs v) TAG_ESL_ADDR_ROOT fs = 0"
  shows "load_all_tags_in_storage e v g s fs =
    Some (0, fold (raise_addr_start \<circ> entry_addr) (filter de_is_file ds) s, fs)"
  using load_dir_listing [OF assms(1), of 0] assms(2) by (simp add: load_all_tags_in_storage_def)

lemma raise_keeps:
  "c_sync_buf (fold (raise_addr_start \<circ> entry_addr) ds s) = c_sync_buf s"
  by (induction ds arbitrary: s) (simp_all add: raise_addr_start_def)

lemma raised_above:
  assumes "\<forall>d \<in> set ds. entry_addr d \<noteq> 0xffff"
  shows "uint (c_addr_start s) \<le> uint (c_addr_start (fold (raise_addr_start \<circ> entry_addr) ds s)) \<and>
    (\<forall>d \<in> set ds. uint (entry_addr d) < uint (c_addr_start (fold (raise_addr_start \<circ> entry_addr) ds s)))"
  using assms
proof (induction ds arbitrary: s)
  case (Cons d ds)
  have "entry_addr d \<noteq> 0xffff" using Cons.prems by simp
  then have "uint (entry_addr d) \<noteq> 0xffff" by (simp add: word_uint_eq_iff)
  then have "uint (entry_addr d) + 1 < 65536" using uint_lt2p [of "entry_addr d"] by simp
  moreover have "uint (c_addr_start s) < 65536" using uint_lt2p [of "c_addr_start s"] by simp
  ultimately have "uint (c_addr_start (raise_addr_start (entry_addr d) s)) = max (uint (c_addr_start s)) (uint (entry_addr d) + 1)"
    by (simp add: raise_addr_start_def uint_word_of_int max_def)
  then show ?case using Cons.IH [of "raise_addr_start (entry_addr d) s"] Cons.prems by auto
qed simp

end
