(* ===== verification/Ap_Disc.thy ===== *)
theory Ap_Disc
  imports Ap_Conn
begin

unbundle bit_operations_syntax

text \<open>
  Service discovery in \<open>service/esl_client.c\<close>: the sequence of discoveries after a connection, the handles
  taken from each, and the subscription to control point responses. What the discovery manager found is
  an argument: a characteristic may be missing, or its value, or be there with a handle.
\<close>

datatype dm_lookup = No_chrc | No_desc | Dm_handle u16

record dm_inp =
  dm_service :: bool \<comment> \<open>the UUID is the service's\<close>
  dm_value :: "nat \<Rightarrow> dm_lookup" \<comment> \<open>by index into the table of handles\<close>
  dm_ccc :: "u16 option" \<comment> \<open>the descriptor of the control point\<close>
  dm_conn :: bt_conn

subsection \<open>Handles\<close>

text \<open>The mandatory characteristics in the order in which they are looked up; the first that is missing ends it.\<close>

fun assign_mandatory :: "(nat \<Rightarrow> dm_lookup) \<Rightarrow> nat list \<Rightarrow> u16 list \<Rightarrow> bool \<times> u16 list" where
  "assign_mandatory dm [] hs = (True, hs)"
| "assign_mandatory dm (k # ks) hs =
     (case dm k of Dm_handle h \<Rightarrow> assign_mandatory dm ks (hs[k := h]) | _ \<Rightarrow> (False, hs))"

text \<open>An optional characteristic may be missing, but not its value.\<close>

fun assign_optional :: "(nat \<Rightarrow> dm_lookup) \<Rightarrow> nat list \<Rightarrow> u16 list \<Rightarrow> bool \<times> u16 list" where
  "assign_optional dm [] hs = (True, hs)"
| "assign_optional dm (k # ks) hs =
     (case dm k of
        Dm_handle h \<Rightarrow> assign_optional dm ks (hs[k := h])
      | No_chrc \<Rightarrow> assign_optional dm ks hs
      | No_desc \<Rightarrow> (False, hs))"

definition mandatory :: "nat list" where
  "mandatory = [HANDLE_ESL_ADDR, HANDLE_AP_SYNC_KEY, HANDLE_ESL_RESP_KEY, HANDLE_ESL_ABS_TIME, HANDLE_ECP]"

definition optional :: "nat list" where
  "optional = [HANDLE_DISP_INF, HANDLE_IMAGE_INF, HANDLE_SENSOR_INF, HANDLE_LED_INF]"

definition assign_handles :: "dm_inp \<Rightarrow> bool \<times> u16 list" where
  "assign_handles dm =
     (let (ok1, hs1) = assign_mandatory (dm_value dm) mandatory (replicate NUMBERS_OF_HANDLE BT_ATT_INVALID_HANDLE)
      in if \<not> ok1 then (False, hs1)
         else case dm_ccc dm of
           None \<Rightarrow> (False, hs1)
         | Some ccc \<Rightarrow> assign_optional (dm_value dm) optional (hs1[HANDLE_ECP_CCC := ccc]))"

definition bt_esl_handles_assign :: "dm_inp \<Rightarrow> nat \<Rightarrow> ap \<Rightarrow> (int \<times> ap) option" where
  "bt_esl_handles_assign dm i s =
     (if \<not> dm_service dm then Some (- ENOTSUP, s)
      else do {
        let (ok, hs) = assign_handles dm;
        s1 \<leftarrow> upd_gatt i (\<lambda>g. g\<lparr>g_handles := hs\<rparr>) s;
        (if \<not> ok then Some (- EINVAL, s1)
         else do {
           cs \<leftarrow> upd (c_conn s1) i (Some (dm_conn dm));
           Some (0, s1\<lparr>c_conn := cs\<rparr>)
         })
      })"

text \<open>The object transfer service: a characteristic that is missing is warned about and dereferenced.\<close>

fun otc_lookups :: "dm_lookup list \<Rightarrow> u16 list option" where
  "otc_lookups [] = Some []"
| "otc_lookups (l # ls) =
     (case l of Dm_handle h \<Rightarrow> map_option ((#) h) (otc_lookups ls) | _ \<Rightarrow> None)"

definition otc_handles_assign :: "bool \<Rightarrow> dm_lookup list \<Rightarrow> int \<Rightarrow> nat \<Rightarrow> ap \<Rightarrow> (int \<times> ap) option" where
  "otc_handles_assign service found reg_code i s =
     (if \<not> service then Some (- ENOTSUP, s)
      else do {
        hs \<leftarrow> otc_lookups found;
        s1 \<leftarrow> upd_gatt i (\<lambda>g. g\<lparr>g_otc_handles := hs\<rparr>) s;
        oacp \<leftarrow> rd hs 6;
        olcp \<leftarrow> rd hs 7;
        Some (reg_code, ap_effect (Ap_subscribe i olcp 0) (ap_effect (Ap_subscribe i oacp 0) s1))
      })"

text \<open>\<open>code\<close> is what \<open>bt_gatt_subscribe\<close> returns.\<close>

definition bt_esl_c_subscribe_receive :: "('s, 'm) ap_env \<Rightarrow> int \<Rightarrow> nat \<Rightarrow> ap \<Rightarrow> (int \<times> ap) option" where
  "bt_esl_c_subscribe_receive e code i s = do {
     connected \<leftarrow> ap_connected e i s;
     (if \<not> connected then Some (- EBUSY, s)
      else do {
        g \<leftarrow> rd (c_gatt s) i;
        (if g_notif_enabled g then Some (- EALREADY, s)
         else do {
           value_h \<leftarrow> rd (g_handles g) HANDLE_ECP;
           ccc_h \<leftarrow> rd (g_handles g) HANDLE_ECP_CCC;
           s1 \<leftarrow> upd_gatt i (\<lambda>g. g\<lparr>g_notif_enabled := (code = 0)\<rparr>) s;
           Some (code, ap_effect (Ap_subscribe i value_h ccc_h) s1)
         })
      })
   }"

subsection \<open>The sequence of discoveries\<close>

text \<open>The enumeration's successor; \<open>None\<close> is a value outside of it, where the code asserts.\<close>

fun disc_next :: "discovery_state \<Rightarrow> discovery_state option" where
  "disc_next DISCOVERY_STATE_START = Some DISCOVERY_STATE_ESL"
| "disc_next DISCOVERY_STATE_ESL = Some DISCOVERY_STATE_OTS"
| "disc_next DISCOVERY_STATE_OTS = Some DISCOVERY_STATE_DIS"
| "disc_next DISCOVERY_STATE_DIS = Some DISCOVERY_STATE_COUNT"
| "disc_next DISCOVERY_STATE_COUNT = None"

definition esl_discovery_start :: "('s, 'm) ap_env \<Rightarrow> u8 \<Rightarrow> ap \<Rightarrow> ap" where
  "esl_discovery_start e conn_idx s =
     (if max_conn (acfg e) \<le> unat conn_idx then s
      else ap_effect (Ap_work Disc_work) (s\<lparr>c_disc_state := DISCOVERY_STATE_START, c_disc_conn := conn_idx\<rparr>))"

text \<open>The exchange of the transfer unit starts the discovery, whatever its result.\<close>

definition exchange_func :: "('s, 'm) ap_env \<Rightarrow> u8 \<Rightarrow> u8 \<Rightarrow> ap \<Rightarrow> ap" where
  "exchange_func e conn_idx err s = esl_discovery_start e conn_idx s"

definition esl_ap_disc_work_fn ::
  "('s, 'm) ap_env \<Rightarrow> ap_inp \<Rightarrow> (nat \<Rightarrow> bt_conn option) \<Rightarrow> (nat \<Rightarrow> int) \<Rightarrow> ap \<Rightarrow> ap option" where
  "esl_ap_disc_work_fn e x links code s = do {
     st \<leftarrow> disc_next (c_disc_state s);
     let s1 = s\<lparr>c_disc_state := st\<rparr>;
     let c = c_disc_conn s;
     (if st \<noteq> DISCOVERY_STATE_COUNT then Some (ap_effect (Ap_gatt_discover (unat c) st) s1)
      else do {
        (past, s2) \<leftarrow> (if ap_auto_past (acfg e) then esl_c_past_unsynced_tag e x links code c s1 else Some (1, s1));
        (if past = 0 then Some s2
         else do {
           let s3 = s2\<lparr>c_disc_state := DISCOVERY_STATE_START\<rparr>;
           g \<leftarrow> rd (c_gatt s3) (unat c);
           (if ap_auto_mode (acfg e) \<and> c_auto_mode s3 \<and> dev_connect_from (g_device g) = ACL_FROM_SCAN
            then esl_c_auto_configuring_tag e c s3 else Some s3)
         })
      })
   }"

text \<open>
  The callbacks. The first uses the index found by the address of the peer for the handles, and the
  index of the connection object for what follows.
\<close>

definition esl_discovery_complete ::
  "('s, 'm) ap_env \<Rightarrow> dm_inp \<Rightarrow> int \<Rightarrow> nat \<Rightarrow> ap \<Rightarrow> ap option" where
  "esl_discovery_complete e dm sub_code obj_idx s = do {
     (r, s1) \<leftarrow> ble_addr_to_conn_idx e (conn_peer (dm_conn dm)) s;
     let i = unat (of_int r :: u8);
     (err, s2) \<leftarrow> bt_esl_handles_assign dm i s1;
     (err2, s3) \<leftarrow> bt_esl_c_subscribe_receive e sub_code i s2;
     Some (ap_effect (Ap_work Disc_work) (s3\<lparr>c_disc_conn := of_nat obj_idx\<rparr>))
   }"

definition ots_discovery_complete :: "bool \<Rightarrow> dm_lookup list \<Rightarrow> int \<Rightarrow> nat \<Rightarrow> ap \<Rightarrow> ap option" where
  "ots_discovery_complete service found reg_code i s = do {
     (err, s1) \<leftarrow> otc_handles_assign service found reg_code i s;
     Some (ap_effect (Ap_work Disc_work) (s1\<lparr>c_disc_conn := of_nat i\<rparr>))
   }"

definition dis_read_attr :: "('s, 'm) ap_env \<Rightarrow> nat \<Rightarrow> u8 list option \<Rightarrow> ap \<Rightarrow> (gatt_iter \<times> ap) option" where
  "dis_read_attr e i data s =
     (case data of
        None \<Rightarrow> Some (BT_GATT_ITER_STOP, s)
      | Some v \<Rightarrow> do {
          vid \<leftarrow> rd_mem v 1 2;
          pid \<leftarrow> rd_mem v 3 2;
          s1 \<leftarrow> upd_device i (\<lambda>d. d\<lparr>dev_pnp_vid := z_get_le16 (azep e) vid, dev_pnp_pid := z_get_le16 (azep e) pid\<rparr>) s;
          Some (BT_GATT_ITER_CONTINUE, s1)
        })"

definition dis_discovery_complete :: "dm_lookup \<Rightarrow> nat \<Rightarrow> ap \<Rightarrow> ap option" where
  "dis_discovery_complete pnp i s =
     (case pnp of
        Dm_handle h \<Rightarrow> do {
          s1 \<leftarrow> upd_gatt i (\<lambda>g. g\<lparr>g_handles := (g_handles g)[HANDLE_DIS_PNPID := h + 1]\<rparr>) s;
          Some (ap_effect (Ap_work Disc_work) ((ap_effect (Ap_gatt_read i [h + 1]) s1)\<lparr>c_disc_conn := of_nat i\<rparr>))
        }
      | _ \<Rightarrow> None)"

text \<open>Every service is optional but the first.\<close>

definition discovery_service_not_found :: "nat \<Rightarrow> ap \<Rightarrow> ap" where
  "discovery_service_not_found i s =
     (if c_disc_state s = DISCOVERY_STATE_ESL then ap_effect (Ap_disconnect i) s
      else ap_effect (Ap_work Disc_work) (s\<lparr>c_disc_conn := of_nat i\<rparr>))"

subsection \<open>Which handles a discovery leaves\<close>

lemma length_assign [simp]:
  "length (snd (assign_mandatory dm ks hs)) = length hs" "length (snd (assign_optional dm ks hs)) = length hs"
  by (induction ks arbitrary: hs) (auto split: dm_lookup.splits)

lemma length_assign_handles [simp]: "length (snd (assign_handles dm)) = 11"
proof -
  let ?m = "assign_mandatory (dm_value dm) mandatory (replicate NUMBERS_OF_HANDLE BT_ATT_INVALID_HANDLE)"
  have "length (snd ?m) = 11" by simp
  then show ?thesis
    by (cases ?m) (auto simp: assign_handles_def Let_def case_prod_unfold split: option.splits)
qed

text \<open>
  The service is taken over exactly when every mandatory characteristic has a value and the control point
  its descriptor, and no optional characteristic lacks its value; the handles are then those found, and
  0 for what is not there.
\<close>

lemma mandatory_eq: "fst (assign_mandatory dm ks hs) \<longleftrightarrow> (\<forall>k \<in> set ks. \<exists>h. dm k = Dm_handle h)"
  by (induction ks arbitrary: hs) (auto split: dm_lookup.splits)

lemma optional_eq: "fst (assign_optional dm ks hs) \<longleftrightarrow> (\<forall>k \<in> set ks. dm k \<noteq> No_desc)"
  by (induction ks arbitrary: hs) (auto split: dm_lookup.splits)

definition found_handle :: "dm_lookup \<Rightarrow> u16" where
  "found_handle l = (case l of Dm_handle h \<Rightarrow> h | _ \<Rightarrow> BT_ATT_INVALID_HANDLE)"

definition dm_complete :: "dm_inp \<Rightarrow> bool" where
  "dm_complete dm \<longleftrightarrow> (\<forall>k \<in> set mandatory. \<exists>h. dm_value dm k = Dm_handle h) \<and> dm_ccc dm \<noteq> None \<and>
     (\<forall>k \<in> set optional. dm_value dm k \<noteq> No_desc)"

lemma assign_handles_ok: "fst (assign_handles dm) \<longleftrightarrow> dm_complete dm"
  by (auto simp: assign_handles_def dm_complete_def Let_def case_prod_unfold mandatory_eq optional_eq split: option.splits)

lemma assign_handles_eq:
  assumes "dm_complete dm"
  shows "snd (assign_handles dm) = map (\<lambda>k. if k = HANDLE_ECP_CCC then the (dm_ccc dm)
    else if k = HANDLE_DIS_PNPID then 0 else found_handle (dm_value dm k)) [0..<NUMBERS_OF_HANDLE]"
proof -
  obtain ccc where ccc: "dm_ccc dm = Some ccc" using assms by (auto simp: dm_complete_def)
  obtain h0 h1 h2 h3 h8 where m: "dm_value dm 0 = Dm_handle h0" "dm_value dm 1 = Dm_handle h1" "dm_value dm 2 = Dm_handle h2"
    "dm_value dm 3 = Dm_handle h3" "dm_value dm 8 = Dm_handle h8"
    using assms by (auto simp: dm_complete_def mandatory_def)
  have o: "dm_value dm 4 \<noteq> No_desc" "dm_value dm 5 \<noteq> No_desc" "dm_value dm 6 \<noteq> No_desc" "dm_value dm 7 \<noteq> No_desc"
    using assms by (auto simp: dm_complete_def optional_def)
  have u: "[0..<11] = [0, 1, 2, 3, 4, 5, 6, 7, 8, 9, 10 :: nat]" by code_simp
  have r: "replicate 11 (0 :: u16) = [0, 0, 0, 0, 0, 0, 0, 0, 0, 0, 0]" by (simp add: numeral_eq_Suc)
  show ?thesis
    using o m
    by (cases "dm_value dm 4"; cases "dm_value dm 5"; cases "dm_value dm 6"; cases "dm_value dm 7")
      (simp_all add: assign_handles_def mandatory_def optional_def ccc r found_handle_def u)
qed

end
