(* ===== verification/Ap_Dummy.thy ===== *)
theory Ap_Dummy
  imports Ap_Sync
begin

unbundle bit_operations_syntax

text \<open>
  \<open>service/esl_dummy_cmd.c\<close>: the predefined packets of the access point, used when a button is
  pressed and for interoperability tests. \<open>buf\<close> is the group identifier followed by commands, which
  are written here one by one; \<open>eid\<close> is \<open>ESL_CLIENT_DEFAULT_ESL_ID\<close>, whose successors address the tags of the group.
\<close>

subsection \<open>The commands\<close>

text \<open>LED control: flashing, on and off.\<close>

definition led_flash :: "u8 \<Rightarrow> u8 \<Rightarrow> u8 list" where
  "led_flash eid led = [OP_LED_CONTROL, eid, led, 0xf0, 0x41, 0x10, 0x00, 0x00, 0x00, 0x32, 0xfa, 0x1f, 0x00]"

definition led_solid :: "u8 \<Rightarrow> u8 \<Rightarrow> u8 \<Rightarrow> u8 list" where
  "led_solid eid led on = [OP_LED_CONTROL, eid, led, 0xc0, 0x00, 0x00, 0x00, 0x00, 0x00, 0x00, 0x00, on, 0x00]"

text \<open>The packets that address all tags: types 0 to 9. Type 5 switches on LED 0, not 1.\<close>

definition dummy_broadcast :: "u8 \<Rightarrow> u8 list list option" where
  "dummy_broadcast ty =
     (if ty = 0 then Some [[OP_PING, ESL_ADDR_BROADCAST]]
      else if ty = 1 then Some [led_flash ESL_ADDR_BROADCAST 0]
      else if ty = 2 then Some [led_flash ESL_ADDR_BROADCAST 1]
      else if ty = 3 then Some [led_solid ESL_ADDR_BROADCAST 0 1]
      else if ty = 4 then Some [led_solid ESL_ADDR_BROADCAST 0 0]
      else if ty = 5 then Some [led_solid ESL_ADDR_BROADCAST 0 1]
      else if ty = 6 then Some [led_solid ESL_ADDR_BROADCAST 1 0]
      else if ty = 7 then Some [[OP_DISPLAY_IMAGE, ESL_ADDR_BROADCAST, 0, 0]]
      else if ty = 8 then Some [[OP_DISPLAY_IMAGE, ESL_ADDR_BROADCAST, 0, 1]]
      else if ty = 9 then Some [[OP_READ_SENSOR_DATA, ESL_ADDR_BROADCAST, 0]]
      else None)"

text \<open>Types A to C and D to F: commands for the tags of the group one by one.\<close>

definition dummy_addressed :: "u8 \<Rightarrow> u8 \<Rightarrow> u8 list list option" where
  "dummy_addressed eid ty =
     (if ty = 0xA then Some (map (\<lambda>k. [OP_PING, eid + k]) [0, 1, 2, 3, 4, 5, 6, 7])
      else if ty = 0xB then Some [led_flash eid 0, led_flash (eid + 1) 0, led_flash (eid + 2) 0]
      else if ty = 0xC then Some [[OP_PING, ESL_ADDR_BROADCAST], [OP_PING, ESL_ADDR_BROADCAST],
        led_flash (eid + 3) 0, led_flash (eid + 4) 0]
      else None)"

definition dummy_second_led :: "u8 \<Rightarrow> u8 \<Rightarrow> u8 list list option" where
  "dummy_second_led eid ty =
     (if ty = 0xD then Some [led_flash eid 1, led_flash (eid + 1) 1, led_flash (eid + 2) 1]
      else if ty = 0xE then Some [[OP_PING, ESL_ADDR_BROADCAST], [OP_PING, ESL_ADDR_BROADCAST],
        led_flash (eid + 3) 1, led_flash (eid + 4) 1]
      else if ty = 0xF then Some (map (\<lambda>k. [OP_READ_SENSOR_DATA, eid + k, 0]) [0, 1, 2, 3, 4, 5, 6, 7])
      else None)"

text \<open>The two interoperability tests.\<close>

definition dummy_test :: "u8 \<Rightarrow> u8 \<Rightarrow> u8 list list option" where
  "dummy_test eid ty =
     (if ty = 0x10 then Some (replicate 17 [OP_SERVICE_RESET, eid])
      else if ty = 0x11 then
        Some (replicate 11 [OP_PING, eid + 1] @ [[OP_PING, eid]] @ replicate 11 [OP_PING, eid + 1])
      else None)"

text \<open>Eleven tags: an image on display 0, and the vendor command that enables or disables the update mode.\<close>

abbreviation eleven :: "u8 list" where
  "eleven \<equiv> [0, 1, 2, 3, 4, 5, 6, 7, 8, 9, 10]"

definition dummy_images :: "u8 \<Rightarrow> u8 \<Rightarrow> u8 list list option" where
  "dummy_images eid ty =
     (if ty = 0x12 then Some (map (\<lambda>k. [OP_DISPLAY_IMAGE, eid + k, 0, 0]) eleven)
      else if ty = 0x13 then Some (map (\<lambda>k. [OP_DISPLAY_IMAGE, eid + k, 0, 1]) eleven)
      else if ty = 0x14 then Some (map (\<lambda>k. [OP_DISPLAY_IMAGE, eid + k, 0, 2]) eleven)
      else None)"

definition dummy_dfu :: "u8 \<Rightarrow> u8 \<Rightarrow> u8 list list option" where
  "dummy_dfu eid ty =
     (if ty = 0x15 then Some (map (\<lambda>k. [0x1F, eid + k, 1]) eleven)
      else if ty = 0x16 then Some (map (\<lambda>k. [0x1F, eid + k, 0]) eleven)
      else None)"

definition dummy_commands :: "u8 \<Rightarrow> u8 \<Rightarrow> u8 list list option" where
  "dummy_commands eid ty =
     (case dummy_broadcast ty of Some ts \<Rightarrow> Some ts
      | None \<Rightarrow> (case dummy_addressed eid ty of Some ts \<Rightarrow> Some ts
      | None \<Rightarrow> (case dummy_second_led eid ty of Some ts \<Rightarrow> Some ts
      | None \<Rightarrow> (case dummy_test eid ty of Some ts \<Rightarrow> Some ts
      | None \<Rightarrow> (case dummy_images eid ty of Some ts \<Rightarrow> Some ts
      | None \<Rightarrow> dummy_dfu eid ty)))))"

subsection \<open>Expected addresses and composition\<close>

text \<open>Slots and the tags expected in them: the first \<open>n\<close>, or the third and fourth.\<close>

definition dummy_expected :: "nat \<Rightarrow> u8 \<Rightarrow> u8 \<Rightarrow> (nat \<times> u8) list" where
  "dummy_expected slots eid ty =
     (let first = (\<lambda>n. map (\<lambda>k. (k, eid + of_nat k)) [0..<min n slots])
      in if ty = 0xA \<or> ty = 0xF then first 8
         else if ty = 0xB \<or> ty = 0xD then first 3
         else if ty = 0xC \<or> ty = 0xE then [(2, eid + 3), (3, eid + 4)]
         else if 0x12 \<le> ty \<and> ty \<le> 0x16 then first 11
         else [])"

fun expect_slots :: "nat \<Rightarrow> (nat \<times> u8) list \<Rightarrow> ap \<Rightarrow> ap option" where
  "expect_slots g [] s = Some s"
| "expect_slots g ((i, a) # xs) s = do {
     s1 \<leftarrow> upd_rsp g i (\<lambda>r. Some (r\<lparr>expect_esl_addr := a\<rparr>)) s;
     expect_slots g xs s1
   }"

definition esl_dummy_ap_ad_data :: "('s, 'm) ap_env \<Rightarrow> ap_inp \<Rightarrow> u8 \<Rightarrow> u8 \<Rightarrow> ap \<Rightarrow> ap option" where
  "esl_dummy_ap_ad_data e x ty group_id s =
     (case dummy_commands (default_esl_id (acfg e)) ty of
        None \<Rightarrow> Some s
      | Some ts \<Rightarrow> do {
          let g = unat group_id;
          let buf = group_id # concat ts;
          s1 \<leftarrow> expect_slots g (dummy_expected (rsp_buffers (acfg e)) (default_esl_id (acfg e)) ty) s;
          b \<leftarrow> rd (c_sync_buf s1) g;
          (pa, r, len) \<leftarrow> esl_compose_ad_data (azep e) (sb_data b) buf (of_nat (length buf)) (ai_rand x) (c_ap_key s1);
          Some (s1\<lparr>c_sync_buf := (c_sync_buf s1)[g := b\<lparr>sb_status := SYNC_READY_TO_PUSH, sb_data := pa, sb_len := len\<rparr>],
            c_randomizer := r\<rparr>)
        })"

text \<open>At start-up every group gets a ping for all its tags.\<close>

definition esl_c_sync_buffer_dummy_cmd_init :: "('s, 'm) ap_env \<Rightarrow> (nat \<Rightarrow> ap_inp) \<Rightarrow> ap \<Rightarrow> ap option" where
  "esl_c_sync_buffer_dummy_cmd_init e xs s =
     for_loop 0 (max_group (acfg e)) (\<lambda>i. esl_dummy_ap_ad_data e (xs i) 0 (of_nat i)) (esl_c_sync_buffer_init e s)"

subsection \<open>The predefined packets are well formed\<close>

text \<open>Every command has the length its op code announces, and all of them fit one packet.\<close>

lemma led_lengths [simp]: "length (led_flash eid l) = 13" "length (led_solid eid l v) = 13"
  by (simp_all add: led_flash_def led_solid_def)

lemma list_all_replicate [simp]: "list_all P (replicate n x) \<longleftrightarrow> n = 0 \<or> P x"
  by (induction n) auto

lemma dummy_commands_ok:
  assumes "dummy_commands eid ty = Some ts"
  shows "list_all (\<lambda>t. t \<noteq> [] \<and> length t = ECP_LEN (t ! 0)) ts \<and> length (concat ts) \<le> 47"
  using assms
  by (auto simp: dummy_commands_def dummy_broadcast_def dummy_addressed_def dummy_second_led_def dummy_test_def dummy_images_def dummy_dfu_def
      ECP_LEN_nibble led_flash_def led_solid_def length_concat sum_list_replicate split: option.splits if_splits)

lemma dummy_expected_slots: "(k, a) \<in> set (dummy_expected n eid ty) \<Longrightarrow> k < max n 4"
  by (auto simp: dummy_expected_def Let_def split: if_splits)

text \<open>Changes of the expected addresses leave everything else of the buffers.\<close>

definition same_but_expected :: "nat \<Rightarrow> ap \<Rightarrow> ap \<Rightarrow> bool" where
  "same_but_expected g s t \<longleftrightarrow> c_ap_key t = c_ap_key s \<and> c_trace t = c_trace s \<and> c_settings t = c_settings s \<and>
     (\<forall>j. j \<noteq> g \<longrightarrow> c_sync_buf t ! j = c_sync_buf s ! j)"

lemma expect_slots_ok:
  assumes "\<forall>(k, a) \<in> set xs. k < rsp_buffers (acfg e)" "g < max_group (acfg e)" "wf_sync e s"
  shows "yields (expect_slots g xs s) (\<lambda>t. wf_sync e t \<and> same_but_expected g s t)"
  using assms(1,3)
proof (induction xs arbitrary: s)
  case Nil
  then show ?case by (simp add: same_but_expected_def)
next
  case (Cons x xs)
  obtain k a where x: "x = (k, a)" by (cases x)
  have k: "k < rsp_buffers (acfg e)" using Cons.prems(1) by (simp add: x)
  let ?f = "\<lambda>r :: bt_esl_rsp_buffer. Some (r\<lparr>expect_esl_addr := a\<rparr>)"
  have "yields (upd_rsp g k ?f s) (wf_sync e)"
    by (rule wf_upd_rsp [OF Cons.prems(2) assms(2) k]) (simp add: rsp_buffer_ok_def)
  moreover have "ensures (upd_rsp g k ?f s) (same_but_expected g s)"
    by (auto simp: upd_rsp_def wlp same_but_expected_def)
  ultimately obtain t where t: "upd_rsp g k ?f s = Some t" "wf_sync e t" "same_but_expected g s t"
    by (auto simp: yields_def ensures_def)
  show ?case
    using Cons.IH [OF _ t(2)] Cons.prems(1) t(1,3)
    by (auto simp: x same_but_expected_def elim!: yields_mono)
qed

lemma dummy_packet:
  assumes z: "zephyr_ok (azep e)" and wf: "wf_sync e s" and g: "unat g < max_group (acfg e)"
    and x: "length (ai_rand x) = 5" and n: "4 \<le> rsp_buffers (acfg e)"
    and ts: "dummy_commands (default_esl_id (acfg e)) ty = Some ts"
  shows "yields (esl_dummy_ap_ad_data e x ty g s) (\<lambda>t. wf_sync e t \<and> c_ap_key t = c_ap_key s \<and> c_settings t = c_settings s \<and>
    queued e (c_ap_key s) (g # concat ts) (c_sync_buf t ! unat g) \<and>
    (\<forall>j. j \<noteq> unat g \<longrightarrow> c_sync_buf t ! j = c_sync_buf s ! j))"
proof -
  let ?buf = "g # concat ts" and ?xs = "dummy_expected (rsp_buffers (acfg e)) (default_esl_id (acfg e)) ty"
  have len: "length ?buf \<le> 48" using dummy_commands_ok [OF ts] by simp
  have xs: "\<forall>(k, a) \<in> set ?xs. k < rsp_buffers (acfg e)" using dummy_expected_slots n by fastforce
  obtain t where t: "expect_slots (unat g) ?xs s = Some t" "wf_sync e t" "same_but_expected (unat g) s t"
    using expect_slots_ok [OF xs g wf] by (auto elim!: yieldsE)
  let ?b = "c_sync_buf t ! unat g"
  have b: "sync_buffer_ok (rsp_buffers (acfg e)) ?b" by (rule wf_sync_buf(1) [OF t(2) g])
  have k: "key_ok (c_ap_key t)" "length (sb_data ?b) = 61" using t(2) b by (simp_all add: wf_sync_def sync_buffer_ok_def)
  have gl: "unat g < length (c_sync_buf t)" using g wf_sync_buf(2) [OF t(2)] by simp
  have up: "wf_sync e (t\<lparr>c_sync_buf := (c_sync_buf t)[unat g := ?b\<lparr>sb_status := SYNC_READY_TO_PUSH, sb_data := pa, sb_len := l\<rparr>],
      c_randomizer := r\<rparr>)" if "length pa = 61" "length r = 5" "unat l \<le> 61" for pa r l
    using t(2) b that by (simp add: wf_sync_def sync_buffer_ok_def list_all_update)
  show ?thesis
    unfolding esl_dummy_ap_ad_data_def ts option.case Let_def t(1) yields_bind yields_Some rd_in [OF gl]
    by (rule yields_mono [OF compose_queued [OF z k _ len x]]) (use up gl t(3) in \<open>auto simp: same_but_expected_def\<close>)
qed

lemma wf_dummy:
  assumes z: "zephyr_ok (azep e)" and wf: "wf_sync e s" and g: "unat g < max_group (acfg e)"
    and x: "length (ai_rand x) = 5" and n: "4 \<le> rsp_buffers (acfg e)"
  shows "yields (esl_dummy_ap_ad_data e x ty g s) (wf_sync e)"
proof (cases "dummy_commands (default_esl_id (acfg e)) ty")
  case None
  then show ?thesis using wf by (simp add: esl_dummy_ap_ad_data_def)
next
  case (Some ts)
  show ?thesis by (rule yields_mono [OF dummy_packet [OF z wf g x n Some]]) simp
qed

text \<open>Start-up queues a packet for every group.\<close>

lemma wf_dummy_init:
  assumes "zephyr_ok (azep e)" "ap_cfg_ok (acfg e)" "\<And>i. length (ai_rand (xs i)) = 5" "4 \<le> rsp_buffers (acfg e)"
    and "key_ok (c_ap_key s)" "length (c_randomizer s) = EAD_RANDOMIZER_LEN"
  shows "yields (esl_c_sync_buffer_dummy_cmd_init e xs s) (wf_sync e)"
  unfolding esl_c_sync_buffer_dummy_cmd_init_def
proof (rule for_loop_pres)
  show "wf_sync e (esl_c_sync_buffer_init e s)" by (rule wf_sync_init [OF assms(5,6)])
  fix j t assume j: "j < max_group (acfg e)" "wf_sync e t"
  have "unat (of_nat j :: u8) < max_group (acfg e)"
    using j(1) assms(2) by (simp add: ap_cfg_ok_def unat_of_nat_u8)
  then show "yields (esl_dummy_ap_ad_data e (xs j) 0 (of_nat j) t) (wf_sync e)"
    by (rule wf_dummy [OF assms(1) j(2) _ assms(3,4)])
qed

end
