(* ===== verification/Ap_Init.thy ===== *)
theory Ap_Init
  imports Ap_Disc Ap_Dummy
begin

unbundle bit_operations_syntax

text \<open>
  \<open>service/esl_client_settings.c\<close>, and the initialisation in \<open>service/esl_client.c\<close>: what the access point
  keeps over a reset, and the state in which it starts advertising.
\<close>

subsection \<open>Settings\<close>

text \<open>\<open>got\<close> is the code of the subsystem's read function with the bytes it copied.\<close>

definition esl_c_settings_set :: "string \<Rightarrow> nat \<Rightarrow> int \<times> u8 list \<Rightarrow> ap \<Rightarrow> int \<times> ap" where
  "esl_c_settings_set name len got s =
     (if name = ''esl_ap_key'' then
        (if len \<noteq> EAD_KEY_MATERIAL_LEN then (- EINVAL, s)
         else if fst got > 0 then (0, s\<lparr>c_ap_key := key_of_bytes (snd got)\<rparr>) else (- ENOENT, s))
      else if name = ''tags_per_group'' then
        (if len \<noteq> 2 then (- EINVAL, s)
         else if fst got > 0 then (0, s\<lparr>c_tags_per_group := of_le16 (snd got)\<rparr>) else (- ENOENT, s))
      else if name = ''groups_per_button'' then
        (if len \<noteq> 1 then (- EINVAL, s)
         else if fst got > 0 then (0, s\<lparr>c_groups_per_button := snd got ! 0\<rparr>) else (- ENOENT, s))
      else (- ENOENT, s))"

definition ap_load_entry :: "string \<Rightarrow> ap \<Rightarrow> ap" where
  "ap_load_entry name s =
     (case c_settings s (''esl_c/'' @ name) of
        None \<Rightarrow> s
      | Some v \<Rightarrow> snd (esl_c_settings_set name (length v) (int (length v), v) s))"

definition esl_c_settings_init :: "string list \<Rightarrow> int \<Rightarrow> int \<Rightarrow> int \<Rightarrow> ap \<Rightarrow> int \<times> ap" where
  "esl_c_settings_init order r1 r2 r3 s =
     (if r1 \<noteq> 0 then (r1, s) else if r2 \<noteq> 0 then (r2, s) else (r3, fold ap_load_entry order s))"

definition ap_save_one :: "('s, 'm) ap_env \<Rightarrow> string \<Rightarrow> u8 list \<Rightarrow> ap \<Rightarrow> int \<times> ap" where
  "ap_save_one e name v s =
     (let (ret, st) = z_settings_save (azep e) name v (c_settings s) in (ret, s\<lparr>c_settings := st\<rparr>))"

definition esl_c_setting_ap_key_save :: "('s, 'm) ap_env \<Rightarrow> ap \<Rightarrow> int \<times> ap" where
  "esl_c_setting_ap_key_save e s = ap_save_one e ''esl_c/esl_ap_key'' (key_v (c_ap_key s)) s"

definition esl_c_setting_tags_per_group_save :: "('s, 'm) ap_env \<Rightarrow> ap \<Rightarrow> int \<times> ap" where
  "esl_c_setting_tags_per_group_save e s = ap_save_one e ''esl_c/tags_per_group'' (le16 (c_tags_per_group s)) s"

definition esl_c_setting_group_per_button_save :: "('s, 'm) ap_env \<Rightarrow> ap \<Rightarrow> int \<times> ap" where
  "esl_c_setting_group_per_button_save e s = ap_save_one e ''esl_c/groups_per_button'' [c_groups_per_button s] s"

subsection \<open>Advertising\<close>

definition esl_start_pawr :: "ap \<Rightarrow> ap" where
  "esl_start_pawr s = ap_effect (Ap_work Ap_pawr_work) (s\<lparr>c_pawr_onoff := True\<rparr>)"

definition esl_stop_pawr :: "ap \<Rightarrow> ap" where
  "esl_stop_pawr s = ap_effect (Ap_work Ap_pawr_work) (s\<lparr>c_pawr_onoff := False\<rparr>)"

text \<open>\<open>ext_code\<close>: the result of starting the extended advertising.\<close>

definition esl_ap_pawr_work_fn :: "int \<Rightarrow> ap \<Rightarrow> ap" where
  "esl_ap_pawr_work_fn ext_code s =
     (if \<not> c_pawr_onoff s then ap_effect (Ap_advertise False) s
      else if ext_code \<noteq> 0 then s
      else ap_effect (Ap_advertise True) s)"

subsection \<open>Initialisation\<close>

record ap_init_inp =
  pi_order :: "string list"
  pi_subsys :: int
  pi_register :: int
  pi_load :: int
  pi_dummy :: "nat \<Rightarrow> ap_inp"
  pi_rand_key :: "u8 list"
  pi_now :: u32

definition ap_init_fields :: "('s, 'm) ap_env \<Rightarrow> ap \<Rightarrow> ap" where
  "ap_init_fields e s = s\<lparr>c_scanned := [], c_scan_one_shot := False, c_esl_count := 0, c_pending_unassociated := -1,
     c_scanning := False, c_scan_pending := False, c_connecting := False,
     c_security := (if ap_security (acfg e) then 2 else 1),
     c_addr_start := push_bit 8 (ucast (default_group_id (acfg e))) OR ucast (default_esl_id (acfg e))\<rparr>"

text \<open>The packets for the groups are composed before a missing key is generated.\<close>

definition bt_esl_client_init :: "('s, 'm) ap_env \<Rightarrow> ap_init_inp \<Rightarrow> ap \<Rightarrow> (int \<times> ap) option" where
  "bt_esl_client_init e p s = do {
     let s1 = ap_init_fields e s;
     let (ret, s2) = esl_c_settings_init (pi_order p) (pi_subsys p) (pi_register p) (pi_load p) s1;
     s3 \<leftarrow> esl_c_sync_buffer_dummy_cmd_init e (pi_dummy p) s2;
     let s4 = (if key_v (c_ap_key s3) = replicate EAD_KEY_MATERIAL_LEN 0
       then snd (esl_c_setting_ap_key_save e (s3\<lparr>c_ap_key := key_of_bytes (pi_rand_key p)\<rparr>)) else s3);
     r \<leftarrow> esl_init_randomizer (c_randomizer s4);
     let s5 = s4\<lparr>c_anchor := int (unat (pi_now p)), c_write_wo_rsp := False, c_randomizer := r\<rparr>;
     Some (0, (esl_start_pawr s5)\<lparr>c_disc_state := DISCOVERY_STATE_START\<rparr>)
   }"

text \<open>The memory a starting program finds: zeroed, with the settings that were stored.\<close>

definition zero_internal :: "('s, 'm) ap_env \<Rightarrow> bt_esl_client_internal" where
  "zero_internal e = \<lparr>g_notif_enabled = False, g_basic_state = 0, g_handles = replicate NUMBERS_OF_HANDLE 0,
     g_ecp_written = False, g_ecp_length = 0, g_device = zero_device e, g_otc_handles = replicate 8 0,
     g_image_crc = 0, g_cur_object = 0\<rparr>"

definition static_ap :: "('s, 'm) ap_env \<Rightarrow> nat \<Rightarrow> u16 \<Rightarrow> u8 \<Rightarrow> settings \<Rightarrow> ap" where
  "static_ap e image_size tags groups stored = \<lparr>
     c_scanning = False, c_scan_pending = False, c_connecting = False,
     c_conn = replicate (peripheral_max (acfg e)) None, c_gatt = replicate (peripheral_max (acfg e)) (zero_internal e),
     c_scanned = [], c_scan_one_shot = False, c_ap_key = key_of_bytes (replicate EAD_KEY_MATERIAL_LEN 0),
     c_randomizer = replicate EAD_RANDOMIZER_LEN 0, c_esl_count = 0, c_scanned_count = 0, c_pending_unassociated = 0,
     c_sync_buf = zero_sync_buf e, c_img_buf = replicate image_size 0, c_addr_start = 0,
     c_ecp_buf = replicate ESL_ECP_COMMAND_MAX_LEN 0, c_anchor = 0, c_sensor_temp = replicate BT_ATT_MAX_ATTRIBUTE_LEN 0,
     c_read_offset = 0, c_auto_mode = ap_auto_mode (acfg e) \<and> \<not> ap_pts (acfg e), c_tags_per_group = tags,
     c_groups_per_button = groups, c_write_wo_rsp = False, c_disc_state = DISCOVERY_STATE_START, c_disc_conn = 0,
     c_fill_start = 0, c_fill_count = 0, c_resp_subevent = 0, c_resp_slot = 0, c_config_conn = 0, c_config_addr = 0,
     c_img_queue = [], c_ots_written = False, c_settings = stored, c_security = 0,
     c_tag_load = (\<lparr>ba_type = 0, ba_val = replicate 6 0\<rparr>, 0), c_pawr_onoff = False, c_trace = []\<rparr>"

subsection \<open>What a start leaves\<close>

text \<open>The key that is loaded has the right length, whatever was stored.\<close>

lemma ap_load_entry_key: "key_ok (c_ap_key s) \<Longrightarrow> key_ok (c_ap_key (ap_load_entry name s))"
  by (auto simp: ap_load_entry_def esl_c_settings_set_def key_of_bytes_def key_ok_def split: option.splits)

lemma ap_load_entry_frame:
  "c_randomizer (ap_load_entry name s) = c_randomizer s" "c_settings (ap_load_entry name s) = c_settings s"
  by (auto simp: ap_load_entry_def esl_c_settings_set_def split: option.splits)

lemma ap_load_frame:
  "c_randomizer (fold ap_load_entry order s) = c_randomizer s" "c_settings (fold ap_load_entry order s) = c_settings s"
  "key_ok (c_ap_key s) \<Longrightarrow> key_ok (c_ap_key (fold ap_load_entry order s))"
  by (induction order arbitrary: s) (simp_all add: ap_load_entry_frame ap_load_entry_key)

lemma ap_load_key:
  assumes "c_settings s ''esl_c/esl_ap_key'' = Some k" "length k = EAD_KEY_MATERIAL_LEN" "''esl_ap_key'' \<in> set order"
  shows "c_ap_key (fold ap_load_entry order s) = key_of_bytes k"
  using assms(1,3)
proof (induction order arbitrary: s rule: rev_induct)
  case (snoc name order)
  have same: "c_settings (fold ap_load_entry order s) = c_settings s" by (rule ap_load_frame)
  show ?case
  proof (cases "name = ''esl_ap_key''")
    case True
    have "c_ap_key (ap_load_entry ''esl_ap_key'' t) = key_of_bytes k" if "c_settings t = c_settings s" for t
      using snoc.prems(1) assms(2) that by (simp add: ap_load_entry_def esl_c_settings_set_def)
    then show ?thesis using True same by simp
  next
    case False
    then have "c_ap_key (ap_load_entry name t) = c_ap_key t" for t
      by (auto simp: ap_load_entry_def esl_c_settings_set_def split: option.splits)
    then show ?thesis using snoc False by simp
  qed
qed simp

lemma ap_load_no_key:
  "c_settings s ''esl_c/esl_ap_key'' = None \<Longrightarrow> c_ap_key (fold ap_load_entry order s) = c_ap_key s"
proof (induction order arbitrary: s)
  case (Cons name order)
  have "c_ap_key (ap_load_entry name s) = c_ap_key s"
    using Cons.prems by (auto simp: ap_load_entry_def esl_c_settings_set_def split: option.splits)
  then show ?case using Cons by (simp add: ap_load_entry_frame)
qed simp

text \<open>Every group gets a ping for all its tags, under the key there is at that point.\<close>

lemma dummy_init_queues:
  assumes z: "zephyr_ok (azep e)" and c: "ap_cfg_ok (acfg e)" and x: "\<And>i. length (ai_rand (xs i)) = 5"
    and n: "4 \<le> rsp_buffers (acfg e)" and k: "key_ok (c_ap_key s)" "length (c_randomizer s) = EAD_RANDOMIZER_LEN"
  shows "yields (esl_c_sync_buffer_dummy_cmd_init e xs s) (\<lambda>t. wf_sync e t \<and> c_ap_key t = c_ap_key s \<and> c_settings t = c_settings s \<and>
    (\<forall>g < max_group (acfg e). queued e (c_ap_key s) [of_nat g, OP_PING, ESL_ADDR_BROADCAST] (c_sync_buf t ! g)))"
proof -
  let ?I = "\<lambda>i t. wf_sync e t \<and> c_ap_key t = c_ap_key s \<and> c_settings t = c_settings s \<and>
    (\<forall>g < i. queued e (c_ap_key s) [of_nat g, OP_PING, ESL_ADDR_BROADCAST] (c_sync_buf t ! g))"
  have ts: "dummy_commands (default_esl_id (acfg e)) 0 = Some [[OP_PING, ESL_ADDR_BROADCAST]]"
    by (simp add: dummy_commands_def dummy_broadcast_def)
  have "yields (for_loop 0 (max_group (acfg e)) (\<lambda>i. esl_dummy_ap_ad_data e (xs i) 0 (of_nat i)) (esl_c_sync_buffer_init e s))
      (?I (0 + max_group (acfg e)))"
  proof (rule for_loop_inv)
    show "?I 0 (esl_c_sync_buffer_init e s)"
      using wf_sync_init [OF k] by (simp add: esl_c_sync_buffer_init_def)
    fix j t assume j: "j < 0 + max_group (acfg e)" "?I j t"
    have u: "unat (of_nat j :: u8) = j" using j(1) c by (simp add: ap_cfg_ok_def unat_of_nat_u8)
    then have g: "unat (of_nat j :: u8) < max_group (acfg e)" using j(1) by simp
    show "yields (esl_dummy_ap_ad_data e (xs j) 0 (of_nat j) t) (?I (Suc j))"
      by (rule yields_mono [OF dummy_packet [OF z _ g x n ts]]) (use j u in \<open>auto simp: less_Suc_eq\<close>)
  qed
  then show ?thesis by (simp add: esl_c_sync_buffer_dummy_cmd_init_def)
qed

text \<open>
  A start with working settings: the packets are encrypted under the key that was loaded, the zero key if
  none was; a missing key is generated afterwards and stored.
\<close>

lemma init_eq:
  assumes z: "zephyr_ok (azep e)" and c: "ap_cfg_ok (acfg e)" and x: "\<And>i. length (ai_rand (pi_dummy p i)) = 5"
    and n: "4 \<le> rsp_buffers (acfg e)" and k: "key_ok (c_ap_key s)" "length (c_randomizer s) = EAD_RANDOMIZER_LEN"
    and r: "pi_subsys p = 0" "pi_register p = 0" "length (pi_rand_key p) = EAD_KEY_MATERIAL_LEN"
    and loaded: "loaded = c_ap_key (fold ap_load_entry (pi_order p) (ap_init_fields e s))"
    and save: "settings_reliable (azep e)"
  shows "yields (bt_esl_client_init e p s) (\<lambda>(r, t). r = 0 \<and> wf_sync e t \<and>
    (\<forall>g < max_group (acfg e). queued e loaded [of_nat g, OP_PING, ESL_ADDR_BROADCAST] (c_sync_buf t ! g)) \<and>
    (if key_v loaded = replicate EAD_KEY_MATERIAL_LEN 0
     then c_ap_key t = key_of_bytes (pi_rand_key p) \<and> c_settings t ''esl_c/esl_ap_key'' = Some (pi_rand_key p)
     else c_ap_key t = loaded \<and> c_settings t = c_settings s))"
proof -
  let ?s2 = "fold ap_load_entry (pi_order p) (ap_init_fields e s)"
  have "key_ok (c_ap_key ?s2)" "length (c_randomizer ?s2) = EAD_RANDOMIZER_LEN"
    using k by (simp_all add: ap_load_frame ap_init_fields_def)
  note d = dummy_init_queues [OF z c x n this]
  have init: "bt_esl_client_init e p s = do {
     s3 \<leftarrow> esl_c_sync_buffer_dummy_cmd_init e (pi_dummy p) ?s2;
     let s4 = (if key_v (c_ap_key s3) = replicate EAD_KEY_MATERIAL_LEN 0
       then snd (esl_c_setting_ap_key_save e (s3\<lparr>c_ap_key := key_of_bytes (pi_rand_key p)\<rparr>)) else s3);
     r \<leftarrow> esl_init_randomizer (c_randomizer s4);
     let s5 = s4\<lparr>c_anchor := int (unat (pi_now p)), c_write_wo_rsp := False, c_randomizer := r\<rparr>;
     Some (0, (esl_start_pawr s5)\<lparr>c_disc_state := DISCOVERY_STATE_START\<rparr>) }"
    using r(1,2) by (simp add: bt_esl_client_init_def esl_c_settings_init_def Let_def)
  show ?thesis
    unfolding init yields_bind
  proof (rule yields_mono [OF d], goal_cases)
    case (1 t)
    have key: "c_ap_key t = loaded" using 1 by (simp add: loaded)
    have st: "c_settings t = c_settings s" using 1 by (simp add: ap_load_frame ap_init_fields_def)
    have rnd: "length (c_randomizer t) = EAD_RANDOMIZER_LEN" using 1 by (simp add: wf_sync_def)
    let ?k = "c_ap_key (snd (esl_c_setting_ap_key_save e (t\<lparr>c_ap_key := key_of_bytes (pi_rand_key p)\<rparr>)))"
    have saved: "snd (esl_c_setting_ap_key_save e (t\<lparr>c_ap_key := key_of_bytes (pi_rand_key p)\<rparr>)) =
      t\<lparr>c_ap_key := key_of_bytes (pi_rand_key p), c_settings := (c_settings s)(''esl_c/esl_ap_key'' \<mapsto> pi_rand_key p)\<rparr>"
      using save r(3) st by (simp add: esl_c_setting_ap_key_save_def ap_save_one_def case_prod_unfold Let_def
          z_settings_save_eq [OF z] settings_reliable_def)
    have wf_key: "key_ok (key_of_bytes (pi_rand_key p))" using r(3) by (simp add: key_of_bytes_def key_ok_def)
    show ?case
      using 1 rnd wf_key
      by (auto simp: key saved st esl_init_randomizer_def wp Let_def esl_start_pawr_def ap_effect_def wf_sync_def loaded [symmetric])
  qed
qed

end
