(* ===== verification/Ap_Main.thy ===== *)
theory Ap_Main
  imports Ap_Storage Ap_Init
begin

unbundle bit_operations_syntax

text \<open>
  The sample application of the access point, \<open>samples/central_esl/src/main.c\<close>: its image store over a file
  system, the preparation of the database of tags, the four buttons and the periodic ping.
\<close>

subsection \<open>Images\<close>

text \<open>Asking for an image that does not exist creates it, empty; a file whose size is not known is not closed.\<close>

definition ap_read_img_size_from_storage :: "'f fs_api \<Rightarrow> string \<Rightarrow> 'f \<Rightarrow> int \<times> 'f" where
  "ap_read_img_size_from_storage A img_path fs =
     (let (rc, h, fs1) = file_open A img_path True fs; (rc2, d) = fa_stat A img_path fs1
      in if rc < 0 \<or> rc2 < 0 then (0, fs1)
         else let (rc3, h1, fs2) = file_close A h fs1 in (int (de_size d), fs2))"

text \<open>\<open>len\<close> is written on success only.\<close>

definition ap_read_img_from_storage ::
  "'f fs_api \<Rightarrow> string \<Rightarrow> u8 list \<Rightarrow> nat \<Rightarrow> 'f \<Rightarrow> (int \<times> u8 list \<times> nat \<times> 'f) option" where
  "ap_read_img_from_storage A img_path data len fs = do {
     let (rc, h, fs1) = file_open A img_path True fs;
     (if rc < 0 then Some (rc, data, len, fs1)
      else do {
        let (rc2, d) = fa_stat A img_path fs1;
        (rc3, data1, h1) \<leftarrow> (if rc2 < 0 then Some (rc2, data, h) else file_read A h data (de_size d) fs1);
        let (ret, h2, fs2) = file_close A h1 fs1;
        Some (if ret < 0 then ret else if rc3 < 0 then rc3 else 0, data1,
          if rc2 < 0 \<or> rc3 < 0 then len else nat rc3, fs2)
      })
   }"

subsection \<open>The database of tags\<close>

definition ensure_dir :: "'f fs_api \<Rightarrow> string \<Rightarrow> 'f \<Rightarrow> int \<times> 'f" where
  "ensure_dir A name fs =
     (if fa_opendir A name fs = 0 then (0, fs)
      else let (rc, fs1) = fa_mkdir A name fs in (if rc \<noteq> 0 then - EIO else 0, fs1))"

text \<open>The code is the one of the last step.\<close>

definition ap_image_storage_init ::
  "('s, 'm) ap_env \<Rightarrow> 'f storage_env \<Rightarrow> ap \<Rightarrow> 'f \<Rightarrow> (int \<times> ap \<times> 'f) option" where
  "ap_image_storage_init e v s fs = do {
     let A = st_fs v;
     let (err, fs1) = fa_mount A fs;
     (if \<not> ap_tag_storage (acfg e) then Some (err, s, fs1)
      else do {
        (rc, s1, fs2) \<leftarrow> load_all_tags_in_storage e v (push_bit ESL_GROUPID_RFU_BIT 1) s fs1;
        let (err1, fs3) = ensure_dir A TAG_BLE_ADDR_ROOT fs2;
        let (err2, fs4) = ensure_dir A TAG_ESL_ADDR_ROOT fs3;
        Some (err2, s1, fs4)
      })
   }"

subsection \<open>Buttons and ping\<close>

record buttons =
  btn3_toggle :: u8
  btn3_group_toggle :: u8
  btn4_toggle :: u8
  btn4_group_toggle :: u8

definition btn3_cmd_list :: "u8 list" where "btn3_cmd_list = [0x7, 0x8, 0x12, 0x13]"
definition btn4_cmd_list :: "u8 list" where "btn4_cmd_list = [0x1, 0x4]"

text \<open>The next toggle and group of a button with \<open>n\<close> commands; dividing by zero is undefined.\<close>

definition next_group :: "u8 \<Rightarrow> u8 \<Rightarrow> u8 \<Rightarrow> u8 option" where
  "next_group toggle n groups = (if groups = 0 then None else Some ((toggle div n) mod groups))"

text \<open>\<open>button\<close> has the pressed buttons' bits, \<open>DK_BTN1_MSK\<close> to \<open>DK_BTN4_MSK\<close>.\<close>

definition button_handler ::
  "('s, 'm) ap_env \<Rightarrow> 'f storage_env \<Rightarrow> int \<Rightarrow> ap_inp \<Rightarrow> ap_inp \<Rightarrow> u32 \<Rightarrow> buttons \<Rightarrow> ap \<Rightarrow> 'f \<Rightarrow> (buttons \<times> ap \<times> 'f) option" where
  "button_handler e v scan_code x3 x4 button b s fs = do {
     let s1 = (if bit button 0 then esl_c_scan scan_code True False s else s);
     (rc, s2, fs2) \<leftarrow> (if bit button 1 \<and> ap_tag_storage (acfg e)
       then remove_all_tags_in_storage e v (snd (bt_c_esl_unbond_all 0 s1)) fs else Some (0, s1, fs));
     (b3, s3) \<leftarrow> (if bit button 2 then do {
         s3 \<leftarrow> esl_dummy_ap_ad_data e x3 (btn3_cmd_list ! unat (btn3_toggle b mod 4)) (btn3_group_toggle b) s2;
         g \<leftarrow> next_group (btn3_toggle b + 1) 4 (c_groups_per_button s3);
         Some (b\<lparr>btn3_toggle := btn3_toggle b + 1, btn3_group_toggle := g\<rparr>, s3)
       } else Some (b, s2));
     (b4, s4) \<leftarrow> (if bit button 3 then do {
         s4 \<leftarrow> esl_dummy_ap_ad_data e x4 (btn4_cmd_list ! unat (btn4_toggle b3 mod 2)) (btn4_group_toggle b3) s3;
         g \<leftarrow> next_group (btn4_toggle b3 + 1) 2 (c_groups_per_button s4);
         Some (b3\<lparr>btn4_toggle := btn4_toggle b3 + 1, btn4_group_toggle := g\<rparr>, s4)
       } else Some (b3, s3));
     Some (b4, s4, fs2)
   }"

definition esl_ap_ping_work_fn :: "('s, 'm) ap_env \<Rightarrow> (nat \<Rightarrow> ap_inp) \<Rightarrow> ap \<Rightarrow> ap option" where
  "esl_ap_ping_work_fn e xs s =
     for_loop 0 (max_group (acfg e)) (\<lambda>i s. do {
       b \<leftarrow> rd (c_sync_buf s) i;
       esl_dummy_ap_ad_data e (xs i) 0 (of_nat i) (s\<lparr>c_sync_buf := (c_sync_buf s)[i := b\<lparr>sb_status := SYNC_EMPTY\<rparr>]\<rparr>)
     }) s"

text \<open>A peer that fails to pair is disconnected.\<close>

definition pairing_failed :: "nat \<Rightarrow> ap \<Rightarrow> ap" where
  "pairing_failed i s = ap_effect (Ap_disconnect i) s"

subsection \<open>Properties\<close>

text \<open>An image in the file system is read back whole, into a buffer that has room for it.\<close>

lemma image_read_back:
  assumes A: "fs_ok A" "fs_reliable A" and c: "fa_file A fs p = Some c" and d: "length c \<le> length data"
  shows "\<exists>fs1. ap_read_img_from_storage A p data len fs = Some (0, c @ drop (length c) data, length c, fs1) \<and> fa_file A fs1 = fa_file A fs"
    and "\<exists>fs1. ap_read_img_size_from_storage A p fs = (int (length c), fs1) \<and> fa_file A fs1 = fa_file A fs"
proof -
  obtain rc h fs1 where o: "file_open A p True fs = (rc, h, fs1)" by (metis prod_cases3)
  have rc: "0 \<le> rc"
    using A(2) o unfolding fs_reliable_def file_open_def by (metis (no_types, lifting) case_prod_unfold fst_conv)
  have op: "opened A fs1 h p 0 c" using open_create(1) [OF A(1) o rc] c by simp
  have same: "fa_file A fs1 = fa_file A fs"
  proof
    show "fa_file A fs1 m = fa_file A fs m" for m
      using open_create(2) [OF A(1) o rc, of m] op c by (cases "m = p") (simp_all add: opened_def)
  qed
  obtain e where e: "fa_stat A p fs1 = (0, e)" "de_size e = length c"
    using stat_file [OF A(1), of fs1 p c] op by (auto simp: opened_def)
  have r: "file_read A h data (length c) fs1 =
      Some (int (length c), c @ drop (length c) data, Some \<lparr>fh_name = p, fh_pos = length c\<rparr>)"
    using read_opened [OF A(1) op d] by simp
  obtain h2 fs2 where cl: "file_close A (Some \<lparr>fh_name = p, fh_pos = length c\<rparr>) fs1 = (0, h2, fs2)"
      "fa_file A fs2 = fa_file A fs1"
    using closes [OF A] by blast
  obtain h3 fs3 where cl': "file_close A h fs1 = (0, h3, fs3)" "fa_file A fs3 = fa_file A fs1"
    using closes [OF A] by blast
  show "\<exists>fs1. ap_read_img_from_storage A p data len fs = Some (0, c @ drop (length c) data, length c, fs1) \<and> fa_file A fs1 = fa_file A fs"
    using rc r cl same e by (simp add: ap_read_img_from_storage_def o)
  show "\<exists>fs1. ap_read_img_size_from_storage A p fs = (int (length c), fs1) \<and> fa_file A fs1 = fa_file A fs"
    using rc cl' same e by (simp add: ap_read_img_size_from_storage_def o)
qed

text \<open>The periodic ping leaves a ping for all tags in every group, whatever waited there before.\<close>

lemma ping_queues:
  assumes z: "zephyr_ok (azep e)" and c: "ap_cfg_ok (acfg e)" and x: "\<And>i. length (ai_rand (xs i)) = 5"
    and n: "4 \<le> rsp_buffers (acfg e)" and wf: "wf_sync e s"
  shows "yields (esl_ap_ping_work_fn e xs s) (\<lambda>t. wf_sync e t \<and> c_ap_key t = c_ap_key s \<and>
    (\<forall>g < max_group (acfg e). queued e (c_ap_key s) [of_nat g, OP_PING, ESL_ADDR_BROADCAST] (c_sync_buf t ! g)))"
proof -
  let ?I = "\<lambda>i t. wf_sync e t \<and> c_ap_key t = c_ap_key s \<and>
    (\<forall>g < i. queued e (c_ap_key s) [of_nat g, OP_PING, ESL_ADDR_BROADCAST] (c_sync_buf t ! g))"
  have ts: "dummy_commands (default_esl_id (acfg e)) 0 = Some [[OP_PING, ESL_ADDR_BROADCAST]]"
    by (simp add: dummy_commands_def dummy_broadcast_def)
  have "yields (esl_ap_ping_work_fn e xs s) (?I (0 + max_group (acfg e)))"
    unfolding esl_ap_ping_work_fn_def
  proof (rule for_loop_inv)
    show "?I 0 s" using wf by simp
    fix j t assume j: "j < 0 + max_group (acfg e)" "?I j t"
    have u: "unat (of_nat j :: u8) = j" using j(1) c by (simp add: ap_cfg_ok_def unat_of_nat_u8)
    then have g: "unat (of_nat j :: u8) < max_group (acfg e)" using j(1) by simp
    have l: "j < length (c_sync_buf t)" using j wf_sync_buf(2) by fastforce
    let ?t = "t\<lparr>c_sync_buf := (c_sync_buf t)[j := (c_sync_buf t ! j)\<lparr>sb_status := SYNC_EMPTY\<rparr>]\<rparr>"
    have wft: "wf_sync e ?t"
      using j wf_sync_buf(1) [of e t j] by (intro wf_sync_update) (simp_all add: sync_buffer_ok_def)
    show "yields (do {
        b \<leftarrow> rd (c_sync_buf t) j;
        esl_dummy_ap_ad_data e (xs j) 0 (of_nat j) (t\<lparr>c_sync_buf := (c_sync_buf t)[j := b\<lparr>sb_status := SYNC_EMPTY\<rparr>]\<rparr>)
      }) (?I (Suc j))"
      unfolding rd_in [OF l] bind.bind_lunit
      by (rule yields_mono [OF dummy_packet [OF z wft g x n ts]]) (use j u in \<open>auto simp: less_Suc_eq\<close>)
  qed
  then show ?thesis by simp
qed

end
