(* ===== verification/Ap_Traffic.thy ===== *)
theory Ap_Traffic
  imports Ap_Main
begin

unbundle bit_operations_syntax

text \<open>
  Everything that happens to the synchronisation buffers of the access point, as events in any order: requests and
  responses of the controller, the work items they start, the host's packets and keys, the host taking
  responses, predefined packets and the periodic ping. An event that is in range runs without
  undefined behaviour and keeps the buffers well formed; one that is not is undefined.
\<close>

subsection \<open>Events\<close>

datatype sync_event =
    Ev_request u8 u8
  | Ev_fill ap_inp
  | Ev_response u8 u8 "u8 list"
  | Ev_report
  | Ev_host_packet ap_inp "u8 list" u8
  | Ev_host_keys "bt_esl_key_material list" u8
  | Ev_take u8
  | Ev_dummy ap_inp u8 u8
  | Ev_ping "nat \<Rightarrow> ap_inp"

fun perform :: "('s, 'm) ap_env \<Rightarrow> sync_event \<Rightarrow> ap \<Rightarrow> ap option" where
  "perform e (Ev_request start count) s = Some (pawr_request start count s)"
| "perform e (Ev_fill x) s = esl_ap_sync_fill_buf_work_fn e x s"
| "perform e (Ev_response g i b) s = pawr_response g i b s"
| "perform e Ev_report s = esl_ap_resp_fill_buf_work_fn e s"
| "perform e (Ev_host_packet x d g) s = map_option snd (esl_c_push_sync_buf e x d (of_nat (length d)) g s)"
| "perform e (Ev_host_keys ks g) s = map_option snd (esl_c_push_rsp_key e ks g s)"
| "perform e (Ev_take g) s = esl_c_dump_sync_buf e g s"
| "perform e (Ev_dummy x ty g) s = esl_dummy_ap_ad_data e x ty g s"
| "perform e (Ev_ping xs) s = esl_ap_ping_work_fn e xs s"

text \<open>
  What the types of the arguments and the platform give: five random bytes, keys of their size, no
  more subevents in a request than there are, lengths of a byte.
\<close>

fun input_ok :: "('s, 'm) ap_env \<Rightarrow> sync_event \<Rightarrow> bool" where
  "input_ok e (Ev_request start count) \<longleftrightarrow> unat count \<le> max_group (acfg e)"
| "input_ok e (Ev_fill x) \<longleftrightarrow> True"
| "input_ok e (Ev_response g i b) \<longleftrightarrow> True"
| "input_ok e Ev_report \<longleftrightarrow> True"
| "input_ok e (Ev_host_packet x d g) \<longleftrightarrow> length d < 256 \<and> length (ai_rand x) = 5"
| "input_ok e (Ev_host_keys ks g) \<longleftrightarrow> list_all key_ok ks"
| "input_ok e (Ev_take g) \<longleftrightarrow> True"
| "input_ok e (Ev_dummy x ty g) \<longleftrightarrow> length (ai_rand x) = 5"
| "input_ok e (Ev_ping xs) \<longleftrightarrow> (\<forall>i. length (ai_rand (xs i)) = 5)"

text \<open>
  What the program does not check. Groups and slots must be ones it configured; the packets that wait for a request
  must fit the transmit buffers; a response must fit its buffer and a packet must have at most 48
  bytes, unless its group is busy; and the report must not be run on a response of the single byte 0 in a buffer
  whose second byte is that of an encrypted element.
\<close>

fun in_range :: "('s, 'm) ap_env \<Rightarrow> ap \<Rightarrow> sync_event \<Rightarrow> bool" where
  "in_range e s (Ev_request start count) \<longleftrightarrow> True"
| "in_range e s (Ev_fill x) \<longleftrightarrow> length (ready_subevents e (c_fill_start s) 0 (unat (c_fill_count s)) s) \<le> tx_buffers (acfg e)"
| "in_range e s (Ev_response g i b) \<longleftrightarrow>
     b = [] \<or> unat g < max_group (acfg e) \<and> unat i < rsp_buffers (acfg e) \<and> length b \<le> 61"
| "in_range e s Ev_report \<longleftrightarrow> (let r = rsp_at (c_resp_subevent s) (c_resp_slot s) s
     in \<not> (rb_len r = 1 \<and> rb_data r ! 0 = 0 \<and> rb_data r ! 1 = BT_DATA_ENCRYPTED_AD_DATA))"
| "in_range e s (Ev_host_packet x d g) \<longleftrightarrow> unat g < max_group (acfg e) \<and>
     (length d \<le> 48 \<or> sb_status (c_sync_buf s ! unat g) \<notin> {SYNC_EMPTY, SYNC_PUSHED})"
| "in_range e s (Ev_host_keys ks g) \<longleftrightarrow> unat g < max_group (acfg e) \<and> rsp_buffers (acfg e) \<le> length ks"
| "in_range e s (Ev_take g) \<longleftrightarrow> unat g < max_group (acfg e)"
| "in_range e s (Ev_dummy x ty g) \<longleftrightarrow>
     unat g < max_group (acfg e) \<or> dummy_commands (default_esl_id (acfg e)) ty = None"
| "in_range e s (Ev_ping xs) \<longleftrightarrow> True"

text \<open>The state with what the two pending work items were given.\<close>

definition sync_inv :: "('s, 'm) ap_env \<Rightarrow> ap \<Rightarrow> bool" where
  "sync_inv e s \<longleftrightarrow> wf_sync e s \<and> unat (c_fill_count s) \<le> max_group (acfg e) \<and>
     unat (c_resp_subevent s) < max_group (acfg e) \<and> unat (c_resp_slot s) < rsp_buffers (acfg e)"

definition ap_platform :: "('s, 'm) ap_env \<Rightarrow> bool" where
  "ap_platform e \<longleftrightarrow> zephyr_ok (azep e) \<and> ap_cfg_ok (acfg e) \<and> 4 \<le> rsp_buffers (acfg e)"

inductive sync_reach :: "('s, 'm) ap_env \<Rightarrow> ap \<Rightarrow> ap \<Rightarrow> bool" for e where
  sync_start: "sync_reach e s s"
| sync_next: "sync_reach e s t \<Longrightarrow> input_ok e ev \<Longrightarrow> perform e ev t = Some u \<Longrightarrow> sync_reach e s u"

subsection \<open>Each operation\<close>

text \<open>What the operations leave of the pending work.\<close>

definition same_work :: "ap \<Rightarrow> ap \<Rightarrow> bool" where
  "same_work s t \<longleftrightarrow> c_fill_count t = c_fill_count s \<and> c_resp_subevent t = c_resp_subevent s \<and> c_resp_slot t = c_resp_slot s"

lemma same_work_trans: "same_work s t \<Longrightarrow> same_work t u \<Longrightarrow> same_work s u"
  by (simp add: same_work_def)

lemma same_work_refl [simp]: "same_work s s"
  by (simp add: same_work_def)

lemma same_work_effect [simp]: "same_work s (ap_effect x t) = same_work s t"
  by (simp add: same_work_def ap_effect_def)

lemma same_work_update [simp]: "same_work s (t\<lparr>c_sync_buf := b\<rparr>) = same_work s t" "same_work s (t\<lparr>c_randomizer := r\<rparr>) = same_work s t"
  by (simp_all add: same_work_def)

lemma sync_inv_same: "sync_inv e s \<Longrightarrow> wf_sync e t \<Longrightarrow> same_work s t \<Longrightarrow> sync_inv e t"
  by (simp add: sync_inv_def same_work_def)

lemma sync_inv_effect [simp]: "sync_inv e (ap_effect a t) = sync_inv e t"
  by (simp add: sync_inv_def ap_effect_def wf_sync_def)

lemma inv_kept: "sync_inv e s \<Longrightarrow> yields m (wf_sync e) \<Longrightarrow> ensures m (same_work s) \<Longrightarrow> yields m (sync_inv e)"
  by (auto simp: yields_def ensures_def intro: sync_inv_same split: option.splits)

lemma wf_fill:
  assumes p: "ap_platform e" and s: "sync_inv e s"
  shows "if in_range e s (Ev_fill x) then yields (esl_ap_sync_fill_buf_work_fn e x s) (sync_inv e)
    else esl_ap_sync_fill_buf_work_fn e x s = None"
proof -
  have P: "zephyr_ok (azep e)" "ap_cfg_ok (acfg e)" and wf: "wf_sync e s" and n: "unat (c_fill_count s) \<le> max_group (acfg e)"
    using p s by (simp_all add: ap_platform_def sync_inv_def)
  define cs where "cs = ready_subevents e (c_fill_start s) 0 (unat (c_fill_count s)) s"
  have less: "\<forall>c \<in> set cs. c < length (c_sync_buf s)"
    using ready_subevents_less [of e "c_fill_start s" 0 "unat (c_fill_count s)" s] P(2) wf_sync_buf(2) [OF wf]
    by (simp add: cs_def ap_cfg_ok_def)
  have st: "list_all (sync_buffer_ok n) (set_status cs st bs)" if "list_all (sync_buffer_ok n) bs" for st n bs
    using that by (auto simp: list_all_length nth_set_status sync_buffer_ok_def)
  have w: "wf_sync e ((ap_effect a s)\<lparr>c_sync_buf := set_status cs SYNC_PUSHED (c_sync_buf s)\<rparr>)" for a
    using wf st by (simp add: wf_sync_def ap_effect_def)
  show ?thesis
    using push_to_controller [OF P wf n cs_def, of x] w s
    by (auto simp: esl_ap_sync_fill_buf_work_fn_def Let_def cs_def [symmetric] intro: sync_inv_same)
qed

lemma wf_report:
  assumes p: "ap_platform e" and s: "sync_inv e s" and n: "in_range e s Ev_report"
  shows "yields (esl_ap_resp_fill_buf_work_fn e s) (sync_inv e)"
proof -
  let ?g = "unat (c_resp_subevent s)" and ?i = "unat (c_resp_slot s)"
  let ?b = "c_sync_buf s ! ?g"
  let ?r = "sb_rsp ?b ! ?i"
  have z: "zephyr_ok (azep e)" and wf: "wf_sync e s" and gi: "?g < max_group (acfg e)" "?i < rsp_buffers (acfg e)"
    using p s by (simp_all add: ap_platform_def sync_inv_def)
  note l = wf_rsp_at [OF wf gi]
  have r: "key_ok (rb_key ?r)" "length (rb_data ?r) = 61" "unat (rb_len ?r) \<le> 61" using l(1) by (simp_all add: rsp_buffer_ok_def)
  have up: "sync_inv e (s\<lparr>c_sync_buf := (c_sync_buf s)[?g := ?b\<lparr>sb_status := SYNC_RESP_FULL, sb_rsp := (sb_rsp ?b)[?i := r']\<rparr>]\<rparr>)"
    if "rsp_buffer_ok r'" for r'
  proof (rule sync_inv_same [OF s])
    have "sync_buffer_ok (rsp_buffers (acfg e)) ?b" by (rule wf_sync_buf(1) [OF wf gi(1)])
    then show "wf_sync e (s\<lparr>c_sync_buf := (c_sync_buf s)[?g := ?b\<lparr>sb_status := SYNC_RESP_FULL, sb_rsp := (sb_rsp ?b)[?i := r']\<rparr>]\<rparr>)"
      using that by (intro wf_sync_update [OF wf]) (simp add: sync_buffer_ok_def list_all_update)
  qed simp
  have len2: "2 \<le> unat (rb_len ?r)" if "unat (rb_len ?r) = Suc (unat (rb_data ?r ! 0))" "rb_data ?r ! Suc 0 = BT_DATA_ENCRYPTED_AD_DATA"
  proof (rule ccontr)
    assume "\<not> 2 \<le> unat (rb_len ?r)"
    then have "unat (rb_len ?r) = 1" "unat (rb_data ?r ! 0) = 0" using that(1) by linarith+
    then have "rb_len ?r = 1" "rb_data ?r ! 0 = 0" by (simp_all add: word_unat_eq_iff)
    then show False using n that(2) by simp
  qed
  have dec: "length (snd (z_ead_decrypt (azep e) k v (drop 2 (take m (rb_data ?r))))) = m - 11" if "m \<le> 61" for k v m
    using r(2) that by (simp add: z_ead_decrypt_length [OF z])
  have size: "z_ead_decrypted_size (azep e) m = m - 9"
    if "fst (z_ead_decrypt (azep e) (session_key (rb_key ?r)) (iv (rb_key ?r)) (drop 2 (take m (rb_data ?r)))) = 0" for m
  proof -
    have "\<not> length (drop 2 (take m (rb_data ?r))) < 9" using z_ead_decrypt_short [OF z] that by blast
    then show ?thesis using z_ead_decrypted_size_eq [OF z, of m] by simp
  qed
  show ?thesis
    using l r up [unfolded rsp_buffer_ok_def] dec size len2
    by (auto simp: esl_ap_resp_fill_buf_work_fn_def set_sync_status_def upd_rsp_def wp Let_def case_prod_unfold
        z_nb_pull_eq [OF z] unat_of_nat_u8)
qed

lemma wf_push_rsp_key:
  assumes wf: "wf_sync e s" and g: "unat g < max_group (acfg e)" and ks: "rsp_buffers (acfg e) \<le> length ks" "list_all key_ok ks"
  shows "yields (esl_c_push_rsp_key e ks g s) (\<lambda>(r, t). wf_sync e t \<and> same_work s t)"
proof -
  have "yields (for_loop 0 (rsp_buffers (acfg e)) (\<lambda>i t. do {
        k \<leftarrow> rd ks i;
        b \<leftarrow> rd (c_sync_buf t) (unat g);
        r \<leftarrow> rd (sb_rsp b) i;
        rs \<leftarrow> upd (sb_rsp b) i (r\<lparr>rb_key := k\<rparr>);
        Some (t\<lparr>c_sync_buf := (c_sync_buf t)[unat g := b\<lparr>sb_rsp := rs\<rparr>]\<rparr>) }) s) (\<lambda>t. wf_sync e t \<and> same_work s t)"
  proof (rule for_loop_pres)
    fix i t assume i: "i < rsp_buffers (acfg e)" "wf_sync e t \<and> same_work s t"
    have t: "wf_sync e t" "same_work s t" using i(2) by simp_all
    have b: "sync_buffer_ok (rsp_buffers (acfg e)) (c_sync_buf t ! unat g)" "unat g < length (c_sync_buf t)"
      using wf_sync_buf [OF t(1)] g by simp_all
    have k: "key_ok (ks ! i)" "i < length ks" using ks i(1) by (simp_all add: list_all_length)
    have "sync_buffer_ok (rsp_buffers (acfg e)) ((c_sync_buf t ! unat g)
        \<lparr>sb_rsp := (sb_rsp (c_sync_buf t ! unat g))[i := (sb_rsp (c_sync_buf t ! unat g) ! i)\<lparr>rb_key := ks ! i\<rparr>]\<rparr>)"
      using b(1) k(1) i(1) by (auto simp: sync_buffer_ok_def rsp_buffer_ok_def list_all_length nth_list_update)
    then show "yields (do {
        k \<leftarrow> rd ks i;
        b \<leftarrow> rd (c_sync_buf t) (unat g);
        r \<leftarrow> rd (sb_rsp b) i;
        rs \<leftarrow> upd (sb_rsp b) i (r\<lparr>rb_key := k\<rparr>);
        Some (t\<lparr>c_sync_buf := (c_sync_buf t)[unat g := b\<lparr>sb_rsp := rs\<rparr>]\<rparr>) }) (\<lambda>t. wf_sync e t \<and> same_work s t)"
      using b k i(1) t by (auto simp: wp sync_buffer_ok_def wf_sync_update)
  qed (use wf in simp)
  then show ?thesis by (simp add: esl_c_push_rsp_key_def wp)
qed

lemma wf_take:
  assumes wf: "wf_sync e s" and g: "unat g < max_group (acfg e)"
  shows "yields (esl_c_dump_sync_buf e g s) (\<lambda>t. wf_sync e t \<and> same_work s t)"
proof -
  let ?f = "\<lambda>i t. do {
        b \<leftarrow> rd (c_sync_buf t) (unat g);
        r \<leftarrow> rd (sb_rsp b) i;
        (if rb_len r \<noteq> 0 then do {
           d \<leftarrow> rd_mem (rb_data r) 0 (unat (rb_len r));
           upd_rsp (unat g) i (\<lambda>r. Some (r\<lparr>rb_len := 0, rb_status := SYNC_EMPTY\<rparr>))
             (ap_effect (Ap_report (Rep_dump g (expect_esl_addr r) (of_nat i) d)) t)
         } else Some t) }"
  have "yields (for_loop 0 (rsp_buffers (acfg e)) ?f s) (\<lambda>t. wf_sync e t \<and> same_work s t)"
  proof (rule for_loop_pres)
    fix i t assume i: "i < rsp_buffers (acfg e)" "wf_sync e t \<and> same_work s t"
    have t: "wf_sync e t" "same_work s t" using i(2) by simp_all
    have b: "sync_buffer_ok (rsp_buffers (acfg e)) (c_sync_buf t ! unat g)" "unat g < length (c_sync_buf t)"
      using wf_sync_buf [OF t(1)] g by simp_all
    have r: "i < length (sb_rsp (c_sync_buf t ! unat g))" "rsp_buffer_ok (sb_rsp (c_sync_buf t ! unat g) ! i)"
      using b(1) i(1) by (simp_all add: sync_buffer_ok_def list_all_length)
    have u: "yields (upd_rsp (unat g) i (\<lambda>r. Some (r\<lparr>rb_len := 0, rb_status := SYNC_EMPTY\<rparr>)) (ap_effect a t))
        (\<lambda>t. wf_sync e t \<and> same_work s t)" for a
      using wf_upd_rsp [of e "ap_effect a t" "unat g" i "\<lambda>r. Some (r\<lparr>rb_len := 0, rb_status := SYNC_EMPTY\<rparr>)"] t g i(1) b(2) r
      by (auto simp: rsp_buffer_ok_def upd_rsp_def wp)
    show "yields (?f i t) (\<lambda>t. wf_sync e t \<and> same_work s t)"
      using b(2) r t u by (auto simp: wp rsp_buffer_ok_def)
  qed (use wf in simp)
  moreover have "yields (set_sync_status (unat g) SYNC_EMPTY t) (\<lambda>t. wf_sync e t \<and> same_work s t)"
    if "wf_sync e t" "same_work s t" for t
    using wf_set_sync_status [OF that(1) g, of SYNC_EMPTY] that(2) by (auto simp: set_sync_status_def wp)
  ultimately have "yields (esl_c_dump_resp_buf e g s) (\<lambda>t. wf_sync e t \<and> same_work s t)"
    by (auto simp: esl_c_dump_resp_buf_def Let_def wp elim!: yields_mono)
  then show ?thesis
    using wf_sync_buf [OF wf] g by (auto simp: esl_c_dump_sync_buf_def wp sync_buffer_ok_def)
qed

lemma expect_slots_work: "ensures (expect_slots g xs s) (same_work s)"
proof (induction xs arbitrary: s)
  case (Cons x xs)
  have "ensures (upd_rsp g k f s) (same_work s)" for k f
    by (auto simp: upd_rsp_def wlp) (simp add: ensures_def)
  then show ?case
    using Cons same_work_trans by (cases x) (force simp: ensures_def split: Option.bind_splits option.splits)
qed simp

lemma dummy_work: "ensures (esl_dummy_ap_ad_data e x ty g s) (same_work s)"
  using expect_slots_work [of "unat g" "dummy_expected (rsp_buffers (acfg e)) (default_esl_id (acfg e)) ty" s]
  by (auto simp: esl_dummy_ap_ad_data_def ensures_def Let_def split: Option.bind_splits option.splits prod.splits)

lemma ping_work: "ensures (esl_ap_ping_work_fn e xs s) (same_work s)"
  unfolding esl_ap_ping_work_fn_def
proof (rule for_loop_ensures)
  fix j t assume t: "same_work s t"
  show "ensures (do {
       b \<leftarrow> rd (c_sync_buf t) j;
       esl_dummy_ap_ad_data e (xs j) 0 (of_nat j) (t\<lparr>c_sync_buf := (c_sync_buf t)[j := b\<lparr>sb_status := SYNC_EMPTY\<rparr>]\<rparr>)
     }) (same_work s)"
    using t dummy_work [of e "xs j" 0 "of_nat j"]
    by (auto simp: ensures_def same_work_def rd_def split: option.splits Option.bind_splits if_splits)
qed simp

text \<open>Removing more from a buffer than it holds is an assertion of the platform that fails.\<close>

definition pull_asserts :: "('s, 'm) zephyr \<Rightarrow> bool" where
  "pull_asserts z \<longleftrightarrow> (\<forall>b n. length b < n \<longrightarrow> z_nb_pull z b n = None)"

lemma short_report_fails:
  assumes p: "pull_asserts (azep e)" and wf: "wf_sync e s"
    and g: "unat (c_resp_subevent s) < max_group (acfg e)" "unat (c_resp_slot s) < rsp_buffers (acfg e)"
    and r: "r = rsp_at (c_resp_subevent s) (c_resp_slot s) s"
    and c: "rb_len r = 1" "rb_data r ! 0 = 0" "rb_data r ! 1 = BT_DATA_ENCRYPTED_AD_DATA"
  shows "esl_ap_resp_fill_buf_work_fn e s = None"
proof -
  note l = wf_rsp_at [OF wf g]
  have d: "length (rb_data r) = 61" using l(1) by (simp add: r rsp_buffer_ok_def)
  have pull: "z_nb_pull (azep e) [x] 2 = None" for x using p by (simp add: pull_asserts_def)
  have "length (take 1 (rb_data r)) = 1" using d by simp
  then obtain x where x: "take 1 (rb_data r) = [x]" by (metis One_nat_def length_0_conv length_Suc_conv)
  have x': "take (Suc 0) (rb_data r) = [x]" using x by simp
  have "ensures (esl_ap_resp_fill_buf_work_fn e s) (\<lambda>_. False)"
    using l d c pull x'
    by (simp add: esl_ap_resp_fill_buf_work_fn_def set_sync_status_def upd_rsp_def wlp Let_def r [symmetric])
  then show ?thesis by (simp add: ensures_def)
qed

subsection \<open>Every event\<close>

text \<open>Progress and preservation.\<close>

lemma event_ok:
  assumes p: "ap_platform e" and s: "sync_inv e s" and i: "input_ok e ev" and r: "in_range e s ev"
  shows "yields (perform e ev s) (sync_inv e)"
proof -
  have z: "zephyr_ok (azep e)" and c: "ap_cfg_ok (acfg e)" "4 \<le> rsp_buffers (acfg e)" and wf: "wf_sync e s"
    using p s by (simp_all add: ap_platform_def sync_inv_def)
  show ?thesis
  proof (cases ev)
    case (Ev_request start count)
    then show ?thesis using s i by (simp add: pawr_request_def) (simp add: sync_inv_def wf_sync_def)
  next
    case (Ev_fill x)
    then show ?thesis using wf_fill [OF p s, of x] r by simp
  next
    case (Ev_response g i b)
    then have "yields (pawr_response g i b s) (wf_sync e)"
      using r wf by (cases "b = []") (simp_all add: wf_pawr_response [OF wf], simp add: pawr_response_def)
    moreover have "ensures (pawr_response g i b s)
        (\<lambda>t. wf_sync e t \<longrightarrow> sync_inv e t)"
      using s r Ev_response by (auto simp: pawr_response_def upd_rsp_def wlp sync_inv_def ap_effect_def)
    ultimately show ?thesis using Ev_response by (auto simp: yields_def ensures_def split: option.splits)
  next
    case Ev_report
    then show ?thesis using wf_report [OF p s] r by simp
  next
    case (Ev_host_packet x d g)
    then have g: "unat g < max_group (acfg e)" and x: "length (ai_rand x) = 5" "length d < 256" using r i by simp_all
    have "ensures (esl_c_push_sync_buf e x d (of_nat (length d)) g s) (\<lambda>(r, t). same_work s t)"
      by (auto simp: esl_c_push_sync_buf_def ensures_def Let_def split: Option.bind_splits option.splits prod.splits if_splits)
    moreover have "yields (esl_c_push_sync_buf e x d (of_nat (length d)) g s) (\<lambda>(r, t). wf_sync e t)"
    proof (cases "length d \<le> 48")
      case True
      then show ?thesis by (intro wf_push_sync_buf [OF z wf g _ _ x(1)]) (simp_all add: unat_of_nat_u8)
    next
      case False
      then have "sb_status (c_sync_buf s ! unat g) \<notin> {SYNC_EMPTY, SYNC_PUSHED}" using r Ev_host_packet by simp
      then show ?thesis using wf wf_sync_buf(2) [OF wf] g by (simp add: esl_c_push_sync_buf_def)
    qed
    ultimately show ?thesis
      using Ev_host_packet by (auto simp: yields_def ensures_def intro: sync_inv_same [OF s] split: option.splits)
  next
    case (Ev_host_keys ks g)
    then have "yields (esl_c_push_rsp_key e ks g s) (\<lambda>(r, t). wf_sync e t \<and> same_work s t)"
      using r i by (intro wf_push_rsp_key [OF wf]) simp_all
    then show ?thesis
      using Ev_host_keys by (auto simp: yields_def intro: sync_inv_same [OF s] split: option.splits)
  next
    case (Ev_take g)
    then have "yields (esl_c_dump_sync_buf e g s) (\<lambda>t. wf_sync e t \<and> same_work s t)"
      using r by (intro wf_take [OF wf]) simp
    then show ?thesis
      using Ev_take by (auto intro: sync_inv_same [OF s] elim: yields_mono)
  next
    case (Ev_dummy x ty g)
    then show ?thesis
      using r i s inv_kept [OF s wf_dummy [OF z wf _ _ c(2)] dummy_work, of g x ty] by (auto simp: esl_dummy_ap_ad_data_def)
  next
    case (Ev_ping xs)
    then have "yields (esl_ap_ping_work_fn e xs s) (wf_sync e)"
      using i by (auto intro: yields_mono [OF ping_queues [OF z c(1) _ c(2) wf]])
    then show ?thesis using Ev_ping inv_kept [OF s _ ping_work] by simp
  qed
qed

text \<open>What is not in range is undefined.\<close>

lemma ensures_False: "ensures m (\<lambda>_. False) \<longleftrightarrow> m = None"
  by (cases m) simp_all

lemma compose_long:
  assumes z: "zephyr_ok z" and k: "key_ok key" and pa: "length pa = 61" and n: "48 < unat n"
  shows "esl_compose_ad_data z pa payload n rnd key = None"
proof -
  have c: "length (snd (z_ead_encrypt z (session_key key) (iv key) p)) = length p + 9" for p
    using z_ead_encrypt_length [OF z] k by (simp add: key_ok_def)
  have h: "ensures (esl_generate_ad_data_header (Some r) (Some d) n) (\<lambda>(ret, ad). \<forall>b. ad = Some b \<longrightarrow> length b = length d)" for r d
    by (auto simp: esl_generate_ad_data_header_def wlp)
  have "ensures (esl_compose_ad_data z pa payload n rnd key) (\<lambda>_. False)"
  proof (cases "unat n \<le> 52")
    case True
    have u: "unat (n + 2) = unat n + 2" using unat_add_small [of n 2] True by simp
    show ?thesis
      using n pa u by (auto simp: esl_compose_ad_data_def wlp Let_def c intro!: ensuresI [of "esl_update_randomizer _ _"]
        ensures_mono [OF h] split: option.split)
  next
    case False
    then show ?thesis
      using pa by (auto simp: esl_compose_ad_data_def wlp intro!: ensuresI [of "esl_update_randomizer _ _"])
  qed
  then show ?thesis by (simp add: ensures_False)
qed

lemma for_loop_stops: "i \<le> j \<Longrightarrow> j < i + k \<Longrightarrow> (\<And>t. f j t = None) \<Longrightarrow> for_loop i k f s = None"
proof (induction k arbitrary: i s)
  case (Suc k)
  then show ?case
  proof (cases "i = j")
    case False
    then have "for_loop (Suc i) k f t = None" for t by (intro Suc.IH) (use Suc.prems in auto)
    then show ?thesis by (cases "f i s") simp_all
  qed (use Suc.prems in simp)
qed simp

lemma expect_slots_length: "ensures (expect_slots g xs s) (\<lambda>t. length (c_sync_buf t) = length (c_sync_buf s))"
proof (induction xs arbitrary: s)
  case (Cons x xs)
  have up: "ensures (upd_rsp g k f s) (\<lambda>t. length (c_sync_buf t) = length (c_sync_buf s))" for k f
    by (auto simp: upd_rsp_def wlp intro: ensuresI)
  show ?case
    by (cases x) (auto simp: wlp intro!: ensures_mono [OF up] ensures_mono [OF Cons.IH])
qed simp

lemma event_undefined:
  assumes p: "ap_platform e" "pull_asserts (azep e)" and s: "sync_inv e s" and i: "input_ok e ev" and r: "\<not> in_range e s ev"
  shows "perform e ev s = None"
proof -
  have z: "zephyr_ok (azep e)" and c: "4 \<le> rsp_buffers (acfg e)" and wf: "wf_sync e s"
    using p s by (simp_all add: ap_platform_def sync_inv_def)
  have len: "length (c_sync_buf s) = max_group (acfg e)" by (rule wf_sync_buf(2) [OF wf])
  have k: "key_ok (c_ap_key s)" using wf by (simp add: wf_sync_def)
  show ?thesis
  proof (cases ev)
    case (Ev_fill x)
    then show ?thesis using wf_fill [OF p(1) s, of x] r by simp
  next
    case (Ev_response g k b)
    show ?thesis
    proof (cases "unat g < max_group (acfg e) \<and> unat k < rsp_buffers (acfg e)")
      case True
      then show ?thesis
        using r Ev_response wf_rsp_at [OF wf, of g k] by (simp add: pawr_response_def upd_rsp_def rsp_buffer_ok_def wr_mem_def)
    next
      case False
      then have "unat g < max_group (acfg e) \<Longrightarrow> rd (sb_rsp (c_sync_buf s ! unat g)) (unat k) = None"
        using wf_sync_buf(1) [OF wf] by (simp add: sync_buffer_ok_def rd_def)
      then show ?thesis
        using r Ev_response len False by (cases "unat g < max_group (acfg e)") (simp_all add: pawr_response_def upd_rsp_def rd_def)
    qed
  next
    case Ev_report
    then show ?thesis
      using short_report_fails [OF p(2) wf _ _ refl] s r by (simp add: sync_inv_def Let_def)
  next
    case (Ev_host_packet x d g)
    then have u: "unat (of_nat (length d) :: u8) = length d" using i by (simp add: unat_of_nat_u8)
    show ?thesis
    proof (cases "unat g < max_group (acfg e)")
      case True
      then have "length (sb_data (c_sync_buf s ! unat g)) = 61" using wf_sync_buf(1) [OF wf True] by (simp add: sync_buffer_ok_def)
      then show ?thesis
        using r Ev_host_packet True len u compose_long [OF z k, of "sb_data (c_sync_buf s ! unat g)" "of_nat (length d)"]
        by (simp add: esl_c_push_sync_buf_def)
    next
      case False
      then show ?thesis using Ev_host_packet len by (simp add: esl_c_push_sync_buf_def rd_def)
    qed
  next
    case (Ev_host_keys ks g)
    show ?thesis
    proof (cases "unat g < max_group (acfg e)")
      case True
      then have "length ks < rsp_buffers (acfg e)" using r Ev_host_keys by simp
      then have "for_loop 0 (rsp_buffers (acfg e)) (\<lambda>i t. Option.bind (rd ks i) (f t i)) s = None" for f
        by (intro for_loop_stops [of 0 "length ks"]) (simp_all add: rd_def)
      then show ?thesis using Ev_host_keys by (simp add: esl_c_push_rsp_key_def)
    next
      case False
      then show ?thesis
        using Ev_host_keys c len by (cases "rsp_buffers (acfg e)") (simp_all add: esl_c_push_rsp_key_def rd_def)
    qed
  next
    case (Ev_take g)
    then show ?thesis using r len by (simp add: esl_c_dump_sync_buf_def rd_def)
  next
    case (Ev_dummy x ty g)
    then obtain ts where ts: "dummy_commands (default_esl_id (acfg e)) ty = Some ts" and g: "\<not> unat g < max_group (acfg e)"
      using r by auto
    have "ensures (esl_dummy_ap_ad_data e x ty g s) (\<lambda>_. False)"
      unfolding esl_dummy_ap_ad_data_def ts option.case Let_def ensures_bind
      by (rule ensures_mono [OF expect_slots_length]) (simp add: wlp len g)
    then show ?thesis using Ev_dummy by (simp add: ensures_def)
  qed (use r in simp_all)
qed

lemma event_exact:
  assumes "ap_platform e" "pull_asserts (azep e)" "sync_inv e s" "input_ok e ev"
  shows "if in_range e s ev then yields (perform e ev s) (sync_inv e) else perform e ev s = None"
  using event_ok [OF assms(1,3,4)] event_undefined [OF assms] by simp

lemma reach_inv: "sync_reach e s t \<Longrightarrow> ap_platform e \<Longrightarrow> pull_asserts (azep e) \<Longrightarrow> sync_inv e s \<Longrightarrow> sync_inv e t"
proof (induction rule: sync_reach.induct)
  case (sync_next s t ev u)
  then show ?case using event_exact [of e t ev] by (auto simp: yields_def split: if_splits)
qed

subsection \<open>What a response can do\<close>

lemma set_status_sets: "ensures (set_sync_status g st s) (\<lambda>t. sb_status (c_sync_buf t ! g) = st)"
  by (simp add: set_sync_status_def wlp)

lemma ensures_any: "(\<And>x. P x) \<Longrightarrow> ensures m P"
  by (simp add: ensures_def)

lemma upd_rsp_status: "sb_status (c_sync_buf s ! h) = st \<Longrightarrow> ensures (upd_rsp g i f s) (\<lambda>t. sb_status (c_sync_buf t ! h) = st)"
  by (cases "g = h") (auto simp: upd_rsp_def wlp intro: ensures_any)

lemma report_fills:
  "ensures (esl_ap_resp_fill_buf_work_fn e s) (\<lambda>t. sb_status (c_sync_buf t ! unat (c_resp_subevent s)) = SYNC_RESP_FULL)"
proof -
  note keep = ensures_mono [OF upd_rsp_status]
  have pull: "(\<And>x. P x) \<Longrightarrow> ensures (z_nb_pull (azep e) b n) P" for P b n by (rule ensures_any)
  show ?thesis
    unfolding esl_ap_resp_fill_buf_work_fn_def Let_def ensures_bind
    apply (rule ensures_mono [OF set_status_sets])
    apply (rule keep, assumption)
    apply (auto simp: wlp case_prod_unfold intro!: keep pull)
    done
qed

lemma response_then_report:
  assumes p: "ap_platform e" and s: "sync_inv e s" and g: "unat g < max_group (acfg e)" "unat i < rsp_buffers (acfg e)"
    and b: "2 \<le> length b" "length b \<le> 61"
  shows "yields (do { t \<leftarrow> pawr_response g i b s; esl_ap_resp_fill_buf_work_fn e t }) (\<lambda>t.
    sync_inv e t \<and> sb_status (c_sync_buf t ! unat g) = SYNC_RESP_FULL)"
proof -
  have wf: "wf_sync e s" using s by (simp add: sync_inv_def)
  have ne: "b \<noteq> []" using b by auto
  have "yields (perform e (Ev_response g i b) s) (sync_inv e)" by (rule event_ok [OF p s]) (use g b in simp_all)
  then obtain t where t: "pawr_response g i b s = Some t" "sync_inv e t" by (auto elim: yieldsE)
  have f: "c_resp_subevent t = g" "c_resp_slot t = i" "rb_len (rsp_at g i t) = of_nat (length b)"
    using yieldsD [OF pawr_response_stores [OF wf g ne b(2)] t(1)] by simp_all
  have "rb_len (rsp_at g i t) \<noteq> 1"
  proof
    assume "rb_len (rsp_at g i t) = 1"
    then have "unat (of_nat (length b) :: u8) = 1" using f(3) by simp
    then show False using b by (simp add: unat_of_nat_u8)
  qed
  then have "yields (perform e Ev_report t) (sync_inv e)" by (intro event_ok [OF p t(2)]) (simp_all add: f)
  moreover have "ensures (esl_ap_resp_fill_buf_work_fn e t) (\<lambda>t. sb_status (c_sync_buf t ! unat g) = SYNC_RESP_FULL)"
    using report_fills [of e t] by (simp add: f)
  ultimately show ?thesis unfolding t(1) by (auto simp: yields_def ensures_def split: option.splits)
qed

lemma one_byte_stored:
  assumes s: "wf_sync e s" and g: "unat g < max_group (acfg e)" "unat i < rsp_buffers (acfg e)"
    and old: "rb_data (rsp_at g i s) ! 1 = BT_DATA_ENCRYPTED_AD_DATA"
  shows "yields (pawr_response g i [0] s) (\<lambda>t. wf_sync e t \<and> c_resp_subevent t = g \<and> c_resp_slot t = i \<and>
    rb_len (rsp_at g i t) = 1 \<and> rb_data (rsp_at g i t) ! 0 = 0 \<and> rb_data (rsp_at g i t) ! 1 = BT_DATA_ENCRYPTED_AD_DATA)"
proof -
  have d: "length (rb_data (rsp_at g i s)) = 61" using wf_rsp_at(1) [OF s g] by (simp add: rsp_buffer_ok_def)
  show ?thesis
    using wf_pawr_response [OF s g, of "[0]"] wf_rsp_at(2,3) [OF s g] d old
    by (simp add: pawr_response_def wp yields_upd_rsp [OF s g] ap_effect_def nth_append)
qed

lemma one_byte_fails:
  assumes p: "pull_asserts (azep e)" and s: "wf_sync e s" and g: "unat g < max_group (acfg e)" "unat i < rsp_buffers (acfg e)"
    and old: "rb_data (rsp_at g i s) ! 1 = BT_DATA_ENCRYPTED_AD_DATA"
  shows "do { t \<leftarrow> pawr_response g i [0] s; esl_ap_resp_fill_buf_work_fn e t } = None"
  using one_byte_stored [OF s g old] short_report_fails [OF p _ _ _ refl] g by (auto simp: yields_def)

end
