(* ===== verification/Ap_Auto.thy ===== *)
theory Ap_Auto
  imports Ap_Init
begin

unbundle bit_operations_syntax

text \<open>
  How the access point finds tags and connects to them in \<open>service/esl_client.c\<close>: the scan's callbacks, the thread that
  connects to scanned tags automatically, and the events of the Bluetooth stack as one step relation. The
  thread and the callbacks interleave between the visits of two tags, which is why a visit is one step.
\<close>

subsection \<open>The scan\<close>

text \<open>Directed advertising makes the access point connect; without a free connection the table is written before its start.\<close>

definition scan_filter_no_match ::
  "('s, 'm) ap_env \<Rightarrow> int \<Rightarrow> int \<Rightarrow> bt_conn \<Rightarrow> bool \<Rightarrow> bt_addr_le \<Rightarrow> ap \<Rightarrow> ap option" where
  "scan_filter_no_match e stop_code code new directed addr s =
     (if \<not> directed then Some s
      else do {
        let idx = esl_c_get_free_conn_idx e s;
        let s1 = ap_effect (Ap_connect (nat idx) addr None) (esl_c_scan stop_code False False s);
        (if code \<noteq> 0 then Some s1
         else if idx = -1 then None
         else do {
           cs \<leftarrow> upd (c_conn s1) (nat idx) (Some new);
           Some (s1\<lparr>c_conn := cs\<rparr>)
         })
      })"

text \<open>Filters on the service's identifier: \<open>add\<close> and \<open>enable\<close> are the results of the two calls.\<close>

definition esl_c_scan_init :: "int \<Rightarrow> int \<Rightarrow> int" where
  "esl_c_scan_init add enable = (if add \<noteq> 0 then add else enable)"

subsection \<open>Connecting automatically\<close>

text \<open>
  A tag is visited by the thread. \<open>esl_c_connect\<close> returns the index of the connection or an error, and the
  thread takes every result but 0 for a failure.
\<close>

definition auto_connect :: "('s, 'm) ap_env \<Rightarrow> int \<Rightarrow> int \<Rightarrow> bt_conn \<Rightarrow> bt_addr_le \<Rightarrow> ap \<Rightarrow> ap option" where
  "auto_connect e stop_code code new addr s =
     (if c_connecting s then Some s
      else do {
        (ret, t) \<leftarrow> esl_c_connect e stop_code code new addr (ucast (ESL_ADDR_BROADCAST :: u8)) (s\<lparr>c_connecting := True\<rparr>);
        Some (if ret \<noteq> 0 then t\<lparr>c_connecting := False\<rparr> else t)
      })"

definition auto_visit :: "('s, 'm) ap_env \<Rightarrow> int \<Rightarrow> int \<Rightarrow> bt_conn \<Rightarrow> tag_addr_node \<Rightarrow> ap \<Rightarrow> ap option" where
  "auto_visit e stop_code code new n s =
     (if \<not> c_auto_mode s \<or> node_connected n then Some s else auto_connect e stop_code code new (node_addr n) s)"

subsection \<open>One step relation\<close>

text \<open>The events, in any order, with any results of the stack.\<close>

inductive link_step :: "('s, 'm) ap_env \<Rightarrow> ap \<Rightarrow> ap \<Rightarrow> bool" for e where
  step_scan: "link_step e s (esl_c_scan code onoff oneshot s)"
| step_match: "link_step e s (scan_filter_match code room a s)"
| step_list: "link_step e s (esl_list_tag_work_fn s)"
| step_directed: "scan_filter_no_match e stop_code code new directed a s = Some t \<Longrightarrow> link_step e s t"
| step_visit: "n \<in> set (c_scanned s) \<Longrightarrow> auto_visit e stop_code code new n s = Some t \<Longrightarrow> link_step e s t"
| step_connect: "esl_c_connect e stop_code code new a addr s = Some (r, t) \<Longrightarrow> link_step e s t"
| step_up: "ap_conn_up e code i peer conn_err s = Some t \<Longrightarrow> link_step e s t"
| step_down: "ap_conn_down e code i peer s = Some t \<Longrightarrow> link_step e s t"
| step_forget: "esl_c_scanned_tag_remove i s = Some (r, t) \<Longrightarrow> link_step e s t"

inductive link_runs :: "('s, 'm) ap_env \<Rightarrow> ap \<Rightarrow> ap \<Rightarrow> bool" for e where
  runs_refl: "link_runs e s s"
| runs_step: "link_runs e s t \<Longrightarrow> link_step e t u \<Longrightarrow> link_runs e s u"

subsection \<open>The list of scanned tags\<close>

definition scanned_addrs :: "ap \<Rightarrow> bt_addr_le list" where
  "scanned_addrs s = map node_addr (c_scanned s)"

text \<open>What the events keep: no tag is listed twice, and the tables keep their sizes.\<close>

definition link_ok :: "('s, 'm) ap_env \<Rightarrow> ap \<Rightarrow> bool" where
  "link_ok e s \<longleftrightarrow> distinct (scanned_addrs s) \<and> length (c_conn s) = peripheral_max (acfg e) \<and>
     length (c_gatt s) = peripheral_max (acfg e)"

lemma scan_frame [simp]:
  "c_scanned (esl_c_scan code onoff oneshot s) = c_scanned s" "c_conn (esl_c_scan code onoff oneshot s) = c_conn s"
  "c_gatt (esl_c_scan code onoff oneshot s) = c_gatt s"
  by (simp_all add: esl_c_scan_def ap_effect_def)

lemma resume_frame [simp]:
  "c_scanned (resume_scan code s) = c_scanned s" "c_conn (resume_scan code s) = c_conn s" "c_gatt (resume_scan code s) = c_gatt s"
  by (simp_all add: resume_scan_def)

lemma scanned_tag_add_addrs:
  "scanned_addrs (snd (esl_c_scanned_tag_add room a s)) =
    scanned_addrs s @ (if a \<in> set (scanned_addrs s) \<or> \<not> room then [] else [a])"
  by (auto simp: esl_c_scanned_tag_add_def scanned_addrs_def)

lemma scanned_tag_add_frame [simp]:
  "c_conn (snd (esl_c_scanned_tag_add room a s)) = c_conn s" "c_gatt (snd (esl_c_scanned_tag_add room a s)) = c_gatt s"
  by (simp_all add: esl_c_scanned_tag_add_def)

lemma map_remove_nth: "map f (remove_nth k xs) = remove_nth k (map f xs)"
  by (simp add: remove_nth_def take_map drop_map)

lemma remove_nth_split: "k < length xs \<Longrightarrow> xs = take k xs @ xs ! k # drop (Suc k) xs"
  by (simp add: id_take_nth_drop)

lemma distinct_remove_nth: "distinct xs \<Longrightarrow> distinct (remove_nth k xs)"
proof (cases "k < length xs")
  case True
  assume "distinct xs"
  then have "distinct (take k xs @ xs ! k # drop (Suc k) xs)" using remove_nth_split [OF True] by simp
  then show ?thesis by (auto simp: remove_nth_def)
qed (simp add: remove_nth_def)

lemma set_remove_nth:
  assumes "distinct xs" "k < length xs"
  shows "set (remove_nth k xs) = set xs - {xs ! k}"
proof -
  have "distinct (take k xs @ xs ! k # drop (Suc k) xs)" "set xs = set (take k xs @ xs ! k # drop (Suc k) xs)"
    using remove_nth_split [OF assms(2)] assms(1) by simp_all
  then show ?thesis by (auto simp: remove_nth_def)
qed

lemma find_node_addr:
  "find_node (-1) (Some a) k ns =
    Some (if a \<in> node_addr ` set ns then Some (k + length (takeWhile (\<lambda>n. node_addr n \<noteq> a) ns)) else None)"
  by (induction ns arbitrary: k) auto

lemma nth_takeWhile_addr:
  "a \<in> node_addr ` set ns \<Longrightarrow> length (takeWhile (\<lambda>n. node_addr n \<noteq> a) ns) < length ns \<and>
    node_addr (ns ! length (takeWhile (\<lambda>n. node_addr n \<noteq> a) ns)) = a"
  by (induction ns) auto

text \<open>Finding by address works, whatever the count.\<close>

lemma get_tag_addr_peer:
  "esl_c_get_tag_addr (-1) (Some a) s = Some
    (if a \<in> set (scanned_addrs s) then Some (length (takeWhile (\<lambda>n. node_addr n \<noteq> a) (c_scanned s))) else None)"
proof -
  have n: "\<not> int (unat (c_scanned_count s)) < - 1"
    using of_nat_0_le_iff [of "unat (c_scanned_count s)", where 'a = int] by linarith
  show ?thesis by (simp only: esl_c_get_tag_addr_def if_not_P [OF n] find_node_addr) (simp add: scanned_addrs_def)
qed

lemma remove_by_addr:
  "yields (esl_c_scanned_tag_remove_with_ble_addr a s) (\<lambda>(r, t). c_conn t = c_conn s \<and> c_gatt t = c_gatt s \<and>
    (distinct (scanned_addrs s) \<longrightarrow> distinct (scanned_addrs t) \<and> set (scanned_addrs t) = set (scanned_addrs s) - {a}) \<and>
    r = (if a \<in> set (scanned_addrs s) then 0 else - ENOENT))"
proof (cases "a \<in> set (scanned_addrs s)")
  case True
  let ?k = "length (takeWhile (\<lambda>n. node_addr n \<noteq> a) (c_scanned s))"
  have k: "?k < length (c_scanned s)" "node_addr (c_scanned s ! ?k) = a"
    using nth_takeWhile_addr [of a "c_scanned s"] True by (simp_all add: scanned_addrs_def)
  then have "scanned_addrs s ! ?k = a" "?k < length (scanned_addrs s)" by (simp_all add: scanned_addrs_def)
  moreover have "scanned_addrs (s\<lparr>c_scanned := remove_nth ?k (c_scanned s)\<rparr>) = remove_nth ?k (scanned_addrs s)"
    by (simp add: scanned_addrs_def map_remove_nth)
  ultimately show ?thesis
    using True distinct_remove_nth [of "scanned_addrs s" ?k] set_remove_nth [of "scanned_addrs s" ?k]
    by (simp add: esl_c_scanned_tag_remove_with_ble_addr_def get_tag_addr_peer)
next
  case False
  then show ?thesis by (auto simp: esl_c_scanned_tag_remove_with_ble_addr_def get_tag_addr_peer)
qed

subsection \<open>Connecting\<close>

lemma takeWhile_shorter: "x \<in> set xs \<Longrightarrow> \<not> P x \<Longrightarrow> length (takeWhile P xs) < length xs"
  by (induction xs) auto

lemma first_free_spec:
  "first_free e i cs = (if \<forall>c \<in> set cs. link_up e c then -1 else int (i + length (takeWhile (link_up e) cs)))"
  by (induction cs arbitrary: i) auto

text \<open>The free index is one whose link is down.\<close>

lemma free_idx:
  assumes "esl_c_get_free_conn_idx e s = r" "r \<noteq> -1"
  shows "r = int (nat r)" "nat r < peripheral_max (acfg e)" "nat r < length (c_conn s)" "\<not> link_up e (c_conn s ! nat r)"
proof -
  let ?cs = "take (peripheral_max (acfg e)) (c_conn s)" and ?k = "length (takeWhile (link_up e) (take (peripheral_max (acfg e)) (c_conn s)))"
  have r: "r = int ?k" "\<exists>c \<in> set ?cs. \<not> link_up e c"
    using assms by (auto simp: esl_c_get_free_conn_idx_def first_free_spec split: if_splits)
  have k: "?k < length ?cs" using r(2) takeWhile_shorter [of _ ?cs] by blast
  have "\<not> link_up e (?cs ! ?k)" by (rule nth_length_takeWhile [OF k])
  then show "r = int (nat r)" "nat r < peripheral_max (acfg e)" "nat r < length (c_conn s)" "\<not> link_up e (c_conn s ! nat r)"
    using r(1) k by auto
qed

text \<open>It is the first one, and a connection attempt runs whatever the tables hold.\<close>

lemma free_first:
  assumes "esl_c_get_free_conn_idx e s = r" "0 \<le> r" "i < nat r"
  shows "link_up e (c_conn s ! i)"
proof -
  let ?cs = "take (peripheral_max (acfg e)) (c_conn s)"
  have "i < length (takeWhile (link_up e) ?cs)"
    using assms by (auto simp: esl_c_get_free_conn_idx_def first_free_spec split: if_splits)
  then show ?thesis
    by (metis length_takeWhile_le length_take min_less_iff_conj nth_mem nth_take order_less_le_trans set_takeWhileD takeWhile_nth)
qed

lemma connect_defined:
  assumes "length (c_conn s) = peripheral_max (acfg e)" "length (c_gatt s) = peripheral_max (acfg e)"
  shows "yields (esl_c_connect e stop_code code new a addr s) (\<lambda>_. True)"
proof (cases "esl_c_get_free_conn_idx e s = -1")
  case False
  then show ?thesis
    using free_idx(2) [OF refl False] assms
    by (auto simp: esl_c_connect_def Let_def upd_device_def upd_gatt_def wp ap_effect_def esl_c_scan_def)
qed (simp add: esl_c_connect_def)

text \<open>Connecting uses a connection that is down and leaves the others alone.\<close>

lemma connect_spares_links:
  assumes "esl_c_connect e stop_code code new a addr s = Some (r, t)"
  shows "length (c_conn t) = length (c_conn s)" "length (c_gatt t) = length (c_gatt s)" "c_scanned t = c_scanned s"
    and "link_up e (c_conn s ! i) \<Longrightarrow> c_conn t ! i = c_conn s ! i"
    and "code = 0 \<Longrightarrow> 0 \<le> r \<Longrightarrow> r = esl_c_get_free_conn_idx e s \<and> c_conn t = (c_conn s)[nat r := Some new]"
proof -
  let ?r = "esl_c_get_free_conn_idx e s"
  have *: "length (c_conn t) = length (c_conn s) \<and> length (c_gatt t) = length (c_gatt s) \<and> c_scanned t = c_scanned s \<and>
    (link_up e (c_conn s ! i) \<longrightarrow> c_conn t ! i = c_conn s ! i) \<and>
    (code = 0 \<longrightarrow> 0 \<le> r \<longrightarrow> r = ?r \<and> c_conn t = (c_conn s)[nat r := Some new])"
  proof (cases "?r = -1")
    case True
    then show ?thesis using assms by (auto simp: esl_c_connect_def)
  next
    case False
    note f = free_idx [OF refl False]
    have "c_conn t = (if code = 0 then (c_conn s)[nat ?r := Some new] else c_conn s) \<and> c_scanned t = c_scanned s \<and>
      length (c_gatt t) = length (c_gatt s) \<and> r = (if code = 0 then ?r else code)"
      using assms False
      by (auto simp: esl_c_connect_def Let_def upd_device_def upd_gatt_def upd_def rd_def ap_effect_def
          split: if_splits bind_splits)
    then show ?thesis using f(4) by (cases "i = nat ?r") auto
  qed
  then show "length (c_conn t) = length (c_conn s)" "length (c_gatt t) = length (c_gatt s)" "c_scanned t = c_scanned s"
    "link_up e (c_conn s ! i) \<Longrightarrow> c_conn t ! i = c_conn s ! i"
    "code = 0 \<Longrightarrow> 0 \<le> r \<Longrightarrow> r = esl_c_get_free_conn_idx e s \<and> c_conn t = (c_conn s)[nat r := Some new]"
    by blast+
qed

subsection \<open>The events keep the tables\<close>

lemma link_ok_frame:
  "scanned_addrs t = scanned_addrs s \<Longrightarrow> length (c_conn t) = length (c_conn s) \<Longrightarrow> length (c_gatt t) = length (c_gatt s) \<Longrightarrow>
    link_ok e t = link_ok e s"
  by (simp add: link_ok_def)

lemma connect_ok: "esl_c_connect e stop_code code new a addr s = Some (r, t) \<Longrightarrow> link_ok e t = link_ok e s"
  by (rule link_ok_frame) (simp_all add: scanned_addrs_def connect_spares_links)

lemma visit_ok: "auto_visit e stop_code code new n s = Some t \<Longrightarrow> link_ok e t = link_ok e s"
proof -
  assume v: "auto_visit e stop_code code new n s = Some t"
  have u: "link_ok e (x\<lparr>c_connecting := b\<rparr>) = link_ok e x" for x b by (simp add: link_ok_def scanned_addrs_def)
  have c: "link_ok e x = link_ok e s"
    if "esl_c_connect e stop_code code new a addr (s\<lparr>c_connecting := True\<rparr>) = Some (r, x)" for a addr r x
    using connect_ok [OF that] u by simp
  show ?thesis using v
    by (auto simp: auto_visit_def auto_connect_def u dest!: c split: if_splits bind_splits)
qed

lemma match_ok: "link_ok e s \<Longrightarrow> link_ok e (scan_filter_match code room a s)"
  by (auto simp: link_ok_def scan_filter_match_def scanned_tag_add_addrs) (auto simp: scanned_addrs_def)

lemma directed_ok: "scan_filter_no_match e stop_code code new directed a s = Some t \<Longrightarrow> link_ok e t = link_ok e s"
  by (rule link_ok_frame) (auto simp: scan_filter_no_match_def Let_def upd_def scanned_addrs_def split: if_splits bind_splits)

lemma addrs_connected: "map node_addr (ns[k := (ns ! k)\<lparr>node_connected := b\<rparr>]) = map node_addr ns"
proof (cases "k < length ns")
  case True
  then have "node_addr (ns ! k) = map node_addr ns ! k" by simp
  then show ?thesis by (simp add: map_update del: nth_map)
qed (simp add: list_update_beyond)

lemma up_ok: "ap_conn_up e code i peer conn_err s = Some t \<Longrightarrow> link_ok e t = link_ok e s"
  by (rule link_ok_frame)
    (auto simp: ap_conn_up_def Let_def get_tag_addr_peer scanned_addrs_def addrs_connected ap_effect_def split: if_splits bind_splits)

lemma upd_gatt_frame:
  "upd_gatt i f s = Some t \<Longrightarrow> c_conn t = c_conn s \<and> c_scanned t = c_scanned s \<and> length (c_gatt t) = length (c_gatt s)"
  by (auto simp: upd_gatt_def rd_def split: if_splits)

lemma upd_device_frame:
  "upd_device i f s = Some t \<Longrightarrow> c_conn t = c_conn s \<and> c_scanned t = c_scanned s \<and> length (c_gatt t) = length (c_gatt s)"
  unfolding upd_device_def by (rule upd_gatt_frame)

lemma forget_ok: "esl_c_scanned_tag_remove i s = Some (r, t) \<Longrightarrow> link_ok e s \<Longrightarrow> link_ok e t"
  by (auto simp: esl_c_scanned_tag_remove_def link_ok_def scanned_addrs_def map_remove_nth distinct_remove_nth
      split: if_splits bind_splits option.splits)

lemma down_ok:
  assumes "ap_conn_down e code i peer s = Some t"
  shows "link_ok e s \<Longrightarrow> link_ok e t \<and> set (scanned_addrs t) = set (scanned_addrs s) - {peer}"
    and "i < length (c_conn t) \<Longrightarrow> c_conn t = (c_conn s)[i := None]"
proof -
  obtain s1 r s3 where 1: "upd_device i (\<lambda>d. d\<lparr>dev_rsp_key := key_of_bytes (replicate EAD_KEY_MATERIAL_LEN 0)\<rparr>)
      (s\<lparr>c_connecting := False, c_ots_written := True\<rparr>) = Some s1"
    and 3: "esl_c_scanned_tag_remove_with_ble_addr peer (if ap_demo_security (acfg e) then ap_effect (Ap_unpair (Some peer)) s1 else s1) = Some (r, s3)"
    and rest: "do {
       s5 \<leftarrow> upd_device i (\<lambda>d. d\<lparr>dev_past_needed := False, dev_connect_from := ACL_NOT_CONNECTED\<rparr>)
         (if ap_auto_mode (acfg e) then resume_scan code (ap_effect Ap_sem_give s3) else s3);
       cs \<leftarrow> upd (c_conn s5) i None;
       upd_gatt i (\<lambda>g. g\<lparr>g_notif_enabled := False\<rparr>) (ap_effect Ap_ots_unregister (s5\<lparr>c_conn := cs\<rparr>)) } = Some t"
    using assms by (auto simp: ap_conn_down_def Let_def split: bind_splits)
  let ?s2 = "if ap_demo_security (acfg e) then ap_effect (Ap_unpair (Some peer)) s1 else s1"
  have s2: "c_conn ?s2 = c_conn s" "scanned_addrs ?s2 = scanned_addrs s" "length (c_gatt ?s2) = length (c_gatt s)"
    using upd_device_frame [OF 1] by (auto simp: scanned_addrs_def)
  note r3 = yieldsD [OF remove_by_addr 3, simplified s2]
  let ?s4 = "if ap_auto_mode (acfg e) then resume_scan code (ap_effect Ap_sem_give s3) else s3"
  obtain s5 cs where 5: "upd_device i (\<lambda>d. d\<lparr>dev_past_needed := False, dev_connect_from := ACL_NOT_CONNECTED\<rparr>) ?s4 = Some s5"
    and cs: "upd (c_conn s5) i None = Some cs"
    and t: "upd_gatt i (\<lambda>g. g\<lparr>g_notif_enabled := False\<rparr>) (ap_effect Ap_ots_unregister (s5\<lparr>c_conn := cs\<rparr>)) = Some t"
    using rest by (auto split: bind_splits)
  have s4: "c_conn ?s4 = c_conn s3" "c_scanned ?s4 = c_scanned s3" "length (c_gatt ?s4) = length (c_gatt s3)" by simp_all
  have T: "c_conn t = (c_conn s)[i := None]" "scanned_addrs t = scanned_addrs s3" "length (c_gatt t) = length (c_gatt s)"
    using upd_gatt_frame [OF t] upd_device_frame [OF 5] s4 cs r3 s2 by (auto simp: scanned_addrs_def upd_def split: if_splits)
  show "c_conn t = (c_conn s)[i := None]" by (rule T)
  show "link_ok e t \<and> set (scanned_addrs t) = set (scanned_addrs s) - {peer}" if "link_ok e s"
    using that r3 T s2 by (simp add: link_ok_def)
qed

lemma link_step_ok: "link_step e s t \<Longrightarrow> link_ok e s \<Longrightarrow> link_ok e t"
proof (induction rule: link_step.induct)
  case (step_scan s code onoff oneshot)
  then show ?case by (simp add: link_ok_def scanned_addrs_def)
next
  case (step_list s)
  then show ?case by (simp add: link_ok_def scanned_addrs_def esl_list_tag_work_fn_def)
qed (simp_all add: match_ok connect_ok visit_ok directed_ok up_ok down_ok forget_ok)

lemma link_runs_ok: "link_runs e s t \<Longrightarrow> link_ok e s \<Longrightarrow> link_ok e t"
  by (induction rule: link_runs.induct) (auto intro: link_step_ok)

lemma static_link_ok: "link_ok e (static_ap e n tags groups stored)"
  by (simp add: link_ok_def scanned_addrs_def static_ap_def)

text \<open>A connection that is opened automatically with another index than 0 counts as failed: the next tag is tried at once.\<close>

lemma auto_connect_retries:
  assumes "auto_connect e stop_code 0 new a s = Some t" "\<not> c_connecting s"
  shows "c_connecting t \<longleftrightarrow> esl_c_get_free_conn_idx e s = 0"
proof -
  have f: "esl_c_get_free_conn_idx e (s\<lparr>c_connecting := True\<rparr>) = esl_c_get_free_conn_idx e s"
    by (simp add: esl_c_get_free_conn_idx_def)
  show ?thesis
    using assms
    by (auto simp: auto_connect_def esl_c_connect_def f Let_def upd_device_def upd_gatt_def upd_def rd_def ap_effect_def esl_c_scan_def
        split: if_splits bind_splits)
qed

end
