(* ===== verification/Ap_Associate.thy ===== *)
theory Ap_Associate
  imports Ap_Config Tag_Provisioning
begin

unbundle bit_operations_syntax

text \<open>
  The association of a tag by the access point: what the configuration writes over the connection is what
  provisions the tag.
\<close>

subsection \<open>The writes as the tag sees them\<close>

text \<open>A write to one of the four handles the access point discovered, at the tag's uptime \<open>now\<close>.\<close>

fun tag_write :: "u16 list \<Rightarrow> u32 \<Rightarrow> ap_effect \<Rightarrow> prov_write list" where
  "tag_write hs now (Ap_gatt_write i h v rsp) =
     (if h = hs ! HANDLE_ESL_ADDR then [(Prov_addr, v, now)]
      else if h = hs ! HANDLE_AP_SYNC_KEY then [(Prov_ap_key, v, now)]
      else if h = hs ! HANDLE_ESL_RESP_KEY then [(Prov_rsp_key, v, now)]
      else if h = hs ! HANDLE_ESL_ABS_TIME then [(Prov_abs_time, v, now)] else [])"
| "tag_write hs now _ = []"

definition tag_writes :: "u16 list \<Rightarrow> u32 \<Rightarrow> ap_effect list \<Rightarrow> prov_write list" where
  "tag_writes hs now tr = concat (map (tag_write hs now) tr)"

text \<open>The handles of a service that was discovered completely are different.\<close>

definition handles_ok :: "u16 list \<Rightarrow> bool" where
  "handles_ok hs \<longleftrightarrow> distinct (map ((!) hs) [HANDLE_ESL_ADDR, HANDLE_AP_SYNC_KEY, HANDLE_ESL_RESP_KEY, HANDLE_ESL_ABS_TIME, HANDLE_ECP])"

lemma config_writes:
  assumes "handles_ok hs"
  shows "tag_writes hs now (config_trace e x i hs d s) =
    [(Prov_addr, le16 (dev_esl_addr d), now), (Prov_ap_key, sent_key (azep e) (c_ap_key s), now),
     (Prov_rsp_key, sent_key (azep e) (dev_rsp_key d), now), (Prov_abs_time, le32 (esl_c_get_abs_time (ai_now x) s), now)]"
  using assms by (auto simp: tag_writes_def config_trace_def handles_ok_def)

lemma wire_sent_key: "zephyr_ok z \<Longrightarrow> key_ok k \<Longrightarrow> wire_key (sent_key z k) = k \<and> length (sent_key z k) = EAD_KEY_MATERIAL_LEN"
  by (simp add: wire_key_def sent_key_def key_ok_def z_mem_swap_eq)

text \<open>After the configuration the tag has the address and the keys the access point remembers for it.\<close>

lemma config_associates:
  assumes z: "zephyr_ok (azep ea)" "zephyr_ok (zep et)" and key: "key_ok (c_ap_key s)"
    and wf: "wf_link ea s" and ok: "reachable_tag_link ea x c s" and c: "c = c_config_conn s" and i: "i = unat c"
    and wr: "\<not> c_write_wo_rsp s" and rd_ok: "ai_read x = 0" and k: "length (ai_rand_key x) = EAD_KEY_MATERIAL_LEN"
    and slot: "ap_auto_mode (acfg ea) \<longrightarrow> slot_ok ea (c_config_addr s) s"
    and addr: "LOW_BYTE (c_config_addr s) \<noteq> ESL_ADDR_BROADCAST"
    and hs: "handles_ok (g_handles (c_gatt s ! i))" and new: "\<forall>k. \<not> bit (configuring_state t) (kind_bit k)"
  shows "yields (esl_ap_config_work_fn ea x s) (\<lambda>s'. let d = g_device (c_gatt s' ! i) in
    dev_esl_addr d = c_config_addr s \<and>
    yields (prov_runs et (tag_writes (g_handles (c_gatt s ! i)) now (drop (length (c_trace s)) (c_trace s'))) t) (\<lambda>t'.
      esl_addr t' = unset_bit ESL_ADDR_RFU_BIT (dev_esl_addr d) \<and> esl_ap_key t' = c_ap_key s \<and>
      esl_rsp_key t' = dev_rsp_key d \<and> esl_state t' = SM_CONFIGURING))"
proof -
  let ?hs = "g_handles (c_gatt s ! i)" and ?key = "given_key x (g_device (c_gatt s ! i))"
  define d where "d = (g_device (c_gatt s ! i))\<lparr>dev_esl_addr := c_config_addr s, dev_rsp_key := ?key, dev_past_needed := True\<rparr>"
  have "unat c < peripheral_max (acfg ea)" using ok by (simp add: reachable_tag_link_def)
  then have dk: "key_ok ?key"
    using wf_link_gatt [OF wf] k by (auto simp: given_key_def key_of_bytes_def key_ok_def i)
  let ?ws = "tag_writes ?hs now (config_trace ea x i ?hs d s)"
  have sent: "wire_key (sent_key (azep ea) (c_ap_key s)) = c_ap_key s" "length (sent_key (azep ea) (c_ap_key s)) = 24"
    "wire_key (sent_key (azep ea) (dev_rsp_key d)) = dev_rsp_key d" "length (sent_key (azep ea) (dev_rsp_key d)) = 24"
    using wire_sent_key [OF z(1) key] wire_sent_key [OF z(1) dk] by (simp_all add: d_def)
  have ws: "list_all prov_ok ?ws" "\<forall>k. k \<in> fst ` set ?ws" "?ws \<noteq> []"
    using addr sent by (simp_all add: config_writes [OF hs] all_kinds le16.dec_enc d_def)
  have "yields (prov_runs et ?ws t) (\<lambda>t'. esl_addr t' = unset_bit ESL_ADDR_RFU_BIT (dev_esl_addr d) \<and> esl_ap_key t' = c_ap_key s \<and>
      esl_rsp_key t' = dev_rsp_key d \<and> esl_state t' = SM_CONFIGURING)"
    using ws(2,3) new sent
    by (intro yields_mono [OF prov_runs_after [OF z(2) ws(1)]])
      (auto simp: config_writes [OF hs] provisioned_of_def complete_def le16.dec_enc)
  moreover have "dev_esl_addr d = c_config_addr s" by (simp add: d_def)
  ultimately show ?thesis
    by (intro yields_mono [OF config_sends [OF wf ok c i wr rd_ok k slot d_def]]) (simp add: Let_def)
qed

end
