(* ===== verification/Ap_Example.thy ===== *)
theory Ap_Example
  imports Ap_Link Ap_Traffic Ap_Auto Ap_Associate Tag_Example
begin

unbundle bit_operations_syntax

text \<open>
  A concrete access point on which the hypotheses of the properties hold: the reference platform, two
  connections, four groups of four slots; and a tag of group 1 that is synchronised with it.
\<close>

definition ex_ap_cfg :: ap_config where
  "ex_ap_cfg = \<lparr>peripheral_max = 2, max_conn = 2, max_group = 4, rsp_buffers = 4, num_response_slots = 4,
     tx_buffers = 4, default_esl_id = 0, default_group_id = 0, ap_auto_mode = True, ap_auto_past = True,
     ap_security = True, ap_pts = False, ap_tag_storage = True, past_retry = 3, ap_display_max = 1,
     ap_sensor_max = 2, ap_led_max = 2, img_queue_max = 10, fs_path_len = 64, ap_demo_security = False\<rparr>"

definition ex_ap_env :: "(unit, unit) ap_env" where
  "ex_ap_env = \<lparr>acfg = ex_ap_cfg, ap_crc = (\<lambda>_. 0), azep = zephyr_ref, null_conn = (- EINVAL, False),
     null_peer = Some \<lparr>ba_type = 0, ba_val = replicate 6 0\<rparr>\<rparr>"

definition ex_ap :: ap where
  "ex_ap = static_ap ex_ap_env 16 4 1 (\<lambda>_. None)"

definition ex_ap_inp :: ap_inp where
  "ex_ap_inp = \<lparr>ai_now = 1000, ai_rand = [1, 2, 3, 4, 5], ai_rand_key = replicate 24 3, ai_set_data = 0,
     ai_write = (\<lambda>_ _ _. 0), ai_read = 0\<rparr>"

definition ex_peer :: bt_addr_le where
  "ex_peer = \<lparr>ba_type = 1, ba_val = [1, 2, 3, 4, 5, 6]\<rparr>"

definition ex_link :: bt_conn where
  "ex_link = \<lparr>conn_peer = ex_peer, conn_info_err = 0, conn_connected = True\<rparr>"

text \<open>The access point with a discovered tag on connection 0, to be given the address 0x0105.\<close>

definition ex_linked :: ap where
  "ex_linked = ex_ap\<lparr>c_conn := [Some ex_link, None],
     c_gatt := [(zero_internal ex_ap_env)\<lparr>g_handles := [11, 12, 13, 14, 15, 16, 17, 18, 19, 20, 21]\<rparr>, zero_internal ex_ap_env],
     c_config_addr := 0x0102\<rparr>"

definition ex_synced :: "(nat \<Rightarrow> u8 list option) hw_state tag" where
  "ex_synced = ex_tag\<lparr>esl_state := SM_SYNCHRONIZED, sm_cur := SM_SYNCHRONIZED, esl_addr := 0x0105\<rparr>"

lemma ex_ap_fields [simp]: "acfg ex_ap_env = ex_ap_cfg" "azep ex_ap_env = zephyr_ref"
  "null_peer ex_ap_env = Some \<lparr>ba_type = 0, ba_val = replicate 6 0\<rparr>" "null_conn ex_ap_env = (- EINVAL, False)"
  by (simp_all add: ex_ap_env_def)

lemma ex_ap_cfg_fields [simp]:
  "peripheral_max ex_ap_cfg = 2" "max_conn ex_ap_cfg = 2" "max_group ex_ap_cfg = 4" "rsp_buffers ex_ap_cfg = 4"
  "tx_buffers ex_ap_cfg = 4" "default_esl_id ex_ap_cfg = 0" "default_group_id ex_ap_cfg = 0" "ap_auto_mode ex_ap_cfg"
  "\<not> ap_pts ex_ap_cfg" "past_retry ex_ap_cfg = 3"
  by (simp_all add: ex_ap_cfg_def)

lemma ex_ap_cfg_ok: "ap_cfg_ok ex_ap_cfg"
  by (simp add: ap_cfg_ok_def ex_ap_cfg_def)

lemma ex_ap_platform: "ap_platform ex_ap_env"
  by (simp add: ap_platform_def zephyr_ref_ok ex_ap_cfg_ok)

lemma ex_ap_key: "c_ap_key ex_ap = key_of_bytes (replicate 24 0)" "key_ok (c_ap_key ex_ap)" "length (c_randomizer ex_ap) = 5"
  by (simp_all add: ex_ap_def static_ap_def)

lemma ex_ap_wf: "wf_sync ex_ap_env ex_ap"
  by (simp add: wf_sync_def ex_ap_key)
    (simp add: ex_ap_def static_ap_def zero_sync_buf_def sync_buffer_ok_def rsp_buffer_ok_def zero_rsp_buffer_def key_ok_def list_all_length)

lemma ex_ap_inv: "sync_inv ex_ap_env ex_ap"
  by (simp add: sync_inv_def ex_ap_wf) (simp add: ex_ap_def static_ap_def)

lemma ex_ap_buffers: "c_sync_buf ex_ap = zero_sync_buf ex_ap_env"
  by (simp add: ex_ap_def static_ap_def)

lemma ex_linked_wf: "wf_link ex_ap_env ex_linked" "wf_sync ex_ap_env ex_linked"
  using ex_ap_wf
  by (simp_all add: wf_link_def ex_linked_def zero_internal_def zero_device_def ex_ap_def static_ap_def wf_sync_def)

lemma ex_linked_ok: "reachable_tag_link ex_ap_env ex_ap_inp 0 ex_linked"
  by (simp add: reachable_tag_link_def ex_linked_def ap_connected_def rd_def link_up_def ex_link_def check_ble_connection_def ex_ap_inp_def)

lemma ex_crypto: "crypto_agrees ex_ap_env ex_env"
  by (simp add: crypto_agrees_def zephyr_ref_def)

lemma ex_synced_wf: "wf_tag ex_env ex_synced"
  using ex_wf by (simp add: wf_tag_def ex_synced_def)

text \<open>The storage over a map, with addresses written byte by byte.\<close>

definition ex_storage :: "(string \<Rightarrow> u8 list option) storage_env" where
  "ex_storage = \<lparr>st_fs = file_map, st_addr = (\<lambda>a. map (char_of \<circ> unat) a @ replicate 11 CHR ''0''), st_path_len = 64,
     st_bt_keys = False, st_key_len = 96\<rparr>"

lemma ex_storage_ok: "storage_ok ex_storage"
proof -
  have "inj (char_of \<circ> (unat :: u8 \<Rightarrow> nat))"
  proof (rule injI)
    fix x y :: u8 assume "(char_of \<circ> unat) x = (char_of \<circ> unat) y"
    then have "(of_char (char_of (unat x)) :: nat) = of_char (char_of (unat y))" by simp
    moreover have "unat x < 256" "unat y < 256" by simp_all
    ultimately show "x = y" unfolding of_char_of by (simp add: word_unat_eq_iff)
  qed
  then have "inj_on (\<lambda>a. map (char_of \<circ> (unat :: u8 \<Rightarrow> nat)) a @ replicate 11 CHR ''0'') {a. length a = 6}"
    by (auto simp: inj_on_def inj_map_eq_map)
  then show ?thesis by (simp add: storage_ok_def ex_storage_def names_ok_def)
qed

end
