(* ===== verification/Ap_Properties.thy ===== *)
theory Ap_Properties
  imports Ap_Example Tag_Behaviour
begin

unbundle bit_operations_syntax

text \<open>
  The properties of the access point and of the two roles together, each with a witness: a concrete
  access point and tag on which its hypotheses hold.
\<close>

subsection \<open>On the air\<close>

text \<open>C3: a command for one tag that the host queues for its group reaches the tag with the group's next
  request, is executed by it, and what the tag answers is what the host reads: the access point sends
  the encrypted packet, the tag decrypts it, runs the command that carries its identifier and no other,
  answers in the slot with the command's position, and the access point decrypts and prints the answer.\<close>
theorem command_round_trip:
  assumes ap: "ap_platform ea" "1 \<le> tx_buffers (acfg ea)" "wf_sync ea s" "unat g < max_group (acfg ea)"
      "sb_status (c_sync_buf s ! unat g) \<in> {SYNC_EMPTY, SYNC_PUSHED}"
      "length (ai_rand x) = 5" "ai_set_data y = 0"
    and tag: "env_ok et" "\<And>i. inp_ok (xs i)" "inp_ok z" "length stack = 61" "for_tag et t g pre cmd post"
    and same: "crypto_agrees ea et" "esl_ap_key t = c_ap_key s" and slot: "length pre < rsp_buffers (acfg ea)"
    and run: "run_command et (xs (length pre)) ev stack g pre cmd post t = Some u"
      "list_all (\<lambda>c. \<not> addressed (c ! 1) u) post" "ecp_rsp_net_buf u \<noteq> []"
      "rb_key (rsp_at g (of_nat (length pre)) s) = esl_rsp_key u"
    and data: "data = esl_payload g (pre @ cmd # post)"
  shows "yields (do {
      (r, s1) \<leftarrow> esl_c_push_sync_buf ea x data (of_nat (length data)) g s;
      s2 \<leftarrow> esl_ap_sync_fill_buf_work_fn ea y (pawr_request g 1 s1);
      t1 \<leftarrow> recv_cb et ev g (packet_for g s2) t;
      t2 \<leftarrow> esl_pawr_sync_work_fn et xs z stack t1;
      (slot, bytes) \<leftarrow> last_response t2;
      s3 \<leftarrow> pawr_response g slot bytes s2;
      esl_ap_resp_fill_buf_work_fn ea s3
    }) (\<lambda>s4. last (c_trace s4) = Ap_report (Rep_response g (of_nat (length pre))
      ([of_nat (length (ecp_rsp_net_buf u) + 1), BT_DATA_ESL] @ ecp_rsp_net_buf u)))"
proof -
  have z: "zephyr_ok (azep ea)" and c: "ap_cfg_ok (acfg ea)" using ap(1) by (simp_all add: ap_platform_def)
  have n: "data \<noteq> []" "length data \<le> 48" using tag(5) by (simp_all add: data esl_payload_def for_tag_def)
  have packet: "air_packet (azep ea) (c_ap_key s) ([of_nat (length data + 1), BT_DATA_ESL] @ data) =
      air_packet (zep et) (esl_ap_key t) (esl_packet g (pre @ cmd # post))"
    using same by (simp add: air_packet_def crypto_agrees_def esl_packet_def data)
  have i: "unat (of_nat (length pre) :: u8) < rsp_buffers (acfg ea)"
    using slot c by (subst unat_of_nat_u8) (simp_all add: ap_cfg_ok_def)
  note answer = answer_reported [where xs = xs, OF z same(1) tag run(1-3) _ ap(4) i refl]
  obtain r s1 s2 where s: "esl_c_push_sync_buf ea x data (of_nat (length data)) g s = Some (r, s1)"
    "esl_ap_sync_fill_buf_work_fn ea y (pawr_request g 1 s1) = Some s2" "wf_sync ea s2"
    "packet_for g s2 = air_packet (zep et) (esl_ap_key t) (esl_packet g (pre @ cmd # post))"
    "sb_rsp (c_sync_buf s2 ! unat g) = sb_rsp (c_sync_buf s ! unat g)"
    using ap_sends [OF z c ap(2-5) n ap(6,7)] unfolding packet by (auto simp: yields_def split: option.splits bind_splits)
  show ?thesis
    unfolding s(1,2) bind.bind_lunit prod.case by (rule answer [OF s(3) _ s(4)]) (use run(4) s(5) in simp)
qed

text \<open>A ping for tag 5 of group 1, answered in slot 0.\<close>

lemma ex_ping_for: "for_tag ex_env ex_synced 1 [] [OP_PING, 5] []"
  using ex_synced_wf
  by (simp add: for_tag_def ex_synced_def GROUPID_BYTE_def LOW_BYTE_def ex_cfg_def tlv_ok_def esl_payload_def ECP_LEN_nibble)

lemma ex_ping_run:
  "case run_command ex_env ex_inp 3 (replicate 61 0) 1 [] [OP_PING, 5] [] ex_synced of None \<Rightarrow> False
   | Some u \<Rightarrow> ecp_rsp_net_buf u = [0x10, 0, 0] \<and> key_v (esl_rsp_key u) = replicate 24 0 \<and> length (session_key (esl_rsp_key u)) = 16"
  by code_simp

theorem command_round_trip_witness:
  "yields (do {
      (r, s1) \<leftarrow> esl_c_push_sync_buf ex_ap_env ex_ap_inp [1, OP_PING, 5] 3 1 ex_ap;
      s2 \<leftarrow> esl_ap_sync_fill_buf_work_fn ex_ap_env ex_ap_inp (pawr_request 1 1 s1);
      t1 \<leftarrow> recv_cb ex_env 3 1 (packet_for 1 s2) ex_synced;
      t2 \<leftarrow> esl_pawr_sync_work_fn ex_env (\<lambda>_. ex_inp) ex_inp (replicate 61 0) t1;
      (slot, bytes) \<leftarrow> last_response t2;
      s3 \<leftarrow> pawr_response 1 slot bytes s2;
      esl_ap_resp_fill_buf_work_fn ex_ap_env s3
    }) (\<lambda>s4. last (c_trace s4) = Ap_report (Rep_response 1 0 [4, BT_DATA_ESL, 0x10, 0, 0]))"
proof -
  obtain u where u: "run_command ex_env ex_inp 3 (replicate 61 0) 1 [] [OP_PING, 5] [] ex_synced = Some u"
    "ecp_rsp_net_buf u = [0x10, 0, 0]" "key_v (esl_rsp_key u) = replicate 24 0" "length (session_key (esl_rsp_key u)) = 16"
    using ex_ping_run by (auto split: option.splits)
  have k: "esl_rsp_key u = \<lparr>session_key = replicate 16 0, iv = replicate 8 0\<rparr>"
  proof -
    have "session_key (esl_rsp_key u) @ iv (esl_rsp_key u) = replicate 16 0 @ replicate 8 0"
      using u(3) by (simp add: key_v_def flip: replicate_add)
    then show ?thesis using u(4) by simp
  qed
  have b: "sb_status (c_sync_buf ex_ap ! 1) = SYNC_EMPTY" "rb_key (rsp_at 1 0 ex_ap) = \<lparr>session_key = replicate 16 0, iv = replicate 8 0\<rparr>"
    by (simp_all add: ex_ap_buffers zero_sync_buf_def zero_rsp_buffer_def)
  have "esl_ap_key ex_synced = c_ap_key ex_ap"
    by (simp add: ex_synced_def ex_tag_def static_tag_def ex_ap_key key_of_bytes_def zero_key_def)
  then show ?thesis
    using command_round_trip [of ex_ap_env ex_ap 1 ex_ap_inp ex_ap_inp ex_env "\<lambda>_. ex_inp" ex_inp "replicate 61 0" ex_synced "[]" "[OP_PING, 5]" "[]" 3 u
        "[1, OP_PING, 5]"] ex_ap_platform ex_ap_wf b ex_env_ok ex_inp_ok ex_ping_for ex_crypto u k
    by (simp add: ex_ap_inp_def esl_payload_def)
qed

subsection \<open>The synchronisation buffers\<close>

text \<open>C11: whatever sequence of requests, responses of any bytes, reports, packets and keys of the host,
  predefined packets and pings has happened, the next event runs without undefined behaviour and leaves
  well-formed buffers if it is in range, and is undefined if it is not. Out of range are groups
  and slots that are not configured, more waiting packets in a request than transmit buffers, a response or
  a packet that is too long, too few keys, and the report on a response of the single byte 0 in a buffer
  that still shows the header of an earlier one.\<close>
theorem ap_traffic:
  assumes "ap_platform e" "pull_asserts (azep e)" "sync_inv e s0" "sync_reach e s0 s" "input_ok e ev"
  shows "if in_range e s ev then yields (perform e ev s) (sync_inv e) else perform e ev s = None"
  by (rule event_exact [OF assms(1,2) reach_inv [OF assms(4,1-3)] assms(5)])

lemma ex_reach: "sync_reach ex_ap_env ex_ap (pawr_request 0 4 ex_ap)"
  by (rule sync_next [OF sync_start, where ev = "Ev_request 0 4"]) simp_all

lemma ex_pull_asserts: "pull_asserts (azep ex_ap_env)"
  by (simp add: pull_asserts_def zephyr_ref_def)

text \<open>An earlier response, one that does not decrypt, is in the slot.\<close>

definition ex_answered :: ap where
  "ex_answered = the (pawr_response 1 0 [2, 0x31, 9] ex_ap)"

lemma ex_answered_wf: "wf_sync ex_ap_env ex_answered" "rb_data (rsp_at 1 0 ex_answered) ! 1 = 0x31"
proof -
  obtain t where t: "pawr_response 1 0 [2, 0x31, 9] ex_ap = Some t" "wf_sync ex_ap_env t"
    using wf_pawr_response [OF ex_ap_wf, of 1 0 "[2, 0x31, 9]"] by (auto elim: yieldsE)
  have d: "take 3 (rb_data (rsp_at 1 0 t)) = [2, 0x31, 9]"
    using yieldsD [OF pawr_response_stores [OF ex_ap_wf, of 1 0 "[2, 0x31, 9]"] t(1)] by (simp add: numeral_3_eq_3)
  have "rb_data (rsp_at 1 0 t) ! 1 = take 3 (rb_data (rsp_at 1 0 t)) ! 1" by simp
  then have "rb_data (rsp_at 1 0 t) ! 1 = 0x31" unfolding d by simp
  then show "wf_sync ex_ap_env ex_answered" "rb_data (rsp_at 1 0 ex_answered) ! 1 = 0x31"
    using t by (simp_all add: ex_answered_def)
qed

lemma ex_answered_reach: "sync_reach ex_ap_env ex_ap ex_answered"
proof -
  obtain t where t: "pawr_response 1 0 [2, 0x31, 9] ex_ap = Some t"
    using wf_pawr_response [OF ex_ap_wf, of 1 0 "[2, 0x31, 9]"] by (auto elim: yieldsE)
  then show ?thesis
    by (intro sync_next [OF sync_start, where ev = "Ev_response 1 0 [2, 0x31, 9]"]) (simp_all add: ex_answered_def)
qed

theorem ap_traffic_witness:
  "yields (perform ex_ap_env (Ev_response 3 2 [2, 0x31, 7]) (pawr_request 0 4 ex_ap)) (sync_inv ex_ap_env) \<and>
   (\<exists>t. sync_reach ex_ap_env ex_ap t \<and> perform ex_ap_env Ev_report t = None)"
proof (rule conjI)
  note app = ap_traffic [OF ex_ap_platform ex_pull_asserts ex_ap_inv]
  show "yields (perform ex_ap_env (Ev_response 3 2 [2, 0x31, 7]) (pawr_request 0 4 ex_ap)) (sync_inv ex_ap_env)"
    using app [OF ex_reach, of "Ev_response 3 2 [2, 0x31, 7]"] by simp
  obtain t where t: "pawr_response 1 0 [0] ex_answered = Some t" and f: "c_resp_subevent t = 1" "c_resp_slot t = 0"
      "rb_len (rsp_at 1 0 t) = 1" "rb_data (rsp_at 1 0 t) ! 0 = 0" "rb_data (rsp_at 1 0 t) ! 1 = 0x31"
    using one_byte_stored [OF ex_answered_wf(1) _ _ ex_answered_wf(2)] by (auto elim!: yieldsE)
  have r: "sync_reach ex_ap_env ex_ap t"
    by (rule sync_next [OF ex_answered_reach, where ev = "Ev_response 1 0 [0]"]) (simp_all add: t)
  have "\<not> in_range ex_ap_env t Ev_report" using f by (simp add: Let_def)
  then show "\<exists>t. sync_reach ex_ap_env ex_ap t \<and> perform ex_ap_env Ev_report t = None"
    using app [OF r, of Ev_report] r by auto
qed

text \<open>C12: a request of the controller for \<open>count\<close> subevents from \<open>g\<close> on gets exactly the packets that wait for
  them, in their order; they count as pushed when the controller takes them and keep waiting when it does
  not.\<close>
theorem controller_request:
  assumes "ap_platform e" "wf_sync e s" "unat count \<le> max_group (acfg e)" "unat count \<le> tx_buffers (acfg e)"
  shows "esl_c_push_sync_to_controller e x g count s =
    (let cs = ready_subevents e g 0 (unat count) s; t = ap_effect (Ap_set_subevents (map (subevent_of e s) cs)) s
     in if cs = [] then Some (0, s)
        else Some (ai_set_data x, if ai_set_data x = 0 then t\<lparr>c_sync_buf := set_status cs SYNC_PUSHED (c_sync_buf s)\<rparr> else t))"
proof -
  have "length (ready_subevents e g 0 (unat count) s) \<le> tx_buffers (acfg e)"
    using assms(4) by (auto simp: ready_subevents_def window_def intro: order_trans [OF length_filter_le])
  then show ?thesis
    using push_to_controller [OF _ _ assms(2,3) refl, of x g] assms(1) by (simp add: ap_platform_def Let_def)
qed

theorem controller_request_witness:
  "esl_c_push_sync_to_controller ex_ap_env ex_ap_inp 2 4 ex_ap = Some (0, ex_ap)"
proof -
  have "ready_subevents ex_ap_env 2 0 (unat (4 :: u8)) ex_ap = []"
    by (auto simp: ready_subevents_def ex_ap_buffers zero_sync_buf_def filter_empty_conv window_def)
  then show ?thesis using controller_request [OF ex_ap_platform ex_ap_wf, of 4 ex_ap_inp 2] by (simp add: Let_def)
qed

text \<open>C40: any response for a group, legitimate or not, takes the packet that waits for the group out of the
  controller's next request, and the host's next packet is refused until it takes the responses.\<close>
theorem late_response:
  assumes "ap_platform e" "sync_inv e s" "unat g < max_group (acfg e)" "unat i < rsp_buffers (acfg e)"
    and "2 \<le> length b" "length b \<le> 61"
  shows "yields (do { t \<leftarrow> pawr_response g i b s; esl_ap_resp_fill_buf_work_fn e t }) (\<lambda>t.
    ready_subevents e g 0 1 t = [] \<and> esl_c_push_sync_buf e x d (of_nat (length d)) g t = Some (- EBUSY, t))"
proof (rule yields_mono [OF response_then_report [OF assms]])
  fix t assume t: "sync_inv e t \<and> sb_status (c_sync_buf t ! unat g) = SYNC_RESP_FULL"
  then have "unat g < length (c_sync_buf t)" using assms(3) wf_sync_buf(2) by (metis sync_inv_def)
  then show "ready_subevents e g 0 1 t = [] \<and> esl_c_push_sync_buf e x d (of_nat (length d)) g t = Some (- EBUSY, t)"
    using t ready_subevents_one [OF assms(3), of t] by (simp add: esl_c_push_sync_buf_def)
qed

theorem late_response_witness:
  "yields (do { t \<leftarrow> pawr_response 2 1 [7, 7, 7] ex_ap; esl_ap_resp_fill_buf_work_fn ex_ap_env t })
    (\<lambda>t. ready_subevents ex_ap_env 2 0 1 t = [])"
  by (rule yields_mono [OF late_response [OF ex_ap_platform ex_ap_inv, of 2 1 "[7, 7, 7]" ex_ap_inp "[1]"]]) simp_all

text \<open>A response of the single byte 0 in a slot whose memory still shows the header of an earlier response
  passes the check of the header, and removing the header's two bytes from it fails.\<close>
theorem one_byte_response:
  assumes "pull_asserts (azep e)" "wf_sync e s" "unat g < max_group (acfg e)" "unat i < rsp_buffers (acfg e)"
    and "rb_data (rsp_at g i s) ! 1 = BT_DATA_ENCRYPTED_AD_DATA"
  shows "do { t \<leftarrow> pawr_response g i [0] s; esl_ap_resp_fill_buf_work_fn e t } = None"
  by (rule one_byte_fails [OF assms])

theorem one_byte_response_witness:
  "do { t \<leftarrow> pawr_response 1 0 [0] ex_answered; esl_ap_resp_fill_buf_work_fn ex_ap_env t } = None"
  by (rule one_byte_response [OF ex_pull_asserts ex_answered_wf(1) _ _ ex_answered_wf(2)]) simp_all


subsection \<open>Giving a tag its address\<close>

text \<open>C4: when the access point configures a connected tag that is in Unassociated, the tag ends up
  configuring with the address, the key of the access point and the response key that the access point
  remembers for it.\<close>
theorem configuration_associates:
  assumes "zephyr_ok (azep ea)" "zephyr_ok (zep et)" "key_ok (c_ap_key s)"
    and "wf_link ea s" "reachable_tag_link ea x c s" "c = c_config_conn s" "i = unat c"
    and "\<not> c_write_wo_rsp s" "ai_read x = 0" "length (ai_rand_key x) = EAD_KEY_MATERIAL_LEN"
    and "ap_auto_mode (acfg ea) \<longrightarrow> slot_ok ea (c_config_addr s) s" "LOW_BYTE (c_config_addr s) \<noteq> ESL_ADDR_BROADCAST"
    and "handles_ok (g_handles (c_gatt s ! i))" "\<forall>k. \<not> bit (configuring_state t) (kind_bit k)"
  shows "yields (esl_ap_config_work_fn ea x s) (\<lambda>s'. let d = g_device (c_gatt s' ! i) in
    dev_esl_addr d = c_config_addr s \<and>
    yields (prov_runs et (tag_writes (g_handles (c_gatt s ! i)) now (drop (length (c_trace s)) (c_trace s'))) t) (\<lambda>t'.
      esl_addr t' = unset_bit ESL_ADDR_RFU_BIT (dev_esl_addr d) \<and> esl_ap_key t' = c_ap_key s \<and>
      esl_rsp_key t' = dev_rsp_key d \<and> esl_state t' = SM_CONFIGURING))"
  by (rule config_associates [OF assms])

theorem configuration_associates_witness:
  "yields (esl_ap_config_work_fn ex_ap_env ex_ap_inp ex_linked) (\<lambda>s.
    yields (prov_runs ex_env (tag_writes [11, 12, 13, 14, 15, 16, 17, 18, 19, 20, 21] 7 (c_trace s)) ex_tag) (\<lambda>t.
      esl_addr t = 0x0102 \<and> esl_ap_key t = c_ap_key ex_linked \<and> esl_state t = SM_CONFIGURING))"
proof -
  have l: "c_config_conn ex_linked = 0" "c_trace ex_linked = []" "\<not> c_write_wo_rsp ex_linked" "c_config_addr ex_linked = 0x0102"
    "g_handles (c_gatt ex_linked ! 0) = [11, 12, 13, 14, 15, 16, 17, 18, 19, 20, 21]" "key_ok (c_ap_key ex_linked)"
    using ex_ap_key by (simp_all add: ex_linked_def) (simp_all add: ex_ap_def static_ap_def)
  have h: "handles_ok [11, 12, 13, 14, 15, 16, 17, 18, 19, 20, 21]" by (simp add: handles_ok_def)
  have t: "\<forall>k. \<not> bit (configuring_state ex_tag) (kind_bit k)" by (simp add: ex_tag_def static_tag_def)
  have o: "slot_ok ex_ap_env 0x0102 ex_linked"
    using ex_linked_wf(2) by (simp add: slot_ok_def wf_sync_def GROUPID_BYTE_def LOW_BYTE_def)
  have a: "LOW_BYTE (0x0102 :: u16) \<noteq> ESL_ADDR_BROADCAST" "unset_bit ESL_ADDR_RFU_BIT (0x0102 :: u16) = 0x0102"
    by (simp_all add: LOW_BYTE_def unset_bit_eq)
  have "yields (esl_ap_config_work_fn ex_ap_env ex_ap_inp ex_linked) (\<lambda>s'. let d = g_device (c_gatt s' ! 0) in
    dev_esl_addr d = 0x0102 \<and>
    yields (prov_runs ex_env (tag_writes [11, 12, 13, 14, 15, 16, 17, 18, 19, 20, 21] 7 (drop (length (c_trace ex_linked)) (c_trace s'))) ex_tag) (\<lambda>t'.
      esl_addr t' = unset_bit ESL_ADDR_RFU_BIT (dev_esl_addr d) \<and> esl_ap_key t' = c_ap_key ex_linked \<and>
      esl_rsp_key t' = dev_rsp_key d \<and> esl_state t' = SM_CONFIGURING))"
    using configuration_associates [OF _ _ _ ex_linked_wf(1) ex_linked_ok, of ex_env 0 ex_tag 7] ex_zephyr_ok zephyr_ref_ok l h t o a
    by (simp add: ex_ap_inp_def)
  then show ?thesis by (rule yields_mono) (auto simp: Let_def l(2) a elim: yields_mono)
qed

text \<open>The \<open>n\<close>-th address after the one that is due.\<close>

definition addr_after :: "('s, 'm) ap_env \<Rightarrow> ap \<Rightarrow> nat \<Rightarrow> u16" where
  "addr_after e s n = c_addr_start (((\<lambda>t. t\<lparr>c_addr_start := next_esl_addr e t\<rparr>) ^^ n) s)"


lemma addr_after_Suc: "addr_after e s (Suc n) = next_esl_addr e (((\<lambda>t. t\<lparr>c_addr_start := next_esl_addr e t\<rparr>) ^^ n) s)"
  by (simp add: addr_after_def)

lemma addr_after_eq:
  assumes t: "tags = unat (c_tags_per_group s)" "1 \<le> tags" "unat (default_esl_id (acfg e)) + tags \<le> 255"
    and a: "c_addr_start s = nth_addr e tags g 0"
  shows "addr_after e s n = nth_addr e tags g n"
proof (induction n)
  case (Suc n)
  let ?s = "((\<lambda>t. t\<lparr>c_addr_start := next_esl_addr e t\<rparr>) ^^ n) s"
  have "c_tags_per_group (((\<lambda>t. t\<lparr>c_addr_start := next_esl_addr e t\<rparr>) ^^ m) s) = c_tags_per_group s" for m by (induction m) simp_all
  then show ?case
    unfolding addr_after_Suc by (intro next_addr) (use Suc t in \<open>simp_all add: addr_after_def\<close>)
qed (simp add: addr_after_def a)

text \<open>C25: the addresses that the access point hands out one after another, from the first address of any group
  on and with at least one tag in a group but so few that no identifier gets past 254 (default identifier plus tags at most
  255), are different until every group is full, none of them is a broadcast, and each group gets as many as the
  host has set.\<close>
theorem addresses_handed_out:
  assumes t: "tags = unat (c_tags_per_group s)" "1 \<le> tags" "unat (default_esl_id (acfg e)) + tags \<le> 255"
    and a: "unat (c_addr_start s) = g mod 128 * 256 + unat (default_esl_id (acfg e))"
  shows "inj_on (addr_after e s) {..<128 * tags} \<and>
    (\<forall>n. LOW_BYTE (addr_after e s n) \<noteq> ESL_ADDR_BROADCAST \<and> unat (GROUPID_BYTE (addr_after e s n)) = (g + n div tags) mod 128)"
proof -
  have "c_addr_start s = of_nat (g mod 128 * 256 + unat (default_esl_id (acfg e)))"
    unfolding a [symmetric] by simp
  then have "c_addr_start s = nth_addr e tags g 0" by (simp add: nth_addr_def)
  note eq = addr_after_eq [OF t this]
  show ?thesis
    unfolding inj_on_def eq using nth_addr_ok [OF t(2,3)] nth_addr_inj [OF t(2,3)] by blast
qed

theorem addresses_handed_out_witness:
  "addr_after ex_ap_env ex_ap 5 \<noteq> addr_after ex_ap_env ex_ap 511 \<and> unat (GROUPID_BYTE (addr_after ex_ap_env ex_ap 4)) = 1"
proof -
  have s: "4 = unat (c_tags_per_group ex_ap)" "unat (c_addr_start ex_ap) = 0 mod 128 * 256 + unat (default_esl_id (acfg ex_ap_env))"
    by (simp_all add: ex_ap_def static_ap_def)
  have l: "(1 :: nat) \<le> 4" "unat (default_esl_id (acfg ex_ap_env)) + 4 \<le> 255" by simp_all
  note p = addresses_handed_out [OF s(1) l s(2)]
  have "addr_after ex_ap_env ex_ap 5 \<noteq> addr_after ex_ap_env ex_ap 511" using p by (auto dest: inj_onD [where x = 5 and y = 511])
  moreover have "unat (GROUPID_BYTE (addr_after ex_ap_env ex_ap 4)) = 1" using p by simp
  ultimately show ?thesis by blast
qed

subsection \<open>Starting up\<close>

text \<open>C23: an access point that starts for the first time queues a ping for every group under the zero key,
  then generates its key and stores it; after a reset it has that key again and queues the pings under it.\<close>
theorem start_up_keys:
  assumes "zephyr_ok (azep e)" "settings_reliable (azep e)" "ap_cfg_ok (acfg e)" "4 \<le> rsp_buffers (acfg e)"
    and p: "\<And>i. length (ai_rand (pi_dummy p i)) = 5" "pi_subsys p = 0" "pi_register p = 0" "length (pi_rand_key p) = EAD_KEY_MATERIAL_LEN"
    and q: "\<And>i. length (ai_rand (pi_dummy q i)) = 5" "pi_subsys q = 0" "pi_register q = 0" "length (pi_rand_key q) = EAD_KEY_MATERIAL_LEN"
    and key: "stored ''esl_c/esl_ap_key'' = None" "pi_rand_key p \<noteq> replicate EAD_KEY_MATERIAL_LEN 0" "''esl_ap_key'' \<in> set (pi_order q)"
  shows "yields (do {
      (r1, t) \<leftarrow> bt_esl_client_init e p (static_ap e image_size tags groups stored);
      (r2, u) \<leftarrow> bt_esl_client_init e q (static_ap e image_size tags groups (c_settings t));
      Some (r1, r2, t, u)
    }) (\<lambda>(r1, r2, t, u). r1 = 0 \<and> r2 = 0 \<and> c_ap_key t = key_of_bytes (pi_rand_key p) \<and> c_ap_key u = c_ap_key t \<and>
      (\<forall>g < max_group (acfg e).
        queued e (key_of_bytes (replicate EAD_KEY_MATERIAL_LEN 0)) [of_nat g, OP_PING, ESL_ADDR_BROADCAST] (c_sync_buf t ! g) \<and>
        queued e (c_ap_key t) [of_nat g, OP_PING, ESL_ADDR_BROADCAST] (c_sync_buf u ! g)))"
proof -
  let ?s = "\<lambda>st. static_ap e image_size tags groups st"
  have k: "key_ok (c_ap_key (?s st))" "length (c_randomizer (?s st)) = EAD_RANDOMIZER_LEN" for st
    by (simp_all add: static_ap_def key_ok_def key_of_bytes_def)
  have f: "c_settings (ap_init_fields e (?s st)) = st" "c_ap_key (ap_init_fields e (?s st)) = key_of_bytes (replicate EAD_KEY_MATERIAL_LEN 0)" for st
    by (simp_all add: ap_init_fields_def static_ap_def)
  have "c_ap_key (fold ap_load_entry order (ap_init_fields e (?s stored))) = key_of_bytes (replicate 24 0)" for order
    using key(1) by (simp add: ap_load_no_key f)
  note init1 = init_eq [where p = p and s = "?s stored", OF assms(1,3) p(1) assms(4) k p(2-4) refl assms(2), unfolded this]
  obtain t where t: "bt_esl_client_init e p (?s stored) = Some (0, t)" "c_settings t ''esl_c/esl_ap_key'' = Some (pi_rand_key p)"
    "c_ap_key t = key_of_bytes (pi_rand_key p)"
    "\<forall>g < max_group (acfg e). queued e (key_of_bytes (replicate 24 0)) [of_nat g, OP_PING, ESL_ADDR_BROADCAST] (c_sync_buf t ! g)"
    using init1 by (auto elim!: yieldsE)
  have "c_ap_key (fold ap_load_entry (pi_order q) (ap_init_fields e (?s (c_settings t)))) = key_of_bytes (pi_rand_key p)"
    by (rule ap_load_key) (use t p key in \<open>simp_all add: f\<close>)
  note init2 = init_eq [where p = q, OF assms(1,3) q(1) assms(4) k q(2-4) this [symmetric] assms(2)]
  obtain u where u: "bt_esl_client_init e q (?s (c_settings t)) = Some (0, u)" "c_ap_key u = key_of_bytes (pi_rand_key p)"
    "\<forall>g < max_group (acfg e). queued e (key_of_bytes (pi_rand_key p)) [of_nat g, OP_PING, ESL_ADDR_BROADCAST] (c_sync_buf u ! g)"
    using init2 key(2) p(4) by (auto elim!: yieldsE)
  show ?thesis using t u by simp
qed

definition ex_start :: ap_init_inp where
  "ex_start = \<lparr>pi_order = [''esl_ap_key''], pi_subsys = 0, pi_register = 0, pi_load = 0, pi_dummy = (\<lambda>_. ex_ap_inp),
     pi_rand_key = replicate 24 3, pi_now = 5\<rparr>"

theorem start_up_keys_witness:
  "yields (do {
      (r1, t) \<leftarrow> bt_esl_client_init ex_ap_env ex_start (static_ap ex_ap_env 16 4 1 Map.empty);
      (r2, u) \<leftarrow> bt_esl_client_init ex_ap_env ex_start (static_ap ex_ap_env 16 4 1 (c_settings t));
      Some (r1, r2, t, u)
    }) (\<lambda>(r1, r2, t, u). c_ap_key u = key_of_bytes (replicate 24 3))"
proof -
  have r: "settings_reliable (azep ex_ap_env)" by (simp add: settings_reliable_def zephyr_ref_def)
  have n: "replicate 24 (3 :: u8) \<noteq> replicate 24 0" by (simp add: replicate_eq_replicate)
  show ?thesis
    by (rule yields_mono [OF start_up_keys [OF _ r]])
      (use n in \<open>simp_all add: ex_start_def ex_ap_inp_def zephyr_ref_ok ex_ap_cfg_ok case_prod_unfold\<close>)
qed


subsection \<open>Remembering tags\<close>

text \<open>C18: a tag that was saved is found by its ESL address and by its Bluetooth address and loaded with the
  address and the response key it had, also after another tag was saved.\<close>
theorem tag_storage_round_trip:
  assumes "storage_ok v" "st_bt_keys v \<longrightarrow> bond \<noteq> None" "st_bt_keys v \<longrightarrow> bond' \<noteq> None"
    and tag: "length (ba_val (dev_ble_addr tag)) = 6" "key_ok (dev_rsp_key tag)"
    and other: "length (ba_val (dev_ble_addr other)) = 6" "ba_val (dev_ble_addr other) \<noteq> ba_val (dev_ble_addr tag)"
      "dev_esl_addr other \<noteq> dev_esl_addr tag"
    and d: "key_ok (dev_rsp_key d)" "length (ba_val junk) = 6"
  shows "yields (do {
      (r1, fs1) \<leftarrow> save_tag_in_storage v bond tag fs;
      (r2, fs2) \<leftarrow> save_tag_in_storage v bond' other fs1;
      (r3, d', fs3) \<leftarrow> load_tag_in_storage v (dev_ble_addr tag) d fs2;
      (r4, a, fs4) \<leftarrow> find_tag_in_storage_with_esl_addr v (dev_esl_addr tag) junk fs2;
      (r5, addr, fs5) \<leftarrow> find_tag_in_storage_with_ble_addr v any (dev_ble_addr tag) fs2;
      Some ([r1, r2, r3, r4, r5], d', a, addr)
    }) (\<lambda>(rs, d', a, addr). rs = [0, 0, 0, 0, 0] \<and> a = dev_ble_addr tag \<and> addr = dev_esl_addr tag \<and>
      d' = d\<lparr>dev_esl_addr := dev_esl_addr tag, dev_rsp_key := dev_rsp_key tag,
        dev_past_needed := (dev_past_needed d \<or> dev_connect_from d = ACL_FROM_SCAN)\<rparr>)"
proof -
  obtain fs1 where 1: "save_tag_in_storage v bond tag fs = Some (0, fs1)" "tag_stored v bond tag fs fs1"
    using save_saves [OF assms(1) tag(1) assms(2)] by blast
  obtain fs2 where 2: "save_tag_in_storage v bond' other fs1 = Some (0, fs2)" "tag_stored v bond' other fs1 fs2"
    using save_saves [OF assms(1) other(1) assms(3)] by blast
  have k: "kept_files v tag fs1 fs2"
    by (rule save_keeps_other [OF _ tag(1) other 2(2)]) (use assms(1) in \<open>simp add: storage_ok_def\<close>)
  obtain fs3 fs4 fs5 where "load_tag_in_storage v (dev_ble_addr tag) d fs2 = Some (0, d\<lparr>dev_esl_addr := dev_esl_addr tag,
      dev_rsp_key := dev_rsp_key tag, dev_past_needed := (dev_past_needed d \<or> dev_connect_from d = ACL_FROM_SCAN)\<rparr>, fs3)"
    "find_tag_in_storage_with_esl_addr v (dev_esl_addr tag) junk fs2 = Some (0, dev_ble_addr tag, fs4)"
    "find_tag_in_storage_with_ble_addr v any (dev_ble_addr tag) fs2 = Some (0, dev_esl_addr tag, fs5)"
    using saved_loads [OF assms(1) tag 1(2) k d(1)] saved_found [OF assms(1) tag(1) 1(2) k d(2)] by blast
  then show ?thesis using 1(1) 2(1) by simp
qed

text \<open>Two tags, saved in the storage over a map.\<close>

definition ex_known :: "u16 \<Rightarrow> u8 \<Rightarrow> ap_device" where
  "ex_known a b = (zero_device ex_ap_env)\<lparr>dev_esl_addr := a, dev_ble_addr := \<lparr>ba_type = 1, ba_val = [b, 2, 3, 4, 5, 6]\<rparr>,
     dev_rsp_key := key_of_bytes (replicate 24 b)\<rparr>"

theorem tag_storage_round_trip_witness:
  "yields (do {
      (r1, fs1) \<leftarrow> save_tag_in_storage ex_storage None (ex_known 5 1) Map.empty;
      (r2, fs2) \<leftarrow> save_tag_in_storage ex_storage None (ex_known 6 2) fs1;
      (r3, d', fs3) \<leftarrow> load_tag_in_storage ex_storage (dev_ble_addr (ex_known 5 1)) (zero_device ex_ap_env) fs2;
      (r4, a, fs4) \<leftarrow> find_tag_in_storage_with_esl_addr ex_storage (dev_esl_addr (ex_known 5 1)) ex_peer fs2;
      (r5, addr, fs5) \<leftarrow> find_tag_in_storage_with_ble_addr ex_storage 0xffff (dev_ble_addr (ex_known 5 1)) fs2;
      Some ([r1, r2, r3, r4, r5], d', a, addr)
    }) (\<lambda>(rs, d', a, addr). addr = 5 \<and> dev_rsp_key d' = key_of_bytes (replicate 24 1))"
  by (rule yields_mono [OF tag_storage_round_trip [OF ex_storage_ok]])
    (auto simp: ex_storage_def ex_known_def ex_peer_def zero_device_def key_ok_def key_of_bytes_def)

text \<open>C32: loading the stored tags at the start moves the next address past the address of every stored tag
  (unless one is 0xffff) but, for whatever group it is called, fetches no response key.\<close>
theorem stored_tags_loaded:
  assumes "listing v TAG_ESL_ADDR_ROOT ds fs" "fa_opendir (st_fs v) TAG_ESL_ADDR_ROOT fs = 0"
    and "\<forall>d \<in> set (filter de_is_file ds). entry_addr d \<noteq> 0xffff"
  shows "yields (load_all_tags_in_storage e v g s fs) (\<lambda>(r, t, fs').
    r = 0 \<and> fs' = fs \<and> c_sync_buf t = c_sync_buf s \<and> uint (c_addr_start s) \<le> uint (c_addr_start t) \<and>
    (\<forall>d \<in> set ds. de_is_file d \<longrightarrow> uint (entry_addr d) < uint (c_addr_start t)))"
  using raised_above [OF assms(3)] by (simp add: load_all_listing [OF assms(1,2)] raise_keeps)

text \<open>A directory with the tags 0x0005 and 0x0103.\<close>

definition ex_listed :: "(string \<Rightarrow> u8 list option) storage_env" where
  "ex_listed = ex_storage\<lparr>st_fs := file_map\<lparr>fa_readdir := (\<lambda>n k m. (0, \<lparr>de_name = [''0005'', ''0103'', []] ! min k 2,
     de_is_file = True, de_size = 34\<rparr>))\<rparr>\<rparr>"

theorem stored_tags_loaded_witness:
  "yields (load_all_tags_in_storage ex_ap_env ex_listed 0x80 ex_ap Map.empty) (\<lambda>(r, t, fs).
    r = 0 \<and> c_sync_buf t = c_sync_buf ex_ap \<and> 0x103 < uint (c_addr_start t))"
proof -
  let ?ds = "[\<lparr>de_name = ''0005'', de_is_file = True, de_size = 34\<rparr>, \<lparr>de_name = ''0103'', de_is_file = True, de_size = 34\<rparr>]"
  have l: "listing ex_listed TAG_ESL_ADDR_ROOT ?ds Map.empty"
    by (auto simp: listing_def ex_listed_def less_Suc_eq numeral_eq_Suc)
  have o: "fa_opendir (st_fs ex_listed) TAG_ESL_ADDR_ROOT Map.empty = 0" by (simp add: ex_listed_def file_map_def)
  have n: "strtol16 ''0005'' = 5" "strtol16 ''0103'' = 0x103" by code_simp+
  show ?thesis
    by (rule yields_mono [OF stored_tags_loaded [OF l o]]) (auto simp: entry_addr_def n)
qed

subsection \<open>Connections\<close>

text \<open>C22: whatever scan results, connection attempts, connections and disconnections have happened since the
  start, no tag is listed twice and the tables of the connections have their sizes.\<close>
theorem scanned_once:
  assumes "link_runs e (static_ap e image_size tags groups stored) s"
  shows "distinct (map node_addr (c_scanned s)) \<and> length (c_conn s) = peripheral_max (acfg e) \<and>
    length (c_gatt s) = peripheral_max (acfg e)"
  using link_runs_ok [OF assms static_link_ok] by (simp add: link_ok_def scanned_addrs_def)

theorem scanned_once_witness:
  "distinct (map node_addr (c_scanned (scan_filter_match 0 True ex_peer (scan_filter_match 0 True ex_peer ex_ap))))"
proof -
  have "link_runs ex_ap_env (static_ap ex_ap_env 16 4 1 (\<lambda>_. None)) (scan_filter_match 0 True ex_peer (scan_filter_match 0 True ex_peer ex_ap))"
    unfolding ex_ap_def by (rule runs_step [OF runs_step [OF runs_refl step_match] step_match])
  from scanned_once [OF this] show ?thesis by blast
qed

text \<open>A connection attempt takes the first connection that is down, and none if all are up; it leaves the
  connections that are up and the list of scanned tags alone.\<close>
theorem connect_spares:
  assumes "link_ok e s"
  shows "yields (esl_c_connect e stop_code code new a addr s) (\<lambda>(r, t).
    (\<forall>i. link_up e (c_conn s ! i) \<longrightarrow> c_conn t ! i = c_conn s ! i) \<and> c_scanned t = c_scanned s \<and>
    ((\<forall>c \<in> set (c_conn s). link_up e c) \<longrightarrow> r = - ENOMEM \<and> t = s) \<and>
    (code = 0 \<longrightarrow> 0 \<le> r \<longrightarrow> nat r < length (c_conn s) \<and> \<not> link_up e (c_conn s ! nat r) \<and>
      (\<forall>i < nat r. link_up e (c_conn s ! i)) \<and> c_conn t = (c_conn s)[nat r := Some new]))"
proof -
  obtain r t where t: "esl_c_connect e stop_code code new a addr s = Some (r, t)"
    using connect_defined [of s e stop_code code new a addr] assms by (auto simp: link_ok_def elim!: yieldsE)
  note sp = connect_spares_links [OF t]
  have "r = - ENOMEM \<and> t = s" if "\<forall>c \<in> set (c_conn s). link_up e c"
    using t assms that by (simp add: esl_c_connect_def esl_c_get_free_conn_idx_def first_free_spec link_ok_def)
  moreover have "nat r < length (c_conn s) \<and> \<not> link_up e (c_conn s ! nat r) \<and> (\<forall>i < nat r. link_up e (c_conn s ! i))"
    if "code = 0" "0 \<le> r"
    using sp(5) [OF that] free_idx [OF _ , of e s r] free_first [of e s r] that(2) by auto
  ultimately show ?thesis using t sp by (simp add: yields_def)
qed

theorem connect_spares_witness:
  "yields (esl_c_connect ex_ap_env 0 0 ex_link ex_peer 0x01FF ex_linked) (\<lambda>(r, t). c_conn t ! 0 = Some ex_link)"
proof -
  have l: "link_ok ex_ap_env ex_linked" by (simp add: link_ok_def scanned_addrs_def ex_linked_def ex_ap_def static_ap_def)
  have c: "c_conn ex_linked ! 0 = Some ex_link" "link_up ex_ap_env (Some ex_link)"
    by (simp_all add: ex_linked_def link_up_def ex_link_def check_ble_connection_def)
  show ?thesis by (rule yields_mono [OF connect_spares [OF l]]) (auto dest: spec [of _ 0] simp: c)
qed

text \<open>C29: reading the display characteristic piece by piece stores what reading it in one piece stores.\<close>
theorem display_pieces:
  assumes "i < length (c_gatt s)" "c_read_offset s = 0" "length (concat ps) < 65536"
    and "length (concat ps) \<le> length (dev_displays (g_device (c_gatt s ! i)))"
  shows "run_reads (esl_c_read_disp_inf i) (pieces ps) s = run_reads (esl_c_read_disp_inf i) (pieces [concat ps]) s"
proof -
  have u: "unat (c_read_offset s) = 0" "concat [concat ps] = concat ps" using assms(2) by simp_all
  show ?thesis
    using read_disp_pieces [OF assms(1) u(1), of ps] read_disp_pieces [OF assms(1) u(1), of "[concat ps]"] assms(3,4)
    by (auto simp: u(2) elim!: yieldsE)
qed

theorem display_pieces_witness:
  "run_reads (esl_c_read_disp_inf 0) (pieces [[1, 2], [3], [4, 5]]) ex_linked =
    run_reads (esl_c_read_disp_inf 0) (pieces [[1, 2, 3, 4, 5]]) ex_linked"
  using display_pieces [of 0 ex_linked "[[1, 2], [3], [4, 5]]"]
  by (simp add: ex_linked_def zero_internal_def zero_device_def ex_ap_def static_ap_def ex_ap_cfg_def)

text \<open>C30: what offering the periodic sync transfer does. The rounds are those from the first on in which the tag
  is still connected and the transfer is accepted, at most as many as the retry count says (one more in the
  tester's configuration). Then the tag has gone, or the tester's rounds are over, and the result is 0; or the
  retries are over with the tag still there, which is disconnected; or the transfer was refused, and
  its code is returned. Nothing else is done.\<close>
theorem past_ends:
  assumes "unat conn_idx < max_conn (acfg e)" "unat conn_idx < length (c_conn s)"
    and "c_conn s ! unat conn_idx = Some l" "links 0 = Some l" "null_peer e \<noteq> None"
  shows "let retry = past_retry (acfg e); there = still_there e links (conn_peer l);
      k = length (takeWhile (\<lambda>j. there j \<and> code j = 0 \<and> (j \<noteq> retry \<or> ap_pts (acfg e))) [0..<retry + 1]);
      after = (\<lambda>fin. s\<lparr>c_trace := c_trace s @ replicate k (Ap_past (unat conn_idx)) @ fin\<rparr>)
    in k \<le> retry + (if ap_pts (acfg e) then 1 else 0) \<and>
      esl_c_past e links code conn_idx s = Some (
        if k = retry + 1 \<or> \<not> there k then (0, after [])
        else if k = retry \<and> \<not> ap_pts (acfg e) then (- EAGAIN, after [Ap_disconnect (unat conn_idx)])
        else (code k, after []))"
proof -
  define k where "k = past_rounds e links code (conn_peer l) 0 (past_retry (acfg e) + 1)"
  have le: "k \<le> past_retry (acfg e) + (if ap_pts (acfg e) then 1 else 0)" unfolding k_def by (rule past_rounds_le)
  have k: "length (takeWhile (\<lambda>j. still_there e links (conn_peer l) j \<and> code j = 0 \<and>
      (j \<noteq> past_retry (acfg e) \<or> ap_pts (acfg e))) [0..<past_retry (acfg e) + 1]) = k"
    by (simp only: k_def past_rounds_def add_0)
  show ?thesis
    unfolding Let_def k past_eq [where links = links, OF assms k_def] using le by (simp add: past_result_def)
qed

text \<open>A tag that stays connected is disconnected after three offers; a refusal ends the offers at once.\<close>
theorem past_ends_witness:
  "esl_c_past ex_ap_env (\<lambda>_. Some ex_link) (\<lambda>_. 0) 0 ex_linked =
     Some (- EAGAIN, ex_linked\<lparr>c_trace := [Ap_past 0, Ap_past 0, Ap_past 0, Ap_disconnect 0]\<rparr>) \<and>
   esl_c_past ex_ap_env (\<lambda>_. Some ex_link) (\<lambda>_. - 5) 0 ex_linked = Some (- 5, ex_linked)"
proof -
  have l: "unat (0 :: u8) < max_conn (acfg ex_ap_env)" "unat (0 :: u8) < length (c_conn ex_linked)"
    "c_conn ex_linked ! unat (0 :: u8) = Some ex_link" "c_trace ex_linked = []" "null_peer ex_ap_env \<noteq> None"
    by (simp_all add: ex_linked_def) (simp add: ex_ap_def static_ap_def)
  have there: "still_there ex_ap_env (\<lambda>_. Some ex_link) (conn_peer ex_link) j" for j
    by (simp add: still_there_def link_up_def link_peer_def ex_link_def check_ble_connection_def)
  note past = past_ends [where links = "\<lambda>_. Some ex_link", OF l(1-3) refl l(5)]
  show ?thesis
    using past [of "\<lambda>_. 0"] past [of "\<lambda>_. - 5"] l(4) by (simp add: there upt_rec numeral_3_eq_3)
qed

end
