(* ===== verification/Ap_Shell.thy ===== *)
theory Ap_Shell
  imports Ap_Main Shell_Text
begin

unbundle bit_operations_syntax

text \<open>
  The console of the access point, \<open>service/esl_client_shell.c\<close>: each command takes its arguments, parses them and calls the
  operation. What a command prints itself is left out, and with it the commands that only print. An argument
  that is not there is \<open>None\<close>, as it is a null pointer. The value of a command is its code and the new state.
\<close>

subsection \<open>Inputs\<close>

text \<open>
  \<open>sh_hex2bin\<close> is Zephyr's \<open>hex2bin\<close>: the octets it writes, for a text and the size of the buffer, and what it returns.
  \<open>sh_addr_from_str\<close> is \<open>bt_addr_le_from_str\<close>: its code and what the address holds afterwards. \<open>sh_code\<close> is what the call
  of the Bluetooth stack or the scan returns, \<open>sh_junk\<close> and \<open>sh_junk_addr\<close> what uninitialised memory holds.
\<close>

record ap_shell =
  sh_inp :: ap_inp
  sh_hex2bin :: "string \<Rightarrow> nat \<Rightarrow> u8 list \<times> nat"
  sh_addr_from_str :: "string \<Rightarrow> string \<Rightarrow> int \<times> bt_addr_le"
  sh_junk :: "u8 list"
  sh_junk_addr :: bt_addr_le
  sh_code :: int
  sh_scan_code :: int
  sh_conn :: bt_conn
  sh_answers :: "nat \<Rightarrow> (u8 \<times> u8 list option) list"
  sh_links :: "nat \<Rightarrow> bt_conn option"
  sh_past :: "nat \<Rightarrow> int"
  sh_ots :: ots_inp
  sh_keys_len :: nat \<comment> \<open>\<open>BT_KEYS_STORAGE_LEN\<close>\<close>
  sh_load_order :: "string list"

subsection \<open>Arguments\<close>

text \<open>The connection of the tag with an address, as a signed number of 16 bits; -1 is refused.\<close>

definition for_esl_addr :: "u16 \<Rightarrow> (u8 \<Rightarrow> ap \<Rightarrow> (int \<times> ap) option) \<Rightarrow> ap \<Rightarrow> (int \<times> ap) option" where
  "for_esl_addr addr f s =
     (let (r, s1) = esl_addr_to_conn_idx addr s; conn_idx = sint (of_int r :: u16)
      in if conn_idx = -1 then Some (- ENOEXEC, s1) else f (of_int conn_idx) s1)"

definition for_tag_arg :: "argv \<Rightarrow> (u8 \<Rightarrow> ap \<Rightarrow> (int \<times> ap) option) \<Rightarrow> ap \<Rightarrow> (int \<times> ap) option" where
  "for_tag_arg argv f s = do {
     a \<leftarrow> hex_arg argv 1;
     for_esl_addr (of_int a) f s }"

definition esl_c_argv_to_ble_addr :: "ap_shell \<Rightarrow> argv \<Rightarrow> (int \<times> bt_addr_le) option" where
  "esl_c_argv_to_ble_addr i argv = do {
     a \<leftarrow> hex_arg argv 1;
     let addr_type = (of_int a :: u8);
     (if addr_type = 0 then map_option (\<lambda>t. sh_addr_from_str i t ''public'') (rd argv 2)
      else if addr_type = 2 then map_option (\<lambda>t. sh_addr_from_str i t ''public-id'') (rd argv 2)
      else if addr_type = 3 then map_option (\<lambda>t. sh_addr_from_str i t ''random-id'') (rd argv 2)
      else if addr_type = 1 then map_option (\<lambda>t. sh_addr_from_str i t ''random'') (rd argv 2)
      else Some (- EINVAL, sh_junk_addr i)) }"

subsection \<open>Association and bonds\<close>

text \<open>The index is unsigned here, so that of a tag that is not found, 65535, is not refused but cut to 255.\<close>

definition cmd_esl_c_unassociated :: "('s, 'm) ap_env \<Rightarrow> ap_shell \<Rightarrow> argv \<Rightarrow> ap \<Rightarrow> (int \<times> ap) option" where
  "cmd_esl_c_unassociated e i argv s = with_args 2 argv s (do {
     a \<leftarrow> hex_arg argv 1;
     let (r, s1) = esl_addr_to_conn_idx (of_int a) s;
     let conn_idx = (of_int r :: u16);
     bt_c_esl_unassociate e (sh_inp i) (ucast conn_idx) s1 })"

definition cmd_esl_c_unbond_all :: "ap_shell \<Rightarrow> argv \<Rightarrow> ap \<Rightarrow> (int \<times> ap) option" where
  "cmd_esl_c_unbond_all i argv s = Some (bt_c_esl_unbond_all (sh_code i) s)"

definition cmd_esl_c_unbond_ble :: "ap_shell \<Rightarrow> argv \<Rightarrow> ap \<Rightarrow> (int \<times> ap) option" where
  "cmd_esl_c_unbond_ble i argv s = with_args 3 argv s (do {
     (err, peer) \<leftarrow> esl_c_argv_to_ble_addr i argv;
     Some (if err \<noteq> 0 then (err, s) else bt_c_esl_unbond (sh_code i) peer s) })"

definition cmd_esl_c_force_unassociated :: "('s, 'm) ap_env \<Rightarrow> ap_shell \<Rightarrow> argv \<Rightarrow> ap \<Rightarrow> (int \<times> ap) option" where
  "cmd_esl_c_force_unassociated e i argv s = with_args 2 argv s (do {
     a \<leftarrow> hex_arg argv 1;
     let (conn_idx, s1) = esl_addr_to_conn_idx (of_int a) s;
     (if conn_idx = -1 then Some (- ENOEXEC, s1)
      else map_option (\<lambda>(r, t). (0, t)) (bt_c_esl_post_unassociate e (sh_code i) conn_idx s1)) })"

subsection \<open>Periodic advertising\<close>

text \<open>
  A packet is put together in an array of 48 octets, the group first. \<open>hex2bin\<close> is told that all of the array is left behind
  the group, and its result plus one is never 0. Response keys need at least two of them to be taken.
\<close>

definition packet_arg :: "ap_shell \<Rightarrow> u8 \<Rightarrow> string \<Rightarrow> (u8 list \<times> nat) option" where
  "packet_arg i sync_buf_idx hex = do {
     data \<leftarrow> upd (take ESL_SYNC_PKT_PAYLOAD_MAX_LEN (sh_junk i @ replicate ESL_SYNC_PKT_PAYLOAD_MAX_LEN 0)) 0 sync_buf_idx;
     let (bytes, n) = sh_hex2bin i hex ESL_SYNC_PKT_PAYLOAD_MAX_LEN;
     data1 \<leftarrow> wr_mem data 1 bytes;
     Some (data1, n + 1) }"

definition cleared_key :: bt_esl_key_material where
  "cleared_key = key_of_bytes (replicate EAD_KEY_MATERIAL_LEN 0)"

definition key_args :: "('s, 'm) ap_env \<Rightarrow> ap_shell \<Rightarrow> argv \<Rightarrow> bt_esl_key_material list option" where
  "key_args e i argv =
     for_loop 0 (min (rsp_buffers (acfg e)) (length argv - 3)) (\<lambda>idx ks. do {
       t \<leftarrow> rd argv (idx + 3);
       k \<leftarrow> wr_mem (key_v (ks ! idx)) 0 (fst (sh_hex2bin i t ESL_SYNC_PKT_PAYLOAD_MAX_LEN));
       upd ks idx (key_of_bytes k) }) (replicate (rsp_buffers (acfg e)) cleared_key)"

definition cmd_pawr_push_sync_buf :: "('s, 'm) ap_env \<Rightarrow> ap_shell \<Rightarrow> argv \<Rightarrow> ap \<Rightarrow> (int \<times> ap) option" where
  "cmd_pawr_push_sync_buf e i argv s = with_args 3 argv s (do {
     g \<leftarrow> hex_arg argv 1;
     let sync_buf_idx = (of_int g :: u8);
     hex \<leftarrow> rd argv 2;
     (data, len) \<leftarrow> packet_arg i sync_buf_idx hex;
     s1 \<leftarrow> (if 4 < length argv then do {
         ks \<leftarrow> key_args e i argv;
         map_option snd (esl_c_push_rsp_key e ks sync_buf_idx s)
       } else Some s);
     map_option (\<lambda>(err, t). (0, t)) (esl_c_push_sync_buf e (sh_inp i) data (of_nat len) sync_buf_idx s1) })"

definition cmd_pawr_dump_sync_buf :: "('s, 'm) ap_env \<Rightarrow> argv \<Rightarrow> ap \<Rightarrow> (int \<times> ap) option" where
  "cmd_pawr_dump_sync_buf e argv s = with_args 2 argv s (do {
     g \<leftarrow> hex_arg argv 1;
     map_option (Pair 0) (esl_c_dump_sync_buf e (of_int g) s) })"

definition cmd_pawr_dump_resp_buf :: "('s, 'm) ap_env \<Rightarrow> argv \<Rightarrow> ap \<Rightarrow> (int \<times> ap) option" where
  "cmd_pawr_dump_resp_buf e argv s = with_args 2 argv s (do {
     g \<leftarrow> hex_arg argv 1;
     map_option (Pair 0) (esl_c_dump_resp_buf e (of_int g) s) })"

definition cmd_pawr_start_pawr :: "ap \<Rightarrow> (int \<times> ap) option" where
  "cmd_pawr_start_pawr s = Some (0, esl_start_pawr s)"

definition cmd_pawr_stop_pawr :: "ap \<Rightarrow> (int \<times> ap) option" where
  "cmd_pawr_stop_pawr s = Some (0, esl_stop_pawr s)"

definition cmd_pawr_set_pawr_data ::
  "('s, 'm) ap_env \<Rightarrow> 'f storage_env \<Rightarrow> ap_shell \<Rightarrow> argv \<Rightarrow> ap \<times> 'f \<Rightarrow> (int \<times> ap \<times> 'f) option" where
  "cmd_pawr_set_pawr_data e v i argv = (\<lambda>(s, fs). with_args 3 argv (s, fs) (do {
     ty \<leftarrow> hex_arg argv 1;
     g \<leftarrow> hex_arg argv 2;
     s1 \<leftarrow> esl_dummy_ap_ad_data e (sh_inp i) (of_int ty) (of_int g) s;
     (if ap_tag_storage (acfg e)
      then map_option (\<lambda>(rc, t). (0, t)) (load_all_tags_in_storage e v (of_int g) s1 fs)
      else Some (0, s1, fs)) }))"

subsection \<open>The clock\<close>

definition cmd_esl_c_update_abs :: "('s, 'm) ap_env \<Rightarrow> ap_shell \<Rightarrow> argv \<Rightarrow> ap \<Rightarrow> (int \<times> ap) option" where
  "cmd_esl_c_update_abs e i argv s = with_args 2 argv s (do {
     t \<leftarrow> rd argv 1;
     let s1 = esl_c_abs_timer_update (ai_now (sh_inp i)) (of_int (c_strtoul 10 t)) s;
     (if 3 \<le> length argv then do {
        a \<leftarrow> hex_arg argv 2;
        for_esl_addr (of_int a) (\<lambda>c u. map_option (Pair 0) (esl_c_tag_abs_timer_update e (sh_inp i) c u)) s1
      } else Some (0, s1)) })"

definition cmd_esl_c_abs :: "ap_shell \<Rightarrow> argv \<Rightarrow> ap \<Rightarrow> (int \<times> ap) option" where
  "cmd_esl_c_abs i argv s =
     (if length argv < 2 then Some (0, s)
      else do {
        t \<leftarrow> rd argv 1;
        let new_abs_time = (of_int (c_strtoul 10 t) :: u32);
        Some (if new_abs_time < 0xFFFFFFFF then (0, esl_c_abs_timer_update (ai_now (sh_inp i)) new_abs_time s) else (- ENOEXEC, s)) })"

subsection \<open>Scanning and connecting\<close>

text \<open>No value is greater than 1 and less than 0, so that none is refused.\<close>

definition cmd_acl_scan :: "ap_shell \<Rightarrow> argv \<Rightarrow> ap \<Rightarrow> (int \<times> ap) option" where
  "cmd_acl_scan i argv s = with_args 3 argv s (do {
     a \<leftarrow> rd argv 1;
     b \<leftarrow> rd argv 2;
     let onoff = (of_int (c_strtol 10 a) :: u16);
     let oneshot = (of_int (c_strtol 10 b) :: u16);
     Some (0, if onoff > 1 \<and> onoff < 0 then s else esl_c_scan (sh_scan_code i) (onoff \<noteq> 0) (oneshot \<noteq> 0) s) })"

definition cmd_acl_clear_scanned :: "ap \<Rightarrow> (int \<times> ap) option" where
  "cmd_acl_clear_scanned s = map_option (\<lambda>(found, t). (0, t)) (esl_c_scanned_tag_remove (-1) s)"

definition cmd_acl_connect :: "('s, 'm) ap_env \<Rightarrow> ap_shell \<Rightarrow> argv \<Rightarrow> ap \<Rightarrow> (int \<times> ap) option" where
  "cmd_acl_connect e i argv s = with_args 2 argv s (do {
     a \<leftarrow> hex_arg argv 1;
     let tag_idx = sint (of_int a :: u16);
     found \<leftarrow> esl_c_get_tag_addr tag_idx None s;
     (case found of
        None \<Rightarrow> Some (0, s)
      | Some k \<Rightarrow> do {
          n \<leftarrow> rd (c_scanned s) k;
          esl_c_connect e (sh_scan_code i) (sh_code i) (sh_conn i) (node_addr n) (ucast ESL_ADDR_BROADCAST) s }) })"

definition cmd_acl_connect_addr :: "('s, 'm) ap_env \<Rightarrow> ap_shell \<Rightarrow> argv \<Rightarrow> ap \<Rightarrow> (int \<times> ap) option" where
  "cmd_acl_connect_addr e i argv s = with_args 3 argv s (do {
     (ret, peer) \<leftarrow> esl_c_argv_to_ble_addr i argv;
     esl_addr \<leftarrow> (if 3 < length argv then map_option of_int (hex_arg argv 3) else Some (ucast ESL_ADDR_BROADCAST));
     (if ret \<noteq> 0 then Some (0, s)
      else map_option (\<lambda>(r, t). (0, t)) (esl_c_connect e (sh_scan_code i) (sh_code i) (sh_conn i) peer esl_addr s)) })"

definition cmd_acl_configure :: "('s, 'm) ap_env \<Rightarrow> argv \<Rightarrow> ap \<Rightarrow> (int \<times> ap) option" where
  "cmd_acl_configure e argv s = with_args 3 argv s (do {
     c \<leftarrow> hex_arg argv 1;
     a \<leftarrow> hex_arg argv 2;
     Some (0, bt_esl_configure e (ucast (of_int c :: u16)) (of_int a) s) })"

definition cmd_acl_discovery :: "('s, 'm) ap_env \<Rightarrow> argv \<Rightarrow> ap \<Rightarrow> (int \<times> ap) option" where
  "cmd_acl_discovery e argv s = with_args 2 argv s (do {
     c \<leftarrow> hex_arg argv 1;
     Some (0, esl_discovery_start e (of_int c) s) })"

definition cmd_acl_disconnect :: "argv \<Rightarrow> ap \<Rightarrow> (int \<times> ap) option" where
  "cmd_acl_disconnect argv s = with_args 2 argv s (do {
     c \<leftarrow> hex_arg argv 1;
     let conn_idx = unat (of_int c :: u16);
     l \<leftarrow> rd (c_conn s) conn_idx;
     Some (0, ap_effect (Ap_disconnect conn_idx) s) })"

definition cmd_acl_security :: "argv \<Rightarrow> ap \<Rightarrow> (int \<times> ap) option" where
  "cmd_acl_security argv s = with_args 2 argv s (do {
     c \<leftarrow> hex_arg argv 1;
     let conn_idx = unat (of_int c :: u16);
     l \<leftarrow> rd (c_conn s) conn_idx;
     (if 2 < length argv then do {
        v \<leftarrow> hex_arg argv 2;
        let security_level = (of_int v :: u16);
        Some (0, ap_effect (Ap_security_level conn_idx security_level) (s\<lparr>c_security := ucast security_level\<rparr>))
      } else Some (0, s)) })"

definition cmd_auto_ap :: "ap_shell \<Rightarrow> argv \<Rightarrow> ap \<Rightarrow> (int \<times> ap) option" where
  "cmd_auto_ap i argv s =
     (if 1 < length argv then do {
        a \<leftarrow> rd argv 1;
        let onoff = (of_int (c_strtol 10 a) :: u16);
        Some (0, if onoff > 1 \<and> onoff < 0 then s else esl_c_auto_ap_toggle (sh_scan_code i) (onoff \<noteq> 0) s)
      } else Some (0, s))"

definition cmd_acl_subscribe :: "('s, 'm) ap_env \<Rightarrow> ap_shell \<Rightarrow> argv \<Rightarrow> ap \<Rightarrow> (int \<times> ap) option" where
  "cmd_acl_subscribe e i argv s = with_args 2 argv s (do {
     c \<leftarrow> hex_arg argv 1;
     bt_esl_c_subscribe_receive e (sh_code i) (unat (of_int c :: u8)) s })"

definition cmd_acl_past :: "('s, 'm) ap_env \<Rightarrow> ap_shell \<Rightarrow> argv \<Rightarrow> ap \<Rightarrow> (int \<times> ap) option" where
  "cmd_acl_past e i argv s = with_args 2 argv s (do {
     c \<leftarrow> hex_arg argv 1;
     esl_c_past e (sh_links i) (sh_past i) (of_int c) s })"

definition cmd_acl_write_wo_rsp :: "argv \<Rightarrow> ap \<Rightarrow> (int \<times> ap) option" where
  "cmd_acl_write_wo_rsp argv s = with_args 2 argv s (do {
     a \<leftarrow> hex_arg argv 1;
     let write_wo_rsp = (of_int a :: u16);
     Some (0, s\<lparr>c_write_wo_rsp := write_wo_rsp \<noteq> 0\<rparr>) })"

text \<open>Of the flags, the state holds the one of the object transfer; the others end the waiting of a function that does not return.\<close>

definition esl_c_gatt_flag_set :: "u8 \<Rightarrow> u8 \<Rightarrow> ap \<Rightarrow> ap" where
  "esl_c_gatt_flag_set flag_idx set_unset s = (if flag_idx = 7 then s\<lparr>c_ots_written := (set_unset = 1)\<rparr> else s)"

definition cmd_acl_gatt_flag :: "argv \<Rightarrow> ap \<Rightarrow> (int \<times> ap) option" where
  "cmd_acl_gatt_flag argv s =
     (if 2 < length argv then do {
        a \<leftarrow> hex_arg argv 1;
        b \<leftarrow> hex_arg argv 2;
        Some (0, esl_c_gatt_flag_set (of_int a) (of_int b) s)
      } else Some (0, s))"

subsection \<open>Commands for a tag\<close>

text \<open>The 40 bits of a flash pattern, the lowest octet first.\<close>

definition pattern_bytes :: "u64 \<Rightarrow> u8 list" where
  "pattern_bytes p = [ucast (p AND 0xFF), ucast (drop_bit 8 (p AND 0xFF00)), ucast (drop_bit 16 (p AND 0xFF0000)),
     ucast (drop_bit 24 (p AND 0xFF000000)), ucast (drop_bit 32 (p AND 0xFF00000000))]"

definition cmd_esl_c_led :: "('s, 'm) ap_env \<Rightarrow> ap_shell \<Rightarrow> argv \<Rightarrow> ap \<Rightarrow> (int \<times> ap) option" where
  "cmd_esl_c_led e i argv s = with_args 9 argv s (do {
     addr \<leftarrow> hex_arg argv 1;
     led_idx \<leftarrow> hex_arg argv 2;
     color \<leftarrow> hex_arg argv 3;
     pattern \<leftarrow> rd argv 4;
     off_period \<leftarrow> hex_arg argv 5;
     on_period \<leftarrow> hex_arg argv 6;
     rtype \<leftarrow> hex_arg argv 7;
     duration \<leftarrow> hex_arg argv 8;
     for_esl_addr (of_int addr) (\<lambda>c u. do {
       abs_time \<leftarrow> (if 10 \<le> length argv then map_option (c_strtoul 10) (rd argv 9) else Some 0);
       let led = \<lparr>lo_led_type = 0, color_brightness = of_int color, flash_pattern = pattern_bytes (of_int (c_strtoull 16 pattern)),
         bit_off_period = of_int off_period, bit_on_period = of_int on_period,
         repeat_type = of_int rtype, repeat_duration = of_int duration, lo_abs_time = 0\<rparr>;
       bt_esl_c_led_control e (sh_inp i) c (of_int led_idx) led (10 \<le> length argv) (of_int abs_time) u }) s })"

definition cmd_esl_c_display :: "('s, 'm) ap_env \<Rightarrow> ap_shell \<Rightarrow> argv \<Rightarrow> ap \<Rightarrow> (int \<times> ap) option" where
  "cmd_esl_c_display e i argv s = with_args 4 argv s (do {
     d \<leftarrow> hex_arg argv 2;
     img \<leftarrow> hex_arg argv 3;
     for_tag_arg argv (\<lambda>c u. do {
       abs_time \<leftarrow> (if 5 \<le> length argv then map_option (c_strtoul 10) (rd argv 4) else Some 0);
       bt_esl_c_display_control e (sh_inp i) c (of_int d) (of_int img) (5 \<le> length argv) (of_int abs_time) u }) s })"

definition cmd_esl_c_refresh_display :: "('s, 'm) ap_env \<Rightarrow> ap_shell \<Rightarrow> argv \<Rightarrow> ap \<Rightarrow> (int \<times> ap) option" where
  "cmd_esl_c_refresh_display e i argv s = with_args 3 argv s (do {
     d \<leftarrow> hex_arg argv 2;
     for_tag_arg argv (\<lambda>c. bt_esl_c_refresh_display e (sh_inp i) c (of_int d)) s })"

definition cmd_esl_c_read_sensor :: "('s, 'm) ap_env \<Rightarrow> ap_shell \<Rightarrow> argv \<Rightarrow> ap \<Rightarrow> (int \<times> ap) option" where
  "cmd_esl_c_read_sensor e i argv s = with_args 3 argv s (do {
     d \<leftarrow> hex_arg argv 2;
     for_tag_arg argv (\<lambda>c. bt_esl_c_read_sensor e (sh_inp i) c (of_int d)) s })"

text \<open>The codes of these three are dropped.\<close>

definition cmd_esl_c_pingop :: "('s, 'm) ap_env \<Rightarrow> ap_shell \<Rightarrow> argv \<Rightarrow> ap \<Rightarrow> (int \<times> ap) option" where
  "cmd_esl_c_pingop e i argv s = with_args 2 argv s
     (for_tag_arg argv (\<lambda>c u. map_option (\<lambda>(r, t). (0, t)) (bt_esl_c_ping_op e (sh_inp i) c u)) s)"

definition cmd_esl_c_factory_reset :: "('s, 'm) ap_env \<Rightarrow> ap_shell \<Rightarrow> argv \<Rightarrow> ap \<Rightarrow> (int \<times> ap) option" where
  "cmd_esl_c_factory_reset e i argv s = with_args 2 argv s
     (for_tag_arg argv (\<lambda>c u. map_option (\<lambda>(r, t). (0, t)) (bt_esl_c_factory_reset e (sh_inp i) (sh_code i) c u)) s)"

definition cmd_esl_c_service_reset :: "('s, 'm) ap_env \<Rightarrow> ap_shell \<Rightarrow> argv \<Rightarrow> ap \<Rightarrow> (int \<times> ap) option" where
  "cmd_esl_c_service_reset e i argv s = with_args 2 argv s
     (for_tag_arg argv (\<lambda>c u. map_option (\<lambda>(r, t). (0, t)) (bt_esl_c_service_reset e (sh_inp i) c u)) s)"

text \<open>The connection is a signed number here and indexes the table without a check.\<close>

definition cmd_esl_c_update_complete :: "('s, 'm) ap_env \<Rightarrow> ap_shell \<Rightarrow> argv \<Rightarrow> ap \<Rightarrow> (int \<times> ap) option" where
  "cmd_esl_c_update_complete e i argv s = with_args 2 argv s (do {
     c \<leftarrow> hex_arg argv 1;
     let conn_idx = sint (of_int c :: u16);
     s1 \<leftarrow> (if 2 < length argv then do {
         a \<leftarrow> hex_arg argv 2;
         (if conn_idx < 0 then None else upd_device (nat conn_idx) (\<lambda>d. d\<lparr>dev_esl_addr := of_int a\<rparr>) s)
       } else Some s);
     bt_esl_c_update_complete e (sh_inp i) (of_int conn_idx) s1 })"

subsection \<open>Characteristics and keys\<close>

text \<open>
  With a third argument of 1 only the remembered address changes. Otherwise it changes when the lookup of the new address does
  not return index 0, thus also when no tag has it, and the address is written to the tag.
\<close>

definition cmd_acl_write_esl_addr :: "('s, 'm) ap_env \<Rightarrow> ap_shell \<Rightarrow> argv \<Rightarrow> ap \<Rightarrow> (int \<times> ap) option" where
  "cmd_acl_write_esl_addr e i argv s = with_args 3 argv s (do {
     c \<leftarrow> hex_arg argv 1;
     a \<leftarrow> hex_arg argv 2;
     l \<leftarrow> (if 3 < length argv then hex_arg argv 3 else Some 0);
     let conn_idx = (of_int c :: u16);
     let esl_addr = (of_int a :: u16);
     (if (of_int l :: u16) = 1 then map_option (Pair 0) (upd_device (unat conn_idx) (\<lambda>d. d\<lparr>dev_esl_addr := esl_addr\<rparr>) s)
      else do {
        let (r, s1) = esl_addr_to_conn_idx esl_addr s;
        s2 \<leftarrow> (if r \<noteq> 0 then upd_device (unat conn_idx) (\<lambda>d. d\<lparr>dev_esl_addr := esl_addr\<rparr>) s1 else Some s1);
        bt_esl_c_write_esl_addr e (sh_inp i) (ucast conn_idx) esl_addr s2
      }) })"

definition cmd_acl_read_chrc :: "('s, 'm) ap_env \<Rightarrow> ap_shell \<Rightarrow> argv \<Rightarrow> ap \<Rightarrow> (int \<times> ap) option" where
  "cmd_acl_read_chrc e i argv s = with_args 2 argv s (do {
     c \<leftarrow> hex_arg argv 1;
     bt_esl_c_read_chrc e (sh_inp i) (sh_answers i) (unat (of_int c :: u8)) s })"

definition cmd_acl_read_chrc_multi :: "('s, 'm) ap_env \<Rightarrow> ap_shell \<Rightarrow> argv \<Rightarrow> ap \<Rightarrow> (int \<times> ap) option" where
  "cmd_acl_read_chrc_multi e i argv s = with_args 2 argv s (do {
     c \<leftarrow> hex_arg argv 1;
     bt_esl_c_read_chrc_multi e (sh_inp i) (unat (of_int c :: u8)) s })"

definition cmd_acl_ap_key_update :: "('s, 'm) ap_env \<Rightarrow> ap_shell \<Rightarrow> argv \<Rightarrow> ap \<Rightarrow> (int \<times> ap) option" where
  "cmd_acl_ap_key_update e i argv s = with_args 2 argv s (do {
     c \<leftarrow> hex_arg argv 1;
     map_option (Pair 0) (esl_c_ap_key_update e (sh_inp i) (of_int c) s) })"

definition cmd_acl_rsp_key_update :: "('s, 'm) ap_env \<Rightarrow> ap_shell \<Rightarrow> argv \<Rightarrow> ap \<Rightarrow> (int \<times> ap) option" where
  "cmd_acl_rsp_key_update e i argv s = with_args 2 argv s (do {
     c \<leftarrow> hex_arg argv 1;
     map_option (Pair 0) (esl_c_rsp_key_update e (sh_inp i) (of_int c) s) })"

definition cmd_esl_c_default_esl_addr :: "argv \<Rightarrow> ap \<Rightarrow> (int \<times> ap) option" where
  "cmd_esl_c_default_esl_addr argv s =
     (if length argv < 2 then Some (0, s)
      else do {
        a \<leftarrow> rd argv 1;
        Some (0, s\<lparr>c_addr_start := of_int (c_strtoul 16 a)\<rparr>) })"

text \<open>A bonding key typed in: the address with a digit for its type, and the key's stored part.\<close>

definition esl_c_import_bt_key :: "int \<Rightarrow> string list \<Rightarrow> bt_addr_le \<Rightarrow> u8 list \<Rightarrow> ap \<Rightarrow> int \<times> ap" where
  "esl_c_import_bt_key code order addr key s = (code, fold ap_load_entry order (ap_effect (Ap_store_key addr key) s))"

definition key_addr :: "ap_shell \<Rightarrow> string \<Rightarrow> u8 list option" where
  "key_addr i t = for_loop 0 6 (\<lambda>k v. do {
     b \<leftarrow> wr_mem (drop (5 - k) (take (6 - k) v)) 0 (fst (sh_hex2bin i (take 2 (drop (2 * k) t)) 1));
     wr_mem v (5 - k) b }) (replicate 6 0)"

definition cmd_acl_bt_key_import :: "ap_shell \<Rightarrow> argv \<Rightarrow> ap \<Rightarrow> (int \<times> ap) option" where
  "cmd_acl_bt_key_import i argv s = with_args 3 argv s (do {
     t \<leftarrow> rd argv 1;
     hex \<leftarrow> rd argv 2;
     (if length t < 12 then Some (- EINVAL, s)
      else do {
        let c = (t @ [CHR 0x00]) ! 12;
        (if c \<noteq> CHR ''0'' \<and> c \<noteq> CHR ''1'' then Some (- EINVAL, s)
         else do {
           v \<leftarrow> key_addr i t;
           let (data, len) = sh_hex2bin i hex (sh_keys_len i);
           (if len \<noteq> sh_keys_len i then Some (- EINVAL, s)
            else Some (esl_c_import_bt_key (sh_code i) (sh_load_order i)
              \<lparr>ba_type = (if c = CHR ''0'' then 0 else 1), ba_val = v\<rparr> data s))
         })
      }) })"

subsection \<open>Objects\<close>

definition cmd_obj_c_select :: "ap_shell \<Rightarrow> argv \<Rightarrow> ap \<Rightarrow> (int \<times> ap) option" where
  "cmd_obj_c_select i argv s = with_args 3 argv s (do {
     c \<leftarrow> hex_arg argv 1;
     t \<leftarrow> hex_arg argv 2;
     let conn_idx = unat (of_int c :: u16);
     let obj_id = BT_OTS_OBJ_ID_MIN + ucast (of_int t :: u8);
     l \<leftarrow> rd (c_conn s) conn_idx;
     (if sh_code i \<noteq> 0 then Some (sh_code i, s)
      else map_option (Pair 0) (upd_gatt conn_idx (\<lambda>g. g\<lparr>g_cur_object := obj_id\<rparr>) (ap_effect (Ap_ots_select conn_idx obj_id) s))) })"

definition cmd_obj_c_readmeta :: "ap_shell \<Rightarrow> argv \<Rightarrow> ap \<Rightarrow> (int \<times> ap) option" where
  "cmd_obj_c_readmeta i argv s = with_args 2 argv s (do {
     c \<leftarrow> hex_arg argv 1;
     let conn_idx = unat (of_int c :: u16);
     l \<leftarrow> rd (c_conn s) conn_idx;
     Some (sh_code i, if sh_code i = 0 then ap_effect (Ap_ots_metadata conn_idx) s else s) })"

text \<open>The next two need an argument more than they ask for.\<close>

definition cmd_obj_c_write :: "('s, 'm) ap_env \<Rightarrow> ap_shell \<Rightarrow> argv \<Rightarrow> ap \<Rightarrow> (int \<times> ap) option" where
  "cmd_obj_c_write e i argv s = with_args 3 argv s (do {
     c \<leftarrow> hex_arg argv 1;
     t \<leftarrow> hex_arg argv 2;
     img \<leftarrow> hex_arg argv 3;
     map_option (Pair 0) (esl_c_obj_write e (sh_ots i) (ucast (of_int c :: u16)) (of_int t) (of_int img) s) })"

definition cmd_obj_c_write_filename :: "('s, 'm) ap_env \<Rightarrow> ap_shell \<Rightarrow> argv \<Rightarrow> ap \<Rightarrow> (int \<times> ap) option" where
  "cmd_obj_c_write_filename e i argv s = with_args 3 argv s (do {
     c \<leftarrow> hex_arg argv 1;
     t \<leftarrow> hex_arg argv 2;
     name \<leftarrow> rd argv 3;
     map_option (\<lambda>(r, u). (0, u)) (esl_c_obj_write_by_name e (sh_ots i) (ucast (of_int c :: u16)) (of_int t) name s) })"

text \<open>\<open>file_size\<close> is \<open>CONFIG_ESL_IMAGE_FILE_SIZE\<close>, whatever the size of the object.\<close>

definition cmd_obj_c_checksum :: "u32 \<Rightarrow> ap_shell \<Rightarrow> argv \<Rightarrow> ap \<Rightarrow> (int \<times> ap) option" where
  "cmd_obj_c_checksum file_size i argv s = with_args 2 argv s (do {
     c \<leftarrow> hex_arg argv 1;
     let conn_idx = unat (of_int c :: u16);
     l \<leftarrow> rd (c_conn s) conn_idx;
     Some (sh_code i, if sh_code i = 0 then ap_effect (Ap_ots_checksum conn_idx file_size) s else s) })"

subsection \<open>The storage of tags\<close>

text \<open>These commands work on the file system as well.\<close>

definition cmd_esl_c_reset_ap ::
  "('s, 'm) ap_env \<Rightarrow> 'f storage_env \<Rightarrow> ap_shell \<Rightarrow> ap \<times> 'f \<Rightarrow> (int \<times> ap \<times> 'f) option" where
  "cmd_esl_c_reset_ap e v i = (\<lambda>(s, fs). bt_esl_c_reset_ap e v (sh_code i) s fs)"

definition cmd_esl_c_remove_all_tags :: "('s, 'm) ap_env \<Rightarrow> 'f storage_env \<Rightarrow> ap \<times> 'f \<Rightarrow> (int \<times> ap \<times> 'f) option" where
  "cmd_esl_c_remove_all_tags e v = (\<lambda>(s, fs). remove_all_tags_in_storage e v s fs)"

definition cmd_esl_c_list_tags_by_type :: "'f storage_env \<Rightarrow> argv \<Rightarrow> 'f \<Rightarrow> string list option" where
  "cmd_esl_c_list_tags_by_type v argv fs = do {
     ty \<leftarrow> (if 1 < length argv then map_option of_int (hex_arg argv 1) else Some 0);
     map_option snd (list_tags_in_storage_type v ty fs) }"

definition cmd_esl_c_list_tags :: "'f storage_env \<Rightarrow> ap_shell \<Rightarrow> 'f \<Rightarrow> ((string \<times> bt_addr_le) list \<times> 'f) option" where
  "cmd_esl_c_list_tags v i fs = map_option snd (list_tags_in_storage v (sh_junk_addr i) fs)"

definition cmd_esl_c_remove_tag ::
  "'f storage_env \<Rightarrow> ap_shell \<Rightarrow> argv \<Rightarrow> ap \<times> 'f \<Rightarrow> (int \<times> ap \<times> 'f) option" where
  "cmd_esl_c_remove_tag v i argv = (\<lambda>(s, fs). with_args 2 argv (s, fs) (do {
     a \<leftarrow> hex_arg argv 1;
     remove_tag_in_storage v (sh_junk_addr i) (of_int a) None s fs }))"

text \<open>An address that can not be read is used all the same.\<close>

definition cmd_esl_c_remove_tag_ble ::
  "'f storage_env \<Rightarrow> ap_shell \<Rightarrow> argv \<Rightarrow> ap \<times> 'f \<Rightarrow> (int \<times> ap \<times> 'f) option" where
  "cmd_esl_c_remove_tag_ble v i argv = (\<lambda>(s, fs). with_args 3 argv (s, fs) (do {
     (err, peer) \<leftarrow> esl_c_argv_to_ble_addr i argv;
     remove_tag_in_storage v (sh_junk_addr i) 0xffff (Some peer) s fs }))"

definition cmd_esl_c_find_tags_esl_addr ::
  "'f storage_env \<Rightarrow> ap_shell \<Rightarrow> argv \<Rightarrow> 'f \<Rightarrow> (int \<times> 'f) option" where
  "cmd_esl_c_find_tags_esl_addr v i argv fs = with_args 3 argv fs (do {
     (err, peer) \<leftarrow> esl_c_argv_to_ble_addr i argv;
     map_option (\<lambda>(rc, a, fs1). (rc, fs1)) (find_tag_in_storage_with_ble_addr v 0xffff peer fs) })"

definition cmd_tags_per_group :: "('s, 'm) ap_env \<Rightarrow> argv \<Rightarrow> ap \<Rightarrow> (int \<times> ap) option" where
  "cmd_tags_per_group e argv s =
     (if 1 < length argv then do {
        n \<leftarrow> rd argv 1;
        Some (0, snd (esl_c_setting_tags_per_group_save e (s\<lparr>c_tags_per_group := of_int (c_strtol 10 n)\<rparr>)))
      } else Some (0, s))"

definition cmd_groups_per_button :: "('s, 'm) ap_env \<Rightarrow> argv \<Rightarrow> ap \<Rightarrow> (int \<times> ap) option" where
  "cmd_groups_per_button e argv s =
     (if 1 < length argv then do {
        n \<leftarrow> rd argv 1;
        Some (0, snd (esl_c_setting_group_per_button_save e (s\<lparr>c_groups_per_button := of_int (c_strtol 10 n)\<rparr>)))
      } else Some (0, s))"

definition cmd_acl_connect_esl ::
  "('s, 'm) ap_env \<Rightarrow> 'f storage_env \<Rightarrow> ap_shell \<Rightarrow> argv \<Rightarrow> ap \<times> 'f \<Rightarrow> (int \<times> ap \<times> 'f) option" where
  "cmd_acl_connect_esl e v i argv = (\<lambda>(s, fs). with_args 2 argv (s, fs) (do {
     a \<leftarrow> hex_arg argv 1;
     let esl_addr = (of_int a :: u16);
     (ret, peer, fs1) \<leftarrow> find_tag_in_storage_with_esl_addr v esl_addr (sh_junk_addr i) fs;
     (if ret \<noteq> 0 then Some (0, s, fs1)
      else map_option (\<lambda>(r, t). (0, t, fs1)) (esl_c_connect e (sh_scan_code i) (sh_code i) (sh_conn i) peer esl_addr s)) }))"

definition cmd_esl_c_unbond_esl ::
  "'f storage_env \<Rightarrow> ap_shell \<Rightarrow> argv \<Rightarrow> ap \<times> 'f \<Rightarrow> (int \<times> ap \<times> 'f) option" where
  "cmd_esl_c_unbond_esl v i argv = (\<lambda>(s, fs). with_args 2 argv (s, fs) (do {
     a \<leftarrow> hex_arg argv 1;
     map_option (\<lambda>(r, t). (0, t)) (bt_c_esl_unbond_by_esl_addr v (sh_junk_addr i) (sh_code i) (of_int a) s fs) }))"

definition cmd_acl_load_bt_key_esl ::
  "'f storage_env \<Rightarrow> ap_shell \<Rightarrow> argv \<Rightarrow> 'f \<Rightarrow> (int \<times> u8 list \<times> 'f) option" where
  "cmd_acl_load_bt_key_esl v i argv fs = with_args 2 argv ([], fs) (do {
     a \<leftarrow> hex_arg argv 1;
     (ret, peer, fs1) \<leftarrow> find_tag_in_storage_with_esl_addr v (of_int a) (sh_junk_addr i) fs;
     (if ret \<noteq> 0 then Some (- ENOENT, [], fs1)
      else map_option (\<lambda>(r, k, fs2). (ret, k, fs2))
        (load_bt_key_in_storage v peer (take (sh_keys_len i) (sh_junk i @ replicate (sh_keys_len i) 0)) fs1)) })"

end
