(* ===== verification/Ap_Console.thy ===== *)
theory Ap_Console
  imports Ap_Shell Ap_Traffic Tag_Behaviour
begin

unbundle bit_operations_syntax

text \<open>
  What commands typed at the access point's console do: a command for a tag finds its connection by the address and
  reaches the tag with the numbers that were typed, a packet typed in hexadecimal is queued as it is.
\<close>

subsection \<open>Finding the connection\<close>

abbreviation (input) no_rfu :: "u16 \<Rightarrow> u16" where "no_rfu a \<equiv> BIT_UNSET a ESL_ADDR_RFU_BIT"

text \<open>The entries the search has passed lose the highest bit of their address, the others stay.\<close>

definition rfu_cleared :: "bt_esl_client_internal \<Rightarrow> bt_esl_client_internal" where
  "rfu_cleared g = g\<lparr>g_device := (g_device g)\<lparr>dev_esl_addr := no_rfu (dev_esl_addr (g_device g))\<rparr>\<rparr>"

definition conn_addr :: "ap \<Rightarrow> nat \<Rightarrow> u16" where
  "conn_addr s i = no_rfu (dev_esl_addr (g_device (c_gatt s ! i)))"

lemma rfu_cleared_addr [simp]: "dev_esl_addr (g_device (rfu_cleared g)) = no_rfu (dev_esl_addr (g_device g))"
  by (simp add: rfu_cleared_def)

lemma find_esl_addr_step:
  "find_esl_addr a i (g # gs) =
     (if no_rfu (dev_esl_addr (g_device g)) = a then (int i, rfu_cleared g # gs)
      else (fst (find_esl_addr a (Suc i) gs), rfu_cleared g # snd (find_esl_addr a (Suc i) gs)))"
  by (simp add: Let_def rfu_cleared_def case_prod_unfold)

lemma find_esl_addr_first:
  assumes "k < length gs" "no_rfu (dev_esl_addr (g_device (gs ! k))) = a"
    and "\<forall>j < k. no_rfu (dev_esl_addr (g_device (gs ! j))) \<noteq> a"
  shows "find_esl_addr a i gs = (int (i + k), map rfu_cleared (take (Suc k) gs) @ drop (Suc k) gs)"
  using assms
proof (induction gs arbitrary: i k)
  case (Cons g gs)
  show ?case
  proof (cases k)
    case (Suc m)
    have m: "m < length gs" "no_rfu (dev_esl_addr (g_device (gs ! m))) = a" using Cons.prems(1,2) by (simp_all add: Suc)
    have less: "\<forall>j < m. no_rfu (dev_esl_addr (g_device (gs ! j))) \<noteq> a"
      using Cons.prems(3) unfolding Suc by (metis Suc_mono nth_Cons_Suc)
    have "no_rfu (dev_esl_addr (g_device g)) \<noteq> a" using Cons.prems(3) unfolding Suc by (metis nth_Cons_0 zero_less_Suc)
    then show ?thesis by (simp add: find_esl_addr_step Cons.IH [OF m less] Suc del: find_esl_addr.simps)
  qed (use Cons.prems(2) in \<open>simp add: find_esl_addr_step del: find_esl_addr.simps\<close>)
qed simp

lemma find_esl_addr_none:
  "\<forall>g \<in> set gs. no_rfu (dev_esl_addr (g_device g)) \<noteq> a \<Longrightarrow> find_esl_addr a i gs = (-1, map rfu_cleared gs)"
  by (induction gs arbitrary: i) (simp_all add: find_esl_addr_step del: find_esl_addr.simps(2))

text \<open>The tag with an address is on connection \<open>c\<close>, the first with that address.\<close>

definition has_addr :: "u16 \<Rightarrow> u8 \<Rightarrow> ap \<Rightarrow> bool" where
  "has_addr addr c s \<longleftrightarrow> conn_addr s (unat c) = no_rfu addr \<and> (\<forall>j < unat c. conn_addr s j \<noteq> no_rfu addr)"

definition looked_up :: "u8 \<Rightarrow> ap \<Rightarrow> ap" where
  "looked_up c s = s\<lparr>c_gatt := map rfu_cleared (take (Suc (unat c)) (c_gatt s)) @ drop (Suc (unat c)) (c_gatt s)\<rparr>"

lemma sint_index: "sint (ucast (c :: u8) :: u16) = uint c"
proof -
  have "uint c < 2 ^ 15" by (rule less_trans [OF unsigned_less]) simp
  moreover have "- (2 ^ 15) \<le> uint c" by (rule order_trans [OF _ unsigned_greater_eq]) simp
  ultimately show ?thesis by (simp add: signed_ucast_eq signed_take_bit_int_eq_self)
qed

lemma finds_tag:
  assumes "has_addr addr c s" "unat c < length (c_gatt s)"
  shows "for_esl_addr addr f s = f c (looked_up c s)"
proof -
  have "0 \<le> uint c" by (rule unsigned_greater_eq)
  then have pos: "uint c \<noteq> -1" by linarith
  have "esl_addr_to_conn_idx addr s = (int (unat c), looked_up c s)"
    using assms find_esl_addr_first [of "unat c" "c_gatt s" "no_rfu addr" 0]
    by (simp add: esl_addr_to_conn_idx_def has_addr_def conn_addr_def looked_up_def)
  then show ?thesis using pos by (simp add: for_esl_addr_def sint_index Let_def)
qed

lemma finds_no_tag:
  assumes "\<forall>i < length (c_gatt s). conn_addr s i \<noteq> no_rfu addr"
  shows "esl_addr_to_conn_idx addr s = (-1, s\<lparr>c_gatt := map rfu_cleared (c_gatt s)\<rparr>)"
proof -
  have "\<forall>g \<in> set (c_gatt s). no_rfu (dev_esl_addr (g_device g)) \<noteq> no_rfu addr"
    using assms by (auto simp: conn_addr_def in_set_conv_nth)
  from find_esl_addr_none [OF this] show ?thesis by (simp add: esl_addr_to_conn_idx_def)
qed

lemma low_no_rfu: "LOW_BYTE (no_rfu a) = LOW_BYTE a"
  by (rule bit_word_eqI) (auto simp: bit_LOW_BYTE bit_BIT_UNSET)

lemma tag_has_id: "has_addr addr c s \<Longrightarrow> tag_id c s = LOW_BYTE addr"
  using low_no_rfu by (metis has_addr_def conn_addr_def tag_id_def)

text \<open>The search leaves everything a command for the tag depends on.\<close>

lemma looked_up_gatt: "length (c_gatt (looked_up c s)) = length (c_gatt s)"
  "i < length (c_gatt s) \<Longrightarrow> c_gatt (looked_up c s) ! i = (if i \<le> unat c then rfu_cleared (c_gatt s ! i) else c_gatt s ! i)"
  by (auto simp: looked_up_def nth_append min_def)

lemma looked_up_link:
  assumes "wf_link e s" "reachable_tag_link e x c s"
  shows "wf_link e (looked_up c s)" "reachable_tag_link e x c (looked_up c s)" "c_trace (looked_up c s) = c_trace s"
    "ecp_handle c (looked_up c s) = ecp_handle c s" "tag_id c (looked_up c s) = tag_id c s" "c_write_wo_rsp (looked_up c s) = c_write_wo_rsp s"
proof -
  have c: "unat c < length (c_gatt s)" using assms by (simp add: wf_link_def reachable_tag_link_def)
  show "c_trace (looked_up c s) = c_trace s" "c_write_wo_rsp (looked_up c s) = c_write_wo_rsp s" by (simp_all add: looked_up_def)
  show "wf_link e (looked_up c s)"
    using assms(1) unfolding wf_link_def looked_up_gatt(1) list_all_length
    by (auto simp: looked_up_gatt rfu_cleared_def) (simp_all add: looked_up_def)
  show "reachable_tag_link e x c (looked_up c s)"
    using assms(2) by (simp add: reachable_tag_link_def ap_connected_def looked_up_def)
  show "ecp_handle c (looked_up c s) = ecp_handle c s" "tag_id c (looked_up c s) = tag_id c s"
    using c by (simp_all add: ecp_handle_def tag_id_def looked_up_gatt low_no_rfu rfu_cleared_def)
qed

subsection \<open>The LED command\<close>

text \<open>The answer of the control point to an LED command, from the answer of the LED's queue.\<close>

definition led_answer :: "u8 \<Rightarrow> queue_answer \<Rightarrow> u8 list" where
  "led_answer led a = (case a of Accepted \<Rightarrow> [OP_LED_STATE, led] | Deleted \<Rightarrow> [OP_LED_STATE, led]
     | Implausible \<Rightarrow> [OP_ERR, ERR_IMPLAUSIBLE_ABS] | Full \<Rightarrow> [OP_ERR, ERR_QUEUE_FULL])"

definition answers_by :: "'st tag \<Rightarrow> esl_ecp_command_src \<times> notify_func \<times> bool" where
  "answers_by s = (ecp_src s, ecp_notify_func s, esl_ecp_resp_needed s)"

lemma answers_by_part: "ecp_part t = ecp_part s \<Longrightarrow> answers_by t = answers_by s"
  by (simp add: ecp_part_def answers_by_def)

lemma answers_by_simps [simp]:
  "answers_by (effect x s) = answers_by s" "answers_by (resp_led i s) = answers_by s" "answers_by (resp_err c s) = answers_by s"
  by (simp_all add: answers_by_def effect_def resp_led_def resp_err_def)

lemma led_timed_answers_by: "ecp_led_timed e x s = Some t \<Longrightarrow> answers_by t = answers_by s"
  by (auto simp: ecp_led_timed_def bind_eq_Some_conv Let_def
      dest!: basic_update_ecp_part [THEN answers_by_part] store_led_ecp_part [THEN answers_by_part]
        led_upd_ecp_part [THEN answers_by_part] led_dwork_reset_ecp_part [THEN answers_by_part] split: if_splits)

lemma led_state_answer:
  assumes "zephyr_ok (zep e)" "inp_ok x" "resp_op (resp s) = OP_LED_STATE" "answers_by s = (ESL_ECP, Notify_null, True)"
  shows "ecp_response_handler e x ESL_ECP s = Some (notified [OP_LED_STATE, resp_idx (resp s)] s)"
proof -
  have e: "ECP_LEN 1 = 2" by (simp add: ECP_LEN_nibble)
  obtain a b c where b: "in_buf x = a # b # c"
    using assms(2) by (cases "in_buf x"; cases "tl (in_buf x)") (auto simp: inp_ok_def)
  have t: "take 2 (OP_LED_STATE # resp_idx (resp s) # c) = [OP_LED_STATE, resp_idx (resp s)]"
    by (simp add: numeral_2_eq_2)
  show ?thesis
    using assms
    by (simp add: ecp_response_handler_def ecp_response_bytes_def ecp_response_append_def answers_by_def
        z_nb_remove_eq z_nb_add_eq upd_def rd_mem_def b e notified_def effect_def Let_def t)
qed

lemma led_answered:
  assumes "zephyr_ok (zep e)" "inp_ok x" "resp u = queue_response (resp_led led) a s" "answers_by u = (ESL_ECP, Notify_null, True)"
  shows "ecp_response_handler e x ESL_ECP u = Some (notified (led_answer led a) u)"
proof (cases "a = Accepted \<or> a = Deleted")
  case True
  then have "resp_op (resp u) = OP_LED_STATE" "resp_idx (resp u) = led"
    using assms(3) by (auto simp: queue_response_def resp_led_def)
  then show ?thesis using led_state_answer [OF assms(1,2) _ assms(4)] True by (auto simp: led_answer_def)
next
  case False
  then have "resp_op (resp u) = OP_ERR" "[OP_ERR, error_code (resp u)] = led_answer led a"
    using assms(3) by (cases a; simp add: queue_response_def resp_err_def led_answer_def)+
  then show ?thesis using error_answer [OF assms(1,2), of u] assms(4) by (simp add: answers_by_def)
qed

text \<open>A timed LED command written to the tag it names: the control point handler from the write to the notification.\<close>

lemma written_led_runs:
  assumes e: "env_ok et" and wf: "wf_tag et t" and y: "inp_ok y" and b: "\<not> busy t" and i: "unat led < led_max (cfg et)"
    and c: "command = [OP_LED_TIMED_CONTROL, LOW_BYTE (esl_addr t), led, color] @ fp @ [off, on, r0, r1] @ le32 time"
    and fp: "length fp = 5"
  shows "yields (ecp_command_handler et y (snd (esl_control_write et command t))) (\<lambda>v.
    let (a, q) = queue_spec (esl_get_abs_time (in_now y) t) time (unat led)
                   (led_command (led_objs t ! unat led) color fp off on r0 r1) (led_queue t)
    in led_queue v = q \<and> last (trace v) = Gatt_notify Ecp_notify_cb (led_answer led a))"
proof -
  note z = env_zep [OF e]
  define w where "w = snd (esl_control_write et command t)"
  have l: "length command = 17" using fp by (simp add: c)
  have w: "w = effect (K_work_submit Ecp_work)
      (t\<lparr>ecp_net_buf := command, ecp_net_buf_len := of_nat (length command), ecp_src := ESL_ECP\<rparr>)"
    using l by (simp add: w_def esl_control_write_def)
  have cmd: "written_command command w" "known_format et command"
    using l by (simp_all add: written_command_def known_format_def w c ECP_LEN_nibble)
  define s where "s = begin_command w"
  have s: "wf_tag et s" "led_queue s = led_queue t" "led_objs s = led_objs t" "ecp_net_buf s = command"
      "esl_get_abs_time now s = esl_get_abs_time now t" "answers_by s = (ESL_ECP, Notify_null, True)"
      "resp_op (resp s) = OP_BASIC_STATE" "busy s = busy t" "esl_addr s = esl_addr t" for now
    using wf by (simp_all add: s_def w begin_command_def)
      (auto simp: effect_def resp_basic_def led_queue_def esl_get_abs_time_def answers_by_def)
  have head: "command ! 0 = OP_LED_TIMED_CONTROL" "command ! 1 = LOW_BYTE (esl_addr t)" by (simp_all add: c)
  have chk: "check_ecp_esl_id (LOW_BYTE (esl_addr t)) s = (0, s)"
    using b s(8,9) by (simp add: check_ecp_esl_id_def)
  have run: "ecp_command_handler et y w = do {
      u \<leftarrow> ecp_led_timed et y s;
      ecp_response_handler et y (ecp_src u) u }"
    unfolding command_handler_dispatch [OF cmd] s_def [symmetric] head chk
    by (simp add: s(7) ecp_dispatch_def)
  have buf: "ecp_net_buf s = [OP_LED_TIMED_CONTROL, LOW_BYTE (esl_addr t), led, color] @ fp @ [off, on, r0, r1] @ le32 time @ []"
    by (simp add: s(4) c)
  let ?spec = "queue_spec (esl_get_abs_time (in_now y) t) time (unat led)
    (led_command (led_objs t ! unat led) color fp off on r0 r1) (led_queue t)"
  obtain u where u: "ecp_led_timed et y s = Some u" "led_queue u = snd ?spec" "resp u = queue_response (resp_led led) (fst ?spec) s"
    using timed_led_refines [OF e s(1) buf fp i, of y] unfolding s(2,3,5)
    by (auto simp: yields_def case_prod_unfold Let_def)
  have au: "answers_by u = (ESL_ECP, Notify_null, True)" using led_timed_answers_by [OF u(1)] s(6) by simp
  have src: "ecp_src u = ESL_ECP" using au by (simp add: answers_by_def)
  have "led_queue (notified bs u) = led_queue u" "last (trace (notified bs u)) = Gatt_notify Ecp_notify_cb bs" for bs
    by (auto simp: notified_def effect_def led_queue_def)
  then show ?thesis
    unfolding w_def [symmetric] run u(1) using led_answered [OF z y u(3) au] u(2) src
    by (simp add: case_prod_unfold Let_def)
qed

text \<open>
  The LED command that the access point writes for a timed LED is, for the tag that receives it, the command with the same
  LED, colour, pattern, periods, repeat type, repeat duration (below 128) and time.
\<close>

lemma remote_led_command:
  assumes link: "wf_link ea s" "reachable_tag_link ea x c s"
    and lo: "length (flash_pattern lo) = 5" "repeat_type lo = repeat_type lo AND 1" "unat (repeat_duration lo) < 128"
    and tag: "env_ok et" "wf_tag et t" "inp_ok y" "\<not> busy t" "unat led < led_max (cfg et)" "tag_id c s = LOW_BYTE (esl_addr t)"
  shows "yields (bt_esl_c_led_control ea x c led lo True time s) (\<lambda>(r, u). r = 0 \<and>
    (\<exists>command. c_trace u = c_trace s @ [Ap_gatt_write (unat c) (ecp_handle c s) command (\<not> c_write_wo_rsp s)] \<and>
      take 2 command = [OP_LED_TIMED_CONTROL, LOW_BYTE (esl_addr t)] \<and>
      yields (ecp_command_handler et y (snd (esl_control_write et command t))) (\<lambda>v.
        let (a, q) = queue_spec (esl_get_abs_time (in_now y) t) time (unat led)
          (lo\<lparr>lo_led_type := lo_led_type (led_objs t ! unat led), lo_abs_time := lo_abs_time (led_objs t ! unat led)\<rparr>) (led_queue t)
        in led_queue v = q \<and> last (trace v) = Gatt_notify Ecp_notify_cb (led_answer led a))))"
proof -
  obtain r0 r1 where r: "pack_repeat_type_duration (repeat_type lo) (repeat_duration lo) = [r0, r1]"
    by (auto simp: pack_bytes)
  have "(repeat_duration lo AND 0x7F) OR push_bit 8 (drop_bit 7 (repeat_duration lo AND REPEATS_DURATION_MAX)) = repeat_duration lo"
    using unat_unpacked [of "repeat_duration lo"] lo(3) by (simp add: word_unat_eq_iff)
  then have un: "unpack_repeat_type_duration r0 r1 = (repeat_type lo, repeat_duration lo)"
    using r lo(2) unpack_pack_word [of "repeat_type lo" "repeat_duration lo"] by (simp add: pack_bytes)
  define command where "command = [OP_LED_TIMED_CONTROL, tag_id c s] @ led_bytes led lo @ le32 time"
  have c: "command = [OP_LED_TIMED_CONTROL, LOW_BYTE (esl_addr t), led, color_brightness lo] @ flash_pattern lo @
      [bit_off_period lo, bit_on_period lo, r0, r1] @ le32 time"
    by (simp add: command_def led_bytes_def r tag(6))
  have cmd: "led_command (led_objs t ! unat led) (color_brightness lo) (flash_pattern lo) (bit_off_period lo) (bit_on_period lo) r0 r1 =
      lo\<lparr>lo_led_type := lo_led_type (led_objs t ! unat led), lo_abs_time := lo_abs_time (led_objs t ! unat led)\<rparr>"
    by (simp add: led_command_def un)
  have head: "take 2 command = [OP_LED_TIMED_CONTROL, LOW_BYTE (esl_addr t)]" by (simp add: c)
  note written_led_runs [OF tag(1-5) c lo(1), unfolded cmd]
  moreover note led_control_sent [OF link lo(1), where i = led and timed = True and t = time]
  ultimately show ?thesis using head unfolding command_def by (auto elim!: yields_mono)
qed

text \<open>The words of the command line for an LED object; its pattern is typed as a number, the first octet the lowest.\<close>

definition pattern_number :: "u8 list \<Rightarrow> u64" where
  "pattern_number bs = ucast (bs ! 0) OR push_bit 8 (ucast (bs ! 1)) OR push_bit 16 (ucast (bs ! 2)) OR
     push_bit 24 (ucast (bs ! 3)) OR push_bit 32 (ucast (bs ! 4))"

lemma octet_of_pattern:
  fixes a b c d f :: u8
  defines "p \<equiv> ucast a OR push_bit 8 (ucast b) OR push_bit 16 (ucast c) OR push_bit 24 (ucast d) OR push_bit 32 (ucast f) :: u64"
  shows "ucast (p AND 0xFF) = a" "ucast (drop_bit 8 (p AND 0xFF00)) = b" "ucast (drop_bit 16 (p AND 0xFF0000)) = c"
    "ucast (drop_bit 24 (p AND 0xFF000000)) = d" "ucast (drop_bit 32 (p AND 0xFF00000000)) = f"
proof -
  have m: "(0xFF :: u64) = mask 8" "(0xFF00 :: u64) = push_bit 8 (mask 8)" "(0xFF0000 :: u64) = push_bit 16 (mask 8)"
    "(0xFF000000 :: u64) = push_bit 24 (mask 8)" "(0xFF00000000 :: u64) = push_bit 32 (mask 8)"
    by (simp_all add: mask_eq_exp_minus_1 push_bit_eq_mult)
  show "ucast (p AND 0xFF) = a" "ucast (drop_bit 8 (p AND 0xFF00)) = b" "ucast (drop_bit 16 (p AND 0xFF0000)) = c"
    "ucast (drop_bit 24 (p AND 0xFF000000)) = d" "ucast (drop_bit 32 (p AND 0xFF00000000)) = f"
    unfolding m p_def by (rule bit_word_eqI; auto simp: bit_simps dest: bit_imp_le_length)+
qed

lemma pattern_typed: "length bs = 5 \<Longrightarrow> pattern_bytes (pattern_number bs) = bs"
proof -
  assume "length bs = 5"
  then obtain a b c d f where bs: "bs = [a, b, c, d, f]" by (auto simp: length_Suc_conv numeral_eq_Suc)
  have n: "[a, b, c, d, f] ! 1 = b" "[a, b, c, d, f] ! 2 = c" "[a, b, c, d, f] ! 3 = d" "[a, b, c, d, f] ! 4 = f" by simp_all
  show ?thesis unfolding bs pattern_bytes_def pattern_number_def n nth_Cons_0 by (simp only: octet_of_pattern)
qed

definition typed_led :: "u16 \<Rightarrow> u8 \<Rightarrow> led_obj \<Rightarrow> u32 \<Rightarrow> argv" where
  "typed_led addr led lo time = [''led'', typed addr, typed led, typed (color_brightness lo), typed (pattern_number (flash_pattern lo)),
     typed (bit_off_period lo), typed (bit_on_period lo), typed (repeat_type lo), typed (repeat_duration lo), dec_num (unat time)]"

lemma typed_u64: "of_int (c_strtoull 16 (typed (w :: u64))) = w"
proof -
  have "unat w < 2 ^ 64" by (rule less_le_trans [OF unsigned_less]) simp
  then have "c_strtoull 16 (typed w) = int (unat w)" by (rule strtou_hex [OF digits_ok_cases(1)])
  then show ?thesis by simp
qed

lemma typed_time: "of_int (c_strtoul 10 (dec_num (unat (w :: u32)))) = w"
proof -
  have "unat w < 2 ^ 32" by (rule less_le_trans [OF unsigned_less]) simp
  then have "c_strtoul 10 (dec_num (unat w)) = int (unat w)" by (rule strtou_dec)
  then show ?thesis by simp
qed

lemma led_line:
  assumes "has_addr addr c s" "unat c < length (c_gatt s)" "length (flash_pattern lo) = 5"
  shows "cmd_esl_c_led e i (typed_led addr led lo time) s = bt_esl_c_led_control e (sh_inp i) c led lo True time (looked_up c s)"
proof -
  let ?argv = "typed_led addr led lo time"
  have a: "length ?argv = 10" "rd ?argv 4 = Some (typed (pattern_number (flash_pattern lo)))" "rd ?argv 9 = Some (dec_num (unat time))"
    and h: "hex_arg ?argv 1 = Some (c_strtol 16 (typed addr))" "hex_arg ?argv 2 = Some (c_strtol 16 (typed led))"
      "hex_arg ?argv 3 = Some (c_strtol 16 (typed (color_brightness lo)))" "hex_arg ?argv 5 = Some (c_strtol 16 (typed (bit_off_period lo)))"
      "hex_arg ?argv 6 = Some (c_strtol 16 (typed (bit_on_period lo)))" "hex_arg ?argv 7 = Some (c_strtol 16 (typed (repeat_type lo)))"
      "hex_arg ?argv 8 = Some (c_strtol 16 (typed (repeat_duration lo)))"
    by (simp_all add: typed_led_def hex_arg_def rd_def)
  show ?thesis
    by (simp add: cmd_esl_c_led_def with_args_def a h typed_u8 typed_u16 typed_u64 typed_time finds_tag [OF assms(1,2)] del: One_nat_def)
      (simp add: bt_esl_c_led_control_def pattern_typed [OF assms(3)])
qed

subsection \<open>Packets in hexadecimal\<close>

definition hex_of :: "u8 list \<Rightarrow> string" where
  "hex_of bs = concat (map (\<lambda>b. format_hex lower_digits 2 (unat b)) bs)"

text \<open>The documentation of \<open>hex2bin\<close>: octets in hexadecimal that fit the buffer are written to it, and their number is returned.\<close>

definition hex2bin_ok :: "(string \<Rightarrow> nat \<Rightarrow> u8 list \<times> nat) \<Rightarrow> bool" where
  "hex2bin_ok f \<longleftrightarrow> (\<forall>bs n. length bs \<le> n \<longrightarrow> f (hex_of bs) n = (bs, length bs))"

text \<open>A function that does this.\<close>

fun read_hex :: "string \<Rightarrow> u8 list option" where
  "read_hex [] = Some []"
| "read_hex [c] = None"
| "read_hex (a # b # cs) = do {
     x \<leftarrow> hex_value a;
     y \<leftarrow> hex_value b;
     r \<leftarrow> read_hex cs;
     Some (of_nat (x * 16 + y) # r) }"

definition hex2bin_ref :: "string \<Rightarrow> nat \<Rightarrow> u8 list \<times> nat" where
  "hex2bin_ref t n = (case read_hex t of Some bs \<Rightarrow> (if length bs \<le> n then (bs, length bs) else ([], 0)) | None \<Rightarrow> ([], 0))"

lemma format_octet: "n < 256 \<Longrightarrow> format_hex lower_digits 2 n = [lower_digits ! (n div 16), lower_digits ! (n mod 16)]"
proof -
  assume n: "n < 256"
  have "n div 16 < 16" using n by (simp add: less_mult_imp_div_less)
  then show ?thesis
    by (cases "n < 16") (simp_all add: format_hex_def hex_num.simps [of _ n] hex_num.simps [of _ "n div 16"] lower_digits_def)
qed

lemma read_hex_of: "read_hex (hex_of bs) = Some bs"
proof (induction bs)
  case (Cons b bs)
  have "unat b < 256" by (rule less_le_trans [OF unsigned_less]) simp
  moreover from this have "unat b div 16 < 16" by (simp add: less_mult_imp_div_less)
  moreover have "hex_of (b # bs) = format_hex lower_digits 2 (unat b) @ hex_of bs" by (simp add: hex_of_def)
  ultimately show ?case using Cons by (simp add: format_octet hex_value_digit div_mult_mod_eq del: of_nat_add of_nat_mult)
qed (simp add: hex_of_def)

lemma hex2bin_ref_ok: "hex2bin_ok hex2bin_ref"
  by (simp add: hex2bin_ok_def hex2bin_ref_def read_hex_of)

lemma packet_typed:
  assumes "hex2bin_ok (sh_hex2bin i)" "length bs \<le> 47"
  shows "yields (packet_arg i g (hex_of bs)) (\<lambda>(data, n). n = Suc (length bs) \<and> (\<exists>rest. data = (g # bs) @ rest))"
proof -
  define d where "d = take ESL_SYNC_PKT_PAYLOAD_MAX_LEN (sh_junk i @ replicate ESL_SYNC_PKT_PAYLOAD_MAX_LEN 0)"
  have l: "length d = 48" by (simp add: d_def)
  then obtain a ds where d: "d = a # ds" "length ds = 47" by (cases d) auto
  have h: "sh_hex2bin i (hex_of bs) 48 = (bs, length bs)" using assms by (simp add: hex2bin_ok_def)
  show ?thesis
    unfolding packet_arg_def d_def [symmetric]
    using assms(2) by (simp add: d upd_def h wr_mem_def wp)
qed

lemma packet_too_long:
  assumes "hex2bin_ok (sh_hex2bin i)" "length bs = 48"
  shows "packet_arg i g (hex_of bs) = None"
proof -
  define d where "d = take ESL_SYNC_PKT_PAYLOAD_MAX_LEN (sh_junk i @ replicate ESL_SYNC_PKT_PAYLOAD_MAX_LEN 0)"
  have l: "length d = 48" by (simp add: d_def)
  have h: "sh_hex2bin i (hex_of bs) 48 = (bs, length bs)" using assms by (simp add: hex2bin_ok_def)
  show ?thesis
    unfolding packet_arg_def d_def [symmetric]
    using assms(2) by (simp add: l upd_def h wr_mem_def)
qed

lemma push_prefix:
  assumes "length d < 256"
  shows "esl_c_push_sync_buf e x (d @ rest) (of_nat (length d)) g s = esl_c_push_sync_buf e x d (of_nat (length d)) g s"
proof -
  have "unat (of_nat (length d) :: u8) = length d" using assms by (simp add: unat_of_nat)
  then show ?thesis by (simp add: esl_c_push_sync_buf_def esl_compose_ad_data_def rd_mem_def cong del: if_weak_cong)
qed

lemma push_line:
  assumes hex: "hex2bin_ok (sh_hex2bin i)"
  shows "length bs \<le> 47 \<Longrightarrow> cmd_pawr_push_sync_buf e i [name, typed g, hex_of bs] s =
      map_option (\<lambda>(err, t). (0, t)) (esl_c_push_sync_buf e (sh_inp i) (g # bs) (of_nat (length (g # bs))) g s)"
    and "length bs = 48 \<Longrightarrow> cmd_pawr_push_sync_buf e i [name, typed g, hex_of bs] s = None"
proof -
  have a: "hex_arg [name, typed g, hex_of bs] 1 = Some (c_strtol 16 (typed g))" "rd [name, typed g, hex_of bs] 2 = Some (hex_of bs)"
    by (simp_all add: hex_arg_def rd_def)
  show "cmd_pawr_push_sync_buf e i [name, typed g, hex_of bs] s =
      map_option (\<lambda>(err, t). (0, t)) (esl_c_push_sync_buf e (sh_inp i) (g # bs) (of_nat (length (g # bs))) g s)" if n: "length bs \<le> 47"
  proof -
    obtain rest where p: "packet_arg i g (hex_of bs) = Some ((g # bs) @ rest, length (g # bs))"
      using packet_typed [OF hex n, of g] by (auto elim!: yieldsE)
    have "length (g # bs) < 256" using n by simp
    note push_prefix [OF this, of e "sh_inp i" rest g s]
    then show ?thesis
      by (simp add: cmd_pawr_push_sync_buf_def with_args_def a typed_u8 p del: One_nat_def)
  qed
  show "cmd_pawr_push_sync_buf e i [name, typed g, hex_of bs] s = None" if "length bs = 48"
    by (simp add: cmd_pawr_push_sync_buf_def with_args_def a typed_u8 packet_too_long [OF hex that] del: One_nat_def)
qed

end
