(* ===== verification/Console_Properties.thy ===== *)
theory Console_Properties
  imports Ap_Console Ap_Example Esl_Shell
begin

unbundle bit_operations_syntax

text \<open>
  The properties of the two consoles: the lines typed at the access point for a LED and for a packet, a line for a tag that
  is not known, and the lines typed at the tag; each with a line it applies to.
\<close>

text \<open>The console of the access point of the example, with a function that reads hexadecimal texts.\<close>

definition ex_shell :: ap_shell where
  "ex_shell = \<lparr>sh_inp = ex_ap_inp, sh_hex2bin = hex2bin_ref, sh_addr_from_str = (\<lambda>_ _. (- EINVAL, ex_peer)), sh_junk = [],
     sh_junk_addr = ex_peer, sh_code = 0, sh_scan_code = 0, sh_conn = ex_link, sh_answers = (\<lambda>_. []), sh_links = (\<lambda>_. None),
     sh_past = (\<lambda>_. 0), sh_ots = undefined, sh_keys_len = 96, sh_load_order = []\<rparr>"

lemma ex_shell_fields [simp]: "sh_inp ex_shell = ex_ap_inp" "sh_hex2bin ex_shell = hex2bin_ref"
  by (simp_all add: ex_shell_def)

subsection \<open>Commands for a tag\<close>

text \<open>C21: a line with the LED command reaches the tag that has the typed address and is connected: one command
  is written, with the op code of the timed LED command and the identifier of that address, and the control point of the tag, which
  is not busy, queues exactly the LED object of the line (colour, pattern, periods, repeat type and time as they were typed, for a
  repeat type of one bit and a duration below 128) and notifies the answer of its queue.\<close>
theorem console_led:
  assumes link: "wf_link ea s" "reachable_tag_link ea (sh_inp i) c s" "has_addr addr c s"
    and lo: "length (flash_pattern lo) = 5" "repeat_type lo = repeat_type lo AND 1" "unat (repeat_duration lo) < 128"
    and tag: "env_ok et" "wf_tag et t" "inp_ok y" "\<not> busy t" "unat led < led_max (cfg et)" "esl_addr t = BIT_UNSET addr ESL_ADDR_RFU_BIT"
  shows "yields (cmd_esl_c_led ea i (typed_led addr led lo time) s) (\<lambda>(r, u). r = 0 \<and>
    (\<exists>command. c_trace u = c_trace s @ [Ap_gatt_write (unat c) (ecp_handle c s) command (\<not> c_write_wo_rsp s)] \<and>
      take 2 command = [OP_LED_TIMED_CONTROL, LOW_BYTE addr] \<and>
      yields (ecp_command_handler et y (snd (esl_control_write et command t))) (\<lambda>v.
        let (a, q) = queue_spec (esl_get_abs_time (in_now y) t) time (unat led)
          (lo\<lparr>lo_led_type := lo_led_type (led_objs t ! unat led), lo_abs_time := lo_abs_time (led_objs t ! unat led)\<rparr>) (led_queue t)
        in led_queue v = q \<and> last (trace v) = Gatt_notify Ecp_notify_cb (led_answer led a))))"
proof -
  have c: "unat c < length (c_gatt s)" using link(1,2) by (simp add: wf_link_def reachable_tag_link_def)
  note up = looked_up_link [OF link(1,2)]
  have id: "tag_id c (looked_up c s) = LOW_BYTE (esl_addr t)"
    using tag_has_id [OF link(3)] by (simp add: up(5) tag(6) low_no_rfu)
  show ?thesis
    using remote_led_command [OF up(1,2) lo tag(1-5) id, of time]
    unfolding led_line [OF link(3) c lo(1)] up(3,4,6) tag(6) low_no_rfu .
qed

definition ex_led :: led_obj where
  "ex_led = \<lparr>lo_led_type = 0, color_brightness = 0x0C, flash_pattern = [1, 2, 3, 4, 5], bit_off_period = 10, bit_on_period = 20,
     repeat_type = 1, repeat_duration = 100, lo_abs_time = 0\<rparr>"

definition ex_addressed :: ap where
  "ex_addressed = ex_linked\<lparr>c_gatt := (c_gatt ex_linked)[0 := (c_gatt ex_linked ! 0)
     \<lparr>g_device := (g_device (c_gatt ex_linked ! 0))\<lparr>dev_esl_addr := 5\<rparr>\<rparr>]\<rparr>"

text \<open>The tag 5 of group 0, which has no time yet: the time is too far away.\<close>
theorem console_led_witness:
  "yields (cmd_esl_c_led ex_ap_env ex_shell (typed_led 5 1 ex_led 0xFFFFFFFF) ex_addressed) (\<lambda>(r, u). r = 0 \<and>
    (\<exists>command. c_trace u = [Ap_gatt_write 0 (ecp_handle 0 ex_addressed) command (\<not> c_write_wo_rsp ex_addressed)] \<and>
      yields (ecp_command_handler ex_env ex_inp (snd (esl_control_write ex_env command (ex_tag\<lparr>esl_addr := 5\<rparr>)))) (\<lambda>v.
        last (trace v) = Gatt_notify Ecp_notify_cb [OP_ERR, ERR_IMPLAUSIBLE_ABS])))"
proof -
  have t: "c_trace ex_addressed = []" by (simp add: ex_addressed_def ex_linked_def ex_ap_def static_ap_def)
  have i: "unat (1 :: u8) < led_max (cfg ex_env)" by (simp add: ex_cfg_def)
  have a: "has_addr 5 0 ex_addressed"
    by (simp add: has_addr_def conn_addr_def ex_addressed_def ex_linked_def zero_internal_def zero_device_def)
  have wf: "wf_link ex_ap_env ex_addressed"
    using ex_linked_wf(1) by (auto simp: wf_link_def ex_addressed_def ex_linked_def zero_internal_def zero_device_def)
  have ok: "reachable_tag_link ex_ap_env (sh_inp ex_shell) 0 ex_addressed"
    using ex_linked_ok by (simp add: reachable_tag_link_def ap_connected_def ex_addressed_def)
  have tag: "wf_tag ex_env (ex_tag\<lparr>esl_addr := 5\<rparr>)" using ex_wf by simp
  have tag': "\<not> busy (ex_tag\<lparr>esl_addr := 5\<rparr>)" "esl_addr (ex_tag\<lparr>esl_addr := 5\<rparr>) = BIT_UNSET 5 ESL_ADDR_RFU_BIT"
    by (simp_all add: ex_tag_def static_tag_def BIT_UNSET_def)
  have q: "fst (queue_spec (esl_get_abs_time (in_now ex_inp) (ex_tag\<lparr>esl_addr := 5\<rparr>)) 0xFFFFFFFF k v r) = Implausible" for k v r
    by (simp add: queue_spec_def esl_get_abs_time_def ex_inp_def ex_tag_def static_tag_def)
  show ?thesis
    by (rule yields_mono [OF console_led [OF wf ok a _ _ _ ex_env_ok tag ex_inp_ok tag'(1) i tag'(2)]])
      (auto simp: ex_led_def t case_prod_unfold q led_answer_def Let_def elim!: yields_mono)
qed

text \<open>C38: a line for an address that no connection has is refused with nothing sent, for a ping and both resets. The
  command to unassociate takes the failed search, -1, for connection 255: it is refused only by the service, after it
  has noted 255 as the connection to be unassociated.\<close>
theorem unknown_tag:
  assumes "\<forall>j < length (c_gatt s). conn_addr s j \<noteq> BIT_UNSET addr ESL_ADDR_RFU_BIT" "max_conn (acfg e) \<le> 255"
  shows "\<exists>t. c_trace t = c_trace s \<and> c_pending_unassociated t = c_pending_unassociated s \<and>
    cmd_esl_c_pingop e i [name, typed addr] s = Some (- 8, t) \<and>
    cmd_esl_c_service_reset e i [name, typed addr] s = Some (- 8, t) \<and>
    cmd_esl_c_factory_reset e i [name, typed addr] s = Some (- 8, t) \<and>
    cmd_esl_c_unassociated e i [name, typed addr] s = Some (- EINVAL, t\<lparr>c_pending_unassociated := 255\<rparr>)"
proof -
  have a: "hex_arg [name, typed addr] 1 = Some (c_strtol 16 (typed addr))" by (simp add: hex_arg_def rd_def)
  note none = finds_no_tag [OF assms(1)]
  have minus: "sint (- 1 :: u16) = - 1" by simp
  have cut: "unat (ucast (- 1 :: u16) :: u8) = 255" "uint (ucast (- 1 :: u16) :: u8) = 255" by code_simp+
  show ?thesis
    using assms(2)
    by (intro exI [of _ "s\<lparr>c_gatt := map rfu_cleared (c_gatt s)\<rparr>"])
      (simp add: cmd_esl_c_pingop_def cmd_esl_c_service_reset_def cmd_esl_c_factory_reset_def cmd_esl_c_unassociated_def
        with_args_def for_tag_arg_def for_esl_addr_def a typed_u16 none bt_c_esl_unassociate_def bt_esl_c_ecp_command_send_def
        minus cut del: One_nat_def)
qed

theorem unknown_tag_witness:
  "\<exists>t. cmd_esl_c_unassociated ex_ap_env ex_shell [''unassociated'', typed (0x0207 :: u16)] ex_linked = Some (- EINVAL, t) \<and>
     c_pending_unassociated t = 255"
proof -
  have "\<forall>j < length (c_gatt ex_linked). conn_addr ex_linked j \<noteq> BIT_UNSET 0x0207 ESL_ADDR_RFU_BIT"
    by (simp add: conn_addr_def ex_linked_def zero_internal_def zero_device_def less_Suc_eq BIT_UNSET_def)
  from unknown_tag [OF this, of ex_ap_env ex_shell "''unassociated''"] show ?thesis by auto
qed

subsection \<open>Packets\<close>

text \<open>C36: up to 47 octets typed in hexadecimal are queued for the group of the line as they are, behind the group, when the
  group takes a packet, and nothing changes when it is busy; the state stays in order. For 48 octets, which the console
  allows \<open>hex2bin\<close> to write, the array overflows.\<close>
theorem console_packet:
  assumes "ap_platform e" "sync_inv e s" "unat g < max_group (acfg e)" "hex2bin_ok (sh_hex2bin i)" "length (ai_rand (sh_inp i)) = 5"
  shows "(length bs \<le> 47 \<longrightarrow> yields (cmd_pawr_push_sync_buf e i [name, typed g, hex_of bs] s) (\<lambda>(r, t). r = 0 \<and> sync_inv e t \<and>
      (if sb_status (c_sync_buf s ! unat g) \<in> {SYNC_EMPTY, SYNC_PUSHED}
       then queued e (c_ap_key s) (g # bs) (c_sync_buf t ! unat g) else t = s))) \<and>
    (length bs = 48 \<longrightarrow> cmd_pawr_push_sync_buf e i [name, typed g, hex_of bs] s = None)"
proof (intro conjI impI)
  show "cmd_pawr_push_sync_buf e i [name, typed g, hex_of bs] s = None" if "length bs = 48"
    by (rule push_line(2) [OF assms(4) that])
  assume n: "length bs \<le> 47"
  let ?d = "g # bs"
  let ?m = "esl_c_push_sync_buf e (sh_inp i) ?d (of_nat (length ?d)) g s"
  have z: "zephyr_ok (azep e)" and wf: "wf_sync e s" using assms(1,2) by (simp_all add: ap_platform_def sync_inv_def)
  have len: "unat g < length (c_sync_buf s)" using assms(3) wf_sync_buf(2) [OF wf] by simp
  have "yields (perform e (Ev_host_packet (sh_inp i) ?d g) s) (sync_inv e)"
    by (rule event_ok [OF assms(1,2)]) (use assms(3,5) n in simp_all)
  then have inv: "yields ?m (\<lambda>(r, t). sync_inv e t)" by (auto simp: yields_def)
  have "yields ?m (\<lambda>(r, t). if sb_status (c_sync_buf s ! unat g) \<in> {SYNC_EMPTY, SYNC_PUSHED}
      then queued e (c_ap_key s) ?d (c_sync_buf t ! unat g) else t = s)"
  proof (cases "sb_status (c_sync_buf s ! unat g) \<in> {SYNC_EMPTY, SYNC_PUSHED}")
    case True
    have "yields ?m (\<lambda>(r, t). queued e (c_ap_key s) ?d (c_sync_buf t ! unat g))"
      using n by (intro yields_mono [OF push_sync_buf_queues [OF z wf assms(3) True _ _ assms(5)]]) auto
    with True show ?thesis by simp
  next
    case False
    then have "?m = Some (- EBUSY, s)" using len by (simp add: esl_c_push_sync_buf_def Let_def)
    with False show ?thesis by simp
  qed
  from yields_conj [OF inv this]
  show "yields (cmd_pawr_push_sync_buf e i [name, typed g, hex_of bs] s) (\<lambda>(r, t). r = 0 \<and> sync_inv e t \<and>
      (if sb_status (c_sync_buf s ! unat g) \<in> {SYNC_EMPTY, SYNC_PUSHED}
       then queued e (c_ap_key s) (g # bs) (c_sync_buf t ! unat g) else t = s))"
    unfolding push_line(1) [OF assms(4) n] by (auto simp: yields_def)
qed

theorem console_packet_witness:
  "yields (cmd_pawr_push_sync_buf ex_ap_env ex_shell [''push'', typed (1 :: u8), hex_of [0, 5]] ex_ap)
     (\<lambda>(r, t). queued ex_ap_env (c_ap_key ex_ap) [1, 0, 5] (c_sync_buf t ! 1)) \<and>
   cmd_pawr_push_sync_buf ex_ap_env ex_shell [''push'', typed (1 :: u8), hex_of (replicate 48 0)] ex_ap = None"
proof -
  have h: "hex2bin_ok (sh_hex2bin ex_shell)" "length (ai_rand (sh_inp ex_shell)) = 5" "unat (1 :: u8) < max_group (acfg ex_ap_env)"
    by (simp_all add: hex2bin_ref_ok ex_ap_inp_def)
  have b: "sb_status (c_sync_buf ex_ap ! unat (1 :: u8)) \<in> {SYNC_EMPTY, SYNC_PUSHED}"
    by (simp add: ex_ap_buffers zero_sync_buf_def)
  note app = console_packet [OF ex_ap_platform ex_ap_inv h(3,1,2), of _ "''push''"]
  have "yields (cmd_pawr_push_sync_buf ex_ap_env ex_shell [''push'', typed (1 :: u8), hex_of [0, 5]] ex_ap)
     (\<lambda>(r, t). queued ex_ap_env (c_ap_key ex_ap) [1, 0, 5] (c_sync_buf t ! 1))"
    using app [of "[0, 5]"] b by (auto elim!: yields_mono)
  moreover have "cmd_pawr_push_sync_buf ex_ap_env ex_shell [''push'', typed (1 :: u8), hex_of (replicate 48 0)] ex_ap = None"
    using app [of "replicate 48 0"] by simp
  ultimately show ?thesis by blast
qed

subsection \<open>The console of the tag\<close>

text \<open>C37: a line typed at the tag that names an existing state, bit, LED, sensor, image or connection leaves a
  well-formed tag, whatever else it says, and so does a line of no command. Of the commands for states, bits, LEDs and
  connections every other line is undefined: nothing is checked.\<close>
theorem tag_console:
  assumes "env_ok e" "wf_tag e s" "inp_ok x" "argv \<noteq> []"
  shows "(line_in_range e nvs argv s \<longrightarrow> yields (run_line e x nvs argv s) (\<lambda>(r, t). wf_tag e t)) \<and>
    (\<not> line_in_range e nvs argv s \<and> hd argv \<in> {''state'', ''set_bas'', ''configuring_bit'', ''led'', ''accept'', ''security''} \<longrightarrow>
      run_line e x nvs argv s = None)"
proof (intro conjI impI)
  show "yields (run_line e x nvs argv s) (\<lambda>(r, t). wf_tag e t)" if "line_in_range e nvs argv s"
    by (rule line_yields [OF assms(1-3) that])
  show "run_line e x nvs argv s = None"
    if r: "\<not> line_in_range e nvs argv s \<and> hd argv \<in> {''state'', ''set_bas'', ''configuring_bit'', ''led'', ''accept'', ''security''}"
  proof -
    have n: "argv ! 0 = hd argv" using assms(4) by (simp add: hd_conv_nth)
    have run: "run_line e x nvs argv s = (case map_of (esl_commands e x nvs) (hd argv) of None \<Rightarrow> Some (- 1, s) | Some f \<Rightarrow> f argv s)"
      using assms(4) by (cases argv) (auto simp: run_line_def)
    show ?thesis
      using r unfolding run line_in_range_def Let_def n
      by (auto simp: esl_commands_def not_less stopped_commands [OF assms(2)])
  qed
qed

theorem tag_console_witness:
  "yields (run_line ex_env ex_inp True [''led'', ''1'', ''C'', ''0''] ex_tag) (\<lambda>(r, t). wf_tag ex_env t) \<and>
   run_line ex_env ex_inp True [''led'', ''7'', ''C'', ''0''] ex_tag = None"
proof -
  have n: "c_strtoul 10 ''0'' = 0" "c_strtoul 16 ''1'' = 1" "c_strtoul 16 ''7'' = 7"
    by (simp_all add: c_strtou_def read_number_def is_space_def digit_value_def hex_value_def lower_digits_def upper_digits_def upt_rec)
  have r: "line_in_range ex_env True [''led'', ''1'', ''C'', ''0''] ex_tag" "\<not> line_in_range ex_env True [''led'', ''7'', ''C'', ''0''] ex_tag"
    by (simp_all add: line_in_range_def Let_def u8_arg_def n ex_cfg_def)
  show ?thesis
    using r tag_console [OF ex_env_ok ex_wf ex_inp_ok, of "[''led'', ''1'', ''C'', ''0'']" True]
      tag_console [OF ex_env_ok ex_wf ex_inp_ok, of "[''led'', ''7'', ''C'', ''0'']" True] by simp
qed

end
