(* ===== verification/Spec2Isabelle.thy ===== *)
theory Spec2Isabelle
  imports Tag_Properties Hw_Files Display_Properties Ap_Properties Console_Properties
begin

text \<open>
  \<^bold>\<open>Electronic shelf labels over Bluetooth.\<close> This development models the two roles of the Electronic Shelf
  Label service of this repository: the \<^emph>\<open>tag\<close> (\<open>src/service/esl.c\<close>), a label with LEDs, displays and
  sensors, and the \<^emph>\<open>access point\<close> (\<open>src/service/esl_client.c\<close>), which provisions tags over a connection and
  then commands them by periodic advertising with responses (PAwR). The parts that both use are in
  \<open>src/service/esl_common.c\<close>; the samples under \<open>src/samples/\<close> supply hardware, images and buttons.

  \<^bold>\<open>Conventions.\<close> Integers have the width of their C type (\<open>u8\<close>, \<open>u16\<close>, \<open>u32\<close>, \<open>u64\<close> are words). The state of each
  role is one record that holds its structure and the static variables of its files, together with a
  trace of the calls that leave the code. A function returns the new state, with its result, in an
  \<open>option\<close>: \<open>None\<close> stands for undefined behaviour (an access outside an array, a null pointer) and for a failed
  assertion of the platform. Hence \<open>yields m P\<close> (in Prelude) says that a call is defined and its result
  satisfies \<open>P\<close>. Zephyr, the file system, the crypto library and Kconfig are not in the repository: they are
  parameters, the record \<open>zephyr\<close> of Zephyr_Api with the documented laws \<open>zephyr_ok\<close>, the record \<open>fs_api\<close> of Fs_Api with
  \<open>fs_ok\<close>, the configurations \<open>config\<close> and \<open>ap_config\<close>. Results of single calls that may differ from time to time
  come in with the input of a handler (\<open>inp\<close>, \<open>ap_inp\<close>). The reference platforms \<open>zephyr_ref\<close> and \<open>file_map\<close>
  show that the laws can hold.

  \<^bold>\<open>Shared.\<close> Prelude: the computations, memory and loops. Zephyr_Api, Fs_Api: the platform. Esl_Types: the structures,
  enumerations, op codes and lengths of \<open>esl.h\<close>, \<open>esl_common.h\<close> and \<open>esl_internal.h\<close>. Text_Format: C's \<open>%x\<close>.
  Shell_Text: the arguments of a console, \<open>strtol\<close> and its kind. Esl_Common: \<open>esl_common.c\<close>.

  \<^bold>\<open>The tag.\<close>
  \<^item> Esl_Tag_State: the record \<open>tag\<close> (\<open>struct bt_esls\<close>), the callbacks \<open>env\<close>, well-formed states \<open>wf_tag\<close>.
  \<^item> Esl_Dwork: the work items of LEDs and displays, the absolute time, the basic state. A pattern is shown bit by bit; lemmas
    follow a round and count the rounds.
  \<^item> Esl_Sm: the association states, \<open>bt_esl_state_transition\<close>, timeouts, advertising, unassociation.
  \<^item> Esl_Settings: \<open>esl_settings.c\<close>. Esl_Ots: the object transfer callbacks. Esl_Gatt: the characteristics.
    Esl_Init: \<open>bt_esl_init\<close> from zeroed memory.
  \<^item> Esl_Ecp: \<open>ecp_command_handler\<close> with one definition per op code, and the responses. Esl_Pawr: a packet from
    reception to response. Esl_Bytes: which bytes a command reads, complete in memory or not.
  \<^item> Esl_Tag_System: all callbacks, work items, packets of any content and lines of the console as one step relation,
    and its invariant. The addresses typed at the console are its parameter \<open>A\<close>, as the code stores them unchecked.
  \<^item> Hw_Sensor, Hw_Vs, Hw_Storage, Hw_Files, Tag_Sample: the peripheral sample, that is its sensors, vendor commands, the
    storages in NVS, LittleFS and memory, the button and the provisioning it starts with. The locale
    \<open>image_store\<close> is what the service expects of a storage; NVS and LittleFS are interpretations.
  \<^item> Hw_Paint, Hw_Fonts: the drawing library \<open>paint.c\<close> over a frame buffer, a whole picture or a band of it, and its five fonts,
    table by table. Hw_Display, Hw_Panel: the display drivers and \<open>led.c\<close>; a panel is the trace of its calls. Hw_Picture,
    Hw_Glyphs: what drawing a point, a rectangle, a character and a text does to the picture. Hw_Shown, Hw_Chunks: what a
    driver writes to its panel. Display_Properties: the properties of the displays.
  \<^item> Esl_Shell: the commands of the console, \<open>esl_shell.c\<close>.
  \<^item> Tag_Behaviour, Tag_Provisioning, Tag_Upload: the lemmas about whole commands, provisioning and images.
    Tag_Example: a concrete tag. Tag_Properties: the properties.

  \<^bold>\<open>The access point.\<close>
  \<^item> Ap_State: the record \<open>ap\<close> (\<open>struct bt_esl_client\<close>), well-formed buffers \<open>wf_sync\<close>. Ap_Sync: the buffers of the groups:
    the host queues a packet, the controller's request takes it, responses come back to their slots and are
    decrypted. Ap_Dummy: \<open>esl_dummy_cmd.c\<close>.
  \<^item> Ap_Ecp: commands and notifications over a connection. Ap_Reads: reading a tag's information, in pieces. Ap_Config: giving
    a tag its address and keys, sending images, transferring the sync.
  \<^item> Ap_Conn, Ap_Auto: scan, connections and the thread that connects automatically, as a step relation.
    Ap_Disc: discovery. Ap_Init: settings and start.
  \<^item> Ap_Storage: \<open>esl_client_tag_storage.c\<close>. Ap_Main: the central sample.
  \<^item> Ap_Link, Ap_Associate: the two roles together, on the air and over a connection. Ap_Traffic: everything that
    happens to the buffers, as events in any order, and exactly when one is undefined. Ap_Example: a concrete access point. Ap_Properties: the properties.
  \<^item> Ap_Shell: the commands of the console, \<open>esl_client_shell.c\<close>. Ap_Console: what a typed line reaches.
    Console_Properties: the properties of both consoles.

  \<^bold>\<open>What is shown.\<close> For the tag: every reachable state is well formed, and in it every written command and every
  complete command of a packet runs without undefined behaviour, a truncated one exactly if memory holds the bytes it
  reads; provisioning in any order, and across a reset; the timed commands refine a queue with one
  place per LED or display; what LEDs show and how often; responses and their capacity; images from the
  transfer to the display; packets that do not decrypt change nothing, foreign ones only renew the timeout and, in the own
  group, empty the response buffer. For the access point: whatever the order of events, the next one leaves well-formed
  buffers, or it is one of the events that are stated to be undefined; requests, addresses, connections, reads and the database of tags
  do what they are for. For both: a command is executed by the tag it is meant for and its answer is
  what the host reads, and a configured tag has exactly what the access point remembers. For the displays: a panel
  written band by band shows what a whole frame would, filled rectangles are their points, printable texts stay within the
  fonts and images arrive whole. For the consoles: a typed LED command is what the tag with the typed address queues and answers, a typed packet what the group
  sends, and the tag's own console keeps it well formed as long as a line names what exists. Other properties state
  what the code does where it goes wrong: overlong packets and durations, empty patterns, late and
  one-byte responses, the keys of the first start.

  \<^bold>\<open>Loops.\<close> Loops over arrays are \<open>for_loop\<close> with the bound of the code; the loops over a packet's TLVs and over sensor
  bytes recurse on what is left. The loops over a directory are \<open>partial_function\<close>s, as the directory is
  the file system's: they end when the directory does (\<open>remove_dir_ends\<close>, \<open>load_all_listing\<close>). So are the loops that draw
  (\<open>hline_bytes\<close> and its like, \<open>fill_rows\<close>, \<open>paint_bands\<close>), that write an image in chunks (\<open>draw_chunks\<close>) and that dump one on
  the console (\<open>dump_chunks\<close>), whose counters may wrap; the lemmas about them prove that they end. The offers of the sync
  transfer have the code's own bound. No fuel is used.

  \<^bold>\<open>Not modelled.\<close> What is printed on a console, the commands that only print and the export of Bluetooth keys. NFC
  (\<open>esl_nfc_impl.c\<close>), which composes records with a library, and \<open>dummy_led.c\<close>, which only prints. The font of the character
  frame buffer (\<open>cfbv_1016.h\<close>), which Zephyr draws with, and the vendor's drivers of the panels. Of \<open>esl_client.c\<close>: the
  constants of the advertising set, the printing of lists and flags, the object selection callbacks and the LED of the
  access point. Concurrency: handlers run one at a time, as they do on the system work queue; only the thread that
  connects automatically is split into its visits.
\<close>

end
